(* ===== verification/Prelude.thy ===== *)
theory Prelude
  imports Main "HOL-Library.AList"
begin

text \<open>
  The vocabulary every component of the development shares: the outcome of an awaited call
  (a value or the exception that rejects it), row tables keyed by a primary key with the sums
  that the invariants are stated with, and the string operations of the source language.

  \<^item> \<open>'a outcome\<close> is what an \<open>async\<close> function of the source settles to.
  \<^item> \<open>'e table\<close> is the content of one database table: rows with their primary key.
  \<^item> \<open>to_lower\<close> is the string method of the same name,
    on text whose characters are single code units; the others are in \<open>JsText\<close>.
\<close>

named_theorems outcome_simps
named_theorems table_simps
named_theorems text_simps

section \<open>Outcomes of awaited calls\<close>

text \<open>
  An exception of the source: an error object raised by a database call, a \<open>TypeError\<close> the
  language itself raises, or a \<open>throw new Error(message)\<close> of the program.
\<close>

datatype failure =
    StoreFailure string
  | TypeError string
  | ThrownError string

type_synonym 'a outcome = "failure + 'a"

text \<open>Awaiting one call and going on with its value; an exception skips the rest.\<close>

definition and_then :: "'a outcome \<Rightarrow> ('a \<Rightarrow> 'b outcome) \<Rightarrow> 'b outcome" where
  "and_then m f = (case m of Inl e \<Rightarrow> Inl e | Inr x \<Rightarrow> f x)"

lemma and_then_Inr [simp, outcome_simps]: "and_then (Inr x) f = f x"
  by (simp add: and_then_def)

lemma and_then_Inl [simp, outcome_simps]: "and_then (Inl e) f = Inl e"
  by (simp add: and_then_def)

lemma and_then_eq_Inr: "and_then m f = Inr y \<longleftrightarrow> (\<exists>x. m = Inr x \<and> f x = Inr y)"
  by (cases m) auto

lemma and_then_eq_Inl:
  "and_then m f = Inl e \<longleftrightarrow> m = Inl e \<or> (\<exists>x. m = Inr x \<and> f x = Inl e)"
  by (cases m) auto

lemma and_then_assoc: "and_then (and_then m f) g = and_then m (\<lambda>x. and_then (f x) g)"
  by (cases m) auto

lemma and_then_cong [fundef_cong]:
  "m = m' \<Longrightarrow> (\<And>x. m' = Inr x \<Longrightarrow> f x = f' x) \<Longrightarrow> and_then m f = and_then m' f'"
  by (cases m') auto

text \<open>A loop whose body awaits: it stops at the first exception, as the source's does.\<close>

fun fold_outcome :: "('x \<Rightarrow> 's \<Rightarrow> 's outcome) \<Rightarrow> 'x list \<Rightarrow> 's \<Rightarrow> 's outcome" where
  "fold_outcome f [] s = Inr s"
| "fold_outcome f (x # xs) s = and_then (f x s) (\<lambda>s'. fold_outcome f xs s')"

text \<open>\<open>Promise.all\<close>: all values, or the first exception in the order of the list.\<close>

fun map_outcome :: "('a \<Rightarrow> 'b outcome) \<Rightarrow> 'a list \<Rightarrow> 'b list outcome" where
  "map_outcome f [] = Inr []"
| "map_outcome f (x # xs) = and_then (f x) (\<lambda>y. and_then (map_outcome f xs) (\<lambda>ys. Inr (y # ys)))"

lemma map_outcome_Inr: "(\<And>x. x \<in> set xs \<Longrightarrow> f x = Inr (g x)) \<Longrightarrow> map_outcome f xs = Inr (map g xs)"
  by (induction xs) auto

lemma map_outcome_length: "map_outcome f xs = Inr ys \<Longrightarrow> length ys = length xs"
  by (induction xs arbitrary: ys) (auto simp: and_then_eq_Inr)

lemma fold_outcome_append:
  "fold_outcome f (xs @ ys) s = and_then (fold_outcome f xs s) (fold_outcome f ys)"
  by (induction xs arbitrary: s) (simp_all add: and_then_assoc cong: and_then_cong)

lemma fold_outcome_invariant:
  assumes "fold_outcome f xs s = Inr s'"
    and "I s"
    and "\<And>x s s'. x \<in> set xs \<Longrightarrow> I s \<Longrightarrow> f x s = Inr s' \<Longrightarrow> I s'"
  shows "I s'"
  using assms
proof (induction xs arbitrary: s)
  case Nil
  then show ?case by simp
next
  case (Cons x xs)
  from Cons.prems(1) obtain s1 where s1: "f x s = Inr s1" "fold_outcome f xs s1 = Inr s'"
    by (auto simp: and_then_eq_Inr)
  from Cons.prems(2,3) s1(1) have "I s1" by (metis list.set_intros(1))
  from Cons.IH [OF s1(2) this] Cons.prems(3) show ?case by (metis list.set_intros(2))
qed

section \<open>Row tables\<close>

text \<open>
  The rows of one table, each with its primary key. The order of the list carries no meaning;
  \<open>keyed idf t\<close> says that the keys are distinct and that each row is stored under its own id,
  which is what the primary key constraint of the schema gives.
\<close>

type_synonym 'e table = "(string \<times> 'e) list"

definition keyed :: "('e \<Rightarrow> string) \<Rightarrow> 'e table \<Rightarrow> bool" where
  "keyed idf t \<longleftrightarrow> distinct (map fst t) \<and> (\<forall>(k, e) \<in> set t. k = idf e)"

definition rows :: "'e table \<Rightarrow> 'e set" where
  "rows t = snd ` set t"

definition table_sum :: "('e \<Rightarrow> int) \<Rightarrow> 'e table \<Rightarrow> int" where
  "table_sum f t = sum_list (map (f \<circ> snd) t)"

definition table_count :: "('e \<Rightarrow> bool) \<Rightarrow> 'e table \<Rightarrow> int" where
  "table_count P t = table_sum (\<lambda>e. if P e then 1 else 0) t"

lemma keyed_Nil [simp]: "keyed idf []"
  by (simp add: keyed_def)

lemma keyed_distinct: "keyed idf t \<Longrightarrow> distinct (map fst t)"
  by (simp add: keyed_def)

lemma keyed_lookup: "keyed idf t \<Longrightarrow> map_of t k = Some e \<Longrightarrow> idf e = k"
  by (auto simp: keyed_def dest: map_of_SomeD)

lemma keyed_rows: "keyed idf t \<Longrightarrow> e \<in> rows t \<longleftrightarrow> map_of t (idf e) = Some e"
  by (force simp: keyed_def rows_def dest: map_of_SomeD intro: map_of_is_SomeI)

lemma rows_lookup: "map_of t k = Some e \<Longrightarrow> e \<in> rows t"
  by (force simp: rows_def dest: map_of_SomeD)

lemma set_update_rows:
  "distinct (map fst t) \<Longrightarrow> set (AList.update k e t) = insert (k, e) {p \<in> set t. fst p \<noteq> k}"
proof (induction t)
  case Nil
  then show ?case by simp
next
  case (Cons p t)
  obtain k' e' where p: "p = (k', e')" by (cases p)
  show ?case
  proof (cases "k' = k")
    case True
    with Cons.prems p have "\<forall>q \<in> set t. fst q \<noteq> k" by force
    with True p show ?thesis by auto
  next
    case False
    with Cons p show ?thesis by auto
  qed
qed

lemma set_delete_rows: "set (AList.delete k t) = {p \<in> set t. fst p \<noteq> k}"
  by (auto simp: AList.delete_eq)

lemma keyed_update: "keyed idf t \<Longrightarrow> idf e = k \<Longrightarrow> keyed idf (AList.update k e t)"
  by (auto simp: keyed_def set_update_rows AList.distinct_update)

lemma keyed_delete: "keyed idf t \<Longrightarrow> keyed idf (AList.delete k t)"
  using AList.distinct_delete [of t k] by (auto simp: keyed_def set_delete_rows)

lemma rows_update:
  "keyed idf t \<Longrightarrow> idf e = k \<Longrightarrow> rows (AList.update k e t) = insert e {x \<in> rows t. idf x \<noteq> k}"
  by (force simp: rows_def keyed_def set_update_rows)

lemma rows_delete: "keyed idf t \<Longrightarrow> rows (AList.delete k t) = {x \<in> rows t. idf x \<noteq> k}"
  by (force simp: rows_def keyed_def set_delete_rows)

lemma table_sum_Nil [simp]: "table_sum f [] = 0"
  by (simp add: table_sum_def)

lemma table_sum_Cons [simp]: "table_sum f ((k, e) # t) = f e + table_sum f t"
  by (simp add: table_sum_def)

text \<open>
  The two equations the ledger proofs rest on: what an upsert and a removal change in a sum
  over the rows is the contribution of the row under that key.
\<close>

definition row_value :: "('e \<Rightarrow> int) \<Rightarrow> 'e table \<Rightarrow> string \<Rightarrow> int" where
  "row_value f t k = (case map_of t k of None \<Rightarrow> 0 | Some e \<Rightarrow> f e)"

lemma row_value_None [simp]: "map_of t k = None \<Longrightarrow> row_value f t k = 0"
  by (simp add: row_value_def)

lemma row_value_Some [simp]: "map_of t k = Some e \<Longrightarrow> row_value f t k = f e"
  by (simp add: row_value_def)

lemma table_sum_update [table_simps]:
  "table_sum f (AList.update k e t) = table_sum f t - row_value f t k + f e"
  by (induction t) (auto simp: row_value_def)

lemma table_sum_delete [table_simps]:
  "distinct (map fst t) \<Longrightarrow> table_sum f (AList.delete k t) = table_sum f t - row_value f t k"
proof (induction t)
  case Nil
  then show ?case by (simp add: row_value_def)
next
  case (Cons p t)
  obtain k' e' where p: "p = (k', e')" by (cases p)
  show ?case
  proof (cases "k' = k")
    case True
    with Cons.prems p have "k \<notin> fst ` set t" by simp
    with True p show ?thesis by (simp add: row_value_def)
  next
    case False
    with Cons p show ?thesis by (simp add: row_value_def)
  qed
qed

lemma table_sum_zero: "(\<And>e. e \<in> rows t \<Longrightarrow> f e = 0) \<Longrightarrow> table_sum f t = 0"
  by (induction t) (auto simp: rows_def)

lemma table_sum_nonneg: "(\<And>e. e \<in> rows t \<Longrightarrow> 0 \<le> f e) \<Longrightarrow> 0 \<le> table_sum f t"
  by (induction t) (auto simp: rows_def)

lemma table_sum_cong: "(\<And>e. e \<in> rows t \<Longrightarrow> f e = g e) \<Longrightarrow> table_sum f t = table_sum g t"
  by (induction t) (auto simp: rows_def)

lemma table_sum_add: "table_sum (\<lambda>e. f e + g e) t = table_sum f t + table_sum g t"
  by (induction t) auto

lemma table_sum_length: "table_sum (\<lambda>_. 1) t = int (length t)"
  by (induction t) auto

lemma table_count_pos: "e \<in> rows t \<Longrightarrow> P e \<Longrightarrow> 1 \<le> table_count P t"
proof (induction t)
  case Nil
  then show ?case by (simp add: rows_def)
next
  case (Cons p t)
  have "0 \<le> table_count P t"
    unfolding table_count_def by (rule table_sum_nonneg) simp
  with Cons show ?case by (cases p) (auto simp: rows_def table_count_def)
qed

lemma length_update:
  "length (AList.update k e t) = (if map_of t k = None then Suc (length t) else length t)"
  by (induction t) auto

section \<open>Text\<close>

text \<open>
  \<open>String.prototype.toLowerCase\<close> on ASCII text. The texts the sources lower-case are hex
  addresses, hashes, standards and modes, which are ASCII.
\<close>

definition lower_char :: "char \<Rightarrow> char" where
  "lower_char c =
     (let n = (of_char c :: nat) in if 65 \<le> n \<and> n \<le> 90 then char_of (n + 32) else c)"

definition to_lower :: "string \<Rightarrow> string" where
  "to_lower s = map lower_char s"

lemma of_char_lower_char:
  "(of_char (lower_char c) :: nat) =
     (let n = of_char c in if 65 \<le> n \<and> n \<le> 90 then n + 32 else n)"
  by (simp add: lower_char_def Let_def)

lemma lower_char_idem [simp]: "lower_char (lower_char c) = lower_char c"
  by (simp add: lower_char_def Let_def)

lemma to_lower_idem [simp, text_simps]: "to_lower (to_lower s) = to_lower s"
  by (simp add: to_lower_def comp_def)

lemma to_lower_Nil [simp, text_simps]: "to_lower [] = []"
  by (simp add: to_lower_def)

lemma to_lower_append [text_simps]: "to_lower (s @ t) = to_lower s @ to_lower t"
  by (simp add: to_lower_def)

lemma lower_char_underscore: "lower_char c = CHR ''_'' \<longleftrightarrow> c = CHR ''_''"
proof
  assume "lower_char c = CHR ''_''"
  then have "(of_char (lower_char c) :: nat) = 95" by simp
  then have "(of_char c :: nat) = of_char (CHR ''_'')"
    by (simp add: of_char_lower_char Let_def split: if_splits)
  then show "c = CHR ''_''" by (simp only: of_char_eq_iff)
next
  show "c = CHR ''_'' \<Longrightarrow> lower_char c = CHR ''_''" by (simp add: lower_char_def)
qed

lemma to_lower_no_underscore [simp]:
  "CHR ''_'' \<in> set (to_lower s) \<longleftrightarrow> CHR ''_'' \<in> set s"
  by (induction s) (auto simp: to_lower_def lower_char_underscore eq_commute)

text \<open>
  What the event decoders return for an address: lower-case text without an underscore.
\<close>

definition plain_address :: "string \<Rightarrow> bool" where
  "plain_address s \<longleftrightarrow> to_lower s = s \<and> CHR ''_'' \<notin> set s"

lemma plain_address_lower [simp]: "plain_address s \<Longrightarrow> to_lower s = s"
  by (simp add: plain_address_def)

lemma plain_address_underscore: "plain_address s \<Longrightarrow> CHR ''_'' \<notin> set s"
  by (simp add: plain_address_def)

text \<open>A key of two addresses joined by an underscore determines both.\<close>

lemma joined_key_inj:
  assumes "f1 @ ''_'' @ t1 = f2 @ ''_'' @ t2"
    and "CHR ''_'' \<notin> set f1" and "CHR ''_'' \<notin> set f2"
  shows "f1 = f2 \<and> t1 = t2"
  using assms
proof (induction f1 arbitrary: f2)
  case Nil
  then show ?case by (cases f2) auto
next
  case (Cons c f1)
  then show ?case by (cases f2) auto
qed

end
