(* ===== verification/Schema.thy ===== *)
theory Schema
  imports Prelude
begin

text \<open>
  The indexer's data: the entities of \<open>packages/indexer/schema.graphql\<close>, one record each, the
  tables that hold them, the logs and contracts the handlers are driven by (\<open>src/types.ts\<close>),
  and the database interface.

  The database client (\<open>ctx.store\<close> of the squid SDK) is not part of the repository. Its four
  calls \<open>findOne\<close>, \<open>insert\<close>, \<open>save\<close> and \<open>remove\<close> are parameters, the fields of a
  \<open>repo\<close> record for each entity, and the locale \<open>repository\<close> states what the handlers rely on:
  \<open>findOne\<close> returns some row that satisfies the \<open>where\<close> clause and nothing only when there is
  none; \<open>insert\<close> adds a row and rejects a duplicate primary key; \<open>save\<close> inserts or overwrites;
  \<open>remove\<close> deletes by id. Which of several matching rows \<open>findOne\<close> picks is left open.

  A BigInt or integer column is an \<open>int\<close>, a nullable column an \<open>option\<close>. The field
  \<open>voters\<close> of a proposal is derived from the vote table and has no column.
\<close>

section \<open>Entities\<close>

record entity =
  blockNumber :: int
  blockTimestamp :: int
  transactionHash :: string

record DelegateChanged = entity +
  dc_id :: string
  dc_delegator :: string
  dc_fromDelegate :: string
  dc_toDelegate :: string

record DelegateVotesChanged = entity +
  dvc_id :: string
  dvc_delegate :: string
  dvc_previousVotes :: int
  dvc_newVotes :: int

record TokenTransfer = entity +
  tt_id :: string
  tt_from :: string
  tt_to :: string
  tt_value :: int
  tt_standard :: string

record ProposalCanceled = entity +
  pc_id :: string
  pc_proposalId :: string

record ProposalCreated = entity +
  pcr_id :: string
  pcr_proposalId :: string
  pcr_proposer :: string
  pcr_targets :: "string list"
  pcr_values :: "string list"
  pcr_signatures :: "string list"
  pcr_calldatas :: "string list"
  pcr_voteStart :: int
  pcr_voteEnd :: int
  pcr_description :: string

record ProposalExecuted = entity +
  pe_id :: string
  pe_proposalId :: string

record ProposalQueued = entity +
  pq_id :: string
  pq_proposalId :: string
  pq_etaSeconds :: int

record VoteCast = entity +
  vc_id :: string
  vc_voter :: string
  vc_proposalId :: string
  vc_support :: int
  vc_weight :: int
  vc_reason :: string

record VoteCastWithParams = entity +
  vcp_id :: string
  vcp_voter :: string
  vcp_proposalId :: string
  vcp_support :: int
  vcp_weight :: int
  vcp_reason :: string
  vcp_params :: string

record VoteCastGroup = entity +
  vcg_id :: string
  vcg_proposal :: "string option"
  vcg_type :: string
  vcg_voter :: string
  vcg_refProposalId :: string
  vcg_support :: int
  vcg_weight :: int
  vcg_reason :: string
  vcg_params :: "string option"

record Proposal = entity +
  pr_id :: string
  pr_proposalId :: string
  pr_proposer :: string
  pr_targets :: "string list"
  pr_values :: "string list"
  pr_signatures :: "string list"
  pr_calldatas :: "string list"
  pr_voteStart :: int
  pr_voteEnd :: int
  pr_description :: string
  pr_metricsVotesCount :: "int option"
  pr_metricsVotesWithParamsCount :: "int option"
  pr_metricsVotesWithoutParamsCount :: "int option"
  pr_metricsVotesWeightForSum :: "int option"
  pr_metricsVotesWeightAgainstSum :: "int option"
  pr_metricsVotesWeightAbstainSum :: "int option"
  pr_title :: string
  pr_voteStartTimestamp :: int
  pr_voteEndTimestamp :: int
  pr_blockInterval :: "string option"
  pr_clockMode :: string
  pr_quorum :: int
  pr_decimals :: int

record DataMetric =
  dm_id :: string
  dm_proposalsCount :: "int option"
  dm_votesCount :: "int option"
  dm_votesWithParamsCount :: "int option"
  dm_votesWithoutParamsCount :: "int option"
  dm_votesWeightForSum :: "int option"
  dm_votesWeightAgainstSum :: "int option"
  dm_votesWeightAbstainSum :: "int option"
  dm_powerSum :: "int option"
  dm_memberCount :: "int option"

record DelegateRolling = entity +
  dr_id :: string
  dr_delegator :: string
  dr_fromDelegate :: string
  dr_toDelegate :: string
  dr_fromPreviousVotes :: "int option"
  dr_fromNewVotes :: "int option"
  dr_toPreviousVotes :: "int option"
  dr_toNewVotes :: "int option"

record Delegate = entity +
  d_id :: string
  d_fromDelegate :: string
  d_toDelegate :: string
  d_power :: int

record Contributor = entity +
  co_id :: string
  co_lastVoteBlockNumber :: "int option"
  co_lastVoteTimestamp :: "int option"
  co_power :: int
  co_delegatesCountAll :: int
  co_delegatesCountEffective :: int

record DelegateMapping = entity +
  map_id :: string
  map_from :: string
  map_to :: string
  map_power :: int

text \<open>
  \<open>new DataMetric({ id: MetricsId.global })\<close>: every other column unset. \<open>nullish\<close> is the
  operator \<open>??\<close> on such a column.
\<close>

definition global_id :: string where
  "global_id = ''global''"

definition new_DataMetric :: DataMetric where
  "new_DataMetric = \<lparr>
     dm_id = global_id, dm_proposalsCount = None, dm_votesCount = None,
     dm_votesWithParamsCount = None, dm_votesWithoutParamsCount = None,
     dm_votesWeightForSum = None, dm_votesWeightAgainstSum = None,
     dm_votesWeightAbstainSum = None, dm_powerSum = None, dm_memberCount = None \<rparr>"

definition nullish :: "'a option \<Rightarrow> 'a \<Rightarrow> 'a" where
  "nullish v d = (case v of None \<Rightarrow> d | Some x \<Rightarrow> x)"

lemma nullish_simps [simp]: "nullish None d = d" "nullish (Some x) d = x"
  by (simp_all add: nullish_def)

lemma new_DataMetric_id [simp]: "dm_id new_DataMetric = global_id"
  by (simp add: new_DataMetric_def)

section \<open>The database\<close>

text \<open>
  One field per table, and the list of requests sent to the external profile service
  (\<open>sync.user.power\<close>), in the order they were sent.
\<close>

record sync_request =
  sr_daoCode :: string
  sr_address :: string
  sr_power :: int

record world =
  delegateChangeds :: "DelegateChanged table"
  delegateVotesChangeds :: "DelegateVotesChanged table"
  tokenTransfers :: "TokenTransfer table"
  proposalCanceleds :: "ProposalCanceled table"
  proposalCreateds :: "ProposalCreated table"
  proposalExecuteds :: "ProposalExecuted table"
  proposalQueueds :: "ProposalQueued table"
  voteCasts :: "VoteCast table"
  voteCastWithParamss :: "VoteCastWithParams table"
  voteCastGroups :: "VoteCastGroup table"
  proposals :: "Proposal table"
  dataMetrics :: "DataMetric table"
  delegateRollings :: "DelegateRolling table"
  delegates :: "Delegate table"
  contributors :: "Contributor table"
  delegateMappings :: "DelegateMapping table"
  sync_requests :: "sync_request list"

definition empty_world :: world where
  "empty_world = \<lparr>
     delegateChangeds = [], delegateVotesChangeds = [], tokenTransfers = [],
     proposalCanceleds = [], proposalCreateds = [], proposalExecuteds = [], proposalQueueds = [],
     voteCasts = [], voteCastWithParamss = [], voteCastGroups = [], proposals = [],
     dataMetrics = [], delegateRollings = [], delegates = [], contributors = [],
     delegateMappings = [], sync_requests = [] \<rparr>"

definition keyed_world :: "world \<Rightarrow> bool" where
  "keyed_world w \<longleftrightarrow>
     keyed dc_id (delegateChangeds w) \<and> keyed dvc_id (delegateVotesChangeds w) \<and>
     keyed tt_id (tokenTransfers w) \<and> keyed pc_id (proposalCanceleds w) \<and>
     keyed pcr_id (proposalCreateds w) \<and> keyed pe_id (proposalExecuteds w) \<and>
     keyed pq_id (proposalQueueds w) \<and> keyed vc_id (voteCasts w) \<and>
     keyed vcp_id (voteCastWithParamss w) \<and> keyed vcg_id (voteCastGroups w) \<and>
     keyed pr_id (proposals w) \<and> keyed dm_id (dataMetrics w) \<and>
     keyed dr_id (delegateRollings w) \<and> keyed d_id (delegates w) \<and>
     keyed co_id (contributors w) \<and> keyed map_id (delegateMappings w)"

lemma empty_world_tables [simp]:
  "delegateChangeds empty_world = []"
  "delegateVotesChangeds empty_world = []"
  "tokenTransfers empty_world = []"
  "proposalCanceleds empty_world = []"
  "proposalCreateds empty_world = []"
  "proposalExecuteds empty_world = []"
  "proposalQueueds empty_world = []"
  "voteCasts empty_world = []"
  "voteCastWithParamss empty_world = []"
  "voteCastGroups empty_world = []"
  "proposals empty_world = []"
  "dataMetrics empty_world = []"
  "delegateRollings empty_world = []"
  "delegates empty_world = []"
  "contributors empty_world = []"
  "delegateMappings empty_world = []"
  "sync_requests empty_world = []"
  by (simp_all add: empty_world_def)

lemma keyed_empty_world: "keyed_world empty_world"
  by (simp add: keyed_world_def empty_world_def)

section \<open>The database client as a parameter\<close>

record 'e repo =
  findOne :: "('e \<Rightarrow> bool) \<Rightarrow> 'e table \<Rightarrow> 'e option outcome"
  insert_row :: "'e \<Rightarrow> 'e table \<Rightarrow> 'e table outcome"
  save_row :: "'e \<Rightarrow> 'e table \<Rightarrow> 'e table outcome"
  remove_row :: "string \<Rightarrow> 'e table \<Rightarrow> 'e table outcome"

locale repository =
  fixes idf :: "'e \<Rightarrow> string"
    and repo :: "'e repo"
  assumes find_law: "keyed idf t \<Longrightarrow>
      \<exists>r. findOne repo P t = Inr r \<and>
        (case r of None \<Rightarrow> (\<forall>e \<in> rows t. \<not> P e) | Some e \<Rightarrow> e \<in> rows t \<and> P e)"
    and insert_law: "keyed idf t \<Longrightarrow> map_of t (idf e) = None \<Longrightarrow>
      insert_row repo e t = Inr (AList.update (idf e) e t)"
    and insert_duplicate: "keyed idf t \<Longrightarrow> map_of t (idf e) \<noteq> None \<Longrightarrow>
      \<exists>m. insert_row repo e t = Inl (StoreFailure m)"
    and save_law: "keyed idf t \<Longrightarrow> save_row repo e t = Inr (AList.update (idf e) e t)"
    and remove_law: "keyed idf t \<Longrightarrow> remove_row repo k t = Inr (AList.delete k t)"
begin

lemma find_unique:
  assumes "keyed idf t" and "\<And>e. e \<in> rows t \<Longrightarrow> P e \<longleftrightarrow> idf e = k"
  shows "findOne repo P t = Inr (map_of t k)"
proof -
  obtain r where r: "findOne repo P t = Inr r"
    "case r of None \<Rightarrow> (\<forall>e \<in> rows t. \<not> P e) | Some e \<Rightarrow> e \<in> rows t \<and> P e"
    using find_law [OF assms(1), of P] by blast
  show ?thesis
  proof (cases r)
    case None
    have "map_of t k = None"
    proof (rule ccontr)
      assume "map_of t k \<noteq> None"
      then obtain e where e: "map_of t k = Some e" by blast
      from e have "e \<in> rows t" by (rule rows_lookup)
      moreover from assms(1) e have "idf e = k" by (rule keyed_lookup)
      ultimately show False using None r(2) assms(2) by auto
    qed
    with None r(1) show ?thesis by simp
  next
    case (Some e)
    with r(2) assms have "map_of t k = Some e" by (auto simp: keyed_rows)
    with Some r(1) show ?thesis by simp
  qed
qed

lemma find_by_id: "keyed idf t \<Longrightarrow> findOne repo (\<lambda>e. idf e = k) t = Inr (map_of t k)"
  by (rule find_unique) simp_all

lemma insert_inv:
  assumes "keyed idf t" and "insert_row repo e t = Inr t'"
  shows "map_of t (idf e) = None \<and> t' = AList.update (idf e) e t"
  using insert_law [OF assms(1), of e] insert_duplicate [OF assms(1), of e] assms(2)
  by (cases "map_of t (idf e)") auto

lemmas store_laws = find_by_id insert_law save_law remove_law

end

lemma found_in_list: "find P xs = Some x \<Longrightarrow> x \<in> set xs \<and> P x"
  by (induction xs) (auto split: if_splits)

text \<open>
  The tables as the migration creates them, with the primary key on \<open>id\<close>: the reference client
  on which the laws are checked, and the instance the witnesses evaluate.
\<close>

definition table_repo :: "('e \<Rightarrow> string) \<Rightarrow> 'e repo" where
  "table_repo idf = \<lparr>
     findOne = (\<lambda>P t. Inr (find P (map snd t))),
     insert_row = (\<lambda>e t. if map_of t (idf e) = None then Inr (AList.update (idf e) e t)
                         else Inl (StoreFailure ''duplicate key value violates unique constraint'')),
     save_row = (\<lambda>e t. Inr (AList.update (idf e) e t)),
     remove_row = (\<lambda>k t. Inr (AList.delete k t)) \<rparr>"

interpretation table_client: repository idf "table_repo idf" for idf
proof
  fix P and t :: "'a table"
  show "\<exists>r. findOne (table_repo idf) P t = Inr r \<and>
        (case r of None \<Rightarrow> (\<forall>e \<in> rows t. \<not> P e) | Some e \<Rightarrow> e \<in> rows t \<and> P e)"
    using find_None_iff [of P "map snd t"]
    by (auto simp: table_repo_def rows_def dest: found_in_list split: option.splits)
qed (auto simp: table_repo_def)

record store =
  delegateChangedRepo :: "DelegateChanged repo"
  delegateVotesChangedRepo :: "DelegateVotesChanged repo"
  tokenTransferRepo :: "TokenTransfer repo"
  proposalCanceledRepo :: "ProposalCanceled repo"
  proposalCreatedRepo :: "ProposalCreated repo"
  proposalExecutedRepo :: "ProposalExecuted repo"
  proposalQueuedRepo :: "ProposalQueued repo"
  voteCastRepo :: "VoteCast repo"
  voteCastWithParamsRepo :: "VoteCastWithParams repo"
  voteCastGroupRepo :: "VoteCastGroup repo"
  proposalRepo :: "Proposal repo"
  dataMetricRepo :: "DataMetric repo"
  delegateRollingRepo :: "DelegateRolling repo"
  delegateRepo :: "Delegate repo"
  contributorRepo :: "Contributor repo"
  delegateMappingRepo :: "DelegateMapping repo"

definition store_ok :: "store \<Rightarrow> bool" where
  "store_ok st \<longleftrightarrow>
     repository dc_id (delegateChangedRepo st) \<and>
     repository dvc_id (delegateVotesChangedRepo st) \<and>
     repository tt_id (tokenTransferRepo st) \<and> repository pc_id (proposalCanceledRepo st) \<and>
     repository pcr_id (proposalCreatedRepo st) \<and> repository pe_id (proposalExecutedRepo st) \<and>
     repository pq_id (proposalQueuedRepo st) \<and> repository vc_id (voteCastRepo st) \<and>
     repository vcp_id (voteCastWithParamsRepo st) \<and>
     repository vcg_id (voteCastGroupRepo st) \<and> repository pr_id (proposalRepo st) \<and>
     repository dm_id (dataMetricRepo st) \<and> repository dr_id (delegateRollingRepo st) \<and>
     repository d_id (delegateRepo st) \<and> repository co_id (contributorRepo st) \<and>
     repository map_id (delegateMappingRepo st)"

definition table_store :: store where
  "table_store = \<lparr>
     delegateChangedRepo = table_repo dc_id, delegateVotesChangedRepo = table_repo dvc_id,
     tokenTransferRepo = table_repo tt_id, proposalCanceledRepo = table_repo pc_id,
     proposalCreatedRepo = table_repo pcr_id, proposalExecutedRepo = table_repo pe_id,
     proposalQueuedRepo = table_repo pq_id, voteCastRepo = table_repo vc_id,
     voteCastWithParamsRepo = table_repo vcp_id, voteCastGroupRepo = table_repo vcg_id,
     proposalRepo = table_repo pr_id, dataMetricRepo = table_repo dm_id,
     delegateRollingRepo = table_repo dr_id, delegateRepo = table_repo d_id,
     contributorRepo = table_repo co_id, delegateMappingRepo = table_repo map_id \<rparr>"

lemma table_store_ok [simp]: "store_ok table_store"
  by (simp add: store_ok_def table_store_def table_client.repository_axioms)

text \<open>
  The laws of \<open>store_ok\<close>, read off for each table: with them the simplifier runs a handler.
\<close>

lemma store_ok_repositories [simp]:
  assumes "store_ok st"
  shows "repository dc_id (delegateChangedRepo st)"
    and "repository dvc_id (delegateVotesChangedRepo st)"
    and "repository tt_id (tokenTransferRepo st)"
    and "repository pc_id (proposalCanceledRepo st)"
    and "repository pcr_id (proposalCreatedRepo st)"
    and "repository pe_id (proposalExecutedRepo st)"
    and "repository pq_id (proposalQueuedRepo st)"
    and "repository vc_id (voteCastRepo st)"
    and "repository vcp_id (voteCastWithParamsRepo st)"
    and "repository vcg_id (voteCastGroupRepo st)"
    and "repository pr_id (proposalRepo st)"
    and "repository dm_id (dataMetricRepo st)"
    and "repository dr_id (delegateRollingRepo st)"
    and "repository d_id (delegateRepo st)"
    and "repository co_id (contributorRepo st)"
    and "repository map_id (delegateMappingRepo st)"
  using assms by (simp_all add: store_ok_def)

lemma insert_rules:
  assumes "store_ok st"
  shows "keyed dc_id t1 \<Longrightarrow> map_of t1 (dc_id e1) = None \<Longrightarrow>
      insert_row (delegateChangedRepo st) e1 t1 = Inr (AList.update (dc_id e1) e1 t1)"
    and "keyed dvc_id t2 \<Longrightarrow> map_of t2 (dvc_id e2) = None \<Longrightarrow>
      insert_row (delegateVotesChangedRepo st) e2 t2 = Inr (AList.update (dvc_id e2) e2 t2)"
    and "keyed tt_id t3 \<Longrightarrow> map_of t3 (tt_id e3) = None \<Longrightarrow>
      insert_row (tokenTransferRepo st) e3 t3 = Inr (AList.update (tt_id e3) e3 t3)"
    and "keyed pc_id t4 \<Longrightarrow> map_of t4 (pc_id e4) = None \<Longrightarrow>
      insert_row (proposalCanceledRepo st) e4 t4 = Inr (AList.update (pc_id e4) e4 t4)"
    and "keyed pcr_id t5 \<Longrightarrow> map_of t5 (pcr_id e5) = None \<Longrightarrow>
      insert_row (proposalCreatedRepo st) e5 t5 = Inr (AList.update (pcr_id e5) e5 t5)"
    and "keyed pe_id t6 \<Longrightarrow> map_of t6 (pe_id e6) = None \<Longrightarrow>
      insert_row (proposalExecutedRepo st) e6 t6 = Inr (AList.update (pe_id e6) e6 t6)"
    and "keyed pq_id t7 \<Longrightarrow> map_of t7 (pq_id e7) = None \<Longrightarrow>
      insert_row (proposalQueuedRepo st) e7 t7 = Inr (AList.update (pq_id e7) e7 t7)"
    and "keyed vc_id t8 \<Longrightarrow> map_of t8 (vc_id e8) = None \<Longrightarrow>
      insert_row (voteCastRepo st) e8 t8 = Inr (AList.update (vc_id e8) e8 t8)"
    and "keyed vcp_id t9 \<Longrightarrow> map_of t9 (vcp_id e9) = None \<Longrightarrow>
      insert_row (voteCastWithParamsRepo st) e9 t9 = Inr (AList.update (vcp_id e9) e9 t9)"
    and "keyed vcg_id t10 \<Longrightarrow> map_of t10 (vcg_id e10) = None \<Longrightarrow>
      insert_row (voteCastGroupRepo st) e10 t10 = Inr (AList.update (vcg_id e10) e10 t10)"
    and "keyed pr_id t11 \<Longrightarrow> map_of t11 (pr_id e11) = None \<Longrightarrow>
      insert_row (proposalRepo st) e11 t11 = Inr (AList.update (pr_id e11) e11 t11)"
    and "keyed dm_id t12 \<Longrightarrow> map_of t12 (dm_id e12) = None \<Longrightarrow>
      insert_row (dataMetricRepo st) e12 t12 = Inr (AList.update (dm_id e12) e12 t12)"
    and "keyed dr_id t13 \<Longrightarrow> map_of t13 (dr_id e13) = None \<Longrightarrow>
      insert_row (delegateRollingRepo st) e13 t13 = Inr (AList.update (dr_id e13) e13 t13)"
    and "keyed d_id t14 \<Longrightarrow> map_of t14 (d_id e14) = None \<Longrightarrow>
      insert_row (delegateRepo st) e14 t14 = Inr (AList.update (d_id e14) e14 t14)"
    and "keyed co_id t15 \<Longrightarrow> map_of t15 (co_id e15) = None \<Longrightarrow>
      insert_row (contributorRepo st) e15 t15 = Inr (AList.update (co_id e15) e15 t15)"
    and "keyed map_id t16 \<Longrightarrow> map_of t16 (map_id e16) = None \<Longrightarrow>
      insert_row (delegateMappingRepo st) e16 t16 = Inr (AList.update (map_id e16) e16 t16)"
  by (simp_all add:
      repository.insert_law [OF store_ok_repositories(1) [OF assms]]
      repository.insert_law [OF store_ok_repositories(2) [OF assms]]
      repository.insert_law [OF store_ok_repositories(3) [OF assms]]
      repository.insert_law [OF store_ok_repositories(4) [OF assms]]
      repository.insert_law [OF store_ok_repositories(5) [OF assms]]
      repository.insert_law [OF store_ok_repositories(6) [OF assms]]
      repository.insert_law [OF store_ok_repositories(7) [OF assms]]
      repository.insert_law [OF store_ok_repositories(8) [OF assms]]
      repository.insert_law [OF store_ok_repositories(9) [OF assms]]
      repository.insert_law [OF store_ok_repositories(10) [OF assms]]
      repository.insert_law [OF store_ok_repositories(11) [OF assms]]
      repository.insert_law [OF store_ok_repositories(12) [OF assms]]
      repository.insert_law [OF store_ok_repositories(13) [OF assms]]
      repository.insert_law [OF store_ok_repositories(14) [OF assms]]
      repository.insert_law [OF store_ok_repositories(15) [OF assms]]
      repository.insert_law [OF store_ok_repositories(16) [OF assms]])

lemma save_rules:
  assumes "store_ok st"
  shows "keyed pr_id t17 \<Longrightarrow>
      save_row (proposalRepo st) e17 t17 = Inr (AList.update (pr_id e17) e17 t17)"
    and "keyed dm_id t18 \<Longrightarrow>
      save_row (dataMetricRepo st) e18 t18 = Inr (AList.update (dm_id e18) e18 t18)"
    and "keyed dr_id t19 \<Longrightarrow>
      save_row (delegateRollingRepo st) e19 t19 = Inr (AList.update (dr_id e19) e19 t19)"
    and "keyed d_id t20 \<Longrightarrow>
      save_row (delegateRepo st) e20 t20 = Inr (AList.update (d_id e20) e20 t20)"
    and "keyed co_id t21 \<Longrightarrow>
      save_row (contributorRepo st) e21 t21 = Inr (AList.update (co_id e21) e21 t21)"
    and "keyed map_id t22 \<Longrightarrow>
      save_row (delegateMappingRepo st) e22 t22 = Inr (AList.update (map_id e22) e22 t22)"
  by (simp_all add:
      repository.save_law [OF store_ok_repositories(11) [OF assms]]
      repository.save_law [OF store_ok_repositories(12) [OF assms]]
      repository.save_law [OF store_ok_repositories(13) [OF assms]]
      repository.save_law [OF store_ok_repositories(14) [OF assms]]
      repository.save_law [OF store_ok_repositories(15) [OF assms]]
      repository.save_law [OF store_ok_repositories(16) [OF assms]])

lemma remove_rules:
  assumes "store_ok st"
  shows "keyed d_id t23 \<Longrightarrow>
      remove_row (delegateRepo st) k t23 = Inr (AList.delete k t23)"
    and "keyed map_id t24 \<Longrightarrow>
      remove_row (delegateMappingRepo st) k t24 = Inr (AList.delete k t24)"
  by (simp_all add:
      repository.remove_law [OF store_ok_repositories(14) [OF assms]]
      repository.remove_law [OF store_ok_repositories(16) [OF assms]])

lemma find_rules:
  assumes "store_ok st"
  shows "keyed pr_id t25 \<Longrightarrow>
      findOne (proposalRepo st) (\<lambda>e25. pr_id e25 = k) t25 = Inr (map_of t25 k)"
    and "keyed dm_id t26 \<Longrightarrow>
      findOne (dataMetricRepo st) (\<lambda>e26. dm_id e26 = k) t26 = Inr (map_of t26 k)"
    and "keyed dr_id t27 \<Longrightarrow>
      findOne (delegateRollingRepo st) (\<lambda>e27. dr_id e27 = k) t27 = Inr (map_of t27 k)"
    and "keyed d_id t28 \<Longrightarrow>
      findOne (delegateRepo st) (\<lambda>e28. d_id e28 = k) t28 = Inr (map_of t28 k)"
    and "keyed co_id t29 \<Longrightarrow>
      findOne (contributorRepo st) (\<lambda>e29. co_id e29 = k) t29 = Inr (map_of t29 k)"
    and "keyed map_id t30 \<Longrightarrow>
      findOne (delegateMappingRepo st) (\<lambda>e30. map_id e30 = k) t30 = Inr (map_of t30 k)"
  by (simp_all add:
      repository.find_by_id [OF store_ok_repositories(11) [OF assms]]
      repository.find_by_id [OF store_ok_repositories(12) [OF assms]]
      repository.find_by_id [OF store_ok_repositories(13) [OF assms]]
      repository.find_by_id [OF store_ok_repositories(14) [OF assms]]
      repository.find_by_id [OF store_ok_repositories(15) [OF assms]]
      repository.find_by_id [OF store_ok_repositories(16) [OF assms]])

lemmas store_rules = insert_rules save_rules remove_rules find_rules

section \<open>The calls of the handlers on the store\<close>

text \<open>
  \<open>ctx.store.insert(entity)\<close>, \<open>save\<close> and \<open>remove\<close> on each table: the client's answer becomes the
  new content of that table, and an exception is passed on.
\<close>

abbreviation insert_DelegateChanged :: "store \<Rightarrow> DelegateChanged \<Rightarrow> world \<Rightarrow> world outcome" where
  "insert_DelegateChanged st e w \<equiv>
     and_then (insert_row (delegateChangedRepo st) e (delegateChangeds w)) (\<lambda>t. Inr (w\<lparr>delegateChangeds := t\<rparr>))"

abbreviation insert_DelegateVotesChanged :: "store \<Rightarrow> DelegateVotesChanged \<Rightarrow> world \<Rightarrow> world outcome" where
  "insert_DelegateVotesChanged st e w \<equiv>
     and_then (insert_row (delegateVotesChangedRepo st) e (delegateVotesChangeds w)) (\<lambda>t. Inr (w\<lparr>delegateVotesChangeds := t\<rparr>))"

abbreviation insert_TokenTransfer :: "store \<Rightarrow> TokenTransfer \<Rightarrow> world \<Rightarrow> world outcome" where
  "insert_TokenTransfer st e w \<equiv>
     and_then (insert_row (tokenTransferRepo st) e (tokenTransfers w)) (\<lambda>t. Inr (w\<lparr>tokenTransfers := t\<rparr>))"

abbreviation insert_ProposalCanceled :: "store \<Rightarrow> ProposalCanceled \<Rightarrow> world \<Rightarrow> world outcome" where
  "insert_ProposalCanceled st e w \<equiv>
     and_then (insert_row (proposalCanceledRepo st) e (proposalCanceleds w)) (\<lambda>t. Inr (w\<lparr>proposalCanceleds := t\<rparr>))"

abbreviation insert_ProposalCreated :: "store \<Rightarrow> ProposalCreated \<Rightarrow> world \<Rightarrow> world outcome" where
  "insert_ProposalCreated st e w \<equiv>
     and_then (insert_row (proposalCreatedRepo st) e (proposalCreateds w)) (\<lambda>t. Inr (w\<lparr>proposalCreateds := t\<rparr>))"

abbreviation insert_ProposalExecuted :: "store \<Rightarrow> ProposalExecuted \<Rightarrow> world \<Rightarrow> world outcome" where
  "insert_ProposalExecuted st e w \<equiv>
     and_then (insert_row (proposalExecutedRepo st) e (proposalExecuteds w)) (\<lambda>t. Inr (w\<lparr>proposalExecuteds := t\<rparr>))"

abbreviation insert_ProposalQueued :: "store \<Rightarrow> ProposalQueued \<Rightarrow> world \<Rightarrow> world outcome" where
  "insert_ProposalQueued st e w \<equiv>
     and_then (insert_row (proposalQueuedRepo st) e (proposalQueueds w)) (\<lambda>t. Inr (w\<lparr>proposalQueueds := t\<rparr>))"

abbreviation insert_VoteCast :: "store \<Rightarrow> VoteCast \<Rightarrow> world \<Rightarrow> world outcome" where
  "insert_VoteCast st e w \<equiv>
     and_then (insert_row (voteCastRepo st) e (voteCasts w)) (\<lambda>t. Inr (w\<lparr>voteCasts := t\<rparr>))"

abbreviation insert_VoteCastWithParams :: "store \<Rightarrow> VoteCastWithParams \<Rightarrow> world \<Rightarrow> world outcome" where
  "insert_VoteCastWithParams st e w \<equiv>
     and_then (insert_row (voteCastWithParamsRepo st) e (voteCastWithParamss w)) (\<lambda>t. Inr (w\<lparr>voteCastWithParamss := t\<rparr>))"

abbreviation insert_VoteCastGroup :: "store \<Rightarrow> VoteCastGroup \<Rightarrow> world \<Rightarrow> world outcome" where
  "insert_VoteCastGroup st e w \<equiv>
     and_then (insert_row (voteCastGroupRepo st) e (voteCastGroups w)) (\<lambda>t. Inr (w\<lparr>voteCastGroups := t\<rparr>))"

abbreviation insert_Proposal :: "store \<Rightarrow> Proposal \<Rightarrow> world \<Rightarrow> world outcome" where
  "insert_Proposal st e w \<equiv>
     and_then (insert_row (proposalRepo st) e (proposals w)) (\<lambda>t. Inr (w\<lparr>proposals := t\<rparr>))"

abbreviation save_Proposal :: "store \<Rightarrow> Proposal \<Rightarrow> world \<Rightarrow> world outcome" where
  "save_Proposal st e w \<equiv>
     and_then (save_row (proposalRepo st) e (proposals w)) (\<lambda>t. Inr (w\<lparr>proposals := t\<rparr>))"

abbreviation insert_DataMetric :: "store \<Rightarrow> DataMetric \<Rightarrow> world \<Rightarrow> world outcome" where
  "insert_DataMetric st e w \<equiv>
     and_then (insert_row (dataMetricRepo st) e (dataMetrics w)) (\<lambda>t. Inr (w\<lparr>dataMetrics := t\<rparr>))"

abbreviation save_DataMetric :: "store \<Rightarrow> DataMetric \<Rightarrow> world \<Rightarrow> world outcome" where
  "save_DataMetric st e w \<equiv>
     and_then (save_row (dataMetricRepo st) e (dataMetrics w)) (\<lambda>t. Inr (w\<lparr>dataMetrics := t\<rparr>))"

abbreviation insert_DelegateRolling :: "store \<Rightarrow> DelegateRolling \<Rightarrow> world \<Rightarrow> world outcome" where
  "insert_DelegateRolling st e w \<equiv>
     and_then (insert_row (delegateRollingRepo st) e (delegateRollings w)) (\<lambda>t. Inr (w\<lparr>delegateRollings := t\<rparr>))"

abbreviation save_DelegateRolling :: "store \<Rightarrow> DelegateRolling \<Rightarrow> world \<Rightarrow> world outcome" where
  "save_DelegateRolling st e w \<equiv>
     and_then (save_row (delegateRollingRepo st) e (delegateRollings w)) (\<lambda>t. Inr (w\<lparr>delegateRollings := t\<rparr>))"

abbreviation insert_Delegate :: "store \<Rightarrow> Delegate \<Rightarrow> world \<Rightarrow> world outcome" where
  "insert_Delegate st e w \<equiv>
     and_then (insert_row (delegateRepo st) e (delegates w)) (\<lambda>t. Inr (w\<lparr>delegates := t\<rparr>))"

abbreviation save_Delegate :: "store \<Rightarrow> Delegate \<Rightarrow> world \<Rightarrow> world outcome" where
  "save_Delegate st e w \<equiv>
     and_then (save_row (delegateRepo st) e (delegates w)) (\<lambda>t. Inr (w\<lparr>delegates := t\<rparr>))"

abbreviation remove_Delegate :: "store \<Rightarrow> string \<Rightarrow> world \<Rightarrow> world outcome" where
  "remove_Delegate st k w \<equiv>
     and_then (remove_row (delegateRepo st) k (delegates w)) (\<lambda>t. Inr (w\<lparr>delegates := t\<rparr>))"

abbreviation insert_Contributor :: "store \<Rightarrow> Contributor \<Rightarrow> world \<Rightarrow> world outcome" where
  "insert_Contributor st e w \<equiv>
     and_then (insert_row (contributorRepo st) e (contributors w)) (\<lambda>t. Inr (w\<lparr>contributors := t\<rparr>))"

abbreviation save_Contributor :: "store \<Rightarrow> Contributor \<Rightarrow> world \<Rightarrow> world outcome" where
  "save_Contributor st e w \<equiv>
     and_then (save_row (contributorRepo st) e (contributors w)) (\<lambda>t. Inr (w\<lparr>contributors := t\<rparr>))"

abbreviation insert_DelegateMapping :: "store \<Rightarrow> DelegateMapping \<Rightarrow> world \<Rightarrow> world outcome" where
  "insert_DelegateMapping st e w \<equiv>
     and_then (insert_row (delegateMappingRepo st) e (delegateMappings w)) (\<lambda>t. Inr (w\<lparr>delegateMappings := t\<rparr>))"

abbreviation save_DelegateMapping :: "store \<Rightarrow> DelegateMapping \<Rightarrow> world \<Rightarrow> world outcome" where
  "save_DelegateMapping st e w \<equiv>
     and_then (save_row (delegateMappingRepo st) e (delegateMappings w)) (\<lambda>t. Inr (w\<lparr>delegateMappings := t\<rparr>))"

abbreviation remove_DelegateMapping :: "store \<Rightarrow> string \<Rightarrow> world \<Rightarrow> world outcome" where
  "remove_DelegateMapping st k w \<equiv>
     and_then (remove_row (delegateMappingRepo st) k (delegateMappings w)) (\<lambda>t. Inr (w\<lparr>delegateMappings := t\<rparr>))"

section \<open>Logs, contracts and works\<close>

record EvmLog =
  log_id :: string
  log_address :: string
  log_topics :: "string list"
  log_data :: string
  log_height :: int
  log_timestamp :: int
  log_transactionHash :: string

record IndexerContract =
  ic_name :: string
  ic_address :: string
  ic_standard :: "string option"

record IndexerWork =
  iw_daoCode :: string
  iw_contracts :: "IndexerContract list"

end
