(* ===== verification/TokenHandler.thy ===== *)
theory TokenHandler
  imports Schema
begin

text \<open>
  \<open>packages/indexer/src/handler/token.ts\<close>: the handler of the governance token's logs. Each
  operation is a function from the database to the outcome with the database it leaves; the
  long methods are composed of the blocks the source separates by its comments.

  The event decoders of the generated ABI modules call the squid codec, which is not part of
  the repository: they are the fields of \<open>token_codec\<close>. Logging has no state and is left out.
  The request to the profile service is kept as an entry of \<open>sync_requests\<close>; whatever becomes of
  it, the source carries on.
\<close>

section \<open>Events and options\<close>

definition zeroAddress :: string where
  "zeroAddress = ''0x0000000000000000000000000000000000000000''"

definition topic_DelegateChanged :: string where
  "topic_DelegateChanged =
     ''0x3134e8a2e6d97e929a7e54011ea5485d7d196dd5f0ba4d4ef95803e8e3fc257f''"

definition topic_DelegateVotesChanged :: string where
  "topic_DelegateVotesChanged =
     ''0xdec2bacdd2f05b59de34da9b523dff8be42e5e38e818c82fdb0bae774387a724''"

definition topic_Transfer :: string where
  "topic_Transfer = ''0xddf252ad1be2c89b69c2b068fc378daa952ba7f163c4a11628f55a4df523b3ef''"

datatype token_abi = Itokenerc20 | Itokenerc721

record delegate_changed_event =
  ev_delegator :: string
  ev_fromDelegate :: string
  ev_toDelegate :: string

text \<open>
  The two ABI modules name the fields of two events differently, and the handler asks which
  name is there: \<open>"previousVotes" in event\<close>, \<open>"value" in event\<close>.
\<close>

datatype votes_event =
    VotesErc20 (ev_delegate: string) (previousVotes: int) (newVotes: int)
  | VotesErc721 (ev_delegate: string) (previousBalance: int) (newBalance: int)

datatype transfer_event =
    is_TransferErc20: TransferErc20 (ev_from: string) (ev_to: string) (ev_value: int)
  | TransferErc721 (ev_from: string) (ev_to: string) (ev_tokenId: int)

record token_codec =
  decode_DelegateChanged :: "token_abi \<Rightarrow> EvmLog \<Rightarrow> delegate_changed_event outcome"
  decode_DelegateVotesChanged :: "token_abi \<Rightarrow> EvmLog \<Rightarrow> votes_event outcome"
  decode_Transfer :: "token_abi \<Rightarrow> EvmLog \<Rightarrow> transfer_event outcome"

text \<open>
  What the handler relies on of the codec: an address is decoded to its lower-case hex text,
  and each ABI module yields an event of its own shape.
\<close>

definition codec_ok :: "token_codec \<Rightarrow> bool" where
  "codec_ok c \<longleftrightarrow>
     (\<forall>abi l e. decode_DelegateChanged c abi l = Inr e \<longrightarrow>
        plain_address (ev_delegator e) \<and> plain_address (ev_fromDelegate e) \<and>
        plain_address (ev_toDelegate e)) \<and>
     (\<forall>abi l e. decode_DelegateVotesChanged c abi l = Inr e \<longrightarrow> plain_address (ev_delegate e)) \<and>
     (\<forall>abi l e. decode_Transfer c abi l = Inr e \<longrightarrow>
        plain_address (ev_from e) \<and> plain_address (ev_to e) \<and>
        (abi = Itokenerc20 \<longleftrightarrow> is_TransferErc20 e))"

record token_env =
  te_store :: store
  te_codec :: token_codec
  te_work :: IndexerWork
  te_indexContract :: IndexerContract
  te_syncEndpoint :: "string option"
  te_syncAuthToken :: "string option"

definition contractStandard :: "token_env \<Rightarrow> string" where
  "contractStandard env = to_lower (nullish (ic_standard (te_indexContract env)) ''erc20'')"

definition itokenAbi :: "token_env \<Rightarrow> token_abi" where
  "itokenAbi env = (if contractStandard env = ''erc721'' then Itokenerc721 else Itokenerc20)"

section \<open>Members and their metrics\<close>

text \<open>
  The global metrics row, or a fresh one: \<open>storedDataMetric ? storedDataMetric : new DataMetric\<close>.
\<close>

definition metric_or_new :: "DataMetric option \<Rightarrow> DataMetric" where
  "metric_or_new stored = (case stored of None \<Rightarrow> new_DataMetric | Some dm \<Rightarrow> dm)"

definition increaseMetricsContributorCount :: "store \<Rightarrow> world \<Rightarrow> world outcome" where
  "increaseMetricsContributorCount st w =
     and_then (findOne (dataMetricRepo st) (\<lambda>dm. dm_id dm = global_id) (dataMetrics w))
       (\<lambda>storedDataMetric.
         let dm = metric_or_new storedDataMetric
         in save_DataMetric st (dm\<lparr>dm_memberCount := Some (nullish (dm_memberCount dm) 0 + 1)\<rparr>) w)"

definition truthy :: "string option \<Rightarrow> bool" where
  "truthy v = (case v of None \<Rightarrow> False | Some s \<Rightarrow> s \<noteq> [])"

text \<open>The block \<open>sync user power\<close> of \<open>storeContributor\<close>.\<close>

definition sync_user_power :: "token_env \<Rightarrow> Contributor \<Rightarrow> world \<Rightarrow> world" where
  "sync_user_power env storedContributor w =
     (if truthy (te_syncEndpoint env) \<and> truthy (te_syncAuthToken env)
      then w\<lparr>sync_requests := sync_requests w @
             [\<lparr>sr_daoCode = iw_daoCode (te_work env), sr_address = co_id storedContributor,
               sr_power = co_power storedContributor\<rparr>]\<rparr>
      else w)"

definition storeContributor :: "token_env \<Rightarrow> Contributor \<Rightarrow> world \<Rightarrow> world outcome" where
  "storeContributor env contributor w =
     and_then (findOne (contributorRepo (te_store env)) (\<lambda>c. co_id c = co_id contributor)
                 (contributors w))
       (\<lambda>found. case found of
          Some storedContributor \<Rightarrow>
            let stored = storedContributor\<lparr>
                  blockNumber := blockNumber contributor,
                  blockTimestamp := blockTimestamp contributor,
                  transactionHash := transactionHash contributor,
                  co_power := co_power storedContributor + co_power contributor,
                  co_delegatesCountEffective :=
                    co_delegatesCountEffective storedContributor
                    + co_delegatesCountEffective contributor\<rparr>
            in and_then (save_Contributor (te_store env) stored w)
                 (\<lambda>w. Inr (sync_user_power env stored w))
        | None \<Rightarrow>
            and_then (insert_Contributor (te_store env) contributor w)
              (\<lambda>w. increaseMetricsContributorCount (te_store env)
                     (sync_user_power env contributor w)))"

section \<open>One delegation of voting power\<close>

text \<open>
  A \<open>Delegate\<close> as the callers build it: its id is not set yet, and \<open>updateDelegateRolling\<close> may
  leave the two addresses undefined.
\<close>

record delegate_draft = entity +
  df_fromDelegate :: "string option"
  df_toDelegate :: "string option"
  df_power :: int

text \<open>
  \<open>currentDelegate.fromDelegate.toLowerCase()\<close>, and the id made of the two addresses. The warning
  of the source for a missing address is followed by the same call on \<open>undefined\<close>.
\<close>

definition lower_defined :: "string option \<Rightarrow> string outcome" where
  "lower_defined v = (case v of
       None \<Rightarrow> Inl (TypeError ''Cannot read properties of undefined (reading toLowerCase)'')
     | Some s \<Rightarrow> Inr (to_lower s))"

definition delegate_id :: "string \<Rightarrow> string \<Rightarrow> string" where
  "delegate_id fromDelegate toDelegate = fromDelegate @ ''_'' @ toDelegate"

definition normalizeDelegate :: "delegate_draft \<Rightarrow> Delegate outcome" where
  "normalizeDelegate draft =
     and_then (lower_defined (df_fromDelegate draft)) (\<lambda>fromDelegate.
     and_then (lower_defined (df_toDelegate draft)) (\<lambda>toDelegate.
       Inr \<lparr>blockNumber = blockNumber draft, blockTimestamp = blockTimestamp draft,
            transactionHash = transactionHash draft,
            d_id = delegate_id fromDelegate toDelegate,
            d_fromDelegate = fromDelegate, d_toDelegate = toDelegate,
            d_power = df_power draft\<rparr>))"

text \<open>
  The row of this pair: inserted, updated, or removed when its power returns to zero. The
  result carries the new power of the row and the change of the effective delegation count.
\<close>

definition upsertDelegate ::
    "store \<Rightarrow> Delegate \<Rightarrow> world \<Rightarrow> (int \<times> int \<times> world) outcome" where
  "upsertDelegate st currentDelegate w =
     and_then (findOne (delegateRepo st) (\<lambda>d. d_id d = d_id currentDelegate) (delegates w))
       (\<lambda>found. case found of
          None \<Rightarrow>
            and_then (insert_Delegate st currentDelegate w)
              (\<lambda>w. Inr (d_power currentDelegate, 1, w))
        | Some storedDelegate \<Rightarrow>
            let oldPower = d_power storedDelegate;
                stored = storedDelegate\<lparr>
                  d_power := d_power storedDelegate + d_power currentDelegate,
                  blockNumber := blockNumber currentDelegate,
                  blockTimestamp := blockTimestamp currentDelegate,
                  transactionHash := transactionHash currentDelegate\<rparr>
            in if d_power stored = 0
               then and_then (remove_Delegate st (d_id stored) w)
                      (\<lambda>w. Inr (d_power stored, if oldPower \<noteq> 0 then - 1 else 0, w))
               else and_then (save_Delegate st stored w)
                      (\<lambda>w. Inr (d_power stored, 0, w)))"

definition updateMappingPower :: "store \<Rightarrow> Delegate \<Rightarrow> int \<Rightarrow> world \<Rightarrow> world outcome" where
  "updateMappingPower st currentDelegate newPower w =
     and_then (findOne (delegateMappingRepo st)
                 (\<lambda>m. map_from m = d_fromDelegate currentDelegate) (delegateMappings w))
       (\<lambda>found. case found of
          None \<Rightarrow> Inr w
        | Some storedFromDelegate \<Rightarrow>
            save_DelegateMapping st (storedFromDelegate\<lparr>map_power := newPower\<rparr>) w)"

definition addPowerSum :: "store \<Rightarrow> int \<Rightarrow> world \<Rightarrow> world outcome" where
  "addPowerSum st delta w =
     and_then (findOne (dataMetricRepo st) (\<lambda>dm. dm_id dm = global_id) (dataMetrics w))
       (\<lambda>storedDataMetric.
         let dm = metric_or_new storedDataMetric
         in and_then (if storedDataMetric = None then insert_DataMetric st dm w else Inr w)
              (\<lambda>w. save_DataMetric st
                     (dm\<lparr>dm_powerSum := Some (nullish (dm_powerSum dm) 0 + delta)\<rparr>) w))"

text \<open>The contributor that \<open>storeDelegate\<close> hands to \<open>storeContributor\<close>.\<close>

definition contribution :: "Delegate \<Rightarrow> int \<Rightarrow> Contributor" where
  "contribution currentDelegate delegatesCountEffective =
     \<lparr>blockNumber = blockNumber currentDelegate,
      blockTimestamp = blockTimestamp currentDelegate,
      transactionHash = transactionHash currentDelegate,
      co_id = d_toDelegate currentDelegate,
      co_lastVoteBlockNumber = None, co_lastVoteTimestamp = None,
      co_power = d_power currentDelegate,
      co_delegatesCountAll = 0, co_delegatesCountEffective = delegatesCountEffective\<rparr>"

definition storeDelegate :: "token_env \<Rightarrow> delegate_draft \<Rightarrow> world \<Rightarrow> world outcome" where
  "storeDelegate env draft w =
     and_then (normalizeDelegate draft) (\<lambda>currentDelegate.
     and_then (upsertDelegate (te_store env) currentDelegate w)
       (\<lambda>(newDelegatePowerOfFromTo, delegatesCountEffective, w).
     and_then (updateMappingPower (te_store env) currentDelegate newDelegatePowerOfFromTo w) (\<lambda>w.
     and_then (storeContributor env (contribution currentDelegate delegatesCountEffective) w) (\<lambda>w.
     addPowerSum (te_store env) (d_power currentDelegate) w))))"

section \<open>DelegateChanged\<close>

definition decreaseOldDelegate :: "store \<Rightarrow> DelegateChanged \<Rightarrow> world \<Rightarrow> world outcome" where
  "decreaseOldDelegate st ent w =
     and_then (findOne (delegateMappingRepo st) (\<lambda>m. map_from m = dc_delegator ent)
                 (delegateMappings w))
       (\<lambda>previous. case previous of
          None \<Rightarrow> Inr w
        | Some previousDelegateMapping \<Rightarrow>
            and_then (findOne (contributorRepo st)
                        (\<lambda>c. co_id c = map_to previousDelegateMapping) (contributors w))
              (\<lambda>old. case old of
                 None \<Rightarrow> Inr w
               | Some oldDelegateContributor \<Rightarrow>
                   if co_delegatesCountAll oldDelegateContributor > 0
                   then save_Contributor st (oldDelegateContributor\<lparr>
                          co_delegatesCountAll :=
                            co_delegatesCountAll oldDelegateContributor - 1\<rparr>) w
                   else Inr w))"

definition new_member :: "DelegateChanged \<Rightarrow> Contributor" where
  "new_member ent =
     \<lparr>blockNumber = blockNumber ent, blockTimestamp = blockTimestamp ent,
      transactionHash = transactionHash ent, co_id = dc_toDelegate ent,
      co_lastVoteBlockNumber = None, co_lastVoteTimestamp = None,
      co_power = 0, co_delegatesCountAll = 1, co_delegatesCountEffective = 0\<rparr>"

definition increaseNewDelegate :: "store \<Rightarrow> DelegateChanged \<Rightarrow> world \<Rightarrow> world outcome" where
  "increaseNewDelegate st ent w =
     and_then (findOne (contributorRepo st) (\<lambda>c. co_id c = dc_toDelegate ent) (contributors w))
       (\<lambda>new. case new of
          Some newDelegateContributor \<Rightarrow>
            save_Contributor st (newDelegateContributor\<lparr>
              co_delegatesCountAll := co_delegatesCountAll newDelegateContributor + 1\<rparr>) w
        | None \<Rightarrow>
            and_then (insert_Contributor st (new_member ent) w)
              (increaseMetricsContributorCount st))"

definition new_mapping :: "DelegateChanged \<Rightarrow> DelegateMapping" where
  "new_mapping ent =
     \<lparr>blockNumber = blockNumber ent, blockTimestamp = blockTimestamp ent,
      transactionHash = transactionHash ent, map_id = dc_delegator ent,
      map_from = dc_delegator ent, map_to = dc_toDelegate ent, map_power = 0\<rparr>"

definition replaceMapping :: "store \<Rightarrow> DelegateChanged \<Rightarrow> world \<Rightarrow> world outcome" where
  "replaceMapping st ent w =
     and_then (remove_DelegateMapping st (dc_delegator ent) w)
       (insert_DelegateMapping st (new_mapping ent))"

definition delegate_changed_entity :: "EvmLog \<Rightarrow> delegate_changed_event \<Rightarrow> DelegateChanged" where
  "delegate_changed_entity eventLog event =
     \<lparr>blockNumber = log_height eventLog, blockTimestamp = log_timestamp eventLog,
      transactionHash = log_transactionHash eventLog, dc_id = log_id eventLog,
      dc_delegator = ev_delegator event, dc_fromDelegate = ev_fromDelegate event,
      dc_toDelegate = ev_toDelegate event\<rparr>"

definition new_rolling :: "EvmLog \<Rightarrow> delegate_changed_event \<Rightarrow> DelegateRolling" where
  "new_rolling eventLog event =
     \<lparr>blockNumber = log_height eventLog, blockTimestamp = log_timestamp eventLog,
      transactionHash = log_transactionHash eventLog, dr_id = log_id eventLog,
      dr_delegator = ev_delegator event, dr_fromDelegate = ev_fromDelegate event,
      dr_toDelegate = ev_toDelegate event,
      dr_fromPreviousVotes = None, dr_fromNewVotes = None,
      dr_toPreviousVotes = None, dr_toNewVotes = None\<rparr>"

definition self_delegate :: "DelegateChanged \<Rightarrow> delegate_draft" where
  "self_delegate ent =
     \<lparr>blockNumber = blockNumber ent, blockTimestamp = blockTimestamp ent,
      transactionHash = transactionHash ent,
      df_fromDelegate = Some (dc_delegator ent), df_toDelegate = Some (dc_toDelegate ent),
      df_power = 0\<rparr>"

definition storeDelegateChanged :: "token_env \<Rightarrow> EvmLog \<Rightarrow> world \<Rightarrow> world outcome" where
  "storeDelegateChanged env eventLog w =
     and_then (decode_DelegateChanged (te_codec env) (itokenAbi env) eventLog) (\<lambda>event.
     let ent = delegate_changed_entity eventLog event in
     and_then (insert_DelegateChanged (te_store env) ent w) (\<lambda>w.
     and_then (decreaseOldDelegate (te_store env) ent w) (\<lambda>w.
     and_then (increaseNewDelegate (te_store env) ent w) (\<lambda>w.
     and_then (replaceMapping (te_store env) ent w) (\<lambda>w.
     and_then (insert_DelegateRolling (te_store env) (new_rolling eventLog event) w) (\<lambda>w.
     if dc_fromDelegate ent = zeroAddress \<and> dc_delegator ent = dc_toDelegate ent
     then storeDelegate env (self_delegate ent) w
     else Inr w))))))"

section \<open>DelegateVotesChanged\<close>

text \<open>
  Which delegation a votes change belongs to: the rolling row with the votes filled in, and
  the two addresses, which stay undefined unless one of the two tests succeeds.
\<close>

definition resolveRolling ::
    "DelegateVotesChanged \<Rightarrow> DelegateRolling \<Rightarrow> DelegateRolling \<times> string option \<times> string option"
where
  "resolveRolling options rolling =
     (let (rolling1, from1, to1) =
        (if dvc_delegate options = dr_fromDelegate rolling
         then let isDelegateChangeToAnother =
                    dr_delegator rolling \<noteq> dr_fromDelegate rolling \<and>
                    dr_delegator rolling \<noteq> dr_toDelegate rolling;
                  r = rolling\<lparr>dr_fromNewVotes := Some (dvc_newVotes options),
                        dr_fromPreviousVotes := Some (dvc_previousVotes options)\<rparr>
              in if (dr_delegator rolling = dr_toDelegate rolling \<and>
                     dr_fromDelegate rolling \<noteq> zeroAddress) \<or> isDelegateChangeToAnother
                 then (r, Some (dr_delegator rolling), Some (dr_fromDelegate rolling))
                 else (r, Some (dr_fromDelegate rolling), Some (dr_delegator rolling))
         else (rolling, None, None))
      in if dvc_delegate options = dr_toDelegate rolling
         then (rolling1\<lparr>dr_toNewVotes := Some (dvc_newVotes options),
                 dr_toPreviousVotes := Some (dvc_previousVotes options)\<rparr>,
               Some (dr_delegator rolling),
               Some (if dr_delegator rolling = dr_toDelegate rolling
                     then dr_delegator rolling else dr_toDelegate rolling))
         else (rolling1, from1, to1))"

definition rolling_delegate ::
    "DelegateVotesChanged \<Rightarrow> DelegateRolling \<Rightarrow> string option \<Rightarrow> string option \<Rightarrow> delegate_draft"
where
  "rolling_delegate options rolling fromDelegate toDelegate =
     \<lparr>blockNumber = blockNumber rolling, blockTimestamp = blockTimestamp rolling,
      transactionHash = transactionHash rolling,
      df_fromDelegate = fromDelegate, df_toDelegate = toDelegate,
      df_power = dvc_newVotes options - dvc_previousVotes options\<rparr>"

definition updateDelegateRolling ::
    "token_env \<Rightarrow> DelegateVotesChanged \<Rightarrow> world \<Rightarrow> world outcome" where
  "updateDelegateRolling env options w =
     and_then (findOne (delegateRollingRepo (te_store env))
                 (\<lambda>r. transactionHash r = transactionHash options) (delegateRollings w))
       (\<lambda>found. case found of
          None \<Rightarrow> Inr w
        | Some delegateRolling \<Rightarrow>
            let dvcDelegate = to_lower (dvc_delegate options)
            in if dvcDelegate \<noteq> dr_fromDelegate delegateRolling \<and>
                  dvcDelegate \<noteq> dr_toDelegate delegateRolling
               then Inr w
               else let (rolling, fromDelegate, toDelegate) = resolveRolling options delegateRolling
                    in and_then (save_DelegateRolling (te_store env) rolling w)
                         (storeDelegate env
                            (rolling_delegate options rolling fromDelegate toDelegate)))"

definition votes_changed_entity :: "EvmLog \<Rightarrow> votes_event \<Rightarrow> DelegateVotesChanged" where
  "votes_changed_entity eventLog event =
     \<lparr>blockNumber = log_height eventLog, blockTimestamp = log_timestamp eventLog,
      transactionHash = log_transactionHash eventLog, dvc_id = log_id eventLog,
      dvc_delegate = ev_delegate event,
      dvc_previousVotes = (case event of VotesErc20 _ p _ \<Rightarrow> p | VotesErc721 _ p _ \<Rightarrow> p),
      dvc_newVotes = (case event of VotesErc20 _ _ n \<Rightarrow> n | VotesErc721 _ _ n \<Rightarrow> n)\<rparr>"

definition storeDelegateVotesChanged :: "token_env \<Rightarrow> EvmLog \<Rightarrow> world \<Rightarrow> world outcome" where
  "storeDelegateVotesChanged env eventLog w =
     and_then (decode_DelegateVotesChanged (te_codec env) (itokenAbi env) eventLog) (\<lambda>event.
     let ent = votes_changed_entity eventLog event in
     and_then (insert_DelegateVotesChanged (te_store env) ent w)
       (updateDelegateRolling env ent))"

section \<open>Transfer\<close>

text \<open>\<open>isErc721 ? 1n : "value" in event ? event.value : 0n\<close>\<close>

definition transferPower :: "token_env \<Rightarrow> transfer_event \<Rightarrow> int" where
  "transferPower env event =
     (if contractStandard env = ''erc721'' then 1
      else (case event of TransferErc20 _ _ v \<Rightarrow> v | TransferErc721 _ _ _ \<Rightarrow> 0))"

definition transfer_entity :: "token_env \<Rightarrow> EvmLog \<Rightarrow> transfer_event \<Rightarrow> TokenTransfer" where
  "transfer_entity env eventLog event =
     \<lparr>blockNumber = log_height eventLog, blockTimestamp = log_timestamp eventLog,
      transactionHash = log_transactionHash eventLog, tt_id = log_id eventLog,
      tt_from = ev_from event, tt_to = ev_to event,
      tt_value = (case event of TransferErc20 _ _ v \<Rightarrow> v | TransferErc721 _ _ i \<Rightarrow> i),
      tt_standard = contractStandard env\<rparr>"

definition mapped_delegate :: "TokenTransfer \<Rightarrow> DelegateMapping \<Rightarrow> int \<Rightarrow> delegate_draft" where
  "mapped_delegate ent m delta =
     \<lparr>blockNumber = blockNumber ent, blockTimestamp = blockTimestamp ent,
      transactionHash = transactionHash ent,
      df_fromDelegate = Some (map_from m), df_toDelegate = Some (map_to m), df_power = delta\<rparr>"

definition storeMappedDelegate ::
    "token_env \<Rightarrow> TokenTransfer \<Rightarrow> DelegateMapping option \<Rightarrow> int \<Rightarrow> world \<Rightarrow> world outcome" where
  "storeMappedDelegate env ent storedMapping delta w =
     (case storedMapping of
        None \<Rightarrow> Inr w
      | Some m \<Rightarrow> storeDelegate env (mapped_delegate ent m delta) w)"

definition storeTokenTransfer :: "token_env \<Rightarrow> EvmLog \<Rightarrow> world \<Rightarrow> world outcome" where
  "storeTokenTransfer env eventLog w =
     and_then (decode_Transfer (te_codec env) (itokenAbi env) eventLog) (\<lambda>event.
     let ent = transfer_entity env eventLog event in
     and_then (insert_TokenTransfer (te_store env) ent w) (\<lambda>w.
     and_then (findOne (delegateMappingRepo (te_store env)) (\<lambda>m. map_from m = tt_from ent)
                 (delegateMappings w)) (\<lambda>storedFromDelegate.
     and_then (findOne (delegateMappingRepo (te_store env)) (\<lambda>m. map_from m = tt_to ent)
                 (delegateMappings w)) (\<lambda>storedToDelegate.
     and_then (storeMappedDelegate env ent storedFromDelegate (- transferPower env event) w) (\<lambda>w.
     storeMappedDelegate env ent storedToDelegate (transferPower env event) w)))))"

section \<open>The dispatch\<close>

definition has_topic :: "EvmLog \<Rightarrow> string \<Rightarrow> bool" where
  "has_topic eventLog topic = list_ex (\<lambda>item. item = topic) (log_topics eventLog)"

definition handle_token :: "token_env \<Rightarrow> EvmLog \<Rightarrow> world \<Rightarrow> world outcome" where
  "handle_token env eventLog w =
     and_then (if has_topic eventLog topic_DelegateChanged
               then storeDelegateChanged env eventLog w else Inr w) (\<lambda>w.
     and_then (if has_topic eventLog topic_DelegateVotesChanged
               then storeDelegateVotesChanged env eventLog w else Inr w) (\<lambda>w.
     if has_topic eventLog topic_Transfer
     then storeTokenTransfer env eventLog w else Inr w))"

end
