(* ===== verification/TokenLedger.thy ===== *)
theory TokenLedger
  imports TokenHandler
begin

text \<open>
  What the token handler does to the tables, and the accounting it keeps. The first part
  gives each block of \<open>storeDelegate\<close> as a function on the table it touches, so that a call
  under a store that satisfies \<open>store_ok\<close> is one record update (\<open>storeDelegate_eq\<close>). The second
  part is the abstract ledger: how much power each delegator has given to each delegate, the
  totals of each delegate, and the total of the protocol.
\<close>

named_theorems ledger_simps

section \<open>The effect of each block on its table\<close>

definition put_delegate :: "Delegate \<Rightarrow> Delegate table \<Rightarrow> Delegate table" where
  "put_delegate d t =
     (case map_of t (d_id d) of
        None \<Rightarrow> AList.update (d_id d) d t
      | Some s \<Rightarrow>
          if d_power s + d_power d = 0 then AList.delete (d_id d) t
          else AList.update (d_id d)
                 (s\<lparr>d_power := d_power s + d_power d, blockNumber := blockNumber d,
                    blockTimestamp := blockTimestamp d, transactionHash := transactionHash d\<rparr>) t)"

definition effective_change :: "Delegate \<Rightarrow> Delegate table \<Rightarrow> int" where
  "effective_change d t =
     (case map_of t (d_id d) of
        None \<Rightarrow> 1
      | Some s \<Rightarrow> if d_power s + d_power d = 0 \<and> d_power s \<noteq> 0 then - 1 else 0)"

definition put_mapping_power :: "string \<Rightarrow> int \<Rightarrow> DelegateMapping table \<Rightarrow> DelegateMapping table"
where
  "put_mapping_power f n t =
     (case map_of t f of None \<Rightarrow> t | Some m \<Rightarrow> AList.update f (m\<lparr>map_power := n\<rparr>) t)"

definition merged_contributor :: "Contributor \<Rightarrow> Contributor table \<Rightarrow> Contributor" where
  "merged_contributor c t =
     (case map_of t (co_id c) of
        None \<Rightarrow> c
      | Some s \<Rightarrow> s\<lparr>blockNumber := blockNumber c, blockTimestamp := blockTimestamp c,
            transactionHash := transactionHash c, co_power := co_power s + co_power c,
            co_delegatesCountEffective :=
              co_delegatesCountEffective s + co_delegatesCountEffective c\<rparr>)"

definition put_contributor :: "Contributor \<Rightarrow> Contributor table \<Rightarrow> Contributor table" where
  "put_contributor c t = AList.update (co_id c) (merged_contributor c t) t"

definition change_metric ::
    "(DataMetric \<Rightarrow> DataMetric) \<Rightarrow> DataMetric table \<Rightarrow> DataMetric table" where
  "change_metric f t = AList.update global_id (f (metric_or_new (map_of t global_id))) t"

definition add_member :: "DataMetric \<Rightarrow> DataMetric" where
  "add_member dm = dm\<lparr>dm_memberCount := Some (nullish (dm_memberCount dm) 0 + 1)\<rparr>"

definition add_power :: "int \<Rightarrow> DataMetric \<Rightarrow> DataMetric" where
  "add_power n dm = dm\<lparr>dm_powerSum := Some (nullish (dm_powerSum dm) 0 + n)\<rparr>"

definition put_metrics :: "bool \<Rightarrow> int \<Rightarrow> DataMetric table \<Rightarrow> DataMetric table" where
  "put_metrics is_new n t =
     change_metric (add_power n) (if is_new then change_metric add_member t else t)"

definition keyed_mappings :: "DelegateMapping table \<Rightarrow> bool" where
  "keyed_mappings t \<longleftrightarrow> keyed map_id t \<and> (\<forall>m \<in> rows t. map_id m = map_from m)"

lemma metric_or_new_id:
  "keyed dm_id t \<Longrightarrow> dm_id (metric_or_new (map_of t global_id)) = global_id"
  by (auto simp: metric_or_new_def keyed_lookup split: option.split)

lemma find_mapping:
  assumes "store_ok st" and "keyed_mappings t"
  shows "findOne (delegateMappingRepo st) (\<lambda>m. map_from m = f) t = Inr (map_of t f)"
  by (rule repository.find_unique [OF store_ok_repositories(16) [OF assms(1)]])
    (use assms(2) in \<open>auto simp: keyed_mappings_def\<close>)

lemma increaseMetricsContributorCount_eq:
  assumes "store_ok st" and "keyed dm_id (dataMetrics w)"
  shows "increaseMetricsContributorCount st w =
           Inr (w\<lparr>dataMetrics := change_metric add_member (dataMetrics w)\<rparr>)"
  using assms
  by (simp add: increaseMetricsContributorCount_def store_rules change_metric_def add_member_def
      metric_or_new_id Let_def)

lemma keyed_change_metric:
  "keyed dm_id t \<Longrightarrow> (\<And>dm. dm_id (f dm) = dm_id dm) \<Longrightarrow> keyed dm_id (change_metric f t)"
  by (simp add: change_metric_def keyed_update metric_or_new_id)

lemma add_metric_ids [simp]: "dm_id (add_member dm) = dm_id dm" "dm_id (add_power n dm) = dm_id dm"
  by (simp_all add: add_member_def add_power_def)

lemma addPowerSum_eq:
  assumes "store_ok st" and "keyed dm_id (dataMetrics w)"
  shows "addPowerSum st n w =
           Inr (w\<lparr>dataMetrics := change_metric (add_power n) (dataMetrics w)\<rparr>)"
proof (cases "map_of (dataMetrics w) global_id")
  case None
  with assms show ?thesis
    by (simp add: addPowerSum_def store_rules change_metric_def add_power_def keyed_update
        metric_or_new_def)
next
  case (Some dm)
  with assms keyed_lookup [OF assms(2) Some] show ?thesis
    by (simp add: addPowerSum_def store_rules change_metric_def add_power_def metric_or_new_def)
qed

lemma upsertDelegate_eq:
  assumes "store_ok st" and "keyed d_id (delegates w)"
  shows "upsertDelegate st d w =
           Inr (row_value d_power (delegates w) (d_id d) + d_power d,
                effective_change d (delegates w),
                w\<lparr>delegates := put_delegate d (delegates w)\<rparr>)"
proof (cases "map_of (delegates w) (d_id d)")
  case None
  with assms show ?thesis
    by (simp add: upsertDelegate_def store_rules put_delegate_def effective_change_def)
next
  case (Some s)
  with assms keyed_lookup [OF assms(2) Some] show ?thesis
    by (simp add: upsertDelegate_def store_rules put_delegate_def effective_change_def Let_def)
qed

lemma updateMappingPower_eq:
  assumes "store_ok st" and "keyed_mappings (delegateMappings w)"
  shows "updateMappingPower st d n w =
           Inr (w\<lparr>delegateMappings :=
                   put_mapping_power (d_fromDelegate d) n (delegateMappings w)\<rparr>)"
proof (cases "map_of (delegateMappings w) (d_fromDelegate d)")
  case None
  with assms show ?thesis
    by (simp add: updateMappingPower_def find_mapping put_mapping_power_def)
next
  case (Some m)
  from assms(2) have k: "keyed map_id (delegateMappings w)" by (simp add: keyed_mappings_def)
  from assms Some k keyed_lookup [OF k Some] show ?thesis
    by (simp add: updateMappingPower_def find_mapping put_mapping_power_def store_rules)
qed

text \<open>The synchronisation request that \<open>storeContributor\<close> sends, if the endpoint is configured.\<close>

definition sent_request :: "token_env \<Rightarrow> Contributor \<Rightarrow> sync_request list" where
  "sent_request env c =
     (if truthy (te_syncEndpoint env) \<and> truthy (te_syncAuthToken env)
      then [\<lparr>sr_daoCode = iw_daoCode (te_work env), sr_address = co_id c, sr_power = co_power c\<rparr>]
      else [])"

lemma sync_user_power_eq:
  "sync_user_power env c w = w\<lparr>sync_requests := sync_requests w @ sent_request env c\<rparr>"
  by (simp add: sync_user_power_def sent_request_def)

lemma storeContributor_eq:
  assumes "store_ok (te_store env)" and "keyed co_id (contributors w)"
    and "keyed dm_id (dataMetrics w)"
  shows "storeContributor env c w =
           Inr (w\<lparr>contributors := put_contributor c (contributors w),
                  sync_requests := sync_requests w @
                    sent_request env (merged_contributor c (contributors w)),
                  dataMetrics := (if map_of (contributors w) (co_id c) = None
                    then change_metric add_member (dataMetrics w) else dataMetrics w)\<rparr>)"
proof (cases "map_of (contributors w) (co_id c)")
  case None
  with assms show ?thesis
    by (simp add: storeContributor_def store_rules put_contributor_def merged_contributor_def
        sync_user_power_eq increaseMetricsContributorCount_eq)
next
  case (Some s)
  with assms keyed_lookup [OF assms(2) Some] show ?thesis
    by (simp add: storeContributor_def store_rules put_contributor_def merged_contributor_def
        sync_user_power_eq Let_def)
qed

lemma contribution_simps [simp]:
  "co_id (contribution d n) = d_toDelegate d" "co_power (contribution d n) = d_power d"
  "co_delegatesCountAll (contribution d n) = 0" "co_delegatesCountEffective (contribution d n) = n"
  by (simp_all add: contribution_def)

definition after_delegate :: "token_env \<Rightarrow> Delegate \<Rightarrow> world \<Rightarrow> world" where
  "after_delegate env d w =
     (let c = contribution d (effective_change d (delegates w))
      in w\<lparr>delegates := put_delegate d (delegates w),
           delegateMappings := put_mapping_power (d_fromDelegate d)
             (row_value d_power (delegates w) (d_id d) + d_power d) (delegateMappings w),
           contributors := put_contributor c (contributors w),
           sync_requests := sync_requests w @
             sent_request env (merged_contributor c (contributors w)),
           dataMetrics := put_metrics (map_of (contributors w) (d_toDelegate d) = None)
             (d_power d) (dataMetrics w)\<rparr>)"

lemma storeDelegate_eq:
  assumes "store_ok (te_store env)" and "keyed_world w"
    and "keyed_mappings (delegateMappings w)"
  shows "storeDelegate env draft w =
           and_then (normalizeDelegate draft) (\<lambda>d. Inr (after_delegate env d w))"
proof -
  have k: "keyed d_id (delegates w)" "keyed co_id (contributors w)" "keyed dm_id (dataMetrics w)"
    using assms(2) by (simp_all add: keyed_world_def)
  have "and_then (upsertDelegate (te_store env) d w) (\<lambda>(n, e, w).
      and_then (updateMappingPower (te_store env) d n w) (\<lambda>w.
      and_then (storeContributor env (contribution d e) w) (\<lambda>w.
      addPowerSum (te_store env) (d_power d) w))) = Inr (after_delegate env d w)" for d
    using assms k
    by (simp add: upsertDelegate_eq updateMappingPower_eq storeContributor_eq addPowerSum_eq
        keyed_change_metric after_delegate_def put_metrics_def Let_def)
  then show ?thesis by (simp add: storeDelegate_def)
qed

section \<open>The ledger\<close>

text \<open>
  \<open>delegated_to k\<close> is the power all delegators have given to \<open>k\<close>, \<open>delegations_to k\<close> the number
  of its rows, \<open>mappings_to k\<close> the number of accounts whose current delegate is \<open>k\<close>;
  \<open>powerSum_of\<close> and \<open>memberCount_of\<close> read the global metrics, an unset column as zero.
\<close>

definition delegated_to :: "string \<Rightarrow> Delegate table \<Rightarrow> int" where
  "delegated_to k = table_sum (\<lambda>d. if d_toDelegate d = k then d_power d else 0)"

definition delegations_to :: "string \<Rightarrow> Delegate table \<Rightarrow> int" where
  "delegations_to k = table_count (\<lambda>d. d_toDelegate d = k)"

definition mappings_to :: "string \<Rightarrow> DelegateMapping table \<Rightarrow> int" where
  "mappings_to k = table_count (\<lambda>m. map_to m = k)"

definition powerSum_of :: "DataMetric table \<Rightarrow> int" where
  "powerSum_of t = nullish (dm_powerSum (metric_or_new (map_of t global_id))) 0"

definition memberCount_of :: "DataMetric table \<Rightarrow> int" where
  "memberCount_of t = nullish (dm_memberCount (metric_or_new (map_of t global_id))) 0"

definition wf_delegate :: "Delegate \<Rightarrow> bool" where
  "wf_delegate d \<longleftrightarrow>
     d_id d = delegate_id (d_fromDelegate d) (d_toDelegate d) \<and> CHR ''_'' \<notin> set (d_fromDelegate d)"

definition wf_delegates :: "Delegate table \<Rightarrow> bool" where
  "wf_delegates t \<longleftrightarrow> keyed d_id t \<and> (\<forall>d \<in> rows t. wf_delegate d)"

definition wf_mappings :: "DelegateMapping table \<Rightarrow> bool" where
  "wf_mappings t \<longleftrightarrow> keyed_mappings t \<and>
     (\<forall>m \<in> rows t. plain_address (map_from m) \<and> plain_address (map_to m))"

text \<open>
  The accounting invariant: the power of every contributor is what its delegators gave it, and
  the protocol's total is the sum over the contributors. The membership invariant: the member
  count is the number of contributors, and a contributor's delegation count is the number of
  accounts that point at it.
\<close>

definition ledger_inv :: "world \<Rightarrow> bool" where
  "ledger_inv w \<longleftrightarrow>
     keyed_world w \<and> wf_mappings (delegateMappings w) \<and> wf_delegates (delegates w) \<and>
     (\<forall>k. row_value co_power (contributors w) k = delegated_to k (delegates w)) \<and>
     powerSum_of (dataMetrics w) = table_sum co_power (contributors w)"

definition members_inv :: "world \<Rightarrow> bool" where
  "members_inv w \<longleftrightarrow>
     memberCount_of (dataMetrics w) = int (length (contributors w)) \<and>
     (\<forall>k. row_value co_delegatesCountAll (contributors w) k = mappings_to k (delegateMappings w))"

lemma wf_delegate_id:
  assumes "wf_delegate d" and "wf_delegate d'" and "d_id d = d_id d'"
  shows "d_fromDelegate d = d_fromDelegate d' \<and> d_toDelegate d = d_toDelegate d'"
  using assms joined_key_inj [of "d_fromDelegate d" "d_toDelegate d" "d_fromDelegate d'"]
  by (simp add: wf_delegate_def delegate_id_def)

lemma wf_delegates_lookup: "wf_delegates t \<Longrightarrow> map_of t k = Some d \<Longrightarrow> wf_delegate d \<and> d_id d = k"
  by (auto simp: wf_delegates_def keyed_lookup rows_lookup)

lemma same_pair:
  "wf_delegates t \<Longrightarrow> wf_delegate d \<Longrightarrow> map_of t (d_id d) = Some s \<Longrightarrow>
     d_fromDelegate s = d_fromDelegate d \<and> d_toDelegate s = d_toDelegate d \<and> d_id s = d_id d"
  using wf_delegates_lookup wf_delegate_id by metis

subsection \<open>The delegate rows\<close>

lemma wf_delegates_distinct: "wf_delegates t \<Longrightarrow> distinct (map fst t)"
  by (auto simp: wf_delegates_def intro: keyed_distinct)

lemma put_delegate_wf:
  assumes "wf_delegates t" and "wf_delegate d"
  shows "wf_delegates (put_delegate d t)"
proof (cases "map_of t (d_id d)")
  case None
  with assms show ?thesis
    by (auto simp: wf_delegates_def put_delegate_def keyed_update rows_update)
next
  case (Some s)
  let ?s = "s\<lparr>d_power := d_power s + d_power d, blockNumber := blockNumber d,
      blockTimestamp := blockTimestamp d, transactionHash := transactionHash d\<rparr>"
  from same_pair [OF assms Some] assms(2) have "wf_delegate ?s" "d_id ?s = d_id d"
    by (simp_all add: wf_delegate_def)
  with assms(1) show ?thesis
    by (auto simp: wf_delegates_def put_delegate_def Some keyed_update keyed_delete rows_update
        rows_delete)
qed

lemma delegated_to_put [ledger_simps]:
  assumes "wf_delegates t" and "wf_delegate d"
  shows "delegated_to k (put_delegate d t) =
           delegated_to k t + (if d_toDelegate d = k then d_power d else 0)"
proof (cases "map_of t (d_id d)")
  case None
  then show ?thesis by (simp add: put_delegate_def delegated_to_def table_sum_update)
next
  case (Some s)
  with same_pair [OF assms Some] wf_delegates_distinct [OF assms(1)] show ?thesis
    by (auto simp: put_delegate_def delegated_to_def table_sum_update table_sum_delete)
qed

lemma delegate_power_put [ledger_simps]:
  assumes "wf_delegates t" and "wf_delegate d"
  shows "row_value d_power (put_delegate d t) k =
           row_value d_power t k + (if k = d_id d then d_power d else 0)"
proof (cases "map_of t (d_id d)")
  case None
  then show ?thesis by (simp add: put_delegate_def row_value_def AList.update_conv')
next
  case (Some s)
  then show ?thesis
    by (auto simp: put_delegate_def row_value_def AList.update_conv' AList.delete_conv')
qed

lemma delegations_to_put:
  assumes "wf_delegates t" and "wf_delegate d"
  shows "delegations_to k (put_delegate d t) =
           delegations_to k t +
           (if d_toDelegate d \<noteq> k then 0
            else case map_of t (d_id d) of
                   None \<Rightarrow> 1
                 | Some s \<Rightarrow> if d_power s + d_power d = 0 then - 1 else 0)"
proof (cases "map_of t (d_id d)")
  case None
  then show ?thesis
    by (simp add: put_delegate_def delegations_to_def table_count_def table_sum_update)
next
  case (Some s)
  with same_pair [OF assms Some] wf_delegates_distinct [OF assms(1)] show ?thesis
    by (simp add: put_delegate_def delegations_to_def table_count_def table_sum_update
        table_sum_delete)
qed

subsection \<open>The contributors and the metrics\<close>

lemma put_contributor_keyed: "keyed co_id t \<Longrightarrow> keyed co_id (put_contributor c t)"
  unfolding put_contributor_def
  by (rule keyed_update) (auto simp: merged_contributor_def keyed_lookup split: option.split)

lemma contributor_power_put [ledger_simps]:
  "row_value co_power (put_contributor c t) k =
     row_value co_power t k + (if k = co_id c then co_power c else 0)"
  by (auto simp: put_contributor_def merged_contributor_def row_value_def AList.update_conv'
      split: option.split)

lemma contributor_all_put [ledger_simps]:
  "co_delegatesCountAll c = 0 \<Longrightarrow>
     row_value co_delegatesCountAll (put_contributor c t) k = row_value co_delegatesCountAll t k"
  by (auto simp: put_contributor_def merged_contributor_def row_value_def AList.update_conv'
      split: option.split)

lemma contributor_effective_put [ledger_simps]:
  "row_value co_delegatesCountEffective (put_contributor c t) k =
     row_value co_delegatesCountEffective t k +
       (if k = co_id c then co_delegatesCountEffective c else 0)"
  by (auto simp: put_contributor_def merged_contributor_def row_value_def AList.update_conv'
      split: option.split)

lemma contributor_sum_put [ledger_simps]:
  "table_sum co_power (put_contributor c t) = table_sum co_power t + co_power c"
  by (auto simp: put_contributor_def merged_contributor_def table_sum_update split: option.split)

lemma contributor_length_put [ledger_simps]:
  "length (put_contributor c t) = (if map_of t (co_id c) = None then Suc (length t) else length t)"
  by (simp add: put_contributor_def length_update)

lemma metric_change [ledger_simps]:
  "metric_or_new (map_of (change_metric f t) global_id) = f (metric_or_new (map_of t global_id))"
  by (simp add: change_metric_def AList.update_conv' metric_or_new_def)

lemma powerSum_put [ledger_simps]: "powerSum_of (put_metrics b n t) = powerSum_of t + n"
  by (simp add: powerSum_of_def put_metrics_def metric_change add_power_def add_member_def)

lemma memberCount_put [ledger_simps]:
  "memberCount_of (put_metrics b n t) = memberCount_of t + (if b then 1 else 0)"
  by (simp add: memberCount_of_def put_metrics_def metric_change add_power_def add_member_def)

lemma keyed_put_metrics: "keyed dm_id t \<Longrightarrow> keyed dm_id (put_metrics b n t)"
  by (simp add: put_metrics_def keyed_change_metric)

subsection \<open>The mappings\<close>

lemma put_mapping_wf: "wf_mappings t \<Longrightarrow> wf_mappings (put_mapping_power f n t)"
proof (cases "map_of t f")
  case None
  then show "wf_mappings t \<Longrightarrow> ?thesis" by (simp add: put_mapping_power_def)
next
  case (Some m)
  assume wf: "wf_mappings t"
  then have k: "keyed map_id t" by (simp add: wf_mappings_def keyed_mappings_def)
  have "map_id m = f" using keyed_lookup [OF k Some] .
  with wf k rows_lookup [OF Some] show ?thesis
    by (auto simp: put_mapping_power_def Some wf_mappings_def keyed_mappings_def keyed_update
        rows_update)
qed

lemma mappings_to_put_power [ledger_simps]:
  "mappings_to k (put_mapping_power f n t) = mappings_to k t"
  by (simp add: put_mapping_power_def mappings_to_def table_count_def table_sum_update
      split: option.split)

subsection \<open>One delegation keeps the invariants\<close>

lemma after_delegate_keyed:
  assumes "keyed_world w" and "wf_mappings (delegateMappings w)" and "wf_delegates (delegates w)"
    and "wf_delegate d"
  shows "keyed_world (after_delegate env d w)"
  using assms put_delegate_wf [of "delegates w" d] put_mapping_wf [of "delegateMappings w"]
  by (simp add: keyed_world_def after_delegate_def Let_def put_contributor_keyed
      keyed_put_metrics wf_delegates_def wf_mappings_def keyed_mappings_def)

lemma after_delegate_ledger:
  assumes "ledger_inv w" and "wf_delegate d"
  shows "ledger_inv (after_delegate env d w)"
  using assms after_delegate_keyed [of w d env]
  by (simp add: ledger_inv_def after_delegate_def Let_def put_delegate_wf put_mapping_wf
      ledger_simps)

lemma after_delegate_members:
  assumes "members_inv w"
  shows "members_inv (after_delegate env d w)"
  using assms
  by (simp add: members_inv_def after_delegate_def Let_def ledger_simps)

end
