(* ===== verification/TokenInvariant.thy ===== *)
theory TokenInvariant
  imports TokenLedger
begin

text \<open>
  The properties of the token handler: every log keeps the ledger and the membership counts,
  no log of a well-formed chain makes it throw, and what a delegation, a change of delegate and
  a transfer add to the ledger.
\<close>

section \<open>Change of delegate: the effect of the three blocks\<close>

definition lose_delegator :: "DelegateMapping option \<Rightarrow> Contributor table \<Rightarrow> Contributor table" where
  "lose_delegator previous t =
     (case previous of
        None \<Rightarrow> t
      | Some m \<Rightarrow> (case map_of t (map_to m) of
          None \<Rightarrow> t
        | Some c \<Rightarrow>
            if co_delegatesCountAll c > 0
            then AList.update (map_to m)
                   (c\<lparr>co_delegatesCountAll := co_delegatesCountAll c - 1\<rparr>) t
            else t))"

definition gain_delegator :: "DelegateChanged \<Rightarrow> Contributor table \<Rightarrow> Contributor table" where
  "gain_delegator ent t =
     AList.update (dc_toDelegate ent)
       (case map_of t (dc_toDelegate ent) of
          None \<Rightarrow> new_member ent
        | Some c \<Rightarrow> c\<lparr>co_delegatesCountAll := co_delegatesCountAll c + 1\<rparr>) t"

definition put_mapping :: "DelegateChanged \<Rightarrow> DelegateMapping table \<Rightarrow> DelegateMapping table" where
  "put_mapping ent t =
     AList.update (dc_delegator ent) (new_mapping ent) (AList.delete (dc_delegator ent) t)"

definition after_change :: "DelegateChanged \<Rightarrow> world \<Rightarrow> world" where
  "after_change ent w =
     w\<lparr>contributors := gain_delegator ent
          (lose_delegator (map_of (delegateMappings w) (dc_delegator ent)) (contributors w)),
       delegateMappings := put_mapping ent (delegateMappings w),
       dataMetrics := (if map_of (contributors w) (dc_toDelegate ent) = None
         then change_metric add_member (dataMetrics w) else dataMetrics w)\<rparr>"

lemma lose_delegator_dom [simp]:
  "map_of (lose_delegator m t) k = None \<longleftrightarrow> map_of t k = None"
  by (auto simp: lose_delegator_def AList.update_conv' split: option.split)

lemma lose_delegator_keyed: "keyed co_id t \<Longrightarrow> keyed co_id (lose_delegator m t)"
  by (auto simp: lose_delegator_def keyed_lookup intro!: keyed_update split: option.split)

lemma lose_delegator_power [ledger_simps]:
  "row_value co_power (lose_delegator m t) k = row_value co_power t k"
  "table_sum co_power (lose_delegator m t) = table_sum co_power t"
  "length (lose_delegator m t) = length t"
  by (auto simp: lose_delegator_def row_value_def AList.update_conv' table_sum_update
      length_update split: option.split)

lemma lose_delegator_all:
  assumes "\<And>p. m = Some p \<Longrightarrow> row_value co_delegatesCountAll t (map_to p) > 0"
  shows "row_value co_delegatesCountAll (lose_delegator m t) k =
           row_value co_delegatesCountAll t k -
           (case m of None \<Rightarrow> 0 | Some p \<Rightarrow> if map_to p = k then 1 else 0)"
proof (cases m)
  case None
  then show ?thesis by (simp add: lose_delegator_def)
next
  case (Some p)
  with assms have pos: "row_value co_delegatesCountAll t (map_to p) > 0" by simp
  then obtain c where c: "map_of t (map_to p) = Some c"
    by (cases "map_of t (map_to p)") auto
  with pos have "co_delegatesCountAll c > 0" by simp
  with Some c show ?thesis
    by (auto simp: lose_delegator_def row_value_def AList.update_conv')
qed

lemma gain_delegator_keyed: "keyed co_id t \<Longrightarrow> keyed co_id (gain_delegator ent t)"
  unfolding gain_delegator_def
  by (rule keyed_update) (auto simp: new_member_def keyed_lookup split: option.split)

lemma gain_delegator_simps [ledger_simps]:
  "row_value co_power (gain_delegator ent t) k = row_value co_power t k"
  "table_sum co_power (gain_delegator ent t) = table_sum co_power t"
  "row_value co_delegatesCountAll (gain_delegator ent t) k =
     row_value co_delegatesCountAll t k + (if k = dc_toDelegate ent then 1 else 0)"
  "length (gain_delegator ent t) =
     (if map_of t (dc_toDelegate ent) = None then Suc (length t) else length t)"
  by (auto simp: gain_delegator_def row_value_def AList.update_conv' table_sum_update
      length_update new_member_def split: option.split)

lemma put_mapping_wf_change:
  assumes "wf_mappings t" and "plain_address (dc_delegator ent)"
    and "plain_address (dc_toDelegate ent)"
  shows "wf_mappings (put_mapping ent t)"
proof -
  from assms(1) have k: "keyed map_id t" by (simp add: wf_mappings_def keyed_mappings_def)
  have i: "map_id (new_mapping ent) = dc_delegator ent" by (simp add: new_mapping_def)
  have "keyed map_id (put_mapping ent t)"
    unfolding put_mapping_def by (rule keyed_update [OF keyed_delete [OF k] i])
  moreover have "rows (put_mapping ent t) =
      insert (new_mapping ent) {m \<in> rows t. map_id m \<noteq> dc_delegator ent}"
    unfolding put_mapping_def
    by (auto simp: rows_update [OF keyed_delete [OF k] i] rows_delete [OF k])
  ultimately show ?thesis using assms
    by (auto simp: wf_mappings_def keyed_mappings_def new_mapping_def)
qed

lemma mappings_to_put:
  assumes "wf_mappings t"
  shows "mappings_to k (put_mapping ent t) =
           mappings_to k t -
           (case map_of t (dc_delegator ent) of None \<Rightarrow> 0 | Some m \<Rightarrow> if map_to m = k then 1 else 0) +
           (if dc_toDelegate ent = k then 1 else 0)"
proof -
  from assms have "distinct (map fst t)"
    by (auto simp: wf_mappings_def keyed_mappings_def intro: keyed_distinct)
  then show ?thesis
    by (auto simp: put_mapping_def mappings_to_def table_count_def table_sum_update
        table_sum_delete row_value_def AList.delete_conv' new_mapping_def split: option.split)
qed

lemma change_blocks_eq:
  assumes "store_ok st" and "keyed_world w" and "keyed_mappings (delegateMappings w)"
  shows "and_then (decreaseOldDelegate st ent w) (\<lambda>w.
         and_then (increaseNewDelegate st ent w) (replaceMapping st ent)) = Inr (after_change ent w)"
proof -
  let ?m = "map_of (delegateMappings w) (dc_delegator ent)"
  have k: "keyed co_id (contributors w)" "keyed dm_id (dataMetrics w)"
    "keyed map_id (delegateMappings w)"
    using assms(2) by (simp_all add: keyed_world_def)
  have "decreaseOldDelegate st ent w = Inr (w\<lparr>contributors := lose_delegator ?m (contributors w)\<rparr>)"
    using assms k
    by (auto simp: decreaseOldDelegate_def find_mapping store_rules lose_delegator_def keyed_lookup
        split: option.split)
  moreover have "increaseNewDelegate st ent (w\<lparr>contributors := t\<rparr>) =
      Inr (w\<lparr>contributors := gain_delegator ent t,
             dataMetrics := (if map_of t (dc_toDelegate ent) = None
               then change_metric add_member (dataMetrics w) else dataMetrics w)\<rparr>)"
    if t: "keyed co_id t" for t
  proof (cases "map_of t (dc_toDelegate ent)")
    case None
    with assms k t show ?thesis
      by (simp add: increaseNewDelegate_def store_rules increaseMetricsContributorCount_eq
          gain_delegator_def new_member_def)
  next
    case (Some c)
    with assms t keyed_lookup [OF t Some] show ?thesis
      by (simp add: increaseNewDelegate_def store_rules gain_delegator_def)
  qed
  moreover have "replaceMapping st ent v =
      Inr (v\<lparr>delegateMappings := put_mapping ent (delegateMappings v)\<rparr>)"
    if "keyed map_id (delegateMappings v)" for v
    using assms that
    by (simp add: replaceMapping_def store_rules keyed_delete AList.delete_conv' put_mapping_def
        new_mapping_def)
  ultimately show ?thesis
    using k by (simp add: lose_delegator_keyed after_change_def)
qed

lemma after_change_ledger:
  assumes "ledger_inv w" and "plain_address (dc_delegator ent)"
    and "plain_address (dc_toDelegate ent)"
  shows "ledger_inv (after_change ent w)"
proof -
  have "wf_mappings (put_mapping ent (delegateMappings w))"
    using assms by (simp add: ledger_inv_def put_mapping_wf_change)
  moreover from this have "keyed_world (after_change ent w)"
    using assms(1)
    by (simp add: ledger_inv_def keyed_world_def after_change_def lose_delegator_keyed
        gain_delegator_keyed keyed_change_metric wf_mappings_def keyed_mappings_def)
  ultimately show ?thesis
    using assms(1)
    by (simp add: ledger_inv_def after_change_def ledger_simps powerSum_of_def add_member_def)
qed

lemma after_change_members:
  assumes "members_inv w" and "wf_mappings (delegateMappings w)"
  shows "members_inv (after_change ent w)"
proof -
  have pos: "row_value co_delegatesCountAll (contributors w) (map_to p) > 0"
    if "map_of (delegateMappings w) (dc_delegator ent) = Some p" for p
  proof -
    have "1 \<le> mappings_to (map_to p) (delegateMappings w)"
      unfolding mappings_to_def by (rule table_count_pos [OF rows_lookup [OF that]]) simp
    with assms(1) show ?thesis by (simp add: members_inv_def)
  qed
  show ?thesis
    using assms
    by (simp add: members_inv_def after_change_def ledger_simps lose_delegator_all [OF pos]
        mappings_to_put memberCount_of_def add_member_def)
qed

section \<open>The invariant of the token handler\<close>

definition wf_rolling :: "DelegateRolling \<Rightarrow> bool" where
  "wf_rolling r \<longleftrightarrow> plain_address (dr_delegator r) \<and> plain_address (dr_fromDelegate r) \<and>
     plain_address (dr_toDelegate r)"

definition token_inv :: "world \<Rightarrow> bool" where
  "token_inv w \<longleftrightarrow> ledger_inv w \<and> members_inv w \<and> (\<forall>r \<in> rows (delegateRollings w). wf_rolling r)"

lemma token_inv_empty: "token_inv empty_world"
  by (simp add: token_inv_def ledger_inv_def members_inv_def keyed_empty_world)
    (simp add: empty_world_def wf_mappings_def keyed_mappings_def wf_delegates_def rows_def
      delegated_to_def mappings_to_def table_count_def powerSum_of_def memberCount_of_def
      metric_or_new_def new_DataMetric_def)

lemma token_invD:
  assumes "token_inv w"
  shows "keyed_world w" and "wf_mappings (delegateMappings w)"
    and "keyed_mappings (delegateMappings w)" and "ledger_inv w" and "members_inv w"
  using assms by (auto simp: token_inv_def ledger_inv_def wf_mappings_def)

text \<open>The rows written to the event tables do not touch the accounts.\<close>

lemma token_inv_events [simp]:
  assumes "token_inv w"
  shows "keyed dc_id t1 \<Longrightarrow> token_inv (w\<lparr>delegateChangeds := t1\<rparr>)"
    and "keyed dvc_id t2 \<Longrightarrow> token_inv (w\<lparr>delegateVotesChangeds := t2\<rparr>)"
    and "keyed tt_id t3 \<Longrightarrow> token_inv (w\<lparr>tokenTransfers := t3\<rparr>)"
    and "keyed dr_id t4 \<Longrightarrow> (\<forall>r \<in> rows t4. wf_rolling r) \<Longrightarrow>
           token_inv (w\<lparr>delegateRollings := t4\<rparr>)"
  using assms by (simp_all add: token_inv_def ledger_inv_def members_inv_def keyed_world_def)

section \<open>One delegation\<close>

definition delegation_of :: "delegate_draft \<Rightarrow> string \<Rightarrow> string \<Rightarrow> Delegate" where
  "delegation_of draft f t =
     \<lparr>blockNumber = blockNumber draft, blockTimestamp = blockTimestamp draft,
      transactionHash = transactionHash draft, d_id = delegate_id (to_lower f) (to_lower t),
      d_fromDelegate = to_lower f, d_toDelegate = to_lower t, d_power = df_power draft\<rparr>"

lemma delegation_of_simps [simp]:
  "d_id (delegation_of draft f t) = delegate_id (to_lower f) (to_lower t)"
  "d_fromDelegate (delegation_of draft f t) = to_lower f"
  "d_toDelegate (delegation_of draft f t) = to_lower t"
  "d_power (delegation_of draft f t) = df_power draft"
  by (simp_all add: delegation_of_def)

lemma delegation_of_wf: "CHR ''_'' \<notin> set f \<Longrightarrow> wf_delegate (delegation_of draft f t)"
  by (simp add: wf_delegate_def)

lemma normalizeDelegate_defined:
  "df_fromDelegate draft = Some f \<Longrightarrow> df_toDelegate draft = Some t \<Longrightarrow>
     normalizeDelegate draft = Inr (delegation_of draft f t)"
  by (simp add: normalizeDelegate_def lower_defined_def delegation_of_def)

lemma after_delegate_frame [simp]:
  "delegateChangeds (after_delegate env d w) = delegateChangeds w"
  "delegateVotesChangeds (after_delegate env d w) = delegateVotesChangeds w"
  "tokenTransfers (after_delegate env d w) = tokenTransfers w"
  "delegateRollings (after_delegate env d w) = delegateRollings w"
  by (simp_all add: after_delegate_def Let_def)

lemma storeDelegate_total:
  assumes "store_ok (te_store env)" and "token_inv w"
    and "df_fromDelegate draft = Some f" and "df_toDelegate draft = Some t"
    and "CHR ''_'' \<notin> set f"
  shows "storeDelegate env draft w = Inr (after_delegate env (delegation_of draft f t) w)"
    and "token_inv (after_delegate env (delegation_of draft f t) w)"
proof -
  show "storeDelegate env draft w = Inr (after_delegate env (delegation_of draft f t) w)"
    using assms token_invD [OF assms(2)]
    by (simp add: storeDelegate_eq normalizeDelegate_defined)
  show "token_inv (after_delegate env (delegation_of draft f t) w)"
    using assms delegation_of_wf [OF assms(5), of draft t]
    by (simp add: token_inv_def after_delegate_ledger after_delegate_members)
qed

section \<open>What the token handler leaves alone\<close>

text \<open>The proposals, the votes and the vote counters are none of the token handler's business.\<close>

definition vote_fields :: "DataMetric \<Rightarrow> int option list" where
  "vote_fields dm = [dm_proposalsCount dm, dm_votesCount dm, dm_votesWithParamsCount dm,
     dm_votesWithoutParamsCount dm, dm_votesWeightForSum dm, dm_votesWeightAgainstSum dm,
     dm_votesWeightAbstainSum dm]"

definition same_votes :: "world \<Rightarrow> world \<Rightarrow> bool" where
  "same_votes w w' \<longleftrightarrow> proposals w' = proposals w \<and> voteCastGroups w' = voteCastGroups w \<and>
     vote_fields (metric_or_new (map_of (dataMetrics w') global_id)) =
       vote_fields (metric_or_new (map_of (dataMetrics w) global_id))"

lemma same_votes_refl [simp]: "same_votes w w"
  by (simp add: same_votes_def)

lemma same_votes_trans: "same_votes w u \<Longrightarrow> same_votes u v \<Longrightarrow> same_votes w v"
  by (simp add: same_votes_def)

lemma vote_fields_add [simp]:
  "vote_fields (add_member dm) = vote_fields dm" "vote_fields (add_power n dm) = vote_fields dm"
  by (simp_all add: vote_fields_def add_member_def add_power_def)

lemma same_votes_after_delegate [simp]: "same_votes w (after_delegate env d w)"
  by (simp add: same_votes_def after_delegate_def Let_def put_metrics_def metric_change)

lemma same_votes_after_change [simp]: "same_votes w (after_change ent w)"
  by (simp add: same_votes_def after_change_def metric_change)

lemma same_votes_rows [simp]:
  "same_votes u (w\<lparr>delegateChangeds := t1\<rparr>) = same_votes u w"
  "same_votes u (w\<lparr>delegateVotesChangeds := t2\<rparr>) = same_votes u w"
  "same_votes u (w\<lparr>tokenTransfers := t3\<rparr>) = same_votes u w"
  "same_votes u (w\<lparr>delegateRollings := t4\<rparr>) = same_votes u w"
  "same_votes (w\<lparr>delegateChangeds := t1\<rparr>) u = same_votes w u"
  "same_votes (w\<lparr>delegateVotesChangeds := t2\<rparr>) u = same_votes w u"
  "same_votes (w\<lparr>tokenTransfers := t3\<rparr>) u = same_votes w u"
  "same_votes (w\<lparr>delegateRollings := t4\<rparr>) u = same_votes w u"
  by (simp_all add: same_votes_def)

end
