(* ===== verification/Handlers.thy ===== *)
theory Handlers
  imports Schema
begin

text \<open>
  The contract between the batch processor of \<open>packages/indexer/src/main.ts\<close> and the handlers it
  hands each log to: a handler keeps its invariant whenever it returns, returns on every log it
  is ready for, and processing one log leaves it ready for the logs with other ids. What the
  processor gets from it, for a whole list of logs, is proved once in the locale.
\<close>

locale log_handler =
  fixes handle :: "EvmLog \<Rightarrow> 's \<Rightarrow> 's outcome"
    and inv :: "'s \<Rightarrow> bool"
    and ready :: "EvmLog \<Rightarrow> 's \<Rightarrow> bool"
  assumes keeps: "inv w \<Longrightarrow> handle l w = Inr w' \<Longrightarrow> inv w'"
    and returns: "inv w \<Longrightarrow> ready l w \<Longrightarrow> \<exists>w'. handle l w = Inr w'"
    and stays_ready: "inv w \<Longrightarrow> handle l w = Inr w' \<Longrightarrow> log_id l' \<noteq> log_id l \<Longrightarrow>
           ready l' w \<Longrightarrow> ready l' w'"
begin

lemma logs_keep:
  assumes "fold_outcome handle ls w = Inr w'" and "inv w"
  shows "inv w'"
  using assms by (rule fold_outcome_invariant) (rule keeps)

lemma logs_return:
  assumes "inv w" and "distinct (map log_id ls)" and "\<forall>l \<in> set ls. ready l w"
  shows "\<exists>w'. fold_outcome handle ls w = Inr w' \<and> inv w'"
  using assms
proof (induction ls arbitrary: w)
  case Nil
  then show ?case by simp
next
  case (Cons l ls)
  then obtain w1 where w1: "handle l w = Inr w1" using returns by force
  with Cons.prems have "inv w1" by (meson keeps)
  moreover have "\<forall>l' \<in> set ls. ready l' w1"
  proof
    fix l' assume l': "l' \<in> set ls"
    with Cons.prems(2) have "log_id l' \<noteq> log_id l" by (auto simp: image_iff)
    with l' Cons.prems w1 show "ready l' w1" by (auto intro: stays_ready)
  qed
  ultimately show ?case using Cons w1 by simp
qed

lemma logs_split:
  "fold_outcome handle (ls @ ls') w = and_then (fold_outcome handle ls w) (fold_outcome handle ls')"
  by (rule fold_outcome_append)

end

end
