(* ===== verification/TokenEvents.thy ===== *)
theory TokenEvents
  imports TokenInvariant Handlers
begin

text \<open>
  The three event handlers of the token as functions on a well-formed database, and the contract
  \<open>log_handler\<close> for the whole handler: it keeps \<open>token_inv\<close>, and on decodable logs with fresh
  ids it returns.
\<close>

section \<open>DelegateChanged\<close>

lemma after_change_frame [simp]:
  "delegateChangeds (after_change ent w) = delegateChangeds w"
  "delegateVotesChangeds (after_change ent w) = delegateVotesChangeds w"
  "tokenTransfers (after_change ent w) = tokenTransfers w"
  "delegateRollings (after_change ent w) = delegateRollings w"
  "delegates (after_change ent w) = delegates w"
  by (simp_all add: after_change_def)

lemma delegate_changed_entity_simps [simp]:
  "dc_id (delegate_changed_entity l e) = log_id l"
  "dc_delegator (delegate_changed_entity l e) = ev_delegator e"
  "dc_fromDelegate (delegate_changed_entity l e) = ev_fromDelegate e"
  "dc_toDelegate (delegate_changed_entity l e) = ev_toDelegate e"
  "transactionHash (delegate_changed_entity l e) = log_transactionHash l"
  by (simp_all add: delegate_changed_entity_def)

lemma new_rolling_simps [simp]:
  "dr_id (new_rolling l e) = log_id l" "dr_delegator (new_rolling l e) = ev_delegator e"
  "dr_fromDelegate (new_rolling l e) = ev_fromDelegate e"
  "dr_toDelegate (new_rolling l e) = ev_toDelegate e"
  "transactionHash (new_rolling l e) = log_transactionHash l"
  by (simp_all add: new_rolling_def)

text \<open>The database after the event row, the three blocks and the rolling row.\<close>

definition after_changed_event :: "EvmLog \<Rightarrow> delegate_changed_event \<Rightarrow> world \<Rightarrow> world" where
  "after_changed_event l e w =
     (after_change (delegate_changed_entity l e)
        (w\<lparr>delegateChangeds :=
             AList.update (log_id l) (delegate_changed_entity l e) (delegateChangeds w)\<rparr>))
       \<lparr>delegateRollings := AList.update (log_id l) (new_rolling l e) (delegateRollings w)\<rparr>"

lemma after_changed_event_frame:
  "delegateChangeds (after_changed_event l e w) =
     AList.update (log_id l) (delegate_changed_entity l e) (delegateChangeds w)"
  "delegateRollings (after_changed_event l e w) =
     AList.update (log_id l) (new_rolling l e) (delegateRollings w)"
  "delegateVotesChangeds (after_changed_event l e w) = delegateVotesChangeds w"
  "tokenTransfers (after_changed_event l e w) = tokenTransfers w"
  "delegates (after_changed_event l e w) = delegates w"
  by (simp_all add: after_changed_event_def)

lemma same_votes_changed: "same_votes w (after_changed_event l e w)"
  unfolding after_changed_event_def same_votes_rows
  by (rule same_votes_trans [OF _ same_votes_after_change]) simp

definition plain_change :: "delegate_changed_event \<Rightarrow> bool" where
  "plain_change e \<longleftrightarrow> plain_address (ev_delegator e) \<and> plain_address (ev_fromDelegate e) \<and>
     plain_address (ev_toDelegate e)"

lemma after_changed_event_inv:
  assumes "token_inv w" and "plain_change e"
  shows "token_inv (after_changed_event l e w)"
proof -
  let ?e = "delegate_changed_entity l e"
  let ?w = "w\<lparr>delegateChangeds := AList.update (log_id l) ?e (delegateChangeds w)\<rparr>"
  from token_invD(1) [OF assms(1)] have k: "keyed dr_id (delegateRollings w)"
    "keyed dc_id (delegateChangeds w)"
    by (simp_all add: keyed_world_def)
  from k assms(1) have i: "token_inv ?w" by (simp add: keyed_update)
  have "\<forall>r \<in> rows (delegateRollings w). wf_rolling r" using assms(1) by (simp add: token_inv_def)
  then have "token_inv (after_change ?e ?w)"
    unfolding token_inv_def
    using assms(2) token_invD [OF i] by (simp add: after_change_ledger after_change_members plain_change_def)
  moreover have "\<forall>r \<in> rows (AList.update (log_id l) (new_rolling l e) (delegateRollings w)). wf_rolling r"
    using assms rows_update [OF k(1), of "new_rolling l e" "log_id l"]
    by (auto simp: token_inv_def wf_rolling_def plain_change_def)
  ultimately show ?thesis
    using k by (simp add: after_changed_event_def keyed_update)
qed

lemma change_blocks_then:
  assumes "store_ok st" and "token_inv w"
  shows "and_then (decreaseOldDelegate st ent w) (\<lambda>w.
         and_then (increaseNewDelegate st ent w) (\<lambda>w.
         and_then (replaceMapping st ent w) g)) = g (after_change ent w)"
proof -
  have "and_then (and_then (decreaseOldDelegate st ent w) (\<lambda>w.
      and_then (increaseNewDelegate st ent w) (replaceMapping st ent))) g = g (after_change ent w)"
    by (simp only: change_blocks_eq [OF assms(1) token_invD(1,3) [OF assms(2)]] and_then_Inr)
  then show ?thesis by (simp only: and_then_assoc)
qed

lemma storeDelegateChanged_eq:
  assumes "store_ok (te_store env)" and "token_inv w"
    and "decode_DelegateChanged (te_codec env) (itokenAbi env) l = Inr e"
    and "map_of (delegateChangeds w) (log_id l) = None"
    and "map_of (delegateRollings w) (log_id l) = None"
  shows "storeDelegateChanged env l w =
    (if ev_fromDelegate e = zeroAddress \<and> ev_delegator e = ev_toDelegate e
     then storeDelegate env (self_delegate (delegate_changed_entity l e)) (after_changed_event l e w)
     else Inr (after_changed_event l e w))"
proof -
  let ?e = "delegate_changed_entity l e"
  let ?w = "w\<lparr>delegateChangeds := AList.update (log_id l) ?e (delegateChangeds w)\<rparr>"
  from token_invD(1) [OF assms(2)] have k: "keyed dr_id (delegateRollings w)"
    "keyed dc_id (delegateChangeds w)"
    by (simp_all add: keyed_world_def)
  from k assms(2) have i: "token_inv ?w" by (simp add: keyed_update)
  show ?thesis
    using assms k
    by (simp add: storeDelegateChanged_def store_rules change_blocks_then [OF _ i]
        after_changed_event_def Let_def)
qed

lemma self_delegate_simps [simp]:
  "df_fromDelegate (self_delegate ent) = Some (dc_delegator ent)"
  "df_toDelegate (self_delegate ent) = Some (dc_toDelegate ent)"
  "df_power (self_delegate ent) = 0"
  by (simp_all add: self_delegate_def)

lemma storeDelegateChanged_returns:
  assumes "store_ok (te_store env)" and "token_inv w"
    and "decode_DelegateChanged (te_codec env) (itokenAbi env) l = Inr e" and "plain_change e"
    and "map_of (delegateChangeds w) (log_id l) = None"
    and "map_of (delegateRollings w) (log_id l) = None"
  shows "\<exists>w'. storeDelegateChanged env l w = Inr w' \<and> token_inv w' \<and>
    delegateChangeds w' = AList.update (log_id l) (delegate_changed_entity l e) (delegateChangeds w) \<and>
    delegateRollings w' = AList.update (log_id l) (new_rolling l e) (delegateRollings w) \<and>
    delegateVotesChangeds w' = delegateVotesChangeds w \<and> tokenTransfers w' = tokenTransfers w \<and>
    same_votes w w'"
proof -
  have i: "token_inv (after_changed_event l e w)"
    using assms by (simp add: after_changed_event_inv)
  have "CHR ''_'' \<notin> set (ev_delegator e)"
    using assms(4) by (simp add: plain_change_def plain_address_underscore)
  note s = storeDelegate_total [OF assms(1) i _ _ this, of "self_delegate (delegate_changed_entity l e)"]
  note eq = storeDelegateChanged_eq [OF assms(1-3,5,6)]
  show ?thesis
  proof (cases "ev_fromDelegate e = zeroAddress \<and> ev_delegator e = ev_toDelegate e")
    case True
    let ?v = "after_delegate env (delegation_of (self_delegate (delegate_changed_entity l e))
      (ev_delegator e) (ev_toDelegate e)) (after_changed_event l e w)"
    have "same_votes w ?v" by (rule same_votes_trans [OF same_votes_changed same_votes_after_delegate])
    with True s [of "ev_toDelegate e"] show ?thesis by (simp add: eq after_changed_event_frame)
  next
    case False
    with i show ?thesis by (auto simp add: eq after_changed_event_frame same_votes_changed)
  qed
qed

lemma storeDelegateChanged_inv:
  assumes "store_ok (te_store env)" and "token_inv w" and "storeDelegateChanged env l w = Inr w'"
  obtains e where "decode_DelegateChanged (te_codec env) (itokenAbi env) l = Inr e"
    and "map_of (delegateChangeds w) (log_id l) = None"
    and "map_of (delegateRollings w) (log_id l) = None"
proof -
  let ?ent = "delegate_changed_entity l"
  from assms(3) obtain e t where e: "decode_DelegateChanged (te_codec env) (itokenAbi env) l = Inr e"
    and t: "insert_row (delegateChangedRepo (te_store env)) (?ent e) (delegateChangeds w) = Inr t"
    and rest: "and_then (decreaseOldDelegate (te_store env) (?ent e) (w\<lparr>delegateChangeds := t\<rparr>)) (\<lambda>w.
     and_then (increaseNewDelegate (te_store env) (?ent e) w) (\<lambda>w.
     and_then (replaceMapping (te_store env) (?ent e) w) (\<lambda>w.
     and_then (insert_DelegateRolling (te_store env) (new_rolling l e) w) (\<lambda>w.
     if ev_fromDelegate e = zeroAddress \<and> ev_delegator e = ev_toDelegate e
     then storeDelegate env (self_delegate (?ent e)) w
     else Inr w)))) = Inr w'"
    unfolding storeDelegateChanged_def Let_def and_then_eq_Inr
    by (auto simp: and_then_eq_Inr)
  have k: "keyed dr_id (delegateRollings w)" "keyed dc_id (delegateChangeds w)"
    using token_invD(1) [OF assms(2)] by (simp_all add: keyed_world_def)
  from repository.insert_inv [OF store_ok_repositories(1) [OF assms(1)] k(2) t]
  have n: "map_of (delegateChangeds w) (log_id l) = None"
    and t': "t = AList.update (log_id l) (?ent e) (delegateChangeds w)" by simp_all
  have i: "token_inv (w\<lparr>delegateChangeds := t\<rparr>)"
    using assms(2) k t' by (simp add: keyed_update)
  from rest obtain t2 where
    "insert_row (delegateRollingRepo (te_store env)) (new_rolling l e) (delegateRollings w) = Inr t2"
    by (auto simp: change_blocks_then [OF assms(1) i] and_then_eq_Inr)
  from repository.insert_inv [OF store_ok_repositories(13) [OF assms(1)] k(1) this]
  have "map_of (delegateRollings w) (log_id l) = None" by simp
  with that e n show thesis by blast
qed

section \<open>DelegateVotesChanged\<close>

lemma resolveRolling_total:
  assumes "wf_rolling r"
    and "dvc_delegate options = dr_fromDelegate r \<or> dvc_delegate options = dr_toDelegate r"
  obtains r' f t where "resolveRolling options r = (r', Some f, Some t)"
    and "wf_rolling r'" and "dr_id r' = dr_id r" and "plain_address f" and "plain_address t"
proof -
  obtain r' from1 to1 where eq: "resolveRolling options r = (r', from1, to1)"
    by (metis prod_cases3)
  have "\<exists>f t. from1 = Some f \<and> to1 = Some t \<and> plain_address f \<and> plain_address t \<and>
      wf_rolling r' \<and> dr_id r' = dr_id r"
    using eq assms
    by (auto simp: resolveRolling_def wf_rolling_def Let_def split: if_splits)
  with eq that show thesis by blast
qed

lemma votes_changed_entity_simps [simp]:
  "dvc_id (votes_changed_entity l e) = log_id l"
  "dvc_delegate (votes_changed_entity l e) = ev_delegate e"
  "transactionHash (votes_changed_entity l e) = log_transactionHash l"
  by (simp_all add: votes_changed_entity_def)

lemma rolling_delegate_simps [simp]:
  "df_fromDelegate (rolling_delegate options r f t) = f"
  "df_toDelegate (rolling_delegate options r f t) = t"
  "df_power (rolling_delegate options r f t) = dvc_newVotes options - dvc_previousVotes options"
  by (simp_all add: rolling_delegate_def)

lemma token_inv_rollings:
  assumes "token_inv w" and "wf_rolling r"
  shows "token_inv (w\<lparr>delegateRollings := AList.update (dr_id r) r (delegateRollings w)\<rparr>)"
proof -
  from token_invD(1) [OF assms(1)] have k: "keyed dr_id (delegateRollings w)"
    by (simp add: keyed_world_def)
  have "\<forall>x \<in> rows (AList.update (dr_id r) r (delegateRollings w)). wf_rolling x"
    using assms rows_update [OF k, of r "dr_id r"] by (auto simp: token_inv_def)
  with k assms(1) show ?thesis by (simp add: keyed_update)
qed

lemma updateDelegateRolling_returns:
  assumes "store_ok (te_store env)" and "token_inv w" and "plain_address (dvc_delegate options)"
  shows "\<exists>w'. updateDelegateRolling env options w = Inr w' \<and> token_inv w' \<and>
    delegateChangeds w' = delegateChangeds w \<and> tokenTransfers w' = tokenTransfers w \<and>
    delegateVotesChangeds w' = delegateVotesChangeds w \<and>
    (\<forall>k. map_of (delegateRollings w') k = None \<longleftrightarrow> map_of (delegateRollings w) k = None) \<and>
    same_votes w w'"
proof -
  from token_invD(1) [OF assms(2)] have k: "keyed dr_id (delegateRollings w)"
    by (simp add: keyed_world_def)
  obtain found where found: "findOne (delegateRollingRepo (te_store env))
      (\<lambda>r. transactionHash r = transactionHash options) (delegateRollings w) = Inr found"
    and r: "\<And>r. found = Some r \<Longrightarrow> r \<in> rows (delegateRollings w)"
    using repository.find_law [OF store_ok_repositories(13) [OF assms(1)] k,
        of "\<lambda>r. transactionHash r = transactionHash options"]
    by (auto split: option.splits)
  show ?thesis
  proof (cases "\<exists>r. found = Some r \<and>
      (dvc_delegate options = dr_fromDelegate r \<or> dvc_delegate options = dr_toDelegate r)")
    case False
    with found assms show ?thesis
      by (auto simp: updateDelegateRolling_def Let_def split: option.split)
  next
    case True
    then obtain r where f: "found = Some r"
      and d: "dvc_delegate options = dr_fromDelegate r \<or> dvc_delegate options = dr_toDelegate r"
      by blast
    from r [OF f] assms(2) have wf: "wf_rolling r" by (simp add: token_inv_def)
    from r [OF f] k have old: "map_of (delegateRollings w) (dr_id r) = Some r"
      by (simp add: keyed_rows)
    obtain r' a b where res: "resolveRolling options r = (r', Some a, Some b)"
      and r': "wf_rolling r'" "dr_id r' = dr_id r" and pl: "plain_address a" "plain_address b"
      using resolveRolling_total [OF wf d] .
    let ?w = "w\<lparr>delegateRollings := AList.update (dr_id r) r' (delegateRollings w)\<rparr>"
    have i: "token_inv ?w" using token_inv_rollings [OF assms(2) r'(1)] r'(2) by simp
    have "CHR ''_'' \<notin> set a" using pl(1) by (simp add: plain_address_underscore)
    note s = storeDelegate_total [OF assms(1) i _ _ this, of "rolling_delegate options r' (Some a) (Some b)" b]
    have "updateDelegateRolling env options w =
        storeDelegate env (rolling_delegate options r' (Some a) (Some b)) ?w"
      using assms found f d k r'(2)
      by (auto simp: updateDelegateRolling_def Let_def res save_rules)
    moreover have "same_votes w (after_delegate env d ?w)" for d
      by (rule same_votes_trans [OF _ same_votes_after_delegate]) simp
    ultimately show ?thesis using s old by (simp add: AList.update_conv')
  qed
qed

section \<open>Transfer\<close>

lemma mapped_delegate_simps [simp]:
  "df_fromDelegate (mapped_delegate ent m n) = Some (map_from m)"
  "df_toDelegate (mapped_delegate ent m n) = Some (map_to m)"
  "df_power (mapped_delegate ent m n) = n"
  by (simp_all add: mapped_delegate_def)

lemma transfer_entity_simps [simp]:
  "tt_id (transfer_entity env l e) = log_id l" "tt_from (transfer_entity env l e) = ev_from e"
  "tt_to (transfer_entity env l e) = ev_to e"
  by (simp_all add: transfer_entity_def)

text \<open>What the two calls of \<open>storeMappedDelegate\<close> do, in terms of the ledger step.\<close>

definition after_mapped ::
    "token_env \<Rightarrow> TokenTransfer \<Rightarrow> DelegateMapping option \<Rightarrow> int \<Rightarrow> world \<Rightarrow> world" where
  "after_mapped env ent m n w =
     (case m of
        None \<Rightarrow> w
      | Some m \<Rightarrow> after_delegate env (delegation_of (mapped_delegate ent m n) (map_from m) (map_to m)) w)"

lemma after_mapped_frame [simp]:
  "delegateChangeds (after_mapped env ent m n w) = delegateChangeds w"
  "delegateVotesChangeds (after_mapped env ent m n w) = delegateVotesChangeds w"
  "tokenTransfers (after_mapped env ent m n w) = tokenTransfers w"
  "delegateRollings (after_mapped env ent m n w) = delegateRollings w"
  by (simp_all add: after_mapped_def split: option.split)

lemma storeMappedDelegate_eq:
  assumes "store_ok (te_store env)" and "token_inv w"
    and "\<And>p. m = Some p \<Longrightarrow> plain_address (map_from p)"
  shows "storeMappedDelegate env ent m n w = Inr (after_mapped env ent m n w)"
    and "token_inv (after_mapped env ent m n w)"
proof -
  show "storeMappedDelegate env ent m n w = Inr (after_mapped env ent m n w)"
    using assms by (auto simp: storeMappedDelegate_def after_mapped_def storeDelegate_total
        plain_address_underscore split: option.split)
  show "token_inv (after_mapped env ent m n w)"
    using assms by (auto simp: after_mapped_def storeDelegate_total(2) [OF assms(1,2)]
        plain_address_underscore split: option.split)
qed

definition after_transfer :: "token_env \<Rightarrow> EvmLog \<Rightarrow> transfer_event \<Rightarrow> world \<Rightarrow> world" where
  "after_transfer env l e w =
     (let ent = transfer_entity env l e; n = transferPower env e
      in after_mapped env ent (map_of (delegateMappings w) (ev_to e)) n
           (after_mapped env ent (map_of (delegateMappings w) (ev_from e)) (- n)
             (w\<lparr>tokenTransfers := AList.update (log_id l) ent (tokenTransfers w)\<rparr>)))"

lemma storeTokenTransfer_eq:
  assumes "store_ok (te_store env)" and "token_inv w"
    and "decode_Transfer (te_codec env) (itokenAbi env) l = Inr e"
    and "map_of (tokenTransfers w) (log_id l) = None"
  shows "storeTokenTransfer env l w = Inr (after_transfer env l e w)"
    and "token_inv (after_transfer env l e w)"
proof -
  let ?ent = "transfer_entity env l e" and ?n = "transferPower env e"
  let ?w = "w\<lparr>tokenTransfers := AList.update (log_id l) ?ent (tokenTransfers w)\<rparr>"
  let ?mf = "map_of (delegateMappings w) (ev_from e)" and ?mt = "map_of (delegateMappings w) (ev_to e)"
  from token_invD(1) [OF assms(2)] have k: "keyed tt_id (tokenTransfers w)"
    by (simp add: keyed_world_def)
  with assms(2) have i: "token_inv ?w" by (simp add: keyed_update)
  have plain: "map_of (delegateMappings w) x = Some p \<Longrightarrow> plain_address (map_from p)" for x p
    using token_invD(2) [OF assms(2)] by (auto simp: wf_mappings_def dest!: rows_lookup)
  note 1 = storeMappedDelegate_eq [OF assms(1) i, of ?mf ?ent "- ?n"]
  note 2 = storeMappedDelegate_eq [OF assms(1) 1(2), of ?mt ?ent ?n]
  show "storeTokenTransfer env l w = Inr (after_transfer env l e w)"
    using assms k 1(1) 2(1) plain
    by (simp add: storeTokenTransfer_def insert_rules find_mapping token_invD(3) after_transfer_def
        Let_def)
  show "token_inv (after_transfer env l e w)"
    unfolding after_transfer_def Let_def using 2(2) plain by blast
qed

lemma same_votes_mapped: "same_votes w (after_mapped env ent m n w)"
  by (simp add: after_mapped_def split: option.split)

lemma same_votes_transfer: "same_votes w (after_transfer env l e w)"
  unfolding after_transfer_def Let_def
  by (rule same_votes_trans [OF same_votes_trans [OF _ same_votes_mapped] same_votes_mapped]) simp

lemma after_transfer_frame [simp]:
  "delegateChangeds (after_transfer env l e w) = delegateChangeds w"
  "delegateVotesChangeds (after_transfer env l e w) = delegateVotesChangeds w"
  "tokenTransfers (after_transfer env l e w) =
     AList.update (log_id l) (transfer_entity env l e) (tokenTransfers w)"
  "delegateRollings (after_transfer env l e w) = delegateRollings w"
  by (simp_all add: after_transfer_def Let_def)

section \<open>The contract of the handler\<close>

definition codec_plain :: "token_env \<Rightarrow> EvmLog \<Rightarrow> bool" where
  "codec_plain env l \<longleftrightarrow>
     (\<forall>e. decode_DelegateChanged (te_codec env) (itokenAbi env) l = Inr e \<longrightarrow> plain_change e) \<and>
     (\<forall>e. decode_DelegateVotesChanged (te_codec env) (itokenAbi env) l = Inr e \<longrightarrow>
        plain_address (ev_delegate e))"

lemma codec_ok_plain: "codec_ok (te_codec env) \<Longrightarrow> codec_plain env l"
  unfolding codec_ok_def codec_plain_def plain_change_def by blast

text \<open>A log the handler processes: its events decode, and no row has its id yet.\<close>

definition token_ready :: "token_env \<Rightarrow> EvmLog \<Rightarrow> world \<Rightarrow> bool" where
  "token_ready env l w \<longleftrightarrow>
     (has_topic l topic_DelegateChanged \<longrightarrow>
        (\<exists>e. decode_DelegateChanged (te_codec env) (itokenAbi env) l = Inr e)) \<and>
     (has_topic l topic_DelegateVotesChanged \<longrightarrow>
        (\<exists>e. decode_DelegateVotesChanged (te_codec env) (itokenAbi env) l = Inr e)) \<and>
     (has_topic l topic_Transfer \<longrightarrow>
        (\<exists>e. decode_Transfer (te_codec env) (itokenAbi env) l = Inr e)) \<and>
     map_of (delegateChangeds w) (log_id l) = None \<and>
     map_of (delegateVotesChangeds w) (log_id l) = None \<and>
     map_of (tokenTransfers w) (log_id l) = None \<and>
     map_of (delegateRollings w) (log_id l) = None"

text \<open>
  The four event tables after a log: rows of other ids are neither added nor removed. The votes
  are left alone.
\<close>

definition same_events_but :: "string \<Rightarrow> world \<Rightarrow> world \<Rightarrow> bool" where
  "same_events_but i w w' \<longleftrightarrow> same_votes w w' \<and>
     (\<forall>k. k \<noteq> i \<longrightarrow>
        (map_of (delegateChangeds w') k = None \<longleftrightarrow> map_of (delegateChangeds w) k = None) \<and>
        (map_of (delegateVotesChangeds w') k = None \<longleftrightarrow> map_of (delegateVotesChangeds w) k = None) \<and>
        (map_of (tokenTransfers w') k = None \<longleftrightarrow> map_of (tokenTransfers w) k = None) \<and>
        (map_of (delegateRollings w') k = None \<longleftrightarrow> map_of (delegateRollings w) k = None))"

lemma same_events_trans:
  "same_events_but i w w1 \<Longrightarrow> same_events_but i w1 w2 \<Longrightarrow> same_events_but i w w2"
  by (auto simp: same_events_but_def intro: same_votes_trans)

lemma same_events_refl [simp]: "same_events_but i w w"
  by (simp add: same_events_but_def)

lemma changed_step:
  assumes "store_ok (te_store env)" and "codec_ok (te_codec env)" and "token_inv w"
    and "storeDelegateChanged env l w = Inr w'"
  shows "token_inv w' \<and> same_events_but (log_id l) w w' \<and>
    delegateVotesChangeds w' = delegateVotesChangeds w \<and> tokenTransfers w' = tokenTransfers w"
proof -
  obtain e where e: "decode_DelegateChanged (te_codec env) (itokenAbi env) l = Inr e"
    "map_of (delegateChangeds w) (log_id l) = None" "map_of (delegateRollings w) (log_id l) = None"
    using storeDelegateChanged_inv [OF assms(1,3,4)] .
  from codec_ok_plain [OF assms(2)] e(1) have "plain_change e" by (auto simp: codec_plain_def)
  from storeDelegateChanged_returns [OF assms(1,3) e(1) this e(2,3)] assms(4) show ?thesis
    by (auto simp: same_events_but_def AList.update_conv')
qed

lemma votes_step:
  assumes "store_ok (te_store env)" and "codec_ok (te_codec env)" and "token_inv w"
    and "decode_DelegateVotesChanged (te_codec env) (itokenAbi env) l = Inr e"
    and "map_of (delegateVotesChangeds w) (log_id l) = None"
  shows "\<exists>w'. storeDelegateVotesChanged env l w = Inr w' \<and> token_inv w' \<and>
    same_events_but (log_id l) w w' \<and> tokenTransfers w' = tokenTransfers w"
proof -
  let ?w = "w\<lparr>delegateVotesChangeds :=
    AList.update (log_id l) (votes_changed_entity l e) (delegateVotesChangeds w)\<rparr>"
  from token_invD(1) [OF assms(3)] have k: "keyed dvc_id (delegateVotesChangeds w)"
    by (simp add: keyed_world_def)
  with assms(3) have i: "token_inv ?w" by (simp add: keyed_update)
  from codec_ok_plain [OF assms(2)] assms(4) have "plain_address (ev_delegate e)"
    by (auto simp: codec_plain_def)
  then obtain w' where w': "updateDelegateRolling env (votes_changed_entity l e) ?w = Inr w'"
    "token_inv w'" "same_events_but (log_id l) w w'" "tokenTransfers w' = tokenTransfers w"
    using updateDelegateRolling_returns [OF assms(1) i, of "votes_changed_entity l e"]
    by (auto simp: same_events_but_def AList.update_conv')
  moreover have "storeDelegateVotesChanged env l w =
      updateDelegateRolling env (votes_changed_entity l e) ?w"
    using assms k by (simp add: storeDelegateVotesChanged_def insert_rules Let_def)
  ultimately show ?thesis by auto
qed

lemma votes_fresh:
  assumes "store_ok (te_store env)" and "token_inv w"
    and "storeDelegateVotesChanged env l w = Inr w'"
  obtains e where "decode_DelegateVotesChanged (te_codec env) (itokenAbi env) l = Inr e"
    and "map_of (delegateVotesChangeds w) (log_id l) = None"
proof -
  from token_invD(1) [OF assms(2)] have k: "keyed dvc_id (delegateVotesChangeds w)"
    by (simp add: keyed_world_def)
  from assms(3) obtain e t where e: "decode_DelegateVotesChanged (te_codec env) (itokenAbi env) l = Inr e"
    and t: "insert_row (delegateVotesChangedRepo (te_store env)) (votes_changed_entity l e)
      (delegateVotesChangeds w) = Inr t"
    by (auto simp: storeDelegateVotesChanged_def Let_def and_then_eq_Inr)
  from repository.insert_inv [OF store_ok_repositories(2) [OF assms(1)] k t] e that
  show thesis by simp
qed

lemma transfer_step:
  assumes "store_ok (te_store env)" and "token_inv w" and "storeTokenTransfer env l w = Inr w'"
  shows "token_inv w' \<and> same_events_but (log_id l) w w'"
proof -
  from token_invD(1) [OF assms(2)] have k: "keyed tt_id (tokenTransfers w)"
    by (simp add: keyed_world_def)
  from assms(3) obtain e t where e: "decode_Transfer (te_codec env) (itokenAbi env) l = Inr e"
    and t: "insert_row (tokenTransferRepo (te_store env)) (transfer_entity env l e)
      (tokenTransfers w) = Inr t"
    by (auto simp: storeTokenTransfer_def Let_def and_then_eq_Inr)
  from repository.insert_inv [OF store_ok_repositories(3) [OF assms(1)] k t]
  have "map_of (tokenTransfers w) (log_id l) = None" by simp
  from storeTokenTransfer_eq [OF assms(1,2) e this] assms(3) show ?thesis
    by (auto simp: same_events_but_def AList.update_conv' same_votes_transfer)
qed

lemma handle_token_step:
  assumes "store_ok (te_store env)" and "codec_ok (te_codec env)" and "token_inv w"
    and "handle_token env l w = Inr w'"
  shows "token_inv w' \<and> same_events_but (log_id l) w w'"
proof -
  from assms(4) obtain w1 w2 where
    1: "(if has_topic l topic_DelegateChanged then storeDelegateChanged env l w else Inr w) = Inr w1"
    and 2: "(if has_topic l topic_DelegateVotesChanged then storeDelegateVotesChanged env l w1
      else Inr w1) = Inr w2"
    and 3: "(if has_topic l topic_Transfer then storeTokenTransfer env l w2 else Inr w2) = Inr w'"
    by (auto simp: handle_token_def and_then_eq_Inr)
  have i1: "token_inv w1 \<and> same_events_but (log_id l) w w1"
    using 1 changed_step [OF assms(1-3)] assms(3) by (auto split: if_splits)
  have i2: "token_inv w2 \<and> same_events_but (log_id l) w1 w2"
  proof (cases "has_topic l topic_DelegateVotesChanged")
    case True
    with 2 have s: "storeDelegateVotesChanged env l w1 = Inr w2" by simp
    with votes_fresh [OF assms(1), of w1] i1 votes_step [OF assms(1,2), of w1 l]
    show ?thesis by (metis Inr_inject)
  next
    case False
    with 2 i1 show ?thesis by simp
  qed
  have "token_inv w' \<and> same_events_but (log_id l) w2 w'"
    using 3 i2 transfer_step [OF assms(1)] by (auto split: if_splits)
  with i1 i2 show ?thesis by (meson same_events_trans)
qed

lemma handle_token_returns:
  assumes "store_ok (te_store env)" and "codec_ok (te_codec env)" and "token_inv w"
    and "token_ready env l w"
  shows "\<exists>w'. handle_token env l w = Inr w'"
proof -
  note r = assms(4) [unfolded token_ready_def]
  have "\<exists>w1. (if has_topic l topic_DelegateChanged then storeDelegateChanged env l w else Inr w) = Inr w1
      \<and> token_inv w1 \<and> map_of (delegateVotesChangeds w1) (log_id l) = None \<and>
      map_of (tokenTransfers w1) (log_id l) = None"
  proof (cases "has_topic l topic_DelegateChanged")
    case True
    with r obtain e where e: "decode_DelegateChanged (te_codec env) (itokenAbi env) l = Inr e"
      by blast
    with codec_ok_plain [OF assms(2)] have "plain_change e" by (auto simp: codec_plain_def)
    from storeDelegateChanged_returns [OF assms(1,3) e this] r True show ?thesis by auto
  qed (use assms r in auto)
  then obtain w1 where w1: "(if has_topic l topic_DelegateChanged then storeDelegateChanged env l w
      else Inr w) = Inr w1" "token_inv w1"
    "map_of (delegateVotesChangeds w1) (log_id l) = None" "map_of (tokenTransfers w1) (log_id l) = None"
    by blast
  have "\<exists>w2. (if has_topic l topic_DelegateVotesChanged then storeDelegateVotesChanged env l w1
      else Inr w1) = Inr w2 \<and> token_inv w2 \<and> map_of (tokenTransfers w2) (log_id l) = None"
  proof (cases "has_topic l topic_DelegateVotesChanged")
    case True
    with r obtain e where e: "decode_DelegateVotesChanged (te_codec env) (itokenAbi env) l = Inr e"
      by blast
    from votes_step [OF assms(1,2) w1(2) e w1(3)] w1(4) True show ?thesis by auto
  qed (use w1 in auto)
  then obtain w2 where w2: "(if has_topic l topic_DelegateVotesChanged then storeDelegateVotesChanged env l w1
      else Inr w1) = Inr w2" "token_inv w2" "map_of (tokenTransfers w2) (log_id l) = None"
    by blast
  have "\<exists>w3. (if has_topic l topic_Transfer then storeTokenTransfer env l w2 else Inr w2) = Inr w3"
    using r storeTokenTransfer_eq(1) [OF assms(1) w2(2) _ w2(3)] by auto
  with w1(1) w2(1) show ?thesis by (simp add: handle_token_def)
qed

definition token_run_inv :: "token_env \<Rightarrow> world \<Rightarrow> bool" where
  "token_run_inv env w \<longleftrightarrow> store_ok (te_store env) \<and> codec_ok (te_codec env) \<and> token_inv w"

interpretation token: log_handler "handle_token env" "token_run_inv env" "token_ready env" for env
proof
  show "token_run_inv env w \<Longrightarrow> handle_token env l w = Inr w' \<Longrightarrow> token_run_inv env w'" for w l w'
    using handle_token_step by (auto simp: token_run_inv_def)
  show "token_run_inv env w \<Longrightarrow> token_ready env l w \<Longrightarrow> \<exists>w'. handle_token env l w = Inr w'" for w l
    using handle_token_returns by (auto simp: token_run_inv_def)
  show "token_ready env l' w'"
    if "token_run_inv env w" and "handle_token env l w = Inr w'" and "log_id l' \<noteq> log_id l"
      and "token_ready env l' w" for w l w' l'
    using that handle_token_step [of env w l w']
    by (auto simp: token_run_inv_def token_ready_def same_events_but_def)
qed

end
