(* ===== verification/TokenDemo.thy ===== *)
theory TokenDemo
  imports TokenHandler
begin

text \<open>
  A concrete environment on which the witnesses of the token properties run: a codec that reads
  the addresses from the topics and two numbers, written in unary and separated by a comma, from
  the data; a contract of the default standard; no profile service.
\<close>

definition unary_pair :: "string \<Rightarrow> int \<times> int" where
  "unary_pair s =
     (int (length (takeWhile (\<lambda>c. c \<noteq> CHR '','') s)),
      int (length (tl (dropWhile (\<lambda>c. c \<noteq> CHR '','') s))))"

definition demo_codec :: token_codec where
  "demo_codec = \<lparr>
     decode_DelegateChanged = (\<lambda>abi l. case log_topics l of
         [_, d, f, t] \<Rightarrow>
           if plain_address d \<and> plain_address f \<and> plain_address t
           then Inr \<lparr>ev_delegator = d, ev_fromDelegate = f, ev_toDelegate = t\<rparr>
           else Inl (ThrownError ''decode'')
       | _ \<Rightarrow> Inl (ThrownError ''decode'')),
     decode_DelegateVotesChanged = (\<lambda>abi l. case log_topics l of
         [_, d] \<Rightarrow>
           if plain_address d
           then Inr (let (p, n) = unary_pair (log_data l) in
                     if abi = Itokenerc20 then VotesErc20 d p n else VotesErc721 d p n)
           else Inl (ThrownError ''decode'')
       | _ \<Rightarrow> Inl (ThrownError ''decode'')),
     decode_Transfer = (\<lambda>abi l. case log_topics l of
         [_, f, t] \<Rightarrow>
           if plain_address f \<and> plain_address t
           then Inr (let n = fst (unary_pair (log_data l)) in
                     if abi = Itokenerc20 then TransferErc20 f t n else TransferErc721 f t n)
           else Inl (ThrownError ''decode'')
       | _ \<Rightarrow> Inl (ThrownError ''decode''))\<rparr>"

lemma demo_codec_ok [simp]: "codec_ok demo_codec"
  by (auto simp: codec_ok_def demo_codec_def Let_def split: list.splits if_splits prod.splits)

definition demo_contract :: IndexerContract where
  "demo_contract = \<lparr>ic_name = ''governorToken'', ic_address = ''0x7'', ic_standard = None\<rparr>"

definition demo_env :: token_env where
  "demo_env = \<lparr>te_store = table_store, te_codec = demo_codec,
     te_work = \<lparr>iw_daoCode = ''demo'', iw_contracts = [demo_contract]\<rparr>,
     te_indexContract = demo_contract, te_syncEndpoint = None, te_syncAuthToken = None\<rparr>"

lemma demo_env_simps [simp]:
  "te_store demo_env = table_store" "te_codec demo_env = demo_codec"
  by (simp_all add: demo_env_def)

lemma demo_standard: "contractStandard demo_env = ''erc20''" "itokenAbi demo_env = Itokenerc20"
  by (simp_all add: contractStandard_def itokenAbi_def demo_env_def demo_contract_def to_lower_def
      lower_char_def)

abbreviation alice :: string where "alice \<equiv> ''0xa''"
abbreviation bob :: string where "bob \<equiv> ''0xb''"
abbreviation carol :: string where "carol \<equiv> ''0xc''"

lemma demo_addresses [simp]:
  "plain_address alice" "plain_address bob" "plain_address carol" "plain_address zeroAddress"
  by (simp_all add: plain_address_def to_lower_def lower_char_def zeroAddress_def)

definition demo_log :: "string \<Rightarrow> string list \<Rightarrow> string \<Rightarrow> EvmLog" where
  "demo_log i topics content = \<lparr>log_id = i, log_address = ''0x7'', log_topics = topics,
     log_data = content, log_height = 1, log_timestamp = 2, log_transactionHash = ''0xt''\<rparr>"

lemma demo_log_simps [simp]:
  "log_id (demo_log i ts c) = i" "log_topics (demo_log i ts c) = ts"
  "log_data (demo_log i ts c) = c" "log_transactionHash (demo_log i ts c) = ''0xt''"
  by (simp_all add: demo_log_def)

definition demo_change :: "string \<Rightarrow> string \<Rightarrow> string \<Rightarrow> string \<Rightarrow> EvmLog" where
  "demo_change i d f t = demo_log i [topic_DelegateChanged, d, f, t] []"

definition demo_votes :: "string \<Rightarrow> string \<Rightarrow> string \<Rightarrow> EvmLog" where
  "demo_votes i d content = demo_log i [topic_DelegateVotesChanged, d] content"

definition demo_transfer :: "string \<Rightarrow> string \<Rightarrow> string \<Rightarrow> string \<Rightarrow> EvmLog" where
  "demo_transfer i f t content = demo_log i [topic_Transfer, f, t] content"

lemma demo_logs [simp]:
  "log_id (demo_change i d f t) = i" "log_id (demo_votes i d c) = i"
  "log_id (demo_transfer i f t c) = i"
  "log_transactionHash (demo_change i d f t) = ''0xt''"
  "log_transactionHash (demo_votes i d c) = ''0xt''"
  "log_transactionHash (demo_transfer i f t c) = ''0xt''"
  by (simp_all add: demo_change_def demo_votes_def demo_transfer_def)

lemma topics_distinct [simp]:
  "topic_DelegateChanged \<noteq> topic_DelegateVotesChanged"
  "topic_DelegateChanged \<noteq> topic_Transfer" "topic_DelegateVotesChanged \<noteq> topic_Transfer"
  "topic_DelegateVotesChanged \<noteq> topic_DelegateChanged"
  "topic_Transfer \<noteq> topic_DelegateChanged" "topic_Transfer \<noteq> topic_DelegateVotesChanged"
  by (simp_all add: topic_DelegateChanged_def topic_DelegateVotesChanged_def topic_Transfer_def)

lemma topics_not_short [simp]:
  "length a < 60 \<Longrightarrow> a \<noteq> topic_DelegateChanged" "length a < 60 \<Longrightarrow> a \<noteq> topic_DelegateVotesChanged"
  "length a < 60 \<Longrightarrow> a \<noteq> topic_Transfer"
  by (auto simp: topic_DelegateChanged_def topic_DelegateVotesChanged_def topic_Transfer_def)

lemma demo_topics [simp]:
  "has_topic (demo_change i d f t) topic_DelegateChanged"
  "length d < 60 \<Longrightarrow> length f < 60 \<Longrightarrow> length t < 60 \<Longrightarrow>
     \<not> has_topic (demo_change i d f t) topic_DelegateVotesChanged"
  "length d < 60 \<Longrightarrow> length f < 60 \<Longrightarrow> length t < 60 \<Longrightarrow>
     \<not> has_topic (demo_change i d f t) topic_Transfer"
  "length d < 60 \<Longrightarrow> \<not> has_topic (demo_votes i d c) topic_DelegateChanged"
  "has_topic (demo_votes i d c) topic_DelegateVotesChanged"
  "length d < 60 \<Longrightarrow> \<not> has_topic (demo_votes i d c) topic_Transfer"
  "length f < 60 \<Longrightarrow> length t < 60 \<Longrightarrow>
     \<not> has_topic (demo_transfer i f t c) topic_DelegateChanged"
  "length f < 60 \<Longrightarrow> length t < 60 \<Longrightarrow>
     \<not> has_topic (demo_transfer i f t c) topic_DelegateVotesChanged"
  "has_topic (demo_transfer i f t c) topic_Transfer"
  by (simp_all add: has_topic_def demo_change_def demo_votes_def demo_transfer_def)

lemma demo_decode [simp]:
  "plain_address d \<Longrightarrow> plain_address f \<Longrightarrow> plain_address t \<Longrightarrow>
     decode_DelegateChanged demo_codec abi (demo_change i d f t) =
       Inr \<lparr>ev_delegator = d, ev_fromDelegate = f, ev_toDelegate = t\<rparr>"
  "plain_address d \<Longrightarrow>
     decode_DelegateVotesChanged demo_codec Itokenerc20 (demo_votes i d c) =
       Inr (VotesErc20 d (fst (unary_pair c)) (snd (unary_pair c)))"
  "plain_address f \<Longrightarrow> plain_address t \<Longrightarrow>
     decode_Transfer demo_codec Itokenerc20 (demo_transfer i f t c) =
       Inr (TransferErc20 f t (fst (unary_pair c)))"
  by (simp_all add: demo_codec_def demo_change_def demo_votes_def demo_transfer_def Let_def
      split: prod.split)

end
