(* ===== verification/TokenClaims.thy ===== *)
theory TokenClaims
  imports TokenEvents TokenDemo
begin

text \<open>
  What the token handler promises. The abstract ledger maps a pair of accounts to the voting
  power the first has given to the second; every call of \<open>storeDelegate\<close> is one \<open>grant\<close> on it.
\<close>

section \<open>The abstract ledger\<close>

definition ledger_of :: "world \<Rightarrow> string \<times> string \<Rightarrow> int" where
  "ledger_of w = (\<lambda>(a, b). if CHR ''_'' \<in> set a then 0
     else row_value d_power (delegates w) (delegate_id a b))"

definition grant ::
    "string \<Rightarrow> string \<Rightarrow> int \<Rightarrow> (string \<times> string \<Rightarrow> int) \<Rightarrow> string \<times> string \<Rightarrow> int" where
  "grant a b n L = L((a, b) := L (a, b) + n)"

definition power_of :: "world \<Rightarrow> string \<Rightarrow> int" where
  "power_of w k = row_value co_power (contributors w) k"

definition effective_of :: "world \<Rightarrow> string \<Rightarrow> int" where
  "effective_of w k = row_value co_delegatesCountEffective (contributors w) k"

lemma delegate_id_eq:
  "CHR ''_'' \<notin> set a \<Longrightarrow> CHR ''_'' \<notin> set b \<Longrightarrow> delegate_id a x = delegate_id b y \<longleftrightarrow> a = b \<and> x = y"
  using joined_key_inj [of a x b y] by (auto simp: delegate_id_def)

lemma ledger_of_event_rows [simp]:
  "ledger_of (w\<lparr>delegateChangeds := t1\<rparr>) = ledger_of w"
  "ledger_of (w\<lparr>delegateVotesChangeds := t2\<rparr>) = ledger_of w"
  "ledger_of (w\<lparr>tokenTransfers := t3\<rparr>) = ledger_of w"
  "ledger_of (w\<lparr>delegateRollings := t4\<rparr>) = ledger_of w"
  by (simp_all add: ledger_of_def fun_eq_iff)

lemma ledger_after_delegate:
  assumes "wf_delegate d" and "wf_delegates (delegates w)"
  shows "ledger_of (after_delegate env d w) =
    grant (d_fromDelegate d) (d_toDelegate d) (d_power d) (ledger_of w)"
proof (rule ext)
  fix p :: "string \<times> string"
  obtain a b where p: "p = (a, b)" by (cases p)
  from assms(1) have d: "CHR ''_'' \<notin> set (d_fromDelegate d)"
    "d_id d = delegate_id (d_fromDelegate d) (d_toDelegate d)"
    by (auto simp: wf_delegate_def)
  show "ledger_of (after_delegate env d w) p =
    grant (d_fromDelegate d) (d_toDelegate d) (d_power d) (ledger_of w) p"
    using assms d
    by (auto simp: p ledger_of_def grant_def after_delegate_def Let_def delegate_power_put
        delegate_id_eq)
qed

section \<open>One delegation\<close>

lemma delegation_in_world:
  assumes "token_inv w" and "CHR ''_'' \<notin> set a"
  shows "wf_delegates (delegates w)" and "wf_delegate (delegation_of draft a b)"
  using assms by (auto simp: token_inv_def ledger_inv_def delegation_of_wf)

lemma grants_after_delegation:
  assumes "token_inv w" and "CHR ''_'' \<notin> set a"
  shows "ledger_of (after_delegate env (delegation_of draft a b) w) =
    grant (to_lower a) (to_lower b) (df_power draft) (ledger_of w)"
  using ledger_after_delegate [OF delegation_in_world(2,1) [OF assms]] by simp

text \<open>
  C1: \<open>storeDelegate\<close> implements one entry of the abstract ledger. On a well-formed database and a
  delegation with both addresses set it returns, and the power given by the pair of lower-cased
  addresses, the power of the delegate and the protocol's total each grow by exactly the power of
  the delegation; every other pair and every other account is unchanged, whether the row was
  inserted, updated or removed because its power came back to zero.
\<close>

theorem storeDelegate_grants:
  assumes "store_ok (te_store env)" and "token_inv w"
    and "df_fromDelegate draft = Some a" and "df_toDelegate draft = Some b"
    and "CHR ''_'' \<notin> set a"
  shows "\<exists>w'. storeDelegate env draft w = Inr w' \<and> token_inv w' \<and>
    ledger_of w' = grant (to_lower a) (to_lower b) (df_power draft) (ledger_of w) \<and>
    (\<forall>k. power_of w' k = power_of w k + (if k = to_lower b then df_power draft else 0)) \<and>
    powerSum_of (dataMetrics w') = powerSum_of (dataMetrics w) + df_power draft"
proof -
  have "power_of (after_delegate env (delegation_of draft a b) w) k =
      power_of w k + (if k = to_lower b then df_power draft else 0)" for k
    by (simp add: power_of_def after_delegate_def Let_def ledger_simps)
  moreover have "powerSum_of (dataMetrics (after_delegate env (delegation_of draft a b) w)) =
      powerSum_of (dataMetrics w) + df_power draft"
    by (simp add: after_delegate_def Let_def ledger_simps)
  ultimately show ?thesis
    using storeDelegate_total [OF assms] grants_after_delegation [OF assms(2,5)] by blast
qed

lemma ledger_of_empty [simp]:
  "ledger_of empty_world p = 0" "power_of empty_world k = 0"
  "powerSum_of [] = 0"
  by (simp_all add: ledger_of_def power_of_def powerSum_of_def metric_or_new_def
      new_DataMetric_def split: prod.split)

lemma demo_lower: "to_lower ''0xA'' = alice" "to_lower bob = bob"
  by code_simp+

definition demo_draft :: "int \<Rightarrow> delegate_draft" where
  "demo_draft n = \<lparr>blockNumber = 1, blockTimestamp = 2, transactionHash = ''0xt'',
     df_fromDelegate = Some ''0xA'', df_toDelegate = Some bob, df_power = n\<rparr>"

theorem storeDelegate_grants_witness:
  "\<exists>w'. storeDelegate demo_env (demo_draft 5) empty_world = Inr w' \<and> token_inv w' \<and>
     ledger_of w' (alice, bob) = 5 \<and> power_of w' bob = 5 \<and> powerSum_of (dataMetrics w') = 5"
proof -
  have "df_fromDelegate (demo_draft 5) = Some ''0xA''" "df_toDelegate (demo_draft 5) = Some bob"
    by (simp_all add: demo_draft_def)
  from storeDelegate_grants [OF _ token_inv_empty this, of demo_env] show ?thesis
    by (auto simp: demo_lower grant_def demo_draft_def)
qed

section \<open>Whole runs\<close>

text \<open>
  C2: Whatever logs the handler has processed since the empty database, the accounts are
  consistent: the power of each contributor is the sum of the delegation rows that point at it,
  the protocol's total is the sum over the contributors, the member count is the number of
  contributors, and the delegation count of an account is the number of accounts whose current
  delegate it is.
\<close>

theorem handle_token_accounts:
  assumes "store_ok (te_store env)" and "codec_ok (te_codec env)"
    and "fold_outcome (handle_token env) ls empty_world = Inr w"
  shows "power_of w k = delegated_to k (delegates w) \<and>
    powerSum_of (dataMetrics w) = table_sum co_power (contributors w) \<and>
    memberCount_of (dataMetrics w) = int (length (contributors w)) \<and>
    row_value co_delegatesCountAll (contributors w) k = mappings_to k (delegateMappings w)"
proof -
  have "token_run_inv env empty_world"
    using assms by (simp add: token_run_inv_def token_inv_empty)
  with assms(3) have "token_run_inv env w" by (rule token.logs_keep)
  then show ?thesis
    by (simp add: token_run_inv_def token_inv_def ledger_inv_def members_inv_def power_of_def)
qed

definition demo_run :: "EvmLog list" where
  "demo_run = [demo_change ''1'' alice zeroAddress bob, demo_votes ''2'' bob '',xxxx'',
     demo_change ''3'' alice bob carol, demo_transfer ''4'' alice bob ''x'']"

lemma ready_empty:
  "token_ready env l empty_world \<longleftrightarrow>
     (has_topic l topic_DelegateChanged \<longrightarrow>
        (\<exists>e. decode_DelegateChanged (te_codec env) (itokenAbi env) l = Inr e)) \<and>
     (has_topic l topic_DelegateVotesChanged \<longrightarrow>
        (\<exists>e. decode_DelegateVotesChanged (te_codec env) (itokenAbi env) l = Inr e)) \<and>
     (has_topic l topic_Transfer \<longrightarrow>
        (\<exists>e. decode_Transfer (te_codec env) (itokenAbi env) l = Inr e))"
  by (simp add: token_ready_def)

lemma zeroAddress_length [simp]: "length zeroAddress = 42"
  by (simp add: zeroAddress_def)

lemma demo_ready [simp]:
  "plain_address d \<Longrightarrow> plain_address f \<Longrightarrow> plain_address t \<Longrightarrow> length d < 60 \<Longrightarrow> length f < 60 \<Longrightarrow>
     length t < 60 \<Longrightarrow> token_ready demo_env (demo_change i d f t) empty_world"
  "plain_address d \<Longrightarrow> length d < 60 \<Longrightarrow> token_ready demo_env (demo_votes i d c) empty_world"
  "plain_address f \<Longrightarrow> plain_address t \<Longrightarrow> length f < 60 \<Longrightarrow> length t < 60 \<Longrightarrow>
     token_ready demo_env (demo_transfer i f t c) empty_world"
  by (simp_all add: ready_empty demo_standard)

lemma demo_run_returns:
  "token_run_inv demo_env empty_world" "distinct (map log_id demo_run)"
  "\<forall>l \<in> set demo_run. token_ready demo_env l empty_world"
  by (simp_all add: token_run_inv_def token_inv_empty demo_run_def)

theorem handle_token_accounts_witness:
  "\<exists>w. fold_outcome (handle_token demo_env) demo_run empty_world = Inr w \<and>
     power_of w bob = delegated_to bob (delegates w)"
proof -
  obtain w where "fold_outcome (handle_token demo_env) demo_run empty_world = Inr w"
    using token.logs_return [OF demo_run_returns] by blast
  with handle_token_accounts [of demo_env demo_run w bob] show ?thesis by simp
qed

text \<open>
  C3: The handler processes any batch of decodable logs with fresh, distinct ids: no call of the
  store is rejected and no exception is raised on the way, so no log of a well-formed chain can
  stop the indexer.
\<close>

theorem handle_token_never_throws:
  assumes "store_ok (te_store env)" and "codec_ok (te_codec env)" and "token_inv w"
    and "distinct (map log_id ls)" and "\<forall>l \<in> set ls. token_ready env l w"
  shows "\<exists>w'. fold_outcome (handle_token env) ls w = Inr w' \<and> token_inv w'"
proof -
  have "token_run_inv env w" using assms by (simp add: token_run_inv_def)
  from token.logs_return [OF this assms(4,5)] show ?thesis by (auto simp: token_run_inv_def)
qed

theorem handle_token_never_throws_witness:
  "\<exists>w'. fold_outcome (handle_token demo_env) demo_run empty_world = Inr w' \<and> token_inv w'"
  using handle_token_never_throws [OF _ _ token_inv_empty demo_run_returns(2,3)] by simp

section \<open>Transfers\<close>

definition delegate_of :: "world \<Rightarrow> string \<Rightarrow> string option" where
  "delegate_of w a = map_option map_to (map_of (delegateMappings w) a)"

text \<open>The abstract effect of a balance change of \<open>a\<close> by \<open>n\<close>: nothing unless \<open>a\<close> has delegated.\<close>

definition grant_delegate ::
    "string \<Rightarrow> string option \<Rightarrow> int \<Rightarrow> (string \<times> string \<Rightarrow> int) \<Rightarrow> string \<times> string \<Rightarrow> int" where
  "grant_delegate a d n L = (case d of None \<Rightarrow> L | Some b \<Rightarrow> grant a b n L)"

lemma mapping_fields:
  assumes "wf_mappings t" and "map_of t a = Some m"
  shows "map_from m = a" and "plain_address a" and "plain_address (map_to m)"
proof -
  have k: "keyed map_id t" using assms(1) by (simp add: wf_mappings_def keyed_mappings_def)
  from rows_lookup [OF assms(2)] keyed_lookup [OF k assms(2)] have "m \<in> rows t" "map_id m = a" .
  with assms(1) show "map_from m = a" "plain_address a" "plain_address (map_to m)"
    by (auto simp: wf_mappings_def keyed_mappings_def)
qed

lemma mapped_ledger:
  assumes "token_inv w" and "wf_mappings t" and "map_of t a = m"
  shows "ledger_of (after_mapped env ent m n w) =
    grant_delegate a (map_option map_to m) n (ledger_of w)"
proof (cases m)
  case None
  then show ?thesis by (simp add: after_mapped_def grant_delegate_def)
next
  case (Some p)
  with mapping_fields [OF assms(2)] assms(3) have "map_from p = a" "plain_address a"
    "plain_address (map_to p)"
    by auto
  with Some assms(1) show ?thesis
    by (simp add: after_mapped_def grant_delegate_def grants_after_delegation
        plain_address_underscore)
qed

lemma mapped_power_sum:
  "powerSum_of (dataMetrics (after_mapped env ent m n w)) =
     powerSum_of (dataMetrics w) + (if m = None then 0 else n)"
  by (simp add: after_mapped_def after_delegate_def Let_def ledger_simps split: option.split)

text \<open>
  C11: A transfer moves voting power between the delegates of its two parties: the ledger entry of
  the sender with its delegate loses what the entry of the receiver with its delegate gains, an
  account that has not delegated contributes nothing, the amount is one for an ERC-721 token and
  the transferred value otherwise, and the protocol's total changes only when exactly one of the
  two has delegated.
\<close>

theorem storeTokenTransfer_moves_power:
  assumes "store_ok (te_store env)" and "token_inv w"
    and "decode_Transfer (te_codec env) (itokenAbi env) l = Inr e"
    and "map_of (tokenTransfers w) (log_id l) = None"
  shows "\<exists>w'. storeTokenTransfer env l w = Inr w' \<and>
    ledger_of w' = grant_delegate (ev_to e) (delegate_of w (ev_to e)) (transferPower env e)
      (grant_delegate (ev_from e) (delegate_of w (ev_from e)) (- transferPower env e)
        (ledger_of w)) \<and>
    powerSum_of (dataMetrics w') = powerSum_of (dataMetrics w)
      - (if delegate_of w (ev_from e) = None then 0 else transferPower env e)
      + (if delegate_of w (ev_to e) = None then 0 else transferPower env e)"
proof -
  let ?ent = "transfer_entity env l e" and ?n = "transferPower env e"
  let ?w = "w\<lparr>tokenTransfers := AList.update (log_id l) ?ent (tokenTransfers w)\<rparr>"
  let ?m = "\<lambda>a. map_of (delegateMappings w) a"
  have wf: "wf_mappings (delegateMappings w)" using assms(2) by (rule token_invD)
  from token_invD(1) [OF assms(2)] have k: "keyed tt_id (tokenTransfers w)"
    by (simp add: keyed_world_def)
  with assms(2) have i: "token_inv ?w" by (simp add: keyed_update)
  have i1: "token_inv (after_mapped env ?ent (?m (ev_from e)) (- ?n) ?w)"
    using storeMappedDelegate_eq(2) [OF assms(1) i] mapping_fields [OF wf] by auto
  have "ledger_of (after_transfer env l e w) =
      grant_delegate (ev_to e) (delegate_of w (ev_to e)) ?n
        (grant_delegate (ev_from e) (delegate_of w (ev_from e)) (- ?n) (ledger_of w))"
    using mapped_ledger [OF i1 wf refl, of env ?ent "ev_to e" ?n]
      mapped_ledger [OF i wf refl, of env ?ent "ev_from e" "- ?n"]
    by (simp add: after_transfer_def Let_def delegate_of_def)
  moreover have "powerSum_of (dataMetrics (after_transfer env l e w)) =
      powerSum_of (dataMetrics w) - (if delegate_of w (ev_from e) = None then 0 else ?n)
        + (if delegate_of w (ev_to e) = None then 0 else ?n)"
    by (simp add: after_transfer_def Let_def mapped_power_sum delegate_of_def)
  ultimately show ?thesis using storeTokenTransfer_eq(1) [OF assms] by auto
qed

definition demo_mapping :: "string \<Rightarrow> string \<Rightarrow> DelegateMapping" where
  "demo_mapping a b = \<lparr>blockNumber = 1, blockTimestamp = 2, transactionHash = ''0xs'',
     map_id = a, map_from = a, map_to = b, map_power = 0\<rparr>"

definition demo_delegated :: world where
  "demo_delegated = after_change (delegate_changed_entity (demo_change ''0'' alice zeroAddress carol)
     \<lparr>ev_delegator = alice, ev_fromDelegate = zeroAddress, ev_toDelegate = carol\<rparr>) empty_world"

lemma demo_delegated_inv: "token_inv demo_delegated"
  using token_inv_empty token_invD [OF token_inv_empty]
  by (simp add: token_inv_def demo_delegated_def after_change_ledger after_change_members)

lemma demo_delegated_rows:
  "delegate_of demo_delegated alice = Some carol" "delegate_of demo_delegated bob = None"
  "tokenTransfers demo_delegated = []" "ledger_of demo_delegated = ledger_of empty_world"
  by (simp_all add: demo_delegated_def after_change_def put_mapping_def
      delegate_of_def new_mapping_def ledger_of_def fun_eq_iff)

theorem storeTokenTransfer_moves_power_witness:
  "\<exists>w'. storeTokenTransfer demo_env (demo_transfer ''4'' bob alice ''xx'') demo_delegated = Inr w' \<and>
     ledger_of w' (alice, carol) = 2"
proof -
  have d: "decode_Transfer (te_codec demo_env) (itokenAbi demo_env)
      (demo_transfer ''4'' bob alice ''xx'') = Inr (TransferErc20 bob alice 2)"
    by (simp add: demo_standard unary_pair_def)
  from storeTokenTransfer_moves_power [OF _ demo_delegated_inv d] show ?thesis
    by (auto simp: demo_delegated_rows grant_delegate_def grant_def transferPower_def demo_standard)
qed

section \<open>Changes of votes\<close>

text \<open>
  The pair of \<open>resolveRolling\<close>: the delegator, and the delegate whose votes changed.
\<close>

lemma resolve_pair:
  assumes "dvc_delegate options = dr_fromDelegate r \<or> dvc_delegate options = dr_toDelegate r"
    and "dr_fromDelegate r \<noteq> zeroAddress \<or> dvc_delegate options = dr_toDelegate r"
  obtains r' where "resolveRolling options r =
      (r', Some (dr_delegator r), Some (dvc_delegate options))"
    and "dr_id r' = dr_id r" and "dr_delegator r' = dr_delegator r"
    and "dr_fromDelegate r' = dr_fromDelegate r" and "dr_toDelegate r' = dr_toDelegate r"
    and "transactionHash r' = transactionHash r"
proof -
  obtain r' from1 to1 where eq: "resolveRolling options r = (r', from1, to1)"
    by (metis prod_cases3)
  have "from1 = Some (dr_delegator r) \<and> to1 = Some (dvc_delegate options) \<and> dr_id r' = dr_id r \<and>
      dr_delegator r' = dr_delegator r \<and> dr_fromDelegate r' = dr_fromDelegate r \<and>
      dr_toDelegate r' = dr_toDelegate r \<and> transactionHash r' = transactionHash r"
    using eq assms by (auto simp: resolveRolling_def Let_def split: if_splits)
  with eq that show thesis by blast
qed

text \<open>The one rolling row of a transaction.\<close>

definition sole_rolling :: "string \<Rightarrow> DelegateRolling \<Rightarrow> world \<Rightarrow> bool" where
  "sole_rolling h r w \<longleftrightarrow>
     r \<in> rows (delegateRollings w) \<and>
     (\<forall>x \<in> rows (delegateRollings w). transactionHash x = h \<longleftrightarrow> dr_id x = dr_id r)"

definition same_parties :: "DelegateRolling \<Rightarrow> DelegateRolling \<Rightarrow> bool" where
  "same_parties r r' \<longleftrightarrow> dr_id r' = dr_id r \<and> dr_delegator r' = dr_delegator r \<and>
     dr_fromDelegate r' = dr_fromDelegate r \<and> dr_toDelegate r' = dr_toDelegate r \<and>
     transactionHash r' = transactionHash r"

definition moved_votes :: "votes_event \<Rightarrow> int" where
  "moved_votes e = (case e of VotesErc20 _ p n \<Rightarrow> n - p | VotesErc721 _ p n \<Rightarrow> n - p)"

lemma votes_log_grants:
  assumes "store_ok (te_store env)" and "codec_ok (te_codec env)" and "token_inv w"
    and "decode_DelegateVotesChanged (te_codec env) (itokenAbi env) l = Inr e"
    and "map_of (delegateVotesChangeds w) (log_id l) = None"
    and "sole_rolling (log_transactionHash l) r w"
    and "ev_delegate e = dr_fromDelegate r \<and> dr_fromDelegate r \<noteq> zeroAddress \<or>
         ev_delegate e = dr_toDelegate r"
  shows "\<exists>w' r'. storeDelegateVotesChanged env l w = Inr w' \<and>
    ledger_of w' = grant (dr_delegator r) (ev_delegate e) (moved_votes e) (ledger_of w) \<and>
    delegateMappings w' = put_mapping_power (dr_delegator r)
      (ledger_of w' (dr_delegator r, ev_delegate e)) (delegateMappings w) \<and>
    same_parties r r' \<and> sole_rolling (log_transactionHash l) r' w'"
proof -
  let ?o = "votes_changed_entity l e"
  let ?w = "w\<lparr>delegateVotesChangeds := AList.update (log_id l) ?o (delegateVotesChangeds w)\<rparr>"
  from token_invD(1) [OF assms(3)] have k: "keyed dvc_id (delegateVotesChangeds w)"
    and kr: "keyed dr_id (delegateRollings w)"
    by (simp_all add: keyed_world_def)
  with assms(3) have i: "token_inv ?w" by (simp add: keyed_update)
  from assms(6) have row: "r \<in> rows (delegateRollings w)" by (simp add: sole_rolling_def)
  with assms(3) have wf: "wf_rolling r" by (simp add: token_inv_def)
  from row kr have old: "map_of (delegateRollings w) (dr_id r) = Some r" by (simp add: keyed_rows)
  have found: "findOne (delegateRollingRepo (te_store env))
      (\<lambda>x. transactionHash x = log_transactionHash l) (delegateRollings w) = Inr (Some r)"
    using repository.find_unique [OF store_ok_repositories(13) [OF assms(1)] kr,
        of "\<lambda>x. transactionHash x = log_transactionHash l" "dr_id r"] assms(6) old
    by (simp add: sole_rolling_def)
  obtain r' where res: "resolveRolling ?o r = (r', Some (dr_delegator r), Some (ev_delegate e))"
    and r': "dr_id r' = dr_id r" "dr_delegator r' = dr_delegator r"
      "dr_fromDelegate r' = dr_fromDelegate r" "dr_toDelegate r' = dr_toDelegate r"
      "transactionHash r' = transactionHash r"
    using resolve_pair [of ?o r] assms(7) by auto
  from wf r' have wf': "wf_rolling r'" by (simp add: wf_rolling_def)
  let ?v = "?w\<lparr>delegateRollings := AList.update (dr_id r) r' (delegateRollings w)\<rparr>"
  have iv: "token_inv ?v" using token_inv_rollings [OF i wf'] r'(1) by simp
  from wf have a: "CHR ''_'' \<notin> set (dr_delegator r)" "to_lower (dr_delegator r) = dr_delegator r"
    by (simp_all add: wf_rolling_def plain_address_underscore)
  from codec_ok_plain [OF assms(2)] assms(4) have b: "to_lower (ev_delegate e) = ev_delegate e"
    by (auto simp: codec_plain_def)
  let ?d = "delegation_of (rolling_delegate ?o r' (Some (dr_delegator r)) (Some (ev_delegate e)))
    (dr_delegator r) (ev_delegate e)"
  have n: "dvc_newVotes ?o - dvc_previousVotes ?o = moved_votes e"
    by (simp add: votes_changed_entity_def moved_votes_def split: votes_event.split)
  have "updateDelegateRolling env ?o ?w =
      storeDelegate env (rolling_delegate ?o r' (Some (dr_delegator r)) (Some (ev_delegate e))) ?v"
    using assms kr r' found b
    by (auto simp: updateDelegateRolling_def Let_def res save_rules)
  then have run: "storeDelegateVotesChanged env l w = Inr (after_delegate env ?d ?v)"
    using assms k storeDelegate_total(1) [OF assms(1) iv _ _ a(1)]
    by (simp add: storeDelegateVotesChanged_def insert_rules Let_def)
  have led: "ledger_of (after_delegate env ?d ?v) =
      grant (dr_delegator r) (ev_delegate e) (moved_votes e) (ledger_of w)"
    using grants_after_delegation [OF iv a(1)] a(2) b n by simp
  moreover have "delegateMappings (after_delegate env ?d ?v) = put_mapping_power (dr_delegator r)
      (ledger_of (after_delegate env ?d ?v) (dr_delegator r, ev_delegate e)) (delegateMappings w)"
    unfolding led using a b n by (simp add: after_delegate_def Let_def grant_def ledger_of_def)
  moreover have "sole_rolling (log_transactionHash l) r' (after_delegate env ?d ?v)"
    using assms(6) r' rows_update [OF kr, of r' "dr_id r"] row
    by (auto simp: sole_rolling_def)
  ultimately show ?thesis using run r' by (auto simp: same_parties_def)
qed

text \<open>
  C7: A change of delegate moves the power. When \<open>a\<close> changes its delegate from \<open>b\<close> to another
  account \<open>c\<close>, the three logs of the transaction, the change and the votes of \<open>b\<close> and of \<open>c\<close>, are
  processed, each of the two votes changes is booked under the pair of \<open>a\<close> and the delegate it
  names, whichever of the three accounts coincide, and the mapping of \<open>a\<close> ends up at \<open>c\<close> with
  the power \<open>a\<close> has given to \<open>c\<close>.
\<close>

theorem delegate_change_moves_power:
  assumes "store_ok (te_store env)" and "codec_ok (te_codec env)" and "token_inv w"
    and "decode_DelegateChanged (te_codec env) (itokenAbi env) l1 =
      Inr \<lparr>ev_delegator = a, ev_fromDelegate = b, ev_toDelegate = c\<rparr>"
    and "decode_DelegateVotesChanged (te_codec env) (itokenAbi env) l2 = Inr e2"
    and "decode_DelegateVotesChanged (te_codec env) (itokenAbi env) l3 = Inr e3"
    and "ev_delegate e2 = b" and "ev_delegate e3 = c" and "b \<noteq> zeroAddress"
    and "map_of (delegateChangeds w) (log_id l1) = None"
    and "map_of (delegateRollings w) (log_id l1) = None"
    and "map_of (delegateVotesChangeds w) (log_id l2) = None"
    and "map_of (delegateVotesChangeds w) (log_id l3) = None" and "log_id l2 \<noteq> log_id l3"
    and "log_transactionHash l1 = h" and "log_transactionHash l2 = h"
    and "log_transactionHash l3 = h"
    and "\<forall>r \<in> rows (delegateRollings w). transactionHash r \<noteq> h"
  shows "\<exists>w'. and_then (storeDelegateChanged env l1 w) (\<lambda>w.
           and_then (storeDelegateVotesChanged env l2 w)
             (storeDelegateVotesChanged env l3)) = Inr w' \<and>
         ledger_of w' = grant a c (moved_votes e3) (grant a b (moved_votes e2) (ledger_of w)) \<and>
         (\<exists>m. map_of (delegateMappings w') a = Some m \<and> map_to m = c \<and>
            map_power m = ledger_of w' (a, c))"
proof -
  let ?e = "\<lparr>ev_delegator = a, ev_fromDelegate = b, ev_toDelegate = c\<rparr>"
  let ?w1 = "after_changed_event l1 ?e w" and ?r = "new_rolling l1 ?e"
  from token_invD(1) [OF assms(3)] have kr: "keyed dr_id (delegateRollings w)"
    by (simp add: keyed_world_def)
  have pc: "plain_change ?e"
    using codec_ok_plain [OF assms(2)] assms(4) by (auto simp: codec_plain_def)
  have i1: "token_inv ?w1" using after_changed_event_inv [OF assms(3) pc] .
  have s1: "storeDelegateChanged env l1 w = Inr ?w1"
    using storeDelegateChanged_eq [OF assms(1,3,4,10,11)] assms(9) by simp
  have sole: "sole_rolling h ?r ?w1"
    using rows_update [OF kr, of ?r "log_id l1"] assms(15,18) kr
    by (auto simp: sole_rolling_def after_changed_event_frame)
  have led1: "ledger_of ?w1 = ledger_of w"
    by (simp add: ledger_of_def after_changed_event_frame fun_eq_iff)
  obtain w2 r2 where s2: "storeDelegateVotesChanged env l2 ?w1 = Inr w2"
    and led2: "ledger_of w2 = grant a b (moved_votes e2) (ledger_of w)"
    and map2: "delegateMappings w2 =
      put_mapping_power a (ledger_of w2 (a, b)) (delegateMappings ?w1)"
    and r2: "same_parties ?r r2" "sole_rolling h r2 w2"
    using votes_log_grants [OF assms(1,2) i1 assms(5), of ?r] assms(7,9,12,16) sole led1
    by (auto simp: after_changed_event_frame)
  have i2: "token_inv w2" and n3: "map_of (delegateVotesChangeds w2) (log_id l3) = None"
    using votes_step [OF assms(1,2) i1 assms(5)] assms(12,13,14) s2
    by (auto simp: after_changed_event_frame same_events_but_def)
  obtain w3 r3 where s3: "storeDelegateVotesChanged env l3 w2 = Inr w3"
    and led3: "ledger_of w3 = grant a c (moved_votes e3) (ledger_of w2)"
    and map3: "delegateMappings w3 = put_mapping_power a (ledger_of w3 (a, c)) (delegateMappings w2)"
    using votes_log_grants [OF assms(1,2) i2 assms(6) n3, of r2] assms(8,17) r2
    by (auto simp: same_parties_def)
  have "map_of (delegateMappings ?w1) a = Some (new_mapping (delegate_changed_entity l1 ?e))"
    by (simp add: after_changed_event_def after_change_def put_mapping_def AList.update_conv')
  then have "\<exists>m. map_of (delegateMappings w3) a = Some m \<and> map_to m = c \<and>
      map_power m = ledger_of w3 (a, c)"
    by (simp add: map3 map2 put_mapping_power_def AList.update_conv' new_mapping_def)
  with s1 s2 s3 led2 led3 show ?thesis by simp
qed

theorem delegate_change_moves_power_witness:
  "\<exists>w'. and_then (storeDelegateChanged demo_env (demo_change ''1'' alice bob carol) empty_world) (\<lambda>w.
     and_then (storeDelegateVotesChanged demo_env (demo_votes ''2'' bob ''xxx,'') w)
       (storeDelegateVotesChanged demo_env (demo_votes ''3'' carol '',xxx''))) = Inr w' \<and>
     ledger_of w' (alice, bob) = - 3 \<and> ledger_of w' (alice, carol) = 3"
proof -
  have "bob \<noteq> zeroAddress" by (simp add: zeroAddress_def)
  then obtain w' where "and_then (storeDelegateChanged demo_env (demo_change ''1'' alice bob carol) empty_world)
      (\<lambda>w. and_then (storeDelegateVotesChanged demo_env (demo_votes ''2'' bob ''xxx,'') w)
        (storeDelegateVotesChanged demo_env (demo_votes ''3'' carol '',xxx''))) = Inr w'"
    and "ledger_of w' = grant alice carol 3 (grant alice bob (- 3) (ledger_of empty_world))"
    using delegate_change_moves_power [of demo_env empty_world "demo_change ''1'' alice bob carol"
        alice bob carol "demo_votes ''2'' bob ''xxx,''" "VotesErc20 bob 3 0"
        "demo_votes ''3'' carol '',xxx''" "VotesErc20 carol 0 3" "''0xt''"]
    by (auto simp: token_inv_empty demo_standard unary_pair_def moved_votes_def rows_def)
  then show ?thesis by (auto simp: grant_def)
qed

text \<open>
  A votes change whose delegate matches the rolling row of its transaction only after
  lower-casing reaches neither branch that sets the two addresses: the handler then raises the
  \<open>TypeError\<close> of reading \<open>toLowerCase\<close> of \<open>undefined\<close>, after it has saved the rolling row.
\<close>

theorem updateDelegateRolling_mixed_case:
  assumes "store_ok (te_store env)" and "token_inv w"
    and "sole_rolling (transactionHash options) r w"
    and "dvc_delegate options \<noteq> dr_fromDelegate r" and "dvc_delegate options \<noteq> dr_toDelegate r"
    and "to_lower (dvc_delegate options) = dr_fromDelegate r \<or>
         to_lower (dvc_delegate options) = dr_toDelegate r"
  shows "updateDelegateRolling env options w =
    Inl (TypeError ''Cannot read properties of undefined (reading toLowerCase)'')"
proof -
  from token_invD(1) [OF assms(2)] have kr: "keyed dr_id (delegateRollings w)"
    by (simp add: keyed_world_def)
  from assms(3) kr have old: "map_of (delegateRollings w) (dr_id r) = Some r"
    by (simp add: keyed_rows sole_rolling_def)
  have found: "findOne (delegateRollingRepo (te_store env))
      (\<lambda>x. transactionHash x = transactionHash options) (delegateRollings w) = Inr (Some r)"
    using repository.find_unique [OF store_ok_repositories(13) [OF assms(1)] kr,
        of "\<lambda>x. transactionHash x = transactionHash options" "dr_id r"] assms(3) old
    by (simp add: sole_rolling_def)
  have "resolveRolling options r = (r, None, None)"
    using assms(4,5) by (simp add: resolveRolling_def)
  with assms found kr show ?thesis
    by (auto simp: updateDelegateRolling_def Let_def save_rules storeDelegate_def
        normalizeDelegate_def lower_defined_def)
qed

definition demo_rolled :: world where
  "demo_rolled = after_changed_event (demo_change ''1'' alice bob carol)
     \<lparr>ev_delegator = alice, ev_fromDelegate = bob, ev_toDelegate = carol\<rparr> empty_world"

definition mixed_case_votes :: DelegateVotesChanged where
  "mixed_case_votes = votes_changed_entity (demo_votes ''2'' ''0xB'' ''xxx,'') (VotesErc20 ''0xB'' 3 0)"

theorem updateDelegateRolling_mixed_case_witness:
  "updateDelegateRolling demo_env mixed_case_votes demo_rolled =
     Inl (TypeError ''Cannot read properties of undefined (reading toLowerCase)'')"
proof (rule updateDelegateRolling_mixed_case)
  let ?r = "new_rolling (demo_change ''1'' alice bob carol)
    \<lparr>ev_delegator = alice, ev_fromDelegate = bob, ev_toDelegate = carol\<rparr>"
  show "token_inv demo_rolled"
    unfolding demo_rolled_def
    by (rule after_changed_event_inv [OF token_inv_empty]) (simp add: plain_change_def)
  show "sole_rolling (transactionHash mixed_case_votes) ?r demo_rolled"
    by (simp add: sole_rolling_def demo_rolled_def after_changed_event_frame rows_def
        mixed_case_votes_def)
  show "to_lower (dvc_delegate mixed_case_votes) = dr_fromDelegate ?r \<or>
      to_lower (dvc_delegate mixed_case_votes) = dr_toDelegate ?r"
    by (simp add: mixed_case_votes_def) code_simp
qed (simp_all add: mixed_case_votes_def)

section \<open>The effective delegation count\<close>

text \<open>
  The effective count of a delegate follows the number of delegation rows that point at it,
  except in one case: a delegation of power zero on a pair whose row has power zero already
  removes the row and leaves the count, so the count is one too high from then on. Such a row
  exists after a self delegation of an account without tokens; a transfer of value zero follows.
\<close>

theorem effective_count_drift:
  assumes "store_ok (te_store env)" and "token_inv w"
    and "df_fromDelegate draft = Some a" and "df_toDelegate draft = Some b"
    and "CHR ''_'' \<notin> set a" and "storeDelegate env draft w = Inr w'"
  shows "effective_of w' k - delegations_to k (delegates w') =
    effective_of w k - delegations_to k (delegates w) +
      (if k = to_lower b \<and> df_power draft = 0 \<and>
          (\<exists>s. map_of (delegates w) (delegate_id (to_lower a) (to_lower b)) = Some s \<and> d_power s = 0)
       then 1 else 0)"
proof -
  let ?d = "delegation_of draft a b"
  have w': "w' = after_delegate env ?d w" using storeDelegate_total(1) [OF assms(1-5)] assms(6) by simp
  have "effective_of w' k =
      effective_of w k + (if k = to_lower b then effective_change ?d (delegates w) else 0)"
    by (simp add: w' effective_of_def after_delegate_def Let_def ledger_simps)
  moreover have "delegates w' = put_delegate ?d (delegates w)"
    by (simp add: w' after_delegate_def Let_def)
  ultimately show ?thesis
    using delegations_to_put [OF delegation_in_world [OF assms(2,5)], of k draft b]
    by (auto simp: effective_change_def split: option.split)
qed

text \<open>The run of the example: the count of \<open>bob\<close> is one, and no row points at it.\<close>

theorem effective_count_drift_witness:
  "\<exists>w1 w2. storeDelegate demo_env (demo_draft 0) empty_world = Inr w1 \<and>
     storeDelegate demo_env (demo_draft 0) w1 = Inr w2 \<and>
     effective_of w2 bob = 1 \<and> delegations_to bob (delegates w2) = 0"
proof -
  have d: "df_fromDelegate (demo_draft 0) = Some ''0xA''" "df_toDelegate (demo_draft 0) = Some bob"
    by (simp_all add: demo_draft_def)
  have nu: "CHR ''_'' \<notin> set ''0xA''" by simp
  note 1 = storeDelegate_total [OF table_store_ok [folded demo_env_simps(1)] token_inv_empty d nu]
  note 2 = storeDelegate_total [OF table_store_ok [folded demo_env_simps(1)] 1(2) d nu]
  let ?d = "delegation_of (demo_draft 0) ''0xA'' bob"
  let ?w1 = "after_delegate demo_env ?d empty_world"
  have w1: "delegates ?w1 = [(delegate_id alice bob, ?d)]"
    by (simp add: after_delegate_def Let_def put_delegate_def demo_lower)
  have "effective_of empty_world bob = 0" "delegations_to bob (delegates empty_world) = 0"
    by (simp_all add: effective_of_def delegations_to_def table_count_def)
  with effective_count_drift [OF table_store_ok [folded demo_env_simps(1)] token_inv_empty d nu 1(1), of bob]
  have e1: "effective_of ?w1 bob - delegations_to bob (delegates ?w1) = 0" by simp
  from effective_count_drift [OF table_store_ok [folded demo_env_simps(1)] 1(2) d nu 2(1), of bob] e1
  have "effective_of (after_delegate demo_env ?d ?w1) bob -
      delegations_to bob (delegates (after_delegate demo_env ?d ?w1)) = 1"
    by (simp add: w1 demo_lower) (simp add: demo_draft_def)
  moreover have "delegates (after_delegate demo_env ?d ?w1) = []"
    by (simp add: after_delegate_def Let_def put_delegate_def demo_lower demo_draft_def)
  ultimately show ?thesis
    using 1(1) 2(1) by (simp add: delegations_to_def table_count_def)
qed

end
