(* ===== verification/AttestationHandler.thy ===== *)
theory AttestationHandler
  imports TokenLedger Handlers
begin

text \<open>
  \<open>packages/indexer/src/handler/attestation.ts\<close>: the handler of the staking contract's logs. A
  stake is voting power an attester gives to itself: the handler keeps the attester's contributor,
  its self delegation and the protocol's total in step. The decoders of \<open>abi/iattestation.ts\<close> are a
  parameter that yields the attester and the amount of the event.
\<close>

section \<open>Events\<close>

definition topic_AttesterRegistered :: string where
  "topic_AttesterRegistered = ''0x0a008fb73c935968ae4e2703c94045967e14171afc089f50423272b0a555770e''"

definition topic_AttesterUnregistered :: string where
  "topic_AttesterUnregistered = ''0xd093900c69857626c80fe61edc537170a356647e411f3909e83955ebfff79d94''"

definition topic_StakeIncreased :: string where
  "topic_StakeIncreased = ''0x8b0ed825817a2e696c9a931715af4609fc60e1701f09c89ee7645130e937eb2d''"

definition topic_StakeDecreased :: string where
  "topic_StakeDecreased = ''0x700865370ffb2a65a2b0242e6a64b21ac907ed5ecd46c9cffc729c177b2b1c69''"

definition topic_Penalized :: string where
  "topic_Penalized = ''0x335eecf7606f75ae04e20d2277b4007e4a4393c127c80f970965779d626bbac7''"

definition topic_Slashed :: string where
  "topic_Slashed = ''0x3b3b44f22c4864fdbce5e9f6c68b37f3b3c13bd42410faaa15bd6ad265425202''"

definition topic_ForceExitInitiated :: string where
  "topic_ForceExitInitiated = ''0x352db1e50d2d8e121c548139a0d03ba175ff9b693ebc1abd952157bb176ca1f0''"

text \<open>
  The arguments of an event the handler reads: the attester, and the amount (\<open>stakeAmount\<close>,
  \<open>additionalStakeAmount\<close>, \<open>decreasedStakeAmount\<close>, \<open>penaltyAmount\<close> or \<open>slashAmount\<close>; the amount of an
  unregistration is not read).
\<close>

record stake_event =
  se_attester :: string
  se_amount :: int

record attestation_codec =
  decode_AttesterRegistered :: "EvmLog \<Rightarrow> stake_event outcome"
  decode_AttesterUnregistered :: "EvmLog \<Rightarrow> string outcome"
  decode_StakeIncreased :: "EvmLog \<Rightarrow> stake_event outcome"
  decode_StakeDecreased :: "EvmLog \<Rightarrow> stake_event outcome"
  decode_Penalized :: "EvmLog \<Rightarrow> stake_event outcome"
  decode_Slashed :: "EvmLog \<Rightarrow> stake_event outcome"

record attestation_env =
  ae_store :: store
  ae_codec :: attestation_codec

section \<open>The power delta\<close>

definition stake_contributor :: "string \<Rightarrow> int \<Rightarrow> EvmLog \<Rightarrow> Contributor" where
  "stake_contributor attesterLower delta eventLog =
     \<lparr>blockNumber = log_height eventLog, blockTimestamp = log_timestamp eventLog,
      transactionHash = log_transactionHash eventLog, co_id = attesterLower,
      co_lastVoteBlockNumber = None, co_lastVoteTimestamp = None, co_power = delta,
      co_delegatesCountAll = 0, co_delegatesCountEffective = 0\<rparr>"

text \<open>Block 1: the contributor, and whether the account is actually new.\<close>

definition upsertStakeContributor ::
    "store \<Rightarrow> string \<Rightarrow> int \<Rightarrow> EvmLog \<Rightarrow> world \<Rightarrow> (bool \<times> world) outcome" where
  "upsertStakeContributor st attesterLower delta eventLog w =
     and_then (findOne (contributorRepo st) (\<lambda>c. co_id c = attesterLower) (contributors w))
       (\<lambda>found. case found of
          Some storedContributor \<Rightarrow>
            and_then (save_Contributor st (storedContributor\<lparr>
                co_power := co_power storedContributor + delta,
                blockNumber := log_height eventLog, blockTimestamp := log_timestamp eventLog,
                transactionHash := log_transactionHash eventLog\<rparr>) w)
              (\<lambda>w. Inr (False, w))
        | None \<Rightarrow>
            and_then (insert_Contributor st (stake_contributor attesterLower delta eventLog) w)
              (\<lambda>w. Inr (True, w)))"

definition stake_delegate :: "string \<Rightarrow> int \<Rightarrow> EvmLog \<Rightarrow> Delegate" where
  "stake_delegate attesterLower delta eventLog =
     \<lparr>blockNumber = log_height eventLog, blockTimestamp = log_timestamp eventLog,
      transactionHash = log_transactionHash eventLog,
      d_id = attesterLower @ ''_'' @ attesterLower,
      d_fromDelegate = attesterLower, d_toDelegate = attesterLower, d_power = delta\<rparr>"

text \<open>Block 2: the self delegation.\<close>

definition upsertStakeDelegate ::
    "store \<Rightarrow> string \<Rightarrow> int \<Rightarrow> EvmLog \<Rightarrow> world \<Rightarrow> world outcome" where
  "upsertStakeDelegate st attesterLower delta eventLog w =
     (let delegateId = attesterLower @ ''_'' @ attesterLower in
      and_then (findOne (delegateRepo st) (\<lambda>d. d_id d = delegateId) (delegates w))
       (\<lambda>found. case found of
          Some storedDelegate \<Rightarrow>
            let stored = storedDelegate\<lparr>
                  d_power := d_power storedDelegate + delta,
                  blockNumber := log_height eventLog, blockTimestamp := log_timestamp eventLog,
                  transactionHash := log_transactionHash eventLog\<rparr>
            in if d_power stored = 0 then remove_Delegate st delegateId w
               else save_Delegate st stored w
        | None \<Rightarrow>
            if delta > 0
            then insert_Delegate st (stake_delegate attesterLower delta eventLog) w
            else Inr w))"

text \<open>Blocks 3 and 4: the metrics.\<close>

definition updateStakeMetrics :: "store \<Rightarrow> int \<Rightarrow> bool \<Rightarrow> world \<Rightarrow> world outcome" where
  "updateStakeMetrics st delta countMember w =
     and_then (findOne (dataMetricRepo st) (\<lambda>dm. dm_id dm = global_id) (dataMetrics w))
       (\<lambda>storedDataMetric.
         let dm = metric_or_new storedDataMetric
         in and_then (if storedDataMetric = None then insert_DataMetric st dm w else Inr w)
              (\<lambda>w.
                let dm = dm\<lparr>dm_powerSum := Some (nullish (dm_powerSum dm) 0 + delta)\<rparr>;
                    dm = (if countMember
                          then dm\<lparr>dm_memberCount := Some (nullish (dm_memberCount dm) 0 + 1)\<rparr>
                          else dm)
                in save_DataMetric st dm w))"

definition applyPowerDelta ::
    "attestation_env \<Rightarrow> string \<Rightarrow> int \<Rightarrow> EvmLog \<Rightarrow> bool \<Rightarrow> world \<Rightarrow> world outcome" where
  "applyPowerDelta env attester delta eventLog isNewRegistration w =
     (let attesterLower = to_lower attester in
      and_then (upsertStakeContributor (ae_store env) attesterLower delta eventLog w)
        (\<lambda>(isActuallyNew, w).
      and_then (upsertStakeDelegate (ae_store env) attesterLower delta eventLog w)
        (updateStakeMetrics (ae_store env) delta (isNewRegistration \<and> isActuallyNew))))"

definition zeroOutAttester :: "attestation_env \<Rightarrow> string \<Rightarrow> EvmLog \<Rightarrow> world \<Rightarrow> world outcome" where
  "zeroOutAttester env attester eventLog w =
     (let attesterLower = to_lower attester in
      and_then (findOne (contributorRepo (ae_store env)) (\<lambda>c. co_id c = attesterLower)
                  (contributors w))
        (\<lambda>found. case found of
           None \<Rightarrow> Inr w
         | Some storedContributor \<Rightarrow>
             if co_power storedContributor = 0 then Inr w
             else applyPowerDelta env attester (- co_power storedContributor) eventLog False w))"

section \<open>The handlers and the dispatch\<close>

definition handleAttesterRegistered :: "attestation_env \<Rightarrow> EvmLog \<Rightarrow> world \<Rightarrow> world outcome" where
  "handleAttesterRegistered env eventLog w =
     and_then (decode_AttesterRegistered (ae_codec env) eventLog)
       (\<lambda>event. applyPowerDelta env (se_attester event) (se_amount event) eventLog True w)"

definition handleAttesterUnregistered :: "attestation_env \<Rightarrow> EvmLog \<Rightarrow> world \<Rightarrow> world outcome" where
  "handleAttesterUnregistered env eventLog w =
     and_then (decode_AttesterUnregistered (ae_codec env) eventLog)
       (\<lambda>attester. zeroOutAttester env attester eventLog w)"

definition handleStakeIncreased :: "attestation_env \<Rightarrow> EvmLog \<Rightarrow> world \<Rightarrow> world outcome" where
  "handleStakeIncreased env eventLog w =
     and_then (decode_StakeIncreased (ae_codec env) eventLog)
       (\<lambda>event. applyPowerDelta env (se_attester event) (se_amount event) eventLog False w)"

definition handleStakeDecreased :: "attestation_env \<Rightarrow> EvmLog \<Rightarrow> world \<Rightarrow> world outcome" where
  "handleStakeDecreased env eventLog w =
     and_then (decode_StakeDecreased (ae_codec env) eventLog)
       (\<lambda>event. applyPowerDelta env (se_attester event) (- se_amount event) eventLog False w)"

definition handlePenalized :: "attestation_env \<Rightarrow> EvmLog \<Rightarrow> world \<Rightarrow> world outcome" where
  "handlePenalized env eventLog w =
     and_then (decode_Penalized (ae_codec env) eventLog)
       (\<lambda>event. applyPowerDelta env (se_attester event) (- se_amount event) eventLog False w)"

definition handleSlashed :: "attestation_env \<Rightarrow> EvmLog \<Rightarrow> world \<Rightarrow> world outcome" where
  "handleSlashed env eventLog w =
     and_then (decode_Slashed (ae_codec env) eventLog)
       (\<lambda>event. applyPowerDelta env (se_attester event) (- se_amount event) eventLog False w)"

text \<open>
  \<open>switch (eventLog.topics[0])\<close>: the first topic alone decides, and a log without topics or with
  another first topic falls through.
\<close>

definition handle_attestation :: "attestation_env \<Rightarrow> EvmLog \<Rightarrow> world \<Rightarrow> world outcome" where
  "handle_attestation env eventLog w =
     (case log_topics eventLog of
        [] \<Rightarrow> Inr w
      | topic # _ \<Rightarrow>
          if topic = topic_AttesterRegistered then handleAttesterRegistered env eventLog w
          else if topic = topic_AttesterUnregistered then handleAttesterUnregistered env eventLog w
          else if topic = topic_StakeIncreased then handleStakeIncreased env eventLog w
          else if topic = topic_StakeDecreased then handleStakeDecreased env eventLog w
          else if topic = topic_Penalized then handlePenalized env eventLog w
          else if topic = topic_Slashed then handleSlashed env eventLog w
          else if topic = topic_ForceExitInitiated then Inr w
          else Inr w)"

section \<open>The effect of a delta on the tables\<close>

definition staked_contributor :: "string \<Rightarrow> int \<Rightarrow> EvmLog \<Rightarrow> Contributor table \<Rightarrow> Contributor" where
  "staked_contributor a n l t =
     (case map_of t a of
        None \<Rightarrow> stake_contributor a n l
      | Some c \<Rightarrow> c\<lparr>co_power := co_power c + n, blockNumber := log_height l,
            blockTimestamp := log_timestamp l, transactionHash := log_transactionHash l\<rparr>)"

definition put_stake :: "string \<Rightarrow> int \<Rightarrow> EvmLog \<Rightarrow> Delegate table \<Rightarrow> Delegate table" where
  "put_stake a n l t =
     (case map_of t (a @ ''_'' @ a) of
        None \<Rightarrow> if n > 0 then AList.update (a @ ''_'' @ a) (stake_delegate a n l) t else t
      | Some d \<Rightarrow>
          if d_power d + n = 0 then AList.delete (a @ ''_'' @ a) t
          else AList.update (a @ ''_'' @ a) (d\<lparr>d_power := d_power d + n, blockNumber := log_height l,
                 blockTimestamp := log_timestamp l, transactionHash := log_transactionHash l\<rparr>) t)"

definition after_stake :: "string \<Rightarrow> int \<Rightarrow> EvmLog \<Rightarrow> bool \<Rightarrow> world \<Rightarrow> world" where
  "after_stake a n l reg w =
     w\<lparr>contributors := AList.update a (staked_contributor a n l (contributors w)) (contributors w),
       delegates := put_stake a n l (delegates w),
       dataMetrics := change_metric (\<lambda>dm.
           if reg \<and> map_of (contributors w) a = None then add_member (add_power n dm)
           else add_power n dm) (dataMetrics w)\<rparr>"

lemma updateStakeMetrics_eq:
  assumes "store_ok st" and "keyed dm_id (dataMetrics w)"
  shows "updateStakeMetrics st n b w =
    Inr (w\<lparr>dataMetrics := change_metric (\<lambda>dm. if b then add_member (add_power n dm)
           else add_power n dm) (dataMetrics w)\<rparr>)"
proof (cases "map_of (dataMetrics w) global_id")
  case None
  with assms show ?thesis
    by (simp add: updateStakeMetrics_def store_rules change_metric_def add_power_def add_member_def
        keyed_update metric_or_new_def Let_def)
next
  case (Some dm)
  with assms keyed_lookup [OF assms(2) Some] show ?thesis
    by (simp add: updateStakeMetrics_def store_rules change_metric_def add_power_def add_member_def
        metric_or_new_def Let_def)
qed

lemma applyPowerDelta_eq:
  assumes "store_ok (ae_store env)" and "keyed_world w"
  shows "applyPowerDelta env attester n l reg w = Inr (after_stake (to_lower attester) n l reg w)"
proof -
  let ?a = "to_lower attester"
  have k: "keyed co_id (contributors w)" "keyed d_id (delegates w)" "keyed dm_id (dataMetrics w)"
    using assms(2) by (simp_all add: keyed_world_def)
  have 1: "upsertStakeContributor (ae_store env) ?a n l w =
      Inr (map_of (contributors w) ?a = None,
        w\<lparr>contributors := AList.update ?a (staked_contributor ?a n l (contributors w)) (contributors w)\<rparr>)"
  proof (cases "map_of (contributors w) ?a")
    case None
    with assms(1) k show ?thesis
      by (simp add: upsertStakeContributor_def store_rules staked_contributor_def stake_contributor_def)
  next
    case (Some c)
    with assms(1) k keyed_lookup [OF k(1) Some] show ?thesis
      by (simp add: upsertStakeContributor_def store_rules staked_contributor_def)
  qed
  have 2: "upsertStakeDelegate (ae_store env) ?a n l v =
      Inr (v\<lparr>delegates := put_stake ?a n l (delegates v)\<rparr>)" if kv: "keyed d_id (delegates v)" for v
  proof (cases "map_of (delegates v) (?a @ ''_'' @ ?a)")
    case None
    with assms(1) kv show ?thesis
      by (simp add: upsertStakeDelegate_def store_rules put_stake_def stake_delegate_def Let_def)
  next
    case (Some d)
    with assms(1) kv keyed_lookup [OF kv Some] show ?thesis
      by (simp add: upsertStakeDelegate_def store_rules put_stake_def Let_def)
  qed
  from assms(1) k show ?thesis
    by (simp add: applyPowerDelta_def Let_def 1 2 updateStakeMetrics_eq after_stake_def)
qed

end
