(* ===== verification/AttestationClaims.thy ===== *)
theory AttestationClaims
  imports AttestationHandler
begin

text \<open>
  What the attestation handler promises: it implements an abstract machine that keeps one stake
  per account, the protocol's total is the sum of the stakes, and as long as no stake is negative
  every account is backed by a self delegation of the same power.
\<close>

section \<open>The abstract staking machine\<close>

datatype stake_op =
    Register string int
  | Unregister string
  | Adjust string int
  | Untouched

definition stake_op_of :: "attestation_env \<Rightarrow> EvmLog \<Rightarrow> stake_op outcome" where
  "stake_op_of env l =
     (let c = ae_codec env;
          change = (\<lambda>sgn d. and_then (d l)
            (\<lambda>e. Inr (Adjust (to_lower (se_attester e)) (sgn * se_amount e))))
      in case log_topics l of
        [] \<Rightarrow> Inr Untouched
      | topic # _ \<Rightarrow>
          if topic = topic_AttesterRegistered
          then and_then (decode_AttesterRegistered c l)
                 (\<lambda>e. Inr (Register (to_lower (se_attester e)) (se_amount e)))
          else if topic = topic_AttesterUnregistered
          then and_then (decode_AttesterUnregistered c l) (\<lambda>a. Inr (Unregister (to_lower a)))
          else if topic = topic_StakeIncreased then change 1 (decode_StakeIncreased c)
          else if topic = topic_StakeDecreased then change (- 1) (decode_StakeDecreased c)
          else if topic = topic_Penalized then change (- 1) (decode_Penalized c)
          else if topic = topic_Slashed then change (- 1) (decode_Slashed c)
          else Inr Untouched)"

fun apply_op :: "stake_op \<Rightarrow> (string \<Rightarrow> int) \<Rightarrow> string \<Rightarrow> int" where
  "apply_op (Register a n) s = s(a := s a + n)"
| "apply_op (Unregister a) s = s(a := 0)"
| "apply_op (Adjust a n) s = s(a := s a + n)"
| "apply_op Untouched s = s"

definition stakes :: "world \<Rightarrow> string \<Rightarrow> int" where
  "stakes w a = row_value co_power (contributors w) a"

text \<open>The account an operation adds to, how much, and whether it may count a member.\<close>

fun op_delta :: "stake_op \<Rightarrow> (string \<Rightarrow> int) \<Rightarrow> (string \<times> int \<times> bool) option" where
  "op_delta (Register a n) s = Some (a, n, True)"
| "op_delta (Unregister a) s = (if s a = 0 then None else Some (a, - s a, False))"
| "op_delta (Adjust a n) s = Some (a, n, False)"
| "op_delta Untouched s = None"

lemma apply_op_delta:
  "apply_op oper s = (case op_delta oper s of None \<Rightarrow> s | Some (a, n, b) \<Rightarrow> s(a := s a + n))"
  by (cases oper) (auto simp: fun_eq_iff)

definition after_op :: "stake_op \<Rightarrow> EvmLog \<Rightarrow> world \<Rightarrow> world" where
  "after_op oper l w =
     (case op_delta oper (stakes w) of None \<Rightarrow> w | Some (a, n, b) \<Rightarrow> after_stake a n l b w)"

lemma zeroOutAttester_eq:
  assumes "store_ok (ae_store env)" and "keyed_world w"
  shows "zeroOutAttester env attester l w = Inr (after_op (Unregister (to_lower attester)) l w)"
proof -
  have k: "keyed co_id (contributors w)" using assms(2) by (simp add: keyed_world_def)
  show ?thesis
    using assms k
    by (cases "map_of (contributors w) (to_lower attester)")
      (simp_all add: zeroOutAttester_def store_rules applyPowerDelta_eq after_op_def stakes_def Let_def)
qed

lemma handle_attestation_eq:
  assumes "store_ok (ae_store env)" and "keyed_world w"
  shows "handle_attestation env l w = and_then (stake_op_of env l) (\<lambda>oper. Inr (after_op oper l w))"
proof -
  note h = handleAttesterRegistered_def handleAttesterUnregistered_def handleStakeIncreased_def
    handleStakeDecreased_def handlePenalized_def handleSlashed_def
  show ?thesis
    using assms
    by (cases "log_topics l")
      (simp_all add: handle_attestation_def stake_op_of_def h applyPowerDelta_eq zeroOutAttester_eq
        and_then_assoc Let_def, simp_all add: after_op_def)
qed

section \<open>What one operation does\<close>

lemma staked_simps [simp]:
  "co_id (staked_contributor a n l t) = (case map_of t a of None \<Rightarrow> a | Some c \<Rightarrow> co_id c)"
  "co_power (staked_contributor a n l t) = row_value co_power t a + n"
  by (simp_all add: staked_contributor_def stake_contributor_def split: option.split)

lemma stakes_after_stake [simp]:
  "stakes (after_stake a n l b w) = (stakes w)(a := stakes w a + n)"
  by (auto simp: stakes_def after_stake_def fun_eq_iff row_value_def AList.update_conv')

lemma stakes_after_op: "stakes (after_op oper l w) = apply_op oper (stakes w)"
  by (simp add: after_op_def apply_op_delta split: option.split)

definition stake_inv :: "world \<Rightarrow> bool" where
  "stake_inv w \<longleftrightarrow> keyed_world w \<and>
     powerSum_of (dataMetrics w) = table_sum co_power (contributors w)"

definition uncounted :: "world \<Rightarrow> int" where
  "uncounted w = int (length (contributors w)) - memberCount_of (dataMetrics w)"

lemma put_stake_keyed: "keyed d_id t \<Longrightarrow> keyed d_id (put_stake a n l t)"
  by (auto simp: put_stake_def keyed_lookup stake_delegate_def intro!: keyed_update keyed_delete
      split: option.split)

lemma after_stake_inv:
  assumes "stake_inv w"
  shows "stake_inv (after_stake a n l b w)"
proof -
  have "keyed co_id (contributors w)" using assms by (simp add: stake_inv_def keyed_world_def)
  then have "co_id (staked_contributor a n l (contributors w)) = a"
    by (simp add: keyed_lookup split: option.split)
  with assms show ?thesis
    by (simp add: stake_inv_def after_stake_def keyed_world_def keyed_update put_stake_keyed
        keyed_change_metric table_sum_update powerSum_of_def metric_change)
      (simp add: add_power_def add_member_def)
qed

lemma after_op_inv: "stake_inv w \<Longrightarrow> stake_inv (after_op oper l w)"
  by (simp add: after_op_def after_stake_inv split: option.split)

lemma uncounted_after_stake:
  "uncounted (after_stake a n l b w) =
     uncounted w + (if map_of (contributors w) a = None \<and> \<not> b then 1 else 0)"
  by (simp add: uncounted_def after_stake_def length_update memberCount_of_def metric_change)
    (simp add: add_power_def add_member_def)

text \<open>Every account of non-zero stake has one self delegation of that power, and no other has.\<close>

definition backed :: "world \<Rightarrow> bool" where
  "backed w \<longleftrightarrow> (\<forall>a. case map_of (delegates w) (a @ ''_'' @ a) of
     None \<Rightarrow> stakes w a = 0 | Some d \<Rightarrow> d_power d = stakes w a \<and> d_power d \<noteq> 0)"

lemma doubled_inj: "a @ ''_'' @ a = b @ ''_'' @ b \<longleftrightarrow> a = b"
proof
  assume eq: "a @ ''_'' @ a = b @ ''_'' @ b"
  then have "length (a @ ''_'' @ a) = length (b @ ''_'' @ b)" by (rule arg_cong)
  then have "length a = length b" by simp
  with eq show "a = b" by simp
qed simp

lemma after_stake_backed:
  assumes "backed w" and "0 \<le> stakes w a + n"
  shows "backed (after_stake a n l b w)"
  unfolding backed_def
proof
  fix x
  have x: "case map_of (delegates w) (x @ ''_'' @ x) of
     None \<Rightarrow> stakes w x = 0 | Some d \<Rightarrow> d_power d = stakes w x \<and> d_power d \<noteq> 0"
    using assms(1) by (simp add: backed_def)
  have "delegates (after_stake a n l b w) = put_stake a n l (delegates w)"
    by (simp add: after_stake_def)
  moreover have "map_of (put_stake a n l (delegates w)) (x @ ''_'' @ x) =
      (if x = a
       then case map_of (delegates w) (a @ ''_'' @ a) of
          None \<Rightarrow> if n > 0 then Some (stake_delegate a n l) else None
        | Some d \<Rightarrow> if d_power d + n = 0 then None
            else Some (d\<lparr>d_power := d_power d + n, blockNumber := log_height l,
                 blockTimestamp := log_timestamp l, transactionHash := log_transactionHash l\<rparr>)
       else map_of (delegates w) (x @ ''_'' @ x))"
    using doubled_inj [of x a]
    by (auto simp: put_stake_def AList.update_conv' AList.delete_conv' split: option.split)
  ultimately show "case map_of (delegates (after_stake a n l b w)) (x @ ''_'' @ x) of
     None \<Rightarrow> stakes (after_stake a n l b w) x = 0
   | Some d \<Rightarrow> d_power d = stakes (after_stake a n l b w) x \<and> d_power d \<noteq> 0"
    using x assms(2) by (auto simp: stake_delegate_def split: option.splits)
qed

lemma after_op_backed:
  assumes "backed w" and "\<forall>a. 0 \<le> apply_op oper (stakes w) a"
  shows "backed (after_op oper l w)"
proof (cases "op_delta oper (stakes w)")
  case None
  with assms show ?thesis by (simp add: after_op_def)
next
  case (Some p)
  obtain a n b where p: "p = (a, n, b)" by (cases p)
  with assms(2) Some have "0 \<le> stakes w a + n"
    by (auto simp: apply_op_delta dest: spec [of _ a])
  with assms(1) Some p show ?thesis by (simp add: after_op_def after_stake_backed)
qed

section \<open>The contract of the handler\<close>

definition stake_run_inv :: "attestation_env \<Rightarrow> world \<Rightarrow> bool" where
  "stake_run_inv env w \<longleftrightarrow> store_ok (ae_store env) \<and> stake_inv w"

definition stake_ready :: "attestation_env \<Rightarrow> EvmLog \<Rightarrow> world \<Rightarrow> bool" where
  "stake_ready env l w \<longleftrightarrow> (\<exists>oper. stake_op_of env l = Inr oper)"

lemma stake_inv_keyed: "stake_inv w \<Longrightarrow> keyed_world w"
  by (simp add: stake_inv_def)

interpretation attestation: log_handler "handle_attestation env" "stake_run_inv env" "stake_ready env"
  for env
  by unfold_locales
    (auto simp: stake_run_inv_def stake_ready_def handle_attestation_eq stake_inv_keyed
      and_then_eq_Inr after_op_inv)

section \<open>Properties\<close>

text \<open>
  C21: The handler implements the abstract staking machine. Every log whose event decodes is
  processed; afterwards the powers of the contributors are the stakes of the machine after the
  event's operation, the protocol's total is still their sum, and the accounts without a member
  count grow by one exactly when the account's first event is not a registration.
\<close>

theorem handle_attestation_refines:
  assumes "store_ok (ae_store env)" and "stake_inv w" and "stake_op_of env l = Inr oper"
  shows "\<exists>w'. handle_attestation env l w = Inr w' \<and> stake_inv w' \<and>
    stakes w' = apply_op oper (stakes w) \<and>
    uncounted w' = uncounted w +
      (case oper of Adjust a n \<Rightarrow> if map_of (contributors w) a = None then 1 else 0 | _ \<Rightarrow> 0)"
proof -
  have "uncounted (after_op oper l w) = uncounted w +
      (case oper of Adjust a n \<Rightarrow> if map_of (contributors w) a = None then 1 else 0 | _ \<Rightarrow> 0)"
    by (cases oper) (auto simp: after_op_def uncounted_after_stake stakes_def)
  with assms show ?thesis
    by (simp add: handle_attestation_eq stake_inv_keyed stakes_after_op after_op_inv)
qed

text \<open>A concrete codec: the attester is the second topic, the amount the length of the data.\<close>

definition demo_stake_codec :: attestation_codec where
  "demo_stake_codec =
     (let d = (\<lambda>l. case log_topics l of [_, a] \<Rightarrow> Inr \<lparr>se_attester = a, se_amount = int (length (log_data l))\<rparr>
               | _ \<Rightarrow> Inl (ThrownError ''decode''))
      in \<lparr>decode_AttesterRegistered = d,
          decode_AttesterUnregistered = (\<lambda>l. and_then (d l) (\<lambda>e. Inr (se_attester e))),
          decode_StakeIncreased = d, decode_StakeDecreased = d, decode_Penalized = d,
          decode_Slashed = d\<rparr>)"

definition demo_stake_env :: attestation_env where
  "demo_stake_env = \<lparr>ae_store = table_store, ae_codec = demo_stake_codec\<rparr>"

definition stake_log :: "string \<Rightarrow> string \<Rightarrow> string \<Rightarrow> EvmLog" where
  "stake_log topic a content = \<lparr>log_id = ''1'', log_address = ''0x7'', log_topics = [topic, a],
     log_data = content, log_height = 1, log_timestamp = 2, log_transactionHash = ''0xt''\<rparr>"

lemma demo_stake_env_simps [simp]: "ae_store demo_stake_env = table_store"
  by (simp add: demo_stake_env_def)

lemma stake_topics_distinct [simp]:
  "topic_StakeIncreased \<noteq> topic_AttesterRegistered" "topic_StakeIncreased \<noteq> topic_AttesterUnregistered"
  "topic_AttesterUnregistered \<noteq> topic_AttesterRegistered"
  by (simp_all add: topic_StakeIncreased_def topic_AttesterRegistered_def topic_AttesterUnregistered_def)

lemma demo_stake_ops:
  "stake_op_of demo_stake_env (stake_log topic_AttesterRegistered a c) =
     Inr (Register (to_lower a) (int (length c)))"
  "stake_op_of demo_stake_env (stake_log topic_AttesterUnregistered a c) = Inr (Unregister (to_lower a))"
  "stake_op_of demo_stake_env (stake_log topic_StakeIncreased a c) =
     Inr (Adjust (to_lower a) (int (length c)))"
  by (simp_all add: stake_op_of_def demo_stake_env_def demo_stake_codec_def stake_log_def Let_def)

lemma stake_inv_empty [simp]: "stake_inv empty_world"
  by (simp add: stake_inv_def keyed_empty_world)
    (simp add: powerSum_of_def metric_or_new_def new_DataMetric_def)

theorem handle_attestation_refines_witness:
  "\<exists>w'. handle_attestation demo_stake_env (stake_log topic_StakeIncreased ''0xa'' ''xxx'') empty_world
      = Inr w' \<and> stakes w' (to_lower ''0xa'') = 3 \<and> uncounted w' = 1"
proof -
  have "uncounted empty_world = 0" "stakes empty_world a = 0" for a
    by (simp_all add: uncounted_def memberCount_of_def metric_or_new_def new_DataMetric_def stakes_def)
  with handle_attestation_refines [of demo_stake_env empty_world, OF _ _ demo_stake_ops(3)]
  show ?thesis by fastforce
qed

text \<open>The stakes a list of logs leads to, and whether no stake is ever negative on the way.\<close>

fun final_stakes :: "attestation_env \<Rightarrow> EvmLog list \<Rightarrow> (string \<Rightarrow> int) \<Rightarrow> string \<Rightarrow> int" where
  "final_stakes env [] s = s"
| "final_stakes env (l # ls) s =
     (case stake_op_of env l of Inl _ \<Rightarrow> s | Inr oper \<Rightarrow> final_stakes env ls (apply_op oper s))"

fun never_negative :: "attestation_env \<Rightarrow> EvmLog list \<Rightarrow> (string \<Rightarrow> int) \<Rightarrow> bool" where
  "never_negative env [] s \<longleftrightarrow> True"
| "never_negative env (l # ls) s \<longleftrightarrow>
     (case stake_op_of env l of
        Inl _ \<Rightarrow> True
      | Inr oper \<Rightarrow> (\<forall>a. 0 \<le> apply_op oper s a) \<and> never_negative env ls (apply_op oper s))"

lemma stake_run_backed:
  assumes "store_ok (ae_store env)" and "stake_inv w" and "backed w"
    and "fold_outcome (handle_attestation env) ls w = Inr w'" and "never_negative env ls (stakes w)"
  shows "stakes w' = final_stakes env ls (stakes w) \<and> backed w'"
  using assms
proof (induction ls arbitrary: w)
  case Nil
  then show ?case by simp
next
  case (Cons l ls)
  from Cons.prems(1,2,4) obtain oper where oper: "stake_op_of env l = Inr oper"
    and rest: "fold_outcome (handle_attestation env) ls (after_op oper l w) = Inr w'"
    by (auto simp: handle_attestation_eq stake_inv_keyed and_then_eq_Inr)
  from Cons.prems(3,5) oper have "backed (after_op oper l w)" by (simp add: after_op_backed)
  with Cons.IH [OF Cons.prems(1) after_op_inv [OF Cons.prems(2)] _ rest] Cons.prems(5) oper
  show ?case by (simp add: stakes_after_op)
qed

text \<open>
  Over a whole run from the empty database in which no stake gets negative, the contributors
  hold exactly the stakes of the abstract machine, and each account is backed: an account with a
  stake has one self delegation row of that power, an account without has none, so that an
  unregistration leaves no row behind.
\<close>

theorem attestation_run_backed:
  assumes "store_ok (ae_store env)" and "fold_outcome (handle_attestation env) ls empty_world = Inr w"
    and "never_negative env ls (\<lambda>_. 0)"
  shows "stakes w = final_stakes env ls (\<lambda>_. 0) \<and>
    powerSum_of (dataMetrics w) = table_sum co_power (contributors w) \<and>
    (\<forall>a. case map_of (delegates w) (a @ ''_'' @ a) of
       None \<Rightarrow> stakes w a = 0 | Some d \<Rightarrow> d_power d = stakes w a \<and> d_power d \<noteq> 0)"
proof -
  have z: "stakes empty_world = (\<lambda>_. 0)" by (simp add: stakes_def fun_eq_iff)
  have "stake_run_inv env empty_world" using assms(1) by (simp add: stake_run_inv_def)
  with assms(2) have "stake_run_inv env w" by (rule attestation.logs_keep)
  moreover have "backed empty_world" by (simp add: backed_def z)
  then have "stakes w = final_stakes env ls (stakes empty_world) \<and> backed w"
    using assms by (intro stake_run_backed) (simp_all add: z)
  ultimately show ?thesis by (simp add: z stake_run_inv_def stake_inv_def backed_def)
qed

definition demo_stake_run :: "EvmLog list" where
  "demo_stake_run = [stake_log topic_AttesterRegistered ''0xa'' ''xxxx'',
     stake_log topic_AttesterUnregistered ''0xa'' []]"

theorem attestation_run_backed_witness:
  "\<exists>w. fold_outcome (handle_attestation demo_stake_env) demo_stake_run empty_world = Inr w \<and>
     stakes w (to_lower ''0xa'') = 0 \<and>
     map_of (delegates w) (to_lower ''0xa'' @ ''_'' @ to_lower ''0xa'') = None"
proof -
  let ?r = "stake_log topic_AttesterRegistered ''0xa'' ''xxxx''"
    and ?u = "stake_log topic_AttesterUnregistered ''0xa'' []"
  have e: "store_ok (ae_store demo_stake_env)" by simp
  have "\<exists>w1. handle_attestation demo_stake_env ?r empty_world = Inr w1 \<and> stake_inv w1"
    using e by (simp add: handle_attestation_eq stake_inv_keyed demo_stake_ops after_op_inv)
  then obtain w1 where w1: "handle_attestation demo_stake_env ?r empty_world = Inr w1" "stake_inv w1"
    by blast
  then have "\<exists>w. handle_attestation demo_stake_env ?u w1 = Inr w"
    using e by (simp add: handle_attestation_eq stake_inv_keyed demo_stake_ops)
  with w1 obtain w where w: "fold_outcome (handle_attestation demo_stake_env) demo_stake_run empty_world = Inr w"
    by (auto simp: demo_stake_run_def)
  have n: "never_negative demo_stake_env demo_stake_run (\<lambda>_. 0)"
    and f: "final_stakes demo_stake_env demo_stake_run (\<lambda>_. 0) = (\<lambda>_. 0)"
    by (auto simp: demo_stake_run_def demo_stake_ops fun_eq_iff)
  from attestation_run_backed [OF e w n] f w show ?thesis
    by (auto split: option.splits)
qed

end
