(* ===== verification/JsText.thy ===== *)
theory JsText
  imports Prelude
begin

text \<open>
  The string methods of the source language that the components use beyond \<open>toLowerCase\<close>:
  \<open>startsWith\<close>, \<open>includes\<close>, \<open>split\<close>, \<open>trim\<close>, \<open>toUpperCase\<close>, \<open>replace\<close> of a fixed text, and the
  decimal and hexadecimal forms of integers. A character is one code unit below 256; the white
  space and line ends of that range are those of the language.
\<close>

section \<open>Searching\<close>

definition starts_with :: "string \<Rightarrow> string \<Rightarrow> bool" where
  "starts_with s t = (take (length t) s = t)"

primrec contains_text :: "string \<Rightarrow> string \<Rightarrow> bool" where
  "contains_text [] t = (t = [])"
| "contains_text (c # s) t = (starts_with (c # s) t \<or> contains_text s t)"

lemma starts_with_append: "starts_with s t \<longleftrightarrow> (\<exists>u. s = t @ u)"
  by (metis append_eq_conv_conj append_take_drop_id starts_with_def)

lemma includes_iff: "contains_text s t \<longleftrightarrow> (\<exists>a b. s = a @ t @ b)"
proof (induction s)
  case Nil
  then show ?case by auto
next
  case (Cons c s)
  show ?case
  proof
    assume "contains_text (c # s) t"
    then consider "starts_with (c # s) t" | "contains_text s t" by auto
    then show "\<exists>a b. c # s = a @ t @ b"
    proof cases
      case 1
      then show ?thesis by (metis append_Nil starts_with_append)
    next
      case 2
      then show ?thesis using Cons.IH by (metis append_Cons)
    qed
  next
    assume "\<exists>a b. c # s = a @ t @ b"
    then obtain a b where ab: "c # s = a @ t @ b" by blast
    show "contains_text (c # s) t"
    proof (cases a)
      case Nil
      with ab show ?thesis by (metis append_Nil contains_text.simps(2) starts_with_append)
    next
      case (Cons d a')
      with ab have "s = a' @ t @ b" by simp
      with Cons.IH have "contains_text s t" by blast
      then show ?thesis by simp
    qed
  qed
qed

text \<open>\<open>s.replace(t, u)\<close> with a text \<open>t\<close>: the first occurrence only.\<close>

primrec replace_first :: "string \<Rightarrow> string \<Rightarrow> string \<Rightarrow> string" where
  "replace_first t u [] = (if t = [] then u else [])"
| "replace_first t u (c # s) =
     (if starts_with (c # s) t then u @ drop (length t) (c # s) else c # replace_first t u s)"

text \<open>\<open>s.split(c)\<close> with a separator of one character.\<close>

primrec split_on :: "char \<Rightarrow> string \<Rightarrow> string list" where
  "split_on c [] = [[]]"
| "split_on c (x # s) =
     (if x = c then [] # split_on c s
      else case split_on c s of [] \<Rightarrow> [[x]] | p # ps \<Rightarrow> (x # p) # ps)"

lemma split_on_not_Nil [simp]: "split_on c s \<noteq> []"
  by (induction s) (auto split: list.split)

lemma split_on_pieces: "p \<in> set (split_on c s) \<Longrightarrow> c \<notin> set p"
proof (induction s arbitrary: p)
  case Nil
  then show ?case by simp
next
  case (Cons x s)
  then show ?case
    by (cases "split_on c s") (auto split: if_splits)
qed

lemma split_on_plain: "c \<notin> set s \<Longrightarrow> split_on c s = [s]"
  by (induction s) auto

lemma split_on_join: "c \<notin> set p \<Longrightarrow> split_on c (p @ c # s) = p # split_on c s"
  by (induction p) auto

section \<open>White space and case\<close>

definition is_line_end :: "char \<Rightarrow> bool" where
  "is_line_end c = (let n = (of_char c :: nat) in n = 10 \<or> n = 13)"

definition is_space :: "char \<Rightarrow> bool" where
  "is_space c = (let n = (of_char c :: nat) in (9 \<le> n \<and> n \<le> 13) \<or> n = 32 \<or> n = 160)"

definition trim_start :: "string \<Rightarrow> string" where
  "trim_start s = dropWhile is_space s"

definition trim :: "string \<Rightarrow> string" where
  "trim s = rev (dropWhile is_space (rev (dropWhile is_space s)))"

definition trimmed :: "string \<Rightarrow> bool" where
  "trimmed s \<longleftrightarrow> s = [] \<or> (\<not> is_space (hd s) \<and> \<not> is_space (last s))"

lemma dropWhile_hd: "dropWhile P s \<noteq> [] \<Longrightarrow> \<not> P (hd (dropWhile P s))"
  by (induction s) auto

lemma trim_trimmed [simp]: "trimmed (trim s)"
proof (cases "trim s = []")
  case True
  then show ?thesis by (simp add: trimmed_def)
next
  case False
  let ?u = "dropWhile is_space s"
  let ?v = "dropWhile is_space (rev ?u)"
  from False have v: "?v \<noteq> []" by (simp add: trim_def)
  then have last: "\<not> is_space (last (trim s))"
    using dropWhile_hd [OF v] by (simp add: trim_def last_rev)
  have "?u \<noteq> []" using v by (metis dropWhile.simps(1) rev.simps(1))
  then have hd_u: "\<not> is_space (hd ?u)" by (rule dropWhile_hd)
  obtain p where p: "rev ?u = p @ ?v" by (metis takeWhile_dropWhile_id)
  then have "?u = rev ?v @ rev p" by (metis rev_append rev_rev_ident)
  then have "hd ?u = hd (rev ?v)" using v by (metis hd_append2 rev_is_Nil_conv)
  with hd_u last show ?thesis by (simp add: trimmed_def trim_def)
qed

lemma trim_set: "set (trim s) \<subseteq> set s"
  by (auto simp: trim_def dest!: set_dropWhileD)

lemma trim_trimmed_id: "trimmed s \<Longrightarrow> trim s = s"
proof (cases s)
  case Nil
  then show ?thesis by (simp add: trim_def)
next
  case (Cons c u)
  assume t: "trimmed s"
  with Cons have "dropWhile is_space s = s" by (simp add: trimmed_def)
  moreover from t Cons have "\<not> is_space (hd (rev s))" by (simp add: trimmed_def hd_rev del: rev.simps)
  then have "dropWhile is_space (rev s) = rev s" using Cons by (cases "rev s") auto
  ultimately show ?thesis by (simp add: trim_def)
qed

lemma trim_idem [simp]: "trim (trim s) = trim s"
  by (simp add: trim_trimmed_id)

lemma trim_Nil [simp]: "trim [] = []"
  by (simp add: trim_def)

definition upper_char :: "char \<Rightarrow> char" where
  "upper_char c =
     (let n = (of_char c :: nat) in if 97 \<le> n \<and> n \<le> 122 then char_of (n - 32) else c)"

definition to_upper :: "string \<Rightarrow> string" where
  "to_upper s = map upper_char s"

section \<open>Integers as text\<close>

definition digit_char :: "nat \<Rightarrow> char" where
  "digit_char d = (if d < 10 then char_of (48 + d) else char_of (87 + d))"

fun nat_text :: "nat \<Rightarrow> nat \<Rightarrow> string" where
  "nat_text base n =
     (if n < base \<or> base < 2 then [digit_char n] else nat_text base (n div base) @ [digit_char (n mod base)])"

declare nat_text.simps [simp del]

definition int_text :: "nat \<Rightarrow> int \<Rightarrow> string" where
  "int_text base i = (if i < 0 then ''-'' @ nat_text base (nat (- i)) else nat_text base (nat i))"

abbreviation decimal :: "int \<Rightarrow> string" where
  "decimal \<equiv> int_text 10"

definition digit_of :: "char \<Rightarrow> nat" where
  "digit_of c = (let n = of_char c in if n < 58 then n - 48 else n - 87)"

definition text_nat :: "nat \<Rightarrow> string \<Rightarrow> nat" where
  "text_nat base s = foldl (\<lambda>n c. n * base + digit_of c) 0 s"

lemma digit_of_char: "d < 36 \<Longrightarrow> digit_of (digit_char d) = d"
  by (simp add: digit_of_def digit_char_def Let_def)

text \<open>Reading the digits back: the text of a number determines it.\<close>

lemma text_nat_text: "2 \<le> base \<Longrightarrow> base \<le> 36 \<Longrightarrow> text_nat base (nat_text base n) = n"
proof (induction base n rule: nat_text.induct)
  case (1 base n)
  show ?case
  proof (cases "n < base")
    case True
    with 1 show ?thesis by (simp add: nat_text.simps [of base n] text_nat_def digit_of_char)
  next
    case False
    with 1 have "text_nat base (nat_text base (n div base)) = n div base" by simp
    moreover have "n mod base < 36" using 1 by (meson order_less_le_trans mod_less_divisor zero_less_numeral)
    ultimately show ?thesis
      using False 1 by (simp add: nat_text.simps [of base n] text_nat_def digit_of_char)
  qed
qed

lemma nat_text_inj: "2 \<le> base \<Longrightarrow> base \<le> 36 \<Longrightarrow> nat_text base m = nat_text base n \<longleftrightarrow> m = n"
  by (metis text_nat_text)

lemma digit_char_minus: "d < 36 \<Longrightarrow> digit_char d \<noteq> CHR ''-''"
proof
  assume "d < 36" and "digit_char d = CHR ''-''"
  then have "(of_char (digit_char d) :: nat) = 45" by simp
  with \<open>d < 36\<close> show False by (simp add: digit_char_def split: if_splits)
qed

lemma nat_text_minus: "2 \<le> base \<Longrightarrow> base \<le> 36 \<Longrightarrow> CHR ''-'' \<notin> set (nat_text base n)"
proof (induction base n rule: nat_text.induct)
  case (1 base n)
  show ?case
  proof (cases "n < base")
    case True
    with 1 digit_char_minus [of n] show ?thesis by (auto simp: nat_text.simps [of base n])
  next
    case False
    moreover have "n mod base < 36" using 1 by (meson order_less_le_trans mod_less_divisor zero_less_numeral)
    ultimately show ?thesis
      using 1 digit_char_minus [of "n mod base"] by (auto simp: nat_text.simps [of base n])
  qed
qed

lemma int_text_inj:
  assumes "2 \<le> base" and "base \<le> 36" and "int_text base i = int_text base j"
  shows "i = j"
proof -
  have "nat_text base m \<noteq> CHR ''-'' # s" for m s using nat_text_minus [OF assms(1,2), of m] by auto
  then show ?thesis
    using assms nat_text_inj [OF assms(1,2)]
    by (auto simp: int_text_def split: if_splits) (metis list.set_intros(1) nat_text_minus)
qed

end
