(* ===== verification/JsRegex.thy ===== *)
theory JsRegex
  imports JsText
begin

text \<open>
  The regular expressions of the source language, as far as the sources use them: the backtracking
  matcher with greedy and lazy repetition, the anchors of the multi-line mode, and one capture
  group. \<open>search\<close> is \<open>String.prototype.match\<close> without the flag \<open>g\<close>, \<open>replace_all\<close> is
  \<open>String.prototype.replace\<close> with it. An iteration of a repetition must consume a character, so a
  repetition at position \<open>i\<close> has at most \<open>length s - i\<close> iterations, which bounds the recursion.
\<close>

section \<open>Expressions\<close>

datatype char_class =
    OneOf string
  | NoneOf string
  | Dot
  | Space

fun in_class :: "char_class \<Rightarrow> char \<Rightarrow> bool" where
  "in_class (OneOf cs) c = list_ex (\<lambda>d. d = c) cs"
| "in_class (NoneOf cs) c = (\<not> list_ex (\<lambda>d. d = c) cs)"
| "in_class Dot c = (\<not> is_line_end c)"
| "in_class Space c = is_space c"

datatype regex =
    Empty
  | Class char_class
  | Seq regex regex
  | Alt regex regex
  | Star bool regex
  | LineStart
  | LineEnd
  | InputEnd
  | Group regex

abbreviation Opt :: "regex \<Rightarrow> regex" where "Opt r \<equiv> Alt r Empty"
abbreviation Plus :: "bool \<Rightarrow> regex \<Rightarrow> regex" where "Plus g r \<equiv> Seq r (Star g r)"
abbreviation Lit :: "char \<Rightarrow> regex" where "Lit c \<equiv> Class (OneOf [c])"

fun seq :: "regex list \<Rightarrow> regex" where
  "seq [] = Empty"
| "seq [r] = r"
| "seq (r # rs) = Seq r (seq rs)"

section \<open>Matching\<close>

type_synonym capture = "(nat \<times> nat) option"
type_synonym match_result = "(nat \<times> capture) option"
type_synonym matcher = "nat \<Rightarrow> capture \<Rightarrow> (nat \<Rightarrow> capture \<Rightarrow> match_result) \<Rightarrow> match_result"

definition or_else :: "match_result \<Rightarrow> match_result \<Rightarrow> match_result" where
  "or_else a b = (case a of None \<Rightarrow> b | Some x \<Rightarrow> Some x)"

lemma or_else_simps [simp]: "or_else None b = b" "or_else (Some x) b = Some x"
  by (simp_all add: or_else_def)

primrec repeat_match :: "bool \<Rightarrow> matcher \<Rightarrow> nat \<Rightarrow> matcher" where
  "repeat_match greedy m 0 i c k = k i c"
| "repeat_match greedy m (Suc n) i c k =
     (let once = (\<lambda>_::unit. m i c (\<lambda>j c'. if j = i then None else repeat_match greedy m n j c' k))
      in if greedy then or_else (once ()) (k i c) else or_else (k i c) (once ()))"

definition at_line_start :: "string \<Rightarrow> nat \<Rightarrow> bool" where
  "at_line_start s i \<longleftrightarrow> i = 0 \<or> (i \<le> length s \<and> is_line_end (s ! (i - 1)))"

definition at_line_end :: "string \<Rightarrow> nat \<Rightarrow> bool" where
  "at_line_end s i \<longleftrightarrow> i = length s \<or> (i < length s \<and> is_line_end (s ! i))"

primrec match_at :: "string \<Rightarrow> regex \<Rightarrow> matcher" where
  "match_at s Empty i c k = k i c"
| "match_at s (Class x) i c k = (if i < length s \<and> in_class x (s ! i) then k (Suc i) c else None)"
| "match_at s (Seq r1 r2) i c k = match_at s r1 i c (\<lambda>j c'. match_at s r2 j c' k)"
| "match_at s (Alt r1 r2) i c k = or_else (match_at s r1 i c k) (match_at s r2 i c k)"
| "match_at s (Star greedy r) i c k = repeat_match greedy (match_at s r) (length s - i) i c k"
| "match_at s LineStart i c k = (if at_line_start s i then k i c else None)"
| "match_at s LineEnd i c k = (if at_line_end s i then k i c else None)"
| "match_at s InputEnd i c k = (if i = length s then k i c else None)"
| "match_at s (Group r) i c k = match_at s r i c (\<lambda>j _. k j (Some (i, j)))"

declare match_at.simps [simp del]

lemma match_simps [simp]:
  "match_at s Empty i c k = k i c"
  "match_at s (Class x) i c k = (if i < length s \<and> in_class x (s ! i) then k (Suc i) c else None)"
  "match_at s (Seq r1 r2) i c k = match_at s r1 i c (\<lambda>j c'. match_at s r2 j c' k)"
  "match_at s (Alt r1 r2) i c k = or_else (match_at s r1 i c k) (match_at s r2 i c k)"
  "match_at s (Star greedy r) i c k = repeat_match greedy (match_at s r) (length s - i) i c k"
  "match_at s LineStart i c k = (if at_line_start s i then k i c else None)"
  "match_at s LineEnd i c k = (if at_line_end s i then k i c else None)"
  "match_at s InputEnd i c k = (if i = length s then k i c else None)"
  "match_at s (Group r) i c k = match_at s r i c (\<lambda>j _. k j (Some (i, j)))"
  by (simp_all add: match_at.simps)

definition match_from :: "string \<Rightarrow> regex \<Rightarrow> nat \<Rightarrow> match_result" where
  "match_from s r i = match_at s r i None (\<lambda>j c. Some (j, c))"

definition slice :: "string \<Rightarrow> nat \<Rightarrow> nat \<Rightarrow> string" where
  "slice s i j = take (j - i) (drop i s)"

text \<open>The leftmost match: its start, its end and the captured group.\<close>

primrec search_from :: "string \<Rightarrow> regex \<Rightarrow> nat \<Rightarrow> nat \<Rightarrow> (nat \<times> nat \<times> capture) option" where
  "search_from s r i 0 = None"
| "search_from s r i (Suc n) =
     (case match_from s r i of
        Some (j, c) \<Rightarrow> Some (i, j, c)
      | None \<Rightarrow> search_from s r (Suc i) n)"

definition search :: "string \<Rightarrow> regex \<Rightarrow> (nat \<times> nat \<times> capture) option" where
  "search s r = search_from s r 0 (Suc (length s))"

text \<open>
  All matches from left to right, each replaced by the text that \<open>f\<close> makes of its capture; after an
  empty match the next search starts one character further on.
\<close>

primrec replace_from :: "string \<Rightarrow> regex \<Rightarrow> (string \<Rightarrow> string) \<Rightarrow> nat \<Rightarrow> nat \<Rightarrow> string" where
  "replace_from s r f i 0 = drop i s"
| "replace_from s r f i (Suc n) =
     (case search_from s r i (Suc (length s) - i) of
        None \<Rightarrow> drop i s
      | Some (b, e, c) \<Rightarrow>
          slice s i b @ f (case c of None \<Rightarrow> [] | Some (x, y) \<Rightarrow> slice s x y) @
          (if e = b then slice s b (Suc b) @ replace_from s r f (Suc b) n
           else replace_from s r f e n))"

definition replace_all :: "string \<Rightarrow> regex \<Rightarrow> (string \<Rightarrow> string) \<Rightarrow> string" where
  "replace_all s r f = replace_from s r f 0 (Suc (length s))"

section \<open>Facts on repetition\<close>

text \<open>The positions a repetition of a class can reach from \<open>i\<close>.\<close>

definition run_of :: "string \<Rightarrow> char_class \<Rightarrow> nat \<Rightarrow> nat \<Rightarrow> bool" where
  "run_of s x i m \<longleftrightarrow> i + m \<le> length s \<and> (\<forall>t < m. in_class x (s ! (i + t)))"

lemma run_of_0 [simp]: "run_of s x i 0 \<longleftrightarrow> i \<le> length s"
  by (simp add: run_of_def)

lemma run_of_Suc:
  "run_of s x i (Suc m) \<longleftrightarrow> i < length s \<and> in_class x (s ! i) \<and> run_of s x (Suc i) m"
  by (auto simp: run_of_def less_Suc_eq_0_disj)

text \<open>A matcher that takes one character of a class, as \<open>match_at s (Class x)\<close> does.\<close>

definition class_matcher :: "string \<Rightarrow> char_class \<Rightarrow> matcher \<Rightarrow> bool" where
  "class_matcher s x M \<longleftrightarrow>
     (\<forall>i c k. M i c k = (if i < length s \<and> in_class x (s ! i) then k (Suc i) c else None))"

lemma repeat_class_Suc:
  assumes "class_matcher s x M"
  shows "repeat_match g M (Suc n) i c k =
    (let once = (if i < length s \<and> in_class x (s ! i) then repeat_match g M n (Suc i) c k else None)
     in if g then or_else once (k i c) else or_else (k i c) once)"
proof -
  have "M i c (\<lambda>j c'. if j = i then None else repeat_match g M n j c' k) =
      (if i < length s \<and> in_class x (s ! i) then repeat_match g M n (Suc i) c k else None)"
    using assms by (simp only: class_matcher_def) simp
  then show ?thesis by (simp only: repeat_match.simps Let_def)
qed

lemma class_matcher_at: "class_matcher s x (match_at s (Class x))"
  by (simp add: class_matcher_def)

lemma repeat_class_None:
  assumes "class_matcher s x M" and "repeat_match g M n i c k = None"
  shows "m \<le> n \<Longrightarrow> run_of s x i m \<Longrightarrow> k (i + m) c = None"
  using assms
proof (induction n arbitrary: i m)
  case 0
  then show ?case by simp
next
  case (Suc n)
  from Suc.prems have none: "k i c = None"
    "i < length s \<and> in_class x (s ! i) \<Longrightarrow>
       repeat_match g M n (Suc i) c k = None"
    by (auto simp: repeat_class_Suc [OF Suc.prems(3)] or_else_def Let_def simp del: repeat_match.simps(2)
        split: if_splits option.splits)
  show ?case
  proof (cases m)
    case 0
    with none show ?thesis by simp
  next
    case (Suc m')
    with Suc.prems none(2) have "k (Suc i + m') c = None"
      by (intro Suc.IH) (auto simp: run_of_Suc)
    with Suc show ?thesis by simp
  qed
qed

lemma repeat_class_Some:
  assumes "class_matcher s x M" and "repeat_match g M n i c k = Some r" and "i \<le> length s"
  shows "\<exists>m \<le> n. run_of s x i m \<and> k (i + m) c = Some r"
  using assms
proof (induction n arbitrary: i)
  case 0
  then show ?case by simp
next
  case (Suc n)
  from Suc.prems consider "k i c = Some r"
    | "i < length s" "in_class x (s ! i)"
      "repeat_match g M n (Suc i) c k = Some r"
    by (auto simp: repeat_class_Suc [OF Suc.prems(1)] or_else_def Let_def simp del: repeat_match.simps(2)
        split: if_splits option.splits)
  then show ?case
  proof cases
    case 1
    with Suc.prems show ?thesis by (intro exI [of _ 0]) simp
  next
    case 2
    with Suc.IH [OF Suc.prems(1) 2(3)] obtain m where "m \<le> n" "run_of s x (Suc i) m" "k (Suc i + m) c = Some r"
      by auto
    with 2 show ?thesis by (intro exI [of _ "Suc m"]) (simp add: run_of_Suc)
  qed
qed

text \<open>A lazy repetition stops at the first position from which the rest matches.\<close>

lemma repeat_lazy_first:
  assumes "class_matcher s x M" and "m \<le> n" and "run_of s x i m" and "\<And>t. t < m \<Longrightarrow> k (i + t) c = None"
    and "k (i + m) c = Some r"
  shows "repeat_match False M n i c k = Some r"
  using assms
proof (induction n arbitrary: i m)
  case 0
  then show ?case by simp
next
  case (Suc n)
  show ?case
  proof (cases m)
    case 0
    with Suc.prems show ?thesis by simp
  next
    case (Suc m')
    with Suc.prems(4) [of 0] have "k i c = None" by simp
    moreover have "repeat_match False M n (Suc i) c k = Some r"
    proof (rule Suc.IH [OF Suc.prems(1)])
      show "m' \<le> n" using Suc.prems Suc by simp
      show "run_of s x (Suc i) m'" using Suc.prems Suc by (simp add: run_of_Suc)
      show "k (Suc i + t) c = None" if "t < m'" for t
        using Suc.prems(4) [of "Suc t"] Suc that by simp
      show "k (Suc i + m') c = Some r" using Suc.prems Suc by simp
    qed
    ultimately show ?thesis using Suc.prems Suc by (simp add: run_of_Suc repeat_class_Suc [OF Suc.prems(1)] del: repeat_match.simps(2))
  qed
qed

text \<open>A repetition of a class that cannot start here leaves the position.\<close>

lemma repeat_class_stop:
  "class_matcher s x M \<Longrightarrow> \<not> (i < length s \<and> in_class x (s ! i)) \<Longrightarrow> repeat_match g M n i c k = k i c"
  by (cases n) (auto simp: repeat_class_Suc or_else_def simp del: repeat_match.simps(2) split: option.split)

lemma search_from_first:
  "match_from s r i = Some (j, c) \<Longrightarrow> search_from s r i (Suc n) = Some (i, j, c)"
  by simp

end
