(* ===== verification/TextPlus.thy ===== *)
theory TextPlus
  imports JsRegex
begin

text \<open>
  \<open>packages/indexer/src/internal/textplus.ts\<close>: the title of a proposal. The answer of the language
  model is a parameter: the title it returned, or the exception of the call.
\<close>

section \<open>The two local extractors\<close>

text \<open>\<open>/^\s*#\s+(.+?)\s*$/m\<close>\<close>

definition heading_regex :: regex where
  "heading_regex = seq [LineStart, Star True (Class Space), Lit (CHR ''#''),
     Plus True (Class Space), Group (Plus False (Class Dot)), Star True (Class Space), LineEnd]"

text \<open>\<open>!description || !description.trim()\<close>: an undefined, empty or blank description.\<close>

definition blank :: "string option \<Rightarrow> bool" where
  "blank description = (case description of None \<Rightarrow> True | Some d \<Rightarrow> trim d = [])"

definition extractTitleSimplify :: "string option \<Rightarrow> string" where
  "extractTitleSimplify description =
     (if blank description then []
      else case search (the description) heading_regex of
          Some (_, _, Some (x, y)) \<Rightarrow>
            (if slice (the description) x y \<noteq> [] then trim (slice (the description) x y) else [])
        | _ \<Rightarrow> [])"

text \<open>The six patterns of the fallback, in the order they are applied.\<close>

definition tag_regex :: regex where
  "tag_regex = seq [Lit (CHR ''<''), Opt (Lit (CHR ''/'')), Plus True (Class (NoneOf ''>'')),
     Alt (Lit (CHR ''>'')) InputEnd]"

definition heading_mark_regex :: regex where
  "heading_mark_regex = seq [LineStart, Star True (Class Space), Plus True (Lit (CHR ''#'')),
     Plus True (Class Space)]"

definition bullet_regex :: regex where
  "bullet_regex = seq [LineStart, Star True (Class Space), Class (OneOf ''-*+''),
     Plus True (Class Space)]"

definition link_regex :: regex where
  "link_regex = seq [Opt (Lit (CHR ''!'')), Lit (CHR ''[''), Group (Star False (Class Dot)),
     Lit (CHR '']''), Lit (CHR ''(''), Star False (Class Dot), Lit (CHR '')'')]"

definition rule_regex :: regex where
  "rule_regex = (let c = Class (OneOf ''-*_'') in
     seq [LineStart, Star True (Class Space), c, c, c, Star True c, Star True (Class Space), LineEnd])"

definition quote_regex :: regex where
  "quote_regex = seq [LineStart, Star True (Class Space), Lit (CHR ''>''), Opt (Class Space)]"

definition cleanText :: "string \<Rightarrow> string" where
  "cleanText description =
     (let s = replace_all description tag_regex (\<lambda>_. []);
          s = replace_all s heading_mark_regex (\<lambda>_. []);
          s = replace_all s bullet_regex (\<lambda>_. []);
          s = replace_all s link_regex (\<lambda>g. g);
          s = replace_all s rule_regex (\<lambda>_. []);
          s = replace_all s quote_regex (\<lambda>_. [])
      in trim s)"

definition maxLength :: nat where
  "maxLength = 50"

definition extractTitleFullback :: "string option \<Rightarrow> string" where
  "extractTitleFullback description =
     (if blank description then []
      else let firstLine = trim (hd (split_on (CHR ''\<newline>'') (cleanText (the description))))
           in if firstLine = [] then []
              else if length firstLine > maxLength then take maxLength firstLine @ ''...''
              else firstLine)"

section \<open>The title of a proposal\<close>

text \<open>
  \<open>openrouter()\<close> is absent without the key of the service; with it, the call of the model either
  fails or yields an object with a title. A failure is logged and the local extractors are used.
\<close>

record text_plus =
  tp_apiKey :: "string option"
  tp_generate :: "string \<Rightarrow> string outcome"

definition openrouter :: "text_plus \<Rightarrow> bool" where
  "openrouter tp = (case tp_apiKey tp of None \<Rightarrow> False | Some k \<Rightarrow> k \<noteq> [])"

definition ai_title :: "text_plus \<Rightarrow> string \<Rightarrow> string option" where
  "ai_title tp description =
     (if openrouter tp
      then case tp_generate tp description of
          Inl _ \<Rightarrow> None
        | Inr t \<Rightarrow> if t \<noteq> [] \<and> trim t \<noteq> [] then Some (trim t) else None
      else None)"

definition extractInfo :: "text_plus \<Rightarrow> string \<Rightarrow> string" where
  "extractInfo tp description =
     (let title = (case ai_title tp description of None \<Rightarrow> [] | Some t \<Rightarrow> t);
          title = (if title = [] then extractTitleSimplify (Some description) else title)
      in if title = [] then extractTitleFullback (Some description) else title)"

end
