(* ===== verification/TextClaims.thy ===== *)
theory TextClaims
  imports TextPlus
begin

text \<open>
  The properties of the title extraction: a heading of the documented form is read back exactly,
  the title of the fallback is one short line, and the extraction as a whole always yields the
  first source that has a title.
\<close>

section \<open>Matching a heading\<close>

text \<open>
  The text starts with \<open>#\<close>, one blank, and a title up to position \<open>stop\<close> that neither begins nor ends
  with white space and stays on its line; after it only white space up to the end of a line.
\<close>

definition heading_at :: "string \<Rightarrow> nat \<Rightarrow> bool" where
  "heading_at s stop \<longleftrightarrow> 3 \<le> stop \<and> stop \<le> length s \<and> s ! 0 = CHR ''#'' \<and> s ! 1 = CHR '' '' \<and>
     (\<forall>i. 2 \<le> i \<and> i < stop \<longrightarrow> \<not> is_line_end (s ! i)) \<and>
     \<not> is_space (s ! 2) \<and> \<not> is_space (s ! (stop - 1)) \<and>
     (\<exists>m. run_of s Space stop m \<and> at_line_end s (stop + m))"

definition tail_match :: "string \<Rightarrow> nat \<Rightarrow> capture \<Rightarrow> match_result" where
  "tail_match s p c = repeat_match True (match_at s (Class Space)) (length s - p) p c
     (\<lambda>j c'. if at_line_end s j then Some (j, c') else None)"

lemma tail_None:
  assumes "heading_at s stop" and "2 \<le> p" and "p < stop"
  shows "tail_match s p c = None"
proof (rule ccontr)
  assume "tail_match s p c \<noteq> None"
  then obtain r where r: "tail_match s p c = Some r" by blast
  have "p \<le> length s" using assms by (simp add: heading_at_def)
  then obtain m where m: "run_of s Space p m" "at_line_end s (p + m)"
    using repeat_class_Some [OF class_matcher_at r [unfolded tail_match_def]]
    by (auto split: if_splits)
  have "p + m < stop"
  proof (rule ccontr)
    assume "\<not> p + m < stop"
    with assms(3) have "stop - 1 - p < m" "p + (stop - 1 - p) = stop - 1" by simp_all
    with m(1) have "is_space (s ! (stop - 1))" by (metis in_class.simps(4) run_of_def)
    with assms(1) show False by (simp add: heading_at_def)
  qed
  with m(2) assms show False by (auto simp: at_line_end_def heading_at_def)
qed

lemma tail_Some:
  assumes "heading_at s stop"
  shows "\<exists>j. tail_match s stop c = Some (j, c)"
proof -
  from assms obtain m where m: "run_of s Space stop m" "at_line_end s (stop + m)"
    and l: "stop \<le> length s" by (auto simp: heading_at_def)
  then have le: "m \<le> length s - stop" by (auto simp: run_of_def)
  have "tail_match s stop c \<noteq> None"
  proof
    assume n: "tail_match s stop c = None"
    from repeat_class_None [OF class_matcher_at n [unfolded tail_match_def] le m(1)] m(2)
    show False by simp
  qed
  then obtain r where r: "tail_match s stop c = Some r" by blast
  from repeat_class_Some [OF class_matcher_at r [unfolded tail_match_def] l]
  obtain n where "(if at_line_end s (stop + n) then Some (stop + n, c) else None) = Some r" by blast
  with r show ?thesis by (auto split: if_splits)
qed

lemma heading_lazy:
  assumes "heading_at s stop" and "tail_match s stop (Some (2, stop)) = Some r"
  shows "repeat_match False (match_at s (Class Dot)) (length s - 3) 3 None
    (\<lambda>j c. tail_match s j (Some (2, j))) = Some r"
proof (rule repeat_lazy_first [OF class_matcher_at, where m = "stop - 3"])
  from assms(1) have l: "3 \<le> stop" "stop \<le> length s" by (simp_all add: heading_at_def)
  then show "stop - 3 \<le> length s - 3" by simp
  show "run_of s Dot 3 (stop - 3)" using assms(1) l by (auto simp: run_of_def heading_at_def)
  show "tail_match s (3 + t) (Some (2, 3 + t)) = None" if "t < stop - 3" for t
    using that by (intro tail_None [OF assms(1)]) auto
  show "tail_match s (3 + (stop - 3)) (Some (2, 3 + (stop - 3))) = Some r"
    using assms(2) l by simp
qed

lemma heading_match:
  assumes "heading_at s stop"
  shows "\<exists>j. match_from s heading_regex 0 = Some (j, Some (2, stop))"
proof -
  obtain j where j: "tail_match s stop (Some (2, stop)) = Some (j, Some (2, stop))"
    using tail_Some [OF assms] by blast
  from assms have c: "s ! 0 = CHR ''#''" "s ! 1 = CHR '' ''" "\<not> is_space (s ! 2)" "3 \<le> length s"
    "\<not> is_line_end (s ! 2)"
    by (simp_all add: heading_at_def)
  let ?K = "\<lambda>i c. match_at s (Group (Plus False (Class Dot))) i c (\<lambda>j c. tail_match s j c)"
  have K2: "?K 2 None = Some (j, Some (2, stop))"
    using heading_lazy [OF assms j] c
    by (simp add: numeral_3_eq_3 numeral_2_eq_2)
  have blanks: "repeat_match True (match_at s (Class Space)) (length s - 2) 2 None ?K = ?K 2 None"
    using c(3) by (intro repeat_class_stop [OF class_matcher_at]) simp
  have start: "repeat_match True (match_at s (Class Space)) (length s) 0 None k = k 0 None" for k
    using c(1) by (intro repeat_class_stop [OF class_matcher_at]) (simp add: is_space_def)
  have hash: "match_at s (Lit (CHR ''#'')) 0 None k = k 1 None" for k
    using c by (cases s) simp_all
  have blank: "match_at s (Class Space) 1 None k = k 2 None" for k
    using c by (cases s) (auto simp: is_space_def numeral_2_eq_2)
  have eq: "match_from s heading_regex 0 = ?K 2 None"
    unfolding match_from_def heading_regex_def seq.simps match_simps(3) match_simps(5)
      match_simps(6)
    by (simp only: start hash blank at_line_start_def diff_zero if_True simp_thms
        tail_match_def match_simps(5,7)) (rule blanks [unfolded tail_match_def])
  show ?thesis by (rule exI, rule trans [OF eq K2])
qed

section \<open>The extractors\<close>

definition title_line :: "string \<Rightarrow> string \<Rightarrow> string \<Rightarrow> string" where
  "title_line title sp rest = ''# '' @ title @ sp @ rest"

lemma heading_at_title:
  assumes "title \<noteq> []" and "trimmed title" and "\<forall>c \<in> set title. \<not> is_line_end c"
    and "\<forall>c \<in> set sp. is_space c" and "rest = [] \<or> is_line_end (hd rest)"
  shows "heading_at (title_line title sp rest) (2 + length title)"
proof -
  let ?s = "title_line title sp rest" and ?n = "2 + length title"
  have len: "length ?s = ?n + length sp + length rest" by (simp add: title_line_def)
  have t: "?s ! i = title ! (i - 2)" if "2 \<le> i" "i < ?n" for i
    using that by (auto simp: title_line_def nth_append nth_Cons' numeral_2_eq_2)
  have "?s ! (?n - 1) = last title" "?s ! 2 = hd title"
    using assms(1) t [of "?n - 1"] t [of 2] by (cases title; auto simp: last_conv_nth hd_conv_nth)+
  with assms have ends: "\<not> is_space (?s ! 2)" "\<not> is_space (?s ! (?n - 1))"
    by (auto simp: trimmed_def)
  have inside: "\<forall>i. 2 \<le> i \<and> i < ?n \<longrightarrow> \<not> is_line_end (?s ! i)"
  proof (intro allI impI)
    fix i
    assume i: "2 \<le> i \<and> i < ?n"
    then have "title ! (i - 2) \<in> set title" by (intro nth_mem) auto
    with assms(3) i t [of i] show "\<not> is_line_end (?s ! i)" by auto
  qed
  have "?s ! (?n + i) = sp ! i" if "i < length sp" for i
    using that by (simp add: title_line_def nth_append)
  with assms(4) have run: "run_of ?s Space ?n (length sp)" by (simp add: run_of_def len)
  have "rest \<noteq> [] \<Longrightarrow> ?s ! (?n + length sp) = hd rest"
    by (simp add: title_line_def nth_append hd_conv_nth)
  with assms(5) have "at_line_end ?s (?n + length sp)"
    using len by (cases "rest = []") (simp_all add: at_line_end_def)
  with run ends inside assms(1) len show ?thesis
    by (auto simp: heading_at_def title_line_def Suc_le_eq)
qed

text \<open>
  A description of the documented form \<open># {title}\<close>, blanks, end of line, content, gives back
  exactly its title, whatever the content contains: the pattern with its lazy group, its two
  greedy runs of white space and the multi-line anchors matches the first line and captures
  the title without the blanks around it.
\<close>

theorem extractTitleSimplify_heading:
  assumes "title \<noteq> []" and "trimmed title" and "\<forall>c \<in> set title. \<not> is_line_end c"
    and "\<forall>c \<in> set sp. is_space c" and "rest = [] \<or> is_line_end (hd rest)"
  shows "extractTitleSimplify (Some (''# '' @ title @ sp @ rest)) = title"
proof -
  let ?s = "title_line title sp rest"
  obtain j where j: "match_from ?s heading_regex 0 = Some (j, Some (2, 2 + length title))"
    using heading_match [OF heading_at_title [OF assms]] by blast
  have "search ?s heading_regex = Some (0, j, Some (2, 2 + length title))"
    unfolding search_def by (rule search_from_first [OF j])
  moreover have sl: "slice ?s 2 (2 + length title) = title"
    by (simp add: slice_def title_line_def numeral_2_eq_2)
  moreover have "trim ?s \<noteq> []"
  proof -
    have "\<not> is_space (CHR ''#'')" by (simp add: is_space_def)
    then have "CHR ''#'' \<in> set (trim ?s)"
      by (auto simp: trim_def title_line_def dropWhile_append dest: set_dropWhileD)
    then show ?thesis by auto
  qed
  ultimately have "extractTitleSimplify (Some ?s) = title"
    using assms(1,2) by (simp add: extractTitleSimplify_def blank_def trim_trimmed_id)
  then show ?thesis by (simp add: title_line_def)
qed

theorem extractTitleSimplify_heading_witness:
  "extractTitleSimplify (Some (''# '' @ ''Raise the quorum'' @ ''  '' @ ''\<newline>\<newline># Why'')) =
     ''Raise the quorum''"
  by (rule extractTitleSimplify_heading)
    (simp_all add: trimmed_def is_space_def is_line_end_def)

lemma fallback_line:
  "CHR ''\<newline>'' \<notin> set (trim (hd (split_on (CHR ''\<newline>'') s)))"
  using split_on_pieces [of "hd (split_on (CHR ''\<newline>'') s)" "CHR ''\<newline>''" s]
    trim_set [of "hd (split_on (CHR ''\<newline>'') s)"]
  by (auto simp del: split_on.simps)

lemma fallback_no_line_end: "CHR ''\<newline>'' \<notin> set (extractTitleFullback description)"
proof (cases "blank description")
  case True
  then show ?thesis by (simp add: extractTitleFullback_def)
next
  case False
  let ?l = "trim (hd (split_on (CHR ''\<newline>'') (cleanText (the description))))"
  have "CHR ''\<newline>'' \<notin> set ?l" by (rule fallback_line)
  moreover from this have "CHR ''\<newline>'' \<notin> set (take maxLength ?l)" by (meson in_set_takeD)
  moreover have "extractTitleFullback description \<in> {[], take maxLength ?l @ ''...'', ?l}"
    using False by (simp add: extractTitleFullback_def Let_def)
  ultimately show ?thesis by auto
qed

text \<open>
  The extraction never fails and takes the first source with a title: the trimmed answer of the
  language model when the service is configured, answers and the answer is not blank; else the
  first heading; else the fallback, whose result is one line of at most 53 characters. A title
  from the model or of a heading has no white space at either end.
\<close>

theorem extractInfo_sources:
  "extractInfo tp description =
     (case ai_title tp description of
        Some t \<Rightarrow> t
      | None \<Rightarrow> if extractTitleSimplify (Some description) \<noteq> []
          then extractTitleSimplify (Some description)
          else extractTitleFullback (Some description)) \<and>
   (case ai_title tp description of None \<Rightarrow> True | Some t \<Rightarrow> t \<noteq> [] \<and> trimmed t) \<and>
   trimmed (extractTitleSimplify (Some description)) \<and>
   length (extractTitleFullback (Some description)) \<le> 53 \<and>
   CHR ''\<newline>'' \<notin> set (extractTitleFullback (Some description))"
proof -
  have ai: "t \<noteq> [] \<and> trimmed t" if "ai_title tp description = Some t" for t
    using that by (auto simp: ai_title_def split: if_splits sum.splits)
  then have "case ai_title tp description of None \<Rightarrow> True | Some t \<Rightarrow> t \<noteq> [] \<and> trimmed t"
    by (simp split: option.split)
  moreover have "trimmed (extractTitleSimplify (Some description))"
    by (auto simp: extractTitleSimplify_def trimmed_def [of "[]"] split: option.split)
  moreover have "length (extractTitleFullback (Some description)) \<le> 53"
    by (simp add: extractTitleFullback_def maxLength_def Let_def)
  moreover have "CHR ''\<newline>'' \<notin> set (extractTitleFullback (Some description))"
    by (rule fallback_no_line_end)
  moreover have "extractInfo tp description =
     (case ai_title tp description of
        Some t \<Rightarrow> t
      | None \<Rightarrow> if extractTitleSimplify (Some description) \<noteq> []
          then extractTitleSimplify (Some description)
          else extractTitleFullback (Some description))"
    using ai by (auto simp: extractInfo_def Let_def split: option.split)
  ultimately show ?thesis by blast
qed

end
