(* ===== verification/JsNumber.thy ===== *)
theory JsNumber
  imports Complex_Main
begin

text \<open>
  Numbers of the source language. A \<open>number\<close> is a double: a computation on it is the exact real
  computation followed by a rounding \<open>fl\<close>, a parameter of the definitions. What IEEE 754 promises
  of it is \<open>rounding fl\<close>: it is monotone, does nothing to a value that is already rounded, and is
  exact on the integers up to \<open>2 ^ 53\<close>. The sources divide only by positive counts, so infinities
  and NaN do not arise in the modelled code.
\<close>

definition max_safe :: int where
  "max_safe = 2 ^ 53"

definition rounding :: "(real \<Rightarrow> real) \<Rightarrow> bool" where
  "rounding fl \<longleftrightarrow> mono fl \<and> (\<forall>x. fl (fl x) = fl x) \<and>
     (\<forall>k :: int. \<bar>k\<bar> \<le> max_safe \<longrightarrow> fl (of_int k) = of_int k)"

lemma rounding_int: "rounding fl \<Longrightarrow> \<bar>k\<bar> \<le> max_safe \<Longrightarrow> fl (of_int k) = of_int k"
  by (simp add: rounding_def)

lemma rounding_mono: "rounding fl \<Longrightarrow> x \<le> y \<Longrightarrow> fl x \<le> fl y"
  by (simp add: rounding_def mono_def)

lemma rounding_nat: "rounding fl \<Longrightarrow> int n \<le> max_safe \<Longrightarrow> fl (real n) = real n"
  using rounding_int [of fl "int n"] by simp

lemma rounding_0 [simp]: "rounding fl \<Longrightarrow> fl 0 = 0"
  using rounding_int [of fl 0] by (simp add: max_safe_def)

lemma rounding_nonneg: "rounding fl \<Longrightarrow> 0 \<le> x \<Longrightarrow> 0 \<le> fl x"
  using rounding_mono [of fl 0 x] by simp

lemma rounding_exact: "rounding (\<lambda>x. x)"
  by (simp add: rounding_def mono_def)

text \<open>\<open>Math.floor\<close> and \<open>Math.round\<close>: halves are rounded up.\<close>

definition math_floor :: "real \<Rightarrow> real" where
  "math_floor x = of_int \<lfloor>x\<rfloor>"

definition math_round :: "real \<Rightarrow> real" where
  "math_round x = of_int \<lfloor>x + 1 / 2\<rfloor>"

lemma math_round_mono: "x \<le> y \<Longrightarrow> math_round x \<le> math_round y"
  by (simp add: math_round_def floor_mono)

lemma math_round_int [simp]: "math_round (of_int k) = of_int k"
  by (simp add: math_round_def floor_eq_iff)

lemma math_floor_le: "math_floor x \<le> x"
  by (simp add: math_floor_def)

end
