(* ===== verification/ChainTool.thy ===== *)
theory ChainTool
  imports JsText JsNumber
begin

text \<open>
  \<open>packages/indexer/src/internal/chaintool.ts\<close>: the queries to the chain with fallback endpoints,
  and the three caches of the tool. The client of an endpoint is a parameter (\<open>rpc_net\<close>): what each
  endpoint answers to each query. A query returns its outcome and the caches it leaves, which
  stay as they are written when an exception follows.
\<close>

section \<open>The endpoints\<close>

record SimpleBlock =
  sb_number :: int
  sb_timestamp :: int

datatype ClockMode = Timestamp | BlockNumber

record rpc_net =
  read_CLOCK_MODE :: "string \<Rightarrow> string \<Rightarrow> string option outcome"
  read_clock :: "string \<Rightarrow> string \<Rightarrow> int outcome"
  read_quorum :: "string \<Rightarrow> string \<Rightarrow> int \<Rightarrow> int option outcome"
  read_decimals :: "string \<Rightarrow> string \<Rightarrow> int outcome"
  getBlockNumber :: "string \<Rightarrow> int outcome"
  getBlock :: "string \<Rightarrow> int \<Rightarrow> SimpleBlock option outcome"
  getLatestBlock :: "string \<Rightarrow> SimpleBlock outcome"

text \<open>\<open>error.message\<close>\<close>

fun failure_message :: "failure \<Rightarrow> string" where
  "failure_message (StoreFailure m) = m"
| "failure_message (TypeError m) = m"
| "failure_message (ThrownError m) = m"

definition defaultRpcs :: "int \<Rightarrow> string list option" where
  "defaultRpcs = map_of
    [(1, [''https://eth-mainnet.public.blastapi.io'', ''https://ethereum-rpc.publicnode.com'',
          ''https://eth.llamarpc.com'', ''https://eth.rpc.blxrbdn.com'',
          ''https://eth.blockrazor.xyz'', ''https://eth.drpc.org'']),
     (10, [''https://mainnet.optimism.io'', ''https://optimism-rpc.publicnode.com'',
          ''https://optimism.drpc.org'']),
     (46, [''https://rpc.darwinia.network'']),
     (56, [''https://bsc-dataseed1.binance.org'', ''https://bsc-rpc.publicnode.com'',
          ''https://bsc.therpc.io'']),
     (100, [''https://rpc.gnosischain.com'', ''https://gnosis-mainnet.public.blastapi.io'']),
     (137, [''https://polygon-rpc.com'', ''https://polygon-public.nodies.app'']),
     (2710, [''https://rpc.morphl2.io'', ''https://rpc-quicknode.morphl2.io'']),
     (5000, [''https://rpc.mantle.xyz'', ''https://mantle-mainnet.public.blastapi.io'']),
     (8453, [''https://base-rpc.publicnode.com'', ''https://base.llamarpc.com'',
          ''https://api.zan.top/base-mainnet'', ''https://base-mainnet.public.blastapi.io'',
          ''https://base.drpc.org'', ''https://base.lava.build'']),
     (42161, [''https://arb1.arbitrum.io/rpc'', ''https://arbitrum-one-rpc.publicnode.com'',
          ''https://arbitrum-one.public.blastapi.io'']),
     (43114, [''https://api.avax.network/ext/bc/C/rpc'',
          ''https://avalanche-c-chain-rpc.publicnode.com'', ''https://0xrpc.io/avax'']),
     (59144, [''https://rpc.linea.build'', ''https://linea-rpc.publicnode.com'',
          ''https://linea.therpc.io'']),
     (81457, [''https://rpc.blast.io'', ''https://blast-public.nodies.app'',
          ''https://rpc.ankr.com/blast'']),
     (534352, [''https://rpc.scroll.io'', ''https://scroll-mainnet.public.blastapi.io''])]"

definition stdHttpUrl :: "string \<Rightarrow> string" where
  "stdHttpUrl input =
     (if starts_with input ''ws://'' then replace_first ''ws://'' ''http://'' input
      else if starts_with input ''wss://'' then replace_first ''wss://'' ''https://'' input
      else input)"

text \<open>\<open>[...new Set(xs)]\<close>: each element once, at its first position.\<close>

primrec set_order :: "'a list \<Rightarrow> 'a list" where
  "set_order [] = []"
| "set_order (x # xs) = x # filter (\<lambda>y. y \<noteq> x) (set_order xs)"

definition allRpcs :: "int \<Rightarrow> string list option \<Rightarrow> string list" where
  "allRpcs chainId rpcs =
     set_order ((case rpcs of None \<Rightarrow> [] | Some r \<Rightarrow> r) @
                (case defaultRpcs chainId of None \<Rightarrow> [] | Some r \<Rightarrow> r))"

definition no_rpc_message :: "int \<Rightarrow> string" where
  "no_rpc_message chainId =
     ''No RPC endpoints found or provided for chainId: '' @ decimal chainId @ ''.''"

text \<open>The loop of \<open>_executeWithFallbacks\<close>: the first success, or the last error.\<close>

primrec try_rpcs ::
    "(string \<Rightarrow> 'a outcome) \<Rightarrow> string list \<Rightarrow> failure option \<Rightarrow> failure option + 'a" where
  "try_rpcs action [] lastError = Inl lastError"
| "try_rpcs action (rpcUrl # rest) lastError =
     (case action (stdHttpUrl rpcUrl) of
        Inr v \<Rightarrow> Inr v
      | Inl error \<Rightarrow> try_rpcs action rest (Some error))"

definition executeWithFallbacks ::
    "int \<Rightarrow> string list option \<Rightarrow> (string \<Rightarrow> 'a outcome) \<Rightarrow> 'a outcome" where
  "executeWithFallbacks chainId rpcs action =
     (if allRpcs chainId rpcs = [] then Inl (ThrownError (no_rpc_message chainId))
      else case try_rpcs action (allRpcs chainId rpcs) None of
        Inr v \<Rightarrow> Inr v
      | Inl lastError \<Rightarrow> Inl (ThrownError (''All RPC requests failed for chain '' @ decimal chainId @
          ''. Last error: '' @
          (case lastError of None \<Rightarrow> ''undefined'' | Some e \<Rightarrow> failure_message e))))"

section \<open>The caches\<close>

record QuorumResult =
  qr_clockMode :: ClockMode
  qr_quorum :: int
  qr_decimals :: int

record QuorumCacheEntry =
  qe_result :: QuorumResult
  qe_timestamp :: int

record chain_tool =
  blockIntervalCache :: "string \<rightharpoonup> real"
  clockModeCache :: "string \<rightharpoonup> ClockMode"
  quorumCache :: "string \<rightharpoonup> QuorumCacheEntry"

definition new_ChainTool :: chain_tool where
  "new_ChainTool = \<lparr>blockIntervalCache = Map.empty, clockModeCache = Map.empty,
     quorumCache = Map.empty\<rparr>"

definition QUORUM_CACHE_DURATION_MS :: int where
  "QUORUM_CACHE_DURATION_MS = 30 * 60 * 1000"

definition BLOCK_SAMPLE_SIZE :: int where
  "BLOCK_SAMPLE_SIZE = 10"

type_synonym 'a tooled = "'a outcome \<times> chain_tool"

definition tool_then :: "'a tooled \<Rightarrow> ('a \<Rightarrow> chain_tool \<Rightarrow> 'b tooled) \<Rightarrow> 'b tooled" where
  "tool_then m f = (case m of (Inl e, t) \<Rightarrow> (Inl e, t) | (Inr x, t) \<Rightarrow> f x t)"

lemma tool_then_simps [simp]:
  "tool_then (Inl e, t) f = (Inl e, t)" "tool_then (Inr x, t) f = f x t"
  by (simp_all add: tool_then_def)

section \<open>The block interval\<close>

primrec intervalSum :: "(real \<Rightarrow> real) \<Rightarrow> int \<Rightarrow> int list \<Rightarrow> real \<Rightarrow> real" where
  "intervalSum fl previous [] totalInterval = totalInterval"
| "intervalSum fl previous (current # ts) totalInterval =
     intervalSum fl current ts (fl (totalInterval + fl (of_int (current - previous))))"

definition calculateIntervalForSingleRpc ::
    "(real \<Rightarrow> real) \<Rightarrow> rpc_net \<Rightarrow> string \<Rightarrow> bool \<Rightarrow> real outcome" where
  "calculateIntervalForSingleRpc fl net client enableFloatValue =
     and_then (getBlockNumber net client) (\<lambda>latestBlockNumber.
     let fromBlock = latestBlockNumber - (BLOCK_SAMPLE_SIZE - 1) in
     and_then (map_outcome (\<lambda>i. getBlock net client (fromBlock + i)) [0..BLOCK_SAMPLE_SIZE - 1])
       (\<lambda>resolvedBlocks.
     let blocks = sort_key sb_number (List.map_filter (\<lambda>b. b) resolvedBlocks) in
     if length blocks < 2 then Inl (ThrownError ''Need at least 2 blocks to calculate interval'')
     else let totalInterval = intervalSum fl (sb_timestamp (hd blocks)) (map sb_timestamp (tl blocks)) 0;
              averageInterval = fl (totalInterval / real (length blocks - 1))
          in Inr (if enableFloatValue then averageInterval else math_floor averageInterval)))"

definition successes :: "'a outcome list \<Rightarrow> 'a list" where
  "successes results = List.map_filter (\<lambda>r. case r of Inl _ \<Rightarrow> None | Inr v \<Rightarrow> Some v) results"

definition blockIntervalSeconds ::
    "(real \<Rightarrow> real) \<Rightarrow> rpc_net \<Rightarrow> int \<Rightarrow> string list option \<Rightarrow> bool \<Rightarrow> chain_tool \<Rightarrow> real tooled" where
  "blockIntervalSeconds fl net chainId rpcs enableFloatValue t =
     (let cacheKey = decimal chainId in
      case blockIntervalCache t cacheKey of
        Some v \<Rightarrow> (Inr v, t)
      | None \<Rightarrow>
          if allRpcs chainId rpcs = [] then (Inl (ThrownError (no_rpc_message chainId)), t)
          else let results = map (\<lambda>rpc. calculateIntervalForSingleRpc fl net (stdHttpUrl rpc)
                                     enableFloatValue) (allRpcs chainId rpcs);
                   successfulIntervals = successes results
               in if successfulIntervals = []
                  then (Inl (ThrownError (''All RPC requests failed for chain '' @ decimal chainId @ ''.'')), t)
                  else let totalInterval = foldl (\<lambda>sum interval. fl (sum + interval)) 0 successfulIntervals;
                           averageInterval = fl (totalInterval / real (length successfulIntervals));
                           averageInterval = (if enableFloatValue then averageInterval
                                              else math_floor averageInterval)
                       in (Inr averageInterval,
                           t\<lparr>blockIntervalCache := (blockIntervalCache t)(cacheKey \<mapsto> averageInterval)\<rparr>))"

section \<open>The clock mode\<close>

text \<open>
  \<open>new URLSearchParams(s).get(key)\<close>: the pairs between \<open>&\<close>, each split at its first \<open>=\<close>, with \<open>+\<close> and
  the percent escapes decoded; escapes of one byte stand for that code unit.
\<close>

definition hex_value :: "char \<Rightarrow> nat option" where
  "hex_value c = (let n = of_char c in
     if 48 \<le> n \<and> n \<le> 57 then Some (n - 48)
     else if 65 \<le> n \<and> n \<le> 70 then Some (n - 55)
     else if 97 \<le> n \<and> n \<le> 102 then Some (n - 87) else None)"

fun percent_decode :: "string \<Rightarrow> string" where
  "percent_decode (a # b # c # s) =
     (if a = CHR ''%'' then
        (case (hex_value b, hex_value c) of
           (Some x, Some y) \<Rightarrow> char_of (16 * x + y) # percent_decode s
         | _ \<Rightarrow> a # percent_decode (b # c # s))
      else (if a = CHR ''+'' then CHR '' '' else a) # percent_decode (b # c # s))"
| "percent_decode s = map (\<lambda>a. if a = CHR ''+'' then CHR '' '' else a) s"

definition search_pair :: "string \<Rightarrow> string \<times> string" where
  "search_pair p =
     (percent_decode (takeWhile (\<lambda>c. c \<noteq> CHR ''='') p),
      percent_decode (tl (dropWhile (\<lambda>c. c \<noteq> CHR ''='') p)))"

definition search_params :: "string \<Rightarrow> (string \<times> string) list" where
  "search_params s =
     (let s = (if starts_with s ''?'' then tl s else s)
      in map search_pair (filter (\<lambda>p. p \<noteq> []) (split_on (CHR ''&'') s)))"

definition search_get :: "string \<Rightarrow> string \<Rightarrow> string option" where
  "search_get s key = map_of (search_params s) key"

definition parse_clock_mode :: "string option \<Rightarrow> ClockMode" where
  "parse_clock_mode result =
     (case result of
        None \<Rightarrow> BlockNumber
      | Some r \<Rightarrow>
          let mode = map_option to_lower
                (search_get (map (\<lambda>c. if c = CHR ''&'' then CHR '';'' else c) r) ''mode'')
          in if mode = Some ''timestamp'' then Timestamp else BlockNumber)"

record BaseContractOptions =
  bo_chainId :: int
  bo_contractAddress :: string
  bo_rpcs :: "string list option"

record QueryQuorumOptions = BaseContractOptions +
  qo_standard :: "string option"
  qo_governorTokenAddress :: string
  qo_governorTokenStandard :: "string option"

definition contract_key :: "'a BaseContractOptions_scheme \<Rightarrow> string" where
  "contract_key options = decimal (bo_chainId options) @ '':'' @ bo_contractAddress options"

abbreviation with_fallbacks ::
    "'a BaseContractOptions_scheme \<Rightarrow> (string \<Rightarrow> 'b outcome) \<Rightarrow> 'b outcome" where
  "with_fallbacks options action \<equiv> executeWithFallbacks (bo_chainId options) (bo_rpcs options) action"

definition clockMode ::
    "rpc_net \<Rightarrow> 'a BaseContractOptions_scheme \<Rightarrow> chain_tool \<Rightarrow> ClockMode tooled" where
  "clockMode net options t =
     (let cacheKey = contract_key options;
          cache = (\<lambda>mode. (Inr mode, t\<lparr>clockModeCache := (clockModeCache t)(cacheKey \<mapsto> mode)\<rparr>))
      in case clockModeCache t cacheKey of
        Some mode \<Rightarrow> (Inr mode, t)
      | None \<Rightarrow>
          (case with_fallbacks options (\<lambda>client. read_CLOCK_MODE net client (bo_contractAddress options)) of
             Inr result \<Rightarrow> cache (parse_clock_mode result)
           | Inl error \<Rightarrow>
               if failure_message error \<noteq> [] \<and>
                  (contains_text (failure_message error) ''contract function not found'' \<or>
                   contains_text (failure_message error) ''CLOCK_MODE'')
               then cache BlockNumber
               else (Inl error, t)))"

section \<open>The quorum\<close>

text \<open>The clock of the governor, or the latest block when it has none, moved into the past.\<close>

definition quorumTimepoint ::
    "rpc_net \<Rightarrow> 'a BaseContractOptions_scheme \<Rightarrow> ClockMode \<Rightarrow> int outcome" where
  "quorumTimepoint net options mode =
     and_then
       (case with_fallbacks options (\<lambda>client. read_clock net client (bo_contractAddress options)) of
          Inr clockResult \<Rightarrow> Inr clockResult
        | Inl _ \<Rightarrow>
            and_then (with_fallbacks options (getLatestBlock net)) (\<lambda>latestBlock.
              Inr (case mode of Timestamp \<Rightarrow> sb_timestamp latestBlock
                   | BlockNumber \<Rightarrow> sb_number latestBlock)))
       (\<lambda>timepoint. Inr (case mode of Timestamp \<Rightarrow> timepoint - 60 * 3 | BlockNumber \<Rightarrow> timepoint - 15))"

definition quorumDecimals :: "rpc_net \<Rightarrow> QueryQuorumOptions \<Rightarrow> int outcome" where
  "quorumDecimals net options =
     (let governorTokenContractStandard = to_upper
            (case qo_governorTokenStandard options of None \<Rightarrow> ''ERC20'' | Some s \<Rightarrow> s)
      in if governorTokenContractStandard = ''ERC20''
         then (case with_fallbacks options
                      (\<lambda>client. read_decimals net client (qo_governorTokenAddress options)) of
                 Inr d \<Rightarrow> Inr d
               | Inl e \<Rightarrow> Inl (ThrownError (''Failed to query decimals for token '' @
                   qo_governorTokenAddress options @ '': '' @ failure_message e)))
         else if governorTokenContractStandard = ''ERC721'' then Inr 0
         else Inr 18)"

text \<open>The body of the \<open>try\<close> block of \<open>quorum\<close>; \<open>storedAt\<close> is \<open>Date.now()\<close> when the result is cached.\<close>

definition fetchQuorum ::
    "rpc_net \<Rightarrow> int \<Rightarrow> QueryQuorumOptions \<Rightarrow> chain_tool \<Rightarrow> QuorumResult tooled" where
  "fetchQuorum net storedAt options t =
     tool_then (clockMode net options t) (\<lambda>mode t.
     case and_then (quorumTimepoint net options mode) (\<lambda>timepoint.
          and_then (with_fallbacks options
            (\<lambda>client. read_quorum net client (bo_contractAddress options) timepoint)) (\<lambda>quorumResult.
          case quorumResult of
            None \<Rightarrow> Inl (ThrownError ''Failed to retrieve quorum from contract'')
          | Some quorum \<Rightarrow>
              and_then (quorumDecimals net options) (\<lambda>decimals.
                Inr \<lparr>qr_clockMode = mode, qr_quorum = quorum, qr_decimals = decimals\<rparr>))) of
       Inl e \<Rightarrow> (Inl e, t)
     | Inr freshResult \<Rightarrow>
         (Inr freshResult, t\<lparr>quorumCache := (quorumCache t)(contract_key options \<mapsto>
            \<lparr>qe_result = freshResult, qe_timestamp = storedAt\<rparr>)\<rparr>))"

definition quorum ::
    "rpc_net \<Rightarrow> int \<Rightarrow> int \<Rightarrow> QueryQuorumOptions \<Rightarrow> chain_tool \<Rightarrow> QuorumResult tooled" where
  "quorum net now storedAt options t =
     (let cachedEntry = quorumCache t (contract_key options);
          fetch = (case fetchQuorum net storedAt options t of
              (Inr freshResult, t) \<Rightarrow> (Inr freshResult, t)
            | (Inl error, t) \<Rightarrow>
                (case cachedEntry of
                   Some entry \<Rightarrow> (Inr (qe_result entry), t)
                 | None \<Rightarrow> (Inl (ThrownError (''All attempts to fetch quorum for '' @
                     bo_contractAddress options @ '' failed, and no cached value was available.'')), t)))
      in case cachedEntry of
        None \<Rightarrow> fetch
      | Some entry \<Rightarrow>
          if now - qe_timestamp entry < QUORUM_CACHE_DURATION_MS
          then (Inr (qe_result entry), t) else fetch)"

end
