(* ===== verification/ChainClaims.thy ===== *)
theory ChainClaims
  imports ChainTool
begin

text \<open>
  The properties of the chain tool: which endpoint answers, how long an answer is served, what the
  block interval is, and how a clock mode is read.
\<close>

section \<open>Fallbacks\<close>

lemma set_order_set [simp]: "set (set_order xs) = set xs"
  by (induction xs) auto

lemma set_order_distinct [simp]: "distinct (set_order xs)"
  by (induction xs) auto

lemma try_rpcs_success:
  "try_rpcs action urls e = Inr v \<longleftrightarrow>
     (\<exists>pre url post. urls = pre @ url # post \<and> action (stdHttpUrl url) = Inr v \<and>
        list_all (\<lambda>u. isl (action (stdHttpUrl u))) pre)"
proof (induction urls arbitrary: e)
  case Nil
  then show ?case by simp
next
  case (Cons u urls)
  show ?case
  proof (cases "action (stdHttpUrl u)")
    case (Inl x)
    show ?thesis
    proof
      assume "try_rpcs action (u # urls) e = Inr v"
      with Inl Cons.IH obtain pre url post where "urls = pre @ url # post"
        "action (stdHttpUrl url) = Inr v"
        "list_all (\<lambda>u. isl (action (stdHttpUrl u))) pre" by auto
      with Inl show "\<exists>pre url post. u # urls = pre @ url # post \<and> action (stdHttpUrl url) = Inr v \<and>
          list_all (\<lambda>u. isl (action (stdHttpUrl u))) pre"
        by (intro exI [of _ "u # pre"]) auto
    next
      assume "\<exists>pre url post. u # urls = pre @ url # post \<and> action (stdHttpUrl url) = Inr v \<and>
          list_all (\<lambda>u. isl (action (stdHttpUrl u))) pre"
      then obtain pre url post where p: "u # urls = pre @ url # post" "action (stdHttpUrl url) = Inr v"
        "list_all (\<lambda>u. isl (action (stdHttpUrl u))) pre" by blast
      with Inl obtain pre' where "pre = u # pre'" by (cases pre) auto
      with p Inl Cons.IH [of "Some x"] show "try_rpcs action (u # urls) e = Inr v" by auto
    qed
  next
    case (Inr y)
    show ?thesis
    proof
      assume "try_rpcs action (u # urls) e = Inr v"
      with Inr show "\<exists>pre url post. u # urls = pre @ url # post \<and> action (stdHttpUrl url) = Inr v \<and>
          list_all (\<lambda>u. isl (action (stdHttpUrl u))) pre"
        by (intro exI [of _ "[]"] exI [of _ u] exI [of _ urls]) auto
    next
      assume "\<exists>pre url post. u # urls = pre @ url # post \<and> action (stdHttpUrl url) = Inr v \<and>
          list_all (\<lambda>u. isl (action (stdHttpUrl u))) pre"
      then obtain pre url post where p: "u # urls = pre @ url # post" "action (stdHttpUrl url) = Inr v"
        "list_all (\<lambda>u. isl (action (stdHttpUrl u))) pre" by blast
      with Inr have "pre = []" by (cases pre) auto
      with p Inr show "try_rpcs action (u # urls) e = Inr v" by auto
    qed
  qed
qed

lemma try_rpcs_failure:
  "try_rpcs action urls e = Inl e' \<Longrightarrow> list_all (\<lambda>u. isl (action (stdHttpUrl u))) urls"
  by (induction urls arbitrary: e) (auto split: sum.splits)

text \<open>
  A query with fallbacks tries the caller's endpoints and then the built-in ones, each once, and
  its answer is that of the first endpoint that answers: every endpoint before it has failed. It
  fails only when there is no endpoint or all of them fail.
\<close>

theorem executeWithFallbacks_first_success:
  "distinct (allRpcs chainId rpcs) \<and>
   (executeWithFallbacks chainId rpcs action = Inr v \<longleftrightarrow>
     (\<exists>pre url post. allRpcs chainId rpcs = pre @ url # post \<and> action (stdHttpUrl url) = Inr v \<and>
        list_all (\<lambda>u. isl (action (stdHttpUrl u))) pre)) \<and>
   (isl (executeWithFallbacks chainId rpcs action) \<longleftrightarrow>
     list_all (\<lambda>u. isl (action (stdHttpUrl u))) (allRpcs chainId rpcs))"
proof -
  have suc: "executeWithFallbacks chainId rpcs action = Inr v \<longleftrightarrow>
     (\<exists>pre url post. allRpcs chainId rpcs = pre @ url # post \<and> action (stdHttpUrl url) = Inr v \<and>
        list_all (\<lambda>u. isl (action (stdHttpUrl u))) pre)" for v
    using try_rpcs_success [of action "allRpcs chainId rpcs" None v]
    by (auto simp: executeWithFallbacks_def split: sum.splits)
  have "isl (executeWithFallbacks chainId rpcs action) \<longleftrightarrow>
     list_all (\<lambda>u. isl (action (stdHttpUrl u))) (allRpcs chainId rpcs)"
  proof
    assume "isl (executeWithFallbacks chainId rpcs action)"
    then show "list_all (\<lambda>u. isl (action (stdHttpUrl u))) (allRpcs chainId rpcs)"
      using try_rpcs_failure [of action "allRpcs chainId rpcs" None]
      by (auto simp: executeWithFallbacks_def split: if_splits sum.splits)
  next
    assume all: "list_all (\<lambda>u. isl (action (stdHttpUrl u))) (allRpcs chainId rpcs)"
    show "isl (executeWithFallbacks chainId rpcs action)"
    proof (rule ccontr)
      assume "\<not> isl (executeWithFallbacks chainId rpcs action)"
      then obtain v where "executeWithFallbacks chainId rpcs action = Inr v"
        by (cases "executeWithFallbacks chainId rpcs action") auto
      then obtain pre url post where "allRpcs chainId rpcs = pre @ url # post"
        "action (stdHttpUrl url) = Inr v"
        unfolding suc by blast
      with all show False by simp
    qed
  qed
  with suc [of v] show ?thesis by (simp add: allRpcs_def)
qed

section \<open>The quorum cache\<close>

lemma clockMode_quorumCache: "clockMode net options t = (r, t') \<Longrightarrow> quorumCache t' = quorumCache t"
  by (auto simp: clockMode_def Let_def split: option.splits sum.splits if_splits)

lemma fetchQuorum_caches:
  assumes "fetchQuorum net storedAt options t = (Inr r, t')"
  shows "quorumCache t' (contract_key options) = Some \<lparr>qe_result = r, qe_timestamp = storedAt\<rparr>"
  using assms by (auto simp: fetchQuorum_def tool_then_def split: prod.splits sum.splits)

lemma fetchQuorum_failure:
  assumes "fetchQuorum net storedAt options t = (Inl e, t')"
  shows "quorumCache t' = quorumCache t"
  using assms clockMode_quorumCache [of net options t]
  by (auto simp: fetchQuorum_def tool_then_def split: prod.splits sum.splits)

lemma quorum_success_cached:
  assumes "quorum net now storedAt options t = (Inr r, t')" and "now \<le> storedAt"
  shows "\<exists>entry. quorumCache t' (contract_key options) = Some entry \<and> qe_result entry = r"
  using assms fetchQuorum_caches [of net storedAt options t] fetchQuorum_failure [of net storedAt options t]
  by (auto simp: quorum_def Let_def split: option.splits sum.splits prod.splits if_splits)

text \<open>
  C25: Once a quorum has been answered for a governor it keeps being answered. Whatever the
  endpoints do later, a further query returns: within half an hour of the time the entry was
  stored it is the same result, from the cache and without a query; after that it is a fresh result
  or, when the fetch fails at any point, the stale one.
\<close>

theorem quorum_keeps_answering:
  assumes "quorumCache t (contract_key options) = Some entry"
  shows "\<exists>r t'. quorum net now storedAt options t = (Inr r, t') \<and>
    (\<exists>entry'. quorumCache t' (contract_key options) = Some entry' \<and> qe_result entry' = r) \<and>
    (if now < qe_timestamp entry + 1800000 then r = qe_result entry \<and> t' = t
     else r = qe_result entry \<and> isl (fst (fetchQuorum net storedAt options t)) \<or>
       fst (fetchQuorum net storedAt options t) = Inr r)"
proof (cases "fetchQuorum net storedAt options t")
  case (Pair x t1)
  show ?thesis
  proof (cases x)
    case (Inl e)
    with Pair fetchQuorum_failure [of net storedAt options t e t1] assms show ?thesis
      by (simp add: quorum_def QUORUM_CACHE_DURATION_MS_def Let_def)
  next
    case (Inr r)
    with Pair fetchQuorum_caches [of net storedAt options t r t1] assms show ?thesis
      by (simp add: quorum_def QUORUM_CACHE_DURATION_MS_def Let_def)
  qed
qed

text \<open>A concrete network in which nothing answers, and one governor.\<close>

definition dead_net :: rpc_net where
  "dead_net = (let e = Inl (ThrownError ''timeout'') in
     \<lparr>read_CLOCK_MODE = (\<lambda>_ _. e), read_clock = (\<lambda>_ _. Inl (ThrownError ''timeout'')),
      read_quorum = (\<lambda>_ _ _. Inl (ThrownError ''timeout'')),
      read_decimals = (\<lambda>_ _. Inl (ThrownError ''timeout'')),
      getBlockNumber = (\<lambda>_. Inl (ThrownError ''timeout'')),
      getBlock = (\<lambda>_ _. Inl (ThrownError ''timeout'')),
      getLatestBlock = (\<lambda>_. Inl (ThrownError ''timeout''))\<rparr>)"

definition demo_quorum_options :: QueryQuorumOptions where
  "demo_quorum_options = \<lparr>bo_chainId = 46, bo_contractAddress = ''0x1'', bo_rpcs = None,
     qo_standard = None, qo_governorTokenAddress = ''0x2'', qo_governorTokenStandard = None\<rparr>"

definition demo_entry :: QuorumCacheEntry where
  "demo_entry = \<lparr>qe_result = \<lparr>qr_clockMode = Timestamp, qr_quorum = 4, qr_decimals = 18\<rparr>,
     qe_timestamp = 1000\<rparr>"

theorem quorum_keeps_answering_witness:
  "\<exists>r t'. quorum dead_net 2000 2000 demo_quorum_options
     (new_ChainTool\<lparr>quorumCache := [contract_key demo_quorum_options \<mapsto> demo_entry]\<rparr>) = (Inr r, t') \<and>
     qr_quorum r = 4"
proof -
  let ?t = "new_ChainTool\<lparr>quorumCache := [contract_key demo_quorum_options \<mapsto> demo_entry]\<rparr>"
  have "quorumCache ?t (contract_key demo_quorum_options) = Some demo_entry" by simp
  from quorum_keeps_answering [OF this, of dead_net 2000 2000] show ?thesis
    by (auto simp: demo_entry_def)
qed

section \<open>The clock mode\<close>

lemma parse_other_parameters:
  "parse_clock_mode (Some (''mode=timestamp&'' @ rest)) = BlockNumber"
proof -
  let ?r = "map (\<lambda>c. if c = CHR ''&'' then CHR '';'' else c) rest"
  have "CHR ''&'' \<notin> set ?r" by auto
  then have "search_params (''mode=timestamp;'' @ ?r) = [search_pair (''mode=timestamp;'' @ ?r)]"
    by (simp add: search_params_def starts_with_def split_on_plain)
  moreover have "\<exists>u. search_pair (''mode=timestamp;'' @ ?r) = (''mode'', ''timestamp'' @ u) \<and> u \<noteq> []"
  proof -
    have plain: "\<exists>v. percent_decode ('';'' @ x) = '';'' @ v" for x
      by (cases x rule: list.exhaust; cases "tl x" rule: list.exhaust) auto
    obtain v where v: "percent_decode ('';'' @ ?r) = '';'' @ v" using plain by blast
    then have "percent_decode (''timestamp;'' @ ?r) = ''timestamp;'' @ v"
      by (cases ?r rule: list.exhaust) simp_all
    then show ?thesis by (intro exI [of _ "'';'' @ v"]) (simp add: search_pair_def)
  qed
  ultimately obtain u where "search_get (''mode=timestamp;'' @ ?r) ''mode'' = Some (''timestamp'' @ u)"
    and "u \<noteq> []" by (auto simp: search_get_def)
  moreover from this have "length (to_lower (''timestamp'' @ u)) > length ''timestamp''"
    by (simp add: to_lower_def)
  ultimately show ?thesis
    by (auto simp: parse_clock_mode_def)
qed

lemma parse_timestamp: "parse_clock_mode (Some ''mode=timestamp'') = Timestamp"
  by code_simp

text \<open>
  The clock mode of a governor is read once and then served from the cache whatever the
  endpoints answer. A governor whose answer is \<open>mode=timestamp\<close> is a timestamp governor; one whose
  answer carries a further parameter, as in \<open>mode=timestamp&from=default\<close>, is taken for a block
  number governor, because the separators are replaced before the parameters are split.
\<close>

theorem clockMode_reads_once:
  assumes "clockModeCache t (contract_key options) = None"
    and "executeWithFallbacks (bo_chainId options) (bo_rpcs options)
      (\<lambda>client. read_CLOCK_MODE net client (bo_contractAddress options)) = Inr (Some result)"
    and "result = ''mode=timestamp'' \<or> (\<exists>rest. result = ''mode=timestamp&'' @ rest)"
  shows "\<exists>t'. clockMode net options t =
      (Inr (if result = ''mode=timestamp'' then Timestamp else BlockNumber), t') \<and>
    (\<forall>net'. clockMode net' options t' =
      (Inr (if result = ''mode=timestamp'' then Timestamp else BlockNumber), t'))"
  using assms parse_timestamp parse_other_parameters
  by (auto simp: clockMode_def Let_def)

definition stamped_net :: "string \<Rightarrow> rpc_net" where
  "stamped_net answer = dead_net\<lparr>read_CLOCK_MODE := (\<lambda>_ _. Inr (Some answer))\<rparr>"

theorem clockMode_reads_once_witness:
  "fst (clockMode (stamped_net ''mode=timestamp&from=default'') demo_quorum_options new_ChainTool) =
     Inr BlockNumber"
proof -
  have "executeWithFallbacks (bo_chainId demo_quorum_options) (bo_rpcs demo_quorum_options)
      (\<lambda>client. read_CLOCK_MODE (stamped_net ''mode=timestamp&from=default'') client
        (bo_contractAddress demo_quorum_options)) = Inr (Some ''mode=timestamp&from=default'')"
    by (simp add: executeWithFallbacks_def demo_quorum_options_def allRpcs_def defaultRpcs_def
        stamped_net_def)
  moreover have "clockModeCache new_ChainTool (contract_key demo_quorum_options) = None"
    by (simp add: new_ChainTool_def)
  ultimately show ?thesis
    using clockMode_reads_once [of new_ChainTool demo_quorum_options
        "stamped_net ''mode=timestamp&from=default''" "''mode=timestamp&from=default''"]
    by auto
qed

section \<open>The block interval\<close>

lemma intervalSum_telescopes:
  assumes "rounding fl" and "sorted (previous # ts)" and "0 \<le> a"
    and "a + (last (previous # ts) - previous) \<le> max_safe"
  shows "intervalSum fl previous ts (of_int a) = of_int (a + (last (previous # ts) - previous))"
  using assms
proof (induction ts arbitrary: previous a)
  case Nil
  then show ?case by simp
next
  case (Cons t ts)
  let ?z = "last (t # ts)"
  have le: "previous \<le> t" "t \<le> ?z" using Cons.prems(2) by auto
  with Cons.prems have d: "\<bar>t - previous\<bar> \<le> max_safe" "\<bar>a + (t - previous)\<bar> \<le> max_safe" by auto
  have first: "fl (of_int a + fl (of_int (t - previous))) = of_int (a + (t - previous))"
    using rounding_int [OF Cons.prems(1) d(1)] rounding_int [OF Cons.prems(1) d(2)] by simp
  have "intervalSum fl t ts (of_int (a + (t - previous))) =
      of_int (a + (t - previous) + (?z - t))"
    using Cons.prems le by (intro Cons.IH) auto
  also have "a + (t - previous) + (?z - t) = a + (?z - previous)" by simp
  finally show ?case by (simp only: intervalSum.simps first last.simps list.simps if_False)
qed

lemma map_filter_Some: "List.map_filter (\<lambda>b. b) (map (\<lambda>x. Some (g x)) xs) = map g xs"
  by (induction xs) (simp_all add: List.map_filter_simps)

text \<open>
  The interval of one endpoint is the time between the first and the last of its ten sampled
  blocks divided by the nine gaps: the sum of the differences telescopes, and is exact in doubles
  as long as the blocks are in order and span at most \<open>2 ^ 53\<close> seconds.
\<close>

theorem single_interval_telescopes:
  assumes "rounding fl" and "getBlockNumber net client = Inr n"
    and "\<And>i. 0 \<le> i \<Longrightarrow> i \<le> 9 \<Longrightarrow> getBlock net client (n - 9 + i) =
      Inr (Some \<lparr>sb_number = n - 9 + i, sb_timestamp = stamp i\<rparr>)"
    and "mono stamp" and "stamp 9 - stamp 0 \<le> max_safe"
  shows "calculateIntervalForSingleRpc fl net client True = Inr (fl (of_int (stamp 9 - stamp 0) / 9))"
proof -
  let ?b = "\<lambda>i. \<lparr>sb_number = n - 9 + i, sb_timestamp = stamp i\<rparr>"
  have ten: "[0..9] = [0, 1, 2, 3, 4, 5, 6, 7, 8, 9 :: int]" by code_simp
  have "map_outcome (\<lambda>i. getBlock net client (n - 9 + i)) [0..9] = Inr (map (\<lambda>i. Some (?b i)) [0..9])"
    using assms(3) by (intro map_outcome_Inr) auto
  moreover have "sort_key sb_number (map ?b [0..9]) = map ?b [0..9]"
    by (intro sort_key_id_if_sorted) (simp add: ten)
  moreover have "intervalSum fl (stamp 0) (map stamp [1, 2, 3, 4, 5, 6, 7, 8, 9]) (of_int 0) =
      of_int (0 + (last (stamp 0 # map stamp [1, 2, 3, 4, 5, 6, 7, 8, 9]) - stamp 0))"
    using assms(5) by (intro intervalSum_telescopes [OF assms(1)])
      (simp_all add: monoD [OF assms(4)])
  ultimately show ?thesis
    using assms(2)
    by (simp add: calculateIntervalForSingleRpc_def BLOCK_SAMPLE_SIZE_def Let_def map_filter_Some)
      (simp add: ten)
qed

definition two_second_net :: rpc_net where
  "two_second_net = dead_net\<lparr>getBlockNumber := (\<lambda>_. Inr 100),
     getBlock := (\<lambda>_ i. Inr (Some \<lparr>sb_number = i, sb_timestamp = 1000 + 2 * i\<rparr>))\<rparr>"

theorem single_interval_telescopes_witness:
  "calculateIntervalForSingleRpc (\<lambda>x. x) two_second_net ''a'' True = Inr 2"
proof -
  have "mono (\<lambda>i :: int. 1182 + 2 * i)" by (simp add: mono_def)
  with single_interval_telescopes [OF rounding_exact, of two_second_net "''a''" 100
      "\<lambda>i. 1182 + 2 * i"]
  show ?thesis by (simp add: two_second_net_def max_safe_def)
qed

text \<open>
  The block interval of a chain is settled by the first successful query: it needs one
  endpoint that answers, and from then on every query of that chain returns the same value,
  whatever the endpoints and whether or not a whole number is asked for. A failed query leaves
  the caches as they were.
\<close>

theorem blockIntervalSeconds_settled:
  "case blockIntervalSeconds fl net chainId rpcs enableFloatValue t of
     (Inr v, t') \<Rightarrow> (\<forall>net' rpcs' enable'.
        blockIntervalSeconds fl net' chainId rpcs' enable' t' = (Inr v, t'))
   | (Inl e, t') \<Rightarrow> t' = t \<and> blockIntervalCache t (decimal chainId) = None \<and>
        successes (map (\<lambda>rpc. calculateIntervalForSingleRpc fl net (stdHttpUrl rpc) enableFloatValue)
          (allRpcs chainId rpcs)) = []"
  by (auto simp: blockIntervalSeconds_def Let_def successes_def List.map_filter_simps
      split: option.splits)

end
