(* ===== verification/GovernorHandler.thy ===== *)
theory GovernorHandler
  imports TokenLedger Handlers ChainTool TextPlus
begin

text \<open>
  \<open>packages/indexer/src/handler/governor.ts\<close>: the handler of the governor's logs. A proposal is
  stored with its quorum, its decimals, its title and the times of its vote; a vote is stored in
  its own table and in the group table, and added to the tallies of the proposal and of the
  protocol. The state of the handler is the database and the caches of the shared chain tool.
\<close>

section \<open>Events\<close>

definition topic_ProposalCanceled :: string where
  "topic_ProposalCanceled = ''0x789cf55be980739dad1d0699b93b58e806b51c9d96619bfa8fe0a28abaa7b30c''"

definition topic_ProposalCreated :: string where
  "topic_ProposalCreated = ''0x7d84a6263ae0d98d3329bd7b46bb4e8d6f98cd35a7adb45c274c8b7fd5ebd5e0''"

definition topic_ProposalExecuted :: string where
  "topic_ProposalExecuted = ''0x712ae1383f79ac853f8d882153778e0260ef8f03b504e2866e0593e04d2b291f''"

definition topic_ProposalQueued :: string where
  "topic_ProposalQueued = ''0x9a2e42fd6722813d69113e7d0079d3d940171428df7373df9c7f7617cfda2892''"

definition topic_VoteCast :: string where
  "topic_VoteCast = ''0xb8e138887d0aa13bab447e82de9d5c1777041ecd21ca36ba824ff1e6c07ddda4''"

definition topic_VoteCastWithParams :: string where
  "topic_VoteCastWithParams = ''0xe2babfbac5889a709b63bb7f598b324e08bc5a4fb9ec647fb3cbc9ec07eb8712''"

record proposal_created_event =
  evp_proposalId :: int
  evp_proposer :: string
  evp_targets :: "string list"
  evp_values :: "int list"
  evp_signatures :: "string list"
  evp_calldatas :: "string list"
  evp_voteStart :: int
  evp_voteEnd :: int
  evp_description :: string

record vote_event =
  evv_voter :: string
  evv_proposalId :: int
  evv_support :: int
  evv_weight :: int
  evv_reason :: string

record governor_codec =
  decode_ProposalCreated :: "EvmLog \<Rightarrow> proposal_created_event outcome"
  decode_ProposalQueued :: "EvmLog \<Rightarrow> (int \<times> int) outcome"
  decode_ProposalExecuted :: "EvmLog \<Rightarrow> int outcome"
  decode_ProposalCanceled :: "EvmLog \<Rightarrow> int outcome"
  decode_VoteCast :: "EvmLog \<Rightarrow> vote_event outcome"
  decode_VoteCastWithParams :: "EvmLog \<Rightarrow> (vote_event \<times> string) outcome"

text \<open>
  The options of the handler and its surroundings: the database client, the decoders, what the
  endpoints and the language model answer while this log is processed, the clock, the rounding of
  doubles and the text of a number.
\<close>

record governor_env =
  ge_store :: store
  ge_codec :: governor_codec
  ge_chainId :: int
  ge_rpcs :: "string list"
  ge_work :: IndexerWork
  ge_indexContract :: IndexerContract
  ge_net :: rpc_net
  ge_textPlus :: text_plus
  ge_now :: int
  ge_storedAt :: int
  ge_fl :: "real \<Rightarrow> real"
  ge_numberText :: "real \<Rightarrow> string"

definition stdProposalId :: "int \<Rightarrow> string" where
  "stdProposalId proposalId = ''0x'' @ int_text 16 proposalId"

section \<open>The times of a vote\<close>

text \<open>
  \<open>calculateProposalVoteTimestamp\<close> on doubles, each operation rounded in the order the source
  performs it.
\<close>

definition calculateProposalVoteTimestamp ::
    "(real \<Rightarrow> real) \<Rightarrow> ClockMode \<Rightarrow> real \<Rightarrow> real \<Rightarrow> real \<Rightarrow> real \<Rightarrow> real \<Rightarrow> real \<times> real" where
  "calculateProposalVoteTimestamp fl mode proposalVoteStart proposalVoteEnd proposalCreatedBlock
     proposalStartTimestamp blockInterval =
     (case mode of
        BlockNumber \<Rightarrow>
          let delayBlocks = fl (proposalVoteStart - proposalCreatedBlock);
              endBlocks = fl (proposalVoteEnd - proposalCreatedBlock);
              timeOf = (\<lambda>blocks. math_round (fl (proposalStartTimestamp +
                     fl (fl (blocks * blockInterval) * 1000))))
          in (timeOf delayBlocks, timeOf endBlocks)
      | Timestamp \<Rightarrow> (fl (proposalVoteStart * 1000), fl (proposalVoteEnd * 1000)))"

text \<open>\<open>BigInt(n)\<close> of a double: a RangeError unless it is an integer.\<close>

definition to_BigInt :: "real \<Rightarrow> int outcome" where
  "to_BigInt x =
     (if of_int \<lfloor>x\<rfloor> = x then Inr \<lfloor>x\<rfloor>
      else Inl (ThrownError ''The number cannot be converted to a BigInt because it is not an integer''))"

section \<open>The global metrics\<close>

record DataMetricOptions =
  do_proposalsCount :: "int option"
  do_votesCount :: "int option"
  do_votesWithParamsCount :: "int option"
  do_votesWithoutParamsCount :: "int option"
  do_votesWeightForSum :: "int option"
  do_votesWeightAgainstSum :: "int option"
  do_votesWeightAbstainSum :: "int option"

definition add_options :: "DataMetricOptions \<Rightarrow> DataMetric \<Rightarrow> DataMetric" where
  "add_options options dm = dm\<lparr>
     dm_proposalsCount := Some (nullish (dm_proposalsCount dm) 0 + nullish (do_proposalsCount options) 0),
     dm_votesCount := Some (nullish (dm_votesCount dm) 0 + nullish (do_votesCount options) 0),
     dm_votesWithParamsCount := Some (nullish (dm_votesWithParamsCount dm) 0
       + nullish (do_votesWithParamsCount options) 0),
     dm_votesWithoutParamsCount := Some (nullish (dm_votesWithoutParamsCount dm) 0
       + nullish (do_votesWithoutParamsCount options) 0),
     dm_votesWeightForSum := Some (nullish (dm_votesWeightForSum dm) 0
       + nullish (do_votesWeightForSum options) 0),
     dm_votesWeightAgainstSum := Some (nullish (dm_votesWeightAgainstSum dm) 0
       + nullish (do_votesWeightAgainstSum options) 0),
     dm_votesWeightAbstainSum := Some (nullish (dm_votesWeightAbstainSum dm) 0
       + nullish (do_votesWeightAbstainSum options) 0)\<rparr>"

definition storeGlobalDataMetric :: "store \<Rightarrow> DataMetricOptions \<Rightarrow> world \<Rightarrow> world outcome" where
  "storeGlobalDataMetric st options w =
     and_then (findOne (dataMetricRepo st) (\<lambda>dm. dm_id dm = global_id) (dataMetrics w))
       (\<lambda>storedDataMetric.
         let dm = metric_or_new storedDataMetric
         in and_then (if storedDataMetric = None then insert_DataMetric st dm w else Inr w)
              (save_DataMetric st (add_options options dm)))"

section \<open>Votes\<close>

text \<open>The weight of a vote by its support: against, for, abstain.\<close>

definition vote_weights :: "VoteCastGroup \<Rightarrow> int \<times> int \<times> int" where
  "vote_weights vcg =
     (if vcg_support vcg = 0 then (0, vcg_weight vcg, 0)
      else if vcg_support vcg = 1 then (vcg_weight vcg, 0, 0)
      else if vcg_support vcg = 2 then (0, 0, vcg_weight vcg)
      else (0, 0, 0))"

definition type_flag :: "VoteCastGroup \<Rightarrow> string \<Rightarrow> int" where
  "type_flag vcg t = (if vcg_type vcg = t then 1 else 0)"

definition with_params :: string where "with_params = ''vote-cast-with-params''"
definition without_params :: string where "without_params = ''vote-cast-without-params''"

definition count_vote :: "VoteCastGroup \<Rightarrow> Proposal \<Rightarrow> Proposal" where
  "count_vote vcg p =
     (let (votesWeightForSum, votesWeightAgainstSum, votesWeightAbstainSum) = vote_weights vcg
      in p\<lparr>
       pr_metricsVotesCount := Some (nullish (pr_metricsVotesCount p) 0 + 1),
       pr_metricsVotesWithParamsCount :=
         Some (nullish (pr_metricsVotesWithParamsCount p) 0 + type_flag vcg with_params),
       pr_metricsVotesWithoutParamsCount :=
         Some (nullish (pr_metricsVotesWithoutParamsCount p) 0 + type_flag vcg without_params),
       pr_metricsVotesWeightForSum :=
         Some (nullish (pr_metricsVotesWeightForSum p) 0 + votesWeightForSum),
       pr_metricsVotesWeightAgainstSum :=
         Some (nullish (pr_metricsVotesWeightAgainstSum p) 0 + votesWeightAgainstSum),
       pr_metricsVotesWeightAbstainSum :=
         Some (nullish (pr_metricsVotesWeightAbstainSum p) 0 + votesWeightAbstainSum)\<rparr>)"

definition vote_options :: "VoteCastGroup \<Rightarrow> DataMetricOptions" where
  "vote_options vcg =
     (let (votesWeightForSum, votesWeightAgainstSum, votesWeightAbstainSum) = vote_weights vcg
      in \<lparr>do_proposalsCount = None, do_votesCount = Some 1,
          do_votesWithParamsCount = Some (type_flag vcg with_params),
          do_votesWithoutParamsCount = Some (type_flag vcg without_params),
          do_votesWeightForSum = Some votesWeightForSum,
          do_votesWeightAgainstSum = Some votesWeightAgainstSum,
          do_votesWeightAbstainSum = Some votesWeightAbstainSum\<rparr>)"

text \<open>The last vote of the voter, when it is a known contributor.\<close>

definition updateLastVote :: "store \<Rightarrow> VoteCastGroup \<Rightarrow> world \<Rightarrow> world outcome" where
  "updateLastVote st vcg w =
     and_then (findOne (contributorRepo st) (\<lambda>c. co_id c = vcg_voter vcg) (contributors w))
       (\<lambda>found. case found of
          None \<Rightarrow> Inr w
        | Some storedContributor \<Rightarrow>
            save_Contributor st (storedContributor\<lparr>
              co_lastVoteBlockNumber := Some (blockNumber vcg),
              co_lastVoteTimestamp := Some (blockTimestamp vcg)\<rparr>) w)"

definition storeVoteCastGroup :: "store \<Rightarrow> VoteCastGroup \<Rightarrow> world \<Rightarrow> world outcome" where
  "storeVoteCastGroup st vcg w =
     and_then (findOne (proposalRepo st) (\<lambda>p. pr_proposalId p = vcg_refProposalId vcg) (proposals w))
       (\<lambda>proposal.
     and_then (case proposal of
         None \<Rightarrow> Inr w
       | Some p \<Rightarrow> save_Proposal st (count_vote vcg p) w) (\<lambda>w.
     let vcg' = (case proposal of None \<Rightarrow> vcg | Some p \<Rightarrow> vcg\<lparr>vcg_proposal := Some (pr_id p)\<rparr>) in
     and_then (insert_VoteCastGroup st vcg' w) (\<lambda>w.
     and_then (updateLastVote st vcg w)
       (storeGlobalDataMetric st (vote_options vcg)))))"

definition vote_entity :: "EvmLog \<Rightarrow> vote_event \<Rightarrow> VoteCast" where
  "vote_entity eventLog event =
     \<lparr>blockNumber = log_height eventLog, blockTimestamp = log_timestamp eventLog,
      transactionHash = log_transactionHash eventLog, vc_id = log_id eventLog,
      vc_voter = evv_voter event, vc_proposalId = stdProposalId (evv_proposalId event),
      vc_support = evv_support event, vc_weight = evv_weight event, vc_reason = evv_reason event\<rparr>"

definition vote_params_entity :: "EvmLog \<Rightarrow> vote_event \<Rightarrow> string \<Rightarrow> VoteCastWithParams" where
  "vote_params_entity eventLog event params =
     \<lparr>blockNumber = log_height eventLog, blockTimestamp = log_timestamp eventLog,
      transactionHash = log_transactionHash eventLog, vcp_id = log_id eventLog,
      vcp_voter = evv_voter event, vcp_proposalId = stdProposalId (evv_proposalId event),
      vcp_support = evv_support event, vcp_weight = evv_weight event,
      vcp_reason = evv_reason event, vcp_params = params\<rparr>"

definition group_entity :: "EvmLog \<Rightarrow> vote_event \<Rightarrow> string \<Rightarrow> string option \<Rightarrow> VoteCastGroup" where
  "group_entity eventLog event type params =
     \<lparr>blockNumber = log_height eventLog, blockTimestamp = log_timestamp eventLog,
      transactionHash = log_transactionHash eventLog, vcg_id = log_id eventLog,
      vcg_proposal = None, vcg_type = type, vcg_voter = evv_voter event,
      vcg_refProposalId = stdProposalId (evv_proposalId event),
      vcg_support = evv_support event, vcg_weight = evv_weight event,
      vcg_reason = evv_reason event, vcg_params = params\<rparr>"

definition storeVoteCast :: "governor_env \<Rightarrow> EvmLog \<Rightarrow> world \<Rightarrow> world outcome" where
  "storeVoteCast env eventLog w =
     and_then (decode_VoteCast (ge_codec env) eventLog) (\<lambda>event.
     and_then (insert_VoteCast (ge_store env) (vote_entity eventLog event) w)
       (storeVoteCastGroup (ge_store env) (group_entity eventLog event without_params None)))"

definition storeVoteCastWithParams :: "governor_env \<Rightarrow> EvmLog \<Rightarrow> world \<Rightarrow> world outcome" where
  "storeVoteCastWithParams env eventLog w =
     and_then (decode_VoteCastWithParams (ge_codec env) eventLog) (\<lambda>(event, params).
     and_then (insert_VoteCastWithParams (ge_store env) (vote_params_entity eventLog event params) w)
       (storeVoteCastGroup (ge_store env) (group_entity eventLog event with_params (Some params))))"

section \<open>The life of a proposal\<close>

definition storeProposalQueued :: "governor_env \<Rightarrow> EvmLog \<Rightarrow> world \<Rightarrow> world outcome" where
  "storeProposalQueued env eventLog w =
     and_then (decode_ProposalQueued (ge_codec env) eventLog) (\<lambda>(proposalId, etaSeconds).
     insert_ProposalQueued (ge_store env)
       \<lparr>blockNumber = log_height eventLog, blockTimestamp = log_timestamp eventLog,
        transactionHash = log_transactionHash eventLog, pq_id = log_id eventLog,
        pq_proposalId = stdProposalId proposalId, pq_etaSeconds = etaSeconds\<rparr> w)"

definition storeProposalExecuted :: "governor_env \<Rightarrow> EvmLog \<Rightarrow> world \<Rightarrow> world outcome" where
  "storeProposalExecuted env eventLog w =
     and_then (decode_ProposalExecuted (ge_codec env) eventLog) (\<lambda>proposalId.
     insert_ProposalExecuted (ge_store env)
       \<lparr>blockNumber = log_height eventLog, blockTimestamp = log_timestamp eventLog,
        transactionHash = log_transactionHash eventLog, pe_id = log_id eventLog,
        pe_proposalId = stdProposalId proposalId\<rparr> w)"

definition storeProposalCanceled :: "governor_env \<Rightarrow> EvmLog \<Rightarrow> world \<Rightarrow> world outcome" where
  "storeProposalCanceled env eventLog w =
     and_then (decode_ProposalCanceled (ge_codec env) eventLog) (\<lambda>proposalId.
     insert_ProposalCanceled (ge_store env)
       \<lparr>blockNumber = log_height eventLog, blockTimestamp = log_timestamp eventLog,
        transactionHash = log_transactionHash eventLog, pc_id = log_id eventLog,
        pc_proposalId = stdProposalId proposalId\<rparr> w)"

definition proposal_created_entity :: "EvmLog \<Rightarrow> proposal_created_event \<Rightarrow> ProposalCreated" where
  "proposal_created_entity eventLog event =
     \<lparr>blockNumber = log_height eventLog, blockTimestamp = log_timestamp eventLog,
      transactionHash = log_transactionHash eventLog, pcr_id = log_id eventLog,
      pcr_proposalId = stdProposalId (evp_proposalId event), pcr_proposer = evp_proposer event,
      pcr_targets = evp_targets event, pcr_values = map decimal (evp_values event),
      pcr_signatures = evp_signatures event, pcr_calldatas = evp_calldatas event,
      pcr_voteStart = evp_voteStart event, pcr_voteEnd = evp_voteEnd event,
      pcr_description = evp_description event\<rparr>"

definition mode_text :: "ClockMode \<Rightarrow> string" where
  "mode_text mode = (case mode of Timestamp \<Rightarrow> ''timestamp'' | BlockNumber \<Rightarrow> ''blocknumber'')"

definition proposal_entity ::
    "governor_env \<Rightarrow> EvmLog \<Rightarrow> proposal_created_event \<Rightarrow> QuorumResult \<Rightarrow> real \<Rightarrow> int \<Rightarrow> int \<Rightarrow> Proposal"
where
  "proposal_entity env eventLog event qmr blockInterval startTimestamp endTimestamp =
     \<lparr>blockNumber = log_height eventLog, blockTimestamp = log_timestamp eventLog,
      transactionHash = log_transactionHash eventLog, pr_id = log_id eventLog,
      pr_proposalId = stdProposalId (evp_proposalId event), pr_proposer = evp_proposer event,
      pr_targets = evp_targets event, pr_values = map decimal (evp_values event),
      pr_signatures = evp_signatures event, pr_calldatas = evp_calldatas event,
      pr_voteStart = evp_voteStart event, pr_voteEnd = evp_voteEnd event,
      pr_description = evp_description event,
      pr_metricsVotesCount = None, pr_metricsVotesWithParamsCount = None,
      pr_metricsVotesWithoutParamsCount = None, pr_metricsVotesWeightForSum = None,
      pr_metricsVotesWeightAgainstSum = None, pr_metricsVotesWeightAbstainSum = None,
      pr_title = extractInfo (ge_textPlus env) (evp_description event),
      pr_voteStartTimestamp = startTimestamp, pr_voteEndTimestamp = endTimestamp,
      pr_blockInterval = Some (ge_numberText env blockInterval),
      pr_clockMode = mode_text (qr_clockMode qmr), pr_quorum = qr_quorum qmr,
      pr_decimals = qr_decimals qmr\<rparr>"

definition quorum_options :: "governor_env \<Rightarrow> IndexerContract \<Rightarrow> QueryQuorumOptions" where
  "quorum_options env governorTokenContract =
     \<lparr>bo_chainId = ge_chainId env, bo_contractAddress = ic_address (ge_indexContract env),
      bo_rpcs = Some (ge_rpcs env),
      qo_standard = map_option to_upper (ic_standard (ge_indexContract env)),
      qo_governorTokenAddress = ic_address governorTokenContract,
      qo_governorTokenStandard = map_option to_upper (ic_standard governorTokenContract)\<rparr>"

text \<open>The two times of the vote in milliseconds, for the clock of this governor.\<close>

definition vote_times ::
    "governor_env \<Rightarrow> EvmLog \<Rightarrow> proposal_created_event \<Rightarrow> ClockMode \<Rightarrow> real \<Rightarrow> real \<times> real" where
  "vote_times env eventLog event mode blockInterval =
     (let fl = ge_fl env;
          voteStart = fl (of_int (evp_voteStart event));
          voteEnd = fl (of_int (evp_voteEnd event))
      in if mode = BlockNumber
         then calculateProposalVoteTimestamp fl BlockNumber voteStart voteEnd
                (of_int (log_height eventLog)) (of_int (log_timestamp eventLog)) blockInterval
         else (fl (voteStart * 1000), fl (voteEnd * 1000)))"

text \<open>The state of the indexer: the database and the shared chain tool.\<close>

type_synonym run_state = "world \<times> chain_tool"

text \<open>
  The queries of \<open>storeProposalCreated\<close> and the row made of them, together with the caches the
  chain tool is left with.
\<close>

definition resolveProposal ::
    "governor_env \<Rightarrow> EvmLog \<Rightarrow> proposal_created_event \<Rightarrow> chain_tool \<Rightarrow> Proposal tooled" where
  "resolveProposal env eventLog event t =
     (case find (\<lambda>item. ic_name item = ''governorToken'') (iw_contracts (ge_work env)) of
        None \<Rightarrow> (Inl (ThrownError (''governorToken contract not found in work daoCode: '' @
            iw_daoCode (ge_work env) @ '' -> governorContrace: '' @
            ic_address (ge_indexContract env))), t)
      | Some governorTokenContract \<Rightarrow>
          tool_then (quorum (ge_net env) (ge_now env) (ge_storedAt env)
            (quorum_options env governorTokenContract) t) (\<lambda>qmr t.
          tool_then (blockIntervalSeconds (ge_fl env) (ge_net env) (ge_chainId env)
            (Some (ge_rpcs env)) True t) (\<lambda>blockInterval t.
          let (startTime, endTime) = vote_times env eventLog event (qr_clockMode qmr) blockInterval
          in (and_then (to_BigInt startTime) (\<lambda>startTimestamp.
              and_then (to_BigInt endTime) (\<lambda>endTimestamp.
                Inr (proposal_entity env eventLog event qmr blockInterval startTimestamp
                       endTimestamp))), t))))"

definition proposal_options :: DataMetricOptions where
  "proposal_options = \<lparr>do_proposalsCount = Some 1, do_votesCount = None,
     do_votesWithParamsCount = None, do_votesWithoutParamsCount = None,
     do_votesWeightForSum = None, do_votesWeightAgainstSum = None, do_votesWeightAbstainSum = None\<rparr>"

definition storeProposalCreated ::
    "governor_env \<Rightarrow> EvmLog \<Rightarrow> run_state \<Rightarrow> run_state outcome" where
  "storeProposalCreated env eventLog = (\<lambda>(w, t).
     and_then (decode_ProposalCreated (ge_codec env) eventLog) (\<lambda>event.
     and_then (insert_ProposalCreated (ge_store env) (proposal_created_entity eventLog event) w) (\<lambda>w.
     case resolveProposal env eventLog event t of
       (Inl e, t) \<Rightarrow> Inl e
     | (Inr proposal, t) \<Rightarrow>
         and_then (insert_Proposal (ge_store env) proposal w) (\<lambda>w.
         and_then (storeGlobalDataMetric (ge_store env) proposal_options w) (\<lambda>w.
           Inr (w, t))))))"

section \<open>The dispatch\<close>

definition on_topic ::
    "EvmLog \<Rightarrow> string \<Rightarrow> (world \<Rightarrow> world outcome) \<Rightarrow> run_state \<Rightarrow> run_state outcome" where
  "on_topic eventLog topic f = (\<lambda>(w, t).
     if has_topic eventLog topic then and_then (f w) (\<lambda>w. Inr (w, t)) else Inr (w, t))"

definition handle_governor :: "governor_env \<Rightarrow> EvmLog \<Rightarrow> run_state \<Rightarrow> run_state outcome" where
  "handle_governor env eventLog s =
     and_then (if has_topic eventLog topic_ProposalCreated
               then storeProposalCreated env eventLog s else Inr s) (\<lambda>s.
     and_then (on_topic eventLog topic_ProposalQueued (storeProposalQueued env eventLog) s) (\<lambda>s.
     and_then (on_topic eventLog topic_ProposalExecuted (storeProposalExecuted env eventLog) s) (\<lambda>s.
     and_then (on_topic eventLog topic_ProposalCanceled (storeProposalCanceled env eventLog) s) (\<lambda>s.
     and_then (on_topic eventLog topic_VoteCast (storeVoteCast env eventLog) s)
       (on_topic eventLog topic_VoteCastWithParams (storeVoteCastWithParams env eventLog))))))"

end
