(* ===== verification/GovernorLedger.thy ===== *)
theory GovernorLedger
  imports GovernorHandler TokenInvariant
begin

text \<open>
  The tallies the governor handler keeps: the counters of a proposal are sums over the rows of the
  vote group table that refer to it, the global counters sums over all rows. The handlers are given
  as functions on the tables, and each keeps the tallies and the token accounting.
\<close>

section \<open>Tallies\<close>

definition weight_on :: "(VoteCastGroup \<Rightarrow> bool) \<Rightarrow> int \<Rightarrow> VoteCastGroup table \<Rightarrow> int" where
  "weight_on P s = table_sum (\<lambda>v. if P v \<and> vcg_support v = s then vcg_weight v else 0)"

definition votes_on :: "(VoteCastGroup \<Rightarrow> bool) \<Rightarrow> VoteCastGroup table \<Rightarrow> int" where
  "votes_on P = table_count P"

definition refers_to :: "string \<Rightarrow> VoteCastGroup \<Rightarrow> bool" where
  "refers_to i v \<longleftrightarrow> vcg_proposal v = Some i"

definition has_type :: "string \<Rightarrow> VoteCastGroup \<Rightarrow> bool" where
  "has_type ty v \<longleftrightarrow> vcg_type v = ty"

definition proposal_tally :: "Proposal \<Rightarrow> VoteCastGroup table \<Rightarrow> bool" where
  "proposal_tally p t \<longleftrightarrow>
     nullish (pr_metricsVotesWeightForSum p) 0 = weight_on (refers_to (pr_id p)) 1 t \<and>
     nullish (pr_metricsVotesWeightAgainstSum p) 0 = weight_on (refers_to (pr_id p)) 0 t \<and>
     nullish (pr_metricsVotesWeightAbstainSum p) 0 = weight_on (refers_to (pr_id p)) 2 t \<and>
     nullish (pr_metricsVotesCount p) 0 = votes_on (refers_to (pr_id p)) t \<and>
     nullish (pr_metricsVotesWithParamsCount p) 0 =
       votes_on (\<lambda>v. refers_to (pr_id p) v \<and> has_type with_params v) t \<and>
     nullish (pr_metricsVotesWithoutParamsCount p) 0 =
       votes_on (\<lambda>v. refers_to (pr_id p) v \<and> has_type without_params v) t"

definition global_tally :: "DataMetric \<Rightarrow> Proposal table \<Rightarrow> VoteCastGroup table \<Rightarrow> bool" where
  "global_tally dm ps t \<longleftrightarrow>
     nullish (dm_votesWeightForSum dm) 0 = weight_on (\<lambda>_. True) 1 t \<and>
     nullish (dm_votesWeightAgainstSum dm) 0 = weight_on (\<lambda>_. True) 0 t \<and>
     nullish (dm_votesWeightAbstainSum dm) 0 = weight_on (\<lambda>_. True) 2 t \<and>
     nullish (dm_votesCount dm) 0 = int (length t) \<and>
     nullish (dm_votesWithParamsCount dm) 0 = votes_on (has_type with_params) t \<and>
     nullish (dm_votesWithoutParamsCount dm) 0 = votes_on (has_type without_params) t \<and>
     nullish (dm_proposalsCount dm) 0 = int (length ps)"

definition tally_inv :: "world \<Rightarrow> bool" where
  "tally_inv w \<longleftrightarrow> keyed_world w \<and>
     (\<forall>v \<in> rows (voteCastGroups w). \<forall>i. refers_to i v \<longrightarrow> map_of (proposals w) i \<noteq> None) \<and>
     (\<forall>p \<in> rows (proposals w). proposal_tally p (voteCastGroups w)) \<and>
     global_tally (metric_or_new (map_of (dataMetrics w) global_id)) (proposals w) (voteCastGroups w)"

lemma tally_inv_empty: "tally_inv empty_world"
  by (simp add: tally_inv_def keyed_empty_world)
    (simp add: rows_def global_tally_def metric_or_new_def new_DataMetric_def weight_on_def
      votes_on_def table_count_def)

text \<open>One more row.\<close>

lemma weight_on_insert:
  assumes "map_of t (vcg_id v) = None"
  shows "weight_on P s (AList.update (vcg_id v) v t) =
    weight_on P s t + (if P v \<and> vcg_support v = s then vcg_weight v else 0)"
  using assms by (simp add: weight_on_def table_sum_update)

lemma votes_on_insert:
  assumes "map_of t (vcg_id v) = None"
  shows "votes_on P (AList.update (vcg_id v) v t) = votes_on P t + (if P v then 1 else 0)"
  using assms by (simp add: votes_on_def table_count_def table_sum_update)

lemma with_without [simp]: "with_params \<noteq> without_params" "without_params \<noteq> with_params"
  by (simp_all add: with_params_def without_params_def)

lemma count_vote_id [simp]: "pr_id (count_vote v p) = pr_id p"
  by (simp add: count_vote_def split: prod.split)

lemma count_vote_tally:
  assumes "proposal_tally p t" and "map_of t (vcg_id v) = None"
  shows "proposal_tally (count_vote v p)
    (AList.update (vcg_id v) (v\<lparr>vcg_proposal := Some (pr_id p)\<rparr>) t)"
proof -
  let ?v = "v\<lparr>vcg_proposal := Some (pr_id p)\<rparr>"
  have n: "map_of t (vcg_id ?v) = None" using assms(2) by simp
  have r: "refers_to (pr_id p) ?v" by (simp add: refers_to_def)
  have ty: "has_type x ?v = (vcg_type v = x)" for x by (simp add: has_type_def)
  show ?thesis
    using assms(1) weight_on_insert [OF n] votes_on_insert [OF n] r ty
    by (auto simp: proposal_tally_def count_vote_def vote_weights_def type_flag_def)
qed

lemma other_tally:
  assumes "proposal_tally q t" and "map_of t (vcg_id v) = None" and "\<not> refers_to (pr_id q) v"
  shows "proposal_tally q (AList.update (vcg_id v) v t)"
  using assms weight_on_insert [OF assms(2)] votes_on_insert [OF assms(2)]
  by (simp add: proposal_tally_def)

lemma new_proposal_tally:
  assumes "\<forall>v \<in> rows t. \<not> refers_to (pr_id p) v"
    and "pr_metricsVotesCount p = None" and "pr_metricsVotesWithParamsCount p = None"
    and "pr_metricsVotesWithoutParamsCount p = None" and "pr_metricsVotesWeightForSum p = None"
    and "pr_metricsVotesWeightAgainstSum p = None" and "pr_metricsVotesWeightAbstainSum p = None"
  shows "proposal_tally p t"
  using assms
  by (auto simp: proposal_tally_def weight_on_def votes_on_def table_count_def intro!: table_sum_zero)

section \<open>The effect of the handlers\<close>

definition after_options :: "DataMetricOptions \<Rightarrow> world \<Rightarrow> world" where
  "after_options opts w = w\<lparr>dataMetrics := change_metric (add_options opts) (dataMetrics w)\<rparr>"

lemma add_options_id [simp]:
  "dm_id (add_options opts dm) = dm_id dm" "dm_powerSum (add_options opts dm) = dm_powerSum dm"
  "dm_memberCount (add_options opts dm) = dm_memberCount dm"
  by (simp_all add: add_options_def)

lemma storeGlobalDataMetric_eq:
  assumes "store_ok st" and "keyed dm_id (dataMetrics w)"
  shows "storeGlobalDataMetric st opts w = Inr (after_options opts w)"
proof (cases "map_of (dataMetrics w) global_id")
  case None
  with assms show ?thesis
    by (simp add: storeGlobalDataMetric_def store_rules change_metric_def keyed_update
        metric_or_new_def after_options_def)
next
  case (Some dm)
  with assms keyed_lookup [OF assms(2) Some] show ?thesis
    by (simp add: storeGlobalDataMetric_def store_rules change_metric_def metric_or_new_def
        after_options_def)
qed

definition seen_voter :: "VoteCastGroup \<Rightarrow> Contributor table \<Rightarrow> Contributor table" where
  "seen_voter v t =
     (case map_of t (vcg_voter v) of
        None \<Rightarrow> t
      | Some c \<Rightarrow> AList.update (vcg_voter v)
          (c\<lparr>co_lastVoteBlockNumber := Some (blockNumber v),
             co_lastVoteTimestamp := Some (blockTimestamp v)\<rparr>) t)"

definition after_vote :: "Proposal option \<Rightarrow> VoteCastGroup \<Rightarrow> world \<Rightarrow> world" where
  "after_vote p v w =
     after_options (vote_options v)
       (w\<lparr>proposals := (case p of None \<Rightarrow> proposals w
             | Some p \<Rightarrow> AList.update (pr_id p) (count_vote v p) (proposals w)),
          voteCastGroups := AList.update (vcg_id v)
             (case p of None \<Rightarrow> v | Some p \<Rightarrow> v\<lparr>vcg_proposal := Some (pr_id p)\<rparr>) (voteCastGroups w),
          contributors := seen_voter v (contributors w)\<rparr>)"

definition voted_proposal :: "VoteCastGroup \<Rightarrow> Proposal option \<Rightarrow> world \<Rightarrow> bool" where
  "voted_proposal v p w \<longleftrightarrow>
     (case p of None \<Rightarrow> (\<forall>q \<in> rows (proposals w). pr_proposalId q \<noteq> vcg_refProposalId v)
      | Some q \<Rightarrow> q \<in> rows (proposals w) \<and> pr_proposalId q = vcg_refProposalId v)"

lemma storeVoteCastGroup_eq:
  assumes "store_ok st" and "keyed_world w" and "map_of (voteCastGroups w) (vcg_id v) = None"
  shows "\<exists>p. voted_proposal v p w \<and> storeVoteCastGroup st v w = Inr (after_vote p v w)"
proof -
  have k: "keyed pr_id (proposals w)" "keyed vcg_id (voteCastGroups w)" "keyed co_id (contributors w)"
    "keyed dm_id (dataMetrics w)"
    using assms(2) by (simp_all add: keyed_world_def)
  obtain p where f: "findOne (proposalRepo st) (\<lambda>p. pr_proposalId p = vcg_refProposalId v)
      (proposals w) = Inr p" and p: "voted_proposal v p w"
    using repository.find_law [OF store_ok_repositories(11) [OF assms(1)] k(1),
        of "\<lambda>p. pr_proposalId p = vcg_refProposalId v"]
    by (auto simp: voted_proposal_def)
  have last: "updateLastVote st v u = Inr (u\<lparr>contributors := seen_voter v (contributors u)\<rparr>)"
    if "keyed co_id (contributors u)" for u
  proof (cases "map_of (contributors u) (vcg_voter v)")
    case None
    with assms(1) that show ?thesis by (simp add: updateLastVote_def store_rules seen_voter_def)
  next
    case (Some c)
    with assms(1) that keyed_lookup [OF that Some] show ?thesis
      by (simp add: updateLastVote_def store_rules seen_voter_def)
  qed
  have "storeVoteCastGroup st v w = Inr (after_vote p v w)"
    using assms(1,3) k f
    by (cases p)
      (simp_all add: storeVoteCastGroup_def store_rules last storeGlobalDataMetric_eq after_vote_def
        Let_def)
  with p show ?thesis by blast
qed

lemma seen_voter_keyed: "keyed co_id t \<Longrightarrow> keyed co_id (seen_voter v t)"
  by (auto simp: seen_voter_def keyed_lookup intro!: keyed_update split: option.split)

lemma after_vote_keyed:
  assumes "keyed_world w"
  shows "keyed_world (after_vote p v w)"
  using assms
  by (auto simp: after_vote_def after_options_def keyed_world_def keyed_update keyed_change_metric
      seen_voter_keyed split: option.split)

lemma metric_after_options:
  "metric_or_new (map_of (dataMetrics (after_options opts w)) global_id) =
     add_options opts (metric_or_new (map_of (dataMetrics w) global_id))"
  by (simp add: after_options_def metric_change)

lemma vote_options_tally:
  assumes "global_tally dm ps t" and "map_of t (vcg_id v) = None" and "length ps' = length ps"
    and "v' = v \<or> (\<exists>i. v' = v\<lparr>vcg_proposal := Some i\<rparr>)"
  shows "global_tally (add_options (vote_options v) dm) ps' (AList.update (vcg_id v) v' t)"
proof -
  have v': "vcg_id v' = vcg_id v" "vcg_support v' = vcg_support v" "vcg_weight v' = vcg_weight v"
    "vcg_type v' = vcg_type v"
    using assms(4) by auto
  then have n: "map_of t (vcg_id v') = None" using assms(2) by simp
  show ?thesis
    using assms(1-3) weight_on_insert [OF n] votes_on_insert [OF n] v'
    by (auto simp: global_tally_def add_options_def vote_options_def vote_weights_def
        type_flag_def has_type_def length_update)
qed

lemma after_vote_tally:
  assumes "tally_inv w" and "map_of (voteCastGroups w) (vcg_id v) = None"
    and "voted_proposal v p w" and "vcg_proposal v = None"
  shows "tally_inv (after_vote p v w)"
proof -
  let ?v = "case p of None \<Rightarrow> v | Some p \<Rightarrow> v\<lparr>vcg_proposal := Some (pr_id p)\<rparr>"
  let ?ps = "case p of None \<Rightarrow> proposals w
    | Some p \<Rightarrow> AList.update (pr_id p) (count_vote v p) (proposals w)"
  let ?t = "AList.update (vcg_id v) ?v (voteCastGroups w)"
  have k: "keyed pr_id (proposals w)" "keyed vcg_id (voteCastGroups w)"
    using assms(1) by (simp_all add: tally_inv_def keyed_world_def)
  have id: "vcg_id ?v = vcg_id v" by (simp split: option.split)
  have groups: "rows ?t = insert ?v {x \<in> rows (voteCastGroups w). vcg_id x \<noteq> vcg_id v}"
    by (rule rows_update [OF k(2) id])
  have old: "map_of (proposals w) (pr_id q) = Some q" if "p = Some q" for q
    using assms(3) k(1) that by (simp add: voted_proposal_def keyed_rows)
  have dom: "map_of ?ps i = None \<longleftrightarrow> map_of (proposals w) i = None" for i
    using old by (auto simp: AList.update_conv' split: option.split)
  have len: "length ?ps = length (proposals w)"
    using old by (simp add: length_update split: option.split)
  have fk: "\<forall>x \<in> rows ?t. \<forall>i. refers_to i x \<longrightarrow> map_of ?ps i \<noteq> None"
    using assms(1,4) groups dom old
    by (auto simp: tally_inv_def refers_to_def split: option.splits)
  have tallies: "\<forall>q \<in> rows ?ps. proposal_tally q ?t"
  proof (cases p)
    case None
    with assms show ?thesis
      by (auto simp: tally_inv_def refers_to_def intro!: other_tally)
  next
    case (Some q)
    have "proposal_tally q (voteCastGroups w)"
      using assms(1,3) Some by (simp add: tally_inv_def voted_proposal_def)
    from count_vote_tally [OF this assms(2)]
    have "proposal_tally (count_vote v q) ?t" using Some by simp
    moreover have "proposal_tally x ?t" if "x \<in> rows (proposals w)" "pr_id x \<noteq> pr_id q" for x
      using that assms(1,2) Some other_tally [of x "voteCastGroups w" "v\<lparr>vcg_proposal := Some (pr_id q)\<rparr>"]
      by (simp add: tally_inv_def refers_to_def)
    ultimately show ?thesis
      using Some rows_update [OF k(1), of "count_vote v q" "pr_id q"] by auto
  qed
  have "global_tally (add_options (vote_options v) (metric_or_new (map_of (dataMetrics w) global_id)))
      ?ps ?t"
    using assms(1,2) len
    by (intro vote_options_tally [where ps = "proposals w"])
      (auto simp: tally_inv_def split: option.split)
  moreover have "proposals (after_vote p v w) = ?ps" "voteCastGroups (after_vote p v w) = ?t"
    by (simp_all add: after_vote_def after_options_def)
  moreover have "metric_or_new (map_of (dataMetrics (after_vote p v w)) global_id) =
      add_options (vote_options v) (metric_or_new (map_of (dataMetrics w) global_id))"
    by (simp add: after_vote_def metric_after_options)
  ultimately show ?thesis
    using fk tallies assms(1) by (simp add: tally_inv_def after_vote_keyed)
qed

end
