(* ===== verification/GovernorEvents.thy ===== *)
theory GovernorEvents
  imports GovernorLedger ChainClaims
begin

text \<open>
  The handlers of the governor's six events on a well-formed database, and the contract
  \<open>log_handler\<close> of the whole handler: it keeps the tallies and the token accounting, and with warm
  caches it returns on every decodable log with a fresh id, even when no endpoint answers.
\<close>

section \<open>The joint invariant\<close>

definition governed :: "world \<Rightarrow> bool" where
  "governed w \<longleftrightarrow> tally_inv w \<and> token_inv w"

lemma governed_keyed: "governed w \<Longrightarrow> keyed_world w"
  by (simp add: governed_def tally_inv_def)

lemma token_inv_tables:
  assumes "token_inv w" and "keyed_world w'"
    and "delegateMappings w' = delegateMappings w" and "delegates w' = delegates w"
    and "delegateRollings w' = delegateRollings w"
    and "\<And>k. row_value co_power (contributors w') k = row_value co_power (contributors w) k"
    and "\<And>k. row_value co_delegatesCountAll (contributors w') k =
      row_value co_delegatesCountAll (contributors w) k"
    and "table_sum co_power (contributors w') = table_sum co_power (contributors w)"
    and "length (contributors w') = length (contributors w)"
    and "powerSum_of (dataMetrics w') = powerSum_of (dataMetrics w)"
    and "memberCount_of (dataMetrics w') = memberCount_of (dataMetrics w)"
  shows "token_inv w'"
  using assms by (simp add: token_inv_def ledger_inv_def members_inv_def)

lemma governed_event_tables:
  assumes "governed w" and "keyed_world w'" and "proposals w' = proposals w"
    and "voteCastGroups w' = voteCastGroups w" and "dataMetrics w' = dataMetrics w"
    and "contributors w' = contributors w" and "delegates w' = delegates w"
    and "delegateMappings w' = delegateMappings w" and "delegateRollings w' = delegateRollings w"
  shows "governed w'"
  using assms token_inv_tables [of w w'] by (simp add: governed_def tally_inv_def)

lemma options_sums [simp]:
  "powerSum_of (change_metric (add_options opts) t) = powerSum_of t"
  "memberCount_of (change_metric (add_options opts) t) = memberCount_of t"
  by (simp_all add: powerSum_of_def memberCount_of_def metric_change)

lemma seen_voter_sums [simp]:
  "row_value co_power (seen_voter v t) k = row_value co_power t k"
  "row_value co_delegatesCountAll (seen_voter v t) k = row_value co_delegatesCountAll t k"
  "table_sum co_power (seen_voter v t) = table_sum co_power t"
  "length (seen_voter v t) = length t"
proof -
  have sums: "row_value f (seen_voter v t) k = row_value f t k \<and>
      table_sum f (seen_voter v t) = table_sum f t"
    if "\<And>c x y. f (c\<lparr>co_lastVoteBlockNumber := x, co_lastVoteTimestamp := y\<rparr>) = f c" for f
    using that
    by (cases "map_of t (vcg_voter v)")
      (simp_all add: seen_voter_def row_value_def AList.update_conv' table_sum_update)
  show "row_value co_power (seen_voter v t) k = row_value co_power t k"
    "row_value co_delegatesCountAll (seen_voter v t) k = row_value co_delegatesCountAll t k"
    "table_sum co_power (seen_voter v t) = table_sum co_power t"
    by (simp_all add: sums)
  show "length (seen_voter v t) = length t"
    by (cases "map_of t (vcg_voter v)") (simp_all add: seen_voter_def length_update)
qed

lemma after_vote_governed:
  assumes "governed w" and "map_of (voteCastGroups w) (vcg_id v) = None"
    and "voted_proposal v p w" and "vcg_proposal v = None"
  shows "governed (after_vote p v w)"
proof -
  have "tally_inv (after_vote p v w)"
    using assms by (simp add: governed_def after_vote_tally)
  moreover from this have k: "keyed_world (after_vote p v w)" by (simp add: tally_inv_def)
  have t: "token_inv w" using assms(1) by (simp add: governed_def)
  have "token_inv (after_vote p v w)"
    by (rule token_inv_tables [OF t k]) (simp_all add: after_vote_def after_options_def)
  ultimately show ?thesis by (simp add: governed_def)
qed

section \<open>Votes\<close>

text \<open>The tables that a log writes under its own id; a log is fresh if they do not have it yet.\<close>

definition fresh_ids :: "string \<Rightarrow> world \<Rightarrow> bool" where
  "fresh_ids i w \<longleftrightarrow>
     map_of (proposalCanceleds w) i = None \<and> map_of (proposalCreateds w) i = None \<and>
     map_of (proposalExecuteds w) i = None \<and> map_of (proposalQueueds w) i = None \<and>
     map_of (voteCasts w) i = None \<and> map_of (voteCastWithParamss w) i = None \<and>
     map_of (voteCastGroups w) i = None \<and> map_of (proposals w) i = None"

text \<open>Whether every id but \<open>i\<close> is as fresh after a step as it was before.\<close>

definition others_fresh :: "string \<Rightarrow> world \<Rightarrow> world \<Rightarrow> bool" where
  "others_fresh i w w' \<longleftrightarrow> (\<forall>k. k \<noteq> i \<longrightarrow> fresh_ids k w \<longrightarrow> fresh_ids k w')"

lemma others_fresh_refl [simp]: "others_fresh i w w"
  by (simp add: others_fresh_def)

lemma others_fresh_trans: "others_fresh i w u \<Longrightarrow> others_fresh i u v \<Longrightarrow> others_fresh i w v"
  by (simp add: others_fresh_def)

lemma group_entity_simps [simp]:
  "vcg_id (group_entity l e ty ps) = log_id l" "vcg_proposal (group_entity l e ty ps) = None"
  "vcg_refProposalId (group_entity l e ty ps) = stdProposalId (evv_proposalId e)"
  "vcg_type (group_entity l e ty ps) = ty" "vcg_support (group_entity l e ty ps) = evv_support e"
  "vcg_weight (group_entity l e ty ps) = evv_weight e" "vcg_voter (group_entity l e ty ps) = evv_voter e"
  by (simp_all add: group_entity_def)

lemma after_vote_fresh:
  assumes "voted_proposal v p w" and "keyed_world w"
  shows "others_fresh (vcg_id v) w (after_vote p v w)"
proof -
  have "keyed pr_id (proposals w)" using assms(2) by (simp add: keyed_world_def)
  then have "p = Some q \<Longrightarrow> map_of (proposals w) (pr_id q) = Some q" for q
    using assms(1) by (simp add: voted_proposal_def keyed_rows)
  then show ?thesis
    by (auto simp: others_fresh_def fresh_ids_def after_vote_def after_options_def AList.update_conv'
        split: option.split)
qed

lemma group_taken_fails:
  assumes "store_ok st" and "governed w" and "map_of (voteCastGroups w) (vcg_id v) \<noteq> None"
  shows "isl (storeVoteCastGroup st v w)"
proof -
  have k: "keyed pr_id (proposals w)" "keyed vcg_id (voteCastGroups w)"
    using governed_keyed [OF assms(2)] by (simp_all add: keyed_world_def)
  have dup: "\<exists>m. insert_row (voteCastGroupRepo st) u (voteCastGroups w) = Inl (StoreFailure m)"
    if "vcg_id u = vcg_id v" for u
    using repository.insert_duplicate [OF store_ok_repositories(10) [OF assms(1)] k(2), of u] assms(3) that
    by simp
  obtain p where f: "findOne (proposalRepo st) (\<lambda>p. pr_proposalId p = vcg_refProposalId v)
      (proposals w) = Inr p"
    using repository.find_law [OF store_ok_repositories(11) [OF assms(1)] k(1),
        of "\<lambda>p. pr_proposalId p = vcg_refProposalId v"] by blast
  show ?thesis
  proof (cases p)
    case None
    with dup [of v] show ?thesis by (auto simp: storeVoteCastGroup_def f Let_def)
  next
    case (Some q)
    with dup [of "v\<lparr>vcg_proposal := Some (pr_id q)\<rparr>"] assms(1) k show ?thesis
      by (auto simp: storeVoteCastGroup_def f save_rules Let_def)
  qed
qed

lemma group_vote_step:
  assumes "store_ok st" and "governed w" and "vcg_proposal v = None"
  shows "case storeVoteCastGroup st v w of
     Inl _ \<Rightarrow> map_of (voteCastGroups w) (vcg_id v) \<noteq> None
   | Inr w' \<Rightarrow> governed w' \<and> others_fresh (vcg_id v) w w'"
proof (cases "map_of (voteCastGroups w) (vcg_id v)")
  case None
  then obtain p where p: "voted_proposal v p w" "storeVoteCastGroup st v w = Inr (after_vote p v w)"
    using storeVoteCastGroup_eq [OF assms(1) governed_keyed [OF assms(2)]] by blast
  with assms None show ?thesis by (simp add: after_vote_governed after_vote_fresh governed_keyed)
next
  case (Some x)
  with group_taken_fails [OF assms(1,2), of v] show ?thesis by (auto split: sum.splits)
qed

text \<open>
  A step of one event: it fails only when its event does not decode or its id is taken, and keeps
  the invariants.
\<close>

definition good_step :: "bool \<Rightarrow> string \<Rightarrow> world \<Rightarrow> world outcome \<Rightarrow> bool" where
  "good_step decoded i w r \<longleftrightarrow>
     (case r of Inl _ \<Rightarrow> \<not> decoded \<or> \<not> fresh_ids i w
      | Inr w' \<Rightarrow> governed w' \<and> others_fresh i w w')"

lemma insert_good_step:
  assumes "repository idf repo" and "keyed idf (get w)" and "governed w"
    and "idf e = i" and "fresh_ids i w \<Longrightarrow> map_of (get w) i = None"
    and "\<And>t. keyed idf t \<Longrightarrow> governed (put t w)"
    and "others_fresh i w (put (AList.update i e (get w)) w)"
  shows "good_step decoded i w (and_then (insert_row repo e (get w)) (\<lambda>t. Inr (put t w)))"
proof (cases "map_of (get w) i")
  case None
  then have "insert_row repo e (get w) = Inr (AList.update i e (get w))"
    using repository.insert_law [OF assms(1,2), of e] assms(4) by simp
  with assms(2,4,6,7) show ?thesis by (simp add: good_step_def keyed_update)
next
  case (Some x)
  with assms(4) obtain m where "insert_row repo e (get w) = Inl (StoreFailure m)"
    using repository.insert_duplicate [OF assms(1,2), of e] by auto
  with Some assms(5) show ?thesis by (auto simp: good_step_def)
qed

section \<open>The steps of the six events\<close>

lemma governed_keyeds:
  assumes "governed w"
  shows "keyed pc_id (proposalCanceleds w)" and "keyed pcr_id (proposalCreateds w)"
    and "keyed pe_id (proposalExecuteds w)" and "keyed pq_id (proposalQueueds w)"
    and "keyed vc_id (voteCasts w)" and "keyed vcp_id (voteCastWithParamss w)"
  using governed_keyed [OF assms] by (simp_all add: keyed_world_def)

lemma governed_put:
  assumes "governed w"
  shows "keyed pc_id t1 \<Longrightarrow> governed (w\<lparr>proposalCanceleds := t1\<rparr>)"
    and "keyed pcr_id t2 \<Longrightarrow> governed (w\<lparr>proposalCreateds := t2\<rparr>)"
    and "keyed pe_id t3 \<Longrightarrow> governed (w\<lparr>proposalExecuteds := t3\<rparr>)"
    and "keyed pq_id t4 \<Longrightarrow> governed (w\<lparr>proposalQueueds := t4\<rparr>)"
    and "keyed vc_id t5 \<Longrightarrow> governed (w\<lparr>voteCasts := t5\<rparr>)"
    and "keyed vcp_id t6 \<Longrightarrow> governed (w\<lparr>voteCastWithParamss := t6\<rparr>)"
  using governed_keyed [OF assms]
  by (auto intro!: governed_event_tables [OF assms] simp: keyed_world_def)

lemma others_fresh_put:
  "others_fresh i w (w\<lparr>proposalCanceleds := AList.update i e1 (proposalCanceleds w)\<rparr>)"
  "others_fresh i w (w\<lparr>proposalCreateds := AList.update i e2 (proposalCreateds w)\<rparr>)"
  "others_fresh i w (w\<lparr>proposalExecuteds := AList.update i e3 (proposalExecuteds w)\<rparr>)"
  "others_fresh i w (w\<lparr>proposalQueueds := AList.update i e4 (proposalQueueds w)\<rparr>)"
  "others_fresh i w (w\<lparr>voteCasts := AList.update i e5 (voteCasts w)\<rparr>)"
  "others_fresh i w (w\<lparr>voteCastWithParamss := AList.update i e6 (voteCastWithParamss w)\<rparr>)"
  by (auto simp: others_fresh_def fresh_ids_def AList.update_conv')

lemma decode_good_step:
  assumes "\<And>e. d = Inr e \<Longrightarrow> good_step True i w (f e)"
  shows "good_step (\<not> isl d) i w (and_then d f)"
  using assms by (cases d) (auto simp: good_step_def)

lemma queued_step:
  assumes "store_ok (ge_store env)" and "governed w"
  shows "good_step (\<not> isl (decode_ProposalQueued (ge_codec env) l)) (log_id l) w
    (storeProposalQueued env l w)"
  unfolding storeProposalQueued_def
  by (rule decode_good_step, split prod.split, intro allI impI)
    (rule insert_good_step [where get = proposalQueueds and put = "\<lambda>t w. w\<lparr>proposalQueueds := t\<rparr>",
        OF store_ok_repositories(7) [OF assms(1)] governed_keyeds(4) [OF assms(2)]
        assms(2) _ _ governed_put(4) [OF assms(2)] others_fresh_put(4)]; simp add: fresh_ids_def)

lemma executed_step:
  assumes "store_ok (ge_store env)" and "governed w"
  shows "good_step (\<not> isl (decode_ProposalExecuted (ge_codec env) l)) (log_id l) w
    (storeProposalExecuted env l w)"
  unfolding storeProposalExecuted_def
  by (rule decode_good_step)
    (rule insert_good_step [where get = proposalExecuteds and put = "\<lambda>t w. w\<lparr>proposalExecuteds := t\<rparr>",
        OF store_ok_repositories(6) [OF assms(1)] governed_keyeds(3) [OF assms(2)]
        assms(2) _ _ governed_put(3) [OF assms(2)] others_fresh_put(3)]; simp add: fresh_ids_def)

lemma canceled_step:
  assumes "store_ok (ge_store env)" and "governed w"
  shows "good_step (\<not> isl (decode_ProposalCanceled (ge_codec env) l)) (log_id l) w
    (storeProposalCanceled env l w)"
  unfolding storeProposalCanceled_def
  by (rule decode_good_step)
    (rule insert_good_step [where get = proposalCanceleds and put = "\<lambda>t w. w\<lparr>proposalCanceleds := t\<rparr>",
        OF store_ok_repositories(4) [OF assms(1)] governed_keyeds(1) [OF assms(2)]
        assms(2) _ _ governed_put(1) [OF assms(2)] others_fresh_put(1)]; simp add: fresh_ids_def)

lemma good_step_then:
  assumes "good_step d i w m" and "\<And>w'. m = Inr w' \<Longrightarrow> governed w' \<Longrightarrow> others_fresh i w w' \<Longrightarrow>
      case f w' of Inl _ \<Rightarrow> \<not> d \<or> \<not> fresh_ids i w | Inr w'' \<Rightarrow> governed w'' \<and> others_fresh i w' w''"
  shows "good_step d i w (and_then m f)"
  using assms
  by (cases m) (auto simp: good_step_def others_fresh_trans split: sum.splits)

lemma cast_step:
  assumes "store_ok (ge_store env)" and "governed w"
  shows "good_step (\<not> isl (decode_VoteCast (ge_codec env) l)) (log_id l) w (storeVoteCast env l w)"
  unfolding storeVoteCast_def
proof (rule decode_good_step, rule good_step_then)
  fix e
  let ?m = "and_then (insert_row (voteCastRepo (ge_store env)) (vote_entity l e) (voteCasts w))
    (\<lambda>t. Inr (w\<lparr>voteCasts := t\<rparr>))"
  show "good_step True (log_id l) w ?m"
    by (rule insert_good_step [where get = voteCasts and put = "\<lambda>t w. w\<lparr>voteCasts := t\<rparr>",
        OF store_ok_repositories(8) [OF assms(1)] governed_keyeds(5) [OF assms(2)]
        assms(2) _ _ governed_put(5) [OF assms(2)] others_fresh_put(5)])
      (simp_all add: vote_entity_def fresh_ids_def)
  fix w'
  assume "?m = Inr w'" and w': "governed w'"
  then have "voteCastGroups w' = voteCastGroups w" by (auto simp: and_then_eq_Inr)
  with group_vote_step [OF assms(1) w', of "group_entity l e without_params None"]
  show "case storeVoteCastGroup (ge_store env) (group_entity l e without_params None) w' of
      Inl _ \<Rightarrow> \<not> True \<or> \<not> fresh_ids (log_id l) w
    | Inr w'' \<Rightarrow> governed w'' \<and> others_fresh (log_id l) w' w''"
    by (auto simp: fresh_ids_def split: sum.splits)
qed

lemma cast_params_step:
  assumes "store_ok (ge_store env)" and "governed w"
  shows "good_step (\<not> isl (decode_VoteCastWithParams (ge_codec env) l)) (log_id l) w
    (storeVoteCastWithParams env l w)"
  unfolding storeVoteCastWithParams_def
proof (rule decode_good_step, split prod.split, intro allI impI, rule good_step_then)
  fix e ps
  let ?m = "and_then (insert_row (voteCastWithParamsRepo (ge_store env)) (vote_params_entity l e ps)
    (voteCastWithParamss w)) (\<lambda>t. Inr (w\<lparr>voteCastWithParamss := t\<rparr>))"
  show "good_step True (log_id l) w ?m"
    by (rule insert_good_step [where get = voteCastWithParamss and put = "\<lambda>t w. w\<lparr>voteCastWithParamss := t\<rparr>",
        OF store_ok_repositories(9) [OF assms(1)] governed_keyeds(6) [OF assms(2)]
        assms(2) _ _ governed_put(6) [OF assms(2)] others_fresh_put(6)])
      (simp_all add: vote_params_entity_def fresh_ids_def)
  fix w'
  assume "?m = Inr w'" and w': "governed w'"
  then have "voteCastGroups w' = voteCastGroups w" by (auto simp: and_then_eq_Inr)
  with group_vote_step [OF assms(1) w', of "group_entity l e with_params (Some ps)"]
  show "case storeVoteCastGroup (ge_store env) (group_entity l e with_params (Some ps)) w' of
      Inl _ \<Rightarrow> \<not> True \<or> \<not> fresh_ids (log_id l) w
    | Inr w'' \<Rightarrow> governed w'' \<and> others_fresh (log_id l) w' w''"
    by (auto simp: fresh_ids_def split: sum.splits)
qed

section \<open>A created proposal\<close>

definition after_proposal :: "Proposal \<Rightarrow> world \<Rightarrow> world" where
  "after_proposal p w =
     after_options proposal_options (w\<lparr>proposals := AList.update (pr_id p) p (proposals w)\<rparr>)"

lemma after_proposal_governed:
  assumes "governed w" and "map_of (proposals w) (pr_id p) = None"
    and "pr_metricsVotesCount p = None" and "pr_metricsVotesWithParamsCount p = None"
    and "pr_metricsVotesWithoutParamsCount p = None" and "pr_metricsVotesWeightForSum p = None"
    and "pr_metricsVotesWeightAgainstSum p = None" and "pr_metricsVotesWeightAbstainSum p = None"
  shows "governed (after_proposal p w)"
proof -
  have t: "tally_inv w" and tok: "token_inv w" using assms(1) by (simp_all add: governed_def)
  from t have k: "keyed_world w" "keyed pr_id (proposals w)"
    by (simp_all add: tally_inv_def keyed_world_def)
  have kw: "keyed_world (after_proposal p w)"
    using k(1) by (simp add: after_proposal_def after_options_def keyed_world_def keyed_update
        keyed_change_metric)
  have "\<forall>v \<in> rows (voteCastGroups w). \<not> refers_to (pr_id p) v"
    using t assms(2) unfolding tally_inv_def by blast
  then have "proposal_tally p (voteCastGroups w)" using assms by (intro new_proposal_tally)
  then have "\<forall>q \<in> rows (AList.update (pr_id p) p (proposals w)). proposal_tally q (voteCastGroups w)"
    using t rows_update [OF k(2), of p "pr_id p"] by (auto simp: tally_inv_def)
  moreover have "global_tally (add_options proposal_options
      (metric_or_new (map_of (dataMetrics w) global_id)))
      (AList.update (pr_id p) p (proposals w)) (voteCastGroups w)"
    using t assms(2)
    by (simp add: tally_inv_def global_tally_def add_options_def proposal_options_def length_update)
  moreover have "\<forall>v \<in> rows (voteCastGroups w). \<forall>i. refers_to i v \<longrightarrow>
      map_of (AList.update (pr_id p) p (proposals w)) i \<noteq> None"
    using t by (auto simp: tally_inv_def AList.update_conv')
  ultimately have "tally_inv (after_proposal p w)"
    using kw by (simp add: tally_inv_def after_proposal_def metric_after_options)
      (simp add: after_options_def)
  moreover have "token_inv (after_proposal p w)"
    by (rule token_inv_tables [OF tok kw]) (simp_all add: after_proposal_def after_options_def)
  ultimately show ?thesis by (simp add: governed_def)
qed

definition governor_key :: "governor_env \<Rightarrow> string" where
  "governor_key env = decimal (ge_chainId env) @ '':'' @ ic_address (ge_indexContract env)"

text \<open>The caches hold a quorum of this governor and the interval of its chain.\<close>

definition warm :: "governor_env \<Rightarrow> chain_tool \<Rightarrow> bool" where
  "warm env t \<longleftrightarrow> quorumCache t (governor_key env) \<noteq> None \<and>
     blockIntervalCache t (decimal (ge_chainId env)) \<noteq> None"

lemma fetchQuorum_intervals:
  "fetchQuorum net s options t = (r, t') \<Longrightarrow> blockIntervalCache t' = blockIntervalCache t"
  by (auto simp: fetchQuorum_def tool_then_def clockMode_def Let_def
      split: prod.splits sum.splits option.splits if_splits)

lemma quorum_warm:
  assumes "quorumCache t (contract_key options) \<noteq> None"
  shows "\<exists>r t'. quorum net now s options t = (Inr r, t') \<and>
    quorumCache t' (contract_key options) \<noteq> None \<and> blockIntervalCache t' = blockIntervalCache t"
proof (cases "fetchQuorum net s options t")
  case (Pair x t1)
  from fetchQuorum_intervals [OF Pair] assms Pair fetchQuorum_failure [of net s options t]
    fetchQuorum_caches [of net s options t] show ?thesis
    by (cases x) (auto simp: quorum_def Let_def)
qed

text \<open>The vote's boundaries are seconds or blocks small enough to be exact in milliseconds.\<close>

definition exact_times :: "proposal_created_event \<Rightarrow> bool" where
  "exact_times e \<longleftrightarrow> \<bar>evp_voteStart e * 1000\<bar> \<le> max_safe \<and> \<bar>evp_voteEnd e * 1000\<bar> \<le> max_safe"

lemma exact_milliseconds:
  assumes "rounding fl" and "\<bar>n * 1000\<bar> \<le> max_safe"
  shows "fl (fl (of_int n) * 1000) = of_int (n * 1000)"
proof -
  have "fl (of_int n) = of_int n" using assms by (intro rounding_int) auto
  then show ?thesis using rounding_int [OF assms] by simp
qed

lemma vote_times_integral:
  assumes "rounding (ge_fl env)" and "exact_times e"
  shows "\<exists>i j. vote_times env l e mode interval = (of_int i, of_int j)"
proof (cases mode)
  case Timestamp
  have "vote_times env l e mode interval = (of_int (evp_voteStart e * 1000), of_int (evp_voteEnd e * 1000))"
    using assms exact_milliseconds [OF assms(1)] Timestamp
    by (simp add: vote_times_def Let_def exact_times_def)
  then show ?thesis by blast
next
  case BlockNumber
  then show ?thesis
    by (auto simp: vote_times_def calculateProposalVoteTimestamp_def Let_def math_round_def)
qed

lemma to_BigInt_int [simp]: "to_BigInt (of_int i) = Inr i"
  by (simp add: to_BigInt_def)

definition has_governor_token :: "governor_env \<Rightarrow> bool" where
  "has_governor_token env \<longleftrightarrow>
     find (\<lambda>item. ic_name item = ''governorToken'') (iw_contracts (ge_work env)) \<noteq> None"

lemma quorum_options_key [simp]: "contract_key (quorum_options env c) = governor_key env"
  by (simp add: contract_key_def quorum_options_def governor_key_def)

lemma resolveProposal_warm:
  assumes "rounding (ge_fl env)" and "exact_times e" and "has_governor_token env" and "warm env t"
  shows "\<exists>p t'. resolveProposal env l e t = (Inr p, t') \<and> warm env t'"
proof -
  obtain c where c: "find (\<lambda>item. ic_name item = ''governorToken'') (iw_contracts (ge_work env)) = Some c"
    using assms(3) by (auto simp: has_governor_token_def)
  have "quorumCache t (contract_key (quorum_options env c)) \<noteq> None"
    using assms(4) by (simp add: warm_def)
  from quorum_warm [OF this] obtain q t1 where
    q: "quorum (ge_net env) (ge_now env) (ge_storedAt env) (quorum_options env c) t = (Inr q, t1)"
    and t1: "quorumCache t1 (governor_key env) \<noteq> None" "blockIntervalCache t1 = blockIntervalCache t"
    by force
  obtain v where v: "blockIntervalCache t1 (decimal (ge_chainId env)) = Some v"
    using assms(4) t1 by (auto simp: warm_def)
  obtain i j where "vote_times env l e (qr_clockMode q) v = (of_int i, of_int j)"
    using vote_times_integral [OF assms(1,2)] by blast
  then show ?thesis
    using c q v t1 by (simp add: resolveProposal_def blockIntervalSeconds_def warm_def Let_def)
qed

lemma proposal_entity_simps [simp]:
  "pr_id (proposal_entity env l e q b x y) = log_id l"
  "pr_metricsVotesCount (proposal_entity env l e q b x y) = None"
  "pr_metricsVotesWithParamsCount (proposal_entity env l e q b x y) = None"
  "pr_metricsVotesWithoutParamsCount (proposal_entity env l e q b x y) = None"
  "pr_metricsVotesWeightForSum (proposal_entity env l e q b x y) = None"
  "pr_metricsVotesWeightAgainstSum (proposal_entity env l e q b x y) = None"
  "pr_metricsVotesWeightAbstainSum (proposal_entity env l e q b x y) = None"
  by (simp_all add: proposal_entity_def)

lemma resolveProposal_entity:
  assumes "resolveProposal env l e t = (Inr p, t')"
  obtains q b x y where "p = proposal_entity env l e q b x y"
  using assms
  by (auto simp: resolveProposal_def tool_then_def and_then_eq_Inr Let_def
      split: option.splits prod.splits sum.splits)

lemma created_step:
  assumes "store_ok (ge_store env)" and "governed w"
  shows "case storeProposalCreated env l (w, t) of
     Inl _ \<Rightarrow> (case decode_ProposalCreated (ge_codec env) l of Inl _ \<Rightarrow> True
       | Inr e \<Rightarrow> \<not> fresh_ids (log_id l) w \<or> isl (fst (resolveProposal env l e t)))
   | Inr (w', t') \<Rightarrow> governed w' \<and> others_fresh (log_id l) w w' \<and>
       (\<exists>e. decode_ProposalCreated (ge_codec env) l = Inr e \<and> snd (resolveProposal env l e t) = t')"
proof (cases "decode_ProposalCreated (ge_codec env) l")
  case (Inl x)
  then show ?thesis by (simp add: storeProposalCreated_def)
next
  case (Inr e)
  let ?c = "proposal_created_entity l e"
  have id: "pcr_id ?c = log_id l" by (simp add: proposal_created_entity_def)
  show ?thesis
  proof (cases "map_of (proposalCreateds w) (log_id l)")
    case (Some x)
    with id obtain m where "insert_row (proposalCreatedRepo (ge_store env)) ?c (proposalCreateds w) =
        Inl (StoreFailure m)"
      using repository.insert_duplicate [OF store_ok_repositories(5) [OF assms(1)]
          governed_keyeds(2) [OF assms(2)], of ?c] by auto
    with Inr Some show ?thesis by (simp add: storeProposalCreated_def fresh_ids_def)
  next
    case None
    let ?w = "w\<lparr>proposalCreateds := AList.update (log_id l) ?c (proposalCreateds w)\<rparr>"
    have ins: "insert_row (proposalCreatedRepo (ge_store env)) ?c (proposalCreateds w) =
        Inr (AList.update (log_id l) ?c (proposalCreateds w))"
      using None id assms by (simp add: insert_rules governed_keyeds)
    have gw: "governed ?w" using assms(2) id by (simp add: governed_put keyed_update governed_keyeds)
    obtain r t1 where res: "resolveProposal env l e t = (r, t1)" by fastforce
    show ?thesis
    proof (cases r)
      case (Inl x)
      with Inr ins res show ?thesis by (simp add: storeProposalCreated_def)
    next
      case (Inr p)
      then obtain q b x y where p: "p = proposal_entity env l e q b x y"
        using res resolveProposal_entity by metis
      have kp: "keyed pr_id (proposals w)" "keyed dm_id (dataMetrics w)"
        using governed_keyed [OF assms(2)] by (simp_all add: keyed_world_def)
      show ?thesis
      proof (cases "map_of (proposals w) (log_id l)")
        case (Some z)
        with p obtain m where "insert_row (proposalRepo (ge_store env)) p (proposals w) = Inl (StoreFailure m)"
          using repository.insert_duplicate [OF store_ok_repositories(11) [OF assms(1)] kp(1), of p] by auto
        with \<open>decode_ProposalCreated (ge_codec env) l = Inr e\<close> ins res Inr Some show ?thesis
          by (simp add: storeProposalCreated_def fresh_ids_def)
      next
        case None
        then have n: "map_of (proposals ?w) (pr_id p) = None" by (simp add: p)
        have "governed (after_proposal p ?w)"
          using after_proposal_governed [OF gw n] by (simp add: p)
        moreover have "others_fresh (log_id l) w (after_proposal p ?w)"
          by (auto simp: others_fresh_def fresh_ids_def after_proposal_def after_options_def p
              AList.update_conv')
        moreover have "storeProposalCreated env l (w, t) = Inr (after_proposal p ?w, t1)"
          using \<open>decode_ProposalCreated (ge_codec env) l = Inr e\<close> ins res Inr n kp assms(1)
          by (simp add: storeProposalCreated_def insert_rules storeGlobalDataMetric_eq after_proposal_def)
        ultimately show ?thesis
          using \<open>decode_ProposalCreated (ge_codec env) l = Inr e\<close> res by simp
      qed
    qed
  qed
qed

end
