(* ===== verification/GovernorClaims.thy ===== *)
theory GovernorClaims
  imports GovernorEvents
begin

text \<open>
  The contract of the governor handler and its properties; and the sums of a proposal as the sums over
  the vote events of the chain since its creation.
\<close>

section \<open>The contract\<close>

lemma resolve_keeps_warm:
  assumes "warm env t" and "resolveProposal env l e t = (r, t')"
  shows "warm env t'"
proof (cases "find (\<lambda>item. ic_name item = ''governorToken'') (iw_contracts (ge_work env))")
  case None
  with assms show ?thesis by (simp add: resolveProposal_def)
next
  case (Some c)
  have "quorumCache t (contract_key (quorum_options env c)) \<noteq> None"
    using assms(1) by (simp add: warm_def)
  from quorum_warm [OF this] obtain q t1 where
    q: "quorum (ge_net env) (ge_now env) (ge_storedAt env) (quorum_options env c) t = (Inr q, t1)"
    and t1: "quorumCache t1 (governor_key env) \<noteq> None" "blockIntervalCache t1 = blockIntervalCache t"
    by force
  obtain v where "blockIntervalCache t1 (decimal (ge_chainId env)) = Some v"
    using assms(1) t1 by (auto simp: warm_def)
  then have "t' = t1"
    using assms(2) Some q
    by (auto simp: resolveProposal_def blockIntervalSeconds_def Let_def split: prod.splits)
  with t1 assms(1) show ?thesis by (simp add: warm_def)
qed

text \<open>A step on the run state that keeps the invariants and the caches warm.\<close>

definition keeps_run :: "governor_env \<Rightarrow> string \<Rightarrow> run_state \<Rightarrow> run_state outcome \<Rightarrow> bool" where
  "keeps_run env i s r \<longleftrightarrow>
     (case r of Inl _ \<Rightarrow> True | Inr s' \<Rightarrow>
        governed (fst s') \<and> others_fresh i (fst s) (fst s') \<and> (warm env (snd s) \<longrightarrow> warm env (snd s')))"

lemma keeps_run_then:
  assumes "keeps_run env i s m" and "\<And>s'. m = Inr s' \<Longrightarrow> governed (fst s') \<Longrightarrow> keeps_run env i s' (f s')"
  shows "keeps_run env i s (and_then m f)"
  using assms by (cases m) (auto simp: keeps_run_def intro: others_fresh_trans split: sum.splits)

lemma on_topic_keeps:
  assumes "governed w" and "good_step d (log_id l) w (f w)"
  shows "keeps_run env (log_id l) (w, t) (on_topic l topic f (w, t))"
  using assms by (cases "f w") (auto simp: on_topic_def keeps_run_def good_step_def)

lemma handle_governor_keeps:
  assumes "store_ok (ge_store env)" and "governed (fst s)"
  shows "keeps_run env (log_id l) s (handle_governor env l s)"
proof -
  have created: "keeps_run env (log_id l) s (if has_topic l topic_ProposalCreated
      then storeProposalCreated env l s else Inr s)"
    using created_step [OF assms, of l "snd s"] assms(2) resolve_keeps_warm
    by (auto simp: keeps_run_def split: sum.splits) (metis prod.collapse)
  have on: "keeps_run env (log_id l) s' (on_topic l topic f s')"
    if "\<And>w. governed w \<Longrightarrow> good_step d (log_id l) w (f w)" and "governed (fst s')" for topic f s' d
    using on_topic_keeps [where f = f, OF that(2) that(1) [OF that(2)], of env "snd s'" topic]
    by simp
  have s1: "keeps_run env (log_id l) s' (on_topic l topic_ProposalQueued (storeProposalQueued env l) s')"
    if "governed (fst s')" for s'
    by (rule on [OF queued_step [OF assms(1)] that])
  have s2: "keeps_run env (log_id l) s' (on_topic l topic_ProposalExecuted (storeProposalExecuted env l) s')"
    if "governed (fst s')" for s'
    by (rule on [OF executed_step [OF assms(1)] that])
  have s3: "keeps_run env (log_id l) s' (on_topic l topic_ProposalCanceled (storeProposalCanceled env l) s')"
    if "governed (fst s')" for s'
    by (rule on [OF canceled_step [OF assms(1)] that])
  have s4: "keeps_run env (log_id l) s' (on_topic l topic_VoteCast (storeVoteCast env l) s')"
    if "governed (fst s')" for s'
    by (rule on [OF cast_step [OF assms(1)] that])
  have s5: "keeps_run env (log_id l) s' (on_topic l topic_VoteCastWithParams (storeVoteCastWithParams env l) s')"
    if "governed (fst s')" for s'
    by (rule on [OF cast_params_step [OF assms(1)] that])
  show ?thesis
    unfolding handle_governor_def by (intro keeps_run_then created s1 s2 s3 s4 s5)
qed

definition governor_topics :: "string list" where
  "governor_topics = [topic_ProposalCreated, topic_ProposalQueued, topic_ProposalExecuted,
     topic_ProposalCanceled, topic_VoteCast, topic_VoteCastWithParams]"

definition governor_ready :: "governor_env \<Rightarrow> EvmLog \<Rightarrow> run_state \<Rightarrow> bool" where
  "governor_ready env l s \<longleftrightarrow>
     length (filter (has_topic l) governor_topics) \<le> 1 \<and>
     fresh_ids (log_id l) (fst s) \<and> warm env (snd s) \<and>
     (has_topic l topic_ProposalCreated \<longrightarrow> has_governor_token env \<and>
        (\<exists>e. decode_ProposalCreated (ge_codec env) l = Inr e \<and> exact_times e)) \<and>
     (has_topic l topic_ProposalQueued \<longrightarrow> \<not> isl (decode_ProposalQueued (ge_codec env) l)) \<and>
     (has_topic l topic_ProposalExecuted \<longrightarrow> \<not> isl (decode_ProposalExecuted (ge_codec env) l)) \<and>
     (has_topic l topic_ProposalCanceled \<longrightarrow> \<not> isl (decode_ProposalCanceled (ge_codec env) l)) \<and>
     (has_topic l topic_VoteCast \<longrightarrow> \<not> isl (decode_VoteCast (ge_codec env) l)) \<and>
     (has_topic l topic_VoteCastWithParams \<longrightarrow> \<not> isl (decode_VoteCastWithParams (ge_codec env) l))"

definition governor_run_inv :: "governor_env \<Rightarrow> run_state \<Rightarrow> bool" where
  "governor_run_inv env s \<longleftrightarrow> store_ok (ge_store env) \<and> rounding (ge_fl env) \<and> governed (fst s)"

lemma on_topic_returns:
  assumes "\<And>w. governed w \<Longrightarrow> good_step (\<not> isl d) (log_id l) w (f w)"
    and "governed w" and "has_topic l topic \<longrightarrow> \<not> isl d \<and> fresh_ids (log_id l) w"
  shows "\<exists>w'. on_topic l topic f (w, t) = Inr (w', t) \<and> governed w' \<and>
    (\<not> has_topic l topic \<longrightarrow> w' = w)"
  using assms(1) [OF assms(2)] assms(2,3)
  by (cases "f w") (auto simp: on_topic_def good_step_def)

lemma created_returns:
  assumes "store_ok (ge_store env)" and "rounding (ge_fl env)" and "governed w"
    and "has_topic l topic_ProposalCreated \<longrightarrow> has_governor_token env \<and> fresh_ids (log_id l) w \<and>
      (\<exists>e. decode_ProposalCreated (ge_codec env) l = Inr e \<and> exact_times e)"
    and "warm env t"
  shows "\<exists>w' t'. (if has_topic l topic_ProposalCreated then storeProposalCreated env l (w, t)
      else Inr (w, t)) = Inr (w', t') \<and> governed w' \<and>
      (\<not> has_topic l topic_ProposalCreated \<longrightarrow> w' = w)"
proof (cases "has_topic l topic_ProposalCreated")
  case True
  with assms(4) obtain e where e: "decode_ProposalCreated (ge_codec env) l = Inr e" "exact_times e"
    and r: "has_governor_token env" "fresh_ids (log_id l) w" by blast
  from resolveProposal_warm [OF assms(2) e(2) r(1) assms(5), of l]
  have "\<not> isl (fst (resolveProposal env l e t))" by auto
  with created_step [OF assms(1,3), of l t] e r True show ?thesis
    by (cases "storeProposalCreated env l (w, t)") auto
qed (use assms in simp)

lemma handle_governor_returns:
  assumes "governor_run_inv env (w, t)" and "governor_ready env l (w, t)"
  shows "\<exists>s'. handle_governor env l (w, t) = Inr s'"
proof -
  have st: "store_ok (ge_store env)" and fl: "rounding (ge_fl env)" and g: "governed w"
    using assms(1) by (simp_all add: governor_run_inv_def)
  note r = assms(2) [unfolded governor_ready_def, simplified]
  have one: "length (filter (has_topic l) governor_topics) \<le> 1" using r by simp
  have only1: "has_topic l topic_ProposalQueued \<longrightarrow> \<not> has_topic l topic_ProposalCreated"
    using one by (simp add: governor_topics_def split: if_splits)
  have only2: "has_topic l topic_ProposalExecuted \<longrightarrow> \<not> has_topic l topic_ProposalCreated \<and>
      \<not> has_topic l topic_ProposalQueued"
    using one by (simp add: governor_topics_def split: if_splits)
  have only3: "has_topic l topic_ProposalCanceled \<longrightarrow> \<not> has_topic l topic_ProposalCreated \<and>
      \<not> has_topic l topic_ProposalQueued \<and>
      \<not> has_topic l topic_ProposalExecuted"
    using one by (simp add: governor_topics_def split: if_splits)
  have only4: "has_topic l topic_VoteCast \<longrightarrow> \<not> has_topic l topic_ProposalCreated \<and>
      \<not> has_topic l topic_ProposalQueued \<and>
      \<not> has_topic l topic_ProposalExecuted \<and>
      \<not> has_topic l topic_ProposalCanceled"
    using one by (simp add: governor_topics_def split: if_splits)
  have only5: "has_topic l topic_VoteCastWithParams \<longrightarrow> \<not> has_topic l topic_ProposalCreated \<and>
      \<not> has_topic l topic_ProposalQueued \<and>
      \<not> has_topic l topic_ProposalExecuted \<and>
      \<not> has_topic l topic_ProposalCanceled \<and>
      \<not> has_topic l topic_VoteCast"
    using one by (simp add: governor_topics_def split: if_splits)
  obtain w0 t0 where 0: "(if has_topic l topic_ProposalCreated then storeProposalCreated env l (w, t)
      else Inr (w, t)) = Inr (w0, t0)" "governed w0" "\<not> has_topic l topic_ProposalCreated \<longrightarrow> w0 = w"
    using created_returns [OF st fl g, of l t] r by blast
  have "has_topic l topic_ProposalQueued \<longrightarrow> w0 = w" using only1 0(3) by simp
  then have "has_topic l topic_ProposalQueued \<longrightarrow>
      \<not> isl (decode_ProposalQueued (ge_codec env) l) \<and> fresh_ids (log_id l) w0" using r by simp
  from on_topic_returns [OF queued_step [OF st] 0(2) this, of t0]
  obtain w1 where 1: "on_topic l topic_ProposalQueued (storeProposalQueued env l) (w0, t0) = Inr (w1, t0)"
    "governed w1" "\<not> has_topic l topic_ProposalQueued \<longrightarrow> w1 = w0" by blast
  have "has_topic l topic_ProposalExecuted \<longrightarrow> w1 = w" using only2 0(3) 1(3) by simp
  then have "has_topic l topic_ProposalExecuted \<longrightarrow>
      \<not> isl (decode_ProposalExecuted (ge_codec env) l) \<and> fresh_ids (log_id l) w1" using r by simp
  from on_topic_returns [OF executed_step [OF st] 1(2) this, of t0]
  obtain w2 where 2: "on_topic l topic_ProposalExecuted (storeProposalExecuted env l) (w1, t0) = Inr (w2, t0)"
    "governed w2" "\<not> has_topic l topic_ProposalExecuted \<longrightarrow> w2 = w1" by blast
  have "has_topic l topic_ProposalCanceled \<longrightarrow> w2 = w" using only3 0(3) 1(3) 2(3) by simp
  then have "has_topic l topic_ProposalCanceled \<longrightarrow>
      \<not> isl (decode_ProposalCanceled (ge_codec env) l) \<and> fresh_ids (log_id l) w2" using r by simp
  from on_topic_returns [OF canceled_step [OF st] 2(2) this, of t0]
  obtain w3 where 3: "on_topic l topic_ProposalCanceled (storeProposalCanceled env l) (w2, t0) = Inr (w3, t0)"
    "governed w3" "\<not> has_topic l topic_ProposalCanceled \<longrightarrow> w3 = w2" by blast
  have "has_topic l topic_VoteCast \<longrightarrow> w3 = w" using only4 0(3) 1(3) 2(3) 3(3) by simp
  then have "has_topic l topic_VoteCast \<longrightarrow>
      \<not> isl (decode_VoteCast (ge_codec env) l) \<and> fresh_ids (log_id l) w3" using r by simp
  from on_topic_returns [OF cast_step [OF st] 3(2) this, of t0]
  obtain w4 where 4: "on_topic l topic_VoteCast (storeVoteCast env l) (w3, t0) = Inr (w4, t0)"
    "governed w4" "\<not> has_topic l topic_VoteCast \<longrightarrow> w4 = w3" by blast
  have "has_topic l topic_VoteCastWithParams \<longrightarrow> w4 = w" using only5 0(3) 1(3) 2(3) 3(3) 4(3) by simp
  then have "has_topic l topic_VoteCastWithParams \<longrightarrow>
      \<not> isl (decode_VoteCastWithParams (ge_codec env) l) \<and> fresh_ids (log_id l) w4" using r by simp
  from on_topic_returns [OF cast_params_step [OF st] 4(2) this, of t0]
  obtain w5 where 5: "on_topic l topic_VoteCastWithParams (storeVoteCastWithParams env l) (w4, t0) = Inr (w5, t0)"
    "governed w5" "\<not> has_topic l topic_VoteCastWithParams \<longrightarrow> w5 = w4" by blast
  show ?thesis using 0(1) 1(1) 2(1) 3(1) 4(1) 5(1) by (simp add: handle_governor_def)
qed

interpretation governor: log_handler "handle_governor env" "governor_run_inv env" "governor_ready env"
  for env
proof
  show "governor_run_inv env s \<Longrightarrow> handle_governor env l s = Inr s' \<Longrightarrow> governor_run_inv env s'" for s l s'
    using handle_governor_keeps [of env s l] by (auto simp: governor_run_inv_def keeps_run_def)
  show "governor_run_inv env s \<Longrightarrow> governor_ready env l s \<Longrightarrow> \<exists>s'. handle_governor env l s = Inr s'" for s l
    using handle_governor_returns [of env "fst s" "snd s" l] by simp
  show "governor_ready env l' s'"
    if "governor_run_inv env s" and "handle_governor env l s = Inr s'" and "log_id l' \<noteq> log_id l"
      and "governor_ready env l' s" for s l s' l'
    using that handle_governor_keeps [of env s l]
    by (auto simp: governor_run_inv_def governor_ready_def keeps_run_def others_fresh_def)
qed

section \<open>A concrete governor\<close>

definition demo_created :: proposal_created_event where
  "demo_created = \<lparr>evp_proposalId = 255, evp_proposer = ''0xa'', evp_targets = [], evp_values = [],
     evp_signatures = [], evp_calldatas = [], evp_voteStart = 100, evp_voteEnd = 200,
     evp_description = ''# Title''\<rparr>"

definition demo_vote :: vote_event where
  "demo_vote = \<lparr>evv_voter = ''0xb'', evv_proposalId = 255, evv_support = 1, evv_weight = 5,
     evv_reason = []\<rparr>"

definition demo_governor_codec :: governor_codec where
  "demo_governor_codec = \<lparr>decode_ProposalCreated = (\<lambda>_. Inr demo_created),
     decode_ProposalQueued = (\<lambda>_. Inr (255, 0)), decode_ProposalExecuted = (\<lambda>_. Inr 255),
     decode_ProposalCanceled = (\<lambda>_. Inr 255), decode_VoteCast = (\<lambda>_. Inr demo_vote),
     decode_VoteCastWithParams = (\<lambda>_. Inr (demo_vote, []))\<rparr>"

definition demo_governor_contract :: IndexerContract where
  "demo_governor_contract = \<lparr>ic_name = ''governor'', ic_address = ''0x1'', ic_standard = None\<rparr>"

definition demo_token_contract :: IndexerContract where
  "demo_token_contract = \<lparr>ic_name = ''governorToken'', ic_address = ''0x2'', ic_standard = None\<rparr>"

definition demo_governor :: governor_env where
  "demo_governor = \<lparr>ge_store = table_store, ge_codec = demo_governor_codec, ge_chainId = 46,
     ge_rpcs = [],
     ge_work = \<lparr>iw_daoCode = ''demo'', iw_contracts = [demo_governor_contract, demo_token_contract]\<rparr>,
     ge_indexContract = demo_governor_contract, ge_net = dead_net,
     ge_textPlus = \<lparr>tp_apiKey = None, tp_generate = (\<lambda>_. Inl (ThrownError []))\<rparr>,
     ge_now = 5000, ge_storedAt = 5000, ge_fl = (\<lambda>x. x), ge_numberText = (\<lambda>x. decimal \<lfloor>x\<rfloor>)\<rparr>"

definition warm_tool :: chain_tool where
  "warm_tool = \<lparr>blockIntervalCache = (\<lambda>_. Some 2), clockModeCache = Map.empty,
     quorumCache = (\<lambda>_. Some demo_entry)\<rparr>"

definition governor_log :: "string \<Rightarrow> string \<Rightarrow> EvmLog" where
  "governor_log i topic = \<lparr>log_id = i, log_address = ''0x1'', log_topics = [topic], log_data = [],
     log_height = 90, log_timestamp = 1000, log_transactionHash = ''0xt''\<rparr>"

definition demo_governor_run :: "EvmLog list" where
  "demo_governor_run = [governor_log ''1'' topic_ProposalCreated, governor_log ''2'' topic_VoteCast,
     governor_log ''3'' topic_VoteCastWithParams]"

lemma governor_topics_distinct: "distinct governor_topics"
  by (simp add: governor_topics_def topic_ProposalCreated_def topic_ProposalQueued_def
      topic_ProposalExecuted_def topic_ProposalCanceled_def topic_VoteCast_def
      topic_VoteCastWithParams_def)

lemma governed_empty: "governed empty_world"
  by (simp add: governed_def tally_inv_empty token_inv_empty)

lemma demo_governor_inv: "governor_run_inv demo_governor (empty_world, warm_tool)"
  by (simp add: governor_run_inv_def demo_governor_def rounding_exact governed_empty)

lemma distinct_single: "distinct xs \<Longrightarrow> length (filter (\<lambda>y. x = y) xs) \<le> 1"
  by (induction xs) (auto simp: filter_empty_conv)

lemma demo_governor_ready:
  assumes "topic \<in> set governor_topics"
  shows "governor_ready demo_governor (governor_log i topic) (empty_world, warm_tool)"
proof -
  have "has_topic (governor_log i topic) = (\<lambda>x. topic = x)"
    by (simp add: has_topic_def governor_log_def fun_eq_iff)
  moreover have "length (filter (\<lambda>x. topic = x) governor_topics) \<le> 1"
    by (rule distinct_single [OF governor_topics_distinct])
  ultimately show ?thesis
    by (simp add: governor_ready_def fresh_ids_def warm_def warm_tool_def has_governor_token_def
        demo_governor_def demo_governor_codec_def exact_times_def demo_created_def max_safe_def
        demo_governor_contract_def demo_token_contract_def)
qed

lemma demo_governor_run_ready:
  "distinct (map log_id demo_governor_run)"
  "\<forall>l \<in> set demo_governor_run. governor_ready demo_governor l (empty_world, warm_tool)"
  by (auto simp: demo_governor_run_def governor_log_def [of "''1''"] governor_log_def [of "''2''"]
      governor_log_def [of "''3''"])
    (auto simp: governor_topics_def governor_log_def [symmetric] intro!: demo_governor_ready)

section \<open>Properties\<close>

text \<open>
  C6: Whatever logs of a governor have been processed since the empty database, with votes before and
  after the proposals they are for, the counters agree with the votes: for, against and abstain
  sums and the three vote counts of a proposal are sums over the vote rows that refer to it, and
  the global counters sums over all votes and the number of proposals. No vote is counted twice
  or under another proposal.
\<close>

theorem governor_tallies:
  assumes "store_ok (ge_store env)" and "rounding (ge_fl env)"
    and "fold_outcome (handle_governor env) ls (empty_world, t) = Inr (w, t')"
  shows "(\<forall>p \<in> rows (proposals w). proposal_tally p (voteCastGroups w)) \<and>
    global_tally (metric_or_new (map_of (dataMetrics w) global_id)) (proposals w) (voteCastGroups w)"
proof -
  have "governor_run_inv env (empty_world, t)"
    using assms by (simp add: governor_run_inv_def governed_empty)
  with assms(3) have "governor_run_inv env (w, t')" by (rule governor.logs_keep)
  then show ?thesis by (simp add: governor_run_inv_def governed_def tally_inv_def)
qed

theorem governor_tallies_witness:
  "\<exists>w t'. fold_outcome (handle_governor demo_governor) demo_governor_run (empty_world, warm_tool) =
     Inr (w, t') \<and> (\<forall>p \<in> rows (proposals w). proposal_tally p (voteCastGroups w))"
proof -
  obtain w t' where r: "fold_outcome (handle_governor demo_governor) demo_governor_run
      (empty_world, warm_tool) = Inr (w, t')"
    using governor.logs_return [OF demo_governor_inv demo_governor_run_ready] by force
  have "store_ok (ge_store demo_governor)" "rounding (ge_fl demo_governor)"
    by (simp_all add: demo_governor_def rounding_exact)
  from governor_tallies [OF this r] r show ?thesis by blast
qed

text \<open>
  C12: With a quorum of the governor and an interval of its chain in the caches, and a contract named
  governorToken in the configuration, no log stops the indexer: every list of decodable logs with
  fresh, distinct ids, each with at most one topic of the governor, with proposals among them whose
  vote times are exact in milliseconds (at most 2^53 - 1 of them), is processed to the end, whatever
  the endpoints and the language model answer.
\<close>

theorem governor_never_throws:
  assumes "store_ok (ge_store env)" and "rounding (ge_fl env)" and "governed w"
    and "distinct (map log_id ls)" and "\<forall>l \<in> set ls. governor_ready env l (w, t)"
  shows "\<exists>w' t'. fold_outcome (handle_governor env) ls (w, t) = Inr (w', t') \<and> governed w'"
proof -
  have "governor_run_inv env (w, t)" using assms by (simp add: governor_run_inv_def)
  from governor.logs_return [OF this assms(4,5)] show ?thesis
    by (force simp: governor_run_inv_def)
qed

theorem governor_never_throws_witness:
  "\<exists>w' t'. fold_outcome (handle_governor demo_governor) demo_governor_run (empty_world, warm_tool) =
     Inr (w', t') \<and> governed w'"
proof -
  have "store_ok (ge_store demo_governor)" "rounding (ge_fl demo_governor)"
    by (simp_all add: demo_governor_def rounding_exact)
  from governor_never_throws [OF this governed_empty demo_governor_run_ready] show ?thesis .
qed

text \<open>
  The times of a vote are consistent under rounding: a vote that starts no later than it ends
  gets times in that order, and on a block number clock both are whole milliseconds, so that the
  conversion to a big integer cannot fail, and a vote that starts in the block of its proposal
  starts at that block's time.
\<close>

theorem vote_timestamps_ordered:
  assumes "rounding fl" and "voteStart \<le> voteEnd" and "0 \<le> blockInterval"
    and "calculateProposalVoteTimestamp fl mode voteStart voteEnd createdBlock (of_int created)
      blockInterval = (s, e)" and "\<bar>created\<bar> \<le> max_safe"
  shows "s \<le> e \<and>
    (mode = BlockNumber \<longrightarrow> \<not> isl (to_BigInt s) \<and> \<not> isl (to_BigInt e) \<and>
      (voteStart = createdBlock \<longrightarrow> s = of_int created))"
proof (cases mode)
  case Timestamp
  then have "s = fl (voteStart * 1000)" "e = fl (voteEnd * 1000)"
    using assms(4) by (simp_all add: calculateProposalVoteTimestamp_def)
  with Timestamp show ?thesis using rounding_mono [OF assms(1)] assms(2) by simp
next
  case BlockNumber
  let ?t = "\<lambda>b. fl (fl (b * blockInterval) * 1000)"
  let ?m = "\<lambda>b. math_round (fl (of_int created + ?t b))"
  have se: "s = ?m (fl (voteStart - createdBlock))" "e = ?m (fl (voteEnd - createdBlock))"
    using assms(4) BlockNumber by (simp_all add: calculateProposalVoteTimestamp_def Let_def)
  note mono = rounding_mono [OF assms(1)]
  have "?t (fl (voteStart - createdBlock)) \<le> ?t (fl (voteEnd - createdBlock))"
    using assms(2,3) by (intro mono mult_right_mono) simp_all
  then have "s \<le> e"
    unfolding se by (rule math_round_mono [OF mono [OF add_left_mono]])
  moreover have "\<not> isl (to_BigInt s)" "\<not> isl (to_BigInt e)"
    by (simp_all add: se math_round_def)
  moreover have "s = of_int created" if "voteStart = createdBlock"
    using assms(1,5) that by (simp add: se rounding_int)
  ultimately show ?thesis by simp
qed

theorem vote_timestamps_ordered_witness:
  "calculateProposalVoteTimestamp (\<lambda>x. x) BlockNumber 90 100 90 (of_int 1000) 2 = (1000, 21000)
   \<and> (1000 :: real) \<le> 21000"
proof -
  have eq: "calculateProposalVoteTimestamp (\<lambda>x. x) BlockNumber 90 100 90 (of_int 1000) 2 = (1000, 21000)"
    using math_round_int [of 1000] math_round_int [of 21000]
    by (simp add: calculateProposalVoteTimestamp_def Let_def)
  from vote_timestamps_ordered [OF rounding_exact _ _ eq] show ?thesis
    using eq by (simp add: max_safe_def)
qed

text \<open>
  The hexadecimal proposal id, by which votes find their proposal, identifies it: two
  proposals never share one.
\<close>

theorem stdProposalId_identifies:
  "stdProposalId i = stdProposalId j \<longleftrightarrow> i = j"
  using int_text_inj [of 16 i j] by (auto simp: stdProposalId_def)

section \<open>A proposal's sums against the events of the chain\<close>

text \<open>
  The sums of a proposal against the events of the chain: after any run of the governor handler they
  are the weights of the votes that the logs since the proposal's creation cast for it.
\<close>

section \<open>The votes in a log\<close>

definition votes_in :: "governor_env \<Rightarrow> EvmLog \<Rightarrow> vote_event list" where
  "votes_in env l =
     (if has_topic l topic_VoteCast
      then (case decode_VoteCast (ge_codec env) l of Inr e \<Rightarrow> [e] | Inl _ \<Rightarrow> []) else []) @
     (if has_topic l topic_VoteCastWithParams
      then (case decode_VoteCastWithParams (ge_codec env) l of Inr (e, _) \<Rightarrow> [e] | Inl _ \<Rightarrow> []) else [])"

text \<open>The weight that logs cast for a kind of vote on the proposal with a number.\<close>

definition weight_of :: "string \<Rightarrow> int \<Rightarrow> vote_event \<Rightarrow> int" where
  "weight_of pid support e =
     (if stdProposalId (evv_proposalId e) = pid \<and> evv_support e = support then evv_weight e else 0)"

definition cast_weight :: "governor_env \<Rightarrow> string \<Rightarrow> int \<Rightarrow> EvmLog list \<Rightarrow> int" where
  "cast_weight env pid support ls = sum_list (map (weight_of pid support) (concat (map (votes_in env) ls)))"

definition creates :: "governor_env \<Rightarrow> string \<Rightarrow> EvmLog \<Rightarrow> bool" where
  "creates env pid l \<longleftrightarrow>
     has_topic l topic_ProposalCreated \<and>
     (case decode_ProposalCreated (ge_codec env) l of
        Inr e \<Rightarrow> stdProposalId (evp_proposalId e) = pid | Inl _ \<Rightarrow> False)"

section \<open>One proposal and its votes\<close>

definition unborn :: "string \<Rightarrow> world \<Rightarrow> bool" where
  "unborn pid w \<longleftrightarrow> (\<forall>q \<in> rows (proposals w). pr_proposalId q \<noteq> pid)"

text \<open>The proposal has one row, and the votes that refer to it sum up to \<open>f\<close>.\<close>

definition tallied :: "string \<Rightarrow> string \<Rightarrow> (int \<Rightarrow> int) \<Rightarrow> world \<Rightarrow> bool" where
  "tallied pid i f w \<longleftrightarrow>
     (\<exists>p \<in> rows (proposals w). pr_id p = i \<and> pr_proposalId p = pid) \<and>
     (\<forall>q \<in> rows (proposals w). pr_proposalId q = pid \<longrightarrow> pr_id q = i) \<and>
     (\<forall>k. weight_on (refers_to i) k (voteCastGroups w) = f k)"

lemma tallied_same:
  assumes "proposals w' = proposals w" "voteCastGroups w' = voteCastGroups w"
  shows "tallied pid i f w' = tallied pid i f w" "unborn pid w' = unborn pid w"
  using assms by (simp_all add: tallied_def unborn_def)

lemma after_options_tables [simp]:
  "proposals (after_options opts w) = proposals w" "voteCastGroups (after_options opts w) = voteCastGroups w"
  by (simp_all add: after_options_def)

text \<open>A vote that is stored.\<close>

lemma count_vote_number [simp]: "pr_proposalId (count_vote v q) = pr_proposalId q"
  by (simp add: count_vote_def split: prod.split)

lemma after_vote_tables:
  "proposals (after_vote p v w) =
     (case p of None \<Rightarrow> proposals w | Some q \<Rightarrow> AList.update (pr_id q) (count_vote v q) (proposals w))"
  "voteCastGroups (after_vote p v w) = AList.update (vcg_id v)
     (case p of None \<Rightarrow> v | Some q \<Rightarrow> v\<lparr>vcg_proposal := Some (pr_id q)\<rparr>) (voteCastGroups w)"
  by (simp_all add: after_vote_def)

text \<open>Which proposals there are: a tallied vote changes neither their ids nor their numbers.\<close>

definition numbered :: "world \<Rightarrow> (string \<times> string) set" where
  "numbered w = (\<lambda>q. (pr_id q, pr_proposalId q)) ` rows (proposals w)"

lemma after_vote_numbered:
  assumes "governed w" and "voted_proposal v p w"
  shows "numbered (after_vote p v w) = numbered w"
proof (cases p)
  case None
  then show ?thesis by (simp add: numbered_def after_vote_tables)
next
  case (Some q)
  have k: "keyed pr_id (proposals w)" using governed_keyed [OF assms(1)] by (simp add: keyed_world_def)
  have q: "q \<in> rows (proposals w)" using assms(2) Some by (simp add: voted_proposal_def)
  have r: "rows (proposals w) = insert q {x \<in> rows (proposals w). pr_id x \<noteq> pr_id q}"
    using q k by (auto simp: keyed_rows)
  have "rows (proposals (after_vote p v w)) = insert (count_vote v q) {x \<in> rows (proposals w). pr_id x \<noteq> pr_id q}"
    using rows_update [OF k, of "count_vote v q" "pr_id q"] Some by (simp add: after_vote_tables)
  then have "numbered (after_vote p v w) =
      insert (pr_id q, pr_proposalId q) ((\<lambda>q. (pr_id q, pr_proposalId q)) ` {x \<in> rows (proposals w). pr_id x \<noteq> pr_id q})"
    by (simp add: numbered_def)
  also have "\<dots> = (\<lambda>q. (pr_id q, pr_proposalId q)) ` rows (proposals w)" by (subst r) simp
  finally show ?thesis by (simp add: numbered_def)
qed

lemma unborn_numbered: "unborn pid w \<longleftrightarrow> (\<forall>x \<in> numbered w. snd x \<noteq> pid)"
  by (simp add: unborn_def numbered_def)

lemma tallied_numbered:
  "tallied pid i f w \<longleftrightarrow> (i, pid) \<in> numbered w \<and> (\<forall>x \<in> numbered w. snd x = pid \<longrightarrow> fst x = i) \<and>
     (\<forall>k. weight_on (refers_to i) k (voteCastGroups w) = f k)"
  by (auto simp: tallied_def numbered_def)

lemma after_vote_counted:
  assumes "governed w" and "voted_proposal v p w" and "map_of (voteCastGroups w) (vcg_id v) = None"
    and "vcg_proposal v = None" and "tallied pid i f w"
  shows "tallied pid i (\<lambda>k. f k + (if vcg_refProposalId v = pid \<and> vcg_support v = k then vcg_weight v else 0))
    (after_vote p v w)"
proof -
  have k: "keyed pr_id (proposals w)" using governed_keyed [OF assms(1)] by (simp add: keyed_world_def)
  obtain x where x: "x \<in> rows (proposals w)" "pr_id x = i" "pr_proposalId x = pid"
    and only: "\<forall>q \<in> rows (proposals w). pr_proposalId q = pid \<longrightarrow> pr_id q = i"
    and f: "\<And>k. weight_on (refers_to i) k (voteCastGroups w) = f k"
    using assms(5) unfolding tallied_def by blast
  define u where "u = (case p of None \<Rightarrow> v | Some q \<Rightarrow> v\<lparr>vcg_proposal := Some (pr_id q)\<rparr>)"
  have u: "vcg_id u = vcg_id v" "vcg_support u = vcg_support v" "vcg_weight u = vcg_weight v"
    by (simp_all add: u_def split: option.split)
  have refers: "refers_to i u \<longleftrightarrow> vcg_refProposalId v = pid"
  proof (cases p)
    case None
    with assms(2) x have "vcg_refProposalId v \<noteq> pid" unfolding voted_proposal_def by auto
    with None assms(4) show ?thesis by (simp add: u_def refers_to_def)
  next
    case (Some q)
    then have q: "q \<in> rows (proposals w)" "pr_proposalId q = vcg_refProposalId v"
      using assms(2) by (simp_all add: voted_proposal_def)
    have "q = x" if "pr_id q = i" using that q(1) x(1,2) k by (simp add: keyed_rows)
    then have "pr_id q = i \<longleftrightarrow> pr_proposalId q = pid" using only q(1) x(3) by blast
    with Some q(2) show ?thesis by (simp add: u_def refers_to_def)
  qed
  have "map_of (voteCastGroups w) (vcg_id u) = None" using assms(3) u(1) by simp
  from weight_on_insert [OF this] have
    "weight_on (refers_to i) k (voteCastGroups (after_vote p v w)) =
       f k + (if vcg_refProposalId v = pid \<and> vcg_support v = k then vcg_weight v else 0)" for k
    using u refers f by (simp add: after_vote_tables u_def [symmetric])
  then show ?thesis
    using assms(5) after_vote_numbered [OF assms(1,2)] by (simp add: tallied_numbered)
qed

lemma group_stored:
  assumes "store_ok st" and "governed w" and "storeVoteCastGroup st v w = Inr w'"
  obtains p where "map_of (voteCastGroups w) (vcg_id v) = None" and "voted_proposal v p w"
    and "w' = after_vote p v w"
proof -
  have new: "map_of (voteCastGroups w) (vcg_id v) = None"
  proof (rule ccontr)
    assume "map_of (voteCastGroups w) (vcg_id v) \<noteq> None"
    from group_taken_fails [OF assms(1,2) this] assms(3) show False by simp
  qed
  obtain p where "voted_proposal v p w" "storeVoteCastGroup st v w = Inr (after_vote p v w)"
    using storeVoteCastGroup_eq [OF assms(1) governed_keyed [OF assms(2)] new] by blast
  with new assms(3) that show thesis by simp
qed

section \<open>The steps of the handler\<close>

text \<open>A part of the handler, with the votes it is to count: the invariants go on with them.\<close>

definition counts :: "string \<Rightarrow> string \<Rightarrow> vote_event list \<Rightarrow> world \<Rightarrow> world \<Rightarrow> bool" where
  "counts pid i es w w' \<longleftrightarrow>
     (\<forall>f. tallied pid i f w \<longrightarrow> tallied pid i (\<lambda>k. f k + sum_list (map (weight_of pid k) es)) w') \<and>
     (unborn pid w \<longrightarrow> unborn pid w')"

lemma counts_refl [simp]: "counts pid i [] w w"
  by (simp add: counts_def)

lemma counts_trans:
  assumes "counts pid i es w u" "counts pid i es' u v"
  shows "counts pid i (es @ es') w v"
proof -
  have "tallied pid i (\<lambda>k. f k + sum_list (map (weight_of pid k) (es @ es'))) v" if "tallied pid i f w" for f
  proof -
    have "tallied pid i (\<lambda>k. f k + sum_list (map (weight_of pid k) es)) u"
      using assms(1) that by (simp add: counts_def)
    then have "tallied pid i (\<lambda>k. f k + sum_list (map (weight_of pid k) es) + sum_list (map (weight_of pid k) es')) v"
      using assms(2) by (simp add: counts_def)
    then show ?thesis by (simp add: add.assoc)
  qed
  then show ?thesis using assms by (simp add: counts_def)
qed

lemma counts_same:
  "proposals w' = proposals w \<Longrightarrow> voteCastGroups w' = voteCastGroups w \<Longrightarrow> counts pid i [] w w'"
  using tallied_same [of w' w] by (simp add: counts_def)

lemma group_entity_fields:
  "vcg_refProposalId (group_entity l e ty ps) = stdProposalId (evv_proposalId e)"
  "vcg_support (group_entity l e ty ps) = evv_support e"
  "vcg_weight (group_entity l e ty ps) = evv_weight e"
  "vcg_proposal (group_entity l e ty ps) = None"
  by (simp_all add: group_entity_def)

lemma vote_counts:
  assumes "store_ok st" and "governed w" and "storeVoteCastGroup st (group_entity l e ty ps) w = Inr w'"
  shows "counts pid i [e] w w'"
proof -
  let ?v = "group_entity l e ty ps"
  obtain p where new: "map_of (voteCastGroups w) (vcg_id ?v) = None" and p: "voted_proposal ?v p w"
    and w': "w' = after_vote p ?v w"
    using group_stored [OF assms] .
  have "tallied pid i (\<lambda>k. f k + weight_of pid k e) w'" if "tallied pid i f w" for f
    using after_vote_counted [OF assms(2) p new group_entity_fields(4) that]
    unfolding group_entity_fields w' by (simp add: weight_of_def)
  moreover have "unborn pid w \<longrightarrow> unborn pid w'"
    using after_vote_numbered [OF assms(2) p] by (simp add: unborn_numbered w')
  ultimately show ?thesis by (simp add: counts_def)
qed

lemma cast_counts:
  assumes "store_ok (ge_store env)" and "governed w" and "storeVoteCast env l w = Inr w'"
  shows "\<exists>e. decode_VoteCast (ge_codec env) l = Inr e \<and> counts pid i [e] w w'"
proof -
  obtain e w1 where e: "decode_VoteCast (ge_codec env) l = Inr e"
    "insert_VoteCast (ge_store env) (vote_entity l e) w = Inr w1"
    "storeVoteCastGroup (ge_store env) (group_entity l e without_params None) w1 = Inr w'"
    using assms(3) by (auto simp: storeVoteCast_def and_then_eq_Inr)
  have "good_step True (log_id l) w (insert_VoteCast (ge_store env) (vote_entity l e) w)"
    by (rule insert_good_step [where get = voteCasts and put = "\<lambda>t w. w\<lparr>voteCasts := t\<rparr>",
        OF store_ok_repositories(8) [OF assms(1)] governed_keyeds(5) [OF assms(2)]
        assms(2) _ _ governed_put(5) [OF assms(2)] others_fresh_put(5)])
      (simp_all add: vote_entity_def fresh_ids_def)
  then have "governed w1" using e(2) by (simp add: good_step_def)
  moreover have "proposals w1 = proposals w" "voteCastGroups w1 = voteCastGroups w"
    using e(2) by (auto simp: and_then_eq_Inr)
  ultimately show ?thesis
    using e(1) counts_trans [OF counts_same vote_counts [OF assms(1) _ e(3)], of w] by auto
qed

lemma cast_params_counts:
  assumes "store_ok (ge_store env)" and "governed w" and "storeVoteCastWithParams env l w = Inr w'"
  shows "\<exists>e ps. decode_VoteCastWithParams (ge_codec env) l = Inr (e, ps) \<and> counts pid i [e] w w'"
proof -
  obtain e ps w1 where e: "decode_VoteCastWithParams (ge_codec env) l = Inr (e, ps)"
    "insert_VoteCastWithParams (ge_store env) (vote_params_entity l e ps) w = Inr w1"
    "storeVoteCastGroup (ge_store env) (group_entity l e with_params (Some ps)) w1 = Inr w'"
    using assms(3) by (auto simp: storeVoteCastWithParams_def and_then_eq_Inr)
  have "good_step True (log_id l) w (insert_VoteCastWithParams (ge_store env) (vote_params_entity l e ps) w)"
    by (rule insert_good_step [where get = voteCastWithParamss and put = "\<lambda>t w. w\<lparr>voteCastWithParamss := t\<rparr>",
        OF store_ok_repositories(9) [OF assms(1)] governed_keyeds(6) [OF assms(2)]
        assms(2) _ _ governed_put(6) [OF assms(2)] others_fresh_put(6)])
      (simp_all add: vote_params_entity_def fresh_ids_def)
  then have "governed w1" using e(2) by (simp add: good_step_def)
  moreover have "proposals w1 = proposals w" "voteCastGroups w1 = voteCastGroups w"
    using e(2) by (auto simp: and_then_eq_Inr)
  ultimately show ?thesis
    using e(1) counts_trans [OF counts_same vote_counts [OF assms(1) _ e(3)], of w] by auto
qed

text \<open>A created proposal: another one leaves the tallied one alone, its own starts at nothing.\<close>

lemma created_parts:
  assumes "storeProposalCreated env l (w, t) = Inr (w', t')"
  obtains e w1 p t1 w2 where "decode_ProposalCreated (ge_codec env) l = Inr e"
    and "insert_ProposalCreated (ge_store env) (proposal_created_entity l e) w = Inr w1"
    and "resolveProposal env l e t = (Inr p, t1)" and "insert_Proposal (ge_store env) p w1 = Inr w2"
    and "storeGlobalDataMetric (ge_store env) proposal_options w2 = Inr w'"
proof -
  obtain e w1 where e: "decode_ProposalCreated (ge_codec env) l = Inr e"
    "insert_ProposalCreated (ge_store env) (proposal_created_entity l e) w = Inr w1"
    and rest: "(case resolveProposal env l e t of (Inl e, t) \<Rightarrow> Inl e
       | (Inr p, t) \<Rightarrow> and_then (insert_Proposal (ge_store env) p w1) (\<lambda>w.
           and_then (storeGlobalDataMetric (ge_store env) proposal_options w) (\<lambda>w. Inr (w, t)))) = Inr (w', t')"
    using assms by (simp add: storeProposalCreated_def and_then_eq_Inr) blast
  obtain r t1 where r: "resolveProposal env l e t = (r, t1)" by fastforce
  with rest obtain p where p: "r = Inr p" by (cases r) auto
  with rest r obtain w2 where "insert_Proposal (ge_store env) p w1 = Inr w2"
    "storeGlobalDataMetric (ge_store env) proposal_options w2 = Inr w'"
    by (auto simp: and_then_eq_Inr)
  with e r p that show thesis by blast
qed

lemma created_proposal:
  assumes "store_ok (ge_store env)" and "governed w" and "storeProposalCreated env l (w, t) = Inr (w', t')"
  obtains e p where "decode_ProposalCreated (ge_codec env) l = Inr e"
    and "pr_id p = log_id l" and "pr_proposalId p = stdProposalId (evp_proposalId e)"
    and "map_of (proposals w) (log_id l) = None"
    and "rows (proposals w') = insert p (rows (proposals w))" and "voteCastGroups w' = voteCastGroups w"
proof -
  obtain e w1 p t1 w2 where s: "decode_ProposalCreated (ge_codec env) l = Inr e"
    "insert_ProposalCreated (ge_store env) (proposal_created_entity l e) w = Inr w1"
    "resolveProposal env l e t = (Inr p, t1)" "insert_Proposal (ge_store env) p w1 = Inr w2"
    "storeGlobalDataMetric (ge_store env) proposal_options w2 = Inr w'"
    by (rule created_parts [OF assms(3)])
  obtain q b x y where p: "p = proposal_entity env l e q b x y" using resolveProposal_entity [OF s(3)] .
  have pid: "pr_id p = log_id l" "pr_proposalId p = stdProposalId (evp_proposalId e)"
    by (simp_all add: p proposal_entity_def)
  have w1: "proposals w1 = proposals w" "voteCastGroups w1 = voteCastGroups w" "dataMetrics w1 = dataMetrics w"
    using s(2) by (auto simp: and_then_eq_Inr)
  have k: "keyed pr_id (proposals w)" "keyed dm_id (dataMetrics w)"
    using governed_keyed [OF assms(2)] by (simp_all add: keyed_world_def)
  have new: "map_of (proposals w) (log_id l) = None"
  proof (rule ccontr)
    assume "map_of (proposals w) (log_id l) \<noteq> None"
    with repository.insert_duplicate [OF store_ok_repositories(11) [OF assms(1)] k(1), of p] pid(1)
    have "\<exists>m. insert_row (proposalRepo (ge_store env)) p (proposals w) = Inl (StoreFailure m)" by auto
    with s(4) w1(1) show False by (auto simp: and_then_eq_Inr)
  qed
  have w2: "w2 = w1\<lparr>proposals := AList.update (log_id l) p (proposals w)\<rparr>"
    using s(4) w1(1) new pid(1) k(1) assms(1) by (simp add: insert_rules)
  have others: "{x \<in> rows (proposals w). pr_id x \<noteq> log_id l} = rows (proposals w)"
    using keyed_rows [OF k(1)] new by force
  have "keyed dm_id (dataMetrics w2)" using k(2) w1(3) by (simp add: w2)
  from storeGlobalDataMetric_eq [OF assms(1) this, of proposal_options]
  have w': "w' = after_options proposal_options w2" using s(5) by simp
  have "rows (proposals w') = insert p (rows (proposals w))"
    using rows_update [OF k(1) pid(1)] others by (simp add: w' w2)
  moreover have "voteCastGroups w' = voteCastGroups w" by (simp add: w' w2 w1(2))
  ultimately show thesis using that [OF s(1) pid new] by blast
qed

lemma created_counts:
  assumes "store_ok (ge_store env)" and "governed w" and "storeProposalCreated env l (w, t) = Inr (w', t')"
    and "has_topic l topic_ProposalCreated" and "\<not> creates env pid l"
  shows "counts pid i [] w w'"
proof -
  obtain e p where p: "decode_ProposalCreated (ge_codec env) l = Inr e" "pr_id p = log_id l"
    "pr_proposalId p = stdProposalId (evp_proposalId e)"
    "rows (proposals w') = insert p (rows (proposals w))" "voteCastGroups w' = voteCastGroups w"
    using created_proposal [OF assms(1-3)] by metis
  with assms(4,5) have "pr_proposalId p \<noteq> pid" by (simp add: creates_def)
  with p(4,5) show ?thesis by (auto simp: counts_def tallied_def unborn_def)
qed

lemma born_tallied:
  assumes "store_ok (ge_store env)" and "governed w" and "storeProposalCreated env l (w, t) = Inr (w', t')"
    and "creates env pid l" and "unborn pid w"
  shows "tallied pid (log_id l) (\<lambda>_. 0) w'"
proof -
  obtain e p where p: "decode_ProposalCreated (ge_codec env) l = Inr e" "pr_id p = log_id l"
    "pr_proposalId p = stdProposalId (evp_proposalId e)" "map_of (proposals w) (log_id l) = None"
    "rows (proposals w') = insert p (rows (proposals w))" "voteCastGroups w' = voteCastGroups w"
    using created_proposal [OF assms(1-3)] by metis
  have "\<forall>v \<in> rows (voteCastGroups w). \<not> refers_to (log_id l) v"
    using assms(2) p(4) unfolding governed_def tally_inv_def by blast
  then have "weight_on (refers_to (log_id l)) k (voteCastGroups w) = 0" for k
    unfolding weight_on_def by (intro table_sum_zero) (auto simp: rows_def)
  with p assms(4,5) show ?thesis by (auto simp: tallied_def creates_def unborn_def)
qed

section \<open>A log\<close>

text \<open>The other governor events leave proposals and votes alone.\<close>

lemma untouched_counts:
  assumes "governed w" and "good_step d i0 w (f w)"
    and "\<And>w'. f w = Inr w' \<Longrightarrow> proposals w' = proposals w \<and> voteCastGroups w' = voteCastGroups w"
    and "on_topic l topic f (w, t) = Inr (w', t')"
  shows "counts pid i [] w w' \<and> governed w'"
  using assms counts_same by (auto simp: on_topic_def good_step_def and_then_eq_Inr split: if_splits)

lemma queued_counts:
  assumes "store_ok (ge_store env)" and "governed w"
  shows "on_topic l topic_ProposalQueued (storeProposalQueued env l) (w, t) = Inr (w', t') \<Longrightarrow>
      counts pid i [] w w' \<and> governed w'"
    and "on_topic l topic_ProposalExecuted (storeProposalExecuted env l) (w, t) = Inr (w', t') \<Longrightarrow>
      counts pid i [] w w' \<and> governed w'"
    and "on_topic l topic_ProposalCanceled (storeProposalCanceled env l) (w, t) = Inr (w', t') \<Longrightarrow>
      counts pid i [] w w' \<and> governed w'"
proof -
  show "counts pid i [] w w' \<and> governed w'"
    if "on_topic l topic_ProposalQueued (storeProposalQueued env l) (w, t) = Inr (w', t')"
    by (rule untouched_counts [where f = "storeProposalQueued env l", OF assms(2) queued_step [OF assms] _ that])
      (auto simp: storeProposalQueued_def and_then_eq_Inr)
  show "counts pid i [] w w' \<and> governed w'"
    if "on_topic l topic_ProposalExecuted (storeProposalExecuted env l) (w, t) = Inr (w', t')"
    by (rule untouched_counts [where f = "storeProposalExecuted env l", OF assms(2) executed_step [OF assms] _ that])
      (auto simp: storeProposalExecuted_def and_then_eq_Inr)
  show "counts pid i [] w w' \<and> governed w'"
    if "on_topic l topic_ProposalCanceled (storeProposalCanceled env l) (w, t) = Inr (w', t')"
    by (rule untouched_counts [where f = "storeProposalCanceled env l", OF assms(2) canceled_step [OF assms] _ that])
      (auto simp: storeProposalCanceled_def and_then_eq_Inr)
qed

lemma cast_topics_count:
  assumes "store_ok (ge_store env)" and "governed w"
    and "on_topic l topic_VoteCast (storeVoteCast env l) (w, t) = Inr (u, t1)"
    and "on_topic l topic_VoteCastWithParams (storeVoteCastWithParams env l) (u, t1) = Inr (w', t')"
  shows "counts pid i (votes_in env l) w w'"
proof -
  have first: "counts pid i (if has_topic l topic_VoteCast
      then (case decode_VoteCast (ge_codec env) l of Inr e \<Rightarrow> [e] | Inl _ \<Rightarrow> []) else []) w u \<and> governed u"
  proof (cases "has_topic l topic_VoteCast")
    case True
    with assms(3) have s: "storeVoteCast env l w = Inr u" by (simp add: on_topic_def and_then_eq_Inr)
    with cast_step [OF assms(1,2), of l] have "governed u" by (simp add: good_step_def)
    with cast_counts [OF assms(1,2) s] True show ?thesis by fastforce
  next
    case False
    with assms(2,3) show ?thesis by (simp add: on_topic_def)
  qed
  have second: "counts pid i (if has_topic l topic_VoteCastWithParams
      then (case decode_VoteCastWithParams (ge_codec env) l of Inr (e, _) \<Rightarrow> [e] | Inl _ \<Rightarrow> []) else []) u w'"
  proof (cases "has_topic l topic_VoteCastWithParams")
    case True
    with assms(4) have s: "storeVoteCastWithParams env l u = Inr w'" by (simp add: on_topic_def and_then_eq_Inr)
    with cast_params_counts [OF assms(1) _ s] first True show ?thesis by fastforce
  next
    case False
    with assms(4) show ?thesis by (simp add: on_topic_def)
  qed
  show ?thesis unfolding votes_in_def using counts_trans [OF first [THEN conjunct1] second] .
qed

lemma after_creation_counts:
  assumes "store_ok (ge_store env)" and "governed w"
    and "and_then (on_topic l topic_ProposalQueued (storeProposalQueued env l) (w, t)) (\<lambda>s.
     and_then (on_topic l topic_ProposalExecuted (storeProposalExecuted env l) s) (\<lambda>s.
     and_then (on_topic l topic_ProposalCanceled (storeProposalCanceled env l) s) (\<lambda>s.
     and_then (on_topic l topic_VoteCast (storeVoteCast env l) s)
       (on_topic l topic_VoteCastWithParams (storeVoteCastWithParams env l))))) = Inr (w', t')"
  shows "counts pid i (votes_in env l) w w'"
proof -
  obtain a ta b tb c tc d td where
    s: "on_topic l topic_ProposalQueued (storeProposalQueued env l) (w, t) = Inr (a, ta)"
    "on_topic l topic_ProposalExecuted (storeProposalExecuted env l) (a, ta) = Inr (b, tb)"
    "on_topic l topic_ProposalCanceled (storeProposalCanceled env l) (b, tb) = Inr (c, tc)"
    "on_topic l topic_VoteCast (storeVoteCast env l) (c, tc) = Inr (d, td)"
    "on_topic l topic_VoteCastWithParams (storeVoteCastWithParams env l) (d, td) = Inr (w', t')"
    using assms(3) unfolding and_then_eq_Inr by (metis prod.collapse)
  have a: "counts pid i [] w a" "governed a" using queued_counts(1) [OF assms(1,2) s(1)] by blast+
  have b: "counts pid i [] a b" "governed b" using queued_counts(2) [OF assms(1) a(2) s(2)] by blast+
  have c: "counts pid i [] b c" "governed c" using queued_counts(3) [OF assms(1) b(2) s(3)] by blast+
  from counts_trans [OF a(1) counts_trans [OF b(1) counts_trans [OF c(1)
      cast_topics_count [OF assms(1) c(2) s(4,5)]]]]
  show ?thesis by simp
qed

lemma log_counts:
  assumes "store_ok (ge_store env)" and "governed w" and "handle_governor env l (w, t) = Inr (w', t')"
    and "\<not> creates env pid l"
  shows "counts pid i (votes_in env l) w w'"
proof -
  obtain u tu where first: "(if has_topic l topic_ProposalCreated
      then storeProposalCreated env l (w, t) else Inr (w, t)) = Inr (u, tu)"
    and rest: "and_then (on_topic l topic_ProposalQueued (storeProposalQueued env l) (u, tu)) (\<lambda>s.
     and_then (on_topic l topic_ProposalExecuted (storeProposalExecuted env l) s) (\<lambda>s.
     and_then (on_topic l topic_ProposalCanceled (storeProposalCanceled env l) s) (\<lambda>s.
     and_then (on_topic l topic_VoteCast (storeVoteCast env l) s)
       (on_topic l topic_VoteCastWithParams (storeVoteCastWithParams env l))))) = Inr (w', t')"
    using assms(3) unfolding handle_governor_def and_then_eq_Inr by (metis prod.collapse)
  have u: "counts pid i [] w u \<and> governed u"
  proof (cases "has_topic l topic_ProposalCreated")
    case True
    with first have s: "storeProposalCreated env l (w, t) = Inr (u, tu)" by simp
    with created_step [OF assms(1,2), of l t] have "governed u" by simp
    with created_counts [OF assms(1,2) s True assms(4)] show ?thesis by simp
  qed (use first assms(2) in simp)
  from counts_trans [OF u [THEN conjunct1] after_creation_counts [OF assms(1) u [THEN conjunct2] rest]]
  show ?thesis by simp
qed

lemma creating_log_counts:
  assumes "store_ok (ge_store env)" and "governed w" and "handle_governor env l (w, t) = Inr (w', t')"
    and "creates env pid l" and "unborn pid w"
  shows "tallied pid (log_id l) (\<lambda>k. cast_weight env pid k [l]) w'"
proof -
  obtain u tu where first: "storeProposalCreated env l (w, t) = Inr (u, tu)"
    and rest: "and_then (on_topic l topic_ProposalQueued (storeProposalQueued env l) (u, tu)) (\<lambda>s.
     and_then (on_topic l topic_ProposalExecuted (storeProposalExecuted env l) s) (\<lambda>s.
     and_then (on_topic l topic_ProposalCanceled (storeProposalCanceled env l) s) (\<lambda>s.
     and_then (on_topic l topic_VoteCast (storeVoteCast env l) s)
       (on_topic l topic_VoteCastWithParams (storeVoteCastWithParams env l))))) = Inr (w', t')"
    using assms(3,4) unfolding handle_governor_def and_then_eq_Inr creates_def by (metis prod.collapse)
  have "governed u" using created_step [OF assms(1,2), of l t] first by simp
  from after_creation_counts [OF assms(1) this rest, of pid "log_id l"]
  have "tallied pid (log_id l) (\<lambda>k. 0 + sum_list (map (weight_of pid k) (votes_in env l))) w'"
    using born_tallied [OF assms(1,2) first assms(4,5)] unfolding counts_def by blast
  then show ?thesis by (simp add: cast_weight_def)
qed

section \<open>A run\<close>

lemma handle_governor_governed:
  assumes "store_ok (ge_store env)" and "governed w" and "handle_governor env l (w, t) = Inr (w', t')"
  shows "governed w'"
  using handle_governor_keeps [OF assms(1), of "(w, t)" l] assms(2,3) by (simp add: keeps_run_def)

lemma logs_count:
  assumes "store_ok (ge_store env)" and "governed w" and "fold_outcome (handle_governor env) ls (w, t) = Inr (w', t')"
    and "\<forall>l \<in> set ls. \<not> creates env pid l"
  shows "counts pid i (concat (map (votes_in env) ls)) w w' \<and> governed w'"
  using assms(2-)
proof (induction ls arbitrary: w t)
  case Nil
  then show ?case by simp
next
  case (Cons l ls)
  obtain u tu where s: "handle_governor env l (w, t) = Inr (u, tu)"
    "fold_outcome (handle_governor env) ls (u, tu) = Inr (w', t')"
    using Cons.prems(2) by (auto simp: and_then_eq_Inr)
  have "counts pid i (votes_in env l) w u" "governed u"
    using log_counts [OF assms(1) Cons.prems(1) s(1)] handle_governor_governed [OF assms(1) Cons.prems(1) s(1)]
      Cons.prems(3) by auto
  with Cons.IH [OF _ s(2)] Cons.prems(3) show ?case using counts_trans by auto
qed

lemma fold_outcome_append_Inr:
  "fold_outcome f (xs @ ys) s = Inr s' \<Longrightarrow> \<exists>u. fold_outcome f xs s = Inr u \<and> fold_outcome f ys u = Inr s'"
  by (induction xs arbitrary: s) (auto simp: and_then_eq_Inr)

text \<open>
  The sums of a proposal after a run: those of the votes cast since its creation in the run.
\<close>

theorem run_counts:
  assumes "store_ok (ge_store env)" and "creates env pid c"
    and "fold_outcome (handle_governor env) (before @ c # later) (empty_world, t) = Inr (w, t')"
    and "\<forall>l \<in> set before \<union> set later. \<not> creates env pid l"
  shows "tallied pid (log_id c) (\<lambda>k. cast_weight env pid k (c # later)) w \<and> governed w"
proof -
  obtain a ta where a: "fold_outcome (handle_governor env) before (empty_world, t) = Inr (a, ta)"
    and rest: "fold_outcome (handle_governor env) (c # later) (a, ta) = Inr (w, t')"
    using fold_outcome_append_Inr [OF assms(3)] by force
  obtain b tb where b: "handle_governor env c (a, ta) = Inr (b, tb)"
    and later: "fold_outcome (handle_governor env) later (b, tb) = Inr (w, t')"
    using rest by (auto simp: and_then_eq_Inr)
  have "unborn pid empty_world" by (simp add: unborn_def empty_world_def rows_def)
  moreover have "counts pid (log_id c) (concat (map (votes_in env) before)) empty_world a \<and> governed a"
    using logs_count [OF assms(1) governed_empty a] assms(4) by blast
  ultimately have ga: "unborn pid a" "governed a" by (simp_all add: counts_def)
  have "tallied pid (log_id c) (\<lambda>k. cast_weight env pid k [c]) b"
    by (rule creating_log_counts [OF assms(1) ga(2) b assms(2) ga(1)])
  moreover have "counts pid (log_id c) (concat (map (votes_in env) later)) b w \<and> governed w"
    using logs_count [OF assms(1) handle_governor_governed [OF assms(1) ga(2) b] later] assms(4) by blast
  ultimately have "tallied pid (log_id c) (\<lambda>k. cast_weight env pid k [c] +
      sum_list (map (weight_of pid k) (concat (map (votes_in env) later)))) w" "governed w"
    unfolding counts_def by blast+
  then show ?thesis by (simp add: cast_weight_def)
qed

text \<open>The row itself holds these sums.\<close>

corollary run_tally:
  assumes "store_ok (ge_store env)" and "creates env pid c"
    and "fold_outcome (handle_governor env) (before @ c # later) (empty_world, t) = Inr (w, t')"
    and "\<forall>l \<in> set before \<union> set later. \<not> creates env pid l"
  obtains p where "map_of (proposals w) (log_id c) = Some p" and "pr_proposalId p = pid"
    and "{q \<in> rows (proposals w). pr_proposalId q = pid} = {p}"
    and "nullish (pr_metricsVotesWeightForSum p) 0 = cast_weight env pid 1 (c # later)"
    and "nullish (pr_metricsVotesWeightAgainstSum p) 0 = cast_weight env pid 0 (c # later)"
    and "nullish (pr_metricsVotesWeightAbstainSum p) 0 = cast_weight env pid 2 (c # later)"
proof -
  have r: "tallied pid (log_id c) (\<lambda>k. cast_weight env pid k (c # later)) w" "governed w"
    using run_counts [OF assms] by blast+
  then obtain p where p: "p \<in> rows (proposals w)" "pr_id p = log_id c" "pr_proposalId p = pid"
    and only: "\<forall>q \<in> rows (proposals w). pr_proposalId q = pid \<longrightarrow> pr_id q = log_id c"
    and f: "\<And>k. weight_on (refers_to (log_id c)) k (voteCastGroups w) = cast_weight env pid k (c # later)"
    unfolding tallied_def by blast
  have k: "keyed pr_id (proposals w)" using governed_keyed [OF r(2)] by (simp add: keyed_world_def)
  have "q = p" if "q \<in> rows (proposals w)" "pr_proposalId q = pid" for q
  proof -
    have "pr_id q = log_id c" using that only by blast
    with that(1) p(1,2) k show ?thesis by (simp add: keyed_rows)
  qed
  then have single: "{q \<in> rows (proposals w). pr_proposalId q = pid} = {p}" using p by blast
  have "proposal_tally p (voteCastGroups w)" using r(2) p(1) by (simp add: governed_def tally_inv_def)
  with p f k that [OF _ p(3) single] show thesis by (simp add: proposal_tally_def keyed_rows)
qed

end
