(* ===== verification/IndexerMain.thy ===== *)
theory IndexerMain
  imports TokenEvents AttestationClaims GovernorClaims
begin

text \<open>
  \<open>packages/indexer/src/main.ts\<close> and \<open>packages/indexer/src/datasource.ts\<close>: the configuration of the
  indexer, the choice of the endpoints, and the loop that hands each log of a batch to the
  handler of its contract. The batch processor, the YAML parser and the reading of the file are
  outside the repository: the batch, the parsed document and the outcome of each attempt to read
  are arguments.
\<close>

section \<open>The configuration\<close>

record IndexerProcessorConfig =
  cf_chainId :: int
  cf_rpcs :: "string list"
  cf_finalityConfirmation :: int
  cf_capacity :: int
  cf_maxBatchCallSize :: int
  cf_gateway :: "string option"
  cf_startBlock :: int
  cf_endBlock :: "int option"
  cf_works :: "IndexerWork list"
  cf_running :: bool

text \<open>A contract of the document is its address, or an object with an address and a standard.\<close>

datatype yaml_contract =
    ContractText string
  | ContractObject string "string option"

record degov_config =
  dg_chain_id :: int
  dg_chain_rpcs :: "string list option"
  dg_code :: string
  dg_indexer_rpc :: "string option"
  dg_indexer_finalityConfirmation :: "int option"
  dg_indexer_capacity :: "int option"
  dg_indexer_maxBatchCallSize :: "int option"
  dg_indexer_gateway :: "string option"
  dg_indexer_startBlock :: int
  dg_indexer_endBlock :: "int option"
  dg_contracts :: "(string \<times> yaml_contract) list"

definition indexed_names :: "string list" where
  "indexed_names = [''governor'', ''governorToken'', ''igraToken'', ''attestation'']"

definition index_contract :: "string \<Rightarrow> yaml_contract \<Rightarrow> IndexerContract" where
  "index_contract item c =
     \<lparr>ic_name = item,
      ic_address = (case c of ContractText a \<Rightarrow> a | ContractObject a _ \<Rightarrow> a),
      ic_standard = (case c of ContractText _ \<Rightarrow> None | ContractObject _ s \<Rightarrow> s)\<rparr>"

definition packDataSource :: "degov_config \<Rightarrow> IndexerProcessorConfig outcome" where
  "packDataSource degovConfig =
     (let rpcs = nullish (dg_chain_rpcs degovConfig) [];
          rpcs = (if truthy (dg_indexer_rpc degovConfig)
                  then the (dg_indexer_rpc degovConfig) # rpcs else rpcs)
      in if rpcs = [] then Inl (ThrownError ''no rpc found in degov config'')
         else Inr \<lparr>
           cf_chainId = dg_chain_id degovConfig, cf_rpcs = rpcs,
           cf_finalityConfirmation = nullish (dg_indexer_finalityConfirmation degovConfig) 50,
           cf_capacity = nullish (dg_indexer_capacity degovConfig) 30,
           cf_maxBatchCallSize = nullish (dg_indexer_maxBatchCallSize degovConfig) 200,
           cf_gateway = dg_indexer_gateway degovConfig,
           cf_startBlock = dg_indexer_startBlock degovConfig,
           cf_endBlock = dg_indexer_endBlock degovConfig,
           cf_works = [\<lparr>iw_daoCode = dg_code degovConfig,
             iw_contracts = map (\<lambda>(item, c). index_contract item c)
               (filter (\<lambda>(item, c). list_ex (\<lambda>n. n = item) indexed_names) (dg_contracts degovConfig))\<rparr>],
           cf_running = True\<rparr>)"

text \<open>
  \<open>readDegovConfigRaw\<close>: at most three attempts; \<open>attempt n\<close> is the outcome of the \<open>n\<close>-th, from the
  network or the file system.
\<close>

function readConfig :: "(nat \<Rightarrow> string outcome) \<Rightarrow> nat \<Rightarrow> string outcome" where
  "readConfig attempt tries =
     (let tries = tries + 1
      in if tries > 3 then Inl (ThrownError ''cannot read config file'')
         else case attempt tries of Inr raw \<Rightarrow> Inr raw | Inl _ \<Rightarrow> readConfig attempt tries)"
  by auto
termination by (relation "measure (\<lambda>(_, tries). 4 - tries)") auto

declare readConfig.simps [simp del]

definition readDegovConfigRaw :: "(nat \<Rightarrow> string outcome) \<Rightarrow> string outcome" where
  "readDegovConfigRaw attempt = readConfig attempt 0"

definition processorConfig ::
    "(nat \<Rightarrow> string outcome) \<Rightarrow> (string \<Rightarrow> degov_config outcome) \<Rightarrow> IndexerProcessorConfig outcome" where
  "processorConfig attempt yaml_parse =
     and_then (readDegovConfigRaw attempt) (\<lambda>raw. and_then (yaml_parse raw) packDataSource)"

section \<open>The endpoints\<close>

text \<open>\<open>replace(/\r\n|\n/g, ",")\<close>\<close>

fun commas :: "string \<Rightarrow> string" where
  "commas [] = []"
| "commas [c] = [if c = CHR 0x0A then CHR '','' else c]"
| "commas (c # d # s) =
     (if c = CHR 0x0D \<and> d = CHR 0x0A then CHR '','' # commas s
      else (if c = CHR 0x0A then CHR '','' else c) # commas (d # s))"

definition envRpcs :: "string option \<Rightarrow> string list" where
  "envRpcs raw =
     (if truthy raw
      then filter (\<lambda>url. url \<noteq> []) (map trim (split_on (CHR '','') (commas (the raw))))
      else [])"

definition selectedRpcs :: "string option \<Rightarrow> string list \<Rightarrow> int \<Rightarrow> string list outcome" where
  "selectedRpcs raw configRpcs chainId =
     (if envRpcs raw \<noteq> [] then Inr (envRpcs raw)
      else if configRpcs \<noteq> [] then Inr configRpcs
      else Inl (ThrownError (''No RPC endpoints configured. Checked config file and environment variable \"CHAIN_RPC_''
        @ decimal chainId @ ''\".'')))"

text \<open>\<open>random\<close> is \<open>Math.random()\<close>, a double from zero up to but excluding one.\<close>

definition pickedRpc :: "(real \<Rightarrow> real) \<Rightarrow> real \<Rightarrow> string list \<Rightarrow> string option" where
  "pickedRpc fl random selected =
     (let i = nat \<lfloor>fl (random * real (length selected))\<rfloor>
      in if i < length selected then Some (selected ! i) else None)"

section \<open>The loop over a batch\<close>

record indexer_env =
  ie_store :: store
  ie_tokenCodec :: token_codec
  ie_governorCodec :: governor_codec
  ie_attestationCodec :: attestation_codec
  ie_config :: IndexerProcessorConfig
  ie_envRpcs :: "string list"
  ie_net :: rpc_net
  ie_textPlus :: text_plus
  ie_now :: int
  ie_storedAt :: int
  ie_fl :: "real \<Rightarrow> real"
  ie_numberText :: "real \<Rightarrow> string"
  ie_syncEndpoint :: "string option"
  ie_syncAuthToken :: "string option"

definition token_options :: "indexer_env \<Rightarrow> IndexerWork \<Rightarrow> IndexerContract \<Rightarrow> token_env" where
  "token_options env work indexContract =
     \<lparr>te_store = ie_store env, te_codec = ie_tokenCodec env, te_work = work,
      te_indexContract = indexContract, te_syncEndpoint = ie_syncEndpoint env,
      te_syncAuthToken = ie_syncAuthToken env\<rparr>"

definition governor_options :: "indexer_env \<Rightarrow> IndexerWork \<Rightarrow> IndexerContract \<Rightarrow> governor_env" where
  "governor_options env work indexContract =
     \<lparr>ge_store = ie_store env, ge_codec = ie_governorCodec env,
      ge_chainId = cf_chainId (ie_config env),
      ge_rpcs = set_order (cf_rpcs (ie_config env) @ ie_envRpcs env),
      ge_work = work, ge_indexContract = indexContract, ge_net = ie_net env,
      ge_textPlus = ie_textPlus env, ge_now = ie_now env, ge_storedAt = ie_storedAt env,
      ge_fl = ie_fl env, ge_numberText = ie_numberText env\<rparr>"

definition attestation_options :: "indexer_env \<Rightarrow> attestation_env" where
  "attestation_options env = \<lparr>ae_store = ie_store env, ae_codec = ie_attestationCodec env\<rparr>"

definition on_world :: "(world \<Rightarrow> world outcome) \<Rightarrow> run_state \<Rightarrow> run_state outcome" where
  "on_world f = (\<lambda>(w, t). and_then (f w) (\<lambda>w. Inr (w, t)))"

definition find_contract :: "IndexerWork \<Rightarrow> EvmLog \<Rightarrow> IndexerContract option" where
  "find_contract work event =
     find (\<lambda>item. to_lower (ic_address item) = to_lower (log_address event)) (iw_contracts work)"

definition process_work :: "indexer_env \<Rightarrow> EvmLog \<Rightarrow> IndexerWork \<Rightarrow> run_state \<Rightarrow> run_state outcome" where
  "process_work env event work s =
     (case find_contract work event of
        None \<Rightarrow> Inr s
      | Some indexContract \<Rightarrow>
          if ic_name indexContract = ''governor''
          then handle_governor (governor_options env work indexContract) event s
          else if ic_name indexContract = ''governorToken''
          then on_world (handle_token (token_options env work indexContract) event) s
          else if ic_name indexContract = ''igraToken''
          then on_world (handle_token (token_options env work indexContract) event) s
          else if ic_name indexContract = ''attestation''
          then on_world (handle_attestation (attestation_options env) event) s
          else Inr s)"

definition process_log :: "indexer_env \<Rightarrow> EvmLog \<Rightarrow> run_state \<Rightarrow> run_state outcome" where
  "process_log env event = fold_outcome (process_work env event) (cf_works (ie_config env))"

definition process_batch :: "indexer_env \<Rightarrow> EvmLog list list \<Rightarrow> run_state \<Rightarrow> run_state outcome" where
  "process_batch env = fold_outcome (fold_outcome (process_log env))"

end
