(* ===== verification/IndexerClaims.thy ===== *)
theory IndexerClaims
  imports IndexerMain TokenDemo
begin

text \<open>
  The properties of the indexer as a whole: the accounts and the tallies hold together over any
  run, the grouping of the logs into blocks and batches does not matter, and the configuration
  yields the contracts and endpoints it names.
\<close>

section \<open>The handlers together\<close>

lemma token_keeps_tallies:
  assumes "tally_inv w" and "same_votes w w'" and "keyed_world w'"
  shows "tally_inv w'"
  using assms by (simp add: tally_inv_def same_votes_def global_tally_def vote_fields_def)

lemma token_keeps_governed:
  assumes "store_ok (te_store env)" and "codec_ok (te_codec env)" and "governed w"
    and "handle_token env l w = Inr w'"
  shows "governed w'"
proof -
  have "token_inv w" "tally_inv w" using assms(3) by (simp_all add: governed_def)
  moreover from handle_token_step [OF assms(1,2) this(1) assms(4)]
  have "token_inv w'" "same_votes w w'" by (simp_all add: same_events_but_def)
  ultimately show ?thesis using token_keeps_tallies token_invD(1) by (auto simp: governed_def)
qed

definition indexer_ok :: "indexer_env \<Rightarrow> bool" where
  "indexer_ok env \<longleftrightarrow> store_ok (ie_store env) \<and> codec_ok (ie_tokenCodec env) \<and> rounding (ie_fl env) \<and>
     list_all (\<lambda>work. list_all (\<lambda>c. ic_name c \<noteq> ''attestation'') (iw_contracts work))
       (cf_works (ie_config env))"

lemma token_options_simps [simp]:
  "te_store (token_options env work c) = ie_store env"
  "te_codec (token_options env work c) = ie_tokenCodec env"
  by (simp_all add: token_options_def)

lemma governor_options_simps [simp]: "ge_store (governor_options env work c) = ie_store env"
  by (simp add: governor_options_def)

lemma process_work_keeps:
  assumes "indexer_ok env" and "work \<in> set (cf_works (ie_config env))" and "governed (fst s)"
    and "process_work env l work s = Inr s'"
  shows "governed (fst s')"
proof (cases "find_contract work l")
  case None
  with assms show ?thesis by (simp add: process_work_def)
next
  case (Some c)
  from assms(1) have ok: "store_ok (ie_store env)" "codec_ok (ie_tokenCodec env)"
    by (simp_all add: indexer_ok_def)
  have "c \<in> set (iw_contracts work)" using Some by (auto simp: find_contract_def dest: found_in_list)
  with assms(1,2) have na: "ic_name c \<noteq> ''attestation''"
    by (auto simp: indexer_ok_def list_all_iff)
  have tok: "governed (fst s')"
    if "on_world (handle_token (token_options env work c) l) s = Inr s'"
    using that token_keeps_governed [of "token_options env work c" "fst s" l "fst s'"] ok assms(3)
    by (cases s) (auto simp: on_world_def and_then_eq_Inr)
  have gov: "governed (fst s')" if "handle_governor (governor_options env work c) l s = Inr s'"
    using that handle_governor_keeps [of "governor_options env work c" s l] ok assms(3)
    by (simp add: keeps_run_def)
  show ?thesis
    using assms(4) Some na tok gov assms(3) by (auto simp: process_work_def split: if_splits)
qed

lemma process_log_keeps:
  assumes "indexer_ok env" and "governed (fst s)" and "process_log env l s = Inr s'"
  shows "governed (fst s')"
  using assms(3,2) unfolding process_log_def
  by (rule fold_outcome_invariant [where I = "\<lambda>s. governed (fst s)"])
    (rule process_work_keeps [OF assms(1)])

section \<open>Batches\<close>

lemma fold_outcome_concat: "fold_outcome (fold_outcome f) xss s = fold_outcome f (concat xss) s"
  by (induction xss arbitrary: s) (simp_all add: fold_outcome_append cong: and_then_cong)

text \<open>
  How the logs are grouped into blocks does not matter: two lists of blocks with the same logs
  in the same order have the same outcome, the exception included, and a batch processed after
  another is the batch of both.
\<close>

theorem process_batch_grouping:
  "process_batch env blocks s = fold_outcome (process_log env) (concat blocks) s \<and>
   process_batch env (blocks @ blocks') s =
     and_then (process_batch env blocks s) (process_batch env blocks')"
  by (simp add: process_batch_def fold_outcome_concat fold_outcome_append)

text \<open>
  C4: The accounts and the tallies hold together. After any batches from the empty database, with
  governor and token contracts in any number of works that share it, the power of every
  contributor is the sum of the delegations to it, the protocol's total the sum over the
  contributors, the member count their number, and the counters of the proposals and of the
  protocol are the sums over the stored votes: no handler disturbs what another one keeps.
\<close>

theorem process_batch_consistent:
  assumes "store_ok (ie_store env)" and "codec_ok (ie_tokenCodec env)" and "rounding (ie_fl env)"
    and "list_all (\<lambda>work. list_all (\<lambda>c. ic_name c \<noteq> ''attestation'') (iw_contracts work))
      (cf_works (ie_config env))"
    and "process_batch env blocks (empty_world, t) = Inr (w, t')"
  shows "row_value co_power (contributors w) k = delegated_to k (delegates w) \<and>
    powerSum_of (dataMetrics w) = table_sum co_power (contributors w) \<and>
    memberCount_of (dataMetrics w) = int (length (contributors w)) \<and>
    (\<forall>p \<in> rows (proposals w). proposal_tally p (voteCastGroups w)) \<and>
    global_tally (metric_or_new (map_of (dataMetrics w) global_id)) (proposals w) (voteCastGroups w)"
proof -
  have ok: "indexer_ok env" using assms(1-4) by (simp add: indexer_ok_def)
  have "fold_outcome (process_log env) (concat blocks) (empty_world, t) = Inr (w, t')"
    using assms(5) by (simp add: process_batch_def fold_outcome_concat)
  then have "governed (fst (w, t'))"
    by (rule fold_outcome_invariant [where I = "\<lambda>s. governed (fst s)"])
      (auto simp: governed_empty intro: process_log_keeps [OF ok])
  then show ?thesis
    by (simp add: governed_def token_inv_def ledger_inv_def members_inv_def tally_inv_def)
qed

definition demo_work :: IndexerWork where
  "demo_work = \<lparr>iw_daoCode = ''demo'', iw_contracts = [demo_governor_contract, demo_contract]\<rparr>"

definition demo_indexer :: indexer_env where
  "demo_indexer = \<lparr>ie_store = table_store, ie_tokenCodec = demo_codec,
     ie_governorCodec = demo_governor_codec, ie_attestationCodec = demo_stake_codec,
     ie_config = \<lparr>cf_chainId = 46, cf_rpcs = [''a''], cf_finalityConfirmation = 50, cf_capacity = 30,
       cf_maxBatchCallSize = 200, cf_gateway = None, cf_startBlock = 0, cf_endBlock = None,
       cf_works = [demo_work],
       cf_running = True\<rparr>,
     ie_envRpcs = [], ie_net = dead_net,
     ie_textPlus = \<lparr>tp_apiKey = None, tp_generate = (\<lambda>_. Inl (ThrownError []))\<rparr>,
     ie_now = 5000, ie_storedAt = 5000, ie_fl = (\<lambda>x. x), ie_numberText = (\<lambda>x. decimal \<lfloor>x\<rfloor>),
     ie_syncEndpoint = None, ie_syncAuthToken = None\<rparr>"

lemma demo_indexer_simps [simp]:
  "ie_tokenCodec demo_indexer = demo_codec" "ie_store demo_indexer = table_store"
  by (simp_all add: demo_indexer_def)

lemma demo_indexer_find:
  "find_contract demo_work (demo_transfer i f t c) = Some demo_contract"
proof -
  have "to_lower ''0x1'' \<noteq> to_lower ''0x7''" by code_simp
  then show ?thesis
    by (simp add: find_contract_def demo_work_def demo_governor_contract_def demo_contract_def
        demo_transfer_def demo_log_def)
qed

theorem process_batch_consistent_witness:
  "\<exists>w t'. process_batch demo_indexer [[demo_transfer ''1'' alice bob ''xx'']] (empty_world, warm_tool) =
     Inr (w, t') \<and> powerSum_of (dataMetrics w) = table_sum co_power (contributors w)"
proof -
  let ?l = "demo_transfer ''1'' alice bob ''xx''" and ?w = demo_work
  have one: "cf_works (ie_config demo_indexer) = [?w]" by (simp add: demo_indexer_def)
  let ?o = "token_options demo_indexer ?w demo_contract"
  have o: "contractStandard ?o = ''erc20''" "itokenAbi ?o = Itokenerc20"
    using demo_standard by (simp_all add: contractStandard_def itokenAbi_def token_options_def demo_env_def)
  have ready: "token_ready ?o ?l empty_world" by (simp add: token_ready_def o)
  have "store_ok (te_store ?o)" "codec_ok (te_codec ?o)" by simp_all
  from handle_token_returns [OF this token_inv_empty ready]
  obtain w where "handle_token ?o ?l empty_world = Inr w" by blast
  then have run: "process_batch demo_indexer [[?l]] (empty_world, warm_tool) = Inr (w, warm_tool)"
    by (simp add: process_batch_def process_log_def one process_work_def demo_indexer_find
        on_world_def) (simp add: demo_contract_def)
  have "store_ok (ie_store demo_indexer)" "codec_ok (ie_tokenCodec demo_indexer)"
    "rounding (ie_fl demo_indexer)"
    "list_all (\<lambda>work. list_all (\<lambda>c. ic_name c \<noteq> ''attestation'') (iw_contracts work))
      (cf_works (ie_config demo_indexer))"
    by (simp_all add: demo_indexer_def demo_work_def rounding_exact demo_governor_contract_def
        demo_contract_def)
  from process_batch_consistent [OF this run] run show ?thesis by blast
qed

section \<open>The configuration\<close>

lemma readConfig_unfold:
  "readConfig attempt 0 = (case attempt 1 of Inr raw \<Rightarrow> Inr raw | Inl _ \<Rightarrow> readConfig attempt 1)"
  "readConfig attempt 1 = (case attempt 2 of Inr raw \<Rightarrow> Inr raw | Inl _ \<Rightarrow> readConfig attempt 2)"
  "readConfig attempt 2 = (case attempt 3 of Inr raw \<Rightarrow> Inr raw | Inl _ \<Rightarrow> readConfig attempt 3)"
  "readConfig attempt 3 = Inl (ThrownError ''cannot read config file'')"
  by (subst readConfig.simps, simp add: Let_def del: One_nat_def split: sum.split)+

text \<open>
  Reading the configuration returns: the first success of at most three attempts, or an error
  when all three fail. The configuration that is made of it has the indexer's own endpoint first,
  exists exactly when there is some endpoint, and its work has one contract for each of the four
  names that occurs in the document, with its address, whether the contract is written as a
  text or as an object.
\<close>

theorem processorConfig_contracts:
  "readDegovConfigRaw attempt =
     (case attempt 1 of Inr raw \<Rightarrow> Inr raw | Inl _ \<Rightarrow>
       case attempt 2 of Inr raw \<Rightarrow> Inr raw | Inl _ \<Rightarrow>
         case attempt 3 of Inr raw \<Rightarrow> Inr raw | Inl _ \<Rightarrow> Inl (ThrownError ''cannot read config file'')) \<and>
   (case packDataSource d of
      Inl _ \<Rightarrow> \<not> truthy (dg_indexer_rpc d) \<and> nullish (dg_chain_rpcs d) [] = []
    | Inr cf \<Rightarrow> cf_rpcs cf \<noteq> [] \<and>
        (if truthy (dg_indexer_rpc d) then hd (cf_rpcs cf) = the (dg_indexer_rpc d)
         else cf_rpcs cf = nullish (dg_chain_rpcs d) []) \<and>
        concat (map (\<lambda>work. map (\<lambda>c. (ic_name c, ic_address c)) (iw_contracts work)) (cf_works cf)) =
          map (\<lambda>(item, c). (item, case c of ContractText a \<Rightarrow> a | ContractObject a _ \<Rightarrow> a))
            (filter (\<lambda>(item, c). item \<in> {''governor'', ''governorToken'', ''igraToken'', ''attestation''})
              (dg_contracts d)))"
proof -
  have "readDegovConfigRaw attempt =
     (case attempt 1 of Inr raw \<Rightarrow> Inr raw | Inl _ \<Rightarrow>
       case attempt 2 of Inr raw \<Rightarrow> Inr raw | Inl _ \<Rightarrow>
         case attempt 3 of Inr raw \<Rightarrow> Inr raw | Inl _ \<Rightarrow> Inl (ThrownError ''cannot read config file''))"
    by (simp only: readDegovConfigRaw_def readConfig_unfold)
  moreover have names: "list_ex (\<lambda>n. n = item) indexed_names =
      (item \<in> {''governor'', ''governorToken'', ''igraToken'', ''attestation''})" for item
    by (auto simp: indexed_names_def)
  have "map (\<lambda>c. (ic_name c, ic_address c)) (map (\<lambda>(item, c). index_contract item c) xs) =
      map (\<lambda>(item, c). (item, case c of ContractText a \<Rightarrow> a | ContractObject a _ \<Rightarrow> a)) xs" for xs
    by (induction xs) (auto simp: index_contract_def)
  then show ?thesis
    using calculation by (simp add: packDataSource_def Let_def names) (auto simp: index_contract_def)
qed

end
