(* ===== verification/KgiModel.thy ===== *)
theory KgiModel
  imports Prelude JsText
begin

text \<open>
  The data of the DAG viewer (\<open>web/src/model\<close> of the graph inspector): blocks, edges, height
  groups and the bundle of the three that every data source answers with; the equality tests that
  decide whether a redraw is needed; and the two look-ups between heights and DAA scores that the
  timeline navigates with. Ids, heights and scores are whole numbers; a missing id is \<open>None\<close>.
\<close>

datatype BlockColor = GRAY | RED | BLUE

record Block =
  block_id :: int
  blockHash :: string
  timestamp :: int
  parentIds :: "int list"
  height :: int
  daaScore :: int
  heightGroupIndex :: int
  selectedParentId :: "int option"
  color :: BlockColor
  isInVirtualSelectedParentChain :: bool
  mergeSetRedIds :: "int list"
  mergeSetBlueIds :: "int list"

record Edge =
  fromBlockId :: int
  toBlockId :: int
  fromHeight :: int
  toHeight :: int
  fromHeightGroupIndex :: int
  toHeightGroupIndex :: int

record HeightGroup =
  group_height :: int
  group_size :: int

record BlockHashById =
  hash_id :: "int option"
  hash_text :: "string option"

record Bundle =
  blocks :: "Block list"
  edges :: "Edge list"
  heightGroups :: "HeightGroup list"

record AppConfig =
  kaspadVersion :: string
  processingVersion :: string
  network :: string
  apiVersion :: string
  webVersion :: string

section \<open>Equality tests\<close>

text \<open>The index loops of the source: the bound is the length of one of the two arrays.\<close>

definition same_at :: "('a \<Rightarrow> 'a \<Rightarrow> bool) \<Rightarrow> nat \<Rightarrow> 'a list \<Rightarrow> 'a list \<Rightarrow> bool" where
  "same_at eq n xs ys = list_all (\<lambda>i. eq (xs ! i) (ys ! i)) [0..<n]"

definition areBlocksEqual :: "Block \<Rightarrow> Block \<Rightarrow> bool" where
  "areBlocksEqual l r =
     (if length (parentIds l) \<noteq> length (parentIds r) then False
      else if length (mergeSetRedIds l) \<noteq> length (mergeSetRedIds r) then False
      else if length (mergeSetBlueIds l) \<noteq> length (mergeSetBlueIds r) then False
      else if \<not> same_at (=) (length (parentIds l)) (parentIds l) (parentIds r) then False
      else if \<not> same_at (=) (length (mergeSetRedIds l)) (mergeSetRedIds l) (mergeSetRedIds r)
        then False
      else if \<not> same_at (=) (length (mergeSetBlueIds r)) (mergeSetBlueIds l) (mergeSetBlueIds r)
        then False
      else block_id l = block_id r \<and> blockHash l = blockHash r \<and> timestamp l = timestamp r \<and>
        height l = height r \<and> daaScore l = daaScore r \<and>
        heightGroupIndex l = heightGroupIndex r \<and> selectedParentId l = selectedParentId r \<and>
        color l = color r \<and>
        isInVirtualSelectedParentChain l = isInVirtualSelectedParentChain r)"

definition areEdgesEqual :: "Edge \<Rightarrow> Edge \<Rightarrow> bool" where
  "areEdgesEqual l r \<longleftrightarrow>
     fromBlockId l = fromBlockId r \<and> toBlockId l = toBlockId r \<and> fromHeight l = fromHeight r \<and>
     toHeight l = toHeight r \<and> fromHeightGroupIndex l = fromHeightGroupIndex r \<and>
     toHeightGroupIndex l = toHeightGroupIndex r"

definition areHeightGroupsEqual :: "HeightGroup \<Rightarrow> HeightGroup \<Rightarrow> bool" where
  "areHeightGroupsEqual l r \<longleftrightarrow> group_height l = group_height r \<and> group_size l = group_size r"

definition areBlocksAndEdgesAndHeightGroupsEqual :: "Bundle \<Rightarrow> Bundle \<Rightarrow> bool" where
  "areBlocksAndEdgesAndHeightGroupsEqual l r =
     (if length (blocks l) \<noteq> length (blocks r) then False
      else if length (edges l) \<noteq> length (edges r) then False
      else if length (heightGroups l) \<noteq> length (heightGroups r) then False
      else if \<not> same_at areBlocksEqual (length (blocks l)) (blocks l) (blocks r) then False
      else if \<not> same_at areEdgesEqual (length (edges l)) (edges l) (edges r) then False
      else if \<not> same_at areHeightGroupsEqual (length (heightGroups l))
                 (heightGroups l) (heightGroups r) then False
      else True)"

definition areAppConfigsEqual :: "AppConfig \<Rightarrow> AppConfig \<Rightarrow> bool" where
  "areAppConfigsEqual l r \<longleftrightarrow>
     kaspadVersion l = kaspadVersion r \<and> processingVersion l = processingVersion r \<and>
     network l = network r \<and> apiVersion l = apiVersion r \<and> webVersion l = webVersion r"

definition getDefaultAppConfig :: "string \<Rightarrow> AppConfig" where
  "getDefaultAppConfig packageVersion =
     \<lparr>kaspadVersion = ''n/a'', processingVersion = ''n/a'', network = ''n/a'', apiVersion = ''n/a'',
      webVersion = packageVersion\<rparr>"

definition isTestnet :: "AppConfig \<Rightarrow> bool" where
  "isTestnet c = starts_with (network c) ''kaspa-testnet''"

definition isMainnet :: "AppConfig \<Rightarrow> bool" where
  "isMainnet c \<longleftrightarrow> network c = ''kaspa-mainnet''"

section \<open>Heights and DAA scores\<close>

definition MAX_SAFE_INTEGER :: int where
  "MAX_SAFE_INTEGER = 9007199254740991"

fun min_height_loop :: "HeightGroup list \<Rightarrow> int \<Rightarrow> int" where
  "min_height_loop [] h = h"
| "min_height_loop (g # gs) h = min_height_loop gs (min h (group_height g))"

definition getMinHeight :: "Bundle \<Rightarrow> int" where
  "getMinHeight d = min_height_loop (heightGroups d) MAX_SAFE_INTEGER"

fun max_height_loop :: "HeightGroup list \<Rightarrow> int \<Rightarrow> int" where
  "max_height_loop [] h = h"
| "max_height_loop (g # gs) h = max_height_loop gs (max h (group_height g))"

definition getMaxHeight :: "Bundle \<Rightarrow> int" where
  "getMaxHeight d = max_height_loop (heightGroups d) (- 1)"

fun score_loop :: "int \<Rightarrow> Block list \<Rightarrow> int \<Rightarrow> int" where
  "score_loop h [] score = score"
| "score_loop h (b # bs) score =
     score_loop h bs
       (if height b = h then
          if isInVirtualSelectedParentChain b \<or> score = 0 then daaScore b else score
        else score)"

definition getHeightGroupDAAScore :: "Bundle \<Rightarrow> int \<Rightarrow> int" where
  "getHeightGroupDAAScore d h = score_loop h (blocks d) 0"

function height_scan :: "Bundle \<Rightarrow> int \<Rightarrow> int \<Rightarrow> int \<Rightarrow> int" where
  "height_scan d score i maxHeight =
     (if i \<le> maxHeight then
        if getHeightGroupDAAScore d i \<ge> score then i else height_scan d score (i + 1) maxHeight
      else maxHeight)"
  by pat_completeness auto
termination by (relation "measure (\<lambda>(d, score, i, m). nat (m + 1 - i))") auto

declare height_scan.simps [simp del]

definition getDAAScoreGroupHeight :: "Bundle \<Rightarrow> int \<Rightarrow> int" where
  "getDAAScoreGroupHeight d score = height_scan d score (getMinHeight d) (getMaxHeight d)"

section \<open>Children\<close>

definition getBlockById :: "Bundle option \<Rightarrow> int \<Rightarrow> Block option" where
  "getBlockById data i =
     (case data of None \<Rightarrow> None | Some d \<Rightarrow> find (\<lambda>b. block_id b = i) (blocks d))"

fun child_loop :: "Bundle \<Rightarrow> int \<Rightarrow> Edge list \<Rightarrow> int list \<times> int option \<Rightarrow> int list \<times> int option" where
  "child_loop d i [] acc = acc"
| "child_loop d i (e # es) (children, selectedChild) =
     child_loop d i es
       (if toBlockId e = i then
          (children @ [fromBlockId e],
           case getBlockById (Some d) (fromBlockId e) of
             None \<Rightarrow> selectedChild
           | Some b \<Rightarrow> if isInVirtualSelectedParentChain b then Some (block_id b) else selectedChild)
        else (children, selectedChild))"

definition getBlockChildIds :: "Bundle option \<Rightarrow> Block \<Rightarrow> int list \<times> int option" where
  "getBlockChildIds data b =
     (case data of None \<Rightarrow> ([], None) | Some d \<Rightarrow> child_loop d (block_id b) (edges d) ([], None))"

section \<open>What the equality tests and look-ups compute\<close>

lemma same_at_iff:
  "length xs = n \<Longrightarrow> length ys = n \<Longrightarrow> same_at eq n xs ys \<longleftrightarrow> list_all2 eq xs ys"
  by (auto simp: same_at_def list_all_iff list_all2_conv_all_nth)

lemma same_at_eq: "length xs = n \<Longrightarrow> length ys = n \<Longrightarrow> same_at (=) n xs ys \<longleftrightarrow> xs = ys"
  by (simp add: same_at_iff list.rel_eq)

lemma areBlocksEqual_iff: "areBlocksEqual l r \<longleftrightarrow> l = r"
proof
  assume "areBlocksEqual l r"
  then have "l = r" if "Block.more l = Block.more r"
    using that by (auto simp: areBlocksEqual_def same_at_eq split: if_splits intro!: Block.equality)
  then show "l = r" by simp
next
  assume "l = r"
  then show "areBlocksEqual l r" by (simp add: areBlocksEqual_def same_at_eq)
qed

lemma areEdgesEqual_iff: "areEdgesEqual l r \<longleftrightarrow> l = r"
  by (auto simp: areEdgesEqual_def intro: Edge.equality)

lemma areHeightGroupsEqual_iff: "areHeightGroupsEqual l r \<longleftrightarrow> l = r"
  by (auto simp: areHeightGroupsEqual_def intro: HeightGroup.equality)

lemma areAppConfigsEqual_iff: "areAppConfigsEqual l r \<longleftrightarrow> l = r"
  by (auto simp: areAppConfigsEqual_def intro: AppConfig.equality)

lemmas record_tests = areBlocksEqual_iff areEdgesEqual_iff areHeightGroupsEqual_iff

lemma bundle_equal_iff: "areBlocksAndEdgesAndHeightGroupsEqual l r \<longleftrightarrow> l = r"
proof -
  have eqs: "areBlocksEqual = (=)" "areEdgesEqual = (=)" "areHeightGroupsEqual = (=)"
    by (auto simp: fun_eq_iff record_tests)
  show ?thesis
    by (auto simp: areBlocksAndEdgesAndHeightGroupsEqual_def eqs same_at_eq intro: Bundle.equality)
qed

lemma min_height_le: "min_height_loop gs h \<le> h"
proof (induction gs arbitrary: h)
  case (Cons g gs)
  from Cons.IH [of "min h (group_height g)"] show ?case by simp
qed simp

lemma min_height_loop_le: "g \<in> set gs \<Longrightarrow> min_height_loop gs h \<le> group_height g"
proof (induction gs arbitrary: h)
  case (Cons g' gs)
  then show ?case
    using min_height_le [of gs "min h (group_height g')"] by auto
qed simp

lemma max_height_ge: "h \<le> max_height_loop gs h"
proof (induction gs arbitrary: h)
  case (Cons g gs)
  from Cons.IH [of "max h (group_height g)"] show ?case by simp
qed simp

lemma max_height_loop_ge: "g \<in> set gs \<Longrightarrow> group_height g \<le> max_height_loop gs h"
proof (induction gs arbitrary: h)
  case (Cons g' gs)
  then show ?case
    using max_height_ge [of "max h (group_height g')" gs] by auto
qed simp

lemma getMinHeight_le: "g \<in> set (heightGroups d) \<Longrightarrow> getMinHeight d \<le> group_height g"
  by (simp add: getMinHeight_def min_height_loop_le)

lemma getMaxHeight_ge: "g \<in> set (heightGroups d) \<Longrightarrow> group_height g \<le> getMaxHeight d"
  by (simp add: getMaxHeight_def max_height_loop_ge)

lemma height_scan_finds:
  "i \<le> h \<Longrightarrow> h \<le> m \<Longrightarrow> score \<le> getHeightGroupDAAScore d h \<Longrightarrow>
   (\<And>j. i \<le> j \<Longrightarrow> j < h \<Longrightarrow> getHeightGroupDAAScore d j < score) \<Longrightarrow> height_scan d score i m = h"
proof (induction d score i m rule: height_scan.induct)
  case (1 d score i m)
  show ?case
  proof (cases "i = h")
    case True
    with 1(3,4) show ?thesis by (subst height_scan.simps) simp
  next
    case False
    with 1(2) have "i < h" by simp
    with 1 have "\<not> score \<le> getHeightGroupDAAScore d i" by force
    with 1 \<open>i < h\<close> show ?thesis by (simp add: height_scan.simps [of d score i m])
  qed
qed

lemma height_scan_least:
  "i \<le> m \<Longrightarrow>
   (let r = height_scan d score i m in
      i \<le> r \<and> r \<le> m \<and> (\<forall>j. i \<le> j \<longrightarrow> j < r \<longrightarrow> getHeightGroupDAAScore d j < score) \<and>
      (score \<le> getHeightGroupDAAScore d r \<or> r = m))"
proof (induction d score i m rule: height_scan.induct)
  case (1 d score i m)
  show ?case
  proof (cases "score \<le> getHeightGroupDAAScore d i")
    case True
    with 1(2) show ?thesis by (simp add: height_scan.simps [of d score i m])
  next
    case low: False
    show ?thesis
    proof (cases "i = m")
      case True
      have "height_scan d score i m = m"
        unfolding True by (subst height_scan.simps, subst height_scan.simps) simp
      with True show ?thesis by simp
    next
      case False
      with 1(2) have "i + 1 \<le> m" by simp
      let ?r = "height_scan d score (i + 1) m"
      have r: "height_scan d score i m = ?r" using low 1(2) by (subst height_scan.simps) simp
      from 1(1) [OF 1(2) low \<open>i + 1 \<le> m\<close>]
      have rec: "i + 1 \<le> ?r" "?r \<le> m" "score \<le> getHeightGroupDAAScore d ?r \<or> ?r = m"
        "\<And>j. i + 1 \<le> j \<Longrightarrow> j < ?r \<Longrightarrow> getHeightGroupDAAScore d j < score"
        by (auto simp: Let_def)
      have "getHeightGroupDAAScore d j < score" if "i \<le> j" "j < ?r" for j
        using that low rec(4) [of j] by (cases "j = i") auto
      with rec show ?thesis by (auto simp: r Let_def)
    qed
  qed
qed

lemma child_loop_children: "fst (child_loop d i es acc) =
  fst acc @ map fromBlockId (filter (\<lambda>e. toBlockId e = i) es)"
  by (induction d i es acc rule: child_loop.induct) auto

lemma getBlockById_Some: "getBlockById (Some d) i = Some b \<Longrightarrow> block_id b = i \<and> b \<in> set (blocks d)"
  by (auto simp: getBlockById_def find_Some_iff)

lemma child_loop_selected:
  "snd (child_loop d i es acc) = Some c \<Longrightarrow>
   snd acc = Some c \<or>
   (\<exists>b \<in> set (blocks d). block_id b = c \<and> isInVirtualSelectedParentChain b \<and>
      (\<exists>e \<in> set es. toBlockId e = i \<and> fromBlockId e = c))"
proof (induction d i es acc rule: child_loop.induct)
  case (1 d i acc)
  then show ?case by simp
next
  case (2 d i e es children selectedChild)
  show ?case
  proof (cases "toBlockId e = i")
    case False
    with 2 show ?thesis by auto
  next
    case True
    show ?thesis
    proof (cases "getBlockById (Some d) (fromBlockId e)")
      case None
      with True 2 show ?thesis by auto
    next
      case (Some b)
      note b = getBlockById_Some [OF Some]
      from True Some 2 b show ?thesis by (auto split: if_splits)
    qed
  qed
qed

end
