(* ===== verification/JsParse.thy ===== *)
theory JsParse
  imports Prelude JsText
begin

text \<open>
  Numbers read from text and arrays read by position, as the language does it: \<open>parseInt\<close> without
  a radix, \<open>Array.prototype.slice\<close> with its negative and not-a-number positions, \<open>join\<close> with one
  separator. A whole number that may be \<open>NaN\<close> (or come from \<open>undefined\<close>) is an \<open>int option\<close>; its
  comparisons are false on \<open>NaN\<close>.
\<close>

type_synonym js_int = "int option"

definition js_less :: "js_int \<Rightarrow> js_int \<Rightarrow> bool" where
  "js_less a b = (case (a, b) of (Some x, Some y) \<Rightarrow> x < y | _ \<Rightarrow> False)"

definition js_plus :: "js_int \<Rightarrow> js_int \<Rightarrow> js_int" where
  "js_plus a b = (case (a, b) of (Some x, Some y) \<Rightarrow> Some (x + y) | _ \<Rightarrow> None)"

definition js_minus :: "js_int \<Rightarrow> js_int \<Rightarrow> js_int" where
  "js_minus a b = (case (a, b) of (Some x, Some y) \<Rightarrow> Some (x - y) | _ \<Rightarrow> None)"

lemma js_int_simps [simp]:
  "js_less (Some x) (Some y) \<longleftrightarrow> x < y" "js_less None b = False" "js_less a None = False"
  "js_plus (Some x) (Some y) = Some (x + y)" "js_plus None b = None" "js_plus a None = None"
  "js_minus (Some x) (Some y) = Some (x - y)" "js_minus None b = None" "js_minus a None = None"
  by (auto simp: js_less_def js_plus_def js_minus_def split: option.splits)

section \<open>Slices\<close>

definition slice_position :: "nat \<Rightarrow> js_int \<Rightarrow> nat" where
  "slice_position n p =
     (case p of
        None \<Rightarrow> 0
      | Some i \<Rightarrow> if i < 0 then nat (max (int n + i) 0) else nat (min i (int n)))"

definition js_slice :: "'a list \<Rightarrow> js_int \<Rightarrow> js_int \<Rightarrow> 'a list" where
  "js_slice xs s e =
     (let k = slice_position (length xs) s; m = slice_position (length xs) e
      in take (m - k) (drop k xs))"

lemma slice_map: "js_slice (map f xs) s e = map f (js_slice xs s e)"
  by (simp add: js_slice_def Let_def take_map drop_map)

lemma slice_upt:
  "0 \<le> s \<Longrightarrow> 0 \<le> e \<Longrightarrow> js_slice [a..<b] (Some s) (Some e) = [a + nat s ..< min b (a + nat e)]"
  by (cases "nat s \<le> nat e") (auto simp: js_slice_def slice_position_def Let_def min_def take_upt nat_le_iff)

lemma slice_None [simp]: "js_slice xs s None = []"
  by (simp add: js_slice_def slice_position_def)

section \<open>Integers in text\<close>

definition hex_value :: "char \<Rightarrow> nat option" where
  "hex_value c =
     (let n = of_char c in
      if 48 \<le> n \<and> n \<le> 57 then Some (n - 48)
      else if 97 \<le> n \<and> n \<le> 102 then Some (n - 87)
      else if 65 \<le> n \<and> n \<le> 70 then Some (n - 55)
      else None)"

definition is_digit :: "nat \<Rightarrow> char \<Rightarrow> bool" where
  "is_digit base c = (case hex_value c of None \<Rightarrow> False | Some d \<Rightarrow> d < base)"

definition digits_value :: "nat \<Rightarrow> string \<Rightarrow> nat" where
  "digits_value base s = foldl (\<lambda>n c. n * base + the (hex_value c)) 0 s"

definition leading_int :: "nat \<Rightarrow> string \<Rightarrow> int option" where
  "leading_int base s =
     (let ds = takeWhile (is_digit base) s
      in if ds = [] then None else Some (int (digits_value base ds)))"

definition unsigned_int :: "string \<Rightarrow> int option" where
  "unsigned_int s =
     (if starts_with s ''0x'' \<or> starts_with s ''0X'' then leading_int 16 (drop 2 s)
      else leading_int 10 s)"

definition parseInt :: "string \<Rightarrow> js_int" where
  "parseInt s =
     (case trim_start s of
        [] \<Rightarrow> None
      | c # u \<Rightarrow>
          if c = CHR ''-'' then map_option uminus (unsigned_int u)
          else if c = CHR ''+'' then unsigned_int u
          else unsigned_int (c # u))"

lemma of_digit_char: "d < 10 \<Longrightarrow> (of_char (digit_char d) :: nat) = 48 + d"
  by (simp add: digit_char_def)

lemma hex_value_digit [simp]: "d < 10 \<Longrightarrow> hex_value (digit_char d) = Some d"
  by (simp add: hex_value_def of_digit_char Let_def)

lemma digit_char_facts:
  assumes "d < 10"
  shows "digit_char d \<noteq> CHR ''-''" and "digit_char d \<noteq> CHR ''+''" and "digit_char d \<noteq> CHR '',''"
    and "digit_char d \<noteq> CHR ''x''" and "digit_char d \<noteq> CHR ''X''" and "\<not> is_space (digit_char d)"
    and "digit_char d \<noteq> CHR '';''"
proof -
  have "(of_char (digit_char d) :: nat) \<noteq> of_char (CHR ''-'')"
    "(of_char (digit_char d) :: nat) \<noteq> of_char (CHR ''+'')"
    "(of_char (digit_char d) :: nat) \<noteq> of_char (CHR '','')"
    "(of_char (digit_char d) :: nat) \<noteq> of_char (CHR ''x'')"
    "(of_char (digit_char d) :: nat) \<noteq> of_char (CHR ''X'')"
    "(of_char (digit_char d) :: nat) \<noteq> of_char (CHR '';'')"
    using assms by (simp_all add: of_digit_char)
  then show "digit_char d \<noteq> CHR ''-''" "digit_char d \<noteq> CHR ''+''" "digit_char d \<noteq> CHR '',''"
    "digit_char d \<noteq> CHR ''x''" "digit_char d \<noteq> CHR ''X''" "digit_char d \<noteq> CHR '';''"
    by metis+
  show "\<not> is_space (digit_char d)"
    using assms by (simp add: is_space_def of_digit_char Let_def)
qed

text \<open>The decimal text of a number is made of digits and reads back as the number.\<close>

definition decimal_digits :: "string \<Rightarrow> bool" where
  "decimal_digits s \<longleftrightarrow> (\<forall>c \<in> set s. \<exists>d < 10. c = digit_char d)"

lemma nat_text_digits: "decimal_digits (nat_text 10 n)"
proof (induction "10 :: nat" n rule: nat_text.induct)
  case (1 n)
  then show ?case
    by (cases "n < 10")
      (auto simp: decimal_digits_def nat_text.simps [of 10 n] intro: exI [of _ "n mod 10"])
qed

lemma nat_text_not_Nil [simp]: "nat_text base n \<noteq> []"
  by (simp add: nat_text.simps [of base n])

lemma digits_value_text: "digits_value 10 (nat_text 10 n) = n"
proof (induction "10 :: nat" n rule: nat_text.induct)
  case (1 n)
  show ?case
  proof (cases "n < 10")
    case True
    then show ?thesis by (simp add: nat_text.simps [of 10 n] digits_value_def)
  next
    case False
    with 1 have "digits_value 10 (nat_text 10 (n div 10)) = n div 10" by simp
    with False show ?thesis by (simp add: nat_text.simps [of 10 n] digits_value_def)
  qed
qed

lemma decimal_digits_takeWhile: "decimal_digits s \<Longrightarrow> takeWhile (is_digit 10) s = s"
  by (auto simp: decimal_digits_def takeWhile_eq_all_conv is_digit_def)

lemma unsigned_int_text: "unsigned_int (nat_text 10 n) = Some (int n)"
proof -
  have d: "decimal_digits (nat_text 10 n)" by (rule nat_text_digits)
  have "CHR ''x'' \<notin> set (nat_text 10 n)" "CHR ''X'' \<notin> set (nat_text 10 n)"
    using d digit_char_facts(4,5) unfolding decimal_digits_def by metis+
  then have "\<not> starts_with (nat_text 10 n) ''0x''" "\<not> starts_with (nat_text 10 n) ''0X''"
    by (auto simp: starts_with_append)
  then show ?thesis
    by (simp add: unsigned_int_def leading_int_def decimal_digits_takeWhile [OF d]
        digits_value_text Let_def)
qed

lemma trim_start_id: "s \<noteq> [] \<Longrightarrow> \<not> is_space (hd s) \<Longrightarrow> trim_start s = s"
  by (cases s) (auto simp: trim_start_def)

lemma parseInt_decimal: "parseInt (decimal i) = Some i"
proof -
  have hd: "\<exists>d < 10. hd (nat_text 10 n) = digit_char d" for n
    using nat_text_digits [of n] hd_in_set [OF nat_text_not_Nil] unfolding decimal_digits_def by blast
  show ?thesis
  proof (cases "i < 0")
    case True
    then have "decimal i = CHR ''-'' # nat_text 10 (nat (- i))" by (simp add: int_text_def)
    moreover have "\<not> is_space (CHR ''-'')" by code_simp
    ultimately show ?thesis
      using True by (simp add: parseInt_def trim_start_id unsigned_int_text)
  next
    case False
    then have t: "decimal i = nat_text 10 (nat i)" by (simp add: int_text_def)
    obtain d where d: "d < 10" "hd (nat_text 10 (nat i)) = digit_char d" using hd by blast
    obtain c u where cu: "nat_text 10 (nat i) = c # u" by (meson neq_Nil_conv nat_text_not_Nil)
    with d have c: "c = digit_char d" by simp
    have "trim_start (nat_text 10 (nat i)) = c # u"
      using trim_start_id [of "c # u"] digit_char_facts(6) [OF d(1)] by (simp add: cu c)
    then have "parseInt (decimal i) = unsigned_int (c # u)"
      using digit_char_facts [OF d(1)] by (simp add: parseInt_def t c)
    with unsigned_int_text [of "nat i"] cu False show ?thesis by simp
  qed
qed

section \<open>Joined texts\<close>

fun join_with :: "char \<Rightarrow> string list \<Rightarrow> string" where
  "join_with c [] = []"
| "join_with c [s] = s"
| "join_with c (s # t # ts) = s @ c # join_with c (t # ts)"

lemma split_join: "ss \<noteq> [] \<Longrightarrow> \<forall>s \<in> set ss. c \<notin> set s \<Longrightarrow> split_on c (join_with c ss) = ss"
  by (induction c ss rule: join_with.induct) (auto simp: split_on_plain split_on_join)

lemma decimal_plain: "c \<noteq> CHR ''-'' \<Longrightarrow> (\<And>d. d < 10 \<Longrightarrow> digit_char d \<noteq> c) \<Longrightarrow> c \<notin> set (decimal i)"
proof -
  assume c: "c \<noteq> CHR ''-''" "\<And>d. d < 10 \<Longrightarrow> digit_char d \<noteq> c"
  have "c \<notin> set (nat_text 10 n)" for n
    using nat_text_digits [of n] c(2) unfolding decimal_digits_def by metis
  with c(1) show ?thesis by (auto simp: int_text_def)
qed

lemma decimal_no_comma: "CHR '','' \<notin> set (decimal i)"
  by (rule decimal_plain) (simp_all add: digit_char_facts(3))

lemma split_join_ids:
  "ids \<noteq> [] \<Longrightarrow> map parseInt (split_on (CHR '','') (join_with (CHR '','') (map decimal ids))) = map Some ids"
proof -
  assume "ids \<noteq> []"
  then have "split_on (CHR '','') (join_with (CHR '','') (map decimal ids)) = map decimal ids"
    by (intro split_join) (auto simp: decimal_no_comma)
  then show ?thesis by (simp add: parseInt_decimal comp_def)
qed

end
