(* ===== verification/KgiSource.thy ===== *)
theory KgiSource
  imports KgiModel JsParse
begin

text \<open>
  The interface \<open>DataSource\<close> of the DAG viewer and the generated source
  \<open>ChainDataSource\<close>: the contract every source keeps towards the timeline, as a locale, and the
  source that grows a straight chain by one block per timer tick.
\<close>

section \<open>The contract of a data source\<close>

text \<open>
  What the timeline needs of a bundle to draw it: one height group per height, every block and
  both ends of every edge inside the group of their height, and no two blocks in one place.
\<close>

definition in_group :: "Bundle \<Rightarrow> int \<Rightarrow> int \<Rightarrow> bool" where
  "in_group d h i \<longleftrightarrow> (\<exists>g \<in> set (heightGroups d). group_height g = h \<and> 0 \<le> i \<and> i < group_size g)"

definition laid_out :: "Bundle \<Rightarrow> bool" where
  "laid_out d \<longleftrightarrow>
     distinct (map group_height (heightGroups d)) \<and>
     (\<forall>b \<in> set (blocks d). in_group d (height b) (heightGroupIndex b)) \<and>
     (\<forall>e \<in> set (edges d). in_group d (fromHeight e) (fromHeightGroupIndex e) \<and>
        in_group d (toHeight e) (toHeightGroupIndex e)) \<and>
     inj_on (\<lambda>b. (height b, heightGroupIndex b)) (set (blocks d))"

definition between :: "int \<Rightarrow> int \<Rightarrow> Bundle \<Rightarrow> bool" where
  "between a e d \<longleftrightarrow> (\<forall>b \<in> set (blocks d). a \<le> height b \<and> height b \<le> e)"

text \<open>
  The interface: the states a source can be in and its \<open>getBlocksBetweenHeights\<close>, which rejects
  or answers with a bundle. The other queries for blocks call it with a computed range.
\<close>

locale data_source =
  fixes ok :: "'s \<Rightarrow> bool"
    and window :: "'s \<Rightarrow> js_int \<Rightarrow> js_int \<Rightarrow> Bundle outcome"
  assumes answers: "ok s \<Longrightarrow> 1 \<le> e \<Longrightarrow>
      \<exists>d. window s (Some a) (Some e) = Inr d \<and> laid_out d \<and> between a e d"
begin

text \<open>A query around a height answers with blocks at most that far from it.\<close>

lemma around:
  assumes "ok s" and "1 \<le> h + k"
  shows "\<exists>d. window s (js_minus (Some h) (Some k)) (js_plus (Some h) (Some k)) = Inr d \<and>
    laid_out d \<and> (\<forall>b \<in> set (blocks d). \<bar>height b - h\<bar> \<le> k)"
  using answers [OF assms, of "h - k"] by (force simp: between_def)

lemma before:
  assumes "ok s" and "1 \<le> n"
  shows "\<exists>d. window s (js_minus (Some n) (Some k)) (Some n) = Inr d \<and> laid_out d \<and> between (n - k) n d"
  using answers [OF assms, of "n - k"] by simp

end

section \<open>The chain source\<close>

record ChainDataSource =
  blockInterval :: int
  c_blocks :: "Block list"
  c_edges :: "Edge list"
  c_heightGroups :: "HeightGroup list"
  c_blockHashesByIds :: "int \<rightharpoonup> string"
  c_blockIdsByHashes :: "string \<rightharpoonup> int"
  c_blockIdsByDAAScores :: "int \<rightharpoonup> int"

text \<open>A block's hash in the generated sources: the decimal text of its id, eight times.\<close>

definition repeated_id :: "int \<Rightarrow> string" where
  "repeated_id i = concat (replicate 8 (decimal i))"

definition genesis_block :: Block where
  "genesis_block =
     \<lparr>block_id = 0, blockHash = ''00000000'', timestamp = 0, parentIds = [], height = 0,
      daaScore = 0, heightGroupIndex = 0, selectedParentId = None, color = BLUE,
      isInVirtualSelectedParentChain = True, mergeSetRedIds = [], mergeSetBlueIds = []\<rparr>"

definition chain_fields :: "int \<Rightarrow> ChainDataSource" where
  "chain_fields interval =
     \<lparr>blockInterval = interval, c_blocks = [genesis_block], c_edges = [],
      c_heightGroups = [\<lparr>group_height = 0, group_size = 1\<rparr>],
      c_blockHashesByIds = [0 \<mapsto> ''00000000''], c_blockIdsByHashes = [''00000000'' \<mapsto> 0],
      c_blockIdsByDAAScores = [1 \<mapsto> 1]\<rparr>"

definition createNextBlock :: "ChainDataSource \<Rightarrow> ChainDataSource" where
  "createNextBlock s =
     (let lastBlock = last (c_blocks s);
          lastBlockId = block_id lastBlock;
          nextBlockId = lastBlockId + 1;
          nextBlockHash = repeated_id nextBlockId
      in s \<lparr>c_blocks := c_blocks s @
             [\<lparr>block_id = nextBlockId, blockHash = nextBlockHash,
               timestamp = nextBlockId * blockInterval s, parentIds = [lastBlockId],
               height = nextBlockId, daaScore = nextBlockId, heightGroupIndex = 0,
               selectedParentId = Some lastBlockId, color = BLUE,
               isInVirtualSelectedParentChain = True, mergeSetRedIds = [],
               mergeSetBlueIds = [lastBlockId]\<rparr>],
            c_edges := c_edges s @
             [\<lparr>fromBlockId = nextBlockId, toBlockId = lastBlockId, fromHeight = nextBlockId,
               toHeight = lastBlockId, fromHeightGroupIndex = 0, toHeightGroupIndex = 0\<rparr>],
            c_heightGroups := c_heightGroups s @ [\<lparr>group_height = nextBlockId, group_size = 1\<rparr>],
            c_blockHashesByIds := (c_blockHashesByIds s)(nextBlockId \<mapsto> nextBlockHash),
            c_blockIdsByHashes := (c_blockIdsByHashes s)(nextBlockHash \<mapsto> nextBlockId)\<rparr>)"

text \<open>The constructor creates a block at once; every timer tick creates another.\<close>

fun chain_ticks :: "nat \<Rightarrow> ChainDataSource \<Rightarrow> ChainDataSource" where
  "chain_ticks 0 s = s"
| "chain_ticks (Suc n) s = chain_ticks n (createNextBlock s)"

definition new_chain :: "int \<Rightarrow> ChainDataSource" where
  "new_chain interval = createNextBlock (chain_fields interval)"

definition chain_window :: "ChainDataSource \<Rightarrow> js_int \<Rightarrow> js_int \<Rightarrow> Bundle outcome" where
  "chain_window s startHeight endHeight =
     (let startH = (if js_less startHeight (Some 0) then Some 0 else startHeight);
          n = Some (int (length (c_blocks s)));
          endH = (if js_less n endHeight then n else endHeight)
      in Inr \<lparr>blocks = js_slice (c_blocks s) startH endH,
              edges = js_slice (c_edges s) startH (js_minus endH (Some 1)),
              heightGroups = js_slice (c_heightGroups s) startH endH\<rparr>)"

definition chain_getBlockHash :: "ChainDataSource \<Rightarrow> string \<Rightarrow> int \<Rightarrow> Bundle outcome" where
  "chain_getBlockHash s targetHash heightDifference =
     (let targetId = c_blockIdsByHashes s targetHash
      in chain_window s (js_minus targetId (Some heightDifference))
           (js_plus targetId (Some heightDifference)))"

definition chain_getBlockDAAScore :: "ChainDataSource \<Rightarrow> int \<Rightarrow> int \<Rightarrow> Bundle outcome" where
  "chain_getBlockDAAScore s targetDAAScore heightDifference =
     (let targetId = c_blockIdsByDAAScores s targetDAAScore
      in chain_window s (js_minus targetId (Some heightDifference))
           (js_plus targetId (Some heightDifference)))"

definition chain_getHead :: "ChainDataSource \<Rightarrow> int \<Rightarrow> Bundle outcome" where
  "chain_getHead s heightDifference =
     chain_window s (Some (int (length (c_blocks s)) - heightDifference))
       (Some (int (length (c_blocks s))))"

text \<open>The loop of both generated sources over the ids of a comma separated list.\<close>

definition hashes_of_ids :: "(int \<rightharpoonup> string) \<Rightarrow> string \<Rightarrow> BlockHashById list" where
  "hashes_of_ids hashes blockIdsString =
     map (\<lambda>blockIdString.
            let blockId = parseInt blockIdString
            in \<lparr>hash_id = blockId, hash_text = Option.bind blockId hashes\<rparr>)
       (split_on (CHR '','') blockIdsString)"

definition chain_getBlockHashesByIds ::
  "ChainDataSource \<Rightarrow> string \<Rightarrow> BlockHashById list outcome" where
  "chain_getBlockHashesByIds s blockIdsString =
     Inr (hashes_of_ids (c_blockHashesByIds s) blockIdsString)"

section \<open>The state after any number of ticks\<close>

definition chain_block :: "int \<Rightarrow> nat \<Rightarrow> Block" where
  "chain_block interval n =
     \<lparr>block_id = int n, blockHash = repeated_id (int n), timestamp = int n * interval,
      parentIds = (if n = 0 then [] else [int n - 1]), height = int n, daaScore = int n,
      heightGroupIndex = 0, selectedParentId = (if n = 0 then None else Some (int n - 1)),
      color = BLUE, isInVirtualSelectedParentChain = True, mergeSetRedIds = [],
      mergeSetBlueIds = (if n = 0 then [] else [int n - 1])\<rparr>"

definition chain_edge :: "nat \<Rightarrow> Edge" where
  "chain_edge n =
     \<lparr>fromBlockId = int n + 1, toBlockId = int n, fromHeight = int n + 1, toHeight = int n,
      fromHeightGroupIndex = 0, toHeightGroupIndex = 0\<rparr>"

definition chain_group :: "nat \<Rightarrow> HeightGroup" where
  "chain_group n = \<lparr>group_height = int n, group_size = 1\<rparr>"

definition chain_state :: "int \<Rightarrow> nat \<Rightarrow> ChainDataSource" where
  "chain_state interval n =
     \<lparr>blockInterval = interval, c_blocks = map (chain_block interval) [0..<Suc n],
      c_edges = map chain_edge [0..<n], c_heightGroups = map chain_group [0..<Suc n],
      c_blockHashesByIds = (\<lambda>i. if 0 \<le> i \<and> i \<le> int n then Some (repeated_id i) else None),
      c_blockIdsByHashes =
        (\<lambda>t. if t \<in> (repeated_id \<circ> int) ` {0..n} then Some (int (inv (repeated_id \<circ> int) t)) else None),
      c_blockIdsByDAAScores = [1 \<mapsto> 1]\<rparr>"

lemma length_repeated_id: "length (repeated_id i) = 8 * length (decimal i)"
  by (simp add: repeated_id_def length_concat sum_list_replicate)

lemma repeated_id_inj: "repeated_id i = repeated_id j \<longleftrightarrow> i = j"
proof
  assume eq: "repeated_id i = repeated_id j"
  then have len: "length (decimal i) = length (decimal j)"
    using length_repeated_id [of i] length_repeated_id [of j] by simp
  have "repeated_id k = decimal k @ concat (replicate 7 (decimal k))" for k
    by (simp add: repeated_id_def eval_nat_numeral)
  with eq len have "decimal i = decimal j" by simp
  then show "i = j" by (rule int_text_inj [of 10, rotated 2]) simp_all
qed simp

lemma repeated_id_0: "repeated_id 0 = ''00000000''"
  by code_simp

lemma inj_repeated_nat: "inj (repeated_id \<circ> int)"
  by (auto simp: inj_def repeated_id_inj)

lemma inv_repeated_nat [simp]: "inv (repeated_id \<circ> int) (repeated_id (int n)) = n"
  using inv_f_f [OF inj_repeated_nat, of n] by simp

lemma chain_state_0: "chain_fields interval = chain_state interval 0"
  using inv_repeated_nat [of 0]
  by (auto simp: chain_fields_def chain_state_def genesis_block_def chain_block_def chain_group_def
      repeated_id_0 fun_eq_iff)

lemma chain_state_Suc: "createNextBlock (chain_state interval n) = chain_state interval (Suc n)"
proof -
  have hashes: "(\<lambda>i. if 0 \<le> i \<and> i \<le> int n then Some (repeated_id i) else None)
      (int n + 1 \<mapsto> repeated_id (int n + 1)) =
      (\<lambda>i. if 0 \<le> i \<and> i \<le> int n + 1 then Some (repeated_id i) else None)"
    by (auto simp: fun_eq_iff)
  have next_id: "int n + 1 = int (Suc n)" by simp
  have ids: "(\<lambda>t. if t \<in> (repeated_id \<circ> int) ` {0..n} then Some (int (inv (repeated_id \<circ> int) t)) else None)
      (repeated_id (int n + 1) \<mapsto> int n + 1) =
      (\<lambda>t. if t \<in> (repeated_id \<circ> int) ` {0..Suc n} then Some (int (inv (repeated_id \<circ> int) t)) else None)"
    unfolding next_id by (auto simp: fun_eq_iff atLeastAtMostSuc_conv simp del: of_nat_Suc)
  show ?thesis
    using hashes ids
    by (simp add: createNextBlock_def chain_state_def chain_block_def chain_edge_def chain_group_def
        Let_def del: upt.simps) (simp add: chain_block_def chain_edge_def chain_group_def add.commute [of 1])
qed

lemma chain_ticks_state: "chain_ticks m (chain_state interval n) = chain_state interval (n + m)"
  by (induction m arbitrary: n) (simp_all add: chain_state_Suc)

lemma new_chain_state: "new_chain interval = chain_state interval 1"
  by (simp add: new_chain_def chain_state_0 chain_state_Suc)

lemma chain_reachable: "chain_ticks m (new_chain interval) = chain_state interval (Suc m)"
  by (simp add: new_chain_state chain_ticks_state)

end
