(* ===== verification/KgiGeometry.thy ===== *)
theory KgiGeometry
  imports KgiModel JsNumber
begin

text \<open>
  Where the timeline puts things (\<open>web/src/dag/TimelineContainer.ts\<close>, \<open>BlockSprite.ts\<close>): block
  size and margins from the size of the screen and the scale, the columns of the heights, the
  order in which the blocks of one height are spread around the middle line, and the point where
  an edge leaves the rounded square of a block. Every operation on doubles is followed by the
  rounding \<open>fl\<close>.
\<close>

record View =
  screen_width :: real
  screen_height :: real
  view_scale :: real

section \<open>Theme constants\<close>

definition maxBlocksPerHeight :: real where "maxBlocksPerHeight = 12"
definition theme_marginX :: real where "theme_marginX = 2"
definition theme_minMarginY :: real where "theme_minMarginY = 1"
definition visibleHeightRangePadding :: int where "visibleHeightRangePadding = 2"
definition headMinRightMargin :: real where "headMinRightMargin = 120"
definition referenceBlockSize :: real where "referenceBlockSize = 88"

lemmas theme_values =
  maxBlocksPerHeight_def theme_marginX_def theme_minMarginY_def visibleHeightRangePadding_def
  headMinRightMargin_def referenceBlockSize_def

section \<open>Sizes\<close>

definition calculateBlockSize :: "(real \<Rightarrow> real) \<Rightarrow> View \<Rightarrow> real" where
  "calculateBlockSize fl v =
     math_floor (fl (fl (screen_height v * view_scale v) / maxBlocksPerHeight))"

definition calculateMarginX :: "(real \<Rightarrow> real) \<Rightarrow> real \<Rightarrow> real" where
  "calculateMarginX fl blockSize = fl (blockSize * theme_marginX)"

definition calculateMinMarginY :: "(real \<Rightarrow> real) \<Rightarrow> real \<Rightarrow> real" where
  "calculateMinMarginY fl blockSize = fl (blockSize * theme_minMarginY)"

definition calculateMarginY :: "(real \<Rightarrow> real) \<Rightarrow> View \<Rightarrow> real \<Rightarrow> int \<Rightarrow> real" where
  "calculateMarginY fl v blockSize heightGroupSize =
     (let minMarginY = calculateMinMarginY fl blockSize;
          nominalRendererHeight = min (screen_height v) (fl (screen_height v * view_scale v));
          marginY = max minMarginY (fl (fl (nominalRendererHeight / of_int heightGroupSize) - blockSize))
      in if fl (fl (blockSize + marginY) * of_int heightGroupSize) > screen_height v
         then max 0 (fl (fl (screen_height v / of_int heightGroupSize) - blockSize))
         else marginY)"

definition calculateBlockSpriteX :: "(real \<Rightarrow> real) \<Rightarrow> int \<Rightarrow> real \<Rightarrow> real \<Rightarrow> real" where
  "calculateBlockSpriteX fl blockHeight blockSize margin =
     fl (of_int blockHeight * fl (blockSize + margin))"

text \<open>
  The rank of a block around the middle line. The remainder has the sign of its left operand.
\<close>

definition js_rem :: "int \<Rightarrow> int \<Rightarrow> int" where
  "js_rem a b = sgn a * (\<bar>a\<bar> mod \<bar>b\<bar>)"

definition centeredIndex :: "int \<Rightarrow> int \<Rightarrow> int" where
  "centeredIndex heightGroupIx heightGroupSize =
     (let offsetGroupIndex = heightGroupIx * 2 + js_rem (heightGroupSize - heightGroupIx - 1) 2;
          signMultiplier = (if js_rem heightGroupSize 2 = 0 then 1 else - 1)
      in \<lceil>of_int offsetGroupIndex / (2 :: rat)\<rceil> * (- 1) ^ nat (offsetGroupIndex + 1) * signMultiplier)"

definition calculateBlockSpriteY :: "(real \<Rightarrow> real) \<Rightarrow> View \<Rightarrow> int \<Rightarrow> int \<Rightarrow> real \<Rightarrow> real" where
  "calculateBlockSpriteY fl v heightGroupIx heightGroupSize blockSize =
     (if heightGroupSize = 1 then 0
      else if heightGroupIx = 0 \<and> js_rem heightGroupSize 2 = 1 then 0
      else
        let marginY = calculateMarginY fl v blockSize heightGroupSize
        in fl (fl (of_int (centeredIndex heightGroupIx heightGroupSize) * fl (blockSize + marginY)) / 2))"

section \<open>Visible ranges\<close>

definition getMaxBlockAmountOnHalfTheScreen :: "(real \<Rightarrow> real) \<Rightarrow> View \<Rightarrow> int" where
  "getMaxBlockAmountOnHalfTheScreen fl v =
     (let blockSize = calculateBlockSize fl v;
          marginX = calculateMarginX fl blockSize;
          maxBlockAmountOnScreen = fl (screen_width v / fl (blockSize + marginX))
      in \<lceil>fl (maxBlockAmountOnScreen / 2)\<rceil> + visibleHeightRangePadding)"

definition getVisibleHeightRange :: "(real \<Rightarrow> real) \<Rightarrow> View \<Rightarrow> int \<Rightarrow> int \<times> int" where
  "getVisibleHeightRange fl v h =
     (let half = getMaxBlockAmountOnHalfTheScreen fl v;
          fromH = h - half
      in (if fromH < 0 then 0 else fromH, h + half))"

definition getVisibleSlotAmountAfterHalfTheScreen :: "(real \<Rightarrow> real) \<Rightarrow> View \<Rightarrow> real \<Rightarrow> int" where
  "getVisibleSlotAmountAfterHalfTheScreen fl v rightMargin =
     (let blockSize = calculateBlockSize fl v;
          marginX = calculateMarginX fl blockSize;
          heightWidth = fl (blockSize + marginX);
          w = max 0 (fl (fl (fl (fl (screen_width v - heightWidth) / 2) - rightMargin) + fl (marginX / 2)))
      in \<lfloor>fl (w / heightWidth)\<rfloor>)"

text \<open>The x position of the container that brings the target height to the middle of the screen.\<close>

definition container_targetX :: "(real \<Rightarrow> real) \<Rightarrow> View \<Rightarrow> int \<Rightarrow> real" where
  "container_targetX fl v h =
     (let blockSize = calculateBlockSize fl v
      in fl (fl (screen_width v / 2) -
             calculateBlockSpriteX fl h blockSize (calculateMarginX fl blockSize)))"

section \<open>Where an edge leaves a block\<close>

definition theme_scale :: "(real \<Rightarrow> real) \<Rightarrow> real \<Rightarrow> real \<Rightarrow> real" where
  "theme_scale fl amount blockSize = fl (fl (amount * blockSize) / referenceBlockSize)"

record BlockTheme =
  roundingRadius :: real
  blueBorderWidth :: real
  scaleDefault :: real

definition getRealBlockSize :: "(real \<Rightarrow> real) \<Rightarrow> BlockTheme \<Rightarrow> real \<Rightarrow> real" where
  "getRealBlockSize fl th blockSize =
     fl (fl (blockSize + theme_scale fl (fl (blueBorderWidth th / 2)) blockSize) * scaleDefault th)"

text \<open>
  A vector with no horizontal part has an infinite tangent: the first test fails on the infinite
  product and the second divides by it, which gives 0.
\<close>

definition clampVectorToBounds ::
  "(real \<Rightarrow> real) \<Rightarrow> BlockTheme \<Rightarrow> real \<Rightarrow> real \<Rightarrow> real \<Rightarrow> real \<times> real" where
  "clampVectorToBounds fl th blockSize vectorX vectorY =
     (let halfBlockSize = fl (getRealBlockSize fl th blockSize / 2);
          signed = (\<lambda>v r. if v \<ge> 0 then r else - r)
      in if vectorY = 0 then (signed vectorX halfBlockSize, 0)
         else
           let radius = theme_scale fl (roundingRadius th) blockSize;
               halfMinusCorner = fl (halfBlockSize - radius);
               tangent = fl (\<bar>vectorY\<bar> / \<bar>vectorX\<bar>);
               yForHalf = fl (halfBlockSize * tangent);
               xForHalf = (if vectorX = 0 then 0 else fl (halfBlockSize / tangent))
           in if vectorX \<noteq> 0 \<and> yForHalf \<le> halfMinusCorner
              then (signed vectorX halfBlockSize, signed vectorY yForHalf)
              else if xForHalf \<le> halfMinusCorner
              then (signed vectorX xForHalf, signed vectorY halfBlockSize)
              else
                let a = fl (fl (tangent ^ 2) + 1);
                    b = - fl (fl (2 * halfMinusCorner) * fl (tangent + 1));
                    c = fl (fl (2 * fl (halfMinusCorner ^ 2)) - fl (radius ^ 2));
                    x = fl (fl (- b + fl (sqrt (fl (fl (b ^ 2) - fl (fl (4 * a) * c))))) / fl (2 * a));
                    y = fl (x * tangent)
                in (signed vectorX x, signed vectorY y))"

section \<open>The spread of a height\<close>

lemma js_rem_2: "0 \<le> a \<Longrightarrow> js_rem a 2 = a mod 2"
  by (cases "a = 0") (simp_all add: js_rem_def)

lemma half_ceiling: "\<lceil>of_int k / (2 :: rat)\<rceil> = (k + 1) div 2"
proof (cases "even k")
  case True
  then obtain m where "k = 2 * m" by (elim evenE)
  then show ?thesis by simp
next
  case False
  then obtain m where "k = 2 * m + 1" by (elim oddE)
  then show ?thesis by (simp add: ceiling_eq_iff)
qed

lemma power_minus_one: "0 \<le> k \<Longrightarrow> (- 1 :: int) ^ nat k = (if even k then 1 else - 1)"
  by (simp add: even_nat_iff)

text \<open>The rank in closed form: even ranks around 0 for odd groups, odd ranks for even groups.\<close>

lemma centeredIndex_even:
  assumes "0 \<le> i" and "i < n" and "even n"
  shows "centeredIndex i n = (if even i then i + 1 else - i)"
proof -
  have n: "js_rem n 2 = 0" using assms by (simp add: js_rem_2)
  show ?thesis
  proof (cases "even i")
    case True
    with assms have "js_rem (n - i - 1) 2 = 1" by (subst js_rem_2) presburger+
    moreover have "(i * 2 + 1 + 1) div 2 = i + 1" by simp
    ultimately show ?thesis
      using True assms(1) n by (simp add: centeredIndex_def Let_def half_ceiling power_minus_one)
  next
    case False
    with assms have "js_rem (n - i - 1) 2 = 0" by (subst js_rem_2) presburger+
    then show ?thesis
      using False assms(1) n by (simp add: centeredIndex_def Let_def half_ceiling power_minus_one)
  qed
qed

lemma centeredIndex_odd:
  assumes "0 < i" and "i < n" and "odd n"
  shows "centeredIndex i n = (if even i then i else - i - 1)"
proof -
  have n: "js_rem n 2 = 1" using assms by (subst js_rem_2) (auto simp: odd_iff_mod_2_eq_one)
  show ?thesis
  proof (cases "even i")
    case True
    with assms have "js_rem (n - i - 1) 2 = 0" by (subst js_rem_2) presburger+
    then show ?thesis
      using True assms(1) n by (simp add: centeredIndex_def Let_def half_ceiling power_minus_one)
  next
    case False
    with assms have "js_rem (n - i - 1) 2 = 1" by (subst js_rem_2) presburger+
    moreover have "(i * 2 + 1 + 1) div 2 = i + 1" by simp
    ultimately show ?thesis
      using False assms(1) n by (simp add: centeredIndex_def Let_def half_ceiling power_minus_one)
  qed
qed

text \<open>The rank with the case the source takes apart: the first block of an odd group.\<close>

definition block_rank :: "int \<Rightarrow> int \<Rightarrow> int" where
  "block_rank n i = (if i = 0 \<and> odd n then 0 else centeredIndex i n)"

lemma block_rank_even: "even n \<Longrightarrow> 0 \<le> i \<Longrightarrow> i < n \<Longrightarrow> block_rank n i = (if even i then i + 1 else - i)"
  by (simp add: block_rank_def centeredIndex_even)

lemma block_rank_odd: "odd n \<Longrightarrow> 0 \<le> i \<Longrightarrow> i < n \<Longrightarrow> block_rank n i = (if even i then i else - i - 1)"
  by (cases "i = 0") (simp_all add: block_rank_def centeredIndex_odd)

lemmas block_rank_simps = block_rank_even block_rank_odd

lemma block_rank_bound: "0 \<le> i \<Longrightarrow> i < n \<Longrightarrow> \<bar>block_rank n i\<bar> \<le> n - 1"
  by (cases "even n"; cases "even i"; cases "i = n - 1") (auto simp: block_rank_simps)

lemma block_rank_gap:
  "0 \<le> i \<Longrightarrow> i < n \<Longrightarrow> 0 \<le> j \<Longrightarrow> j < n \<Longrightarrow> i \<noteq> j \<Longrightarrow> 2 \<le> \<bar>block_rank n i - block_rank n j\<bar>"
  by (cases "even n"; cases "even i"; cases "even j") (auto simp: block_rank_simps, presburger+)

lemma blockSpriteY_rank:
  "0 \<le> n \<Longrightarrow> n \<noteq> 1 \<Longrightarrow> calculateBlockSpriteY (\<lambda>x. x) v i n blockSize =
     of_int (block_rank n i) * (blockSize + calculateMarginY (\<lambda>x. x) v blockSize n) / 2"
  by (auto simp: calculateBlockSpriteY_def block_rank_def js_rem_2 odd_iff_mod_2_eq_one)

lemma marginY_fits:
  assumes "0 < blockSize" and "0 < n" and "blockSize * of_int n \<le> screen_height v"
  defines "m \<equiv> calculateMarginY (\<lambda>x. x) v blockSize n"
  shows "0 \<le> m" and "(blockSize + m) * of_int n \<le> screen_height v"
proof -
  have n: "0 < real_of_int n" using assms(2) by simp
  have h: "blockSize \<le> screen_height v / of_int n"
    using assms(3) n by (simp add: pos_le_divide_eq)
  show "0 \<le> m"
    using assms(1) by (auto simp: m_def calculateMarginY_def Let_def calculateMinMarginY_def theme_values)
  show "(blockSize + m) * of_int n \<le> screen_height v"
    using n h by (auto simp: m_def calculateMarginY_def Let_def max_def)
qed

end
