(* ===== verification/KgiTimeline.thy ===== *)
theory KgiTimeline
  imports KgiSource KgiGeometry
begin

text \<open>
  The scene of the DAG viewer (\<open>web/src/dag/TimelineContainer.ts\<close> with the states of
  \<open>BlockSprite.ts\<close>, \<open>EdgeSprite.ts\<close> and \<open>HeightSprite.ts\<close>): the dictionaries of sprites, their
  incremental update from a bundle, the highlighting around a target block, and the positions.
  Drawing, textures and tweens are the graphics library's; a sprite's fields are the values a
  finished tween leaves. A dictionary is an association list; an exception leaves the call, and
  the half-updated scene is not kept.
\<close>

type_synonym 'a dict = "(string \<times> 'a) list"

definition has_key :: "'a dict \<Rightarrow> string \<Rightarrow> bool" where
  "has_key d k \<longleftrightarrow> map_of d k \<noteq> None"

text \<open>Reading a key that must be there: using the \<open>undefined\<close> of an absent one throws.\<close>

definition lookup :: "'a dict \<Rightarrow> string \<Rightarrow> 'a outcome" where
  "lookup d k = (case map_of d k of None \<Rightarrow> Inl (TypeError ''undefined'') | Some x \<Rightarrow> Inr x)"

section \<open>Sprites\<close>

record BlockSprite =
  sprite_block :: Block
  blockColor :: BlockColor
  hasFocus :: bool
  isHighlighted :: bool
  highlightColor :: BlockColor

definition new_block_sprite :: "Block \<Rightarrow> BlockSprite" where
  "new_block_sprite b =
     \<lparr>sprite_block = b, blockColor = GRAY, hasFocus = False, isHighlighted = False,
      highlightColor = GRAY\<rparr>"

definition setColor :: "BlockColor \<Rightarrow> BlockSprite \<Rightarrow> BlockSprite" where
  "setColor c s = (if blockColor s \<noteq> c then s \<lparr>blockColor := c\<rparr> else s)"

definition setHighlighted :: "bool \<Rightarrow> bool \<Rightarrow> BlockColor \<Rightarrow> BlockSprite \<Rightarrow> BlockSprite" where
  "setHighlighted h f c s =
     (if isHighlighted s \<noteq> h \<or> hasFocus s \<noteq> f \<or> highlightColor s \<noteq> c
      then s \<lparr>isHighlighted := h, hasFocus := f, highlightColor := c\<rparr> else s)"

datatype EdgeDefinition =
    normal | inVirtualSelectedParentChain | highlightedParent | highlightedChild
  | highlightedSelectedParent | highlightedParentInVirtualSelectedParentChain
  | highlightedChildInVirtualSelectedParentChain

fun isHighlight :: "EdgeDefinition \<Rightarrow> bool" where
  "isHighlight normal = False"
| "isHighlight inVirtualSelectedParentChain = False"
| "isHighlight d = True"

record EdgeSprite =
  sprite_from :: int
  sprite_to :: int
  e_inChain :: bool
  e_highlightedParent :: bool
  e_highlightedChild :: bool
  e_selectedParent :: bool
  shownDefinition :: EdgeDefinition
  baseDefinition :: EdgeDefinition

definition new_edge_sprite :: "int \<Rightarrow> int \<Rightarrow> EdgeSprite" where
  "new_edge_sprite f t =
     \<lparr>sprite_from = f, sprite_to = t, e_inChain = False, e_highlightedParent = False,
      e_highlightedChild = False, e_selectedParent = False, shownDefinition = normal,
      baseDefinition = normal\<rparr>"

definition edge_definition :: "EdgeSprite \<Rightarrow> EdgeDefinition" where
  "edge_definition s =
     (if e_inChain s then
        if e_highlightedParent s then highlightedParentInVirtualSelectedParentChain
        else if e_highlightedChild s then highlightedChildInVirtualSelectedParentChain
        else inVirtualSelectedParentChain
      else if e_highlightedParent s then
        if e_selectedParent s then highlightedSelectedParent else highlightedParent
      else if e_highlightedChild s then highlightedChild
      else normal)"

definition resolveShownGraphics :: "EdgeSprite \<Rightarrow> EdgeSprite" where
  "resolveShownGraphics s =
     (let d = edge_definition s;
          s' = (if \<not> isHighlight d then s \<lparr>baseDefinition := d\<rparr> else s)
      in s' \<lparr>shownDefinition := d\<rparr>)"

definition setFullState :: "bool \<Rightarrow> bool \<Rightarrow> bool \<Rightarrow> bool \<Rightarrow> EdgeSprite \<Rightarrow> EdgeSprite" where
  "setFullState chain hp hc sp s =
     (if e_inChain s \<noteq> chain \<or> e_highlightedParent s \<noteq> hp \<or> e_highlightedChild s \<noteq> hc \<or>
         e_selectedParent s \<noteq> sp
      then resolveShownGraphics
        (s \<lparr>e_inChain := chain, e_highlightedParent := hp, e_highlightedChild := hc,
            e_selectedParent := sp\<rparr>)
      else s)"

record HeightSprite =
  blockHeight :: int
  sprite_daaScore :: int

definition getTextValue :: "HeightSprite \<Rightarrow> int" where
  "getTextValue s = (if sprite_daaScore s \<noteq> 0 then sprite_daaScore s else blockHeight s)"

section \<open>The container\<close>

record Timeline =
  heightSprites :: "HeightSprite dict"
  blockSprites :: "BlockSprite dict"
  edgeSprites :: "EdgeSprite dict"
  currentBundle :: "Bundle option"
  blockKeysToBlocks :: "Block dict"
  edgeKeysToEdges :: "Edge dict"
  heightKeysToHeightGroups :: "HeightGroup dict"
  targetHeight :: int
  targetDAAScore :: int

definition new_timeline :: Timeline where
  "new_timeline =
     \<lparr>heightSprites = [], blockSprites = [], edgeSprites = [], currentBundle = None,
      blockKeysToBlocks = [], edgeKeysToEdges = [], heightKeysToHeightGroups = [],
      targetHeight = - 1, targetDAAScore = 0\<rparr>"

definition buildBlockKey :: "int \<Rightarrow> string" where
  "buildBlockKey blockId = decimal blockId"

definition buildEdgeKey :: "Edge \<Rightarrow> string" where
  "buildEdgeKey e = decimal (fromBlockId e) @ ''-'' @ decimal (toBlockId e)"

definition buildHeightKey :: "int \<Rightarrow> string" where
  "buildHeightKey h = decimal h @ '';''"

definition recalculateTargetHeight :: "Timeline \<Rightarrow> Timeline" where
  "recalculateTargetHeight t =
     (case currentBundle t of
        None \<Rightarrow> t
      | Some d \<Rightarrow> t \<lparr>targetHeight := getDAAScoreGroupHeight d (targetDAAScore t)\<rparr>)"

text \<open>What a block and an edge look like next to the target block.\<close>

definition block_highlight :: "Bundle option \<Rightarrow> Block \<Rightarrow> string \<Rightarrow> Block \<Rightarrow> bool \<times> bool \<times> BlockColor" where
  "block_highlight data target targetBlockKey b =
     (let blockKey = buildBlockKey (block_id b);
          childKeys = map buildBlockKey (fst (getBlockChildIds data target));
          redKeys = map buildBlockKey (mergeSetRedIds target);
          blueKeys = map buildBlockKey (mergeSetBlueIds target)
      in if blockKey \<in> set childKeys then (True, False, color b)
         else if blockKey \<notin> set (redKeys @ blueKeys) \<and> blockKey \<noteq> targetBlockKey
           then (False, False, GRAY)
         else (True, blockKey = targetBlockKey,
               if blockKey \<in> set redKeys then RED
               else if blockKey \<in> set blueKeys then BLUE else color b))"

definition assignBlockToBlockSprite ::
  "Timeline \<Rightarrow> BlockSprite \<Rightarrow> Block \<Rightarrow> string option \<Rightarrow> BlockSprite outcome" where
  "assignBlockToBlockSprite t s b targetKey =
     (let s1 = setColor (color b) s
      in case targetKey of
           None \<Rightarrow> Inr (setHighlighted False False GRAY s1)
         | Some k \<Rightarrow> and_then (lookup (blockKeysToBlocks t) k) (\<lambda>target.
             case block_highlight (currentBundle t) target k b of
               (h, f, c) \<Rightarrow> Inr (setHighlighted h f c s1)))"

definition assignEdgeToEdgeSprite :: "Timeline \<Rightarrow> EdgeSprite \<Rightarrow> Edge \<Rightarrow> string option \<Rightarrow> EdgeSprite" where
  "assignEdgeToEdgeSprite t s e targetKey =
     (let toBlock = map_of (blockKeysToBlocks t) (decimal (toBlockId e));
          fromBlock = map_of (blockKeysToBlocks t) (decimal (fromBlockId e));
          isSelected = (case fromBlock of None \<Rightarrow> False
                        | Some f \<Rightarrow> selectedParentId f = Some (toBlockId e));
          inChain = (case (fromBlock, toBlock) of
                       (Some f, Some g) \<Rightarrow>
                         isInVirtualSelectedParentChain f \<and> isInVirtualSelectedParentChain g
                     | _ \<Rightarrow> False)
      in setFullState inChain (Some (buildBlockKey (fromBlockId e)) = targetKey)
           (Some (buildBlockKey (toBlockId e)) = targetKey) isSelected s)"

section \<open>Updating the scene\<close>

definition keyed_by :: "('a \<Rightarrow> string) \<Rightarrow> 'a list \<Rightarrow> 'a dict" where
  "keyed_by key xs = fold (\<lambda>x d. AList.update (key x) x d) xs []"

definition load_bundle :: "Bundle \<Rightarrow> Timeline \<Rightarrow> Timeline" where
  "load_bundle d t =
     (let t1 = t \<lparr>currentBundle := Some d\<rparr>;
          t2 = (if targetHeight t1 < 0 then recalculateTargetHeight t1 else t1)
      in t2 \<lparr>blockKeysToBlocks := keyed_by (\<lambda>b. buildBlockKey (block_id b)) (blocks d),
             edgeKeysToEdges := keyed_by buildEdgeKey (edges d),
             heightKeysToHeightGroups :=
               keyed_by (\<lambda>g. buildHeightKey (group_height g)) (heightGroups d)\<rparr>)"

definition height_keys :: "Bundle \<Rightarrow> string list" where
  "height_keys d = remdups (map (\<lambda>b. buildHeightKey (height b)) (blocks d))"

definition drop_sprites :: "Bundle \<Rightarrow> Timeline \<Rightarrow> Timeline" where
  "drop_sprites d t =
     t \<lparr>heightSprites := filter (\<lambda>(k, _). k \<in> set (height_keys d)) (heightSprites t),
        blockSprites := filter (\<lambda>(k, _). has_key (blockKeysToBlocks t) k) (blockSprites t),
        edgeSprites := filter (\<lambda>(k, _). has_key (edgeKeysToEdges t) k) (edgeSprites t)\<rparr>"

definition update_block_sprite :: "string option \<Rightarrow> Block \<Rightarrow> Timeline \<Rightarrow> Timeline outcome" where
  "update_block_sprite targetKey b t =
     (case map_of (blockSprites t) (buildBlockKey (block_id b)) of
        None \<Rightarrow> Inr t
      | Some s \<Rightarrow> and_then (assignBlockToBlockSprite t s b targetKey) (\<lambda>s'.
          Inr (t \<lparr>blockSprites := AList.update (buildBlockKey (block_id b)) s' (blockSprites t)\<rparr>)))"

definition add_height_sprite :: "Bundle \<Rightarrow> string \<Rightarrow> Timeline \<Rightarrow> Timeline outcome" where
  "add_height_sprite d k t =
     (if has_key (heightSprites t) k then Inr t
      else and_then (lookup (heightKeysToHeightGroups t) k) (\<lambda>g.
        Inr (t \<lparr>heightSprites := AList.update k
          \<lparr>blockHeight = group_height g, sprite_daaScore = getHeightGroupDAAScore d (group_height g)\<rparr>
          (heightSprites t)\<rparr>)))"

definition update_height_sprite :: "Bundle \<Rightarrow> string \<Rightarrow> Timeline \<Rightarrow> Timeline outcome" where
  "update_height_sprite d k t =
     (case map_of (heightSprites t) k of
        None \<Rightarrow> Inr t
      | Some s \<Rightarrow> and_then (lookup (heightKeysToHeightGroups t) k) (\<lambda>g.
          let score = getHeightGroupDAAScore d (group_height g)
          in if sprite_daaScore s \<noteq> score
             then Inr (t \<lparr>heightSprites := AList.update k (s \<lparr>sprite_daaScore := score\<rparr>) (heightSprites t)\<rparr>)
             else Inr t))"

definition add_block_sprite :: "string option \<Rightarrow> Block \<Rightarrow> Timeline \<Rightarrow> Timeline outcome" where
  "add_block_sprite targetKey b t =
     (let k = buildBlockKey (block_id b)
      in if has_key (blockSprites t) k then Inr t
         else and_then (assignBlockToBlockSprite t (new_block_sprite b) b targetKey) (\<lambda>s.
           Inr (t \<lparr>blockSprites := AList.update k s (blockSprites t)\<rparr>)))"

definition update_edge_sprite :: "string option \<Rightarrow> Edge \<Rightarrow> Timeline \<Rightarrow> Timeline outcome" where
  "update_edge_sprite targetKey e t =
     (case map_of (edgeSprites t) (buildEdgeKey e) of
        None \<Rightarrow> Inr t
      | Some s \<Rightarrow> Inr (t \<lparr>edgeSprites :=
          AList.update (buildEdgeKey e) (assignEdgeToEdgeSprite t s e targetKey) (edgeSprites t)\<rparr>))"

definition add_edge_sprite :: "string option \<Rightarrow> Edge \<Rightarrow> Timeline \<Rightarrow> Timeline outcome" where
  "add_edge_sprite targetKey e t =
     (if has_key (edgeSprites t) (buildEdgeKey e) then Inr t
      else Inr (t \<lparr>edgeSprites := AList.update (buildEdgeKey e)
        (assignEdgeToEdgeSprite t (new_edge_sprite (fromBlockId e) (toBlockId e)) e targetKey)
        (edgeSprites t)\<rparr>))"

section \<open>Positions\<close>

definition block_position ::
  "(real \<Rightarrow> real) \<Rightarrow> View \<Rightarrow> Timeline \<Rightarrow> Block \<Rightarrow> (real \<times> real) outcome" where
  "block_position fl v t b =
     (let blockSize = calculateBlockSize fl v; marginX = calculateMarginX fl blockSize
      in and_then (lookup (heightKeysToHeightGroups t) (buildHeightKey (height b))) (\<lambda>g.
           Inr (calculateBlockSpriteX fl (height b) blockSize marginX,
                calculateBlockSpriteY fl v (heightGroupIndex b) (group_size g) blockSize)))"

definition edge_position ::
  "(real \<Rightarrow> real) \<Rightarrow> View \<Rightarrow> Timeline \<Rightarrow> Edge \<Rightarrow> ((real \<times> real) \<times> (real \<times> real)) outcome" where
  "edge_position fl v t e =
     (let blockSize = calculateBlockSize fl v; marginX = calculateMarginX fl blockSize
      in and_then (lookup (heightKeysToHeightGroups t) (buildHeightKey (fromHeight e))) (\<lambda>fg.
         and_then (lookup (heightKeysToHeightGroups t) (buildHeightKey (toHeight e))) (\<lambda>tg.
           Inr ((calculateBlockSpriteX fl (fromHeight e) blockSize marginX,
                 calculateBlockSpriteY fl v (fromHeightGroupIndex e) (group_size fg) blockSize),
                (calculateBlockSpriteX fl (toHeight e) blockSize marginX,
                 calculateBlockSpriteY fl v (toHeightGroupIndex e) (group_size tg) blockSize)))))"

text \<open>The vector of an edge sprite and the point where it leaves the block.\<close>

definition edge_vector ::
  "(real \<Rightarrow> real) \<Rightarrow> BlockTheme \<Rightarrow> real \<Rightarrow> (real \<times> real) \<times> (real \<times> real) \<Rightarrow> (real \<times> real) \<times> (real \<times> real)" where
  "edge_vector fl th blockSize p =
     (case p of ((fromX, fromY), (toX, toY)) \<Rightarrow>
        let vectorX = fl (toX - fromX); vectorY = fl (toY - fromY)
        in ((vectorX, vectorY), clampVectorToBounds fl th blockSize vectorX vectorY))"

definition recalculateSpritePositions ::
  "(real \<Rightarrow> real) \<Rightarrow> View \<Rightarrow> Timeline \<Rightarrow> Timeline outcome" where
  "recalculateSpritePositions fl v t =
     and_then (fold_outcome (\<lambda>(k, e) u.
         and_then (edge_position fl v t e) (\<lambda>_. Inr u)) (edgeKeysToEdges t) ())
     (\<lambda>_. and_then (fold_outcome (\<lambda>(k, b) u.
         and_then (block_position fl v t b) (\<lambda>_. Inr u)) (blockKeysToBlocks t) ())
     (\<lambda>_. Inr t))"

definition setBlocksAndEdgesAndHeightGroups ::
  "(real \<Rightarrow> real) \<Rightarrow> View \<Rightarrow> Bundle \<Rightarrow> Block option \<Rightarrow> Timeline \<Rightarrow> Timeline outcome" where
  "setBlocksAndEdgesAndHeightGroups fl v d targetBlock t =
     (if (case currentBundle t of None \<Rightarrow> False
          | Some c \<Rightarrow> areBlocksAndEdgesAndHeightGroupsEqual c d)
      then Inr t
      else
        let targetKey = map_option (\<lambda>b. buildBlockKey (block_id b)) targetBlock;
            t1 = drop_sprites d (load_bundle d t)
        in and_then (fold_outcome (update_block_sprite targetKey) (blocks d) t1) (\<lambda>t2.
           and_then (fold_outcome (add_height_sprite d) (height_keys d) t2) (\<lambda>t3.
           and_then (fold_outcome (update_height_sprite d) (height_keys d) t3) (\<lambda>t4.
           and_then (fold_outcome (add_block_sprite targetKey) (blocks d) t4) (\<lambda>t5.
           and_then (fold_outcome (update_edge_sprite targetKey) (edges d) t5) (\<lambda>t6.
           and_then (fold_outcome (add_edge_sprite targetKey) (edges d) t6)
             (recalculateSpritePositions fl v)))))))"

definition setTargetBlock :: "Block option \<Rightarrow> Timeline \<Rightarrow> Timeline outcome" where
  "setTargetBlock targetBlock t =
     (let targetKey = map_option (\<lambda>b. buildBlockKey (block_id b)) targetBlock
      in and_then
           (fold_outcome (\<lambda>(k, b) t.
              and_then (lookup (blockSprites t) k) (\<lambda>s.
              and_then (assignBlockToBlockSprite t s b targetKey) (\<lambda>s'.
                Inr (t \<lparr>blockSprites := AList.update k s' (blockSprites t)\<rparr>))))
              (blockKeysToBlocks t) t)
           (fold_outcome (\<lambda>(k, e) t.
              and_then (lookup (edgeSprites t) k) (\<lambda>s.
                Inr (t \<lparr>edgeSprites := AList.update k (assignEdgeToEdgeSprite t s e targetKey) (edgeSprites t)\<rparr>)))
              (edgeKeysToEdges t)))"

definition findBlockWithHash :: "Timeline \<Rightarrow> string \<Rightarrow> Block option" where
  "findBlockWithHash t h = find (\<lambda>b. blockHash b = h) (map snd (blockKeysToBlocks t))"

definition setTargetHeight :: "int \<Rightarrow> Bundle option \<Rightarrow> Timeline \<Rightarrow> Timeline" where
  "setTargetHeight h newData t =
     (let t1 = t \<lparr>targetHeight := h\<rparr>;
          data = (case newData of None \<Rightarrow> currentBundle t1 | Some d \<Rightarrow> Some d)
      in case data of
           None \<Rightarrow> t1
         | Some d \<Rightarrow> t1 \<lparr>targetDAAScore := getHeightGroupDAAScore d (targetHeight t1)\<rparr>)"

definition setTargetDAAScore :: "int \<Rightarrow> Timeline \<Rightarrow> Timeline" where
  "setTargetDAAScore score t = recalculateTargetHeight (t \<lparr>targetDAAScore := score\<rparr>)"

end
