(* ===== verification/KgiDag.thy ===== *)
theory KgiDag
  imports KgiTimeline
begin

text \<open>
  The controller of the DAG viewer (\<open>web/src/dag/Dag.ts\<close>): the scale, the address bar that
  says what to follow, the tick loop, the four tracking functions cut at their awaits, and the
  block information panel with its cache of hashes. What the listeners are told is the list
  \<open>emitted\<close>, newest first. The query string is its list of decoded name and value pairs.
\<close>

section \<open>State\<close>

datatype TickFunction =
    doNothing | trackTargetHeight | trackTargetDAAScore | trackTargetHash | trackHead

record BlockInformation =
  info_block :: Block
  parentHashes :: "string option list"
  selectedParentHash :: "string option"
  mergeSetRedHashes :: "string option list"
  mergeSetBlueHashes :: "string option list"
  childHashes :: "string option list"
  selectedChildHash :: "string option"
  isInformationComplete :: bool

datatype Emitted =
    IsTrackingChanged bool
  | IsFetchFailing bool
  | BlockInformationChanged "BlockInformation option"
  | BlockClicked Block
  | AppConfigChanged AppConfig

record Dag =
  timeline :: Timeline
  currentScale :: real
  currentWidth :: real
  currentHeight :: real
  currentTickFunction :: TickFunction
  dag_targetHeight :: "int option"
  dag_targetDAAScore :: "int option"
  dag_targetHash :: "string option"
  dag_appConfig :: AppConfig
  blockHashesByIds :: "int \<rightharpoonup> string"
  urlParams :: "(string \<times> string) list"
  emitted :: "Emitted list"

definition new_dag :: "string \<Rightarrow> (string \<times> string) list \<Rightarrow> Dag" where
  "new_dag packageVersion params =
     \<lparr>timeline = new_timeline, currentScale = 1, currentWidth = 0, currentHeight = 0,
      currentTickFunction = doNothing, dag_targetHeight = None, dag_targetDAAScore = None,
      dag_targetHash = None, dag_appConfig = getDefaultAppConfig packageVersion,
      blockHashesByIds = Map.empty, urlParams = params, emitted = []\<rparr>"

definition emit :: "Emitted \<Rightarrow> Dag \<Rightarrow> Dag" where
  "emit e s = s \<lparr>emitted := e # emitted s\<rparr>"

definition dag_view :: "real \<times> real \<Rightarrow> Dag \<Rightarrow> View" where
  "dag_view screen s =
     \<lparr>screen_width = fst screen, screen_height = snd screen, view_scale = currentScale s\<rparr>"

section \<open>Size and scale\<close>

definition resize :: "(real \<Rightarrow> real) \<Rightarrow> real \<times> real \<Rightarrow> Dag \<Rightarrow> Dag outcome" where
  "resize fl screen s =
     and_then (recalculateSpritePositions fl (dag_view screen s) (timeline s)) (\<lambda>t.
       Inr (s \<lparr>timeline := t\<rparr>))"

definition resizeIfRequired :: "(real \<Rightarrow> real) \<Rightarrow> real \<times> real \<Rightarrow> Dag \<Rightarrow> Dag outcome" where
  "resizeIfRequired fl screen s =
     (if currentWidth s \<noteq> fst screen \<or> currentHeight s \<noteq> snd screen
      then resize fl screen (s \<lparr>currentWidth := fst screen, currentHeight := snd screen\<rparr>)
      else Inr s)"

definition bounded_scale :: "(real \<Rightarrow> real) \<Rightarrow> real \<Rightarrow> real" where
  "bounded_scale fl scale =
     fl (math_round (fl (max (fl (2 / 10)) (min scale (fl (12 / 10))) * 10)) / 10)"

definition setScale :: "(real \<Rightarrow> real) \<Rightarrow> real \<times> real \<Rightarrow> real \<Rightarrow> Dag \<Rightarrow> Dag outcome" where
  "setScale fl screen scale s =
     (let boundedScale = bounded_scale fl scale
      in if boundedScale \<noteq> currentScale s
         then resize fl screen (s \<lparr>currentScale := boundedScale\<rparr>)
         else Inr s)"

definition zoomIn :: "(real \<Rightarrow> real) \<Rightarrow> real \<times> real \<Rightarrow> Dag \<Rightarrow> Dag outcome" where
  "zoomIn fl screen s = setScale fl screen (fl (currentScale s - fl (1 / 10))) s"

definition zoomOut :: "(real \<Rightarrow> real) \<Rightarrow> real \<times> real \<Rightarrow> Dag \<Rightarrow> Dag outcome" where
  "zoomOut fl screen s = setScale fl screen (fl (currentScale s + fl (1 / 10))) s"

section \<open>Application configuration\<close>

definition setAppConfig :: "AppConfig \<Rightarrow> Dag \<Rightarrow> Dag" where
  "setAppConfig c s =
     (if \<not> areAppConfigsEqual c (dag_appConfig s)
      then emit (AppConfigChanged c) (s \<lparr>dag_appConfig := c\<rparr>) else s)"

definition resetAppConfig :: "string \<Rightarrow> Dag \<Rightarrow> Dag" where
  "resetAppConfig packageVersion s = setAppConfig (getDefaultAppConfig packageVersion) s"

text \<open>The answer to \<open>getAppConfig\<close>: a value, nothing, or a rejection.\<close>

definition app_config_answer :: "string \<Rightarrow> AppConfig option outcome \<Rightarrow> Dag \<Rightarrow> Dag" where
  "app_config_answer packageVersion r s =
     (case r of Inr (Some c) \<Rightarrow> setAppConfig c s | _ \<Rightarrow> resetAppConfig packageVersion s)"

section \<open>The address bar\<close>

definition param_get :: "(string \<times> string) list \<Rightarrow> string \<Rightarrow> string option" where
  "param_get ps k = map_of ps k"

definition param_delete :: "string \<Rightarrow> (string \<times> string) list \<Rightarrow> (string \<times> string) list" where
  "param_delete k ps = filter (\<lambda>(k', _). k' \<noteq> k) ps"

fun param_set :: "string \<Rightarrow> string \<Rightarrow> (string \<times> string) list \<Rightarrow> (string \<times> string) list" where
  "param_set k v [] = [(k, v)]"
| "param_set k v ((k', v') # ps) =
     (if k' = k then (k, v) # param_delete k ps else (k', v') # param_set k v ps)"

definition initializeUrlSearchParams :: "Dag \<Rightarrow> (string \<times> string) list" where
  "initializeUrlSearchParams s =
     param_delete ''daascore'' (param_delete ''height'' (param_delete ''hash'' (urlParams s)))"

text \<open>A parameter read as a number: absent, empty and unreadable texts count as absent.\<close>

definition int_param :: "Dag \<Rightarrow> string \<Rightarrow> int option" where
  "int_param s k =
     (case param_get (urlParams s) k of
        None \<Rightarrow> None | Some t \<Rightarrow> if t = [] then None else parseInt t)"

definition resolveTickFunction :: "Dag \<Rightarrow> Dag" where
  "resolveTickFunction s0 =
     (let s = s0 \<lparr>dag_targetHeight := None, dag_targetHash := None\<rparr>
      in case int_param s ''height'' of
           Some h \<Rightarrow> s \<lparr>dag_targetHeight := Some h, currentTickFunction := trackTargetHeight\<rparr>
         | None \<Rightarrow>
         (case int_param s ''daascore'' of
            Some d \<Rightarrow> s \<lparr>dag_targetDAAScore := Some d, currentTickFunction := trackTargetDAAScore\<rparr>
          | None \<Rightarrow>
          (case param_get (urlParams s) ''hash'' of
             None \<Rightarrow> s \<lparr>currentTickFunction := trackHead\<rparr>
           | Some h \<Rightarrow>
               if h = [] then s \<lparr>currentTickFunction := trackHead\<rparr>
               else s \<lparr>dag_targetHash := Some (to_lower h), currentTickFunction := trackTargetHash\<rparr>)))"

definition setStateTrackTargetHash :: "string \<Rightarrow> Dag \<Rightarrow> Dag" where
  "setStateTrackTargetHash h s =
     s \<lparr>urlParams := param_set ''hash'' h (initializeUrlSearchParams s)\<rparr>"

definition setStateTrackTargetBlock :: "Block \<Rightarrow> Dag \<Rightarrow> Dag" where
  "setStateTrackTargetBlock b s =
     s \<lparr>urlParams := param_set ''hash'' (blockHash b) (initializeUrlSearchParams s)\<rparr>"

definition setStateTrackTargetHeight :: "int \<Rightarrow> Dag \<Rightarrow> Dag" where
  "setStateTrackTargetHeight h s =
     s \<lparr>urlParams := param_set ''height'' (decimal h) (initializeUrlSearchParams s)\<rparr>"

definition setStateTrackTargetDAAScore :: "int \<Rightarrow> Dag \<Rightarrow> Dag" where
  "setStateTrackTargetDAAScore d s =
     s \<lparr>urlParams := param_set ''daascore'' (decimal d) (initializeUrlSearchParams s)\<rparr>"

definition setStateTrackCurrent :: "Dag \<Rightarrow> Dag" where
  "setStateTrackCurrent s = setStateTrackTargetDAAScore (targetDAAScore (timeline s)) s"

definition setStateTrackHead :: "Dag \<Rightarrow> Dag" where
  "setStateTrackHead s = s \<lparr>urlParams := initializeUrlSearchParams s\<rparr>"

definition notifyIsTrackingChanged :: "Dag \<Rightarrow> Dag" where
  "notifyIsTrackingChanged s = emit (IsTrackingChanged (currentTickFunction s = trackHead)) s"

text \<open>Clicks: what they do before the \<open>run()\<close> they end in.\<close>

definition handleBlockClicked :: "Block \<Rightarrow> Dag \<Rightarrow> Dag" where
  "handleBlockClicked b s =
     (let s1 = emit (BlockClicked b) s;
          s2 = s1 \<lparr>timeline := setTargetHeight (height b) None (timeline s1)\<rparr>
      in setStateTrackTargetBlock b (emit (BlockClicked b) s2))"

definition handleDAAScoreClicked :: "int \<Rightarrow> Dag \<Rightarrow> Dag" where
  "handleDAAScoreClicked d s =
     setStateTrackTargetDAAScore d (s \<lparr>timeline := setTargetDAAScore d (timeline s)\<rparr>)"

section \<open>The cache of hashes and the information panel\<close>

definition cacheBlockHashes :: "Block list \<Rightarrow> Dag \<Rightarrow> Dag" where
  "cacheBlockHashes bs s =
     s \<lparr>blockHashesByIds := fold (\<lambda>b m. m(block_id b \<mapsto> blockHash b)) bs (blockHashesByIds s)\<rparr>"

fun getCachedBlockHashes ::
  "(int \<rightharpoonup> string) \<Rightarrow> int list \<Rightarrow> string option list \<times> int list \<Rightarrow> string option list \<times> int list" where
  "getCachedBlockHashes m [] acc = acc"
| "getCachedBlockHashes m (i # is) (found, missing) =
     getCachedBlockHashes m is
       (case m i of
          None \<Rightarrow> (found, missing @ [i])
        | Some h \<Rightarrow> if h = [] then (found, missing @ [i]) else (found @ [Some h], missing))"

text \<open>What \<open>buildBlockInformation\<close> has before it asks the source, and which ids it misses.\<close>

record Missing =
  notFoundParentIds :: "int list"
  notFoundMergeSetRedIds :: "int list"
  notFoundMergeSetBlueIds :: "int list"
  notFoundChildIds :: "int list"
  notFoundIds :: "int list"
  info_selectedChildId :: "int option"

definition truthy_id :: "int option \<Rightarrow> int option" where
  "truthy_id i = (case i of None \<Rightarrow> None | Some j \<Rightarrow> if j = 0 then None else Some j)"

definition first_hash :: "string option list \<Rightarrow> string option" where
  "first_hash hs = (case hs of [] \<Rightarrow> None | h # _ \<Rightarrow> h)"

definition information_from_cache :: "Dag \<Rightarrow> Block \<Rightarrow> BlockInformation \<times> Missing" where
  "information_from_cache s b =
     (let m = blockHashesByIds s;
          (parents, missingParents) = getCachedBlockHashes m (parentIds b) ([], []);
          (selParent, missingSel) =
            (case truthy_id (selectedParentId b) of
               None \<Rightarrow> (None, [])
             | Some i \<Rightarrow> (case getCachedBlockHashes m [i] ([], []) of (hs, ms) \<Rightarrow> (first_hash hs, ms)));
          (reds, missingReds) = getCachedBlockHashes m (mergeSetRedIds b) ([], []);
          (blues, missingBlues) = getCachedBlockHashes m (mergeSetBlueIds b) ([], []);
          (childIds, selectedChildId) = getBlockChildIds (currentBundle (timeline s)) b;
          (children, missingChildren) = getCachedBlockHashes m childIds ([], []);
          selChild =
            (case truthy_id selectedChildId of
               None \<Rightarrow> None
             | Some i \<Rightarrow> first_hash (fst (getCachedBlockHashes m [i] ([], []))));
          missing = missingParents @ missingSel @ missingReds @ missingBlues @ missingChildren
      in (\<lparr>info_block = b, parentHashes = parents, selectedParentHash = selParent,
           mergeSetRedHashes = reds, mergeSetBlueHashes = blues, childHashes = children,
           selectedChildHash = selChild, isInformationComplete = (missing = [])\<rparr>,
          \<lparr>notFoundParentIds = missingParents, notFoundMergeSetRedIds = missingReds,
           notFoundMergeSetBlueIds = missingBlues, notFoundChildIds = missingChildren,
           notFoundIds = missing, info_selectedChildId = selectedChildId\<rparr>))"

definition hashes_request :: "Missing \<Rightarrow> string option" where
  "hashes_request ms =
     (if notFoundIds ms = [] then None
      else Some (join_with (CHR '','') (map decimal (notFoundIds ms))))"

text \<open>One hash of the answer: it feeds the cache and is spread over the lists that missed it.\<close>

definition spread_hash :: "Missing \<Rightarrow> BlockHashById \<Rightarrow> BlockInformation \<Rightarrow> BlockInformation" where
  "spread_hash ms x info =
     (let h = hash_text x; is_in = (\<lambda>ids. \<exists>i \<in> set ids. hash_id x = Some i);
          info1 = (if is_in (notFoundParentIds ms)
                   then info \<lparr>parentHashes := parentHashes info @ [h]\<rparr> else info);
          info2 = (if selectedParentId (info_block info) \<noteq> None \<and>
                      selectedParentId (info_block info) = hash_id x
                   then info1 \<lparr>selectedParentHash := h\<rparr> else info1);
          info3 = (if is_in (notFoundMergeSetRedIds ms)
                   then info2 \<lparr>mergeSetBlueHashes := mergeSetBlueHashes info2 @ [h]\<rparr> else info2);
          info4 = (if is_in (notFoundMergeSetBlueIds ms)
                   then info3 \<lparr>mergeSetBlueHashes := mergeSetBlueHashes info3 @ [h]\<rparr> else info3);
          info5 = (if is_in (notFoundChildIds ms)
                   then info4 \<lparr>childHashes := childHashes info4 @ [h]\<rparr> else info4)
      in if info_selectedChildId ms \<noteq> None \<and> info_selectedChildId ms = hash_id x
         then info5 \<lparr>selectedChildHash := h\<rparr> else info5)"

definition feed_cache :: "BlockHashById \<Rightarrow> (int \<rightharpoonup> string) \<Rightarrow> (int \<rightharpoonup> string)" where
  "feed_cache x m = (case hash_id x of None \<Rightarrow> m | Some i \<Rightarrow> m(i := hash_text x))"

definition information_answer ::
  "BlockInformation \<times> Missing \<Rightarrow> BlockHashById list option \<Rightarrow> Dag \<Rightarrow> Dag \<times> BlockInformation" where
  "information_answer p answer s =
     (case p of (info, ms) \<Rightarrow>
        case answer of
          None \<Rightarrow> (s, info)
        | Some xs \<Rightarrow>
            (s \<lparr>blockHashesByIds := fold feed_cache xs (blockHashesByIds s)\<rparr>,
             fold (spread_hash ms) xs info))"

section \<open>The tracking functions\<close>

text \<open>What a tracking function asks the data source for.\<close>

datatype Request =
    GetBlocksBetweenHeights int int
  | GetBlockHash string int
  | GetBlockDAAScore int int
  | GetHead int

text \<open>
  The part of each function up to its first request; \<open>answered\<close> is the part every function runs
  when the answer arrives, \<open>fetched\<close> tells whether it goes on.
\<close>

definition clear_target :: "Dag \<Rightarrow> Dag outcome" where
  "clear_target s =
     and_then (setTargetBlock None (timeline s)) (\<lambda>t.
       Inr (emit (BlockInformationChanged None) (s \<lparr>timeline := t\<rparr>)))"

definition height_start :: "(real \<Rightarrow> real) \<Rightarrow> real \<times> real \<Rightarrow> int \<Rightarrow> Dag \<Rightarrow> (Dag \<times> Request) outcome" where
  "height_start fl screen h s =
     and_then (clear_target (s \<lparr>timeline := setTargetHeight h None (timeline s)\<rparr>)) (\<lambda>s1.
       case getVisibleHeightRange fl (dag_view screen s1) h of
         (a, e) \<Rightarrow> Inr (s1, GetBlocksBetweenHeights a e))"

definition score_start :: "(real \<Rightarrow> real) \<Rightarrow> real \<times> real \<Rightarrow> int \<Rightarrow> Dag \<Rightarrow> (Dag \<times> Request) outcome" where
  "score_start fl screen d s =
     and_then (clear_target (s \<lparr>timeline := setTargetDAAScore d (timeline s)\<rparr>)) (\<lambda>s1.
       Inr (s1, GetBlockDAAScore d (getMaxBlockAmountOnHalfTheScreen fl (dag_view screen s1))))"

definition head_difference :: "(real \<Rightarrow> real) \<Rightarrow> real \<times> real \<Rightarrow> Dag \<Rightarrow> int" where
  "head_difference fl screen s =
     getVisibleSlotAmountAfterHalfTheScreen fl (dag_view screen s) headMinRightMargin"

definition head_start :: "(real \<Rightarrow> real) \<Rightarrow> real \<times> real \<Rightarrow> Dag \<Rightarrow> (Dag \<times> Request) outcome" where
  "head_start fl screen s =
     and_then (clear_target s) (\<lambda>s1.
       Inr (s1, GetHead (getMaxBlockAmountOnHalfTheScreen fl (dag_view screen s1) +
                         head_difference fl screen s1)))"

text \<open>With the target on screen the panel is built first, at an await of its own.\<close>

definition hash_start :: "string \<Rightarrow> Dag \<Rightarrow> (Dag \<times> Block option) outcome" where
  "hash_start h s =
     (case findBlockWithHash (timeline s) h of
        None \<Rightarrow> Inr (s, None)
      | Some b \<Rightarrow>
          and_then (setTargetBlock (Some b) (setTargetHeight (height b) None (timeline s))) (\<lambda>t.
            Inr (s \<lparr>timeline := t\<rparr>, Some b)))"

definition hash_request :: "(real \<Rightarrow> real) \<Rightarrow> real \<times> real \<Rightarrow> string \<Rightarrow> Dag \<Rightarrow> Request" where
  "hash_request fl screen h s = GetBlockHash h (getMaxBlockAmountOnHalfTheScreen fl (dag_view screen s))"

definition information_ready :: "BlockInformation \<Rightarrow> Dag \<Rightarrow> Dag" where
  "information_ready info s = emit (BlockInformationChanged (Some info)) s"

definition answered :: "Bundle option \<Rightarrow> Dag \<Rightarrow> Dag" where
  "answered r s =
     (let s1 = emit (IsFetchFailing (r = None)) s
      in case r of None \<Rightarrow> s1 | Some d \<Rightarrow> cacheBlockHashes (blocks d) s1)"

definition height_answer ::
  "(real \<Rightarrow> real) \<Rightarrow> real \<times> real \<Rightarrow> int \<Rightarrow> Bundle option \<Rightarrow> Dag \<Rightarrow> Dag outcome" where
  "height_answer fl screen h r s =
     (let s1 = answered r s
      in case r of
           None \<Rightarrow> Inr s1
         | Some d \<Rightarrow>
             if currentTickFunction s1 \<noteq> trackTargetHeight \<or> dag_targetHeight s1 \<noteq> Some h then Inr s1
             else and_then (setBlocksAndEdgesAndHeightGroups fl (dag_view screen s1) d None
                      (setTargetHeight h (Some d) (timeline s1))) (\<lambda>t. Inr (s1 \<lparr>timeline := t\<rparr>)))"

definition score_answer ::
  "(real \<Rightarrow> real) \<Rightarrow> real \<times> real \<Rightarrow> int \<Rightarrow> Bundle option \<Rightarrow> Dag \<Rightarrow> Dag outcome" where
  "score_answer fl screen sc r s =
     (let s1 = answered r s
      in case r of
           None \<Rightarrow> Inr s1
         | Some d \<Rightarrow>
             if currentTickFunction s1 \<noteq> trackTargetDAAScore \<or> dag_targetDAAScore s1 \<noteq> Some sc then Inr s1
             else and_then (setBlocksAndEdgesAndHeightGroups fl (dag_view screen s1) d None (timeline s1))
                    (\<lambda>t. Inr (s1 \<lparr>timeline := setTargetDAAScore sc t\<rparr>)))"

fun max_block_height :: "Block list \<Rightarrow> int \<Rightarrow> int" where
  "max_block_height [] m = m"
| "max_block_height (b # bs) m = max_block_height bs (if height b > m then height b else m)"

definition head_answer ::
  "(real \<Rightarrow> real) \<Rightarrow> real \<times> real \<Rightarrow> int \<Rightarrow> Bundle option \<Rightarrow> Dag \<Rightarrow> Dag outcome" where
  "head_answer fl screen heightDifference r s =
     (let s1 = answered r s
      in case r of
           None \<Rightarrow> Inr s1
         | Some d \<Rightarrow>
             if currentTickFunction s1 \<noteq> trackHead then Inr s1
             else
               let h = max 0 (max_block_height (blocks d) 0 - heightDifference)
               in and_then (setBlocksAndEdgesAndHeightGroups fl (dag_view screen s1) d None
                      (setTargetHeight h (Some d) (timeline s1))) (\<lambda>t. Inr (s1 \<lparr>timeline := t\<rparr>)))"

text \<open>The block of the panel, when the function goes on to build it.\<close>

definition hash_answer ::
  "(real \<Rightarrow> real) \<Rightarrow> real \<times> real \<Rightarrow> string \<Rightarrow> Block option \<Rightarrow> Bundle option \<Rightarrow> Dag \<Rightarrow> (Dag \<times> Block option) outcome" where
  "hash_answer fl screen h found r s =
     (let s1 = answered r s
      in case r of
           None \<Rightarrow> Inr (s1, None)
         | Some d \<Rightarrow>
             if currentTickFunction s1 \<noteq> trackTargetHash \<or> dag_targetHash s1 \<noteq> Some h then Inr (s1, None)
             else
               let target = (case find (\<lambda>b. blockHash b = h) (blocks d) of None \<Rightarrow> found | Some b \<Rightarrow> Some b)
               in case target of
                    None \<Rightarrow> Inr (s1, None)
                  | Some b \<Rightarrow>
                      and_then (setBlocksAndEdgesAndHeightGroups fl (dag_view screen s1) d (Some b)
                        (setTargetHeight (height b) (Some d) (timeline s1))) (\<lambda>t.
                          Inr (s1 \<lparr>timeline := t\<rparr>, Some b)))"

section \<open>The tick loop\<close>

text \<open>
  The timers of the loop: the id of the newest scheduled timer, the timers that have not fired,
  and for each tick still waiting for its data source the id it saw when it started.
\<close>

record TickLoop =
  currentTickId :: nat
  pendingTimers :: "nat list"
  inFlight :: "nat list"

definition loop_start :: TickLoop where
  "loop_start = \<lparr>currentTickId = 0, pendingTimers = [], inFlight = []\<rparr>"

definition begin_tick :: "TickLoop \<Rightarrow> TickLoop" where
  "begin_tick l = l \<lparr>inFlight := inFlight l @ [currentTickId l]\<rparr>"

definition run :: "TickLoop \<Rightarrow> TickLoop" where
  "run l = begin_tick (l \<lparr>pendingTimers := remove1 (currentTickId l) (pendingTimers l)\<rparr>)"

definition scheduleNextTick :: "nat \<Rightarrow> TickLoop \<Rightarrow> TickLoop" where
  "scheduleNextTick timer l =
     l \<lparr>currentTickId := timer, pendingTimers := pendingTimers l @ [timer]\<rparr>"

text \<open>
  \<open>setTimeout\<close> answers with an id it has not used before. A tick that fulfils schedules the next
  one if no other tick has done so since it started.
\<close>

inductive loop_step :: "TickLoop \<Rightarrow> TickLoop \<Rightarrow> bool" where
  user: "loop_step l (run l)"
| fire: "t \<in> set (pendingTimers l) \<Longrightarrow>
     loop_step l (begin_tick (l \<lparr>pendingTimers := remove1 t (pendingTimers l)\<rparr>))"
| fulfil_current: "inFlight l = xs @ c # ys \<Longrightarrow> c = currentTickId l \<Longrightarrow> timer > currentTickId l \<Longrightarrow>
     loop_step l (scheduleNextTick timer (l \<lparr>inFlight := xs @ ys\<rparr>))"
| fulfil_stale: "inFlight l = xs @ c # ys \<Longrightarrow> c \<noteq> currentTickId l \<Longrightarrow>
     loop_step l (l \<lparr>inFlight := xs @ ys\<rparr>)"

text \<open>A tick whose promise is rejected leaves the loop as it is: there is no handler.\<close>

definition reject_tick :: "nat \<Rightarrow> TickLoop \<Rightarrow> TickLoop" where
  "reject_tick c l = l \<lparr>inFlight := remove1 c (inFlight l)\<rparr>"

section \<open>One tick\<close>

text \<open>
  What a started tick waits for: the answer to a request, the panel of a block on screen, or
  nothing more because its function has thrown.
\<close>

datatype Waiting =
    AwaitsAnswer Request
  | AwaitsPanel Block
  | Rejected failure
  | Fulfilled

definition start_function ::
  "(real \<Rightarrow> real) \<Rightarrow> real \<times> real \<Rightarrow> Dag \<Rightarrow> Dag \<times> Waiting" where
  "start_function fl screen s =
     (let asked = (\<lambda>r. case r of Inl e \<Rightarrow> (s, Rejected e) | Inr (s', q) \<Rightarrow> (s', AwaitsAnswer q))
      in case currentTickFunction s of
           doNothing \<Rightarrow> (s, Fulfilled)
         | trackTargetHeight \<Rightarrow>
             (case dag_targetHeight s of None \<Rightarrow> (s, Rejected (TypeError ''null''))
              | Some h \<Rightarrow> asked (height_start fl screen h s))
         | trackTargetDAAScore \<Rightarrow>
             (case dag_targetDAAScore s of None \<Rightarrow> (s, Rejected (TypeError ''null''))
              | Some d \<Rightarrow> asked (score_start fl screen d s))
         | trackTargetHash \<Rightarrow>
             (case dag_targetHash s of None \<Rightarrow> (s, Rejected (TypeError ''null''))
              | Some h \<Rightarrow>
                  (case hash_start h s of
                     Inl e \<Rightarrow> (s, Rejected e)
                   | Inr (s', Some b) \<Rightarrow> (s', AwaitsPanel b)
                   | Inr (s', None) \<Rightarrow> (s', AwaitsAnswer (hash_request fl screen h s'))))
         | trackHead \<Rightarrow> asked (head_start fl screen s))"

definition tick :: "(real \<Rightarrow> real) \<Rightarrow> real \<times> real \<Rightarrow> Dag \<Rightarrow> Dag \<times> Waiting" where
  "tick fl screen s =
     (case start_function fl screen (resolveTickFunction s) of
        (s', w) \<Rightarrow> (notifyIsTrackingChanged s', w))"

end
