(* ===== verification/KgiReplay.thy ===== *)
theory KgiReplay
  imports KgiSource
begin

text \<open>
  The data source that replays a recorded DAG (\<open>web/src/data/ReplayDataSource.ts\<close>): blocks are
  added one per timer tick under the height after their highest parent, every edge is stored at
  each height it crosses, and after the last block the recording starts again. A query collects
  the levels of a range, each edge and each height group once.

  The levels are an association list because the source counts its keys. An exception of the
  timer callback ends the replay, so the state it leaves half-changed is not kept.
\<close>

record ReplayDataBlock =
  rb_id :: int
  rb_parentIds :: "int list"
  rb_selectedParentId :: "int option"
  rb_color :: BlockColor
  rb_isInVirtualSelectedParentChain :: bool
  rb_mergeSetRedIds :: "int list"
  rb_mergeSetBlueIds :: "int list"

record ReplayData =
  rd_blocks :: "ReplayDataBlock list"
  rd_blockInterval :: int

record DatumAtHeight =
  datum_height :: int
  datum_blocks :: "Block list"
  datum_edges :: "Edge list"

record ReplayDataSource =
  currentReplayBlockIndex :: nat
  blockIdsToHeights :: "int \<rightharpoonup> int"
  dataAtHeight :: "(int \<times> DatumAtHeight) list"
  r_blockHashesByIds :: "int \<rightharpoonup> string"
  r_blockIdsByHashes :: "string \<rightharpoonup> int"
  r_blockIdsByDAAScores :: "int \<rightharpoonup> int"

definition replay_fields :: ReplayDataSource where
  "replay_fields =
     \<lparr>currentReplayBlockIndex = 0, blockIdsToHeights = Map.empty, dataAtHeight = [],
      r_blockHashesByIds = Map.empty, r_blockIdsByHashes = Map.empty,
      r_blockIdsByDAAScores = Map.empty\<rparr>"

definition reset :: "ReplayDataSource \<Rightarrow> ReplayDataSource" where
  "reset s =
     s \<lparr>currentReplayBlockIndex := 0, blockIdsToHeights := Map.empty, dataAtHeight := [],
        r_blockHashesByIds := Map.empty, r_blockIdsByHashes := Map.empty\<rparr>"

section \<open>Adding a block\<close>

fun max_parent_height :: "(int \<rightharpoonup> int) \<Rightarrow> int list \<Rightarrow> int \<Rightarrow> int" where
  "max_parent_height hs [] m = m"
| "max_parent_height hs (p # ps) m =
     max_parent_height hs ps
       (case hs p of None \<Rightarrow> m | Some parentHeight \<Rightarrow> if parentHeight > m then parentHeight else m)"

fun find_index :: "(Block \<Rightarrow> bool) \<Rightarrow> Block list \<Rightarrow> int \<Rightarrow> int" where
  "find_index P [] i = - 1"
| "find_index P (b # bs) i = (if P b then i else find_index P bs (i + 1))"

text \<open>Pushing the edge at every height from \<open>i\<close> down to its parent's.\<close>

function push_down ::
  "Edge \<Rightarrow> int \<Rightarrow> int \<Rightarrow> (int \<times> DatumAtHeight) list \<Rightarrow> (int \<times> DatumAtHeight) list outcome" where
  "push_down e i parentHeight D =
     (if i \<ge> parentHeight then
        case map_of D i of
          None \<Rightarrow> Inl (TypeError ''dataAtHeight is undefined'')
        | Some dat \<Rightarrow>
            push_down e (i - 1) parentHeight
              (AList.update i (dat \<lparr>datum_edges := datum_edges dat @ [e]\<rparr>) D)
      else Inr D)"
  by pat_completeness auto
termination by (relation "measure (\<lambda>(e, i, p, D). nat (i + 1 - p))") auto

declare push_down.simps [simp del]

definition add_edge :: "int \<Rightarrow> int \<Rightarrow> int \<Rightarrow> int \<Rightarrow> ReplayDataSource \<Rightarrow> ReplayDataSource outcome" where
  "add_edge blockId h heightGroupIx parentId s =
     (case Option.bind (blockIdsToHeights s parentId) (\<lambda>parentHeight.
             map_option (\<lambda>dat. (parentHeight, dat)) (map_of (dataAtHeight s) parentHeight)) of
        None \<Rightarrow> Inl (TypeError ''parentDataAtHeight is undefined'')
      | Some (parentHeight, parentData) \<Rightarrow>
          let parentIx = find_index (\<lambda>b. block_id b = parentId) (datum_blocks parentData) 0;
              nextEdge =
                \<lparr>fromBlockId = blockId, toBlockId = parentId, fromHeight = h, toHeight = parentHeight,
                 fromHeightGroupIndex = heightGroupIx, toHeightGroupIndex = parentIx\<rparr>
          in and_then (push_down nextEdge h parentHeight (dataAtHeight s)) (\<lambda>D.
               Inr (s \<lparr>dataAtHeight := D\<rparr>)))"

definition replay_block :: "ReplayData \<Rightarrow> nat \<Rightarrow> ReplayDataBlock \<Rightarrow> int \<Rightarrow> int \<Rightarrow> Block" where
  "replay_block data ix rb h heightGroupIx =
     \<lparr>block_id = rb_id rb, blockHash = repeated_id (rb_id rb),
      timestamp = int ix * rd_blockInterval data, parentIds = rb_parentIds rb, height = h,
      daaScore = h, heightGroupIndex = heightGroupIx, selectedParentId = rb_selectedParentId rb,
      color = rb_color rb,
      isInVirtualSelectedParentChain = rb_isInVirtualSelectedParentChain rb,
      mergeSetRedIds = rb_mergeSetRedIds rb, mergeSetBlueIds = rb_mergeSetBlueIds rb\<rparr>"

definition place_block :: "ReplayData \<Rightarrow> ReplayDataBlock \<Rightarrow> int \<Rightarrow> ReplayDataSource \<Rightarrow> ReplayDataSource" where
  "place_block data rb h s =
     (let dat = (case map_of (dataAtHeight s) h of
                   None \<Rightarrow> \<lparr>datum_height = h, datum_blocks = [], datum_edges = []\<rparr>
                 | Some dat \<Rightarrow> dat);
          b = replay_block data (currentReplayBlockIndex s) rb h (int (length (datum_blocks dat)))
      in s \<lparr>dataAtHeight :=
              AList.update h (dat \<lparr>datum_blocks := datum_blocks dat @ [b]\<rparr>) (dataAtHeight s),
            blockIdsToHeights := (blockIdsToHeights s)(rb_id rb \<mapsto> h)\<rparr>)"

definition group_index_at :: "ReplayDataSource \<Rightarrow> int \<Rightarrow> int" where
  "group_index_at s h =
     (case map_of (dataAtHeight s) h of None \<Rightarrow> 0 | Some dat \<Rightarrow> int (length (datum_blocks dat)))"

definition addNextBlock :: "ReplayData \<Rightarrow> ReplayDataSource \<Rightarrow> ReplayDataSource outcome" where
  "addNextBlock data s =
     (if currentReplayBlockIndex s \<ge> length (rd_blocks data) then
        Inl (TypeError ''nextReplayBlock is undefined'')
      else
        let rb = rd_blocks data ! currentReplayBlockIndex s;
            h = max_parent_height (blockIdsToHeights s) (rb_parentIds rb) (- 1) + 1;
            heightGroupIx = group_index_at s h
        in and_then
             (fold_outcome (add_edge (rb_id rb) h heightGroupIx) (rb_parentIds rb)
                (place_block data rb h s))
             (\<lambda>s'. Inr (s'
                \<lparr>r_blockHashesByIds := (r_blockHashesByIds s')(rb_id rb \<mapsto> repeated_id (rb_id rb)),
                 r_blockIdsByHashes := (r_blockIdsByHashes s')(repeated_id (rb_id rb) \<mapsto> rb_id rb),
                 currentReplayBlockIndex := currentReplayBlockIndex s' + 1\<rparr>)))"

text \<open>
  The timer: the next block while some are left, otherwise a reset followed by the first block.
  The constructor adds the first block.
\<close>

definition replay_tick :: "ReplayData \<Rightarrow> ReplayDataSource \<Rightarrow> ReplayDataSource outcome" where
  "replay_tick data s =
     (if currentReplayBlockIndex s < length (rd_blocks data) then addNextBlock data s
      else addNextBlock data (reset s))"

definition new_replay :: "ReplayData \<Rightarrow> ReplayDataSource outcome" where
  "new_replay data = addNextBlock data replay_fields"

fun replay_ticks :: "ReplayData \<Rightarrow> nat \<Rightarrow> ReplayDataSource \<Rightarrow> ReplayDataSource outcome" where
  "replay_ticks data 0 s = Inr s"
| "replay_ticks data (Suc n) s = and_then (replay_tick data s) (replay_ticks data n)"

section \<open>Queries\<close>

definition edge_key :: "int \<Rightarrow> int \<Rightarrow> string" where
  "edge_key f t = decimal f @ ''-'' @ decimal t"

record Gathered =
  g_bundle :: Bundle
  seenEdges :: "string list"
  seenHeightGroups :: "int list"

definition pushEdge :: "Edge \<Rightarrow> Gathered \<Rightarrow> Gathered" where
  "pushEdge e g =
     (let k = edge_key (fromBlockId e) (toBlockId e)
      in if k \<in> set (seenEdges g) then g
         else g \<lparr>seenEdges := k # seenEdges g,
                 g_bundle := (g_bundle g) \<lparr>edges := edges (g_bundle g) @ [e]\<rparr>\<rparr>)"

definition pushHeightGroup :: "ReplayDataSource \<Rightarrow> int \<Rightarrow> Gathered \<Rightarrow> Gathered outcome" where
  "pushHeightGroup s h g =
     (if h \<in> set (seenHeightGroups g) then Inr g
      else case map_of (dataAtHeight s) h of
        None \<Rightarrow> Inl (TypeError ''dataAtHeight is undefined'')
      | Some dat \<Rightarrow>
          Inr (g \<lparr>seenHeightGroups := h # seenHeightGroups g,
                  g_bundle := (g_bundle g)
                    \<lparr>heightGroups := heightGroups (g_bundle g) @
                       [\<lparr>group_height = h, group_size = int (length (datum_blocks dat))\<rparr>]\<rparr>\<rparr>))"

definition gather_edge :: "ReplayDataSource \<Rightarrow> Edge \<Rightarrow> Gathered \<Rightarrow> Gathered outcome" where
  "gather_edge s e g =
     and_then (pushHeightGroup s (fromHeight e) (pushEdge e g)) (pushHeightGroup s (toHeight e))"

definition gather_level :: "ReplayDataSource \<Rightarrow> int \<Rightarrow> Gathered \<Rightarrow> Gathered outcome" where
  "gather_level s h g =
     (case map_of (dataAtHeight s) h of
        None \<Rightarrow> Inr g
      | Some dat \<Rightarrow>
          and_then
            (fold_outcome (gather_edge s) (datum_edges dat)
               (g \<lparr>g_bundle := (g_bundle g) \<lparr>blocks := blocks (g_bundle g) @ datum_blocks dat\<rparr>\<rparr>))
            (pushHeightGroup s h))"

definition empty_gathered :: Gathered where
  "empty_gathered =
     \<lparr>g_bundle = \<lparr>blocks = [], edges = [], heightGroups = []\<rparr>, seenEdges = [], seenHeightGroups = []\<rparr>"

definition height_range :: "js_int \<Rightarrow> js_int \<Rightarrow> int list" where
  "height_range a e = (case (a, e) of (Some x, Some y) \<Rightarrow> [x..y] | _ \<Rightarrow> [])"

definition replay_window :: "ReplayDataSource \<Rightarrow> js_int \<Rightarrow> js_int \<Rightarrow> Bundle outcome" where
  "replay_window s startHeight endHeight =
     (let startH = (if js_less startHeight (Some 0) then Some 0 else startHeight);
          n = Some (int (length (dataAtHeight s)));
          endH = (if js_less n endHeight then n else endHeight)
      in and_then (fold_outcome (gather_level s) (height_range startH endH) empty_gathered)
           (\<lambda>g. Inr (g_bundle g)))"

definition replay_getBlockHash :: "ReplayDataSource \<Rightarrow> string \<Rightarrow> int \<Rightarrow> Bundle outcome" where
  "replay_getBlockHash s targetHash heightDifference =
     (let targetId = r_blockIdsByHashes s targetHash
      in replay_window s (js_minus targetId (Some heightDifference))
           (js_plus targetId (Some heightDifference)))"

definition replay_getBlockDAAScore :: "ReplayDataSource \<Rightarrow> int \<Rightarrow> int \<Rightarrow> Bundle outcome" where
  "replay_getBlockDAAScore s targetDAAScore heightDifference =
     (let targetId = r_blockIdsByDAAScores s targetDAAScore
      in replay_window s (js_minus targetId (Some heightDifference))
           (js_plus targetId (Some heightDifference)))"

definition replay_getHead :: "ReplayDataSource \<Rightarrow> int \<Rightarrow> Bundle outcome" where
  "replay_getHead s heightDifference =
     (let dataLength = int (length (dataAtHeight s))
      in replay_window s (Some (dataLength - heightDifference)) (Some dataLength))"

definition replay_getBlockHashesByIds ::
  "ReplayDataSource \<Rightarrow> string \<Rightarrow> BlockHashById list outcome" where
  "replay_getBlockHashesByIds s blockIdsString =
     Inr (hashes_of_ids (r_blockHashesByIds s) blockIdsString)"

definition replay_names :: "string list" where
  "replay_names =
     [''ghostdag-5bps-k18'', ''ghostdag-10bps-k18'', ''ghostdag-10bps-k102'', ''ghostdag-20bps-k18'',
      ''ghostdag-20bps-k196'', ''ghostdag-50bps-k18'', ''ghostdag-50bps-k469'',
      ''ghostdag-100bps-k18'', ''ghostdag-100bps-k402'']"

text \<open>The recordings are fetched by name; \<open>fetch\<close> and the JSON are a parameter.\<close>

definition buildReplayDataSource ::
  "(string \<Rightarrow> ReplayData outcome) \<Rightarrow> string option \<Rightarrow> ReplayDataSource outcome" where
  "buildReplayDataSource recording name =
     (let n = (case name of
                 None \<Rightarrow> ''ghostdag-5bps-k18''
               | Some t \<Rightarrow> if t = [] \<or> t \<notin> set replay_names then ''ghostdag-5bps-k18'' else t)
      in and_then (recording n) new_replay)"

end
