(* ===== verification/KgiReplayFacts.thy ===== *)
theory KgiReplayFacts
  imports KgiReplay
begin

text \<open>
  The invariant of the replaying source and what its queries return: adding a block whose parents
  are present never fails and keeps the levels contiguous, every block in its slot and every edge
  at exactly the heights it crosses; a query over such levels answers with a drawable bundle.
\<close>

named_theorems level_simps

definition blocks_at :: "(int \<times> DatumAtHeight) list \<Rightarrow> int \<Rightarrow> Block list" where
  "blocks_at D h = (case map_of D h of None \<Rightarrow> [] | Some dat \<Rightarrow> datum_blocks dat)"

definition edges_at :: "(int \<times> DatumAtHeight) list \<Rightarrow> int \<Rightarrow> Edge list" where
  "edges_at D h = (case map_of D h of None \<Rightarrow> [] | Some dat \<Rightarrow> datum_edges dat)"

definition slot :: "(int \<times> DatumAtHeight) list \<Rightarrow> int \<Rightarrow> int \<Rightarrow> bool" where
  "slot D h i \<longleftrightarrow> 0 \<le> i \<and> i < int (length (blocks_at D h))"

definition contiguous :: "(int \<times> DatumAtHeight) list \<Rightarrow> bool" where
  "contiguous D \<longleftrightarrow> distinct (map fst D) \<and> fst ` set D = {0..<int (length D)}"

definition slotted :: "(int \<times> DatumAtHeight) list \<Rightarrow> bool" where
  "slotted D \<longleftrightarrow> (\<forall>h i. i < length (blocks_at D h) \<longrightarrow>
     height (blocks_at D h ! i) = h \<and> heightGroupIndex (blocks_at D h ! i) = int i)"

definition located :: "(int \<rightharpoonup> int) \<Rightarrow> (int \<times> DatumAtHeight) list \<Rightarrow> bool" where
  "located hs D \<longleftrightarrow> (\<forall>p ph. hs p = Some ph \<longrightarrow> (\<exists>b \<in> set (blocks_at D ph). block_id b = p))"

definition anchored :: "(int \<times> DatumAtHeight) list \<Rightarrow> bool" where
  "anchored D \<longleftrightarrow> (\<forall>h. \<forall>e \<in> set (edges_at D h).
     slot D (fromHeight e) (fromHeightGroupIndex e) \<and> slot D (toHeight e) (toHeightGroupIndex e) \<and>
     (\<forall>h'. e \<in> set (edges_at D h') \<longleftrightarrow> toHeight e \<le> h' \<and> h' \<le> fromHeight e))"

definition replay_inv :: "ReplayDataSource \<Rightarrow> bool" where
  "replay_inv s \<longleftrightarrow> contiguous (dataAtHeight s) \<and> slotted (dataAtHeight s) \<and>
     located (blockIdsToHeights s) (dataAtHeight s) \<and> anchored (dataAtHeight s)"

section \<open>Levels\<close>

lemma blocks_at_update [level_simps]:
  "blocks_at (AList.update k dat D) h = (if h = k then datum_blocks dat else blocks_at D h)"
  by (simp add: blocks_at_def update_conv')

lemma edges_at_update [level_simps]:
  "edges_at (AList.update k dat D) h = (if h = k then datum_edges dat else edges_at D h)"
  by (simp add: edges_at_def update_conv')

lemma slot_level: "slot D h i \<Longrightarrow> map_of D h \<noteq> None"
  by (auto simp: slot_def blocks_at_def split: option.splits)

lemma group_index_blocks: "group_index_at s h = int (length (blocks_at (dataAtHeight s) h))"
  by (simp add: group_index_at_def blocks_at_def split: option.split)

lemma contiguous_iff: "contiguous D \<Longrightarrow> map_of D h \<noteq> None \<longleftrightarrow> 0 \<le> h \<and> h < int (length D)"
proof -
  assume c: "contiguous D"
  have "map_of D h \<noteq> None \<longleftrightarrow> h \<in> fst ` set D" by (simp add: map_of_eq_None_iff)
  with c show ?thesis by (simp add: contiguous_def)
qed

lemma update_old_level:
  assumes "map_of D h \<noteq> None"
  shows "map fst (AList.update h dat D) = map fst D"
    and "length (AList.update h dat D) = length D"
proof -
  have "h \<in> set (map fst D)" using assms by (auto simp: map_of_eq_None_iff)
  then show "map fst (AList.update h dat D) = map fst D"
    by (simp add: AList.update_keys)
  then show "length (AList.update h dat D) = length D"
    by (metis length_map)
qed

lemma same_keys_contiguous: "map fst D' = map fst D \<Longrightarrow> contiguous D \<Longrightarrow> contiguous D'"
  unfolding contiguous_def by (metis length_map set_map)

lemma contiguous_update:
  assumes "contiguous D" and "0 \<le> h" and "h \<le> int (length D)"
  shows "contiguous (AList.update h dat D)"
proof (cases "map_of D h = None")
  case False
  from same_keys_contiguous [OF update_old_level(1) [OF False] assms(1)] show ?thesis .
next
  case True
  then have "\<not> (0 \<le> h \<and> h < int (length D))" using contiguous_iff [OF assms(1), of h] by simp
  with assms(2,3) have h: "h = int (length D)" by simp
  from True have fresh: "h \<notin> fst ` set D" by (simp add: map_of_eq_None_iff)
  then have "AList.update h dat D = D @ [(h, dat)]"
    by (induction D) auto
  with assms(1) fresh h show ?thesis by (auto simp: contiguous_def)
qed

lemma find_index_range:
  "find_index P bs i = - 1 \<and> (\<forall>b \<in> set bs. \<not> P b) \<or>
   i \<le> find_index P bs i \<and> find_index P bs i < i + int (length bs)"
proof (induction bs arbitrary: i)
  case Nil
  then show ?case by simp
next
  case (Cons b bs)
  show ?case
  proof (cases "P b")
    case True
    then show ?thesis by simp
  next
    case False
    with Cons.IH [of "i + 1"] show ?thesis by auto
  qed
qed

lemma find_index_slot:
  assumes "\<exists>b \<in> set bs. P b"
  shows "0 \<le> find_index P bs 0" and "find_index P bs 0 < int (length bs)"
  using assms find_index_range [of P bs 0] by auto

section \<open>Storing an edge\<close>

lemma push_down_levels:
  assumes "contiguous D" and "0 \<le> p" and "i < int (length D)"
  shows "\<exists>D'. push_down e i p D = Inr D' \<and> map fst D' = map fst D \<and>
    (\<forall>h. blocks_at D' h = blocks_at D h) \<and>
    (\<forall>h. edges_at D' h = edges_at D h @ (if p \<le> h \<and> h \<le> i then [e] else []))"
  using assms
proof (induction e i p D rule: push_down.induct)
  case (1 e i p D)
  show ?case
  proof (cases "p \<le> i")
    case False
    then show ?thesis by (subst push_down.simps) auto
  next
    case True
    with 1(2,3,4) contiguous_iff [OF 1(2), of i] obtain dat where dat: "map_of D i = Some dat" by auto
    let ?D = "AList.update i (dat \<lparr>datum_edges := datum_edges dat @ [e]\<rparr>) D"
    from dat have keys: "map fst ?D = map fst D" "length ?D = length D"
      using update_old_level [of D i] by auto
    have step: "push_down e i p D = push_down e (i - 1) p ?D"
      using True dat by (subst push_down.simps) simp
    from 1(1) [OF True dat same_keys_contiguous [OF keys(1) 1(2)] 1(3)] 1(4) keys(2)
    obtain D' where D': "push_down e (i - 1) p ?D = Inr D'" "map fst D' = map fst ?D"
      "\<And>h. blocks_at D' h = blocks_at ?D h"
      "\<And>h. edges_at D' h = edges_at ?D h @ (if p \<le> h \<and> h \<le> i - 1 then [e] else [])"
      by auto
    have "blocks_at D' h = blocks_at D h" for h
      using D'(3) [of h] dat by (simp add: level_simps) (simp add: blocks_at_def)
    moreover have "edges_at D' h = edges_at D h @ (if p \<le> h \<and> h \<le> i then [e] else [])" for h
      using D'(4) [of h] dat True by (auto simp: level_simps) (simp_all add: edges_at_def)
    ultimately show ?thesis using D'(1,2) keys(1) step by auto
  qed
qed

lemma slotted_cong: "(\<And>h. blocks_at D' h = blocks_at D h) \<Longrightarrow> slotted D \<Longrightarrow> slotted D'"
  by (simp add: slotted_def)

lemma located_cong: "(\<And>h. blocks_at D' h = blocks_at D h) \<Longrightarrow> located hs D \<Longrightarrow> located hs D'"
  by (simp add: located_def)

lemma anchored_add:
  assumes old: "anchored D"
    and blocks: "\<And>h. blocks_at D' h = blocks_at D h"
    and edges: "\<And>h. edges_at D' h =
      edges_at D h @ (if toHeight e \<le> h \<and> h \<le> fromHeight e then [e] else [])"
    and slots: "slot D (fromHeight e) (fromHeightGroupIndex e)" "slot D (toHeight e) (toHeightGroupIndex e)"
  shows "anchored D'"
proof -
  have slot: "slot D' h i \<longleftrightarrow> slot D h i" for h i by (simp add: slot_def blocks)
  show ?thesis
    using old slots unfolding anchored_def slot edges by (auto split: if_splits)
qed

lemma add_edge_inv:
  assumes inv: "replay_inv s"
    and "slot (dataAtHeight s) h ix" and known: "blockIdsToHeights s p \<noteq> None"
  shows "\<exists>s'. add_edge i h ix p s = Inr s' \<and> replay_inv s' \<and>
    (\<forall>h'. blocks_at (dataAtHeight s') h' = blocks_at (dataAtHeight s) h') \<and>
    s' = s \<lparr>dataAtHeight := dataAtHeight s'\<rparr>"
proof -
  let ?D = "dataAtHeight s"
  from known obtain ph where ph: "blockIdsToHeights s p = Some ph" by auto
  with inv obtain b where b: "b \<in> set (blocks_at ?D ph)" "block_id b = p"
    by (auto simp: replay_inv_def located_def)
  then obtain dat where dat: "map_of ?D ph = Some dat" "datum_blocks dat = blocks_at ?D ph"
    by (cases "map_of ?D ph") (auto simp: blocks_at_def)
  let ?ix = "find_index (\<lambda>b. block_id b = p) (blocks_at ?D ph) 0"
  let ?e = "\<lparr>fromBlockId = i, toBlockId = p, fromHeight = h, toHeight = ph,
     fromHeightGroupIndex = ix, toHeightGroupIndex = ?ix\<rparr>"
  have slots: "slot ?D h ix" "slot ?D ph ?ix"
    using assms(2) find_index_slot [of "blocks_at ?D ph" "\<lambda>b. block_id b = p"] b by (auto simp: slot_def)
  have c: "contiguous ?D" using inv by (simp add: replay_inv_def)
  have "0 \<le> ph" "h < int (length ?D)"
    using contiguous_iff [OF c, of ph] contiguous_iff [OF c, of h] dat slot_level [OF slots(1)] by auto
  from push_down_levels [OF c this, of ?e]
  obtain D' where D': "push_down ?e h ph ?D = Inr D'" "map fst D' = map fst ?D"
    "\<And>h'. blocks_at D' h' = blocks_at ?D h'"
    "\<And>h'. edges_at D' h' = edges_at ?D h' @ (if ph \<le> h' \<and> h' \<le> h then [?e] else [])"
    by auto
  have "add_edge i h ix p s = Inr (s \<lparr>dataAtHeight := D'\<rparr>)"
    using D'(1) by (simp add: add_edge_def ph dat Let_def)
  moreover have "replay_inv (s \<lparr>dataAtHeight := D'\<rparr>)"
    using inv D' slots anchored_add [of ?D D' ?e]
    by (auto simp: replay_inv_def intro: same_keys_contiguous slotted_cong located_cong)
  ultimately show ?thesis using D'(3) by auto
qed

lemma add_edges_inv:
  assumes "replay_inv s" and "slot (dataAtHeight s) h ix"
    and "\<forall>p \<in> set ps. blockIdsToHeights s p \<noteq> None"
  shows "\<exists>s'. fold_outcome (add_edge i h ix) ps s = Inr s' \<and> replay_inv s' \<and>
    (\<forall>h'. blocks_at (dataAtHeight s') h' = blocks_at (dataAtHeight s) h') \<and>
    s' = s \<lparr>dataAtHeight := dataAtHeight s'\<rparr>"
  using assms
proof (induction ps arbitrary: s)
  case Nil
  then show ?case by simp
next
  case (Cons p ps)
  from add_edge_inv [OF Cons.prems(1,2), of p i] Cons.prems(3)
  obtain s1 where s1: "add_edge i h ix p s = Inr s1" "replay_inv s1"
    "\<And>h'. blocks_at (dataAtHeight s1) h' = blocks_at (dataAtHeight s) h'"
    "s1 = s \<lparr>dataAtHeight := dataAtHeight s1\<rparr>"
    by auto
  have "slot (dataAtHeight s1) h ix" using Cons.prems(2) by (simp add: slot_def s1(3))
  moreover have "blockIdsToHeights s1 = blockIdsToHeights s" by (subst s1(4)) simp
  ultimately obtain s' where s': "fold_outcome (add_edge i h ix) ps s1 = Inr s'" "replay_inv s'"
    "\<And>h'. blocks_at (dataAtHeight s') h' = blocks_at (dataAtHeight s1) h'"
    "s' = s1 \<lparr>dataAtHeight := dataAtHeight s'\<rparr>"
    using Cons.IH [OF s1(2)] Cons.prems(3) by auto
  have "s' = s \<lparr>dataAtHeight := dataAtHeight s'\<rparr>" by (subst s'(4), subst s1(4)) simp
  with s1 s' show ?case by auto
qed

section \<open>Adding a block\<close>

lemma max_parent_height_bounds:
  assumes "\<And>p h. hs p = Some h \<Longrightarrow> h < n" and "m < n"
  shows "m \<le> max_parent_height hs ps m \<and> max_parent_height hs ps m < n"
  using assms(2)
proof (induction ps arbitrary: m)
  case Nil
  then show ?case by simp
next
  case (Cons p ps)
  let ?m = "case hs p of None \<Rightarrow> m | Some h \<Rightarrow> if h > m then h else m"
  have m: "m \<le> ?m" "?m < n" using assms(1) [of p] Cons.prems by (auto split: option.splits)
  from Cons.IH [OF m(2)] m(1) show ?case unfolding max_parent_height.simps by (meson order_trans)
qed

lemma located_height:
  assumes "contiguous D" and "located hs D" and "hs p = Some h"
  shows "0 \<le> h \<and> h < int (length D)"
proof -
  from assms(2,3) have "blocks_at D h \<noteq> []" unfolding located_def by force
  then have "map_of D h \<noteq> None" by (cases "map_of D h") (simp_all add: blocks_at_def)
  with contiguous_iff [OF assms(1)] show ?thesis by simp
qed

lemma place_block_levels:
  "blocks_at (dataAtHeight (place_block data rb h s)) h' =
     blocks_at (dataAtHeight s) h' @
     (if h' = h then [replay_block data (currentReplayBlockIndex s) rb h (group_index_at s h)] else [])"
  "edges_at (dataAtHeight (place_block data rb h s)) h' = edges_at (dataAtHeight s) h'"
  by (cases "map_of (dataAtHeight s) h";
      auto simp: place_block_def level_simps Let_def group_index_at_def;
      auto simp: blocks_at_def edges_at_def)+

lemma place_block_inv:
  assumes inv: "replay_inv s" and h: "0 \<le> h" "h \<le> int (length (dataAtHeight s))"
  shows "replay_inv (place_block data rb h s)"
    and "slot (dataAtHeight (place_block data rb h s)) h (group_index_at s h)"
proof -
  let ?s = "place_block data rb h s"
  let ?D = "dataAtHeight s"
  have "contiguous (dataAtHeight ?s)"
    using inv h by (simp add: place_block_def Let_def replay_inv_def contiguous_update)
  moreover have "slotted (dataAtHeight ?s)"
    using inv unfolding slotted_def place_block_levels replay_inv_def
    by (auto simp: nth_append group_index_blocks replay_block_def less_Suc_eq)
  moreover have "located (blockIdsToHeights ?s) (dataAtHeight ?s)"
    using inv unfolding located_def place_block_levels replay_inv_def
    by (auto simp: place_block_def Let_def replay_block_def split: if_splits)
  moreover have "anchored (dataAtHeight ?s)"
  proof -
    have "slot ?D h' i \<Longrightarrow> slot (dataAtHeight ?s) h' i" for h' i
      by (auto simp: slot_def place_block_levels)
    with inv show ?thesis
      unfolding anchored_def replay_inv_def place_block_levels(2) by blast
  qed
  ultimately show "replay_inv ?s" by (simp add: replay_inv_def)
  show "slot (dataAtHeight ?s) h (group_index_at s h)"
    by (simp add: slot_def place_block_levels group_index_blocks)
qed

text \<open>A recording in which parents come before their children.\<close>

fun parents_first :: "int set \<Rightarrow> ReplayDataBlock list \<Rightarrow> bool" where
  "parents_first seen [] = True"
| "parents_first seen (b # bs) =
     (set (rb_parentIds b) \<subseteq> seen \<and> parents_first (insert (rb_id b) seen) bs)"

lemma parents_first_take:
  "parents_first seen bs \<Longrightarrow> k < length bs \<Longrightarrow>
   set (rb_parentIds (bs ! k)) \<subseteq> seen \<union> rb_id ` set (take k bs)"
proof (induction bs arbitrary: seen k)
  case Nil
  then show ?case by simp
next
  case (Cons b bs)
  then show ?case by (cases k) fastforce+
qed

text \<open>The states of a running replay: the ids known are those of the blocks added so far.\<close>

definition replaying :: "ReplayData \<Rightarrow> ReplayDataSource \<Rightarrow> bool" where
  "replaying data s \<longleftrightarrow> replay_inv s \<and> currentReplayBlockIndex s \<le> length (rd_blocks data) \<and>
     dom (blockIdsToHeights s) = rb_id ` set (take (currentReplayBlockIndex s) (rd_blocks data))"

lemma addNextBlock_ok:
  assumes "parents_first {} (rd_blocks data)" and ok: "replaying data s"
    and more: "currentReplayBlockIndex s < length (rd_blocks data)"
  shows "\<exists>s'. addNextBlock data s = Inr s' \<and> replaying data s' \<and>
    currentReplayBlockIndex s' = currentReplayBlockIndex s + 1"
proof -
  let ?k = "currentReplayBlockIndex s"
  let ?rb = "rd_blocks data ! ?k"
  let ?h = "max_parent_height (blockIdsToHeights s) (rb_parentIds ?rb) (- 1) + 1"
  let ?s = "place_block data ?rb ?h s"
  have inv: "replay_inv s" using ok by (simp add: replaying_def)
  then have c: "contiguous (dataAtHeight s)" "located (blockIdsToHeights s) (dataAtHeight s)"
    by (simp_all add: replay_inv_def)
  have "- 1 \<le> ?h - 1" "?h - 1 < int (length (dataAtHeight s))"
    using max_parent_height_bounds [of "blockIdsToHeights s" "int (length (dataAtHeight s))" "- 1"]
      located_height [OF c] by simp_all
  then have h: "0 \<le> ?h" "?h \<le> int (length (dataAtHeight s))" by simp_all
  note p = place_block_inv [OF inv h, of data ?rb]
  have ids: "blockIdsToHeights ?s = (blockIdsToHeights s)(rb_id ?rb \<mapsto> ?h)"
    "currentReplayBlockIndex ?s = ?k"
    by (simp_all add: place_block_def Let_def)
  have "set (rb_parentIds ?rb) \<subseteq> dom (blockIdsToHeights s)"
    using parents_first_take [OF assms(1) more] ok by (simp add: replaying_def)
  then have "\<forall>q \<in> set (rb_parentIds ?rb). blockIdsToHeights ?s q \<noteq> None"
    unfolding ids by auto
  from add_edges_inv [OF p this, of "rb_id ?rb"]
  obtain s1 where s1: "fold_outcome (add_edge (rb_id ?rb) ?h (group_index_at s ?h)) (rb_parentIds ?rb) ?s = Inr s1"
    "replay_inv s1" "s1 = ?s \<lparr>dataAtHeight := dataAtHeight s1\<rparr>"
    by auto
  have same: "blockIdsToHeights s1 = blockIdsToHeights ?s" "currentReplayBlockIndex s1 = ?k"
    by (subst s1(3), simp add: ids)+
  have "dom (blockIdsToHeights s1) = rb_id ` set (take (Suc ?k) (rd_blocks data))"
    using ok more by (simp add: same ids replaying_def take_Suc_conv_app_nth)
  then show ?thesis
    using more s1(1,2) same by (simp add: addNextBlock_def Let_def replaying_def replay_inv_def)
qed

lemma replay_fields_ok: "replaying data replay_fields"
  by (auto simp: replaying_def replay_inv_def replay_fields_def contiguous_def slotted_def located_def
      anchored_def blocks_at_def edges_at_def)

lemma reset_ok: "replaying data (reset s)"
  by (auto simp: replaying_def replay_inv_def reset_def contiguous_def slotted_def located_def
      anchored_def blocks_at_def edges_at_def)

lemma replay_tick_ok:
  assumes "parents_first {} (rd_blocks data)" and "rd_blocks data \<noteq> []" and "replaying data s"
  shows "\<exists>s'. replay_tick data s = Inr s' \<and> replaying data s' \<and>
    currentReplayBlockIndex s' = currentReplayBlockIndex s mod length (rd_blocks data) + 1"
proof (cases "currentReplayBlockIndex s < length (rd_blocks data)")
  case True
  with addNextBlock_ok [OF assms(1,3) True] show ?thesis by (simp add: replay_tick_def)
next
  case False
  with assms(3) have "currentReplayBlockIndex s = length (rd_blocks data)" by (simp add: replaying_def)
  with addNextBlock_ok [OF assms(1) reset_ok, of s] assms(2) False show ?thesis
    by (simp add: replay_tick_def reset_def)
qed

lemma replay_ticks_ok:
  assumes "parents_first {} (rd_blocks data)" and "rd_blocks data \<noteq> []" and "replaying data s"
  shows "\<exists>s'. replay_ticks data n s = Inr s' \<and> replaying data s'"
  using assms(3)
proof (induction n arbitrary: s)
  case 0
  then show ?case by simp
next
  case (Suc n)
  with replay_tick_ok [OF assms(1,2) Suc.prems] show ?case by force
qed

end
