(* ===== verification/KgiWindow.thy ===== *)
theory KgiWindow
  imports KgiReplayFacts
begin

text \<open>
  What \<open>getBlocksBetweenHeights\<close> of the replaying and of the chain source answers, and both
  sources as interpretations of the contract \<open>data_source\<close>.
\<close>

section \<open>Keys of edges\<close>

lemma nat_text_minus_free: "CHR ''-'' \<notin> set (nat_text 10 n)"
  by (rule nat_text_minus) simp_all

lemma dash_split:
  "CHR ''-'' \<notin> set a \<Longrightarrow> CHR ''-'' \<notin> set b \<Longrightarrow> a @ CHR ''-'' # x = b @ CHR ''-'' # y \<Longrightarrow> a = b \<and> x = y"
proof (induction a arbitrary: b)
  case Nil
  then show ?case by (cases b) auto
next
  case (Cons c a)
  then show ?case by (cases b) auto
qed

lemma edge_key_parts:
  "0 \<le> f \<Longrightarrow> edge_key f t = nat_text 10 (nat f) @ CHR ''-'' # decimal t"
  "f < 0 \<Longrightarrow> edge_key f t = CHR ''-'' # nat_text 10 (nat (- f)) @ CHR ''-'' # decimal t"
  by (simp_all add: edge_key_def int_text_def)

lemma edge_key_sign: "nat_text 10 n @ x \<noteq> CHR ''-'' # y"
proof (cases "nat_text 10 n")
  case Nil
  then show ?thesis by simp
next
  case (Cons c u)
  with nat_text_minus_free [of n] show ?thesis by auto
qed

lemma edge_key_inj: "edge_key f t = edge_key f' t' \<longleftrightarrow> f = f' \<and> t = t'"
proof
  assume eq: "edge_key f t = edge_key f' t'"
  note split = dash_split [OF nat_text_minus_free nat_text_minus_free]
  have inj: "nat_text 10 m = nat_text 10 n \<longleftrightarrow> m = n" for m n by (rule nat_text_inj) simp_all
  consider "0 \<le> f" "0 \<le> f'" | "f < 0" "f' < 0" | "0 \<le> f" "f' < 0" | "f < 0" "0 \<le> f'" by linarith
  then have "f = f' \<and> decimal t = decimal t'"
  proof cases
    case 1
    with split [OF eq [unfolded edge_key_parts(1) [OF 1(1)] edge_key_parts(1) [OF 1(2)]]] inj 1
    show ?thesis by (simp add: eq_nat_nat_iff)
  next
    case 2
    with eq split [of "nat (- f)" "decimal t" "nat (- f')" "decimal t'"] inj
    show ?thesis using 2 by (auto simp: edge_key_parts)
  next
    case 3
    with eq edge_key_sign show ?thesis by (metis edge_key_parts)
  next
    case 4
    with eq edge_key_sign show ?thesis by (metis edge_key_parts)
  qed
  then show "f = f' \<and> t = t'" using int_text_inj [of 10] by auto
qed simp

section \<open>Gathering\<close>

definition gathered :: "(int \<times> DatumAtHeight) list \<Rightarrow> Gathered \<Rightarrow> bool" where
  "gathered D g \<longleftrightarrow>
     distinct (map group_height (heightGroups (g_bundle g))) \<and>
     set (seenHeightGroups g) = group_height ` set (heightGroups (g_bundle g)) \<and>
     (\<forall>grp \<in> set (heightGroups (g_bundle g)).
        group_size grp = int (length (blocks_at D (group_height grp)))) \<and>
     distinct (map (\<lambda>e. (fromBlockId e, toBlockId e)) (edges (g_bundle g))) \<and>
     set (seenEdges g) = (\<lambda>e. edge_key (fromBlockId e) (toBlockId e)) ` set (edges (g_bundle g))"

lemma gathered_empty: "gathered D empty_gathered"
  by (simp add: gathered_def empty_gathered_def)

lemma pushEdge_ok:
  assumes "gathered D g"
  shows "gathered D (pushEdge e g)" and "seenHeightGroups (pushEdge e g) = seenHeightGroups g"
    and "blocks (g_bundle (pushEdge e g)) = blocks (g_bundle g)"
    and "heightGroups (g_bundle (pushEdge e g)) = heightGroups (g_bundle g)"
    and "set (edges (g_bundle (pushEdge e g))) \<subseteq> insert e (set (edges (g_bundle g)))"
    and "set (edges (g_bundle g)) \<subseteq> set (edges (g_bundle (pushEdge e g)))"
    and "\<exists>e' \<in> set (edges (g_bundle (pushEdge e g))). fromBlockId e' = fromBlockId e \<and> toBlockId e' = toBlockId e"
  using assms by (auto simp: pushEdge_def gathered_def Let_def image_iff edge_key_inj)

lemma pushHeightGroup_ok:
  assumes "gathered (dataAtHeight s) g" and "map_of (dataAtHeight s) h \<noteq> None"
  shows "\<exists>g'. pushHeightGroup s h g = Inr g' \<and> gathered (dataAtHeight s) g' \<and>
    blocks (g_bundle g') = blocks (g_bundle g) \<and> edges (g_bundle g') = edges (g_bundle g) \<and>
    set (seenHeightGroups g') = insert h (set (seenHeightGroups g))"
  using assms
  by (auto simp: pushHeightGroup_def gathered_def blocks_at_def insert_absorb image_iff)

lemma gather_edge_ok:
  assumes "gathered (dataAtHeight s) g"
    and "map_of (dataAtHeight s) (fromHeight e) \<noteq> None" and "map_of (dataAtHeight s) (toHeight e) \<noteq> None"
  shows "\<exists>g'. gather_edge s e g = Inr g' \<and> gathered (dataAtHeight s) g' \<and>
    blocks (g_bundle g') = blocks (g_bundle g) \<and>
    set (edges (g_bundle g)) \<subseteq> set (edges (g_bundle g')) \<and>
    set (edges (g_bundle g')) \<subseteq> insert e (set (edges (g_bundle g))) \<and>
    (\<exists>e' \<in> set (edges (g_bundle g')). fromBlockId e' = fromBlockId e \<and> toBlockId e' = toBlockId e) \<and>
    set (seenHeightGroups g') = insert (fromHeight e) (insert (toHeight e) (set (seenHeightGroups g)))"
proof -
  note p = pushEdge_ok [OF assms(1), of e]
  from pushHeightGroup_ok [OF p(1) assms(2)] obtain g1 where
    g1: "pushHeightGroup s (fromHeight e) (pushEdge e g) = Inr g1" "gathered (dataAtHeight s) g1"
    "blocks (g_bundle g1) = blocks (g_bundle (pushEdge e g))"
    "edges (g_bundle g1) = edges (g_bundle (pushEdge e g))"
    "set (seenHeightGroups g1) = insert (fromHeight e) (set (seenHeightGroups (pushEdge e g)))"
    by blast
  from pushHeightGroup_ok [OF g1(2) assms(3)] obtain g2 where
    g2: "pushHeightGroup s (toHeight e) g1 = Inr g2" "gathered (dataAtHeight s) g2"
    "blocks (g_bundle g2) = blocks (g_bundle g1)" "edges (g_bundle g2) = edges (g_bundle g1)"
    "set (seenHeightGroups g2) = insert (toHeight e) (set (seenHeightGroups g1))"
    by blast
  have "gather_edge s e g = Inr g2" by (simp add: gather_edge_def g1(1) g2(1))
  moreover have "set (seenHeightGroups g2) =
      insert (fromHeight e) (insert (toHeight e) (set (seenHeightGroups g)))"
    using g1(5) g2(5) p(2) by auto
  ultimately show ?thesis using p g1 g2 by (intro exI [of _ g2]) simp
qed

text \<open>What a stretch of the query adds: \<open>es\<close> are edges and \<open>bs\<close> the blocks.\<close>

definition extends :: "Gathered \<Rightarrow> Block list \<Rightarrow> Edge set \<Rightarrow> int set \<Rightarrow> Gathered \<Rightarrow> bool" where
  "extends g bs es hs g' \<longleftrightarrow>
     blocks (g_bundle g') = blocks (g_bundle g) @ bs \<and>
     set (edges (g_bundle g)) \<subseteq> set (edges (g_bundle g')) \<and>
     set (edges (g_bundle g')) \<subseteq> es \<union> set (edges (g_bundle g)) \<and>
     (\<forall>e \<in> es. \<exists>e' \<in> set (edges (g_bundle g')). fromBlockId e' = fromBlockId e \<and> toBlockId e' = toBlockId e) \<and>
     set (seenHeightGroups g') = hs \<union> fromHeight ` es \<union> toHeight ` es \<union> set (seenHeightGroups g)"

lemma extends_refl: "extends g [] {} {} g"
  by (simp add: extends_def)

lemma extends_trans:
  assumes "extends g bs es hs g1" and "extends g1 bs' es' hs' g2"
  shows "extends g (bs @ bs') (es \<union> es') (hs \<union> hs') g2"
  using assms unfolding extends_def by (auto; blast)

definition bounded_edges :: "(int \<times> DatumAtHeight) list \<Rightarrow> Edge set \<Rightarrow> bool" where
  "bounded_edges D es \<longleftrightarrow> (\<forall>e \<in> es. map_of D (fromHeight e) \<noteq> None \<and> map_of D (toHeight e) \<noteq> None)"

lemma gather_edges_ok:
  "gathered (dataAtHeight s) g \<Longrightarrow> bounded_edges (dataAtHeight s) (set es) \<Longrightarrow>
   \<exists>g'. fold_outcome (gather_edge s) es g = Inr g' \<and> gathered (dataAtHeight s) g' \<and>
     extends g [] (set es) {} g'"
proof (induction es arbitrary: g)
  case Nil
  then show ?case by (auto simp: extends_def)
next
  case (Cons e es)
  from gather_edge_ok [OF Cons.prems(1), of e] Cons.prems(2)
  obtain g1 where g1: "gather_edge s e g = Inr g1" "gathered (dataAtHeight s) g1" "extends g [] {e} {} g1"
    by (force simp: bounded_edges_def extends_def insert_commute)
  from Cons.IH [OF g1(2)] Cons.prems(2)
  obtain g' where g': "fold_outcome (gather_edge s) es g1 = Inr g'" "gathered (dataAtHeight s) g'"
    "extends g1 [] (set es) {} g'"
    by (auto simp: bounded_edges_def)
  from extends_trans [OF g1(3) g'(3)] g1(1) g'(1,2) show ?case by auto
qed

definition known :: "(int \<times> DatumAtHeight) list \<Rightarrow> int \<Rightarrow> int set" where
  "known D h = (if map_of D h = None then {} else {h})"

lemma gather_level_ok:
  assumes "gathered (dataAtHeight s) g"
    and "bounded_edges (dataAtHeight s) (set (edges_at (dataAtHeight s) h))"
  shows "\<exists>g'. gather_level s h g = Inr g' \<and> gathered (dataAtHeight s) g' \<and>
    extends g (blocks_at (dataAtHeight s) h) (set (edges_at (dataAtHeight s) h))
      (known (dataAtHeight s) h) g'"
proof (cases "map_of (dataAtHeight s) h")
  case None
  with assms show ?thesis
    by (simp add: gather_level_def blocks_at_def edges_at_def known_def extends_refl)
next
  case (Some dat)
  let ?g = "g \<lparr>g_bundle := (g_bundle g) \<lparr>blocks := blocks (g_bundle g) @ datum_blocks dat\<rparr>\<rparr>"
  have e: "edges_at (dataAtHeight s) h = datum_edges dat" "blocks_at (dataAtHeight s) h = datum_blocks dat"
    by (simp_all add: edges_at_def blocks_at_def Some)
  have "gathered (dataAtHeight s) ?g" using assms(1) by (simp add: gathered_def)
  from gather_edges_ok [OF this, of "datum_edges dat"] assms(2)
  obtain g1 where g1: "fold_outcome (gather_edge s) (datum_edges dat) ?g = Inr g1"
    "gathered (dataAtHeight s) g1" "extends ?g [] (set (datum_edges dat)) {} g1"
    by (auto simp: e)
  from pushHeightGroup_ok [OF g1(2), of h] Some
  obtain g2 where g2: "pushHeightGroup s h g1 = Inr g2" "gathered (dataAtHeight s) g2"
    "blocks (g_bundle g2) = blocks (g_bundle g1)" "edges (g_bundle g2) = edges (g_bundle g1)"
    "set (seenHeightGroups g2) = insert h (set (seenHeightGroups g1))"
    by auto
  have "extends g (datum_blocks dat) (set (datum_edges dat)) {h} g2"
    using g1(3) g2(3-5) by (auto simp: extends_def)
  with Some g1 g2 show ?thesis by (auto simp: gather_level_def e known_def)
qed

lemma gather_levels_ok:
  assumes "\<And>h. bounded_edges (dataAtHeight s) (set (edges_at (dataAtHeight s) h))"
    and "gathered (dataAtHeight s) g"
  shows "\<exists>g'. fold_outcome (gather_level s) hs g = Inr g' \<and> gathered (dataAtHeight s) g' \<and>
    extends g (concat (map (blocks_at (dataAtHeight s)) hs))
      (\<Union>h \<in> set hs. set (edges_at (dataAtHeight s) h)) (\<Union>h \<in> set hs. known (dataAtHeight s) h) g'"
  using assms(2)
proof (induction hs arbitrary: g)
  case Nil
  then show ?case by (simp add: extends_refl)
next
  case (Cons h hs)
  from gather_level_ok [OF Cons.prems assms(1)] obtain g1 where
    g1: "gather_level s h g = Inr g1" "gathered (dataAtHeight s) g1"
    "extends g (blocks_at (dataAtHeight s) h) (set (edges_at (dataAtHeight s) h))
      (known (dataAtHeight s) h) g1" by blast
  from Cons.IH [OF g1(2)] obtain g' where
    g': "fold_outcome (gather_level s) hs g1 = Inr g'" "gathered (dataAtHeight s) g'"
    "extends g1 (concat (map (blocks_at (dataAtHeight s)) hs))
      (\<Union>h \<in> set hs. set (edges_at (dataAtHeight s) h)) (\<Union>h \<in> set hs. known (dataAtHeight s) h) g'"
    by blast
  from extends_trans [OF g1(3) g'(3)] g1(1) g'(1,2) show ?case by auto
qed

section \<open>The window of the replaying source\<close>

definition window_heights :: "int \<Rightarrow> int \<Rightarrow> int \<Rightarrow> int list" where
  "window_heights a e n = [max a 0 .. min e n]"

lemma replay_window_heights:
  "replay_window s (Some a) (Some e) =
     and_then (fold_outcome (gather_level s) (window_heights a e (int (length (dataAtHeight s)))) empty_gathered)
       (\<lambda>g. Inr (g_bundle g))"
proof -
  have "(if js_less (Some a) (Some 0) then Some 0 else Some a) = Some (max a 0)"
    "(if js_less (Some n) (Some e) then Some n else Some e) = Some (min e n)" for n
    by auto
  then show ?thesis
    unfolding replay_window_def Let_def window_heights_def by (simp add: height_range_def)
qed

lemma anchored_bounded: "anchored D \<Longrightarrow> bounded_edges D (set (edges_at D h))"
  unfolding anchored_def bounded_edges_def using slot_level by blast

lemma replay_window_spec:
  fixes a e :: int
  assumes "replay_inv s"
  defines "D \<equiv> dataAtHeight s"
  defines "hs \<equiv> window_heights a e (int (length D))"
  shows "\<exists>d. replay_window s (Some a) (Some e) = Inr d \<and> laid_out d \<and>
    blocks d = concat (map (blocks_at D) hs) \<and>
    distinct (map (\<lambda>x. (fromBlockId x, toBlockId x)) (edges d)) \<and>
    set (edges d) \<subseteq> (\<Union>h \<in> set hs. set (edges_at D h)) \<and>
    (\<forall>h \<in> set hs. \<forall>x \<in> set (edges_at D h).
       \<exists>y \<in> set (edges d). fromBlockId y = fromBlockId x \<and> toBlockId y = toBlockId x)"
proof -
  have inv: "slotted D" "anchored D" using assms by (simp_all add: replay_inv_def D_def)
  from gather_levels_ok [OF anchored_bounded [OF inv(2) [unfolded D_def]] gathered_empty, of hs]
  obtain g where g: "fold_outcome (gather_level s) hs empty_gathered = Inr g" "gathered D g"
    "extends empty_gathered (concat (map (blocks_at D) hs)) (\<Union>h \<in> set hs. set (edges_at D h))
       (\<Union>h \<in> set hs. known D h) g"
    unfolding D_def by blast
  let ?d = "g_bundle g"
  have w: "replay_window s (Some a) (Some e) = Inr ?d"
    unfolding replay_window_heights using g(1) by (simp add: hs_def D_def)
  have bs: "blocks ?d = concat (map (blocks_at D) hs)"
    and es: "set (edges ?d) \<subseteq> (\<Union>h \<in> set hs. set (edges_at D h))"
    and keys: "\<forall>h \<in> set hs. \<forall>x \<in> set (edges_at D h).
       \<exists>y \<in> set (edges ?d). fromBlockId y = fromBlockId x \<and> toBlockId y = toBlockId x"
    and seen: "set (seenHeightGroups g) = (\<Union>h \<in> set hs. known D h) \<union>
       fromHeight ` (\<Union>h \<in> set hs. set (edges_at D h)) \<union> toHeight ` (\<Union>h \<in> set hs. set (edges_at D h))"
    using g(3) by (auto simp: extends_def empty_gathered_def)
  have grp: "in_group ?d h i" if "h \<in> set (seenHeightGroups g)" "slot D h i" for h i
    using that g(2) by (auto simp: gathered_def in_group_def slot_def)
  have block: "height b \<in> set hs \<and> b = blocks_at D (height b) ! nat (heightGroupIndex b) \<and>
      slot D (height b) (heightGroupIndex b)" if b: "b \<in> set (blocks ?d)" for b
  proof -
    from b bs obtain h where h: "h \<in> set hs" "b \<in> set (blocks_at D h)" by auto
    then obtain i where "i < length (blocks_at D h)" "b = blocks_at D h ! i" by (metis in_set_conv_nth)
    with inv(1) h(1) show ?thesis by (auto simp: slotted_def slot_def)
  qed
  have "in_group ?d (height b) (heightGroupIndex b)" if b: "b \<in> set (blocks ?d)" for b
  proof (rule grp)
    show "slot D (height b) (heightGroupIndex b)" using block [OF b] by blast
    with block [OF b] seen slot_level show "height b \<in> set (seenHeightGroups g)"
      by (auto simp: known_def split: if_splits)
  qed
  moreover have "in_group ?d (fromHeight x) (fromHeightGroupIndex x) \<and>
      in_group ?d (toHeight x) (toHeightGroupIndex x)" if x: "x \<in> set (edges ?d)" for x
  proof -
    from x es obtain h where h: "h \<in> set hs" "x \<in> set (edges_at D h)" by auto
    with inv(2) have "slot D (fromHeight x) (fromHeightGroupIndex x)" "slot D (toHeight x) (toHeightGroupIndex x)"
      by (auto simp: anchored_def)
    moreover from h seen have "fromHeight x \<in> set (seenHeightGroups g)" "toHeight x \<in> set (seenHeightGroups g)"
      by auto
    ultimately show ?thesis using grp by blast
  qed
  moreover have "inj_on (\<lambda>b. (height b, heightGroupIndex b)) (set (blocks ?d))"
    by (rule inj_onI) (metis block fst_conv snd_conv)
  moreover have "distinct (map group_height (heightGroups ?d))"
    "distinct (map (\<lambda>x. (fromBlockId x, toBlockId x)) (edges ?d))"
    using g(2) by (simp_all add: gathered_def)
  ultimately have "laid_out ?d" by (simp add: laid_out_def)
  with w bs es keys \<open>distinct (map (\<lambda>x. (fromBlockId x, toBlockId x)) (edges ?d))\<close> show ?thesis by blast
qed

lemma window_heights_between: "h \<in> set (window_heights a e n) \<Longrightarrow> a \<le> h \<and> h \<le> e"
  by (simp add: window_heights_def)

lemma replay_source:
  assumes "replay_inv s"
  shows "\<exists>d. replay_window s (Some a) (Some e) = Inr d \<and> laid_out d \<and> between a e d"
proof -
  from replay_window_spec [OF assms, of a e] obtain d where d:
    "replay_window s (Some a) (Some e) = Inr d" "laid_out d"
    "blocks d = concat (map (blocks_at (dataAtHeight s))
       (window_heights a e (int (length (dataAtHeight s)))))"
    by blast
  have "a \<le> height b \<and> height b \<le> e" if b: "b \<in> set (blocks d)" for b
  proof -
    from b d(3) obtain h where h: "h \<in> set (window_heights a e (int (length (dataAtHeight s))))"
      "b \<in> set (blocks_at (dataAtHeight s) h)" by auto
    then have "height b = h"
      using assms unfolding replay_inv_def slotted_def by (metis in_set_conv_nth)
    with window_heights_between [OF h(1)] show ?thesis by simp
  qed
  with d show ?thesis by (auto simp: between_def)
qed

interpretation replay: data_source replay_inv replay_window
  by unfold_locales (rule replay_source)

section \<open>The window of the chain source\<close>

definition chain_ok :: "ChainDataSource \<Rightarrow> bool" where
  "chain_ok s \<longleftrightarrow> (\<exists>n. s = chain_state (blockInterval s) n)"

lemma chain_window_state:
  fixes a e :: int and n :: nat
  assumes "1 \<le> e"
  defines "k \<equiv> nat (max a 0)" and "m \<equiv> min (Suc n) (nat e)"
  shows "chain_window (chain_state interval n) (Some a) (Some e) =
    Inr \<lparr>blocks = map (chain_block interval) [k..<m], edges = map chain_edge [k..<m - 1],
         heightGroups = map chain_group [k..<m]\<rparr>"
proof -
  have start: "(if js_less (Some a) (Some 0) then Some 0 else Some a) = Some (int k)"
    by (auto simp: k_def max_def)
  have stop: "(if js_less (Some (int (Suc n))) (Some e) then Some (int (Suc n)) else Some e) = Some (int m)"
    using assms(1) by (auto simp: m_def min_def)
  have m: "1 \<le> m" "m \<le> Suc n" using assms(1) by (auto simp: m_def)
  then have "js_minus (Some (int m)) (Some 1) = Some (int (m - 1))" by (simp add: of_nat_diff)
  moreover have "min n (m - 1) = m - 1" "nat (int m - 1) = m - 1" using m by simp_all
  moreover have len: "int (length (c_blocks (chain_state interval n))) = int (Suc n)"
    by (simp add: chain_state_def del: upt_Suc)
  ultimately show ?thesis
    using m unfolding chain_window_def Let_def len start stop
    by (simp add: chain_state_def slice_map slice_upt min_absorb2 del: upt_Suc)
qed

lemma chain_source:
  assumes "chain_ok s" and "1 \<le> e"
  shows "\<exists>d. chain_window s (Some a) (Some e) = Inr d \<and> laid_out d \<and> between a e d"
proof -
  from assms(1) obtain n where "s = chain_state (blockInterval s) n" by (auto simp: chain_ok_def)
  note w = chain_window_state [OF assms(2), of "blockInterval s" n a, folded this]
  let ?d = "\<lparr>blocks = map (chain_block (blockInterval s)) [nat (max a 0)..<min (Suc n) (nat e)],
    edges = map chain_edge [nat (max a 0)..<min (Suc n) (nat e) - 1],
    heightGroups = map chain_group [nat (max a 0)..<min (Suc n) (nat e)]\<rparr>"
  have grp: "in_group ?d (int i) 0" if "nat (max a 0) \<le> i" "i < min (Suc n) (nat e)" for i
    using that by (force simp: in_group_def chain_group_def)
  have "in_group ?d (fromHeight x) (fromHeightGroupIndex x) \<and> in_group ?d (toHeight x) (toHeightGroupIndex x)"
    if "x \<in> set (edges ?d)" for x
  proof -
    from that obtain i where i: "x = chain_edge i" "nat (max a 0) \<le> i" "i < min (Suc n) (nat e) - 1"
      by auto
    then have "nat (max a 0) \<le> Suc i" "Suc i < min (Suc n) (nat e)" "i < min (Suc n) (nat e)"
      by linarith+
    with grp [of i] grp [of "Suc i"] i(1,2) show ?thesis by (simp add: chain_edge_def add.commute)
  qed
  moreover have "in_group ?d (height b) (heightGroupIndex b)" if "b \<in> set (blocks ?d)" for b
    using that grp by (auto simp: chain_block_def)
  ultimately have "laid_out ?d"
    by (auto simp: laid_out_def chain_block_def chain_group_def distinct_map inj_on_def)
  moreover have "between a e ?d" using assms(2) by (auto simp: between_def chain_block_def)
  ultimately show ?thesis using w by blast
qed

interpretation chain: data_source chain_ok chain_window
  by unfold_locales (rule chain_source)

end
