(* ===== verification/KgiScene.thy ===== *)
theory KgiScene
  imports KgiTimeline KgiWindow
begin

text \<open>
  The incremental update of the scene refines drawing from scratch: after
  \<open>setBlocksAndEdgesAndHeightGroups\<close> the dictionaries of sprites hold exactly what the bundle
  calls for, whatever was shown before, and no key is missing on the way.
\<close>

section \<open>Loops with an invariant over the processed prefix\<close>

lemma fold_outcome_rule:
  assumes "I [] s"
    and "\<And>ys x zs s. xs = ys @ x # zs \<Longrightarrow> I ys s \<Longrightarrow> \<exists>s'. f x s = Inr s' \<and> I (ys @ [x]) s'"
  shows "\<exists>s'. fold_outcome f xs s = Inr s' \<and> I xs s'"
proof -
  have "I ys s \<Longrightarrow> xs = ys @ zs \<Longrightarrow> \<exists>s'. fold_outcome f zs s = Inr s' \<and> I xs s'" for ys zs s
  proof (induction zs arbitrary: ys s)
    case Nil
    then show ?case by simp
  next
    case (Cons z zs)
    from assms(2) [OF Cons.prems(2,1)] obtain s1 where "f z s = Inr s1" "I (ys @ [z]) s1" by blast
    with Cons.IH [of "ys @ [z]" s1] Cons.prems(2) show ?case by simp
  qed
  from this [of "[]" s xs] assms(1) show ?thesis by simp
qed

section \<open>Dictionaries\<close>

lemma map_of_filter_keys:
  "map_of (filter (\<lambda>(k, _). P k) d) k = (if P k then map_of d k else None)"
  by (induction d) auto

lemma has_key_update [simp]: "has_key (AList.update k x d) k' \<longleftrightarrow> k' = k \<or> has_key d k'"
  by (simp add: has_key_def update_conv')

lemma map_of_update [simp]: "map_of (AList.update k x d) k' = (if k' = k then Some x else map_of d k')"
  by (simp add: update_conv')

lemma lookup_key: "has_key d k \<Longrightarrow> \<exists>x. lookup d k = Inr x \<and> map_of d k = Some x"
  by (auto simp: has_key_def lookup_def)

lemma keyed_by_fold:
  "map_of (fold (\<lambda>x d. AList.update (key x) x d) xs d) k =
     (case find (\<lambda>x. key x = k) (rev xs) of None \<Rightarrow> map_of d k | Some x \<Rightarrow> Some x)"
proof (induction xs arbitrary: d rule: rev_induct)
  case Nil
  then show ?case by simp
next
  case (snoc x xs)
  then show ?case by simp
qed

lemma map_of_keyed_by: "map_of (keyed_by key xs) k = find (\<lambda>x. key x = k) (rev xs)"
  by (simp add: keyed_by_def keyed_by_fold split: option.split)

lemma has_key_keyed_by: "has_key (keyed_by key xs) k \<longleftrightarrow> k \<in> key ` set xs"
  by (auto simp: has_key_def map_of_keyed_by find_None_iff)

lemma keyed_by_lookup:
  assumes "inj_on key (set xs)" and "x \<in> set xs"
  shows "map_of (keyed_by key xs) (key x) = Some x"
proof -
  have "map_of (keyed_by key xs) (key x) \<noteq> None"
    using assms(2) has_key_keyed_by [of key xs "key x"] by (simp add: has_key_def)
  then obtain y where y: "find (\<lambda>y. key y = key x) (rev xs) = Some y" by (auto simp: map_of_keyed_by)
  then have "key y = key x" "y \<in> set (rev xs)" by (auto simp: find_Some_iff in_set_conv_nth simp del: set_rev)
  then have "key y = key x" "y \<in> set xs" by simp_all
  with assms inj_onD have "y = x" by metis
  with y show ?thesis by (simp add: map_of_keyed_by)
qed

lemma keyed_by_range: "(k, x) \<in> set (keyed_by key xs) \<Longrightarrow> x \<in> set xs \<and> k = key x"
proof (induction xs rule: rev_induct)
  case Nil
  then show ?case by (simp add: keyed_by_def)
next
  case (snoc y ys)
  have "set (AList.update (key y) y d) \<subseteq> insert (key y, y) (set d)" for d :: "(string \<times> 'a) list"
    by (induction d) auto
  with snoc show ?case by (auto simp: keyed_by_def)
qed

section \<open>Keys\<close>

lemma buildBlockKey_inj [simp]: "buildBlockKey i = buildBlockKey j \<longleftrightarrow> i = j"
  using int_text_inj [of 10] by (auto simp: buildBlockKey_def)

lemma buildHeightKey_inj [simp]: "buildHeightKey i = buildHeightKey j \<longleftrightarrow> i = j"
  using int_text_inj [of 10] by (auto simp: buildHeightKey_def)

lemma buildEdgeKey_eq: "buildEdgeKey e = edge_key (fromBlockId e) (toBlockId e)"
  by (simp add: buildEdgeKey_def edge_key_def)

lemma buildEdgeKey_inj [simp]:
  "buildEdgeKey e = buildEdgeKey e' \<longleftrightarrow> fromBlockId e = fromBlockId e' \<and> toBlockId e = toBlockId e'"
  by (simp add: buildEdgeKey_eq edge_key_inj)

section \<open>What a bundle calls for\<close>

definition unique_keys :: "Bundle \<Rightarrow> bool" where
  "unique_keys d \<longleftrightarrow> inj_on block_id (set (blocks d)) \<and>
     inj_on (\<lambda>e. (fromBlockId e, toBlockId e)) (set (edges d))"

text \<open>The look of a block sprite: colour, highlight, focus and the highlight's colour.\<close>

definition block_look :: "Bundle \<Rightarrow> Block option \<Rightarrow> Block \<Rightarrow> BlockColor \<times> bool \<times> bool \<times> BlockColor" where
  "block_look d target b = (color b,
     case target of
       None \<Rightarrow> (False, False, GRAY)
     | Some x \<Rightarrow> block_highlight (Some d) x (buildBlockKey (block_id x)) b)"

definition sprite_look :: "BlockSprite \<Rightarrow> BlockColor \<times> bool \<times> bool \<times> BlockColor" where
  "sprite_look s = (blockColor s, isHighlighted s, hasFocus s, highlightColor s)"

definition edge_look :: "Bundle \<Rightarrow> Block option \<Rightarrow> Edge \<Rightarrow> bool \<times> bool \<times> bool \<times> bool" where
  "edge_look d target e =
     (let f = getBlockById (Some d) (fromBlockId e); t = getBlockById (Some d) (toBlockId e)
      in ((case (f, t) of (Some x, Some y) \<Rightarrow>
             isInVirtualSelectedParentChain x \<and> isInVirtualSelectedParentChain y | _ \<Rightarrow> False),
          map_option block_id target = Some (fromBlockId e),
          map_option block_id target = Some (toBlockId e),
          (case f of None \<Rightarrow> False | Some x \<Rightarrow> selectedParentId x = Some (toBlockId e))))"

definition edge_sprite_look :: "EdgeSprite \<Rightarrow> bool \<times> bool \<times> bool \<times> bool" where
  "edge_sprite_look s = (e_inChain s, e_highlightedParent s, e_highlightedChild s, e_selectedParent s)"

definition shows_definition :: "EdgeSprite \<Rightarrow> bool" where
  "shows_definition s \<longleftrightarrow> shownDefinition s = edge_definition s"

text \<open>What holds of every scene: edges show their flags, height sprites sit under their height.\<close>

definition scene_ok :: "Timeline \<Rightarrow> bool" where
  "scene_ok t \<longleftrightarrow> (\<forall>k s. map_of (edgeSprites t) k = Some s \<longrightarrow> shows_definition s) \<and>
     (\<forall>h s. map_of (heightSprites t) (buildHeightKey h) = Some s \<longrightarrow> blockHeight s = h)"

lemma scene_ok_new: "scene_ok new_timeline"
  by (simp add: scene_ok_def new_timeline_def)

lemma setFullState_look:
  "edge_sprite_look (setFullState a b c d s) = (a, b, c, d)"
  by (auto simp: setFullState_def edge_sprite_look_def resolveShownGraphics_def Let_def)

lemma setFullState_shows: "shows_definition s \<Longrightarrow> shows_definition (setFullState a b c d s)"
  by (auto simp: setFullState_def shows_definition_def resolveShownGraphics_def Let_def edge_definition_def)

lemma new_edge_sprite_shows: "shows_definition (new_edge_sprite f t)"
  by (simp add: shows_definition_def new_edge_sprite_def edge_definition_def)

text \<open>The scene a bundle calls for.\<close>

definition displays :: "Bundle \<Rightarrow> Block option \<Rightarrow> Timeline \<Rightarrow> bool" where
  "displays d target t \<longleftrightarrow>
     (\<forall>k. has_key (blockSprites t) k \<longleftrightarrow> k \<in> (\<lambda>b. buildBlockKey (block_id b)) ` set (blocks d)) \<and>
     (\<forall>b \<in> set (blocks d). \<exists>s. map_of (blockSprites t) (buildBlockKey (block_id b)) = Some s \<and>
        sprite_look s = block_look d target b) \<and>
     (\<forall>k. has_key (edgeSprites t) k \<longleftrightarrow> k \<in> buildEdgeKey ` set (edges d)) \<and>
     (\<forall>e \<in> set (edges d). \<exists>s. map_of (edgeSprites t) (buildEdgeKey e) = Some s \<and>
        edge_sprite_look s = edge_look d target e \<and> shows_definition s) \<and>
     (\<forall>k. has_key (heightSprites t) k \<longleftrightarrow> k \<in> set (height_keys d)) \<and>
     (\<forall>b \<in> set (blocks d). map_of (heightSprites t) (buildHeightKey (height b)) =
        Some \<lparr>blockHeight = height b, sprite_daaScore = getHeightGroupDAAScore d (height b)\<rparr>)"

section \<open>One sprite\<close>

text \<open>The dictionaries a loaded bundle leaves, which the later stages only read.\<close>

definition loaded :: "Bundle \<Rightarrow> Timeline \<Rightarrow> bool" where
  "loaded d t \<longleftrightarrow> currentBundle t = Some d \<and>
     blockKeysToBlocks t = keyed_by (\<lambda>b. buildBlockKey (block_id b)) (blocks d) \<and>
     edgeKeysToEdges t = keyed_by buildEdgeKey (edges d) \<and>
     heightKeysToHeightGroups t = keyed_by (\<lambda>g. buildHeightKey (group_height g)) (heightGroups d)"

lemma loaded_sprites [simp]:
  "loaded d (t \<lparr>blockSprites := x\<rparr>) = loaded d t"
  "loaded d (t \<lparr>edgeSprites := y\<rparr>) = loaded d t"
  "loaded d (t \<lparr>heightSprites := z\<rparr>) = loaded d t"
  by (simp_all add: loaded_def)

lemma loaded_block:
  assumes "loaded d t" and "unique_keys d"
  shows "map_of (blockKeysToBlocks t) (decimal i) = getBlockById (Some d) i"
proof -
  have inj: "inj_on (\<lambda>b. buildBlockKey (block_id b)) (set (blocks d))"
    using assms(2) by (auto simp: unique_keys_def inj_on_def)
  have k: "decimal i = buildBlockKey i" by (simp add: buildBlockKey_def)
  show ?thesis
  proof (cases "getBlockById (Some d) i")
    case None
    then have "\<forall>b \<in> set (blocks d). block_id b \<noteq> i" by (auto simp: getBlockById_def find_None_iff)
    then have "\<not> has_key (blockKeysToBlocks t) (buildBlockKey i)"
      using assms(1) by (auto simp: loaded_def has_key_keyed_by)
    with None k show ?thesis by (simp add: has_key_def)
  next
    case (Some b)
    from getBlockById_Some [OF this] keyed_by_lookup [OF inj, of b] assms(1) Some k show ?thesis
      by (simp add: loaded_def)
  qed
qed

definition target_in :: "Bundle \<Rightarrow> Block option \<Rightarrow> bool" where
  "target_in d target \<longleftrightarrow> (case target of None \<Rightarrow> True | Some x \<Rightarrow> x \<in> set (blocks d))"

lemma getBlockById_member:
  "unique_keys d \<Longrightarrow> b \<in> set (blocks d) \<Longrightarrow> getBlockById (Some d) (block_id b) = Some b"
proof -
  assume u: "unique_keys d" and b: "b \<in> set (blocks d)"
  then obtain x where x: "getBlockById (Some d) (block_id b) = Some x"
    by (cases "getBlockById (Some d) (block_id b)") (auto simp: getBlockById_def find_None_iff)
  from getBlockById_Some [OF x] u b have "x = b" by (auto simp: unique_keys_def dest: inj_onD)
  with x show ?thesis by simp
qed

lemma assign_block:
  assumes "loaded d t" and "unique_keys d" and "target_in d target"
  shows "\<exists>s'. assignBlockToBlockSprite t s b (map_option (\<lambda>x. buildBlockKey (block_id x)) target) = Inr s' \<and>
    sprite_look s' = block_look d target b"
proof (cases target)
  case None
  then show ?thesis
    by (auto simp: assignBlockToBlockSprite_def Let_def setColor_def setHighlighted_def sprite_look_def
        block_look_def)
next
  case (Some x)
  with assms(3) have x: "x \<in> set (blocks d)" by (simp add: target_in_def)
  have "map_of (blockKeysToBlocks t) (buildBlockKey (block_id x)) = Some x"
    using loaded_block [OF assms(1,2), of "block_id x"] getBlockById_member [OF assms(2) x]
    by (simp add: buildBlockKey_def)
  moreover have "currentBundle t = Some d" using assms(1) by (simp add: loaded_def)
  ultimately show ?thesis
    using Some
    by (cases "block_highlight (Some d) x (buildBlockKey (block_id x)) b")
      (auto simp: assignBlockToBlockSprite_def Let_def lookup_def setColor_def setHighlighted_def
        sprite_look_def block_look_def)
qed

lemma target_key_iff:
  "Some (buildBlockKey i) = map_option (\<lambda>x. buildBlockKey (block_id x)) target \<longleftrightarrow>
   map_option block_id target = Some i"
  by (cases target) auto

lemma assign_edge:
  assumes "loaded d t" and "unique_keys d" and "shows_definition s"
  shows "edge_sprite_look
      (assignEdgeToEdgeSprite t s e (map_option (\<lambda>x. buildBlockKey (block_id x)) target)) = edge_look d target e"
    and "shows_definition
      (assignEdgeToEdgeSprite t s e (map_option (\<lambda>x. buildBlockKey (block_id x)) target))"
  using setFullState_shows [OF assms(3)] loaded_block [OF assms(1,2)]
  by (simp_all add: assignEdgeToEdgeSprite_def Let_def setFullState_look edge_look_def target_key_iff)

section \<open>The stages\<close>

lemma load_drop:
  fixes d :: Bundle
  assumes "scene_ok t"
  defines "t1 \<equiv> drop_sprites d (load_bundle d t)"
  shows "loaded d t1" and "scene_ok t1"
    and "has_key (blockSprites t1) k \<Longrightarrow> k \<in> (\<lambda>b. buildBlockKey (block_id b)) ` set (blocks d)"
    and "has_key (edgeSprites t1) k \<Longrightarrow> k \<in> buildEdgeKey ` set (edges d)"
    and "has_key (heightSprites t1) k \<Longrightarrow> k \<in> set (height_keys d)"
proof -
  let ?t = "load_bundle d t"
  have l: "loaded d ?t" "blockSprites ?t = blockSprites t" "edgeSprites ?t = edgeSprites t"
    "heightSprites ?t = heightSprites t"
    by (auto simp: load_bundle_def Let_def loaded_def recalculateTargetHeight_def split: option.splits)
  show "loaded d t1" using l(1) by (simp add: t1_def drop_sprites_def)
  show "scene_ok t1"
    using assms(1) l by (auto simp: t1_def drop_sprites_def scene_ok_def map_of_filter_keys split: if_splits)
  show "has_key (blockSprites t1) k \<Longrightarrow> k \<in> (\<lambda>b. buildBlockKey (block_id b)) ` set (blocks d)"
    using l(1) by (simp add: t1_def drop_sprites_def has_key_def [of "filter _ _"] map_of_filter_keys
        loaded_def has_key_keyed_by split: if_splits)
  show "has_key (edgeSprites t1) k \<Longrightarrow> k \<in> buildEdgeKey ` set (edges d)"
    using l(1) by (simp add: t1_def drop_sprites_def has_key_def [of "filter _ _"] map_of_filter_keys
        loaded_def has_key_keyed_by split: if_splits)
  show "has_key (heightSprites t1) k \<Longrightarrow> k \<in> set (height_keys d)"
    by (simp add: t1_def drop_sprites_def has_key_def map_of_filter_keys split: if_splits)
qed

lemma only_blockSprites: "(t \<lparr>blockSprites := x\<rparr>) \<lparr>blockSprites := y\<rparr> = t \<lparr>blockSprites := y\<rparr>"
  by simp

lemma update_blocks_stage:
  assumes "loaded d t" and "unique_keys d" and "target_in d target"
  shows "\<exists>x. fold_outcome (update_block_sprite (map_option (\<lambda>x. buildBlockKey (block_id x)) target)) (blocks d) t =
      Inr (t \<lparr>blockSprites := x\<rparr>) \<and> (\<forall>k. has_key x k = has_key (blockSprites t) k) \<and>
      (\<forall>b \<in> set (blocks d). \<forall>s. map_of x (buildBlockKey (block_id b)) = Some s \<longrightarrow> sprite_look s = block_look d target b)"
proof -
  let ?I = "\<lambda>ys t'. \<exists>x. t' = t \<lparr>blockSprites := x\<rparr> \<and> (\<forall>k. has_key x k = has_key (blockSprites t) k) \<and>
    (\<forall>b \<in> set ys. \<forall>s. map_of x (buildBlockKey (block_id b)) = Some s \<longrightarrow> sprite_look s = block_look d target b)"
  have "\<exists>t'. fold_outcome (update_block_sprite (map_option (\<lambda>x. buildBlockKey (block_id x)) target)) (blocks d) t =
      Inr t' \<and> ?I (blocks d) t'"
  proof (rule fold_outcome_rule)
    show "?I [] t" by (rule exI [of _ "blockSprites t"]) simp
  next
    fix ys b zs t'
    assume bs: "blocks d = ys @ b # zs" and "?I ys t'"
    then obtain x where x: "t' = t \<lparr>blockSprites := x\<rparr>" "\<forall>k. has_key x k = has_key (blockSprites t) k"
      "\<forall>b \<in> set ys. \<forall>s. map_of x (buildBlockKey (block_id b)) = Some s \<longrightarrow> sprite_look s = block_look d target b"
      by blast
    have l: "loaded d t'" using assms(1) x(1) by simp
    have same: "block_id b' = block_id b \<Longrightarrow> b' = b" if "b' \<in> set ys" for b'
      using assms(2) bs that by (auto simp: unique_keys_def inj_on_def)
    show "\<exists>t''. update_block_sprite (map_option (\<lambda>x. buildBlockKey (block_id x)) target) b t' = Inr t'' \<and>
        ?I (ys @ [b]) t''"
    proof (cases "map_of x (buildBlockKey (block_id b))")
      case None
      with x show ?thesis by (auto simp: update_block_sprite_def)
    next
      case (Some s)
      from assign_block [OF l assms(2,3), of s b] obtain s' where
        "assignBlockToBlockSprite t' s b (map_option (\<lambda>x. buildBlockKey (block_id x)) target) = Inr s'"
        "sprite_look s' = block_look d target b" by blast
      with Some x same show ?thesis
        by (intro exI [of _ "t \<lparr>blockSprites := AList.update (buildBlockKey (block_id b)) s' x\<rparr>"] conjI
              exI [of _ "AList.update (buildBlockKey (block_id b)) s' x"])
          (auto simp: update_block_sprite_def has_key_def [of "blockSprites t"] has_key_def [of x] split: if_splits)
    qed
  qed
  then show ?thesis by blast
qed

lemma height_stage:
  assumes "loaded d t" and "scene_ok t" and "laid_out d"
    and "\<forall>k. has_key (heightSprites t) k \<longrightarrow> k \<in> set (height_keys d)"
  shows "\<exists>x. and_then (fold_outcome (add_height_sprite d) (height_keys d) t)
        (fold_outcome (update_height_sprite d) (height_keys d)) = Inr (t \<lparr>heightSprites := x\<rparr>) \<and>
      (\<forall>k. has_key x k \<longleftrightarrow> k \<in> set (height_keys d)) \<and>
      (\<forall>b \<in> set (blocks d). map_of x (buildHeightKey (height b)) =
         Some \<lparr>blockHeight = height b, sprite_daaScore = getHeightGroupDAAScore d (height b)\<rparr>)"
proof -
  have group: "\<exists>g. lookup (heightKeysToHeightGroups t') k = Inr g \<and> k = buildHeightKey (group_height g)"
    if k: "k \<in> set (height_keys d)" and l: "loaded d t'" for k t'
  proof -
    from k obtain b where b: "b \<in> set (blocks d)" "k = buildHeightKey (height b)"
      by (auto simp: height_keys_def)
    with assms(3) obtain g where g: "g \<in> set (heightGroups d)" "group_height g = height b"
      by (auto simp: laid_out_def in_group_def)
    have "inj_on (\<lambda>g. buildHeightKey (group_height g)) (set (heightGroups d))"
      using assms(3) by (auto simp: laid_out_def distinct_map inj_on_def)
    from keyed_by_lookup [OF this g(1)] l b g show ?thesis by (auto simp: loaded_def lookup_def)
  qed
  define J :: "HeightSprite dict \<Rightarrow> bool" where "J x \<longleftrightarrow> (\<forall>k. has_key x k \<longrightarrow> k \<in> set (height_keys d)) \<and>
    (\<forall>h s. map_of x (buildHeightKey h) = Some s \<longrightarrow> blockHeight s = h)" for x
  let ?I = "\<lambda>ys t'. \<exists>x. t' = t \<lparr>heightSprites := x\<rparr> \<and> J x \<and> (\<forall>k \<in> set ys. has_key x k)"
  have "\<exists>t'. fold_outcome (add_height_sprite d) (height_keys d) t = Inr t' \<and> ?I (height_keys d) t'"
  proof (rule fold_outcome_rule)
    show "?I [] t"
      using assms(2,4) by (intro exI [of _ "heightSprites t"]) (simp add: J_def scene_ok_def)
  next
    fix ys k zs t'
    assume ks: "height_keys d = ys @ k # zs" and "?I ys t'"
    then obtain x where x: "t' = t \<lparr>heightSprites := x\<rparr>" "J x" "\<forall>k \<in> set ys. has_key x k" by blast
    have k: "k \<in> set (height_keys d)" using ks by simp
    have "loaded d t'" using assms(1) x(1) by simp
    from group [OF k this] obtain g where
      g: "lookup (heightKeysToHeightGroups t') k = Inr g" "k = buildHeightKey (group_height g)" by blast
    show "\<exists>t''. add_height_sprite d k t' = Inr t'' \<and> ?I (ys @ [k]) t''"
    proof (cases "has_key x k")
      case True
      with x show ?thesis by (intro exI [of _ t']) (auto simp: add_height_sprite_def)
    next
      case False
      with x g k show ?thesis
        by (intro exI [of _ "t \<lparr>heightSprites := AList.update k \<lparr>blockHeight = group_height g,
              sprite_daaScore = getHeightGroupDAAScore d (group_height g)\<rparr> x\<rparr>"] conjI
            exI [of _ "AList.update k \<lparr>blockHeight = group_height g,
              sprite_daaScore = getHeightGroupDAAScore d (group_height g)\<rparr> x"])
          (auto simp: add_height_sprite_def J_def)
    qed
  qed
  then obtain x where x: "fold_outcome (add_height_sprite d) (height_keys d) t = Inr (t \<lparr>heightSprites := x\<rparr>)"
    "J x" "\<forall>k \<in> set (height_keys d). has_key x k" by blast
  let ?t = "t \<lparr>heightSprites := x\<rparr>"
  let ?K = "\<lambda>ys t'. \<exists>y. t' = t \<lparr>heightSprites := y\<rparr> \<and> J y \<and> (\<forall>k. has_key y k \<longleftrightarrow> has_key x k) \<and>
    (\<forall>k \<in> set ys. \<forall>h. k = buildHeightKey h \<longrightarrow>
       map_of y k = Some \<lparr>blockHeight = h, sprite_daaScore = getHeightGroupDAAScore d h\<rparr>)"
  have "\<exists>t'. fold_outcome (update_height_sprite d) (height_keys d) ?t = Inr t' \<and> ?K (height_keys d) t'"
  proof (rule fold_outcome_rule)
    show "?K [] ?t" using x(2) by (intro exI [of _ x]) simp
  next
    fix ys k zs t'
    assume ks: "height_keys d = ys @ k # zs" and "?K ys t'"
    then obtain y where y: "t' = t \<lparr>heightSprites := y\<rparr>" "J y" "\<forall>k. has_key y k \<longleftrightarrow> has_key x k"
      "\<forall>k \<in> set ys. \<forall>h. k = buildHeightKey h \<longrightarrow>
         map_of y k = Some \<lparr>blockHeight = h, sprite_daaScore = getHeightGroupDAAScore d h\<rparr>" by blast
    have k: "k \<in> set (height_keys d)" using ks by simp
    have "loaded d t'" using assms(1) y(1) by simp
    from group [OF k this] obtain g where
      g: "lookup (heightKeysToHeightGroups t') k = Inr g" "k = buildHeightKey (group_height g)" by blast
    from x(3) k y(3) have "has_key y k" by simp
    then obtain s where s: "map_of y k = Some s" by (auto simp: has_key_def)
    with y(2) g(2) have h: "blockHeight s = group_height g" by (simp add: J_def)
    let ?score = "getHeightGroupDAAScore d (group_height g)"
    show "\<exists>t''. update_height_sprite d k t' = Inr t'' \<and> ?K (ys @ [k]) t''"
    proof (cases "sprite_daaScore s = ?score")
      case True
      then have "s = \<lparr>blockHeight = group_height g, sprite_daaScore = ?score\<rparr>" using h by simp
      with True y g s show ?thesis
        by (intro exI [of _ t'] conjI exI [of _ y]) (auto simp: update_height_sprite_def Let_def)
    next
      case False
      have "s \<lparr>sprite_daaScore := ?score\<rparr> = \<lparr>blockHeight = group_height g, sprite_daaScore = ?score\<rparr>"
        using h by simp
      moreover have "has_key y k" using s by (simp add: has_key_def)
      ultimately show ?thesis
        using False y g s k h
        by (intro exI [of _ "t \<lparr>heightSprites := AList.update k (s \<lparr>sprite_daaScore := ?score\<rparr>) y\<rparr>"] conjI
              exI [of _ "AList.update k (s \<lparr>sprite_daaScore := ?score\<rparr>) y"])
          (auto simp: update_height_sprite_def Let_def J_def)
    qed
  qed
  then obtain y where y: "fold_outcome (update_height_sprite d) (height_keys d) ?t = Inr (t \<lparr>heightSprites := y\<rparr>)"
    "J y" "\<forall>k. has_key y k \<longleftrightarrow> has_key x k"
    "\<forall>k \<in> set (height_keys d). \<forall>h. k = buildHeightKey h \<longrightarrow>
       map_of y k = Some \<lparr>blockHeight = h, sprite_daaScore = getHeightGroupDAAScore d h\<rparr>" by blast
  have "k \<in> set (height_keys d)" if "b \<in> set (blocks d)" "k = buildHeightKey (height b)" for b k
    using that by (auto simp: height_keys_def)
  with x y show ?thesis by (intro exI [of _ y]) (auto simp: J_def)
qed

lemma add_blocks_stage:
  assumes "loaded d t" and "unique_keys d" and "target_in d target"
    and "\<forall>k. has_key (blockSprites t) k \<longrightarrow> k \<in> (\<lambda>b. buildBlockKey (block_id b)) ` set (blocks d)"
    and "\<forall>b \<in> set (blocks d). \<forall>s. map_of (blockSprites t) (buildBlockKey (block_id b)) = Some s \<longrightarrow>
      sprite_look s = block_look d target b"
  shows "\<exists>x. fold_outcome (add_block_sprite (map_option (\<lambda>x. buildBlockKey (block_id x)) target)) (blocks d) t =
      Inr (t \<lparr>blockSprites := x\<rparr>) \<and>
      (\<forall>k. has_key x k \<longleftrightarrow> k \<in> (\<lambda>b. buildBlockKey (block_id b)) ` set (blocks d)) \<and>
      (\<forall>b \<in> set (blocks d). \<exists>s. map_of x (buildBlockKey (block_id b)) = Some s \<and> sprite_look s = block_look d target b)"
proof -
  define J where "J x \<longleftrightarrow>
    (\<forall>k. has_key x k \<longrightarrow> k \<in> (\<lambda>b. buildBlockKey (block_id b)) ` set (blocks d)) \<and>
    (\<forall>b \<in> set (blocks d). \<forall>s. map_of x (buildBlockKey (block_id b)) = Some s \<longrightarrow> sprite_look s = block_look d target b)"
    for x
  let ?I = "\<lambda>ys t'. \<exists>x. t' = t \<lparr>blockSprites := x\<rparr> \<and> J x \<and> (\<forall>b \<in> set ys. has_key x (buildBlockKey (block_id b)))"
  have "\<exists>t'. fold_outcome (add_block_sprite (map_option (\<lambda>x. buildBlockKey (block_id x)) target)) (blocks d) t =
      Inr t' \<and> ?I (blocks d) t'"
  proof (rule fold_outcome_rule)
    show "?I [] t" using assms(4,5) by (intro exI [of _ "blockSprites t"]) (simp add: J_def)
  next
    fix ys b zs t'
    assume bs: "blocks d = ys @ b # zs" and "?I ys t'"
    then obtain x where x: "t' = t \<lparr>blockSprites := x\<rparr>" "J x"
      "\<forall>b \<in> set ys. has_key x (buildBlockKey (block_id b))" by blast
    have l: "loaded d t'" using assms(1) x(1) by simp
    have b: "b \<in> set (blocks d)" using bs by simp
    have same: "block_id b' = block_id b \<Longrightarrow> b' = b" if "b' \<in> set (blocks d)" for b'
      using assms(2) b that by (auto simp: unique_keys_def inj_on_def)
    show "\<exists>t''. add_block_sprite (map_option (\<lambda>x. buildBlockKey (block_id x)) target) b t' = Inr t'' \<and>
        ?I (ys @ [b]) t''"
    proof (cases "has_key x (buildBlockKey (block_id b))")
      case True
      with x show ?thesis by (intro exI [of _ t']) (auto simp: add_block_sprite_def Let_def)
    next
      case False
      from assign_block [OF l assms(2,3), of "new_block_sprite b" b] obtain s' where
        s': "assignBlockToBlockSprite t' (new_block_sprite b) b (map_option (\<lambda>x. buildBlockKey (block_id x)) target) = Inr s'"
        "sprite_look s' = block_look d target b" by blast
      have "J (AList.update (buildBlockKey (block_id b)) s' x)"
        using x(2) s'(2) b same unfolding J_def by (auto split: if_splits)
      with False x s' show ?thesis
        by (intro exI [of _ "t \<lparr>blockSprites := AList.update (buildBlockKey (block_id b)) s' x\<rparr>"] conjI
              exI [of _ "AList.update (buildBlockKey (block_id b)) s' x"])
          (auto simp: add_block_sprite_def Let_def)
    qed
  qed
  then obtain x where x: "fold_outcome (add_block_sprite (map_option (\<lambda>x. buildBlockKey (block_id x)) target)) (blocks d) t =
      Inr (t \<lparr>blockSprites := x\<rparr>)" "J x" "\<forall>b \<in> set (blocks d). has_key x (buildBlockKey (block_id b))"
    by blast
  have "\<exists>s. map_of x (buildBlockKey (block_id b)) = Some s \<and> sprite_look s = block_look d target b"
    if b: "b \<in> set (blocks d)" for b
  proof -
    from x(3) b obtain s where "map_of x (buildBlockKey (block_id b)) = Some s" by (auto simp: has_key_def)
    with x(2) b show ?thesis by (auto simp: J_def)
  qed
  moreover have "\<forall>k. has_key x k \<longleftrightarrow> k \<in> (\<lambda>b. buildBlockKey (block_id b)) ` set (blocks d)"
    using x(2,3) unfolding J_def by blast
  ultimately show ?thesis using x(1) by blast
qed

definition edge_good :: "Bundle \<Rightarrow> Block option \<Rightarrow> Edge \<Rightarrow> EdgeSprite \<Rightarrow> bool" where
  "edge_good d target e s \<longleftrightarrow> edge_sprite_look s = edge_look d target e \<and> shows_definition s"

lemma edges_stage:
  assumes "loaded d t" and "unique_keys d" and "scene_ok t"
    and "\<forall>k. has_key (edgeSprites t) k \<longrightarrow> k \<in> buildEdgeKey ` set (edges d)"
  shows "\<exists>x. and_then (fold_outcome (update_edge_sprite (map_option (\<lambda>x. buildBlockKey (block_id x)) target)) (edges d) t)
        (fold_outcome (add_edge_sprite (map_option (\<lambda>x. buildBlockKey (block_id x)) target)) (edges d)) =
      Inr (t \<lparr>edgeSprites := x\<rparr>) \<and> (\<forall>k. has_key x k \<longleftrightarrow> k \<in> buildEdgeKey ` set (edges d)) \<and>
      (\<forall>e \<in> set (edges d). \<exists>s. map_of x (buildEdgeKey e) = Some s \<and> edge_good d target e s)"
proof -
  let ?key = "map_option (\<lambda>x. buildBlockKey (block_id x)) target"
  have good: "edge_good d target e (assignEdgeToEdgeSprite t' s e ?key)"
    if "loaded d t'" "shows_definition s" for t' s e
    using assign_edge [OF that(1) assms(2) that(2)] by (simp add: edge_good_def)
  have same: "buildEdgeKey e' = buildEdgeKey e \<Longrightarrow> e' = e" if "e \<in> set (edges d)" "e' \<in> set (edges d)" for e e'
    using assms(2) that by (auto simp: unique_keys_def inj_on_def)
  define J :: "Edge set \<Rightarrow> EdgeSprite dict \<Rightarrow> bool" where "J es x \<longleftrightarrow>
    (\<forall>k. has_key x k \<longrightarrow> k \<in> buildEdgeKey ` set (edges d)) \<and>
    (\<forall>k s. map_of x k = Some s \<longrightarrow> shows_definition s) \<and>
    (\<forall>e \<in> es. \<forall>s. map_of x (buildEdgeKey e) = Some s \<longrightarrow> edge_good d target e s)" for es x
  let ?I = "\<lambda>ys t'. \<exists>x. t' = t \<lparr>edgeSprites := x\<rparr> \<and> J (set ys) x"
  have "\<exists>t'. fold_outcome (update_edge_sprite ?key) (edges d) t = Inr t' \<and> ?I (edges d) t'"
  proof (rule fold_outcome_rule)
    show "?I [] t" using assms(3,4) by (intro exI [of _ "edgeSprites t"]) (auto simp: J_def scene_ok_def)
  next
    fix ys e zs t'
    assume es: "edges d = ys @ e # zs" and "?I ys t'"
    then obtain x where x: "t' = t \<lparr>edgeSprites := x\<rparr>" "J (set ys) x" by blast
    have l: "loaded d t'" using assms(1) x(1) by simp
    have e: "e \<in> set (edges d)" "set ys \<subseteq> set (edges d)" using es by auto
    show "\<exists>t''. update_edge_sprite ?key e t' = Inr t'' \<and> ?I (ys @ [e]) t''"
    proof (cases "map_of x (buildEdgeKey e)")
      case None
      with x show ?thesis by (auto simp: update_edge_sprite_def J_def)
    next
      case (Some s)
      let ?s = "assignEdgeToEdgeSprite t' s e ?key"
      from Some x(2) have "shows_definition s" by (auto simp: J_def)
      from good [OF l this, of e] have g: "edge_good d target e ?s" .
      have "J (set (ys @ [e])) (AList.update (buildEdgeKey e) ?s x)"
        using x(2) g e same unfolding J_def by (auto simp: edge_good_def simp del: buildEdgeKey_inj split: if_splits)
      with Some x(1) show ?thesis by (auto simp: update_edge_sprite_def)
    qed
  qed
  then obtain x where x: "fold_outcome (update_edge_sprite ?key) (edges d) t = Inr (t \<lparr>edgeSprites := x\<rparr>)"
    "J (set (edges d)) x" by blast
  let ?t = "t \<lparr>edgeSprites := x\<rparr>"
  let ?K = "\<lambda>ys t'. \<exists>y. t' = t \<lparr>edgeSprites := y\<rparr> \<and> J (set (edges d)) y \<and> (\<forall>e \<in> set ys. has_key y (buildEdgeKey e))"
  have "\<exists>t'. fold_outcome (add_edge_sprite ?key) (edges d) ?t = Inr t' \<and> ?K (edges d) t'"
  proof (rule fold_outcome_rule [where I = ?K])
    show "?K [] ?t" using x(2) by auto
  next
    fix ys e zs t'
    assume es: "edges d = ys @ e # zs" and "?K ys t'"
    then obtain y where y: "t' = t \<lparr>edgeSprites := y\<rparr>" "J (set (edges d)) y"
      "\<forall>e \<in> set ys. has_key y (buildEdgeKey e)" by blast
    have l: "loaded d t'" using assms(1) y(1) by simp
    have e: "e \<in> set (edges d)" using es by simp
    show "\<exists>t''. add_edge_sprite ?key e t' = Inr t'' \<and> ?K (ys @ [e]) t''"
    proof (cases "has_key y (buildEdgeKey e)")
      case True
      with y show ?thesis by (auto simp: add_edge_sprite_def)
    next
      case False
      let ?s = "assignEdgeToEdgeSprite t' (new_edge_sprite (fromBlockId e) (toBlockId e)) e ?key"
      from good [OF l new_edge_sprite_shows, of e] have g: "edge_good d target e ?s" .
      have "J (set (edges d)) (AList.update (buildEdgeKey e) ?s y)"
        using y(2) g e same unfolding J_def by (auto simp: edge_good_def simp del: buildEdgeKey_inj split: if_splits)
      with False y(1,3) show ?thesis
        by (intro exI [of _ "t \<lparr>edgeSprites := AList.update (buildEdgeKey e) ?s y\<rparr>"])
          (auto simp: add_edge_sprite_def simp del: buildEdgeKey_inj)
    qed
  qed
  then obtain y where y: "fold_outcome (add_edge_sprite ?key) (edges d) ?t = Inr (t \<lparr>edgeSprites := y\<rparr>)"
    "J (set (edges d)) y" "\<forall>e \<in> set (edges d). has_key y (buildEdgeKey e)" by blast
  have "\<exists>s. map_of y (buildEdgeKey e) = Some s \<and> edge_good d target e s" if e: "e \<in> set (edges d)" for e
  proof -
    from y(3) e obtain s where "map_of y (buildEdgeKey e) = Some s" by (auto simp: has_key_def)
    with y(2) e show ?thesis by (auto simp: J_def)
  qed
  moreover have "\<forall>k. has_key y k \<longleftrightarrow> k \<in> buildEdgeKey ` set (edges d)"
    using y(2,3) unfolding J_def by blast
  ultimately show ?thesis using x(1) y(1) by auto
qed

section \<open>Positions\<close>

lemma group_lookup:
  assumes "loaded d t" and "laid_out d" and "in_group d h i"
  shows "\<exists>g \<in> set (heightGroups d). lookup (heightKeysToHeightGroups t) (buildHeightKey h) = Inr g \<and>
    group_height g = h \<and> 0 \<le> i \<and> i < group_size g"
proof -
  from assms(3) obtain g where g: "g \<in> set (heightGroups d)" "group_height g = h" "0 \<le> i" "i < group_size g"
    by (auto simp: in_group_def)
  have "inj_on (\<lambda>g. buildHeightKey (group_height g)) (set (heightGroups d))"
    using assms(2) by (auto simp: laid_out_def distinct_map inj_on_def)
  from keyed_by_lookup [OF this g(1)] assms(1) g show ?thesis by (auto simp: loaded_def lookup_def)
qed

lemma computes_all:
  "\<forall>(k, x) \<in> set d. \<exists>p. f x = Inr p \<Longrightarrow>
   fold_outcome (\<lambda>(k, x) u. and_then (f x) (\<lambda>_. Inr u)) d u = Inr u"
  by (induction d) auto

lemma positions_stage:
  assumes l: "loaded d t" and o: "laid_out d"
  shows "recalculateSpritePositions fl v t = Inr t"
proof -
  have "\<exists>p. edge_position fl v t e = Inr p" if "e \<in> set (edges d)" for e
  proof -
    from that o have "in_group d (fromHeight e) (fromHeightGroupIndex e)" "in_group d (toHeight e) (toHeightGroupIndex e)"
      by (auto simp: laid_out_def)
    from this [THEN group_lookup [OF l o]] show ?thesis by (auto simp: edge_position_def Let_def)
  qed
  moreover have "\<exists>p. block_position fl v t b = Inr p" if "b \<in> set (blocks d)" for b
  proof -
    from that o have "in_group d (height b) (heightGroupIndex b)" by (auto simp: laid_out_def)
    from group_lookup [OF l o this] show ?thesis by (auto simp: block_position_def Let_def)
  qed
  ultimately have e: "\<forall>(k, e) \<in> set (edgeKeysToEdges t). \<exists>p. edge_position fl v t e = Inr p"
    and b: "\<forall>(k, b) \<in> set (blockKeysToBlocks t). \<exists>p. block_position fl v t b = Inr p"
    using l by (auto simp: loaded_def dest!: keyed_by_range)
  show ?thesis
    unfolding recalculateSpritePositions_def computes_all [OF e] computes_all [OF b] by simp
qed

section \<open>The whole update\<close>

lemma set_bundle:
  assumes "scene_ok t" and o: "laid_out d" and u: "unique_keys d" and i: "target_in d target"
    and "currentBundle t \<noteq> Some d"
  shows "\<exists>t'. setBlocksAndEdgesAndHeightGroups fl v d target t = Inr t' \<and> displays d target t' \<and>
    scene_ok t' \<and> currentBundle t' = Some d"
proof -
  let ?t1 = "drop_sprites d (load_bundle d t)"
  let ?key = "map_option (\<lambda>x. buildBlockKey (block_id x)) target"
  note t1 = load_drop [OF assms(1), of d]
  obtain x where x: "fold_outcome (update_block_sprite ?key) (blocks d) ?t1 = Inr (?t1 \<lparr>blockSprites := x\<rparr>)"
    "\<forall>k. has_key x k = has_key (blockSprites ?t1) k"
    "\<forall>b \<in> set (blocks d). \<forall>s. map_of x (buildBlockKey (block_id b)) = Some s \<longrightarrow> sprite_look s = block_look d target b"
    using update_blocks_stage [OF t1(1) u i] by blast
  let ?t2 = "?t1 \<lparr>blockSprites := x\<rparr>"
  have l2: "loaded d ?t2" "scene_ok ?t2" using t1(1,2) by (simp_all add: scene_ok_def)
  obtain y where y: "and_then (fold_outcome (add_height_sprite d) (height_keys d) ?t2)
      (fold_outcome (update_height_sprite d) (height_keys d)) = Inr (?t2 \<lparr>heightSprites := y\<rparr>)"
    "\<forall>k. has_key y k \<longleftrightarrow> k \<in> set (height_keys d)"
    "\<forall>b \<in> set (blocks d). map_of y (buildHeightKey (height b)) =
       Some \<lparr>blockHeight = height b, sprite_daaScore = getHeightGroupDAAScore d (height b)\<rparr>"
    using height_stage [OF l2 o] t1(5) by auto
  let ?t4 = "?t2 \<lparr>heightSprites := y\<rparr>"
  have l4: "loaded d ?t4" using l2(1) by simp
  obtain z where z: "fold_outcome (add_block_sprite ?key) (blocks d) ?t4 = Inr (?t4 \<lparr>blockSprites := z\<rparr>)"
    "\<forall>k. has_key z k \<longleftrightarrow> k \<in> (\<lambda>b. buildBlockKey (block_id b)) ` set (blocks d)"
    "\<forall>b \<in> set (blocks d). \<exists>s. map_of z (buildBlockKey (block_id b)) = Some s \<and> sprite_look s = block_look d target b"
    using add_blocks_stage [OF l4 u i] x(2,3) t1(3) by auto
  let ?t5 = "?t4 \<lparr>blockSprites := z\<rparr>"
  have heights: "\<forall>h s. map_of y (buildHeightKey h) = Some s \<longrightarrow> blockHeight s = h"
  proof (intro allI impI)
    fix h s assume s: "map_of y (buildHeightKey h) = Some s"
    then have "buildHeightKey h \<in> set (height_keys d)" using y(2) by (auto simp: has_key_def)
    then obtain b where "b \<in> set (blocks d)" "height b = h" by (auto simp: height_keys_def)
    with y(3) s show "blockHeight s = h" by auto
  qed
  have l5: "loaded d ?t5" "scene_ok ?t5"
    using l4 t1(2) heights by (simp_all add: scene_ok_def)
  obtain w where w: "and_then (fold_outcome (update_edge_sprite ?key) (edges d) ?t5)
      (fold_outcome (add_edge_sprite ?key) (edges d)) = Inr (?t5 \<lparr>edgeSprites := w\<rparr>)"
    "\<forall>k. has_key w k \<longleftrightarrow> k \<in> buildEdgeKey ` set (edges d)"
    "\<forall>e \<in> set (edges d). \<exists>s. map_of w (buildEdgeKey e) = Some s \<and> edge_good d target e s"
    using edges_stage [OF l5(1) u l5(2), of target] t1(4) by auto
  let ?t6 = "?t5 \<lparr>edgeSprites := w\<rparr>"
  have l6: "loaded d ?t6" using l5(1) by simp
  have new: "\<not> (case currentBundle t of None \<Rightarrow> False | Some c \<Rightarrow> areBlocksAndEdgesAndHeightGroupsEqual c d)"
    using assms(5) by (auto simp: bundle_equal_iff split: option.splits)
  have "setBlocksAndEdgesAndHeightGroups fl v d target t = Inr ?t6"
    using new x(1) y(1) z(1) w(1) positions_stage [OF l6 o]
    by (simp add: setBlocksAndEdgesAndHeightGroups_def Let_def and_then_assoc [symmetric])
  moreover have "displays d target ?t6"
    using y(2,3) z(2,3) w(2,3) by (simp add: displays_def edge_good_def)
  moreover have "scene_ok ?t6"
  proof -
    have "shows_definition s" if "map_of w k = Some s" for k s
    proof -
      from that have "has_key w k" by (simp add: has_key_def)
      with w(2) obtain e where "e \<in> set (edges d)" "k = buildEdgeKey e" by blast
      with w(3) that show ?thesis by (auto simp: edge_good_def)
    qed
    with heights show ?thesis by (simp add: scene_ok_def)
  qed
  moreover have "currentBundle ?t6 = Some d" using l6 by (simp add: loaded_def)
  ultimately show ?thesis by blast
qed

section \<open>Sources whose windows can be drawn\<close>

locale drawable_source = data_source +
  assumes unique: "ok s \<Longrightarrow> 1 \<le> e \<Longrightarrow> window s (Some a) (Some e) = Inr d \<Longrightarrow> unique_keys d"
begin

lemma drawn:
  assumes "ok s" and "1 \<le> e" and "scene_ok t"
  shows "\<exists>d t'. window s (Some a) (Some e) = Inr d \<and>
    setBlocksAndEdgesAndHeightGroups fl v d None t = Inr t' \<and> scene_ok t' \<and>
    (currentBundle t \<noteq> Some d \<longrightarrow> displays d None t')"
proof -
  from answers [OF assms(1,2)] obtain d where d: "window s (Some a) (Some e) = Inr d" "laid_out d" by blast
  show ?thesis
  proof (cases "currentBundle t = Some d")
    case True
    with d assms(3) show ?thesis
      by (auto simp: setBlocksAndEdgesAndHeightGroups_def bundle_equal_iff)
  next
    case False
    from set_bundle [OF assms(3) d(2) unique [OF assms(1,2) d(1)], of None fl v] False d(1)
    show ?thesis by (auto simp: target_in_def)
  qed
qed

end

lemma chain_unique:
  assumes "chain_ok s" and "1 \<le> e" and "chain_window s (Some a) (Some e) = Inr d"
  shows "unique_keys d"
proof -
  from assms(1) obtain n where "s = chain_state (blockInterval s) n" by (auto simp: chain_ok_def)
  from chain_window_state [OF assms(2), of "blockInterval s" n a, folded this] assms(3)
  show ?thesis by (auto simp: unique_keys_def inj_on_def chain_block_def chain_edge_def)
qed

interpretation drawn_chain: drawable_source chain_ok chain_window
  by unfold_locales (rule chain_unique)

text \<open>A recording with distinct ids keeps the ids of the stored blocks distinct.\<close>

definition level_blocks :: "(int \<times> DatumAtHeight) list \<Rightarrow> Block set" where
  "level_blocks D = {b. \<exists>h. b \<in> set (blocks_at D h)}"

definition replay_ok :: "ReplayDataSource \<Rightarrow> bool" where
  "replay_ok s \<longleftrightarrow> replay_inv s \<and> inj_on block_id (level_blocks (dataAtHeight s)) \<and>
     block_id ` level_blocks (dataAtHeight s) \<subseteq> dom (blockIdsToHeights s)"

lemma replay_unique:
  assumes "replay_ok s" and "replay_window s (Some a) (Some e) = Inr d"
  shows "unique_keys d"
proof -
  from assms(1) have inv: "replay_inv s" by (simp add: replay_ok_def)
  from replay_window_spec [OF inv, of a e] assms(2) have d:
    "blocks d = concat (map (blocks_at (dataAtHeight s)) (window_heights a e (int (length (dataAtHeight s)))))"
    "distinct (map (\<lambda>x. (fromBlockId x, toBlockId x)) (edges d))"
    by auto
  have "set (blocks d) \<subseteq> level_blocks (dataAtHeight s)" by (auto simp: d(1) level_blocks_def)
  with assms(1) have "inj_on block_id (set (blocks d))" by (auto simp: replay_ok_def intro: inj_on_subset)
  with d(2) show ?thesis by (simp add: unique_keys_def distinct_map)
qed

interpretation drawn_replay: drawable_source replay_ok replay_window
  by unfold_locales (auto simp: replay_ok_def dest: replay_source intro: replay_unique)

end
