(* ===== verification/KgiClaims.thy ===== *)
theory KgiClaims
  imports KgiWindow
begin

text \<open>
  The properties of the DAG viewer's data: the equality test on bundles, the look-ups between
  heights and DAA scores, and the two generated data sources.
\<close>

section \<open>What is stored\<close>

definition stored_blocks :: "ReplayDataSource \<Rightarrow> Block list" where
  "stored_blocks s = concat (map (datum_blocks \<circ> snd) (dataAtHeight s))"

definition stored_edges :: "ReplayDataSource \<Rightarrow> Edge list" where
  "stored_edges s = concat (map (datum_edges \<circ> snd) (dataAtHeight s))"

lemma blocks_at_iff: "b \<in> set (blocks_at D h) \<longleftrightarrow> (\<exists>dat. map_of D h = Some dat \<and> b \<in> set (datum_blocks dat))"
  by (cases "map_of D h") (simp_all add: blocks_at_def)

lemma edges_at_iff: "x \<in> set (edges_at D h) \<longleftrightarrow> (\<exists>dat. map_of D h = Some dat \<and> x \<in> set (datum_edges dat))"
  by (cases "map_of D h") (simp_all add: edges_at_def)

lemma stored_levels:
  assumes "distinct (map fst (dataAtHeight s))"
  shows "b \<in> set (stored_blocks s) \<longleftrightarrow> (\<exists>h. b \<in> set (blocks_at (dataAtHeight s) h))"
    and "x \<in> set (stored_edges s) \<longleftrightarrow> (\<exists>h. x \<in> set (edges_at (dataAtHeight s) h))"
proof -
  have m: "dat \<in> snd ` set (dataAtHeight s) \<longleftrightarrow> (\<exists>h. map_of (dataAtHeight s) h = Some dat)" for dat
    using assms by (force dest: map_of_SomeD)
  have "b \<in> set (stored_blocks s) \<longleftrightarrow> (\<exists>dat \<in> snd ` set (dataAtHeight s). b \<in> set (datum_blocks dat))"
    by (auto simp: stored_blocks_def)
  also have "\<dots> \<longleftrightarrow> (\<exists>h dat. map_of (dataAtHeight s) h = Some dat \<and> b \<in> set (datum_blocks dat))"
    using m by blast
  finally show "b \<in> set (stored_blocks s) \<longleftrightarrow> (\<exists>h. b \<in> set (blocks_at (dataAtHeight s) h))"
    by (simp add: blocks_at_iff)
  have "x \<in> set (stored_edges s) \<longleftrightarrow> (\<exists>dat \<in> snd ` set (dataAtHeight s). x \<in> set (datum_edges dat))"
    by (auto simp: stored_edges_def)
  also have "\<dots> \<longleftrightarrow> (\<exists>h dat. map_of (dataAtHeight s) h = Some dat \<and> x \<in> set (datum_edges dat))"
    using m by blast
  finally show "x \<in> set (stored_edges s) \<longleftrightarrow> (\<exists>h. x \<in> set (edges_at (dataAtHeight s) h))"
    by (simp add: edges_at_iff)
qed

lemma replay_block_height:
  "replay_inv s \<Longrightarrow> b \<in> set (blocks_at (dataAtHeight s) h) \<Longrightarrow>
   height b = h \<and> 0 \<le> h \<and> h < int (length (dataAtHeight s))"
proof -
  assume inv: "replay_inv s" and b: "b \<in> set (blocks_at (dataAtHeight s) h)"
  then have "map_of (dataAtHeight s) h \<noteq> None" by (auto simp: blocks_at_iff)
  moreover have "height b = h"
    using inv b unfolding replay_inv_def slotted_def by (metis in_set_conv_nth)
  moreover have "contiguous (dataAtHeight s)" using inv by (simp add: replay_inv_def)
  ultimately show ?thesis using contiguous_iff by blast
qed

text \<open>An edge is stored at a height of the window exactly when it crosses the window.\<close>

lemma crossing_edges:
  assumes inv: "replay_inv s" and x: "x \<in> set (stored_edges s)"
    and range: "max a 0 \<le> min e (int (length (dataAtHeight s)))"
  shows "(\<exists>h \<in> set (window_heights a e (int (length (dataAtHeight s)))).
      x \<in> set (edges_at (dataAtHeight s) h)) \<longleftrightarrow> a \<le> fromHeight x \<and> toHeight x \<le> e"
proof -
  let ?n = "int (length (dataAtHeight s))"
  have d: "distinct (map fst (dataAtHeight s))" "contiguous (dataAtHeight s)"
    using inv by (simp_all add: replay_inv_def contiguous_def)
  from x stored_levels(2) [OF d(1)] obtain h0 where h0: "x \<in> set (edges_at (dataAtHeight s) h0)" by auto
  have at: "x \<in> set (edges_at (dataAtHeight s) h) \<longleftrightarrow> toHeight x \<le> h \<and> h \<le> fromHeight x" for h
    using inv h0 by (auto simp: replay_inv_def anchored_def)
  have "slot (dataAtHeight s) (fromHeight x) (fromHeightGroupIndex x)"
    "slot (dataAtHeight s) (toHeight x) (toHeightGroupIndex x)"
    using inv h0 by (auto simp: replay_inv_def anchored_def)
  from this [THEN slot_level] contiguous_iff [OF d(2)]
  have ends: "0 \<le> fromHeight x" "fromHeight x < ?n" "0 \<le> toHeight x" "toHeight x < ?n" by auto
  have "toHeight x \<le> fromHeight x" using h0 at [of h0] by simp
  then show ?thesis
    unfolding at window_heights_def using ends range
    by (auto intro!: bexI [of _ "max (toHeight x) (max a 0)"])
qed

section \<open>Bundles and heights\<close>

text \<open>
  The test that decides whether the timeline redraws, an index loop per array after three
  length comparisons, says that two bundles are the same exactly when they are.
\<close>

theorem bundle_test_exact:
  "areBlocksAndEdgesAndHeightGroupsEqual l r \<longleftrightarrow> l = r"
  by (rule bundle_equal_iff)

text \<open>
  When DAA scores grow strictly with the height inside a bundle, looking up the height of the
  score shown at a height finds that height again, so a timeline that follows a score stays on the
  height it was set to.
\<close>

theorem score_height_roundtrip:
  assumes "h \<in> group_height ` set (heightGroups d)"
    and "\<forall>i \<in> {getMinHeight d..<h}. getHeightGroupDAAScore d i < getHeightGroupDAAScore d h"
  shows "getDAAScoreGroupHeight d (getHeightGroupDAAScore d h) = h"
proof -
  from assms(1) obtain g where "g \<in> set (heightGroups d)" "group_height g = h" by auto
  with getMinHeight_le getMaxHeight_ge have "getMinHeight d \<le> h" "h \<le> getMaxHeight d" by blast+
  then show ?thesis
    unfolding getDAAScoreGroupHeight_def using assms(2) by (intro height_scan_finds) auto
qed

definition demo_chain :: Bundle where
  "demo_chain =
     \<lparr>blocks = [chain_block 1000 1, chain_block 1000 2, chain_block 1000 3],
      edges = [chain_edge 1, chain_edge 2],
      heightGroups = [chain_group 1, chain_group 2, chain_group 3]\<rparr>"

lemma demo_chain_eval:
  "getMinHeight demo_chain = 1" "getHeightGroupDAAScore demo_chain 1 = 1"
  "getHeightGroupDAAScore demo_chain 2 = 2"
  by (simp_all add: demo_chain_def getMinHeight_def MAX_SAFE_INTEGER_def getHeightGroupDAAScore_def
      chain_block_def chain_group_def)

theorem score_height_roundtrip_witness: "getDAAScoreGroupHeight demo_chain 2 = 2"
proof -
  have r: "{1..<2 :: int} = {1}" by auto
  have "2 \<in> group_height ` set (heightGroups demo_chain)"
    by (simp add: demo_chain_def chain_group_def)
  from score_height_roundtrip [OF this] show ?thesis
    by (simp add: demo_chain_eval r)
qed

text \<open>The replaying source after some timer ticks, or the exception that ended it.\<close>

definition replayed :: "ReplayData \<Rightarrow> nat \<Rightarrow> ReplayDataSource outcome" where
  "replayed data n = and_then (new_replay data) (replay_ticks data n)"

lemma replay_ticks_index:
  assumes "parents_first {} (rd_blocks data)" and "rd_blocks data \<noteq> []"
    and "replaying data s" and "currentReplayBlockIndex s = k mod length (rd_blocks data) + 1"
  shows "\<exists>s'. replay_ticks data n s = Inr s' \<and> replaying data s' \<and>
    currentReplayBlockIndex s' = (k + n) mod length (rd_blocks data) + 1"
  using assms(3,4)
proof (induction n arbitrary: s k)
  case 0
  then show ?case by simp
next
  case (Suc n)
  from replay_tick_ok [OF assms(1,2) Suc.prems(1)] Suc.prems(2) obtain s' where s':
    "replay_tick data s = Inr s'" "replaying data s'"
    "currentReplayBlockIndex s' = (k mod length (rd_blocks data) + 1) mod length (rd_blocks data) + 1"
    by auto
  then have "currentReplayBlockIndex s' = Suc k mod length (rd_blocks data) + 1"
    by (simp add: mod_Suc_eq)
  from Suc.IH [OF s'(2) this] s'(1) show ?case by (simp only: replay_ticks.simps and_then_Inr add_Suc add_Suc_right)
qed

lemma new_replay_ok:
  assumes "parents_first {} (rd_blocks data)" and "rd_blocks data \<noteq> []"
  shows "\<exists>s. new_replay data = Inr s \<and> replaying data s \<and> currentReplayBlockIndex s = 1"
  using addNextBlock_ok [OF assms(1) replay_fields_ok] assms(2) by (auto simp: new_replay_def replay_fields_def)

lemma replayed_ok:
  assumes "parents_first {} (rd_blocks data)" and "rd_blocks data \<noteq> []"
  shows "\<exists>s. replayed data n = Inr s \<and> replaying data s \<and>
    currentReplayBlockIndex s = n mod length (rd_blocks data) + 1"
proof -
  obtain s0 where s0: "new_replay data = Inr s0" "replaying data s0" "currentReplayBlockIndex s0 = 1"
    using new_replay_ok [OF assms] by blast
  with replay_ticks_index [OF assms s0(2), of 0 n] show ?thesis by (simp add: replayed_def)
qed

section \<open>The chain source\<close>

text \<open>
  After any number of ticks the chain source holds one block per height, and the hash of a
  block finds the blocks from \<open>k\<close> heights below it up to, and not including, \<open>k\<close> heights above.
\<close>

theorem chain_hash_window:
  assumes "i \<le> Suc m" and "1 \<le> k"
  shows "chain_getBlockHash (chain_ticks m (new_chain interval)) (repeated_id (int i)) k =
    Inr \<lparr>blocks = map (chain_block interval) [nat (int i - k)..<min (m + 2) (nat (int i + k))],
         edges = map chain_edge [nat (int i - k)..<min (m + 2) (nat (int i + k)) - 1],
         heightGroups = map chain_group [nat (int i - k)..<min (m + 2) (nat (int i + k))]\<rparr>"
proof -
  have "c_blockIdsByHashes (chain_state interval (Suc m)) (repeated_id (int i)) = Some (int i)"
    using assms(1) by (simp add: chain_state_def)
  moreover have "nat (max (int i - k) 0) = nat (int i - k)" by simp
  ultimately show ?thesis
    using chain_window_state [of "int i + k" interval "Suc m" "int i - k"] assms(2)
    by (simp add: chain_getBlockHash_def chain_reachable)
qed

theorem chain_hash_window_witness:
  "chain_getBlockHash (chain_ticks 3 (new_chain 1000)) (repeated_id 2) 1 =
     Inr \<lparr>blocks = [chain_block 1000 1, chain_block 1000 2], edges = [chain_edge 1],
          heightGroups = [chain_group 1, chain_group 2]\<rparr>"
  using chain_hash_window [of 2 3 1 1000] by (simp add: upt_rec numeral_2_eq_2 [symmetric])

section \<open>The replaying source\<close>

text \<open>
  A recording that is not empty and names parents before their children replays forever: no
  timer callback throws, and after the last block the first one follows.
\<close>

theorem replay_never_stops:
  assumes "parents_first {} (rd_blocks data)" and "rd_blocks data \<noteq> []"
  shows "case and_then (new_replay data) (replay_ticks data n) of
      Inr s \<Rightarrow> currentReplayBlockIndex s = n mod length (rd_blocks data) + 1
    | Inl e \<Rightarrow> False"
  using replayed_ok [OF assms, of n] by (auto simp: replayed_def)

definition demo_block :: "int \<Rightarrow> int list \<Rightarrow> ReplayDataBlock" where
  "demo_block i ps =
     \<lparr>rb_id = i, rb_parentIds = ps, rb_selectedParentId = None, rb_color = BLUE,
      rb_isInVirtualSelectedParentChain = True, rb_mergeSetRedIds = [], rb_mergeSetBlueIds = ps\<rparr>"

definition demo_replay :: ReplayData where
  "demo_replay =
     \<lparr>rd_blocks = [demo_block 0 [], demo_block 1 [0], demo_block 2 [0], demo_block 3 [1, 2]],
      rd_blockInterval = 200\<rparr>"

lemma demo_replay_ok: "parents_first {} (rd_blocks demo_replay)" "rd_blocks demo_replay \<noteq> []"
  by (simp_all add: demo_replay_def demo_block_def)

theorem replay_never_stops_witness:
  "case and_then (new_replay demo_replay) (replay_ticks demo_replay 6) of
     Inr s \<Rightarrow> currentReplayBlockIndex s = 3 | Inl e \<Rightarrow> False"
  using replay_never_stops [OF demo_replay_ok, of 6] by (simp add: demo_replay_def split: sum.splits)

text \<open>
  In every state of such a replay a query for a range of heights answers with a bundle that
  can be drawn: exactly the stored blocks of the range, each stored edge that crosses the range
  and no other, once per pair of ends, with one height group for every height involved.
\<close>

theorem replay_window_exact:
  assumes "parents_first {} (rd_blocks data)" and "rd_blocks data \<noteq> []"
  shows "case replayed data n of
      Inl f \<Rightarrow> False
    | Inr s \<Rightarrow> (case replay_window s (Some a) (Some e) of
      Inl f \<Rightarrow> False
    | Inr d \<Rightarrow>
        laid_out d \<and>
        set (blocks d) = {b \<in> set (stored_blocks s). a \<le> height b \<and> height b \<le> e} \<and>
        set (edges d) \<subseteq> {x \<in> set (stored_edges s). a \<le> fromHeight x \<and> toHeight x \<le> e} \<and>
        distinct (map (\<lambda>x. (fromBlockId x, toBlockId x)) (edges d)) \<and>
        (max a 0 \<le> min e (int (length (dataAtHeight s))) \<longrightarrow>
           (\<lambda>x. (fromBlockId x, toBlockId x)) ` set (edges d) =
           (\<lambda>x. (fromBlockId x, toBlockId x)) `
             {x \<in> set (stored_edges s). a \<le> fromHeight x \<and> toHeight x \<le> e}))"
proof -
  obtain s where s: "replayed data n = Inr s" and inv: "replay_inv s"
    using replayed_ok [OF assms, of n] by (auto simp: replaying_def)
  then have dist: "distinct (map fst (dataAtHeight s))" by (simp add: replay_inv_def contiguous_def)
  let ?D = "dataAtHeight s" and ?n = "int (length (dataAtHeight s))"
  from replay_window_spec [OF inv, of a e] obtain d where
    w: "replay_window s (Some a) (Some e) = Inr d" and l: "laid_out d"
    and bs: "blocks d = concat (map (blocks_at ?D) (window_heights a e ?n))"
    and dis: "distinct (map (\<lambda>x. (fromBlockId x, toBlockId x)) (edges d))"
    and es: "set (edges d) \<subseteq> (\<Union>h \<in> set (window_heights a e ?n). set (edges_at ?D h))"
    and keys: "\<forall>h \<in> set (window_heights a e ?n). \<forall>x \<in> set (edges_at ?D h).
       \<exists>y \<in> set (edges d). fromBlockId y = fromBlockId x \<and> toBlockId y = toBlockId x"
    by blast
  have "set (blocks d) = {b \<in> set (stored_blocks s). a \<le> height b \<and> height b \<le> e}"
    unfolding bs window_heights_def using replay_block_height [OF inv]
    by (fastforce simp: stored_levels(1) [OF dist])
  moreover have sub: "set (edges d) \<subseteq> {x \<in> set (stored_edges s). a \<le> fromHeight x \<and> toHeight x \<le> e}"
  proof
    fix x assume "x \<in> set (edges d)"
    with es obtain h where h: "h \<in> set (window_heights a e ?n)" "x \<in> set (edges_at ?D h)" by auto
    then have st: "x \<in> set (stored_edges s)" by (auto simp: stored_levels(2) [OF dist])
    from h(1) have "max a 0 \<le> min e ?n" by (auto simp: window_heights_def)
    from crossing_edges [OF inv st this] h st
    show "x \<in> {x \<in> set (stored_edges s). a \<le> fromHeight x \<and> toHeight x \<le> e}" by auto
  qed
  moreover have "(\<lambda>x. (fromBlockId x, toBlockId x)) ` set (edges d) =
      (\<lambda>x. (fromBlockId x, toBlockId x)) `
        {x \<in> set (stored_edges s). a \<le> fromHeight x \<and> toHeight x \<le> e}"
    if range: "max a 0 \<le> min e ?n"
  proof
    show "(\<lambda>x. (fromBlockId x, toBlockId x)) ` {x \<in> set (stored_edges s). a \<le> fromHeight x \<and> toHeight x \<le> e}
      \<subseteq> (\<lambda>x. (fromBlockId x, toBlockId x)) ` set (edges d)"
    proof (rule image_subsetI, clarify)
      fix x assume "x \<in> set (stored_edges s)" "a \<le> fromHeight x" "toHeight x \<le> e"
      with crossing_edges [OF inv _ range] keys obtain y where "y \<in> set (edges d)"
        "fromBlockId y = fromBlockId x" "toBlockId y = toBlockId x" by blast
      then show "(fromBlockId x, toBlockId x) \<in> (\<lambda>x. (fromBlockId x, toBlockId x)) ` set (edges d)"
        by (intro image_eqI [of _ _ y]) simp_all
    qed
  qed (use sub in auto)
  ultimately show ?thesis using w l dis s by simp
qed

theorem replay_window_exact_witness:
  "\<exists>s d. replayed demo_replay 3 = Inr s \<and> replay_window s (Some 1) (Some 1) = Inr d \<and> laid_out d \<and>
       set (blocks d) = {b \<in> set (stored_blocks s). 1 \<le> height b \<and> height b \<le> 1}"
  using replay_window_exact [OF demo_replay_ok, where n = 3 and a = 1 and e = 1] by (simp split: sum.splits)

section \<open>Look-ups of the replaying source\<close>

lemma add_edges_daa:
  "fold_outcome (add_edge i h ix) ps s = Inr s' \<Longrightarrow> r_blockIdsByDAAScores s' = r_blockIdsByDAAScores s"
  by (rule fold_outcome_invariant [where I = "\<lambda>t. r_blockIdsByDAAScores t = r_blockIdsByDAAScores s"])
    (auto simp: add_edge_def Let_def and_then_eq_Inr split: option.splits)

lemma addNextBlock_daa: "addNextBlock data s = Inr s' \<Longrightarrow> r_blockIdsByDAAScores s' = r_blockIdsByDAAScores s"
  by (auto simp: addNextBlock_def Let_def and_then_eq_Inr place_block_def dest!: add_edges_daa split: if_splits)

lemma replay_ticks_daa:
  "replay_ticks data n s = Inr s' \<Longrightarrow> r_blockIdsByDAAScores s' = r_blockIdsByDAAScores s"
  by (induction n arbitrary: s)
    (auto simp: and_then_eq_Inr replay_tick_def reset_def dest!: addNextBlock_daa split: if_splits)

lemma replayed_daa: "replayed data n = Inr s \<Longrightarrow> r_blockIdsByDAAScores s = Map.empty"
  by (auto simp: replayed_def new_replay_def and_then_eq_Inr replay_fields_def dest!: addNextBlock_daa replay_ticks_daa)

text \<open>
  The replaying source never fills its table from DAA scores to ids: every query by DAA score
  answers with an empty bundle, whatever has been replayed. Its query by hash uses the id of the
  block as a height: in a recording of one block with nine children it misses the last child.
\<close>

theorem replay_lookups_miss:
  "(case replayed data n of
      Inl f \<Rightarrow> True
    | Inr s \<Rightarrow> replay_getBlockDAAScore s score k = Inr \<lparr>blocks = [], edges = [], heightGroups = []\<rparr>) \<and>
   (case replayed \<lparr>rd_blocks = demo_block 0 [] # map (\<lambda>i. demo_block i [0]) [1..9], rd_blockInterval = 200\<rparr> 9 of
      Inl f \<Rightarrow> False
    | Inr s \<Rightarrow>
       r_blockIdsByHashes s (repeated_id 9) = Some 9 \<and>
       list_ex (\<lambda>b. blockHash b = repeated_id 9) (stored_blocks s) \<and>
       replay_getBlockHash s (repeated_id 9) 3 = Inr \<lparr>blocks = [], edges = [], heightGroups = []\<rparr>)"
proof (intro conjI)
  show "case replayed data n of
      Inl f \<Rightarrow> True
    | Inr s \<Rightarrow> replay_getBlockDAAScore s score k = Inr \<lparr>blocks = [], edges = [], heightGroups = []\<rparr>"
    using replayed_daa [of data n]
    by (simp add: replay_getBlockDAAScore_def replay_window_def height_range_def empty_gathered_def split: sum.split)
qed code_simp

end
