(* ===== verification/KgiSceneClaims.thy ===== *)
theory KgiSceneClaims
  imports KgiScene KgiClaims
begin

text \<open>
  The properties of the timeline: the incremental update against drawing from scratch, a whole
  session of polls against the replaying source, and the places of the blocks of one height.
\<close>

section \<open>Updates\<close>

text \<open>
  C26: Updating the scene with a new bundle never meets a missing key and leaves exactly the
  sprites the bundle calls for, whatever was shown before: one block sprite per block with the
  colour and highlighting the bundle and the target block give it, one edge sprite per edge that
  shows its flags, one height sprite per height with its DAA score.
\<close>

theorem scene_refines_bundle:
  assumes "scene_ok t" and "laid_out d" and "unique_keys d" and "target_in d target"
    and "currentBundle t \<noteq> Some d"
  shows "case setBlocksAndEdgesAndHeightGroups fl v d target t of
      Inl f \<Rightarrow> False | Inr t' \<Rightarrow> displays d target t' \<and> scene_ok t'"
proof -
  from set_bundle [OF assms, of fl v] obtain t' where
    "setBlocksAndEdgesAndHeightGroups fl v d target t = Inr t'" "displays d target t'" "scene_ok t'"
    by blast
  then show ?thesis by simp
qed

definition demo_view :: View where
  "demo_view = \<lparr>screen_width = 1200, screen_height = 960, view_scale = 1\<rparr>"

lemma demo_chain_laid_out: "laid_out demo_chain" "unique_keys demo_chain"
  "target_in demo_chain (Some (chain_block 1000 2))"
  by (auto simp: laid_out_def unique_keys_def target_in_def demo_chain_def chain_block_def chain_edge_def
      chain_group_def in_group_def inj_on_def)

theorem scene_refines_bundle_witness:
  "case setBlocksAndEdgesAndHeightGroups (\<lambda>x. x) demo_view demo_chain (Some (chain_block 1000 2)) new_timeline of
     Inl f \<Rightarrow> False | Inr t' \<Rightarrow> displays demo_chain (Some (chain_block 1000 2)) t' \<and> scene_ok t'"
  using scene_refines_bundle [OF scene_ok_new demo_chain_laid_out, of "\<lambda>x. x" demo_view]
  by (simp add: new_timeline_def)

section \<open>A session against the replaying source\<close>

lemma push_down_blocks:
  "push_down e i p D = Inr D' \<Longrightarrow> blocks_at D' h = blocks_at D h"
proof (induction e i p D rule: push_down.induct)
  case (1 e i p D)
  show ?case
  proof (cases "p \<le> i")
    case False
    with 1(2) show ?thesis by (simp add: push_down.simps [of e i p D])
  next
    case True
    show ?thesis
    proof (cases "map_of D i")
      case None
      with True 1(2) show ?thesis by (simp add: push_down.simps [of e i p D])
    next
      case (Some dat)
      with True 1(2) have
        "push_down e (i - 1) p (AList.update i (dat \<lparr>datum_edges := datum_edges dat @ [e]\<rparr>) D) = Inr D'"
        by (simp add: push_down.simps [of e i p D])
      from 1(1) [OF True Some this] Some show ?thesis
        by (simp add: level_simps) (simp add: blocks_at_def)
    qed
  qed
qed

lemma add_edge_blocks:
  assumes "add_edge i h ix p s = Inr s'"
  shows "level_blocks (dataAtHeight s') = level_blocks (dataAtHeight s) \<and>
    blockIdsToHeights s' = blockIdsToHeights s \<and> currentReplayBlockIndex s' = currentReplayBlockIndex s"
proof -
  from assms obtain e ph D where D: "push_down e h ph (dataAtHeight s) = Inr D" "s' = s \<lparr>dataAtHeight := D\<rparr>"
    by (auto simp: add_edge_def Let_def and_then_eq_Inr split: option.splits)
  with push_down_blocks [OF D(1)] show ?thesis by (simp add: level_blocks_def)
qed

lemma add_edges_blocks:
  "fold_outcome (add_edge i h ix) ps s = Inr s' \<Longrightarrow>
   level_blocks (dataAtHeight s') = level_blocks (dataAtHeight s) \<and>
   blockIdsToHeights s' = blockIdsToHeights s \<and> currentReplayBlockIndex s' = currentReplayBlockIndex s"
  by (erule fold_outcome_invariant [where I = "\<lambda>t. level_blocks (dataAtHeight t) = level_blocks (dataAtHeight s) \<and>
        blockIdsToHeights t = blockIdsToHeights s \<and> currentReplayBlockIndex t = currentReplayBlockIndex s"])
    (auto dest!: add_edge_blocks)

lemma addNextBlock_stored:
  assumes "addNextBlock data s = Inr s'"
  shows "\<exists>b. level_blocks (dataAtHeight s') = insert b (level_blocks (dataAtHeight s)) \<and>
    block_id b = rb_id (rd_blocks data ! currentReplayBlockIndex s) \<and>
    dom (blockIdsToHeights s') = insert (block_id b) (dom (blockIdsToHeights s))"
proof -
  let ?rb = "rd_blocks data ! currentReplayBlockIndex s"
  let ?h = "max_parent_height (blockIdsToHeights s) (rb_parentIds ?rb) (- 1) + 1"
  let ?s = "place_block data ?rb ?h s"
  let ?b = "replay_block data (currentReplayBlockIndex s) ?rb ?h (group_index_at s ?h)"
  from assms obtain s1 where s1:
    "fold_outcome (add_edge (rb_id ?rb) ?h (group_index_at s ?h)) (rb_parentIds ?rb) ?s = Inr s1"
    "dataAtHeight s' = dataAtHeight s1" "blockIdsToHeights s' = blockIdsToHeights s1"
    by (auto simp: addNextBlock_def Let_def and_then_eq_Inr split: if_splits)
  have "level_blocks (dataAtHeight ?s) = insert ?b (level_blocks (dataAtHeight s))"
    by (auto simp: level_blocks_def place_block_levels split: if_splits)
  moreover have "dom (blockIdsToHeights ?s) = insert (rb_id ?rb) (dom (blockIdsToHeights s))"
    by (simp add: place_block_def Let_def)
  ultimately show ?thesis
    using add_edges_blocks [OF s1(1)] s1(2,3) by (intro exI [of _ ?b]) (simp add: replay_block_def)
qed

lemma next_block_ok:
  assumes rec: "parents_first {} (rd_blocks data)" "distinct (map rb_id (rd_blocks data))"
    and r: "replaying data s" and o: "replay_ok s" and s': "addNextBlock data s = Inr s'"
  shows "replaying data s'" and "replay_ok s'"
proof -
  from s' have more: "currentReplayBlockIndex s < length (rd_blocks data)"
    by (auto simp: addNextBlock_def split: if_splits)
  with addNextBlock_ok [OF rec(1) r] s' show r': "replaying data s'" by auto
  from addNextBlock_stored [OF s'] obtain b where b:
    "level_blocks (dataAtHeight s') = insert b (level_blocks (dataAtHeight s))"
    "block_id b = rb_id (rd_blocks data ! currentReplayBlockIndex s)"
    "dom (blockIdsToHeights s') = insert (block_id b) (dom (blockIdsToHeights s))"
    by blast
  have "distinct (map rb_id (take (Suc (currentReplayBlockIndex s)) (rd_blocks data)))"
    using rec(2) by (simp add: take_map [symmetric])
  then have "block_id b \<notin> dom (blockIdsToHeights s)"
    using r more by (simp add: replaying_def b(2) take_Suc_conv_app_nth)
  then have "block_id b \<notin> block_id ` level_blocks (dataAtHeight s)"
    using o by (auto simp: replay_ok_def)
  moreover have "replay_inv s'" using r' by (simp add: replaying_def)
  ultimately show "replay_ok s'"
    using o b(1,3) unfolding replay_ok_def by (simp add: inj_on_insert) blast
qed

lemma replay_fields_replay_ok: "replay_ok replay_fields" "replay_ok (reset s)"
  using replay_fields_ok [of undefined] reset_ok [of undefined s]
  by (auto simp: replay_ok_def replaying_def level_blocks_def replay_fields_def reset_def blocks_at_def)

lemma replay_tick_replay_ok:
  assumes "parents_first {} (rd_blocks data)" and "distinct (map rb_id (rd_blocks data))"
    and "replaying data s" and "replay_ok s" and "replay_tick data s = Inr s'"
  shows "replaying data s' \<and> replay_ok s'"
proof (cases "currentReplayBlockIndex s < length (rd_blocks data)")
  case True
  with assms(3-5) next_block_ok [OF assms(1,2), of s s'] show ?thesis by (simp add: replay_tick_def)
next
  case False
  with assms(5) next_block_ok [OF assms(1,2) reset_ok replay_fields_replay_ok(2), of s s'] show ?thesis
    by (simp add: replay_tick_def)
qed

lemma replay_ticks_replay_ok:
  assumes "parents_first {} (rd_blocks data)" and "distinct (map rb_id (rd_blocks data))"
    and "replaying data s" and "replay_ok s" and "replay_ticks data n s = Inr s'"
  shows "replay_ok s'"
  using assms(3-5)
proof (induction n arbitrary: s)
  case 0
  then show ?case by simp
next
  case (Suc n)
  from Suc.prems(3) obtain s1 where "replay_tick data s = Inr s1" "replay_ticks data n s1 = Inr s'"
    by (auto simp: and_then_eq_Inr)
  with Suc.IH replay_tick_replay_ok [OF assms(1,2) Suc.prems(1,2)] show ?case by blast
qed

text \<open>
  One poll of the viewer: \<open>m\<close> further timer ticks of the source, then a query for a range of
  heights whose answer is drawn. An exception of the timer, of the query or of the drawing ends the
  session.
\<close>

definition poll_replay ::
  "(real \<Rightarrow> real) \<Rightarrow> View \<Rightarrow> ReplayData \<Rightarrow> nat \<times> int \<times> int \<Rightarrow> ReplayDataSource \<times> Timeline \<Rightarrow>
   (ReplayDataSource \<times> Timeline) outcome" where
  "poll_replay fl v data p st =
     (case (p, st) of ((m, a, e), (s, t)) \<Rightarrow>
        and_then (replay_ticks data m s) (\<lambda>s.
        and_then (replay_window s (Some a) (Some e)) (\<lambda>d.
        and_then (setBlocksAndEdgesAndHeightGroups fl v d None t) (\<lambda>t'. Inr (s, t')))))"

definition replay_session ::
  "(real \<Rightarrow> real) \<Rightarrow> View \<Rightarrow> ReplayData \<Rightarrow> (nat \<times> int \<times> int) list \<Rightarrow> (ReplayDataSource \<times> Timeline) outcome" where
  "replay_session fl v data polls =
     and_then (new_replay data) (\<lambda>s. fold_outcome (poll_replay fl v data) polls (s, new_timeline))"

text \<open>
  C27: A session of the viewer against a recording that is not empty, with distinct ids and parents
  before children, never throws: neither adding the first block, nor any timer tick, nor a query for a
  range that ends at height 1 or above, nor the drawing of its answer reads a missing entry, however
  many blocks arrive in between. Afterwards the source is where the number of ticks puts it in the
  recording, which starts again after its end, and the scene is consistent.
\<close>

theorem replay_session_safe:
  assumes "parents_first {} (rd_blocks data)" and "distinct (map rb_id (rd_blocks data))"
    and "rd_blocks data \<noteq> []" and "\<forall>(m, a, e) \<in> set polls. 1 \<le> e"
  shows "case replay_session fl v data polls of
      Inl f \<Rightarrow> False
    | Inr (s, t) \<Rightarrow>
        currentReplayBlockIndex s = sum_list (map fst polls) mod length (rd_blocks data) + 1 \<and> scene_ok t"
proof -
  obtain s0 where s0: "new_replay data = Inr s0" "replaying data s0" "currentReplayBlockIndex s0 = 1"
    using new_replay_ok [OF assms(1,3)] by blast
  then have ok0: "replay_ok s0"
    using next_block_ok(2) [OF assms(1,2) replay_fields_ok replay_fields_replay_ok(1)] by (simp add: new_replay_def)
  let ?I = "\<lambda>ps r. replaying data (fst r) \<and> replay_ok (fst r) \<and>
    currentReplayBlockIndex (fst r) = sum_list (map fst ps) mod length (rd_blocks data) + 1 \<and> scene_ok (snd r)"
  have "\<exists>r. fold_outcome (poll_replay fl v data) polls (s0, new_timeline) = Inr r \<and> ?I polls r"
  proof (rule fold_outcome_rule [where I = ?I])
    show "?I [] (s0, new_timeline)" using s0 ok0 by (simp add: scene_ok_new)
  next
    fix ps p rest r
    assume ps: "polls = ps @ p # rest" and r: "?I ps r"
    obtain m a e where p: "p = (m, a, e)" by (cases p)
    obtain s t where st: "r = (s, t)" by (cases r)
    obtain s1 where s1: "replay_ticks data m s = Inr s1" "replaying data s1"
      "currentReplayBlockIndex s1 = (sum_list (map fst ps) + m) mod length (rd_blocks data) + 1"
      using replay_ticks_index [OF assms(1,3)] r st by (metis fst_conv)
    have o: "replay_ok s1" using replay_ticks_replay_ok [OF assms(1,2) _ _ s1(1)] r st by simp
    from ps p assms(4) have "1 \<le> e" by auto
    from drawn_replay.drawn [OF o this, of t a fl v] r st
    obtain d t' where "replay_window s1 (Some a) (Some e) = Inr d"
      "setBlocksAndEdgesAndHeightGroups fl v d None t = Inr t'" "scene_ok t'" by auto
    with st p s1 o show "\<exists>r'. poll_replay fl v data p r = Inr r' \<and> ?I (ps @ [p]) r'"
      by (simp add: poll_replay_def)
  qed
  then show ?thesis using s0(1) by (auto simp: replay_session_def)
qed

theorem replay_session_safe_witness:
  "\<exists>s t. replay_session (\<lambda>x. x) demo_view demo_replay [(0, 0, 5), (2, 0, 1), (3, 1, 9)] = Inr (s, t) \<and>
     currentReplayBlockIndex s = 2 \<and> scene_ok t"
proof -
  have "distinct (map rb_id (rd_blocks demo_replay))"
    by (simp add: demo_replay_def demo_block_def)
  moreover have "\<forall>(m, a, e) \<in> set [(0 :: nat, 0 :: int, 5 :: int), (2, 0, 1), (3, 1, 9)]. 1 \<le> e" by simp
  ultimately show ?thesis
    using replay_session_safe [OF demo_replay_ok(1) _ demo_replay_ok(2), of "[(0, 0, 5), (2, 0, 1), (3, 1, 9)]" "\<lambda>x. x" demo_view]
    by (auto simp: demo_replay_def split: sum.splits)
qed

section \<open>Places\<close>

text \<open>
  The ranks of the blocks of one height are spread evenly and symmetrically around the middle
  line: they are the numbers from \<open>- (n - 1)\<close> to \<open>n - 1\<close> in steps of two, each taken once; and
  when a block joins the group every other block moves by one rank in the same direction, so their
  order on the screen is kept.
\<close>

theorem centered_ranks:
  assumes "2 \<le> n"
  shows "bij_betw (\<lambda>i. if i = 0 \<and> odd n then 0 else centeredIndex i n) {0..<n}
      {k. \<bar>k\<bar> \<le> n - 1 \<and> even (k - (n - 1))} \<and>
    (\<forall>i \<in> {0..<n}. (if i = 0 \<and> odd (n + 1) then 0 else centeredIndex i (n + 1)) =
       (if i = 0 \<and> odd n then 0 else centeredIndex i n) + (if even n then - 1 else 1))"
proof -
  define r where "r = block_rank"
  note even = block_rank_even [folded r_def] and odd = block_rank_odd [folded r_def]
  have "bij_betw (r n) {0..<n} {k. \<bar>k\<bar> \<le> n - 1 \<and> even (k - (n - 1))}"
  proof (rule bij_betw_byWitness [where f' = "\<lambda>k. if even n then (if k > 0 then k - 1 else - k)
        else (if k \<ge> 0 then k else - k - 1)"])
    show "\<forall>i \<in> {0..<n}. (if even n then (if r n i > 0 then r n i - 1 else - r n i)
        else (if r n i \<ge> 0 then r n i else - r n i - 1)) = i"
    proof
      fix i assume "i \<in> {0..<n}"
      then show "(if even n then (if r n i > 0 then r n i - 1 else - r n i)
          else (if r n i \<ge> 0 then r n i else - r n i - 1)) = i"
        by (cases "even n"; cases "even i") (auto simp: even odd)
    qed
    show "\<forall>k \<in> {k. \<bar>k\<bar> \<le> n - 1 \<and> even (k - (n - 1))}.
        r n (if even n then (if k > 0 then k - 1 else - k) else (if k \<ge> 0 then k else - k - 1)) = k"
    proof
      fix k assume k: "k \<in> {k. \<bar>k\<bar> \<le> n - 1 \<and> even (k - (n - 1))}"
      show "r n (if even n then (if k > 0 then k - 1 else - k) else (if k \<ge> 0 then k else - k - 1)) = k"
      proof (cases "even n")
        case True
        with k have "odd k" by simp
        with k True show ?thesis by (cases "k > 0") (auto simp: even)
      next
        case False
        with k have "even k" by simp
        with k False show ?thesis by (cases "k \<ge> 0") (auto simp: odd)
      qed
    qed
    show "r n ` {0..<n} \<subseteq> {k. \<bar>k\<bar> \<le> n - 1 \<and> even (k - (n - 1))}"
    proof (rule image_subsetI)
      fix i assume "i \<in> {0..<n}"
      then show "r n i \<in> {k. \<bar>k\<bar> \<le> n - 1 \<and> even (k - (n - 1))}"
        by (cases "even n"; cases "even i"; cases "i = n - 1") (auto simp: even odd)
    qed
    show "(\<lambda>k. if even n then (if k > 0 then k - 1 else - k) else (if k \<ge> 0 then k else - k - 1)) `
        {k. \<bar>k\<bar> \<le> n - 1 \<and> even (k - (n - 1))} \<subseteq> {0..<n}"
      by (cases "even n") auto
  qed
  moreover have "r (n + 1) i = r n i + (if even n then - 1 else 1)" if "i \<in> {0..<n}" for i
    using that by (cases "even n") (auto simp: even odd)
  moreover have "r n = (\<lambda>i. if i = 0 \<and> odd n then 0 else centeredIndex i n)"
    by (simp add: r_def block_rank_def fun_eq_iff)
  ultimately show ?thesis by (simp add: r_def block_rank_def)
qed

theorem centered_ranks_witness:
  "map (\<lambda>i. centeredIndex i 4) [0, 1, 2, 3] = [1, - 1, 3, - 3] \<and>
   bij_betw (\<lambda>i. if i = 0 \<and> odd (4 :: int) then 0 else centeredIndex i 4) {0..<4}
     {k. \<bar>k\<bar> \<le> 4 - 1 \<and> even (k - (4 - 1))}"
  using centered_ranks [of 4] by (simp add: centeredIndex_even)

text \<open>
  In exact arithmetic, as long as the blocks of a height fit on the screen at their size, all
  of them are shown: the squares of two blocks of one height never overlap and none leaves the
  screen.
\<close>

theorem height_fits_screen:
  fixes v :: View and n i j :: int and blockSize :: real
  assumes "0 < blockSize" and "blockSize * of_int n \<le> screen_height v"
    and "0 \<le> i" and "i < n" and "0 \<le> j" and "j < n" and "i \<noteq> j"
  shows "blockSize \<le>
      \<bar>calculateBlockSpriteY (\<lambda>x. x) v i n blockSize - calculateBlockSpriteY (\<lambda>x. x) v j n blockSize\<bar> \<and>
    \<bar>calculateBlockSpriteY (\<lambda>x. x) v i n blockSize\<bar> + blockSize / 2 \<le> screen_height v / 2"
proof -
  let ?m = "calculateMarginY (\<lambda>x. x) v blockSize n"
  let ?r = "\<lambda>i. real_of_int (block_rank n i)"
  have n: "0 < n" "0 \<le> n" "n \<noteq> 1" using assms(3-) by auto
  note m = marginY_fits [OF assms(1) n(1) assms(2)]
  note Y = blockSpriteY_rank [OF n(2,3), of v _ blockSize]
  have "2 \<le> \<bar>?r i - ?r j\<bar>" using block_rank_gap [OF assms(3-7)] by linarith
  then have "2 * (blockSize + ?m) \<le> \<bar>?r i - ?r j\<bar> * (blockSize + ?m)"
    using assms(1) m(1) by (intro mult_right_mono) auto
  also have "\<dots> = \<bar>(?r i - ?r j) * (blockSize + ?m)\<bar>" using assms(1) m(1) by (simp add: abs_mult)
  finally have gap: "blockSize + ?m \<le> \<bar>?r i * (blockSize + ?m) / 2 - ?r j * (blockSize + ?m) / 2\<bar>"
    by (simp add: left_diff_distrib diff_divide_distrib [symmetric])
  have "\<bar>?r i\<bar> \<le> of_int n - 1" using block_rank_bound [OF assms(3,4)] by linarith
  then have "\<bar>?r i\<bar> * (blockSize + ?m) \<le> (of_int n - 1) * (blockSize + ?m)"
    using assms(1) m(1) by (intro mult_right_mono) auto
  moreover have "\<bar>?r i * (blockSize + ?m)\<bar> = \<bar>?r i\<bar> * (blockSize + ?m)"
    using assms(1) m(1) by (simp add: abs_mult)
  ultimately have "\<bar>?r i * (blockSize + ?m)\<bar> + (blockSize + ?m) \<le> (blockSize + ?m) * of_int n"
    by (simp add: left_diff_distrib mult.commute)
  with m have "\<bar>?r i * (blockSize + ?m) / 2\<bar> + blockSize / 2 \<le> screen_height v / 2" by simp
  with gap m(1) show ?thesis unfolding Y by simp
qed

theorem height_fits_screen_witness:
  "\<bar>calculateBlockSpriteY (\<lambda>x. x) demo_view 3 8 (calculateBlockSize (\<lambda>x. x) demo_view)\<bar> + 40 \<le> (480 :: real)"
proof -
  have "calculateBlockSize (\<lambda>x. x) demo_view = 80"
    by (simp add: calculateBlockSize_def demo_view_def maxBlocksPerHeight_def math_floor_def)
  with height_fits_screen [of 80 8 demo_view 3 4] show ?thesis by (simp add: demo_view_def)
qed

end
