(* ===== verification/KgiDagClaims.thy ===== *)
theory KgiDagClaims
  imports KgiDag KgiSceneClaims
begin

text \<open>
  The properties of the viewer's controller: the loop of ticks keeps one timer, late answers do not
  disturb the scene, the address bar determines what is followed, the scale stays on its grid, and
  what the information panel shows.
\<close>

section \<open>The loop of ticks\<close>

inductive reachable_loop :: "TickLoop \<Rightarrow> bool" where
  start: "reachable_loop (run loop_start)"
| step: "reachable_loop l \<Longrightarrow> loop_step l l' \<Longrightarrow> reachable_loop l'"

definition one_timer :: "TickLoop \<Rightarrow> bool" where
  "one_timer l \<longleftrightarrow>
     (pendingTimers l = [] \<or> pendingTimers l = [currentTickId l] \<and> currentTickId l \<notin> set (inFlight l)) \<and>
     (\<forall>c \<in> set (inFlight l). c \<le> currentTickId l)"

definition alive :: "TickLoop \<Rightarrow> bool" where
  "alive l \<longleftrightarrow> pendingTimers l \<noteq> [] \<or> currentTickId l \<in> set (inFlight l)"

inductive_cases loop_step_elim: "loop_step l l'"

lemma begin_tick_fields [simp]:
  "currentTickId (begin_tick l) = currentTickId l" "pendingTimers (begin_tick l) = pendingTimers l"
  "inFlight (begin_tick l) = inFlight l @ [currentTickId l]"
  by (simp_all add: begin_tick_def)

lemma run_fields [simp]:
  "currentTickId (run l) = currentTickId l"
  "pendingTimers (run l) = remove1 (currentTickId l) (pendingTimers l)"
  "inFlight (run l) = inFlight l @ [currentTickId l]"
  by (simp_all add: run_def)

lemma loop_step_one_timer: "loop_step l l' \<Longrightarrow> one_timer l \<Longrightarrow> one_timer l'"
  by (erule loop_step_elim) (auto simp: one_timer_def scheduleNextTick_def, force+)

lemma loop_step_alive: "loop_step l l' \<Longrightarrow> one_timer l \<Longrightarrow> alive l \<Longrightarrow> alive l'"
  by (erule loop_step_elim) (auto simp: one_timer_def alive_def scheduleNextTick_def)

text \<open>
  C28: Whatever the user clicks and in whatever order the data source answers, the viewer never has
  two timers pending, the one pending is the newest, and as long as no tick is rejected the loop
  goes on: a timer is pending or a tick in flight will schedule one. A rejected tick is not
  rescheduled: when it was the last one the loop is dead until the user acts.
\<close>

theorem tick_loop_single:
  assumes "reachable_loop l"
  shows "one_timer l \<and> alive l \<and>
    (pendingTimers l = [] \<and> inFlight l = [currentTickId l] \<longrightarrow>
       (let l0 = reject_tick (currentTickId l) l
        in \<not> alive l0 \<and> (\<forall>l'. loop_step l0 l' \<longleftrightarrow> l' = run l0)))"
proof -
  have "one_timer l \<and> alive l"
    using assms
  proof (induction rule: reachable_loop.induct)
    case start
    show ?case by (simp add: one_timer_def alive_def loop_start_def)
  next
    case (step l l')
    with loop_step_one_timer loop_step_alive show ?case by blast
  qed
  moreover have "\<not> alive l0" "loop_step l0 l' \<longleftrightarrow> l' = run l0"
    if "pendingTimers l = []" "inFlight l = [currentTickId l]" "l0 = reject_tick (currentTickId l) l" for l0 l'
    using that by (auto simp: reject_tick_def alive_def elim!: loop_step_elim intro: loop_step.user)
  ultimately show ?thesis by (auto simp: Let_def)
qed

theorem tick_loop_single_witness:
  "let l = scheduleNextTick 7 (loop_start \<lparr>inFlight := []\<rparr>) in one_timer l \<and> alive l"
proof -
  have "loop_step (run loop_start) (scheduleNextTick 7 ((run loop_start) \<lparr>inFlight := [] @ []\<rparr>))"
    by (rule loop_step.fulfil_current) (simp_all add: loop_start_def)
  moreover have "(run loop_start) \<lparr>inFlight := [] @ []\<rparr> = loop_start \<lparr>inFlight := []\<rparr>"
    by (simp add: run_def begin_tick_def loop_start_def)
  ultimately have "reachable_loop (scheduleNextTick 7 (loop_start \<lparr>inFlight := []\<rparr>))"
    using reachable_loop.intros by metis
  from tick_loop_single [OF this] show ?thesis by (simp add: Let_def)
qed

section \<open>Late answers\<close>

lemma answered_timeline [simp]: "timeline (answered r s) = timeline s"
  by (simp add: answered_def emit_def cacheBlockHashes_def Let_def split: option.split)

lemma answered_function [simp]:
  "currentTickFunction (answered r s) = currentTickFunction s"
  "dag_targetHeight (answered r s) = dag_targetHeight s"
  "dag_targetDAAScore (answered r s) = dag_targetDAAScore s"
  "dag_targetHash (answered r s) = dag_targetHash s"
  by (simp_all add: answered_def emit_def cacheBlockHashes_def Let_def split: option.split)

text \<open>
  An answer that arrives after the user has gone elsewhere, to another mode or to another
  target of the same mode, leaves the scene alone: it only feeds the cache of hashes and the
  indicator of failing requests.
\<close>

theorem late_answers_ignored:
  assumes "case q of
      GetBlocksBetweenHeights a e \<Rightarrow> currentTickFunction s \<noteq> trackTargetHeight \<or> dag_targetHeight s \<noteq> Some h
    | GetBlockDAAScore d k \<Rightarrow> currentTickFunction s \<noteq> trackTargetDAAScore \<or> dag_targetDAAScore s \<noteq> Some d
    | GetBlockHash t k \<Rightarrow> currentTickFunction s \<noteq> trackTargetHash \<or> dag_targetHash s \<noteq> Some t
    | GetHead k \<Rightarrow> currentTickFunction s \<noteq> trackHead"
  shows "(case q of
      GetBlocksBetweenHeights a e \<Rightarrow> height_answer fl screen h r s
    | GetBlockDAAScore d k \<Rightarrow> score_answer fl screen d r s
    | GetBlockHash t k \<Rightarrow> and_then (hash_answer fl screen t found r s) (\<lambda>(s', _). Inr s')
    | GetHead k \<Rightarrow> head_answer fl screen k r s) = Inr (answered r s)"
  using assms
  by (cases q; cases r)
    (auto simp: height_answer_def score_answer_def hash_answer_def head_answer_def Let_def)

theorem late_answers_ignored_witness:
  "height_answer (\<lambda>x. x) (1200, 960) 5 (Some demo_chain) (resolveTickFunction (new_dag ''1'' [(''height'', ''6'')])) =
     Inr (answered (Some demo_chain) (resolveTickFunction (new_dag ''1'' [(''height'', ''6'')])))"
proof -
  let ?s = "resolveTickFunction (new_dag ''1'' [(''height'', ''6'')])"
  have "dag_targetHeight ?s = Some 6" by code_simp
  then show ?thesis
    using late_answers_ignored [where q = "GetBlocksBetweenHeights 0 20" and s = ?s and h = 5
        and fl = "\<lambda>x. x" and screen = "(1200, 960)" and r = "Some demo_chain"]
    by simp
qed

section \<open>The address bar\<close>

lemma map_of_param_delete: "map_of (param_delete k ps) k' = (if k' = k then None else map_of ps k')"
  by (induction ps) (auto simp: param_delete_def)

lemma map_of_param_set: "map_of (param_set k v ps) k' = (if k' = k then Some v else map_of ps k')"
  by (induction k v ps rule: param_set.induct) (auto simp: map_of_param_delete)

lemma param_get_initial:
  "param_get (initializeUrlSearchParams s) k =
     (if k = ''hash'' \<or> k = ''height'' \<or> k = ''daascore'' then None else param_get (urlParams s) k)"
  by (simp add: param_get_def initializeUrlSearchParams_def map_of_param_delete)

lemma param_get_set: "param_get (param_set k v ps) k' = (if k' = k then Some v else param_get ps k')"
  by (simp add: param_get_def map_of_param_set)

lemma decimal_not_Nil [simp]: "decimal i \<noteq> []"
  by (simp add: int_text_def)

text \<open>
  What a click writes to the address bar is what the next tick follows: the height, the DAA
  score or the hash in lower case, and the head of the DAG when all three are removed; the other
  parameters of the address stay as they were.
\<close>

theorem address_roundtrip:
  "(let s' = resolveTickFunction (setStateTrackTargetHeight h s)
    in currentTickFunction s' = trackTargetHeight \<and> dag_targetHeight s' = Some h) \<and>
   (let s' = resolveTickFunction (setStateTrackTargetDAAScore d s)
    in currentTickFunction s' = trackTargetDAAScore \<and> dag_targetDAAScore s' = Some d) \<and>
   (let s' = resolveTickFunction (setStateTrackTargetHash (c # t) s)
    in currentTickFunction s' = trackTargetHash \<and> dag_targetHash s' = Some (to_lower (c # t))) \<and>
   currentTickFunction (resolveTickFunction (setStateTrackHead s)) = trackHead \<and>
   list_all (\<lambda>s'. \<forall>k. k = ''hash'' \<or> k = ''height'' \<or> k = ''daascore'' \<or>
        param_get (urlParams s') k = param_get (urlParams s) k)
     [setStateTrackTargetHeight h s, setStateTrackTargetDAAScore d s,
      setStateTrackTargetHash (c # t) s, setStateTrackHead s]"
  by (simp add: resolveTickFunction_def int_param_def setStateTrackTargetHeight_def
      setStateTrackTargetDAAScore_def setStateTrackTargetHash_def setStateTrackHead_def param_get_set
      param_get_initial parseInt_decimal Let_def)

section \<open>The scale\<close>

text \<open>
  A double operation is off by at most half a unit in the last place; \<open>accurate\<close> states it away
  from underflow and overflow.
\<close>

definition accurate :: "(real \<Rightarrow> real) \<Rightarrow> bool" where
  "accurate fl \<longleftrightarrow> (\<forall>x. 1 / 1000 \<le> \<bar>x\<bar> \<and> \<bar>x\<bar> \<le> 1000 \<longrightarrow> \<bar>fl x - x\<bar> \<le> \<bar>x\<bar> / 2 ^ 53)"

lemma accurate_close:
  assumes "accurate fl" and "1 / 1000 \<le> \<bar>x\<bar>" and "\<bar>x\<bar> \<le> 1000"
  shows "\<bar>fl x - x\<bar> \<le> 1 / 1000000"
proof -
  have "\<bar>fl x - x\<bar> \<le> \<bar>x\<bar> / 2 ^ 53" using assms by (simp add: accurate_def)
  also have "\<dots> \<le> 1000 / 2 ^ 53" using assms(3) by (intro divide_right_mono) auto
  finally show ?thesis by simp
qed

definition near :: "real \<Rightarrow> real \<Rightarrow> real \<Rightarrow> bool" where
  "near e x z \<longleftrightarrow> x - e \<le> z \<and> z \<le> x + e"

lemma near_abs: "\<bar>z - x\<bar> \<le> e \<longleftrightarrow> near e x z"
  by (auto simp: near_def abs_le_iff)

lemma near_clamp:
  "near e lo lo' \<Longrightarrow> near e hi hi' \<Longrightarrow> near e x x' \<Longrightarrow> near e (max lo (min x hi)) (max lo' (min x' hi'))"
  by (auto simp: near_def max_def min_def)

lemma near_mono: "near e x z \<Longrightarrow> e \<le> e' \<Longrightarrow> near e' x z"
  by (auto simp: near_def)

lemma near_difference:
  "near e (a - b) z \<Longrightarrow> near e x a \<Longrightarrow> near e y b \<Longrightarrow> near (3 * e) (x - y) z"
  by (auto simp: near_def)

lemma near_sum:
  "near e (a + b) z \<Longrightarrow> near e x a \<Longrightarrow> near e y b \<Longrightarrow> near (3 * e) (x + y) z"
  by (auto simp: near_def)

lemma bounded_scale_near:
  assumes fl: "accurate fl" and k: "2 \<le> k" "k \<le> 12" and c: "\<bar>max (fl (2 / 10)) (min x (fl (12 / 10))) - of_int k / 10\<bar> \<le> 1 / 100"
  shows "bounded_scale fl x = fl (of_int k / 10)"
proof -
  let ?c = "max (fl (2 / 10)) (min x (fl (12 / 10)))"
  have k': "2 \<le> real_of_int k" "real_of_int k \<le> 12" using k by simp_all
  have "\<bar>fl (?c * 10) - ?c * 10\<bar> \<le> 1 / 1000000"
  proof (rule accurate_close [OF fl])
    show "1 / 1000 \<le> \<bar>?c * 10\<bar>" "\<bar>?c * 10\<bar> \<le> 1000" using c k' by linarith+
  qed
  with c have "of_int k - 1 / 2 \<le> fl (?c * 10)" "fl (?c * 10) < of_int k + 1 / 2" by linarith+
  then have "\<lfloor>fl (?c * 10) + 1 / 2\<rfloor> = k" by (simp add: floor_eq_iff)
  then show ?thesis by (simp add: bounded_scale_def math_round_def)
qed

text \<open>
  The scale always is one of the eleven steps from 0.2 to 1.2, whatever is asked for, and a
  step of zooming in or out moves to the neighbouring one and stays at the ends, for every rounding
  as accurate as that of doubles.
\<close>

theorem scale_on_grid:
  assumes "accurate fl"
  shows "(\<exists>k \<in> {2..12 :: int}. bounded_scale fl x = fl (of_int k / 10)) \<and>
    (\<forall>k \<in> {2..12 :: int}.
       bounded_scale fl (fl (fl (of_int k / 10) - fl (1 / 10))) = fl (of_int (max 2 (k - 1)) / 10) \<and>
       bounded_scale fl (fl (fl (of_int k / 10) + fl (1 / 10))) = fl (of_int (min 12 (k + 1)) / 10))"
proof -
  have ends: "\<bar>fl (2 / 10) - 2 / 10\<bar> \<le> 1 / 1000000" "\<bar>fl (12 / 10) - 12 / 10\<bar> \<le> 1 / 1000000"
    by (rule accurate_close [OF assms]; simp)+
  have "\<exists>k \<in> {2..12 :: int}. bounded_scale fl x = fl (of_int k / 10)"
  proof -
    let ?c = "max (fl (2 / 10)) (min x (fl (12 / 10)))"
    let ?k = "\<lfloor>fl (?c * 10) + 1 / 2\<rfloor>"
    have c: "2 / 10 - 1 / 1000000 \<le> ?c" "?c \<le> 12 / 10 + 1 / 1000000"
      using ends by linarith+
    have "\<bar>fl (?c * 10) - ?c * 10\<bar> \<le> 1 / 1000000"
    proof (rule accurate_close [OF assms])
      show "1 / 1000 \<le> \<bar>?c * 10\<bar>" "\<bar>?c * 10\<bar> \<le> 1000" using c by linarith+
    qed
    with c have "2 - 1 / 10000 \<le> fl (?c * 10)" "fl (?c * 10) \<le> 12 + 1 / 10000" by linarith+
    then have "?k \<in> {2..12}" by (auto simp: le_floor_iff floor_le_iff)
    then show ?thesis by (intro bexI [of _ ?k]) (simp_all add: bounded_scale_def math_round_def)
  qed
  moreover have "bounded_scale fl (fl (fl (of_int k / 10) - fl (1 / 10))) = fl (of_int (max 2 (k - 1)) / 10) \<and>
      bounded_scale fl (fl (fl (of_int k / 10) + fl (1 / 10))) = fl (of_int (min 12 (k + 1)) / 10)"
    if k: "k \<in> {2..12}" for k :: int
  proof -
    have k': "2 \<le> real_of_int k" "real_of_int k \<le> 12" using k by simp_all
    have a: "\<bar>fl (of_int k / 10) - of_int k / 10\<bar> \<le> 1 / 1000000"
      using k' by (intro accurate_close [OF assms]) linarith+
    have b: "\<bar>fl (1 / 10) - 1 / 10\<bar> \<le> 1 / 1000000"
      by (rule accurate_close [OF assms]) simp_all
    let ?d = "fl (of_int k / 10) - fl (1 / 10)" and ?u = "fl (of_int k / 10) + fl (1 / 10)"
    have "\<bar>fl ?d - ?d\<bar> \<le> 1 / 1000000" "\<bar>fl ?u - ?u\<bar> \<le> 1 / 1000000"
      using a b k' by (intro accurate_close [OF assms]; linarith)+
    then have d: "near (1 / 1000) ((of_int k - 1) / 10) (fl ?d)" "near (1 / 1000) ((of_int k + 1) / 10) (fl ?u)"
      using near_mono [OF near_difference [OF _ a [unfolded near_abs] b [unfolded near_abs]], of "fl ?d" "1 / 1000"]
        near_mono [OF near_sum [OF _ a [unfolded near_abs] b [unfolded near_abs]], of "fl ?u" "1 / 1000"]
      unfolding near_abs diff_divide_distrib add_divide_distrib by simp_all
    have e: "near (1 / 1000) (2 / 10) (fl (2 / 10))" "near (1 / 1000) (12 / 10) (fl (12 / 10))"
      using near_mono [OF ends(1) [unfolded near_abs]] near_mono [OF ends(2) [unfolded near_abs]]
      by simp_all
    note c = near_clamp [OF e d(1)] near_clamp [OF e d(2)]
    have "bounded_scale fl (fl ?d) = fl (of_int (max 2 (k - 1)) / 10)"
    proof (rule bounded_scale_near [OF assms])
      show "2 \<le> max 2 (k - 1)" "max 2 (k - 1) \<le> 12" using k by auto
      have eq: "max (2 / 10) (min ((real_of_int k - 1) / 10) (12 / 10)) = of_int (max 2 (k - 1)) / 10"
        using k' by (auto simp: max_def min_def)
      from near_mono [OF c(1) [unfolded eq], of "1 / 100"] show "\<bar>max (fl (2 / 10)) (min (fl ?d) (fl (12 / 10))) - of_int (max 2 (k - 1)) / 10\<bar> \<le> 1 / 100"
        unfolding near_abs by simp
    qed
    moreover have "bounded_scale fl (fl ?u) = fl (of_int (min 12 (k + 1)) / 10)"
    proof (rule bounded_scale_near [OF assms])
      show "2 \<le> min 12 (k + 1)" "min 12 (k + 1) \<le> 12" using k by auto
      have eq: "max (2 / 10) (min ((real_of_int k + 1) / 10) (12 / 10)) = of_int (min 12 (k + 1)) / 10"
        using k' by (auto simp: max_def min_def)
      from near_mono [OF c(2) [unfolded eq], of "1 / 100"] show "\<bar>max (fl (2 / 10)) (min (fl ?u) (fl (12 / 10))) - of_int (min 12 (k + 1)) / 10\<bar> \<le> 1 / 100"
        unfolding near_abs by simp
    qed
    ultimately show ?thesis by blast
  qed
  ultimately show ?thesis by blast
qed

theorem scale_on_grid_witness:
  "bounded_scale (\<lambda>x. x) (4 / 10 + 1 / 10) = 5 / 10 \<and> bounded_scale (\<lambda>x. x) (12 / 10 + 1 / 10) = 12 / 10"
proof -
  have "accurate (\<lambda>x. x)" by (simp add: accurate_def)
  from scale_on_grid [OF this] have
    "\<forall>k \<in> {2..12 :: int}. bounded_scale (\<lambda>x. x) (of_int k / 10 + 1 / 10) = of_int (min 12 (k + 1)) / 10"
    by blast
  from bspec [OF this, of 4] bspec [OF this, of 12] show ?thesis by simp
qed

section \<open>The information panel\<close>

lemma cached_hashes:
  "getCachedBlockHashes m ids (found, missing) =
     (found @ map m (filter (\<lambda>i. m i \<noteq> None \<and> m i \<noteq> Some []) ids),
      missing @ filter (\<lambda>i. \<not> (m i \<noteq> None \<and> m i \<noteq> Some [])) ids)"
  by (induction ids arbitrary: found missing) (auto split: option.split)

definition in_ids :: "BlockHashById \<Rightarrow> int list \<Rightarrow> bool" where
  "in_ids x ids \<longleftrightarrow> (\<exists>i \<in> set ids. hash_id x = Some i)"

lemma spread_one:
  "info_block (spread_hash ms x info) = info_block info"
  "parentHashes (spread_hash ms x info) =
     parentHashes info @ (if in_ids x (notFoundParentIds ms) then [hash_text x] else [])"
  "childHashes (spread_hash ms x info) =
     childHashes info @ (if in_ids x (notFoundChildIds ms) then [hash_text x] else [])"
  "mergeSetRedHashes (spread_hash ms x info) = mergeSetRedHashes info"
  "mergeSetBlueHashes (spread_hash ms x info) = mergeSetBlueHashes info @
     (if in_ids x (notFoundMergeSetRedIds ms) then [hash_text x] else []) @
     (if in_ids x (notFoundMergeSetBlueIds ms) then [hash_text x] else [])"
  by (simp_all add: spread_hash_def Let_def in_ids_def [symmetric])

lemma spread_hashes:
  "parentHashes (fold (spread_hash ms) xs info) =
     parentHashes info @ map hash_text (filter (\<lambda>x. in_ids x (notFoundParentIds ms)) xs)"
  "childHashes (fold (spread_hash ms) xs info) =
     childHashes info @ map hash_text (filter (\<lambda>x. in_ids x (notFoundChildIds ms)) xs)"
  "mergeSetRedHashes (fold (spread_hash ms) xs info) = mergeSetRedHashes info"
  by (induction xs arbitrary: info) (simp_all add: spread_one)

lemma spread_blue_hashes:
  "set (mergeSetBlueHashes (fold (spread_hash ms) xs info)) = set (mergeSetBlueHashes info) \<union>
     hash_text ` {x \<in> set xs. in_ids x (notFoundMergeSetBlueIds ms) \<or> in_ids x (notFoundMergeSetRedIds ms)}"
proof (induction xs arbitrary: info)
  case Nil
  then show ?case by simp
next
  case (Cons x xs)
  show ?case unfolding fold_simps Cons.IH o_apply by (auto simp: spread_one)
qed

text \<open>An answer that has the hash of every id that was asked for.\<close>

definition full_answer :: "(int \<Rightarrow> string) \<Rightarrow> int list \<Rightarrow> BlockHashById list \<Rightarrow> bool" where
  "full_answer H ids xs \<longleftrightarrow>
     (\<forall>x \<in> set xs. \<exists>i. x = \<lparr>hash_id = Some i, hash_text = Some (H i)\<rparr>) \<and>
     (\<forall>i \<in> set ids. \<exists>x \<in> set xs. hash_id x = Some i)"

lemma full_answer_texts:
  assumes "full_answer H ids xs" and "set js \<subseteq> set ids"
  shows "hash_text ` {x \<in> set xs. in_ids x js} = Some ` H ` set js"
proof
  show "hash_text ` {x \<in> set xs. in_ids x js} \<subseteq> Some ` H ` set js"
    using assms(1) by (fastforce simp: full_answer_def in_ids_def)
next
  show "Some ` H ` set js \<subseteq> hash_text ` {x \<in> set xs. in_ids x js}"
  proof (rule subsetI)
    fix t assume "t \<in> Some ` H ` set js"
    then obtain i where i: "i \<in> set js" "t = Some (H i)" by auto
    with assms(2) have "i \<in> set ids" by blast
    with assms(1) obtain x where x: "x \<in> set xs" "hash_id x = Some i" by (auto simp: full_answer_def)
    with assms(1) have "hash_text x = Some (H i)" by (force simp: full_answer_def)
    with x i show "t \<in> hash_text ` {x \<in> set xs. in_ids x js}"
      by (intro image_eqI [of _ _ x]) (auto simp: in_ids_def)
  qed
qed

definition known_hash :: "Dag \<Rightarrow> int \<Rightarrow> bool" where
  "known_hash s i \<longleftrightarrow> blockHashesByIds s i \<noteq> None \<and> blockHashesByIds s i \<noteq> Some []"

lemma cached_hashes_set:
  assumes "\<forall>i h. blockHashesByIds s i = Some h \<longrightarrow> h = H i"
  shows "set (map (blockHashesByIds s) (filter (known_hash s) ids)) = Some ` H ` {i \<in> set ids. known_hash s i}"
  using assms by (force simp: known_hash_def image_iff)

lemma information_fields:
  assumes "information_from_cache s b = (info, ms)"
  defines "childIds \<equiv> fst (getBlockChildIds (currentBundle (timeline s)) b)"
  shows "parentHashes info = map (blockHashesByIds s) (filter (known_hash s) (parentIds b))"
    and "mergeSetRedHashes info = map (blockHashesByIds s) (filter (known_hash s) (mergeSetRedIds b))"
    and "mergeSetBlueHashes info = map (blockHashesByIds s) (filter (known_hash s) (mergeSetBlueIds b))"
    and "childHashes info = map (blockHashesByIds s) (filter (known_hash s) childIds)"
    and "notFoundParentIds ms = filter (\<lambda>i. \<not> known_hash s i) (parentIds b)"
    and "notFoundMergeSetRedIds ms = filter (\<lambda>i. \<not> known_hash s i) (mergeSetRedIds b)"
    and "notFoundMergeSetBlueIds ms = filter (\<lambda>i. \<not> known_hash s i) (mergeSetBlueIds b)"
    and "notFoundChildIds ms = filter (\<lambda>i. \<not> known_hash s i) childIds"
    and "set (notFoundParentIds ms) \<union> set (notFoundMergeSetRedIds ms) \<union>
         set (notFoundMergeSetBlueIds ms) \<union> set (notFoundChildIds ms) \<subseteq> set (notFoundIds ms)"
  using assms(1)
  by (auto simp: information_from_cache_def Let_def cached_hashes known_hash_def [abs_def] childIds_def
      split: prod.splits)

text \<open>
  Once the data source has answered for all missing ids, the panel shows the hashes of all
  parents, all children and all blue blocks of the merge set; but the red blocks that were not in
  the cache are listed among the blue ones: the red list keeps only what the cache had.
\<close>

theorem panel_hashes:
  assumes "\<forall>i h. blockHashesByIds s i = Some h \<longrightarrow> h = H i"
    and "full_answer H (notFoundIds (snd (information_from_cache s b))) xs"
  shows "let info = snd (information_answer (information_from_cache s b) (Some xs) s)
    in set (parentHashes info) = Some ` H ` set (parentIds b) \<and>
       set (childHashes info) = Some ` H ` set (fst (getBlockChildIds (currentBundle (timeline s)) b)) \<and>
       set (mergeSetBlueHashes info) =
         Some ` H ` (set (mergeSetBlueIds b) \<union> {i \<in> set (mergeSetRedIds b). \<not> known_hash s i}) \<and>
       set (mergeSetRedHashes info) = Some ` H ` {i \<in> set (mergeSetRedIds b). known_hash s i}"
proof -
  obtain info ms where p: "information_from_cache s b = (info, ms)" by force
  note f = information_fields [OF p]
  note c = cached_hashes_set [OF assms(1)]
  have texts: "hash_text ` {x \<in> set xs. in_ids x js} = Some ` H ` set js" if "set js \<subseteq> set (notFoundIds ms)" for js
    using full_answer_texts [OF _ that] assms(2) by (simp add: p)
  have both: "Some ` H ` {i \<in> A. known_hash s i} \<union> Some ` H ` {i \<in> A. \<not> known_hash s i} = Some ` H ` A" for A
    by auto
  let ?r = "fold (spread_hash ms) xs info"
  have "set (parentHashes ?r) = Some ` H ` set (parentIds b)"
    using texts [of "notFoundParentIds ms"] f(9) c [of "parentIds b"] both [of "set (parentIds b)"]
    by (simp add: spread_hashes f(1) f(5))
  moreover have "set (childHashes ?r) = Some ` H ` set (fst (getBlockChildIds (currentBundle (timeline s)) b))"
    using texts [of "notFoundChildIds ms"] f(9) c both
    by (simp add: spread_hashes f(4) f(8))
  moreover have "set (mergeSetBlueHashes ?r) =
      Some ` H ` (set (mergeSetBlueIds b) \<union> {i \<in> set (mergeSetRedIds b). \<not> known_hash s i})"
  proof -
    have "hash_text ` {x \<in> set xs. in_ids x (notFoundMergeSetBlueIds ms) \<or> in_ids x (notFoundMergeSetRedIds ms)} =
        hash_text ` {x \<in> set xs. in_ids x (notFoundMergeSetBlueIds ms)} \<union>
        hash_text ` {x \<in> set xs. in_ids x (notFoundMergeSetRedIds ms)}" by blast
    also have "\<dots> = Some ` H ` {i \<in> set (mergeSetBlueIds b). \<not> known_hash s i} \<union>
        Some ` H ` {i \<in> set (mergeSetRedIds b). \<not> known_hash s i}"
      using texts [of "notFoundMergeSetBlueIds ms"] texts [of "notFoundMergeSetRedIds ms"] f(9)
      by (simp add: f(6,7))
    finally have "set (mergeSetBlueHashes ?r) = Some ` H ` {i \<in> set (mergeSetBlueIds b). known_hash s i} \<union>
        (Some ` H ` {i \<in> set (mergeSetBlueIds b). \<not> known_hash s i} \<union>
         Some ` H ` {i \<in> set (mergeSetRedIds b). \<not> known_hash s i})"
      using c [of "mergeSetBlueIds b"] by (simp only: spread_blue_hashes f(3))
    then show ?thesis
      using both [of "set (mergeSetBlueIds b)"] by (simp add: image_Un Un_assoc [symmetric])
  qed
  moreover have "set (mergeSetRedHashes ?r) = Some ` H ` {i \<in> set (mergeSetRedIds b). known_hash s i}"
    using c [of "mergeSetRedIds b"] by (simp only: spread_hashes f(2))
  ultimately show ?thesis by (simp add: p information_answer_def)
qed

definition red_block :: Block where
  "red_block = (chain_block 1000 5) \<lparr>mergeSetRedIds := [2, 3], mergeSetBlueIds := [4]\<rparr>"

theorem panel_hashes_witness:
  "let s = cacheBlockHashes [chain_block 1000 2, chain_block 1000 4] (new_dag ''1'' []);
       info = snd (information_answer (information_from_cache s red_block)
         (Some [\<lparr>hash_id = Some 3, hash_text = Some (repeated_id 3)\<rparr>]) s)
   in set (mergeSetRedHashes info) = Some ` repeated_id ` {2} \<and>
      set (mergeSetBlueHashes info) = Some ` repeated_id ` {4, 3}"
proof -
  let ?s = "cacheBlockHashes [chain_block 1000 2, chain_block 1000 4] (new_dag ''1'' [])"
  have cache: "blockHashesByIds ?s = [2 \<mapsto> repeated_id 2, 4 \<mapsto> repeated_id 4]"
    by (simp add: cacheBlockHashes_def new_dag_def chain_block_def)
  have ne: "repeated_id i \<noteq> []" for i by (simp add: repeated_id_def)
  have known: "known_hash ?s i \<longleftrightarrow> i = 2 \<or> i = 4" for i by (auto simp: known_hash_def cache ne)
  have "full_answer repeated_id (notFoundIds (snd (information_from_cache ?s red_block)))
      [\<lparr>hash_id = Some 3, hash_text = Some (repeated_id 3)\<rparr>]"
    by (simp add: full_answer_def information_from_cache_def cached_hashes cache ne red_block_def
        chain_block_def truthy_id_def getBlockChildIds_def cacheBlockHashes_def new_dag_def
        new_timeline_def Let_def)
  moreover have "\<forall>i h. blockHashesByIds ?s i = Some h \<longrightarrow> h = repeated_id i" by (simp add: cache)
  moreover have "{i \<in> set (mergeSetRedIds red_block). known_hash ?s i} = {2}"
    "set (mergeSetBlueIds red_block) \<union> {i \<in> set (mergeSetRedIds red_block). \<not> known_hash ?s i} = {4, 3}"
    by (auto simp: known red_block_def)
  ultimately show ?thesis
    using panel_hashes [of ?s repeated_id red_block "[\<lparr>hash_id = Some 3, hash_text = Some (repeated_id 3)\<rparr>]"]
    by (simp only: Let_def)
qed

end
