(* ===== verification/KgiApi.thy ===== *)
theory KgiApi
  imports KgiScene
begin

text \<open>
  The API server of the graph inspector (\<open>api/src/api.ts\<close>, \<open>database.ts\<close>) and the data source of
  the viewer that calls it (\<open>web/src/data/ApiDataSource.ts\<close>). The SQL client is a parameter: one
  function per query text of the source, and \<open>sql_ok\<close> states what the queries select from the
  tables. Columns of type \<open>bigint\<close> arrive as decimal texts.
\<close>

section \<open>Rows and queries\<close>

record BlockRow =
  row_id :: string
  row_block_hash :: string
  row_timestamp :: string
  row_parent_ids :: "int list"
  row_height :: string
  row_daa_score :: string
  row_height_group_index :: string
  row_selected_parent_id :: "string option"
  row_color :: BlockColor
  row_in_chain :: bool
  row_merge_set_red_ids :: "int list"
  row_merge_set_blue_ids :: "int list"

record EdgeRow =
  row_from_block_id :: string
  row_to_block_id :: string
  row_from_height :: string
  row_to_height :: string
  row_from_height_group_index :: string
  row_to_height_group_index :: string

record HeightGroupRow =
  row_group_height :: string
  row_group_size :: string

record SqlClient =
  select_blocks :: "js_int \<Rightarrow> js_int \<Rightarrow> BlockRow list outcome"
  select_edges :: "js_int \<Rightarrow> js_int \<Rightarrow> EdgeRow list outcome"
  select_height_groups :: "int list \<Rightarrow> HeightGroupRow list outcome"
  select_max_height :: "string list outcome"
  select_block_height :: "string \<Rightarrow> string list outcome"
  select_block_hashes :: "js_int list \<Rightarrow> (string \<times> string) list outcome"
  select_daa_height :: "js_int \<Rightarrow> string list outcome"
  select_app_config :: "AppConfig list outcome"

text \<open>A \<open>bigint\<close> column read as a number.\<close>

definition num :: "string \<Rightarrow> int" where
  "num t = the (parseInt t)"

definition block_of_row :: "BlockRow \<Rightarrow> Block" where
  "block_of_row r =
     \<lparr>block_id = num (row_id r), blockHash = row_block_hash r, timestamp = num (row_timestamp r),
      parentIds = row_parent_ids r, height = num (row_height r), daaScore = num (row_daa_score r),
      heightGroupIndex = num (row_height_group_index r),
      selectedParentId =
        (case row_selected_parent_id r of
           None \<Rightarrow> None | Some t \<Rightarrow> if t = [] then None else Some (num t)),
      color = row_color r, isInVirtualSelectedParentChain = row_in_chain r,
      mergeSetRedIds = row_merge_set_red_ids r, mergeSetBlueIds = row_merge_set_blue_ids r\<rparr>"

definition edge_of_row :: "EdgeRow \<Rightarrow> Edge" where
  "edge_of_row r =
     \<lparr>fromBlockId = num (row_from_block_id r), toBlockId = num (row_to_block_id r),
      fromHeight = num (row_from_height r), toHeight = num (row_to_height r),
      fromHeightGroupIndex = num (row_from_height_group_index r),
      toHeightGroupIndex = num (row_to_height_group_index r)\<rparr>"

definition group_of_row :: "HeightGroupRow \<Rightarrow> HeightGroup" where
  "group_of_row r = \<lparr>group_height = num (row_group_height r), group_size = num (row_group_size r)\<rparr>"

section \<open>The database class\<close>

definition getBlocks :: "SqlClient \<Rightarrow> js_int \<Rightarrow> js_int \<Rightarrow> Block list outcome" where
  "getBlocks c a e = and_then (select_blocks c a e) (\<lambda>rs. Inr (map block_of_row rs))"

definition getEdges :: "SqlClient \<Rightarrow> js_int \<Rightarrow> js_int \<Rightarrow> Edge list outcome" where
  "getEdges c a e = and_then (select_edges c a e) (\<lambda>rs. Inr (map edge_of_row rs))"

definition getHeightGroups :: "SqlClient \<Rightarrow> int list \<Rightarrow> HeightGroup list outcome" where
  "getHeightGroups c hs = and_then (select_height_groups c hs) (\<lambda>rs. Inr (map group_of_row rs))"

definition addHeight :: "int \<Rightarrow> int list \<Rightarrow> int list" where
  "addHeight h hs = (if h \<in> set hs then hs else hs @ [h])"

definition bundle_heights :: "Block list \<Rightarrow> Edge list \<Rightarrow> int list" where
  "bundle_heights bs es =
     fold (\<lambda>e hs. addHeight (toHeight e) (addHeight (fromHeight e) hs)) es
       (fold (\<lambda>b hs. addHeight (height b) hs) bs [])"

definition getBlocksAndEdgesAndHeightGroups :: "SqlClient \<Rightarrow> js_int \<Rightarrow> js_int \<Rightarrow> Bundle outcome" where
  "getBlocksAndEdgesAndHeightGroups c a e =
     and_then (getBlocks c a e) (\<lambda>bs.
     and_then (getEdges c a e) (\<lambda>es.
     and_then (getHeightGroups c (bundle_heights bs es)) (\<lambda>gs.
       Inr \<lparr>blocks = bs, edges = es, heightGroups = gs\<rparr>)))"

definition getMaxHeight :: "SqlClient \<Rightarrow> js_int outcome" where
  "getMaxHeight c =
     and_then (select_max_height c) (\<lambda>rs. case rs of [] \<Rightarrow> Inr (Some 0) | t # _ \<Rightarrow> Inr (parseInt t))"

definition getBlockHeight :: "SqlClient \<Rightarrow> string \<Rightarrow> js_int outcome" where
  "getBlockHeight c h =
     and_then (select_block_height c h) (\<lambda>rs. case rs of
       [] \<Rightarrow> Inl (ThrownError (''Block '' @ h @ '' does not exist'')) | t # _ \<Rightarrow> Inr (parseInt t))"

definition getBlockHashesByIds :: "SqlClient \<Rightarrow> js_int list \<Rightarrow> BlockHashById list outcome" where
  "getBlockHashesByIds c ids =
     and_then (select_block_hashes c ids) (\<lambda>rs.
       Inr (map (\<lambda>(i, h). \<lparr>hash_id = parseInt i, hash_text = Some h\<rparr>) rs))"

definition getBlockDAAScoreHeight :: "SqlClient \<Rightarrow> js_int \<Rightarrow> js_int outcome" where
  "getBlockDAAScoreHeight c d =
     and_then (select_daa_height c d) (\<lambda>rs. case rs of
       [] \<Rightarrow> Inl (ThrownError (''DAA scores '' @ (case d of None \<Rightarrow> ''NaN'' | Some i \<Rightarrow> decimal i) @ '' do not exist''))
     | t # _ \<Rightarrow> Inr (parseInt t))"

definition db_getAppConfig :: "SqlClient \<Rightarrow> string \<Rightarrow> AppConfig outcome" where
  "db_getAppConfig c packageVersion =
     and_then (select_app_config c) (\<lambda>rs. case rs of
       [] \<Rightarrow> Inr \<lparr>kaspadVersion = [], processingVersion = [], network = [], apiVersion = [], webVersion = []\<rparr>
     | r # _ \<Rightarrow> Inr (r \<lparr>apiVersion := packageVersion, webVersion := []\<rparr>))"

text \<open>
  The transaction around a request: what is done with the pool, and the outcome. A rejected
  roll-back replaces the outcome and skips the release.
\<close>

datatype PoolEvent = Connect | BeginTransaction | Work | Rollback | Release

definition withClient ::
  "unit outcome \<Rightarrow> unit outcome \<Rightarrow> 'r outcome \<Rightarrow> unit outcome \<Rightarrow> PoolEvent list \<times> 'r outcome" where
  "withClient acquired begun work rolledBack =
     (case acquired of
        Inl e \<Rightarrow> ([Connect], Inl e)
      | Inr _ \<Rightarrow>
          let (evs, r) = (case begun of Inl e \<Rightarrow> ([Connect, BeginTransaction], Inl e)
                          | Inr _ \<Rightarrow> ([Connect, BeginTransaction, Work], work))
          in case rolledBack of
               Inl e \<Rightarrow> (evs @ [Rollback], Inl e)
             | Inr _ \<Rightarrow> (evs @ [Rollback, Release], r))"

section \<open>The routes\<close>

datatype Response =
    BadRequest string
  | SendBundle Bundle
  | SendHashes "BlockHashById list"
  | SendAppConfig AppConfig

definition failure_text :: "failure \<Rightarrow> string" where
  "failure_text f =
     (case f of StoreFailure t \<Rightarrow> t | TypeError t \<Rightarrow> ''TypeError: '' @ t | ThrownError t \<Rightarrow> ''Error: '' @ t)"

definition respond :: "('r \<Rightarrow> Response) \<Rightarrow> 'r outcome \<Rightarrow> Response" where
  "respond send r = (case r of Inl e \<Rightarrow> BadRequest (''invalid input: '' @ failure_text e) | Inr x \<Rightarrow> send x)"

definition missing :: "string \<Rightarrow> Response" where
  "missing p = BadRequest (''missing parameter: '' @ p)"

text \<open>A query parameter that must be there: absent and empty are the same.\<close>

definition given :: "string option \<Rightarrow> string \<Rightarrow> (string \<Rightarrow> Response) \<Rightarrow> Response" where
  "given v p f = (case v of None \<Rightarrow> missing p | Some t \<Rightarrow> if t = [] then missing p else f t)"

definition at_least_0 :: "js_int \<Rightarrow> js_int" where
  "at_least_0 i = (if js_less i (Some 0) then Some 0 else i)"

definition around_height :: "SqlClient \<Rightarrow> js_int \<Rightarrow> js_int \<Rightarrow> Bundle outcome" where
  "around_height c h k =
     getBlocksAndEdgesAndHeightGroups c (at_least_0 (js_minus h k)) (js_plus h k)"

definition route_blocksBetweenHeights :: "SqlClient \<Rightarrow> string option \<Rightarrow> string option \<Rightarrow> Response" where
  "route_blocksBetweenHeights c startHeight endHeight =
     given startHeight ''startHeight'' (\<lambda>a. given endHeight ''endHeight'' (\<lambda>e.
       respond SendBundle (getBlocksAndEdgesAndHeightGroups c (parseInt a) (parseInt e))))"

definition route_head :: "SqlClient \<Rightarrow> string option \<Rightarrow> Response" where
  "route_head c heightDifference =
     given heightDifference ''heightDifference'' (\<lambda>k.
       respond SendBundle (and_then (getMaxHeight c) (\<lambda>e.
         getBlocksAndEdgesAndHeightGroups c (at_least_0 (js_minus e (parseInt k))) e)))"

definition route_blockHash :: "SqlClient \<Rightarrow> string option \<Rightarrow> string option \<Rightarrow> Response" where
  "route_blockHash c h heightDifference =
     given h ''blockHash'' (\<lambda>t. given heightDifference ''heightDifference'' (\<lambda>k.
       respond SendBundle (and_then (getBlockHeight c (to_lower t)) (\<lambda>hh. around_height c hh (parseInt k)))))"

definition route_blockDAAScore :: "SqlClient \<Rightarrow> string option \<Rightarrow> string option \<Rightarrow> Response" where
  "route_blockDAAScore c d heightDifference =
     given d ''blockDAAScore'' (\<lambda>t. given heightDifference ''heightDifference'' (\<lambda>k.
       respond SendBundle (and_then (getBlockDAAScoreHeight c (parseInt t)) (\<lambda>hh. around_height c hh (parseInt k)))))"

definition route_blockHashesByIds :: "SqlClient \<Rightarrow> string option \<Rightarrow> Response" where
  "route_blockHashesByIds c ids =
     given ids ''blockIds'' (\<lambda>t.
       respond SendHashes (getBlockHashesByIds c (map parseInt (split_on (CHR '','') t))))"

definition route_appConfig :: "SqlClient \<Rightarrow> string \<Rightarrow> Response" where
  "route_appConfig c packageVersion = respond SendAppConfig (db_getAppConfig c packageVersion)"

section \<open>The data source of the viewer\<close>

text \<open>
  A request of the browser either fails (and the source answers with nothing) or has a body that
  is parsed whatever its status; the text of a bad request is not JSON.
\<close>

definition api_fetch :: "Response option \<Rightarrow> Response option outcome" where
  "api_fetch r =
     (case r of
        None \<Rightarrow> Inr None
      | Some (BadRequest t) \<Rightarrow> Inl (ThrownError ''SyntaxError'')
      | Some x \<Rightarrow> Inr (Some x))"

definition api_bundle :: "Response option \<Rightarrow> Bundle option outcome" where
  "api_bundle r =
     and_then (api_fetch r) (\<lambda>x. case x of Some (SendBundle d) \<Rightarrow> Inr (Some d) | _ \<Rightarrow> Inr None)"

definition api_getAppConfig :: "string \<Rightarrow> Response option \<Rightarrow> AppConfig option outcome" where
  "api_getAppConfig packageVersion r =
     and_then (api_fetch r) (\<lambda>x. case x of
       Some (SendAppConfig c) \<Rightarrow> Inr (Some (c \<lparr>webVersion := packageVersion\<rparr>)) | _ \<Rightarrow> Inr None)"

section \<open>What the queries select\<close>

text \<open>
  The tables as the processing service keeps them: a bundle of everything stored, whose blocks
  and edges sit in the groups of their heights.
\<close>

definition sql_ok :: "SqlClient \<Rightarrow> Bundle \<Rightarrow> bool" where
  "sql_ok c T \<longleftrightarrow>
     (\<forall>a e. \<exists>rs. select_blocks c (Some a) (Some e) = Inr rs \<and>
        set (map block_of_row rs) = {b \<in> set (blocks T). a \<le> height b \<and> height b \<le> e}) \<and>
     (\<forall>a e. \<exists>rs. select_edges c (Some a) (Some e) = Inr rs \<and>
        set (map edge_of_row rs) = {x \<in> set (edges T). a \<le> fromHeight x \<and> toHeight x \<le> e}) \<and>
     (\<forall>hs. \<exists>rs. select_height_groups c hs = Inr rs \<and>
        map group_of_row rs = filter (\<lambda>g. group_height g \<in> set hs) (heightGroups T)) \<and>
     (\<forall>h. select_block_height c h =
        Inr (map (\<lambda>b. decimal (height b)) (filter (\<lambda>b. blockHash b = h) (blocks T))))"

lemma set_addHeight [simp]: "set (addHeight h hs) = insert h (set hs)"
  by (auto simp: addHeight_def)

lemma set_bundle_heights:
  "set (bundle_heights bs es) = height ` set bs \<union> fromHeight ` set es \<union> toHeight ` set es"
proof -
  have b: "set (fold (\<lambda>b hs. addHeight (height b) hs) bs hs) = height ` set bs \<union> set hs" for hs
    by (induction bs arbitrary: hs) auto
  have "set (fold (\<lambda>e hs. addHeight (toHeight e) (addHeight (fromHeight e) hs)) es hs) =
      fromHeight ` set es \<union> toHeight ` set es \<union> set hs" for hs
    by (induction es arbitrary: hs) auto
  with b [of "[]"] show ?thesis by (auto simp: bundle_heights_def)
qed

lemma api_window:
  assumes "sql_ok c T"
  shows "\<exists>d. getBlocksAndEdgesAndHeightGroups c (Some a) (Some e) = Inr d \<and>
    set (blocks d) = {b \<in> set (blocks T). a \<le> height b \<and> height b \<le> e} \<and>
    set (edges d) = {x \<in> set (edges T). a \<le> fromHeight x \<and> toHeight x \<le> e} \<and>
    heightGroups d = filter (\<lambda>g. group_height g \<in>
      height ` set (blocks d) \<union> fromHeight ` set (edges d) \<union> toHeight ` set (edges d)) (heightGroups T)"
proof -
  from assms obtain bs where bs: "select_blocks c (Some a) (Some e) = Inr bs"
    "set (map block_of_row bs) = {b \<in> set (blocks T). a \<le> height b \<and> height b \<le> e}"
    unfolding sql_ok_def by blast
  from assms obtain es where es: "select_edges c (Some a) (Some e) = Inr es"
    "set (map edge_of_row es) = {x \<in> set (edges T). a \<le> fromHeight x \<and> toHeight x \<le> e}"
    unfolding sql_ok_def by blast
  from assms obtain gs where gs:
    "select_height_groups c (bundle_heights (map block_of_row bs) (map edge_of_row es)) = Inr gs"
    "map group_of_row gs = filter (\<lambda>g. group_height g \<in>
       set (bundle_heights (map block_of_row bs) (map edge_of_row es))) (heightGroups T)"
    unfolding sql_ok_def by blast
  show ?thesis
    using bs es gs
    by (intro exI [of _ "\<lparr>blocks = map block_of_row bs, edges = map edge_of_row es,
          heightGroups = map group_of_row gs\<rparr>"])
      (simp add: getBlocksAndEdgesAndHeightGroups_def getBlocks_def getEdges_def getHeightGroups_def
        set_bundle_heights)
qed

lemma sub_bundle_laid_out:
  assumes "laid_out T" and "set (blocks d) \<subseteq> set (blocks T)" and "set (edges d) \<subseteq> set (edges T)"
    and "heightGroups d = filter (\<lambda>g. group_height g \<in>
      height ` set (blocks d) \<union> fromHeight ` set (edges d) \<union> toHeight ` set (edges d)) (heightGroups T)"
  shows "laid_out d"
proof -
  have grp: "in_group d h i" if "in_group T h i"
    "h \<in> height ` set (blocks d) \<union> fromHeight ` set (edges d) \<union> toHeight ` set (edges d)" for h i
    using that unfolding in_group_def assms(4) by auto
  have "distinct (map group_height (heightGroups d))"
    using assms(1) unfolding assms(4) laid_out_def by (simp add: distinct_map_filter)
  moreover have "inj_on (\<lambda>b. (height b, heightGroupIndex b)) (set (blocks d))"
    using assms(1,2) inj_on_subset unfolding laid_out_def by blast
  moreover have "\<forall>b \<in> set (blocks d). in_group d (height b) (heightGroupIndex b)"
    using assms(1,2) grp unfolding laid_out_def by blast
  moreover have "\<forall>e \<in> set (edges d). in_group d (fromHeight e) (fromHeightGroupIndex e) \<and>
      in_group d (toHeight e) (toHeightGroupIndex e)"
    using assms(1,3) grp unfolding laid_out_def by blast
  ultimately show ?thesis by (simp add: laid_out_def)
qed

definition api_ok :: "SqlClient \<times> Bundle \<Rightarrow> bool" where
  "api_ok s \<longleftrightarrow> sql_ok (fst s) (snd s) \<and> laid_out (snd s) \<and> unique_keys (snd s)"

definition api_window_of :: "SqlClient \<times> Bundle \<Rightarrow> js_int \<Rightarrow> js_int \<Rightarrow> Bundle outcome" where
  "api_window_of s a e = getBlocksAndEdgesAndHeightGroups (fst s) a e"

lemma api_source:
  assumes "api_ok s"
  shows "\<exists>d. api_window_of s (Some a) (Some e) = Inr d \<and> laid_out d \<and> between a e d \<and> unique_keys d"
proof -
  from assms have ok: "sql_ok (fst s) (snd s)" "laid_out (snd s)" "unique_keys (snd s)"
    by (simp_all add: api_ok_def)
  from api_window [OF ok(1), of a e] obtain d where
    w: "getBlocksAndEdgesAndHeightGroups (fst s) (Some a) (Some e) = Inr d"
    and b: "set (blocks d) = {b \<in> set (blocks (snd s)). a \<le> height b \<and> height b \<le> e}"
    and x: "set (edges d) = {x \<in> set (edges (snd s)). a \<le> fromHeight x \<and> toHeight x \<le> e}"
    and g: "heightGroups d = filter (\<lambda>g. group_height g \<in>
      height ` set (blocks d) \<union> fromHeight ` set (edges d) \<union> toHeight ` set (edges d)) (heightGroups (snd s))"
    by blast
  have "laid_out d" by (rule sub_bundle_laid_out [OF ok(2) _ _ g]) (auto simp: b x)
  moreover have "unique_keys d"
    using ok(3) unfolding unique_keys_def by (auto simp: b x intro: inj_on_subset)
  moreover have "between a e d" by (auto simp: between_def b)
  ultimately show ?thesis using w by (auto simp: api_window_of_def)
qed

interpretation drawn_api: drawable_source api_ok api_window_of
proof unfold_locales
  fix s a e
  assume "api_ok s"
  from api_source [OF this, of a e]
  show "\<exists>d. api_window_of s (Some a) (Some e) = Inr d \<and> laid_out d \<and> between a e d" by blast
next
  fix s a e d
  assume "api_ok s" and "api_window_of s (Some a) (Some e) = Inr d"
  with api_source [of s a e] show "unique_keys d" by auto
qed

section \<open>A client over given tables\<close>

definition row_of_block :: "Block \<Rightarrow> BlockRow" where
  "row_of_block b =
     \<lparr>row_id = decimal (block_id b), row_block_hash = blockHash b, row_timestamp = decimal (timestamp b),
      row_parent_ids = parentIds b, row_height = decimal (height b), row_daa_score = decimal (daaScore b),
      row_height_group_index = decimal (heightGroupIndex b),
      row_selected_parent_id = map_option decimal (selectedParentId b), row_color = color b,
      row_in_chain = isInVirtualSelectedParentChain b, row_merge_set_red_ids = mergeSetRedIds b,
      row_merge_set_blue_ids = mergeSetBlueIds b\<rparr>"

definition row_of_edge :: "Edge \<Rightarrow> EdgeRow" where
  "row_of_edge e =
     \<lparr>row_from_block_id = decimal (fromBlockId e), row_to_block_id = decimal (toBlockId e),
      row_from_height = decimal (fromHeight e), row_to_height = decimal (toHeight e),
      row_from_height_group_index = decimal (fromHeightGroupIndex e),
      row_to_height_group_index = decimal (toHeightGroupIndex e)\<rparr>"

definition row_of_group :: "HeightGroup \<Rightarrow> HeightGroupRow" where
  "row_of_group g = \<lparr>row_group_height = decimal (group_height g), row_group_size = decimal (group_size g)\<rparr>"

lemma num_decimal [simp]: "num (decimal i) = i"
  by (simp add: num_def parseInt_decimal)

lemma decimal_text_not_Nil [simp]: "decimal i \<noteq> []"
  by (simp add: int_text_def)

lemma row_roundtrips [simp]:
  "block_of_row (row_of_block b) = b" "edge_of_row (row_of_edge e) = e" "group_of_row (row_of_group g) = g"
  by (simp_all add: block_of_row_def row_of_block_def edge_of_row_def row_of_edge_def group_of_row_def
      row_of_group_def split: option.split)

definition on_range :: "js_int \<Rightarrow> js_int \<Rightarrow> (int \<Rightarrow> int \<Rightarrow> 'r) \<Rightarrow> 'r outcome" where
  "on_range a e f = (case (a, e) of (Some x, Some y) \<Rightarrow> Inr (f x y) | _ \<Rightarrow> Inl (StoreFailure ''bigint''))"

definition table_client :: "Bundle \<Rightarrow> SqlClient" where
  "table_client T =
     \<lparr>select_blocks = (\<lambda>a e. on_range a e (\<lambda>x y.
        map row_of_block (filter (\<lambda>b. x \<le> height b \<and> height b \<le> y) (blocks T)))),
      select_edges = (\<lambda>a e. on_range a e (\<lambda>x y.
        map row_of_edge (filter (\<lambda>z. x \<le> fromHeight z \<and> toHeight z \<le> y) (edges T)))),
      select_height_groups = (\<lambda>hs. Inr (map row_of_group (filter (\<lambda>g. group_height g \<in> set hs) (heightGroups T)))),
      select_max_height = Inr [decimal (fold (\<lambda>b m. max m (height b)) (blocks T) 0)],
      select_block_height = (\<lambda>h. Inr (map (\<lambda>b. decimal (height b)) (filter (\<lambda>b. blockHash b = h) (blocks T)))),
      select_block_hashes = (\<lambda>ids. Inr (map (\<lambda>b. (decimal (block_id b), blockHash b))
        (filter (\<lambda>b. Some (block_id b) \<in> set ids) (blocks T)))),
      select_daa_height = (\<lambda>d. Inr (map (\<lambda>b. decimal (height b)) (filter (\<lambda>b. d = Some (daaScore b)) (blocks T)))),
      select_app_config = Inr []\<rparr>"

lemma table_client_ok: "sql_ok (table_client T) T"
  by (simp add: sql_ok_def table_client_def on_range_def comp_def image_image)

section \<open>A block asked for by its hash\<close>

lemma find_filter: "find P xs = Some x \<Longrightarrow> \<exists>ys. filter P xs = x # ys"
  by (induction xs) (auto split: if_splits)

text \<open>
  C29: Over consistent tables the route for a hash, called as the viewer calls it, answers with a
  bundle that can be drawn and holds exactly the stored blocks at most \<open>k\<close> heights away from the
  block; for a hash that is not stored the viewer's request is rejected, because the text of the
  error is parsed as JSON.
\<close>

theorem hash_request_answered:
  assumes "api_ok (c, T)" and "\<forall>b \<in> set (blocks T). 0 \<le> height b" and "t \<noteq> []"
  shows "case find (\<lambda>b. blockHash b = to_lower t) (blocks T) of
      None \<Rightarrow> api_bundle (Some (route_blockHash c (Some t) (Some (decimal k)))) = Inl (ThrownError ''SyntaxError'')
    | Some b \<Rightarrow>
        (case api_bundle (Some (route_blockHash c (Some t) (Some (decimal k)))) of
           Inr (Some d) \<Rightarrow> laid_out d \<and> unique_keys d \<and>
             set (blocks d) = {x \<in> set (blocks T). \<bar>height x - height b\<bar> \<le> k}
         | _ \<Rightarrow> False)"
proof (cases "find (\<lambda>b. blockHash b = to_lower t) (blocks T)")
  case None
  then have "filter (\<lambda>b. blockHash b = to_lower t) (blocks T) = []"
    by (simp add: find_None_iff filter_empty_conv)
  with assms(1) have "select_block_height c (to_lower t) = Inr []" by (simp add: api_ok_def sql_ok_def)
  with None assms(3) show ?thesis
    by (simp add: route_blockHash_def given_def getBlockHeight_def respond_def api_bundle_def api_fetch_def)
next
  case (Some b)
  then obtain rest where "filter (\<lambda>b. blockHash b = to_lower t) (blocks T) = b # rest"
    using find_filter by fast
  with assms(1) have h: "getBlockHeight c (to_lower t) = Inr (Some (height b))"
    by (simp add: getBlockHeight_def api_ok_def sql_ok_def parseInt_decimal)
  have range: "around_height c (Some (height b)) (Some k) =
      getBlocksAndEdgesAndHeightGroups c (Some (max 0 (height b - k))) (Some (height b + k))"
    by (simp add: around_height_def at_least_0_def max_def)
  from api_source [OF assms(1), of "max 0 (height b - k)" "height b + k"] obtain d where
    d: "getBlocksAndEdgesAndHeightGroups c (Some (max 0 (height b - k))) (Some (height b + k)) = Inr d"
      "laid_out d" "unique_keys d"
    by (auto simp: api_window_of_def)
  from assms(1) have "sql_ok c T" by (simp add: api_ok_def)
  from api_window [OF this, of "max 0 (height b - k)" "height b + k"] d(1)
  have "set (blocks d) = {x \<in> set (blocks T). max 0 (height b - k) \<le> height x \<and> height x \<le> height b + k}"
    by auto
  also have "\<dots> = {x \<in> set (blocks T). \<bar>height x - height b\<bar> \<le> k}" using assms(2) by auto
  finally show ?thesis
    using Some h range d assms(3)
    by (simp add: route_blockHash_def given_def respond_def api_bundle_def api_fetch_def parseInt_decimal)
qed

definition two_chain :: Bundle where
  "two_chain =
     \<lparr>blocks = [chain_block 1000 0, chain_block 1000 1, chain_block 1000 2],
      edges = [chain_edge 0, chain_edge 1], heightGroups = [chain_group 0, chain_group 1, chain_group 2]\<rparr>"

lemma two_chain_ok: "api_ok (table_client two_chain, two_chain)"
  "\<forall>b \<in> set (blocks two_chain). 0 \<le> height b"
  by (auto simp: api_ok_def table_client_ok laid_out_def unique_keys_def in_group_def inj_on_def
      two_chain_def chain_block_def chain_edge_def chain_group_def)

theorem hash_request_answered_witness:
  "api_bundle (Some (route_blockHash (table_client two_chain) (Some ''ABC'') (Some ''4''))) =
     Inl (ThrownError ''SyntaxError'') \<and>
   (case api_bundle (Some (route_blockHash (table_client two_chain) (Some (repeated_id 2)) (Some ''1''))) of
      Inr (Some d) \<Rightarrow> set (blocks d) = {chain_block 1000 1, chain_block 1000 2} | _ \<Rightarrow> False)"
proof -
  have four: "decimal 4 = ''4''" "decimal 1 = ''1''" by code_simp+
  have none: "find (\<lambda>b. blockHash b = to_lower ''ABC'') (blocks two_chain) = None" by code_simp
  have "to_lower (repeated_id 2) = repeated_id 2" by code_simp
  then have some: "find (\<lambda>b. blockHash b = to_lower (repeated_id 2)) (blocks two_chain) = Some (chain_block 1000 2)"
    by (simp add: two_chain_def chain_block_def repeated_id_inj)
  have "{x \<in> set (blocks two_chain). \<bar>height x - height (chain_block 1000 2)\<bar> \<le> 1} =
      {chain_block 1000 1, chain_block 1000 2}"
    by (auto simp: two_chain_def chain_block_def)
  moreover have "repeated_id 2 \<noteq> []" by code_simp
  ultimately show ?thesis
    using hash_request_answered [OF two_chain_ok, of "''ABC''" 4] none
      hash_request_answered [OF two_chain_ok, of "repeated_id 2" 1] some
    by (simp add: four split: sum.splits option.splits)
qed

end
