(* ===== verification/WebBase.thy ===== *)
theory WebBase
  imports JsParse JsNumber
begin

text \<open>
  What the web application's server and client share: JSON values as a request body brings them,
  the texts of big integers, actions on a state that can throw, and the answer type
  \<open>Resp\<close> (packages/web/src/types/api.ts).
\<close>

section \<open>JSON\<close>

datatype json =
    JNull
  | JBool bool
  | JNumber real
  | JString string
  | JArray "json list"
  | JObject "(string \<times> json) list"

text \<open>
  Reading a property: \<open>undefined\<close> (\<open>None\<close>) when it is absent, an exception on \<open>null\<close> and
  \<open>undefined\<close>. The properties the sources read are not those of texts, numbers and arrays.
\<close>

definition property :: "json option \<Rightarrow> string \<Rightarrow> json option outcome" where
  "property j k =
     (case j of
        None \<Rightarrow> Inl (TypeError ''undefined'')
      | Some JNull \<Rightarrow> Inl (TypeError ''null'')
      | Some (JObject fs) \<Rightarrow> Inr (map_of fs k)
      | Some _ \<Rightarrow> Inr None)"

text \<open>The operator \<open>??\<close> and the truth value of a JSON value.\<close>

definition or_default :: "json option \<Rightarrow> json \<Rightarrow> json" where
  "or_default j d = (case j of None \<Rightarrow> d | Some JNull \<Rightarrow> d | Some x \<Rightarrow> x)"

definition truthy :: "json option \<Rightarrow> bool" where
  "truthy j =
     (case j of
        None \<Rightarrow> False
      | Some JNull \<Rightarrow> False
      | Some (JBool b) \<Rightarrow> b
      | Some (JNumber x) \<Rightarrow> x \<noteq> 0
      | Some (JString t) \<Rightarrow> t \<noteq> []
      | Some _ \<Rightarrow> True)"

text \<open>What may be \<open>undefined\<close> in a template text.\<close>

definition shown :: "string option \<Rightarrow> string" where
  "shown e = (case e of None \<Rightarrow> ''undefined'' | Some t \<Rightarrow> t)"

text \<open>A text that counts as true: present and not empty.\<close>

definition setting :: "string option \<Rightarrow> string option" where
  "setting v = (case v of None \<Rightarrow> None | Some t \<Rightarrow> if t = [] then None else Some t)"

section \<open>Big integers in text\<close>

definition digit_text :: "nat \<Rightarrow> string \<Rightarrow> int outcome" where
  "digit_text base ds =
     (if ds \<noteq> [] \<and> list_all (is_digit base) ds then Inr (int (digits_value base ds))
      else Inl (ThrownError ''SyntaxError''))"

text \<open>\<open>BigInt(text)\<close>: white space around, a radix prefix or a sign, and digits only.\<close>

definition BigInt_text :: "string \<Rightarrow> int outcome" where
  "BigInt_text t =
     (let s = trim t
      in if s = [] then Inr 0
         else if starts_with s ''0x'' \<or> starts_with s ''0X'' then digit_text 16 (drop 2 s)
         else if starts_with s ''0o'' \<or> starts_with s ''0O'' then digit_text 8 (drop 2 s)
         else if starts_with s ''0b'' \<or> starts_with s ''0B'' then digit_text 2 (drop 2 s)
         else if starts_with s ''-'' then and_then (digit_text 10 (drop 1 s)) (\<lambda>n. Inr (- n))
         else if starts_with s ''+'' then digit_text 10 (drop 1 s)
         else digit_text 10 s)"

definition BigInt_json :: "json option \<Rightarrow> int outcome" where
  "BigInt_json j =
     (case j of
        Some (JString t) \<Rightarrow> BigInt_text t
      | Some (JNumber x) \<Rightarrow> if x = of_int \<lfloor>x\<rfloor> then Inr \<lfloor>x\<rfloor> else Inl (ThrownError ''RangeError'')
      | Some (JBool b) \<Rightarrow> Inr (if b then 1 else 0)
      | Some (JArray []) \<Rightarrow> Inr 0
      | Some (JArray [JString t]) \<Rightarrow> BigInt_text t
      | Some (JArray _) \<Rightarrow> Inl (ThrownError ''SyntaxError'')
      | Some (JObject _) \<Rightarrow> Inl (ThrownError ''SyntaxError'')
      | _ \<Rightarrow> Inl (TypeError ''Cannot convert to a BigInt''))"

definition pad_start :: "nat \<Rightarrow> char \<Rightarrow> string \<Rightarrow> string" where
  "pad_start n c s = replicate (n - length s) c @ s"

text \<open>The form in which a voting power is stored.\<close>

definition hexPower :: "int \<Rightarrow> string" where
  "hexPower p = ''0x'' @ pad_start 64 (CHR ''0'') (int_text 16 p)"

section \<open>Actions\<close>

text \<open>
  A piece of an \<open>async\<close> function: it changes a state and returns or throws. What it changed
  before it throws stays changed.
\<close>

type_synonym ('s, 'a) action = "'s \<Rightarrow> 'a outcome \<times> 's"

definition return :: "'a \<Rightarrow> ('s, 'a) action" where
  "return x s = (Inr x, s)"

definition throw :: "failure \<Rightarrow> ('s, 'a) action" where
  "throw e s = (Inl e, s)"

definition settled :: "'a outcome \<Rightarrow> ('s, 'a) action" where
  "settled r s = (r, s)"

definition after :: "('s, 'a) action \<Rightarrow> ('a \<Rightarrow> ('s, 'b) action) \<Rightarrow> ('s, 'b) action" where
  "after m f s = (case m s of (Inl e, s') \<Rightarrow> (Inl e, s') | (Inr x, s') \<Rightarrow> f x s')"

definition catching :: "('s, 'a) action \<Rightarrow> (failure \<Rightarrow> 'a) \<Rightarrow> 's \<Rightarrow> 'a \<times> 's" where
  "catching m h s = (case m s of (Inl e, s') \<Rightarrow> (h e, s') | (Inr x, s') \<Rightarrow> (x, s'))"

fun for_each :: "('x \<Rightarrow> ('s, unit) action) \<Rightarrow> 'x list \<Rightarrow> ('s, unit) action" where
  "for_each f [] = return ()"
| "for_each f (x # xs) = after (f x) (\<lambda>_. for_each f xs)"

named_theorems action_simps

lemma run_return [simp, action_simps]: "return x s = (Inr x, s)"
  by (simp add: return_def)

lemma run_throw [simp, action_simps]: "throw e s = (Inl e, s)"
  by (simp add: throw_def)

lemma run_settled [simp, action_simps]: "settled r s = (r, s)"
  by (simp add: settled_def)

lemma after_cases [consumes 1, case_names throws goes_on]:
  assumes "after m f s = (r, s')"
  obtains (throws) e where "m s = (Inl e, s')" "r = Inl e"
    | (goes_on) x s1 where "m s = (Inr x, s1)" "f x s1 = (r, s')"
  using assms by (auto simp: after_def split: prod.splits sum.splits)

lemma catching_cases [consumes 1, case_names caught returned]:
  assumes "catching m h s = (a, s')"
  obtains (caught) e where "m s = (Inl e, s')" "a = h e"
    | (returned) "m s = (Inr a, s')"
  using assms by (auto simp: catching_def split: prod.splits sum.splits)

text \<open>
  A reflexive and transitive relation between the states before and after that holds for the
  parts of an action holds for the action.
\<close>

definition keeps :: "('s \<Rightarrow> 's \<Rightarrow> bool) \<Rightarrow> ('s, 'a) action \<Rightarrow> bool" where
  "keeps R m \<longleftrightarrow> (\<forall>s. R s (snd (m s)))"

lemma keepsI: "(\<And>s r s'. m s = (r, s') \<Longrightarrow> R s s') \<Longrightarrow> keeps R m"
  unfolding keeps_def by (metis prod.collapse)

lemma keepsD: "keeps R m \<Longrightarrow> m s = (r, s') \<Longrightarrow> R s s'"
  unfolding keeps_def by (metis snd_conv)

lemma keeps_pure:
  assumes "reflp R"
  shows "keeps R (return x)" and "keeps R (throw e)" and "keeps R (settled r)"
  using assms by (simp_all add: keeps_def reflp_def)

lemma keeps_after:
  assumes "transp R" and "keeps R m" and "\<And>x. keeps R (f x)"
  shows "keeps R (after m f)"
proof (rule keepsI)
  fix s r s'
  assume "after m f s = (r, s')"
  then show "R s s'"
  proof (cases rule: after_cases)
    case (throws e)
    with assms(2) show ?thesis by (blast dest: keepsD)
  next
    case (goes_on x s1)
    from keepsD [OF assms(2) goes_on(1)] keepsD [OF assms(3) goes_on(2)] assms(1) show ?thesis
      by (blast dest: transpD)
  qed
qed

lemma keeps_for_each:
  assumes "reflp R" and "transp R" and "\<And>x. x \<in> set xs \<Longrightarrow> keeps R (f x)"
  shows "keeps R (for_each f xs)"
  using assms(3)
proof (induction xs)
  case Nil
  show ?case unfolding for_each.simps by (rule keeps_pure(1) [OF assms(1)])
next
  case (Cons x xs)
  then show ?case by (auto intro!: keeps_after [OF assms(2)])
qed

lemma catching_keeps: "keeps R m \<Longrightarrow> catching m h s = (a, s') \<Longrightarrow> R s s'"
  by (erule catching_cases) (auto dest: keepsD)

section \<open>Answers\<close>

text \<open>The class \<open>Resp\<close>, with the data a route puts into it as a parameter.\<close>

record 'd Resp =
  resp_code :: int
  resp_message :: "string option"
  resp_data :: "'d option"
  resp_additional :: "string option"

definition Resp_create :: "int \<Rightarrow> string \<Rightarrow> 'd \<Rightarrow> 'd Resp" where
  "Resp_create code message data =
     \<lparr>resp_code = code, resp_message = Some message, resp_data = Some data, resp_additional = None\<rparr>"

definition Resp_ok :: "'d \<Rightarrow> 'd Resp" where
  "Resp_ok data = \<lparr>resp_code = 0, resp_message = None, resp_data = Some data, resp_additional = None\<rparr>"

definition Resp_err :: "string \<Rightarrow> 'd Resp" where
  "Resp_err message = \<lparr>resp_code = 1, resp_message = Some message, resp_data = None, resp_additional = None\<rparr>"

definition Resp_errWithData :: "string \<Rightarrow> 'd \<Rightarrow> 'd Resp" where
  "Resp_errWithData message data =
     \<lparr>resp_code = 1, resp_message = Some message, resp_data = Some data, resp_additional = None\<rparr>"

section \<open>Stored powers\<close>

text \<open>The stored form of a power below \<open>2 ^ 256\<close>: 64 hexadecimal digits after the prefix.\<close>

definition hex_power_text :: "string \<Rightarrow> bool" where
  "hex_power_text t \<longleftrightarrow>
     (\<exists>ds. t = ''0x'' @ ds \<and> length ds = 64 \<and> list_all (\<lambda>c. \<exists>d < 16. c = digit_char d) ds)"

lemma digit_text_chars: "2 \<le> base \<Longrightarrow> list_all (\<lambda>c. \<exists>d < base. c = digit_char d) (nat_text base n)"
proof (induction base n rule: nat_text.induct)
  case (1 base n)
  show ?case
  proof (cases "n < base")
    case True
    with 1 show ?thesis by (auto simp: nat_text.simps [of base n])
  next
    case False
    with 1 have "list_all (\<lambda>c. \<exists>d < base. c = digit_char d) (nat_text base (n div base))" by simp
    moreover from 1 have "n mod base < base" by simp
    then have "\<exists>d < base. digit_char (n mod base) = digit_char d" by blast
    ultimately show ?thesis
      using False 1 by (simp add: nat_text.simps [of base n])
  qed
qed

lemma length_nat_text:
  assumes "2 \<le> base"
  shows "n < base ^ k \<Longrightarrow> 0 < k \<Longrightarrow> length (nat_text base n) \<le> k"
proof (induction k arbitrary: n)
  case 0
  then show ?case by simp
next
  case (Suc k)
  show ?case
  proof (cases "n < base")
    case True
    with assms show ?thesis by (simp add: nat_text.simps [of base n])
  next
    case False
    with Suc.prems assms have "0 < k" by (cases k) auto
    moreover have "n div base < base ^ k"
      using Suc.prems assms by (simp add: less_mult_imp_div_less mult.commute)
    ultimately have "length (nat_text base (n div base)) \<le> k" using Suc.IH by blast
    with False assms show ?thesis by (simp add: nat_text.simps [of base n])
  qed
qed

lemma hexPower_text:
  assumes "0 \<le> p" and "p < 2 ^ 256"
  shows "hex_power_text (hexPower p)"
proof -
  let ?t = "nat_text 16 (nat p)"
  have "(2::int) ^ 256 = int (16 ^ 64)" by simp
  with assms have "nat p < 16 ^ 64" by linarith
  then have "length ?t \<le> 64" using length_nat_text [of 16 "nat p" 64] by simp
  moreover have "list_all (\<lambda>c. \<exists>d < 16. c = digit_char d) ?t" by (rule digit_text_chars) simp
  moreover have "(of_char (CHR ''0'') :: nat) = of_char (digit_char 0)" by (simp add: of_digit_char)
  then have "CHR ''0'' = digit_char 0" by (simp only: of_char_eq_iff)
  then have "\<exists>d < 16. CHR ''0'' = digit_char d" by force
  ultimately show ?thesis
    using assms
    by (auto simp: hex_power_text_def hexPower_def pad_start_def int_text_def list_all_iff)
qed

lemma text_nat_zeros: "text_nat base (replicate n (CHR ''0'') @ s) = text_nat base s"
proof (induction n)
  case (Suc n)
  then show ?case by (simp add: text_nat_def digit_of_def)
qed (simp add: text_nat_def)

text \<open>The power behind a stored text.\<close>

definition power_of_text :: "string \<Rightarrow> int" where
  "power_of_text t = int (text_nat 16 (drop 2 t))"

lemma power_of_hexPower: "0 \<le> p \<Longrightarrow> power_of_text (hexPower p) = p"
  by (simp add: power_of_text_def hexPower_def pad_start_def int_text_def text_nat_zeros
      text_nat_text)

end
