(* ===== verification/JsNumberText.thy ===== *)
theory JsNumberText
  imports JsParse JsNumber
begin

text \<open>
  \<open>Number(text)\<close>: the numeric literals of the language, in exact arithmetic before the rounding
  that makes a double of them.
\<close>

datatype js_number = NaN | Infinite bool | Finite real

section \<open>Literals\<close>

definition digits_or_nan :: "nat \<Rightarrow> string \<Rightarrow> js_number" where
  "digits_or_nan base ds =
     (if ds \<noteq> [] \<and> list_all (is_digit base) ds then Finite (real (digits_value base ds)) else NaN)"

text \<open>The exponent part: nothing, or \<open>e\<close>, a sign and digits.\<close>

definition exponent_part :: "string \<Rightarrow> int option" where
  "exponent_part s =
     (case s of
        [] \<Rightarrow> Some 0
      | c # u \<Rightarrow>
          if c = CHR ''e'' \<or> c = CHR ''E'' then
            let (neg, ds) = (if starts_with u ''-'' then (True, drop 1 u)
                             else (False, if starts_with u ''+'' then drop 1 u else u))
            in if ds \<noteq> [] \<and> list_all (is_digit 10) ds
               then Some (if neg then - int (digits_value 10 ds) else int (digits_value 10 ds))
               else None
          else None)"

text \<open>Digits with an optional fraction and exponent; a digit must be there before the exponent.\<close>

definition unsigned_decimal :: "string \<Rightarrow> real option" where
  "unsigned_decimal s =
     (let whole = takeWhile (is_digit 10) s;
          rest = dropWhile (is_digit 10) s;
          (frac, rest') =
            (if starts_with rest ''.'' then (takeWhile (is_digit 10) (drop 1 rest), dropWhile (is_digit 10) (drop 1 rest))
             else ([], rest))
      in if whole @ frac = [] then None
         else map_option (\<lambda>k.
           real (digits_value 10 (whole @ frac)) * 10 powi (k - int (length frac))) (exponent_part rest'))"

definition signed_decimal :: "string \<Rightarrow> js_number" where
  "signed_decimal s =
     (let (neg, u) = (if starts_with s ''-'' then (True, drop 1 s)
                      else (False, if starts_with s ''+'' then drop 1 s else s))
      in if u = ''Infinity'' then Infinite neg
         else case unsigned_decimal u of
                None \<Rightarrow> NaN | Some x \<Rightarrow> Finite (if neg then - x else x))"

definition Number_text :: "string \<Rightarrow> js_number" where
  "Number_text t =
     (let s = trim t
      in if s = [] then Finite 0
         else if starts_with s ''0x'' \<or> starts_with s ''0X'' then digits_or_nan 16 (drop 2 s)
         else if starts_with s ''0o'' \<or> starts_with s ''0O'' then digits_or_nan 8 (drop 2 s)
         else if starts_with s ''0b'' \<or> starts_with s ''0B'' then digits_or_nan 2 (drop 2 s)
         else signed_decimal s)"

section \<open>Decimal texts\<close>

lemma trim_digits:
  assumes "decimal_digits s"
  shows "trim s = s"
proof (rule trim_trimmed_id)
  have "\<not> is_space x" if x: "x \<in> set s" for x
  proof -
    from assms x obtain d where "d < 10" "x = digit_char d" by (auto simp: decimal_digits_def)
    then show ?thesis by (simp add: digit_char_facts(6))
  qed
  then show "trimmed s" by (cases "s = []") (auto simp: trimmed_def)
qed

lemma digit_text_free:
  assumes "(of_char c :: nat) < 48 \<or> 57 < (of_char c :: nat)"
  shows "c \<notin> set (nat_text 10 n)"
proof
  assume "c \<in> set (nat_text 10 n)"
  with nat_text_digits [of n] obtain e where e: "e < 10" "c = digit_char e"
    by (auto simp: decimal_digits_def)
  then have "(of_char c :: nat) = 48 + e" by (simp add: of_digit_char)
  with assms e show False by linarith
qed

lemma signed_decimal_nat: "signed_decimal (nat_text 10 n) = Finite (real n)"
proof -
  let ?s = "nat_text 10 n"
  have d: "decimal_digits ?s" by (rule nat_text_digits)
  have sg: "\<not> starts_with ?s [c]" if "c \<notin> set ?s" for c
    using that by (auto simp: starts_with_append)
  have inf: "?s \<noteq> ''Infinity''" using digit_text_free [of "CHR ''I''" n] by auto
  have rest: "decimal_digits ?s \<Longrightarrow> dropWhile (is_digit 10) ?s = []"
    using decimal_digits_takeWhile [OF d] by (metis append_self_conv takeWhile_dropWhile_id)
  have "unsigned_decimal ?s = Some (real n)"
    by (simp add: unsigned_decimal_def decimal_digits_takeWhile [OF d] rest [OF d] starts_with_def
        exponent_part_def digits_value_text)
  then show ?thesis using sg [OF digit_text_free] inf by (simp add: signed_decimal_def)
qed

lemma Number_text_nat: "Number_text (nat_text 10 n) = Finite (real n)"
proof -
  let ?s = "nat_text 10 n"
  have "\<not> starts_with ?s [CHR ''0'', c]" if "c \<notin> set ?s" for c
    using that by (auto simp: starts_with_append)
  from this [OF digit_text_free] show ?thesis
    by (simp add: Number_text_def signed_decimal_nat trim_digits [OF nat_text_digits] nat_text_not_Nil)
qed

end
