(* ===== verification/WebServer.thy ===== *)
theory WebServer
  imports WebBase JsNumberText
begin

text \<open>
  The server of the web application (packages/web/src/app/api, utils/remote-api.ts, proxy.ts): the
  configuration and its cache, nonces and sign-in, profiles, members, synchronisation of powers,
  and the proxy that authenticates requests.

  \<^item> \<open>Env\<close> is what does not change while the server runs: the environment variables and the
    libraries it calls (message verification, tokens, the nonce cache, YAML, the encoding of the
    payload header, the database driver's reading of a value).
  \<^item> \<open>World\<close> is what one request meets: the time, random values, the answers of other services and
    which of its statements the database refuses.
  \<^item> A statement is what its text says of the tables \<open>d_user\<close> and \<open>d_avatar\<close>; rows are lists in
    insertion order, which decides where a statement leaves the order open.
\<close>

section \<open>Data\<close>

record DUser =
  du_id :: string
  du_address :: string
  du_dao_code :: "string option"
  du_power :: "string option"
  du_name :: "string option"
  du_email :: "string option"
  du_twitter :: "string option"
  du_github :: "string option"
  du_discord :: "string option"
  du_telegram :: "string option"
  du_medium :: "string option"
  du_delegate_statement :: "string option"
  du_additional :: "string option"
  du_last_login_time :: nat
  du_ctime :: nat
  du_utime :: "nat option"

record DAvatar =
  av_id :: string
  av_image :: string
  av_ctime :: nat
  av_utime :: "nat option"

record WebConfig =
  cfg_code :: string
  cfg_indexer_endpoint :: string

datatype NonceSource = generated | remote

datatype RespData =
    TextData string
  | TokenData string
  | NonceData string NonceSource
  | UserData "(DUser \<times> string option) option"
  | UsersData "DUser list"
  | MembersData "(nat \<times> DUser \<times> string option) list"
  | MetricsData nat
  | InvalidMethods "json option list"

datatype Answer =
    Json nat "RespData Resp"
  | ErrorJson nat string
  | LogAnswer
  | NotFound

text \<open>The messages the server signs in with, once verified.\<close>

record SiweFields =
  siwe_nonce :: string
  siwe_address :: string

record FetchReply =
  reply_ok :: bool
  reply_status :: int
  reply_text :: string

record NonceReply =
  nonce_ok :: bool
  nonce_value :: "string option"

datatype ContributorsReply =
    GraphqlErrors
  | Contributors "string list"

type_synonym headers = "string \<rightharpoonup> string"

record 'c Env =
  JWT_SECRET_KEY :: "string option"
  DATABASE_URL :: "string option"
  DEGOV_SYNC_AUTH_TOKEN :: "string option"
  NEXT_PUBLIC_LOCAL_CONFIG :: "string option"
  NEXT_PUBLIC_DEGOV_API :: "string option"
  NEXT_PUBLIC_DEGOV_DAO :: "string option"
  config_file :: "string outcome"
  yaml_load :: "string \<Rightarrow> WebConfig option outcome"
  siwe_verify :: "json option \<Rightarrow> json option \<Rightarrow> SiweFields outcome"
  jwt_sign :: "string \<Rightarrow> string \<Rightarrow> nat \<Rightarrow> string"
  jwt_verify :: "string \<Rightarrow> string \<Rightarrow> nat \<Rightarrow> json outcome"
  encode_payload :: "json \<Rightarrow> string"
  decode_payload :: "string \<Rightarrow> json outcome"
  forward_headers :: "headers \<Rightarrow> string \<Rightarrow> headers"
  loosely_equal :: "string \<Rightarrow> json \<Rightarrow> bool"
  sql_text :: "json \<Rightarrow> string"
  cache_empty :: 'c
  cache_set :: "nat \<Rightarrow> string \<Rightarrow> 'c \<Rightarrow> 'c"
  cache_has :: "nat \<Rightarrow> string \<Rightarrow> 'c \<Rightarrow> bool"
  cache_del :: "string \<Rightarrow> 'c \<Rightarrow> 'c"

record World =
  w_now :: nat
  w_random :: string
  w_snowflake :: string
  w_config_reply :: "string \<Rightarrow> string \<Rightarrow> FetchReply outcome"
  w_nonce_reply :: "string \<Rightarrow> NonceReply outcome"
  w_contributors :: "string \<Rightarrow> string \<Rightarrow> ContributorsReply outcome"
  w_sql :: "nat \<Rightarrow> failure option"

record Request =
  req_method :: string
  req_pathname :: string
  req_headers :: headers
  req_query :: "string \<rightharpoonup> string"
  req_body :: "json outcome"

record 'c Server =
  nonces :: 'c
  d_users :: "DUser list"
  d_avatars :: "DAvatar list"
  cachedConfig :: "string \<rightharpoonup> WebConfig option"
  connectedSql :: bool

definition new_server :: "'c Env \<Rightarrow> 'c Server" where
  "new_server E =
     \<lparr>nonces = cache_empty E, d_users = [], d_avatars = [], cachedConfig = Map.empty,
      connectedSql = False\<rparr>"

definition failure_message :: "failure \<Rightarrow> string" where
  "failure_message e = (case e of StoreFailure t \<Rightarrow> t | TypeError t \<Rightarrow> t | ThrownError t \<Rightarrow> t)"

section \<open>Configuration\<close>

definition isLocalConfigEnabled :: "'c Env \<Rightarrow> bool" where
  "isLocalConfigEnabled E \<longleftrightarrow>
     to_lower (case NEXT_PUBLIC_LOCAL_CONFIG E of None \<Rightarrow> [] | Some t \<Rightarrow> t) = ''enable''"

definition isDegovApiConfiguredServer :: "'c Env \<Rightarrow> bool" where
  "isDegovApiConfiguredServer E \<longleftrightarrow>
     \<not> isLocalConfigEnabled E \<and> setting (NEXT_PUBLIC_DEGOV_API E) \<noteq> None"

definition degovGraphqlApi :: "'c Env \<Rightarrow> string option" where
  "degovGraphqlApi E = map_option (\<lambda>u. u @ ''/graphql'') (setting (NEXT_PUBLIC_DEGOV_API E))"

definition degovApiDaoConfig :: "'c Env \<Rightarrow> string option" where
  "degovApiDaoConfig E =
     (if isLocalConfigEnabled E then None
      else case setting (NEXT_PUBLIC_DEGOV_API E) of
        None \<Rightarrow> None
      | Some api \<Rightarrow>
          (case setting (NEXT_PUBLIC_DEGOV_DAO E) of
             Some dao \<Rightarrow> Some (api @ ''/dao/config/'' @ dao @ ''?format=yml'')
           | None \<Rightarrow> Some (api @ ''/dao/config?format=yml'')))"

definition remember_config ::
  "string \<Rightarrow> WebConfig option \<Rightarrow> ('c Server, WebConfig option) action" where
  "remember_config host cfg s = (Inr cfg, s \<lparr>cachedConfig := (cachedConfig s)(host \<mapsto> cfg)\<rparr>)"

definition fetched_config :: "'c Env \<Rightarrow> World \<Rightarrow> string \<Rightarrow> string \<Rightarrow> ('c Server, WebConfig option) action" where
  "fetched_config E w apiUrl host =
     after (settled (w_config_reply w apiUrl host)) (\<lambda>response.
       if \<not> reply_ok response
       then throw (ThrownError (''API responded with '' @ decimal (reply_status response) @ '' -> '' @ apiUrl))
       else after (settled (yaml_load E (reply_text response))) (remember_config host))"

definition degovConfig :: "'c Env \<Rightarrow> World \<Rightarrow> headers \<Rightarrow> ('c Server, WebConfig option) action" where
  "degovConfig E w hs s =
     (case setting (hs ''host'') of
        None \<Rightarrow> throw (ThrownError ''Host header is missing in the request.'') s
      | Some host \<Rightarrow>
          (case cachedConfig s host of
             Some (Some cfg) \<Rightarrow> (Inr (Some cfg), s)
           | _ \<Rightarrow>
               let s1 = s \<lparr>cachedConfig := (cachedConfig s)(host := None)\<rparr>
               in if isDegovApiConfiguredServer E then
                    (case degovApiDaoConfig E of
                       None \<Rightarrow> throw (ThrownError ''Remote API is not configured properly.'') s1
                     | Some apiUrl \<Rightarrow> fetched_config E w apiUrl host s1)
                  else
                    after (settled (config_file E)) (\<lambda>yamlText.
                    after (settled (yaml_load E yamlText)) (remember_config host)) s1))"

definition daocode_of :: "WebConfig option \<Rightarrow> string outcome" where
  "daocode_of cfg = (case cfg of None \<Rightarrow> Inl (TypeError ''undefined'') | Some c \<Rightarrow> Inr (cfg_code c))"

section \<open>The database\<close>

definition databaseConnection :: "'c Env \<Rightarrow> ('c Server, unit) action" where
  "databaseConnection E s =
     (if connectedSql s then (Inr (), s)
      else case setting (DATABASE_URL E) of
        None \<Rightarrow> throw (ThrownError ''missing database please contact admin'') s
      | Some _ \<Rightarrow> (Inr (), s \<lparr>connectedSql := True\<rparr>))"

text \<open>The \<open>k\<close>-th statement of a request: refused, or a query of and a change to the tables.\<close>

definition query :: "World \<Rightarrow> nat \<Rightarrow> ('c Server \<Rightarrow> 'a) \<Rightarrow> ('c Server, 'a) action" where
  "query w k f s = (case w_sql w k of Some e \<Rightarrow> (Inl e, s) | None \<Rightarrow> (Inr (f s), s))"

definition change :: "World \<Rightarrow> nat \<Rightarrow> ('c Server \<Rightarrow> 'c Server outcome) \<Rightarrow> ('c Server, unit) action" where
  "change w k f s =
     (case w_sql w k of
        Some e \<Rightarrow> (Inl e, s)
      | None \<Rightarrow> (case f s of Inl e \<Rightarrow> (Inl e, s) | Inr s' \<Rightarrow> (Inr (), s')))"

definition user_of :: "string \<Rightarrow> string \<Rightarrow> DUser list \<Rightarrow> DUser option" where
  "user_of address daocode us = find (\<lambda>u. du_address u = address \<and> du_dao_code u = Some daocode) us"

definition update_users :: "(DUser \<Rightarrow> bool) \<Rightarrow> (DUser \<Rightarrow> DUser) \<Rightarrow> 'c Server \<Rightarrow> 'c Server outcome" where
  "update_users P f s = Inr (s \<lparr>d_users := map (\<lambda>u. if P u then f u else u) (d_users s)\<rparr>)"

definition insert_user :: "DUser \<Rightarrow> 'c Server \<Rightarrow> 'c Server outcome" where
  "insert_user u s =
     (if \<exists>v \<in> set (d_users s). du_id v = du_id u then Inl (StoreFailure ''d_user_pkey'')
      else Inr (s \<lparr>d_users := d_users s @ [u]\<rparr>))"

definition avatar_of :: "string \<Rightarrow> DAvatar list \<Rightarrow> DAvatar option" where
  "avatar_of uid as = find (\<lambda>a. av_id a = uid) as"

section \<open>Nonces\<close>

definition remote_nonce :: "'c Env \<Rightarrow> World \<Rightarrow> string option" where
  "remote_nonce E w =
     (case degovGraphqlApi E of
        None \<Rightarrow> None
      | Some endpoint \<Rightarrow>
          (case w_nonce_reply w endpoint of
             Inl _ \<Rightarrow> None
           | Inr response \<Rightarrow> if nonce_ok response then setting (nonce_value response) else None))"

definition nonce_route :: "'c Env \<Rightarrow> World \<Rightarrow> 'c Server \<Rightarrow> Answer \<times> 'c Server" where
  "nonce_route E w s =
     (let (nonce, source) = (case remote_nonce E w of
                               None \<Rightarrow> (w_random w, generated) | Some n \<Rightarrow> (n, remote))
      in (Json 200 (Resp_ok (NonceData nonce source)),
          s \<lparr>nonces := cache_set E (w_now w) nonce (nonces s)\<rparr>))"

text \<open>Checking and removing a nonce happens without an await between.\<close>

definition take_nonce :: "'c Env \<Rightarrow> World \<Rightarrow> string \<Rightarrow> ('c Server, bool) action" where
  "take_nonce E w nonce s =
     (if cache_has E (w_now w) nonce (nonces s)
      then (Inr True, s \<lparr>nonces := cache_del E nonce (nonces s)\<rparr>)
      else (Inr False, s))"

section \<open>Signing in\<close>

definition inspectContributor ::
  "'c Env \<Rightarrow> World \<Rightarrow> headers \<Rightarrow> string \<Rightarrow> ('c Server, string option) action" where
  "inspectContributor E w hs address =
     after (degovConfig E w hs) (\<lambda>dc.
       case dc of
         None \<Rightarrow> return None
       | Some c \<Rightarrow>
           after (settled (w_contributors w (cfg_indexer_endpoint c) (to_lower address))) (\<lambda>res.
             case res of
               GraphqlErrors \<Rightarrow> return None
             | Contributors [] \<Rightarrow> return None
             | Contributors (p # _) \<Rightarrow> return (Some p)))"

definition new_user :: "World \<Rightarrow> string \<Rightarrow> string \<Rightarrow> int \<Rightarrow> DUser" where
  "new_user w daocode address p =
     \<lparr>du_id = w_snowflake w, du_address = address, du_dao_code = Some daocode,
      du_power = Some (hexPower p), du_name = None, du_email = None, du_twitter = None,
      du_github = None, du_discord = None, du_telegram = None, du_medium = None,
      du_delegate_statement = None, du_additional = None, du_last_login_time = w_now w,
      du_ctime = w_now w, du_utime = None\<rparr>"

definition store_login ::
  "'c Env \<Rightarrow> World \<Rightarrow> headers \<Rightarrow> string \<Rightarrow> string \<Rightarrow> ('c Server, unit) action" where
  "store_login E w hs daocode address =
     after (databaseConnection E) (\<lambda>_.
     after (query w 0 (\<lambda>s. user_of address daocode (d_users s))) (\<lambda>storedUser.
       case storedUser of
         None \<Rightarrow>
           after (inspectContributor E w hs address) (\<lambda>contributor.
           after (settled (BigInt_text (case contributor of None \<Rightarrow> ''0'' | Some p \<Rightarrow> p))) (\<lambda>p.
             change w 1 (insert_user (new_user w daocode address p))))
       | Some u \<Rightarrow>
           change w 1 (update_users (\<lambda>v. du_id v = du_id u)
             (\<lambda>v. v \<lparr>du_last_login_time := w_now w, du_utime := Some (w_now w)\<rparr>))))"

definition login :: "'c Env \<Rightarrow> World \<Rightarrow> Request \<Rightarrow> ('c Server, Answer) action" where
  "login E w r =
     after (degovConfig E w (req_headers r)) (\<lambda>cfg.
     after (settled (daocode_of cfg)) (\<lambda>daocode.
       case setting (JWT_SECRET_KEY E) of
         None \<Rightarrow> return (Json 400 (Resp_err ''please contact admin about login issue, missing key''))
       | Some key \<Rightarrow>
           after (settled (req_body r)) (\<lambda>body.
           after (settled (property (Some body) ''message'')) (\<lambda>message.
           after (settled (property (Some body) ''signature'')) (\<lambda>signature.
             case siwe_verify E message signature of
               Inl _ \<Rightarrow> return (Json 400 (Resp_err ''invalid message''))
             | Inr signed \<Rightarrow>
                 after (take_nonce E w (siwe_nonce signed)) (\<lambda>nonceValid.
                   if \<not> nonceValid
                   then return (Json 400 (Resp_err
                     (''nonce ('' @ siwe_nonce signed @ '') expired or invalid, please get a new nonce'')))
                   else
                     let address = to_lower (siwe_address signed);
                         token = jwt_sign E key address (w_now w)
                     in after (store_login E w (req_headers r) daocode address) (\<lambda>_.
                          return (Json 200 (Resp_ok (TokenData token))))))))))"

definition login_route :: "'c Env \<Rightarrow> World \<Rightarrow> Request \<Rightarrow> 'c Server \<Rightarrow> Answer \<times> 'c Server" where
  "login_route E w r =
     catching (login E w r)
       (\<lambda>err. Json 400 (Resp_errWithData ''logion failed'' (TextData (failure_message err))))"

section \<open>Profiles\<close>

definition profile_address :: "Request \<Rightarrow> string" where
  "profile_address r = to_lower (replace_first ''/api/profile/'' [] (req_pathname r))"

definition missing_database :: Answer where
  "missing_database = Json 400 (Resp_err ''missing database please contact admin'')"

definition get_profile :: "'c Env \<Rightarrow> World \<Rightarrow> Request \<Rightarrow> ('c Server, Answer) action" where
  "get_profile E w r =
     after (degovConfig E w (req_headers r)) (\<lambda>cfg.
     after (settled (daocode_of cfg)) (\<lambda>daocode.
       if setting (DATABASE_URL E) = None then return missing_database
       else
         after (databaseConnection E) (\<lambda>_.
         after (query w 0 (\<lambda>s.
             map_option (\<lambda>u. (u, map_option av_image (avatar_of (du_id u) (d_avatars s))))
               (user_of (profile_address r) daocode (d_users s)))) (\<lambda>storedUser.
           return (Json 200 (Resp_ok (UserData storedUser)))))))"

definition get_profile_route :: "'c Env \<Rightarrow> World \<Rightarrow> Request \<Rightarrow> 'c Server \<Rightarrow> Answer \<times> 'c Server" where
  "get_profile_route E w r =
     catching (get_profile E w r)
       (\<lambda>err. Json 400 (Resp_errWithData ''failed to fetch profile'' (TextData (failure_message err))))"

text \<open>The comparison \<open>address != authPayload.address\<close>.\<close>

definition same_address :: "'c Env \<Rightarrow> string \<Rightarrow> json option \<Rightarrow> bool" where
  "same_address E address j =
     (case j of
        None \<Rightarrow> False
      | Some JNull \<Rightarrow> False
      | Some (JString t) \<Rightarrow> address = t
      | Some x \<Rightarrow> loosely_equal E address x)"

definition form_text :: "'c Env \<Rightarrow> (string \<Rightarrow> json option) \<Rightarrow> string \<Rightarrow> string option" where
  "form_text E body k = Some (sql_text E (or_default (body k) (JString [])))"

definition profile_fields :: "'c Env \<Rightarrow> World \<Rightarrow> (string \<Rightarrow> json option) \<Rightarrow> DUser \<Rightarrow> DUser" where
  "profile_fields E w body u =
     u \<lparr>du_name := form_text E body ''name'', du_email := form_text E body ''email'',
        du_twitter := form_text E body ''twitter'', du_github := form_text E body ''github'',
        du_discord := form_text E body ''discord'', du_telegram := form_text E body ''telegram'',
        du_medium := form_text E body ''medium'',
        du_delegate_statement := form_text E body ''delegate_statement'',
        du_additional := form_text E body ''additional'', du_utime := Some (w_now w)\<rparr>"

definition store_avatar :: "'c Env \<Rightarrow> World \<Rightarrow> string \<Rightarrow> json \<Rightarrow> ('c Server, unit) action" where
  "store_avatar E w uid img =
     after (query w 2 (\<lambda>s. avatar_of uid (d_avatars s))) (\<lambda>storedAvatar.
       change w 3 (\<lambda>s. Inr (case storedAvatar of
           Some _ \<Rightarrow> s \<lparr>d_avatars := map (\<lambda>a. if av_id a = uid
               then a \<lparr>av_image := sql_text E img, av_utime := Some (w_now w)\<rparr> else a) (d_avatars s)\<rparr>
         | None \<Rightarrow> s \<lparr>d_avatars := d_avatars s @
             [\<lparr>av_id = uid, av_image = sql_text E img, av_ctime = w_now w,
               av_utime = Some (w_now w)\<rparr>]\<rparr>)))"

definition update_profile ::
  "'c Env \<Rightarrow> World \<Rightarrow> string \<Rightarrow> string \<Rightarrow> json \<Rightarrow> ('c Server, Answer) action" where
  "update_profile E w address daocode form =
     after (databaseConnection E) (\<lambda>_.
     after (query w 0 (\<lambda>s. user_of address daocode (d_users s))) (\<lambda>storedUser.
       case storedUser of
         None \<Rightarrow> return (Json 200 (Resp_err ''unreachable, qed''))
       | Some u \<Rightarrow>
           after (settled (property (Some form) ''name'')) (\<lambda>_.
             let body = (\<lambda>k. case property (Some form) k of Inl _ \<Rightarrow> None | Inr v \<Rightarrow> v)
             in after (change w 1 (update_users (\<lambda>v. du_id v = du_id u) (profile_fields E w body))) (\<lambda>_.
                after (case body ''avatar'' of
                         Some img \<Rightarrow> if truthy (Some img) then store_avatar E w (du_id u) img else return ()
                       | None \<Rightarrow> return ()) (\<lambda>_.
                  return (Json 200 (Resp_ok (TextData ''success''))))))))"

definition post_profile :: "'c Env \<Rightarrow> World \<Rightarrow> Request \<Rightarrow> ('c Server, Answer) action" where
  "post_profile E w r =
     (case req_headers r ''x-degov-auth-payload'' of
        None \<Rightarrow> throw (TypeError ''null'')
      | Some encodedPayload \<Rightarrow>
          after (settled (decode_payload E encodedPayload)) (\<lambda>authPayload.
          after (settled (property (Some authPayload) ''address'')) (\<lambda>payloadAddress.
            if \<not> same_address E (profile_address r) payloadAddress
            then return (Json 401 (Resp_err ''permission denied''))
            else
              after (settled (req_body r)) (\<lambda>form.
              after (degovConfig E w (req_headers r)) (\<lambda>cfg.
              after (settled (daocode_of cfg)) (\<lambda>daocode.
                if setting (DATABASE_URL E) = None then return missing_database
                else update_profile E w (profile_address r) daocode form))))))"

definition post_profile_route :: "'c Env \<Rightarrow> World \<Rightarrow> Request \<Rightarrow> 'c Server \<Rightarrow> Answer \<times> 'c Server" where
  "post_profile_route E w r =
     catching (post_profile E w r)
       (\<lambda>err. Json 400 (Resp_errWithData ''failed to update profile'' (TextData (failure_message err))))"

end
