(* ===== verification/WebRoutes.thy ===== *)
theory WebRoutes
  imports WebServer "HOL-Library.Char_ord" "HOL-Library.List_Lexorder" "HOL-Library.Option_ord"
    "HOL-Library.Product_Lexorder"
begin

text \<open>
  The routes over all members, the synchronisation of powers, the proxy (proxy.ts) and the server
  as a function from requests to answers (packages/web/src/app/api).
\<close>

section \<open>Members\<close>

text \<open>The ranking of the window function: empty powers count as none, none comes last.\<close>

definition ranking_key :: "DUser \<Rightarrow> string option \<times> nat" where
  "ranking_key u = (setting (du_power u), du_ctime u)"

definition ranked_users :: "string \<Rightarrow> DUser list \<Rightarrow> DUser list" where
  "ranked_users daocode us =
     rev (sort_key ranking_key (rev (filter (\<lambda>u. du_dao_code u = Some daocode) us)))"

definition ranked_members :: "string \<Rightarrow> 'c Server \<Rightarrow> (nat \<times> DUser \<times> string option) list" where
  "ranked_members daocode s =
     map (\<lambda>(rn, u). (rn, u, map_option av_image (avatar_of (du_id u) (d_avatars s))))
       (let us = ranked_users daocode (d_users s) in zip [1..<Suc (length us)] us)"

text \<open>A number as the \<open>bigint\<close> parameter of a statement.\<close>

definition bigint_param :: "js_number \<Rightarrow> int outcome" where
  "bigint_param x =
     (case x of
        Finite r \<Rightarrow> if r = of_int \<lfloor>r\<rfloor> then Inr \<lfloor>r\<rfloor> else Inl (StoreFailure ''invalid input syntax'')
      | _ \<Rightarrow> Inl (StoreFailure ''invalid input syntax''))"

definition select_members :: "string \<Rightarrow> js_number \<Rightarrow> js_number \<Rightarrow> 'c Server \<Rightarrow> RespData outcome" where
  "select_members daocode checkpoint limit s =
     and_then (bigint_param checkpoint) (\<lambda>c.
     and_then (bigint_param limit) (\<lambda>n.
       if n < 0 then Inl (StoreFailure ''LIMIT must not be negative'')
       else Inr (MembersData (take (nat n) (filter (\<lambda>(rn, _). int rn > c) (ranked_members daocode s))))))"

definition members :: "'c Env \<Rightarrow> World \<Rightarrow> Request \<Rightarrow> ('c Server, Answer) action" where
  "members E w r =
     (let limit = (case req_query r ''limit'' of None \<Rightarrow> Finite 10 | Some t \<Rightarrow> Number_text t);
          checkpoint = (case setting (req_query r ''checkpoint'') of
                          None \<Rightarrow> Finite 0
                        | Some t \<Rightarrow> (case Number_text t of NaN \<Rightarrow> Finite 0 | x \<Rightarrow> x))
      in after (degovConfig E w (req_headers r)) (\<lambda>cfg.
         after (settled (daocode_of cfg)) (\<lambda>daocode.
         after (databaseConnection E) (\<lambda>_.
         after (query w 0 (select_members daocode checkpoint limit)) (\<lambda>found.
         after (settled found) (\<lambda>rows.
           return (Json 200 (Resp_ok rows))))))))"

definition members_route :: "'c Env \<Rightarrow> World \<Rightarrow> Request \<Rightarrow> 'c Server \<Rightarrow> Answer \<times> 'c Server" where
  "members_route E w r =
     catching (members E w r)
       (\<lambda>err. Json 400 (Resp_errWithData ''failed to fetch members'' (TextData (failure_message err))))"

definition metrics :: "'c Env \<Rightarrow> World \<Rightarrow> Request \<Rightarrow> ('c Server, Answer) action" where
  "metrics E w r =
     after (degovConfig E w (req_headers r)) (\<lambda>cfg.
     after (settled (daocode_of cfg)) (\<lambda>daocode.
     after (databaseConnection E) (\<lambda>_.
     after (query w 0 (\<lambda>s. length (filter (\<lambda>u. du_dao_code u = Some daocode) (d_users s)))) (\<lambda>c.
       return (Json 200 (Resp_ok (MetricsData c)))))))"

definition metrics_route :: "'c Env \<Rightarrow> World \<Rightarrow> Request \<Rightarrow> 'c Server \<Rightarrow> Answer \<times> 'c Server" where
  "metrics_route E w r =
     catching (metrics E w r)
       (\<lambda>err. Json 400 (Resp_errWithData ''failed to fetch members'' (TextData (failure_message err))))"

text \<open>
  The profiles of a list of addresses. A body counts when its \<open>length\<close> does; a text becomes
  the name of a column, which the statement does not know, an object the list of its values.
\<close>

definition pulled_values :: "json \<Rightarrow> json list outcome option" where
  "pulled_values body =
     (case body of
        JArray xs \<Rightarrow> if xs = [] then None else Some (Inr xs)
      | JString t \<Rightarrow> if t = [] then None else Some (Inl (StoreFailure ''syntax error''))
      | JObject fs \<Rightarrow> if truthy (map_of fs ''length'') then Some (Inr (map snd fs)) else None
      | _ \<Rightarrow> None)"

definition pull :: "'c Env \<Rightarrow> World \<Rightarrow> Request \<Rightarrow> ('c Server, Answer) action" where
  "pull E w r =
     after (settled (req_body r)) (\<lambda>body.
       case pulled_values body of
         None \<Rightarrow> return (Json 400 (Resp_err ''missing request body''))
       | Some values \<Rightarrow>
           after (degovConfig E w (req_headers r)) (\<lambda>cfg.
           after (settled (daocode_of cfg)) (\<lambda>daocode.
           after (databaseConnection E) (\<lambda>_.
           after (settled values) (\<lambda>addresses.
           after (query w 0 (\<lambda>s. filter (\<lambda>u. du_address u \<in> sql_text E ` set addresses \<and>
               du_dao_code u = Some daocode) (d_users s))) (\<lambda>found.
             return (Json 200 (Resp_ok (UsersData found)))))))))"

definition pull_route :: "'c Env \<Rightarrow> World \<Rightarrow> Request \<Rightarrow> 'c Server \<Rightarrow> Answer \<times> 'c Server" where
  "pull_route E w r =
     catching (pull E w r)
       (\<lambda>err. Json 400 (Resp_errWithData ''failed to fetch profiles'' (TextData (failure_message err))))"

section \<open>Synchronised powers\<close>

definition sync_user_power ::
  "'c Env \<Rightarrow> World \<Rightarrow> string \<Rightarrow> nat \<Rightarrow> json \<Rightarrow> ('c Server, unit) action" where
  "sync_user_power E w daocode k payload =
     after (settled (property (Some payload) ''body'')) (\<lambda>body.
     after (settled (property body ''address'')) (\<lambda>address.
     after (settled (property body ''power'')) (\<lambda>p.
     after (settled (BigInt_json p)) (\<lambda>n.
       change w k (case address of
         None \<Rightarrow> (\<lambda>s. Inl (StoreFailure ''UNDEFINED_VALUE''))
       | Some a \<Rightarrow> update_users (\<lambda>u. du_address u = sql_text E a \<and> du_dao_code u = Some daocode)
                    (\<lambda>u. u \<lparr>du_power := Some (hexPower n)\<rparr>))))))"

fun sync_payloads ::
  "'c Env \<Rightarrow> World \<Rightarrow> string \<Rightarrow> nat \<Rightarrow> json list \<Rightarrow> json option list \<Rightarrow>
   ('c Server, json option list) action" where
  "sync_payloads E w daocode k [] invalidMethods = return invalidMethods"
| "sync_payloads E w daocode k (p # ps) invalidMethods =
     after (settled (property (Some p) ''method'')) (\<lambda>m.
       if m = Some (JString ''sync.user.power'')
       then after (sync_user_power E w daocode k p) (\<lambda>_. sync_payloads E w daocode (Suc k) ps invalidMethods)
       else sync_payloads E w daocode k ps (invalidMethods @ [m]))"

definition sync :: "'c Env \<Rightarrow> World \<Rightarrow> Request \<Rightarrow> ('c Server, Answer) action" where
  "sync E w r =
     (case setting (DEGOV_SYNC_AUTH_TOKEN E) of
        None \<Rightarrow> return (Json 400 (Resp_err ''missing sync token please contact admin''))
      | Some settedSyncToken \<Rightarrow>
          if req_headers r ''x-degov-sync-token'' \<noteq> Some settedSyncToken
          then return (Json 400 (Resp_err ''missing or invalid sync token''))
          else case setting (req_headers r ''x-degov-daocode'') of
            None \<Rightarrow> return (Json 400 (Resp_err ''Missing DAO code. Please add x-degov-daocode header.''))
          | Some inputDaocode \<Rightarrow>
              after (settled (req_body r)) (\<lambda>payloads.
                case payloads of
                  JArray ps \<Rightarrow>
                    after (databaseConnection E) (\<lambda>_.
                    after (sync_payloads E w inputDaocode 0 ps []) (\<lambda>invalidMethods.
                      return (Json 200 (Resp_ok (InvalidMethods invalidMethods)))))
                | _ \<Rightarrow> return (Json 400 (Resp_err ''invalid payloads''))))"

definition sync_route :: "'c Env \<Rightarrow> World \<Rightarrow> Request \<Rightarrow> 'c Server \<Rightarrow> Answer \<times> 'c Server" where
  "sync_route E w r = catching (sync E w r) (\<lambda>_. Json 400 (Resp_err ''sync failed''))"

section \<open>The proxy\<close>

record NeedAuth =
  naa_method :: string
  naa_path :: string
  naa_mode :: "string option"

definition NEED_AUTH_APIS :: "NeedAuth list" where
  "NEED_AUTH_APIS = [\<lparr>naa_method = ''post'', naa_path = ''/api/profile/0x'', naa_mode = Some ''prefix''\<rparr>]"

fun need_auth :: "NeedAuth list \<Rightarrow> string \<Rightarrow> string \<Rightarrow> bool" where
  "need_auth [] apipath m = False"
| "need_auth (naa # naas) apipath m =
     (if naa_method naa \<noteq> m then need_auth naas apipath m
      else
        let mode = (case naa_mode naa of None \<Rightarrow> ''full'' | Some t \<Rightarrow> t)
        in if mode = ''prefix'' \<and> starts_with apipath (naa_path naa) then True
           else if mode = ''full'' \<and> apipath = naa_path naa then True
           else need_auth naas apipath m)"

text \<open>The proxy stops a request with an answer or lets it through with the headers a route sees.\<close>

datatype Proxied = Stop Answer | Next headers

definition masked_payload :: "json \<Rightarrow> json" where
  "masked_payload payload =
     (case payload of
        JObject fs \<Rightarrow> JObject (filter (\<lambda>(k, _). k \<noteq> ''iat'' \<and> k \<noteq> ''exp'') fs)
      | _ \<Rightarrow> JObject [])"

definition verifyAuth :: "'c Env \<Rightarrow> World \<Rightarrow> headers \<Rightarrow> Proxied" where
  "verifyAuth E w hs =
     (case hs ''authorization'' of
        None \<Rightarrow> Stop (ErrorJson 401 ''missing token'')
      | Some authHeader \<Rightarrow>
          if \<not> starts_with authHeader ''Bearer '' then Stop (ErrorJson 401 ''missing token'')
          else
            let degovToken = split_on (CHR '' '') authHeader ! 1
            in case setting (JWT_SECRET_KEY E) of
                 None \<Rightarrow> Stop (Json 200 (Resp_err ''please contact admin about login issue, missing key''))
               | Some key \<Rightarrow>
                   (case jwt_verify E key degovToken (w_now w) of
                      Inl _ \<Rightarrow> Stop (Json 401 (Resp_err ''wrong token''))
                    | Inr payload \<Rightarrow> Next (forward_headers E hs (encode_payload E (masked_payload payload)))))"

definition proxy :: "'c Env \<Rightarrow> World \<Rightarrow> Request \<Rightarrow> Proxied" where
  "proxy E w r =
     (if need_auth NEED_AUTH_APIS (to_lower (req_pathname r)) (to_lower (req_method r))
      then verifyAuth E w (req_headers r)
      else Next (req_headers r))"

section \<open>The server\<close>

text \<open>
  The framework's routing by path: a route's own name before the parameter \<open>[address]\<close>, which
  stands for one segment.
\<close>

definition profile_path :: "string \<Rightarrow> bool" where
  "profile_path p \<longleftrightarrow>
     (\<exists>seg. p = ''/api/profile/'' @ seg \<and> seg \<noteq> [] \<and> seg \<noteq> ''pull'' \<and> CHR ''/'' \<notin> set seg)"

lemma profile_path_code [code]:
  "profile_path p \<longleftrightarrow>
     starts_with p ''/api/profile/'' \<and>
     (let seg = drop 13 p in seg \<noteq> [] \<and> seg \<noteq> ''pull'' \<and> CHR ''/'' \<notin> set seg)"
proof -
  have "drop 13 (''/api/profile/'' @ u) = u" for u by simp
  then show ?thesis
    unfolding profile_path_def starts_with_append Let_def by metis
qed

definition route :: "'c Env \<Rightarrow> World \<Rightarrow> Request \<Rightarrow> 'c Server \<Rightarrow> Answer \<times> 'c Server" where
  "route E w r =
     (let p = req_pathname r; m = req_method r
      in if m = ''POST'' then
           if p = ''/api/auth/nonce'' then nonce_route E w
           else if p = ''/api/auth/login'' then login_route E w r
           else if p = ''/api/profile/pull'' then pull_route E w r
           else if p = ''/api/degov/sync'' then sync_route E w r
           else if p = ''/api/debug-log'' then Pair LogAnswer
           else if profile_path p then post_profile_route E w r
           else Pair NotFound
         else if m = ''GET'' then
           if p = ''/api/degov/members'' then members_route E w r
           else if p = ''/api/degov/metrics'' then metrics_route E w r
           else if profile_path p then get_profile_route E w r
           else Pair NotFound
         else Pair NotFound)"

definition serve :: "'c Env \<Rightarrow> World \<times> Request \<Rightarrow> 'c Server \<Rightarrow> Answer \<times> 'c Server" where
  "serve E wr s =
     (case wr of (w, r) \<Rightarrow>
        (case proxy E w r of
           Stop a \<Rightarrow> (a, s)
         | Next hs \<Rightarrow> route E w (r \<lparr>req_headers := hs\<rparr>) s))"

fun serve_all :: "'c Env \<Rightarrow> (World \<times> Request) list \<Rightarrow> 'c Server \<Rightarrow> Answer list \<times> 'c Server" where
  "serve_all E [] s = ([], s)"
| "serve_all E (wr # wrs) s =
     (case serve E wr s of (a, s') \<Rightarrow> (case serve_all E wrs s' of (as, s'') \<Rightarrow> (a # as, s'')))"

end
