(* ===== verification/WebSession.thy ===== *)
theory WebSession
  imports WebRoutes
begin

text \<open>
  What the server's properties rest on: the documented behaviour of the libraries it calls, the
  views of its state the properties speak of, and which of these each action keeps.
\<close>

section \<open>The libraries\<close>

text \<open>Nonces are kept for 180 seconds and until they are deleted.\<close>

definition cache_ok :: "'c Env \<Rightarrow> bool" where
  "cache_ok E \<longleftrightarrow>
     (\<forall>t k. \<not> cache_has E t k (cache_empty E)) \<and>
     (\<forall>t t0 k k' c. cache_has E t k (cache_set E t0 k' c) \<longleftrightarrow>
        (if k = k' then t \<le> t0 + 180000 else cache_has E t k c)) \<and>
     (\<forall>t k k' c. cache_has E t k (cache_del E k' c) \<longleftrightarrow> k \<noteq> k' \<and> cache_has E t k c)"

text \<open>A signed token verifies for five hours, to the address it was signed for.\<close>

definition token_ok :: "'c Env \<Rightarrow> bool" where
  "token_ok E \<longleftrightarrow>
     (\<forall>key address iat now.
        if now < iat + 18000000
        then \<exists>x y. jwt_verify E key (jwt_sign E key address iat) now =
               Inr (JObject [(''address'', JString address), (''iat'', x), (''exp'', y)])
        else \<exists>e. jwt_verify E key (jwt_sign E key address iat) now = Inl e)"

text \<open>The address of a verified sign-in message is a hexadecimal text.\<close>

definition siwe_ok :: "'c Env \<Rightarrow> bool" where
  "siwe_ok E \<longleftrightarrow>
     (\<forall>m sig f. siwe_verify E m sig = Inr f \<longrightarrow> starts_with (to_lower (siwe_address f)) ''0x'')"

section \<open>Profiles\<close>

definition profile_text :: "DUser \<Rightarrow> string option list" where
  "profile_text u =
     [du_name u, du_email u, du_twitter u, du_github u, du_discord u, du_telegram u, du_medium u,
      du_delegate_statement u, du_additional u]"

definition profile_view :: "'c Server \<Rightarrow> string \<Rightarrow> string option list option \<times> string option" where
  "profile_view s uid =
     (map_option profile_text (find (\<lambda>u. du_id u = uid) (d_users s)),
      map_option av_image (avatar_of uid (d_avatars s)))"

definition same_profiles :: "'c Server \<Rightarrow> 'c Server \<Rightarrow> bool" where
  "same_profiles s s' \<longleftrightarrow>
     (\<forall>u \<in> set (d_users s). profile_view s' (du_id u) = profile_view s (du_id u)) \<and>
     du_id ` set (d_users s) \<subseteq> du_id ` set (d_users s')"

lemma same_profiles_order: "reflp same_profiles" "transp same_profiles"
proof -
  show "reflp same_profiles" by (simp add: reflp_def same_profiles_def)
  show "transp same_profiles"
  proof (rule transpI)
    fix s t v :: "'c Server"
    assume st: "same_profiles s t" and tv: "same_profiles t v"
    have "profile_view v (du_id u) = profile_view s (du_id u)" if u: "u \<in> set (d_users s)" for u
    proof -
      from st u have "du_id u \<in> du_id ` set (d_users t)" by (auto simp: same_profiles_def)
      then obtain u' where "u' \<in> set (d_users t)" "du_id u = du_id u'" by auto
      with st tv u show ?thesis unfolding same_profiles_def by metis
    qed
    moreover have "du_id ` set (d_users s) \<subseteq> du_id ` set (d_users v)"
      using st tv unfolding same_profiles_def by (meson order_trans)
    ultimately show "same_profiles s v" by (simp add: same_profiles_def)
  qed
qed

text \<open>Changes that leave tables alone, or only touch other columns.\<close>

definition same_tables :: "'c Server \<Rightarrow> 'c Server \<Rightarrow> bool" where
  "same_tables s s' \<longleftrightarrow> d_users s' = d_users s \<and> d_avatars s' = d_avatars s"

lemma same_tables_order: "reflp same_tables" "transp same_tables"
  by (simp_all add: reflp_def transp_def same_tables_def)

lemma find_map_same:
  "(\<And>u. P (f u) = P u) \<Longrightarrow> find P (map f us) = map_option f (find P us)"
  by (induction us) auto

lemma find_append: "find P (xs @ ys) = (case find P xs of None \<Rightarrow> find P ys | Some x \<Rightarrow> Some x)"
  by (induction xs) auto

lemma same_profiles_tables: "same_tables s s' \<Longrightarrow> same_profiles s s'"
  by (simp add: same_tables_def same_profiles_def profile_view_def)

lemma same_profiles_update:
  assumes "update_users P f s = Inr s'" and "\<And>u. profile_text (f u) = profile_text u \<and> du_id (f u) = du_id u"
  shows "same_profiles s s'"
proof -
  have s': "s' = s \<lparr>d_users := map (\<lambda>u. if P u then f u else u) (d_users s)\<rparr>"
    using assms(1) by (simp add: update_users_def)
  have "profile_view s' uid = profile_view s uid" for uid
    by (auto simp: profile_view_def s' find_map_same assms(2) option.map_comp comp_def
        intro!: arg_cong [where f = "\<lambda>g. map_option g _"])
  moreover have "map du_id (d_users s') = map du_id (d_users s)" using assms(2) by (simp add: s')
  then have "du_id ` set (d_users s') = du_id ` set (d_users s)" by (metis set_map)
  ultimately show ?thesis by (simp add: same_profiles_def)
qed

lemma same_profiles_insert:
  assumes "insert_user u s = Inr s'"
  shows "same_profiles s s'"
  using assms
  by (auto simp: insert_user_def same_profiles_def profile_view_def find_append split: if_splits option.splits)

section \<open>Relations kept by the routes\<close>

text \<open>
  The contract of a relation between the states before and after: what the statements of the
  routes other than the profile update may do. Which rows may be inserted and which powers
  stored is a parameter.
\<close>

lemma keeps_config: "keeps same_tables (degovConfig E w hs)"
  by (auto simp: keeps_def degovConfig_def fetched_config_def after_def remember_config_def
      same_tables_def Let_def split: option.splits sum.splits prod.splits if_splits)

lemma keeps_connection: "keeps same_tables (databaseConnection E)"
  by (auto simp: keeps_def databaseConnection_def same_tables_def split: option.splits)

lemma keeps_take_nonce: "keeps same_tables (take_nonce E w n)"
  by (auto simp: keeps_def take_nonce_def same_tables_def)

definition contributed :: "World \<Rightarrow> string \<Rightarrow> bool" where
  "contributed w t \<longleftrightarrow> t = ''0'' \<or> (\<exists>e a ts. w_contributors w e a = Inr (Contributors (t # ts)))"

lemma inspectContributor_reply:
  assumes "inspectContributor E w hs a s = (Inr (Some t), s')"
  shows "contributed w t"
  using assms
  by (auto simp: inspectContributor_def contributed_def after_def
      split: prod.splits sum.splits option.splits ContributorsReply.splits list.splits)

locale table_relation =
  fixes E :: "'c Env"
    and R :: "'c Server \<Rightarrow> 'c Server \<Rightarrow> bool"
    and ok_user :: "DUser \<Rightarrow> bool"
    and ok_power :: "string \<Rightarrow> bool"
  assumes refl: "R s s"
    and trans: "R s t \<Longrightarrow> R t v \<Longrightarrow> R s v"
    and configured: "R s (s \<lparr>cachedConfig := c\<rparr>)"
    and opened: "R s (s \<lparr>connectedSql := True\<rparr>)"
    and taken: "R s (s \<lparr>nonces := cache_del E nonce (nonces s)\<rparr>)"
    and seen: "update_users P (\<lambda>v. v \<lparr>du_last_login_time := n, du_utime := Some n\<rparr>) s = Inr s' \<Longrightarrow> R s s'"
    and joined: "ok_user u \<Longrightarrow> insert_user u s = Inr s' \<Longrightarrow> R s s'"
    and stored: "ok_power p \<Longrightarrow> update_users P (\<lambda>u. u \<lparr>du_power := Some p\<rparr>) s = Inr s' \<Longrightarrow> R s s'"
begin

lemma order: "reflp R" "transp R"
  using refl trans by (auto simp: reflp_def intro: transpI)

lemmas pure = keeps_pure [OF order(1)]

lemma then_keeps:
  assumes "keeps R m" and "\<And>s x s'. m s = (Inr x, s') \<Longrightarrow> keeps R (f x)"
  shows "keeps R (after m f)"
proof (rule keepsI)
  fix s r s'
  assume "after m f s = (r, s')"
  then show "R s s'"
  proof (cases rule: after_cases)
    case (throws e)
    with assms(1) show ?thesis by (blast dest: keepsD)
  next
    case (goes_on x s1)
    from keepsD [OF assms(1) goes_on(1)] keepsD [OF assms(2) [OF goes_on(1)] goes_on(2)]
    show ?thesis by (rule trans)
  qed
qed

lemma reads: "keeps R (query w k f)"
  by (simp add: keeps_def query_def refl split: option.splits)

lemma writes: "(\<And>s s'. f s = Inr s' \<Longrightarrow> R s s') \<Longrightarrow> keeps R (change w k f)"
  by (auto simp: keeps_def change_def refl split: option.splits sum.splits)

lemma config: "keeps R (degovConfig E w hs)"
proof -
  have rem: "keeps R (remember_config host cfg)" for host cfg
    by (simp add: keeps_def remember_config_def configured)
  have "keeps R (fetched_config E w u host)" for u host
    unfolding fetched_config_def by (auto intro!: then_keeps pure rem)
  moreover have "keeps R (after (settled (config_file E)) (\<lambda>yamlText.
      after (settled (yaml_load E yamlText)) (remember_config host)))" for host
    by (auto intro!: then_keeps pure rem)
  ultimately have "R (s \<lparr>cachedConfig := c\<rparr>) (snd (fetched_config E w u host (s \<lparr>cachedConfig := c\<rparr>)))"
    "R (s \<lparr>cachedConfig := c\<rparr>) (snd (after (settled (config_file E)) (\<lambda>yamlText.
      after (settled (yaml_load E yamlText)) (remember_config host)) (s \<lparr>cachedConfig := c\<rparr>)))" for s c u host
    by (simp_all add: keeps_def)
  then have "R s (snd (fetched_config E w u host (s \<lparr>cachedConfig := c\<rparr>)))"
    "R s (snd (after (settled (config_file E)) (\<lambda>yamlText.
      after (settled (yaml_load E yamlText)) (remember_config host)) (s \<lparr>cachedConfig := c\<rparr>)))" for s c u host
    using configured trans by blast+
  then show ?thesis
    by (simp add: keeps_def degovConfig_def refl configured Let_def split: option.split)
qed

lemma connection: "keeps R (databaseConnection E)"
  by (simp add: keeps_def databaseConnection_def refl opened split: option.split)

lemma takes: "keeps R (take_nonce E w n)"
  by (simp add: keeps_def take_nonce_def refl taken)

lemmas steps = then_keeps pure reads config connection takes

lemma inspects: "keeps R (inspectContributor E w hs a)"
  unfolding inspectContributor_def
  by (auto intro!: steps split: option.split ContributorsReply.split list.split)

lemma store_login:
  assumes "\<And>t p. contributed w t \<Longrightarrow> BigInt_text t = Inr p \<Longrightarrow> ok_user (new_user w d a p)"
  shows "keeps R (store_login E w hs d a)"
proof -
  have ins: "keeps R (after (settled (BigInt_text t)) (\<lambda>p. change w 1 (insert_user (new_user w d a p))))"
    if "contributed w t" for t
  proof (rule then_keeps [OF pure(3)])
    fix s p s'
    assume "settled (BigInt_text t) s = (Inr p, s')"
    then have "BigInt_text t = Inr p" by simp
    with assms that show "keeps R (change w 1 (insert_user (new_user w d a p)))"
      by (blast intro: writes joined)
  qed
  have "keeps R (after (inspectContributor E w hs a) (\<lambda>contributor.
      after (settled (BigInt_text (case contributor of None \<Rightarrow> ''0'' | Some p \<Rightarrow> p)))
        (\<lambda>p. change w 1 (insert_user (new_user w d a p)))))"
  proof (rule then_keeps [OF inspects])
    fix s c s'
    assume "inspectContributor E w hs a s = (Inr c, s')"
    then have "contributed w (case c of None \<Rightarrow> ''0'' | Some p \<Rightarrow> p)"
      by (auto simp: contributed_def [of w "''0''"] dest: inspectContributor_reply split: option.splits)
    then show "keeps R (after (settled (BigInt_text (case c of None \<Rightarrow> ''0'' | Some p \<Rightarrow> p)))
        (\<lambda>p. change w 1 (insert_user (new_user w d a p))))"
      by (rule ins)
  qed
  then show ?thesis
    unfolding store_login_def
    by (auto intro!: steps writes seen split: option.split)
qed

lemma login:
  assumes "\<And>m sig f d t p. siwe_verify E m sig = Inr f \<Longrightarrow> contributed w t \<Longrightarrow>
      BigInt_text t = Inr p \<Longrightarrow> ok_user (new_user w d (to_lower (siwe_address f)) p)"
  shows "keeps R (login E w r)"
  unfolding login_def
  using store_login [OF assms]
  by (auto intro!: steps split: option.split sum.split simp: Let_def)

lemma get_profile: "keeps R (get_profile E w r)"
  unfolding get_profile_def by (auto intro!: steps)

lemma members: "keeps R (members E w r)"
  unfolding members_def Let_def by (intro steps)

lemma metrics: "keeps R (metrics E w r)"
  unfolding metrics_def by (intro steps)

lemma pull: "keeps R (pull E w r)"
  unfolding pull_def by (rule then_keeps [OF pure(3)]) (auto intro!: steps split: option.split)

lemma sync_payloads:
  assumes "\<And>p b n. p \<in> set ps \<Longrightarrow> property (Some p) ''body'' = Inr b \<Longrightarrow>
      property b ''power'' = Inr n \<Longrightarrow> (\<And>i. BigInt_json n = Inr i \<Longrightarrow> ok_power (hexPower i))"
  shows "keeps R (sync_payloads E w d k ps bad)"
  using assms
proof (induction ps arbitrary: k bad)
  case Nil
  show ?case unfolding sync_payloads.simps by (rule pure)
next
  case (Cons p ps)
  have rest: "keeps R (sync_payloads E w d k' ps bad')" for k' bad'
    by (rule Cons.IH) (use Cons.prems in auto)
  have "keeps R (sync_user_power E w d k p)"
    unfolding sync_user_power_def
  proof (rule then_keeps [OF pure(3)], rule then_keeps [OF pure(3)], rule then_keeps [OF pure(3)],
      rule then_keeps [OF pure(3)])
    fix s b s' s1 a s1' s2 n s2' s3 i s3'
    assume "settled (property (Some p) ''body'') s = (Inr b, s')"
      and "settled (property b ''power'') s2 = (Inr n, s2')"
      and "settled (BigInt_json n) s3 = (Inr i, s3')"
    then have "ok_power (hexPower i)" using Cons.prems [of p b n i] by simp
    then show "keeps R (change w k (case a of
        None \<Rightarrow> (\<lambda>s. Inl (StoreFailure ''UNDEFINED_VALUE''))
      | Some a \<Rightarrow> update_users (\<lambda>u. du_address u = sql_text E a \<and> du_dao_code u = Some d)
          (\<lambda>u. u \<lparr>du_power := Some (hexPower i)\<rparr>)))"
      by (auto intro!: writes stored split: option.splits)
  qed
  with rest show ?case unfolding sync_payloads.simps by (auto intro!: steps)
qed

lemma sync:
  assumes "\<And>ps p b n i. req_body r = Inr (JArray ps) \<Longrightarrow> p \<in> set ps \<Longrightarrow>
      property (Some p) ''body'' = Inr b \<Longrightarrow> property b ''power'' = Inr n \<Longrightarrow>
      BigInt_json n = Inr i \<Longrightarrow> ok_power (hexPower i)"
  shows "keeps R (sync E w r)"
proof -
  have "keeps R (after (settled (req_body r)) (\<lambda>payloads.
      case payloads of
        JArray ps \<Rightarrow>
          after (databaseConnection E) (\<lambda>_. after (sync_payloads E w d 0 ps []) (\<lambda>invalidMethods.
            return (Json 200 (Resp_ok (InvalidMethods invalidMethods)))))
      | _ \<Rightarrow> return (Json 400 (Resp_err ''invalid payloads''))))" for d
  proof (rule then_keeps [OF pure(3)])
    fix s body s'
    assume "settled (req_body r) s = (Inr body, s')"
    then have "req_body r = Inr body" by simp
    with assms have "keeps R (sync_payloads E w d 0 ps [])" if "body = JArray ps" for ps
      using that by (intro sync_payloads) blast
    then show "keeps R (case body of
        JArray ps \<Rightarrow>
          after (databaseConnection E) (\<lambda>_. after (sync_payloads E w d 0 ps []) (\<lambda>invalidMethods.
            return (Json 200 (Resp_ok (InvalidMethods invalidMethods)))))
      | _ \<Rightarrow> return (Json 400 (Resp_err ''invalid payloads'')))"
      by (auto intro!: steps split: json.split)
  qed
  then show ?thesis unfolding sync_def by (auto intro!: steps split: option.split)
qed

lemma caught: "keeps R m \<Longrightarrow> R s (snd (catching m h s))"
  by (metis catching_keeps prod.collapse)

lemma route_keeps:
  assumes ok_login: "\<And>m sig f d t p. siwe_verify E m sig = Inr f \<Longrightarrow> contributed w t \<Longrightarrow>
      BigInt_text t = Inr p \<Longrightarrow> ok_user (new_user w d (to_lower (siwe_address f)) p)"
    and ok_sync: "\<And>ps p b n i. req_body r = Inr (JArray ps) \<Longrightarrow> p \<in> set ps \<Longrightarrow>
      property (Some p) ''body'' = Inr b \<Longrightarrow> property b ''power'' = Inr n \<Longrightarrow>
      BigInt_json n = Inr i \<Longrightarrow> ok_power (hexPower i)"
    and nonce: "req_method r = ''POST'' \<Longrightarrow> req_pathname r = ''/api/auth/nonce'' \<Longrightarrow>
      R s (snd (nonce_route E w s))"
    and profile: "req_method r = ''POST'' \<Longrightarrow> profile_path (req_pathname r) \<Longrightarrow>
      R s (snd (post_profile_route E w r s))"
  shows "R s (snd (route E w r s))"
proof -
  have "keeps R (login E w r)" by (rule login) (rule ok_login)
  moreover have "keeps R (sync E w r)" by (rule sync) (rule ok_sync)
  ultimately have "R s (snd (login_route E w r s))" "R s (snd (sync_route E w r s))" "R s (snd (pull_route E w r s))"
    "R s (snd (members_route E w r s))" "R s (snd (metrics_route E w r s))"
    "R s (snd (get_profile_route E w r s))"
    unfolding login_route_def sync_route_def pull_route_def members_route_def metrics_route_def
      get_profile_route_def
    using pull members metrics get_profile
    by (simp_all add: caught)
  with profile nonce refl show ?thesis by (simp add: route_def Let_def)
qed

end

text \<open>A relation that also stands the profile update and every stored nonce.\<close>

locale row_relation = table_relation +
  assumes edited: "update_users P (profile_fields E w body) s = Inr s' \<Longrightarrow> R s s'"
    and pictured: "R s (s \<lparr>d_avatars := as\<rparr>)"
begin

lemma avatar: "keeps R (store_avatar E w uid img)"
  unfolding store_avatar_def
  by (auto intro!: steps writes pictured split: option.splits)

lemma post_profile: "keeps R (post_profile E w r)"
  unfolding post_profile_def update_profile_def Let_def
  by (auto intro!: steps writes avatar edited split: option.split)

lemma all_routes:
  assumes ok_login: "\<And>m sig f d t p. siwe_verify E m sig = Inr f \<Longrightarrow> contributed w t \<Longrightarrow>
      BigInt_text t = Inr p \<Longrightarrow> ok_user (new_user w d (to_lower (siwe_address f)) p)"
    and ok_sync: "\<And>ps p b n i. req_body r = Inr (JArray ps) \<Longrightarrow> p \<in> set ps \<Longrightarrow>
      property (Some p) ''body'' = Inr b \<Longrightarrow> property b ''power'' = Inr n \<Longrightarrow>
      BigInt_json n = Inr i \<Longrightarrow> ok_power (hexPower i)"
    and nonce: "req_method r = ''POST'' \<Longrightarrow> req_pathname r = ''/api/auth/nonce'' \<Longrightarrow>
      R s (snd (nonce_route E w s))"
  shows "R s (snd (route E w r s))"
proof (rule route_keeps)
  show "R s (snd (post_profile_route E w r s))"
    unfolding post_profile_route_def by (rule caught) (rule post_profile)
qed (fact ok_login ok_sync nonce)+

end

section \<open>The relations of the properties\<close>

text \<open>Profiles and avatars of the users there are.\<close>

interpretation profiles: table_relation E same_profiles "\<lambda>_. True" "\<lambda>_. True" for E :: "'c Env"
proof
  show "same_profiles s s" for s :: "'c Server" by (simp add: same_profiles_def)
  show "same_profiles s t \<Longrightarrow> same_profiles t v \<Longrightarrow> same_profiles s v" for s t v :: "'c Server"
    using same_profiles_order(2) by (rule transpD)
  show "same_profiles s (s \<lparr>cachedConfig := c\<rparr>)" "same_profiles s (s \<lparr>connectedSql := True\<rparr>)"
    "same_profiles s (s \<lparr>nonces := cache_del E n (nonces s)\<rparr>)" for s :: "'c Server" and c n
    by (simp_all add: same_profiles_tables same_tables_def)
  show "same_profiles s s'"
    if "update_users P (\<lambda>v. v \<lparr>du_last_login_time := n, du_utime := Some n\<rparr>) s = Inr s'"
    for P n and s s' :: "'c Server"
    using that by (rule same_profiles_update) (simp add: profile_text_def)
  show "same_profiles s s'" if "insert_user u s = Inr s'" for u and s s' :: "'c Server"
    using that by (rule same_profiles_insert)
  show "same_profiles s s'"
    if "update_users P (\<lambda>u. u \<lparr>du_power := Some p\<rparr>) s = Inr s'" for P p and s s' :: "'c Server"
    using that by (rule same_profiles_update) (simp add: profile_text_def)
qed

text \<open>The identities: distinct ids, lower-case addresses, an organisation.\<close>

definition identified :: "'c Server \<Rightarrow> bool" where
  "identified s \<longleftrightarrow>
     distinct (map du_id (d_users s)) \<and>
     (\<forall>u \<in> set (d_users s). starts_with (du_address u) ''0x'' \<and>
        to_lower (du_address u) = du_address u \<and> du_dao_code u \<noteq> None)"

definition known_address :: "DUser \<Rightarrow> bool" where
  "known_address u \<longleftrightarrow>
     starts_with (du_address u) ''0x'' \<and> to_lower (du_address u) = du_address u \<and> du_dao_code u \<noteq> None"

lemma identified_update:
  assumes "update_users P f s = Inr s'" and "identified s"
    and "\<And>u. du_id (f u) = du_id u \<and> du_address (f u) = du_address u \<and> du_dao_code (f u) = du_dao_code u"
  shows "identified s'"
proof -
  have s': "d_users s' = map (\<lambda>u. if P u then f u else u) (d_users s)"
    using assms(1) by (auto simp: update_users_def)
  have ids: "map du_id (d_users s') = map du_id (d_users s)" using assms(3) by (simp add: s')
  have "starts_with (du_address u) ''0x'' \<and> to_lower (du_address u) = du_address u \<and> du_dao_code u \<noteq> None"
    if u: "u \<in> set (d_users s')" for u
  proof -
    from u obtain v where "v \<in> set (d_users s)" "u = (if P v then f v else v)" by (auto simp: s')
    with assms(2,3) show ?thesis by (simp add: identified_def)
  qed
  with ids assms(2) show ?thesis by (simp add: identified_def)
qed

interpretation identities: row_relation E "\<lambda>s s'. identified s \<longrightarrow> identified s'" known_address "\<lambda>_. True"
  for E :: "'c Env"
proof
  show "identified s \<longrightarrow> identified (s \<lparr>cachedConfig := c\<rparr>)"
    "identified s \<longrightarrow> identified (s \<lparr>connectedSql := True\<rparr>)"
    "identified s \<longrightarrow> identified (s \<lparr>nonces := cache_del E n (nonces s)\<rparr>)"
    "identified s \<longrightarrow> identified (s \<lparr>d_avatars := as\<rparr>)" for s :: "'c Server" and c n as
    by (simp_all add: identified_def)
  show "identified s \<longrightarrow> identified s'" if "update_users P (profile_fields E w body) s = Inr s'"
    for P w body and s s' :: "'c Server"
    using identified_update [OF that] by (simp add: profile_fields_def)
  show "identified s \<longrightarrow> identified s'"
    if "update_users P (\<lambda>v. v \<lparr>du_last_login_time := n, du_utime := Some n\<rparr>) s = Inr s'"
    for P n and s s' :: "'c Server"
    using identified_update [OF that] by simp
  show "identified s \<longrightarrow> identified s'" if "known_address u" "insert_user u s = Inr s'"
    for u and s s' :: "'c Server"
  proof
    assume "identified s"
    moreover from that(2) have "du_id u \<notin> set (map du_id (d_users s))"
      "d_users s' = d_users s @ [u]"
      by (force simp: insert_user_def split: if_splits)+
    ultimately show "identified s'" using that(1) by (auto simp: identified_def known_address_def)
  qed
  show "identified s \<longrightarrow> identified s'"
    if "update_users P (\<lambda>u. u \<lparr>du_power := Some p\<rparr>) s = Inr s'" for P p and s s' :: "'c Server"
    using identified_update [OF that] by simp
qed simp_all

text \<open>The stored powers.\<close>

definition powered :: "'c Server \<Rightarrow> bool" where
  "powered s \<longleftrightarrow> (\<forall>u \<in> set (d_users s). \<exists>t. du_power u = Some t \<and> hex_power_text t)"

lemma powered_update:
  assumes "update_users P f s = Inr s'" and "powered s"
    and "\<And>u. (\<exists>t. du_power u = Some t \<and> hex_power_text t) \<Longrightarrow> \<exists>t. du_power (f u) = Some t \<and> hex_power_text t"
  shows "powered s'"
proof -
  have s': "d_users s' = map (\<lambda>u. if P u then f u else u) (d_users s)"
    using assms(1) by (auto simp: update_users_def)
  show ?thesis
    unfolding powered_def
  proof
    fix u
    assume "u \<in> set (d_users s')"
    then obtain v where "v \<in> set (d_users s)" "u = (if P v then f v else v)" by (auto simp: s')
    with assms(2,3) show "\<exists>t. du_power u = Some t \<and> hex_power_text t" by (simp add: powered_def)
  qed
qed

interpretation powers: row_relation E "\<lambda>s s'. powered s \<longrightarrow> powered s'"
  "\<lambda>u. \<exists>t. du_power u = Some t \<and> hex_power_text t" hex_power_text for E :: "'c Env"
proof
  show "powered s \<longrightarrow> powered (s \<lparr>cachedConfig := c\<rparr>)"
    "powered s \<longrightarrow> powered (s \<lparr>connectedSql := True\<rparr>)"
    "powered s \<longrightarrow> powered (s \<lparr>nonces := cache_del E n (nonces s)\<rparr>)"
    "powered s \<longrightarrow> powered (s \<lparr>d_avatars := as\<rparr>)" for s :: "'c Server" and c n as
    by (simp_all add: powered_def)
  show "powered s \<longrightarrow> powered s'" if "update_users P (profile_fields E w body) s = Inr s'"
    for P w body and s s' :: "'c Server"
    using powered_update [OF that] by (simp add: profile_fields_def)
  show "powered s \<longrightarrow> powered s'"
    if "update_users P (\<lambda>v. v \<lparr>du_last_login_time := n, du_utime := Some n\<rparr>) s = Inr s'"
    for P n and s s' :: "'c Server"
    using powered_update [OF that] by simp
  show "powered s \<longrightarrow> powered s'"
    if "\<exists>t. du_power u = Some t \<and> hex_power_text t" "insert_user u s = Inr s'"
    for u and s s' :: "'c Server"
  proof
    assume "powered s"
    moreover from that(2) have "d_users s' = d_users s @ [u]" by (auto simp: insert_user_def split: if_splits)
    ultimately show "powered s'" using that(1) by (simp add: powered_def)
  qed
  show "powered s \<longrightarrow> powered s'"
    if "hex_power_text p" "update_users P (\<lambda>u. u \<lparr>du_power := Some p\<rparr>) s = Inr s'"
    for P p and s s' :: "'c Server"
    using powered_update [OF that(2)] that(1) by simp
qed simp_all

end
