(* ===== verification/WebClaims.thy ===== *)
theory WebClaims
  imports WebSession
begin

text \<open>
  The properties of the web application's server over whole runs: who may write a profile, what a
  nonce is good for, and what the table of users looks like.
\<close>

section \<open>The profile update\<close>

lemma replace_first_prefix: "t \<noteq> [] \<Longrightarrow> replace_first t u (t @ s) = u @ s"
  by (cases t) (simp_all add: starts_with_def)

lemma profile_address_path:
  assumes "profile_path (req_pathname r)"
  shows "to_lower (req_pathname r) = ''/api/profile/'' @ profile_address r"
proof -
  obtain seg where "req_pathname r = ''/api/profile/'' @ seg" using assms by (auto simp: profile_path_def)
  moreover have "to_lower ''/api/profile/'' = ''/api/profile/''" by code_simp
  ultimately show ?thesis
    using replace_first_prefix [of "''/api/profile/''" "[]" seg]
    by (simp only: profile_address_def to_lower_append append_Nil list.distinct not_False_eq_True)
qed

lemma user_of_row:
  assumes "user_of address daocode us = Some u"
  shows "u \<in> set us" and "du_address u = address"
  using assms by (auto simp: user_of_def find_Some_iff in_set_conv_nth)

text \<open>Only the row and the avatar of one user change.\<close>

definition only_user :: "string \<Rightarrow> 'c Server \<Rightarrow> 'c Server \<Rightarrow> bool" where
  "only_user uid s s' \<longleftrightarrow> (\<forall>i. i \<noteq> uid \<longrightarrow> profile_view s' i = profile_view s i)"

lemma only_user_order: "reflp (only_user uid)" "transp (only_user uid)"
  by (auto simp: reflp_def transp_def only_user_def)

lemma find_map_other: "(\<And>u. du_id (f u) = du_id u) \<Longrightarrow> i \<noteq> uid \<Longrightarrow>
    find (\<lambda>u. du_id u = i) (map (\<lambda>v. if du_id v = uid then f v else v) us) = find (\<lambda>u. du_id u = i) us"
  by (induction us) auto

lemma update_row_only:
  assumes "\<And>u. du_id (f u) = du_id u"
  shows "keeps (only_user uid) (change w k (update_users (\<lambda>v. du_id v = uid) f))"
  using find_map_other [OF assms]
  by (auto simp: keeps_def change_def update_users_def only_user_def profile_view_def split: option.splits)

lemma avatar_map_other: "i \<noteq> uid \<Longrightarrow>
    avatar_of i (map (\<lambda>a. if av_id a = uid then a \<lparr>av_image := x, av_utime := y\<rparr> else a) as) = avatar_of i as"
  by (induction as) (auto simp: avatar_of_def)

lemma avatar_append_other: "i \<noteq> av_id a \<Longrightarrow> avatar_of i (as @ [a]) = avatar_of i as"
  by (simp add: avatar_of_def find_append split: option.split)

lemma store_avatar_only: "keeps (only_user uid) (store_avatar E w uid img)"
proof -
  have "keeps (only_user uid) (change w 3 (\<lambda>s. Inr (case a of
           Some _ \<Rightarrow> s \<lparr>d_avatars := map (\<lambda>a. if av_id a = uid
               then a \<lparr>av_image := sql_text E img, av_utime := Some (w_now w)\<rparr> else a) (d_avatars s)\<rparr>
         | None \<Rightarrow> s \<lparr>d_avatars := d_avatars s @
             [\<lparr>av_id = uid, av_image = sql_text E img, av_ctime = w_now w,
               av_utime = Some (w_now w)\<rparr>]\<rparr>)))" for a
    by (cases a)
      (auto simp: keeps_def change_def only_user_def profile_view_def avatar_map_other
        avatar_append_other split: option.splits)
  moreover have "keeps (only_user uid) (query w 2 (\<lambda>s. avatar_of uid (d_avatars s)))"
    by (simp add: keeps_def query_def only_user_def split: option.split)
  ultimately show ?thesis
    unfolding store_avatar_def by (intro keeps_after [OF only_user_order(2)])
qed

lemma update_profile_only:
  assumes "update_profile E w address daocode form s = (r, s')"
  shows "(\<forall>i. profile_view s' i = profile_view s i) \<or>
    (\<exists>u \<in> set (d_users s). du_address u = address \<and> only_user (du_id u) s s')"
  using assms unfolding update_profile_def
proof (cases rule: after_cases)
  case (throws e)
  from throws(1) have "same_tables s s'" by (rule keepsD [OF keeps_connection])
  then show ?thesis by (simp add: same_tables_def profile_view_def)
next
  case (goes_on x s1)
  have s1: "d_users s1 = d_users s" "d_avatars s1 = d_avatars s"
    using keepsD [OF keeps_connection goes_on(1)] by (simp_all add: same_tables_def)
  from goes_on(2) show ?thesis
  proof (cases rule: after_cases)
    case (throws e)
    then show ?thesis using s1 by (auto simp: query_def profile_view_def split: option.splits)
  next
    case (goes_on found s2)
    then have found: "s2 = s1" "found = user_of address daocode (d_users s)"
      using s1 by (auto simp: query_def split: option.splits)
    show ?thesis
    proof (cases found)
      case None
      with goes_on(2) found(1) s1 show ?thesis by (auto simp: profile_view_def)
    next
      case (Some u)
      have u: "u \<in> set (d_users s)" "du_address u = address"
        using user_of_row [of address daocode "d_users s" u] found(2) Some by auto
      let ?body = "\<lambda>k. case property (Some form) k of Inl _ \<Rightarrow> None | Inr v \<Rightarrow> v"
      let ?m = "after (settled (property (Some form) ''name'')) (\<lambda>_.
          after (change w 1 (update_users (\<lambda>v. du_id v = du_id u) (profile_fields E w ?body))) (\<lambda>_.
          after (case ?body ''avatar'' of
                   Some img \<Rightarrow> if truthy (Some img) then store_avatar E w (du_id u) img else return ()
                 | None \<Rightarrow> return ()) (\<lambda>_.
            return (Json 200 (Resp_ok (TextData ''success''))))))"
      have "keeps (only_user (du_id u)) ?m"
        by (auto intro!: keeps_after [OF only_user_order(2)] keeps_pure [OF only_user_order(1)]
            update_row_only store_avatar_only simp: profile_fields_def split: option.split)
      moreover have "?m s1 = (r, s')" using goes_on(2) found(1) Some by (simp add: Let_def)
      ultimately have "only_user (du_id u) s1 s'" by (rule keepsD)
      then have "only_user (du_id u) s s'" using s1 by (simp add: only_user_def profile_view_def)
      with u show ?thesis by blast
    qed
  qed
qed

text \<open>
  A profile is written only by a request whose payload header names its address.
\<close>

lemma post_profile_writes:
  assumes "post_profile_route E w r s = (a, s')" and "identified s"
    and "u \<in> set (d_users s)" and "profile_view s' (du_id u) \<noteq> profile_view s (du_id u)"
  obtains encoded payload j where "req_headers r ''x-degov-auth-payload'' = Some encoded"
    and "decode_payload E encoded = Inr payload" and "property (Some payload) ''address'' = Inr j"
    and "same_address E (profile_address r) j" and "profile_address r = du_address u"
proof -
  have pure: "profile_view s2 i = profile_view s1 i" if "same_tables s1 s2" for s1 s2 :: "'a Server" and i
    using that by (simp add: same_tables_def profile_view_def)
  obtain a' where run: "post_profile E w r s = (a', s')"
    using assms(1) unfolding post_profile_route_def by (cases rule: catching_cases) auto
  then obtain encoded where enc: "req_headers r ''x-degov-auth-payload'' = Some encoded"
    using assms(4) by (auto simp: post_profile_def split: option.splits)
  from run enc obtain payload where payload: "decode_payload E encoded = Inr payload"
    using assms(4) by (auto simp: post_profile_def after_def split: sum.splits)
  from run enc payload obtain j where j: "property (Some payload) ''address'' = Inr j"
    using assms(4) by (auto simp: post_profile_def after_def split: sum.splits)
  from run enc payload j have same: "same_address E (profile_address r) j"
    using assms(4) by (auto simp: post_profile_def after_def split: sum.splits if_splits)
  have addr: "profile_address r = du_address u"
  proof (rule ccontr)
    assume other: "profile_address r \<noteq> du_address u"
    have "keeps (\<lambda>s s'. identified s \<and> u \<in> set (d_users s) \<longrightarrow>
        profile_view s' (du_id u) = profile_view s (du_id u))
      (update_profile E w (profile_address r) d form)" for d form
    proof (rule keepsI, rule impI)
      fix s1 s2 r'
      assume up: "update_profile E w (profile_address r) d form s1 = (r', s2)"
        and s1: "identified s1 \<and> u \<in> set (d_users s1)"
      from update_profile_only [OF up]
      show "profile_view s2 (du_id u) = profile_view s1 (du_id u)"
      proof
        assume "\<exists>v \<in> set (d_users s1). du_address v = profile_address r \<and> only_user (du_id v) s1 s2"
        then obtain v where v: "v \<in> set (d_users s1)" "du_address v = profile_address r"
          "only_user (du_id v) s1 s2" by blast
        with other s1 have "du_id u \<noteq> du_id v"
          unfolding identified_def by (metis (mono_tags, lifting) distinct_map inj_onD)
        with v(3) show ?thesis by (simp add: only_user_def)
      qed blast
    qed
    then have up: "profile_view s2 (du_id u) = profile_view s1 (du_id u)"
      if "update_profile E w (profile_address r) d form s1 = (r', s2)" "same_tables s s1" for d form s1 s2 r'
      using that assms(2,3) unfolding keeps_def same_tables_def identified_def by (metis snd_conv)
    from run enc payload j same
    have "after (settled (req_body r)) (\<lambda>form.
        after (degovConfig E w (req_headers r)) (\<lambda>cfg.
        after (settled (daocode_of cfg)) (\<lambda>daocode.
          if setting (DATABASE_URL E) = None then return missing_database
          else update_profile E w (profile_address r) daocode form))) s = (a', s')"
      by (simp add: post_profile_def after_def)
    then have "profile_view s' (du_id u) = profile_view s (du_id u)"
    proof (cases rule: after_cases)
      case (goes_on form s1)
      then have "s1 = s" by simp
      from goes_on(2) show ?thesis
      proof (cases rule: after_cases)
        case (throws e)
        from throws(1) have "same_tables s1 s'" by (rule keepsD [OF keeps_config])
        with \<open>s1 = s\<close> show ?thesis by (simp add: pure)
      next
        case (goes_on cfg s2)
        from goes_on(1) have "same_tables s1 s2" by (rule keepsD [OF keeps_config])
        with \<open>s1 = s\<close> have s2: "same_tables s s2" by simp
        from goes_on(2) up [OF _ s2] pure [OF s2] show ?thesis
          by (cases "daocode_of cfg") (auto simp: after_def split: if_splits)
      qed
    qed simp
    with assms(4) show False by blast
  qed
  from that [OF enc payload j same addr] show thesis .
qed

section \<open>Who answers with a token or a nonce\<close>

definition answers :: "(Answer \<Rightarrow> bool) \<Rightarrow> ('s, Answer) action \<Rightarrow> bool" where
  "answers P m \<longleftrightarrow> (\<forall>s a s'. m s = (Inr a, s') \<longrightarrow> P a)"

lemma answers_return: "P a \<Longrightarrow> answers P (return a)"
  by (simp add: answers_def)

lemma answers_throw: "answers P (throw e)"
  by (simp add: answers_def)

lemma answers_after: "(\<And>x. answers P (f x)) \<Longrightarrow> answers P (after m f)"
  unfolding answers_def by (auto elim!: after_cases)

lemma answers_caught:
  assumes "answers P m" and "\<And>e. P (h e)"
  shows "P (fst (catching m h s))"
proof (cases "catching m h s")
  case (Pair a s')
  then have "P a" using assms by (cases rule: catching_cases) (auto simp: answers_def)
  with Pair show ?thesis by simp
qed

lemmas answer_rules = answers_return answers_throw answers_after

definition plain_answer :: "Answer \<Rightarrow> bool" where
  "plain_answer a \<longleftrightarrow>
     (\<forall>t. a \<noteq> Json 200 (Resp_ok (TokenData t))) \<and> (\<forall>n src. a \<noteq> Json 200 (Resp_ok (NonceData n src)))"

lemma plain_answers [simp]:
  "plain_answer (Json c (Resp_err m))" "plain_answer (Json 400 r)" "plain_answer (Json 401 r)"
  "plain_answer (Json c (Resp_ok (UserData x)))" "plain_answer (Json c (Resp_ok (UsersData us)))"
  "plain_answer (Json c (Resp_ok (MembersData ms)))" "plain_answer (Json c (Resp_ok (MetricsData k)))"
  "plain_answer (Json c (Resp_ok (InvalidMethods bad)))" "plain_answer (Json c (Resp_ok (TextData t)))"
  "plain_answer (ErrorJson c m)" "plain_answer LogAnswer" "plain_answer NotFound"
  by (simp_all add: plain_answer_def Resp_ok_def Resp_err_def)

lemma select_members_data:
  assumes "select_members d c l s = Inr x"
  shows "\<exists>ms. x = MembersData ms"
  using assms by (auto simp: select_members_def and_then_eq_Inr split: if_splits)

lemma plain_routes:
  "plain_answer (fst (pull_route E w r s))" "plain_answer (fst (sync_route E w r s))"
  "plain_answer (fst (members_route E w r s))" "plain_answer (fst (metrics_route E w r s))"
  "plain_answer (fst (get_profile_route E w r s))" "plain_answer (fst (post_profile_route E w r s))"
proof -
  show "plain_answer (fst (pull_route E w r s))"
    unfolding pull_route_def pull_def
    by (rule answers_caught) (auto intro!: answer_rules split: option.split)
  show "plain_answer (fst (sync_route E w r s))"
    unfolding sync_route_def sync_def
    by (rule answers_caught) (auto intro!: answer_rules split: option.split json.split)
  show "plain_answer (fst (metrics_route E w r s))"
    unfolding metrics_route_def metrics_def by (rule answers_caught) (auto intro!: answer_rules)
  show "plain_answer (fst (get_profile_route E w r s))"
    unfolding get_profile_route_def get_profile_def missing_database_def
    by (rule answers_caught) (auto intro!: answer_rules)
  show "plain_answer (fst (post_profile_route E w r s))"
    unfolding post_profile_route_def post_profile_def update_profile_def missing_database_def Let_def
    by (rule answers_caught) (auto intro!: answer_rules split: option.split)
  have sel: "answers plain_answer (after (query w 0 (select_members d c l)) (\<lambda>found.
      after (settled found) (\<lambda>rows. return (Json 200 (Resp_ok rows)))))" for d c l
    unfolding answers_def
  proof (intro allI impI)
    fix s a s'
    assume "after (query w 0 (select_members d c l)) (\<lambda>found.
      after (settled found) (\<lambda>rows. return (Json 200 (Resp_ok rows)))) s = (Inr a, s')"
    then obtain rows where "select_members d c l s = Inr rows" "a = Json 200 (Resp_ok rows)"
      by (auto simp: query_def elim!: after_cases split: option.splits)
    then show "plain_answer a" using select_members_data by force
  qed
  show "plain_answer (fst (members_route E w r s))"
    unfolding members_route_def members_def Let_def
    by (rule answers_caught, rule answers_after, rule answers_after, rule answers_after, rule sel) simp
qed

text \<open>What a request signs in with, and what it takes to be answered with a token.\<close>

definition siwe_of :: "'c Env \<Rightarrow> Request \<Rightarrow> SiweFields option" where
  "siwe_of E r =
     (case and_then (req_body r) (\<lambda>body.
             and_then (property (Some body) ''message'') (\<lambda>message.
             and_then (property (Some body) ''signature'') (siwe_verify E message))) of
        Inl _ \<Rightarrow> None | Inr f \<Rightarrow> Some f)"

definition token_answer :: "string \<Rightarrow> Answer" where
  "token_answer t = Json 200 (Resp_ok (TokenData t))"

definition nonce_answer :: "string \<Rightarrow> Answer \<Rightarrow> bool" where
  "nonce_answer n a \<longleftrightarrow> (\<exists>src. a = Json 200 (Resp_ok (NonceData n src)))"

text \<open>Which nonces are good only shrinks, except in the nonce route.\<close>

definition fewer :: "'c Env \<Rightarrow> 'c Server \<Rightarrow> 'c Server \<Rightarrow> bool" where
  "fewer E s s' \<longleftrightarrow> (\<forall>t n. cache_has E t n (nonces s') \<longrightarrow> cache_has E t n (nonces s))"

lemma fewer_relation:
  assumes "cache_ok E"
  shows "row_relation E (fewer E) (\<lambda>_. True) (\<lambda>_. True)"
proof
  show "fewer E s (s \<lparr>nonces := cache_del E nonce (nonces s)\<rparr>)" for s nonce
    using assms by (simp add: fewer_def cache_ok_def)
qed (auto simp: fewer_def update_users_def insert_user_def split: if_splits)

lemma login_token:
  assumes "login_route E w r s = (token_answer t, s')" and "cache_ok E"
  obtains key f where "setting (JWT_SECRET_KEY E) = Some key" and "siwe_of E r = Some f"
    and "t = jwt_sign E key (to_lower (siwe_address f)) (w_now w)"
    and "cache_has E (w_now w) (siwe_nonce f) (nonces s)"
    and "\<And>now n. cache_has E now n (nonces s') \<Longrightarrow> n \<noteq> siwe_nonce f \<and> cache_has E now n (nonces s)"
proof -
  note rel = row_relation.axioms(1) [OF fewer_relation [OF assms(2)]]
  have "login E w r s = (Inr (token_answer t), s')"
    using assms(1) unfolding login_route_def
    by (cases rule: catching_cases) (auto simp: token_answer_def Resp_ok_def)
  then obtain cfg s1 d key where cfg: "degovConfig E w (req_headers r) s = (Inr cfg, s1)"
    and d: "daocode_of cfg = Inr d" and key: "setting (JWT_SECRET_KEY E) = Some key"
    and run: "after (settled (req_body r)) (\<lambda>body.
           after (settled (property (Some body) ''message'')) (\<lambda>message.
           after (settled (property (Some body) ''signature'')) (\<lambda>signature.
             case siwe_verify E message signature of
               Inl _ \<Rightarrow> return (Json 400 (Resp_err ''invalid message''))
             | Inr signed \<Rightarrow>
                 after (take_nonce E w (siwe_nonce signed)) (\<lambda>nonceValid.
                   if \<not> nonceValid
                   then return (Json 400 (Resp_err
                     (''nonce ('' @ siwe_nonce signed @ '') expired or invalid, please get a new nonce'')))
                   else
                     let address = to_lower (siwe_address signed);
                         token = jwt_sign E key address (w_now w)
                     in after (store_login E w (req_headers r) d address) (\<lambda>_.
                          return (Json 200 (Resp_ok (TokenData token)))))))) s1 = (Inr (token_answer t), s')"
    unfolding login_def
    by (auto simp: after_def token_answer_def Resp_err_def Resp_ok_def
        split: prod.splits sum.splits option.splits)
  then obtain body m sg f where body: "req_body r = Inr body" "property (Some body) ''message'' = Inr m"
    "property (Some body) ''signature'' = Inr sg" "siwe_verify E m sg = Inr f"
    and run2: "after (take_nonce E w (siwe_nonce f)) (\<lambda>nonceValid.
                   if \<not> nonceValid
                   then return (Json 400 (Resp_err
                     (''nonce ('' @ siwe_nonce f @ '') expired or invalid, please get a new nonce'')))
                   else
                     let address = to_lower (siwe_address f);
                         token = jwt_sign E key address (w_now w)
                     in after (store_login E w (req_headers r) d address) (\<lambda>_.
                          return (Json 200 (Resp_ok (TokenData token))))) s1 = (Inr (token_answer t), s')"
    by (auto simp: after_def token_answer_def Resp_err_def Resp_ok_def split: sum.splits)
  let ?s2 = "s1 \<lparr>nonces := cache_del E (siwe_nonce f) (nonces s1)\<rparr>"
  from run2 have has: "cache_has E (w_now w) (siwe_nonce f) (nonces s1)"
    by (auto simp: after_def take_nonce_def token_answer_def Resp_err_def Resp_ok_def split: if_splits)
  with run2 have store: "\<exists>u. store_login E w (req_headers r) d (to_lower (siwe_address f)) ?s2 = (Inr u, s')"
    and t: "t = jwt_sign E key (to_lower (siwe_address f)) (w_now w)"
    by (auto simp: after_def take_nonce_def token_answer_def Resp_ok_def Let_def split: prod.splits sum.splits)
  have f1: "fewer E s s1" by (rule keepsD [OF table_relation.config [OF rel] cfg])
  have "keeps (fewer E) (store_login E w (req_headers r) d (to_lower (siwe_address f)))"
    by (rule table_relation.store_login [OF rel]) simp
  with store have f2: "fewer E ?s2 s'" by (auto dest: keepsD)
  have "n \<noteq> siwe_nonce f \<and> cache_has E now n (nonces s)" if "cache_has E now n (nonces s')" for now n
    using that f1 f2 assms(2) unfolding fewer_def cache_ok_def by auto
  moreover have "siwe_of E r = Some f" using body by (simp add: siwe_of_def)
  moreover have "cache_has E (w_now w) (siwe_nonce f) (nonces s)" using has f1 by (simp add: fewer_def)
  ultimately show thesis using that key t by blast
qed

section \<open>One request\<close>

lemma siwe_of_headers: "siwe_of E (r \<lparr>req_headers := hs\<rparr>) = siwe_of E r"
  by (simp add: siwe_of_def)

lemma proxy_stops: "proxy E w r = Stop a \<Longrightarrow> plain_answer a"
  by (auto simp: proxy_def verifyAuth_def Let_def split: if_splits option.splits sum.splits)

lemma plain_not_special: "plain_answer a \<Longrightarrow> a \<noteq> token_answer t \<and> \<not> nonce_answer n a"
  by (auto simp: plain_answer_def token_answer_def nonce_answer_def)

lemma nonce_route_answer:
  assumes "nonce_route E w s = (a, s')"
  obtains n where "nonce_answer n a" and "nonces s' = cache_set E (w_now w) n (nonces s)"
proof -
  obtain n src where n: "(case remote_nonce E w of None \<Rightarrow> (w_random w, generated) | Some n \<Rightarrow> (n, remote)) = (n, src)"
    by fastforce
  have "nonce_answer n a" "nonces s' = cache_set E (w_now w) n (nonces s)"
    using assms by (auto simp: nonce_route_def n nonce_answer_def)
  with that show thesis by blast
qed

lemma login_answer: "plain_answer (fst (login_route E w r s)) \<or> (\<exists>t. fst (login_route E w r s) = token_answer t)"
proof -
  define P where "P = (\<lambda>a. plain_answer a \<or> (\<exists>t. a = token_answer t))"
  have P: "P (Json 400 x)" "P (Json 200 (Resp_ok (TokenData t)))" for x t
    by (auto simp: P_def token_answer_def)
  have "answers P (login E w r)"
    unfolding login_def Let_def
    by (auto intro!: answer_rules P split: option.split sum.split)
  then have "P (fst (login_route E w r s))" unfolding login_route_def by (rule answers_caught) (rule P)
  then show ?thesis by (simp add: P_def)
qed

text \<open>
  Every request is a nonce, a sign-in, or one that neither answers with nonce or token nor
  makes a nonce good.
\<close>

lemma serve_cases:
  assumes "serve E (w, r) s = (a, s')" and "cache_ok E"
  obtains
    (nonce) n where "nonce_answer n a" and "nonces s' = cache_set E (w_now w) n (nonces s)"
      and "\<And>t. a \<noteq> token_answer t"
  | (login) t key f where "a = token_answer t" and "setting (JWT_SECRET_KEY E) = Some key"
      and "siwe_of E r = Some f" and "t = jwt_sign E key (to_lower (siwe_address f)) (w_now w)"
      and "cache_has E (w_now w) (siwe_nonce f) (nonces s)"
      and "\<And>now n. cache_has E now n (nonces s') \<Longrightarrow> n \<noteq> siwe_nonce f \<and> cache_has E now n (nonces s)"
      and "\<And>n. \<not> nonce_answer n a"
  | (other) "fewer E s s'" and "\<And>t. a \<noteq> token_answer t" and "\<And>n. \<not> nonce_answer n a"
proof (cases "proxy E w r")
  case (Stop a')
  with assms(1) have "a = a'" "s' = s" by (simp_all add: serve_def)
  with proxy_stops [OF Stop] plain_not_special have "fewer E s s'" "\<And>t. a \<noteq> token_answer t"
    "\<And>n. \<not> nonce_answer n a" by (auto simp: fewer_def)
  then show thesis by (rule other)
next
  case (Next hs)
  let ?r = "r \<lparr>req_headers := hs\<rparr>"
  have run: "route E w ?r s = (a, s')" using assms(1) Next by (simp add: serve_def)
  note rel = fewer_relation [OF assms(2)]
  show thesis
  proof (cases "req_method r = ''POST'' \<and> req_pathname r = ''/api/auth/nonce''")
    case True
    then have "nonce_route E w s = (a, s')" using run by (simp add: route_def Let_def)
    then obtain n where n: "nonce_answer n a" "nonces s' = cache_set E (w_now w) n (nonces s)"
      by (rule nonce_route_answer)
    then have "a \<noteq> token_answer t" for t by (auto simp: nonce_answer_def token_answer_def Resp_ok_def)
    with n show thesis by (rule nonce)
  next
    case not_nonce: False
    have few: "fewer E s s'"
    proof -
      have "fewer E s (snd (route E w ?r s))"
        by (rule row_relation.all_routes [OF rel]) (use not_nonce in auto)
      with run show ?thesis by simp
    qed
    show thesis
    proof (cases "req_method r = ''POST'' \<and> req_pathname r = ''/api/auth/login''")
      case True
      then have lr: "login_route E w ?r s = (a, s')" using run by (simp add: route_def Let_def)
      with login_answer [of E w ?r s] consider "plain_answer a" | t where "a = token_answer t" by auto
      then show thesis
      proof cases
        case 1
        with few plain_not_special other show thesis by blast
      next
        case 2
        then have "\<not> nonce_answer n a" for n by (auto simp: nonce_answer_def token_answer_def Resp_ok_def)
        with 2 login_token [OF lr [unfolded 2] assms(2)] login show thesis
          by (metis siwe_of_headers)
      qed
    next
      case False
      then have "plain_answer a"
        using not_nonce run plain_routes [of E w ?r s]
        by (auto simp: route_def Let_def split: if_splits)
      with few plain_not_special other show thesis by blast
    qed
  qed
qed

section \<open>Runs\<close>

lemma serve_all_snoc:
  "serve_all E (wrs @ [wr]) s =
     (case serve_all E wrs s of (as, s1) \<Rightarrow> (case serve E wr s1 of (a, s2) \<Rightarrow> (as @ [a], s2)))"
  by (induction wrs arbitrary: s) (simp_all split: prod.split)

lemma serve_all_length: "serve_all E wrs s = (as, s') \<Longrightarrow> length as = length wrs"
  by (induction wrs arbitrary: s as) (auto split: prod.splits)

lemma serve_all_keeps:
  assumes "serve_all E wrs s = (as, s')" and "I s"
    and "\<And>w r s. (w, r) \<in> set wrs \<Longrightarrow> I s \<Longrightarrow> I (snd (serve E (w, r) s))"
  shows "I s'"
  using assms
proof (induction wrs arbitrary: s as)
  case (Cons wr wrs)
  obtain a s1 where 1: "serve E wr s = (a, s1)" by (cases "serve E wr s")
  obtain as' where as': "serve_all E wrs s1 = (as', s')"
    using Cons.prems(1) 1 by (auto split: prod.splits)
  have "I s1" using Cons.prems(2,3) 1 by (cases wr) (metis list.set_intros(1) snd_conv)
  with Cons.IH [OF as'] Cons.prems(3) show ?case by simp
qed simp

lemma serve_identified:
  assumes "siwe_ok E" and "identified s"
  shows "identified (snd (serve E (w, r) s))"
proof (cases "proxy E w r")
  case (Next hs)
  let ?r = "r \<lparr>req_headers := hs\<rparr>"
  have "identified s \<longrightarrow> identified (snd (route E w ?r s))"
  proof (rule identities.all_routes)
    show "known_address (new_user w d (to_lower (siwe_address f)) p)"
      if "siwe_verify E m sig = Inr f" for m sig f d p
      using that assms(1) by (simp add: known_address_def new_user_def siwe_ok_def)
    show "identified s \<longrightarrow> identified (snd (nonce_route E w s))"
      by (simp add: nonce_route_def identified_def split: prod.split)
  qed simp
  with Next assms(2) show ?thesis by (simp add: serve_def)
qed (use assms in \<open>simp add: serve_def\<close>)

lemma run_identified:
  assumes "serve_all E wrs (new_server E) = (as, s)" and "siwe_ok E"
  shows "identified s"
proof (rule serve_all_keeps [OF assms(1)])
  show "identified (new_server E)" by (simp add: new_server_def identified_def)
qed (rule serve_identified [OF assms(2)])

text \<open>
  The powers other services report: the voting power of a contributor and the payloads of a
  synchronisation are unsigned 256 bit numbers.
\<close>

definition sane_power :: "int \<Rightarrow> bool" where
  "sane_power p \<longleftrightarrow> 0 \<le> p \<and> p < 2 ^ 256"

definition sane_powers :: "World \<times> Request \<Rightarrow> bool" where
  "sane_powers wr \<longleftrightarrow>
     (\<forall>t p. contributed (fst wr) t \<and> BigInt_text t = Inr p \<longrightarrow> sane_power p) \<and>
     (\<forall>ps p b n i. req_body (snd wr) = Inr (JArray ps) \<and> p \<in> set ps \<and>
        property (Some p) ''body'' = Inr b \<and> property b ''power'' = Inr n \<and> BigInt_json n = Inr i \<longrightarrow>
        sane_power i)"

lemma serve_powered:
  assumes "sane_powers (w, r)" and "powered s"
  shows "powered (snd (serve E (w, r) s))"
proof (cases "proxy E w r")
  case (Next hs)
  let ?r = "r \<lparr>req_headers := hs\<rparr>"
  have "powered s \<longrightarrow> powered (snd (route E w ?r s))"
  proof (rule powers.all_routes)
    show "\<exists>t. du_power (new_user w d (to_lower (siwe_address f)) p) = Some t \<and> hex_power_text t"
      if "contributed w t" "BigInt_text t = Inr p" for f d t p
      using that assms(1) hexPower_text by (auto simp: sane_powers_def sane_power_def new_user_def)
    show "hex_power_text (hexPower i)"
      if "req_body ?r = Inr (JArray ps)" "p \<in> set ps" "property (Some p) ''body'' = Inr b"
        "property b ''power'' = Inr n" "BigInt_json n = Inr i" for ps p b n i
    proof (rule hexPower_text)
      have "sane_power i" using that assms(1) by (auto simp: sane_powers_def)
      then show "0 \<le> i" "i < 2 ^ 256" by (simp_all add: sane_power_def)
    qed
    show "powered s \<longrightarrow> powered (snd (nonce_route E w s))"
      by (simp add: nonce_route_def powered_def split: prod.split)
  qed
  with Next assms(2) show ?thesis by (simp add: serve_def)
qed (use assms in \<open>simp add: serve_def\<close>)

lemma run_powered:
  assumes "serve_all E wrs (new_server E) = (as, s)" and "\<forall>wr \<in> set wrs. sane_powers wr"
  shows "powered s"
proof (rule serve_all_keeps [OF assms(1)])
  show "powered (new_server E)" by (simp add: new_server_def powered_def)
  show "powered (snd (serve E (w, r) s))" if "(w, r) \<in> set wrs" "powered s" for w r s
    using that assms(2) by (blast intro: serve_powered)
qed

section \<open>Nonces\<close>

definition issued :: "string \<Rightarrow> ((World \<times> Request) \<times> Answer) list \<Rightarrow> nat" where
  "issued n evs = length (filter (\<lambda>(_, a). nonce_answer n a) evs)"

definition redeemed :: "'c Env \<Rightarrow> string \<Rightarrow> ((World \<times> Request) \<times> Answer) list \<Rightarrow> nat" where
  "redeemed E n evs =
     length (filter (\<lambda>((w, r), a). (\<exists>t. a = token_answer t) \<and>
       map_option siwe_nonce (siwe_of E r) = Some n) evs)"

definition good_nonce :: "'c Env \<Rightarrow> string \<Rightarrow> 'c Server \<Rightarrow> nat" where
  "good_nonce E n s = (if \<exists>t. cache_has E t n (nonces s) then 1 else 0)"

lemma nonce_balance:
  assumes "serve_all E wrs (new_server E) = (as, s)" and "cache_ok E"
  shows "redeemed E n (zip wrs as) + good_nonce E n s \<le> issued n (zip wrs as)"
  using assms(1)
proof (induction wrs arbitrary: as s rule: rev_induct)
  case Nil
  then show ?case
    using assms(2) by (auto simp: redeemed_def issued_def good_nonce_def new_server_def cache_ok_def)
next
  case (snoc wr wrs)
  obtain w r where wr: "wr = (w, r)" by (cases wr)
  obtain as1 s1 where 1: "serve_all E wrs (new_server E) = (as1, s1)" by (cases "serve_all E wrs (new_server E)")
  obtain a where a: "serve E (w, r) s1 = (a, s)" "as = as1 @ [a]"
    using snoc.prems 1 by (auto simp: serve_all_snoc wr split: prod.splits)
  note IH = snoc.IH [OF 1]
  have len: "length wrs = length as1" using serve_all_length [OF 1] by simp
  have z: "zip (wrs @ [wr]) as = zip wrs as1 @ [((w, r), a)]" using a(2) len by (simp add: wr)
  from a(1) assms(2) show ?case
  proof (cases rule: serve_cases)
    case (nonce m)
    have "good_nonce E n s \<le> (if m = n then 1 else good_nonce E n s1)"
      using nonce(2) assms(2) by (auto simp: good_nonce_def cache_ok_def)
    moreover have "nonce_answer n a \<longleftrightarrow> m = n"
      using nonce(1) by (auto simp: nonce_answer_def Resp_ok_def)
    ultimately show ?thesis
      using IH nonce(3) by (simp add: z redeemed_def issued_def split: if_splits)
  next
    case (login t key f)
    have "good_nonce E (siwe_nonce f) s1 = 1" using login(5) by (auto simp: good_nonce_def)
    moreover have "good_nonce E n s \<le> (if n = siwe_nonce f then 0 else good_nonce E n s1)"
      using login(6) by (auto simp: good_nonce_def)
    ultimately show ?thesis
      using IH login(1,3,7) by (auto simp: z redeemed_def issued_def split: if_splits)
  next
    case other
    have "good_nonce E n s \<le> good_nonce E n s1" using other(1) by (auto simp: good_nonce_def fewer_def)
    with IH other show ?thesis by (simp add: z redeemed_def issued_def)
  qed
qed

text \<open>A good nonce was answered at most 180 seconds ago.\<close>

lemma good_nonce_issued:
  assumes "serve_all E wrs (new_server E) = (as, s)" and "cache_ok E" and "cache_has E now n (nonces s)"
  shows "\<exists>j < length wrs. nonce_answer n (as ! j) \<and> now \<le> w_now (fst (wrs ! j)) + 180000"
  using assms(1,3)
proof (induction wrs arbitrary: as s now n rule: rev_induct)
  case Nil
  then show ?case using assms(2) by (auto simp: new_server_def cache_ok_def)
next
  case (snoc wr wrs)
  obtain w r where wr: "wr = (w, r)" by (cases wr)
  obtain as1 s1 where 1: "serve_all E wrs (new_server E) = (as1, s1)" by (cases "serve_all E wrs (new_server E)")
  obtain a where a: "serve E (w, r) s1 = (a, s)" "as = as1 @ [a]"
    using snoc.prems 1 by (auto simp: serve_all_snoc wr split: prod.splits)
  have len: "length as1 = length wrs" using serve_all_length [OF 1] by simp
  have old: ?case if "cache_has E now n (nonces s1)"
  proof -
    from snoc.IH [OF 1 that] obtain j where "j < length wrs" "nonce_answer n (as1 ! j)"
      "now \<le> w_now (fst (wrs ! j)) + 180000" by blast
    then show ?thesis using len a(2) by (auto simp: nth_append intro!: exI [of _ j])
  qed
  from a(1) assms(2) show ?case
  proof (cases rule: serve_cases)
    case (nonce m)
    show ?thesis
    proof (cases "m = n")
      case True
      then have "now \<le> w_now w + 180000"
        using snoc.prems(2) nonce(2) assms(2) by (simp add: cache_ok_def)
      with nonce(1) True a(2) len show ?thesis
        by (auto simp: nth_append wr intro!: exI [of _ "length wrs"])
    next
      case False
      then show ?thesis using snoc.prems(2) nonce(2) assms(2) old by (simp add: cache_ok_def)
    qed
  next
    case (login t key f)
    then show ?thesis using snoc.prems(2) old by blast
  next
    case other
    then show ?thesis using snoc.prems(2) old by (simp add: fewer_def)
  qed
qed

end
