(* ===== verification/WebSecurity.thy ===== *)
theory WebSecurity
  imports WebClaims
begin

text \<open>
  The properties of the server: profiles are written by their owners only, a nonce buys one
  sign-in, and the table of users is well-formed and ranked by power.
\<close>

section \<open>Profiles\<close>

definition bearer :: "Request \<Rightarrow> string option" where
  "bearer r = map_option (\<lambda>h. split_on (CHR '' '') h ! 1) (req_headers r ''authorization'')"

text \<open>
  Tokens cannot be forged: one that verifies has been the answer to an earlier request.
\<close>

definition unforged :: "'c Env \<Rightarrow> Answer list \<Rightarrow> World \<times> Request \<Rightarrow> bool" where
  "unforged E as wr \<longleftrightarrow>
     (\<forall>t key p. bearer (snd wr) = Some t \<and> setting (JWT_SECRET_KEY E) = Some key \<and>
        jwt_verify E key t (w_now (fst wr)) = Inr p \<longrightarrow> token_answer t \<in> set as)"

lemma need_profile:
  "need_auth NEED_AUTH_APIS p m \<longleftrightarrow> m = ''post'' \<and> starts_with p ''/api/profile/0x''"
  by (auto simp: NEED_AUTH_APIS_def)

lemma lower_POST: "to_lower ''POST'' = ''post''"
  by code_simp

lemma token_logged_in:
  assumes "serve_all E wrs (new_server E) = (as, s)" and "cache_ok E" and "token_answer t \<in> set as"
  shows "\<exists>i < length wrs. \<exists>key f. as ! i = token_answer t \<and> setting (JWT_SECRET_KEY E) = Some key \<and>
    siwe_of E (snd (wrs ! i)) = Some f \<and>
    t = jwt_sign E key (to_lower (siwe_address f)) (w_now (fst (wrs ! i)))"
  using assms(1,3)
proof (induction wrs arbitrary: as s rule: rev_induct)
  case Nil
  then show ?case by simp
next
  case (snoc wr wrs)
  obtain w r where wr: "wr = (w, r)" by (cases wr)
  obtain as1 s1 where 1: "serve_all E wrs (new_server E) = (as1, s1)" by (cases "serve_all E wrs (new_server E)")
  obtain a where a: "serve E (w, r) s1 = (a, s)" "as = as1 @ [a]"
    using snoc.prems 1 by (auto simp: serve_all_snoc wr split: prod.splits)
  have len: "length as1 = length wrs" using serve_all_length [OF 1] by simp
  show ?case
  proof (cases "token_answer t \<in> set as1")
    case True
    from snoc.IH [OF 1 True] obtain i key f where "i < length wrs" "as1 ! i = token_answer t"
      "setting (JWT_SECRET_KEY E) = Some key" "siwe_of E (snd (wrs ! i)) = Some f"
      "t = jwt_sign E key (to_lower (siwe_address f)) (w_now (fst (wrs ! i)))" by blast
    with len a(2) show ?thesis by (intro exI [of _ i]) (auto simp: nth_append)
  next
    case False
    with snoc.prems(2) a(2) have at: "a = token_answer t" by auto
    from a(1) assms(2) show ?thesis
    proof (cases rule: serve_cases)
      case (login t' key f)
      then have "t' = t" using at by (simp add: token_answer_def Resp_ok_def)
      with login at a(2) len show ?thesis
        by (intro exI [of _ "length wrs"]) (auto simp: nth_append wr)
    qed (use at in auto)
  qed
qed

text \<open>Only the route for one's own profile changes profiles that are there.\<close>

lemma serve_profile:
  assumes "serve E (w, r) s = (a, s')" and "u \<in> set (d_users s)"
    and "profile_view s' (du_id u) \<noteq> profile_view s (du_id u)"
  obtains hs where "proxy E w r = Next hs" and "req_method r = ''POST''" and "profile_path (req_pathname r)"
    and "post_profile_route E w (r \<lparr>req_headers := hs\<rparr>) s = (a, s')"
proof (cases "proxy E w r")
  case (Stop a')
  with assms show thesis by (simp add: serve_def)
next
  case (Next hs)
  let ?r = "r \<lparr>req_headers := hs\<rparr>"
  have run: "route E w ?r s = (a, s')" using assms(1) Next by (simp add: serve_def)
  have "\<not> same_profiles s s'" using assms(2,3) by (auto simp: same_profiles_def)
  moreover have "same_profiles s (snd (route E w ?r s))"
    if "\<not> (req_method r = ''POST'' \<and> profile_path (req_pathname r))"
  proof (rule profiles.route_keeps)
    show "same_profiles s (snd (nonce_route E w s))"
      by (simp add: nonce_route_def same_profiles_def profile_view_def split: prod.split)
  qed (use that in auto)
  ultimately have p: "req_method r = ''POST''" "profile_path (req_pathname r)" using run by auto
  have "req_pathname r \<notin> {''/api/auth/nonce'', ''/api/auth/login'', ''/api/profile/pull'',
      ''/api/degov/sync'', ''/api/debug-log''}"
    using p(2) by (auto simp: profile_path_def)
  with p run have "post_profile_route E w ?r s = (a, s')" by (simp add: route_def Let_def)
  with that Next p show thesis by blast
qed

text \<open>A request that reaches the route of a stored user's profile has a token that verifies.\<close>

lemma verified_write:
  assumes "identified s" and "u \<in> set (d_users s)" and "proxy E w r = Next hs" and "req_method r = ''POST''"
    and "profile_path (req_pathname r)" and "profile_address r = du_address u"
  obtains key p t where "bearer r = Some t" and "setting (JWT_SECRET_KEY E) = Some key"
    and "jwt_verify E key t (w_now w) = Inr p"
    and "hs = forward_headers E (req_headers r) (encode_payload E (masked_payload p))"
proof -
  have "starts_with (du_address u) ''0x''" using assms(1,2) by (simp add: identified_def)
  then have "starts_with (to_lower (req_pathname r)) ''/api/profile/0x''"
    using profile_address_path [OF assms(5)] assms(6) by (auto simp: starts_with_append)
  with assms(3,4) have "verifyAuth E w (req_headers r) = Next hs"
    by (simp add: proxy_def need_profile lower_POST)
  then obtain h key p where tok: "req_headers r ''authorization'' = Some h"
    "setting (JWT_SECRET_KEY E) = Some key"
    "jwt_verify E key (split_on (CHR '' '') h ! 1) (w_now w) = Inr p"
    "hs = forward_headers E (req_headers r) (encode_payload E (masked_payload p))"
    by (auto simp: verifyAuth_def Let_def split: option.splits if_splits sum.splits)
  with that show thesis by (simp add: bearer_def)
qed

text \<open>The payload the proxy makes of the token of a sign-in.\<close>

definition signed_payload :: "string \<Rightarrow> json" where
  "signed_payload address = JObject [(''address'', JString address)]"

text \<open>
  C5: Profiles are written by signed-in clients only. Whatever requests a server has answered, when
  one more request changes the profile or the avatar of a user, the request carries a token that
  was the answer to an earlier sign-in, to a verified message, less than five hours ago; and the
  payload header that the framework hands to the route decodes to the address of that user. Which
  header that is, the proxy's or the client's own, is left open: when the framework hands on what
  the proxy set and the payload survives its encoding, the user is the one who signed in.
\<close>

theorem profile_write_authorised:
  assumes "cache_ok E" and "token_ok E" and "siwe_ok E"
    and "serve_all E wrs (new_server E) = (as, s)"
    and "serve E (w, r) s = (a, s')" and "unforged E as (w, r)"
    and "u \<in> set (d_users s)" and "profile_view s' (du_id u) \<noteq> profile_view s (du_id u)"
  shows "\<exists>t i f encoded payload j. bearer r = Some t \<and> i < length wrs \<and> as ! i = token_answer t \<and>
    siwe_of E (snd (wrs ! i)) = Some f \<and> w_now w < w_now (fst (wrs ! i)) + 18000000 \<and>
    (let signed = signed_payload (to_lower (siwe_address f))
     in forward_headers E (req_headers r) (encode_payload E signed) ''x-degov-auth-payload'' = Some encoded \<and>
        decode_payload E encoded = Inr payload \<and> property (Some payload) ''address'' = Inr j \<and>
        same_address E (du_address u) j \<and>
        (encoded = encode_payload E signed \<and> payload = signed \<longrightarrow> to_lower (siwe_address f) = du_address u))"
proof -
  have ident: "identified s" by (rule run_identified [OF assms(4,3)])
  obtain hs where hs: "proxy E w r = Next hs" "req_method r = ''POST''" "profile_path (req_pathname r)"
    "post_profile_route E w (r \<lparr>req_headers := hs\<rparr>) s = (a, s')"
    using serve_profile [OF assms(5,7,8)] .
  obtain encoded payload j where post: "hs ''x-degov-auth-payload'' = Some encoded"
    "decode_payload E encoded = Inr payload" "property (Some payload) ''address'' = Inr j"
    "same_address E (profile_address r) j" "profile_address r = du_address u"
    by (rule post_profile_writes [OF hs(4) ident assms(7,8)]) (auto simp: profile_address_def)
  obtain key p t where tok: "bearer r = Some t" "setting (JWT_SECRET_KEY E) = Some key"
    "jwt_verify E key t (w_now w) = Inr p"
    "hs = forward_headers E (req_headers r) (encode_payload E (masked_payload p))"
    using verified_write [OF ident assms(7) hs(1-3) post(5)] .
  with assms(6) have "token_answer t \<in> set as" by (auto simp: unforged_def)
  from token_logged_in [OF assms(4,1) this] obtain i f where i: "i < length wrs"
    "as ! i = token_answer t" "siwe_of E (snd (wrs ! i)) = Some f"
    "t = jwt_sign E key (to_lower (siwe_address f)) (w_now (fst (wrs ! i)))"
    using tok(2) by auto
  have fresh: "w_now w < w_now (fst (wrs ! i)) + 18000000"
    using assms(2) tok(3) i(4) unfolding token_ok_def by (metis Inl_Inr_False)
  with assms(2) tok(3) i(4) obtain x y where
    "p = JObject [(''address'', JString (to_lower (siwe_address f))), (''iat'', x), (''exp'', y)]"
    unfolding token_ok_def by (metis Inr_inject)
  then have m: "masked_payload p = signed_payload (to_lower (siwe_address f))"
    by (simp add: masked_payload_def signed_payload_def)
  have "to_lower (siwe_address f) = du_address u" if "payload = signed_payload (to_lower (siwe_address f))"
    using post(3,4,5) that by (auto simp: property_def same_address_def signed_payload_def)
  with post tok(1,4) i(1-3) fresh m show ?thesis
    unfolding Let_def by (intro exI [of _ t] exI [of _ i] exI [of _ f] exI [of _ encoded] exI [of _ payload] exI [of _ j]) simp
qed

text \<open>
  When a header on the proxy's response does not reach the route, the client's own header decides:
  the proxy lets it through with any good token, whoever signed in.
\<close>

lemma client_header_decides:
  assumes "\<And>hs v. forward_headers E hs v = hs" and "req_headers r ''authorization'' = Some h"
    and "starts_with h ''Bearer ''" and "setting (JWT_SECRET_KEY E) = Some key"
    and "jwt_verify E key (split_on (CHR '' '') h ! 1) (w_now w) = Inr payload"
  shows "proxy E w r = Next (req_headers r)"
  using assms by (simp add: proxy_def verifyAuth_def Let_def)

section \<open>Nonces\<close>

text \<open>
  C13: A nonce buys one sign-in. In every run the sign-ins with a nonce are at most as many as the
  times the nonce was handed out (remote nonces may repeat), and each sign-in comes at most 180
  seconds after its nonce was handed out.
\<close>

theorem nonce_buys_one_login:
  assumes "cache_ok E" and "serve_all E wrs (new_server E) = (as, s)"
  shows "redeemed E n (zip wrs as) \<le> issued n (zip wrs as) \<and>
    (\<forall>i < length wrs. \<forall>t. as ! i = token_answer t \<longrightarrow>
       (\<exists>f j. siwe_of E (snd (wrs ! i)) = Some f \<and> j < i \<and> nonce_answer (siwe_nonce f) (as ! j) \<and>
          w_now (fst (wrs ! i)) \<le> w_now (fst (wrs ! j)) + 180000))"
proof (intro conjI allI impI)
  show "redeemed E n (zip wrs as) \<le> issued n (zip wrs as)"
    using nonce_balance [OF assms(2,1), of n] by simp
next
  fix i t
  assume i: "i < length wrs" and t: "as ! i = token_answer t"
  obtain as1 s1 where 1: "serve_all E (take i wrs) (new_server E) = (as1, s1)"
    by (cases "serve_all E (take i wrs) (new_server E)")
  obtain w r where wr: "wrs ! i = (w, r)" by (cases "wrs ! i")
  obtain a s2 where a: "serve E (w, r) s1 = (a, s2)" by (cases "serve E (w, r) s1")
  have len: "length as1 = i" using serve_all_length [OF 1] i by simp
  have split: "wrs = take i wrs @ (w, r) # drop (Suc i) wrs" using id_take_nth_drop [OF i] wr by simp
  have app: "serve_all E (xs @ ys) s0 = (case serve_all E xs s0 of (as', s') \<Rightarrow>
      (case serve_all E ys s' of (bs, s'') \<Rightarrow> (as' @ bs, s'')))" for xs ys s0
    by (induction xs arbitrary: s0) (simp_all split: prod.split)
  have "\<exists>bs. as = as1 @ a # bs"
    using assms(2) by (subst (asm) split) (auto simp: app 1 a split: prod.splits)
  then obtain bs where as: "as = as1 @ a # bs" by blast
  with t len have "a = token_answer t" by (metis nth_append_length)
  with a assms(1) obtain f where f: "siwe_of E r = Some f" "cache_has E (w_now w) (siwe_nonce f) (nonces s1)"
    by (cases rule: serve_cases) auto
  from good_nonce_issued [OF 1 assms(1) f(2)] obtain j where "j < i" "nonce_answer (siwe_nonce f) (as1 ! j)"
    "w_now w \<le> w_now (fst (wrs ! j)) + 180000" using i by auto
  with f(1) wr as len show "\<exists>f j. siwe_of E (snd (wrs ! i)) = Some f \<and> j < i \<and>
      nonce_answer (siwe_nonce f) (as ! j) \<and> w_now (fst (wrs ! i)) \<le> w_now (fst (wrs ! j)) + 180000"
    by (auto simp: nth_append intro!: exI [of _ f] exI [of _ j])
qed

section \<open>The table of users\<close>

text \<open>The order of stored powers as texts is that of the numbers.\<close>

lemma text_nat_Cons: "text_nat base (c # s) = digit_of c * base ^ length s + text_nat base s"
proof -
  have "foldl (\<lambda>n c. n * base + digit_of c) x s = x * base ^ length s + foldl (\<lambda>n c. n * base + digit_of c) 0 s" for x
  proof (induction s arbitrary: x)
    case (Cons d s)
    show ?case
      using Cons.IH [of "x * base + digit_of d"] Cons.IH [of "digit_of d"] by (simp add: algebra_simps)
  qed simp
  from this [of "digit_of c"] show ?thesis by (simp add: text_nat_def)
qed

definition hex_digits :: "string \<Rightarrow> bool" where
  "hex_digits ds \<longleftrightarrow> list_all (\<lambda>c. \<exists>d < 16. c = digit_char d) ds"

lemma text_nat_bound: "hex_digits ds \<Longrightarrow> text_nat 16 ds < 16 ^ length ds"
proof (induction ds)
  case (Cons c ds)
  then obtain d where d: "d < 16" "c = digit_char d" and ds: "text_nat 16 ds < 16 ^ length ds"
    by (auto simp: hex_digits_def)
  have "digit_of c \<le> 15" using d by (simp add: digit_of_char)
  then have "digit_of c * 16 ^ length ds \<le> 15 * 16 ^ length ds" by (rule mult_le_mono1)
  with ds have "digit_of c * 16 ^ length ds + text_nat 16 ds < 16 * 16 ^ length ds" by linarith
  then show ?case by (simp add: text_nat_Cons)
qed (simp add: text_nat_def)

lemma digit_char_less: "d < 16 \<Longrightarrow> e < 16 \<Longrightarrow> digit_char d < digit_char e \<longleftrightarrow> d < e"
  by (simp add: less_char_def digit_char_def)

lemma hex_text_order:
  assumes "hex_digits ds" and "hex_digits es" and "length ds = length es" and "ds \<le> es"
  shows "text_nat 16 ds \<le> text_nat 16 es"
  using assms
proof (induction ds arbitrary: es)
  case Nil
  then show ?case by simp
next
  case (Cons c ds)
  then obtain c' es' where es: "es = c' # es'" by (cases es) auto
  from Cons.prems es obtain d d' where d: "d < 16" "c = digit_char d" "d' < 16" "c' = digit_char d'"
    "hex_digits ds" "hex_digits es'" by (auto simp: hex_digits_def)
  have len: "length ds = length es'" using Cons.prems(3) es by simp
  from Cons.prems(4) es consider "c < c'" | "c = c'" "ds \<le> es'" by auto
  then show ?case
  proof cases
    case 1
    then have "d < d'" using d digit_char_less by simp
    then have "Suc d * 16 ^ length ds \<le> d' * 16 ^ length ds" by (intro mult_le_mono1) simp
    moreover have "text_nat 16 ds < 16 ^ length ds" by (rule text_nat_bound [OF d(5)])
    ultimately show ?thesis using d len by (simp add: es text_nat_Cons digit_of_char)
  next
    case 2
    with Cons.IH [OF d(5,6) len] show ?thesis by (simp add: es text_nat_Cons len)
  qed
qed

definition stored_power :: "DUser \<Rightarrow> int" where
  "stored_power u = (case du_power u of None \<Rightarrow> 0 | Some t \<Rightarrow> power_of_text t)"

lemma power_text_order:
  assumes "hex_power_text t" and "hex_power_text t'" and "t \<le> t'"
  shows "power_of_text t \<le> power_of_text t'"
proof -
  from assms obtain ds es where "t = ''0x'' @ ds" "t' = ''0x'' @ es" "hex_digits ds" "hex_digits es"
    "length ds = length es"
    by (auto simp: hex_power_text_def hex_digits_def)
  with assms(3) show ?thesis using hex_text_order [of ds es] by (simp add: power_of_text_def)
qed

lemma ranking_order:
  assumes "ranking_key v \<le> ranking_key u" and "du_power u = Some t" and "hex_power_text t"
    and "du_power v = Some t'" and "hex_power_text t'"
  shows "stored_power v \<le> stored_power u"
proof -
  have "setting (Some t) = Some t" "setting (Some t') = Some t'"
    using assms(3,5) by (auto simp: hex_power_text_def setting_def)
  with assms(1,2,4) have "t' \<le> t" by (auto simp: ranking_key_def less_eq_prod_def)
  with power_text_order assms show ?thesis by (simp add: stored_power_def)
qed

lemma ranked_sorted: "sorted_wrt (\<lambda>u v. ranking_key v \<le> ranking_key u) (ranked_users d us)"
proof -
  have "sorted (map ranking_key (sort_key ranking_key (rev (filter (\<lambda>u. du_dao_code u = Some d) us))))"
    by (rule sorted_sort_key)
  then show ?thesis by (simp add: ranked_users_def sorted_wrt_rev sorted_wrt_map)
qed

text \<open>
  C39: The table of users is well-formed after any requests: ids are distinct and every address is a
  lower-case text that begins with 0x. If besides every power reported to the server, by the indexer
  at a sign-in or by a synchronisation, is an unsigned 256 bit number, every power is stored as the
  prefix 0x and 64 hexadecimal digits, and the members' ranking, which compares these texts, is the
  ranking by power. The route of the synchronisation does not check the powers it is sent.
\<close>

theorem user_table_typed:
  assumes "siwe_ok E" and "serve_all E wrs (new_server E) = (as, s)"
  shows "distinct (map du_id (d_users s)) \<and>
    (\<forall>u \<in> set (d_users s). starts_with (du_address u) ''0x'' \<and> to_lower (du_address u) = du_address u) \<and>
    ((\<forall>wr \<in> set wrs. sane_powers wr) \<longrightarrow>
       (\<forall>u \<in> set (d_users s). \<exists>t. du_power u = Some t \<and> hex_power_text t) \<and>
       sorted_wrt (\<lambda>u v. stored_power v \<le> stored_power u) (ranked_users daocode (d_users s)))"
proof (intro conjI impI)
  have ident: "identified s" by (rule run_identified [OF assms(2,1)])
  then show "distinct (map du_id (d_users s))"
    "\<forall>u \<in> set (d_users s). starts_with (du_address u) ''0x'' \<and> to_lower (du_address u) = du_address u"
    by (simp_all add: identified_def)
  assume "\<forall>wr \<in> set wrs. sane_powers wr"
  then have pow: "powered s" by (rule run_powered [OF assms(2)])
  then show "\<forall>u \<in> set (d_users s). \<exists>t. du_power u = Some t \<and> hex_power_text t" by (simp add: powered_def)
  have mem: "u \<in> set (d_users s)" if "u \<in> set (ranked_users daocode (d_users s))" for u
    using that by (auto simp: ranked_users_def)
  show "sorted_wrt (\<lambda>u v. stored_power v \<le> stored_power u) (ranked_users daocode (d_users s))"
  proof (rule sorted_wrt_mono_rel [OF _ ranked_sorted])
    fix u v
    assume "u \<in> set (ranked_users daocode (d_users s))" "v \<in> set (ranked_users daocode (d_users s))"
      and le: "ranking_key v \<le> ranking_key u"
    then obtain t t' where "du_power u = Some t" "hex_power_text t" "du_power v = Some t'" "hex_power_text t'"
      using pow mem unfolding powered_def by meson
    with le show "stored_power v \<le> stored_power u" by (rule ranking_order)
  qed
qed

section \<open>A server to try the properties on\<close>

text \<open>
  Concrete libraries that behave as documented: nonces with their last good moment, tokens and
  payloads in plain text, sign-in messages that are the nonce itself.
\<close>

definition demo_env :: "(string \<rightharpoonup> nat) Env" where
  "demo_env =
     \<lparr>JWT_SECRET_KEY = Some ''secret'', DATABASE_URL = Some ''db'', DEGOV_SYNC_AUTH_TOKEN = None,
      NEXT_PUBLIC_LOCAL_CONFIG = None, NEXT_PUBLIC_DEGOV_API = None, NEXT_PUBLIC_DEGOV_DAO = None,
      config_file = Inr ''code: demo'',
      yaml_load = (\<lambda>t. Inr (Some \<lparr>cfg_code = ''demo'', cfg_indexer_endpoint = ''indexer''\<rparr>)),
      siwe_verify = (\<lambda>m sig. case m of
        Some (JString n) \<Rightarrow> Inr \<lparr>siwe_nonce = n, siwe_address = ''0xAB''\<rparr>
      | _ \<Rightarrow> Inl (ThrownError ''invalid'')),
      jwt_sign = (\<lambda>key address iat. decimal (int iat) @ ''.'' @ address),
      jwt_verify = (\<lambda>key t now.
        case parseInt (takeWhile (\<lambda>c. c \<noteq> CHR ''.'') t) of
          None \<Rightarrow> Inl (ThrownError ''invalid'')
        | Some iat \<Rightarrow>
            if now < nat iat + 18000000
            then Inr (JObject [(''address'', JString (drop 1 (dropWhile (\<lambda>c. c \<noteq> CHR ''.'') t))),
              (''iat'', JNull), (''exp'', JNull)])
            else Inl (ThrownError ''expired'')),
      encode_payload = (\<lambda>j. case j of JObject [(_, JString a)] \<Rightarrow> a | _ \<Rightarrow> []),
      decode_payload = (\<lambda>t. Inr (JObject [(''address'', JString t)])),
      forward_headers = (\<lambda>hs v. hs(''x-degov-auth-payload'' \<mapsto> v)),
      loosely_equal = (\<lambda>_ _. False),
      sql_text = (\<lambda>j. case j of JString t \<Rightarrow> t | _ \<Rightarrow> []),
      cache_empty = Map.empty,
      cache_set = (\<lambda>t n c. c(n \<mapsto> t + 180000)),
      cache_has = (\<lambda>t n c. case c n of None \<Rightarrow> False | Some e \<Rightarrow> t \<le> e),
      cache_del = (\<lambda>n c. c(n := None))\<rparr>"

lemma demo_cache: "cache_ok demo_env"
  by (auto simp: cache_ok_def demo_env_def)

lemma decimal_no_dot: "CHR ''.'' \<notin> set (decimal i)"
proof (rule decimal_plain)
  fix d :: nat
  assume d: "d < 10"
  show "digit_char d \<noteq> CHR ''.''"
  proof
    assume "digit_char d = CHR ''.''"
    then have "(of_char (digit_char d) :: nat) = of_char (CHR ''.'')" by simp
    with of_digit_char [OF d] show False by simp
  qed
qed simp

lemma demo_token: "token_ok demo_env"
proof -
  have "takeWhile (\<lambda>c. c \<noteq> CHR ''.'') (decimal i @ CHR ''.'' # a) = decimal i"
    "drop 1 (dropWhile (\<lambda>c. c \<noteq> CHR ''.'') (decimal i @ CHR ''.'' # a)) = a" for i a
    using decimal_no_dot [of i] by (auto simp: takeWhile_append dropWhile_append)
  then show ?thesis by (simp add: token_ok_def demo_env_def parseInt_decimal)
qed

lemma demo_siwe: "siwe_ok demo_env"
proof -
  have "starts_with (to_lower ''0xAB'') ''0x''" by code_simp
  then show ?thesis by (auto simp: siwe_ok_def demo_env_def split: option.splits json.splits)
qed

definition demo_world :: "nat \<Rightarrow> World" where
  "demo_world now =
     \<lparr>w_now = now, w_random = ''n1'', w_snowflake = ''7'',
      w_config_reply = (\<lambda>_ _. Inl (ThrownError ''offline'')),
      w_nonce_reply = (\<lambda>_. Inl (ThrownError ''offline'')),
      w_contributors = (\<lambda>_ _. Inr (Contributors [''255''])), w_sql = (\<lambda>_. None)\<rparr>"

definition demo_request :: "string \<Rightarrow> headers \<Rightarrow> json \<Rightarrow> Request" where
  "demo_request path hs body =
     \<lparr>req_method = ''POST'', req_pathname = path, req_headers = hs(''host'' \<mapsto> ''demo''),
      req_query = Map.empty, req_body = Inr body\<rparr>"

definition demo_run :: "(World \<times> Request) list" where
  "demo_run =
     [(demo_world 1000, demo_request ''/api/auth/nonce'' Map.empty JNull),
      (demo_world 2000, demo_request ''/api/auth/login'' Map.empty
         (JObject [(''message'', JString ''n1''), (''signature'', JString ''sig'')]))]"

definition demo_write :: "World \<times> Request" where
  "demo_write =
     (demo_world 3000, demo_request ''/api/profile/0xAB'' [''authorization'' \<mapsto> ''Bearer 2000.0xab'']
        (JObject [(''name'', JString ''Ann'')]))"

definition demo_state :: "(string \<rightharpoonup> nat) Server" where
  "demo_state = (new_server demo_env) \<lparr>nonces := [''n1'' \<mapsto> 181000]\<rparr>"

lemma demo_nonce:
  "serve demo_env (hd demo_run) (new_server demo_env) =
     (Json 200 (Resp_ok (NonceData ''n1'' generated)), demo_state)"
proof -
  have "to_lower ''POST'' = ''post''" "to_lower ''/api/auth/nonce'' = ''/api/auth/nonce''" by code_simp+
  then show ?thesis
    by (simp add: demo_run_def serve_def proxy_def need_profile starts_with_def demo_request_def route_def
      nonce_route_def remote_nonce_def degovGraphqlApi_def setting_def demo_env_def demo_world_def
      demo_state_def new_server_def)
qed

definition ann :: DUser where
  "ann = new_user (demo_world 2000) ''demo'' ''0xab'' 255"

definition demo_state2 :: "(string \<rightharpoonup> nat) Server" where
  "demo_state2 =
     \<lparr>nonces = Map.empty, d_users = [ann], d_avatars = [],
      cachedConfig = [''demo'' \<mapsto> Some \<lparr>cfg_code = ''demo'', cfg_indexer_endpoint = ''indexer''\<rparr>],
      connectedSql = True\<rparr>"

lemma demo_login:
  "serve demo_env (demo_run ! 1) demo_state = (token_answer ''2000.0xab'', demo_state2)"
proof -
  have t: "to_lower ''POST'' = ''post''" "to_lower ''/api/auth/login'' = ''/api/auth/login''"
    "to_lower ''0xAB'' = ''0xab''" "to_lower ''0xab'' = ''0xab''"
    "BigInt_text ''255'' = Inr 255" "decimal 2000 = ''2000''" "to_lower [] = []" by code_simp+
  then show ?thesis
    by (simp add: demo_run_def serve_def proxy_def need_profile starts_with_def demo_request_def route_def
      login_route_def login_def catching_def after_def degovConfig_def setting_def demo_env_def
      demo_world_def isDegovApiConfiguredServer_def isLocalConfigEnabled_def remember_config_def
      daocode_of_def property_def take_nonce_def store_login_def databaseConnection_def query_def
      user_of_def inspectContributor_def change_def insert_user_def ann_def new_user_def
      demo_state_def new_server_def demo_state2_def token_answer_def Let_def)
qed

lemma demo_served:
  "serve_all demo_env demo_run (new_server demo_env) =
     ([Json 200 (Resp_ok (NonceData ''n1'' generated)), token_answer ''2000.0xab''], demo_state2)"
proof -
  have "demo_run = [hd demo_run, demo_run ! 1]" by (simp add: demo_run_def)
  moreover have "serve_all demo_env [hd demo_run, demo_run ! 1] (new_server demo_env) =
     ([Json 200 (Resp_ok (NonceData ''n1'' generated)), token_answer ''2000.0xab''], demo_state2)"
    by (simp add: demo_nonce demo_login [unfolded One_nat_def])
  ultimately show ?thesis by metis
qed

lemma demo_written:
  "profile_view (snd (serve demo_env demo_write demo_state2)) ''7'' \<noteq> profile_view demo_state2 ''7''"
proof -
  have t: "to_lower ''POST'' = ''post''" "to_lower ''/api/profile/0xAB'' = ''/api/profile/0xab''"
    "replace_first ''/api/profile/'' [] ''/api/profile/0xAB'' = ''0xAB''"
    "to_lower ''0xAB'' = ''0xab''" "profile_path ''/api/profile/0xAB''"
    "split_on (CHR '' '') ''Bearer 2000.0xab'' = [''Bearer'', ''2000.0xab'']"
    "parseInt ''2000'' = Some 2000" by code_simp+
  then show ?thesis
    by (simp add: demo_write_def serve_def proxy_def need_profile starts_with_def demo_request_def route_def
      verifyAuth_def masked_payload_def
      post_profile_route_def post_profile_def catching_def after_def degovConfig_def setting_def demo_env_def
      demo_world_def daocode_of_def property_def same_address_def profile_address_def update_profile_def
      databaseConnection_def query_def user_of_def change_def update_users_def ann_def new_user_def
      demo_state2_def Let_def profile_fields_def form_text_def or_default_def profile_view_def
      profile_text_def)
qed

lemma demo_unforged: "unforged demo_env (fst (serve_all demo_env demo_run (new_server demo_env))) demo_write"
proof -
  have "split_on (CHR '' '') ''Bearer 2000.0xab'' = [''Bearer'', ''2000.0xab'']" by code_simp
  then show ?thesis
    by (simp add: unforged_def demo_served bearer_def demo_write_def demo_request_def)
qed

theorem profile_write_authorised_witness:
  "\<exists>t i f. bearer (snd demo_write) = Some t \<and> i < length demo_run \<and>
     fst (serve_all demo_env demo_run (new_server demo_env)) ! i = token_answer t \<and>
     siwe_of demo_env (snd (demo_run ! i)) = Some f \<and> to_lower (siwe_address f) = du_address ann \<and>
     w_now (fst demo_write) < w_now (fst (demo_run ! i)) + 18000000"
proof -
  let ?as = "fst (serve_all demo_env demo_run (new_server demo_env))"
  have run: "serve_all demo_env demo_run (new_server demo_env) = (?as, demo_state2)"
    by (simp add: demo_served)
  obtain w r where wr: "demo_write = (w, r)" by (cases demo_write)
  obtain a s' where ser: "serve demo_env (w, r) demo_state2 = (a, s')"
    by (cases "serve demo_env (w, r) demo_state2")
  have ann: "ann \<in> set (d_users demo_state2)" by (simp add: demo_state2_def)
  have view: "profile_view s' (du_id ann) \<noteq> profile_view demo_state2 (du_id ann)"
    using demo_written ser by (simp add: ann_def new_user_def demo_world_def wr)
  have unf: "unforged demo_env ?as (w, r)" using demo_unforged by (simp add: wr)
  have forwards: "forward_headers demo_env hs v ''x-degov-auth-payload'' = Some v"
    "decode_payload demo_env (encode_payload demo_env (signed_payload x)) = Inr (signed_payload x)" for hs v x
    by (simp_all add: demo_env_def signed_payload_def)
  from profile_write_authorised [OF demo_cache demo_token demo_siwe run ser unf ann view]
  show ?thesis unfolding Let_def forwards wr fst_conv snd_conv by (metis Inr_inject forwards(2) option.inject)
qed

theorem nonce_buys_one_login_witness:
  "redeemed demo_env ''n1'' (zip demo_run (fst (serve_all demo_env demo_run (new_server demo_env)))) \<le>
     issued ''n1'' (zip demo_run (fst (serve_all demo_env demo_run (new_server demo_env))))"
  using nonce_buys_one_login [OF demo_cache prod.collapse [symmetric], where wrs = demo_run and n = "''n1''"] by blast

lemma demo_sane: "\<forall>wr \<in> set demo_run. sane_powers wr"
proof -
  have "BigInt_text ''255'' = Inr 255" "BigInt_text ''0'' = Inr 0" by code_simp+
  then show ?thesis
    by (auto simp: demo_run_def sane_powers_def contributed_def demo_world_def demo_request_def sane_power_def)
qed

theorem user_table_typed_witness:
  "sorted_wrt (\<lambda>u v. stored_power v \<le> stored_power u)
     (ranked_users ''demo'' (d_users (snd (serve_all demo_env demo_run (new_server demo_env)))))"
  using user_table_typed [OF demo_siwe prod.collapse [symmetric], where wrs = demo_run and daocode = "''demo''"]
    demo_sane by blast

end
