(* ===== verification/WebSignIn.thy ===== *)
theory WebSignIn
  imports WebRoutes
begin

text \<open>
  The browser's side of signing in (packages/web/src/lib/auth, hooks/useSiweAuth.ts,
  hooks/useEnsureAuth.ts, lib/rainbowkit-auth.ts): tokens in local storage, the exchange with the
  server, the manager that lets one flow run at a time, and the adapter of the wallet kit.
  Logging is left out; the wallet, the network and the text of a sign-in message are parameters.
\<close>

section \<open>Tokens\<close>

type_synonym storage = "string \<rightharpoonup> string"

definition TOKEN_KEY_PREFIX :: string where
  "TOKEN_KEY_PREFIX = ''degov_auth_token''"

definition REMOTE_TOKEN_KEY_PREFIX :: string where
  "REMOTE_TOKEN_KEY_PREFIX = ''degov_remote_auth_token''"

definition getTokenKey :: "string option \<Rightarrow> string" where
  "getTokenKey address =
     (case setting address of
        None \<Rightarrow> TOKEN_KEY_PREFIX
      | Some a \<Rightarrow> TOKEN_KEY_PREFIX @ ''_'' @ to_lower a)"

definition getRemoteTokenKey :: "string option \<Rightarrow> string" where
  "getRemoteTokenKey address =
     (case setting address of
        None \<Rightarrow> REMOTE_TOKEN_KEY_PREFIX
      | Some a \<Rightarrow> REMOTE_TOKEN_KEY_PREFIX @ ''_'' @ to_lower a)"

definition getToken :: "string option \<Rightarrow> storage \<Rightarrow> string option" where
  "getToken address st = st (getTokenKey address)"

definition setToken :: "string option \<Rightarrow> string option \<Rightarrow> storage \<Rightarrow> storage" where
  "setToken token address st = st (getTokenKey address := setting token)"

definition clearToken :: "string option \<Rightarrow> storage \<Rightarrow> storage" where
  "clearToken address st = setToken None address st"

definition getRemoteToken :: "string option \<Rightarrow> storage \<Rightarrow> string option" where
  "getRemoteToken address st = st (getRemoteTokenKey address)"

definition setRemoteToken :: "string option \<Rightarrow> string option \<Rightarrow> storage \<Rightarrow> storage" where
  "setRemoteToken token address st = st (getRemoteTokenKey address := setting token)"

definition clearRemoteToken :: "string option \<Rightarrow> storage \<Rightarrow> storage" where
  "clearRemoteToken address st = setRemoteToken None address st"

definition clearAllTokens :: "string option \<Rightarrow> storage \<Rightarrow> storage" where
  "clearAllTokens address st = clearRemoteToken address (clearToken address st)"

definition clearAllAddressTokens :: "storage \<Rightarrow> storage" where
  "clearAllAddressTokens st =
     (\<lambda>k. if starts_with k TOKEN_KEY_PREFIX \<or> starts_with k REMOTE_TOKEN_KEY_PREFIX then None else st k)"

section \<open>The exchange with the server\<close>

record LoginResult =
  lr_success :: bool
  lr_token :: "string option"
  lr_error :: "string option"

record AuthResult =
  auth_success :: bool
  auth_token :: "string option"
  auth_remoteToken :: "string option"
  auth_error :: "string option"

text \<open>Optional chaining: a property of what may be \<open>null\<close> or \<open>undefined\<close>.\<close>

definition chained :: "json option \<Rightarrow> string \<Rightarrow> json option" where
  "chained j k = (case j of Some (JObject fs) \<Rightarrow> map_of fs k | _ \<Rightarrow> None)"

text \<open>The text of a value that is one and not empty.\<close>

definition text_of :: "json option \<Rightarrow> string option" where
  "text_of j = (case j of Some (JString t) \<Rightarrow> setting (Some t) | _ \<Rightarrow> None)"

definition text_or :: "json option \<Rightarrow> string \<Rightarrow> string" where
  "text_or j d = (case text_of j of None \<Rightarrow> d | Some t \<Rightarrow> t)"

definition source_of :: "json option \<Rightarrow> NonceSource option" where
  "source_of j =
     (case j of
        Some (JString t) \<Rightarrow>
          if t = ''remote'' then Some remote else if t = ''generated'' then Some generated else None
      | _ \<Rightarrow> None)"

text \<open>
  An answer as \<open>fetch\<close> gives it: whether its status is one of success, and its body. A reply is an
  exception when there is no answer.
\<close>

type_synonym reply = "(bool \<times> json outcome) outcome"

definition getNonce :: "reply \<Rightarrow> (string option \<times> NonceSource option) outcome" where
  "getNonce reply =
     and_then reply (\<lambda>(response_ok, body).
       if \<not> response_ok then Inl (ThrownError ''Failed to get nonce'')
       else and_then body (\<lambda>b.
            and_then (property (Some b) ''data'') (\<lambda>d.
            and_then (property d ''nonce'') (\<lambda>nonce.
            and_then (property d ''source'') (\<lambda>src.
              Inr (case nonce of Some (JString t) \<Rightarrow> Some t | _ \<Rightarrow> None, source_of src))))))"

definition loginLocal :: "reply \<Rightarrow> LoginResult outcome" where
  "loginLocal reply =
     and_then reply (\<lambda>(_, body). and_then body (\<lambda>result.
       case (chained (Some result) ''code'' = Some (JNumber 0),
             text_of (chained (chained (Some result) ''data'') ''token'')) of
         (True, Some t) \<Rightarrow> Inr \<lparr>lr_success = True, lr_token = Some t, lr_error = None\<rparr>
       | _ \<Rightarrow> and_then (property (Some result) ''msg'') (\<lambda>msg.
           Inr \<lparr>lr_success = False, lr_token = None,
                lr_error = Some (text_or msg ''Local authentication failed'')\<rparr>)))"

definition first_message :: "json option \<Rightarrow> json option" where
  "first_message errors =
     (case errors of Some (JArray (e # _)) \<Rightarrow> chained (Some e) ''message'' | _ \<Rightarrow> None)"

definition loginRemote :: "string option \<Rightarrow> (string \<Rightarrow> reply) \<Rightarrow> LoginResult" where
  "loginRemote endpoint reply =
     (case endpoint of
        None \<Rightarrow> \<lparr>lr_success = False, lr_token = None, lr_error = Some ''Remote API endpoint not configured''\<rparr>
      | Some url \<Rightarrow>
          (case and_then (reply url) (\<lambda>(_, body). and_then body (\<lambda>result.
                  and_then (property (Some result) ''data'') (\<lambda>data.
                    case text_of (chained (chained data ''login'') ''token'') of
                      Some t \<Rightarrow> Inr \<lparr>lr_success = True, lr_token = Some t, lr_error = None\<rparr>
                    | None \<Rightarrow> Inr \<lparr>lr_success = False, lr_token = None,
                        lr_error = Some (text_or (first_message (chained (Some result) ''errors''))
                          ''Remote authentication failed'')\<rparr>))) of
             Inr r \<Rightarrow> r
           | Inl e \<Rightarrow> \<lparr>lr_success = False, lr_token = None, lr_error = Some (failure_message e)\<rparr>))"

definition join_errors :: "string list \<Rightarrow> string" where
  "join_errors es = (case es of [] \<Rightarrow> [] | e # es' \<Rightarrow> e @ concat (map (\<lambda>f. ''; '' @ f) es'))"

definition verifySignature ::
  "reply \<Rightarrow> LoginResult \<Rightarrow> string \<Rightarrow> NonceSource option \<Rightarrow> storage \<Rightarrow> AuthResult \<times> storage" where
  "verifySignature localReply remoteResult address nonceSource st =
     (case loginLocal localReply of
        Inl e \<Rightarrow>
          (\<lparr>auth_success = False, auth_token = None, auth_remoteToken = None,
            auth_error = Some (failure_message e)\<rparr>, st)
      | Inr localResult \<Rightarrow>
          let (localToken, errors1, st1) =
                (if lr_success localResult
                 then (lr_token localResult, [], setToken (lr_token localResult) (Some address) st)
                 else (None, [''Local login failed: '' @ shown (lr_error localResult)], st));
              (remoteToken, errors2, st2) =
                (if nonceSource = Some remote then
                   if lr_success remoteResult
                   then (lr_token remoteResult, errors1, setRemoteToken (lr_token remoteResult) (Some address) st1)
                   else (None, errors1 @ [''Remote login failed: '' @ shown (lr_error remoteResult)], st1)
                 else (None, errors1, st1))
          in if setting localToken \<noteq> None \<or> setting remoteToken \<noteq> None
             then (\<lparr>auth_success = True, auth_token = localToken, auth_remoteToken = remoteToken,
                    auth_error = (if errors2 = [] then None else Some (join_errors errors2))\<rparr>, st2)
             else (\<lparr>auth_success = False, auth_token = None, auth_remoteToken = None,
                    auth_error = Some (if join_errors errors2 = [] then ''Authentication failed''
                                       else join_errors errors2)\<rparr>, st2))"

definition signOut :: "storage \<Rightarrow> storage" where
  "signOut st = (clearAllTokens None st)(''REACT_QUERY_OFFLINE_CACHE'' := None)"

text \<open>
  The flow with a wallet: \<open>message\<close> makes the text for a nonce, \<open>sign\<close> is the wallet's answer, and \<open>post\<close> the server's answers to a sign-in with a message and a signature.
\<close>

definition authenticateWithWallet ::
  "reply \<Rightarrow> (string option \<Rightarrow> string outcome) \<Rightarrow> (string \<Rightarrow> string outcome) \<Rightarrow>
   (string \<Rightarrow> string \<Rightarrow> reply) \<Rightarrow> (string \<Rightarrow> string \<Rightarrow> LoginResult) \<Rightarrow>
   string \<Rightarrow> storage \<Rightarrow> AuthResult \<times> storage" where
  "authenticateWithWallet nonceReply message sign post postRemote address st =
     (case and_then (getNonce nonceReply) (\<lambda>(nonce, src).
             and_then (message nonce) (\<lambda>m.
             and_then (sign m) (\<lambda>signature. Inr (m, src, signature)))) of
        Inl e \<Rightarrow>
          (\<lparr>auth_success = False, auth_token = None, auth_remoteToken = None,
            auth_error = Some (failure_message e)\<rparr>, st)
      | Inr (m, src, signature) \<Rightarrow>
          verifySignature (post m signature) (postRemote m signature) address src st)"

text \<open>The requests the flow makes, and the answers of the application's own server in JSON.\<close>

definition nonce_request :: "headers \<Rightarrow> Request" where
  "nonce_request hs =
     \<lparr>req_method = ''POST'', req_pathname = ''/api/auth/nonce'', req_headers = hs,
      req_query = Map.empty, req_body = Inl (ThrownError ''SyntaxError'')\<rparr>"

definition login_request :: "headers \<Rightarrow> string \<Rightarrow> string \<Rightarrow> Request" where
  "login_request hs m signature =
     \<lparr>req_method = ''POST'', req_pathname = ''/api/auth/login'', req_headers = hs,
      req_query = Map.empty,
      req_body = Inr (JObject [(''message'', JString m), (''signature'', JString signature)])\<rparr>"

definition source_text :: "NonceSource \<Rightarrow> string" where
  "source_text src = (case src of generated \<Rightarrow> ''generated'' | remote \<Rightarrow> ''remote'')"

text \<open>The data of other routes is a parameter: signing in does not read it.\<close>

definition data_json :: "(RespData \<Rightarrow> json) \<Rightarrow> RespData \<Rightarrow> json" where
  "data_json other d =
     (case d of
        TextData t \<Rightarrow> JString t
      | TokenData t \<Rightarrow> JObject [(''token'', JString t)]
      | NonceData n src \<Rightarrow> JObject [(''nonce'', JString n), (''source'', JString (source_text src))]
      | _ \<Rightarrow> other d)"

definition optional_property :: "string \<Rightarrow> json option \<Rightarrow> (string \<times> json) list" where
  "optional_property k j = (case j of None \<Rightarrow> [] | Some x \<Rightarrow> [(k, x)])"

definition resp_json :: "(RespData \<Rightarrow> json) \<Rightarrow> RespData Resp \<Rightarrow> json" where
  "resp_json other r =
     JObject ([(''code'', JNumber (of_int (resp_code r)))] @
       optional_property ''message'' (map_option JString (resp_message r)) @
       optional_property ''data'' (map_option (data_json other) (resp_data r)) @
       optional_property ''additional'' (map_option JString (resp_additional r)))"

definition received :: "(RespData \<Rightarrow> json) \<Rightarrow> Answer \<Rightarrow> reply" where
  "received other a =
     (case a of
        Json status r \<Rightarrow> Inr (200 \<le> status \<and> status < 300, Inr (resp_json other r))
      | ErrorJson status t \<Rightarrow> Inr (200 \<le> status \<and> status < 300, Inr (JObject [(''error'', JString t)]))
      | LogAnswer \<Rightarrow> Inr (True, Inr (JObject [(''ok'', JBool True)]))
      | NotFound \<Rightarrow> Inr (False, Inl (ThrownError ''SyntaxError'')))"

text \<open>
  A sign-in with the application's own server: the nonce comes from one request, the wallet's
  signature goes into the next.
\<close>

definition sign_in ::
  "'c Env \<Rightarrow> World \<Rightarrow> World \<Rightarrow> (RespData \<Rightarrow> json) \<Rightarrow> headers \<Rightarrow> (string option \<Rightarrow> string outcome) \<Rightarrow>
   (string \<Rightarrow> string outcome) \<Rightarrow> (string \<Rightarrow> string \<Rightarrow> LoginResult) \<Rightarrow> string \<Rightarrow>
   'c Server \<Rightarrow> storage \<Rightarrow> AuthResult \<times> storage" where
  "sign_in E w1 w2 other hs message sign postRemote address s st =
     (case serve E (w1, nonce_request hs) s of
        (a1, s1) \<Rightarrow>
          authenticateWithWallet (received other a1) message sign
            (\<lambda>m signature. received other (fst (serve E (w2, login_request hs m signature) s1)))
            postRemote address st)"

text \<open>The hooks: signing in needs a connected wallet, and is skipped while a token is stored.\<close>

definition performAuthentication ::
  "bool \<Rightarrow> string option \<Rightarrow> (string \<Rightarrow> storage \<Rightarrow> AuthResult \<times> storage) \<Rightarrow> storage \<Rightarrow>
   AuthResult \<times> storage" where
  "performAuthentication isConnected wallet withWallet st =
     (case (isConnected, setting wallet) of
        (True, Some address) \<Rightarrow> withWallet address st
      | _ \<Rightarrow>
          (\<lparr>auth_success = False, auth_token = None, auth_remoteToken = None,
            auth_error = Some ''Please connect your wallet first''\<rparr>, st))"

definition ensureAuth ::
  "bool \<Rightarrow> string option \<Rightarrow> bool \<Rightarrow> (storage \<Rightarrow> AuthResult \<times> storage) \<Rightarrow> storage \<Rightarrow>
   (bool \<times> string option) \<times> storage" where
  "ensureAuth isConnected address hasModal authenticate st =
     (if \<not> isConnected then
        ((False, Some (if hasModal then ''Please connect your wallet'' else ''Connect modal not available'')), st)
      else if setting (getToken address st) \<noteq> None then ((True, None), st)
      else case authenticate st of (r, st') \<Rightarrow> ((auth_success r, auth_error r), st'))"

section \<open>One flow at a time\<close>

text \<open>
  \<open>GlobalAuthManager\<close>: the promise a call joins, and the flows that have not settled, by
  number. A flow that settles clears the promise whichever it is.
\<close>

record AuthManager =
  currentAuthPromise :: "nat option"
  isAuthenticating :: bool
  unsettled :: "nat list"

definition no_flow :: AuthManager where
  "no_flow = \<lparr>currentAuthPromise = None, isAuthenticating = False, unsettled = []\<rparr>"

definition authenticate :: "nat \<Rightarrow> AuthManager \<Rightarrow> nat \<times> AuthManager" where
  "authenticate fresh m =
     (case currentAuthPromise m of
        Some p \<Rightarrow> (p, m)
      | None \<Rightarrow>
          (fresh, m \<lparr>isAuthenticating := True, currentAuthPromise := Some fresh,
                     unsettled := unsettled m @ [fresh]\<rparr>))"

definition settle :: "nat \<Rightarrow> AuthManager \<Rightarrow> AuthManager" where
  "settle p m =
     m \<lparr>unsettled := remove1 p (unsettled m), isAuthenticating := False, currentAuthPromise := None\<rparr>"

definition reset_auth :: "AuthManager \<Rightarrow> AuthManager" where
  "reset_auth m = m \<lparr>isAuthenticating := False, currentAuthPromise := None\<rparr>"

text \<open>
  What callers do: ask for a flow, reset the manager when they sign out; and flows settle. A run
  keeps its actions.
\<close>

datatype AuthAction = Ask nat | Settle nat | Reset

inductive auth_run :: "AuthAction list \<Rightarrow> AuthManager \<Rightarrow> bool" where
  start: "auth_run [] no_flow"
| ask: "auth_run acts m \<Longrightarrow> fresh \<notin> set (unsettled m) \<Longrightarrow>
    auth_run (acts @ [Ask fresh]) (snd (authenticate fresh m))"
| settles: "auth_run acts m \<Longrightarrow> p \<in> set (unsettled m) \<Longrightarrow> auth_run (acts @ [Settle p]) (settle p m)"
| resets: "auth_run acts m \<Longrightarrow> auth_run (acts @ [Reset]) (reset_auth m)"

inductive_cases auth_run_cases: "auth_run acts m"

section \<open>The adapter of the wallet kit\<close>

definition hex_char :: "char \<Rightarrow> bool" where
  "hex_char c = (hex_value c \<noteq> None)"

definition is_address :: "string \<Rightarrow> bool" where
  "is_address t \<longleftrightarrow> starts_with t ''0x'' \<and> length t = 42 \<and> list_all hex_char (drop 2 t)"

definition address_line :: "string \<Rightarrow> string option" where
  "address_line message =
     map_option trim (find (\<lambda>line. is_address (trim line)) (split_on (CHR ''\<newline>'') message))"

definition nonce_line :: "string \<Rightarrow> string" where
  "nonce_line message =
     (case find (\<lambda>line. starts_with line ''Nonce: '') (split_on (CHR ''\<newline>'') message) of
        None \<Rightarrow> [] | Some line \<Rightarrow> replace_first ''Nonce: '' [] line)"

record Adapter =
  nonceSourceMap :: "string \<rightharpoonup> NonceSource"
  localStorage :: storage

definition adapter_getNonce ::
  "reply \<Rightarrow> Adapter \<Rightarrow> string option outcome \<times> Adapter" where
  "adapter_getNonce reply a =
     (case getNonce reply of
        Inl e \<Rightarrow> (Inl e, a)
      | Inr (nonce, src) \<Rightarrow>
          (Inr nonce,
           case nonce of None \<Rightarrow> a | Some n \<Rightarrow> a \<lparr>nonceSourceMap := (nonceSourceMap a)(n := src)\<rparr>))"

definition adapter_verify ::
  "reply \<Rightarrow> LoginResult \<Rightarrow> string \<Rightarrow> Adapter \<Rightarrow> bool \<times> Adapter" where
  "adapter_verify localReply remoteResult message a =
     (let a1 = a \<lparr>localStorage := signOut (localStorage a)\<rparr>
      in case address_line message of
           None \<Rightarrow> (False, a1)
         | Some address \<Rightarrow>
             let nonce = nonce_line message
             in case verifySignature localReply remoteResult address (nonceSourceMap a1 nonce) (localStorage a1) of
                  (r, st) \<Rightarrow>
                    (auth_success r,
                     a1 \<lparr>localStorage := st,
                         nonceSourceMap := (if nonce \<noteq> [] then (nonceSourceMap a1)(nonce := None)
                                            else nonceSourceMap a1)\<rparr>))"

definition adapter_signOut :: "Adapter \<Rightarrow> Adapter" where
  "adapter_signOut a = a \<lparr>localStorage := signOut (localStorage a), nonceSourceMap := Map.empty\<rparr>"

end
