(* ===== verification/WebSignInClaims.thy ===== *)
theory WebSignInClaims
  imports WebSecurity WebSignIn
begin

text \<open>
  Signing in, from the browser to the server's table and back, and the manager of the flows.
\<close>

section \<open>What the browser makes of an answer\<close>

lemma served_nonce:
  "serve E (w, nonce_request hs) s = nonce_route E w s"
proof -
  have "to_lower ''/api/auth/nonce'' = ''/api/auth/nonce''" by code_simp
  then show ?thesis
    by (simp add: serve_def proxy_def need_profile nonce_request_def route_def Let_def starts_with_def)
qed

lemma served_login:
  "serve E (w, login_request hs m signature) s = login_route E w (login_request hs m signature) s"
proof -
  have "to_lower ''/api/auth/login'' = ''/api/auth/login''" by code_simp
  then show ?thesis
    by (simp add: serve_def proxy_def need_profile login_request_def route_def Let_def starts_with_def)
qed

lemma getNonce_received:
  "getNonce (received other (Json 200 (Resp_ok (NonceData n src)))) = Inr (Some n, Some src)"
  by (cases src) (simp_all add: getNonce_def received_def resp_json_def optional_property_def Resp_ok_def
      data_json_def property_def source_of_def source_text_def)

lemma nonce_exchange:
  assumes "remote_nonce E w = None"
  shows "getNonce (received other (fst (serve E (w, nonce_request hs) s))) =
    Inr (Some (w_random w), Some generated)"
  using assms by (simp add: served_nonce nonce_route_def getNonce_received)

text \<open>The sign-in route answers with a token or with the code of an error.\<close>

definition error_answer :: "Answer \<Rightarrow> bool" where
  "error_answer a \<longleftrightarrow> (\<exists>status r. a = Json status r \<and> resp_code r = 1)"

lemma error_answers [simp]:
  "error_answer (Json k (Resp_err m))" "error_answer (Json k (Resp_errWithData m d))"
  by (simp_all add: error_answer_def Resp_err_def Resp_errWithData_def)

lemma login_route_answers:
  "error_answer (fst (login_route E w r s)) \<or> (\<exists>t. fst (login_route E w r s) = token_answer t)"
proof -
  define P where "P = (\<lambda>a. error_answer a \<or> (\<exists>t. a = token_answer t))"
  have P: "P (Json 400 (Resp_err m))" "P (Json 200 (Resp_ok (TokenData t)))"
    "P (Json 400 (Resp_errWithData m d))" for m t d
    by (auto simp: P_def token_answer_def)
  have "answers P (login E w r)"
    unfolding login_def Let_def
    by (auto intro!: answer_rules P split: option.split sum.split)
  then have "P (fst (login_route E w r s))" unfolding login_route_def by (rule answers_caught) (rule P)
  then show ?thesis by (simp add: P_def)
qed

definition failed_locally :: LoginResult where
  "failed_locally =
     \<lparr>lr_success = False, lr_token = None, lr_error = Some ''Local authentication failed''\<rparr>"

lemma loginLocal_token:
  "t \<noteq> [] \<Longrightarrow> loginLocal (received other (token_answer t)) =
     Inr \<lparr>lr_success = True, lr_token = Some t, lr_error = None\<rparr>"
  by (simp add: loginLocal_def received_def resp_json_def optional_property_def token_answer_def
      Resp_ok_def data_json_def chained_def text_of_def setting_def)

lemma loginLocal_empty:
  "loginLocal (received other (token_answer [])) = Inr failed_locally"
  by (simp add: loginLocal_def received_def resp_json_def optional_property_def token_answer_def
      Resp_ok_def data_json_def chained_def text_of_def setting_def property_def failed_locally_def text_or_def)

lemma loginLocal_error:
  assumes "error_answer a"
  shows "loginLocal (received other a) = Inr failed_locally"
proof -
  obtain status r where "a = Json status r" "resp_code r = 1" using assms by (auto simp: error_answer_def)
  then show ?thesis
    by (cases "resp_message r"; cases "resp_data r"; cases "resp_additional r")
       (simp_all add: loginLocal_def received_def resp_json_def optional_property_def chained_def
          property_def failed_locally_def text_or_def text_of_def)
qed

section \<open>Signing in\<close>

definition granted :: "string \<Rightarrow> AuthResult" where
  "granted t = \<lparr>auth_success = True, auth_token = Some t, auth_remoteToken = None, auth_error = None\<rparr>"

definition refused :: AuthResult where
  "refused = \<lparr>auth_success = False, auth_token = None, auth_remoteToken = None,
     auth_error = Some ''Local login failed: Local authentication failed''\<rparr>"

lemma sign_in_steps:
  assumes "remote_nonce E w1 = None" and "message (Some (w_random w1)) = Inr m" and "sign m = Inr signature"
  shows "sign_in E w1 w2 other hs message sign postRemote address s st =
    verifySignature (received other (fst (serve E (w2, login_request hs m signature)
        (snd (serve E (w1, nonce_request hs) s)))))
      (postRemote m signature) address (Some generated) st"
proof (cases "serve E (w1, nonce_request hs) s")
  case (Pair a s1)
  then have "getNonce (received other a) = Inr (Some (w_random w1), Some generated)"
    using nonce_exchange [OF assms(1), of other hs s] by simp
  with Pair assms(2,3) show ?thesis by (simp add: sign_in_def authenticateWithWallet_def)
qed

text \<open>
  C14: Browser and server agree on signing in. When the nonce is the server's own, because the
  remote service gave none, and the wallet signs the message, the flow ends with success exactly when the server answered the signed message with a token, and then
  that token, and nothing else, is stored under the wallet's address; otherwise nothing is stored.
  Whatever reason the server gave, the error shown is the same, because the browser reads a
  property the server does not send.
\<close>

theorem sign_in_follows_server:
  assumes "remote_nonce E w1 = None" and "message (Some (w_random w1)) = Inr m" and "sign m = Inr signature"
    and "serve E (w2, login_request hs m signature) (snd (serve E (w1, nonce_request hs) s)) = (a, s2)"
    and "sign_in E w1 w2 other hs message sign postRemote address s st = (r, st')"
  shows "if \<exists>t. t \<noteq> [] \<and> a = token_answer t
    then \<exists>t. a = token_answer t \<and> r = granted t \<and> st' = st(getTokenKey (Some address) \<mapsto> t)
    else r = refused \<and> st' = st"
proof -
  let ?st = "verifySignature (received other a) (postRemote m signature) address (Some generated) st"
  have run: "?st = (r, st')" using sign_in_steps [of E w1 message m sign signature w2 other hs postRemote address s st] assms by simp
  have "a = fst (login_route E w2 (login_request hs m signature) (snd (serve E (w1, nonce_request hs) s)))"
    using assms(4) by (simp add: served_login)
  then consider t where "a = token_answer t" "t \<noteq> []" | "loginLocal (received other a) = Inr failed_locally"
    "\<not> (\<exists>t. t \<noteq> [] \<and> a = token_answer t)"
    using login_route_answers loginLocal_error loginLocal_empty
    by (metis error_answer_def token_answer_def Answer.inject(1) Resp.select_convs(1) Resp_ok_def zero_neq_one)
  then show ?thesis
  proof cases
    case 1
    with run show ?thesis
      by (auto simp: verifySignature_def loginLocal_token setToken_def setting_def granted_def)
  next
    case 2
    with run show ?thesis
      by (auto simp: verifySignature_def failed_locally_def shown_def setting_def join_errors_def refused_def)
  qed
qed

text \<open>What a sign-in needs of the services behind the server.\<close>

definition services_answer ::
  "'c Env \<Rightarrow> World \<Rightarrow> headers \<Rightarrow> WebConfig \<Rightarrow> string \<Rightarrow> 'c Server \<Rightarrow> bool" where
  "services_answer E w hs c address s \<longleftrightarrow>
     setting (DATABASE_URL E) \<noteq> None \<and>
     (\<exists>host. setting (hs ''host'') = Some host \<and> cachedConfig s host = Some (Some c)) \<and>
     (\<forall>k. w_sql w k = None) \<and> w_snowflake w \<notin> du_id ` set (d_users s) \<and>
     (\<exists>ps. w_contributors w (cfg_indexer_endpoint c) (to_lower address) = Inr (Contributors ps) \<and>
        (\<forall>p \<in> set ps. \<exists>n. BigInt_text p = Inr n))"

lemma config_cached:
  assumes "services_answer E w hs c address s" and "cachedConfig s' = cachedConfig s"
  shows "degovConfig E w hs s' = (Inr (Some c), s')"
  using assms by (auto simp: services_answer_def degovConfig_def)

lemma user_of_append: "user_of a d us \<noteq> None \<Longrightarrow> user_of a d (us @ vs) \<noteq> None"
  by (auto simp: user_of_def find_append split: option.split)

lemma store_login_stores:
  assumes "services_answer E w hs c address s"
  obtains s' where "store_login E w hs (cfg_code c) address s = (Inr (), s')"
    and "user_of address (cfg_code c) (d_users s') \<noteq> None"
proof -
  obtain s1 where s1: "databaseConnection E s = (Inr (), s1)" "cachedConfig s1 = cachedConfig s"
    "d_users s1 = d_users s"
    by (rule that [of "if connectedSql s then s else s \<lparr>connectedSql := True\<rparr>"])
       (use assms in \<open>auto simp: databaseConnection_def services_answer_def\<close>)
  have sql: "w_sql w k = None" for k using assms by (simp add: services_answer_def)
  show thesis
  proof (cases "user_of address (cfg_code c) (d_users s)")
    case None
    obtain ps where ps: "w_contributors w (cfg_indexer_endpoint c) (to_lower address) = Inr (Contributors ps)"
      "\<forall>p \<in> set ps. \<exists>n. BigInt_text p = Inr n" "w_snowflake w \<notin> du_id ` set (d_users s)"
      using assms by (auto simp: services_answer_def)
    let ?p = "case ps of [] \<Rightarrow> ''0'' | p # _ \<Rightarrow> p"
    have "BigInt_text ''0'' = Inr 0" by code_simp
    then obtain n where n: "BigInt_text ?p = Inr n" using ps(2) by (cases ps) auto
    let ?u = "new_user w (cfg_code c) address n"
    have "inspectContributor E w hs address s1 = (Inr (case ps of [] \<Rightarrow> None | p # _ \<Rightarrow> Some p), s1)"
      using config_cached [OF assms s1(2)] ps(1)
      by (simp add: inspectContributor_def after_def split: list.split)
    moreover have "(case (case ps of [] \<Rightarrow> None | p # _ \<Rightarrow> Some p) of None \<Rightarrow> ''0'' | Some p \<Rightarrow> p) = ?p"
      by (cases ps) auto
    moreover have "insert_user ?u s1 = Inr (s1 \<lparr>d_users := d_users s @ [?u]\<rparr>)"
      using ps(3) s1(3) by (force simp: insert_user_def new_user_def)
    ultimately have "store_login E w hs (cfg_code c) address s = (Inr (), s1 \<lparr>d_users := d_users s @ [?u]\<rparr>)"
      using s1 None n by (simp add: store_login_def after_def query_def sql change_def)
    moreover have "user_of address (cfg_code c) (d_users s @ [?u]) = Some ?u"
      using None by (simp add: user_of_def find_append new_user_def)
    ultimately show thesis using that by simp
  next
    case (Some u)
    let ?f = "\<lambda>v. v \<lparr>du_last_login_time := w_now w, du_utime := Some (w_now w)\<rparr>"
    let ?us = "map (\<lambda>v. if du_id v = du_id u then ?f v else v) (d_users s)"
    have "store_login E w hs (cfg_code c) address s = (Inr (), s1 \<lparr>d_users := ?us\<rparr>)"
      using s1 Some by (simp add: store_login_def after_def query_def sql change_def update_users_def)
    moreover have "user_of address (cfg_code c) ?us \<noteq> None"
      using Some by (simp add: user_of_def find_map_same)
    ultimately show thesis using that by simp
  qed
qed

text \<open>Signing out clears the entries without an address: a wallet's own token stays.\<close>

lemma sign_out_keeps_wallet_token:
  assumes "setting address \<noteq> None"
  shows "getToken address (signOut st) = getToken address st"
  using assms
  by (auto simp: getToken_def signOut_def clearAllTokens_def clearToken_def clearRemoteToken_def
      setToken_def setRemoteToken_def getTokenKey_def getRemoteTokenKey_def setting_def
      TOKEN_KEY_PREFIX_def REMOTE_TOKEN_KEY_PREFIX_def split: option.splits if_splits)

lemma still_authenticated:
  assumes "setting address \<noteq> None" and "setting (getToken address st) \<noteq> None"
  shows "ensureAuth True address hasModal flow (signOut st) = ((True, None), signOut st)"
  using assms by (simp add: ensureAuth_def sign_out_keeps_wallet_token)

text \<open>
  C20: Sign-in works. When the wallet signs the server's nonce in time, the message verifies for
  its address, a key is configured and the services behind the server answer, the flow ends with
  a token for that address stored under the wallet's address, the user is in the table
  (created with the power the indexer reports, when new), the token verifies for five hours, and
  asking again does not start another flow. Nor does it after signing out: that leaves the
  wallet's token where it is.
\<close>

theorem sign_in_succeeds:
  assumes "cache_ok E" and "token_ok E" and "setting (JWT_SECRET_KEY E) = Some key"
    and "remote_nonce E w1 = None" and "message (Some (w_random w1)) = Inr m" and "sign m = Inr signature"
    and "siwe_verify E (Some (JString m)) (Some (JString signature)) = Inr f" and "siwe_nonce f = w_random w1"
    and "w_now w2 \<le> w_now w1 + 180000"
    and "services_answer E w2 hs c (to_lower (siwe_address f)) s"
    and "t = jwt_sign E key (to_lower (siwe_address f)) (w_now w2)" and "t \<noteq> []" and "address \<noteq> []"
    and "sign_in E w1 w2 other hs message sign postRemote address s st = (r, st')"
  shows "r = granted t \<and> getToken (Some address) st' = Some t \<and>
    user_of (to_lower (siwe_address f)) (cfg_code c)
      (d_users (snd (serve E (w2, login_request hs m signature) (snd (serve E (w1, nonce_request hs) s))))) \<noteq> None \<and>
    (\<forall>now < w_now w2 + 18000000. \<exists>p. jwt_verify E key t now = Inr p) \<and>
    ensureAuth True (Some address) hasModal again st' = ((True, None), st') \<and>
    ensureAuth True (Some address) hasModal again (signOut st') = ((True, None), signOut st')"
proof -
  let ?a = "to_lower (siwe_address f)"
  define s1 where "s1 = snd (serve E (w1, nonce_request hs) s)"
  have s1: "s1 = s \<lparr>nonces := cache_set E (w_now w1) (w_random w1) (nonces s)\<rparr>"
    using assms(4) by (simp add: s1_def served_nonce nonce_route_def)
  then have sv: "services_answer E w2 hs c ?a s1" using assms(10) by (simp add: services_answer_def)
  define s2 where "s2 = s1 \<lparr>nonces := cache_del E (w_random w1) (nonces s1)\<rparr>"
  have nonce: "take_nonce E w2 (w_random w1) s1 = (Inr True, s2)"
    using assms(1,9) by (simp add: take_nonce_def s2_def s1 cache_ok_def)
  have sv2: "services_answer E w2 hs c ?a s2" using sv by (simp add: s2_def services_answer_def)
  obtain s3 where s3: "store_login E w2 hs (cfg_code c) ?a s2 = (Inr (), s3)"
    "user_of ?a (cfg_code c) (d_users s3) \<noteq> None"
    by (rule store_login_stores [OF sv2])
  have "login E w2 (login_request hs m signature) s1 = (Inr (token_answer t), s3)"
    using config_cached [OF sv refl] assms(3,7,8,11) nonce s3(1)
    by (simp add: login_def login_request_def after_def daocode_of_def property_def token_answer_def Let_def)
  then have served: "serve E (w2, login_request hs m signature) s1 = (token_answer t, s3)"
    by (simp add: served_login login_route_def catching_def)
  have "sign_in E w1 w2 other hs message sign postRemote address s st = (granted t, st(getTokenKey (Some address) \<mapsto> t))"
    using sign_in_steps [of E w1 message m sign signature w2 other hs postRemote address s st] assms(4-6,12)
      served by (simp add: s1_def [symmetric] verifySignature_def loginLocal_token setToken_def setting_def granted_def)
  then have r: "r = granted t" "st' = st(getTokenKey (Some address) \<mapsto> t)" using assms(14) by simp_all
  have "\<forall>now < w_now w2 + 18000000. \<exists>p. jwt_verify E key t now = Inr p"
    using assms(2) unfolding token_ok_def assms(11) by meson
  moreover have "getToken (Some address) st' = Some t" using r by (simp add: getToken_def)
  moreover from this assms(12,13) have
    "ensureAuth True (Some address) hasModal again (signOut st') = ((True, None), signOut st')"
    by (intro still_authenticated) (simp_all add: setting_def)
  ultimately show ?thesis
    using r served s3(2) assms(12) by (simp add: s1_def [symmetric] ensureAuth_def setting_def)
qed

section \<open>The manager of the flows\<close>

definition resets_of :: "AuthAction list \<Rightarrow> nat" where
  "resets_of acts = length (filter (\<lambda>a. a = Reset) acts)"

lemma flows_counted:
  "auth_run acts m \<Longrightarrow>
     length (unsettled m) \<le> resets_of acts + (if isAuthenticating m then 1 else 0) \<and>
     isAuthenticating m = (currentAuthPromise m \<noteq> None) \<and>
     (\<forall>p. currentAuthPromise m = Some p \<longrightarrow> p \<in> set (unsettled m))"
proof (induction rule: auth_run.induct)
  case start
  show ?case by (simp add: no_flow_def)
next
  case (ask acts m fresh)
  then show ?case by (auto simp: authenticate_def resets_of_def split: option.splits if_splits)
next
  case (settles acts m p)
  then have "0 < length (unsettled m)" by (cases "unsettled m") auto
  with settles show ?case by (auto simp: settle_def resets_of_def length_remove1 split: if_splits)
next
  case (resets acts m)
  then show ?case by (auto simp: reset_auth_def resets_of_def split: if_splits)
qed

text \<open>
  One flow at a time. In every run of the manager there are no more unsettled flows than
  resets, plus one while it says that it authenticates; a call made meanwhile joins an unsettled
  flow and starts none. So without sign-outs at most one flow runs and the flag tells whether.
\<close>

theorem one_flow_at_a_time:
  assumes "auth_run acts m"
  shows "length (unsettled m) \<le> resets_of acts + (if isAuthenticating m then 1 else 0) \<and>
    (isAuthenticating m \<longrightarrow> (\<exists>p \<in> set (unsettled m). \<forall>fresh. authenticate fresh m = (p, m)))"
  using flows_counted [OF assms] by (auto simp: authenticate_def)

text \<open>A reset lets a second flow start while the first runs, and the first then hides the second.\<close>

lemma reset_lets_two_flows_run:
  "auth_run [Ask 1, Reset, Ask 2] (\<lparr>currentAuthPromise = Some 2, isAuthenticating = True, unsettled = [1, 2]\<rparr>)"
  "auth_run [Ask 1, Reset, Ask 2, Settle 1]
     (\<lparr>currentAuthPromise = None, isAuthenticating = False, unsettled = [2]\<rparr>)"
proof -
  let ?m1 = "snd (authenticate 1 no_flow)"
  let ?m2 = "reset_auth ?m1"
  let ?m3 = "snd (authenticate 2 ?m2)"
  have 1: "auth_run ([] @ [Ask 1]) ?m1" by (rule auth_run.ask [OF auth_run.start]) (simp add: no_flow_def)
  have 2: "auth_run (([] @ [Ask 1]) @ [Reset]) ?m2" by (rule auth_run.resets [OF 1])
  have 3: "auth_run ((([] @ [Ask 1]) @ [Reset]) @ [Ask 2]) ?m3"
    by (rule auth_run.ask [OF 2]) (simp add: no_flow_def authenticate_def reset_auth_def)
  have 4: "auth_run (((([] @ [Ask 1]) @ [Reset]) @ [Ask 2]) @ [Settle 1]) (settle 1 ?m3)"
    by (rule auth_run.settles [OF 3]) (simp add: no_flow_def authenticate_def reset_auth_def)
  show "auth_run [Ask 1, Reset, Ask 2] (\<lparr>currentAuthPromise = Some 2, isAuthenticating = True, unsettled = [1, 2]\<rparr>)"
    using 3 by (simp add: no_flow_def authenticate_def reset_auth_def)
  show "auth_run [Ask 1, Reset, Ask 2, Settle 1]
     (\<lparr>currentAuthPromise = None, isAuthenticating = False, unsettled = [2]\<rparr>)"
    using 4 by (simp add: no_flow_def authenticate_def reset_auth_def settle_def)
qed

theorem one_flow_at_a_time_witness:
  "length (unsettled (snd (authenticate 1 no_flow))) \<le> resets_of [Ask 1] + 1"
proof -
  have "auth_run ([] @ [Ask 1]) (snd (authenticate 1 no_flow))"
    by (rule auth_run.ask [OF auth_run.start]) (simp add: no_flow_def)
  from one_flow_at_a_time [OF this] show ?thesis by (simp add: no_flow_def authenticate_def resets_of_def)
qed

section \<open>A sign-in to try the properties on\<close>

text \<open>The server of the other properties, the configuration loaded, and a message that is the nonce.\<close>

definition demo_ready :: "(string \<rightharpoonup> nat) Server" where
  "demo_ready = (new_server demo_env) \<lparr>cachedConfig :=
     [''demo'' \<mapsto> Some \<lparr>cfg_code = ''demo'', cfg_indexer_endpoint = ''indexer''\<rparr>]\<rparr>"

definition demo_message :: "string option \<Rightarrow> string outcome" where
  "demo_message nonce = (case nonce of None \<Rightarrow> Inl (ThrownError ''nonce'') | Some n \<Rightarrow> Inr n)"

definition demo_sign_in :: "storage \<Rightarrow> AuthResult \<times> storage" where
  "demo_sign_in st =
     sign_in demo_env (demo_world 1000) (demo_world 2000) (\<lambda>_. JNull) [''host'' \<mapsto> ''demo''] demo_message
       (\<lambda>m. Inr ''sig'') (\<lambda>_ _. failed_locally) ''0xAB'' demo_ready st"

lemma demo_parts:
  "remote_nonce demo_env (demo_world 1000) = None"
  "demo_message (Some (w_random (demo_world 1000))) = Inr ''n1''"
  by (simp_all add: remote_nonce_def degovGraphqlApi_def demo_env_def setting_def demo_message_def
      demo_world_def)

theorem sign_in_follows_server_witness:
  "fst (demo_sign_in Map.empty) = refused \<or> (\<exists>t. fst (demo_sign_in Map.empty) = granted t)"
proof -
  let ?r = "serve demo_env (demo_world 2000, login_request [''host'' \<mapsto> ''demo''] ''n1'' ''sig'')
    (snd (serve demo_env (demo_world 1000, nonce_request [''host'' \<mapsto> ''demo'']) demo_ready))"
  show ?thesis
    using sign_in_follows_server [of demo_env "demo_world 1000" demo_message "''n1''" "\<lambda>m. Inr ''sig''"
        "''sig''" "demo_world 2000" "[''host'' \<mapsto> ''demo'']" demo_ready "fst ?r" "snd ?r" "\<lambda>_. JNull"
        "\<lambda>_ _. failed_locally" "''0xAB''" Map.empty "fst (demo_sign_in Map.empty)" "snd (demo_sign_in Map.empty)"]
      demo_parts
    by (auto simp: demo_sign_in_def split: if_splits)
qed

theorem sign_in_succeeds_witness:
  "fst (demo_sign_in Map.empty) = granted ''2000.0xab'' \<and>
   getToken (Some ''0xAB'') (snd (demo_sign_in Map.empty)) = Some ''2000.0xab''"
proof -
  have t: "to_lower ''0xAB'' = ''0xab''" "to_lower ''0xab'' = ''0xab''" "BigInt_text ''255'' = Inr 255"
    "decimal 2000 = ''2000''" by code_simp+
  have "services_answer demo_env (demo_world 2000) [''host'' \<mapsto> ''demo'']
    \<lparr>cfg_code = ''demo'', cfg_indexer_endpoint = ''indexer''\<rparr> ''0xab'' demo_ready"
    by (simp add: services_answer_def demo_env_def demo_world_def demo_ready_def new_server_def setting_def t)
  then show ?thesis
    using sign_in_succeeds [of demo_env "''secret''" "demo_world 1000" demo_message "''n1''" "\<lambda>m. Inr ''sig''"
        "''sig''" "\<lparr>siwe_nonce = ''n1'', siwe_address = ''0xAB''\<rparr>" "demo_world 2000" "[''host'' \<mapsto> ''demo'']"
        "\<lparr>cfg_code = ''demo'', cfg_indexer_endpoint = ''indexer''\<rparr>" demo_ready "''2000.0xab''"
        "''0xAB''" "\<lambda>_. JNull" "\<lambda>_ _. failed_locally" Map.empty "fst (demo_sign_in Map.empty)"
        "snd (demo_sign_in Map.empty)" True "\<lambda>st. (refused, st)"]
      demo_cache demo_token demo_parts
    by (simp add: demo_sign_in_def t demo_env_def setting_def demo_world_def)
qed

end
