(* ===== verification/JsonText.thy ===== *)
theory JsonText
  imports WebBase JsNumberText "HOL-Library.AList"
begin

text \<open>
  \<open>JSON.stringify\<close> of lists of texts and \<open>JSON.parse\<close>. Numbers are read in exact arithmetic, an
  escape beyond the characters of the model is not read. The fuel of the reader bounds the nesting
  and the length of lists together; a text has no more of either than characters.
\<close>

section \<open>Writing\<close>

definition hex4 :: "nat \<Rightarrow> string" where
  "hex4 n = pad_start 4 (CHR ''0'') (nat_text 16 n)"

definition escaped :: "char \<Rightarrow> string" where
  "escaped c =
     (let n = (of_char c :: nat)
      in if n = 34 then [CHR 0x5C, CHR 0x22]
         else if n = 92 then [CHR 0x5C, CHR 0x5C]
         else if n = 8 then [CHR 0x5C, CHR ''b'']
         else if n = 9 then [CHR 0x5C, CHR ''t'']
         else if n = 10 then [CHR 0x5C, CHR ''n'']
         else if n = 12 then [CHR 0x5C, CHR ''f'']
         else if n = 13 then [CHR 0x5C, CHR ''r'']
         else if n < 32 then [CHR 0x5C, CHR ''u''] @ hex4 n
         else [c])"

definition stringify_text :: "string \<Rightarrow> string" where
  "stringify_text t = [CHR 0x22] @ concat (map escaped t) @ [CHR 0x22]"

definition stringify_texts :: "string list \<Rightarrow> string" where
  "stringify_texts ts = ''['' @ join_with (CHR '','') (map stringify_text ts) @ '']''"

section \<open>Reading\<close>

definition json_space :: "char \<Rightarrow> bool" where
  "json_space c = (let n = (of_char c :: nat) in n = 9 \<or> n = 10 \<or> n = 13 \<or> n = 32)"

abbreviation skip_space :: "string \<Rightarrow> string" where
  "skip_space \<equiv> dropWhile json_space"

definition simple_escape :: "char \<Rightarrow> char option" where
  "simple_escape c =
     (if c = CHR 0x22 \<or> c = CHR 0x5C \<or> c = CHR ''/'' then Some c
      else if c = CHR ''b'' then Some (char_of (8 :: nat))
      else if c = CHR ''t'' then Some (char_of (9 :: nat))
      else if c = CHR ''n'' then Some (char_of (10 :: nat))
      else if c = CHR ''f'' then Some (char_of (12 :: nat))
      else if c = CHR ''r'' then Some (char_of (13 :: nat))
      else None)"

definition unicode_escape :: "string \<Rightarrow> char option" where
  "unicode_escape ds =
     (if length ds = 4 \<and> list_all (is_digit 16) ds \<and> digits_value 16 ds < 256
      then Some (char_of (digits_value 16 ds)) else None)"

text \<open>The characters of a text up to its closing quote, and what follows.\<close>

function read_chars :: "string \<Rightarrow> (string \<times> string) option" where
  "read_chars [] = None"
| "read_chars (c # s) =
     (if c = CHR 0x22 then Some ([], s)
      else if c = CHR 0x5C then
        (case s of
           [] \<Rightarrow> None
         | e # u \<Rightarrow>
             if e = CHR ''u'' then
               (case unicode_escape (take 4 u) of
                  None \<Rightarrow> None
                | Some x \<Rightarrow> map_option (\<lambda>(t, r). (x # t, r)) (read_chars (drop 4 u)))
             else
               (case simple_escape e of
                  None \<Rightarrow> None
                | Some x \<Rightarrow> map_option (\<lambda>(t, r). (x # t, r)) (read_chars u)))
      else if (of_char c :: nat) < 32 then None
      else map_option (\<lambda>(t, r). (c # t, r)) (read_chars s))"
  by pat_completeness auto
termination
  by (relation "measure length") auto

text \<open>A number: a sign, no superfluous zero, a fraction and an exponent with digits.\<close>

definition number_char :: "char \<Rightarrow> bool" where
  "number_char c \<longleftrightarrow> is_digit 10 c \<or> c \<in> {CHR ''-'', CHR ''+'', CHR ''.'', CHR ''e'', CHR ''E''}"

definition number_form :: "string \<Rightarrow> bool" where
  "number_form t \<longleftrightarrow>
     (let u = (if starts_with t ''-'' then drop 1 t else t);
          whole = takeWhile (is_digit 10) u;
          rest = dropWhile (is_digit 10) u
      in whole \<noteq> [] \<and> (starts_with whole ''0'' \<longrightarrow> whole = ''0'') \<and>
         (starts_with rest ''.'' \<longrightarrow> takeWhile (is_digit 10) (drop 1 rest) \<noteq> []))"

definition read_number :: "string \<Rightarrow> json option" where
  "read_number t =
     (if number_form t then (case signed_decimal t of Finite x \<Rightarrow> Some (JNumber x) | _ \<Rightarrow> None) else None)"

definition read_word :: "string \<Rightarrow> (json \<times> string) option" where
  "read_word s =
     (if starts_with s ''null'' then Some (JNull, drop 4 s)
      else if starts_with s ''true'' then Some (JBool True, drop 4 s)
      else if starts_with s ''false'' then Some (JBool False, drop 5 s)
      else map_option (\<lambda>j. (j, dropWhile number_char s)) (read_number (takeWhile number_char s)))"

text \<open>An object keeps the place of the first and the value of the last member of a name.\<close>

definition object_of :: "(string \<times> json) list \<Rightarrow> (string \<times> json) list" where
  "object_of fs = foldl (\<lambda>out (k, v). AList.update k v out) [] fs"

fun read_value :: "nat \<Rightarrow> string \<Rightarrow> (json \<times> string) option"
  and read_elements :: "nat \<Rightarrow> string \<Rightarrow> (json list \<times> string) option"
  and read_members :: "nat \<Rightarrow> string \<Rightarrow> ((string \<times> json) list \<times> string) option" where
  "read_value 0 s = None"
| "read_value (Suc n) s =
     (case skip_space s of
        [] \<Rightarrow> None
      | c # u \<Rightarrow>
          if c = CHR 0x22 then map_option (\<lambda>(t, r). (JString t, r)) (read_chars u)
          else if c = CHR ''['' then
            (if starts_with (skip_space u) '']'' then Some (JArray [], drop 1 (skip_space u))
             else map_option (\<lambda>(js, r). (JArray js, r)) (read_elements n u))
          else if c = CHR ''{'' then
            (if starts_with (skip_space u) ''}'' then Some (JObject [], drop 1 (skip_space u))
             else map_option (\<lambda>(fs, r). (JObject (object_of fs), r)) (read_members n u))
          else read_word (c # u))"
| "read_elements 0 s = None"
| "read_elements (Suc n) s =
     (case read_value n s of
        None \<Rightarrow> None
      | Some (j, r) \<Rightarrow>
          (case skip_space r of
             c # u \<Rightarrow>
               if c = CHR '','' then map_option (\<lambda>(js, r'). (j # js, r')) (read_elements n u)
               else if c = CHR '']'' then Some ([j], u)
               else None
           | [] \<Rightarrow> None))"
| "read_members 0 s = None"
| "read_members (Suc n) s =
     (case skip_space s of
        [] \<Rightarrow> None
      | q # u \<Rightarrow>
          if q \<noteq> CHR 0x22 then None
          else case read_chars u of
            None \<Rightarrow> None
          | Some (k, r) \<Rightarrow>
              (case skip_space r of
                 [] \<Rightarrow> None
               | c # v \<Rightarrow>
                   if c \<noteq> CHR '':'' then None
                   else case read_value n v of
                     None \<Rightarrow> None
                   | Some (j, r') \<Rightarrow>
                       (case skip_space r' of
                          [] \<Rightarrow> None
                        | d # w \<Rightarrow>
                            if d = CHR '','' then map_option (\<lambda>(fs, r''). ((k, j) # fs, r'')) (read_members n w)
                            else if d = CHR ''}'' then Some ([(k, j)], w)
                            else None)))"

definition JSON_parse :: "string \<Rightarrow> json outcome" where
  "JSON_parse s =
     (case read_value (2 * length s + 2) s of
        Some (j, r) \<Rightarrow> if skip_space r = [] then Inr j else Inl (ThrownError ''SyntaxError'')
      | None \<Rightarrow> Inl (ThrownError ''SyntaxError''))"

section \<open>What was written is read back\<close>

lemma hex_value_16: "d < 16 \<Longrightarrow> hex_value (digit_char d) = Some d"
  by (auto simp: hex_value_def digit_char_def Let_def)

lemma hex4_small:
  assumes "n < 32"
  shows "hex4 n = ''00'' @ [digit_char (n div 16), digit_char (n mod 16)]"
proof -
  have zero: "digit_char 0 = CHR ''0''" by code_simp
  have one: "nat_text 16 d = [digit_char d]" if "d < 16" for d
    using that nat_text.simps [of 16 d] by simp
  show ?thesis
  proof (cases "n < 16")
    case True
    then have "hex4 n = replicate 3 (CHR ''0'') @ [digit_char n]"
      by (simp add: hex4_def pad_start_def one)
    with True show ?thesis by (simp add: zero numeral_3_eq_3)
  next
    case False
    with assms have "n div 16 < 16" by auto
    then have "nat_text 16 n = [digit_char (n div 16), digit_char (n mod 16)]"
      using False nat_text.simps [of 16 n] one [of "n div 16"] by simp
    then have "hex4 n = replicate 2 (CHR ''0'') @ [digit_char (n div 16), digit_char (n mod 16)]"
      by (simp add: hex4_def pad_start_def)
    then show ?thesis by (simp add: numeral_2_eq_2)
  qed
qed

lemma hex4_reads:
  assumes "n < 32"
  shows "length (hex4 n) = 4 \<and> list_all (is_digit 16) (hex4 n) \<and> digits_value 16 (hex4 n) = n"
proof -
  have z: "hex_value (CHR ''0'') = Some 0" by code_simp
  have "n div 16 < 16" using assms by auto
  then show ?thesis
    using hex_value_16 [of "n div 16"] hex_value_16 [of "n mod 16"] z
    by (simp add: hex4_small [OF assms] is_digit_def digits_value_def)
qed

lemma read_escaped: "read_chars (escaped c @ s) = map_option (\<lambda>(t, r). (c # t, r)) (read_chars s)"
proof -
  note hex = hex4_reads
  show ?thesis
  proof (cases "(of_char c :: nat) \<in> {34, 92, 8, 9, 10, 12, 13}")
    case True
    have quote: "c = CHR 0x22" if "(of_char c :: nat) = 34"
    proof -
      have "(of_char c :: nat) = of_char (CHR 0x22)" using that by simp
      then show ?thesis by (simp only: of_char_eq_iff)
    qed
    have slash: "c = CHR 0x5C" if "(of_char c :: nat) = 92"
    proof -
      have "(of_char c :: nat) = of_char (CHR 0x5C)" using that by simp
      then show ?thesis by (simp only: of_char_eq_iff)
    qed
    have "c = char_of (of_char c :: nat)" by simp
    with True have "c = CHR 0x22 \<or> c = CHR 0x5C \<or> c = char_of (8 :: nat) \<or> c = char_of (9 :: nat) \<or>
        c = char_of (10 :: nat) \<or> c = char_of (12 :: nat) \<or> c = char_of (13 :: nat)"
      using quote slash unfolding insert_iff empty_iff by metis
    then show ?thesis by (elim disjE) (simp_all add: escaped_def simple_escape_def)
  next
    case False
    show ?thesis
    proof (cases "(of_char c :: nat) < 32")
      case True
      let ?n = "of_char c :: nat"
      have "escaped c = [CHR 0x5C, CHR ''u''] @ hex4 ?n" using False True by (simp add: escaped_def Let_def)
      moreover have "unicode_escape (hex4 ?n) = Some c" using hex [OF True] True by (simp add: unicode_escape_def)
      ultimately show ?thesis using hex [OF True] by simp
    next
      case ge: False
      then have "escaped c = [c]" using False by (simp add: escaped_def Let_def)
      moreover have "c \<noteq> CHR 0x22" "c \<noteq> CHR 0x5C" using False by auto
      ultimately show ?thesis using ge by simp
    qed
  qed
qed

lemma read_stringified: "read_chars (concat (map escaped t) @ CHR 0x22 # s) = Some (t, s)"
  by (induction t) (simp_all add: read_escaped)

text \<open>The characters an array of texts is made of, besides those of the texts.\<close>

lemma read_value_text:
  "read_value (Suc n) (stringify_text t @ s) = Some (JString t, s)"
proof -
  have "\<not> json_space (CHR 0x22)" by code_simp
  then show ?thesis by (simp add: stringify_text_def read_stringified read_value.simps)
qed

lemma plain_separators:
  "\<not> json_space (CHR '','')" "\<not> json_space (CHR '']'')" "\<not> json_space (CHR ''['')" "\<not> json_space (CHR 0x22)"
  by code_simp+

declare read_value.simps [simp del] read_elements.simps [simp del] read_members.simps [simp del]

lemma read_elements_texts:
  "ts \<noteq> [] \<Longrightarrow> length ts < n \<Longrightarrow>
     read_elements n (join_with (CHR '','') (map stringify_text ts) @ CHR '']'' # s) = Some (map JString ts, s)"
proof (induction ts arbitrary: n rule: list_nonempty_induct)
  case (single t)
  then have "2 \<le> n" by simp
  then obtain m where "n = Suc (Suc m)" using le_Suc_ex [of 2 n] by auto
  then show ?case by (simp add: read_value_text plain_separators read_elements.simps(2) [of "Suc m"])
next
  case (cons t ts)
  then have "2 \<le> n" by simp
  then obtain m where n: "n = Suc (Suc m)" using le_Suc_ex [of 2 n] by auto
  have "join_with (CHR '','') (map stringify_text (t # ts)) =
      stringify_text t @ CHR '','' # join_with (CHR '','') (map stringify_text ts)"
    using cons(1) by (cases ts) simp_all
  then show ?case
    using cons.IH [of "Suc m"] cons.prems n by (simp add: read_value_text plain_separators read_elements.simps(2) [of "Suc m"])
qed

lemma length_stringify_text: "2 \<le> length (stringify_text t)"
  by (simp add: stringify_text_def)

lemma length_join: "length ts \<le> length (join_with (CHR '','') (map stringify_text ts))"
proof (induction ts)
  case (Cons t ts)
  then show ?case using length_stringify_text [of t] by (cases ts) simp_all
qed simp

lemma parse_stringified: "JSON_parse (stringify_texts ts) = Inr (JArray (map JString ts))"
proof (cases "ts = []")
  case True
  have "JSON_parse ''[]'' = Inr (JArray [])"
    by (simp add: JSON_parse_def plain_separators starts_with_def numeral_2_eq_2 read_value.simps)
  with True show ?thesis by (simp add: stringify_texts_def)
next
  case False
  let ?b = "join_with (CHR '','') (map stringify_text ts)"
  obtain t us where ts: "ts = t # us" using False by (cases ts) auto
  have hd: "\<exists>r. ?b @ '']'' = CHR 0x22 # r"
    using ts by (cases us) (simp_all add: stringify_text_def)
  then have skip: "skip_space (?b @ '']'') = ?b @ '']''" using plain_separators(4) by auto
  obtain r where "?b @ '']'' = CHR 0x22 # r" using hd by blast
  then have "\<not> starts_with (?b @ '']'') '']''" by (simp only: starts_with_def) simp
  moreover have "read_elements (2 * length (stringify_texts ts) + 1) (?b @ '']'') = Some (map JString ts, [])"
    using read_elements_texts [OF False, of "2 * length (stringify_texts ts) + 1" "[]"] length_join [of ts]
    by (simp add: stringify_texts_def)
  ultimately show ?thesis
    using skip by (simp add: JSON_parse_def stringify_texts_def plain_separators read_value.simps)
qed

lemma escaped_plain: "d \<in> set (escaped c) \<Longrightarrow> d \<noteq> c \<Longrightarrow> d = CHR 0x5C \<or> d = CHR 0x22 \<or> is_digit 16 d \<or> d \<in> {CHR ''b'', CHR ''t'', CHR ''n'', CHR ''f'', CHR ''r'', CHR ''u''}"
proof -
  assume d: "d \<in> set (escaped c)" "d \<noteq> c"
  have hex: "list_all (is_digit 16) (hex4 n)" if "n < 32" for n
    using hex4_reads [OF that] by simp
  show ?thesis
    using d hex [of "of_char c"] by (auto simp: escaped_def Let_def list_all_iff split: if_splits)
qed

text \<open>A character that is not one of the format's own occurs only where it was.\<close>

lemma stringify_plain:
  assumes "\<forall>t \<in> set ts. CHR ''<'' \<notin> set t"
  shows "CHR ''<'' \<notin> set (stringify_texts ts)"
proof -
  have esc: "CHR ''<'' \<notin> set (escaped c)" if "c \<noteq> CHR ''<''" for c
  proof
    assume "CHR ''<'' \<in> set (escaped c)"
    moreover have "\<not> is_digit 16 (CHR ''<'')" by code_simp
    ultimately show False using escaped_plain [of "CHR ''<''" c] that by auto
  qed
  then have "CHR ''<'' \<notin> set (stringify_text t)" if "t \<in> set ts" for t
  proof -
    have "CHR ''<'' \<notin> set (escaped c)" if "c \<in> set t" for c
      using esc assms \<open>t \<in> set ts\<close> that by metis
    then show ?thesis by (simp add: stringify_text_def)
  qed
  then have "CHR ''<'' \<notin> set (join_with (CHR '','') (map stringify_text ts))"
    by (induction ts rule: induct_list012) auto
  then show ?thesis by (simp add: stringify_texts_def)
qed

section \<open>Big integers through text\<close>

text \<open>
  Big integers through text: what \<open>toString\<close> writes, in decimal or as hexadecimal digits behind the
  prefix, \<open>BigInt\<close> reads back.
\<close>

lemma text_digits: "2 \<le> base \<Longrightarrow> base \<le> 16 \<Longrightarrow> list_all (is_digit base) (nat_text base n)"
proof -
  assume b: "2 \<le> base" "base \<le> 16"
  have "is_digit base c" if "c \<in> set (nat_text base n)" for c
    using digit_text_chars [OF b(1), of n] that b(2) hex_value_16 by (fastforce simp: list_all_iff is_digit_def)
  then show ?thesis by (simp add: list_all_iff)
qed

lemma text_digits_value: "2 \<le> base \<Longrightarrow> base \<le> 16 \<Longrightarrow> digits_value base (nat_text base n) = n"
proof (induction base n rule: nat_text.induct)
  case (1 base n)
  have "n mod base < 16" using 1 by (meson order_less_le_trans mod_less_divisor zero_less_numeral)
  then have digit: "hex_value (digit_char (n mod base)) = Some (n mod base)" by (rule hex_value_16)
  show ?case
  proof (cases "n < base")
    case True
    with 1 digit show ?thesis by (simp add: nat_text.simps [of base n] digits_value_def)
  next
    case False
    with 1 have "digits_value base (nat_text base (n div base)) = n div base" by simp
    with False 1 digit show ?thesis by (simp add: nat_text.simps [of base n] digits_value_def)
  qed
qed

lemma digit_not_space: "d < 16 \<Longrightarrow> \<not> is_space (digit_char d)"
  by (auto simp: is_space_def digit_char_def Let_def)

lemma text_not_space:
  assumes "2 \<le> base" and "base \<le> 16" and "c \<in> set (nat_text base n)"
  shows "\<not> is_space c"
proof -
  obtain d where "d < base" "c = digit_char d"
    using digit_text_chars [OF assms(1), of n] assms(3) by (auto simp: list_all_iff)
  with assms(2) show ?thesis by (simp add: digit_not_space)
qed

lemma trim_plain:
  assumes "\<And>c. c \<in> set s \<Longrightarrow> \<not> is_space c"
  shows "trim s = s"
  by (rule trim_trimmed_id) (use assms in \<open>cases "s = []"; auto simp: trimmed_def\<close>)

lemma digit_text_nat: "2 \<le> base \<Longrightarrow> base \<le> 16 \<Longrightarrow> digit_text base (nat_text base n) = Inr (int n)"
  by (simp add: digit_text_def text_digits text_digits_value)

lemma BigInt_nat_text: "BigInt_text (nat_text 10 n) = Inr (int n)"
proof -
  let ?s = "nat_text 10 n"
  have no: "\<not> starts_with ?s (t @ c # u)" if "(of_char c :: nat) < 48 \<or> 57 < (of_char c :: nat)" for c t u
    using digit_text_free [OF that, of n] by (auto simp: starts_with_append)
  have "trim ?s = ?s" by (rule trim_plain) (rule text_not_space [of 10]; simp)
  then show ?thesis
    using no [of "CHR ''x''" "''0''" "[]"] no [of "CHR ''X''" "''0''" "[]"] no [of "CHR ''o''" "''0''" "[]"]
      no [of "CHR ''O''" "''0''" "[]"] no [of "CHR ''b''" "''0''" "[]"] no [of "CHR ''B''" "''0''" "[]"]
      no [of "CHR ''-''" "[]" "[]"] no [of "CHR ''+''" "[]" "[]"]
    by (simp add: BigInt_text_def digit_text_nat)
qed

lemma BigInt_decimal: "BigInt_text (decimal i) = Inr i"
proof (cases "i < 0")
  case False
  then show ?thesis by (simp add: int_text_def BigInt_nat_text)
next
  case True
  let ?s = "''-'' @ nat_text 10 (nat (- i))"
  have "\<not> is_space (CHR ''-'')" by code_simp
  then have "trim ?s = ?s" by (intro trim_plain) (use text_not_space [of 10] in auto)
  then show ?thesis
    using True by (simp add: int_text_def BigInt_text_def starts_with_def digit_text_nat)
qed

lemma BigInt_hex: "BigInt_text (''0x'' @ nat_text 16 n) = Inr (int n)"
proof -
  let ?s = "''0x'' @ nat_text 16 n"
  have "\<not> is_space (CHR ''0'')" "\<not> is_space (CHR ''x'')" by code_simp+
  then have "trim ?s = ?s" by (intro trim_plain) (use text_not_space [of 16] in auto)
  then show ?thesis by (simp add: BigInt_text_def starts_with_def digit_text_nat)
qed

end
