(* ===== verification/WebProposal.thy ===== *)
theory WebProposal
  imports JsonText JsRegex
begin

text \<open>
  Proposals in the web application: the form and its validation (packages/web/src/app/proposals/new),
  the call that creates a proposal (hooks/useProposal.ts), and the reading of a proposal's text and
  signatures (utils/helpers.ts). Addresses, ABIs, hashes and the encoding of calls are libraries'
  and are parameters; characters are those of one byte.
\<close>

section \<open>The form\<close>

record ProposalContent =
  pc_title :: "string option"
  pc_markdown :: "string option"
  pc_discussion :: "string option"

record TransferContent =
  tc_recipient :: string
  tc_amount :: string

datatype CalldataValue = OneValue string | ManyValues "string list"

record CalldataItem =
  ci_name :: string
  ci_type :: string
  ci_value :: CalldataValue
  ci_isArray :: bool

record CustomContent =
  cc_target :: string
  cc_contractType :: string
  cc_contractMethod :: "string option"
  cc_customAbiContent :: "json list"
  cc_calldata :: "CalldataItem list option"
  cc_value :: "string option"

record CrossChainCall =
  xc_port :: string
  xc_value :: string
  xc_function :: string
  xc_params :: "(string \<times> string) list"

record XAccountContent =
  xa_crossChainCallHash :: string
  xa_from :: string
  xa_to :: string
  xa_crossChainCall :: "CrossChainCall option"

datatype Action =
    ProposalAction string ProposalContent
  | TransferAction string TransferContent
  | CustomAction string CustomContent
  | AddAction string
  | XAccountAction string XAccountContent

section \<open>Validation\<close>

definition all_digits :: "string \<Rightarrow> bool" where
  "all_digits t = list_all (is_digit 10) t"

text \<open>\<open>/^(u?int)(\d+)?$/\<close> and \<open>/^bytes(\d+)?$/\<close>: the sign and the digits.\<close>

definition int_type :: "string \<Rightarrow> (bool \<times> string) option" where
  "int_type t =
     (if starts_with t ''uint'' \<and> all_digits (drop 4 t) then Some (True, drop 4 t)
      else if starts_with t ''int'' \<and> all_digits (drop 3 t) then Some (False, drop 3 t)
      else None)"

definition bytes_type :: "string \<Rightarrow> string option" where
  "bytes_type t = (if starts_with t ''bytes'' \<and> all_digits (drop 5 t) then Some (drop 5 t) else None)"

definition digits_or :: "string \<Rightarrow> string \<Rightarrow> nat" where
  "digits_or ds d = digits_value 10 (if ds = [] then d else ds)"

definition isValidSingleValue :: "(string \<Rightarrow> bool) \<Rightarrow> string \<Rightarrow> string \<Rightarrow> bool" where
  "isValidSingleValue isAddress v t \<longleftrightarrow>
     v \<noteq> [] \<and> trim v \<noteq> [] \<and>
     (if t = ''address'' then isAddress v
      else if t = ''bool'' then to_lower v \<in> {''true'', ''false''}
      else if t = ''string'' then True
      else case int_type t of
          Some (unsigned, bits) \<Rightarrow>
            let width = digits_or bits ''256''
            in (case BigInt_text v of
                  Inl _ \<Rightarrow> False
                | Inr num \<Rightarrow>
                    if unsigned then 0 \<le> num \<and> num \<le> 2 ^ width - 1
                    else width \<noteq> 0 \<and> - (2 ^ (width - 1)) \<le> num \<and> num \<le> 2 ^ (width - 1) - 1)
        | None \<Rightarrow>
            (case bytes_type t of
               Some ds \<Rightarrow>
                 starts_with v ''0x'' \<and> (ds \<noteq> [] \<longrightarrow> length v = digits_value 10 ds * 2 + 2) \<and>
                 list_all (is_digit 16) (drop 2 v)
             | None \<Rightarrow> False))"

definition ends_with :: "string \<Rightarrow> string \<Rightarrow> bool" where
  "ends_with s t \<longleftrightarrow> starts_with (rev s) (rev t)"

definition isValidCalldataValue :: "(string \<Rightarrow> bool) \<Rightarrow> CalldataValue \<Rightarrow> string \<Rightarrow> bool" where
  "isValidCalldataValue isAddress v t =
     (let baseType = replace_first ''[]'' [] t
      in if ends_with t ''[]'' then
           (case v of
              OneValue _ \<Rightarrow> False
            | ManyValues vs \<Rightarrow> vs \<noteq> [] \<and> list_all (\<lambda>x. isValidSingleValue isAddress x baseType) vs)
         else (case v of OneValue x \<Rightarrow> isValidSingleValue isAddress x t | ManyValues _ \<Rightarrow> False))"

definition tag_free_regex :: regex where
  "tag_free_regex = seq [Lit (CHR ''<''), Star True (Class (NoneOf ''>'')), Lit (CHR ''>'')]"

definition proposal_valid :: "(string \<Rightarrow> bool) \<Rightarrow> ProposalContent \<Rightarrow> bool" where
  "proposal_valid isURL c =
     (case (pc_title c, pc_markdown c) of
        (Some title, Some markdown) \<Rightarrow>
          1 \<le> length title \<and> length title \<le> 80 \<and> 1 \<le> length markdown \<and>
          filter (\<lambda>x. \<not> is_space x) (replace_all markdown tag_free_regex (\<lambda>_. [])) \<noteq> [] \<and>
          (case pc_discussion c of None \<Rightarrow> True | Some u \<Rightarrow> u = [] \<or> isURL u)
      | _ \<Rightarrow> False)"

definition number_where :: "(real \<Rightarrow> bool) \<Rightarrow> bool \<Rightarrow> string \<Rightarrow> bool" where
  "number_where P positive t =
     (case Number_text t of NaN \<Rightarrow> False | Infinite neg \<Rightarrow> neg \<noteq> positive | Finite x \<Rightarrow> P x)"

definition transfer_valid :: "(string \<Rightarrow> bool) \<Rightarrow> TransferContent \<Rightarrow> bool" where
  "transfer_valid isAddress c \<longleftrightarrow>
     isAddress (tc_recipient c) \<and> 1 \<le> length (tc_amount c) \<and> number_where (\<lambda>x. 0 < x) True (tc_amount c)"

definition custom_valid :: "(string \<Rightarrow> bool) \<Rightarrow> (json list \<Rightarrow> bool) \<Rightarrow> CustomContent \<Rightarrow> bool" where
  "custom_valid isAddress isValidAbi c \<longleftrightarrow>
     1 \<le> length (cc_target c) \<and> isAddress (cc_target c) \<and> cc_contractMethod c \<noteq> None \<and>
     (case cc_calldata c of
        None \<Rightarrow> True
      | Some items \<Rightarrow> list_all (\<lambda>i. isValidCalldataValue isAddress (ci_value i) (ci_type i)) items) \<and>
     (case cc_value c of None \<Rightarrow> True | Some v \<Rightarrow> v = [] \<or> number_where (\<lambda>x. 0 \<le> x) True v) \<and>
     cc_customAbiContent c \<noteq> [] \<and> isValidAbi (cc_customAbiContent c)"

definition xaccount_valid :: "(string \<Rightarrow> bool) \<Rightarrow> (CrossChainCall \<Rightarrow> string) \<Rightarrow> XAccountContent \<Rightarrow> bool" where
  "xaccount_valid isAddress generateHash c \<longleftrightarrow>
     isAddress (xa_from c) \<and> isAddress (xa_to c) \<and>
     (case xa_crossChainCall c of
        None \<Rightarrow> False
      | Some call \<Rightarrow>
          isAddress (xc_port call) \<and>
          (case map_of (xc_params call) ''toDapp'' of None \<Rightarrow> False | Some d \<Rightarrow> isAddress d) \<and>
          generateHash call = xa_crossChainCallHash c)"

section \<open>Function signatures\<close>

definition join_text :: "string \<Rightarrow> string list \<Rightarrow> string" where
  "join_text sep ts = (case ts of [] \<Rightarrow> [] | t # us \<Rightarrow> t @ concat (map (\<lambda>u. sep @ u) us))"

definition generateFunctionSignature ::
  "bool \<Rightarrow> bool \<Rightarrow> string option \<Rightarrow> CalldataItem list option \<Rightarrow> string" where
  "generateFunctionSignature useTypes includeNames methodName params =
     (case methodName of
        None \<Rightarrow> []
      | Some m \<Rightarrow>
          if m = [] then []
          else
            let finalMethodName = hd (split_on (CHR ''-'') m)
            in case params of
                 None \<Rightarrow> finalMethodName @ ''()''
               | Some ps \<Rightarrow>
                   if ps = [] then finalMethodName @ ''()''
                   else finalMethodName @ ''('' @ join_text '', '' (map (\<lambda>p.
                     if useTypes \<and> includeNames then ci_type p @ '' '' @ ci_name p
                     else if useTypes then ci_type p else ci_name p) ps) @ '')'')"

definition word_char :: "char \<Rightarrow> bool" where
  "word_char c =
     (let n = (of_char c :: nat)
      in (48 \<le> n \<and> n \<le> 57) \<or> (65 \<le> n \<and> n \<le> 90) \<or> (97 \<le> n \<and> n \<le> 122) \<or> n = 95)"

definition extractMethodNameFromSignature :: "string \<Rightarrow> string option" where
  "extractMethodNameFromSignature signature =
     (let m = takeWhile word_char signature
      in if m \<noteq> [] \<and> starts_with (dropWhile word_char signature) ''('' then Some m else None)"

text \<open>
  \<open>/\)\s*(external|public|private|internal|payable)*\s*$/\<close>: from the first closing parenthesis
  after which only white space, modifiers and white space follow, to the end.
\<close>

definition word_regex :: "string \<Rightarrow> regex" where
  "word_regex t = seq (map Lit t)"

definition modifiers_regex :: regex where
  "modifiers_regex =
     seq [Lit (CHR '')''), Star True (Class Space),
       Star True (Alt (word_regex ''external'') (Alt (word_regex ''public'') (Alt (word_regex ''private'')
         (Alt (word_regex ''internal'') (word_regex ''payable''))))),
       Star True (Class Space), InputEnd]"

definition replace_once :: "string \<Rightarrow> regex \<Rightarrow> string \<Rightarrow> string" where
  "replace_once s r t =
     (case search s r of None \<Rightarrow> s | Some (b, e, _) \<Rightarrow> take b s @ t @ drop e s)"

text \<open>The first word of a parameter: its type.\<close>

definition first_word :: "string \<Rightarrow> string" where
  "first_word p = takeWhile (\<lambda>c. \<not> is_space c) (trim p)"

definition simplifyFunctionSignature :: "string \<Rightarrow> string outcome" where
  "simplifyFunctionSignature fullSignature =
     (let signatureWithoutModifiers = replace_once fullSignature modifiers_regex '')''
      in case split_on (CHR ''('') signatureWithoutModifiers of
           funcName # paramsPart # _ \<Rightarrow>
             let params = hd (split_on (CHR '')'') paramsPart)
             in if params = [] then Inr (trim funcName @ ''()'')
                else Inr (trim funcName @ ''('' @
                  join_with (CHR '','') (map first_word (split_on (CHR '','') params)) @ '')'')
         | _ \<Rightarrow> Inl (TypeError ''undefined''))"

section \<open>From the form to the call\<close>

datatype Abi = TokenAbi | MultiPortAbi | CustomAbi "json list"

datatype Param = TextParam string | IntParam int | TextsParam "string list"

datatype ParamType = transferParam | customParam | xaccountParam

record ProposalActionParam =
  pa_type :: ParamType
  pa_target :: "string option"
  pa_value :: int
  pa_abi :: Abi
  pa_functionName :: string
  pa_params :: "Param list option"
  pa_signature :: "string option"

record ProposalParams =
  pp_description :: string
  pp_discussion :: "string option"
  pp_actions :: "ProposalActionParam list"

definition value_param :: "CalldataValue \<Rightarrow> Param" where
  "value_param v = (case v of OneValue t \<Rightarrow> TextParam t | ManyValues ts \<Rightarrow> TextsParam ts)"

definition amount_or_zero :: "(string \<Rightarrow> nat \<Rightarrow> int outcome) \<Rightarrow> string option \<Rightarrow> nat \<Rightarrow> int outcome" where
  "amount_or_zero parseUnits v decimals =
     (case v of None \<Rightarrow> Inr 0 | Some t \<Rightarrow> if t = [] then Inr 0 else parseUnits t decimals)"

text \<open>The parameters of one action; other actions take no part in the call.\<close>

definition action_param ::
  "(string \<Rightarrow> nat \<Rightarrow> int outcome) \<Rightarrow> nat \<Rightarrow> Action \<Rightarrow> ProposalActionParam outcome" where
  "action_param parseUnits decimals a =
     (case a of
        TransferAction _ c \<Rightarrow>
          and_then (amount_or_zero parseUnits (Some (tc_amount c)) decimals) (\<lambda>v.
          and_then (parseUnits (tc_amount c) decimals) (\<lambda>amount.
            Inr \<lparr>pa_type = transferParam, pa_target = Some (tc_recipient c), pa_value = v,
                 pa_abi = TokenAbi, pa_functionName = ''transfer'',
                 pa_params = Some [TextParam (tc_recipient c), IntParam amount], pa_signature = None\<rparr>))
      | CustomAction _ c \<Rightarrow>
          and_then (amount_or_zero parseUnits (cc_value c) decimals) (\<lambda>v.
            Inr \<lparr>pa_type = customParam, pa_target = Some (cc_target c), pa_value = v,
                 pa_abi = CustomAbi (cc_customAbiContent c),
                 pa_functionName =
                   (case cc_contractMethod c of
                      None \<Rightarrow> [] | Some m \<Rightarrow> if m = [] then [] else hd (split_on (CHR ''-'') m)),
                 pa_params = map_option (map (\<lambda>i. value_param (ci_value i))) (cc_calldata c),
                 pa_signature = Some (generateFunctionSignature True True (cc_contractMethod c) (cc_calldata c))\<rparr>)
      | XAccountAction _ c \<Rightarrow>
          (case xa_crossChainCall c of
             None \<Rightarrow> Inl (TypeError ''undefined'')
           | Some call \<Rightarrow>
               and_then (if xc_value call = [] then Inr 0 else BigInt_text (xc_value call)) (\<lambda>v.
                 Inr \<lparr>pa_type = xaccountParam, pa_target = Some (xc_port call), pa_value = v,
                      pa_abi = MultiPortAbi,
                      pa_functionName =
                        (case extractMethodNameFromSignature (xc_function call) of None \<Rightarrow> [] | Some m \<Rightarrow> m),
                      pa_params = Some (map (\<lambda>(_, t). TextParam t) (xc_params call)),
                      pa_signature = Some (xc_function call)\<rparr>))
      | _ \<Rightarrow> Inl (ThrownError ''Invalid action type''))"

definition executable_action :: "Action \<Rightarrow> bool" where
  "executable_action a =
     (case a of TransferAction _ _ \<Rightarrow> True | CustomAction _ _ \<Rightarrow> True | XAccountAction _ _ \<Rightarrow> True | _ \<Rightarrow> False)"

definition proposal_content :: "Action list \<Rightarrow> ProposalContent option" where
  "proposal_content actions =
     (case find (\<lambda>a. case a of ProposalAction _ _ \<Rightarrow> True | _ \<Rightarrow> False) actions of
        Some (ProposalAction _ c) \<Rightarrow> Some c
      | _ \<Rightarrow> None)"

definition blank_line :: string where
  "blank_line = [CHR 0x0A, CHR 0x0A]"

definition transformActionsToProposalParams ::
  "(string \<Rightarrow> nat \<Rightarrow> int outcome) \<Rightarrow> Action list \<Rightarrow> nat \<Rightarrow> ProposalParams outcome" where
  "transformActionsToProposalParams parseUnits actions decimals =
     (let proposalAction = proposal_content actions;
          description = (case proposalAction of
            None \<Rightarrow> []
          | Some c \<Rightarrow> ''# '' @ shown (pc_title c) @ blank_line @
              (case pc_markdown c of None \<Rightarrow> [] | Some m \<Rightarrow> m));
          discussion = (case proposalAction of None \<Rightarrow> None | Some c \<Rightarrow> pc_discussion c)
      in and_then (map_outcome (action_param parseUnits decimals) (filter executable_action actions)) (\<lambda>ps.
           Inr \<lparr>pp_description = description, pp_discussion = discussion, pp_actions = ps\<rparr>))"

section \<open>The call\<close>

record ProposeCall =
  call_targets :: "string option list"
  call_values :: "int list"
  call_calldatas :: "string list"
  call_description :: string

text \<open>
  The interface of a contract: \<open>getFunction\<close> finds a function (or none, or throws), and
  \<open>encodeFunctionData\<close> encodes a call of it.
\<close>

record 'f Contracts =
  getFunction :: "Abi \<Rightarrow> string \<Rightarrow> 'f option outcome"
  encodeFunctionData :: "Abi \<Rightarrow> 'f option \<Rightarrow> Param list option \<Rightarrow> string outcome"

definition action_calldata :: "'f Contracts \<Rightarrow> ProposalActionParam \<Rightarrow> string outcome" where
  "action_calldata C a =
     and_then (getFunction C (pa_abi a) (case pa_signature a of None \<Rightarrow> pa_functionName a | Some s \<Rightarrow> s)) (\<lambda>func.
       if pa_type a = transferParam then Inr ''0x''
       else encodeFunctionData C (pa_abi a) func (pa_params a))"

definition signature_or_empty :: "ProposalActionParam \<Rightarrow> string" where
  "signature_or_empty a = (case pa_signature a of None \<Rightarrow> [] | Some s \<Rightarrow> s)"

definition tagged :: "string \<Rightarrow> string \<Rightarrow> string" where
  "tagged tag t = ''<'' @ tag @ ''>'' @ t @ ''</'' @ tag @ ''>''"

definition description_with :: "string \<Rightarrow> string option \<Rightarrow> string list \<Rightarrow> string" where
  "description_with description discussion signatures =
     (let d = (case setting discussion of
                 None \<Rightarrow> description
               | Some t \<Rightarrow> description @ blank_line @ tagged ''discussion'' t)
      in if signatures \<noteq> [] then d @ blank_line @ tagged ''signature'' (stringify_texts signatures) else d)"

definition createProposal ::
  "'f Contracts \<Rightarrow> bool \<Rightarrow> string option \<Rightarrow> ProposalParams \<Rightarrow> ProposeCall option outcome" where
  "createProposal C isValid address p =
     (if \<not> isValid then Inr None
      else
        and_then (map_outcome (action_calldata C) (pp_actions p)) (\<lambda>calldatas.
          if pp_actions p = [] then
            (case setting address of
               None \<Rightarrow> Inl (ThrownError ''No wallet connected'')
             | Some a \<Rightarrow> Inr (Some
                 \<lparr>call_targets = [Some a], call_values = [0], call_calldatas = [''0x''],
                  call_description = description_with (pp_description p) (pp_discussion p) [[]]\<rparr>))
          else Inr (Some
                 \<lparr>call_targets = map pa_target (pp_actions p), call_values = map pa_value (pp_actions p),
                  call_calldatas = calldatas,
                  call_description = description_with (pp_description p) (pp_discussion p)
                    (map signature_or_empty (pp_actions p))\<rparr>)))"

section \<open>Reading a description\<close>

text \<open>\<open>/<tag>([\s\S]*?)<\/tag>/\<close>\<close>

definition tag_pair_regex :: "string \<Rightarrow> regex" where
  "tag_pair_regex tag =
     seq (map Lit (''<'' @ tag @ ''>'') @ [Group (Star False (Class (NoneOf [])))] @
       map Lit (''</'' @ tag @ ''>''))"

definition capture_of :: "string \<Rightarrow> regex \<Rightarrow> string option" where
  "capture_of s r =
     (case search s r of Some (_, _, Some (x, y)) \<Rightarrow> Some (slice s x y) | _ \<Rightarrow> None)"

record ParsedDescription =
  pd_mainText :: string
  pd_discussion :: "string option"
  pd_signatureContent :: "json list option"

definition parseDescription :: "string option \<Rightarrow> ParsedDescription" where
  "parseDescription txt =
     (case setting txt of
        None \<Rightarrow> \<lparr>pd_mainText = [], pd_discussion = None, pd_signatureContent = None\<rparr>
      | Some t \<Rightarrow>
          let discussionMatch = capture_of t (tag_pair_regex ''discussion'');
              signatureMatch = capture_of t (tag_pair_regex ''signature'');
              text1 = (if discussionMatch = None then t
                       else trim (replace_once t (tag_pair_regex ''discussion'') []));
              text2 = (if signatureMatch = None then text1
                       else trim (replace_once text1 (tag_pair_regex ''signature'') []))
          in \<lparr>pd_mainText = text2, pd_discussion = map_option trim discussionMatch,
              pd_signatureContent =
                (case signatureMatch of
                   None \<Rightarrow> None
                 | Some raw \<Rightarrow>
                     (case JSON_parse (trim raw) of
                        Inl _ \<Rightarrow> None
                      | Inr (JArray js) \<Rightarrow> Some js
                      | Inr _ \<Rightarrow> Some []))\<rparr>)"

text \<open>\<open>/<\/?[^>]+(>|$)/g\<close>\<close>

definition any_tag_regex :: regex where
  "any_tag_regex = seq [Lit (CHR ''<''), Opt (Lit (CHR ''/'')), Plus True (Class (NoneOf ''>'')),
     Alt (Lit (CHR ''>'')) InputEnd]"

text \<open>\<open>/^#\s+(.*?)(?:\n|$)/\<close>, which only matches at the start.\<close>

definition title_regex :: regex where
  "title_regex = seq [Lit (CHR ''#''), Plus True (Class Space), Group (Star False (Class Dot)),
     Alt (Lit (CHR 0x0A)) InputEnd]"

definition numeric_title :: "string \<Rightarrow> bool" where
  "numeric_title t \<longleftrightarrow> t \<noteq> [] \<and> list_all (\<lambda>c. is_digit 10 c \<or> is_space c) t"

definition clean_title :: "string \<Rightarrow> string" where
  "clean_title t =
     (let cleanTitle = trim (replace_all t any_tag_regex (\<lambda>_. []))
      in if numeric_title cleanTitle then
           let ds = takeWhile (is_digit 10) (dropWhile (\<lambda>c. \<not> is_digit 10 c) cleanTitle)
           in if ds = [] then cleanTitle else ds
         else cleanTitle)"

definition extractTitleAndDescription :: "string option \<Rightarrow> string \<times> string" where
  "extractTitleAndDescription description =
     (case setting description of
        None \<Rightarrow> ([], [])
      | Some d \<Rightarrow>
          (case match_from d title_regex 0 of
             Some (e, Some (x, y)) \<Rightarrow>
               if slice d x y \<noteq> [] then (clean_title (slice d x y), trim (drop e d))
               else
                 let fallbackTitle = trim (replace_all d any_tag_regex (\<lambda>_. []))
                 in (if length fallbackTitle > 50 then take 50 fallbackTitle @ ''...'' else fallbackTitle, d)
           | _ \<Rightarrow>
               let fallbackTitle = trim (replace_all d any_tag_regex (\<lambda>_. []))
               in (if length fallbackTitle > 50 then take 50 fallbackTitle @ ''...'' else fallbackTitle, d)))"

end
