(* ===== verification/WebProposalClaims.thy ===== *)
theory WebProposalClaims
  imports WebProposal
begin

text \<open>
  What a proposer writes is what a voter reads: the tags and the signatures of a description, the
  title and the text of a proposal, the types of a function signature; and the ranges of the
  integers the form accepts.
\<close>

section \<open>Fixed texts in regular expressions\<close>

lemma starts_with_Nil [simp]: "starts_with s []"
  by (simp add: starts_with_def)

lemma starts_with_Cons [simp]: "starts_with s (c # t) \<longleftrightarrow> s \<noteq> [] \<and> hd s = c \<and> starts_with (tl s) t"
  by (cases s) (auto simp: starts_with_def)

lemma starts_with_self [simp]: "starts_with (t @ s) t"
  by (simp add: starts_with_def)

lemma drop_step: "i < length s \<Longrightarrow> drop i s \<noteq> [] \<and> hd (drop i s) = s ! i \<and> tl (drop i s) = drop (Suc i) s"
  by (metis Cons_nth_drop_Suc drop_eq_Nil leD list.sel(1) list.sel(3))

lemma seq_Cons: "rs \<noteq> [] \<Longrightarrow> seq (r # rs) = Seq r (seq rs)"
  by (cases rs) simp_all

lemma match_lits:
  "rs \<noteq> [] \<Longrightarrow> match_at s (seq (map Lit t @ rs)) i c k =
     (if starts_with (drop i s) t then match_at s (seq rs) (i + length t) c k else None)"
proof (induction t arbitrary: i)
  case Nil
  then show ?case by simp
next
  case (Cons x t)
  then show ?case by (cases "i < length s") (auto simp: seq_Cons drop_step)
qed

lemma starts_with_snoc:
  "starts_with s (u @ [x]) \<longleftrightarrow> starts_with s u \<and> length u < length s \<and> s ! length u = x"
proof (induction u arbitrary: s)
  case Nil
  show ?case by (cases s) auto
next
  case (Cons y u)
  then show ?case by (cases s) auto
qed

lemma match_lits_end:
  assumes "t \<noteq> []"
  shows "match_at s (seq (map Lit t)) i c k =
    (if starts_with (drop i s) t then k (i + length t) c else None)"
proof -
  obtain u x where t: "t = u @ [x]" using assms by (metis rev_exhaust)
  then have "seq (map Lit t) = seq (map Lit u @ [Lit x])" by simp
  then show ?thesis by (auto simp: match_lits t starts_with_snoc)
qed

section \<open>Where a text does not occur\<close>

text \<open>No occurrence of \<open>t\<close> starts in \<open>a\<close>, when \<open>r\<close> follows.\<close>

primrec absent :: "string \<Rightarrow> string \<Rightarrow> string \<Rightarrow> bool" where
  "absent t [] r = True"
| "absent t (x # xs) r = (\<not> starts_with (x # xs @ r) t \<and> absent t xs r)"

lemma absent_append [simp]: "absent t (a @ b) r \<longleftrightarrow> absent t a (b @ r) \<and> absent t b r"
  by (induction a) simp_all

lemma absent_at: "absent t a r \<Longrightarrow> i < length a \<Longrightarrow> \<not> starts_with (drop i (a @ r)) t"
proof (induction a arbitrary: i)
  case Nil
  then show ?case by simp
next
  case (Cons x xs)
  then show ?case by (cases i) simp_all
qed

lemma absent_first: "x \<notin> set a \<Longrightarrow> absent (x # t) a r"
  by (induction a) auto

text \<open>An occurrence cannot reach over a character that it only has at its start.\<close>

lemma starts_with_stopped:
  "starts_with (a @ c # r) t \<Longrightarrow> c \<notin> set t \<Longrightarrow> starts_with a t"
proof (induction t arbitrary: a)
  case (Cons x t)
  then show ?case by (cases a) auto
qed simp

lemma absent_stopped:
  assumes "\<not> contains_text a (x # t)" and "c \<notin> set t"
  shows "absent (x # t) a (c # r)"
  using assms(1)
proof (induction a)
  case (Cons y a)
  have "\<not> starts_with (y # a @ c # r) (x # t)"
    using starts_with_stopped [OF _ assms(2), of a r] Cons.prems by auto
  with Cons show ?case by simp
qed simp

section \<open>Tags\<close>

lemma match_pair:
  assumes "cl \<noteq> []"
  shows "match_at s (seq (map Lit op @ Group (Star False (Class x)) # map Lit cl)) i c k =
    (if starts_with (drop i s) op then
       repeat_match False (match_at s (Class x)) (length s - (i + length op)) (i + length op) c
         (\<lambda>j _. if starts_with (drop j s) cl then k (j + length cl) (Some (i + length op, j)) else None)
     else None)"
proof -
  have ne: "map Lit cl \<noteq> []" using assms by simp
  show ?thesis
    unfolding match_lits [OF list.distinct(2)] seq_Cons [OF ne] match_simps(3) match_simps(9) match_simps(5)
      match_lits_end [OF assms] ..
qed

text \<open>The first pair of tags: the first opening tag with the first closing tag after it.\<close>

lemma search_from_None:
  "(\<And>j. i \<le> j \<Longrightarrow> j < i + n \<Longrightarrow> match_from s r j = None) \<Longrightarrow> search_from s r i n = None"
  by (induction n arbitrary: i) simp_all

lemma search_from_at:
  "(\<And>j. i \<le> j \<Longrightarrow> j < b \<Longrightarrow> match_from s r j = None) \<Longrightarrow> i \<le> b \<Longrightarrow> b < i + n \<Longrightarrow>
     match_from s r b = Some (e, c) \<Longrightarrow> search_from s r i n = Some (b, e, c)"
proof (induction n arbitrary: i)
  case (Suc n)
  show ?case
  proof (cases "i = b")
    case True
    with Suc.prems show ?thesis by simp
  next
    case False
    with Suc.prems have "match_from s r i = None" by simp
    then show ?thesis using Suc.IH [of "Suc i"] Suc.prems False by simp
  qed
qed simp

lemma any_char: "in_class (NoneOf []) c"
  by simp

lemma search_pair:
  fixes op cl :: string
  defines "R \<equiv> seq (map Lit op @ Group (Star False (Class (NoneOf []))) # map Lit cl)"
  assumes "op \<noteq> []" and "cl \<noteq> []" and "absent op a (op @ m @ cl @ z)" and "absent cl m (cl @ z)"
  shows "search (a @ op @ m @ cl @ z) R =
    Some (length a, length a + length op + length m + length cl,
      Some (length a + length op, length a + length op + length m))"
proof -
  let ?s = "a @ op @ m @ cl @ z"
  let ?j = "length a + length op"
  let ?k = "\<lambda>j _. if starts_with (drop j ?s) cl then Some (j + length cl, Some (?j, j)) else None"
  have none: "match_from ?s R i = None" if "i < length a" for i
    using absent_at [OF assms(4) that] by (simp add: match_from_def R_def match_pair [OF assms(3)])
  have "repeat_match False (match_at ?s (Class (NoneOf []))) (length ?s - ?j) ?j None ?k =
      Some (?j + length m + length cl, Some (?j, ?j + length m))"
  proof (rule repeat_lazy_first [OF class_matcher_at, where m = "length m"])
    show "length m \<le> length ?s - ?j" by simp
    show "run_of ?s (NoneOf []) ?j (length m)" by (simp add: run_of_def)
    fix t
    assume t: "t < length m"
    have "drop (?j + t) ?s = drop t (m @ cl @ z)" by simp
    with absent_at [OF assms(5) t] show "?k (?j + t) None = None" by simp
  next
    have "drop (?j + length m) ?s = cl @ z" by simp
    then show "?k (?j + length m) None = Some (?j + length m + length cl, Some (?j, ?j + length m))" by simp
  qed
  then have "match_from ?s R (length a) =
      Some (?j + length m + length cl, Some (?j, ?j + length m))"
    by (simp add: match_from_def R_def match_pair [OF assms(3)])
  then show ?thesis
    unfolding search_def by (intro search_from_at) (use none in auto)
qed

lemma search_pair_None:
  assumes "cl \<noteq> []" and "op \<noteq> []" and "absent op s []"
  shows "search s (seq (map Lit op @ Group (Star False (Class x)) # map Lit cl)) = None"
  unfolding search_def
proof (rule search_from_None)
  fix j
  have "\<not> starts_with (drop j s) op"
    using absent_at [OF assms(3), of j] assms(2) by (cases "j < length s") (auto simp: starts_with_def)
  then show "match_from s (seq (map Lit op @ Group (Star False (Class x)) # map Lit cl)) j = None"
    by (simp add: match_from_def match_pair [OF assms(1)])
qed

abbreviation open_tag :: "string \<Rightarrow> string" where "open_tag tag \<equiv> ''<'' @ tag @ ''>''"
abbreviation close_tag :: "string \<Rightarrow> string" where "close_tag tag \<equiv> ''</'' @ tag @ ''>''"

lemma tag_pair: "tag_pair_regex tag =
    seq (map Lit (open_tag tag) @ Group (Star False (Class (NoneOf []))) # map Lit (close_tag tag))"
  by (simp add: tag_pair_regex_def)

lemma tagged_parts: "tagged tag t = open_tag tag @ t @ close_tag tag"
  by (simp add: tagged_def)

lemma pair_found:
  fixes op cl :: string
  defines "R \<equiv> seq (map Lit op @ Group (Star False (Class (NoneOf []))) # map Lit cl)"
  assumes "op \<noteq> []" and "cl \<noteq> []" and "absent op a (op @ m @ cl @ z)" and "absent cl m (cl @ z)"
  shows "capture_of (a @ op @ m @ cl @ z) R = Some m" and "replace_once (a @ op @ m @ cl @ z) R u = a @ u @ z"
  using search_pair [OF assms(2-5)] by (simp_all add: R_def capture_of_def replace_once_def slice_def)

lemma tags_found:
  assumes "absent (open_tag tag) a (tagged tag m @ z)" and "absent (close_tag tag) m (close_tag tag @ z)"
  shows "capture_of (a @ tagged tag m @ z) (tag_pair_regex tag) = Some m"
    and "replace_once (a @ tagged tag m @ z) (tag_pair_regex tag) u = a @ u @ z"
proof -
  have s: "a @ tagged tag m @ z = a @ open_tag tag @ m @ close_tag tag @ z" by (simp add: tagged_parts)
  have "absent (open_tag tag) a (open_tag tag @ m @ close_tag tag @ z)"
    using assms(1) by (simp add: tagged_parts)
  then show "capture_of (a @ tagged tag m @ z) (tag_pair_regex tag) = Some m"
    "replace_once (a @ tagged tag m @ z) (tag_pair_regex tag) u = a @ u @ z"
    unfolding s tag_pair using pair_found [of "open_tag tag" "close_tag tag" a m z] assms(2) by blast+
qed

lemma tags_missing:
  assumes "absent (open_tag tag) s []"
  shows "capture_of s (tag_pair_regex tag) = None"
  using search_pair_None [of "close_tag tag" "open_tag tag" s "NoneOf []"] assms
  by (simp add: capture_of_def tag_pair)

section \<open>The text of a proposal\<close>

text \<open>What a title and a body must be like to be read back.\<close>

definition plain_title :: "string \<Rightarrow> bool" where
  "plain_title t \<longleftrightarrow>
     t \<noteq> [] \<and> trimmed t \<and> CHR ''<'' \<notin> set t \<and> (\<forall>c \<in> set t. \<not> is_line_end c) \<and> \<not> numeric_title t"

definition plain_body :: "string \<Rightarrow> bool" where
  "plain_body t \<longleftrightarrow>
     trim t \<noteq> [] \<and> \<not> contains_text t ''<discussion>'' \<and> \<not> contains_text t ''<signature>''"

definition plain_discussion :: "string option \<Rightarrow> bool" where
  "plain_discussion d \<longleftrightarrow>
     (case d of None \<Rightarrow> True
      | Some t \<Rightarrow> \<not> contains_text t ''</discussion>'' \<and> \<not> contains_text t ''<signature>'')"

lemma spaces [simp]: "is_space (CHR '' '')" "is_space (CHR 0x0A)" "\<not> is_space (CHR ''<'')"
  "\<not> is_space (CHR ''>'')" "\<not> is_space (CHR ''#'')"
  by code_simp+

lemma trim_def2: "trim s = rev (dropWhile is_space (rev (trim_start s)))"
  by (simp add: trim_def trim_start_def)

lemma trim_blank_after:
  assumes "\<forall>c \<in> set w. is_space c"
  shows "trim (s @ w) = trim s"
proof (cases "\<forall>c \<in> set s. is_space c")
  case True
  with assms show ?thesis by (simp add: trim_def dropWhile_eq_Nil_conv [THEN iffD2])
next
  case False
  then have "dropWhile is_space (s @ w) = dropWhile is_space s @ w" by (auto simp: dropWhile_append)
  then show ?thesis using assms by (simp add: trim_def dropWhile_append)
qed

lemma trim_blank_before: "\<forall>c \<in> set w. is_space c \<Longrightarrow> trim (w @ s) = trim s"
  by (simp add: trim_def dropWhile_append)

lemma trim_end_blank: "trim s = [] \<longleftrightarrow> (\<forall>c \<in> set s. is_space c)"
  by (auto simp: trim_def dropWhile_eq_Nil_conv dest: set_dropWhileD)
    (metis (no_types) dropWhile_eq_Nil_conv dropWhile_idem hd_Cons_tl dropWhile_hd list.set_sel(1))

text \<open>Trimming at the end leaves what stands before a text that is not blank.\<close>

definition trim_end :: "string \<Rightarrow> string" where
  "trim_end s = rev (dropWhile is_space (rev s))"

lemma trim_front:
  assumes "a \<noteq> []" and "\<not> is_space (hd a)" and "trim m \<noteq> []"
  shows "trim (a @ m) = a @ trim_end m"
proof -
  obtain x xs where a: "a = x # xs" using assms(1) by (cases a) auto
  then have "dropWhile is_space (a @ m) = a @ m" using assms(2) by simp
  moreover obtain c where "c \<in> set m" "\<not> is_space c" using assms(3) trim_end_blank by blast
  ultimately show ?thesis by (auto simp: trim_def trim_end_def dropWhile_append)
qed

lemma trim_of_end: "trim (trim_end m) = trim m"
proof -
  obtain w where w: "rev m = w @ dropWhile is_space (rev m)" "\<forall>c \<in> set w. is_space c"
    using takeWhile_dropWhile_id [of is_space "rev m"] set_takeWhileD by metis
  then have "m = trim_end m @ rev w" by (metis rev_append rev_rev_ident trim_end_def)
  then show ?thesis using trim_blank_after [of "rev w" "trim_end m"] w(2) by simp
qed

lemma replace_all_untagged:
  assumes "CHR ''<'' \<notin> set s"
  shows "replace_all s any_tag_regex f = s"
proof -
  have "i < length s \<Longrightarrow> CHR ''<'' \<noteq> s ! i" for i using assms by (metis nth_mem)
  then have "match_from s any_tag_regex i = None" for i by (simp add: match_from_def any_tag_regex_def)
  then have "search_from s any_tag_regex 0 n = None" for n by (intro search_from_None) simp
  then show ?thesis by (simp add: replace_all_def del: search_from.simps)
qed

lemma clean_plain: "plain_title t \<Longrightarrow> clean_title t = t"
  by (simp add: clean_title_def plain_title_def replace_all_untagged trim_trimmed_id)

lemma title_match:
  assumes "plain_title t"
  shows "match_from (''# '' @ t @ CHR 0x0A # r) title_regex 0 = Some (3 + length t, Some (2, 2 + length t))"
proof -
  define s where "s = ''# '' @ t @ CHR 0x0A # r"
  have len: "length s = 3 + length t + length r" and start: "0 < length s" "s ! 0 = CHR ''#''" "1 < length s" "s ! 1 = CHR '' ''"
    and nl_at: "s ! (2 + length t) = CHR 0x0A"
    by (simp_all add: s_def)
  let ?k = "\<lambda>j _. or_else (if j < length s \<and> CHR 0x0A = s ! j then Some (Suc j, Some (Suc (Suc 0), j)) else None)
    (if j = length s then Some (j, Some (Suc (Suc 0), j)) else None)"
  have nth: "s ! (2 + i) = t ! i" if "i < length t" for i
    using that by (simp add: s_def nth_append)
  have line: "\<not> is_line_end (t ! i)" if "i < length t" for i
    using that assms by (auto simp: plain_title_def)
  have nl: "is_line_end (CHR 0x0A)" by code_simp
  have rep: "repeat_match False (match_at s (Class Dot)) (length s - 2) 2 None ?k =
      Some (3 + length t, Some (2, 2 + length t))"
  proof (rule repeat_lazy_first [OF class_matcher_at, where m = "length t"])
    show "length t \<le> length s - 2" by (simp add: len)
    show "run_of s Dot 2 (length t)"
      unfolding run_of_def
    proof (intro conjI allI impI)
      fix i
      assume i: "i < length t"
      show "in_class Dot (s ! (2 + i))" unfolding nth [OF i] using line [OF i] by simp
    qed (simp add: len)
    fix i
    assume i: "i < length t"
    have "CHR 0x0A \<noteq> s ! (2 + i)" using nth [OF i] line [OF i] nl by metis
    moreover have "2 + i < length s" using i by (simp add: len)
    ultimately show "?k (2 + i) None = None" by (simp only: if_False if_True simp_thms or_else_simps) simp
  next
    show "?k (2 + length t) None = Some (3 + length t, Some (2, 2 + length t))"
      using nl_at by (simp add: len)
  qed
  have "t \<noteq> []" "\<not> is_space (hd t)" using assms by (auto simp: plain_title_def trimmed_def)
  then have "s ! 2 = hd t" using nth [of 0] by (simp add: hd_conv_nth)
  then have "\<not> (2 < length s \<and> in_class Space (s ! 2))" using \<open>\<not> is_space (hd t)\<close> by simp
  then have stop: "repeat_match True (match_at s (Class Space)) n 2 None k = k 2 None" for n k
    by (rule repeat_class_stop [OF class_matcher_at])
  have "match_from s title_regex 0 = Some (3 + length t, Some (2, 2 + length t))"
    using start rep stop
    by (simp add: match_from_def title_regex_def numeral_2_eq_2 del: repeat_match.simps)
  then show ?thesis unfolding s_def .
qed

lemma extract_match:
  assumes "match_from d title_regex 0 = Some (e, Some (x, y))" and "slice d x y = t" and "t \<noteq> []" and "d \<noteq> []"
  shows "extractTitleAndDescription (Some d) = (clean_title t, trim (drop e d))"
  using assms by (simp add: extractTitleAndDescription_def setting_def)

lemma extract_plain:
  assumes "plain_title t" and "trim m \<noteq> []"
  shows "extractTitleAndDescription (Some (trim (''# '' @ t @ blank_line @ m))) = (t, trim m)"
proof -
  have "trim ((''# '' @ t @ blank_line) @ m) = (''# '' @ t @ blank_line) @ trim_end m"
    by (rule trim_front) (use assms in simp_all)
  then have d: "trim (''# '' @ t @ blank_line @ m) = ''# '' @ t @ CHR 0x0A # CHR 0x0A # trim_end m"
    by (simp add: blank_line_def)
  have e: "drop (3 + length t) (''# '' @ t @ CHR 0x0A # CHR 0x0A # trim_end m) = CHR 0x0A # trim_end m"
    by (simp add: numeral_3_eq_3)
  have s: "slice (''# '' @ t @ CHR 0x0A # CHR 0x0A # trim_end m) 2 (2 + length t) = t"
    by (simp add: slice_def)
  have m: "trim (CHR 0x0A # trim_end m) = trim m"
    using trim_blank_before [of "[CHR 0x0A]" "trim_end m"] by (simp add: trim_of_end)
  have "t \<noteq> []" using assms(1) by (simp add: plain_title_def)
  then have "extractTitleAndDescription (Some (''# '' @ t @ CHR 0x0A # CHR 0x0A # trim_end m)) =
      (clean_title t, trim (drop (3 + length t) (''# '' @ t @ CHR 0x0A # CHR 0x0A # trim_end m)))"
    by (intro extract_match [OF title_match [OF assms(1)] s]) simp_all
  then show ?thesis unfolding d e m clean_plain [OF assms(1)] .
qed

section \<open>From the form to the reader\<close>

definition written_signatures :: "ProposalParams \<Rightarrow> string list" where
  "written_signatures p = (if pp_actions p = [] then [[]] else map signature_or_empty (pp_actions p))"

lemma created:
  assumes "createProposal C valid address p = Inr (Some call)"
  shows "call_description call = description_with (pp_description p) (pp_discussion p) (written_signatures p)"
    and "length (call_targets call) = length (written_signatures p)"
    and "length (call_values call) = length (written_signatures p)"
    and "length (call_calldatas call) = length (written_signatures p)"
  using assms
  by (auto simp: createProposal_def and_then_eq_Inr written_signatures_def map_outcome_length
      split: if_splits option.splits)

text \<open>The pieces of a description in which the tags of the other pieces do not occur.\<close>

lemma tag_chars: "CHR ''<'' \<notin> set ''discussion>''" "CHR ''<'' \<notin> set ''signature>''"
  "CHR ''<'' \<notin> set ''/discussion>''" "CHR ''<'' \<notin> set ''/signature>''" "CHR 0x0A \<notin> set ''<discussion>''"
  "CHR 0x0A \<notin> set ''<signature>''"
  by simp_all

lemma no_tag_in_title:
  assumes "plain_title t" and "plain_body m"
  shows "absent ''<discussion>'' (''# '' @ t @ blank_line @ m) (blank_line @ r)"
    and "absent ''<signature>'' (''# '' @ t @ blank_line @ m) (blank_line @ r)"
proof -
  have t: "CHR ''<'' \<notin> set (''# '' @ t @ blank_line)" using assms(1) by (simp add: plain_title_def blank_line_def)
  show "absent ''<discussion>'' (''# '' @ t @ blank_line @ m) (blank_line @ r)"
    using absent_first [OF t, of "''discussion>''" "m @ blank_line @ r"]
      absent_stopped [of m "CHR ''<''" "''discussion>''" "CHR 0x0A" "CHR 0x0A # r"] assms(2)
    by (simp add: plain_body_def blank_line_def)
  show "absent ''<signature>'' (''# '' @ t @ blank_line @ m) (blank_line @ r)"
    using absent_first [OF t, of "''signature>''" "m @ blank_line @ r"]
      absent_stopped [of m "CHR ''<''" "''signature>''" "CHR 0x0A" "CHR 0x0A # r"] assms(2)
    by (simp add: plain_body_def blank_line_def)
qed

lemma absent_blank [simp]: "absent (CHR ''<'' # t) blank_line r"
  by (simp add: blank_line_def)

lemma absent_in_tags [simp]:
  "absent ''<signature>'' ''<discussion>'' r" "absent ''<signature>'' ''</discussion>'' r"
  "absent ''<discussion>'' ''<signature>'' r" "absent ''<discussion>'' ''</signature>'' r"
  by simp_all

lemma tagged_discussion: "tagged ''discussion'' t = ''<discussion>'' @ t @ ''</discussion>''"
  and tagged_signature: "tagged ''signature'' t = ''<signature>'' @ t @ ''</signature>''"
  by (simp_all add: tagged_def)

lemma signature_found:
  assumes "absent ''<signature>'' a (tagged ''signature'' m)" and "CHR ''<'' \<notin> set m"
  shows "capture_of (a @ tagged ''signature'' m) (tag_pair_regex ''signature'') = Some m"
    and "replace_once (a @ tagged ''signature'' m) (tag_pair_regex ''signature'') [] = a"
  using tags_found [of "''signature''" a m "[]"] assms absent_first [OF assms(2)] by simp_all

lemma discussion_found:
  assumes "absent ''<discussion>'' a (tagged ''discussion'' m @ z)" and "\<not> contains_text m ''</discussion>''"
  shows "capture_of (a @ tagged ''discussion'' m @ z) (tag_pair_regex ''discussion'') = Some m"
    and "replace_once (a @ tagged ''discussion'' m @ z) (tag_pair_regex ''discussion'') [] = a @ z"
  using tags_found [of "''discussion''" a m z] assms
    absent_stopped [of m "CHR ''<''" "''/discussion>''" "CHR ''<''" "''/discussion>'' @ z"]
  by simp_all

lemma trim_whole:
  assumes "a \<noteq> []" and "\<not> is_space (hd a)"
  shows "trim (a @ w @ tagged t m) = a @ w @ tagged t m"
proof (rule trim_trimmed_id)
  obtain x xs where "a = x # xs" using assms(1) by (cases a) auto
  with assms(2) show "trimmed (a @ w @ tagged t m)" by (simp add: trimmed_def tagged_def)
qed

lemma trim_stringified: "trim (stringify_texts ts) = stringify_texts ts"
proof (rule trim_trimmed_id)
  have "\<not> is_space (CHR ''['')" "\<not> is_space (CHR '']'')" by code_simp+
  then show "trimmed (stringify_texts ts)" by (simp add: trimmed_def stringify_texts_def)
qed

lemma parse_written:
  assumes "plain_title t" and "plain_body m" and "plain_discussion discussion"
    and "\<forall>s \<in> set sigs. CHR ''<'' \<notin> set s" and "sigs \<noteq> []"
  shows "parseDescription (Some (description_with (''# '' @ t @ blank_line @ m) discussion sigs)) =
    \<lparr>pd_mainText = trim (''# '' @ t @ blank_line @ m), pd_discussion = map_option trim (setting discussion),
     pd_signatureContent = Some (map JString sigs)\<rparr>"
proof -
  let ?d = "''# '' @ t @ blank_line @ m"
  let ?S = "stringify_texts sigs"
  have S: "CHR ''<'' \<notin> set ?S" by (rule stringify_plain [OF assms(4)])
  have read: "JSON_parse (trim ?S) = Inr (JArray (map JString sigs))"
    by (simp add: trim_stringified parse_stringified)
  note d = no_tag_in_title [OF assms(1,2)]
  have bl: "\<forall>c \<in> set blank_line. is_space c" by (simp add: blank_line_def)
  show ?thesis
  proof (cases "setting discussion")
    case None
    let ?T = "(?d @ blank_line) @ tagged ''signature'' ?S"
    have whole: "description_with ?d discussion sigs = ?T"
      using None assms(5) by (simp add: description_with_def)
    have "absent ''<discussion>'' ?T []"
      using d(1) absent_first [OF S, of "''discussion>''" "''</signature>''"] by (simp add: tagged_signature)
    then have disc: "capture_of ?T (tag_pair_regex ''discussion'') = None"
      using tags_missing [of "''discussion''" ?T] by simp
    have "absent ''<signature>'' (?d @ blank_line) (tagged ''signature'' ?S)" using d(2) by simp
    note sig = signature_found [OF this S]
    have "setting (Some ?T) = Some ?T" by (simp add: setting_def)
    then show ?thesis
      unfolding whole parseDescription_def
      by (simp only: option.case Let_def disc sig if_True if_False option.distinct(1) not_False_eq_True
          simp_thms read sum.case json.case None option.map trim_blank_after [OF bl] option.distinct)
  next
    case (Some D)
    then have D: "\<not> contains_text D ''</discussion>''" "\<not> contains_text D ''<signature>''"
      using assms(3) by (auto simp: plain_discussion_def setting_def split: option.splits if_splits)
    let ?z = "blank_line @ tagged ''signature'' ?S"
    let ?T = "(?d @ blank_line) @ tagged ''discussion'' D @ ?z"
    have whole: "description_with ?d discussion sigs = ?T"
      using Some assms(5) by (simp add: description_with_def)
    have "absent ''<discussion>'' (?d @ blank_line) (tagged ''discussion'' D @ ?z)" using d(1) by simp
    note disc = discussion_found [OF this D(1)]
    have "absent ''<signature>'' D (''</discussion>'' @ z)" for z
      using absent_stopped [of D "CHR ''<''" "''signature>''" "CHR ''<''" "''/discussion>'' @ z"] D(2) by simp
    then have "absent ''<signature>'' (?d @ blank_line @ tagged ''discussion'' D @ blank_line) (tagged ''signature'' ?S)"
      using d(2) by (simp add: tagged_discussion)
    note sig = signature_found [OF this S]
    have T: "?T = (?d @ blank_line @ tagged ''discussion'' D @ blank_line) @ tagged ''signature'' ?S" by simp
    have trim1: "trim ((?d @ blank_line) @ ?z) = (?d @ blank_line @ blank_line) @ tagged ''signature'' ?S"
      using trim_whole [of ?d "blank_line @ blank_line" "''signature''" ?S] by simp
    have "absent ''<signature>'' (?d @ blank_line @ blank_line) (tagged ''signature'' ?S)" using d(2) by simp
    note sig1 = signature_found [OF this S]
    have trim2: "trim (?d @ blank_line @ blank_line) = trim ?d"
      using trim_blank_after [of "blank_line @ blank_line" ?d] bl by simp
    have "setting (Some ?T) = Some ?T" by (simp add: setting_def)
    then show ?thesis
      unfolding whole parseDescription_def
      by (simp only: option.case Let_def disc sig(1) [folded T] if_True if_False option.distinct(1) not_False_eq_True
          simp_thms read sum.case json.case Some option.map trim1 sig1 trim2 option.distinct)
  qed
qed

text \<open>
  C19: What a proposer writes is what a voter reads. For a title of one line without white space around
  it and without the character \<open><\<close> that is not a number, a body that is not blank and has no opening
  tag of the format, a discussion without its own closing tag and the opening tag of the signatures,
  and signatures without the character \<open><\<close>, the description that the call carries is taken apart
  again into the title, the body (without white space around it), the discussion (likewise), and one
  signature for each action of the call in order, or the empty signature of the one call to the
  proposer's own account when there is no action.
\<close>

theorem proposal_text_roundtrip:
  assumes "proposal_content actions = Some c" and "pc_title c = Some t" and "pc_markdown c = Some m"
    and "plain_title t" and "plain_body m" and "plain_discussion (pc_discussion c)"
    and "transformActionsToProposalParams parseUnits actions decimals = Inr p"
    and "createProposal C valid address p = Inr (Some call)"
    and "\<forall>s \<in> set (written_signatures p). CHR ''<'' \<notin> set s"
    and "parseDescription (Some (call_description call)) = d"
  shows "extractTitleAndDescription (Some (pd_mainText d)) = (t, trim m) \<and>
    pd_discussion d = map_option trim (setting (pc_discussion c)) \<and>
    pd_signatureContent d = Some (map JString (written_signatures p)) \<and>
    length (call_targets call) = length (written_signatures p)"
proof -
  have p: "pp_description p = ''# '' @ t @ blank_line @ m" "pp_discussion p = pc_discussion c"
    using assms(1-3,7) by (auto simp: transformActionsToProposalParams_def and_then_eq_Inr shown_def)
  have "written_signatures p \<noteq> []" by (simp add: written_signatures_def)
  from parse_written [OF assms(4-6,9) this]
  have "d = \<lparr>pd_mainText = trim (''# '' @ t @ blank_line @ m),
      pd_discussion = map_option trim (setting (pc_discussion c)),
      pd_signatureContent = Some (map JString (written_signatures p))\<rparr>"
    using created(1) [OF assms(8)] assms(10) p by simp
  then show ?thesis
    using extract_plain [OF assms(4)] assms(5) created(2) [OF assms(8)] by (simp add: plain_body_def)
qed

section \<open>Function signatures\<close>

lemma modifiers_none:
  assumes "CHR '')'' \<notin> set a"
  shows "replace_once (a @ '')'') modifiers_regex '')'' = a @ '')''"
proof -
  define s where "s = a @ '')''"
  have len: "length s = Suc (length a)" by (simp add: s_def)
  have "match_from s modifiers_regex i = None" if "i < length a" for i
  proof -
    have "CHR '')'' \<noteq> s ! i" using assms that by (auto simp: s_def nth_append dest: nth_mem)
    then show ?thesis by (simp add: match_from_def modifiers_regex_def)
  qed
  moreover have "match_from s modifiers_regex (length a) = Some (length s, None)"
    by (simp add: match_from_def modifiers_regex_def len) (simp add: s_def)
  ultimately have "search s modifiers_regex = Some (length a, length s, None)"
    unfolding search_def by (intro search_from_at) (auto simp: len)
  then show ?thesis by (simp add: replace_once_def s_def)
qed

lemma split_joined:
  "\<forall>u \<in> set (t # us). CHR '','' \<notin> set u \<Longrightarrow>
     split_on (CHR '','') (t @ concat (map (\<lambda>u. '', '' @ u) us)) = t # map (\<lambda>u. CHR '' '' # u) us"
proof (induction us arbitrary: t)
  case Nil
  then show ?case by (simp add: split_on_plain)
next
  case (Cons u us)
  then have "split_on (CHR '','') (CHR '' '' # u @ concat (map (\<lambda>u. '', '' @ u) us)) =
      (CHR '' '' # u) # map (\<lambda>u. CHR '' '' # u) us"
    using Cons.IH [of "CHR '' '' # u"] by simp
  then show ?case using split_on_join [of "CHR '',''" t] Cons.prems by simp
qed

lemma first_word_start: "first_word s = takeWhile (\<lambda>c. \<not> is_space c) (trim_start s)"
proof -
  let ?u = "rev (trim_start s)"
  have u: "trim_start s = trim s @ rev (takeWhile is_space ?u)"
    by (metis rev_append rev_rev_ident takeWhile_dropWhile_id trim_def2)
  have "takeWhile (\<lambda>c. \<not> is_space c) (rev (takeWhile is_space ?u)) = []"
    by (cases "rev (takeWhile is_space ?u)" rule: list.exhaust)
       (simp, metis list.set_intros(1) set_rev set_takeWhileD takeWhile.simps(2))
  then show ?thesis by (subst u) (auto simp: first_word_def takeWhile_append)
qed

lemma first_word_type:
  assumes "t \<noteq> []" and "\<forall>c \<in> set t. \<not> is_space c" and "\<forall>c \<in> set w. is_space c"
  shows "first_word (w @ t @ CHR '' '' # n) = t"
proof -
  obtain c u where t: "t = c # u" using assms(1) by (cases t) auto
  then have "trim_start (w @ t @ CHR '' '' # n) = t @ CHR '' '' # n"
    using assms by (simp add: trim_start_def dropWhile_append)
  then show ?thesis using assms(2) by (simp add: first_word_start takeWhile_append)
qed

definition plain_part :: "string \<Rightarrow> bool" where
  "plain_part t \<longleftrightarrow> CHR ''('' \<notin> set t \<and> CHR '')'' \<notin> set t \<and> CHR '','' \<notin> set t"

definition plain_item :: "CalldataItem \<Rightarrow> bool" where
  "plain_item p \<longleftrightarrow>
     plain_part (ci_type p) \<and> plain_part (ci_name p) \<and> ci_type p \<noteq> [] \<and> (\<forall>c \<in> set (ci_type p). \<not> is_space c)"

text \<open>The signature that is stored with a proposal is simplified to the name and the types.\<close>

lemma signature_simplified:
  assumes "m \<noteq> []" and "plain_part (hd (split_on (CHR ''-'') m))" and "ps \<noteq> []" and "\<forall>p \<in> set ps. plain_item p"
  shows "simplifyFunctionSignature (generateFunctionSignature True True (Some m) (Some ps)) =
    Inr (trim (hd (split_on (CHR ''-'') m)) @ ''('' @ join_with (CHR '','') (map ci_type ps) @ '')'')"
proof -
  let ?n = "hd (split_on (CHR ''-'') m)"
  define f where "f = (\<lambda>p :: CalldataItem. ci_type p @ CHR '' '' # ci_name p)"
  obtain q qs where ps: "ps = q # qs" using assms(3) by (cases ps) auto
  define body where "body = f q @ concat (map (\<lambda>p. '', '' @ f p) qs)"
  have gen: "generateFunctionSignature True True (Some m) (Some ps) = (?n @ ''('' @ body) @ '')''"
    using assms(1) by (simp add: generateFunctionSignature_def ps join_text_def body_def f_def comp_def)
  have f: "CHR ''('' \<notin> set (f p)" "CHR '')'' \<notin> set (f p)" "CHR '','' \<notin> set (f p)" if "p \<in> set ps" for p
    using assms(4) that by (auto simp: f_def plain_item_def plain_part_def)
  then have b: "CHR ''('' \<notin> set body" "CHR '')'' \<notin> set body" by (auto simp: body_def ps)
  have n: "CHR ''('' \<notin> set ?n" "CHR '')'' \<notin> set ?n" using assms(2) by (simp_all add: plain_part_def)
  have repl: "replace_once ((?n @ ''('' @ body) @ '')'') modifiers_regex '')'' = (?n @ ''('' @ body) @ '')''"
    by (rule modifiers_none) (use n b in simp)
  have "split_on (CHR ''('') ((?n @ ''('' @ body) @ '')'') = [?n, body @ '')'']"
    using split_on_join [OF n(1)] split_on_plain [of "CHR ''(''" "body @ '')''"] b(1) by simp
  moreover have "hd (split_on (CHR '')'') (body @ '')'')) = body"
    using split_on_join [OF b(2), of "[]"] by simp
  moreover have "body \<noteq> []" by (simp add: body_def f_def)
  moreover have "split_on (CHR '','') body = f q # map (\<lambda>u. CHR '' '' # u) (map f qs)"
    using split_joined [of "f q" "map f qs"] f ps by (simp add: body_def comp_def)
  moreover have "first_word (f p) = ci_type p" "first_word (CHR '' '' # f p) = ci_type p" if "p \<in> set ps" for p
    using first_word_type [of "ci_type p" "[]" "ci_name p"] first_word_type [of "ci_type p" "'' ''" "ci_name p"]
      assms(4) that by (simp_all add: plain_item_def f_def)
  then have "map first_word (f q # map (\<lambda>u. CHR '' '' # u) (map f qs)) = map ci_type ps"
    by (simp add: ps)
  ultimately show ?thesis
    unfolding gen simplifyFunctionSignature_def repl by (simp add: Let_def)
qed

section \<open>Integers in calls\<close>

lemma all_digits_text: "all_digits (nat_text 10 k)"
  using nat_text_digits [of k] by (auto simp: all_digits_def list_all_iff decimal_digits_def is_digit_def)

lemma int_types: "int_type (''uint'' @ nat_text 10 k) = Some (True, nat_text 10 k)"
  "int_type (''int'' @ nat_text 10 k) = Some (False, nat_text 10 k)"
  by (simp_all add: int_type_def all_digits_text)

text \<open>
  The form accepts a number for an integer parameter exactly when it is one of the type's
  values: a text that \<open>BigInt\<close> reads, between 0 and \<open>2 ^ k - 1\<close> for \<open>uintk\<close>, between
  \<open>- 2 ^ (k - 1)\<close> and \<open>2 ^ (k - 1) - 1\<close> for \<open>intk\<close>. Blank texts, which \<open>BigInt\<close> reads as zero, are
  refused.
\<close>

theorem calldata_integer_range:
  "(isValidSingleValue isAddress v (''uint'' @ nat_text 10 k) \<longleftrightarrow>
      trim v \<noteq> [] \<and> (\<exists>n. BigInt_text v = Inr n \<and> 0 \<le> n \<and> n < 2 ^ k)) \<and>
   (isValidSingleValue isAddress v (''int'' @ nat_text 10 k) \<longleftrightarrow>
      trim v \<noteq> [] \<and> 0 < k \<and> (\<exists>n. BigInt_text v = Inr n \<and> - (2 ^ (k - 1)) \<le> n \<and> n < 2 ^ (k - 1)))"
proof -
  have "v \<noteq> []" if "trim v \<noteq> []" using that by auto
  then show ?thesis
    by (cases "BigInt_text v")
       (auto simp: isValidSingleValue_def int_types [simplified] digits_or_def digits_value_text Let_def)
qed

section \<open>A proposal to try the properties on\<close>

definition demo_content :: ProposalContent where
  "demo_content = \<lparr>pc_title = Some ''Fees'', pc_markdown = Some ''Raise them'', pc_discussion = Some ''https://f''\<rparr>"

definition demo_custom :: CustomContent where
  "demo_custom =
     \<lparr>cc_target = ''0xAB'', cc_contractType = ''custom'', cc_contractMethod = Some ''set'',
      cc_customAbiContent = [], cc_calldata = Some [\<lparr>ci_name = ''fee'', ci_type = ''uint256'',
        ci_value = OneValue ''5'', ci_isArray = False\<rparr>], cc_value = None\<rparr>"

definition demo_actions :: "Action list" where
  "demo_actions = [ProposalAction ''1'' demo_content, CustomAction ''2'' demo_custom]"

definition demo_contracts :: "unit Contracts" where
  "demo_contracts =
     \<lparr>getFunction = (\<lambda>_ _. Inr (Some ())), encodeFunctionData = (\<lambda>_ _ _. Inr ''0x05'')\<rparr>"

theorem proposal_text_roundtrip_witness:
  "\<exists>p call.
     transformActionsToProposalParams (\<lambda>_ _. Inr 0) demo_actions 18 = Inr p \<and>
     createProposal demo_contracts True None p = Inr (Some call) \<and>
     extractTitleAndDescription (Some (pd_mainText (parseDescription (Some (call_description call))))) =
       (''Fees'', ''Raise them'') \<and>
     pd_signatureContent (parseDescription (Some (call_description call))) = Some [JString ''set(uint256 fee)'']"
proof -
  have sig: "generateFunctionSignature True True (Some ''set'') (cc_calldata demo_custom) = ''set(uint256 fee)''"
    by code_simp
  obtain p where p: "transformActionsToProposalParams (\<lambda>_ _. Inr 0) demo_actions 18 = Inr p"
    and w: "written_signatures p = [''set(uint256 fee)'']" "pp_actions p \<noteq> []"
    using sig
    by (auto simp: transformActionsToProposalParams_def demo_actions_def executable_action_def action_param_def
        amount_or_zero_def demo_custom_def written_signatures_def signature_or_empty_def proposal_content_def
        demo_content_def)
  moreover obtain call where c: "createProposal demo_contracts True None p = Inr (Some call)"
  proof -
    have "\<exists>xs. map_outcome (action_calldata demo_contracts) ps = Inr xs" for ps
      by (induction ps) (auto simp: action_calldata_def demo_contracts_def)
    then obtain xs where "map_outcome (action_calldata demo_contracts) (pp_actions p) = Inr xs" by blast
    with that w(2) show thesis by (simp add: createProposal_def)
  qed
  moreover have "plain_title ''Fees''" "plain_body ''Raise them''" "plain_discussion (Some ''https://f'')"
    "trim ''Raise them'' = ''Raise them''" by code_simp+
  moreover have "proposal_content demo_actions = Some demo_content"
    by (simp add: proposal_content_def demo_actions_def)
  ultimately show ?thesis
    using proposal_text_roundtrip [of demo_actions demo_content "''Fees''" "''Raise them''" "\<lambda>_ _. Inr 0" 18 p
        demo_contracts True None call "parseDescription (Some (call_description call))"]
    by (intro exI [of _ p] exI [of _ call]) (simp add: demo_content_def)
qed

text \<open>
  A title of blanks passes the form. When it is read back, the white space after the mark runs into
  the body, whose first line becomes the title.
\<close>

lemma blank_title_read_from_body:
  "proposal_valid isURL \<lparr>pc_title = Some '' '', pc_markdown = Some (''Raise'' @ CHR 0x0A # ''now''), pc_discussion = None\<rparr>"
  "extractTitleAndDescription (Some (''#  '' @ blank_line @ ''Raise'' @ CHR 0x0A # ''now'')) = (''Raise'', ''now'')"
  by code_simp+

end
