(* ===== verification/WebNewProposal.thy ===== *)
theory WebNewProposal
  imports WebProposal
begin

text \<open>
  The page of a new proposal (packages/web/src/app/proposals/new): its actions and the panels that
  edit them (page.tsx, sidebar.tsx, replace-panel.tsx), the panels' handlers (proposal-panel.tsx,
  transfer-panel.tsx, custom-panel.tsx, calldata-input-form.tsx, xaccount-panel.tsx), the preview of the
  calls (action-panel.tsx), and the publishing. A panel keeps the values of its own form; what the
  page publishes is the list of actions, which the panels write by a callback. Every panel is
  mounted, and only the current one is shown.
\<close>

section \<open>New actions\<close>

text \<open>The first text of the editor is one invisible character, an argument here.\<close>

definition generateProposalAction :: "string \<Rightarrow> string \<Rightarrow> Action" where
  "generateProposalAction invisible uuid =
     ProposalAction uuid \<lparr>pc_title = Some [], pc_markdown = Some invisible, pc_discussion = None\<rparr>"

definition generateTransferAction :: "string \<Rightarrow> Action" where
  "generateTransferAction uuid = TransferAction uuid \<lparr>tc_recipient = [], tc_amount = []\<rparr>"

definition generateCustomAction :: "string \<Rightarrow> Action" where
  "generateCustomAction uuid = CustomAction uuid
     \<lparr>cc_target = [], cc_contractType = [], cc_contractMethod = Some [], cc_customAbiContent = [],
      cc_calldata = Some [], cc_value = Some []\<rparr>"

definition generateXAccountAction :: "string \<Rightarrow> Action" where
  "generateXAccountAction uuid = XAccountAction uuid
     \<lparr>xa_crossChainCallHash = [], xa_from = [], xa_to = [], xa_crossChainCall = None\<rparr>"

primrec action_id :: "Action \<Rightarrow> string" where
  "action_id (ProposalAction i _) = i"
| "action_id (TransferAction i _) = i"
| "action_id (CustomAction i _) = i"
| "action_id (AddAction i) = i"
| "action_id (XAccountAction i _) = i"

section \<open>The page\<close>

datatype Tab = EditTab | AddTab | PreviewTab

text \<open>The values a panel holds, which are those it hands to the page.\<close>

datatype PanelValues =
    ProposalValues ProposalContent
  | TransferValues TransferContent
  | CustomValues CustomContent
  | XAccountValues XAccountContent

record NewProposal =
  np_actions :: "Action list"
  np_actionUuid :: string
  np_tab :: Tab
  np_panels :: "string \<rightharpoonup> PanelValues"

text \<open>The default values of a panel's form, from the content its action has when it is mounted.\<close>

definition filled :: "string option \<Rightarrow> string option" where
  "filled t = Some (case t of None \<Rightarrow> [] | Some x \<Rightarrow> x)"

definition defaultValues :: "Action \<Rightarrow> PanelValues option" where
  "defaultValues a =
     (case a of
        ProposalAction _ c \<Rightarrow> Some (ProposalValues
          \<lparr>pc_title = filled (pc_title c), pc_markdown = filled (pc_markdown c), pc_discussion = filled (pc_discussion c)\<rparr>)
      | TransferAction _ c \<Rightarrow> Some (TransferValues c)
      | CustomAction _ c \<Rightarrow> Some (CustomValues
          (c\<lparr>cc_contractMethod := filled (cc_contractMethod c),
             cc_calldata := Some (case cc_calldata c of None \<Rightarrow> [] | Some items \<Rightarrow> items),
             cc_value := filled (cc_value c)\<rparr>))
      | XAccountAction _ c \<Rightarrow> Some (XAccountValues c)
      | AddAction _ \<Rightarrow> None)"

text \<open>
  The callbacks \<open>handleProposalContentChange\<close>, \<open>handleTransferContentChange\<close>,
  \<open>handleCustomContentChange\<close> and \<open>handleXAccountContentChange\<close>: the first action with the current
  identity takes the content, if it is of the callback's type.
\<close>

definition set_content :: "PanelValues \<Rightarrow> Action \<Rightarrow> Action" where
  "set_content v a =
     (case (v, a) of
        (ProposalValues c, ProposalAction i _) \<Rightarrow> ProposalAction i c
      | (TransferValues c, TransferAction i _) \<Rightarrow> TransferAction i c
      | (CustomValues c, CustomAction i _) \<Rightarrow> CustomAction i c
      | (XAccountValues c, XAccountAction i _) \<Rightarrow> XAccountAction i c
      | _ \<Rightarrow> a)"

fun update_first :: "('a \<Rightarrow> bool) \<Rightarrow> ('a \<Rightarrow> 'a) \<Rightarrow> 'a list \<Rightarrow> 'a list" where
  "update_first P f [] = []"
| "update_first P f (x # xs) = (if P x then f x # xs else x # update_first P f xs)"

definition handleContentChange :: "PanelValues \<Rightarrow> NewProposal \<Rightarrow> NewProposal" where
  "handleContentChange v s =
     s\<lparr>np_actions := update_first (\<lambda>a. action_id a = np_actionUuid s) (set_content v) (np_actions s)\<rparr>"

text \<open>
  The panels of a proposal and of custom actions hand over their values in an effect that runs
  whenever their values or the page's callback change; the callback changes with the current
  identity, and the effects run in the order of the panels. The other panels call it from their own
  events only.
\<close>

definition hands_over :: "PanelValues \<Rightarrow> bool" where
  "hands_over v = (case v of ProposalValues _ \<Rightarrow> True | CustomValues _ \<Rightarrow> True | _ \<Rightarrow> False)"

definition panel_effect :: "NewProposal \<Rightarrow> Action \<Rightarrow> NewProposal" where
  "panel_effect s a =
     (case np_panels s (action_id a) of
        Some v \<Rightarrow> if hands_over v then handleContentChange v s else s
      | None \<Rightarrow> s)"

definition run_effects :: "NewProposal \<Rightarrow> NewProposal" where
  "run_effects s = foldl panel_effect s (np_actions s)"

definition select_action :: "string \<Rightarrow> NewProposal \<Rightarrow> NewProposal" where
  "select_action uuid s =
     (if uuid = np_actionUuid s then s else run_effects (s\<lparr>np_actionUuid := uuid\<rparr>))"

definition mount_panel :: "Action \<Rightarrow> NewProposal \<Rightarrow> NewProposal" where
  "mount_panel a s = s\<lparr>np_panels := (np_panels s)(action_id a := defaultValues a)\<rparr>"

text \<open>The page when it opens, after the first effects.\<close>

definition opened_page :: "string \<Rightarrow> string \<Rightarrow> NewProposal" where
  "opened_page invisible uuid =
     (let a = generateProposalAction invisible uuid
      in run_effects (mount_panel a
           \<lparr>np_actions = [a], np_actionUuid = uuid, np_tab = EditTab, np_panels = Map.empty\<rparr>))"

definition handleSwitchAction :: "string \<Rightarrow> NewProposal \<Rightarrow> NewProposal" where
  "handleSwitchAction uuid s = select_action uuid (s\<lparr>np_tab := EditTab\<rparr>)"

definition setTab :: "Tab \<Rightarrow> NewProposal \<Rightarrow> NewProposal" where
  "setTab t s = s\<lparr>np_tab := t\<rparr>"

datatype ActionKind = TransferKind | CustomKind | XAccountKind

definition new_action :: "ActionKind \<Rightarrow> string \<Rightarrow> Action" where
  "new_action k uuid =
     (case k of TransferKind \<Rightarrow> generateTransferAction uuid | CustomKind \<Rightarrow> generateCustomAction uuid
      | XAccountKind \<Rightarrow> generateXAccountAction uuid)"

definition handleReplaceAction :: "ActionKind \<Rightarrow> string \<Rightarrow> NewProposal \<Rightarrow> NewProposal" where
  "handleReplaceAction k uuid s =
     (let a = new_action k uuid
      in select_action uuid (mount_panel a (s\<lparr>np_actions := np_actions s @ [a], np_tab := EditTab\<rparr>)))"

text \<open>
  Removing by index: the action before it becomes the current one. Before the first there is none,
  and reading its identity throws.
\<close>

definition handleRemoveAction :: "nat \<Rightarrow> NewProposal \<Rightarrow> NewProposal outcome" where
  "handleRemoveAction index s =
     (let actions = np_actions s
      in if index = 0 \<or> length actions \<le> index - 1 then Inl (TypeError ''undefined'')
         else
           let removed = (if index < length actions then {action_id (actions ! index)} else {})
           in Inr (select_action (action_id (actions ! (index - 1)))
                (s\<lparr>np_actions := take index actions @ drop (Suc index) actions,
                   np_panels := np_panels s |` (- removed)\<rparr>)))"

text \<open>The position of the current action, which its panel's button removes.\<close>

definition current_index :: "NewProposal \<Rightarrow> nat" where
  "current_index s = length (takeWhile (\<lambda>a. action_id a \<noteq> np_actionUuid s) (np_actions s))"

text \<open>What the user does in the current panel: the panel keeps the values and hands them over.\<close>

definition same_kind :: "PanelValues \<Rightarrow> PanelValues \<Rightarrow> bool" where
  "same_kind v w =
     (case (v, w) of
        (ProposalValues _, ProposalValues _) \<Rightarrow> True
      | (TransferValues _, TransferValues _) \<Rightarrow> True
      | (CustomValues _, CustomValues _) \<Rightarrow> True
      | (XAccountValues _, XAccountValues _) \<Rightarrow> True
      | _ \<Rightarrow> False)"

definition edit_panel :: "PanelValues \<Rightarrow> NewProposal \<Rightarrow> NewProposal" where
  "edit_panel v s =
     handleContentChange v (s\<lparr>np_panels := (np_panels s)(np_actionUuid s \<mapsto> v)\<rparr>)"

datatype PageEvent =
    Switch string
  | ShowTab Tab
  | Replace ActionKind string
  | RemoveCurrent
  | RemoveAdded
  | Edit PanelValues

text \<open>
  An event takes place when its button is there: the sidebar lists the actions; the panel of the
  proposal has no button to remove it; new identities have not been used.
\<close>

inductive page_step :: "NewProposal \<Rightarrow> PageEvent \<Rightarrow> NewProposal outcome \<Rightarrow> bool" where
  switch: "uuid \<in> action_id ` set (np_actions s) \<Longrightarrow> page_step s (Switch uuid) (Inr (handleSwitchAction uuid s))"
| show_tab: "page_step s (ShowTab t) (Inr (setTab t s))"
| replace: "np_tab s = AddTab \<Longrightarrow> uuid \<notin> action_id ` set (np_actions s) \<Longrightarrow>
    page_step s (Replace k uuid) (Inr (handleReplaceAction k uuid s))"
| remove_current: "np_tab s = EditTab \<Longrightarrow> a \<in> set (np_actions s) \<Longrightarrow> action_id a = np_actionUuid s \<Longrightarrow>
    (\<nexists>c. a = ProposalAction (np_actionUuid s) c) \<Longrightarrow>
    page_step s RemoveCurrent (handleRemoveAction (current_index s) s)"
| remove_added: "np_tab s = AddTab \<Longrightarrow> page_step s RemoveAdded (handleRemoveAction (length (np_actions s)) s)"
| edit: "np_tab s = EditTab \<Longrightarrow> np_panels s (np_actionUuid s) = Some w \<Longrightarrow> same_kind v w \<Longrightarrow>
    page_step s (Edit v) (Inr (edit_panel v s))"

inductive page_run :: "NewProposal \<Rightarrow> PageEvent list \<Rightarrow> NewProposal \<Rightarrow> bool" where
  start: "page_run s [] s"
| event: "page_run s es s' \<Longrightarrow> page_step s' e (Inr s'') \<Longrightarrow> page_run s (es @ [e]) s''"

text \<open>The panel that is shown.\<close>

definition shown_panels :: "NewProposal \<Rightarrow> Action list" where
  "shown_panels s = filter (\<lambda>a. np_tab s = EditTab \<and> action_id a = np_actionUuid s) (np_actions s)"

text \<open>The alert about unsaved changes compares the actions with those the page started with.\<close>

definition actionsChanged :: "Action list \<Rightarrow> NewProposal \<Rightarrow> bool" where
  "actionsChanged initialActions s \<longleftrightarrow> np_actions s \<noteq> initialActions"

section \<open>Publishing\<close>

text \<open>The checks of the form's fields that libraries make.\<close>

record Checks =
  ck_isURL :: "string \<Rightarrow> bool"
  ck_isAddress :: "string \<Rightarrow> bool"
  ck_isValidAbi :: "json list \<Rightarrow> bool"
  ck_generateHash :: "CrossChainCall \<Rightarrow> string"

definition action_valid :: "Checks \<Rightarrow> Action \<Rightarrow> bool option" where
  "action_valid K a =
     (case a of
        ProposalAction _ c \<Rightarrow> Some (proposal_valid (ck_isURL K) c)
      | TransferAction _ c \<Rightarrow> Some (transfer_valid (ck_isAddress K) c)
      | CustomAction _ c \<Rightarrow> Some (custom_valid (ck_isAddress K) (ck_isValidAbi K) c)
      | XAccountAction _ c \<Rightarrow> Some (xaccount_valid (ck_isAddress K) (ck_generateHash K) c)
      | AddAction _ \<Rightarrow> None)"

definition validationState :: "Checks \<Rightarrow> Action list \<Rightarrow> string \<rightharpoonup> bool" where
  "validationState K actions =
     foldl (\<lambda>state a. case action_valid K a of None \<Rightarrow> state | Some b \<Rightarrow> state(action_id a \<mapsto> b)) Map.empty actions"

definition publish_enabled :: "Checks \<Rightarrow> Action list \<Rightarrow> bool" where
  "publish_enabled K actions \<longleftrightarrow>
     actions \<noteq> [] \<and> list_all (\<lambda>a. validationState K actions (action_id a) \<noteq> Some False) actions"

text \<open>A file of a cross-chain action is taken if it is valid, and otherwise the action is emptied.\<close>

definition handleUploadXAccount :: "Checks \<Rightarrow> XAccountContent \<Rightarrow> XAccountContent" where
  "handleUploadXAccount K c =
     (if xaccount_valid (ck_isAddress K) (ck_generateHash K) c then c
      else \<lparr>xa_crossChainCallHash = [], xa_from = [], xa_to = [], xa_crossChainCall = None\<rparr>)"

text \<open>The amounts are read with the default of 18 decimals.\<close>

definition handlePublish ::
  "(string \<Rightarrow> nat \<Rightarrow> int outcome) \<Rightarrow> 'f Contracts \<Rightarrow> bool \<Rightarrow> string option \<Rightarrow> Action list \<Rightarrow> ProposeCall option outcome" where
  "handlePublish parseUnits C isValid address actions =
     and_then (transformActionsToProposalParams parseUnits actions 18) (createProposal C isValid address)"

section \<open>The preview of the calls\<close>

record SummaryAction =
  sa_target :: string
  sa_calldata :: string
  sa_signature :: "string option"
  sa_value :: string

definition DEFAULT_TRANSFER_SIGNATURE :: string where
  "DEFAULT_TRANSFER_SIGNATURE = ''transfer(address recipient, uint256 amount)''"

definition prepared_action :: "(string \<Rightarrow> bool) \<Rightarrow> Action \<Rightarrow> bool" where
  "prepared_action isAddress a =
     (case a of
        TransferAction _ c \<Rightarrow> tc_recipient c \<noteq> [] \<and> isAddress (tc_recipient c) \<and> tc_amount c \<noteq> []
      | CustomAction _ c \<Rightarrow>
          cc_target c \<noteq> [] \<and> isAddress (cc_target c) \<and> setting (cc_contractMethod c) \<noteq> None \<and>
          (case cc_calldata c of None \<Rightarrow> False | Some items \<Rightarrow> items \<noteq> [])
      | XAccountAction _ c \<Rightarrow>
          (case xa_crossChainCall c of
             None \<Rightarrow> False
           | Some call \<Rightarrow> xc_function call \<noteq> [] \<and> xc_port call \<noteq> [] \<and> isAddress (xc_port call) \<and> xc_value call \<noteq> [])
      | _ \<Rightarrow> False)"

definition summary_action :: "('f \<Rightarrow> string) \<Rightarrow> 'f Contracts \<Rightarrow> ProposalActionParam \<Rightarrow> SummaryAction outcome" where
  "summary_action fragment_text C p =
     and_then (getFunction C (pa_abi p) (case pa_signature p of None \<Rightarrow> pa_functionName p | Some s \<Rightarrow> s)) (\<lambda>fragment.
     and_then (if pa_type p = transferParam then Inr ''0x''
               else encodeFunctionData C (pa_abi p) fragment (pa_params p)) (\<lambda>calldata.
       Inr \<lparr>sa_target = shown (pa_target p), sa_calldata = calldata,
            sa_signature =
              (case pa_signature p of
                 Some s \<Rightarrow> Some s
               | None \<Rightarrow> if pa_type p = transferParam then Some DEFAULT_TRANSFER_SIGNATURE
                         else map_option fragment_text fragment),
            sa_value = int_text 10 (pa_value p)\<rparr>))"

definition kept_summary :: "'a outcome \<Rightarrow> 'a list" where
  "kept_summary r = (case r of Inr x \<Rightarrow> [x] | Inl _ \<Rightarrow> [])"

definition encodedActions ::
  "(string \<Rightarrow> bool) \<Rightarrow> (string \<Rightarrow> nat \<Rightarrow> int outcome) \<Rightarrow> ('f \<Rightarrow> string) \<Rightarrow> 'f Contracts \<Rightarrow> nat option \<Rightarrow>
     Action list \<Rightarrow> SummaryAction list" where
  "encodedActions isAddress parseUnits fragment_text C nativeDecimals actions =
     (let preparedActions = filter (prepared_action isAddress) actions;
          decimals = (case nativeDecimals of None \<Rightarrow> 18 | Some d \<Rightarrow> d)
      in if preparedActions = [] then []
         else case transformActionsToProposalParams parseUnits preparedActions decimals of
           Inl _ \<Rightarrow> []
         | Inr r \<Rightarrow> concat (map (\<lambda>p. kept_summary (summary_action fragment_text C p)) (pp_actions r)))"

section \<open>Amounts of transfers\<close>

definition formatNumberInput :: "string \<Rightarrow> nat \<Rightarrow> string" where
  "formatNumberInput v decimals =
     (let formatted = filter (\<lambda>c. is_digit 10 c \<or> c = CHR ''.'') v
      in case split_on (CHR ''.'') formatted of
           [whole, fraction] \<Rightarrow>
             if decimals < length fraction then whole @ ''.'' @ take decimals fraction else formatted
         | whole # fraction # _ # _ \<Rightarrow> whole @ ''.'' @ fraction
         | _ \<Rightarrow> formatted)"

text \<open>What is put into the field, if anything. A native token without decimals has no limit.\<close>

definition handleAmountChange ::
  "(string \<Rightarrow> nat \<Rightarrow> int outcome) \<Rightarrow> (int \<Rightarrow> nat \<Rightarrow> string) \<Rightarrow> nat option \<Rightarrow> int option \<Rightarrow> string \<Rightarrow> string option" where
  "handleAmountChange parseUnits formatUnits decimals balance v =
     (if v = [] then Some []
      else
        let formatted = formatNumberInput v (case decimals of None \<Rightarrow> 18 | Some d \<Rightarrow> d)
        in if Number_text formatted = NaN then None
           else case (balance, decimals) of
             (Some b, Some d) \<Rightarrow>
               if d = 0 then Some formatted
               else (case parseUnits formatted d of
                  Inr inputUnits \<Rightarrow> if b < inputUnits then Some (formatUnits b d) else Some formatted
                | Inl _ \<Rightarrow> Some formatted)
           | _ \<Rightarrow> Some formatted)"

definition handleMaxAmount ::
  "(int \<Rightarrow> nat \<Rightarrow> string) \<Rightarrow> nat option \<Rightarrow> int option \<Rightarrow> TransferContent \<Rightarrow> TransferContent" where
  "handleMaxAmount formatUnits decimals balance c =
     (case (balance, decimals) of
        (Some b, Some d) \<Rightarrow> if d = 0 then c else c\<lparr>tc_amount := formatUnits b d\<rparr>
      | _ \<Rightarrow> c)"

section \<open>Calls of contracts\<close>

definition member :: "json \<Rightarrow> string \<Rightarrow> json option" where
  "member j k = (case j of JObject fs \<Rightarrow> map_of fs k | _ \<Rightarrow> None)"

definition text_member :: "json \<Rightarrow> string \<Rightarrow> string option" where
  "text_member j k = (case member j k of Some (JString t) \<Rightarrow> Some t | _ \<Rightarrow> None)"

definition abi_inputs :: "json \<Rightarrow> json list option" where
  "abi_inputs j = (case member j ''inputs'' of Some (JArray xs) \<Rightarrow> Some xs | _ \<Rightarrow> None)"

text \<open>The option of a method is its name and the number of its inputs.\<close>

definition find_method :: "json list \<Rightarrow> string \<Rightarrow> json option" where
  "find_method abi v =
     (case split_on (CHR ''-'') v of
        name # paramCountNum # _ \<Rightarrow>
          if name = [] \<or> paramCountNum = [] then None
          else find (\<lambda>item. text_member item ''type'' = Some ''function'' \<and> text_member item ''name'' = Some name \<and>
                 parseInt paramCountNum =
                   Some (int (case abi_inputs item of None \<Rightarrow> 0 | Some xs \<Rightarrow> length xs))) abi
      | _ \<Rightarrow> None)"

definition calldata_item :: "json \<Rightarrow> CalldataItem" where
  "calldata_item input =
     (let type = (case text_member input ''type'' of None \<Rightarrow> [] | Some t \<Rightarrow> t);
          isArray = contains_text type ''[]''
      in \<lparr>ci_name = (case text_member input ''name'' of None \<Rightarrow> [] | Some n \<Rightarrow> n), ci_type = type,
          ci_value = (if isArray then ManyValues [] else OneValue []), ci_isArray = isArray\<rparr>)"

definition handleContractTypeChange ::
  "(string \<Rightarrow> json list option) \<Rightarrow> (json list \<Rightarrow> bool) \<Rightarrow> string \<Rightarrow> CustomContent \<Rightarrow> CustomContent" where
  "handleContractTypeChange abiList isValidAbi v c =
     c\<lparr>cc_contractType := v, cc_contractMethod := Some [], cc_calldata := Some [],
       cc_customAbiContent :=
         (if v = ''custom'' then []
          else case abiList v of None \<Rightarrow> [] | Some abi \<Rightarrow> if isValidAbi abi then abi else [])\<rparr>"

definition handleUploadAbi :: "(json list \<Rightarrow> bool) \<Rightarrow> json list \<Rightarrow> CustomContent \<Rightarrow> CustomContent" where
  "handleUploadAbi isValidAbi abi c = c\<lparr>cc_customAbiContent := (if isValidAbi abi then abi else [])\<rparr>"

text \<open>Inputs without a name get no field.\<close>

definition handleMethodChange :: "string \<Rightarrow> CustomContent \<Rightarrow> CustomContent" where
  "handleMethodChange v c =
     (case find_method (cc_customAbiContent c) v of
        None \<Rightarrow> c
      | Some method \<Rightarrow>
          c\<lparr>cc_contractMethod := Some v,
            cc_calldata := map_option (\<lambda>inputs. map calldata_item
              (filter (\<lambda>i. setting (text_member i ''name'') \<noteq> None) inputs)) (abi_inputs method),
            cc_value := (if text_member method ''stateMutability'' = Some ''payable'' then cc_value c else Some [])\<rparr>)"

definition isPayable :: "CustomContent \<Rightarrow> bool" where
  "isPayable c =
     (case find_method (cc_customAbiContent c) (case cc_contractMethod c of None \<Rightarrow> [] | Some m \<Rightarrow> m) of
        None \<Rightarrow> False
      | Some method \<Rightarrow> text_member method ''stateMutability'' = Some ''payable'')"

text \<open>The items of an array argument.\<close>

definition addArrayItem :: "nat \<Rightarrow> CalldataItem list \<Rightarrow> CalldataItem list" where
  "addArrayItem index items =
     (if index < length items
      then items[index := (items ! index)\<lparr>ci_value :=
        (case ci_value (items ! index) of ManyValues ts \<Rightarrow> ManyValues (ts @ [[]]) | OneValue _ \<Rightarrow> ManyValues [[]])\<rparr>]
      else items)"

definition spliced :: "nat \<Rightarrow> 'a list \<Rightarrow> 'a list" where
  "spliced i xs = take i xs @ drop (Suc i) xs"

definition removeArrayItem :: "nat \<Rightarrow> nat \<Rightarrow> CalldataItem list \<Rightarrow> CalldataItem list" where
  "removeArrayItem index arrayIndex items =
     (if index < length items
      then items[index := (items ! index)\<lparr>ci_value :=
        (case ci_value (items ! index) of
           ManyValues ts \<Rightarrow> ManyValues (spliced arrayIndex ts)
         | OneValue t \<Rightarrow> ManyValues (spliced arrayIndex (map (\<lambda>c. [c]) t)))\<rparr>]
      else items)"

text \<open>The fields that were touched: an argument, or an item of an array argument.\<close>

type_synonym touched = "(nat \<times> nat option) set"

definition handleFieldTouch :: "nat \<Rightarrow> nat option \<Rightarrow> touched \<Rightarrow> touched" where
  "handleFieldTouch index arrayIndex t = insert (index, arrayIndex) t"

definition handleFieldUntouchArray :: "nat \<Rightarrow> nat \<Rightarrow> touched \<Rightarrow> touched" where
  "handleFieldUntouchArray index removed t =
     (let later = {j. (index, Some j) \<in> t \<and> removed < j}
      in (t - {(index, Some removed)} - (\<lambda>j. (index, Some j)) ` later) \<union> (\<lambda>j. (index, Some (j - 1))) ` later)"

end
