(* ===== verification/WebNewProposalClaims.thy ===== *)
theory WebNewProposalClaims
  imports WebNewProposal
begin

text \<open>
  What the page of a new proposal keeps: one panel is shown and can be removed without an exception;
  what is published is what the panels show, as long as there is one custom action; with more, a
  visit to one copies the last one into it. The preview shows the calls that are published, if each
  has arguments and amounts have 18 decimals.
\<close>

section \<open>Effects\<close>

lemma update_first_map:
  "distinct (map action_id xs) \<Longrightarrow>
    update_first (\<lambda>a. action_id a = u) f xs = map (\<lambda>a. if action_id a = u then f a else a) xs"
proof (induction xs)
  case (Cons x xs)
  have "map (\<lambda>a. if action_id a = u then f a else a) xs = xs" if "action_id x = u"
    using Cons.prems that by (intro map_idI) (auto simp: image_iff)
  with Cons show ?case by auto
qed simp

lemma action_id_set_content [simp]: "action_id (set_content v a) = action_id a"
  by (simp add: set_content_def split: PanelValues.split Action.split)

definition page_ids :: "NewProposal \<Rightarrow> string list" where
  "page_ids s = map action_id (np_actions s)"

text \<open>The values handed over by the panels of some actions, in their order.\<close>

definition handed :: "(string \<rightharpoonup> PanelValues) \<Rightarrow> Action list \<Rightarrow> PanelValues list" where
  "handed panels as = concat (map (\<lambda>a. case panels (action_id a) of
     Some v \<Rightarrow> if hands_over v then [v] else [] | None \<Rightarrow> []) as)"

definition in_current :: "NewProposal \<Rightarrow> (Action \<Rightarrow> Action) \<Rightarrow> NewProposal" where
  "in_current s f = s\<lparr>np_actions := map (\<lambda>a. if action_id a = np_actionUuid s then f a else a) (np_actions s)\<rparr>"

lemma in_current_fields [simp]:
  "np_actionUuid (in_current s f) = np_actionUuid s" "np_tab (in_current s f) = np_tab s"
  "np_panels (in_current s f) = np_panels s"
  by (simp_all add: in_current_def)

lemma handleContentChange_eq:
  "distinct (page_ids s) \<Longrightarrow> handleContentChange v s = in_current s (set_content v)"
  by (simp add: handleContentChange_def in_current_def page_ids_def update_first_map)

lemma page_ids_in_current [simp]: "(\<And>a. action_id (f a) = action_id a) \<Longrightarrow> page_ids (in_current s f) = page_ids s"
  by (simp add: page_ids_def in_current_def comp_def if_distrib cong: if_cong)

lemma in_current_in_current:
  "(\<And>a. action_id (f a) = action_id a) \<Longrightarrow> in_current (in_current s f) g = in_current s (\<lambda>a. g (f a))"
  by (simp add: in_current_def comp_def if_distrib cong: if_cong)

lemma in_current_id: "in_current s (\<lambda>a. a) = s"
  by (simp add: in_current_def)

definition set_contents :: "PanelValues list \<Rightarrow> Action \<Rightarrow> Action" where
  "set_contents vs a = foldl (\<lambda>a v. set_content v a) a vs"

lemma action_id_set_contents [simp]: "action_id (set_contents vs a) = action_id a"
  by (induction vs arbitrary: a) (simp_all add: set_contents_def)

lemma set_contents_snoc: "set_contents (vs @ [v]) = (\<lambda>a. set_content v (set_contents vs a))"
  by (simp add: fun_eq_iff set_contents_def)

lemma run_panel_effects:
  "distinct (page_ids s) \<Longrightarrow> foldl panel_effect s as = in_current s (set_contents (handed (np_panels s) as))"
proof (induction as rule: rev_induct)
  case Nil
  then show ?case by (simp add: handed_def set_contents_def in_current_id)
next
  case (snoc a as)
  let ?t = "in_current s (set_contents (handed (np_panels s) as))"
  have "panel_effect ?t a = in_current s (set_contents (handed (np_panels s) (as @ [a])))"
    using snoc.prems
    by (auto simp: panel_effect_def handed_def handleContentChange_eq in_current_in_current set_contents_snoc
        split: option.split)
  with snoc show ?case by simp
qed

lemma run_effects_eq:
  "distinct (page_ids s) \<Longrightarrow> run_effects s = in_current s (set_contents (handed (np_panels s) (np_actions s)))"
  by (simp add: run_effects_def run_panel_effects)

section \<open>What the page keeps\<close>

primrec fits :: "Action \<Rightarrow> PanelValues \<Rightarrow> bool" where
  "fits (ProposalAction _ _) v = (\<exists>c. v = ProposalValues c)"
| "fits (TransferAction _ _) v = (\<exists>c. v = TransferValues c)"
| "fits (CustomAction _ _) v = (\<exists>c. v = CustomValues c)"
| "fits (XAccountAction _ _) v = (\<exists>c. v = XAccountValues c)"
| "fits (AddAction _) v = False"

primrec content_of :: "Action \<Rightarrow> PanelValues option" where
  "content_of (ProposalAction _ c) = Some (ProposalValues c)"
| "content_of (TransferAction _ c) = Some (TransferValues c)"
| "content_of (CustomAction _ c) = Some (CustomValues c)"
| "content_of (XAccountAction _ c) = Some (XAccountValues c)"
| "content_of (AddAction _) = None"

definition is_custom :: "Action \<Rightarrow> bool" where
  "is_custom a \<longleftrightarrow> (case a of CustomAction _ _ \<Rightarrow> True | _ \<Rightarrow> False)"

definition is_proposal :: "Action \<Rightarrow> bool" where
  "is_proposal a \<longleftrightarrow> (case a of ProposalAction _ _ \<Rightarrow> True | _ \<Rightarrow> False)"

definition panel_fits :: "(string \<rightharpoonup> PanelValues) \<Rightarrow> Action \<Rightarrow> bool" where
  "panel_fits panels a \<longleftrightarrow> (case panels (action_id a) of None \<Rightarrow> False | Some v \<Rightarrow> fits a v)"

definition page_ok :: "NewProposal \<Rightarrow> bool" where
  "page_ok s \<longleftrightarrow>
     np_actions s \<noteq> [] \<and> is_proposal (hd (np_actions s)) \<and> list_all (\<lambda>a. \<not> is_proposal a) (tl (np_actions s)) \<and>
     distinct (page_ids s) \<and> np_actionUuid s \<in> set (page_ids s) \<and> list_all (panel_fits (np_panels s)) (np_actions s)"

lemma kind_set_content [simp]:
  "is_custom (set_content v a) = is_custom a" "is_proposal (set_content v a) = is_proposal a"
  "fits (set_content v a) w = fits a w"
  by (auto simp: set_content_def is_custom_def is_proposal_def split: PanelValues.split Action.split)

lemma kind_set_contents [simp]:
  "is_custom (set_contents vs a) = is_custom a" "is_proposal (set_contents vs a) = is_proposal a"
  "fits (set_contents vs a) w = fits a w"
  by (induction vs arbitrary: a) (simp_all add: set_contents_def)

lemma page_ok_in_current:
  assumes "page_ok s" and "\<And>a. action_id (f a) = action_id a" "\<And>a. is_proposal (f a) = is_proposal a"
    "\<And>a v. fits (f a) v = fits a v"
  shows "page_ok (in_current s f)"
proof -
  have pf: "panel_fits p (f a) = panel_fits p a" for p a
    by (simp add: panel_fits_def assms(2,4) split: option.split)
  have "page_ids (in_current s f) = page_ids s" using assms(2) by simp
  with assms(1) show ?thesis
    by (cases "np_actions s") (auto simp: page_ok_def in_current_def list_all_iff assms(3) pf)
qed

lemma page_ok_select:
  assumes "page_ok (s\<lparr>np_actionUuid := uuid\<rparr>)" and "page_ok s"
  shows "page_ok (select_action uuid s)"
proof -
  have "distinct (page_ids (s\<lparr>np_actionUuid := uuid\<rparr>))" using assms(1) by (simp add: page_ok_def)
  then show ?thesis
    using assms page_ok_in_current [OF assms(1)] by (simp add: select_action_def run_effects_eq)
qed

text \<open>
  An action and its panel agree. With \<open>n\<close> custom actions added so far, every other action agrees with its
  panel, and the custom ones if there was at most one.
\<close>

definition synced :: "(string \<rightharpoonup> PanelValues) \<Rightarrow> Action \<Rightarrow> bool" where
  "synced panels a \<longleftrightarrow> panels (action_id a) = content_of a"

definition covered :: "nat \<Rightarrow> Action \<Rightarrow> bool" where
  "covered n a \<longleftrightarrow> \<not> is_custom a \<or> n \<le> 1"

definition sync_inv :: "nat \<Rightarrow> NewProposal \<Rightarrow> bool" where
  "sync_inv n s \<longleftrightarrow> page_ok s \<and> (\<forall>a \<in> set (np_actions s). covered n a \<longrightarrow> synced (np_panels s) a) \<and>
     length (filter is_custom (np_actions s)) \<le> n"

lemma only_one: "length (filter P xs) \<le> 1 \<Longrightarrow> a \<in> set xs \<Longrightarrow> b \<in> set xs \<Longrightarrow> P a \<Longrightarrow> P b \<Longrightarrow> a = b"
proof -
  assume one: "length (filter P xs) \<le> 1" and "a \<in> set xs" "b \<in> set xs" "P a" "P b"
  then have "a \<in> set (filter P xs)" "b \<in> set (filter P xs)" by auto
  with one show ?thesis by (cases "filter P xs") (auto simp: le_Suc_eq)
qed

lemma only_proposal: "page_ok s \<Longrightarrow> length (filter is_proposal (np_actions s)) \<le> 1"
  by (cases "np_actions s") (auto simp: page_ok_def list_all_iff filter_empty_conv)

lemma handed_from:
  "v \<in> set (handed panels as) \<Longrightarrow> \<exists>b \<in> set as. panels (action_id b) = Some v \<and> hands_over v"
  by (auto simp: handed_def split: option.splits if_splits)

lemma set_contents_fixed: "(\<And>v. v \<in> set vs \<Longrightarrow> set_content v a = a) \<Longrightarrow> set_contents vs a = a"
  by (induction vs rule: rev_induct) (simp_all add: set_contents_def)

lemma effect_fixes:
  assumes inv: "sync_inv n s" and a: "a \<in> set (np_actions s)" "covered n a"
  shows "set_contents (handed (np_panels s) (np_actions s)) a = a"
proof (rule set_contents_fixed)
  fix v assume "v \<in> set (handed (np_panels s) (np_actions s))"
  then obtain b where b: "b \<in> set (np_actions s)" "np_panels s (action_id b) = Some v" "hands_over v"
    using handed_from by blast
  have "fits b v"
    using inv b by (force simp: sync_inv_def page_ok_def list_all_iff panel_fits_def split: option.splits)
  then consider "set_content v a = a" | "is_proposal a" "is_proposal b" | "is_custom a" "is_custom b"
    using b(3) by (cases a; cases b; cases v) (auto simp: set_content_def hands_over_def is_proposal_def is_custom_def)
  then have "set_content v a = a \<or> b = a"
  proof cases
    case 2
    then show ?thesis using only_one [OF only_proposal] inv a b by (auto simp: sync_inv_def)
  next
    case 3
    then have "length (filter is_custom (np_actions s)) \<le> 1" using inv a by (auto simp: sync_inv_def covered_def)
    then show ?thesis using only_one 3 a b by metis
  qed simp
  then show "set_content v a = a"
    using inv a b by (cases a) (auto simp: sync_inv_def synced_def set_content_def split: PanelValues.splits)
qed

lemma filter_in_current:
  "(\<And>a. P (f a) = P a) \<Longrightarrow> length (filter P (np_actions (in_current s f))) = length (filter P (np_actions s))"
  by (simp add: in_current_def filter_map comp_def if_distrib cong: if_cong)

lemma sync_inv_effects:
  assumes "sync_inv n s"
  shows "sync_inv n (run_effects s)"
proof -
  let ?f = "set_contents (handed (np_panels s) (np_actions s))"
  have eq: "run_effects s = in_current s ?f"
    using assms by (simp add: run_effects_eq sync_inv_def page_ok_def)
  have "synced (np_panels s) a" if "a \<in> set (np_actions (in_current s ?f))" "covered n a" for a
  proof -
    obtain b where b: "b \<in> set (np_actions s)" "a = b \<or> a = ?f b"
      using \<open>a \<in> _\<close> by (auto simp: in_current_def split: if_splits)
    then have "covered n b" using \<open>covered n a\<close> by (auto simp: covered_def)
    then show ?thesis using effect_fixes [OF assms b(1)] b assms by (auto simp: sync_inv_def)
  qed
  then show ?thesis
    using assms page_ok_in_current [of s ?f] by (simp add: eq sync_inv_def filter_in_current)
qed

lemma sync_inv_select:
  assumes "sync_inv n (s\<lparr>np_actionUuid := uuid\<rparr>)"
  shows "sync_inv n (select_action uuid s)"
proof (cases "uuid = np_actionUuid s")
  case True
  then have "s\<lparr>np_actionUuid := uuid\<rparr> = s" by simp
  with assms True show ?thesis by (simp add: select_action_def)
qed (use sync_inv_effects [OF assms] in \<open>simp add: select_action_def\<close>)

lemma sync_inv_uuid: "sync_inv n s \<Longrightarrow> uuid \<in> set (page_ids s) \<Longrightarrow> sync_inv n (s\<lparr>np_actionUuid := uuid\<rparr>)"
  by (simp add: sync_inv_def page_ok_def page_ids_def)

lemma sync_inv_tab: "sync_inv n (s\<lparr>np_tab := t\<rparr>) = sync_inv n s"
  by (simp add: sync_inv_def page_ok_def page_ids_def)

lemma sync_inv_more: "sync_inv n s \<Longrightarrow> n \<le> m \<Longrightarrow> sync_inv m s"
  by (auto simp: sync_inv_def covered_def)

section \<open>The events\<close>

definition customs_added :: "PageEvent list \<Rightarrow> nat" where
  "customs_added es = length (filter (\<lambda>e. \<exists>uuid. e = Replace CustomKind uuid) es)"

lemma new_action_simps [simp]:
  "action_id (new_action k uuid) = uuid" "\<not> is_proposal (new_action k uuid)"
  "is_custom (new_action k uuid) = (k = CustomKind)"
  "defaultValues (new_action k uuid) = content_of (new_action k uuid)"
  "fits (new_action k uuid) v = (case defaultValues (new_action k uuid) of None \<Rightarrow> False | Some w \<Rightarrow> same_kind w v)"
  by (cases k; cases v; simp add: new_action_def generateTransferAction_def generateCustomAction_def
      generateXAccountAction_def is_proposal_def is_custom_def defaultValues_def filled_def same_kind_def)+

lemma new_action_content: "\<exists>w. content_of (new_action k uuid) = Some w \<and> same_kind w w"
  by (cases k) (simp_all add: new_action_def generateTransferAction_def generateCustomAction_def
      generateXAccountAction_def same_kind_def)

lemma sync_inv_replace:
  assumes "sync_inv n s" and "uuid \<notin> set (page_ids s)"
  shows "sync_inv (if k = CustomKind then Suc n else n) (handleReplaceAction k uuid s)"
proof -
  let ?a = "new_action k uuid"
  let ?t = "mount_panel ?a (s\<lparr>np_actions := np_actions s @ [?a], np_tab := EditTab\<rparr>)"
  have other: "action_id b \<noteq> uuid" if "b \<in> set (np_actions s)" for b
    using that assms(2) by (auto simp: page_ids_def)
  obtain w where w: "content_of ?a = Some w" "same_kind w w" using new_action_content by blast
  have "page_ok ?t"
    using assms other w
    by (auto simp: sync_inv_def page_ok_def page_ids_def mount_panel_def list_all_iff panel_fits_def hd_append tl_append
        split: option.splits list.splits)
  moreover have "synced (np_panels ?t) b" if "b \<in> set (np_actions ?t)" "covered (if k = CustomKind then Suc n else n) b" for b
    using that assms other by (auto simp: sync_inv_def synced_def mount_panel_def covered_def split: if_splits)
  ultimately have "sync_inv (if k = CustomKind then Suc n else n) ?t"
    using assms by (auto simp: sync_inv_def mount_panel_def)
  then show ?thesis
    using sync_inv_select [OF sync_inv_uuid, of _ ?t uuid] by (simp add: handleReplaceAction_def Let_def page_ids_def mount_panel_def)
qed

text \<open>Removing: an action after the first, or none.\<close>

lemma sync_inv_without:
  assumes "sync_inv n s" and "np_actions s = xs @ a # ys" "xs \<noteq> []"
  shows "sync_inv n (s\<lparr>np_actions := xs @ ys, np_panels := np_panels s |` (- {action_id a}),
    np_actionUuid := action_id (last xs)\<rparr>)"
proof -
  have "distinct (map action_id (xs @ a # ys))"
    using assms(1) by (simp add: sync_inv_def page_ok_def page_ids_def assms(2))
  then have "action_id a \<notin> action_id ` set (xs @ ys)" by (simp add: image_Un)
  then have other: "action_id b \<noteq> action_id a" if "b \<in> set (xs @ ys)" for b
    using that by (metis imageI)
  then have same: "panel_fits (np_panels s |` (- {action_id a})) b = panel_fits (np_panels s) b"
    "synced (np_panels s |` (- {action_id a})) b = synced (np_panels s) b" if "b \<in> set (xs @ ys)" for b
    using that by (simp_all add: panel_fits_def synced_def)
  obtain h zs where xs: "xs = h # zs" using assms(3) by (cases xs) auto
  let ?s = "s\<lparr>np_actions := xs @ ys, np_panels := np_panels s |` (- {action_id a}), np_actionUuid := action_id (last xs)\<rparr>"
  have "page_ok ?s"
    using assms(1) same(1) last_in_set [of xs]
    by (simp add: sync_inv_def page_ok_def page_ids_def list_all_iff assms(2) xs)
  moreover have "\<forall>b \<in> set (np_actions ?s). covered n b \<longrightarrow> synced (np_panels ?s) b"
    using assms(1) same(2) by (simp add: sync_inv_def assms(2))
  moreover have "length (filter is_custom (np_actions ?s)) \<le> n"
    using assms(1) by (simp add: sync_inv_def assms(2) split: if_splits)
  ultimately show ?thesis by (simp add: sync_inv_def)
qed

lemma sync_inv_remove:
  assumes "sync_inv n s" and "0 < index" "index \<le> length (np_actions s)"
  shows "\<exists>s'. handleRemoveAction index s = Inr s' \<and> sync_inv n s'"
proof -
  let ?as = "np_actions s"
  have last: "last (take index ?as) = ?as ! (index - 1)"
    using assms(2,3) by (cases index) (simp_all add: take_Suc_conv_app_nth)
  show ?thesis
  proof (cases "index < length ?as")
    case True
    then have nonempty: "np_actions s \<noteq> []" by auto
    with True have "sync_inv n (s\<lparr>np_actions := take index ?as @ drop (Suc index) ?as,
        np_panels := np_panels s |` (- {action_id (?as ! index)}), np_actionUuid := action_id (?as ! (index - 1))\<rparr>)"
      using sync_inv_without [OF assms(1) id_take_nth_drop [OF True]] assms(2) nonempty last
      by (simp add: take_eq_Nil)
    then show ?thesis
      using True assms(2) sync_inv_select [where s = "s\<lparr>np_actions := take index ?as @ drop (Suc index) ?as,
        np_panels := np_panels s |` (- {action_id (?as ! index)})\<rparr>"] by (simp add: handleRemoveAction_def Let_def)
  next
    case False
    then have "action_id (?as ! (index - 1)) \<in> set (page_ids s)"
      using assms(2,3) by (simp add: page_ids_def)
    from sync_inv_select [OF sync_inv_uuid, OF assms(1) this]
    have "sync_inv n (select_action (action_id (?as ! (index - 1))) s)" .
    moreover have "\<not> length ?as \<le> index - 1" using assms(2,3) by arith
    moreover have "np_panels s |` UNIV = np_panels s" by (simp add: fun_eq_iff restrict_map_def)
    ultimately show ?thesis using False assms(2) by (simp add: handleRemoveAction_def Let_def)
  qed
qed

lemma current_index_bounds:
  assumes "page_ok s" and "a \<in> set (np_actions s)" "action_id a = np_actionUuid s" "\<nexists>c. a = ProposalAction (np_actionUuid s) c"
  shows "0 < current_index s" "current_index s \<le> length (np_actions s)"
proof -
  obtain h rest where as: "np_actions s = h # rest" and h: "is_proposal h"
    using assms(1) by (cases "np_actions s") (auto simp: page_ok_def)
  have "action_id h \<noteq> np_actionUuid s"
  proof
    assume "action_id h = np_actionUuid s"
    then have "a = h" using assms(1-3) as by (auto simp: page_ok_def page_ids_def image_iff)
    then show False using h assms(3,4) by (cases h) (auto simp: is_proposal_def)
  qed
  then show "0 < current_index s" by (simp add: current_index_def as)
  show "current_index s \<le> length (np_actions s)" by (simp add: current_index_def length_takeWhile_le)
qed

lemma sync_inv_edit:
  assumes inv: "sync_inv n s" and "np_panels s (np_actionUuid s) = Some w" "same_kind v w"
  shows "sync_inv n (edit_panel v s)"
proof -
  let ?t = "s\<lparr>np_panels := (np_panels s)(np_actionUuid s \<mapsto> v)\<rparr>"
  have cur: "fits a v \<and> content_of (set_content v a) = Some v" if "a \<in> set (np_actions s)" "action_id a = np_actionUuid s" for a
  proof -
    have "fits a w" using inv that assms(2) by (force simp: sync_inv_def page_ok_def list_all_iff panel_fits_def)
    then show ?thesis using assms(3) by (cases a; cases v; cases w) (auto simp: same_kind_def set_content_def)
  qed
  then have "page_ok ?t"
    using inv by (auto simp: sync_inv_def page_ok_def page_ids_def list_all_iff panel_fits_def)
  moreover have eq: "edit_panel v s = in_current ?t (set_content v)"
    using inv by (simp add: edit_panel_def handleContentChange_eq sync_inv_def page_ok_def page_ids_def)
  moreover have "synced (np_panels ?t) a" if "a \<in> set (np_actions (in_current ?t (set_content v)))" "covered n a" for a
    using that inv cur by (fastforce simp: in_current_def sync_inv_def synced_def split: if_splits)
  ultimately show ?thesis
    using inv page_ok_in_current [of ?t "set_content v"] filter_in_current [of is_custom "set_content v" ?t]
    by (simp add: sync_inv_def)
qed

lemma sync_inv_step:
  assumes "page_step s e r" and "sync_inv n s"
  shows "\<exists>s'. r = Inr s' \<and> sync_inv (n + customs_added [e]) s'"
  using assms
proof (induction rule: page_step.induct)
  case (switch uuid s)
  then show ?case
    using sync_inv_select [OF sync_inv_uuid, of n "s\<lparr>np_tab := EditTab\<rparr>" uuid]
    by (auto simp: handleSwitchAction_def sync_inv_tab customs_added_def page_ids_def)
next
  case (show_tab s t)
  then show ?case by (simp add: setTab_def sync_inv_tab customs_added_def)
next
  case (replace s uuid k)
  then show ?case using sync_inv_replace [of n s uuid k] by (auto simp: customs_added_def page_ids_def)
next
  case (remove_current s a)
  then show ?case
    using sync_inv_remove [of n s "current_index s"] current_index_bounds [of s a]
    by (auto simp: customs_added_def sync_inv_def)
next
  case (remove_added s)
  then show ?case
    using sync_inv_remove [of n s "length (np_actions s)"] by (auto simp: customs_added_def sync_inv_def page_ok_def)
next
  case (edit s w v)
  then show ?case using sync_inv_edit by (auto simp: customs_added_def)
qed

lemma sync_inv_opened: "sync_inv 0 (opened_page invisible uuid)"
  by (simp add: opened_page_def generateProposalAction_def run_effects_def panel_effect_def mount_panel_def
      defaultValues_def hands_over_def handleContentChange_def set_content_def filled_def Let_def
      sync_inv_def page_ok_def page_ids_def panel_fits_def synced_def is_proposal_def is_custom_def)

lemma sync_inv_run: "page_run s es s' \<Longrightarrow> sync_inv n s \<Longrightarrow> sync_inv (n + customs_added es) s'"
proof (induction rule: page_run.induct)
  case (event s es s' e s'')
  then show ?case using sync_inv_step [of s' e "Inr s''"] by (auto simp: customs_added_def)
qed (simp add: customs_added_def)

section \<open>What holds of every run\<close>

lemma single_match: "distinct (map f xs) \<Longrightarrow> x \<in> set xs \<Longrightarrow> length (filter (\<lambda>y. f y = f x) xs) = 1"
proof (induction xs)
  case (Cons y ys)
  have "filter (\<lambda>z. f z = f y) ys = []" using Cons.prems by (auto simp: filter_empty_conv image_iff)
  then show ?case using Cons by (auto simp: image_iff)
qed simp

text \<open>
  Whatever the user does on the page of a new proposal, no event throws: removing finds an action
  before the removed one, because the proposal's own panel comes first and cannot be removed. Under
  the tab that edits, exactly one panel is shown.
\<close>
theorem page_keeps_its_place:
  assumes "page_run (opened_page invisible uuid) es s"
  shows "(\<forall>e r. page_step s e r \<longrightarrow> (\<exists>s'. r = Inr s'))
    \<and> (np_tab s = EditTab \<longrightarrow> length (shown_panels s) = 1)"
proof -
  from sync_inv_run [OF assms sync_inv_opened] have inv: "sync_inv (customs_added es) s" by simp
  have "length (filter (\<lambda>a. action_id a = np_actionUuid s) (np_actions s)) = 1"
    using inv single_match [of action_id] by (auto simp: sync_inv_def page_ok_def page_ids_def)
  then show ?thesis using sync_inv_step [OF _ inv] by (auto simp: shown_panels_def)
qed

text \<open>
  C16: What is published is what the panels show: an action holds the values of its panel, whatever
  was added, removed, visited and typed; a custom action does so as long as at most one custom action
  was ever added.
\<close>
theorem panels_are_published:
  assumes "page_run (opened_page invisible uuid) es s" and "a \<in> set (np_actions s)"
    and "is_custom a \<longrightarrow> customs_added es \<le> 1"
  shows "np_panels s (action_id a) = content_of a"
  using sync_inv_run [OF assms(1) sync_inv_opened] assms(2,3) by (auto simp: sync_inv_def synced_def covered_def)

section \<open>Several custom actions\<close>

definition customs :: "PanelValues list \<Rightarrow> CustomContent list" where
  "customs vs = concat (map (\<lambda>v. case v of CustomValues c \<Rightarrow> [c] | _ \<Rightarrow> []) vs)"

lemma customs_snoc: "customs (vs @ [v]) = customs vs @ (case v of CustomValues c \<Rightarrow> [c] | _ \<Rightarrow> [])"
  by (simp add: customs_def)

lemma set_contents_custom: "set_contents vs (CustomAction i c) = CustomAction i (last (c # customs vs))"
proof (induction vs rule: rev_induct)
  case Nil
  then show ?case by (simp add: set_contents_def customs_def)
next
  case (snoc v vs)
  then show ?case by (cases v) (simp_all add: set_contents_snoc customs_snoc set_content_def)
qed

definition custom_values :: "(string \<rightharpoonup> PanelValues) \<Rightarrow> Action \<Rightarrow> CustomContent option" where
  "custom_values panels a = (case panels (action_id a) of Some (CustomValues c) \<Rightarrow> Some c | _ \<Rightarrow> None)"

lemma customs_handed:
  "list_all (panel_fits panels) as \<Longrightarrow> map Some (customs (handed panels as)) = map (custom_values panels) (filter is_custom as)"
proof (induction as)
  case (Cons a as)
  then show ?case
    by (cases a) (auto simp: handed_def customs_def custom_values_def panel_fits_def is_custom_def hands_over_def
        split: option.splits)
qed (simp add: handed_def customs_def)

lemma find_in_current:
  assumes "distinct (page_ids s)" and "a \<in> set (np_actions s)" "action_id a = np_actionUuid s" "\<And>b. action_id (f b) = action_id b"
  shows "find (\<lambda>b. action_id b = np_actionUuid s) (np_actions (in_current s f)) = Some (f a)"
proof -
  have "find (\<lambda>b. action_id b = u) (map (\<lambda>b. if action_id b = u then f b else b) xs) = Some (f a)"
    if "distinct (map action_id xs)" "a \<in> set xs" "action_id a = u" for u xs
    using that assms(4) by (induction xs) (auto simp: image_iff)
  then show ?thesis using assms by (simp add: in_current_def page_ids_def)
qed

text \<open>
  C15: Visiting a custom action overwrites it. When the sidebar selects a custom action that is not
  the current one, the action's content becomes what the panel of the \<^emph>\<open>last\<close> custom action in the
  list holds, because the panels of all custom actions hand over their values again, one after the
  other, to the action that has become the current one.
\<close>
theorem visit_copies_last_custom:
  assumes "page_run (opened_page invisible uuid) es s" and "CustomAction i c \<in> set (np_actions s)" and "i \<noteq> np_actionUuid s"
  shows "\<exists>c'. find (\<lambda>a. action_id a = i) (np_actions (handleSwitchAction i s)) = Some (CustomAction i c')
    \<and> custom_values (np_panels s) (last (filter is_custom (np_actions s))) = Some c'"
proof -
  from sync_inv_run [OF assms(1) sync_inv_opened] have ok: "page_ok s" by (simp add: sync_inv_def)
  let ?t = "s\<lparr>np_tab := EditTab, np_actionUuid := i\<rparr>"
  let ?vs = "handed (np_panels s) (np_actions s)"
  have "handleSwitchAction i s = in_current ?t (set_contents ?vs)"
    using assms(3) ok by (simp add: handleSwitchAction_def select_action_def run_effects_eq page_ok_def page_ids_def)
  moreover have "find (\<lambda>a. action_id a = i) (np_actions (in_current ?t (set_contents ?vs))) = Some (set_contents ?vs (CustomAction i c))"
    using find_in_current [of ?t "CustomAction i c" "set_contents ?vs"] ok assms(2) by (simp add: page_ok_def page_ids_def)
  moreover have eq: "map Some (customs ?vs) = map (custom_values (np_panels s)) (filter is_custom (np_actions s))"
    using ok by (intro customs_handed) (simp add: page_ok_def)
  moreover have "CustomAction i c \<in> set (filter is_custom (np_actions s))"
    using assms(2) by (simp add: is_custom_def)
  then have some: "filter is_custom (np_actions s) \<noteq> []" by force
  then have "customs ?vs \<noteq> []" using arg_cong [OF eq, of length] by auto
  moreover from this some have "Some (last (customs ?vs)) = custom_values (np_panels s) (last (filter is_custom (np_actions s)))"
    using arg_cong [OF eq, of last] by (simp add: last_map)
  ultimately show ?thesis by (simp add: set_contents_custom)
qed

section \<open>The preview\<close>

text \<open>The actions the preview leaves out although they can be published: calls without arguments among them.\<close>

definition has_arguments :: "Action \<Rightarrow> bool" where
  "has_arguments a =
     (case a of
        CustomAction _ c \<Rightarrow>
          setting (cc_contractMethod c) \<noteq> None \<and> (case cc_calldata c of None \<Rightarrow> False | Some items \<Rightarrow> items \<noteq> [])
      | XAccountAction _ c \<Rightarrow>
          (case xa_crossChainCall c of None \<Rightarrow> True | Some call \<Rightarrow> xc_function call \<noteq> [] \<and> xc_value call \<noteq> [])
      | _ \<Rightarrow> True)"

lemma validationState_last:
  "distinct (map action_id as) \<Longrightarrow> a \<in> set as \<Longrightarrow> validationState K as (action_id a) = action_valid K a"
proof (induction as rule: rev_induct)
  case (snoc b as)
  have new: "validationState K (as @ [b]) =
      (case action_valid K b of None \<Rightarrow> validationState K as | Some v \<Rightarrow> (validationState K as)(action_id b \<mapsto> v))"
    by (simp add: validationState_def split: option.split)
  have none: "action_id b \<notin> action_id ` set as \<Longrightarrow> validationState K as (action_id b) = None" for as
    by (induction as rule: rev_induct) (auto simp: validationState_def split: option.splits)
  have "action_id a \<noteq> action_id b" if "a \<in> set as"
    using snoc.prems(1) imageI [OF that, of action_id] by auto
  then show ?case using snoc none [of as] by (auto simp: new split: option.splits)
qed simp

lemma enabled_valid:
  "publish_enabled K as \<Longrightarrow> distinct (map action_id as) \<Longrightarrow> a \<in> set as \<Longrightarrow> action_valid K a \<noteq> Some False"
  by (auto simp: publish_enabled_def list_all_iff validationState_last)

lemma valid_prepared:
  assumes "action_valid K a \<noteq> Some False" "has_arguments a" "\<not> ck_isAddress K []"
  shows "prepared_action (ck_isAddress K) a = executable_action a"
proof (cases a)
  case (TransferAction i c)
  then show ?thesis using assms
    by (auto simp: action_valid_def transfer_valid_def prepared_action_def executable_action_def)
next
  case (CustomAction i c)
  then show ?thesis using assms
    by (auto simp: action_valid_def custom_valid_def prepared_action_def executable_action_def has_arguments_def)
next
  case (XAccountAction i c)
  then show ?thesis using assms
    by (auto simp: action_valid_def xaccount_valid_def prepared_action_def executable_action_def has_arguments_def
        split: option.splits)
qed (simp_all add: prepared_action_def executable_action_def)

lemma summary_of_calldata:
  "action_calldata C p = Inr c \<Longrightarrow> \<exists>sig. summary_action ft C p =
    Inr \<lparr>sa_target = shown (pa_target p), sa_calldata = c, sa_signature = sig, sa_value = int_text 10 (pa_value p)\<rparr>"
  by (auto simp: action_calldata_def summary_action_def and_then_eq_Inr split: if_splits)

lemma summaries_of_calldatas:
  "map_outcome (action_calldata C) ps = Inr cs \<Longrightarrow>
    map (\<lambda>x. (sa_target x, sa_calldata x, sa_value x)) (concat (map (\<lambda>p. kept_summary (summary_action ft C p)) ps))
      = map (\<lambda>(p, c). (shown (pa_target p), c, int_text 10 (pa_value p))) (zip ps cs)"
proof (induction ps arbitrary: cs)
  case (Cons p ps)
  then obtain c cs' where c: "action_calldata C p = Inr c" "map_outcome (action_calldata C) ps = Inr cs'" "cs = c # cs'"
    by (auto simp: and_then_eq_Inr)
  obtain sig where "summary_action ft C p =
      Inr \<lparr>sa_target = shown (pa_target p), sa_calldata = c, sa_signature = sig, sa_value = int_text 10 (pa_value p)\<rparr>"
    using summary_of_calldata [OF c(1)] by blast
  then show ?case using Cons.IH [OF c(2)] by (simp add: c(3) kept_summary_def)
qed simp

lemma transform_prepared:
  "transformActionsToProposalParams parse as d = Inr r \<Longrightarrow> filter P as = filter executable_action as \<Longrightarrow>
    \<exists>r'. transformActionsToProposalParams parse (filter P as) d = Inr r' \<and> pp_actions r' = pp_actions r"
  by (auto simp: transformActionsToProposalParams_def Let_def and_then_eq_Inr)

lemma zip_twice: "zip xs (zip ys xs) = map (\<lambda>(x, y). (x, y, x)) (zip xs ys)"
  by (induction xs ys rule: list_induct2') simp_all

text \<open>
  C17: The preview shows the calls that are published. When the button is enabled, every custom action
  has a method and arguments, the native token has 18 decimals, and publishing makes a call of the
  governor for at least one action, then the preview's targets, call data and values are, in order,
  those of the call.
\<close>
theorem preview_shows_the_calls:
  assumes "publish_enabled K actions" and "distinct (map action_id actions)" and "\<not> ck_isAddress K []"
    and "list_all has_arguments actions" and "list_ex executable_action actions"
    and "nativeDecimals = None \<or> nativeDecimals = Some 18"
    and "handlePublish parseUnits C isValid address actions = Inr (Some call)"
  shows "map (\<lambda>x. (sa_target x, sa_calldata x, sa_value x))
      (encodedActions (ck_isAddress K) parseUnits fragment_text C nativeDecimals actions)
    = map (\<lambda>(t, c, v). (shown t, c, int_text 10 v)) (zip (call_targets call) (zip (call_calldatas call) (call_values call)))"
proof -
  have same: "filter (prepared_action (ck_isAddress K)) actions = filter executable_action actions"
    using enabled_valid [OF assms(1,2)] valid_prepared assms(3,4) by (intro filter_cong) (auto simp: list_all_iff)
  have some: "filter executable_action actions \<noteq> []" using assms(5) by (auto simp: list_ex_iff filter_empty_conv)
  have d: "(case nativeDecimals of None \<Rightarrow> 18 | Some d \<Rightarrow> d) = (18::nat)" using assms(6) by auto
  obtain r where r: "transformActionsToProposalParams parseUnits actions 18 = Inr r" "createProposal C isValid address r = Inr (Some call)"
    using assms(7) by (auto simp: handlePublish_def and_then_eq_Inr)
  obtain r' where r': "transformActionsToProposalParams parseUnits (filter (prepared_action (ck_isAddress K)) actions) 18 = Inr r'"
    "pp_actions r' = pp_actions r"
    using transform_prepared [OF r(1) same] by blast
  have "pp_actions r \<noteq> []"
    using r(1) some by (auto simp: transformActionsToProposalParams_def Let_def and_then_eq_Inr dest!: map_outcome_length)
  then obtain cs where cs: "map_outcome (action_calldata C) (pp_actions r) = Inr cs"
    "call_targets call = map pa_target (pp_actions r)" "call_values call = map pa_value (pp_actions r)" "call_calldatas call = cs"
    using r(2) by (auto simp: createProposal_def and_then_eq_Inr split: if_splits)
  show ?thesis
    using summaries_of_calldatas [OF cs(1), of fragment_text] some
    by (simp add: encodedActions_def Let_def same d r'(1) [unfolded same] r'(2) cs(2-4) zip_map1 zip_map2 zip_twice comp_def split_def)
qed

text \<open>A call without arguments is not shown, though it is published.\<close>

lemma argumentless_call_not_previewed:
  "encodedActions isAddress parseUnits fragment_text C nativeDecimals
     [CustomAction i (c\<lparr>cc_calldata := Some []\<rparr>)] = []"
  by (simp add: encodedActions_def prepared_action_def Let_def)

text \<open>Amounts are previewed with the native token's decimals and published with 18.\<close>

lemma preview_uses_other_decimals:
  assumes "prepared_action isAddress (TransferAction i c)" and "parseUnits (tc_amount c) 6 = Inr x" "parseUnits (tc_amount c) 18 = Inr y"
    and "getFunction C TokenAbi ''transfer'' = Inr f"
  shows "map sa_value (encodedActions isAddress parseUnits fragment_text C (Some 6) [TransferAction i c]) = [int_text 10 x]"
    and "handlePublish parseUnits C True address [TransferAction i c] = Inr (Some call) \<Longrightarrow> call_values call = [y]"
  using assms
  by (auto simp: encodedActions_def handlePublish_def transformActionsToProposalParams_def Let_def executable_action_def
      action_param_def amount_or_zero_def prepared_action_def kept_summary_def summary_action_def createProposal_def
      action_calldata_def)

text \<open>A page that was only opened already counts as changed.\<close>

lemma untouched_page_has_changes:
  "actionsChanged [generateProposalAction invisible uuid] (opened_page invisible uuid)"
  by (simp add: actionsChanged_def opened_page_def generateProposalAction_def run_effects_def panel_effect_def
      mount_panel_def defaultValues_def hands_over_def handleContentChange_def set_content_def filled_def Let_def)

section \<open>Fields\<close>

text \<open>
  An amount typed into a transfer is at most the treasury's balance, when the balance is known and
  the native token has decimals: what is put into the field, if it is read as an amount at all, does
  not exceed it.
\<close>
theorem typed_amount_within_balance:
  assumes "\<And>b. 0 \<le> b \<Longrightarrow> parseUnits (formatUnits b decimals) decimals = Inr b"
    and "0 < decimals" "0 \<le> balance"
    and "handleAmountChange parseUnits formatUnits (Some decimals) (Some balance) v = Some t" "t \<noteq> []"
    and "parseUnits t decimals = Inr amount"
  shows "amount \<le> balance"
  using assms(2-6) assms(1) [OF assms(3)]
  by (auto simp: handleAmountChange_def Let_def split: if_splits sum.splits)

text \<open>When an item of an array argument is removed, the marks of the later items move down with them.\<close>

lemma untouch_moves_marks:
  "(index, Some j) \<in> handleFieldUntouchArray index removed t \<longleftrightarrow>
     (index, Some (if j < removed then j else Suc j)) \<in> t"
  "i \<noteq> index \<or> k = None \<Longrightarrow> (i, k) \<in> handleFieldUntouchArray index removed t \<longleftrightarrow> (i, k) \<in> t"
proof -
  have "(\<exists>k. (index, Some k) \<in> t \<and> removed < k \<and> j = k - 1) \<longleftrightarrow> removed \<le> j \<and> (index, Some (Suc j)) \<in> t"
    by (auto intro: exI [of _ "Suc j"])
  then show "(index, Some j) \<in> handleFieldUntouchArray index removed t \<longleftrightarrow>
      (index, Some (if j < removed then j else Suc j)) \<in> t"
    by (auto simp: handleFieldUntouchArray_def Let_def image_iff)
  show "(i, k) \<in> handleFieldUntouchArray index removed t \<longleftrightarrow> (i, k) \<in> t" if "i \<noteq> index \<or> k = None"
    using that by (auto simp: handleFieldUntouchArray_def Let_def)
qed

text \<open>The method that was chosen is the one whose payability is shown, and the value of a call that takes none is empty.\<close>

lemma method_change_clears_value:
  assumes "find_method (cc_customAbiContent c) v = Some method"
  shows "isPayable (handleMethodChange v c) \<longleftrightarrow> text_member method ''stateMutability'' = Some ''payable''"
    and "\<not> isPayable (handleMethodChange v c) \<Longrightarrow> cc_value (handleMethodChange v c) = Some []"
  using assms by (auto simp: handleMethodChange_def isPayable_def)

section \<open>Witnesses\<close>

definition demo_page :: NewProposal where
  "demo_page = opened_page '' '' ''p''"

definition demo_one :: NewProposal where
  "demo_one = handleReplaceAction CustomKind ''a'' (setTab AddTab demo_page)"

definition demo_content :: CustomContent where
  "demo_content = \<lparr>cc_target = ''0xb'', cc_contractType = ''custom'', cc_contractMethod = Some ''mint-1'',
     cc_customAbiContent = [], cc_calldata = Some [\<lparr>ci_name = ''to'', ci_type = ''string'', ci_value = OneValue ''x'', ci_isArray = False\<rparr>],
     cc_value = Some []\<rparr>"

definition demo_two :: NewProposal where
  "demo_two = edit_panel (CustomValues demo_content) (handleReplaceAction CustomKind ''b'' (setTab AddTab demo_one))"

lemma demo_pages:
  "action_id ` set (np_actions demo_page) = {''p''}" "action_id ` set (np_actions demo_one) = {''p'', ''a''}"
  "np_tab demo_one = EditTab" "np_actionUuid demo_one = ''a''"
proof -
  have "map action_id (np_actions demo_page) = [''p'']" "map action_id (np_actions demo_one) = [''p'', ''a'']" by code_simp+
  then show "action_id ` set (np_actions demo_page) = {''p''}" "action_id ` set (np_actions demo_one) = {''p'', ''a''}"
    by (metis list.set_map list.set)+
  show "np_tab demo_one = EditTab" "np_actionUuid demo_one = ''a''" by code_simp+
qed

lemma run_snoc: "page_run s es s' \<Longrightarrow> page_step s' e (Inr s'') \<Longrightarrow> es' = es @ [e] \<Longrightarrow> page_run s es' s''"
  by (simp add: page_run.event)

lemma demo_run_one: "page_run demo_page [ShowTab AddTab, Replace CustomKind ''a''] demo_one"
proof (rule run_snoc [where es = "[ShowTab AddTab]" and s' = "setTab AddTab demo_page"])
  show "page_run demo_page [ShowTab AddTab] (setTab AddTab demo_page)"
    by (rule run_snoc [OF page_run.start page_step.show_tab]) simp
  show "page_step (setTab AddTab demo_page) (Replace CustomKind ''a'') (Inr demo_one)"
    unfolding demo_one_def by (rule page_step.replace) (simp_all add: setTab_def demo_pages)
qed simp

lemma demo_run_two:
  "page_run demo_page [ShowTab AddTab, Replace CustomKind ''a'', ShowTab AddTab, Replace CustomKind ''b'', Edit (CustomValues demo_content)]
     demo_two"
proof (rule run_snoc [where e = "Edit (CustomValues demo_content)"])
  let ?b = "handleReplaceAction CustomKind ''b'' (setTab AddTab demo_one)"
  have "page_run demo_page [ShowTab AddTab, Replace CustomKind ''a'', ShowTab AddTab] (setTab AddTab demo_one)"
    by (rule run_snoc [OF demo_run_one page_step.show_tab]) simp
  then show "page_run demo_page [ShowTab AddTab, Replace CustomKind ''a'', ShowTab AddTab, Replace CustomKind ''b''] ?b"
    by (rule run_snoc) (rule page_step.replace, simp_all add: setTab_def demo_pages)
  have "np_tab ?b = EditTab" by code_simp
  moreover have "np_panels ?b (np_actionUuid ?b) = content_of (new_action CustomKind ''b'')" by code_simp
  then obtain c where "np_panels ?b (np_actionUuid ?b) = Some (CustomValues c)"
    by (simp add: new_action_def generateCustomAction_def)
  moreover have "same_kind (CustomValues demo_content) (CustomValues c)" by (simp add: same_kind_def)
  ultimately show "page_step ?b (Edit (CustomValues demo_content)) (Inr demo_two)"
    unfolding demo_two_def by (rule page_step.edit)
qed simp

lemma page_keeps_its_place_witness:
  "length (shown_panels demo_one) = 1 \<and> (\<exists>s'. handleRemoveAction (current_index demo_one) demo_one = Inr s')"
proof -
  have a: "new_action CustomKind ''a'' \<in> set (np_actions demo_one)" by code_simp
  note props = page_keeps_its_place [OF demo_run_one [unfolded demo_page_def]]
  have "page_step demo_one RemoveCurrent (handleRemoveAction (current_index demo_one) demo_one)"
    by (rule page_step.remove_current [OF _ a]) (simp_all add: demo_pages, simp add: new_action_def generateCustomAction_def)
  with props show ?thesis by (auto simp: demo_pages)
qed

lemma panels_are_published_witness:
  "np_panels demo_one ''a'' = content_of (new_action CustomKind ''a'')"
proof -
  have "new_action CustomKind ''a'' \<in> set (np_actions demo_one)" by code_simp
  from panels_are_published [OF demo_run_one [unfolded demo_page_def] this] show ?thesis
    by (simp add: customs_added_def)
qed

text \<open>Of two custom actions, the first is selected again and holds what was typed into the second.\<close>

lemma visit_copies_last_custom_witness:
  "find (\<lambda>a. action_id a = ''a'') (np_actions (handleSwitchAction ''a'' demo_two)) = Some (CustomAction ''a'' demo_content)"
proof -
  have "new_action CustomKind ''a'' \<in> set (np_actions demo_two)" by code_simp
  then have a: "CustomAction ''a'' (case new_action CustomKind ''a'' of CustomAction i c \<Rightarrow> c) \<in> set (np_actions demo_two)"
    by (simp add: new_action_def generateCustomAction_def)
  have "''a'' \<noteq> np_actionUuid demo_two" by code_simp
  from visit_copies_last_custom [OF demo_run_two [unfolded demo_page_def] a this] obtain c' where
    c': "find (\<lambda>a. action_id a = ''a'') (np_actions (handleSwitchAction ''a'' demo_two)) = Some (CustomAction ''a'' c')"
      "custom_values (np_panels demo_two) (last (filter is_custom (np_actions demo_two))) = Some c'" by blast
  have "custom_values (np_panels demo_two) (last (filter is_custom (np_actions demo_two))) = Some demo_content"
    by code_simp
  with c' show ?thesis by simp
qed

definition demo_checks :: Checks where
  "demo_checks = \<lparr>ck_isURL = (\<lambda>_. True), ck_isAddress = (\<lambda>t. t \<noteq> []), ck_isValidAbi = (\<lambda>_. True), ck_generateHash = (\<lambda>_. [])\<rparr>"

definition demo_calls :: "unit Contracts" where
  "demo_calls = \<lparr>getFunction = (\<lambda>_ _. Inr (Some ())), encodeFunctionData = (\<lambda>_ _ _. Inr ''0xaa'')\<rparr>"

definition demo_action :: Action where
  "demo_action = CustomAction ''a'' (demo_content\<lparr>cc_customAbiContent := [JNull]\<rparr>)"

lemma preview_shows_the_calls_witness:
  "map (\<lambda>x. (sa_target x, sa_calldata x, sa_value x))
     (encodedActions (ck_isAddress demo_checks) (\<lambda>_ _. Inr 5) (\<lambda>_. []) demo_calls (Some 18) [demo_action])
   = [(''0xb'', ''0xaa'', ''0'')]"
proof -
  obtain call where call: "handlePublish (\<lambda>_ _. Inr 5) demo_calls True None [demo_action] = Inr (Some call)"
    "call_targets call = [Some ''0xb'']" "call_calldatas call = [''0xaa'']" "call_values call = [0]"
    by (simp add: handlePublish_def transformActionsToProposalParams_def demo_action_def demo_content_def Let_def
        executable_action_def action_param_def amount_or_zero_def createProposal_def action_calldata_def demo_calls_def)
  have "publish_enabled demo_checks [demo_action]" "list_all has_arguments [demo_action]" by code_simp+
  moreover have "list_ex executable_action [demo_action]" by (simp add: demo_action_def executable_action_def)
  moreover have "\<not> ck_isAddress demo_checks []" by (simp add: demo_checks_def)
  moreover have "int_text 10 0 = ''0''" by code_simp
  ultimately show ?thesis
    using preview_shows_the_calls [of demo_checks "[demo_action]" "Some 18" "\<lambda>_ _. Inr 5" demo_calls True None call "\<lambda>_. []"] call
    by (simp add: shown_def)
qed

lemma typed_amount_within_balance_witness:
  "handleAmountChange (\<lambda>t _. Inr (int (length t))) (\<lambda>b _. replicate (nat b) (CHR ''1'')) (Some 18) (Some 2) ''123'' = Some ''11''
    \<and> int (length ''11'') \<le> 2"
proof -
  have eq: "handleAmountChange (\<lambda>t _. Inr (int (length t))) (\<lambda>b _. replicate (nat b) (CHR ''1'')) (Some 18) (Some 2) ''123'' = Some ''11''"
    by code_simp
  have "int (length ''11'') \<le> 2"
    by (rule typed_amount_within_balance [where parseUnits = "\<lambda>t _. Inr (int (length t))"
          and formatUnits = "\<lambda>b _. replicate (nat b) (CHR ''1'')" and decimals = 18 and v = "''123''" and t = "''11''"])
      (simp_all add: eq)
  with eq show ?thesis by simp
qed

end
