(* ===== verification/JsonValue.thy ===== *)
theory JsonValue
  imports JsonText WebProposal
begin

text \<open>
  \<open>JSON.stringify\<close> of any value, plain and of a record of texts with an indentation of two, and
  the round trip through \<open>JSON.parse\<close>. How a number is written is a parameter.
\<close>

section \<open>Writing\<close>

fun stringify :: "(real \<Rightarrow> string) \<Rightarrow> json \<Rightarrow> string" where
  "stringify nt JNull = ''null''"
| "stringify nt (JBool b) = (if b then ''true'' else ''false'')"
| "stringify nt (JNumber x) = nt x"
| "stringify nt (JString t) = stringify_text t"
| "stringify nt (JArray js) = ''['' @ join_with (CHR '','') (map (stringify nt) js) @ '']''"
| "stringify nt (JObject fs) =
     ''{'' @ join_with (CHR '','') (map (\<lambda>(k, v). stringify_text k @ '':'' @ stringify nt v) fs) @ ''}''"

text \<open>Values that can be written and read back: their numbers can, and their names are distinct.\<close>

definition number_written :: "(real \<Rightarrow> string) \<Rightarrow> real \<Rightarrow> bool" where
  "number_written nt x \<longleftrightarrow> list_all number_char (nt x) \<and> read_number (nt x) = Some (JNumber x)"

fun writable :: "(real \<Rightarrow> string) \<Rightarrow> json \<Rightarrow> bool" where
  "writable nt (JNumber x) = number_written nt x"
| "writable nt (JArray js) = list_all (writable nt) js"
| "writable nt (JObject fs) = (distinct (map fst fs) \<and> list_all (\<lambda>(k, v). writable nt v) fs)"
| "writable nt j = True"

abbreviation member_text :: "(real \<Rightarrow> string) \<Rightarrow> string \<times> json \<Rightarrow> string" where
  "member_text nt \<equiv> (\<lambda>(k, v). stringify_text k @ '':'' @ stringify nt v)"

section \<open>Reading back\<close>

lemma update_new: "k \<notin> set (map fst o1) \<Longrightarrow> AList.update k v o1 = o1 @ [(k, v)]"
  by (induction o1) auto

lemma object_of_distinct: "distinct (map fst fs) \<Longrightarrow> object_of fs = fs"
proof -
  have "distinct (map fst (o1 @ fs)) \<Longrightarrow>
      foldl (\<lambda>out (k, v). AList.update k v out) o1 fs = o1 @ fs" for o1
  proof (induction fs arbitrary: o1)
    case (Cons f fs)
    obtain k v where f: "f = (k, v)" by (cases f)
    with Cons.prems have "AList.update k v o1 = o1 @ [(k, v)]" by (auto intro: update_new)
    with Cons.IH [of "o1 @ [(k, v)]"] Cons.prems f show ?case by simp
  qed simp
  from this [of "[]"] show "distinct (map fst fs) \<Longrightarrow> object_of fs = fs" by (simp add: object_of_def)
qed

definition value_stops :: "string \<Rightarrow> bool" where
  "value_stops s \<longleftrightarrow> (case s of [] \<Rightarrow> True | c # _ \<Rightarrow> \<not> number_char c)"

lemma stop_chars:
  "\<not> number_char (CHR '','')" "\<not> number_char (CHR '']'')" "\<not> number_char (CHR ''}'')"
  "\<not> json_space (CHR '':'')" "\<not> json_space (CHR ''}'')" "\<not> json_space (CHR ''{'')"
  "\<not> json_space (CHR ''n'')" "\<not> json_space (CHR ''t'')" "\<not> json_space (CHR ''f'')"
  "\<not> number_char (CHR ''n'')" "\<not> number_char (CHR ''t'')" "\<not> number_char (CHR ''f'')"
  "\<not> number_char (CHR 0x22)" "\<not> number_char (CHR ''['')" "\<not> number_char (CHR ''{'')"
  by code_simp+

lemma json_space_cases:
  assumes "json_space c"
  shows "c = CHR 0x09 \<or> c = CHR 0x0A \<or> c = CHR 0x0D \<or> c = CHR 0x20"
proof -
  have "c = char_of (of_char c :: nat)" by simp
  moreover have "(of_char c :: nat) \<in> {9, 10, 13, 32}" using assms by (auto simp: json_space_def Let_def)
  ultimately have "c = char_of (9 :: nat) \<or> c = char_of (10 :: nat) \<or> c = char_of (13 :: nat) \<or>
      c = char_of (32 :: nat)"
    unfolding insert_iff empty_iff by metis
  moreover have "char_of (9 :: nat) = CHR 0x09" "char_of (10 :: nat) = CHR 0x0A"
    "char_of (13 :: nat) = CHR 0x0D" "char_of (32 :: nat) = CHR 0x20"
    by code_simp+
  ultimately show ?thesis by metis
qed

lemma number_char_cases:
  assumes "number_char c"
  shows "\<not> json_space c"
proof
  have "\<not> number_char (CHR 0x09)" "\<not> number_char (CHR 0x0A)" "\<not> number_char (CHR 0x0D)"
    "\<not> number_char (CHR 0x20)"
    by code_simp+
  moreover assume "json_space c"
  ultimately show False using assms json_space_cases by blast
qed

lemma number_text_start:
  assumes "number_written nt x"
  obtains c r where "nt x = c # r" and "number_char c"
  using assms by (cases "nt x") (auto simp: number_written_def read_number_def number_form_def starts_with_def split: if_splits)

lemma value_start:
  assumes "writable nt j"
  shows "\<exists>c r. stringify nt j = c # r \<and> \<not> json_space c \<and> c \<noteq> CHR '']'' \<and> c \<noteq> CHR ''}''"
proof (cases j)
  case (JNumber x)
  with assms have "number_written nt x" by simp
  then obtain c r where "nt x = c # r" "number_char c" by (rule number_text_start)
  with JNumber stop_chars number_char_cases show ?thesis by auto
qed (auto simp: stop_chars plain_separators stringify_text_def)

lemma read_word_number:
  assumes "number_written nt x" and "value_stops s"
  shows "read_word (nt x @ s) = Some (JNumber x, s)"
proof -
  obtain c r where c: "nt x = c # r" "number_char c" using assms(1) by (rule number_text_start)
  have all: "\<forall>y \<in> set (nt x). number_char y" using assms(1) by (simp add: number_written_def list_all_iff)
  have "takeWhile number_char (nt x @ s) = nt x" "dropWhile number_char (nt x @ s) = s"
    using all assms(2) by (cases s; simp add: value_stops_def)+
  moreover have "c \<noteq> CHR ''n''" "c \<noteq> CHR ''t''" "c \<noteq> CHR ''f''" using c(2) stop_chars by auto
  ultimately show ?thesis
    using assms(1) c by (auto simp: read_word_def starts_with_def number_written_def)
qed

lemma read_value_plain:
  assumes "number_written nt x" and "value_stops s"
  shows "read_value (Suc n) (nt x @ s) = Some (JNumber x, s)"
proof -
  obtain c r where c: "nt x = c # r" "number_char c" using assms(1) by (rule number_text_start)
  then have "c \<noteq> CHR 0x22" "c \<noteq> CHR ''[''" "c \<noteq> CHR ''{''" "\<not> json_space c"
    using stop_chars number_char_cases by auto
  with read_word_number [OF assms] c show ?thesis by (simp add: read_value.simps)
qed

lemma read_value_word:
  "read_value (Suc n) (''null'' @ s) = Some (JNull, s)"
  "read_value (Suc n) (''true'' @ s) = Some (JBool True, s)"
  "read_value (Suc n) (''false'' @ s) = Some (JBool False, s)"
  by (simp_all add: read_value.simps stop_chars read_word_def starts_with_def)

lemma read_back:
  shows "writable nt j \<Longrightarrow> length (stringify nt j) \<le> n \<Longrightarrow> value_stops s \<Longrightarrow>
      read_value n (stringify nt j @ s) = Some (j, s)"
    and "js \<noteq> [] \<Longrightarrow> list_all (writable nt) js \<Longrightarrow>
      length (join_with (CHR '','') (map (stringify nt) js)) < n \<Longrightarrow>
      read_elements n (join_with (CHR '','') (map (stringify nt) js) @ CHR '']'' # s) = Some (js, s)"
    and "fs \<noteq> [] \<Longrightarrow> list_all (\<lambda>(k, v). writable nt v) fs \<Longrightarrow>
      length (join_with (CHR '','') (map (member_text nt) fs)) < n \<Longrightarrow>
      read_members n (join_with (CHR '','') (map (member_text nt) fs) @ CHR ''}'' # s) = Some (fs, s)"
proof (induction n arbitrary: j js fs s)
  case 0
  {
    case 1
    then show ?case using value_start [of nt j] by auto
  next
    case 2
    then show ?case by simp
  next
    case 3
    then show ?case by simp
  }
next
  case (Suc n)
  have stops: "value_stops (c # t) \<longleftrightarrow> \<not> number_char c" for c t by (simp add: value_stops_def)
  {
    case 1
    show ?case
    proof (cases j)
      case JNull
      then show ?thesis using read_value_word(1) by simp
    next
      case (JBool b)
      then show ?thesis using read_value_word(2,3) by simp
    next
      case (JNumber x)
      with 1 show ?thesis by (simp add: read_value_plain)
    next
      case (JString t)
      then show ?thesis by (simp add: read_value_text)
    next
      case (JArray js)
      show ?thesis
      proof (cases js)
        case Nil
        with JArray show ?thesis by (simp add: read_value.simps plain_separators starts_with_def)
      next
        case (Cons k ks)
        let ?b = "join_with (CHR '','') (map (stringify nt) js) @ CHR '']'' # s"
        obtain c r where c: "stringify nt k = c # r" "\<not> json_space c" "c \<noteq> CHR '']''"
          using value_start [of nt k] 1(1) JArray Cons by auto
        have b: "\<exists>r. ?b = c # r" using c(1) Cons by (cases ks) simp_all
        then have "\<not> starts_with (skip_space ?b) '']''" using c by (auto simp: starts_with_def)
        moreover have "read_elements n ?b = Some (js, s)"
          using Suc.IH(2) [of js s] Cons 1 JArray by simp
        ultimately show ?thesis using JArray by (simp add: read_value.simps plain_separators)
      qed
    next
      case (JObject fs)
      show ?thesis
      proof (cases fs)
        case Nil
        with JObject show ?thesis by (simp add: read_value.simps stop_chars starts_with_def)
      next
        case (Cons k ks)
        let ?b = "join_with (CHR '','') (map (member_text nt) fs) @ CHR ''}'' # s"
        have b: "\<exists>r. ?b = CHR 0x22 # r" 
          using Cons by (cases ks; cases k) (simp_all add: stringify_text_def)
        then have "\<not> starts_with (skip_space ?b) ''}''" using plain_separators by (auto simp: starts_with_def)
        moreover have "read_members n ?b = Some (fs, s)"
          using Suc.IH(3) [of fs s] Cons 1 JObject by simp
        ultimately show ?thesis
          using JObject 1(1) by (simp add: read_value.simps stop_chars object_of_distinct)
      qed
    qed
  next
    case 2
    then obtain k ks where js: "js = k # ks" by (cases js) auto
    show ?case
    proof (cases "ks = []")
      case True
      with Suc.IH(1) [of k "CHR '']'' # s"] 2 js show ?thesis
        by (simp add: read_elements.simps(2) stops stop_chars plain_separators)
    next
      case False
      then have "join_with (CHR '','') (map (stringify nt) js) =
          stringify nt k @ CHR '','' # join_with (CHR '','') (map (stringify nt) ks)"
        using js by (cases ks) simp_all
      with Suc.IH(1) [of k] Suc.IH(2) [of ks s] False 2 js show ?thesis
        by (simp add: read_elements.simps(2) stops stop_chars plain_separators)
    qed
  next
    case 3
    then obtain k v ks where fs: "fs = (k, v) # ks" by (cases fs) auto
    show ?case
    proof (cases "ks = []")
      case True
      with Suc.IH(1) [of v "CHR ''}'' # s"] 3 fs show ?thesis
        by (simp add: read_members.simps(2) stops stop_chars plain_separators stringify_text_def read_stringified)
    next
      case False
      then have "join_with (CHR '','') (map (member_text nt) fs) =
          stringify_text k @ CHR '':'' # stringify nt v @ CHR '','' # join_with (CHR '','') (map (member_text nt) ks)"
        using fs by (cases ks) simp_all
      with Suc.IH(1) [of v] Suc.IH(3) [of ks s] False 3 fs show ?thesis
        by (simp add: read_members.simps(2) stops stop_chars plain_separators stringify_text_def read_stringified)
    qed
  }
qed

lemma parse_stringify: "writable nt j \<Longrightarrow> JSON_parse (stringify nt j) = Inr j"
  using read_back(1) [of nt j "2 * length (stringify nt j) + 2" "[]"]
  by (simp add: JSON_parse_def value_stops_def)

text \<open>Decimal digits are such numbers.\<close>

lemma no_leading_zero: "0 < n \<Longrightarrow> \<not> starts_with (nat_text 10 n) ''0''"
proof (induction "10 :: nat" n rule: nat_text.induct)
  case (1 n)
  show ?case
  proof (cases "n < 10")
    case True
    have "digit_char n \<noteq> CHR ''0''"
    proof
      assume "digit_char n = CHR ''0''"
      then have "(of_char (CHR ''0'') :: nat) = 48 + n" using of_digit_char [OF True] by simp
      with 1(2) show False by simp
    qed
    with True show ?thesis by (simp add: nat_text.simps [of 10 n] starts_with_def)
  next
    case False
    with 1 have "\<not> starts_with (nat_text 10 (n div 10)) ''0''" by simp
    with False show ?thesis
      using nat_text_not_Nil [of "n div 10"]
      by (cases "nat_text 10 (n div 10)") (simp_all add: nat_text.simps [of 10 n] starts_with_def)
  qed
qed

lemma digits_written:
  assumes "nt (real n) = nat_text 10 n"
  shows "number_written nt (real n)"
proof -
  let ?s = "nat_text 10 n"
  have take: "takeWhile (is_digit 10) ?s = ?s" using decimal_digits_takeWhile [OF nat_text_digits] by simp
  then have drop: "dropWhile (is_digit 10) ?s = []" by (metis append_self_conv takeWhile_dropWhile_id)
  from take have all: "list_all (is_digit 10) ?s" by (simp add: list_all_iff takeWhile_eq_all_conv)
  have "\<not> starts_with ?s ''-''" using digit_text_free [of "CHR ''-''" n] by (auto simp: starts_with_append)
  moreover have "nat_text 10 0 = ''0''" by code_simp
  then have "starts_with ?s ''0'' \<longrightarrow> ?s = ''0''" using no_leading_zero by (cases "n = 0") auto
  ultimately have "number_form ?s"
    by (simp add: number_form_def take drop nat_text_not_Nil starts_with_def)
  moreover have "list_all number_char ?s" using all by (auto simp: list_all_iff number_char_def)
  ultimately show ?thesis by (simp add: number_written_def assms read_number_def signed_decimal_nat)
qed

section \<open>A record of texts, indented\<close>

definition stringify_record :: "(string \<times> string) list \<Rightarrow> string" where
  "stringify_record fs =
     (if fs = [] then ''{}''
      else ''{'' @ [CHR 0x0A] @
        join_text ('','' @ [CHR 0x0A]) (map (\<lambda>(k, t). ''  '' @ stringify_text k @ '': '' @ stringify_text t) fs) @
        [CHR 0x0A] @ ''}'')"

lemma join_text_Cons: "join_text sep (t # u # us) = t @ sep @ join_text sep (u # us)"
  by (simp add: join_text_def)

abbreviation record_line :: "string \<times> string \<Rightarrow> string" where
  "record_line \<equiv> (\<lambda>(k, t). ''  '' @ stringify_text k @ '': '' @ stringify_text t)"

lemma spaced_text: "read_value (Suc n) (CHR '' '' # stringify_text t @ r) = Some (JString t, r)"
proof -
  have "json_space (CHR '' '')" by code_simp
  then show ?thesis by (simp add: read_value.simps plain_separators stringify_text_def read_stringified)
qed

lemma read_record_members:
  "fs \<noteq> [] \<Longrightarrow> length fs < n \<Longrightarrow>
     read_members n (CHR 0x0A # join_text ('','' @ [CHR 0x0A]) (map record_line fs) @ CHR 0x0A # ''}'') =
       Some (map (\<lambda>(k, t). (k, JString t)) fs, [])"
proof (induction fs arbitrary: n rule: list_nonempty_induct)
  case (single f)
  then have "2 \<le> n" by simp
  then obtain m where n: "n = Suc (Suc m)" using le_Suc_ex [of 2 n] by auto
  obtain k t where f: "f = (k, t)" by (cases f)
  have written: "join_text ('','' @ [CHR 0x0A]) (map record_line [f]) @ CHR 0x0A # ''}'' =
      ''  '' @ stringify_text k @ CHR '':'' # CHR '' '' # stringify_text t @ CHR 0x0A # ''}''"
    by (simp add: join_text_def f)
  have white: "json_space (CHR 0x0A)" "json_space (CHR '' '')" by code_simp+
  with spaced_text show ?case
    unfolding written unfolding n f
    by (simp add: read_members.simps(2) [of "Suc m"] white plain_separators stop_chars stringify_text_def read_stringified)
next
  case (cons f fs)
  then have "2 \<le> n" by simp
  then obtain m where n: "n = Suc (Suc m)" using le_Suc_ex [of 2 n] by auto
  obtain k t where f: "f = (k, t)" by (cases f)
  let ?rest = "join_text ('','' @ [CHR 0x0A]) (map record_line fs) @ CHR 0x0A # ''}''"
  obtain g gs where fs: "fs = g # gs" using cons(1) by (cases fs) auto
  have written: "join_text ('','' @ [CHR 0x0A]) (map record_line (f # fs)) @ CHR 0x0A # ''}'' =
      ''  '' @ stringify_text k @ CHR '':'' # CHR '' '' # stringify_text t @ CHR '','' # CHR 0x0A # ?rest"
    by (simp add: fs f join_text_Cons)
  have white: "json_space (CHR 0x0A)" "json_space (CHR '' '')" by code_simp+
  have "read_members (Suc m) (CHR 0x0A # ?rest) = Some (map (\<lambda>(k, t). (k, JString t)) fs, [])"
    using cons n by simp
  with spaced_text show ?case
    unfolding written unfolding n f
    by (simp add: read_members.simps(2) [of "Suc m"] white plain_separators stop_chars stringify_text_def read_stringified
        del: join_text_def)
qed

lemma length_record:
  "fs \<noteq> [] \<Longrightarrow> length fs \<le> length (join_text sep (map record_line fs))"
proof (induction fs rule: list_nonempty_induct)
  case (single f)
  then show ?case by (cases f) (simp add: join_text_def)
next
  case (cons f fs)
  obtain g gs where fs: "fs = g # gs" using cons(1) by (cases fs) auto
  then have "join_text sep (map record_line (f # fs)) = record_line f @ sep @ join_text sep (map record_line fs)"
    by (simp add: join_text_Cons)
  moreover have "1 \<le> length (record_line f)" by (cases f) simp
  ultimately show ?case using cons.IH by simp
qed

lemma parse_record:
  assumes "distinct (map fst fs)"
  shows "JSON_parse (stringify_record fs) = Inr (JObject (map (\<lambda>(k, t). (k, JString t)) fs))"
proof (cases "fs = []")
  case True
  have "JSON_parse ''{}'' = Inr (JObject [])"
    by (simp add: JSON_parse_def stop_chars starts_with_def numeral_2_eq_2 read_value.simps)
  with True show ?thesis by (simp add: stringify_record_def)
next
  case False
  let ?b = "CHR 0x0A # join_text ('','' @ [CHR 0x0A]) (map record_line fs) @ CHR 0x0A # ''}''"
  obtain f gs where fs: "fs = f # gs" using False by (cases fs) auto
  have white: "json_space (CHR 0x0A)" "json_space (CHR '' '')" by code_simp+
  have written: "stringify_record fs = CHR ''{'' # ?b" using False by (simp add: stringify_record_def)
  have "\<exists>r. skip_space ?b = CHR 0x22 # r"
    by (cases f) (simp add: fs join_text_def stringify_text_def white plain_separators)
  then have "\<not> starts_with (skip_space ?b) ''}''" by (auto simp: starts_with_def)
  moreover have "length fs \<le> length (stringify_record fs)" using length_record [OF False, of "'','' @ [CHR 0x0A]"] written by simp
  then have "read_members (2 * length (stringify_record fs) + 1) ?b = Some (map (\<lambda>(k, t). (k, JString t)) fs, [])"
    by (intro read_record_members [OF False]) simp
  moreover have names: "map fst (map (\<lambda>(k, t). (k, JString t)) fs) = map fst fs" by auto
  have "object_of (map (\<lambda>(k, t). (k, JString t)) fs) = map (\<lambda>(k, t). (k, JString t)) fs"
    by (rule object_of_distinct) (simp only: names assms)
  ultimately show ?thesis by (simp add: JSON_parse_def written read_value.simps stop_chars)
qed

end
