(* ===== verification/WebDecoder.thy ===== *)
theory WebDecoder
  imports JsonValue
begin

text \<open>
  The decoding of calls in the web client: the cache of interfaces (ABIs) in memory and in the
  browser's storage, the requests for them, and the decoding of a call's arguments
  (packages/web/src/utils/decoder.ts, utils/cache-manager.ts, hooks/useDecodeCallData.ts). The
  library that decodes and the service that answers are parameters.
\<close>

section \<open>The caches\<close>

text \<open>
  The state of a page: the map in memory, the browser's storage, the requests under way by their
  key, and the requests sent so far, whose positions number them.
\<close>

record Decoder =
  abiCache :: "json table"
  localStorage :: "(string \<times> string) list"
  abiRequestCache :: "(string \<times> nat) list"
  sent :: "(string \<times> nat) list"
  clock :: nat

record EvmAbi =
  ea_abi :: "json option"
  ea_type :: string

text \<open>
  Where the code runs: in a browser or not, whether its storage can be used and what fits into it,
  the texts of numbers, and the answer to each request.
\<close>

record Browser =
  client_side :: bool
  storage_open :: bool
  storage_fits :: "(string \<times> string) list \<Rightarrow> bool"
  number_text :: "real \<Rightarrow> string"
  abi_service :: "nat \<Rightarrow> string \<Rightarrow> nat \<Rightarrow> EvmAbi list option outcome"

definition CACHE_PREFIX :: string where
  "CACHE_PREFIX = ''abi_cache_''"

definition cache_key :: "string \<Rightarrow> nat \<Rightarrow> string" where
  "cache_key address chainId = nat_text 10 chainId @ ''-'' @ to_lower address"

definition cache_entry :: "string \<Rightarrow> nat \<Rightarrow> json \<Rightarrow> string \<Rightarrow> nat \<Rightarrow> json" where
  "cache_entry address chainId abi name now =
     JObject [(''abi'', abi), (''name'', JString name), (''timestamp'', JNumber (real now)),
              (''chainId'', JNumber (real chainId)), (''address'', JString (to_lower address))]"

definition getCachedAbi :: "Browser \<Rightarrow> string \<Rightarrow> nat \<Rightarrow> Decoder \<Rightarrow> json option \<times> Decoder" where
  "getCachedAbi B address chainId s =
     (let key = cache_key address chainId;
          memoryCache = map_of (abiCache s) key
      in if truthy memoryCache then (memoryCache, s)
         else if client_side B \<and> storage_open B then
           (case map_of (localStorage s) (CACHE_PREFIX @ key) of
              None \<Rightarrow> (None, s)
            | Some t \<Rightarrow>
                if t = [] then (None, s)
                else case JSON_parse t of
                  Inl _ \<Rightarrow> (None, s)
                | Inr cached \<Rightarrow> (Some cached, s\<lparr>abiCache := AList.update key cached (abiCache s)\<rparr>))
         else (None, s))"

definition setItem :: "Browser \<Rightarrow> string \<Rightarrow> string \<Rightarrow> Decoder \<Rightarrow> unit outcome \<times> Decoder" where
  "setItem B k t s =
     (let stored = AList.update k t (localStorage s)
      in if \<not> storage_open B then (Inl (ThrownError ''SecurityError''), s)
         else if storage_fits B stored then (Inr (), s\<lparr>localStorage := stored\<rparr>)
         else (Inl (ThrownError ''QuotaExceededError''), s))"

definition setCachedAbi :: "Browser \<Rightarrow> string \<Rightarrow> nat \<Rightarrow> json \<Rightarrow> string \<Rightarrow> Decoder \<Rightarrow> Decoder" where
  "setCachedAbi B address chainId abi name s =
     (let key = cache_key address chainId;
          entry = cache_entry address chainId abi name (clock s);
          s1 = s\<lparr>abiCache := AList.update key entry (abiCache s)\<rparr>
      in if client_side B
         then snd (catching (setItem B (CACHE_PREFIX @ key) (stringify (number_text B) entry)) (\<lambda>_. ()) s1)
         else s1)"

record CacheStats =
  memoryCount :: nat
  localStorageCount :: nat
  totalSize :: string

text \<open>The bytes of a text, two for a character outside ASCII.\<close>

definition blob_size :: "string \<Rightarrow> nat" where
  "blob_size t = sum_list (map (\<lambda>c. if (of_char c :: nat) < 128 then 1 else 2) t)"

definition storage_denied :: "Browser \<Rightarrow> bool" where
  "storage_denied B \<longleftrightarrow> client_side B \<and> \<not> storage_open B"

definition getCacheStats :: "Browser \<Rightarrow> (real \<Rightarrow> nat \<Rightarrow> string) \<Rightarrow> Decoder \<Rightarrow> CacheStats outcome" where
  "getCacheStats B toFixed s =
     (let kept = (if client_side B then filter (\<lambda>(k, _). starts_with k CACHE_PREFIX) (localStorage s) else []);
          bytes = sum_list (map (\<lambda>(_, t). blob_size t) kept)
      in if storage_denied B then Inl (ThrownError ''SecurityError'')
         else Inr \<lparr>memoryCount = length (abiCache s), localStorageCount = length kept,
                   totalSize = toFixed (real bytes / 1024) 2 @ '' KB''\<rparr>)"

definition clearAllCache :: "Browser \<Rightarrow> (Decoder, unit) action" where
  "clearAllCache B s =
     (let s1 = s\<lparr>abiCache := []\<rparr>
      in if storage_denied B then (Inl (ThrownError ''SecurityError''), s1)
         else if client_side B
         then (Inr (), s1\<lparr>localStorage := filter (\<lambda>(k, _). \<not> starts_with k CACHE_PREFIX) (localStorage s)\<rparr>)
         else (Inr (), s1))"

text \<open>The cache manager: one contract's entry removed, all entries written out and read in.\<close>

definition clearContract :: "Browser \<Rightarrow> string \<Rightarrow> nat \<Rightarrow> Decoder \<Rightarrow> bool \<times> Decoder" where
  "clearContract B address chainId s =
     (if client_side B \<and> storage_open B
      then (True, s\<lparr>localStorage := AList.delete (CACHE_PREFIX @ cache_key address chainId) (localStorage s)\<rparr>)
      else (False, s))"

definition exportCache :: "Browser \<Rightarrow> Decoder \<Rightarrow> string outcome" where
  "exportCache B s =
     (if storage_denied B then Inl (ThrownError ''SecurityError'')
      else if client_side B
      then Inr (stringify_record (filter (\<lambda>(k, t). starts_with k CACHE_PREFIX \<and> t \<noteq> []) (localStorage s)))
      else Inr ''{}'')"

definition import_entry :: "Browser \<Rightarrow> string \<times> json \<Rightarrow> (Decoder, unit) action" where
  "import_entry B e =
     (case e of
        (k, JString t) \<Rightarrow> if starts_with k CACHE_PREFIX then setItem B k t else return ()
      | _ \<Rightarrow> return ())"

definition importCache :: "Browser \<Rightarrow> string \<Rightarrow> Decoder \<Rightarrow> bool \<times> Decoder" where
  "importCache B cacheDataJson s =
     (if \<not> client_side B then (False, s)
      else case JSON_parse cacheDataJson of
          Inr (JObject fs) \<Rightarrow> catching (after (for_each (import_entry B) fs) (\<lambda>_. return True)) (\<lambda>_. False) s
        | Inr JNull \<Rightarrow> (False, s)
        | Inr _ \<Rightarrow> (True, s)
        | Inl _ \<Rightarrow> (False, s))"

section \<open>Requests\<close>

record AbiInfo =
  ai_abi :: json
  ai_name :: string
  ai_type :: string

definition abi_info :: "EvmAbi \<Rightarrow> AbiInfo outcome" where
  "abi_info r =
     and_then (case ea_abi r of Some (JString t) \<Rightarrow> JSON_parse t | Some j \<Rightarrow> Inr j | None \<Rightarrow> Inr JNull) (\<lambda>abi.
       Inr \<lparr>ai_abi = abi,
            ai_name = (if ea_type r = ''PROXY'' then ''Proxy Contract''
                       else if ea_type r = ''IMPLEMENTATION'' then ''Implementation Contract''
                       else ''Contract''),
            ai_type = ea_type r\<rparr>)"

text \<open>\<open>fetchContractAbiFromGraphQL\<close> from the answer of the service on.\<close>

definition abis_of_answer :: "EvmAbi list option outcome \<Rightarrow> AbiInfo list outcome" where
  "abis_of_answer answer =
     and_then answer (\<lambda>results.
       case results of
         None \<Rightarrow> Inl (ThrownError ''No ABI found'')
       | Some rs \<Rightarrow>
           if rs = [] then Inl (ThrownError ''No ABI found'')
           else and_then (map_outcome abi_info (filter (\<lambda>r. truthy (ea_abi r)) rs)) (\<lambda>allAbis.
             if allAbis = [] then Inl (ThrownError ''No valid ABI found'') else Inr allAbis))"

definition request_key :: "string \<Rightarrow> nat \<Rightarrow> string" where
  "request_key address chainId = address @ ''-'' @ nat_text 10 chainId"

text \<open>
  \<open>fetchContractAbis\<close> up to the promise, the number of the request: the one under way for the key,
  or a new one; and what the promise does when its request is answered.
\<close>

definition start_fetch :: "string \<Rightarrow> nat \<Rightarrow> Decoder \<Rightarrow> nat \<times> Decoder" where
  "start_fetch address chainId s =
     (let key = request_key address chainId
      in case map_of (abiRequestCache s) key of
           Some r \<Rightarrow> (r, s)
         | None \<Rightarrow>
             (length (sent s),
              s\<lparr>sent := sent s @ [(address, chainId)],
                abiRequestCache := AList.update key (length (sent s)) (abiRequestCache s)\<rparr>))"

definition finish_fetch ::
  "Browser \<Rightarrow> string \<Rightarrow> nat \<Rightarrow> EvmAbi list option outcome \<Rightarrow> Decoder \<Rightarrow> AbiInfo list option \<times> Decoder" where
  "finish_fetch B address chainId answer s =
     (let (abis, s1) =
        (case abis_of_answer answer of
           Inr (a # as) \<Rightarrow> (Some (a # as), setCachedAbi B address chainId (ai_abi a) (ai_name a) s)
         | _ \<Rightarrow> (None, s))
      in (abis, s1\<lparr>abiRequestCache := AList.delete (request_key address chainId) (abiRequestCache s1)\<rparr>))"

definition fetchContractAbis :: "Browser \<Rightarrow> string \<Rightarrow> nat \<Rightarrow> Decoder \<Rightarrow> AbiInfo list option \<times> Decoder" where
  "fetchContractAbis B address chainId s =
     (let (r, s1) = start_fetch address chainId s
      in finish_fetch B address chainId (abi_service B r address chainId) s1)"

definition fetchContractAbi ::
  "Browser \<Rightarrow> string \<Rightarrow> nat \<Rightarrow> Decoder \<Rightarrow> (json option \<times> json option) option outcome \<times> Decoder" where
  "fetchContractAbi B address chainId s =
     (let (cached, s1) = getCachedAbi B address chainId s
      in if truthy cached
         then (and_then (property cached ''abi'') (\<lambda>abi.
               and_then (property cached ''name'') (\<lambda>name. Inr (Some (abi, name)))), s1)
         else
           let (abis, s2) = fetchContractAbis B address chainId s1
           in (Inr (case abis of
                Some (a # _) \<Rightarrow> Some (Some (ai_abi a), Some (JString (ai_name a))) | _ \<Rightarrow> None), s2))"

section \<open>Decoding a call\<close>

text \<open>
  The values of decoded arguments. A result of the decoding can be one, in the place of the bytes
  it was decoded from.
\<close>

datatype ArgValue =
    Str string
  | Big int
  | Truth bool
  | Items "ArgValue list"
  | Object DecodeRecursiveResult
and DecodeRecursiveResult =
    Result (functionName: string) (args: "(string \<times> string \<times> ArgValue) list") (rawArgs: "ArgValue list")

record Parsed =
  pd_name :: string
  pd_args :: "ArgValue list"
  pd_inputs :: "(string \<times> string) list"
  pd_signature :: string
  pd_selector :: string

record 'i Ethers =
  Interface :: "json \<Rightarrow> 'i outcome"
  parseTransaction :: "'i \<Rightarrow> string \<Rightarrow> Parsed option outcome"
  decodeFunctionData :: "'i \<Rightarrow> string \<Rightarrow> string \<Rightarrow> (nat \<Rightarrow> ArgValue outcome) outcome"

record ParsedTransaction =
  pt_name :: string
  pt_args :: "(string \<times> string \<times> ArgValue) list"
  pt_signature :: string
  pt_selector :: string
  pt_fragment :: "(string \<times> string) list"

definition named_arg :: "(string \<times> string) list \<Rightarrow> nat \<Rightarrow> ArgValue \<Rightarrow> string \<times> string \<times> ArgValue" where
  "named_arg inputs index arg =
     (let (name, type) = (if index < length inputs then inputs ! index else ([], []))
      in (if name = [] then ''param'' @ nat_text 10 index else name,
          if type = [] then ''unknown'' else type, arg))"

definition parsed_transaction :: "Parsed \<Rightarrow> ParsedTransaction" where
  "parsed_transaction p =
     \<lparr>pt_name = pd_name p, pt_args = map (\<lambda>(i, v). named_arg (pd_inputs p) i v) (enumerate 0 (pd_args p)),
      pt_signature = pd_signature p, pt_selector = pd_selector p, pt_fragment = pd_inputs p\<rparr>"

fun try_abis :: "'i Ethers \<Rightarrow> string \<Rightarrow> AbiInfo list \<Rightarrow> (AbiInfo \<times> ParsedTransaction) option outcome" where
  "try_abis E calldata [] = Inr None"
| "try_abis E calldata (a # as) =
     and_then (Interface E (ai_abi a)) (\<lambda>iface.
       case parseTransaction E iface calldata of
         Inr (Some p) \<Rightarrow> Inr (Some (a, parsed_transaction p))
       | _ \<Rightarrow> try_abis E calldata as)"

record AddressDecoding =
  ad_abi :: json
  ad_name :: string
  ad_result :: "ParsedTransaction option"

definition decodeWithAddress ::
  "Browser \<Rightarrow> 'i Ethers \<Rightarrow> string \<Rightarrow> nat \<Rightarrow> string \<Rightarrow> Decoder \<Rightarrow> AddressDecoding option \<times> Decoder" where
  "decodeWithAddress B E address chainId calldata s =
     (let (contractInfo, s1) = fetchContractAbis B address chainId s
      in ((case contractInfo of
             Some (a # as) \<Rightarrow>
               (case try_abis E calldata (a # as) of
                  Inl _ \<Rightarrow> None
                | Inr (Some (b, t)) \<Rightarrow> Some \<lparr>ad_abi = ai_abi b, ad_name = ai_name b, ad_result = Some t\<rparr>
                | Inr None \<Rightarrow> Some \<lparr>ad_abi = ai_abi a, ad_name = ai_name a, ad_result = None\<rparr>)
           | _ \<Rightarrow> None), s1))"

definition decodeWithABI :: "'i Ethers \<Rightarrow> json \<Rightarrow> string \<Rightarrow> ParsedTransaction option" where
  "decodeWithABI E abi calldata =
     (case Interface E abi of
        Inl _ \<Rightarrow> None
      | Inr iface \<Rightarrow>
          (case parseTransaction E iface calldata of Inr (Some p) \<Rightarrow> Some (parsed_transaction p) | _ \<Rightarrow> None))"

text \<open>
  The arguments of a call, with the decoding of bytes as \<open>recur\<close>.
\<close>

definition decodeBytesParam ::
  "(string \<Rightarrow> 's \<Rightarrow> DecodeRecursiveResult option \<times> 's) \<Rightarrow> string \<Rightarrow> 's \<Rightarrow> ArgValue \<times> 's" where
  "decodeBytesParam recur v s =
     (case recur v s of (Some d, s') \<Rightarrow> (Object d, s') | (None, s') \<Rightarrow> (Str v, s'))"

fun decodeTupleParam ::
  "(string \<Rightarrow> 's \<Rightarrow> DecodeRecursiveResult option \<times> 's) \<Rightarrow> ArgValue list \<Rightarrow> 's \<Rightarrow> ArgValue list \<times> 's" where
  "decodeTupleParam recur [] s = ([], s)"
| "decodeTupleParam recur (v # vs) s =
     (let (w, s1) = (case v of
            Str t \<Rightarrow> if starts_with t ''0x'' then decodeBytesParam recur t s else (v, s)
          | _ \<Rightarrow> (v, s));
          (ws, s2) = decodeTupleParam recur vs s1
      in (w # ws, s2))"

fun decodeParamTypes ::
    "(string \<Rightarrow> 's \<Rightarrow> DecodeRecursiveResult option \<times> 's) \<Rightarrow> ArgValue \<Rightarrow> string \<Rightarrow> 's \<Rightarrow> ArgValue \<times> 's"
  and decodeArrayParam ::
    "(string \<Rightarrow> 's \<Rightarrow> DecodeRecursiveResult option \<times> 's) \<Rightarrow> ArgValue list \<Rightarrow> string \<Rightarrow> 's \<Rightarrow> ArgValue list \<times> 's" where
  "decodeParamTypes recur v type s =
     (case v of
        Str t \<Rightarrow> if type = ''bytes'' then decodeBytesParam recur t s else (v, s)
      | Items vs \<Rightarrow>
          if starts_with type ''tuple'' then
            (let (ws, s1) = decodeTupleParam recur vs s in (Items ws, s1))
          else if contains_text type ''[]'' then
            (let (ws, s1) = decodeArrayParam recur vs (replace_first ''[]'' [] type) s in (Items ws, s1))
          else (v, s)
      | _ \<Rightarrow> (v, s))"
| "decodeArrayParam recur [] elementType s = ([], s)"
| "decodeArrayParam recur (v # vs) elementType s =
     (let (w, s1) = decodeParamTypes recur v elementType s;
          (ws, s2) = decodeArrayParam recur vs elementType s1
      in (w # ws, s2))"

fun decode_args ::
  "(string \<Rightarrow> 's \<Rightarrow> DecodeRecursiveResult option \<times> 's) \<Rightarrow> (string \<times> string \<times> ArgValue) list \<Rightarrow> 's \<Rightarrow>
     (string \<times> string \<times> ArgValue) list \<times> 's" where
  "decode_args recur [] s = ([], s)"
| "decode_args recur ((name, type, v) # ps) s =
     (let (w, s1) = decodeParamTypes recur v type s;
          (qs, s2) = decode_args recur ps s1
      in ((name, type, w) # qs, s2))"

text \<open>What a call is decoded with: an interface, or an address and a chain.\<close>

record CallSource =
  cs_abi :: "json option"
  cs_address :: "string option"
  cs_chainId :: "nat option"

definition no_source :: CallSource where
  "no_source = \<lparr>cs_abi = None, cs_address = None, cs_chainId = None\<rparr>"

definition located_by :: "CallSource \<Rightarrow> (string \<times> nat) option" where
  "located_by c =
     (case (setting (cs_address c), cs_chainId c) of
        (Some a, Some n) \<Rightarrow> if n = 0 then None else Some (a, n)
      | _ \<Rightarrow> None)"

definition has_source :: "CallSource \<Rightarrow> bool" where
  "has_source c \<longleftrightarrow> truthy (cs_abi c) \<or> located_by c \<noteq> None"

definition parsed_with ::
  "Browser \<Rightarrow> 'i Ethers \<Rightarrow> string \<Rightarrow> CallSource \<Rightarrow> Decoder \<Rightarrow> ParsedTransaction option \<times> Decoder" where
  "parsed_with B E calldata c s =
     (let first = (if truthy (cs_abi c) then decodeWithABI E (the (cs_abi c)) calldata else None)
      in case (first, located_by c) of
           (None, Some (address, chainId)) \<Rightarrow>
             (let (found, s1) = decodeWithAddress B E address chainId calldata s
              in (case found of None \<Rightarrow> None | Some d \<Rightarrow> ad_result d, s1))
         | _ \<Rightarrow> (first, s))"

function decodeRecursive ::
  "Browser \<Rightarrow> 'i Ethers \<Rightarrow> string \<Rightarrow> CallSource \<Rightarrow> Decoder \<Rightarrow> DecodeRecursiveResult option \<times> Decoder" where
  "decodeRecursive B E calldata c s =
     (if \<not> has_source c then (None, s)
      else case parsed_with B E calldata c s of
        (None, s1) \<Rightarrow> (None, s1)
      | (Some t, s1) \<Rightarrow>
          (let (decodedArgs, s2) =
             decode_args (\<lambda>bytes. decodeRecursive B E bytes no_source) (pt_args t) s1
           in (Some (Result (pt_name t) decodedArgs (map (\<lambda>(_, _, v). v) (pt_args t))), s2)))"
  by pat_completeness auto
termination
  by (relation "measure (\<lambda>(B, E, calldata, c, s). if has_source c then 1 else 0)")
    (auto simp: has_source_def no_source_def located_by_def setting_def truthy_def)

end
