(* ===== verification/WebCallData.thy ===== *)
theory WebCallData
  imports WebDecoder
begin

text \<open>
  The decoded actions of a proposal's page (packages/web/src/hooks/useDecodeCallData.ts): parsing
  by the signature, the cache of decodings, and what is shown of each action. The hook decodes the
  actions in their order.
\<close>

section \<open>Parsing by the signature\<close>

record ParsedParam =
  pv_name :: string
  pv_type :: string
  pv_value :: ArgValue

text \<open>\<open>text.split(/\s+/)\<close>.\<close>

function split_spaces :: "string \<Rightarrow> string list" where
  "split_spaces s =
     (let rest = dropWhile (\<lambda>c. \<not> is_space c) s
      in if rest = [] then [s]
         else takeWhile (\<lambda>c. \<not> is_space c) s # split_spaces (dropWhile is_space rest))"
  by pat_completeness auto
termination
proof (relation "measure length", simp)
  fix s x :: string
  assume def_x: "x = dropWhile (\<lambda>c. \<not> is_space c) s" and "x \<noteq> []"
  then obtain c r where x: "x = c # r" "is_space c"
    by (metis hd_dropWhile list.exhaust_sel)
  have "length (dropWhile is_space x) < length x"
    using x by (simp add: le_imp_less_Suc length_dropWhile_le)
  also have "length x \<le> length s" using def_x by (simp add: length_dropWhile_le)
  finally show "(dropWhile is_space x, s) \<in> measure length" by simp
qed

definition parameters_regex :: regex where
  "parameters_regex = seq [Lit (CHR ''(''), Group (Star True (Class Dot)), Lit (CHR '')'')]"

text \<open>\<open>String(v)\<close> of what is not an array.\<close>

definition String_of :: "ArgValue \<Rightarrow> string" where
  "String_of v =
     (case v of
        Str t \<Rightarrow> t
      | Big n \<Rightarrow> int_text 10 n
      | Truth b \<Rightarrow> if b then ''true'' else ''false''
      | Items _ \<Rightarrow> []
      | Object _ \<Rightarrow> ''[object Object]'')"

definition plain_value :: "ArgValue \<Rightarrow> ArgValue" where
  "plain_value v = (case v of Items vs \<Rightarrow> Items vs | _ \<Rightarrow> Str (String_of v))"

definition big_text :: "ArgValue \<Rightarrow> ArgValue" where
  "big_text v = (case v of Big n \<Rightarrow> Str (int_text 10 n) | _ \<Rightarrow> v)"

definition calldata_param :: "(nat \<Rightarrow> ArgValue outcome) \<Rightarrow> nat \<times> string \<Rightarrow> ParsedParam outcome" where
  "calldata_param decoded p =
     (let (index, paramDef) = p;
          parts = split_spaces (trim paramDef);
          type = hd parts;
          name = (if 2 \<le> length parts then join_text '' '' (tl parts) else type)
      in and_then (decoded index) (\<lambda>v.
           Inr \<lparr>pv_name = name, pv_type = type,
                pv_value = plain_value (case v of Items vs \<Rightarrow> Items (map big_text vs) | _ \<Rightarrow> v)\<rparr>))"

definition parseCalldataParams :: "'i Ethers \<Rightarrow> string \<Rightarrow> string \<Rightarrow> ParsedParam list" where
  "parseCalldataParams E signature calldata =
     (if signature = [] \<or> calldata = [] \<or> calldata = ''0x'' then []
      else
        case and_then (simplifyFunctionSignature signature) (\<lambda>simplified.
             and_then (Interface E (JArray [JString (''function '' @ simplified)])) (\<lambda>iface.
             and_then (decodeFunctionData E iface (hd (split_on (CHR ''('') simplified)) calldata) (\<lambda>decoded.
               case capture_of signature parameters_regex of
                 None \<Rightarrow> Inr []
               | Some ps \<Rightarrow>
                   if trim ps = [] then Inr []
                   else map_outcome (calldata_param decoded)
                     (enumerate 0 (map trim (split_on (CHR '','') ps))))))
        of Inr ps \<Rightarrow> ps | Inl _ \<Rightarrow> [])"

section \<open>Decoding the actions\<close>

record CallAction =
  ca_target :: string
  ca_calldata :: string
  ca_signature :: "string option"
  ca_value :: string

record Page =
  page_decoder :: Decoder
  decodingCache :: "DecodeRecursiveResult option table"

definition decoding_key :: "nat option \<Rightarrow> CallAction \<Rightarrow> string" where
  "decoding_key chain a =
     ca_calldata a @ ''-'' @ ca_target a @ ''-'' @ shown (map_option (nat_text 10) chain) @ ''-'' @
     shown (ca_signature a)"

definition compute_decoding ::
  "Browser \<Rightarrow> 'i Ethers \<Rightarrow> nat option \<Rightarrow> CallAction \<Rightarrow> Decoder \<Rightarrow> DecodeRecursiveResult option \<times> Decoder" where
  "compute_decoding B E chain a s =
     (let simpleParams = (case setting (ca_signature a) of
            None \<Rightarrow> [] | Some sig \<Rightarrow> parseCalldataParams E sig (ca_calldata a))
      in if simpleParams \<noteq> [] then
           (Some (Result (hd (split_on (CHR ''('') (the (ca_signature a))))
              (map (\<lambda>p. (pv_name p, pv_type p, pv_value p)) simpleParams) (map pv_value simpleParams)), s)
         else case chain of
           Some n \<Rightarrow>
             if n \<noteq> 0 \<and> ca_target a \<noteq> [] then
               decodeRecursive B E (ca_calldata a)
                 \<lparr>cs_abi = None, cs_address = Some (ca_target a), cs_chainId = Some n\<rparr> s
             else (None, s)
         | None \<Rightarrow> (None, s))"

definition decode_action ::
  "Browser \<Rightarrow> 'i Ethers \<Rightarrow> nat option \<Rightarrow> CallAction \<Rightarrow> Page \<Rightarrow> DecodeRecursiveResult option \<times> Page" where
  "decode_action B E chain a p =
     (if ca_calldata a = [] \<or> ca_calldata a = ''0x'' then (None, p)
      else case map_of (decodingCache p) (decoding_key chain a) of
        Some result \<Rightarrow> (result, p)
      | None \<Rightarrow>
          (let (result, d) = compute_decoding B E chain a (page_decoder p)
           in (result, \<lparr>page_decoder = d,
                        decodingCache = AList.update (decoding_key chain a) result (decodingCache p)\<rparr>)))"

section \<open>What is shown\<close>

record DecodedAction =
  da_action :: CallAction
  da_result :: "DecodeRecursiveResult option"
  da_isDecoding :: bool
  da_parsedCalldata :: "ParsedParam list"
  da_functionName :: "string option"
  da_fullFunctionSignature :: string

definition shown_action :: "CallAction \<Rightarrow> DecodeRecursiveResult option \<Rightarrow> DecodedAction" where
  "shown_action a result =
     (let parsed = (case result of
            None \<Rightarrow> []
          | Some r \<Rightarrow> map (\<lambda>(n, t, v). \<lparr>pv_name = n, pv_type = t, pv_value = plain_value v\<rparr>) (args r));
          decodedName = setting (map_option functionName result);
          sigName = map_option (\<lambda>sig. hd (split_on (CHR ''('') sig)) (ca_signature a)
      in \<lparr>da_action = a, da_result = result, da_isDecoding = False, da_parsedCalldata = parsed,
          da_functionName = (if decodedName = None then sigName else decodedName),
          da_fullFunctionSignature =
            (case (decodedName, setting (ca_signature a)) of
               (Some f, sig) \<Rightarrow>
                 if parsed \<noteq> [] then
                   f @ ''('' @ join_text '', '' (map (\<lambda>p. pv_type p @ '' '' @ pv_name p) parsed) @ '')''
                 else (case sig of Some t \<Rightarrow> t | None \<Rightarrow> f @ ''()'')
             | (None, Some t) \<Rightarrow> t
             | (None, None) \<Rightarrow> [])\<rparr>)"

fun decode_actions ::
  "Browser \<Rightarrow> 'i Ethers \<Rightarrow> nat option \<Rightarrow> CallAction list \<Rightarrow> Page \<Rightarrow> DecodedAction list \<times> Page" where
  "decode_actions B E chain [] p = ([], p)"
| "decode_actions B E chain (a # as) p =
     (let (result, p1) = decode_action B E chain a p;
          (rest, p2) = decode_actions B E chain as p1
      in (shown_action a result # rest, p2))"

end
