(* ===== verification/WebDecoderClaims.thy ===== *)
theory WebDecoderClaims
  imports WebCallData
begin

text \<open>
  What the decoding of calls keeps and promises: one request per contract under way, the entries of
  the cache across reloads and through its export, decodings that are remembered, and arguments
  that are shown as they came.
\<close>

section \<open>One request at a time for a contract\<close>

text \<open>Callers ask in any order, and the requests under way are answered in any order.\<close>

inductive fetch_step :: "Browser \<Rightarrow> Decoder \<times> nat set \<Rightarrow> Decoder \<times> nat set \<Rightarrow> bool" for B where
  asks: "start_fetch address chainId s = (r, s') \<Longrightarrow>
    fetch_step B (s, under_way) (s', if length (sent s) < length (sent s') then insert r under_way else under_way)"
| answered: "r \<in> under_way \<Longrightarrow> sent s ! r = (address, chainId) \<Longrightarrow>
    finish_fetch B address chainId answer s = (abis, s') \<Longrightarrow> fetch_step B (s, under_way) (s', under_way - {r})"

definition new_page :: "Decoder \<Rightarrow> bool" where
  "new_page s \<longleftrightarrow> abiRequestCache s = [] \<and> sent s = []"

inductive fetch_reachable :: "Browser \<Rightarrow> Decoder \<times> nat set \<Rightarrow> bool" for B where
  start: "new_page s \<Longrightarrow> fetch_reachable B (s, {})"
| step: "fetch_reachable B c \<Longrightarrow> fetch_step B c c' \<Longrightarrow> fetch_reachable B c'"

abbreviation sent_key :: "Decoder \<Rightarrow> nat \<Rightarrow> string" where
  "sent_key s r \<equiv> request_key (fst (sent s ! r)) (snd (sent s ! r))"

definition flights_inv :: "Decoder \<times> nat set \<Rightarrow> bool" where
  "flights_inv c \<longleftrightarrow>
     (let (s, under_way) = c
      in distinct (map fst (abiRequestCache s)) \<and>
         (\<forall>(k, r) \<in> set (abiRequestCache s). r < length (sent s) \<and> k = sent_key s r) \<and>
         under_way = snd ` set (abiRequestCache s))"

lemma set_update_new: "k \<notin> fst ` set xs \<Longrightarrow> set (AList.update k v xs) = insert (k, v) (set xs)"
  by (induction xs) auto

lemma setCachedAbi_frame [simp]:
  "abiRequestCache (setCachedAbi B a n abi name s) = abiRequestCache s"
  "sent (setCachedAbi B a n abi name s) = sent s"
  by (auto simp: setCachedAbi_def setItem_def catching_def Let_def)

lemma finish_fetch_frame:
  assumes "finish_fetch B a n answer s = (abis, s')"
  shows "sent s' = sent s \<and> abiRequestCache s' = AList.delete (request_key a n) (abiRequestCache s)"
  using assms by (auto simp: finish_fetch_def Let_def split: sum.splits list.splits prod.splits)

lemma flights_inv_step:
  assumes "fetch_step B c c'" and "flights_inv c"
  shows "flights_inv c'"
  using assms
proof (cases rule: fetch_step.cases)
  case (asks address chainId s r s' under_way)
  let ?k = "request_key address chainId"
  show ?thesis
  proof (cases "map_of (abiRequestCache s) ?k")
    case None
    then have new: "?k \<notin> fst ` set (abiRequestCache s)" by (simp add: map_of_eq_None_iff)
    from asks(3) None have s': "s' = s\<lparr>sent := sent s @ [(address, chainId)],
        abiRequestCache := AList.update ?k (length (sent s)) (abiRequestCache s)\<rparr>" "r = length (sent s)"
      by (auto simp: start_fetch_def Let_def)
    with assms(2) asks(1,2) show ?thesis
      by (auto simp: flights_inv_def set_update_new [OF new] distinct_update nth_append)
  next
    case (Some q)
    with asks(3) have "s' = s" by (simp add: start_fetch_def Let_def)
    with assms(2) asks(1,2) show ?thesis by simp
  qed
next
  case (answered r under_way s address chainId answer abis s')
  let ?k = "request_key address chainId"
  from finish_fetch_frame [OF answered(5)] have s': "sent s' = sent s"
    "abiRequestCache s' = AList.delete ?k (abiRequestCache s)" by auto
  from assms(2) answered have inv: "distinct (map fst (abiRequestCache s))"
    "\<forall>(k, r) \<in> set (abiRequestCache s). r < length (sent s) \<and> k = sent_key s r"
    "under_way = snd ` set (abiRequestCache s)"
    by (auto simp: flights_inv_def)
  have key: "?k = sent_key s r" using answered(4) by simp
  have "set (AList.delete ?k (abiRequestCache s)) = {(k, q) \<in> set (abiRequestCache s). q \<noteq> r}"
  proof -
    have "k \<noteq> ?k \<longleftrightarrow> q \<noteq> r" if "(k, q) \<in> set (abiRequestCache s)" for k q
    proof -
      have of_key: "(x, y) \<in> set (abiRequestCache s) \<Longrightarrow> x = sent_key s y" for x y
        using inv(2) by blast
      obtain k' where "(k', r) \<in> set (abiRequestCache s)" using answered(3) inv(3) by auto
      with of_key [of k' r] key have there: "(?k, r) \<in> set (abiRequestCache s)" by simp
      show ?thesis
      proof
        assume "k \<noteq> ?k"
        with of_key [OF that] key show "q \<noteq> r" by metis
      next
        assume "q \<noteq> r"
        with eq_key_imp_eq_value [OF inv(1) there] that show "k \<noteq> ?k" by metis
      qed
    qed
    then show ?thesis by (auto simp: AList.delete_eq)
  qed
  with inv answered(2) s' show ?thesis
    by (auto simp: flights_inv_def distinct_delete image_iff)
qed

lemma flights_inv_reachable: "fetch_reachable B c \<Longrightarrow> flights_inv c"
proof (induction rule: fetch_reachable.induct)
  case (start s)
  then show ?case by (simp add: flights_inv_def new_page_def)
next
  case (step c c')
  then show ?case by (blast intro: flights_inv_step)
qed

text \<open>
  The table of requests is kept by the address as it is written: the same contract in two letter cases
  has two requests under way, although the interfaces found are kept by the lower-case address.
\<close>

lemma two_spellings_two_requests:
  assumes "address \<noteq> other" and "to_lower address = to_lower other"
    and "map_of (abiRequestCache s) (request_key address chainId) = None"
    and "map_of (abiRequestCache s) (request_key other chainId) = None"
    and "start_fetch address chainId s = (q, s1)" and "start_fetch other chainId s1 = (r, s2)"
  shows "q \<noteq> r \<and> sent s2 = sent s @ [(address, chainId), (other, chainId)] \<and>
    cache_key address chainId = cache_key other chainId"
proof -
  have "request_key address chainId \<noteq> request_key other chainId" using assms(1) by (simp add: request_key_def)
  then show ?thesis
    using assms by (auto simp: start_fetch_def Let_def AList.update_conv' cache_key_def)
qed

text \<open>
  C30: Whatever the order in which callers ask for the interfaces of contracts and the service
  answers, no two requests under way are for the same spelling of an address on the same chain, the
  next caller that asks for that spelling and chain waits for the request and sends none, and when
  none is under way the table of requests is empty. The spelling counts, other than in the cache of
  interfaces (lemma \<open>two_spellings_two_requests\<close>).
\<close>

theorem one_request_under_way:
  assumes "fetch_reachable B (s, under_way)"
  shows "inj_on (sent_key s) under_way \<and>
    (\<forall>r address chainId. r \<in> under_way \<and> sent s ! r = (address, chainId) \<longrightarrow>
       start_fetch address chainId s = (r, s)) \<and>
    (under_way = {} \<longrightarrow> abiRequestCache s = [])"
proof (intro conjI allI impI)
  from flights_inv_reachable [OF assms] have inv: "distinct (map fst (abiRequestCache s))"
    "\<And>k r. (k, r) \<in> set (abiRequestCache s) \<Longrightarrow> k = sent_key s r"
    "under_way = snd ` set (abiRequestCache s)"
    by (auto simp: flights_inv_def)
  have entry: "map_of (abiRequestCache s) (sent_key s r) = Some r" if r: "r \<in> under_way" for r
  proof -
    obtain k where "(k, r) \<in> set (abiRequestCache s)" using r inv(3) by auto
    with inv(2) [OF this] map_of_is_SomeI [OF inv(1)] show ?thesis by metis
  qed
  show "inj_on (sent_key s) under_way"
  proof (rule inj_onI)
    fix q r
    assume qr: "q \<in> under_way" "r \<in> under_way" and same: "sent_key s q = sent_key s r"
    from entry [OF qr(1)] entry [OF qr(2)] show "q = r" unfolding same by simp
  qed
  show "start_fetch address chainId s = (r, s)"
    if "r \<in> under_way \<and> sent s ! r = (address, chainId)" for r address chainId
  proof -
    from that have "map_of (abiRequestCache s) (request_key address chainId) = Some r"
      using entry [of r] by auto
    then show ?thesis by (simp add: start_fetch_def Let_def)
  qed
  show "under_way = {} \<Longrightarrow> abiRequestCache s = []" using inv(3) by simp
qed

section \<open>What is kept of an interface\<close>

text \<open>An environment in which the storage takes what is put into it and numbers are written in digits.\<close>

definition storage_works :: "Browser \<Rightarrow> bool" where
  "storage_works B \<longleftrightarrow>
     client_side B \<and> storage_open B \<and> (\<forall>d. storage_fits B d) \<and> (\<forall>n. number_text B (real n) = nat_text 10 n)"

lemma entry_writable:
  assumes "storage_works B" and "writable (number_text B) abi"
  shows "writable (number_text B) (cache_entry a n abi name now)"
  using assms digits_written by (auto simp: cache_entry_def storage_works_def)

lemma cache_key_lower: "to_lower a = to_lower b \<Longrightarrow> cache_key a n = cache_key b n"
  by (simp add: cache_key_def)

lemma set_item_stores:
  "storage_works B \<Longrightarrow> setItem B k t s = (Inr (), s\<lparr>localStorage := AList.update k t (localStorage s)\<rparr>)"
  by (simp add: setItem_def storage_works_def Let_def)

lemma stringify_not_Nil: "writable nt j \<Longrightarrow> stringify nt j \<noteq> []"
  using value_start [of nt j] by auto

text \<open>
  An interface that was put into the cache is found again, for the address in any letter case,
  both on the same page and after a reload, when only the browser's storage is left.
\<close>

theorem cached_abi_survives_reload:
  assumes "storage_works B" and "writable (number_text B) abi" and "to_lower a = to_lower b"
    and "localStorage reloaded = localStorage (setCachedAbi B a n abi name s)" and "abiCache reloaded = []"
  shows "fst (getCachedAbi B b n (setCachedAbi B a n abi name s)) = Some (cache_entry a n abi name (clock s)) \<and>
    fst (getCachedAbi B b n reloaded) = Some (cache_entry a n abi name (clock s))"
proof -
  let ?e = "cache_entry a n abi name (clock s)"
  have key: "cache_key b n = cache_key a n" using assms(3) by (simp add: cache_key_def)
  have truth: "truthy (Some ?e)" by (simp add: truthy_def cache_entry_def)
  have set: "setCachedAbi B a n abi name s = s\<lparr>abiCache := AList.update (cache_key a n) ?e (abiCache s),
      localStorage := AList.update (CACHE_PREFIX @ cache_key a n) (stringify (number_text B) ?e) (localStorage s)\<rparr>"
    using assms(1) by (simp add: setCachedAbi_def catching_def set_item_stores storage_works_def Let_def)
  have w: "writable (number_text B) ?e" by (rule entry_writable [OF assms(1,2)])
  have "fst (getCachedAbi B b n (setCachedAbi B a n abi name s)) = Some ?e"
    unfolding set by (simp add: getCachedAbi_def Let_def key truth update_conv')
  moreover have "fst (getCachedAbi B b n reloaded) = Some ?e"
    using assms(1,4,5) stringify_not_Nil [OF w]
    by (simp add: getCachedAbi_def key set truthy_def update_conv' parse_stringify [OF w] storage_works_def)
  ultimately show ?thesis by simp
qed

text \<open>But the decoding of a call never looks: its result does not depend on the caches.\<close>

lemma fetch_ignores_caches:
  "fst (fetchContractAbis B a n (s\<lparr>abiCache := m, localStorage := d\<rparr>)) = fst (fetchContractAbis B a n s)"
  by (simp add: fetchContractAbis_def start_fetch_def finish_fetch_def Let_def split: option.splits sum.splits list.splits)

lemma decode_ignores_caches:
  "fst (decodeWithAddress B E a n calldata (s\<lparr>abiCache := m, localStorage := d\<rparr>)) =
     fst (decodeWithAddress B E a n calldata s)"
proof -
  have "fst (decodeWithAddress B E a n calldata x) = fst (decodeWithAddress B E a n calldata y)"
    if "fst (fetchContractAbis B a n x) = fst (fetchContractAbis B a n y)" for x y
    unfolding decodeWithAddress_def by (simp add: case_prod_beta Let_def that)
  then show ?thesis using fetch_ignores_caches by blast
qed

text \<open>
  An interface of the wrong form ends the attempt, whatever the interfaces behind it could decode.
\<close>

lemma malformed_abi_ends_attempt:
  assumes "Interface E (ai_abi a) = Inl e"
  shows "try_abis E calldata (a # as) = Inl e"
  by (simp add: assms)

section \<open>The export of the cache\<close>

definition exported :: "Decoder \<Rightarrow> (string \<times> string) list" where
  "exported s = filter (\<lambda>(k, t). starts_with k CACHE_PREFIX \<and> t \<noteq> []) (localStorage s)"

lemma import_entries:
  assumes "storage_works B" and "\<forall>(k, t) \<in> set fs. starts_with k CACHE_PREFIX"
  shows "for_each (import_entry B) (map (\<lambda>(k, t). (k, JString t)) fs) s =
    (Inr (), s\<lparr>localStorage := foldl (\<lambda>d (k, t). AList.update k t d) (localStorage s) fs\<rparr>)"
  using assms(2)
proof (induction fs arbitrary: s)
  case (Cons f fs)
  then show ?case
    by (cases f) (simp add: import_entry_def set_item_stores [OF assms(1)] after_def)
qed simp

lemma map_of_updates:
  "distinct (map fst fs) \<Longrightarrow>
     map_of (foldl (\<lambda>d (k, t). AList.update k t d) d fs) k =
       (case map_of fs k of None \<Rightarrow> map_of d k | Some t \<Rightarrow> Some t)"
proof (induction fs arbitrary: d)
  case (Cons f fs)
  obtain q t where f: "f = (q, t)" by (cases f)
  with Cons.prems have "map_of fs q = None" by (simp add: map_of_eq_None_iff)
  with Cons f show ?case by (cases "k = q") (simp_all add: update_conv' split: option.split)
qed simp

text \<open>
  C31: What one browser exports another can import: the import succeeds, and afterwards the storage
  holds every exported entry and, under the other names, what it held before.
\<close>

theorem export_import_roundtrip:
  assumes "storage_works B" and "distinct (map fst (localStorage s))" and "exportCache B s = Inr t"
  shows "fst (importCache B t u) \<and>
    (\<forall>k. map_of (localStorage (snd (importCache B t u))) k =
       (case map_of (exported s) k of None \<Rightarrow> map_of (localStorage u) k | Some e \<Rightarrow> Some e))"
proof -
  let ?fs = "exported s"
  have d: "distinct (map fst ?fs)" using assms(2) by (simp add: exported_def distinct_map_filter)
  have t: "t = stringify_record ?fs"
    using assms(1,3) by (simp add: exportCache_def exported_def storage_denied_def storage_works_def)
  have "\<forall>(k, t) \<in> set ?fs. starts_with k CACHE_PREFIX" by (auto simp: exported_def)
  from import_entries [OF assms(1) this] parse_record [OF d] assms(1)
  have "importCache B t u =
      (True, u\<lparr>localStorage := foldl (\<lambda>d (k, t). AList.update k t d) (localStorage u) ?fs\<rparr>)"
    by (simp add: importCache_def t catching_def after_def storage_works_def)
  then show ?thesis by (simp add: map_of_updates [OF d])
qed

section \<open>The arguments of a call\<close>

text \<open>Bytes are decoded with no interface and no address, which decodes nothing.\<close>

definition decodes_nothing :: "(string \<Rightarrow> 's \<Rightarrow> DecodeRecursiveResult option \<times> 's) \<Rightarrow> bool" where
  "decodes_nothing recur \<longleftrightarrow> (\<forall>t s. recur t s = (None, s))"

lemma bytes_stay: "decodes_nothing recur \<Longrightarrow> decodeBytesParam recur t s = (Str t, s)"
  by (simp add: decodeBytesParam_def decodes_nothing_def)

lemma tuple_stays: "decodes_nothing recur \<Longrightarrow> decodeTupleParam recur vs s = (vs, s)"
  by (induction vs) (auto simp: bytes_stay split: ArgValue.split)

lemma params_stay:
  "decodes_nothing recur \<Longrightarrow> decodeParamTypes recur v t s = (v, s)"
  "decodes_nothing recur \<Longrightarrow> decodeArrayParam recur vs t s = (vs, s)"
  by (induction recur v t s and recur vs t s rule: decodeParamTypes_decodeArrayParam.induct)
    (auto simp: bytes_stay tuple_stays split: ArgValue.split)

lemma args_stay: "decodes_nothing recur \<Longrightarrow> decode_args recur ps s = (ps, s)"
  by (induction recur ps s rule: decode_args.induct) (simp_all add: params_stay del: decodeParamTypes.simps)

declare decodeRecursive.simps [simp del]

lemma nothing_from_bytes: "decodes_nothing (\<lambda>bytes. decodeRecursive B E bytes no_source)"
  by (simp add: decodes_nothing_def decodeRecursive.simps has_source_def no_source_def located_by_def
      setting_def truthy_def)

text \<open>
  The decoding of a call shows its arguments as the outermost call has them: the arguments are
  those of the parsed transaction in their order, each with its value unchanged, the values are also
  the raw ones, and no further request is sent for the bytes among them.
\<close>

theorem decoding_is_one_level:
  "decodeRecursive B E calldata c s =
     (case parsed_with B E calldata c s of
        (Some t, s') \<Rightarrow>
          if has_source c
          then (Some (Result (pt_name t) (pt_args t) (map (snd \<circ> snd) (pt_args t))), s') else (None, s)
      | (None, s') \<Rightarrow> if has_source c then (None, s') else (None, s))"
proof -
  have "(\<lambda>(_, _, v). v) = (snd \<circ> snd :: string \<times> string \<times> ArgValue \<Rightarrow> ArgValue)" by auto
  then show ?thesis
    by (auto simp: decodeRecursive.simps [of B E calldata c s] args_stay [OF nothing_from_bytes]
        split: prod.splits option.splits)
qed

section \<open>Decodings that are remembered\<close>

locale memo =
  fixes look :: "'k \<Rightarrow> 's \<Rightarrow> 'v option"
    and answer :: "'e \<Rightarrow> 'k \<Rightarrow> 's \<Rightarrow> 'v \<times> 's"
  assumes remembered: "look k (snd (answer e k s)) = Some (fst (answer e k s))"
    and reused: "look k s = Some v \<Longrightarrow> answer e k s = (v, s)"
    and others: "look k' s = Some v \<Longrightarrow> look k' (snd (answer e k s)) = Some v"
begin

lemma still_known: "look k s = Some v \<Longrightarrow> look k (foldl (\<lambda>s (e, q). snd (answer e q s)) s qs) = Some v"
proof (induction qs arbitrary: s)
  case (Cons q qs)
  obtain e k' where q: "q = (e, k')" by (cases q)
  from others [OF Cons.prems] have "look k (snd (answer e k' s)) = Some v" .
  with Cons.IH q show ?case by simp
qed simp

lemma always_the_first_answer:
  "fst (answer e' k (foldl (\<lambda>s (e, q). snd (answer e q s)) (snd (answer e k s)) qs)) = fst (answer e k s)"
proof -
  have "look k (foldl (\<lambda>s (e, q). snd (answer e q s)) (snd (answer e k s)) qs) = Some (fst (answer e k s))"
    by (rule still_known) (rule remembered)
  from reused [OF this] show ?thesis by simp
qed

end

definition known_decoding :: "nat option \<times> CallAction \<Rightarrow> Page \<Rightarrow> DecodeRecursiveResult option option" where
  "known_decoding k p =
     (let (chain, a) = k
      in if ca_calldata a = [] \<or> ca_calldata a = ''0x'' then Some None
         else map_of (decodingCache p) (decoding_key chain a))"

text \<open>One decoding on the page: in which environment, and of which action on which chain.\<close>

definition asked_decoding ::
  "Browser \<times> 'i Ethers \<Rightarrow> nat option \<times> CallAction \<Rightarrow> Page \<Rightarrow> DecodeRecursiveResult option \<times> Page" where
  "asked_decoding e k p = decode_action (fst e) (snd e) (fst k) (snd k) p"

interpretation decodings: memo known_decoding asked_decoding
  by unfold_locales
    (auto simp: known_decoding_def asked_decoding_def decode_action_def update_conv' Let_def case_prod_beta
      split: option.splits if_splits)

text \<open>
  On one page a call has one decoding: after any further decodings, of whatever calls and
  whatever the service answers by then, decoding it again gives the first result, a failure
  included.
\<close>

theorem decoding_is_remembered:
  fixes e e' :: "Browser \<times> 'i Ethers" and qs :: "((Browser \<times> 'i Ethers) \<times> nat option \<times> CallAction) list"
  shows "fst (asked_decoding e' k (foldl (\<lambda>p (e, q). snd (asked_decoding e q p)) (snd (asked_decoding e k p)) qs)) =
     fst (asked_decoding e k p)"
  by (rule decodings.always_the_first_answer)

section \<open>Witnesses\<close>

definition demo_browser :: Browser where
  "demo_browser = \<lparr>client_side = True, storage_open = True, storage_fits = (\<lambda>_. True),
     number_text = (\<lambda>x. nat_text 10 (nat \<lfloor>x\<rfloor>)), abi_service = (\<lambda>_ _ _. Inr None)\<rparr>"

definition demo_page :: Decoder where
  "demo_page = \<lparr>abiCache = [], localStorage = [], abiRequestCache = [], sent = [], clock = 5\<rparr>"

lemma demo_storage: "storage_works demo_browser"
  by (simp add: storage_works_def demo_browser_def)

lemma one_request_under_way_witness:
  "\<exists>s. fetch_reachable demo_browser (s, {0}) \<and> inj_on (sent_key s) {0}"
proof -
  have "start_fetch ''0xab'' 1 demo_page =
      (0, demo_page\<lparr>sent := [(''0xab'', 1)], abiRequestCache := [(request_key ''0xab'' 1, 0)]\<rparr>)"
    by (simp add: start_fetch_def demo_page_def)
  from fetch_step.asks [OF this, of demo_browser "{}"]
  have "fetch_step demo_browser (demo_page, {})
      (demo_page\<lparr>sent := [(''0xab'', 1)], abiRequestCache := [(request_key ''0xab'' 1, 0)]\<rparr>, {0})"
    by (simp add: demo_page_def)
  then have "fetch_reachable demo_browser
      (demo_page\<lparr>sent := [(''0xab'', 1)], abiRequestCache := [(request_key ''0xab'' 1, 0)]\<rparr>, {0})"
    by (rule fetch_reachable.step [rotated]) (simp add: fetch_reachable.start new_page_def demo_page_def)
  from this one_request_under_way [OF this] show ?thesis by blast
qed

lemma cached_abi_survives_reload_witness:
  "fst (getCachedAbi demo_browser ''0xab'' 1
     (demo_page\<lparr>localStorage := localStorage (setCachedAbi demo_browser ''0xAB'' 1 (JArray []) ''Contract'' demo_page)\<rparr>)) =
   Some (cache_entry ''0xAB'' 1 (JArray []) ''Contract'' 5)"
proof -
  have lower: "to_lower ''0xAB'' = to_lower ''0xab''" by code_simp
  let ?r = "demo_page\<lparr>localStorage := localStorage (setCachedAbi demo_browser ''0xAB'' 1 (JArray []) ''Contract'' demo_page)\<rparr>"
  from cached_abi_survives_reload [OF demo_storage, where abi = "JArray []" and a = "''0xAB''" and b = "''0xab''"
      and n = 1 and name = "''Contract''" and s = demo_page and reloaded = ?r] lower
  show ?thesis by (simp add: demo_page_def)
qed

lemma export_import_roundtrip_witness:
  "map_of (localStorage (snd (importCache demo_browser
     (stringify_record [(''abi_cache_1-0xab'', ''5'')]) demo_page))) ''abi_cache_1-0xab'' = Some ''5''"
proof -
  let ?s = "demo_page\<lparr>localStorage := [(''abi_cache_1-0xab'', ''5'')]\<rparr>"
  have e: "exported ?s = [(''abi_cache_1-0xab'', ''5'')]"
    by (simp add: exported_def starts_with_def CACHE_PREFIX_def)
  then have "exportCache demo_browser ?s = Inr (stringify_record [(''abi_cache_1-0xab'', ''5'')])"
    by (simp add: exportCache_def exported_def storage_denied_def demo_browser_def)
  from export_import_roundtrip [OF demo_storage _ this, of demo_page] e show ?thesis by simp
qed

end
