(* ===== verification/WebTreasury.thy ===== *)
theory WebTreasury
  imports WebBase JsNumberText "HOL-Library.AList"
begin

text \<open>
  The treasury of the web client: the symbols and decimals of tokens (hooks/useGetTokenInfo.ts),
  their balances (hooks/useTokenBalances.ts), the market prices (hooks/useCryptoPrices.ts), the
  assets made of them with their shares and changes (hooks/useTreasuryAssets.ts), and the total of
  the treasury's page (app/treasury/page.tsx). The decimal arithmetic is a library's and a
  parameter; so are the reading of contracts and the texts of numbers. Doubles are those of
  \<open>JsNumber\<close>; a price that is missing or not a number is \<open>None\<close>.
\<close>

section \<open>Decimal numbers\<close>

record 'b Numbers =
  bn_of_text :: "string \<Rightarrow> 'b"
  bn_of_number :: "real \<Rightarrow> 'b"
  bn_is_nan :: "'b \<Rightarrow> bool"
  bn_is_zero :: "'b \<Rightarrow> bool"
  bn_plus :: "'b \<Rightarrow> 'b \<Rightarrow> 'b"
  bn_minus :: "'b \<Rightarrow> 'b \<Rightarrow> 'b"
  bn_times :: "'b \<Rightarrow> 'b \<Rightarrow> 'b"
  bn_div :: "'b \<Rightarrow> 'b \<Rightarrow> 'b"
  bn_number :: "'b \<Rightarrow> real"
  bn_fixed :: "'b \<Rightarrow> nat \<Rightarrow> string"
  bn_text :: "'b \<Rightarrow> string"

definition bn_zero :: "'b Numbers \<Rightarrow> 'b" where
  "bn_zero N = bn_of_number N 0"

definition toBigNumber :: "'b Numbers \<Rightarrow> string option \<Rightarrow> 'b" where
  "toBigNumber N v =
     (let bn = (case v of None \<Rightarrow> bn_zero N | Some t \<Rightarrow> bn_of_text N t)
      in if bn_is_nan N bn then bn_zero N else bn)"

definition number_or_zero :: "'b Numbers \<Rightarrow> real \<Rightarrow> 'b" where
  "number_or_zero N x =
     (let bn = bn_of_number N x in if bn_is_nan N bn then bn_zero N else bn)"

section \<open>Tokens\<close>

record TokenDetails =
  td_name :: string
  td_contract :: string
  td_standard :: string
  td_priceId :: "string option"
  td_logo :: "string option"

text \<open>A call of a token's contract, and the \<open>result\<close> of one: absent when it failed.\<close>

record TokenCall =
  tk_address :: string
  tk_function :: string

datatype ReadResult = Absent | BigResult int | NumberResult real | TextResult string

definition token_calls :: "TokenDetails list \<Rightarrow> nat option \<Rightarrow> TokenCall list" where
  "token_calls tokens chainId =
     (case chainId of
        None \<Rightarrow> []
      | Some _ \<Rightarrow>
          map (\<lambda>t. \<lparr>tk_address = td_contract t, tk_function = ''symbol''\<rparr>) tokens @
          map (\<lambda>t. \<lparr>tk_address = td_contract t, tk_function = ''decimals''\<rparr>)
            (filter (\<lambda>t. td_standard t = ''ERC20'') tokens))"

definition result_at :: "ReadResult list \<Rightarrow> nat \<Rightarrow> ReadResult" where
  "result_at rs i = (if i < length rs then rs ! i else Absent)"

definition decimals_of_result :: "ReadResult \<Rightarrow> real" where
  "decimals_of_result r =
     (case r of Absent \<Rightarrow> 0 | BigResult n \<Rightarrow> of_int n | NumberResult x \<Rightarrow> x | TextResult _ \<Rightarrow> 18)"

definition text_of_result :: "(real \<Rightarrow> string) \<Rightarrow> ReadResult \<Rightarrow> string" where
  "text_of_result nt r =
     (case r of Absent \<Rightarrow> ''undefined'' | BigResult n \<Rightarrow> int_text 10 n | NumberResult x \<Rightarrow> nt x | TextResult t \<Rightarrow> t)"

definition same_erc20 :: "TokenDetails \<Rightarrow> TokenDetails \<Rightarrow> bool" where
  "same_erc20 t c \<longleftrightarrow> td_standard c = ''ERC20'' \<and> td_contract c = td_contract t"

definition decimals_value :: "TokenDetails list \<Rightarrow> ReadResult list \<Rightarrow> TokenDetails \<Rightarrow> real" where
  "decimals_value tokens data t =
     (if td_standard t = ''ERC20''
      then decimals_of_result (case find (\<lambda>j. same_erc20 t (tokens ! j)) [0..<length tokens] of
             Some j \<Rightarrow> result_at data (length tokens + j)
           | None \<Rightarrow> result_at data (length tokens - 1))
      else 0)"

record TokenInfo =
  ti_symbol :: string
  ti_decimals :: real

definition token_info ::
  "(real \<Rightarrow> string) \<Rightarrow> TokenDetails list \<Rightarrow> ReadResult list \<Rightarrow> string \<rightharpoonup> TokenInfo" where
  "token_info nt tokens data =
     foldl (\<lambda>result i.
       let t = tokens ! i;
           symbolData = result_at data i
       in if symbolData = Absent then result
          else result(td_contract t \<mapsto>
            \<lparr>ti_symbol = text_of_result nt symbolData, ti_decimals = decimals_value tokens data t\<rparr>))
     Map.empty [0..<length tokens]"

section \<open>Balances\<close>

text \<open>The formatted balance, or the number zero.\<close>

datatype BalanceText = FormattedBalance string | ZeroBalance

record TokenWithBalance = TokenDetails +
  tb_rawBalance :: "int option"
  tb_balance :: "BalanceText option"
  tb_formattedBalance :: "string option"
  tb_formattedRawBalance :: "string option"

definition without_balance :: "TokenDetails \<Rightarrow> TokenWithBalance" where
  "without_balance t = TokenDetails.extend t
     \<lparr>tb_rawBalance = None, tb_balance = None, tb_formattedBalance = None, tb_formattedRawBalance = None\<rparr>"

definition balance_calls :: "TokenDetails list \<Rightarrow> string option \<Rightarrow> bool \<Rightarrow> nat option \<Rightarrow> TokenCall list" where
  "balance_calls assets address isEnabled chainId =
     (if setting address = None \<or> \<not> isEnabled \<or> chainId = None then []
      else map (\<lambda>t. \<lparr>tk_address = td_contract t, tk_function = ''balanceOf''\<rparr>)
        (filter (\<lambda>t. td_contract t \<noteq> [] \<and> td_standard t \<noteq> []) assets))"

record Formats =
  formatUnits :: "int \<Rightarrow> real \<Rightarrow> string"
  formatBigIntForDisplay :: "int \<Rightarrow> real \<Rightarrow> string"

definition int_or_zero :: "int option \<Rightarrow> int" where
  "int_or_zero b = (case b of None \<Rightarrow> 0 | Some n \<Rightarrow> n)"

definition with_balance ::
  "Formats \<Rightarrow> (string \<rightharpoonup> TokenInfo) \<Rightarrow> TokenDetails \<Rightarrow> int option \<Rightarrow> TokenWithBalance" where
  "with_balance F tokenInfo t rawBalance =
     (let n = int_or_zero rawBalance
      in if td_standard t = ''ERC721'' then
           TokenDetails.extend t
             \<lparr>tb_rawBalance = rawBalance, tb_balance = Some (FormattedBalance (if n = 0 then ''0'' else int_text 10 n)),
              tb_formattedBalance = Some (formatBigIntForDisplay F n 0),
              tb_formattedRawBalance = Some (formatUnits F n 0)\<rparr>
         else
           let decimals = (case tokenInfo (td_contract t) of None \<Rightarrow> 18 | Some i \<Rightarrow> ti_decimals i)
           in TokenDetails.extend t
             \<lparr>tb_rawBalance = rawBalance,
              tb_balance = Some (if n = 0 then ZeroBalance else FormattedBalance (formatUnits F n decimals)),
              tb_formattedBalance = Some (formatBigIntForDisplay F n decimals),
              tb_formattedRawBalance = Some (formatUnits F n decimals)\<rparr>)"

text \<open>The results of the calls are taken by the position of the asset.\<close>

definition assets_with_balances ::
  "Formats \<Rightarrow> (string \<rightharpoonup> TokenInfo) \<Rightarrow> TokenDetails list \<Rightarrow> int option list \<Rightarrow> TokenWithBalance list" where
  "assets_with_balances F tokenInfo assets balanceResults =
     (if balanceResults = [] then map without_balance assets
      else map (\<lambda>(index, t).
        if index < length balanceResults then with_balance F tokenInfo t (balanceResults ! index)
        else without_balance t) (enumerate 0 assets))"

section \<open>Prices\<close>

record CoinPrice =
  cp_usd :: "real option"
  cp_usd_24h_change :: "real option"
  cp_last_updated_at :: "real option"

record MarketData =
  md_price :: real
  md_change24hPercent :: real
  md_lastUpdatedAt :: "real option"

definition price_ids :: "string list \<Rightarrow> string list" where
  "price_ids coinIds = rev (remdups (rev (filter (\<lambda>i. i \<noteq> []) (map to_lower coinIds))))"

definition or_zero :: "real option \<Rightarrow> real" where
  "or_zero x = (case x of None \<Rightarrow> 0 | Some y \<Rightarrow> y)"

definition market_data :: "(string \<times> CoinPrice) list option \<Rightarrow> MarketData table" where
  "market_data answer =
     (case answer of
        None \<Rightarrow> []
      | Some entries \<Rightarrow>
          foldl (\<lambda>out (coinId, p). AList.update (to_lower coinId)
            \<lparr>md_price = or_zero (cp_usd p), md_change24hPercent = or_zero (cp_usd_24h_change p),
             md_lastUpdatedAt = cp_last_updated_at p\<rparr> out) [] entries)"

definition getPrice :: "MarketData table \<Rightarrow> string \<Rightarrow> real" where
  "getPrice m coinId = (case map_of m (to_lower coinId) of None \<Rightarrow> 0 | Some d \<Rightarrow> md_price d)"

definition getChange24h :: "MarketData table \<Rightarrow> string \<Rightarrow> real" where
  "getChange24h m coinId = (case map_of m (to_lower coinId) of None \<Rightarrow> 0 | Some d \<Rightarrow> md_change24hPercent d)"

section \<open>Assets\<close>

record HistoricalPrice =
  hp_price :: string
  hp_timestamp :: string

record TreasuryAsset =
  ta_address :: string
  ta_balance :: string
  ta_balanceRaw :: string
  ta_balanceUSD :: "string option"
  ta_chain :: string
  ta_displayDecimals :: "real option"
  ta_logo :: "string option"
  ta_name :: string
  ta_native :: "bool option"
  ta_price :: "string option"
  ta_symbol :: string
  ta_decimals :: "real option"
  ta_historicalPrices :: "HistoricalPrice list option"

record PriceChange =
  pc_absolute :: real
  pc_percent :: real

definition DAY_IN_MS :: int where
  "DAY_IN_MS = 86400000"

definition buildHistoricalPrices ::
  "'b Numbers \<Rightarrow> int \<Rightarrow> real option \<Rightarrow> real option \<Rightarrow> nat \<Rightarrow> HistoricalPrice list option" where
  "buildHistoricalPrices N now price changePercent precision =
     (case price of
        None \<Rightarrow> None
      | Some p \<Rightarrow>
          let priceBn = bn_of_number N p;
              current = \<lparr>hp_price = bn_fixed N priceBn precision, hp_timestamp = int_text 10 now\<rparr>
          in if bn_is_nan N priceBn then None
             else case changePercent of
               None \<Rightarrow> Some [current]
             | Some change \<Rightarrow>
                 let denominator = bn_plus N (bn_of_number N 1) (bn_div N (bn_of_number N change) (bn_of_number N 100));
                     previousPrice = (if bn_is_zero N denominator then bn_zero N else bn_div N priceBn denominator)
                 in Some [current, \<lparr>hp_price = bn_fixed N previousPrice precision,
                                    hp_timestamp = int_text 10 (now - DAY_IN_MS)\<rparr>])"

definition calculatePriceChange :: "'b Numbers \<Rightarrow> TreasuryAsset \<Rightarrow> PriceChange option" where
  "calculatePriceChange N asset =
     (case ta_historicalPrices asset of
        None \<Rightarrow> None
      | Some hs \<Rightarrow>
          if hs = [] then None
          else
            let currentPrice = toBigNumber N (ta_price asset);
                previous = toBigNumber N (Some (hp_price (last hs)));
                absolute = bn_minus N currentPrice previous
            in if bn_is_nan N currentPrice \<or> bn_is_nan N previous then None
               else Some \<lparr>pc_absolute = bn_number N absolute,
                 pc_percent = bn_number N (if bn_is_zero N previous then bn_zero N
                   else bn_times N (bn_div N absolute previous) (bn_of_number N 100))\<rparr>)"

definition sumBalanceUSD :: "'b Numbers \<Rightarrow> TreasuryAsset \<Rightarrow> 'b" where
  "sumBalanceUSD N asset =
     (let balanceUSD = toBigNumber N (ta_balanceUSD asset);
          balance = toBigNumber N (Some (ta_balance asset));
          price = toBigNumber N (ta_price asset)
      in if \<not> bn_is_zero N balanceUSD then balanceUSD
         else if bn_is_zero N balance \<or> bn_is_zero N price then bn_zero N
         else bn_times N balance price)"

record AssetWithPortfolio = TreasuryAsset +
  portfolioShare :: real
  balanceValue :: real
  balanceUSDValue :: real
  priceValue :: real
  priceChange24h :: "PriceChange option"
  holdingsChangeUSD :: real

record TreasuryAssetsData =
  tr_assets :: "AssetWithPortfolio list"
  tr_totalBalance :: real
  tr_totalValueUSD :: real
  tr_totalChangeUSD :: real
  tr_totalChangePercent :: real

definition normalized :: "TreasuryAsset \<Rightarrow> TreasuryAsset" where
  "normalized a = a\<lparr>ta_native := Some (ta_native a = Some True)\<rparr>"

definition total_of :: "'b Numbers \<Rightarrow> (TreasuryAsset \<Rightarrow> 'b) \<Rightarrow> TreasuryAsset list \<Rightarrow> 'b" where
  "total_of N f assets = foldl (\<lambda>acc a. bn_plus N acc (f a)) (bn_zero N) assets"

definition balance_of :: "'b Numbers \<Rightarrow> TreasuryAsset \<Rightarrow> 'b" where
  "balance_of N a = toBigNumber N (Some (ta_balance a))"

definition asset_with_portfolio :: "'b Numbers \<Rightarrow> 'b \<Rightarrow> 'b \<Rightarrow> TreasuryAsset \<Rightarrow> AssetWithPortfolio" where
  "asset_with_portfolio N totalBalance totalValueUSD asset =
     (let denominator = (if bn_is_zero N totalValueUSD then totalBalance else totalValueUSD);
          balance = balance_of N asset;
          price = toBigNumber N (ta_price asset);
          balanceUSD = sumBalanceUSD N asset;
          portfolioBase = (if bn_is_zero N totalValueUSD then balance else balanceUSD);
          priceChange = calculatePriceChange N asset
      in TreasuryAsset.extend asset
           \<lparr>portfolioShare = (if bn_is_zero N denominator then 0 else bn_number N (bn_div N portfolioBase denominator)),
            balanceValue = bn_number N balance, balanceUSDValue = bn_number N balanceUSD,
            priceValue = bn_number N price, priceChange24h = priceChange,
            holdingsChangeUSD =
              (case priceChange of None \<Rightarrow> 0
               | Some c \<Rightarrow> bn_number N (bn_times N (number_or_zero N (pc_absolute c)) balance))\<rparr>)"

definition transformTreasuryAssets ::
  "(real \<Rightarrow> real) \<Rightarrow> 'b Numbers \<Rightarrow> TreasuryAsset list \<Rightarrow> TreasuryAssetsData" where
  "transformTreasuryAssets fl N assets =
     (let normalizedAssets = map normalized assets;
          totalBalance = total_of N (balance_of N) normalizedAssets;
          totalValueUSD = total_of N (sumBalanceUSD N) normalizedAssets;
          withPortfolio = map (asset_with_portfolio N totalBalance totalValueUSD) normalizedAssets;
          totalChangeUSD = foldl (\<lambda>acc a. fl (acc + holdingsChangeUSD a)) 0 withPortfolio;
          previousTotalValue = bn_minus N totalValueUSD (bn_of_number N totalChangeUSD)
      in \<lparr>tr_assets = withPortfolio, tr_totalBalance = bn_number N totalBalance,
          tr_totalValueUSD = bn_number N totalValueUSD, tr_totalChangeUSD = totalChangeUSD,
          tr_totalChangePercent =
            (if bn_is_zero N previousTotalValue then 0
             else fl (fl (totalChangeUSD / bn_number N previousTotalValue) * 100))\<rparr>)"

section \<open>The configured treasury\<close>

record NativeToken =
  nt_symbol :: "string option"
  nt_decimals :: "nat option"
  nt_priceId :: "string option"
  nt_logo :: "string option"

definition ZERO_ADDRESS :: string where
  "ZERO_ADDRESS = ''0x'' @ replicate 40 (CHR ''0'')"

definition price_info :: "MarketData table \<Rightarrow> string option \<Rightarrow> MarketData option" where
  "price_info m priceId =
     (case setting (map_option to_lower priceId) of None \<Rightarrow> None | Some i \<Rightarrow> map_of m i)"

definition priced_asset ::
  "'b Numbers \<Rightarrow> int \<Rightarrow> MarketData table \<Rightarrow> string option \<Rightarrow> nat \<Rightarrow> TreasuryAsset \<Rightarrow> TreasuryAsset" where
  "priced_asset N now m priceId decimals a =
     (let info = price_info m priceId;
          price = map_option md_price info
      in a\<lparr>ta_balanceUSD := map_option (\<lambda>p. bn_text N (bn_times N (bn_of_number N p) (bn_of_text N (ta_balance a)))) price,
           ta_price := map_option (\<lambda>p. bn_text N (bn_of_number N p)) price,
           ta_historicalPrices :=
             buildHistoricalPrices N now price (map_option md_change24hPercent info) decimals\<rparr>)"

definition native_asset ::
  "'b Numbers \<Rightarrow> Formats \<Rightarrow> int \<Rightarrow> MarketData table \<Rightarrow> string \<Rightarrow> string option \<Rightarrow> NativeToken \<Rightarrow> int \<Rightarrow> TreasuryAsset" where
  "native_asset N F now m chain chainLogo t nativeBalance =
     (let decimals = (case nt_decimals t of None \<Rightarrow> 18 | Some d \<Rightarrow> d);
          symbol = (case nt_symbol t of None \<Rightarrow> [] | Some s \<Rightarrow> s)
      in priced_asset N now m (nt_priceId t) decimals
           \<lparr>ta_address = ZERO_ADDRESS, ta_balance = formatUnits F nativeBalance (real decimals),
            ta_balanceRaw = int_text 10 nativeBalance, ta_balanceUSD = None, ta_chain = chain,
            ta_displayDecimals = Some (real decimals),
            ta_logo = (case nt_logo t of None \<Rightarrow> chainLogo | Some l \<Rightarrow> Some l),
            ta_name = symbol, ta_native = Some True, ta_price = None, ta_symbol = symbol,
            ta_decimals = Some (real decimals), ta_historicalPrices = None\<rparr>)"

definition erc20_asset ::
  "'b Numbers \<Rightarrow> int \<Rightarrow> MarketData table \<Rightarrow> string \<Rightarrow> (string \<rightharpoonup> TokenInfo) \<Rightarrow> TokenWithBalance \<Rightarrow> TreasuryAsset" where
  "erc20_asset N now m chain tokenInfo t =
     (let meta = tokenInfo (td_contract t);
          decimals = (case meta of None \<Rightarrow> 18 | Some i \<Rightarrow> ti_decimals i)
      in priced_asset N now m (td_priceId t) (nat \<lfloor>decimals\<rfloor>)
           \<lparr>ta_address = td_contract t,
            ta_balance = (case tb_formattedRawBalance t of None \<Rightarrow> ''0'' | Some b \<Rightarrow> b),
            ta_balanceRaw = (case tb_rawBalance t of None \<Rightarrow> ''0'' | Some n \<Rightarrow> int_text 10 n),
            ta_balanceUSD = None, ta_chain = chain, ta_displayDecimals = Some decimals,
            ta_logo = td_logo t, ta_name = td_name t, ta_native = Some False, ta_price = None,
            ta_symbol = (case meta of None \<Rightarrow> td_name t | Some i \<Rightarrow> ti_symbol i),
            ta_decimals = Some decimals, ta_historicalPrices = None\<rparr>)"

text \<open>The assets of the configuration, when the hook is enabled and the chain known.\<close>

record ConfigTreasury =
  ct_chain :: "string option"
  ct_chainLogo :: "string option"
  ct_nativeToken :: "NativeToken option"
  ct_nativeBalance :: "int option"
  ct_erc20 :: "TokenWithBalance list"
  ct_tokenInfo :: "string \<rightharpoonup> TokenInfo"
  ct_marketData :: "MarketData table"

definition config_assets ::
  "'b Numbers \<Rightarrow> Formats \<Rightarrow> int \<Rightarrow> bool \<Rightarrow> ConfigTreasury \<Rightarrow> TreasuryAsset list" where
  "config_assets N F now enabled c =
     (case (enabled, setting (ct_chain c)) of
        (True, Some chain) \<Rightarrow>
          (case (ct_nativeToken c, ct_nativeBalance c) of
             (Some t, Some b) \<Rightarrow> [native_asset N F now (ct_marketData c) chain (ct_chainLogo c) t b]
           | _ \<Rightarrow> []) @
          map (erc20_asset N now (ct_marketData c) chain (ct_tokenInfo c)) (ct_erc20 c)
      | _ \<Rightarrow> [])"

section \<open>Where the assets come from\<close>

datatype TreasurySource = FromConfig | FromApi | FromNone

definition toOptionalNumber :: "(real + string) option \<Rightarrow> real option" where
  "toOptionalNumber v =
     (case v of
        None \<Rightarrow> None
      | Some (Inl x) \<Rightarrow> Some x
      | Some (Inr t) \<Rightarrow> (case Number_text t of Finite x \<Rightarrow> Some x | _ \<Rightarrow> None))"

definition uses_config :: "bool \<Rightarrow> string option \<Rightarrow> bool \<Rightarrow> bool" where
  "uses_config hasTreasuryAssetConfig api enabled \<longleftrightarrow> hasTreasuryAssetConfig \<or> setting api = None \<or> \<not> enabled"

definition no_assets :: TreasuryAssetsData where
  "no_assets = \<lparr>tr_assets = [], tr_totalBalance = 0, tr_totalValueUSD = 0, tr_totalChangeUSD = 0,
     tr_totalChangePercent = 0\<rparr>"

definition treasury_result ::
  "(real \<Rightarrow> real) \<Rightarrow> 'b Numbers \<Rightarrow> bool \<Rightarrow> string option \<Rightarrow> bool \<Rightarrow> TreasuryAsset list \<Rightarrow> TreasuryAsset list option \<Rightarrow>
     TreasurySource \<times> TreasuryAssetsData" where
  "treasury_result fl N hasTreasuryAssetConfig api enabled configAssets apiAssets =
     (if uses_config hasTreasuryAssetConfig api enabled
      then (FromConfig, transformTreasuryAssets fl N configAssets)
      else case apiAssets of
        None \<Rightarrow> (FromNone, no_assets)
      | Some as \<Rightarrow> (if as = [] then FromNone else FromApi, transformTreasuryAssets fl N as))"

section \<open>The page\<close>

definition filteredAssets :: "AssetWithPortfolio list \<Rightarrow> AssetWithPortfolio list" where
  "filteredAssets assets = filter (\<lambda>a. ta_balanceUSD a = None \<or> 1 / 100 \<le> \<bar>balanceUSDValue a\<bar>) assets"

definition visibleTotalValueUSD :: "(real \<Rightarrow> real) \<Rightarrow> AssetWithPortfolio list \<Rightarrow> real" where
  "visibleTotalValueUSD fl assets =
     foldl (\<lambda>acc a. fl (acc + balanceUSDValue a)) 0 (filter (\<lambda>a. ta_balanceUSD a \<noteq> None) (filteredAssets assets))"

definition hasValuedAssets :: "AssetWithPortfolio list \<Rightarrow> bool" where
  "hasValuedAssets assets \<longleftrightarrow> filter (\<lambda>a. ta_balanceUSD a \<noteq> None) (filteredAssets assets) \<noteq> []"

end
