(* ===== verification/WebTreasuryClaims.thy ===== *)
theory WebTreasuryClaims
  imports WebTreasury
begin

text \<open>
  What holds of the treasury: the shares of a portfolio add up, the results of the token calls are
  read at the right places when no ERC-721 token stands before an ERC-20 one, and the change of a
  price is lost when its history is written with too few digits.
\<close>

section \<open>Decimal arithmetic\<close>

text \<open>
  What the decimal library documents: sums, differences and products are exact, a quotient is
  rounded to twenty places, and a number becomes the nearest double.
\<close>

definition numbers_ok :: "'b Numbers \<Rightarrow> ('b \<Rightarrow> real) \<Rightarrow> bool" where
  "numbers_ok N val \<longleftrightarrow>
     (\<forall>x. \<not> bn_is_nan N (bn_of_number N x) \<and> val (bn_of_number N x) = x) \<and>
     (\<forall>a b. \<not> bn_is_nan N a \<and> \<not> bn_is_nan N b \<longrightarrow>
        \<not> bn_is_nan N (bn_plus N a b) \<and> val (bn_plus N a b) = val a + val b \<and>
        \<not> bn_is_nan N (bn_minus N a b) \<and> val (bn_minus N a b) = val a - val b \<and>
        \<not> bn_is_nan N (bn_times N a b) \<and> val (bn_times N a b) = val a * val b \<and>
        (val b \<noteq> 0 \<longrightarrow> \<not> bn_is_nan N (bn_div N a b) \<and> \<bar>val (bn_div N a b) - val a / val b\<bar> \<le> 1 / 10 ^ 20) \<and>
        (0 \<le> val a \<and> val a \<le> val b \<and> 0 < val b \<longrightarrow> 0 \<le> val (bn_div N a b) \<and> val (bn_div N a b) \<le> 1)) \<and>
     (\<forall>a. \<not> bn_is_nan N a \<longrightarrow>
        (bn_is_zero N a \<longleftrightarrow> val a = 0) \<and>
        (0 \<le> val a \<and> val a \<le> 1 \<longrightarrow>
           0 \<le> bn_number N a \<and> bn_number N a \<le> 1 \<and> \<bar>bn_number N a - val a\<bar> \<le> 1 / 2 ^ 53))"

lemma number_laws:
  assumes "numbers_ok N val"
  shows "\<not> bn_is_nan N (bn_zero N)" and "val (bn_zero N) = 0"
    and "\<not> bn_is_nan N (toBigNumber N v)" and "\<not> bn_is_nan N (number_or_zero N x)"
    and "\<not> bn_is_nan N a \<Longrightarrow> bn_is_zero N a \<longleftrightarrow> val a = 0"
    and "\<not> bn_is_nan N a \<Longrightarrow> \<not> bn_is_nan N b \<Longrightarrow> \<not> bn_is_nan N (bn_plus N a b) \<and> val (bn_plus N a b) = val a + val b"
    and "\<not> bn_is_nan N a \<Longrightarrow> \<not> bn_is_nan N b \<Longrightarrow> \<not> bn_is_nan N (bn_times N a b)"
  using assms by (auto simp: numbers_ok_def bn_zero_def toBigNumber_def number_or_zero_def Let_def)

lemma balance_numbers:
  assumes "numbers_ok N val"
  shows "\<not> bn_is_nan N (balance_of N a)" and "\<not> bn_is_nan N (sumBalanceUSD N a)"
  using number_laws [OF assms] by (auto simp: balance_of_def sumBalanceUSD_def Let_def)

lemma total_value:
  assumes "numbers_ok N val" and "\<And>a. \<not> bn_is_nan N (f a)"
  shows "\<not> bn_is_nan N (total_of N f as) \<and> val (total_of N f as) = sum_list (map (\<lambda>a. val (f a)) as)"
proof -
  have "\<not> bn_is_nan N acc \<Longrightarrow>
      \<not> bn_is_nan N (foldl (\<lambda>acc a. bn_plus N acc (f a)) acc as) \<and>
      val (foldl (\<lambda>acc a. bn_plus N acc (f a)) acc as) = val acc + sum_list (map (\<lambda>a. val (f a)) as)" for acc
    using number_laws(6) [OF assms(1)] assms(2) by (induction as arbitrary: acc) simp_all
  from this [of "bn_zero N"] number_laws(1,2) [OF assms(1)] show ?thesis by (simp add: total_of_def)
qed

lemma normalized_balances [simp]:
  "balance_of N (normalized a) = balance_of N a" "sumBalanceUSD N (normalized a) = sumBalanceUSD N a"
  by (simp_all add: normalized_def balance_of_def sumBalanceUSD_def)

section \<open>Shares\<close>

lemma share_close:
  assumes ok: "numbers_ok N val" and nan: "\<not> bn_is_nan N b" "\<not> bn_is_nan N d"
    and le: "0 \<le> val b" "val b \<le> val d" "0 < val d"
  shows "0 \<le> bn_number N (bn_div N b d) \<and> bn_number N (bn_div N b d) \<le> 1 \<and>
    \<bar>bn_number N (bn_div N b d) - val b / val d\<bar> \<le> 1 / 10 ^ 20 + 1 / 2 ^ 53"
proof -
  let ?q = "bn_div N b d"
  have q: "\<not> bn_is_nan N ?q" "\<bar>val ?q - val b / val d\<bar> \<le> 1 / 10 ^ 20" "0 \<le> val ?q" "val ?q \<le> 1"
    using ok nan le unfolding numbers_ok_def by auto
  then have "0 \<le> bn_number N ?q" "bn_number N ?q \<le> 1" "\<bar>bn_number N ?q - val ?q\<bar> \<le> 1 / 2 ^ 53"
    using ok unfolding numbers_ok_def by auto
  with q(2) show ?thesis by linarith
qed

lemma sum_list_close:
  fixes f g :: "'a \<Rightarrow> real"
  assumes "\<And>x. x \<in> set xs \<Longrightarrow> \<bar>f x - g x\<bar> \<le> e"
  shows "\<bar>sum_list (map f xs) - sum_list (map g xs)\<bar> \<le> real (length xs) * e"
  using assms
proof (induction xs)
  case (Cons x xs)
  then have "\<bar>f x - g x\<bar> \<le> e" "\<bar>sum_list (map f xs) - sum_list (map g xs)\<bar> \<le> real (length xs) * e" by simp_all
  then show ?case by (simp add: algebra_simps)
qed simp

lemma member_le_sum_list:
  fixes g :: "'a \<Rightarrow> real"
  assumes "\<forall>x \<in> set xs. 0 \<le> g x" and "x \<in> set xs"
  shows "g x \<le> sum_list (map g xs)"
  using assms
proof (induction xs)
  case (Cons y ys)
  have "0 \<le> sum_list (map g ys)" using Cons.prems(1) by (intro sum_list_nonneg) auto
  with Cons show ?case by (cases "x = y") (auto intro: add_increasing)
qed simp

text \<open>What the shares are shares of: the values, or the amounts when nothing has a value.\<close>

definition share_base :: "'b Numbers \<Rightarrow> TreasuryAsset list \<Rightarrow> TreasuryAsset \<Rightarrow> 'b" where
  "share_base N assets =
     (if bn_is_zero N (total_of N (sumBalanceUSD N) (map normalized assets))
      then balance_of N else sumBalanceUSD N)"

text \<open>
  The shares of a portfolio lie between 0 and 1 and add up to 1, up to an error of one unit in
  the twentieth decimal place and of one rounding to a double for each asset, when no asset has a
  negative amount and not all are nothing.
\<close>

theorem portfolio_shares:
  assumes ok: "numbers_ok N val"
    and nonneg: "\<forall>a \<in> set assets. 0 \<le> val (share_base N assets a)"
    and some: "\<exists>a \<in> set assets. val (share_base N assets a) \<noteq> 0"
  shows "(\<forall>a \<in> set (tr_assets (transformTreasuryAssets fl N assets)). 0 \<le> portfolioShare a \<and> portfolioShare a \<le> 1) \<and>
    \<bar>sum_list (map portfolioShare (tr_assets (transformTreasuryAssets fl N assets))) - 1\<bar>
      \<le> real (length assets) * (1 / 10 ^ 20 + 1 / 2 ^ 53)"
proof -
  let ?f = "share_base N assets"
  let ?g = "\<lambda>a. val (?f a)"
  define tb tv where "tb = total_of N (balance_of N) (map normalized assets)"
    and "tv = total_of N (sumBalanceUSD N) (map normalized assets)"
  define d where "d = (if bn_is_zero N tv then tb else tv)"
  have f: "\<not> bn_is_nan N (?f a)" for a using balance_numbers [OF ok] by (simp add: share_base_def)
  have base: "?f = (if bn_is_zero N tv then balance_of N else sumBalanceUSD N)"
    by (simp add: share_base_def tv_def)
  have total: "d = total_of N ?f (map normalized assets)" by (simp add: base d_def tb_def tv_def)
  have norm: "?f (normalized a) = ?f a" for a by (simp add: base)
  have d: "\<not> bn_is_nan N d" "val d = sum_list (map ?g assets)"
    using total_value [OF ok f, where as = "map normalized assets"] by (simp_all add: total norm comp_def)
  have le: "?g a \<le> val d" if "a \<in> set assets" for a
    using member_le_sum_list [of assets ?g a] nonneg that d(2) by simp
  obtain z where "z \<in> set assets" "?g z \<noteq> 0" using some by blast
  then have "0 < ?g z" using nonneg by force
  with le [OF \<open>z \<in> set assets\<close>] have pos: "0 < val d" by linarith
  then have "\<not> bn_is_zero N d" using number_laws(5) [OF ok d(1)] by simp
  then have share: "portfolioShare (asset_with_portfolio N tb tv (normalized a)) = bn_number N (bn_div N (?f a) d)" for a
    by (simp add: asset_with_portfolio_def Let_def d_def base TreasuryAsset.extend_def)
  have close: "0 \<le> bn_number N (bn_div N (?f a) d) \<and> bn_number N (bn_div N (?f a) d) \<le> 1 \<and>
      \<bar>bn_number N (bn_div N (?f a) d) - ?g a / val d\<bar> \<le> 1 / 10 ^ 20 + 1 / 2 ^ 53" if "a \<in> set assets" for a
    using share_close [OF ok f d(1)] nonneg le pos that by blast
  have parts: "tr_assets (transformTreasuryAssets fl N assets) = map (\<lambda>a. asset_with_portfolio N tb tv (normalized a)) assets"
    by (simp add: transformTreasuryAssets_def Let_def tb_def tv_def comp_def)
  have "sum_list (map (\<lambda>a. ?g a / val d) assets) = 1"
    using pos d(2) by (simp add: divide_inverse sum_list_mult_const)
  with sum_list_close [of assets "\<lambda>a. bn_number N (bn_div N (?f a) d)" "\<lambda>a. ?g a / val d" "1 / 10 ^ 20 + 1 / 2 ^ 53"] close
  have "\<bar>sum_list (map (\<lambda>a. bn_number N (bn_div N (?f a) d)) assets) - 1\<bar> \<le> real (length assets) * (1 / 10 ^ 20 + 1 / 2 ^ 53)"
    by simp
  then show ?thesis using close by (simp add: parts share comp_def)
qed

section \<open>Symbols and decimals\<close>

lemma find_in_append: "find P (xs @ ys) = (case find P xs of None \<Rightarrow> find P ys | Some x \<Rightarrow> Some x)"
  by (induction xs) auto

lemma find_Cons_upt:
  assumes "j < n" and "P j" and "\<And>i. i < j \<Longrightarrow> \<not> P i"
  shows "find P [0..<n] = Some j"
proof -
  have "[0..<n] = [0..<j] @ [j..<n]" using upt_add_eq_append [of 0 j "n - j"] assms(1) by simp
  then have "[0..<n] = [0..<j] @ j # [Suc j..<n]" using upt_conv_Cons [OF assms(1)] by simp
  moreover have "find P [0..<j] = None" using assms(3) by (simp add: find_None_iff)
  ultimately show ?thesis using assms(2) by (simp add: find_in_append)
qed

lemma foldl_map_update:
  "inj_on k (set is) \<Longrightarrow> i \<in> set is \<Longrightarrow>
     foldl (\<lambda>m i. if p i then m else m(k i \<mapsto> v i)) start is (k i) = (if p i then start (k i) else Some (v i))"
proof (induction "is" arbitrary: start)
  case (Cons j js)
  have other: "foldl (\<lambda>m i. if p i then m else m(k i \<mapsto> v i)) m js q = m q" if "q \<notin> k ` set js" for m q
    using that by (induction js arbitrary: m) auto
  show ?case
  proof (cases "i \<in> set js")
    case True
    have "i = j \<or> k i \<noteq> k j" using inj_onD [OF Cons.prems(1), of i j] True by auto
    moreover have "inj_on k (set js)" using Cons.prems(1) by (rule inj_on_subset) auto
    ultimately show ?thesis using Cons.IH True by auto
  next
    case False
    then have "k i \<notin> k ` set js" using Cons.prems by (auto dest: inj_onD)
    with False Cons.prems other show ?thesis by auto
  qed
qed simp

definition token_answers :: "(string \<Rightarrow> string \<Rightarrow> ReadResult) \<Rightarrow> TokenCall list \<Rightarrow> ReadResult list" where
  "token_answers contract = map (\<lambda>c. contract (tk_address c) (tk_function c))"

text \<open>The list that \<open>useTokenBalances\<close> and the treasury pass: the ERC-20 tokens first, or no others.\<close>

definition erc20_first :: "TokenDetails list \<Rightarrow> bool" where
  "erc20_first tokens \<longleftrightarrow>
     (\<exists>n. (\<forall>i < length tokens. td_standard (tokens ! i) = ''ERC20'' \<longleftrightarrow> i < n))"

lemma symbol_read:
  "i < length tokens \<Longrightarrow>
     result_at (token_answers contract (token_calls tokens (Some chainId))) i = contract (td_contract (tokens ! i)) ''symbol''"
  by (simp add: result_at_def token_answers_def token_calls_def nth_append)

lemma erc20_prefix:
  assumes "\<forall>i < length tokens. td_standard (tokens ! i) = ''ERC20'' \<longleftrightarrow> i < n"
  shows "filter (\<lambda>t. td_standard t = ''ERC20'') tokens = take n tokens"
  using assms
proof (induction tokens arbitrary: n)
  case (Cons t ts)
  have shifted: "\<forall>i < length ts. td_standard (ts ! i) = ''ERC20'' \<longleftrightarrow> i < n - 1"
    using Cons.prems by (auto dest: spec [of _ "Suc _"])
  from Cons.prems have "td_standard t = ''ERC20'' \<longleftrightarrow> 0 < n" by (auto dest: spec [of _ 0])
  with Cons.IH [OF shifted] show ?case by (cases n) auto
qed simp

lemma decimals_read:
  assumes "erc20_first tokens" and "distinct (map td_contract tokens)" and "i < length tokens"
    and "td_standard (tokens ! i) = ''ERC20''"
  shows "decimals_value tokens (token_answers contract (token_calls tokens (Some chainId))) (tokens ! i) =
    decimals_of_result (contract (td_contract (tokens ! i)) ''decimals'')"
proof -
  obtain n where n: "\<forall>i < length tokens. td_standard (tokens ! i) = ''ERC20'' \<longleftrightarrow> i < n"
    using assms(1) by (auto simp: erc20_first_def)
  have "find (\<lambda>j. same_erc20 (tokens ! i) (tokens ! j)) [0..<length tokens] = Some i"
  proof (rule find_Cons_upt)
    show "\<not> same_erc20 (tokens ! i) (tokens ! j)" if "j < i" for j
      using assms(2,3) that by (auto simp: same_erc20_def distinct_conv_nth dest: spec [of _ j] spec [of _ i])
  qed (use assms in \<open>auto simp: same_erc20_def\<close>)
  moreover have "i < n" using n assms(3,4) by blast
  ultimately show ?thesis
    using assms(3,4) erc20_prefix [OF n]
    by (simp add: decimals_value_def result_at_def token_answers_def token_calls_def nth_append)
qed

text \<open>
  When the ERC-20 tokens stand before all others, what is known of a token is what its own
  contract answered: its symbol, and its decimals if it is an ERC-20 token.
\<close>

theorem token_info_is_its_own:
  assumes "erc20_first tokens" and "distinct (map td_contract tokens)" and "t \<in> set tokens"
    and "contract (td_contract t) ''symbol'' \<noteq> Absent"
  shows "token_info nt tokens (token_answers contract (token_calls tokens (Some chainId))) (td_contract t) =
    Some \<lparr>ti_symbol = text_of_result nt (contract (td_contract t) ''symbol''),
          ti_decimals = (if td_standard t = ''ERC20''
            then decimals_of_result (contract (td_contract t) ''decimals'') else 0)\<rparr>"
proof -
  let ?data = "token_answers contract (token_calls tokens (Some chainId))"
  obtain i where i: "i < length tokens" "t = tokens ! i" using assms(3) by (auto simp: in_set_conv_nth)
  have inj: "inj_on (\<lambda>i. td_contract (tokens ! i)) (set [0..<length tokens])"
    using nth_eq_iff_index_eq [OF assms(2)] by (auto simp: inj_on_def)
  have "token_info nt tokens ?data (td_contract (tokens ! i)) =
      Some \<lparr>ti_symbol = text_of_result nt (result_at ?data i), ti_decimals = decimals_value tokens ?data (tokens ! i)\<rparr>"
    using foldl_map_update [OF inj, where i = i and p = "\<lambda>i. result_at ?data i = Absent" and start = Map.empty
        and v = "\<lambda>i. \<lparr>ti_symbol = text_of_result nt (result_at ?data i), ti_decimals = decimals_value tokens ?data (tokens ! i)\<rparr>"]
      i assms(4)
    by (simp add: token_info_def Let_def symbol_read)
  with i decimals_read [OF assms(1,2)] show ?thesis
    by (cases "td_standard t = ''ERC20''") (simp_all add: symbol_read decimals_value_def)
qed

text \<open>
  But the decimals are looked up by the position among all tokens while they were asked for the
  ERC-20 tokens only: after a token of another standard they are missed, and read as zero.
\<close>

lemma nft_first_loses_decimals:
  assumes "td_standard n \<noteq> ''ERC20''" and "td_standard t = ''ERC20''" and "td_contract n \<noteq> td_contract t"
  shows "decimals_value [n, t] (token_answers contract (token_calls [n, t] (Some chainId))) t = 0"
proof -
  have "find (\<lambda>j. same_erc20 t ([n, t] ! j)) [0..<2] = Some 1"
    by (rule find_Cons_upt) (use assms in \<open>auto simp: same_erc20_def\<close>)
  then show ?thesis
    using assms by (simp add: decimals_value_def token_calls_def token_answers_def result_at_def decimals_of_result_def
        numeral_2_eq_2)
qed

section \<open>Balances\<close>

text \<open>
  Each asset gets the answer of its own contract when all have a contract and a standard; the calls
  of the others are left out, and the answers behind them move up.
\<close>

lemma balances_are_their_own:
  assumes "\<forall>t \<in> set assets. td_contract t \<noteq> [] \<and> td_standard t \<noteq> []"
    and "setting address \<noteq> None" and "assets \<noteq> []"
  shows "map tb_rawBalance (assets_with_balances F info assets
      (map (\<lambda>c. balanceOf (tk_address c)) (balance_calls assets address True (Some chainId)))) =
    map (\<lambda>t. balanceOf (td_contract t)) assets"
proof -
  have calls: "balance_calls assets address True (Some chainId) =
      map (\<lambda>t. \<lparr>tk_address = td_contract t, tk_function = ''balanceOf''\<rparr>) assets"
    using assms by (simp add: balance_calls_def filter_id_conv)
  have raw: "tb_rawBalance (with_balance F info t b) = b" for t b
    by (simp add: with_balance_def Let_def TokenDetails.extend_def)
  show ?thesis
    using assms(3) by (intro nth_equalityI) (auto simp: assets_with_balances_def calls nth_enumerate_eq raw)
qed

lemma unnamed_asset_shifts_balances:
  assumes "td_contract s = []" and "td_contract t \<noteq> []" and "td_standard t \<noteq> []" and "setting address \<noteq> None"
  shows "map tb_rawBalance (assets_with_balances F info [s, t]
      (map (\<lambda>c. balanceOf (tk_address c)) (balance_calls [s, t] address True (Some chainId)))) =
    [balanceOf (td_contract t), None]"
  using assms by (cases "setting address") (simp_all add: balance_calls_def assets_with_balances_def with_balance_def without_balance_def Let_def
      TokenDetails.extend_def)

section \<open>The change of a price\<close>

text \<open>
  The prices of the configured treasury are written with as many places as the token has decimals.
  When that leaves nothing of yesterday's price, no change in percent is shown, and the change of
  the holdings is their whole value.
\<close>

lemma coarse_history:
  assumes "numbers_ok N val" and "ta_historicalPrices a = Some hs" and "hs \<noteq> []"
    and "val (toBigNumber N (Some (hp_price (last hs)))) = 0"
  shows "calculatePriceChange N a =
    Some \<lparr>pc_absolute = bn_number N (bn_minus N (toBigNumber N (ta_price a)) (toBigNumber N (Some (hp_price (last hs))))),
          pc_percent = bn_number N (bn_zero N)\<rparr>"
  using assms number_laws(3,5) [OF assms(1)] by (simp add: calculatePriceChange_def Let_def)

section \<open>Witnesses\<close>

definition exact_numbers :: "real Numbers" where
  "exact_numbers = \<lparr>bn_of_text = (\<lambda>t. case Number_text t of Finite x \<Rightarrow> x | _ \<Rightarrow> 0), bn_of_number = (\<lambda>x. x),
     bn_is_nan = (\<lambda>_. False), bn_is_zero = (\<lambda>x. x = 0), bn_plus = (+), bn_minus = (-), bn_times = (*),
     bn_div = (/), bn_number = (\<lambda>x. x), bn_fixed = (\<lambda>_ _. []), bn_text = (\<lambda>_. [])\<rparr>"

lemma exact_numbers_ok: "numbers_ok exact_numbers (\<lambda>x. x)"
  by (simp add: numbers_ok_def exact_numbers_def)

definition demo_asset :: "string \<Rightarrow> TreasuryAsset" where
  "demo_asset balance = \<lparr>ta_address = ''0xa'', ta_balance = balance, ta_balanceRaw = balance, ta_balanceUSD = None,
     ta_chain = ''1'', ta_displayDecimals = None, ta_logo = None, ta_name = ''A'', ta_native = None,
     ta_price = None, ta_symbol = ''A'', ta_decimals = None, ta_historicalPrices = None\<rparr>"

lemma demo_shares:
  "bn_is_zero exact_numbers (total_of exact_numbers (sumBalanceUSD exact_numbers) (map normalized [demo_asset ''3'', demo_asset ''1'']))"
  by (simp add: total_of_def sumBalanceUSD_def toBigNumber_def bn_zero_def exact_numbers_def demo_asset_def Let_def normalized_def)

lemma portfolio_shares_witness:
  "\<bar>sum_list (map portfolioShare (tr_assets (transformTreasuryAssets (\<lambda>x. x) exact_numbers
     [demo_asset ''3'', demo_asset ''1'']))) - 1\<bar> \<le> 2 * (1 / 10 ^ 20 + 1 / 2 ^ 53)"
proof -
  have "nat_text 10 3 = ''3''" "nat_text 10 1 = ''1''" by code_simp+
  with Number_text_nat [of 3] Number_text_nat [of 1] have n: "Number_text ''3'' = Finite 3" "Number_text ''1'' = Finite 1"
    by simp_all
  have base: "share_base exact_numbers [demo_asset ''3'', demo_asset ''1''] = balance_of exact_numbers"
    using demo_shares by (simp add: share_base_def)
  have "balance_of exact_numbers (demo_asset ''3'') = 3" "balance_of exact_numbers (demo_asset ''1'') = 1"
    by (simp_all add: balance_of_def toBigNumber_def exact_numbers_def demo_asset_def n)
  with portfolio_shares [OF exact_numbers_ok, of "[demo_asset ''3'', demo_asset ''1'']" "\<lambda>x. x"] base
  show ?thesis by simp
qed

definition demo_token :: "string \<Rightarrow> string \<Rightarrow> TokenDetails" where
  "demo_token contract standard =
     \<lparr>td_name = ''T'', td_contract = contract, td_standard = standard, td_priceId = None, td_logo = None\<rparr>"

lemma token_info_is_its_own_witness:
  "token_info (\<lambda>_. []) [demo_token ''0xa'' ''ERC20'', demo_token ''0xb'' ''ERC721'']
     (token_answers (\<lambda>a f. if f = ''decimals'' then BigResult 6 else TextResult a)
       (token_calls [demo_token ''0xa'' ''ERC20'', demo_token ''0xb'' ''ERC721''] (Some 1))) ''0xa'' =
   Some \<lparr>ti_symbol = ''0xa'', ti_decimals = 6\<rparr>"
proof -
  let ?ts = "[demo_token ''0xa'' ''ERC20'', demo_token ''0xb'' ''ERC721'']"
  let ?c = "\<lambda>a f. if f = ''decimals'' then BigResult 6 else TextResult a"
  have "erc20_first ?ts"
    unfolding erc20_first_def by (rule exI [of _ 1]) (simp add: demo_token_def less_Suc_eq)
  from token_info_is_its_own [OF this, of "demo_token ''0xa'' ''ERC20''" ?c "\<lambda>_. []" 1]
  show ?thesis by (simp add: demo_token_def text_of_result_def decimals_of_result_def)
qed

end
