(* ===== verification/WebFormat.thy ===== *)
theory WebFormat
  imports WebProposal
begin

text \<open>
  Numbers and times as the web client shows them (packages/web/src/utils/number.ts, utils/date.ts).
  The texts of numbers and dates are the language's and libraries', and parameters.
\<close>

section \<open>Numbers\<close>

record NumberTexts =
  toFixed :: "real \<Rightarrow> nat \<Rightarrow> string outcome"
  parseFloat :: "string \<Rightarrow> real"
  toString :: "real \<Rightarrow> string"
  NumberFormat :: "nat \<Rightarrow> real \<Rightarrow> string outcome"
  to_double :: "real \<Rightarrow> real"

definition toFixedTrimZeros :: "NumberTexts \<Rightarrow> real \<Rightarrow> nat \<Rightarrow> string outcome" where
  "toFixedTrimZeros T num decimals =
     and_then (toFixed T num decimals) (\<lambda>t. Inr (toString T (parseFloat T t)))"

text \<open>The unit of the short form, and its letter.\<close>

definition number_unit :: "real \<Rightarrow> real \<times> string" where
  "number_unit absNum =
     (if 10 ^ 12 \<le> absNum then (10 ^ 12, ''T'')
      else if 10 ^ 9 \<le> absNum then (10 ^ 9, ''B'')
      else if 10 ^ 6 \<le> absNum then (10 ^ 6, ''M'')
      else if 10 ^ 3 \<le> absNum then (10 ^ 3, ''K'')
      else (1, []))"

definition formatNumberForDisplay :: "NumberTexts \<Rightarrow> real \<Rightarrow> int \<Rightarrow> (string \<times> string) outcome" where
  "formatNumberForDisplay T num decimals =
     (if decimals < 0 then Inl (ThrownError ''Invalid decimals: Must be a non-negative integer.'')
      else
        let (unit, letter) = number_unit \<bar>num\<bar>
        in and_then (NumberFormat T (nat decimals) num) (\<lambda>longFormat.
           and_then (toFixedTrimZeros T (to_double T (num / unit)) (nat decimals)) (\<lambda>shortFormat.
             Inr (shortFormat @ letter, longFormat))))"

definition formatBigIntForDisplay ::
  "NumberTexts \<Rightarrow> (int \<Rightarrow> nat \<Rightarrow> real) \<Rightarrow> int \<Rightarrow> nat \<Rightarrow> string outcome" where
  "formatBigIntForDisplay T numberOfUnits value decimals =
     and_then (formatNumberForDisplay T (numberOfUnits value decimals) 2) (\<lambda>(short, _). Inr short)"

text \<open>
  The digits of an amount in dollars: up to the second digit that is not zero, two at least. The
  amount is finite; its decimal places and its digits, cut off and rounded, are a library's.
\<close>

record Amounts =
  decimalPlaces :: "real \<Rightarrow> nat option"
  fixedDown :: "real \<Rightarrow> nat \<Rightarrow> string"
  toFormat :: "real \<Rightarrow> nat \<Rightarrow> string"

definition clamp :: "int \<Rightarrow> int \<Rightarrow> int \<Rightarrow> int" where
  "clamp x lower upper = max lower (min upper x)"

definition meaningfulPositions :: "string \<Rightarrow> int list" where
  "meaningfulPositions fractionPart =
     take 2 (filter (\<lambda>p. p \<noteq> 0)
       (map (\<lambda>(i, d). if d \<noteq> CHR ''0'' then int i + 1 else 0) (enumerate 0 fractionPart)))"

definition fractionDigits :: "Amounts \<Rightarrow> real \<Rightarrow> int" where
  "fractionDigits A absolute =
     (let decimals = clamp (case decimalPlaces A absolute of None \<Rightarrow> 0 | Some n \<Rightarrow> int n) 0 18;
          fractionPart = (if 0 < decimals
            then (case split_on (CHR ''.'') (fixedDown A absolute (nat decimals)) of _ # f # _ \<Rightarrow> f | _ \<Rightarrow> []) else []);
          ps = meaningfulPositions fractionPart;
          lastMeaningful = (if ps = [] then 0 else last ps)
      in if decimals = 0 then 2 else clamp (max lastMeaningful 2) 2 (max decimals 2))"

definition formatCurrency :: "Amounts \<Rightarrow> real option \<Rightarrow> string" where
  "formatCurrency A value =
     (case value of
        None \<Rightarrow> ''$0.00''
      | Some x \<Rightarrow> (if x < 0 then ''-'' else []) @ ''$'' @ toFormat A \<bar>x\<bar> (nat (fractionDigits A \<bar>x\<bar>)))"

definition formatCurrencyFixed :: "Amounts \<Rightarrow> real option \<Rightarrow> real option \<Rightarrow> string" where
  "formatCurrencyFixed A value decimals =
     (let digits = (case decimals of None \<Rightarrow> 2 | Some d \<Rightarrow> clamp \<lfloor>d\<rfloor> 0 18);
          x = (case value of None \<Rightarrow> 0 | Some y \<Rightarrow> y)
      in (if x < 0 then ''-'' else []) @ ''$'' @ toFormat A \<bar>x\<bar> (nat digits))"

definition formatInteger :: "(real \<Rightarrow> string) \<Rightarrow> (real + string) option \<Rightarrow> string \<Rightarrow> string" where
  "formatInteger intl value fallback =
     (case value of
        None \<Rightarrow> fallback
      | Some (Inl x) \<Rightarrow> intl x
      | Some (Inr t) \<Rightarrow> (case Number_text t of Finite x \<Rightarrow> intl x | _ \<Rightarrow> fallback))"

lemma currency_digits: "2 \<le> fractionDigits A x \<and> fractionDigits A x \<le> 18"
proof -
  define d where "d = clamp (case decimalPlaces A x of None \<Rightarrow> 0 | Some n \<Rightarrow> int n) 0 18"
  then have "0 \<le> d" "d \<le> 18" by (simp_all add: clamp_def)
  then have "2 \<le> clamp (max l 2) 2 (max d 2) \<and> clamp (max l 2) 2 (max d 2) \<le> 18" for l
    by (simp add: clamp_def)
  then show ?thesis unfolding fractionDigits_def Let_def d_def [symmetric] by simp
qed

text \<open>The unit of the short form is chosen before the rounding: its number is below a thousand units.\<close>

lemma short_form_below_thousand:
  assumes "\<bar>x\<bar> < 10 ^ 15"
  shows "\<bar>x\<bar> / fst (number_unit \<bar>x\<bar>) < 1000 \<and> 1 \<le> fst (number_unit \<bar>x\<bar>)"
  using assms by (simp add: number_unit_def)

section \<open>Times\<close>

datatype TimeUnit = Minute | Hour | Day | Week | Month

text \<open>Times in milliseconds; whole units between two times, the year of a time and the texts of dates.\<close>

record Calendar =
  time_diff :: "int \<Rightarrow> int \<Rightarrow> TimeUnit \<Rightarrow> int"
  year_of :: "int \<Rightarrow> int"
  date_text :: "int \<Rightarrow> string \<Rightarrow> string"
  from_text :: "int \<Rightarrow> string"
  valid_time :: "real \<Rightarrow> int option"

definition counted :: "int \<Rightarrow> string \<Rightarrow> string" where
  "counted n name = int_text 10 n @ '' '' @ name @ (if n = 1 then [] else ''s'')"

definition getTimeRemaining :: "Calendar \<Rightarrow> int \<Rightarrow> int \<Rightarrow> string" where
  "getTimeRemaining C now end_time =
     (if end_time < now then []
      else if 1 \<le> time_diff C end_time now Day then ''in '' @ counted (time_diff C end_time now Day) ''day''
      else if 1 \<le> time_diff C end_time now Hour then ''in '' @ counted (time_diff C end_time now Hour) ''hour''
      else ''in '' @ counted (time_diff C end_time now Minute) ''minute'')"

definition formatTimestampToDayTime :: "Calendar \<Rightarrow> string \<Rightarrow> string" where
  "formatTimestampToDayTime C timestamp =
     (if timestamp = [] then []
      else case parseInt timestamp of
        None \<Rightarrow> []
      | Some n \<Rightarrow> (case valid_time C (of_int n) of None \<Rightarrow> [] | Some t \<Rightarrow> date_text C t ''ddd MMM D, hh:mm a''))"

definition formatTimeAgo :: "Calendar \<Rightarrow> int \<Rightarrow> string \<Rightarrow> string" where
  "formatTimeAgo C now timestamp =
     (if timestamp = [] then []
      else case Number_text timestamp of
        Finite x \<Rightarrow>
          (case valid_time C (if 10000000000 < x then x else x * 1000) of
             None \<Rightarrow> []
           | Some date \<Rightarrow>
               let diff = time_diff C now date;
                   sameYear = (year_of C date = year_of C now)
               in if now < date then date_text C date (if sameYear then ''MMM D'' else ''MMM D, YYYY'')
                  else if \<not> sameYear then date_text C date ''MMM D, YYYY''
                  else if 1 \<le> diff Month then date_text C date ''MMM D''
                  else if diff Week = 3 then ''three weeks ago''
                  else if diff Week = 2 then ''two weeks ago''
                  else if diff Week = 1 then ''one week ago''
                  else if 21 \<le> diff Day then ''last month''
                  else if diff Day = 1 then ''yesterday''
                  else if 2 \<le> diff Day then int_text 10 (diff Day) @ '' days ago''
                  else if 1 \<le> diff Hour then counted (diff Hour) ''hour'' @ '' ago''
                  else if 1 \<le> diff Minute then counted (diff Minute) ''minute'' @ '' ago''
                  else from_text C date)
      | _ \<Rightarrow> [])"

text \<open>An end that is over is shown as nothing; the comment promises the word ended.\<close>

lemma nothing_remains: "end_time < now \<Longrightarrow> getTimeRemaining C now end_time = []"
  by (simp add: getTimeRemaining_def)

text \<open>
  When the units of the calendar are whole multiples of each other and months no longer than 31
  days, a past time of this year is shown in words exactly as far back as the code's steps go.
\<close>

definition calendar_ok :: "Calendar \<Rightarrow> bool" where
  "calendar_ok C \<longleftrightarrow>
     (\<forall>a b. b \<le> a \<longrightarrow>
        time_diff C a b Minute = (a - b) div 60000 \<and> time_diff C a b Hour = (a - b) div 3600000 \<and>
        time_diff C a b Day = (a - b) div 86400000 \<and> time_diff C a b Week = (a - b) div 604800000)"

lemma last_month_after_four_weeks:
  assumes "calendar_ok C" and "Number_text timestamp = Finite x" and "timestamp \<noteq> []"
    and "valid_time C (if 10000000000 < x then x else x * 1000) = Some date"
    and "date \<le> now" and "year_of C date = year_of C now" and "time_diff C now date Month < 1"
    and "28 * 86400000 \<le> now - date"
  shows "formatTimeAgo C now timestamp = ''last month''"
proof -
  have "time_diff C now date Week = (now - date) div 604800000"
    and "time_diff C now date Day = (now - date) div 86400000"
    using assms(1,5) by (auto simp: calendar_ok_def)
  moreover have "4 \<le> (now - date) div 604800000" and "28 \<le> (now - date) div 86400000"
    using assms(8) by simp_all
  ultimately show ?thesis using assms by (simp add: formatTimeAgo_def Let_def)
qed

end
