(* ===== verification/WebGovernance.thy ===== *)
theory WebGovernance
  imports WebFormat
begin

text \<open>
  What the web client makes of the governor's state: its clock (hooks/useClockMode.ts), voting
  powers (hooks/useSmartGetVotes.ts, hooks/useMyVotes.ts), parameters and quorum
  (hooks/useGovernanceParams.ts, contexts/BlockContext.tsx), the token (hooks/useGovernanceToken.ts),
  the state of the indexer (hooks/useBlockSync.ts), and on a proposal's page the tally, the stages
  and the action that is offered (app/proposal/[id]). What is read from contracts is an argument;
  \<open>None\<close> is \<open>undefined\<close> or a failed read.
\<close>

section \<open>The clock\<close>

datatype WebClock = ByBlockNumber | ByTimestamp

record ClockModeResult =
  cm_clockMode :: "WebClock option"
  cm_rawClockMode :: "string option"
  cm_isLoading :: bool

definition resolved_clock :: "WebClock \<Rightarrow> string option \<Rightarrow> ClockModeResult" where
  "resolved_clock mode raw = \<lparr>cm_clockMode = Some mode, cm_rawClockMode = raw, cm_isLoading = False\<rparr>"

definition loading_clock :: ClockModeResult where
  "loading_clock = \<lparr>cm_clockMode = None, cm_rawClockMode = None, cm_isLoading = True\<rparr>"

text \<open>The query: an answer that is no text, or empty, counts as a failure.\<close>

definition clock_query :: "string option outcome \<Rightarrow> string" where
  "clock_query answer =
     (case answer of Inr (Some t) \<Rightarrow> if t = [] then ''mode=blocknumber'' else t | _ \<Rightarrow> ''mode=blocknumber'')"

definition useClockMode :: "bool \<Rightarrow> bool \<Rightarrow> string option \<Rightarrow> ClockModeResult" where
  "useClockMode enabled isLoading rawClockMode =
     (if \<not> enabled then resolved_clock ByBlockNumber None
      else if isLoading then loading_clock
      else
        let normalized = (case setting rawClockMode of None \<Rightarrow> [] | Some t \<Rightarrow> to_lower (trim t));
            isTimestamp = (normalized = ''timestamp'' \<or> contains_text normalized ''mode=timestamp'');
            isBlock = (normalized = ''blocknumber'' \<or> contains_text normalized ''mode=blocknumber'')
        in if normalized = [] then resolved_clock ByBlockNumber None
           else resolved_clock (if isTimestamp then ByTimestamp else ByBlockNumber)
                  (if isBlock then None else rawClockMode))"

abbreviation block_mode :: "ClockModeResult \<Rightarrow> bool" where
  "block_mode c \<equiv> cm_clockMode c = Some ByBlockNumber"

abbreviation time_mode :: "ClockModeResult \<Rightarrow> bool" where
  "time_mode c \<equiv> cm_clockMode c = Some ByTimestamp"

abbreviation clock_resolved :: "ClockModeResult \<Rightarrow> bool" where
  "clock_resolved c \<equiv> cm_clockMode c \<noteq> None"

section \<open>Voting power\<close>

definition votes_timepoint :: "ClockModeResult \<Rightarrow> int option \<Rightarrow> int option \<Rightarrow> int option" where
  "votes_timepoint c clockValue currentBlockNumber =
     (if \<not> clock_resolved c then None
      else if time_mode c then clockValue
      else case currentBlockNumber of Some n \<Rightarrow> if 1 < n then Some (n - 1) else None | None \<Rightarrow> None)"

definition votes_enabled :: "bool \<Rightarrow> int option \<Rightarrow> bool" where
  "votes_enabled shouldQuery timepoint \<longleftrightarrow>
     shouldQuery \<and> (case timepoint of None \<Rightarrow> False | Some t \<Rightarrow> 0 < t)"

text \<open>The answers of the token and of the governor; an answer may be of another type.\<close>

datatype PowerRead = ReadFailed | ReadOther | ReadPower int

definition power_read :: "PowerRead \<Rightarrow> int option" where
  "power_read r = (case r of ReadPower n \<Rightarrow> Some n | _ \<Rightarrow> None)"

definition smart_votes :: "PowerRead \<Rightarrow> PowerRead \<Rightarrow> int option outcome" where
  "smart_votes token governor =
     (if token \<noteq> ReadFailed then Inr (power_read token)
      else if governor \<noteq> ReadFailed then Inr (power_read governor)
      else Inl (ThrownError ''Unable to fetch voting power from both token and governor''))"

definition hasEnoughVotes :: "int option \<Rightarrow> int option \<Rightarrow> bool" where
  "hasEnoughVotes votes proposalThreshold =
     (case (votes, proposalThreshold) of
        (Some v, Some t) \<Rightarrow> if v \<noteq> 0 \<and> t \<noteq> 0 then t \<le> v else False
      | _ \<Rightarrow> False)"

section \<open>The token\<close>

record TokenMetadata =
  tm_symbol :: string
  tm_name :: string
  tm_decimals :: int

definition governance_token ::
  "string option \<Rightarrow> string option \<Rightarrow> string option \<Rightarrow> int option \<Rightarrow> TokenMetadata" where
  "governance_token standard symbol name decimals =
     \<lparr>tm_symbol = (case symbol of None \<Rightarrow> ''TOKEN'' | Some s \<Rightarrow> s),
      tm_name = (case name of None \<Rightarrow> ''Governance Token'' | Some s \<Rightarrow> s),
      tm_decimals =
        (if standard = Some ''ERC20''
         then (case decimals of None \<Rightarrow> 18 | Some d \<Rightarrow> if d = 0 then 18 else d)
         else if standard = Some ''ERC721'' then 0 else 18)\<rparr>"

text \<open>The decimals an amount of the governance token is shown with.\<close>

definition amount_decimals :: "string option \<Rightarrow> TokenMetadata option \<Rightarrow> int" where
  "amount_decimals standard token =
     (if standard = Some ''ERC721'' then 0 else case token of None \<Rightarrow> 18 | Some t \<Rightarrow> tm_decimals t)"

section \<open>Block times\<close>

definition BLOCK_SAMPLE_SIZE :: int where
  "BLOCK_SAMPLE_SIZE = 9"

fun intervals :: "int list \<Rightarrow> int list" where
  "intervals (a # b # ts) = (if a \<noteq> 0 \<and> b \<noteq> 0 then [b - a] else []) @ intervals (b # ts)"
| "intervals _ = []"

text \<open>The average over the sampled blocks; \<open>blocks\<close> reads the time of a block or throws.\<close>

definition block_time ::
  "(real \<Rightarrow> real) \<Rightarrow> (int \<Rightarrow> int outcome) \<Rightarrow> int option \<Rightarrow> real outcome" where
  "block_time fl blocks blockNumber =
     (case blockNumber of
        None \<Rightarrow> Inl (ThrownError ''Block number not available'')
      | Some n \<Rightarrow>
          if n = 0 then Inl (ThrownError ''Block number not available'')
          else if n < BLOCK_SAMPLE_SIZE then Inl (ThrownError ''Not enough blocks to sample'')
          else and_then (map_outcome blocks (map (\<lambda>i. n - BLOCK_SAMPLE_SIZE + int i) [0..<nat BLOCK_SAMPLE_SIZE + 1])) (\<lambda>ts.
            let ds = intervals ts
            in if ds = [] then Inl (ThrownError ''No valid block intervals found'')
               else Inr (math_floor (fl (foldl (\<lambda>acc d. fl (acc + fl (of_int d))) 0 ds / real (length ds))))))"

section \<open>Parameters\<close>

record GovernanceParams =
  gp_proposalThreshold :: int
  gp_votingDelay :: int
  gp_votingPeriod :: int
  gp_timeLockDelay :: "int option"
  gp_votingDelayInSeconds :: "real option"
  gp_votingPeriodInSeconds :: "real option"
  gp_timeLockDelayInSeconds :: "real option"

definition in_seconds :: "(real \<Rightarrow> real) \<Rightarrow> ClockModeResult \<Rightarrow> real option \<Rightarrow> int \<Rightarrow> real option" where
  "in_seconds fl c blockTime duration =
     (if \<not> clock_resolved c then None
      else if block_mode c then map_option (\<lambda>t. fl (fl (of_int duration) * t)) blockTime
      else Some (fl (of_int duration)))"

definition static_params ::
  "(real \<Rightarrow> real) \<Rightarrow> ClockModeResult \<Rightarrow> real option \<Rightarrow> int option list \<Rightarrow> GovernanceParams option" where
  "static_params fl c blockTime data =
     (case data of
        Some threshold # Some delay # Some period # rest \<Rightarrow>
          let timeLockDelay = (case rest of [] \<Rightarrow> None | d # _ \<Rightarrow> d)
          in Some \<lparr>gp_proposalThreshold = threshold, gp_votingDelay = delay, gp_votingPeriod = period,
                   gp_timeLockDelay = timeLockDelay,
                   gp_votingDelayInSeconds = in_seconds fl c blockTime delay,
                   gp_votingPeriodInSeconds = in_seconds fl c blockTime period,
                   gp_timeLockDelayInSeconds = map_option (\<lambda>d. fl (of_int d)) timeLockDelay\<rparr>
      | _ \<Rightarrow> None)"

text \<open>The time the quorum is asked for, and whether it is asked.\<close>

definition quorum_parameter :: "ClockModeResult \<Rightarrow> int option \<Rightarrow> int option \<Rightarrow> int" where
  "quorum_parameter c blockNumber clockData =
     (if block_mode c
      then (case blockNumber of None \<Rightarrow> 0 | Some n \<Rightarrow> if n = 0 then 0 else n - 10)
      else case clockData of None \<Rightarrow> 0 | Some t \<Rightarrow> t)"

definition quorum_enabled :: "bool \<Rightarrow> ClockModeResult \<Rightarrow> int option \<Rightarrow> int option \<Rightarrow> bool" where
  "quorum_enabled configured c blockNumber clockData \<longleftrightarrow>
     configured \<and> clock_resolved c \<and>
     (if block_mode c then (case blockNumber of None \<Rightarrow> False | Some n \<Rightarrow> 10 < n)
      else case clockData of None \<Rightarrow> False | Some t \<Rightarrow> t \<noteq> 0)"

section \<open>The indexer's progress\<close>

datatype SyncStatus = Operational | Syncing | Offline

definition sync_percentage :: "(real \<Rightarrow> real) \<Rightarrow> (real \<Rightarrow> real) \<Rightarrow> real \<Rightarrow> real \<Rightarrow> real" where
  "sync_percentage fl one_place currentBlock indexedBlock =
     (if currentBlock = 0 \<or> indexedBlock = 0 then 0
      else one_place (fl (fl (indexedBlock / currentBlock) * 100)))"

definition sync_status :: "real \<Rightarrow> real \<Rightarrow> SyncStatus" where
  "sync_status indexedBlock percentage =
     (if indexedBlock = 0 then Offline else if 95 \<le> percentage then Operational else Syncing)"

section \<open>The tally\<close>

record VotesData =
  vd_against :: int
  vd_for :: int
  vd_abstain :: int

definition votes_or_zero :: "string option \<Rightarrow> int" where
  "votes_or_zero v =
     (case setting v of None \<Rightarrow> 0 | Some t \<Rightarrow> (case BigInt_text t of Inr n \<Rightarrow> n | Inl _ \<Rightarrow> 0))"

definition totalVotesCast :: "VotesData \<Rightarrow> int" where
  "totalVotesCast v = vd_against v + vd_for v + vd_abstain v"

definition totalParticipation :: "VotesData \<Rightarrow> int" where
  "totalParticipation v = vd_for v + vd_abstain v"

definition hasReachedQuorum :: "VotesData \<Rightarrow> int \<Rightarrow> bool" where
  "hasReachedQuorum v quorumRequired \<longleftrightarrow> quorumRequired \<noteq> 0 \<and> quorumRequired \<le> totalParticipation v"

definition percentage_of :: "(real \<Rightarrow> real) \<Rightarrow> VotesData \<Rightarrow> int \<Rightarrow> real" where
  "percentage_of fl v votes =
     (if totalVotesCast v = 0 then 0
      else fl (fl (fl (of_int votes) / fl (of_int (totalVotesCast v))) * 100))"

definition calculateMajoritySupport :: "VotesData \<Rightarrow> string" where
  "calculateMajoritySupport v = (if vd_against v < vd_for v then ''Yes'' else ''No'')"

end
