(* ===== verification/WebProposalPage.thy ===== *)
theory WebProposalPage
  imports WebGovernance WebProposal
begin

text \<open>
  A proposal's page in the web client (packages/web/src/app/proposal/[id]): its stages
  (status.tsx), the action that is offered (action-group-display.tsx), and the calls of the governor
  it makes (action-group.tsx with hooks/useQueue.ts, useExecute.ts, useCancelProposal.ts,
  useCastVote.ts, useDelegate.ts behind hooks/useContractGuard.ts). Icons are left out.
\<close>

section \<open>What the page knows\<close>

datatype ProposalState =
    Pending | Active | Canceled | Defeated | Succeeded | Queued | Expired | Executed

definition getDisplayText :: "ProposalState option \<Rightarrow> string" where
  "getDisplayText status =
     (case status of
        None \<Rightarrow> ''-''
      | Some Pending \<Rightarrow> ''Pending''
      | Some Active \<Rightarrow> ''Active''
      | Some Canceled \<Rightarrow> ''Canceled''
      | Some Defeated \<Rightarrow> ''Defeated''
      | Some Succeeded \<Rightarrow> ''Succeeded''
      | Some Queued \<Rightarrow> ''Queued''
      | Some Expired \<Rightarrow> ''Expired''
      | Some Executed \<Rightarrow> ''Executed'')"

record Voter =
  vo_voter :: "string option"
  vo_support :: int

record ProposalItem =
  pi_proposalId :: string
  pi_proposer :: string
  pi_transactionHash :: string
  pi_blockTimestamp :: string
  pi_voteStartTimestamp :: "string option"
  pi_voteEndTimestamp :: "string option"
  pi_targets :: "string list"
  pi_values :: "string list"
  pi_calldatas :: "string list"
  pi_originalDescription :: string
  pi_voters :: "Voter list"

record StateChange =
  sc_blockTimestamp :: string
  sc_transactionHash :: string

text \<open>The dao's configuration and what was read of the proposal.\<close>

record PageData =
  pg_explorer :: "string option"
  pg_status :: "ProposalState option"
  pg_item :: "ProposalItem option"
  pg_timeLockDelay :: "real option"
  pg_queued :: "StateChange option"
  pg_executed :: "StateChange option"
  pg_canceled :: "StateChange option"

definition hasTimelock :: "PageData \<Rightarrow> bool" where
  "hasTimelock d \<longleftrightarrow> pg_timeLockDelay d \<noteq> None"

text \<open>\<open>BigInt(number)\<close>.\<close>

definition BigInt_number :: "real \<Rightarrow> int outcome" where
  "BigInt_number x = (if x = of_int \<lfloor>x\<rfloor> then Inr \<lfloor>x\<rfloor> else Inl (ThrownError ''RangeError''))"

definition queued_at :: "PageData \<Rightarrow> string option" where
  "queued_at d = setting (map_option sc_blockTimestamp (pg_queued d))"

definition executeEnabledTime :: "(real \<Rightarrow> real) \<Rightarrow> PageData \<Rightarrow> int option outcome" where
  "executeEnabledTime fl d =
     (case (queued_at d, pg_timeLockDelay d) of
        (Some t, Some delay) \<Rightarrow>
          if delay = 0 then Inr None
          else and_then (BigInt_text t) (\<lambda>q.
               and_then (BigInt_number (fl (delay * 1000))) (\<lambda>w. Inr (Some (q + w))))
      | _ \<Rightarrow> Inr None)"

section \<open>Stages\<close>

datatype StageKey =
    publish_stage | start_stage | end_stage | queue_stage | execute_stage | cancel_stage | defeated_stage | expired_stage

record ProposalStage =
  st_key :: StageKey
  st_title :: string
  st_timestamp :: "string option"
  st_isActive :: "bool option"
  st_isCurrent :: "bool option"
  st_address :: "string option"
  st_viewOnExplorer :: "string option"
  st_remaining :: "string option"

definition new_stage :: "StageKey \<Rightarrow> string \<Rightarrow> string option \<Rightarrow> ProposalStage" where
  "new_stage k title timestamp =
     \<lparr>st_key = k, st_title = title, st_timestamp = timestamp, st_isActive = None, st_isCurrent = None,
      st_address = None, st_viewOnExplorer = None, st_remaining = None\<rparr>"

definition tx_link :: "PageData \<Rightarrow> string option \<Rightarrow> string" where
  "tx_link d hash = shown (pg_explorer d) @ ''/tx/'' @ shown hash"

definition change_link :: "PageData \<Rightarrow> StateChange option \<Rightarrow> string" where
  "change_link d c =
     (case setting (map_option sc_transactionHash c) of None \<Rightarrow> [] | Some h \<Rightarrow> tx_link d (Some h))"

definition day_time :: "Calendar \<Rightarrow> string option \<Rightarrow> string" where
  "day_time C t = formatTimestampToDayTime C (case t of None \<Rightarrow> [] | Some x \<Rightarrow> x)"

text \<open>A time that is no time has \<open>NaN\<close> minutes left.\<close>

definition remaining_of :: "Calendar \<Rightarrow> int \<Rightarrow> real \<Rightarrow> string" where
  "remaining_of C now x =
     (case valid_time C x of None \<Rightarrow> ''in NaN minutes'' | Some t \<Rightarrow> getTimeRemaining C now t)"

definition votingPeriodRemaining :: "Calendar \<Rightarrow> int \<Rightarrow> string option \<Rightarrow> string" where
  "votingPeriodRemaining C now voteEnd =
     (case setting voteEnd of
        None \<Rightarrow> []
      | Some t \<Rightarrow>
          (case Number_text t of
             NaN \<Rightarrow> [] | Infinite _ \<Rightarrow> ''in NaN minutes'' | Finite x \<Rightarrow> remaining_of C now x))"

definition baseStages :: "Calendar \<Rightarrow> int \<Rightarrow> PageData \<Rightarrow> ProposalStage list" where
  "baseStages C now d =
     (let start = setting (case pg_item d of None \<Rightarrow> None | Some p \<Rightarrow> pi_voteStartTimestamp p);
          voteEnd = setting (case pg_item d of None \<Rightarrow> None | Some p \<Rightarrow> pi_voteEndTimestamp p)
      in [(new_stage publish_stage ''Publish onChain'' (Some (day_time C (map_option pi_blockTimestamp (pg_item d)))))
            \<lparr>st_address := map_option pi_proposer (pg_item d),
             st_viewOnExplorer := Some (tx_link d (map_option pi_transactionHash (pg_item d)))\<rparr>,
          new_stage start_stage ''Start voting period'' (Some (day_time C start)),
          (new_stage end_stage ''End voting period'' (Some (day_time C voteEnd)))
            \<lparr>st_remaining := Some (votingPeriodRemaining C now voteEnd)\<rparr>])"

definition changed_at :: "Calendar \<Rightarrow> StateChange option \<Rightarrow> string" where
  "changed_at C c = day_time C (setting (map_option sc_blockTimestamp c))"

definition additionalStages :: "Calendar \<Rightarrow> PageData \<Rightarrow> ProposalStage list" where
  "additionalStages C d =
     (if hasTimelock d
      then [(new_stage queue_stage ''Queue proposal'' (Some (changed_at C (pg_queued d))))
              \<lparr>st_viewOnExplorer := Some (change_link d (pg_queued d))\<rparr>] else []) @
     [(new_stage execute_stage ''Execute proposal'' (Some (changed_at C (pg_executed d))))
        \<lparr>st_viewOnExplorer := Some (change_link d (pg_executed d))\<rparr>]"

definition marked :: "bool \<Rightarrow> bool \<Rightarrow> ProposalStage \<Rightarrow> ProposalStage" where
  "marked active current v = v\<lparr>st_isActive := Some active, st_isCurrent := Some current\<rparr>"

definition queued_stage ::
  "Calendar \<Rightarrow> int \<Rightarrow> (real \<Rightarrow> real) \<Rightarrow> PageData \<Rightarrow> int option \<Rightarrow> ProposalStage \<Rightarrow> ProposalStage" where
  "queued_stage C now fl d enabled v =
     (let title = (if st_key v = queue_stage then ''Proposal queued'' else st_title v);
          active = (title \<noteq> ''Execute proposal'')
      in case (st_key v = execute_stage \<and> hasTimelock d, enabled) of
           (True, Some t) \<Rightarrow>
             if t \<noteq> 0 then
               marked active False (v\<lparr>st_title := title,
                 st_timestamp := Some (formatTimestampToDayTime C (int_text 10 t)),
                 st_remaining := Some (remaining_of C now (fl (of_int t)))\<rparr>)
             else marked active False (v\<lparr>st_title := title\<rparr>)
         | _ \<Rightarrow> marked active (st_key v = queue_stage) (v\<lparr>st_title := title\<rparr>))"

definition executed_stage :: "ProposalStage \<Rightarrow> ProposalStage" where
  "executed_stage v =
     (let title = (if st_key v = queue_stage then ''Proposal queued''
                   else if st_key v = execute_stage then ''Proposal executed'' else st_title v)
      in marked (title \<noteq> ''Execute proposal'') (st_key v = execute_stage) (v\<lparr>st_title := title\<rparr>))"

definition titled :: "string list \<Rightarrow> ProposalStage \<Rightarrow> bool" where
  "titled ts v \<longleftrightarrow> list_ex (\<lambda>t. st_title v = t) ts"

definition stages ::
  "Calendar \<Rightarrow> int \<Rightarrow> (real \<Rightarrow> real) \<Rightarrow> PageData \<Rightarrow> ProposalStage list outcome" where
  "stages C now fl d =
     and_then (executeEnabledTime fl d) (\<lambda>enabled.
       let base = baseStages C now d;
           all = base @ additionalStages C d;
           closed = map (marked True False) base;
           p = ''Publish onChain''; s = ''Start voting period''; e = ''End voting period''
       in Inr (case pg_status d of
            Some Pending \<Rightarrow> map (\<lambda>v. marked (titled [p] v) (titled [p] v) v) all
          | Some Active \<Rightarrow> map (\<lambda>v. marked (titled [p, s] v) (titled [s] v) v) all
          | Some Succeeded \<Rightarrow> map (\<lambda>v. marked (titled [p, s, e] v) (titled [e] v) v) all
          | Some Queued \<Rightarrow> map (queued_stage C now fl d enabled) all
          | Some Executed \<Rightarrow> map executed_stage all
          | Some Canceled \<Rightarrow> closed @
              [marked True True ((new_stage cancel_stage ''Proposal canceled''
                 (Some (day_time C (map_option sc_blockTimestamp (pg_canceled d)))))
                 \<lparr>st_viewOnExplorer := Some (change_link d (pg_canceled d))\<rparr>)]
          | Some Defeated \<Rightarrow> closed @ [marked True True (new_stage defeated_stage ''Proposal defeated'' None)]
          | Some Expired \<Rightarrow> closed @
              [marked True True (new_stage expired_stage ''Proposal expired'' (Some (changed_at C (pg_queued d)))),
               marked False False (new_stage execute_stage ''Execute proposal'' None)]
          | None \<Rightarrow> map (\<lambda>v. v\<lparr>st_isCurrent := Some False\<rparr>) base))"

section \<open>The action that is offered\<close>

definition canExecute :: "int \<Rightarrow> PageData \<Rightarrow> bool outcome" where
  "canExecute currentTime d =
     (if \<not> hasTimelock d \<and> pg_status d = Some Succeeded then Inr True
      else if pg_status d = Some Queued then
        and_then (case queued_at d of None \<Rightarrow> Inr None | Some t \<Rightarrow> map_sum id Some (BigInt_text t)) (\<lambda>queued.
        and_then (case pg_timeLockDelay d of
            None \<Rightarrow> Inr None
          | Some s \<Rightarrow> and_then (BigInt_number s) (\<lambda>n. Inr (Some (n * 1000)))) (\<lambda>timeLockDelay.
          case queued of
            None \<Rightarrow> Inr False
          | Some q \<Rightarrow>
              if q = 0 then Inr False
              else case timeLockDelay of None \<Rightarrow> Inr True | Some delay \<Rightarrow> Inr (q + delay < currentTime)))
      else Inr False)"

definition same_voter :: "string \<Rightarrow> Voter \<Rightarrow> bool" where
  "same_voter address v \<longleftrightarrow> map_option to_lower (vo_voter v) = Some (to_lower address)"

definition hasVoted :: "bool option \<Rightarrow> string option \<Rightarrow> PageData \<Rightarrow> bool" where
  "hasVoted onChain address d =
     (case onChain of
        Some b \<Rightarrow> b
      | None \<Rightarrow>
          (case (setting address, pg_item d) of
             (Some a, Some p) \<Rightarrow> list_ex (same_voter a) (pi_voters p)
           | _ \<Rightarrow> False))"

definition votedSupport :: "bool option \<Rightarrow> string option \<Rightarrow> PageData \<Rightarrow> int option" where
  "votedSupport onChain address d =
     (case (setting address, pg_item d) of
        (Some a, Some p) \<Rightarrow>
          if hasVoted onChain address d then map_option vo_support (find (same_voter a) (pi_voters p)) else None
      | _ \<Rightarrow> None)"

datatype Offered =
    Said string
  | VotedFor string
  | VoteButton
  | ExecuteButton bool
  | QueueButton
  | Nothing

definition VOTE_LABEL_MAP :: "int \<Rightarrow> string option" where
  "VOTE_LABEL_MAP support =
     (if support = 1 then Some ''For'' else if support = 0 then Some ''Against''
      else if support = 2 then Some ''Abstain'' else None)"

definition offered :: "ProposalState option \<Rightarrow> bool \<Rightarrow> bool \<Rightarrow> int option \<Rightarrow> Offered" where
  "offered status timelock executable voted =
     (case status of
        Some Pending \<Rightarrow> Said ''Voting starts soon''
      | Some Active \<Rightarrow>
          (case (case voted of None \<Rightarrow> None | Some v \<Rightarrow> VOTE_LABEL_MAP v) of
             Some label \<Rightarrow> VotedFor label | None \<Rightarrow> VoteButton)
      | Some Succeeded \<Rightarrow> if timelock then QueueButton else ExecuteButton executable
      | Some Queued \<Rightarrow> ExecuteButton executable
      | Some Executed \<Rightarrow> Said ''Proposal executed''
      | Some Canceled \<Rightarrow> Said ''Proposal canceled''
      | Some Expired \<Rightarrow> Said ''Proposal expired''
      | Some Defeated \<Rightarrow> Said ''Proposal defeated''
      | None \<Rightarrow> Nothing)"

text \<open>Whether the page keeps asking if the user has voted; the first state counts as false.\<close>

definition ACTIVE_STATES :: "ProposalState list" where
  "ACTIVE_STATES = [Pending, Active, Succeeded, Queued]"

definition shouldPollHasVoted :: "ProposalState option \<Rightarrow> bool" where
  "shouldPollHasVoted status =
     (case status of None \<Rightarrow> False | Some s \<Rightarrow> s \<noteq> Pending \<and> List.member ACTIVE_STATES s)"

section \<open>The calls\<close>

record Wallet =
  wa_isConnected :: bool
  wa_chainId :: "nat option"
  wa_canOpenModal :: bool

record DaoContracts =
  dc_governor :: "string option"
  dc_token :: "string option"
  dc_chainId :: "nat option"

datatype GuardEffect = OpensConnectModal | SwitchesChain nat | NoEffect

definition validateBeforeExecution :: "DaoContracts \<Rightarrow> Wallet \<Rightarrow> bool \<times> GuardEffect" where
  "validateBeforeExecution dao w =
     (if \<not> wa_isConnected w then (False, if wa_canOpenModal w then OpensConnectModal else NoEffect)
      else if dc_chainId dao \<noteq> wa_chainId w then
        (False, case dc_chainId dao of Some n \<Rightarrow> if n = 0 then NoEffect else SwitchesChain n | None \<Rightarrow> NoEffect)
      else (True, NoEffect))"

datatype ContractArgs =
    ProposalArgs "string list" "int list" "string list" string
  | VoteArgs int int string
  | DelegateArgs string

record ContractCall =
  cc_address :: "string option"
  cc_function :: string
  cc_args :: ContractArgs

text \<open>A call that is sent, none when the guard refuses, or an exception without a governor.\<close>

definition governor_call :: "DaoContracts \<Rightarrow> Wallet \<Rightarrow> string \<Rightarrow> ContractArgs \<Rightarrow> ContractCall option outcome" where
  "governor_call dao w function arguments =
     (case setting (dc_governor dao) of
        None \<Rightarrow> Inl (ThrownError ''Governor contract not found'')
      | Some g \<Rightarrow>
          if fst (validateBeforeExecution dao w)
          then Inr (Some \<lparr>cc_address = Some g, cc_function = function, cc_args = arguments\<rparr>) else Inr None)"

definition delegate_call :: "DaoContracts \<Rightarrow> Wallet \<Rightarrow> string \<Rightarrow> ContractCall option" where
  "delegate_call dao w delegatee =
     (if fst (validateBeforeExecution dao w)
      then Some \<lparr>cc_address = dc_token dao, cc_function = ''delegate'', cc_args = DelegateArgs delegatee\<rparr> else None)"

text \<open>The arguments that name the proposal again: its actions and the hash of its description.\<close>

definition proposal_args :: "(string \<Rightarrow> string) \<Rightarrow> ProposalItem \<Rightarrow> ContractArgs outcome" where
  "proposal_args calculateDescriptionHash p =
     and_then (map_outcome BigInt_text (pi_values p)) (\<lambda>amounts.
       Inr (ProposalArgs (pi_targets p) amounts (pi_calldatas p)
              (calculateDescriptionHash (pi_originalDescription p))))"

definition queueProposal ::
  "(string \<Rightarrow> string) \<Rightarrow> DaoContracts \<Rightarrow> Wallet \<Rightarrow> ProposalItem \<Rightarrow> ContractCall option outcome" where
  "queueProposal hash dao w p = and_then (proposal_args hash p) (governor_call dao w ''queue'')"

definition executeProposal ::
  "(string \<Rightarrow> string) \<Rightarrow> DaoContracts \<Rightarrow> Wallet \<Rightarrow> ProposalItem \<Rightarrow> ContractCall option outcome" where
  "executeProposal hash dao w p = and_then (proposal_args hash p) (governor_call dao w ''execute'')"

definition cancelProposal ::
  "(string \<Rightarrow> string) \<Rightarrow> DaoContracts \<Rightarrow> Wallet \<Rightarrow> ProposalItem \<Rightarrow> ContractCall option outcome" where
  "cancelProposal hash dao w p = and_then (proposal_args hash p) (governor_call dao w ''cancel'')"

definition castVote ::
  "DaoContracts \<Rightarrow> Wallet \<Rightarrow> string \<Rightarrow> int \<Rightarrow> string \<Rightarrow> ContractCall option outcome" where
  "castVote dao w proposalId support reason =
     and_then (BigInt_text proposalId) (\<lambda>n. governor_call dao w ''castVoteWithReason'' (VoteArgs n support reason))"

section \<open>The tally of the page\<close>

definition proposalVotesData :: "string option \<Rightarrow> string option \<Rightarrow> string option \<Rightarrow> VotesData" where
  "proposalVotesData againstSum forSum abstainSum =
     \<lparr>vd_against = votes_or_zero againstSum, vd_for = votes_or_zero forSum, vd_abstain = votes_or_zero abstainSum\<rparr>"

definition quorumRequired :: "string option \<Rightarrow> int" where
  "quorumRequired quorum = votes_or_zero quorum"

section \<open>The proposal that is shown\<close>

text \<open>
  The proposal that a proposal's page shows: the row that the indexer's query server returns for the
  number in the address (services/graphql/types/proposals.ts) and what app/proposal/[id]/page.tsx
  makes of it, with the description taken apart and the original one kept for the calls.
\<close>

record ProposalRow =
  rw_proposalId :: string
  rw_proposer :: string
  rw_transactionHash :: string
  rw_blockTimestamp :: string
  rw_voteStartTimestamp :: "string option"
  rw_voteEndTimestamp :: "string option"
  rw_targets :: "string list"
  rw_values :: "string list"
  rw_calldatas :: "string list"
  rw_description :: string
  rw_quorum :: "string option"
  rw_metricsVotesWeightForSum :: "string option"
  rw_metricsVotesWeightAgainstSum :: "string option"
  rw_metricsVotesWeightAbstainSum :: "string option"
  rw_voters :: "Voter list"

text \<open>The row with its description read, and what the page's parts take of it.\<close>

record ProposalShown =
  sh_item :: ProposalItem
  sh_description :: string
  sh_discussion :: "string option"
  sh_signatureContent :: "json list option"
  sh_quorum :: "string option"
  sh_forSum :: "string option"
  sh_againstSum :: "string option"
  sh_abstainSum :: "string option"

definition proposal_data :: "ProposalRow list \<Rightarrow> ProposalShown option" where
  "proposal_data allData =
     (case allData of
        [] \<Rightarrow> None
      | data # _ \<Rightarrow>
          let parsedDescription = parseDescription (Some (rw_description data))
          in Some \<lparr>
            sh_item = \<lparr>
              pi_proposalId = rw_proposalId data, pi_proposer = rw_proposer data,
              pi_transactionHash = rw_transactionHash data, pi_blockTimestamp = rw_blockTimestamp data,
              pi_voteStartTimestamp = rw_voteStartTimestamp data,
              pi_voteEndTimestamp = rw_voteEndTimestamp data, pi_targets = rw_targets data,
              pi_values = rw_values data, pi_calldatas = rw_calldatas data,
              pi_originalDescription = rw_description data, pi_voters = rw_voters data\<rparr>,
            sh_description = pd_mainText parsedDescription,
            sh_discussion = pd_discussion parsedDescription,
            sh_signatureContent = pd_signatureContent parsedDescription,
            sh_quorum = rw_quorum data,
            sh_forSum = rw_metricsVotesWeightForSum data,
            sh_againstSum = rw_metricsVotesWeightAgainstSum data,
            sh_abstainSum = rw_metricsVotesWeightAbstainSum data\<rparr>)"

text \<open>The tally and the quorum on the page, also while there is no row.\<close>

definition page_votes :: "ProposalShown option \<Rightarrow> VotesData" where
  "page_votes data =
     proposalVotesData (Option.bind data sh_againstSum) (Option.bind data sh_forSum) (Option.bind data sh_abstainSum)"

definition page_quorum :: "ProposalShown option \<Rightarrow> int" where
  "page_quorum data = quorumRequired (Option.bind data sh_quorum)"

end
