(* ===== verification/WebPageClaims.thy ===== *)
theory WebPageClaims
  imports WebProposalPage
begin

text \<open>
  What a proposal's page shows: a progress whose current stage is the last one reached, and an
  action that is open exactly when the page shows no time left.
\<close>

section \<open>Parameters\<close>

text \<open>The quorum of a block clock is asked for a block of the past, ten back.\<close>

lemma quorum_of_the_past:
  assumes "quorum_enabled configured c (Some n) clockData" and "block_mode c"
  shows "0 < quorum_parameter c (Some n) clockData \<and> quorum_parameter c (Some n) clockData < n"
  using assms by (simp add: quorum_enabled_def quorum_parameter_def)

text \<open>That of a timestamp clock for the present.\<close>

lemma quorum_of_the_present:
  "time_mode c \<Longrightarrow> quorum_parameter c blockNumber (Some now) = now"
  by (simp add: quorum_parameter_def)

text \<open>With a threshold of nothing nobody has enough votes, nor has one without votes.\<close>

lemma zero_threshold_blocks: "hasEnoughVotes votes (Some 0) = False"
  by (simp add: hasEnoughVotes_def split: option.split)

lemma enough_votes: "0 < t \<Longrightarrow> hasEnoughVotes (Some v) (Some t) \<longleftrightarrow> t \<le> v"
  by (auto simp: hasEnoughVotes_def)

text \<open>A token of no decimals is shown with eighteen.\<close>

lemma whole_tokens_shown_as_fractions:
  "amount_decimals (Some ''ERC20'') (Some (governance_token (Some ''ERC20'') symbol name (Some 0))) = 18"
  by (simp add: amount_decimals_def governance_token_def)

lemma pending_is_not_polled: "shouldPollHasVoted (Some Pending) = False"
  by (simp add: shouldPollHasVoted_def)

section \<open>Stages\<close>

text \<open>The stages are reached in order, and the current one is the last reached.\<close>

definition progress :: "ProposalStage list \<Rightarrow> bool" where
  "progress ss \<longleftrightarrow>
     (\<exists>k > 0. map (\<lambda>v. (st_isActive v, st_isCurrent v)) ss =
        map (\<lambda>i. (Some (i < k), Some (Suc i = k))) [0..<length ss])"

lemma title_distinct:
  "''Publish onChain'' \<noteq> ''Start voting period''" "''Publish onChain'' \<noteq> ''End voting period''"
  "''Publish onChain'' \<noteq> ''Execute proposal''" "''Publish onChain'' \<noteq> ''Queue proposal''"
  "''Start voting period'' \<noteq> ''End voting period''" "''Start voting period'' \<noteq> ''Execute proposal''"
  "''Start voting period'' \<noteq> ''Queue proposal''" "''End voting period'' \<noteq> ''Execute proposal''"
  "''End voting period'' \<noteq> ''Queue proposal''" "''Queue proposal'' \<noteq> ''Execute proposal''"
  "''Proposal queued'' \<noteq> ''Execute proposal''" "''Proposal executed'' \<noteq> ''Execute proposal''"
  by simp_all

lemma stage_fields [simp]:
  "st_title (marked a b v) = st_title v" "st_key (marked a b v) = st_key v"
  "st_isActive (marked a b v) = Some a" "st_isCurrent (marked a b v) = Some b"
  by (simp_all add: marked_def)

lemma queued_stage_marks:
  "st_isActive (queued_stage C now fl d enabled v) = Some (st_key v = queue_stage \<or> st_title v \<noteq> ''Execute proposal'')"
  "st_isCurrent (queued_stage C now fl d enabled v) = Some (st_key v = queue_stage)"
  by (auto simp: queued_stage_def Let_def split: option.split bool.split)

lemma executed_stage_marks:
  "st_isActive (executed_stage v) =
     Some (st_key v = queue_stage \<or> st_key v = execute_stage \<or> st_title v \<noteq> ''Execute proposal'')"
  "st_isCurrent (executed_stage v) = Some (st_key v = execute_stage)"
  by (auto simp: executed_stage_def Let_def)

lemma base_titles:
  "map st_title (baseStages C now d) = [''Publish onChain'', ''Start voting period'', ''End voting period'']"
  "map st_key (baseStages C now d) = [publish_stage, start_stage, end_stage]"
  by (simp_all add: baseStages_def new_stage_def Let_def)

lemma more_titles:
  "map st_title (additionalStages C d) = (if hasTimelock d then [''Queue proposal''] else []) @ [''Execute proposal'']"
  "map st_key (additionalStages C d) = (if hasTimelock d then [queue_stage] else []) @ [execute_stage]"
  by (simp_all add: additionalStages_def new_stage_def)

lemma progressI:
  assumes "map (\<lambda>v. (st_isActive v, st_isCurrent v)) ss = map (\<lambda>i. (Some (i < k), Some (Suc i = k))) [0..<n]" and "0 < k"
  shows "progress ss"
proof -
  have "length ss = n" using arg_cong [OF assms(1), of length] by simp
  with assms show ?thesis unfolding progress_def by blast
qed

lemma marks_map:
  assumes "\<And>v. (st_isActive (f v), st_isCurrent (f v)) = (Some (a (st_key v) (st_title v)), Some (c (st_key v) (st_title v)))"
  shows "map (\<lambda>v. (st_isActive v, st_isCurrent v)) (map f vs) =
    map (\<lambda>(k, t). (Some (a k t), Some (c k t))) (zip (map st_key vs) (map st_title vs))"
  using assms by (induction vs) simp_all

lemma all_marks:
  assumes "\<And>v. (st_isActive (f v), st_isCurrent (f v)) = (Some (a (st_key v) (st_title v)), Some (c (st_key v) (st_title v)))"
  shows "map (\<lambda>v. (st_isActive v, st_isCurrent v)) (map f (baseStages C now d @ additionalStages C d)) =
    (let m = (\<lambda>k t. (Some (a k t), Some (c k t)))
     in [m publish_stage ''Publish onChain'', m start_stage ''Start voting period'', m end_stage ''End voting period''] @
        (if hasTimelock d then [m queue_stage ''Queue proposal''] else []) @ [m execute_stage ''Execute proposal''])"
  unfolding marks_map [of f a c, OF assms] map_append base_titles more_titles by simp

lemma base_marks:
  "map (\<lambda>v. (st_isActive v, st_isCurrent v)) (map (marked True False) (baseStages C now d)) =
     [(Some True, Some False), (Some True, Some False), (Some True, Some False)]"
  by (simp add: baseStages_def new_stage_def marked_def Let_def)

definition shown_marks :: "ProposalStage list \<Rightarrow> (bool option \<times> bool option) list" where
  "shown_marks ss = map (\<lambda>v. (st_isActive v, st_isCurrent v)) ss"

definition reached :: "nat \<Rightarrow> nat \<Rightarrow> (bool option \<times> bool option) list" where
  "reached n k = map (\<lambda>i. (Some (i < k), Some (Suc i = k))) [0..<n]"

lemma reached_values:
  "reached 4 1 = [(Some True, Some True), (Some False, Some False), (Some False, Some False), (Some False, Some False)]"
  "reached 4 2 = [(Some True, Some False), (Some True, Some True), (Some False, Some False), (Some False, Some False)]"
  "reached 4 3 = [(Some True, Some False), (Some True, Some False), (Some True, Some True), (Some False, Some False)]"
  "reached 4 4 = [(Some True, Some False), (Some True, Some False), (Some True, Some False), (Some True, Some True)]"
  "reached 5 1 = [(Some True, Some True), (Some False, Some False), (Some False, Some False), (Some False, Some False), (Some False, Some False)]"
  "reached 5 2 = [(Some True, Some False), (Some True, Some True), (Some False, Some False), (Some False, Some False), (Some False, Some False)]"
  "reached 5 3 = [(Some True, Some False), (Some True, Some False), (Some True, Some True), (Some False, Some False), (Some False, Some False)]"
  "reached 5 4 = [(Some True, Some False), (Some True, Some False), (Some True, Some False), (Some True, Some True), (Some False, Some False)]"
  "reached 5 5 = [(Some True, Some False), (Some True, Some False), (Some True, Some False), (Some True, Some False), (Some True, Some True)]"
  by (simp_all add: reached_def numeral_eq_Suc)

lemma progress_reached: "shown_marks ss = reached n k \<Longrightarrow> 0 < k \<Longrightarrow> progress ss"
  unfolding shown_marks_def reached_def by (rule progressI)

abbreviation all_stages :: "Calendar \<Rightarrow> int \<Rightarrow> PageData \<Rightarrow> ProposalStage list" where
  "all_stages C now d \<equiv> baseStages C now d @ additionalStages C d"

lemma open_progress:
  "progress (map (\<lambda>v. marked (titled [''Publish onChain''] v) (titled [''Publish onChain''] v) v) (all_stages C now d))"
  "progress (map (\<lambda>v. marked (titled [''Publish onChain'', ''Start voting period''] v) (titled [''Start voting period''] v) v)
     (all_stages C now d))"
  "progress (map (\<lambda>v. marked (titled [''Publish onChain'', ''Start voting period'', ''End voting period''] v)
     (titled [''End voting period''] v) v) (all_stages C now d))" (is "progress ?third")
proof -
  have "shown_marks (map (\<lambda>v. marked (titled [''Publish onChain''] v) (titled [''Publish onChain''] v) v) (all_stages C now d))
      = (if hasTimelock d then reached 5 1 else reached 4 1)" (is "shown_marks ?first = _")
    unfolding shown_marks_def
    by (simp add: all_marks [where a = "\<lambda>k t. t = ''Publish onChain''" and c = "\<lambda>k t. t = ''Publish onChain''"]
        titled_def reached_values reached_values(1,5) [unfolded One_nat_def] del: map_map map_append)
  then show "progress ?first" by (auto split: if_splits intro: progress_reached)
  have "shown_marks (map (\<lambda>v. marked (titled [''Publish onChain'', ''Start voting period''] v) (titled [''Start voting period''] v) v)
      (all_stages C now d)) = (if hasTimelock d then reached 5 2 else reached 4 2)" (is "shown_marks ?second = _")
    unfolding shown_marks_def
    by (simp add: all_marks [where a = "\<lambda>k t. t = ''Publish onChain'' \<or> t = ''Start voting period''" and c = "\<lambda>k t. t = ''Start voting period''"]
        titled_def reached_values del: map_map map_append)
  then show "progress ?second" by (auto split: if_splits intro: progress_reached)
  have "shown_marks ?third = (if hasTimelock d then reached 5 3 else reached 4 3)"
    unfolding shown_marks_def
    by (simp add: all_marks [where a = "\<lambda>k t. t = ''Publish onChain'' \<or> t = ''Start voting period'' \<or> t = ''End voting period''" and c = "\<lambda>k t. t = ''End voting period''"]
        titled_def reached_values del: map_map map_append)
  then show "progress ?third" by (auto split: if_splits intro: progress_reached)
qed

lemma passed_progress:
  "hasTimelock d \<Longrightarrow> progress (map (queued_stage C now fl d enabled) (all_stages C now d))"
  "progress (map executed_stage (all_stages C now d))"
proof -
  have "shown_marks (map executed_stage (all_stages C now d)) = (if hasTimelock d then reached 5 5 else reached 4 4)"
    unfolding shown_marks_def
    by (simp add: all_marks [where a = "\<lambda>k t. k = queue_stage \<or> k = execute_stage \<or> t \<noteq> ''Execute proposal''"
          and c = "\<lambda>k t. k = execute_stage"] executed_stage_marks reached_values del: map_map map_append)
  then show "progress (map executed_stage (all_stages C now d))" by (auto split: if_splits intro: progress_reached)
  assume "hasTimelock d"
  then have "shown_marks (map (queued_stage C now fl d enabled) (all_stages C now d)) = reached 5 4"
    unfolding shown_marks_def
    by (simp add: all_marks [where a = "\<lambda>k t. k = queue_stage \<or> t \<noteq> ''Execute proposal''" and c = "\<lambda>k t. k = queue_stage"]
        queued_stage_marks reached_values del: map_map map_append)
  then show "progress (map (queued_stage C now fl d enabled) (all_stages C now d))" by (rule progress_reached) simp
qed

lemma closed_progress:
  "progress (map (marked True False) (baseStages C now d) @ [marked True True v])" (is "progress ?one")
  "progress (map (marked True False) (baseStages C now d) @ [marked True True v, marked False False v'])" (is "progress ?two")
proof -
  have "shown_marks ?one = reached 4 4" "shown_marks ?two = reached 5 4"
    unfolding shown_marks_def by (simp_all add: base_marks reached_values del: map_map)
  then show "progress ?one" "progress ?two" by (auto intro: progress_reached)
qed

lemma queued_without_timelock:
  assumes "\<not> hasTimelock d"
  shows "shown_marks (map (queued_stage C now fl d enabled) (all_stages C now d)) =
    [(Some True, Some False), (Some True, Some False), (Some True, Some False), (Some False, Some False)]"
  using assms unfolding shown_marks_def
  by (simp add: all_marks [where a = "\<lambda>k t. k = queue_stage \<or> t \<noteq> ''Execute proposal''" and c = "\<lambda>k t. k = queue_stage"]
      queued_stage_marks del: map_map map_append)

text \<open>
  C33: Whatever is known of a proposal in a known state, its stages are shown in the order in which a
  proposal passes them: those marked as reached come first, and the current one is the last of them.
  The one exception is a proposal queued at a governor without a timelock: the three stages of its
  vote are marked as reached, its execution is not, and no stage is the current one.
\<close>

theorem stages_progress:
  assumes "stages C now fl d = Inr ss" and "pg_status d = Some status"
  shows "if status = Queued \<and> \<not> hasTimelock d
    then map (\<lambda>v. (st_isActive v, st_isCurrent v)) ss =
      [(Some True, Some False), (Some True, Some False), (Some True, Some False), (Some False, Some False)]
    else progress ss"
proof -
  obtain enabled where "executeEnabledTime fl d = Inr enabled"
    using assms(1) by (auto simp: stages_def and_then_eq_Inr)
  note eq = assms(1) [unfolded stages_def this and_then_Inr Let_def assms(2) option.case, symmetric]
  show ?thesis
  proof (cases "status = Queued \<and> \<not> hasTimelock d")
    case True
    with eq queued_without_timelock [of d] show ?thesis by (simp add: shown_marks_def del: map_append)
  next
    case False
    with eq open_progress passed_progress closed_progress show ?thesis
      by (cases status) (simp_all del: map_append)
  qed
qed

section \<open>The button and the time left\<close>

text \<open>A calendar that takes whole numbers of milliseconds for times.\<close>

definition takes_times :: "Calendar \<Rightarrow> bool" where
  "takes_times C \<longleftrightarrow> (\<forall>t :: int. \<bar>t\<bar> \<le> max_safe \<longrightarrow> valid_time C (of_int t) = Some t)"

lemma remaining_nothing:
  assumes "takes_times C" and "\<bar>t\<bar> \<le> max_safe"
  shows "remaining_of C now (of_int t) = [] \<longleftrightarrow> t < now"
  using assms by (simp add: remaining_of_def takes_times_def getTimeRemaining_def)

text \<open>
  For a proposal queued in a timelock the button that executes it is open exactly when the page
  shows no time left until it can be executed.
\<close>

theorem execute_button_agrees:
  assumes fl: "rounding fl" and C: "takes_times C"
    and q: "pg_status d = Some Queued" "queued_at d = Some (nat_text 10 queued)" "queued \<noteq> 0"
    and delay: "pg_timeLockDelay d = Some (real delay)" "delay \<noteq> 0"
    and safe: "int queued + int delay * 1000 \<le> max_safe"
  shows "\<exists>ss. stages C now fl d = Inr ss \<and> st_key (last ss) = execute_stage \<and>
    canExecute now d = Inr (st_remaining (last ss) = Some [])"
proof -
  let ?t = "int queued + int delay * 1000"
  have exact: "fl (real delay * 1000) = of_int (int delay * 1000)"
    using rounding_int [OF fl, of "int delay * 1000"] safe by simp
  have "real delay * 1000 = of_int (int delay * 1000)" by simp
  then have floor: "\<lfloor>real delay * 1000\<rfloor> = int delay * 1000" by (simp only: floor_of_int)
  from exact have enabled: "executeEnabledTime fl d = Inr (Some ?t)"
    using q(2) delay by (simp add: executeEnabledTime_def BigInt_nat_text BigInt_number_def floor)
  have lock: "hasTimelock d" using delay by (simp add: hasTimelock_def)
  have flt: "fl (of_int ?t) = of_int ?t" using rounding_int [OF fl, of ?t] safe by simp
  define ss where "ss = map (queued_stage C now fl d (Some ?t)) (baseStages C now d @ additionalStages C d)"
  have ss: "stages C now fl d = Inr ss"
    by (simp add: stages_def enabled q(1) ss_def Let_def)
  have last: "last ss = queued_stage C now fl d (Some ?t)
      ((new_stage execute_stage ''Execute proposal'' (Some (changed_at C (pg_executed d))))
        \<lparr>st_viewOnExplorer := Some (change_link d (pg_executed d))\<rparr>)"
    by (simp add: ss_def additionalStages_def)
  have "?t \<noteq> 0" using q(3) by simp
  then have key: "st_key (last ss) = execute_stage" and left: "st_remaining (last ss) = Some (remaining_of C now (of_int ?t))"
    unfolding last using lock flt by (simp_all add: queued_stage_def new_stage_def marked_def Let_def)
  have "canExecute now d = Inr (?t < now)"
    using q delay by (simp add: canExecute_def lock BigInt_nat_text BigInt_number_def)
  with ss key left remaining_nothing [OF C, of ?t now] safe show ?thesis by simp
qed

section \<open>Witnesses\<close>

definition demo_calendar :: Calendar where
  "demo_calendar = \<lparr>time_diff = (\<lambda>a b u. (a - b) div 60000), year_of = (\<lambda>_. 2024),
     date_text = (\<lambda>_ f. f), from_text = (\<lambda>_. []), valid_time = (\<lambda>x. Some \<lfloor>x\<rfloor>)\<rparr>"

definition demo_page_data :: PageData where
  "demo_page_data = \<lparr>pg_explorer = None, pg_status = Some Queued, pg_item = None,
     pg_timeLockDelay = Some (real 60), pg_queued = Some \<lparr>sc_blockTimestamp = ''5'', sc_transactionHash = []\<rparr>,
     pg_executed = None, pg_canceled = None\<rparr>"

lemma demo_queued: "queued_at demo_page_data = Some (nat_text 10 5)"
proof -
  have "nat_text 10 5 = ''5''" by code_simp
  then show ?thesis by (simp add: queued_at_def demo_page_data_def setting_def)
qed

lemma execute_button_agrees_witness:
  "\<exists>ss. stages demo_calendar 7 (\<lambda>x. x) demo_page_data = Inr ss \<and> st_key (last ss) = execute_stage \<and>
    canExecute 7 demo_page_data = Inr (st_remaining (last ss) = Some [])"
  by (rule execute_button_agrees [OF rounding_exact _ _ demo_queued, where delay = 60])
    (simp_all add: takes_times_def demo_calendar_def demo_page_data_def max_safe_def)

lemma stages_progress_witness:
  "\<exists>ss. stages demo_calendar 7 (\<lambda>x. x) (demo_page_data\<lparr>pg_status := Some Active, pg_queued := None\<rparr>) = Inr ss \<and> progress ss"
proof -
  let ?d = "demo_page_data\<lparr>pg_status := Some Active, pg_queued := None\<rparr>"
  have "executeEnabledTime (\<lambda>x. x) ?d = Inr None"
    by (simp add: executeEnabledTime_def queued_at_def demo_page_data_def setting_def)
  then obtain ss where ss: "stages demo_calendar 7 (\<lambda>x. x) ?d = Inr ss"
    by (simp add: stages_def Let_def)
  have "progress ss" using stages_progress [OF ss, of Active] by (simp add: demo_page_data_def)
  with ss show ?thesis by blast
qed

end
