(* ===== verification/WebActionsClaims.thy ===== *)
theory WebActionsClaims
  imports WebProposalPage GovernorClaims
begin

text \<open>
  The web client on top of the indexer: the calls a proposal's page makes name the proposal of the
  chain, and the tally it shows is that of the votes of the chain.
\<close>

section \<open>What the indexer answers\<close>

text \<open>
  The indexer's query server is not code of the repository. It hands out a stored row with its fields
  as they are, big integers as decimal texts, and for a condition on a proposal's number the rows with
  that number.
\<close>

definition serves_rows :: "(Proposal \<Rightarrow> ProposalRow) \<Rightarrow> bool" where
  "serves_rows served \<longleftrightarrow> (\<forall>p.
     rw_proposalId (served p) = pr_proposalId p \<and> rw_proposer (served p) = pr_proposer p \<and>
     rw_targets (served p) = pr_targets p \<and> rw_values (served p) = pr_values p \<and>
     rw_calldatas (served p) = pr_calldatas p \<and> rw_description (served p) = pr_description p \<and>
     rw_metricsVotesWeightForSum (served p) = map_option decimal (pr_metricsVotesWeightForSum p) \<and>
     rw_metricsVotesWeightAgainstSum (served p) = map_option decimal (pr_metricsVotesWeightAgainstSum p) \<and>
     rw_metricsVotesWeightAbstainSum (served p) = map_option decimal (pr_metricsVotesWeightAbstainSum p) \<and>
     rw_quorum (served p) = Some (decimal (pr_quorum p)))"

definition answers_number :: "(Proposal \<Rightarrow> ProposalRow) \<Rightarrow> world \<Rightarrow> (string \<Rightarrow> ProposalRow list) \<Rightarrow> bool" where
  "answers_number served w answer \<longleftrightarrow>
     (\<forall>pid. set (answer pid) = served ` {p \<in> rows (proposals w). pr_proposalId p = pid})"

lemma map_decimal: "map_outcome BigInt_text (map decimal vs) = Inr vs"
  by (induction vs) (simp_all add: BigInt_decimal)

lemma stdProposalId_reads: "0 \<le> i \<Longrightarrow> BigInt_text (stdProposalId i) = Inr i"
  using BigInt_hex [of "nat i"] by (simp add: stdProposalId_def int_text_def)

lemma decimal_text_written [simp]: "decimal n \<noteq> []"
  by (simp add: int_text_def)

lemma votes_or_zero_decimal: "votes_or_zero (map_option decimal v) = nullish v 0"
  by (cases v) (simp_all add: votes_or_zero_def setting_def BigInt_decimal nullish_def)

section \<open>The calls\<close>

text \<open>
  C9: For a proposal the indexer stored from an event of the chain, queueing, executing and
  cancelling it from its page call the governor with exactly the targets, values, calls and the hash
  of the description of that event, although the page shows the description without its tags, and a
  vote is cast for the event's number; when the wallet is not connected or on another chain, nothing
  is called.
\<close>

theorem calls_name_the_proposal:
  assumes "serves_rows served" and "0 \<le> evp_proposalId event"
    and "dc_governor dao = Some governor" and "governor \<noteq> []"
    and "proposal_data (served (proposal_entity env eventLog event qmr interval start_time end_time) # others) = Some data"
    and "p = sh_item data"
  shows "(let call = (\<lambda>f a. Inr (if fst (validateBeforeExecution dao w)
            then Some \<lparr>cc_address = Some governor, cc_function = f, cc_args = a\<rparr> else None));
          named = ProposalArgs (evp_targets event) (evp_values event) (evp_calldatas event) (hash (evp_description event))
      in queueProposal hash dao w p = call ''queue'' named \<and>
         executeProposal hash dao w p = call ''execute'' named \<and>
         cancelProposal hash dao w p = call ''cancel'' named \<and>
         castVote dao w (pi_proposalId p) support reason =
           call ''castVoteWithReason'' (VoteArgs (evp_proposalId event) support reason))"
proof -
  let ?e = "proposal_entity env eventLog event qmr interval start_time end_time"
  have item: "pi_targets p = pr_targets ?e" "pi_values p = pr_values ?e" "pi_calldatas p = pr_calldatas ?e"
    "pi_originalDescription p = pr_description ?e" "pi_proposalId p = pr_proposalId ?e"
    using assms(1,5,6) by (auto simp: proposal_data_def Let_def serves_rows_def)
  then have args: "proposal_args hash p =
      Inr (ProposalArgs (evp_targets event) (evp_values event) (evp_calldatas event) (hash (evp_description event)))"
    by (simp add: proposal_args_def proposal_entity_def map_decimal)
  have "pi_proposalId p = stdProposalId (evp_proposalId event)"
    using item by (simp add: proposal_entity_def)
  then have id: "BigInt_text (pi_proposalId p) = Inr (evp_proposalId event)"
    using stdProposalId_reads [OF assms(2)] by simp
  show ?thesis
    using assms(3,4) by (simp add: Let_def queueProposal_def executeProposal_def cancelProposal_def castVote_def
        args id governor_call_def setting_def)
qed

section \<open>The tally\<close>

lemma page_of_row:
  assumes "serves_rows served"
  shows "page_votes (proposal_data (served p # others)) =
      \<lparr>vd_against = nullish (pr_metricsVotesWeightAgainstSum p) 0, vd_for = nullish (pr_metricsVotesWeightForSum p) 0,
       vd_abstain = nullish (pr_metricsVotesWeightAbstainSum p) 0\<rparr>"
    and "page_quorum (proposal_data (served p # others)) = pr_quorum p"
  using assms votes_or_zero_decimal [of "Some (pr_quorum p)"]
  by (simp_all add: page_votes_def page_quorum_def proposal_data_def Let_def serves_rows_def proposalVotesData_def
      quorumRequired_def votes_or_zero_decimal nullish_def)

text \<open>
  C10: The indexer processes the logs of a governor, one of which creates a proposal whose number no
  other of them creates. On the page of that number the votes for, against and abstaining are then the
  sums of the weights that the vote events of the chain, with or without parameters, cast for this
  number from the creating log on: none is missed, counted twice or for another proposal. The quorum
  counts as reached exactly when there is one and the votes for and the abstentions together reach it.
\<close>

theorem page_tally_counts_votes:
  assumes "store_ok (ge_store env)" and "creates env pid c"
    and "fold_outcome (handle_governor env) (before @ c # later) (empty_world, t) = Inr (w, t')"
    and "\<forall>l \<in> set before \<union> set later. \<not> creates env pid l"
    and "serves_rows served" and "answers_number served w answer"
  shows "(let data = proposal_data (answer pid);
          weight = (\<lambda>support. cast_weight env pid support (c # later))
      in \<exists>p. map_of (proposals w) (log_id c) = Some p \<and> pr_proposalId p = pid \<and>
         page_votes data = \<lparr>vd_against = weight 0, vd_for = weight 1, vd_abstain = weight 2\<rparr> \<and>
         (hasReachedQuorum (page_votes data) (page_quorum data) \<longleftrightarrow>
            pr_quorum p \<noteq> 0 \<and> pr_quorum p \<le> weight 1 + weight 2))"
proof -
  obtain p where p: "map_of (proposals w) (log_id c) = Some p" "pr_proposalId p = pid"
    and only: "{q \<in> rows (proposals w). pr_proposalId q = pid} = {p}"
    and sums: "nullish (pr_metricsVotesWeightForSum p) 0 = cast_weight env pid 1 (c # later)"
    "nullish (pr_metricsVotesWeightAgainstSum p) 0 = cast_weight env pid 0 (c # later)"
    "nullish (pr_metricsVotesWeightAbstainSum p) 0 = cast_weight env pid 2 (c # later)"
    using run_tally [OF assms(1-4)] .
  have "set (answer pid) = {served p}" using assms(6) only by (simp add: answers_number_def)
  then obtain others where a: "answer pid = served p # others" by (cases "answer pid") auto
  show ?thesis
    unfolding Let_def a page_of_row [OF assms(5)] sums using p
    by (simp add: hasReachedQuorum_def totalParticipation_def)
qed

section \<open>Witnesses\<close>

definition demo_served :: "Proposal \<Rightarrow> ProposalRow" where
  "demo_served p = \<lparr>rw_proposalId = pr_proposalId p, rw_proposer = pr_proposer p,
     rw_transactionHash = transactionHash p, rw_blockTimestamp = decimal (blockTimestamp p),
     rw_voteStartTimestamp = Some (decimal (pr_voteStartTimestamp p)),
     rw_voteEndTimestamp = Some (decimal (pr_voteEndTimestamp p)), rw_targets = pr_targets p,
     rw_values = pr_values p, rw_calldatas = pr_calldatas p, rw_description = pr_description p,
     rw_quorum = Some (decimal (pr_quorum p)),
     rw_metricsVotesWeightForSum = map_option decimal (pr_metricsVotesWeightForSum p),
     rw_metricsVotesWeightAgainstSum = map_option decimal (pr_metricsVotesWeightAgainstSum p),
     rw_metricsVotesWeightAbstainSum = map_option decimal (pr_metricsVotesWeightAbstainSum p),
     rw_voters = []\<rparr>"

lemma demo_served_ok: "serves_rows demo_served"
  by (simp add: serves_rows_def demo_served_def)

definition demo_answer :: "world \<Rightarrow> string \<Rightarrow> ProposalRow list" where
  "demo_answer w pid = map demo_served (filter (\<lambda>p. pr_proposalId p = pid) (map snd (proposals w)))"

lemma demo_answer_ok: "answers_number demo_served w (demo_answer w)"
  by (simp add: answers_number_def demo_answer_def rows_def)

definition demo_event :: proposal_created_event where
  "demo_event = \<lparr>evp_proposalId = 7, evp_proposer = ''0xa'', evp_targets = [''0xb''], evp_values = [5],
     evp_signatures = [[]], evp_calldatas = [''0x''], evp_voteStart = 1, evp_voteEnd = 2, evp_description = ''d''\<rparr>"

lemma calls_name_the_proposal_witness:
  "\<exists>p. queueProposal (\<lambda>t. t) \<lparr>dc_governor = Some ''0xg'', dc_token = None, dc_chainId = Some 1\<rparr>
     \<lparr>wa_isConnected = True, wa_chainId = Some 1, wa_canOpenModal = False\<rparr> p =
   Inr (Some \<lparr>cc_address = Some ''0xg'', cc_function = ''queue'', cc_args = ProposalArgs [''0xb''] [5] [''0x''] ''d''\<rparr>)"
proof -
  let ?dao = "\<lparr>dc_governor = Some ''0xg'', dc_token = None, dc_chainId = Some 1\<rparr>"
  let ?w = "\<lparr>wa_isConnected = True, wa_chainId = Some 1, wa_canOpenModal = False\<rparr>"
  have "0 \<le> evp_proposalId demo_event" "dc_governor ?dao = Some ''0xg''" "''0xg'' \<noteq> ''''"
    by (simp_all add: demo_event_def)
  from calls_name_the_proposal [OF demo_served_ok this _ refl, where hash = "\<lambda>t. t" and w = ?w and others = "[]"]
  show ?thesis
    by (simp add: demo_event_def validateBeforeExecution_def proposal_data_def Let_def) blast
qed

lemma demo_governor_creates:
  "creates demo_governor (stdProposalId 255) (governor_log i topic) \<longleftrightarrow> topic = topic_ProposalCreated"
  by (simp add: creates_def has_topic_def governor_log_def demo_governor_def demo_governor_codec_def demo_created_def)

lemma demo_governor_votes:
  "cast_weight demo_governor (stdProposalId 255) 1 demo_governor_run = 10"
  using governor_topics_distinct
  by (simp add: cast_weight_def votes_in_def demo_governor_run_def has_topic_def governor_log_def governor_topics_def
      demo_governor_def demo_governor_codec_def demo_vote_def weight_of_def) metis

lemma page_tally_counts_votes_witness:
  "\<exists>w t'. fold_outcome (handle_governor demo_governor) demo_governor_run (empty_world, warm_tool) = Inr (w, t') \<and>
     vd_for (page_votes (proposal_data (demo_answer w (stdProposalId 255)))) = 10"
proof -
  obtain w t' where r: "fold_outcome (handle_governor demo_governor) demo_governor_run
      (empty_world, warm_tool) = Inr (w, t')"
    using governor.logs_return [OF demo_governor_inv demo_governor_run_ready] by force
  have ok: "store_ok (ge_store demo_governor)" by (simp add: demo_governor_def)
  have run: "demo_governor_run = [] @ governor_log ''1'' topic_ProposalCreated #
      [governor_log ''2'' topic_VoteCast, governor_log ''3'' topic_VoteCastWithParams]"
    by (simp add: demo_governor_run_def)
  have c: "creates demo_governor (stdProposalId 255) (governor_log ''1'' topic_ProposalCreated)"
    by (simp add: demo_governor_creates)
  have no_more: "\<forall>l \<in> set [] \<union> set [governor_log ''2'' topic_VoteCast, governor_log ''3'' topic_VoteCastWithParams].
      \<not> creates demo_governor (stdProposalId 255) l"
    using governor_topics_distinct by (simp add: demo_governor_creates governor_topics_def) metis
  from page_tally_counts_votes [OF ok c r [unfolded run] no_more demo_served_ok demo_answer_ok]
  have "vd_for (page_votes (proposal_data (demo_answer w (stdProposalId 255)))) =
      cast_weight demo_governor (stdProposalId 255) 1 demo_governor_run"
    by (auto simp: Let_def run)
  with r show ?thesis by (auto simp: demo_governor_votes)
qed

end
