(* ===== verification/WebLists.thy ===== *)
theory WebLists
  imports WebBase JsNumberText "HOL-Library.AList" "HOL-Library.Sublist"
begin

text \<open>
  The lists of the web client: the numbers of a pager (hooks/usePaginationRange.ts), the order of
  the votes on a proposal's page (app/proposal/[id]/proposal/hooks/useVoteSorting.ts), lists that are
  loaded page after page (components/members-table/hooks/useMembersData.ts,
  components/proposals-table/hooks/useProposalData.ts), and profiles fetched in batches
  (hooks/useBatchProfiles.ts).
\<close>

section \<open>The numbers of a pager\<close>

datatype PaginationRangeItem = PageNo int | Dots

definition numbers_from :: "int \<Rightarrow> int \<Rightarrow> PaginationRangeItem list" where
  "numbers_from first count = map (\<lambda>index. PageNo (first + int index)) [0..<nat count]"

definition paginationRange :: "int \<Rightarrow> int \<Rightarrow> int \<Rightarrow> PaginationRangeItem list" where
  "paginationRange currentPage totalPageCount siblingCount =
     (let totalPageNumbers = siblingCount * 2 + 5;
          leftSiblingIndex = max (currentPage - siblingCount) 1;
          rightSiblingIndex = min (currentPage + siblingCount) totalPageCount;
          shouldShowLeftDots = 2 < leftSiblingIndex;
          shouldShowRightDots = rightSiblingIndex < totalPageCount - 1;
          itemCount = 3 + 2 * siblingCount
      in if totalPageCount \<le> totalPageNumbers then numbers_from 1 totalPageCount
         else if \<not> shouldShowLeftDots \<and> shouldShowRightDots then
           numbers_from 1 itemCount @ [Dots, PageNo totalPageCount]
         else if shouldShowLeftDots \<and> \<not> shouldShowRightDots then
           [PageNo 1, Dots] @ numbers_from (totalPageCount - itemCount + 1) itemCount
         else [PageNo 1, Dots] @ numbers_from leftSiblingIndex (rightSiblingIndex - leftSiblingIndex + 1) @
           [Dots, PageNo totalPageCount])"

section \<open>The order of votes\<close>

datatype VoteSortField = ByDate | ByPower
datatype VoteSortDirection = Asc | Desc

record VoteSortState =
  so_field :: VoteSortField
  so_direction :: VoteSortDirection

record ProposalVoterItem =
  vi_voter :: string
  vi_support :: int
  vi_blockTimestamp :: string
  vi_weight :: "string option"

definition DEFAULT_SORT_STATE :: VoteSortState where
  "DEFAULT_SORT_STATE = \<lparr>so_field = ByDate, so_direction = Desc\<rparr>"

definition parseTimestamp :: "(real \<Rightarrow> real) \<Rightarrow> string \<Rightarrow> js_number" where
  "parseTimestamp fl timestamp =
     (case Number_text timestamp of
        NaN \<Rightarrow> Finite 0
      | Infinite neg \<Rightarrow> Infinite neg
      | Finite x \<Rightarrow> Finite (if 10000000000 < x then x else fl (x * 1000)))"

definition parseWeight :: "string option \<Rightarrow> int" where
  "parseWeight weight =
     (case setting weight of None \<Rightarrow> 0 | Some t \<Rightarrow> (case BigInt_text t of Inr n \<Rightarrow> n | Inl _ \<Rightarrow> 0))"

text \<open>
  The sign of a difference; the difference of an infinity with itself is no number, which counts as
  zero.
\<close>

definition compare_numbers :: "js_number \<Rightarrow> js_number \<Rightarrow> real" where
  "compare_numbers a b =
     (case (a, b) of
        (Finite x, Finite y) \<Rightarrow> x - y
      | (Infinite n, Infinite m) \<Rightarrow> if n = m then 0 else if n then -1 else 1
      | (Infinite n, _) \<Rightarrow> if n then -1 else 1
      | (_, Infinite n) \<Rightarrow> if n then 1 else -1
      | _ \<Rightarrow> 0)"

definition compareValue :: "(real \<Rightarrow> real) \<Rightarrow> VoteSortState \<Rightarrow> ProposalVoterItem \<Rightarrow> ProposalVoterItem \<Rightarrow> real" where
  "compareValue fl st a b =
     (let c = (case so_field st of
            ByDate \<Rightarrow> compare_numbers (parseTimestamp fl (vi_blockTimestamp a)) (parseTimestamp fl (vi_blockTimestamp b))
          | ByPower \<Rightarrow>
              let weightA = parseWeight (vi_weight a); weightB = parseWeight (vi_weight b)
              in if weightB < weightA then 1 else if weightA < weightB then -1 else 0)
      in if so_direction st = Desc then c * -1 else c)"

text \<open>\<open>Array.prototype.sort\<close>, which is stable.\<close>

fun insert_by :: "('a \<Rightarrow> 'a \<Rightarrow> real) \<Rightarrow> 'a \<Rightarrow> 'a list \<Rightarrow> 'a list" where
  "insert_by cmp x [] = [x]"
| "insert_by cmp x (y # ys) = (if cmp x y \<le> 0 then x # y # ys else y # insert_by cmp x ys)"

definition sort_by :: "('a \<Rightarrow> 'a \<Rightarrow> real) \<Rightarrow> 'a list \<Rightarrow> 'a list" where
  "sort_by cmp xs = foldr (insert_by cmp) xs []"

definition sortedComments ::
  "(real \<Rightarrow> real) \<Rightarrow> VoteSortState \<Rightarrow> ProposalVoterItem list \<Rightarrow> ProposalVoterItem list" where
  "sortedComments fl st comments = sort_by (compareValue fl st) comments"

definition applySortState :: "VoteSortField \<Rightarrow> VoteSortDirection option \<Rightarrow> VoteSortState" where
  "applySortState field direction =
     (case direction of
        None \<Rightarrow> DEFAULT_SORT_STATE | Some d \<Rightarrow> \<lparr>so_field = field, so_direction = d\<rparr>)"

section \<open>Pages that are loaded one after another\<close>

record PageParam =
  pp_offset :: nat
  pp_limit :: nat

text \<open>What was loaded: each request and its answer.\<close>

type_synonym 'r loaded = "(PageParam \<times> 'r list) list"

text \<open>
  What a limit and an offset mean to the indexer's query server, which is not code of the repository:
  while a table and its order do not change, the rows after the offset, at most as many as the limit.
\<close>

definition answered_page :: "'r list \<Rightarrow> PageParam \<Rightarrow> 'r list" where
  "answered_page table p = take (pp_limit p) (drop (pp_offset p) table)"

definition initialPageParam :: "nat \<Rightarrow> nat \<Rightarrow> PageParam" where
  "initialPageParam pageSize initialPageSize = \<lparr>pp_offset = 0, pp_limit = max pageSize initialPageSize\<rparr>"

definition getNextPageParam :: "nat \<Rightarrow> bool \<Rightarrow> 'r loaded \<Rightarrow> PageParam option" where
  "getNextPageParam pageSize isSearching ps =
     (if isSearching \<or> ps = [] then None
      else
        let (lastParam, lastPage) = last ps
        in if length lastPage < pp_limit lastParam then None
           else Some \<lparr>pp_offset = pp_offset lastParam + length lastPage, pp_limit = pageSize\<rparr>)"

text \<open>A request that fails, after its retries, leaves the pages as they were.\<close>

definition fetched_page :: "(PageParam \<Rightarrow> 'r list outcome) \<Rightarrow> PageParam \<Rightarrow> 'r loaded \<Rightarrow> 'r loaded" where
  "fetched_page queryFn p ps = (case queryFn p of Inl _ \<Rightarrow> ps | Inr page \<Rightarrow> ps @ [(p, page)])"

definition load_first :: "nat \<Rightarrow> nat \<Rightarrow> (PageParam \<Rightarrow> 'r list outcome) \<Rightarrow> 'r loaded" where
  "load_first pageSize initialPageSize queryFn =
     fetched_page queryFn (initialPageParam pageSize initialPageSize) []"

definition loadMoreData :: "nat \<Rightarrow> bool \<Rightarrow> (PageParam \<Rightarrow> 'r list outcome) \<Rightarrow> 'r loaded \<Rightarrow> 'r loaded" where
  "loadMoreData pageSize isSearching queryFn ps =
     (case getNextPageParam pageSize isSearching ps of
        None \<Rightarrow> ps | Some p \<Rightarrow> fetched_page queryFn p ps)"

definition all_rows :: "'r loaded \<Rightarrow> 'r list" where
  "all_rows ps = concat (map snd ps)"

text \<open>Members are kept once, by their address in lower case; proposals as they come.\<close>

fun first_by :: "('r \<Rightarrow> string) \<Rightarrow> string list \<Rightarrow> 'r list \<Rightarrow> 'r list" where
  "first_by key seen [] = []"
| "first_by key seen (r # rs) =
     (if List.member seen (key r) then first_by key seen rs else r # first_by key (key r # seen) rs)"

definition flattened_members :: "('r \<Rightarrow> string) \<Rightarrow> 'r loaded \<Rightarrow> 'r list" where
  "flattened_members id_of ps = first_by (\<lambda>r. to_lower (id_of r)) [] (all_rows ps)"

text \<open>The address a search is for: an address, or one that the name service knows.\<close>

definition resolveSearchAddress ::
  "(string \<Rightarrow> bool) \<Rightarrow> (string \<Rightarrow> string option outcome) option \<Rightarrow> string \<Rightarrow> string option" where
  "resolveSearchAddress isAddress getEnsAddress rawTerm =
     (let trimmedTerm = trim rawTerm;
          normalizedTerm = to_lower trimmedTerm
      in if trimmedTerm = [] then None
         else if isAddress normalizedTerm then Some normalizedTerm
         else case getEnsAddress of
           None \<Rightarrow> None
         | Some ens \<Rightarrow>
             if contains_text trimmedTerm ''.'' then
               (case ens trimmedTerm of Inr a \<Rightarrow> map_option to_lower (setting a) | Inl _ \<Rightarrow> None)
             else None)"

text \<open>The states of the proposals of a list, by the position of their call.\<close>

definition formattedStatuses :: "('r \<Rightarrow> string) \<Rightarrow> 'r list \<Rightarrow> 's option list option \<Rightarrow> string \<rightharpoonup> 's" where
  "formattedStatuses id_of items statuses =
     (case statuses of
        None \<Rightarrow> Map.empty
      | Some ss \<Rightarrow>
          foldl (\<lambda>acc (index, r).
            case (if index < length ss then ss ! index else None) of
              None \<Rightarrow> acc | Some s \<Rightarrow> acc(id_of r \<mapsto> s)) Map.empty (enumerate 0 items))"

section \<open>Batches\<close>

function chunks :: "nat \<Rightarrow> 'a list \<Rightarrow> 'a list list" where
  "chunks n xs = (if xs = [] \<or> n = 0 then [] else take n xs # chunks n (drop n xs))"
  by pat_completeness auto
termination
  by (relation "measure (\<lambda>(n, xs). length xs)") auto

declare chunks.simps [simp del]

definition chunkArray :: "'a list \<Rightarrow> int \<Rightarrow> 'a list list" where
  "chunkArray items n = (if n \<le> 0 then [items] else chunks (nat n) items)"

record QueryState =
  qs_fetching :: bool
  qs_isInvalidated :: bool
  qs_dataUpdatedAt :: int

definition needs_fetch :: "int \<Rightarrow> int \<Rightarrow> QueryState option \<Rightarrow> bool" where
  "needs_fetch now staleTime state =
     (case state of
        None \<Rightarrow> True
      | Some s \<Rightarrow>
          if qs_fetching s then False
          else if qs_isInvalidated s then True
          else staleTime < now - qs_dataUpdatedAt s)"

definition normalized_addresses :: "(string list \<Rightarrow> string list) \<Rightarrow> string list \<Rightarrow> string list" where
  "normalized_addresses locale_sort rawAddresses = locale_sort (first_by (\<lambda>a. a) [] (map to_lower rawAddresses))"

text \<open>The batches that are asked for, for the addresses whose profile is not fresh.\<close>

definition profile_batches ::
  "int \<Rightarrow> int \<Rightarrow> int \<Rightarrow> (string \<Rightarrow> QueryState option) \<Rightarrow> string list \<Rightarrow> string list list" where
  "profile_batches now staleTime chunkSize states addresses =
     (let toFetch = filter (\<lambda>a. needs_fetch now staleTime (states a)) addresses
      in if toFetch = [] then [] else chunkArray toFetch chunkSize)"

definition stored_profiles ::
  "int \<Rightarrow> ('m \<Rightarrow> string) \<Rightarrow> 'm list \<Rightarrow> (string \<Rightarrow> QueryState option) \<Rightarrow> string \<Rightarrow> QueryState option" where
  "stored_profiles now address_of merged states =
     foldl (\<lambda>st m. st(to_lower (address_of m) \<mapsto>
       \<lparr>qs_fetching = False, qs_isInvalidated = False, qs_dataUpdatedAt = now\<rparr>)) states merged"

end
