(* ===== verification/WebListsClaims.thy ===== *)
theory WebListsClaims
  imports WebLists "HOL-Library.Multiset"
begin

text \<open>
  What the lists of the web client promise: the pager's numbers, the order of the votes and the
  pages that are loaded one after another.
\<close>

section \<open>The numbers of a pager\<close>

primrec page_number :: "PaginationRangeItem \<Rightarrow> int list" where
  "page_number (PageNo n) = [n]"
| "page_number Dots = []"

definition page_numbers :: "PaginationRangeItem list \<Rightarrow> int list" where
  "page_numbers items = concat (map page_number items)"

lemma page_numbers_simps [simp]:
  "page_numbers [] = []"
  "page_numbers (PageNo n # items) = n # page_numbers items"
  "page_numbers (Dots # items) = page_numbers items"
  "page_numbers (items @ items') = page_numbers items @ page_numbers items'"
  by (simp_all add: page_numbers_def)

lemma map_int_upt: "map (\<lambda>index. first + int index) [0..<n] = [first..first + int n - 1]"
  by (rule nth_equalityI) (auto simp: nth_upto)

lemma numbers_from_pages [simp]:
  "0 \<le> many \<Longrightarrow> page_numbers (numbers_from first many) = [first..first + many - 1]"
  using map_int_upt [of first "nat many"]
  by (simp add: page_numbers_def numbers_from_def comp_def concat_map_singleton)

lemma length_numbers_from [simp]: "length (numbers_from first many) = nat many"
  by (simp add: numbers_from_def)

lemma sorted_upto_wrt [simp]: "sorted_wrt (<) [i..j::int]"
  by simp

text \<open>
  A row of numbers with its dots: wherever two numbers stand side by side they are consecutive pages,
  and dots stand only where at least one page is left out.
\<close>

fun gaps_shown :: "PaginationRangeItem list \<Rightarrow> bool" where
  "gaps_shown (PageNo m # PageNo n # items) = (n = m + 1 \<and> gaps_shown (PageNo n # items))"
| "gaps_shown (PageNo m # Dots # PageNo n # items) = (m + 1 < n \<and> gaps_shown (PageNo n # items))"
| "gaps_shown [PageNo m] = True"
| "gaps_shown [] = True"
| "gaps_shown items = False"

lemma numbers_from_Suc:
  "0 < many \<Longrightarrow> numbers_from first many = PageNo first # numbers_from (first + 1) (many - 1)"
proof -
  assume "0 < many"
  then obtain n where n: "many = int (Suc n)" by (metis pos_int_cases Suc_pred)
  have "[0..<Suc n] = 0 # map Suc [0..<n]" by (simp add: upt_conv_Cons map_Suc_upt)
  moreover have "nat many = Suc n" "nat (many - 1) = n" by (simp_all add: n)
  ultimately show ?thesis
    by (simp add: numbers_from_def comp_def add.assoc del: upt_Suc)
qed

lemma numbers_from_0 [simp]: "many \<le> 0 \<Longrightarrow> numbers_from first many = []"
  by (simp add: numbers_from_def)

lemma gaps_shown_numbers:
  "gaps_shown (numbers_from first (int n) @ items)
    = (if n = 0 then gaps_shown items
       else gaps_shown (PageNo (first + int n - 1) # items))"
proof (induction n arbitrary: first)
  case (Suc n)
  have "numbers_from first (int (Suc n)) = PageNo first # numbers_from (first + 1) (int n)"
    using numbers_from_Suc [of "int (Suc n)" first] by simp
  then show ?case
    using Suc.IH [of "first + 1"] numbers_from_Suc [of "int n" "first + 1"]
    by (cases n) (auto simp: algebra_simps)
qed simp

lemma gaps_shown_numbers':
  assumes "0 < many"
  shows "gaps_shown (numbers_from first many @ items) = gaps_shown (PageNo (first + many - 1) # items)"
    and "gaps_shown (PageNo m # Dots # numbers_from first many @ items)
      = (m + 1 < first \<and> gaps_shown (PageNo (first + many - 1) # items))"
proof -
  show eq: "gaps_shown (numbers_from first many @ items) = gaps_shown (PageNo (first + many - 1) # items)"
    using gaps_shown_numbers [of first "nat many" items] assms by simp
  show "gaps_shown (PageNo m # Dots # numbers_from first many @ items)
      = (m + 1 < first \<and> gaps_shown (PageNo (first + many - 1) # items))"
    using eq numbers_from_Suc [OF assms, of first] by simp
qed

lemmas range_facts = paginationRange_def Let_def gaps_shown_numbers' numbers_from_pages

lemma paginationRange_shape:
  assumes "0 \<le> siblingCount" "1 \<le> currentPage" "currentPage \<le> totalPageCount"
  shows "gaps_shown (paginationRange currentPage totalPageCount siblingCount)"
    and "sorted_wrt (<) (page_numbers (paginationRange currentPage totalPageCount siblingCount))"
    and "set (page_numbers (paginationRange currentPage totalPageCount siblingCount)) \<subseteq> {1..totalPageCount}"
    and "{1, totalPageCount} \<union> {max 1 (currentPage - siblingCount)..min totalPageCount (currentPage + siblingCount)}
      \<subseteq> set (page_numbers (paginationRange currentPage totalPageCount siblingCount))"
    and "length (paginationRange currentPage totalPageCount siblingCount)
      = nat (min totalPageCount (2 * siblingCount + 5))"
proof -
  let ?c = currentPage and ?t = totalPageCount and ?s = siblingCount
  let ?r = "paginationRange ?c ?t ?s"
  consider (all) "?t \<le> ?s * 2 + 5"
    | (left) "?s * 2 + 5 < ?t" "?c - ?s \<le> 2"
    | (right) "?s * 2 + 5 < ?t" "2 < ?c - ?s" "?t - 1 \<le> ?c + ?s"
    | (both) "?s * 2 + 5 < ?t" "2 < ?c - ?s" "?c + ?s < ?t - 1"
    by linarith
  then have "gaps_shown ?r \<and> sorted_wrt (<) (page_numbers ?r) \<and> set (page_numbers ?r) \<subseteq> {1..?t}
      \<and> {1, ?t} \<union> {max 1 (?c - ?s)..min ?t (?c + ?s)} \<subseteq> set (page_numbers ?r)
      \<and> length ?r = nat (min ?t (2 * ?s + 5))"
  proof cases
    case all
    then have r: "?r = numbers_from 1 ?t" by (simp add: paginationRange_def Let_def)
    have "gaps_shown ?r" using gaps_shown_numbers'(1) [of ?t 1 "[]"] assms by (simp add: r)
    moreover have "page_numbers ?r = [1..?t]" using assms by (simp add: r)
    moreover have "length ?r = nat (min ?t (2 * ?s + 5))" using all by (simp add: r min_def)
    ultimately show ?thesis using assms by auto
  next
    case left
    let ?k = "3 + 2 * ?s"
    have r: "?r = numbers_from 1 ?k @ [Dots, PageNo ?t]"
      using left assms by (auto simp: paginationRange_def Let_def max_def min_def)
    have "gaps_shown ?r" using gaps_shown_numbers'(1) [of ?k 1 "[Dots, PageNo ?t]"] left assms by (simp add: r)
    moreover have "page_numbers ?r = [1..?k] @ [?t]" using assms by (simp add: r)
    moreover have "length ?r = nat (min ?t (2 * ?s + 5))" using left assms by (simp add: r min_def)
    ultimately show ?thesis using left assms by (auto simp: sorted_wrt_append)
  next
    case right
    let ?k = "3 + 2 * ?s"
    have r: "?r = [PageNo 1, Dots] @ numbers_from (?t - ?k + 1) ?k"
      using right assms by (auto simp: paginationRange_def Let_def max_def min_def)
    have "gaps_shown ?r" using gaps_shown_numbers'(2) [of ?k 1 "?t - ?k + 1" "[]"] right assms by (simp add: r)
    moreover have "page_numbers ?r = 1 # [?t - ?k + 1..?t]" using assms by (simp add: r)
    moreover have "length ?r = nat (min ?t (2 * ?s + 5))" using right assms by (simp add: r min_def)
    ultimately show ?thesis using right assms by auto
  next
    case both
    let ?k = "?s * 2 + 1"
    have r: "?r = [PageNo 1, Dots] @ numbers_from (?c - ?s) ?k @ [Dots, PageNo ?t]"
      using both assms by (auto simp: paginationRange_def Let_def max_def min_def algebra_simps)
    have "gaps_shown ?r"
      using gaps_shown_numbers'(2) [of ?k 1 "?c - ?s" "[Dots, PageNo ?t]"] both assms by (simp add: r)
    moreover have "page_numbers ?r = 1 # [?c - ?s..?c + ?s] @ [?t]"
      using assms numbers_from_pages [of ?k "?c - ?s"] by (simp add: r algebra_simps)
    moreover have "length ?r = nat (min ?t (2 * ?s + 5))" using both assms by (simp add: r min_def)
    ultimately show ?thesis using both assms by (auto simp: sorted_wrt_append)
  qed
  then show "gaps_shown ?r" "sorted_wrt (<) (page_numbers ?r)" "set (page_numbers ?r) \<subseteq> {1..?t}"
    "{1, ?t} \<union> {max 1 (?c - ?s)..min ?t (?c + ?s)} \<subseteq> set (page_numbers ?r)"
    "length ?r = nat (min ?t (2 * ?s + 5))" by blast+
qed

text \<open>
  The pager. For a page between the first and the last, the row has as many items as there are
  pages, at most five more than twice the siblings; its numbers increase strictly between one and the
  last page and hold the first page, the last page and every sibling of the current page; two numbers
  side by side are consecutive, and dots stand only between numbers with a page left out.
\<close>
theorem pager_shows_the_way:
  assumes "0 \<le> siblingCount" "1 \<le> currentPage" "currentPage \<le> totalPageCount"
  shows "gaps_shown (paginationRange currentPage totalPageCount siblingCount)
    \<and> sorted_wrt (<) (page_numbers (paginationRange currentPage totalPageCount siblingCount))
    \<and> set (page_numbers (paginationRange currentPage totalPageCount siblingCount)) \<subseteq> {1..totalPageCount}
    \<and> {1, totalPageCount} \<union> {max 1 (currentPage - siblingCount)..min totalPageCount (currentPage + siblingCount)}
        \<subseteq> set (page_numbers (paginationRange currentPage totalPageCount siblingCount))
    \<and> length (paginationRange currentPage totalPageCount siblingCount)
        = nat (min totalPageCount (2 * siblingCount + 5))"
  using paginationRange_shape [OF assms] by blast

lemma pager_shows_the_way_witness:
  "gaps_shown (paginationRange 10 20 1) \<and> length (paginationRange 10 20 1) = 7
    \<and> paginationRange 10 20 1 = [PageNo 1, Dots, PageNo 9, PageNo 10, PageNo 11, Dots, PageNo 20]"
proof -
  have "paginationRange 10 20 1 = [PageNo 1, Dots, PageNo 9, PageNo 10, PageNo 11, Dots, PageNo 20]"
    by code_simp
  then show ?thesis using pager_shows_the_way [of 1 10 20] by simp
qed

section \<open>The order of votes\<close>

text \<open>
  A comparison as \<open>Array.prototype.sort\<close> asks for it: any two items are comparable, and the
  order is transitive. Two items are alike when neither comes first.
\<close>

locale comparison =
  fixes cmp :: "'a \<Rightarrow> 'a \<Rightarrow> real"
  assumes comparable: "cmp x y \<le> 0 \<or> cmp y x \<le> 0"
    and ordered: "cmp x y \<le> 0 \<Longrightarrow> cmp y z \<le> 0 \<Longrightarrow> cmp x z \<le> 0"
begin

definition alike :: "'a \<Rightarrow> 'a \<Rightarrow> bool" where
  "alike x y = (cmp x y \<le> 0 \<and> cmp y x \<le> 0)"

lemma mset_insert_by [simp]: "mset (insert_by cmp x ys) = add_mset x (mset ys)"
  by (induction ys) auto

lemma mset_sort_by: "mset (sort_by cmp xs) = mset xs"
  by (induction xs) (simp_all add: sort_by_def)

lemma set_insert_by [simp]: "set (insert_by cmp x ys) = insert x (set ys)"
  by (induction ys) (simp_all add: insert_commute)

lemma sorted_insert_by:
  "sorted_wrt (\<lambda>x y. cmp x y \<le> 0) ys \<Longrightarrow> sorted_wrt (\<lambda>x y. cmp x y \<le> 0) (insert_by cmp x ys)"
proof (induction ys)
  case (Cons y ys)
  then show ?case using comparable [of x y] by (auto intro: ordered)
qed simp

lemma sorted_sort_by: "sorted_wrt (\<lambda>x y. cmp x y \<le> 0) (sort_by cmp xs)"
  by (induction xs) (simp_all add: sort_by_def sorted_insert_by)

lemma alike_insert_by:
  "sorted_wrt (\<lambda>x y. cmp x y \<le> 0) ys \<Longrightarrow>
    filter (alike z) (insert_by cmp x ys) = filter (alike z) [x] @ filter (alike z) ys"
proof (induction ys)
  case (Cons y ys)
  show ?case
  proof (cases "cmp x y \<le> 0 \<or> \<not> alike z x")
    case False
    have "\<not> alike z y"
      using False comparable [of x y] ordered [of x z y] by (auto simp: alike_def)
    then show ?thesis using False Cons by auto
  qed (use Cons in auto)
qed simp

lemma stable_sort_by: "filter (alike z) (sort_by cmp xs) = filter (alike z) xs"
  by (induction xs) (simp_all add: sort_by_def alike_insert_by sorted_sort_by [unfolded sort_by_def])

end

lemma parseTimestamp_number: "parseTimestamp fl timestamp \<noteq> NaN"
  by (simp add: parseTimestamp_def split: js_number.splits)

lemma compare_numbers_order:
  "a \<noteq> NaN \<Longrightarrow> b \<noteq> NaN \<Longrightarrow> compare_numbers b a = - compare_numbers a b"
  "a \<noteq> NaN \<Longrightarrow> b \<noteq> NaN \<Longrightarrow> c \<noteq> NaN \<Longrightarrow>
    compare_numbers a b \<le> 0 \<Longrightarrow> compare_numbers b c \<le> 0 \<Longrightarrow> compare_numbers a c \<le> 0"
  by (auto simp: compare_numbers_def split: js_number.splits if_splits)

lemma compareValue_swap: "compareValue fl st b a = - compareValue fl st a b"
  using compare_numbers_order(1) [OF parseTimestamp_number parseTimestamp_number,
      of fl "vi_blockTimestamp b" fl "vi_blockTimestamp a"]
  by (auto simp: compareValue_def Let_def split: VoteSortField.splits)

lemma compareValue_trans:
  assumes "compareValue fl st a b \<le> 0" "compareValue fl st b c \<le> 0"
  shows "compareValue fl st a c \<le> 0"
proof -
  have up: "compareValue fl (st\<lparr>so_direction := Asc\<rparr>) x z \<le> 0"
    if "compareValue fl (st\<lparr>so_direction := Asc\<rparr>) x y \<le> 0" "compareValue fl (st\<lparr>so_direction := Asc\<rparr>) y z \<le> 0" for x y z
    using that compare_numbers_order(2) [OF parseTimestamp_number parseTimestamp_number parseTimestamp_number,
        of fl "vi_blockTimestamp x" fl "vi_blockTimestamp y" fl "vi_blockTimestamp z"]
    by (auto simp: compareValue_def Let_def split: VoteSortField.splits if_splits)
  show ?thesis
  proof (cases "so_direction st")
    case Asc
    then have "st\<lparr>so_direction := Asc\<rparr> = st" by simp
    then show ?thesis using up [of a b c] assms by simp
  next
    case Desc
    then have "compareValue fl st x y = compareValue fl (st\<lparr>so_direction := Asc\<rparr>) y x" for x y
      using compareValue_swap [of fl "st\<lparr>so_direction := Asc\<rparr>" y x] by (simp add: compareValue_def Let_def)
    then show ?thesis using up [of c b a] assms by simp
  qed
qed

interpretation vote_order: comparison "compareValue fl st" for fl st
proof
  show "compareValue fl st a b \<le> 0 \<or> compareValue fl st b a \<le> 0" for a b
    using compareValue_swap [of fl st b a] by auto
qed (rule compareValue_trans)

text \<open>
  The votes on a proposal's page are the votes that were loaded, each as often, in the order asked
  for (any earlier one compares at most equal to any later one), and votes that compare equal keep the
  order in which they were loaded; a vote whose weight or time cannot be read takes part as zero.
\<close>
theorem votes_are_sorted:
  "mset (sortedComments fl st comments) = mset comments
    \<and> sorted_wrt (\<lambda>a b. compareValue fl st a b \<le> 0) (sortedComments fl st comments)
    \<and> filter (\<lambda>b. compareValue fl st v b = 0) (sortedComments fl st comments)
        = filter (\<lambda>b. compareValue fl st v b = 0) comments"
proof -
  have "vote_order.alike fl st v = (\<lambda>b. compareValue fl st v b = 0)"
  proof
    fix b
    show "vote_order.alike fl st v b = (compareValue fl st v b = 0)"
      using compareValue_swap [of fl st b v] by (auto simp: vote_order.alike_def)
  qed
  then show ?thesis
    using vote_order.mset_sort_by vote_order.sorted_sort_by vote_order.stable_sort_by [of fl st v comments]
    by (simp add: sortedComments_def)
qed

section \<open>Pages that are loaded one after another\<close>

definition loads :: "nat \<Rightarrow> nat \<Rightarrow> bool \<Rightarrow> (PageParam \<Rightarrow> 'r list outcome) \<Rightarrow> nat \<Rightarrow> 'r loaded" where
  "loads pageSize initialPageSize isSearching queryFn n =
     (loadMoreData pageSize isSearching queryFn ^^ n) (load_first pageSize initialPageSize queryFn)"

definition paged_upto :: "nat \<Rightarrow> nat \<Rightarrow> 'r list \<Rightarrow> 'r loaded \<Rightarrow> bool" where
  "paged_upto pageSize reach table ps =
     (ps \<noteq> [] \<and>
      (let (p, page) = last ps; got = pp_offset p + pp_limit p
       in page = answered_page table p \<and> all_rows ps = take got table \<and> pp_offset p \<le> length table \<and>
          got \<le> reach \<and> (got < reach \<longrightarrow> length table < got)))"

lemma take_then_page:
  "take a table @ answered_page table \<lparr>pp_offset = a, pp_limit = l\<rparr> = take (a + l) table"
  by (simp add: answered_page_def take_add)

abbreviation paged :: "'r list \<Rightarrow> PageParam \<Rightarrow> 'r list outcome" where
  "paged table \<equiv> \<lambda>p. Inr (answered_page table p)"

lemma load_first_paged:
  "paged_upto pageSize (max pageSize initialPageSize) table (load_first pageSize initialPageSize (paged table))"
  by (simp add: paged_upto_def load_first_def fetched_page_def initialPageParam_def answered_page_def all_rows_def)

lemma next_page_none:
  assumes "paged_upto pageSize reach table ps"
  shows "getNextPageParam pageSize False ps = None \<longleftrightarrow> length table < reach"
    and "getNextPageParam pageSize False ps \<in> {None, Some \<lparr>pp_offset = reach, pp_limit = pageSize\<rparr>}"
  using assms
  by (auto simp: paged_upto_def getNextPageParam_def answered_page_def Let_def min_def split: prod.splits if_splits)

lemma loadMoreData_paged:
  assumes "paged_upto pageSize reach table ps"
  shows "paged_upto pageSize (reach + pageSize) table (loadMoreData pageSize False (paged table) ps)"
proof (cases "length table < reach")
  case True
  then have "loadMoreData pageSize False (paged table) ps = ps"
    using next_page_none(1) [OF assms] by (simp add: loadMoreData_def)
  then show ?thesis
    using assms True by (auto simp: paged_upto_def Let_def split: prod.splits)
next
  case False
  then have n: "getNextPageParam pageSize False ps = Some \<lparr>pp_offset = reach, pp_limit = pageSize\<rparr>"
    using next_page_none [OF assms] by auto
  have "all_rows ps = take reach table"
    using assms False by (auto simp: paged_upto_def Let_def split: prod.splits)
  then have "all_rows (loadMoreData pageSize False (paged table) ps) = take (reach + pageSize) table"
    by (simp add: loadMoreData_def fetched_page_def n all_rows_def take_then_page)
  then show ?thesis using False by (simp add: paged_upto_def loadMoreData_def fetched_page_def n)
qed

lemma loads_paged:
  "paged_upto pageSize (max pageSize initialPageSize + n * pageSize) table
    (loads pageSize initialPageSize False (paged table) n)"
proof (induction n)
  case (Suc n)
  then show ?case using loadMoreData_paged by (fastforce simp: loads_def algebra_simps)
qed (simp add: loads_def load_first_paged)

text \<open>What the loads hold and when they end, for a request that answers by limit and offset.\<close>

lemma loads_fill:
  "all_rows (loads pageSize initialPageSize False (paged table) n) = take (max pageSize initialPageSize + n * pageSize) table"
  "getNextPageParam pageSize False (loads pageSize initialPageSize False (paged table) n) = None
    \<longleftrightarrow> length table < max pageSize initialPageSize + n * pageSize"
proof -
  show "all_rows (loads pageSize initialPageSize False (paged table) n) = take (max pageSize initialPageSize + n * pageSize) table"
    using loads_paged [of pageSize initialPageSize n table]
    by (auto simp: paged_upto_def Let_def split: prod.splits)
qed (rule next_page_none(1) [OF loads_paged])

text \<open>
  When a row is put before the others between two loads, as a new proposal is, the last row loaded is
  loaded once more, and the list of proposals, which is not freed of duplicates, shows it twice.
\<close>

lemma row_loaded_twice:
  "all_rows (loadMoreData 2 False (paged [9, 1, 2, 3]) (load_first 2 2 (paged [1, 2, 3::nat]))) = [1, 2, 2, 3]"
  by (simp add: load_first_def fetched_page_def initialPageParam_def answered_page_def loadMoreData_def
      getNextPageParam_def all_rows_def)

text \<open>A page that cannot be read is asked for again by the next load.\<close>

lemma failed_page_asked_again:
  assumes "queryFn p = Inl e" and "getNextPageParam pageSize isSearching ps = Some p"
  shows "loadMoreData pageSize isSearching queryFn ps = ps"
  using assms by (simp add: loadMoreData_def fetched_page_def)

lemma first_by_members:
  "distinct (map key (first_by key seen rs)) \<and> set (map key (first_by key seen rs)) = key ` set rs - set seen"
  by (induction key seen rs rule: first_by.induct) auto

text \<open>Members are shown once, whatever was loaded twice.\<close>

lemma members_once:
  "distinct (map (\<lambda>r. to_lower (id_of r)) (flattened_members id_of ps))"
  "(\<lambda>r. to_lower (id_of r)) ` set (flattened_members id_of ps) = (\<lambda>r. to_lower (id_of r)) ` set (all_rows ps)"
  using first_by_members [of "\<lambda>r. to_lower (id_of r)" "[]" "all_rows ps"]
  by (simp_all add: flattened_members_def)

section \<open>Batches\<close>

lemma concat_chunks: "0 < n \<Longrightarrow> concat (chunks n xs) = xs"
  by (induction n xs rule: chunks.induct) (subst chunks.simps, auto)

lemma chunks_small: "0 < n \<Longrightarrow> set (chunks n xs) \<subseteq> {c. c \<noteq> [] \<and> length c \<le> n}"
proof (induction n xs rule: chunks.induct)
  case (1 n xs)
  then show ?case by (subst chunks.simps) auto
qed

text \<open>Every address whose profile is not fresh is asked for in one batch, and no other.\<close>

lemma batches_cover:
  "concat (profile_batches now staleTime chunkSize states addresses)
    = filter (\<lambda>a. needs_fetch now staleTime (states a)) addresses"
  by (cases "0 < chunkSize") (simp_all add: profile_batches_def chunkArray_def Let_def concat_chunks)

lemma batches_small:
  "0 < chunkSize \<Longrightarrow>
    set (profile_batches now staleTime chunkSize states addresses) \<subseteq> {b. b \<noteq> [] \<and> int (length b) \<le> chunkSize}"
  using chunks_small [of "nat chunkSize" "filter (\<lambda>a. needs_fetch now staleTime (states a)) addresses"]
  by (auto simp: profile_batches_def chunkArray_def Let_def le_nat_iff)

end
