(* ===== verification/WebNotification.thy ===== *)
theory WebNotification
  imports WebSignIn
begin

text \<open>
  Notifications by e-mail (packages/web/src/services/notification.ts,
  services/graphql/notification-client.ts, hooks/useNotification.ts, components/countdown.tsx,
  components/notification-dropdown, components/proposal-notification): the authorised request, the
  hooks that sign in and ask once more, the settings of a DAO, the form that binds an address, its
  countdown, and the button of a proposal. The service is a parameter: its answer to a request
  given all requests made so far. What it throws is a JSON value, the part of the error object the
  code reads; what it answers has the types of the schema.
\<close>

section \<open>Errors of the service\<close>

text \<open>utils/graphql-error-handler.ts. A message of an entry that is \<open>null\<close> is a \<open>TypeError\<close>.\<close>

definition response_of :: "json \<Rightarrow> json option" where
  "response_of error = chained (Some error) ''response''"

definition status_of :: "json \<Rightarrow> json option" where
  "status_of error = chained (response_of error) ''status''"

definition asks_authentication :: "json \<Rightarrow> bool outcome" where
  "asks_authentication err =
     and_then (property (Some err) ''message'') (\<lambda>m.
       Inr (case m of
              Some (JString t) \<Rightarrow> t \<noteq> [] \<and> contains_text (to_lower t) ''authentication required''
            | _ \<Rightarrow> False))"

fun some_asks :: "json list \<Rightarrow> bool outcome" where
  "some_asks [] = Inr False"
| "some_asks (err # errs) =
     and_then (asks_authentication err) (\<lambda>b. if b then Inr True else some_asks errs)"

definition isAuthenticationRequired :: "json \<Rightarrow> bool outcome" where
  "isAuthenticationRequired error =
     (if status_of error = Some (JNumber 401) then Inr True
      else case chained (response_of error) ''errors'' of
             Some (JArray errs) \<Rightarrow> some_asks errs
           | _ \<Rightarrow>
               (case chained (Some error) ''errors'' of
                  Some (JArray errs) \<Rightarrow> some_asks errs
                | _ \<Rightarrow> Inr False))"

definition extractErrorMessage :: "json \<Rightarrow> json option" where
  "extractErrorMessage error = first_message (chained (response_of error) ''errors'')"

definition error_object :: "failure \<Rightarrow> json" where
  "error_object e = JObject [(''message'', JString (failure_message e))]"

section \<open>What is asked and answered\<close>

datatype FeatureName = PROPOSAL_NEW | PROPOSAL_STATE_CHANGED | VOTE_END | VOTE_EMITTED

fun feature_text :: "FeatureName \<Rightarrow> string" where
  "feature_text PROPOSAL_NEW = ''PROPOSAL_NEW''"
| "feature_text PROPOSAL_STATE_CHANGED = ''PROPOSAL_STATE_CHANGED''"
| "feature_text VOTE_END = ''VOTE_END''"
| "feature_text VOTE_EMITTED = ''VOTE_EMITTED''"

type_synonym FeatureInput = "FeatureName \<times> string"

record NotificationChannel =
  channel_id :: string
  channelType :: string
  channelValue :: string
  verified :: bool

record SubscribedFeature =
  feature_name :: string
  feature_strategy :: string

record SubscribedDao =
  sd_code :: string
  sd_features :: "SubscribedFeature list"

record SubscribedProposal =
  sp_daoCode :: string
  sp_proposalId :: string

record OtpRequestResponse =
  otp_code :: int
  otp_message :: "string option"
  rateLimit :: real

record CodeResponse =
  response_code :: int
  response_message :: "string option"

datatype NotificationDocument =
    LIST_NOTIFICATION_CHANNELS
  | SUBSCRIBED_DAOS
  | SUBSCRIBED_PROPOSALS
  | RESEND_OTP string string
  | VERIFY_NOTIFICATION_CHANNEL string string string
  | SUBSCRIBE_PROPOSAL string string "FeatureInput list option"
  | UNSUBSCRIBE_PROPOSAL string string
  | SUBSCRIBE_DAO "string option" "FeatureInput list option"
  | UNSUBSCRIBE_DAO string

datatype NotificationData =
    Channels "NotificationChannel list"
  | Daos "SubscribedDao list"
  | Proposals "SubscribedProposal list"
  | Otp OtpRequestResponse
  | Verification CodeResponse
  | Subscription string

section \<open>An authorised request\<close>

record NotificationRequest =
  document :: NotificationDocument
  authorization :: "string option"

text \<open>
  The browser's tokens, the header of the client, the requests sent, oldest first, and how often
  the user was asked to sign in. \<open>renewed\<close> says which header the client of the next request has
  before the request sets one: none when a client is made for every request, the last one when
  the client is kept.
\<close>

record Notifier =
  nt_tokens :: storage
  nt_header :: "string option"
  nt_sent :: "NotificationRequest list"
  nt_asked :: nat

record NotificationWorld =
  service_endpoint :: "string option"
  renewed :: "string option \<Rightarrow> string option"
  service :: "NotificationRequest list \<Rightarrow> json + NotificationData"
  sign_in_again :: "nat \<Rightarrow> storage \<Rightarrow> AuthResult \<times> storage"

type_synonym 'a notifying = "Notifier \<Rightarrow> (json + 'a) \<times> Notifier"

definition request_header :: "NotificationWorld \<Rightarrow> string option \<Rightarrow> Notifier \<Rightarrow> string option" where
  "request_header W address s =
     (case setting (getRemoteToken address (nt_tokens s)) of
        Some token \<Rightarrow> Some (''Bearer '' @ token)
      | None \<Rightarrow> renewed W (nt_header s))"

definition requestNotification ::
  "NotificationWorld \<Rightarrow> NotificationDocument \<Rightarrow> string option \<Rightarrow> NotificationData notifying" where
  "requestNotification W doc address s =
     (case setting (service_endpoint W) of
        None \<Rightarrow> (Inl (error_object (ThrownError ''DeGov API endpoint is not configured'')), s)
      | Some _ \<Rightarrow>
          let header = request_header W address s;
              s1 = s \<lparr>nt_header := header,
                      nt_sent := nt_sent s @ [\<lparr>document = doc, authorization = header\<rparr>]\<rparr>
          in case service W (nt_sent s1) of
               Inr d \<Rightarrow> (Inr d, s1)
             | Inl error \<Rightarrow>
                 (Inl error,
                  if status_of error = Some (JNumber 401)
                  then s1 \<lparr>nt_tokens := clearRemoteToken address (nt_tokens s1)\<rparr> else s1))"

definition answered :: "(NotificationData \<Rightarrow> 'a option) \<Rightarrow> NotificationData notifying \<Rightarrow> 'a option notifying" where
  "answered field call s = (case call s of (r, s1) \<Rightarrow> (map_sum id field r, s1))"

text \<open>\<open>NotificationService\<close>: a field the answer does not have is undefined.\<close>

definition channels_field :: "NotificationData \<Rightarrow> NotificationChannel list option" where
  "channels_field d = (case d of Channels cs \<Rightarrow> Some cs | _ \<Rightarrow> None)"

definition daos_field :: "NotificationData \<Rightarrow> SubscribedDao list option" where
  "daos_field d = (case d of Daos ds \<Rightarrow> Some ds | _ \<Rightarrow> None)"

definition proposals_field :: "NotificationData \<Rightarrow> SubscribedProposal list option" where
  "proposals_field d = (case d of Proposals ps \<Rightarrow> Some ps | _ \<Rightarrow> None)"

definition otp_field :: "NotificationData \<Rightarrow> OtpRequestResponse option" where
  "otp_field d = (case d of Otp r \<Rightarrow> Some r | _ \<Rightarrow> None)"

definition verification_field :: "NotificationData \<Rightarrow> CodeResponse option" where
  "verification_field d = (case d of Verification r \<Rightarrow> Some r | _ \<Rightarrow> None)"

definition subscription_field :: "NotificationData \<Rightarrow> string option" where
  "subscription_field d = (case d of Subscription t \<Rightarrow> Some t | _ \<Rightarrow> None)"

definition listNotificationChannels ::
  "NotificationWorld \<Rightarrow> string option \<Rightarrow> NotificationChannel list option notifying" where
  "listNotificationChannels W address =
     answered channels_field (requestNotification W LIST_NOTIFICATION_CHANNELS address)"

definition getSubscribedDaos ::
  "NotificationWorld \<Rightarrow> string option \<Rightarrow> SubscribedDao list option notifying" where
  "getSubscribedDaos W address = answered daos_field (requestNotification W SUBSCRIBED_DAOS address)"

definition getSubscribedProposals ::
  "NotificationWorld \<Rightarrow> string option \<Rightarrow> SubscribedProposal list option notifying" where
  "getSubscribedProposals W address =
     answered proposals_field (requestNotification W SUBSCRIBED_PROPOSALS address)"

definition resendOTP ::
  "NotificationWorld \<Rightarrow> string \<Rightarrow> string \<Rightarrow> string option \<Rightarrow> OtpRequestResponse option notifying" where
  "resendOTP W channel v address = answered otp_field (requestNotification W (RESEND_OTP channel v) address)"

definition verifyNotificationChannel ::
  "NotificationWorld \<Rightarrow> string \<Rightarrow> string \<Rightarrow> string \<Rightarrow> string option \<Rightarrow> CodeResponse option notifying" where
  "verifyNotificationChannel W channel v otpCode address =
     answered verification_field (requestNotification W (VERIFY_NOTIFICATION_CHANNEL channel v otpCode) address)"

definition subscribeProposal ::
  "NotificationWorld \<Rightarrow> string \<Rightarrow> string \<Rightarrow> FeatureInput list option \<Rightarrow> string option \<Rightarrow> string option notifying" where
  "subscribeProposal W daoCode proposalId features address =
     answered subscription_field (requestNotification W (SUBSCRIBE_PROPOSAL daoCode proposalId features) address)"

definition unsubscribeProposal ::
  "NotificationWorld \<Rightarrow> string \<Rightarrow> string \<Rightarrow> string option \<Rightarrow> string option notifying" where
  "unsubscribeProposal W daoCode proposalId address =
     answered subscription_field (requestNotification W (UNSUBSCRIBE_PROPOSAL daoCode proposalId) address)"

definition subscribeDao ::
  "NotificationWorld \<Rightarrow> string option \<Rightarrow> FeatureInput list option \<Rightarrow> string option \<Rightarrow> string option notifying" where
  "subscribeDao W daoCode features address =
     answered subscription_field (requestNotification W (SUBSCRIBE_DAO daoCode features) address)"

definition unsubscribeDao ::
  "NotificationWorld \<Rightarrow> string \<Rightarrow> string option \<Rightarrow> string option notifying" where
  "unsubscribeDao W daoCode address =
     answered subscription_field (requestNotification W (UNSUBSCRIBE_DAO daoCode) address)"

section \<open>Signing in and asking once more\<close>

definition ask_user :: "NotificationWorld \<Rightarrow> Notifier \<Rightarrow> AuthResult \<times> Notifier" where
  "ask_user W s =
     (case sign_in_again W (nt_asked s) (nt_tokens s) of
        (r, st) \<Rightarrow> (r, s \<lparr>nt_tokens := st, nt_asked := nt_asked s + 1\<rparr>))"

text \<open>
  The shape of every hook: a call that fails for want of a sign-in is made once more after one,
  unless the guard says no. The state of the guard is given with the error.
\<close>

definition with_sign_in ::
  "NotificationWorld \<Rightarrow> bool \<Rightarrow> 'a notifying \<Rightarrow> Notifier \<Rightarrow> (json + 'a) \<times> Notifier \<times> bool" where
  "with_sign_in W allowed call s =
     (case call s of
        (Inr x, s1) \<Rightarrow> (Inr x, s1, False)
      | (Inl error, s1) \<Rightarrow>
          (case isAuthenticationRequired error of
             Inl e \<Rightarrow> (Inl (error_object e), s1, False)
           | Inr True \<Rightarrow>
               if allowed then
                 (case ask_user W s1 of
                    (res, s2) \<Rightarrow>
                      if auth_success res then (case call s2 of (r, s3) \<Rightarrow> (r, s3, True))
                      else (Inl error, s2, True))
               else (Inl error, s1, False)
           | Inr False \<Rightarrow> (Inl error, s1, False)))"

definition authorised :: "NotificationWorld \<Rightarrow> 'a notifying \<Rightarrow> 'a notifying" where
  "authorised W call s = (case with_sign_in W True call s of (r, s1, _) \<Rightarrow> (r, s1))"

text \<open>
  The query of the channels counts its sign-ins in a variable of the closure, which lives as long
  as the wallet's address: \<open>retryCount\<close> is given and returned.
\<close>

definition maxRetries :: nat where
  "maxRetries = 1"

definition channels_query ::
  "NotificationWorld \<Rightarrow> string option \<Rightarrow> nat \<times> Notifier \<Rightarrow>
   (json + NotificationChannel list option) \<times> nat \<times> Notifier" where
  "channels_query W address rs =
     (case with_sign_in W (fst rs < maxRetries) (listNotificationChannels W address) (snd rs) of
        (r, s1, asked) \<Rightarrow> (r, if asked then fst rs + 1 else fst rs, s1))"

definition daos_query :: "NotificationWorld \<Rightarrow> string option \<Rightarrow> SubscribedDao list option notifying" where
  "daos_query W address = authorised W (getSubscribedDaos W address)"

definition proposals_query :: "NotificationWorld \<Rightarrow> string option \<Rightarrow> SubscribedProposal list option notifying" where
  "proposals_query W address = authorised W (getSubscribedProposals W address)"

definition useResendOTP :: "NotificationWorld \<Rightarrow> string option \<Rightarrow> string \<Rightarrow> string \<Rightarrow> OtpRequestResponse option notifying" where
  "useResendOTP W address channel v = authorised W (resendOTP W channel v address)"

definition useVerifyNotificationChannel ::
  "NotificationWorld \<Rightarrow> string option \<Rightarrow> string \<Rightarrow> string \<Rightarrow> string \<Rightarrow> CodeResponse option notifying" where
  "useVerifyNotificationChannel W address channel v otpCode =
     authorised W (verifyNotificationChannel W channel v otpCode address)"

definition useSubscribeProposal ::
  "NotificationWorld \<Rightarrow> string option \<Rightarrow> string \<Rightarrow> string \<Rightarrow> FeatureInput list option \<Rightarrow> string option notifying" where
  "useSubscribeProposal W address daoCode proposalId features =
     authorised W (subscribeProposal W daoCode proposalId features address)"

definition useUnsubscribeProposal ::
  "NotificationWorld \<Rightarrow> string option \<Rightarrow> string \<Rightarrow> string \<Rightarrow> string option notifying" where
  "useUnsubscribeProposal W address daoCode proposalId =
     authorised W (unsubscribeProposal W daoCode proposalId address)"

definition useSubscribeDao ::
  "NotificationWorld \<Rightarrow> string option \<Rightarrow> string option \<Rightarrow> FeatureInput list option \<Rightarrow> string option notifying" where
  "useSubscribeDao W address daoCode features s =
     (case setting daoCode of
        None \<Rightarrow> (Inl (error_object (ThrownError ''DAO code is required'')), s)
      | Some code \<Rightarrow> authorised W (subscribeDao W (Some code) features address) s)"

section \<open>What the hooks show\<close>

record ChannelData =
  cd_channels :: "NotificationChannel list"
  isEmailBound :: bool
  emailAddress :: "string option"

definition enhancedData :: "NotificationChannel list option \<Rightarrow> ChannelData option" where
  "enhancedData data =
     map_option (\<lambda>cs.
       let emailChannel = find (\<lambda>c. channelType c = ''EMAIL'') cs
       in \<lparr>cd_channels = cs,
           isEmailBound = (setting (map_option channel_id emailChannel) \<noteq> None),
           emailAddress = setting (map_option channelValue emailChannel)\<rparr>) data"

text \<open>
  The data of a query: what the cache holds for its key, or what is fetched when it is enabled.
\<close>

definition query_data :: "bool \<Rightarrow> 'a option \<Rightarrow> 'a option \<Rightarrow> 'a option" where
  "query_data enabled cached fetched =
     (case cached of Some x \<Rightarrow> Some x | None \<Rightarrow> if enabled then fetched else None)"

definition useNotificationChannels ::
  "bool \<Rightarrow> bool \<Rightarrow> NotificationChannel list option \<Rightarrow> NotificationChannel list option \<Rightarrow> ChannelData option" where
  "useNotificationChannels enabled isConnected cached fetched =
     enhancedData (query_data (enabled \<and> isConnected) cached fetched)"

definition dao_filter :: "string option \<Rightarrow> SubscribedDao list option \<Rightarrow> SubscribedDao list option" where
  "dao_filter daoCode data =
     (case setting daoCode of
        None \<Rightarrow> data
      | Some code \<Rightarrow> map_option (filter (\<lambda>d. sd_code d = code)) data)"

definition has_feature :: "string \<Rightarrow> SubscribedDao list \<Rightarrow> bool" where
  "has_feature f daos =
     list_ex (\<lambda>d. list_ex (\<lambda>x. feature_name x = f \<and> feature_strategy x = ''true'') (sd_features d)) daos"

definition useNotificationFeatures :: "string option \<Rightarrow> SubscribedDao list option \<Rightarrow> bool \<times> bool" where
  "useNotificationFeatures daoCode data =
     (case dao_filter daoCode data of
        None \<Rightarrow> (False, False)
      | Some [] \<Rightarrow> (False, False)
      | Some daos \<Rightarrow> (has_feature ''PROPOSAL_NEW'' daos, has_feature ''VOTE_END'' daos))"

section \<open>The settings of a DAO\<close>

definition FEATURE_KEYS :: "FeatureName list" where
  "FEATURE_KEYS = [PROPOSAL_NEW, VOTE_END]"

definition createFeature :: "FeatureName \<Rightarrow> bool \<Rightarrow> FeatureInput" where
  "createFeature name on = (name, if on then ''true'' else ''false'')"

type_synonym Settings = "FeatureName \<Rightarrow> bool"

definition baseSettings :: "bool \<times> bool \<Rightarrow> Settings" where
  "baseSettings features f =
     (case f of PROPOSAL_NEW \<Rightarrow> fst features | VOTE_END \<Rightarrow> snd features | _ \<Rightarrow> False)"

record CountdownState =
  cs_active :: bool
  cs_duration :: real
  cs_key :: real

record Dropdown =
  isOpen :: bool
  optimisticSettings :: "Settings option"
  countdown :: CountdownState

definition new_dropdown :: Dropdown where
  "new_dropdown = \<lparr>isOpen = False, optimisticSettings = None,
     countdown = \<lparr>cs_active = False, cs_duration = 60, cs_key = 0\<rparr>\<rparr>"

definition shown_settings :: "Settings \<Rightarrow> Dropdown \<Rightarrow> Settings" where
  "shown_settings base d = (case optimisticSettings d of None \<Rightarrow> base | Some s \<Rightarrow> s)"

text \<open>\<open>authorised_user\<close> is the result of \<open>ensureAuth\<close>, asked only when the dropdown opens.\<close>

definition handleOpenChange :: "bool \<Rightarrow> bool \<Rightarrow> Dropdown \<Rightarrow> Dropdown" where
  "handleOpenChange authorised_user opens d =
     (if opens then if authorised_user then d \<lparr>isOpen := True\<rparr> else d
      else d \<lparr>optimisticSettings := None, isOpen := False\<rparr>)"

text \<open>The features sent for a change of one setting.\<close>

definition toggle_features :: "Settings \<Rightarrow> FeatureName \<Rightarrow> bool \<Rightarrow> FeatureInput list" where
  "toggle_features settings f enabled =
     (if enabled then map (\<lambda>k. createFeature k True) (filter (\<lambda>k. k = f \<or> settings k) FEATURE_KEYS)
      else let others = filter (\<lambda>k. k \<noteq> f \<and> settings k) FEATURE_KEYS
           in if others = [] then map (\<lambda>k. createFeature k False) FEATURE_KEYS
              else map (\<lambda>k. createFeature k True) others)"

definition toggle_operation :: "bool \<Rightarrow> string" where
  "toggle_operation enabled = (if enabled then ''subscribe to'' else ''update subscription for'')"

text \<open>The new dropdown, the features to send, and the settings to go back to when that fails.\<close>

definition handleSettingToggle ::
  "Settings \<Rightarrow> FeatureName \<Rightarrow> bool \<Rightarrow> Dropdown \<Rightarrow> Dropdown \<times> FeatureInput list \<times> Settings" where
  "handleSettingToggle base f enabled d =
     (let settings = shown_settings base d
      in (d \<lparr>optimisticSettings := Some (settings(f := enabled))\<rparr>, toggle_features settings f enabled, settings))"

definition handleSubscriptionError :: "json \<Rightarrow> Settings \<Rightarrow> string \<Rightarrow> Dropdown \<Rightarrow> Dropdown \<times> string" where
  "handleSubscriptionError error rollback operation d =
     (d \<lparr>optimisticSettings := Some rollback\<rparr>,
      text_or (extractErrorMessage error) (''Failed to '' @ operation))"

definition handleStartCountdown :: "real \<Rightarrow> real \<Rightarrow> Dropdown \<Rightarrow> Dropdown" where
  "handleStartCountdown key duration d =
     d \<lparr>countdown := \<lparr>cs_active = True, cs_duration = duration, cs_key = key\<rparr>\<rparr>"

definition handleEndCountdown :: "Dropdown \<Rightarrow> Dropdown" where
  "handleEndCountdown d = d \<lparr>countdown := (countdown d) \<lparr>cs_active := False\<rparr>\<rparr>"

definition handleCountdownTick :: "int \<Rightarrow> Dropdown \<Rightarrow> Dropdown" where
  "handleCountdownTick remaining d =
     d \<lparr>countdown := (countdown d) \<lparr>cs_duration := of_int remaining\<rparr>\<rparr>"

section \<open>The countdown\<close>

record Countdown =
  remaining :: int
  isRunning :: bool

definition sanitizeStart :: "real \<Rightarrow> int" where
  "sanitizeStart v = max 0 \<lfloor>v\<rfloor>"

text \<open>
  What the parent is told: \<open>onTick\<close> with the seconds left, \<open>onEnd\<close>. The form gives no \<open>onStart\<close>.
\<close>

datatype CountdownCall = OnTick int | OnEnd

definition startCountdown :: "Countdown \<Rightarrow> Countdown" where
  "startCountdown c = (if remaining c \<le> 0 \<or> isRunning c then c else c \<lparr>isRunning := True\<rparr>)"

text \<open>The effect of a new start: it runs after the first rendering and whenever the start changes.\<close>

definition start_effect :: "bool \<Rightarrow> real \<Rightarrow> Countdown \<times> CountdownCall list" where
  "start_effect autoStart start =
     (let initial = sanitizeStart start
      in (\<lparr>remaining = initial, isRunning = (autoStart \<and> initial > 0)\<rparr>, [OnTick initial]))"

text \<open>One firing of the timer, which is set while the countdown runs and something remains.\<close>

definition timer_set :: "Countdown \<Rightarrow> bool" where
  "timer_set c \<longleftrightarrow> isRunning c \<and> remaining c > 0"

definition fire :: "Countdown \<Rightarrow> Countdown \<times> CountdownCall list" where
  "fire c =
     (if \<not> timer_set c then (c, [])
      else let next_value = remaining c - 1; left = max 0 next_value
           in if next_value \<le> 0 then (\<lparr>remaining = 0, isRunning = False\<rparr>, [OnTick left, OnEnd])
              else (c \<lparr>remaining := next_value\<rparr>, [OnTick left]))"

text \<open>
  The form's countdown: what it tells the parent, and the parent's new duration is its new start.
  It is mounted while the dropdown is open, no address is bound and the countdown is active, and
  starts itself.
\<close>

fun told :: "CountdownCall \<Rightarrow> Dropdown \<Rightarrow> Dropdown" where
  "told (OnTick n) d = handleCountdownTick n d"
| "told OnEnd d = handleEndCountdown d"

definition countdown_mounted :: "bool \<Rightarrow> Dropdown \<Rightarrow> bool" where
  "countdown_mounted bound d \<longleftrightarrow> isOpen d \<and> \<not> bound \<and> cs_active (countdown d)"

definition rendered_countdown :: "bool \<Rightarrow> Dropdown \<times> Countdown \<Rightarrow> Dropdown \<times> Countdown" where
  "rendered_countdown bound dc =
     (if countdown_mounted bound (fst dc) then
        case start_effect True (cs_duration (countdown (fst dc))) of
          (c, calls) \<Rightarrow> (fold told calls (fst dc), c)
      else dc)"

definition second_passes :: "bool \<Rightarrow> Dropdown \<times> Countdown \<Rightarrow> Dropdown \<times> Countdown" where
  "second_passes bound dc =
     (if countdown_mounted bound (fst dc) then
        case fire (snd dc) of
          (c, calls) \<Rightarrow>
            let d = fold told calls (fst dc)
            in if cs_duration (countdown d) \<noteq> cs_duration (countdown (fst dc))
               then rendered_countdown bound (d, c) else (d, c)
      else dc)"

section \<open>The form that binds an address\<close>

record EmailForm =
  email :: string
  verificationCode :: string
  verificationError :: string
  emailError :: string
  sendError :: string

definition empty_form :: EmailForm where
  "empty_form = \<lparr>email = [], verificationCode = [], verificationError = [], emailError = [], sendError = []\<rparr>"

datatype FormAction = SET_EMAIL string | SET_VERIFICATION_CODE string | RESET_VERIFICATION

fun formReducer :: "EmailForm \<Rightarrow> FormAction \<Rightarrow> EmailForm" where
  "formReducer s (SET_EMAIL payload) =
     (if payload \<noteq> email s then s \<lparr>email := payload, verificationCode := []\<rparr> else s \<lparr>email := payload\<rparr>)"
| "formReducer s (SET_VERIFICATION_CODE payload) = s \<lparr>verificationCode := payload\<rparr>"
| "formReducer s RESET_VERIFICATION = s \<lparr>verificationCode := []\<rparr>"

text \<open>\<open>valid\<close> is the schema of an address, a library's.\<close>

definition handleEmailChange :: "(string \<Rightarrow> bool) \<Rightarrow> string \<Rightarrow> EmailForm \<Rightarrow> EmailForm" where
  "handleEmailChange valid typed s =
     (let v = trim typed
      in (formReducer s (SET_EMAIL v))
           \<lparr>sendError := [], emailError := (if v \<noteq> [] \<and> \<not> valid v then ''Invalid email address'' else [])\<rparr>)"

definition handleCodeChange :: "string \<Rightarrow> EmailForm \<Rightarrow> EmailForm" where
  "handleCodeChange typed s = (formReducer s (SET_VERIFICATION_CODE typed)) \<lparr>verificationError := []\<rparr>"

text \<open>Sending and verifying: the form, and what is asked of the service.\<close>

definition send_enabled :: "(string \<Rightarrow> bool) \<Rightarrow> bool \<Rightarrow> EmailForm \<Rightarrow> bool" where
  "send_enabled valid countdownActive s \<longleftrightarrow> email s \<noteq> [] \<and> valid (email s) \<and> \<not> countdownActive"

definition handleSendVerification ::
  "(string \<Rightarrow> bool) \<Rightarrow> bool \<Rightarrow> EmailForm \<Rightarrow> EmailForm \<times> (string \<times> string) option" where
  "handleSendVerification valid sendingLoading s =
     (if email s = [] \<or> sendingLoading then (s, None)
      else if \<not> valid (email s) then (s \<lparr>sendError := ''Please enter a valid email address''\<rparr>, None)
      else (s \<lparr>sendError := []\<rparr>, Some (''EMAIL'', email s)))"

definition send_answered ::
  "real \<Rightarrow> json + OtpRequestResponse \<Rightarrow> EmailForm \<times> Dropdown \<Rightarrow> EmailForm \<times> Dropdown" where
  "send_answered key r fd =
     (case r of
        Inr data \<Rightarrow>
          if otp_code data = 0 then
            ((fst fd) \<lparr>sendError := []\<rparr>,
             handleStartCountdown key (if rateLimit data = 0 then 60 else rateLimit data) (snd fd))
          else ((fst fd) \<lparr>sendError := (case setting (otp_message data) of
                   None \<Rightarrow> ''Failed to send verification code'' | Some m \<Rightarrow> m)\<rparr>, snd fd)
      | Inl error \<Rightarrow>
          ((fst fd) \<lparr>sendError := text_or (extractErrorMessage error) ''Failed to send verification code''\<rparr>, snd fd))"

definition handleVerifyCode ::
  "(string \<Rightarrow> bool) \<Rightarrow> bool \<Rightarrow> EmailForm \<Rightarrow> EmailForm \<times> (string \<times> string \<times> string) option" where
  "handleVerifyCode valid verifyLoading s =
     (if verificationCode s = [] \<or> email s = [] \<or> \<not> valid (email s) \<or> verifyLoading then (s, None)
      else (s \<lparr>verificationError := []\<rparr>, Some (''EMAIL'', email s, verificationCode s)))"

text \<open>Whether the channels are fetched anew, and the form.\<close>

definition verify_answered :: "json + CodeResponse \<Rightarrow> EmailForm \<Rightarrow> bool \<times> EmailForm" where
  "verify_answered r s =
     (case r of
        Inr data \<Rightarrow>
          if response_code data = 0 then (True, s \<lparr>verificationError := []\<rparr>)
          else (False, s \<lparr>verificationError := ''Invalid verification code. Please try again.''\<rparr>)
      | Inl _ \<Rightarrow> (False, s \<lparr>verificationError := ''Invalid verification code. Please try again.''\<rparr>))"

section \<open>The button of a proposal\<close>

definition isSubscribed :: "SubscribedProposal list option \<Rightarrow> string option \<Rightarrow> string option \<Rightarrow> bool" where
  "isSubscribed subscribed proposalId daoCode =
     (case (subscribed, setting proposalId, setting daoCode) of
        (Some subs, Some p, Some c) \<Rightarrow> list_ex (\<lambda>s. sp_proposalId s = p \<and> sp_daoCode s = c) subs
      | _ \<Rightarrow> False)"

datatype Toast = ErrorToast string | SuccessToast string

text \<open>
  A click: \<open>ensured\<close> is what \<open>ensureAuth\<close> does to the tokens, the channels and the subscriptions are
  those of the rendering that was clicked.
\<close>

definition proposal_features :: "FeatureInput list" where
  "proposal_features = [(VOTE_END, ''true''), (PROPOSAL_STATE_CHANGED, ''true'')]"

definition change_subscription ::
  "NotificationWorld \<Rightarrow> string option \<Rightarrow> bool \<Rightarrow> string \<Rightarrow> string \<Rightarrow> string option notifying" where
  "change_subscription W address subscribed code p =
     (if subscribed then useUnsubscribeProposal W address code p
      else useSubscribeProposal W address code p (Some proposal_features))"

definition handleSubscribe ::
  "NotificationWorld \<Rightarrow> string option \<Rightarrow> (storage \<Rightarrow> (bool \<times> string option) \<times> storage) \<Rightarrow>
   ChannelData option \<Rightarrow> SubscribedProposal list option \<Rightarrow> string option \<Rightarrow> string option \<Rightarrow> bool \<Rightarrow>
   Notifier \<Rightarrow> Toast list \<times> Notifier" where
  "handleSubscribe W address ensured channelData subscribed proposalId daoCode isProcessing s =
     (case (setting proposalId, setting daoCode) of
        (Some p, Some code) \<Rightarrow>
          if isProcessing then ([], s)
          else (case ensured (nt_tokens s) of
                  ((ok, _), st) \<Rightarrow>
                    let s1 = s \<lparr>nt_tokens := st\<rparr>
                    in if \<not> ok then ([], s1)
                       else if \<not> (case channelData of None \<Rightarrow> False | Some c \<Rightarrow> isEmailBound c)
                       then ([ErrorToast ''Please bind your email address first to receive notifications''], s1)
                       else let sub = isSubscribed subscribed proposalId daoCode
                            in case change_subscription W address sub code p s1 of
                                 (Inr _, s2) \<Rightarrow>
                                   ([SuccessToast (if sub then ''Successfully unsubscribed from proposal notifications''
                                      else ''Successfully subscribed to proposal notifications'')], s2)
                               | (Inl error, s2) \<Rightarrow>
                                   ([ErrorToast (text_or (extractErrorMessage error)
                                      (''Failed to '' @ (if sub then ''unsubscribe from'' else ''subscribe to'') @ '' proposal''))], s2))
      | _ \<Rightarrow> ([], s))"

end
