(* ===== verification/WebNotificationClaims.thy ===== *)
theory WebNotificationClaims
  imports WebNotification
begin

text \<open>
  What the notifications promise: the request after a sign-in carries the new token, a request for a
  DAO names the settings that are on, the countdown ends; and where they fall short: the
  channels' query signs in once in its life, the first click of a proposal's button is refused.
\<close>

section \<open>Signing in and asking once more\<close>

lemma request_answer:
  assumes "setting (service_endpoint W) = Some url"
  shows "requestNotification W doc address s =
    (let s1 = s \<lparr>nt_header := request_header W address s,
                nt_sent := nt_sent s @ [\<lparr>document = doc, authorization = request_header W address s\<rparr>]\<rparr>
     in case service W (nt_sent s1) of
          Inr d \<Rightarrow> (Inr d, s1)
        | Inl error \<Rightarrow> (Inl error, if status_of error = Some (JNumber 401)
              then s1 \<lparr>nt_tokens := clearRemoteToken address (nt_tokens s1)\<rparr> else s1))"
  using assms by (simp add: requestNotification_def Let_def split: sum.splits)

lemma sent_request:
  assumes "setting (service_endpoint W) = Some url"
  shows "nt_sent (snd (requestNotification W doc address s)) =
           nt_sent s @ [\<lparr>document = doc, authorization = request_header W address s\<rparr>]"
    and "fst (requestNotification W doc address s) =
           service W (nt_sent s @ [\<lparr>document = doc, authorization = request_header W address s\<rparr>])"
    and "nt_asked (snd (requestNotification W doc address s)) = nt_asked s"
  using assms by (simp_all add: request_answer Let_def split: sum.splits)

lemma answered_parts:
  "fst (answered field call s) = map_sum id field (fst (call s))"
  "snd (answered field call s) = snd (call s)"
  by (simp_all add: answered_def split: prod.splits)

lemma map_sum_Inl: "map_sum id f r = Inl e \<longleftrightarrow> r = Inl e"
  by (cases r) auto

lemma request_keeps_asked: "nt_asked (snd (requestNotification W doc address s)) = nt_asked s"
  by (simp add: requestNotification_def Let_def split: option.splits sum.splits)

lemma stored_token_sent:
  "getRemoteToken address (nt_tokens s) = Some t \<Longrightarrow> t \<noteq> [] \<Longrightarrow>
    request_header W address s = Some (''Bearer '' @ t)"
  by (simp add: request_header_def setting_def)

text \<open>A refusal for want of a sign-in, a sign-in, and the second answer.\<close>

lemma authorised_retries:
  assumes "call s = (Inl e, s1)" "isAuthenticationRequired e = Inr True"
    and "ask_user W s1 = (res, s2)" "auth_success res"
  shows "authorised W call s = call s2"
  using assms by (simp add: authorised_def with_sign_in_def split: prod.splits)

lemma authorised_passes:
  assumes "call s = (Inr x, s1)"
  shows "authorised W call s = (Inr x, s1)"
  using assms by (simp add: authorised_def with_sign_in_def)

text \<open>
  C22: a change of a DAO's subscription that is refused for want of a sign-in is sent again after
  one, with the token the sign-in stored, and the second answer is the result.
\<close>

theorem retry_carries_new_token:
  assumes "setting (service_endpoint W) = Some url" "code \<noteq> []"
    and first: "first = \<lparr>document = SUBSCRIBE_DAO (Some code) features, authorization = request_header W address s\<rparr>"
    and "service W (nt_sent s @ [first]) = Inl e" "isAuthenticationRequired e = Inr True"
    and "sign_in_again W (nt_asked s)
           (if status_of e = Some (JNumber 401) then clearRemoteToken address (nt_tokens s) else nt_tokens s) = (res, st)"
    and "auth_success res" "getRemoteToken address st = Some t" "t \<noteq> []"
    and second: "second = \<lparr>document = SUBSCRIBE_DAO (Some code) features, authorization = Some (''Bearer '' @ t)\<rparr>"
  shows "fst (useSubscribeDao W address (Some code) features s) =
           map_sum id subscription_field (service W (nt_sent s @ [first, second]))
       \<and> nt_sent (snd (useSubscribeDao W address (Some code) features s)) = nt_sent s @ [first, second]"
proof -
  let ?call = "subscribeDao W (Some code) features address"
  let ?s1 = "snd (?call s)"
  let ?s2 = "?s1 \<lparr>nt_tokens := st, nt_asked := nt_asked s + 1\<rparr>"
  have call: "?call s = (Inl e, ?s1)"
    using assms by (simp add: subscribeDao_def prod_eq_iff answered_parts sent_request)
  have s1: "nt_sent ?s1 = nt_sent s @ [first]" "nt_asked ?s1 = nt_asked s"
      "nt_tokens ?s1 = (if status_of e = Some (JNumber 401) then clearRemoteToken address (nt_tokens s) else nt_tokens s)"
    using assms by (simp_all add: subscribeDao_def answered_parts sent_request request_answer Let_def)
  have "ask_user W ?s1 = (res, ?s2)"
    using assms s1 by (simp add: ask_user_def)
  then have run: "useSubscribeDao W address (Some code) features s = ?call ?s2"
    using assms authorised_retries [where call = ?call, OF call]
    by (simp add: useSubscribeDao_def setting_def)
  have "request_header W address ?s2 = Some (''Bearer '' @ t)"
    using assms by (intro stored_token_sent) simp_all
  then show ?thesis
    using assms s1 by (simp add: run subscribeDao_def answered_parts sent_request)
qed

definition demo_login :: "AuthResult" where
  "demo_login = \<lparr>auth_success = True, auth_token = Some ''l'', auth_remoteToken = Some ''r'', auth_error = None\<rparr>"

definition unauthorised :: json where
  "unauthorised = JObject [(''response'', JObject [(''status'', JNumber 401)])]"

definition demo_notifications :: NotificationWorld where
  "demo_notifications =
     \<lparr>service_endpoint = Some ''https://api/graphql'', renewed = (\<lambda>_. None),
      service = (\<lambda>sent. if authorization (last sent) = Some ''Bearer r'' then Inr (Subscription ''SUBSCRIBED'')
                        else Inl unauthorised),
      sign_in_again = (\<lambda>_ st. (demo_login, setRemoteToken (Some ''r'') (Some ''0xa'') st))\<rparr>"

definition new_notifier :: "storage \<Rightarrow> Notifier" where
  "new_notifier st = \<lparr>nt_tokens = st, nt_header = None, nt_sent = [], nt_asked = 0\<rparr>"

lemma unauthorised_asks [simp]:
  "status_of unauthorised = Some (JNumber 401)" "isAuthenticationRequired unauthorised = Inr True"
  by (simp_all add: unauthorised_def status_of_def response_of_def chained_def isAuthenticationRequired_def)

lemma remote_token_stored:
  "t \<noteq> [] \<Longrightarrow> getRemoteToken address (setRemoteToken (Some t) address st) = Some t"
  by (simp add: getRemoteToken_def setRemoteToken_def setting_def)

lemmas demo_simps = demo_notifications_def new_notifier_def demo_login_def

theorem retry_carries_new_token_witness:
  "fst (useSubscribeDao demo_notifications (Some ''0xa'') (Some ''dao'') None (new_notifier Map.empty)) =
     Inr (Some ''SUBSCRIBED'')"
proof -
  let ?first = "\<lparr>document = SUBSCRIBE_DAO (Some ''dao'') None, authorization = None\<rparr>"
  let ?second = "\<lparr>document = SUBSCRIBE_DAO (Some ''dao'') None, authorization = Some (''Bearer '' @ ''r'')\<rparr>"
  let ?st = "setRemoteToken (Some ''r'') (Some ''0xa'') (clearRemoteToken (Some ''0xa'') Map.empty)"
  have header: "request_header demo_notifications (Some ''0xa'') (new_notifier Map.empty) = None"
    by (simp add: demo_simps request_header_def getRemoteToken_def setting_def)
  have "fst (useSubscribeDao demo_notifications (Some ''0xa'') (Some ''dao'') None (new_notifier Map.empty)) =
      map_sum id subscription_field
        (service demo_notifications (nt_sent (new_notifier Map.empty) @ [?first, ?second]))"
  proof (rule conjunct1 [OF retry_carries_new_token [where e = unauthorised and st = ?st and res = demo_login
        and t = "''r''" and url = "''https://api/graphql''"]])
    show "service demo_notifications (nt_sent (new_notifier Map.empty) @ [?first]) = Inl unauthorised"
      by (simp add: demo_simps)
  qed (simp_all add: header, simp_all add: demo_simps remote_token_stored setting_def)
  then show ?thesis
    by (simp add: demo_simps subscription_field_def)
qed

section \<open>The channels' query\<close>

lemma channels_query_count:
  "nt_asked (snd (snd (channels_query W address (n, s)))) + n =
     nt_asked s + fst (snd (channels_query W address (n, s)))"
  "n \<le> maxRetries \<Longrightarrow> fst (snd (channels_query W address (n, s))) \<le> maxRetries"
proof -
  have keeps: "nt_asked (snd (listNotificationChannels W address s)) = nt_asked s" for s
    by (simp add: listNotificationChannels_def answered_parts request_keeps_asked)
  have keeps': "listNotificationChannels W address s = (r, s1) \<Longrightarrow> nt_asked s1 = nt_asked s" for s r s1
    using keeps [of s] by simp
  show "nt_asked (snd (snd (channels_query W address (n, s)))) + n =
     nt_asked s + fst (snd (channels_query W address (n, s)))"
    by (auto simp: channels_query_def with_sign_in_def ask_user_def
        split: prod.splits sum.splits bool.splits dest!: keeps')
  show "n \<le> maxRetries \<Longrightarrow> fst (snd (channels_query W address (n, s))) \<le> maxRetries"
    by (auto simp: channels_query_def with_sign_in_def split: prod.splits sum.splits bool.splits)
qed

text \<open>
  Queries of one closure, one after the other, between which the tokens may change in any way.
\<close>

definition channel_queries ::
  "NotificationWorld \<Rightarrow> string option \<Rightarrow> storage list \<Rightarrow> nat \<times> Notifier \<Rightarrow> nat \<times> Notifier" where
  "channel_queries W address sts rs =
     fold (\<lambda>st rs. snd (channels_query W address (fst rs, (snd rs) \<lparr>nt_tokens := st\<rparr>))) sts rs"

lemma channel_queries_count:
  "fst rs \<le> maxRetries \<Longrightarrow>
     fst (channel_queries W address sts rs) \<le> maxRetries \<and>
     nt_asked (snd (channel_queries W address sts rs)) + fst rs =
       nt_asked (snd rs) + fst (channel_queries W address sts rs)"
proof (induction sts arbitrary: rs)
  case Nil
  then show ?case by (simp add: channel_queries_def)
next
  case (Cons st sts)
  let ?s = "(snd rs) \<lparr>nt_tokens := st\<rparr>"
  let ?q = "snd (channels_query W address (fst rs, ?s))"
  have "fst ?q \<le> maxRetries" "nt_asked (snd ?q) + fst rs = nt_asked (snd rs) + fst ?q"
    using channels_query_count [where n = "fst rs" and s = ?s] Cons.prems by simp_all
  with Cons.IH [of ?q] show ?case
    by (simp add: channel_queries_def)
qed

text \<open>
  The query of the channels asks the user to sign in at most once while it lives: after that a
  refusal is thrown, however the tokens have changed meanwhile.
\<close>

lemma channels_sign_in_once:
  "nt_asked (snd (channel_queries W address sts (0, s))) \<le> nt_asked s + 1"
  using channel_queries_count [of "(0, s)" W address sts] by (simp add: maxRetries_def)

lemma second_expiry_thrown:
  assumes "listNotificationChannels W address s = (Inl e, s1)" "isAuthenticationRequired e = Inr True"
  shows "channels_query W address (maxRetries, s) = (Inl e, maxRetries, s1)"
  using assms by (simp add: channels_query_def with_sign_in_def)

section \<open>The button of a proposal\<close>

text \<open>
  The click of a user who has not signed in yet is refused for want of an address after the
  sign-in it asks for, and sends nothing, whatever channels the service holds for the user: the
  handler looks at the channels of the rendering before.
\<close>

theorem first_click_refused:
  assumes "setting (getToken address (nt_tokens s)) = None"
    and "p \<noteq> []" "code \<noteq> []"
    and "ensureAuth True address modal signing (nt_tokens s) = ((True, err), st)"
  shows "handleSubscribe W address (ensureAuth True address modal signing)
      (useNotificationChannels (setting (getToken address (nt_tokens s)) \<noteq> None) True None channels)
      subscribed (Some p) (Some code) False s =
    ([ErrorToast ''Please bind your email address first to receive notifications''], s \<lparr>nt_tokens := st\<rparr>)"
  using assms
  by (simp add: handleSubscribe_def setting_def useNotificationChannels_def query_data_def enhancedData_def)

definition demo_signing :: "storage \<Rightarrow> AuthResult \<times> storage" where
  "demo_signing st = (demo_login, setToken (Some ''l'') (Some ''0xa'') st)"

definition demo_channel :: NotificationChannel where
  "demo_channel = \<lparr>channel_id = ''1'', channelType = ''EMAIL'', channelValue = ''a@b.c'', verified = True\<rparr>"

theorem first_click_refused_witness:
  "handleSubscribe demo_notifications (Some ''0xa'') (ensureAuth True (Some ''0xa'') True demo_signing)
      (useNotificationChannels (setting (getToken (Some ''0xa'') (nt_tokens (new_notifier Map.empty))) \<noteq> None)
         True None (Some [demo_channel]))
      None (Some ''7'') (Some ''dao'') False (new_notifier Map.empty) =
    ([ErrorToast ''Please bind your email address first to receive notifications''],
     (new_notifier Map.empty) \<lparr>nt_tokens := setToken (Some ''l'') (Some ''0xa'') Map.empty\<rparr>)"
  by (rule first_click_refused [where err = None])
    (simp_all add: new_notifier_def getToken_def setting_def ensureAuth_def demo_signing_def demo_login_def)

text \<open>The second click finds the channels and subscribes.\<close>

lemma bound_click_subscribes:
  assumes "setting (getToken address (nt_tokens s)) \<noteq> None" "p \<noteq> []" "code \<noteq> []"
    and "isEmailBound data" "\<not> isSubscribed subscribed (Some p) (Some code)"
    and "useSubscribeProposal W address code p (Some proposal_features) s = (Inr r, s1)"
  shows "handleSubscribe W address (ensureAuth True address modal signing) (Some data) subscribed
      (Some p) (Some code) False s =
    ([SuccessToast ''Successfully subscribed to proposal notifications''], s1)"
  using assms by (simp add: handleSubscribe_def setting_def ensureAuth_def change_subscription_def)

section \<open>The settings of a DAO\<close>

lemma feature_keys_filter:
  "set (filter P FEATURE_KEYS) = {k \<in> {PROPOSAL_NEW, VOTE_END}. P k}"
  by (auto simp: FEATURE_KEYS_def)

lemma feature_text_inj [simp]: "feature_text a = feature_text b \<longleftrightarrow> a = b"
  by (cases a; cases b) simp_all

lemma toggle_features_on:
  assumes "f \<in> set FEATURE_KEYS"
  shows "(k, ''true'') \<in> set (toggle_features settings f enabled) \<longleftrightarrow>
    k \<in> set FEATURE_KEYS \<and> (settings(f := enabled)) k"
  using assms
  by (cases enabled; cases "settings PROPOSAL_NEW"; cases "settings VOTE_END")
    (auto simp: toggle_features_def FEATURE_KEYS_def createFeature_def Let_def)

text \<open>
  The request after a change of a switch names the settings that are on with \<open>true\<close>. One that is
  switched off while the other one is on is not named at all; the last one switched off is named, with
  \<open>false\<close>.
\<close>

lemma request_names_settings:
  assumes "f \<in> set FEATURE_KEYS" and "handleSettingToggle base f enabled d = (d', request, before)"
  shows "(k, ''true'') \<in> set request \<longleftrightarrow> k \<in> set FEATURE_KEYS \<and> shown_settings base d' k"
proof -
  have "request = toggle_features (shown_settings base d) f enabled"
    "shown_settings base d' = (shown_settings base d)(f := enabled)"
    using assms(2) by (auto simp: handleSettingToggle_def shown_settings_def Let_def)
  then show ?thesis using toggle_features_on [OF assms(1)] by simp
qed

lemma switched_off_not_named:
  "fst ` set (toggle_features (\<lambda>_. True) VOTE_END False) = {PROPOSAL_NEW}"
  "(VOTE_END, ''false'') \<in> set (toggle_features (\<lambda>k. k = VOTE_END) VOTE_END False)"
  by (simp_all add: toggle_features_def FEATURE_KEYS_def createFeature_def)

text \<open>
  A change that fails takes back what was changed after it: the settings it goes back to are those
  before it, although the service has kept the later change.
\<close>

lemma late_failure_takes_back:
  assumes "handleSettingToggle base f a d = (d1, r1, before1)"
    and "handleSettingToggle base g b d1 = (d2, r2, before2)"
  shows "shown_settings base (fst (handleSubscriptionError e before1 t d2)) = shown_settings base d"
  using assms by (auto simp: handleSettingToggle_def handleSubscriptionError_def shown_settings_def Let_def)

section \<open>The countdown\<close>

text \<open>The parent's duration and the seconds left agree, and the countdown runs while it is active.\<close>

definition counting :: "Dropdown \<times> Countdown \<Rightarrow> nat \<Rightarrow> bool" where
  "counting dc n \<longleftrightarrow>
     isOpen (fst dc) \<and> cs_active (countdown (fst dc)) \<and> n > 0 \<and>
     cs_duration (countdown (fst dc)) = real n \<and> snd dc = \<lparr>remaining = int n, isRunning = True\<rparr>"

definition counted_down :: "Dropdown \<times> Countdown \<Rightarrow> bool" where
  "counted_down dc \<longleftrightarrow> \<not> cs_active (countdown (fst dc))"

lemmas countdown_defs = second_passes_def rendered_countdown_def countdown_mounted_def fire_def timer_set_def
  start_effect_def sanitizeStart_def handleCountdownTick_def handleEndCountdown_def

lemma counting_step: "counting dc (Suc (Suc n)) \<Longrightarrow> counting (second_passes False dc) (Suc n)"
  by (cases dc) (simp add: counting_def countdown_defs Let_def)

lemma counting_last: "counting dc (Suc 0) \<Longrightarrow> counted_down (second_passes False dc)"
  by (cases dc) (simp add: counting_def counted_down_def countdown_defs Let_def)

lemma counted_stays: "counted_down dc \<Longrightarrow> counted_down (second_passes False dc)"
  by (simp add: counted_down_def countdown_defs)

lemma counted_iterated: "counted_down dc \<Longrightarrow> counted_down ((second_passes False ^^ k) dc)"
  by (induction k) (simp_all add: counted_stays)

lemma counting_iterated:
  "counting dc n \<Longrightarrow> cs_active (countdown (fst ((second_passes False ^^ k) dc))) \<longleftrightarrow> k < n"
proof (induction k arbitrary: dc n)
  case 0
  then show ?case by (simp add: counting_def)
next
  case (Suc k)
  have shift: "(second_passes False ^^ Suc k) dc = (second_passes False ^^ k) (second_passes False dc)"
    by (simp add: funpow_swap1)
  obtain m where m: "n = Suc m" using Suc.prems by (cases n) (auto simp: counting_def)
  show ?case
  proof (cases m)
    case 0
    then have "counted_down ((second_passes False ^^ k) (second_passes False dc))"
      using Suc.prems m counting_last counted_iterated by simp
    with 0 m show ?thesis by (simp only: shift) (simp add: counted_down_def)
  next
    case (Suc m')
    then have "counting (second_passes False dc) m"
      using Suc.prems m counting_step by simp
    from Suc.IH [OF this] m show ?thesis by (simp only: shift) simp
  qed
qed

lemma counting_starts:
  assumes "isOpen d" "cs_active (countdown d)" "cs_duration (countdown d) \<ge> 1"
  shows "counting (rendered_countdown False (d, c)) (nat \<lfloor>cs_duration (countdown d)\<rfloor>)"
proof -
  have "\<lfloor>cs_duration (countdown d)\<rfloor> \<ge> 1" using assms(3) by linarith
  with assms(1,2) show ?thesis
    by (simp add: counting_def rendered_countdown_def countdown_mounted_def start_effect_def sanitizeStart_def
        handleCountdownTick_def Let_def)
qed

text \<open>
  C36: after a code was sent from the open dropdown with a valid address in the form, and while the
  dropdown stays open, the button to send another is disabled for exactly the whole seconds of the
  service's rate limit, sixty when it names none (or 0), and then enabled again. The limit is at least
  one second: a shorter one never ends (lemma \<open>short_limit_never_ends\<close>), and in a closed dropdown the
  countdown stands still (lemma \<open>closed_dropdown_waits\<close>).
\<close>

theorem countdown_runs_out:
  assumes "isOpen d" "otp_code response = 0" "rateLimit response = 0 \<or> rateLimit response \<ge> 1"
    and "email form \<noteq> []" "valid (email form)"
    and "send_answered key (Inr response) (form, d) = (form1, d1)"
  shows "send_enabled valid (cs_active (countdown (fst ((second_passes False ^^ k)
      (rendered_countdown False (d1, c)))))) form1 \<longleftrightarrow>
    k \<ge> nat \<lfloor>if rateLimit response = 0 then 60 else rateLimit response\<rfloor>"
proof -
  let ?r = "if rateLimit response = 0 then 60 else rateLimit response"
  have d1: "isOpen d1" "cs_active (countdown d1)" "cs_duration (countdown d1) = ?r"
    and form1: "email form1 = email form"
    using assms(1,2,6) by (auto simp: send_answered_def handleStartCountdown_def)
  have "?r \<ge> 1" using assms(3) by auto
  then have "counting (rendered_countdown False (d1, c)) (nat \<lfloor>?r\<rfloor>)"
    using counting_starts [of d1 c] d1 by simp
  from counting_iterated [OF this, of k] show ?thesis
    using assms(4,5) form1 by (simp only: send_enabled_def) auto
qed

theorem countdown_runs_out_witness:
  "send_enabled (\<lambda>_. True) (cs_active (countdown (fst ((second_passes False ^^ 90) (rendered_countdown False
     (snd (send_answered 0 (Inr \<lparr>otp_code = 0, otp_message = None, rateLimit = 90.5\<rparr>)
        (empty_form \<lparr>email := ''a''\<rparr>, new_dropdown \<lparr>isOpen := True\<rparr>)), \<lparr>remaining = 0, isRunning = False\<rparr>))))))
    (fst (send_answered 0 (Inr \<lparr>otp_code = 0, otp_message = None, rateLimit = 90.5\<rparr>)
        (empty_form \<lparr>email := ''a''\<rparr>, new_dropdown \<lparr>isOpen := True\<rparr>)))"
proof -
  have "\<lfloor>90.5 :: real\<rfloor> = 90" by simp
  then show ?thesis
    using countdown_runs_out [where d = "new_dropdown \<lparr>isOpen := True\<rparr>" and form = "empty_form \<lparr>email := ''a''\<rparr>"
        and response = "\<lparr>otp_code = 0, otp_message = None, rateLimit = 90.5\<rparr>" and valid = "\<lambda>_. True" and k = 90
        and key = 0 and c = "\<lparr>remaining = 0, isRunning = False\<rparr>", OF _ _ _ _ _ surjective_pairing]
    by (simp add: new_dropdown_def)
qed

text \<open>A rate limit of less than one second is never over: nothing starts the timer.\<close>

lemma short_limit_never_ends:
  assumes "isOpen d" "cs_active (countdown d)" "cs_duration (countdown d) < 1"
  shows "cs_active (countdown (fst ((second_passes False ^^ k) (rendered_countdown False (d, c)))))"
proof -
  let ?P = "\<lambda>dc. cs_active (countdown (fst dc)) \<and> \<not> isRunning (snd dc)"
  have "\<lfloor>cs_duration (countdown d)\<rfloor> \<le> 0" using assms(3) by linarith
  then have start: "?P (rendered_countdown False (d, c))"
    using assms(1,2) by (simp add: countdown_defs max_def Let_def)
  have step: "?P dc \<Longrightarrow> ?P (second_passes False dc)" for dc
    by (cases dc) (simp add: second_passes_def fire_def timer_set_def)
  have "?P ((second_passes False ^^ k) (rendered_countdown False (d, c)))"
    by (induction k) (use start step in auto)
  then show ?thesis by blast
qed

text \<open>While the dropdown is closed the countdown stands still.\<close>

lemma closed_dropdown_waits: "\<not> isOpen (fst dc) \<Longrightarrow> second_passes bound dc = dc"
  by (simp add: second_passes_def countdown_mounted_def)

section \<open>The form\<close>

text \<open>A code is asked to be verified only for the address it was typed for.\<close>

datatype FormEvent = TypeEmail string | TypeCode string

fun form_step :: "(string \<Rightarrow> bool) \<Rightarrow> FormEvent \<Rightarrow> EmailForm \<Rightarrow> EmailForm" where
  "form_step valid (TypeEmail t) s = handleEmailChange valid t s"
| "form_step valid (TypeCode t) s = handleCodeChange t s"

text \<open>The address at the time the code shown was typed.\<close>

fun code_email :: "(string \<Rightarrow> bool) \<Rightarrow> FormEvent list \<Rightarrow> EmailForm \<Rightarrow> string \<Rightarrow> string" where
  "code_email valid [] s e = e"
| "code_email valid (TypeEmail t # es) s e = code_email valid es (form_step valid (TypeEmail t) s) e"
| "code_email valid (TypeCode t # es) s e = code_email valid es (form_step valid (TypeCode t) s) (email s)"

lemma code_belongs_to_email:
  "(verificationCode s \<noteq> [] \<Longrightarrow> e = email s) \<Longrightarrow>
    verificationCode (fold (form_step valid) es s) \<noteq> [] \<Longrightarrow>
    code_email valid es s e = email (fold (form_step valid) es s)"
proof (induction es arbitrary: s e)
  case Nil
  then show ?case by simp
next
  case (Cons ev es)
  show ?case
  proof (cases ev)
    case (TypeEmail t)
    have "verificationCode (form_step valid ev s) \<noteq> [] \<Longrightarrow> e = email (form_step valid ev s)"
      using Cons.prems(1) TypeEmail by (auto simp: handleEmailChange_def Let_def split: if_splits)
    from Cons.IH [OF this] Cons.prems(2) TypeEmail show ?thesis by simp
  next
    case (TypeCode t)
    have "email (form_step valid ev s) = email s"
      using TypeCode by (simp add: handleCodeChange_def)
    with Cons.IH [of "form_step valid ev s" "email s"] Cons.prems(2) TypeCode show ?thesis by simp
  qed
qed

lemma verified_code_typed_for_email:
  assumes "snd (handleVerifyCode valid loading (fold (form_step valid) es empty_form)) = Some (channel, address, code)"
  shows "address = code_email valid es empty_form []"
proof -
  let ?s = "fold (form_step valid) es empty_form"
  have "verificationCode ?s \<noteq> []" "address = email ?s"
    using assms by (auto simp: handleVerifyCode_def split: if_splits)
  then show ?thesis
    using code_belongs_to_email [of empty_form "[]" valid es] by (simp add: empty_form_def)
qed

end
