(* ===== verification/WebProfile.thy ===== *)
theory WebProfile
  imports WebNotification JsonText
begin

text \<open>
  Editing a profile (packages/web/src/app/profile/edit, the profile and member services of
  services/graphql/index.ts, hooks/useProfileQuery.ts): the names of accounts taken from links, the
  schema of the form, the request with the stored token, and the page, which sends what it last
  read with the change on top and puts the answer where it keeps what it read. The server is that
  of the web server's theories; the wallet, the schema of an address of e-mail and the pictures'
  canvas are parameters.
\<close>

section \<open>Accounts\<close>

text \<open>The first prefix that fits is dropped.\<close>

fun without_prefix :: "string list \<Rightarrow> string \<Rightarrow> string" where
  "without_prefix [] t = t"
| "without_prefix (p # ps) t = (if starts_with t p then drop (length p) t else without_prefix ps t)"

definition parseTwitterUrl :: "string \<Rightarrow> string" where
  "parseTwitterUrl v =
     without_prefix [''https://x.com/'', ''https://twitter.com/'', ''x.com/'', ''twitter.com/'', ''@''] (trim v)"

definition parseTelegramUrl :: "string \<Rightarrow> string" where
  "parseTelegramUrl v = without_prefix [''https://t.me/'', ''t.me/'', ''@''] (trim v)"

definition parseGithubUrl :: "string \<Rightarrow> string" where
  "parseGithubUrl v = without_prefix [''https://github.com/'', ''github.com/'', ''@''] (trim v)"

definition parseDiscordUrl :: "string \<Rightarrow> string" where
  "parseDiscordUrl v =
     without_prefix [''https://discordapp.com/users/'', ''https://discord.com/users/''] (trim v)"

definition is_digit :: "char \<Rightarrow> bool" where
  "is_digit c \<longleftrightarrow> (let n = (of_char c :: nat) in 48 \<le> n \<and> n \<le> 57)"

definition is_upper :: "char \<Rightarrow> bool" where
  "is_upper c \<longleftrightarrow> (let n = (of_char c :: nat) in 65 \<le> n \<and> n \<le> 90)"

definition is_lower :: "char \<Rightarrow> bool" where
  "is_lower c \<longleftrightarrow> (let n = (of_char c :: nat) in 97 \<le> n \<and> n \<le> 122)"

definition is_alnum :: "char \<Rightarrow> bool" where
  "is_alnum c \<longleftrightarrow> is_digit c \<or> is_upper c \<or> is_lower c"

definition of_length :: "nat \<Rightarrow> nat \<Rightarrow> string \<Rightarrow> bool" where
  "of_length m n t \<longleftrightarrow> m \<le> length t \<and> length t \<le> n"

section \<open>The schema of the form\<close>

text \<open>
  Each field gives the value that is sent, or nothing when the schema refuses it. A check looks at
  the text as it is when the check's turn comes: lengths and patterns before a trim that follows.
  Every field but the statement may also be the empty text.
\<close>

definition or_empty :: "(string \<Rightarrow> string option) \<Rightarrow> string \<Rightarrow> string option" where
  "or_empty field v = (case field v of Some t \<Rightarrow> Some t | None \<Rightarrow> if v = [] then Some [] else None)"

definition name_field :: "string \<Rightarrow> string option" where
  "name_field = or_empty (\<lambda>v.
     if of_length 5 50 v \<and> list_all (\<lambda>c. is_alnum c \<or> is_space c \<or> c = CHR ''-'' \<or> c = CHR ''_'') v
     then Some (trim v) else None)"

definition statement_field :: "string \<Rightarrow> string option" where
  "statement_field v = (if length v \<le> 1000 then Some (trim v) else None)"

definition email_field :: "(string \<Rightarrow> bool) \<Rightarrow> string \<Rightarrow> string option" where
  "email_field valid = or_empty (\<lambda>v. if valid v then Some (to_lower (trim v)) else None)"

definition word_name :: "nat \<Rightarrow> nat \<Rightarrow> string \<Rightarrow> bool" where
  "word_name m n t \<longleftrightarrow> of_length m n t \<and> list_all (\<lambda>c. is_alnum c \<or> c = CHR ''_'') t"

definition refined :: "(string \<Rightarrow> bool) \<Rightarrow> string \<Rightarrow> string option" where
  "refined ok t = (if t = [] \<or> ok t then Some t else None)"

definition twitter_field :: "string \<Rightarrow> string option" where
  "twitter_field = or_empty (\<lambda>v. refined (word_name 1 15) (parseTwitterUrl v))"

definition telegram_field :: "string \<Rightarrow> string option" where
  "telegram_field = or_empty (\<lambda>v. refined (word_name 5 32) (parseTelegramUrl v))"

definition github_name :: "string \<Rightarrow> bool" where
  "github_name t \<longleftrightarrow>
     of_length 2 39 t \<and> is_alnum (hd t) \<and> is_alnum (last t) \<and>
     list_all (\<lambda>c. is_alnum c \<or> c = CHR ''-'') t \<and> \<not> contains_text (tl t) ''--''"

definition github_field :: "string \<Rightarrow> string option" where
  "github_field = or_empty (\<lambda>v. refined github_name (parseGithubUrl v))"

definition discord_name :: "string \<Rightarrow> bool" where
  "discord_name t \<longleftrightarrow>
     (of_length 2 32 t \<and> list_all (\<lambda>c. is_lower c \<or> is_digit c \<or> c = CHR ''.'' \<or> c = CHR ''_'') t \<and>
        \<not> contains_text t ''..'') \<or>
     (of_length 17 19 t \<and> list_all is_digit t) \<or>
     (of_length 7 37 t \<and> list_all is_digit (drop (length t - 4) t) \<and> t ! (length t - 5) = CHR ''#'' \<and>
        list_all (\<lambda>c. \<not> is_line_end c) (take (length t - 5) t))"

definition discord_field :: "string \<Rightarrow> string option" where
  "discord_field = or_empty (\<lambda>v. refined discord_name (parseDiscordUrl v))"

record ProfileFormData =
  pf_name :: string
  pf_delegate_statement :: string
  pf_email :: string
  pf_twitter :: string
  pf_telegram :: string
  pf_github :: string
  pf_discord :: string

definition FormSchema :: "(string \<Rightarrow> bool) \<Rightarrow> ProfileFormData \<Rightarrow> ProfileFormData option" where
  "FormSchema valid f =
     (case (name_field (pf_name f), statement_field (pf_delegate_statement f), email_field valid (pf_email f),
            twitter_field (pf_twitter f), telegram_field (pf_telegram f), github_field (pf_github f),
            discord_field (pf_discord f)) of
        (Some n, Some s, Some e, Some tw, Some tg, Some g, Some d) \<Rightarrow>
          Some \<lparr>pf_name = n, pf_delegate_statement = s, pf_email = e, pf_twitter = tw, pf_telegram = tg,
                pf_github = g, pf_discord = d\<rparr>
      | _ \<Rightarrow> None)"

text \<open>What the form shows for the data of a query: its texts, or empty ones.\<close>

definition form_reset :: "json \<Rightarrow> ProfileFormData" where
  "form_reset data =
     (let shown_text = (\<lambda>k. text_or (chained (Some data) k) [])
      in \<lparr>pf_name = shown_text ''name'', pf_delegate_statement = shown_text ''delegate_statement'',
          pf_email = shown_text ''email'', pf_twitter = shown_text ''twitter'',
          pf_telegram = shown_text ''telegram'', pf_github = shown_text ''github'',
          pf_discord = shown_text ''discord''\<rparr>)"

definition form_members :: "ProfileFormData \<Rightarrow> (string \<times> json) list" where
  "form_members f =
     [(''name'', JString (pf_name f)), (''delegate_statement'', JString (pf_delegate_statement f)),
      (''email'', JString (pf_email f)), (''twitter'', JString (pf_twitter f)),
      (''telegram'', JString (pf_telegram f)), (''github'', JString (pf_github f)),
      (''discord'', JString (pf_discord f))]"

section \<open>The requests\<close>

text \<open>An answer of the application's own server, as \<open>fetch\<close> gives it: the status and the body.\<close>

definition fetched :: "(RespData \<Rightarrow> json) \<Rightarrow> Answer \<Rightarrow> nat \<times> json outcome" where
  "fetched other a =
     (case a of
        Json status r \<Rightarrow> (status, Inr (resp_json other r))
      | ErrorJson status t \<Rightarrow> (status, Inr (JObject [(''error'', JString t)]))
      | LogAnswer \<Rightarrow> (200, Inr (JObject [(''ok'', JBool True)]))
      | NotFound \<Rightarrow> (404, Inl (ThrownError ''SyntaxError'')))"

definition get_request :: "headers \<Rightarrow> string \<Rightarrow> (string \<rightharpoonup> string) \<Rightarrow> Request" where
  "get_request hs path q =
     \<lparr>req_method = ''GET'', req_pathname = path, req_headers = hs, req_query = q,
      req_body = Inl (ThrownError ''SyntaxError'')\<rparr>"

definition getProfile ::
  "'c Env \<Rightarrow> World \<Rightarrow> (RespData \<Rightarrow> json) \<Rightarrow> headers \<Rightarrow> string \<Rightarrow> 'c Server \<Rightarrow> json outcome \<times> 'c Server" where
  "getProfile E w other hs address s =
     (case serve E (w, get_request hs (''/api/profile/'' @ address) Map.empty) s of
        (a, s') \<Rightarrow> (snd (fetched other a), s'))"

definition update_request :: "headers \<Rightarrow> string \<Rightarrow> string option \<Rightarrow> (string \<times> json) list \<Rightarrow> Request" where
  "update_request hs address token profile =
     \<lparr>req_method = ''POST'', req_pathname = ''/api/profile/'' @ address,
      req_headers = (case setting token of None \<Rightarrow> hs | Some t \<Rightarrow> hs(''authorization'' \<mapsto> ''Bearer '' @ t)),
      req_query = Map.empty, req_body = Inr (JObject profile)\<rparr>"

definition unauthorized_answer :: json where
  "unauthorized_answer = JObject [(''code'', JNumber 401), (''msg'', JString ''Unauthorized'')]"

definition updateProfile ::
  "'c Env \<Rightarrow> World \<Rightarrow> (RespData \<Rightarrow> json) \<Rightarrow> headers \<Rightarrow> string \<Rightarrow> (string \<times> json) list \<Rightarrow>
   storage \<times> 'c Server \<Rightarrow> json outcome \<times> storage \<times> 'c Server" where
  "updateProfile E w other hs address profile sts =
     (case sts of (st, s) \<Rightarrow>
        (case serve E (w, update_request hs address (getToken (Some address) st) profile) s of
           (a, s') \<Rightarrow>
             if fst (fetched other a) = 401 then (Inr unauthorized_answer, clearToken (Some address) st, s')
             else (snd (fetched other a), st, s')))"

text \<open>The members' page: numbers that are not zero become parameters, an exception an answer.\<close>

definition member_query :: "int option \<Rightarrow> int option \<Rightarrow> (string \<rightharpoonup> string)" where
  "member_query checkpoint limit =
     (let param = (\<lambda>k v q. case v of Some n \<Rightarrow> if n = 0 then q else q(k \<mapsto> decimal n) | None \<Rightarrow> q)
      in param ''limit'' limit (param ''checkpoint'' checkpoint Map.empty))"

definition failed_members :: "int \<Rightarrow> string \<Rightarrow> json" where
  "failed_members code message =
     JObject [(''code'', JNumber (of_int code)), (''data'', JArray []), (''message'', JString message)]"

definition getMembers ::
  "'c Env \<Rightarrow> World \<Rightarrow> (RespData \<Rightarrow> json) \<Rightarrow> headers \<Rightarrow> int option \<Rightarrow> int option \<Rightarrow> 'c Server \<Rightarrow> json \<times> 'c Server" where
  "getMembers E w other hs checkpoint limit s =
     (case serve E (w, get_request hs ''/api/degov/members'' (member_query checkpoint limit)) s of
        (a, s') \<Rightarrow>
          (if fst (fetched other a) = 401 then failed_members 401 ''Unauthorized''
           else case snd (fetched other a) of
                  Inr data \<Rightarrow> data
                | Inl e \<Rightarrow> failed_members 500 (if failure_message e = [] then ''Failed to fetch members''
                                              else failure_message e), s'))"

definition getMemberTotal ::
  "'c Env \<Rightarrow> World \<Rightarrow> (RespData \<Rightarrow> json) \<Rightarrow> headers \<Rightarrow> 'c Server \<Rightarrow> json outcome \<times> 'c Server" where
  "getMemberTotal E w other hs s =
     (case serve E (w, get_request hs ''/api/degov/metrics'' Map.empty) s of
        (a, s') \<Rightarrow> (snd (fetched other a), s'))"

definition getProfilePull ::
  "'c Env \<Rightarrow> World \<Rightarrow> (RespData \<Rightarrow> json) \<Rightarrow> headers \<Rightarrow> string list \<Rightarrow> 'c Server \<Rightarrow> json outcome \<times> 'c Server" where
  "getProfilePull E w other hs addresses s =
     (case serve E (w, \<lparr>req_method = ''POST'', req_pathname = ''/api/profile/pull'', req_headers = hs,
              req_query = Map.empty, req_body = Inr (JArray (map JString addresses))\<rparr>) s of
        (a, s') \<Rightarrow> (snd (fetched other a), s'))"

text \<open>
  The row of a profile in JSON: every column of the table and the picture, with the texts of times
  as a parameter.
\<close>

definition column :: "string option \<Rightarrow> json" where
  "column t = (case t of None \<Rightarrow> JNull | Some x \<Rightarrow> JString x)"

definition row_json :: "(nat \<Rightarrow> string) \<Rightarrow> DUser \<times> string option \<Rightarrow> json" where
  "row_json time row =
     (case row of (u, picture) \<Rightarrow>
        JObject
          [(''id'', JString (du_id u)), (''address'', JString (du_address u)), (''dao_code'', column (du_dao_code u)),
           (''power'', column (du_power u)), (''name'', column (du_name u)), (''email'', column (du_email u)),
           (''twitter'', column (du_twitter u)), (''github'', column (du_github u)),
           (''discord'', column (du_discord u)), (''telegram'', column (du_telegram u)),
           (''medium'', column (du_medium u)), (''delegate_statement'', column (du_delegate_statement u)),
           (''additional'', column (du_additional u)),
           (''last_login_time'', JString (time (du_last_login_time u))), (''ctime'', JString (time (du_ctime u))),
           (''utime'', column (map_option time (du_utime u))), (''avatar'', column picture)])"

definition profile_data :: "(nat \<Rightarrow> string) \<Rightarrow> (RespData \<Rightarrow> json) \<Rightarrow> RespData \<Rightarrow> json" where
  "profile_data time other d = (case d of UserData (Some row) \<Rightarrow> row_json time row | _ \<Rightarrow> other d)"

section \<open>The page\<close>

text \<open>
  The answer the page's query keeps under the profile's key, the tokens, and the messages shown.
\<close>

record EditPage =
  ep_cache :: "json option"
  ep_tokens :: storage
  ep_toasts :: "Toast list"

definition profileQueryKey :: "string option \<Rightarrow> string option \<Rightarrow> string \<times> string \<times> string option" where
  "profileQueryKey daoCode address =
     (''profile'', case daoCode of None \<Rightarrow> ''default'' | Some c \<Rightarrow> c,
      case setting address of None \<Rightarrow> None | Some a \<Rightarrow> Some (to_lower a))"

text \<open>The members a spread gives: those of an object, the characters of a text by their index.\<close>

definition spread :: "json option \<Rightarrow> (string \<times> json) list" where
  "spread j =
     (case j of
        Some (JObject fs) \<Rightarrow> fs
      | Some (JString t) \<Rightarrow> map (\<lambda>(i, c). (decimal (int i), JString [c])) (enumerate 0 t)
      | Some (JArray xs) \<Rightarrow> map (\<lambda>(i, x). (decimal (int i), x)) (enumerate 0 xs)
      | _ \<Rightarrow> [])"

definition profile_change :: "json option \<Rightarrow> (string \<times> json) list \<Rightarrow> (string \<times> json) list" where
  "profile_change cache edits = object_of (spread (chained cache ''data'') @ edits)"

text \<open>The mutation's callbacks.\<close>

definition update_failed :: "failure \<Rightarrow> EditPage \<Rightarrow> EditPage" where
  "update_failed e p =
     p \<lparr>ep_toasts := ep_toasts p @ [ErrorToast (if failure_message e = [] then ''Failed to update profile''
                                             else failure_message e)]\<rparr>"

definition update_answered :: "json \<Rightarrow> EditPage \<Rightarrow> unit outcome \<times> EditPage" where
  "update_answered data p =
     (case property (Some data) ''code'' of
        Inl e \<Rightarrow> (Inl e, update_failed e p)
      | Inr code \<Rightarrow>
          (Inr (),
           if code = Some (JNumber 0) then
             p \<lparr>ep_cache := Some data,
                ep_toasts := ep_toasts p @ [SuccessToast ''Profile updated successfully'']\<rparr>
           else if code = Some (JNumber 401) then p
           else p \<lparr>ep_toasts := ep_toasts p @
                 [ErrorToast (text_or (chained (Some data) ''message'') ''Failed to update profile'')]\<rparr>))"

definition update_mutation ::
  "'c Env \<Rightarrow> World \<Rightarrow> (RespData \<Rightarrow> json) \<Rightarrow> headers \<Rightarrow> string \<Rightarrow> (string \<times> json) list \<Rightarrow>
   EditPage \<times> 'c Server \<Rightarrow> json outcome \<times> EditPage \<times> 'c Server" where
  "update_mutation E w other hs address profile ps =
     (case ps of (p, s) \<Rightarrow>
        (case updateProfile E w other hs address profile (ep_tokens p, s) of
           (r, st, s') \<Rightarrow>
             let p1 = p \<lparr>ep_tokens := st\<rparr>
             in case r of
                  Inl e \<Rightarrow> (Inl e, update_failed e p1, s')
                | Inr data \<Rightarrow>
                    (case update_answered data p1 of
                       (Inl e, p2) \<Rightarrow> (Inl e, p2, s')
                     | (Inr _, p2) \<Rightarrow> (Inr data, p2, s'))))"

text \<open>
  A save, of the form or of a picture: the data of the rendering is sent with the change, and once
  more after a sign-in when the token was refused, whatever the sign-in gave. \<open>signing\<close> is the
  sign-in.
\<close>

definition save_change ::
  "'c Env \<Rightarrow> World \<Rightarrow> World \<Rightarrow> (RespData \<Rightarrow> json) \<Rightarrow> headers \<Rightarrow>
   (storage \<times> 'c Server \<Rightarrow> storage \<times> 'c Server) \<Rightarrow> string \<Rightarrow> (string \<times> json) list \<Rightarrow>
   EditPage \<times> 'c Server \<Rightarrow> EditPage \<times> 'c Server" where
  "save_change E w1 w2 other hs signing address edits ps =
     (let profile = profile_change (ep_cache (fst ps)) edits
      in case update_mutation E w1 other hs address profile ps of
           (Inl _, ps1) \<Rightarrow> ps1
         | (Inr res, p1, s1) \<Rightarrow>
             if chained (Some res) ''code'' = Some (JNumber 401) then
               (case signing (ep_tokens p1, s1) of
                  (st, s2) \<Rightarrow>
                    snd (update_mutation E w2 other hs address profile (p1 \<lparr>ep_tokens := st\<rparr>, s2)))
             else (p1, s1))"

definition handleSubmitForm ::
  "'c Env \<Rightarrow> World \<Rightarrow> World \<Rightarrow> (RespData \<Rightarrow> json) \<Rightarrow> headers \<Rightarrow>
   (storage \<times> 'c Server \<Rightarrow> storage \<times> 'c Server) \<Rightarrow> string \<Rightarrow> ProfileFormData \<Rightarrow>
   EditPage \<times> 'c Server \<Rightarrow> EditPage \<times> 'c Server" where
  "handleSubmitForm E w1 w2 other hs signing address data =
     save_change E w1 w2 other hs signing address (form_members data)"

definition handleAvatarChange ::
  "'c Env \<Rightarrow> World \<Rightarrow> World \<Rightarrow> (RespData \<Rightarrow> json) \<Rightarrow> headers \<Rightarrow>
   (storage \<times> 'c Server \<Rightarrow> storage \<times> 'c Server) \<Rightarrow> string \<Rightarrow> string \<Rightarrow>
   EditPage \<times> 'c Server \<Rightarrow> EditPage \<times> 'c Server" where
  "handleAvatarChange E w1 w2 other hs signing address base64 =
     save_change E w1 w2 other hs signing address [(''avatar'', JString base64)]"

text \<open>The query read again: an answer replaces what is kept, a failure leaves it.\<close>

definition profile_refetched :: "json outcome \<Rightarrow> EditPage \<Rightarrow> EditPage" where
  "profile_refetched r p = (case r of Inr data \<Rightarrow> p \<lparr>ep_cache := Some data\<rparr> | Inl _ \<Rightarrow> p)"

section \<open>The picture\<close>

definition acceptedFormats :: "string list" where
  "acceptedFormats = [''image/jpeg'', ''image/png'', ''image/gif'', ''image/webp'', ''image/svg+xml'']"

definition maxSizeMB :: nat where
  "maxSizeMB = 20"

datatype PictureChoice = NoFile | RefusedFile string | AcceptedFile

definition picture_choice :: "(string \<times> nat) option \<Rightarrow> PictureChoice" where
  "picture_choice file =
     (case file of
        None \<Rightarrow> NoFile
      | Some (type, bytes) \<Rightarrow>
          if type \<notin> set acceptedFormats then RefusedFile ''Please upload a JPG, PNG, GIF or WebP image.''
          else if bytes > maxSizeMB * 1024 * 1024 then RefusedFile ''Maximum file size is 20MB.''
          else AcceptedFile)"

text \<open>
  The size of the canvas: numbers are doubles, with \<open>fl\<close> the rounding of each operation.
\<close>

definition picture_size :: "(real \<Rightarrow> real) \<Rightarrow> real \<Rightarrow> real \<Rightarrow> real \<times> real" where
  "picture_size fl width height =
     (let (w1, h1) = (if width > 800 then (800, fl (fl (height * 800) / width)) else (width, height))
      in if h1 > 800 then (fl (fl (w1 * 800) / h1), 800) else (w1, h1))"

definition output_format :: "string \<Rightarrow> string" where
  "output_format type = (if type = ''image/png'' then ''image/png'' else ''image/jpeg'')"

end
