(* ===== verification/WebProfileClaims.thy ===== *)
theory WebProfileClaims
  imports WebProfile WebSignInClaims
begin

text \<open>
  What editing a profile does to the row of the server: a save writes the fields it sends and
  blanks the others, so a save on top of the row as it was read keeps it, and a save on top of the
  answer to the save before erases it; a refused token is followed by a sign-in and a second try.
\<close>

section \<open>The form's schema\<close>

lemma without_prefix_first:
  "p \<in> set ps \<Longrightarrow> (\<And>q. q \<in> set ps \<Longrightarrow> q \<noteq> p \<Longrightarrow> \<not> starts_with (p @ t) q) \<Longrightarrow> without_prefix ps (p @ t) = t"
proof (induction ps)
  case (Cons q qs)
  show ?case
  proof (cases "q = p")
    case True
    then show ?thesis by (simp add: starts_with_append)
  next
    case False
    with Cons show ?thesis by auto
  qed
qed simp

lemma or_empty_Some: "or_empty field v = Some t \<longleftrightarrow> field v = Some t \<or> (field v = None \<and> v = [] \<and> t = [])"
  by (auto simp: or_empty_def split: option.splits)

text \<open>What is accepted for an account is a bare name, whatever link it was taken from.\<close>

lemma accepted_twitter: "twitter_field v = Some t \<Longrightarrow> t = [] \<or> word_name 1 15 t"
  by (auto simp: twitter_field_def or_empty_Some refined_def split: if_splits)

lemma accepted_github: "github_field v = Some t \<Longrightarrow> t = [] \<or> github_name t"
  by (auto simp: github_field_def or_empty_Some refined_def split: if_splits)

text \<open>Every spelling of an account is the account.\<close>

lemma twitter_spellings:
  assumes "p \<in> {''https://x.com/'', ''https://twitter.com/'', ''x.com/'', ''twitter.com/'', ''@''}"
    and "trimmed (p @ t)"
  shows "parseTwitterUrl (p @ t) = t"
proof -
  have "trim (p @ t) = p @ t" using assms(2) by (rule trim_trimmed_id)
  moreover have "without_prefix [''https://x.com/'', ''https://twitter.com/'', ''x.com/'', ''twitter.com/'', ''@''] (p @ t) = t"
    using assms(1) by (intro without_prefix_first) (auto simp: starts_with_def)
  ultimately show ?thesis by (simp add: parseTwitterUrl_def)
qed

text \<open>
  The length of a name is measured before it is trimmed: a name of five characters is accepted
  for one that is shorter.
\<close>

lemma short_name_accepted: "name_field ''  a  '' = Some ''a''" "name_field ''     '' = Some []"
  by code_simp+

lemma accepted_name: "name_field v = Some t \<Longrightarrow> t = trim v \<and> length v \<le> 50"
  by (auto simp: name_field_def or_empty_Some of_length_def trim_def trim_start_def split: if_splits)

text \<open>A name of one character, which the host allows, is refused.\<close>

lemma one_letter_refused: "github_field ''a'' = None"
  by code_simp

section \<open>The body of a save\<close>

lemma map_of_object_of: "map_of (object_of fs) k = map_of (rev fs) k"
proof -
  have "map_of (foldl (\<lambda>out (k, v). AList.update k v out) out fs) k = (map_of out ++ map_of (rev fs)) k" for out
  proof (induction fs arbitrary: out)
    case (Cons f fs)
    then show ?case
      by (cases f) (auto simp: update_conv map_add_def split: option.split)
  qed (simp add: map_add_def)
  from this [of "[]"] show ?thesis by (simp add: object_of_def)
qed

lemma change_lookup:
  "map_of (profile_change cache edits) k =
     (case map_of (rev edits) k of Some v \<Rightarrow> Some v | None \<Rightarrow> map_of (rev (spread (chained cache ''data''))) k)"
  by (simp add: profile_change_def map_of_object_of map_add_def)

text \<open>The names of the fields that a save writes, in the order of the row.\<close>

definition profile_keys :: "string list" where
  "profile_keys = [''name'', ''email'', ''twitter'', ''github'', ''discord'', ''telegram'', ''medium'',
     ''delegate_statement'', ''additional'']"

lemma written_fields: "profile_text (profile_fields E w body u) = map (form_text E body) profile_keys"
  by (simp add: profile_text_def profile_fields_def profile_keys_def)

lemma written_keeps: "du_id (profile_fields E w body u) = du_id u"
  "du_address (profile_fields E w body u) = du_address u" "du_dao_code (profile_fields E w body u) = du_dao_code u"
  by (simp_all add: profile_fields_def)

section \<open>A save that is served\<close>

text \<open>
  The owner is signed in with a token that verifies, the configuration is loaded, the database
  answers, and the row is there.
\<close>

definition account_ready ::
  "'c Env \<Rightarrow> World \<Rightarrow> headers \<Rightarrow> WebConfig \<Rightarrow> string \<Rightarrow> string \<Rightarrow> 'c Server \<Rightarrow> DUser \<Rightarrow> bool" where
  "account_ready E w hs c address t s u \<longleftrightarrow>
     (\<exists>key. setting (JWT_SECRET_KEY E) = Some key \<and>
        (\<exists>x y. jwt_verify E key t (w_now w) =
           Inr (JObject [(''address'', JString (to_lower address)), (''iat'', x), (''exp'', y)]))) \<and>
     setting (DATABASE_URL E) \<noteq> None \<and>
     (\<exists>host. setting (hs ''host'') = Some host \<and> cachedConfig s host = Some (Some c)) \<and>
     (\<forall>k. w_sql w k = None) \<and>
     user_of (to_lower address) (cfg_code c) (d_users s) = Some u"

text \<open>
  What a save needs of the framework, be it by the header of the proxy or by one of the client: the
  route is handed the host and a payload that names the account.
\<close>

definition forwards_ok :: "'c Env \<Rightarrow> headers \<Rightarrow> string \<Rightarrow> bool" where
  "forwards_ok E hs address \<longleftrightarrow>
     (let payload = JObject [(''address'', JString (to_lower address))]
      in \<forall>a. let handed = forward_headers E (hs(''authorization'' \<mapsto> a)) (encode_payload E payload)
         in handed ''host'' = hs ''host'' \<and>
            (\<exists>encoded. handed ''x-degov-auth-payload'' = Some encoded \<and> decode_payload E encoded = Inr payload))"

definition plain_token :: "string \<Rightarrow> bool" where
  "plain_token t \<longleftrightarrow> t \<noteq> [] \<and> CHR '' '' \<notin> set t"

definition account_address :: "string \<Rightarrow> bool" where
  "account_address address \<longleftrightarrow> starts_with (to_lower address) ''0x'' \<and> CHR ''/'' \<notin> set address"

lemma bearer_token: "CHR '' '' \<notin> set t \<Longrightarrow> split_on (CHR '' '') (''Bearer '' @ t) ! 1 = t"
proof -
  assume t: "CHR '' '' \<notin> set t"
  have "split_on (CHR '' '') (''Bearer'' @ CHR '' '' # t) = ''Bearer'' # split_on (CHR '' '') t"
    by (rule split_on_join) simp
  with t show ?thesis by (simp add: split_on_plain)
qed

lemma account_paths:
  assumes "account_address address"
  shows "profile_path (''/api/profile/'' @ address)"
    and "to_lower (replace_first ''/api/profile/'' [] (''/api/profile/'' @ address)) = to_lower address"
    and "starts_with (to_lower (''/api/profile/'' @ address)) ''/api/profile/0x''"
    and "address \<noteq> ''pull''"
proof -
  have p: "address \<noteq> []" "address \<noteq> ''pull''"
    using assms by (auto simp: account_address_def starts_with_def to_lower_def lower_char_def)
  then show "address \<noteq> ''pull''" by simp
  from p show "profile_path (''/api/profile/'' @ address)"
    using assms by (auto simp: profile_path_def account_address_def)
  show "to_lower (replace_first ''/api/profile/'' [] (''/api/profile/'' @ address)) = to_lower address"
    using replace_first_prefix [of "''/api/profile/''" "[]" address] by simp
  have "to_lower ''/api/profile/'' = ''/api/profile/''" by code_simp
  then have "to_lower (''/api/profile/'' @ address) = ''/api/profile/'' @ to_lower address"
    by (simp only: to_lower_append)
  then show "starts_with (to_lower (''/api/profile/'' @ address)) ''/api/profile/0x''"
    using assms by (auto simp: account_address_def starts_with_append)
qed

definition with_fields :: "'c Env \<Rightarrow> World \<Rightarrow> (string \<times> json) list \<Rightarrow> DUser \<Rightarrow> 'c Server \<Rightarrow> 'c Server" where
  "with_fields E w fs u s =
     s \<lparr>d_users := map (\<lambda>v. if du_id v = du_id u then profile_fields E w (map_of fs) v else v) (d_users s),
        connectedSql := True\<rparr>"

lemma store_avatar_runs:
  assumes "\<forall>k. w_sql w k = None"
  obtains s' where "store_avatar E w i img s = (Inr (), s')" "d_users s' = d_users s"
    "cachedConfig s' = cachedConfig s"
proof -
  have "\<exists>s'. store_avatar E w i img s = (Inr (), s') \<and> d_users s' = d_users s \<and> cachedConfig s' = cachedConfig s"
    using assms by (cases "avatar_of i (d_avatars s)")
      (simp_all add: store_avatar_def after_def query_def change_def)
  with that show thesis by blast
qed

lemma update_profile_runs:
  assumes "setting (DATABASE_URL E) \<noteq> None" "\<forall>k. w_sql w k = None" "user_of a d (d_users s) = Some u"
  obtains s' where "update_profile E w a d (JObject fs) s = (Inr (Json 200 (Resp_ok (TextData ''success''))), s')"
    "d_users s' = map (\<lambda>v. if du_id v = du_id u then profile_fields E w (map_of fs) v else v) (d_users s)"
    "cachedConfig s' = cachedConfig s"
proof -
  let ?s1 = "if connectedSql s then s else s \<lparr>connectedSql := True\<rparr>"
  let ?s2 = "?s1 \<lparr>d_users := map (\<lambda>v. if du_id v = du_id u then profile_fields E w (map_of fs) v else v) (d_users s)\<rparr>"
  have db: "databaseConnection E s = (Inr (), ?s1)"
    using assms(1) by (auto simp: databaseConnection_def)
  have step: "update_profile E w a d (JObject fs) s =
    (case (case map_of fs ''avatar'' of
        Some img \<Rightarrow> if truthy (Some img) then store_avatar E w (du_id u) img else return ()
      | None \<Rightarrow> return ()) ?s2 of
      (Inl e, s') \<Rightarrow> (Inl e, s') | (Inr _, s') \<Rightarrow> (Inr (Json 200 (Resp_ok (TextData ''success''))), s'))"
    using assms db
    by (simp add: update_profile_def after_def query_def change_def update_users_def property_def Let_def)
      (simp split: prod.split sum.split)
  obtain s' where "(case map_of fs ''avatar'' of
        Some img \<Rightarrow> if truthy (Some img) then store_avatar E w (du_id u) img else return ()
      | None \<Rightarrow> return ()) ?s2 = (Inr (), s')" "d_users s' = d_users ?s2" "cachedConfig s' = cachedConfig ?s2"
  proof (cases "\<exists>img. map_of fs ''avatar'' = Some img \<and> truthy (Some img)")
    case True
    then obtain img where img: "map_of fs ''avatar'' = Some img" "truthy (Some img)" by blast
    obtain s' where "store_avatar E w (du_id u) img ?s2 = (Inr (), s')" "d_users s' = d_users ?s2"
      "cachedConfig s' = cachedConfig ?s2" by (rule store_avatar_runs [OF assms(2)])
    with img that show thesis by simp
  next
    case False
    then have none: "(case map_of fs ''avatar'' of
        Some img \<Rightarrow> if truthy (Some img) then store_avatar E w (du_id u) img else return ()
      | None \<Rightarrow> return ()) = return ()"
      by (auto split: option.splits)
    show thesis by (rule that [of ?s2]) (simp_all add: none)
  qed
  with step show thesis by (intro that [of s']) simp_all
qed

lemma post_profile_runs:
  assumes "req_headers r ''x-degov-auth-payload'' = Some encoded"
    and "decode_payload E encoded = Inr (JObject [(''address'', JString (profile_address r))])"
    and "req_body r = Inr form" "degovConfig E w (req_headers r) s = (Inr (Some c), s)"
    and "setting (DATABASE_URL E) \<noteq> None"
  shows "post_profile E w r s = update_profile E w (profile_address r) (cfg_code c) form s"
  using assms by (cases "setting (DATABASE_URL E)")
    (simp_all add: post_profile_def after_def same_address_def property_def daocode_of_def)

lemma update_served:
  assumes ready: "account_ready E w hs c address t s u"
    and "forwards_ok E hs address" "plain_token t" "account_address address"
  obtains s' where "serve E (w, update_request hs address (Some t) fs) s =
      (Json 200 (Resp_ok (TextData ''success'')), s')"
    "d_users s' = map (\<lambda>v. if du_id v = du_id u then profile_fields E w (map_of fs) v else v) (d_users s)"
    "cachedConfig s' = cachedConfig s"
proof -
  let ?r = "update_request hs address (Some t) fs"
  let ?payload = "JObject [(''address'', JString (to_lower address))]"
  let ?hs = "forward_headers E (req_headers ?r) (encode_payload E ?payload)"
  obtain key x y where key: "setting (JWT_SECRET_KEY E) = Some key" "jwt_verify E key t (w_now w) =
      Inr (JObject [(''address'', JString (to_lower address)), (''iat'', x), (''exp'', y)])"
    using ready by (auto simp: account_ready_def)
  have hs: "req_headers ?r = hs(''authorization'' \<mapsto> ''Bearer '' @ t)"
    using assms(3) by (simp add: update_request_def setting_def plain_token_def)
  have "verifyAuth E w (req_headers ?r) = Next ?hs"
    using key bearer_token [of t] assms(3)
    by (simp add: verifyAuth_def hs plain_token_def starts_with_def masked_payload_def Let_def)
  moreover have path: "req_pathname ?r = ''/api/profile/'' @ address" "req_method ?r = ''POST''"
    by (simp_all add: update_request_def)
  ultimately have proxied: "proxy E w ?r = Next ?hs"
    unfolding proxy_def need_profile path lower_POST using account_paths(3) [OF assms(4)] by (simp only: simp_thms if_True)
  have host: "?hs ''host'' = hs ''host''"
    using assms(2) by (simp add: forwards_ok_def hs Let_def)
  obtain encoded where decoded: "?hs ''x-degov-auth-payload'' = Some encoded"
    "decode_payload E encoded = Inr ?payload"
    using assms(2) by (auto simp: forwards_ok_def hs Let_def)
  have cfg: "degovConfig E w ?hs s' = (Inr (Some c), s')" if "cachedConfig s' = cachedConfig s" for s'
    using ready that by (auto simp: account_ready_def degovConfig_def host)
  obtain s' where s': "update_profile E w (to_lower address) (cfg_code c) (JObject fs) s =
      (Inr (Json 200 (Resp_ok (TextData ''success''))), s')"
    "d_users s' = map (\<lambda>v. if du_id v = du_id u then profile_fields E w (map_of fs) v else v) (d_users s)"
    "cachedConfig s' = cachedConfig s"
    by (rule update_profile_runs [where a = "to_lower address" and d = "cfg_code c" and u = u and s = s])
      (use ready in \<open>auto simp: account_ready_def\<close>)
  have path2: "req_pathname (?r \<lparr>req_headers := ?hs\<rparr>) = ''/api/profile/'' @ address"
    "req_method (?r \<lparr>req_headers := ?hs\<rparr>) = ''POST''"
    by (simp_all add: update_request_def)
  have a: "profile_address (?r \<lparr>req_headers := ?hs\<rparr>) = to_lower address"
    using account_paths(2) [OF assms(4)] unfolding profile_address_def path2 .
  have "setting (DATABASE_URL E) \<noteq> None" using ready by (simp add: account_ready_def)
  then have "post_profile E w (?r \<lparr>req_headers := ?hs\<rparr>) s =
      update_profile E w (profile_address (?r \<lparr>req_headers := ?hs\<rparr>)) (cfg_code c) (JObject fs) s"
    by (intro post_profile_runs [where encoded = encoded])
      (use decoded cfg [OF refl] in \<open>simp_all add: a\<close>, simp add: update_request_def)
  then have "post_profile E w (?r \<lparr>req_headers := ?hs\<rparr>) s = (Inr (Json 200 (Resp_ok (TextData ''success''))), s')"
    using s'(1) by (simp only: a)
  then have "post_profile_route E w (?r \<lparr>req_headers := ?hs\<rparr>) s = (Json 200 (Resp_ok (TextData ''success'')), s')"
    by (simp add: post_profile_route_def catching_def)
  moreover have "route E w (?r \<lparr>req_headers := ?hs\<rparr>) = post_profile_route E w (?r \<lparr>req_headers := ?hs\<rparr>)"
    unfolding route_def path2 using account_paths(1,4) [OF assms(4)]
    by (simp add: Let_def)
  ultimately have "serve E (w, ?r) s = (Json 200 (Resp_ok (TextData ''success'')), s')"
    by (simp add: serve_def proxied)
  with s' show thesis by (intro that)
qed

section \<open>The page\<close>

definition saved_answer :: "(RespData \<Rightarrow> json) \<Rightarrow> json" where
  "saved_answer other = resp_json other (Resp_ok (TextData ''success''))"

lemma saved_answer_parts:
  "property (Some (saved_answer other)) ''code'' = Inr (Some (JNumber 0))"
  "chained (Some (saved_answer other)) ''code'' = Some (JNumber 0)"
  "chained (Some (saved_answer other)) ''data'' = Some (JString ''success'')"
  by (simp_all add: saved_answer_def resp_json_def Resp_ok_def optional_property_def property_def chained_def
      data_json_def)

lemma user_of_written:
  assumes "user_of a d us = Some u"
  shows "user_of a d (map (\<lambda>v. if du_id v = du_id u then profile_fields E w body v else v) us) =
    Some (profile_fields E w body u)"
  using assms
  by (induction us) (auto simp: user_of_def written_keeps split: if_splits)

lemma mutation_served:
  assumes "account_ready E w hs c address t s u" "forwards_ok E hs address" "plain_token t" "account_address address"
    and "getToken (Some address) (ep_tokens p) = Some t"
  obtains s' where "update_mutation E w other hs address fs (p, s) =
      (Inr (saved_answer other), p \<lparr>ep_cache := Some (saved_answer other),
         ep_toasts := ep_toasts p @ [SuccessToast ''Profile updated successfully'']\<rparr>, s')"
    "user_of (to_lower address) (cfg_code c) (d_users s') = Some (profile_fields E w (map_of fs) u)"
    "cachedConfig s' = cachedConfig s"
proof -
  obtain s' where s': "serve E (w, update_request hs address (Some t) fs) s =
      (Json 200 (Resp_ok (TextData ''success'')), s')"
    "d_users s' = map (\<lambda>v. if du_id v = du_id u then profile_fields E w (map_of fs) v else v) (d_users s)"
    "cachedConfig s' = cachedConfig s"
    by (rule update_served [OF assms(1-4)])
  have "user_of (to_lower address) (cfg_code c) (d_users s) = Some u"
    using assms(1) by (simp add: account_ready_def)
  then have u: "user_of (to_lower address) (cfg_code c) (d_users s') = Some (profile_fields E w (map_of fs) u)"
    unfolding s'(2) by (rule user_of_written)
  have "updateProfile E w other hs address fs (ep_tokens p, s) = (Inr (saved_answer other), ep_tokens p, s')"
    using s'(1) assms(5) by (simp add: updateProfile_def fetched_def saved_answer_def)
  then have "update_mutation E w other hs address fs (p, s) =
      (Inr (saved_answer other), p \<lparr>ep_cache := Some (saved_answer other),
         ep_toasts := ep_toasts p @ [SuccessToast ''Profile updated successfully'']\<rparr>, s')"
    by (simp add: update_mutation_def update_answered_def saved_answer_parts Let_def)
  from this u s'(3) show thesis by (rule that)
qed

lemma save_served:
  assumes "account_ready E w hs c address t s u" "forwards_ok E hs address" "plain_token t" "account_address address"
    and "getToken (Some address) (ep_tokens p) = Some t"
  obtains s' where "save_change E w w' other hs signing address edits (p, s) =
      (p \<lparr>ep_cache := Some (saved_answer other),
         ep_toasts := ep_toasts p @ [SuccessToast ''Profile updated successfully'']\<rparr>, s')"
    "user_of (to_lower address) (cfg_code c) (d_users s') =
       Some (profile_fields E w (map_of (profile_change (ep_cache p) edits)) u)"
    "cachedConfig s' = cachedConfig s"
proof -
  obtain s' where s': "update_mutation E w other hs address (profile_change (ep_cache p) edits) (p, s) =
      (Inr (saved_answer other), p \<lparr>ep_cache := Some (saved_answer other),
         ep_toasts := ep_toasts p @ [SuccessToast ''Profile updated successfully'']\<rparr>, s')"
    "user_of (to_lower address) (cfg_code c) (d_users s') =
       Some (profile_fields E w (map_of (profile_change (ep_cache p) edits)) u)"
    "cachedConfig s' = cachedConfig s"
    by (rule mutation_served [OF assms])
  have "save_change E w w' other hs signing address edits (p, s) =
      (p \<lparr>ep_cache := Some (saved_answer other),
         ep_toasts := ep_toasts p @ [SuccessToast ''Profile updated successfully'']\<rparr>, s')"
    using s'(1) by (simp add: save_change_def saved_answer_parts Let_def)
  from this s'(2,3) show thesis by (rule that)
qed

lemma ready_later:
  assumes "account_ready E w hs c address t s u" "cachedConfig s' = cachedConfig s"
    and "user_of (to_lower address) (cfg_code c) (d_users s') = Some u'"
  shows "account_ready E w hs c address t s' u'"
  using assms by (simp add: account_ready_def)

text \<open>The characters of a text have no name of a field, so a save on top of one blanks them all.\<close>

lemma index_no_field: "k \<in> set profile_keys \<Longrightarrow> map_of (rev (spread (Some (JString ''success'')))) k = None"
proof -
  have "map (\<lambda>i. decimal (int i)) [0, 1, 2, 3, 4, 5, 6] = [''0'', ''1'', ''2'', ''3'', ''4'', ''5'', ''6'']"
    by code_simp
  then show "k \<in> set profile_keys \<Longrightarrow> ?thesis"
    by (auto simp: spread_def profile_keys_def enumerate_eq_zip map_of_eq_None_iff)
qed

lemma blank_fields:
  assumes "\<And>k. k \<in> set profile_keys \<Longrightarrow> body k = None"
  shows "map (form_text E body) profile_keys = replicate 9 (Some (sql_text E (JString [])))"
proof -
  have "map (form_text E body) profile_keys = map (\<lambda>_. Some (sql_text E (JString []))) profile_keys"
    using assms by (intro map_cong) (simp_all add: form_text_def or_default_def)
  also have "\<dots> = replicate 9 (Some (sql_text E (JString [])))"
    by (simp add: profile_keys_def numeral_eq_Suc)
  finally show ?thesis .
qed

text \<open>
  C18: a picture chosen after the form was saved, before the profile has been read again, erases
  the profile: the page keeps the server's answer to the save in the place of the profile, and
  sends the picture on top of that. Both saves are served, with a token that verifies and a payload
  handed to the route that names the account, and are reported as done.
\<close>

theorem picture_after_save_erases:
  assumes "forwards_ok E hs address" "plain_token t" "account_address address"
    and "getToken (Some address) (ep_tokens p) = Some t"
    and "account_ready E w1 hs c address t s u" "account_ready E w2 hs c address t s u"
    and "handleSubmitForm E w1 w1' other hs signing address form (p, s) = (p1, s1)"
    and "handleAvatarChange E w2 w2' other hs signing address picture (p1, s1) = (p2, s2)"
  shows "(\<exists>u2. user_of (to_lower address) (cfg_code c) (d_users s2) = Some u2 \<and>
      profile_text u2 = replicate 9 (Some (sql_text E (JString [])))) \<and>
    ep_toasts p2 = ep_toasts p @ replicate 2 (SuccessToast ''Profile updated successfully'')"
proof -
  let ?done = "SuccessToast ''Profile updated successfully''"
  let ?form = "profile_change (ep_cache p) (form_members form)"
  obtain s1' where 1: "save_change E w1 w1' other hs signing address (form_members form) (p, s) =
      (p \<lparr>ep_cache := Some (saved_answer other), ep_toasts := ep_toasts p @ [?done]\<rparr>, s1')"
    "user_of (to_lower address) (cfg_code c) (d_users s1') = Some (profile_fields E w1 (map_of ?form) u)"
    "cachedConfig s1' = cachedConfig s"
    by (rule save_served [OF assms(5,1-4)])
  then have p1: "p1 = p \<lparr>ep_cache := Some (saved_answer other), ep_toasts := ep_toasts p @ [?done]\<rparr>" "s1 = s1'"
    using assms(7) by (simp_all add: handleSubmitForm_def)
  let ?u1 = "profile_fields E w1 (map_of ?form) u"
  let ?body = "profile_change (ep_cache p1) [(''avatar'', JString picture)]"
  have ready: "account_ready E w2 hs c address t s1 ?u1"
    using assms(6) 1(2,3) p1(2) by (intro ready_later [OF assms(6)]) simp_all
  have tokens: "getToken (Some address) (ep_tokens p1) = Some t" using assms(4) p1(1) by simp
  obtain s2' where 2: "save_change E w2 w2' other hs signing address [(''avatar'', JString picture)] (p1, s1) =
      (p1 \<lparr>ep_cache := Some (saved_answer other), ep_toasts := ep_toasts p1 @ [?done]\<rparr>, s2')"
    "user_of (to_lower address) (cfg_code c) (d_users s2') = Some (profile_fields E w2 (map_of ?body) ?u1)"
    by (rule save_served [OF ready assms(1-3) tokens])
  then have p2: "p2 = p1 \<lparr>ep_cache := Some (saved_answer other), ep_toasts := ep_toasts p1 @ [?done]\<rparr>" "s2 = s2'"
    using assms(8) by (simp_all add: handleAvatarChange_def)
  have "map_of ?body k = None" if "k \<in> set profile_keys" for k
    using that index_no_field [OF that]
    by (auto simp: change_lookup p1(1) saved_answer_parts profile_keys_def)
  then have "profile_text (profile_fields E w2 (map_of ?body) ?u1) = replicate 9 (Some (sql_text E (JString [])))"
    unfolding written_fields by (rule blank_fields)
  with 2(2) p2 p1(1) show ?thesis by (simp add: numeral_2_eq_2)
qed

lemma row_fields:
  "map (map_of (rev (spread (Some (row_json time (u, picture)))))) profile_keys = map (Some \<circ> column) (profile_text u)"
  by (simp add: spread_def row_json_def profile_keys_def profile_text_def)

text \<open>
  a picture chosen while the page holds the profile as the server has it changes no field: what
  was empty in the row becomes the empty text. The driver writes texts as they are.
\<close>

theorem fresh_picture_keeps_profile:
  assumes "forwards_ok E hs address" "plain_token t" "account_address address"
    and "getToken (Some address) (ep_tokens p) = Some t"
    and "account_ready E w hs c address t s u" "\<And>x. sql_text E (JString x) = x"
    and "ep_cache p = Some (resp_json (profile_data time other) (Resp_ok (UserData (Some (u, old)))))"
    and "handleAvatarChange E w w' other' hs signing address picture (p, s) = (p1, s1)"
  shows "\<exists>u1. user_of (to_lower address) (cfg_code c) (d_users s1) = Some u1 \<and>
      profile_text u1 = map (\<lambda>f. Some (case f of None \<Rightarrow> [] | Some x \<Rightarrow> x)) (profile_text u)"
proof -
  let ?body = "profile_change (ep_cache p) [(''avatar'', JString picture)]"
  obtain s1' where 1: "save_change E w w' other' hs signing address [(''avatar'', JString picture)] (p, s) =
      (p \<lparr>ep_cache := Some (saved_answer other'),
         ep_toasts := ep_toasts p @ [SuccessToast ''Profile updated successfully'']\<rparr>, s1')"
    "user_of (to_lower address) (cfg_code c) (d_users s1') = Some (profile_fields E w (map_of ?body) u)"
    by (rule save_served [OF assms(5,1-4)])
  then have s1: "s1 = s1'" using assms(8) by (simp add: handleAvatarChange_def)
  have row: "chained (ep_cache p) ''data'' = Some (row_json time (u, old))"
    by (simp add: assms(7) resp_json_def Resp_ok_def optional_property_def chained_def data_json_def profile_data_def)
  have "map_of ?body k = map_of (rev (spread (Some (row_json time (u, old))))) k" if "k \<in> set profile_keys" for k
    using that by (auto simp: change_lookup row profile_keys_def)
  then have "map (map_of ?body) profile_keys = map (Some \<circ> column) (profile_text u)"
    unfolding row_fields [symmetric, where time = time and picture = old] by (intro map_cong) simp_all
  then have "map (\<lambda>v. Some (sql_text E (or_default v (JString [])))) (map (map_of ?body) profile_keys) =
      map (\<lambda>f. Some (case f of None \<Rightarrow> [] | Some x \<Rightarrow> x)) (profile_text u)"
    using assms(6) by (auto simp: column_def or_default_def split: option.split)
  then have "profile_text (profile_fields E w (map_of ?body) u) =
      map (\<lambda>f. Some (case f of None \<Rightarrow> [] | Some x \<Rightarrow> x)) (profile_text u)"
    unfolding written_fields by (simp add: form_text_def [abs_def] comp_def)
  with 1(2) s1 show ?thesis by simp
qed

lemma refused_update:
  assumes "setting (JWT_SECRET_KEY E) = Some key" "plain_token t" "account_address address"
    and "jwt_verify E key t (w_now w) = Inl e"
  shows "serve E (w, update_request hs address (Some t) fs) s = (Json 401 (Resp_err ''wrong token''), s)"
proof -
  let ?r = "update_request hs address (Some t) fs"
  have hs: "req_headers ?r = hs(''authorization'' \<mapsto> ''Bearer '' @ t)"
    using assms(2) by (simp add: update_request_def setting_def plain_token_def)
  have "verifyAuth E w (req_headers ?r) = Stop (Json 401 (Resp_err ''wrong token''))"
    using assms bearer_token [of t] by (simp add: verifyAuth_def hs plain_token_def starts_with_def Let_def)
  moreover have path: "req_pathname ?r = ''/api/profile/'' @ address" "req_method ?r = ''POST''"
    by (simp_all add: update_request_def)
  ultimately have "proxy E w ?r = Stop (Json 401 (Resp_err ''wrong token''))"
    unfolding proxy_def need_profile path lower_POST using account_paths(3) [OF assms(3)]
    by (simp only: simp_thms if_True)
  then show ?thesis by (simp add: serve_def)
qed

text \<open>
  a save with a token that has expired still writes the profile: the token is dropped, the user
  signs in, and the same profile is sent with the new token.
\<close>

theorem save_survives_expiry:
  assumes "forwards_ok E hs address" "account_address address" "setting (JWT_SECRET_KEY E) = Some key"
    and "getToken (Some address) (ep_tokens p) = Some t0" "plain_token t0" "jwt_verify E key t0 (w_now w1) = Inl e"
    and "signing (clearToken (Some address) (ep_tokens p), s) = (st, s0)"
    and "getToken (Some address) st = Some t" "plain_token t" "account_ready E w2 hs c address t s0 u"
    and "handleSubmitForm E w1 w2 other hs signing address form (p, s) = (p1, s1)"
  shows "(\<exists>u1. user_of (to_lower address) (cfg_code c) (d_users s1) = Some u1 \<and>
      profile_text u1 = map (form_text E (map_of (profile_change (ep_cache p) (form_members form)))) profile_keys) \<and>
    ep_toasts p1 = ep_toasts p @ [SuccessToast ''Profile updated successfully'']"
proof -
  let ?body = "profile_change (ep_cache p) (form_members form)"
  let ?p1 = "p \<lparr>ep_tokens := clearToken (Some address) (ep_tokens p)\<rparr>"
  have "updateProfile E w1 other hs address ?body (ep_tokens p, s) =
      (Inr unauthorized_answer, clearToken (Some address) (ep_tokens p), s)"
    using refused_update [OF assms(3,5,2,6)] assms(4) by (simp add: updateProfile_def fetched_def)
  then have first: "update_mutation E w1 other hs address ?body (p, s) = (Inr unauthorized_answer, ?p1, s)"
    by (simp add: update_mutation_def update_answered_def unauthorized_answer_def property_def Let_def)
  obtain s' where s': "update_mutation E w2 other hs address ?body (?p1 \<lparr>ep_tokens := st\<rparr>, s0) =
      (Inr (saved_answer other), ?p1 \<lparr>ep_tokens := st, ep_cache := Some (saved_answer other),
         ep_toasts := ep_toasts p @ [SuccessToast ''Profile updated successfully'']\<rparr>, s')"
    "user_of (to_lower address) (cfg_code c) (d_users s') = Some (profile_fields E w2 (map_of ?body) u)"
    by (rule mutation_served [OF assms(10,1,9,2), where p = "?p1 \<lparr>ep_tokens := st\<rparr>" and other = other and fs = ?body])
      (use assms(8) in simp_all)
  have "save_change E w1 w2 other hs signing address (form_members form) (p, s) =
      (?p1 \<lparr>ep_tokens := st, ep_cache := Some (saved_answer other),
         ep_toasts := ep_toasts p @ [SuccessToast ''Profile updated successfully'']\<rparr>, s')"
    using first s'(1) assms(7)
    by (simp add: save_change_def unauthorized_answer_def chained_def Let_def)
  with assms(11) s'(2) show ?thesis
    by (auto simp: handleSubmitForm_def written_fields)
qed

section \<open>The picture\<close>

text \<open>A picture of any size is drawn on a canvas of at most 800 by 800.\<close>

lemma picture_fits:
  assumes "rounding fl" "width > 0" "height > 0"
  shows "fst (picture_size fl width height) \<le> 800 \<and> snd (picture_size fl width height) \<le> 800"
proof -
  have "fl 800 = 800" "fl 640000 = 640000"
    using rounding_int [OF assms(1), of 800] rounding_int [OF assms(1), of 640000] by (simp_all add: max_safe_def)
  moreover have "fl (640000 / h) \<le> fl 800" if "h > 800" for h :: real
    using that by (intro rounding_mono [OF assms(1)]) (simp add: field_simps)
  moreover have "fl (fl (w * 800) / h) \<le> fl 800" if "w \<le> 800" "h > 800" for w h :: real
  proof (rule rounding_mono [OF assms(1)])
    have "fl (w * 800) \<le> fl 640000" using that by (intro rounding_mono [OF assms(1)]) simp
    with that \<open>fl 640000 = 640000\<close> show "fl (w * 800) / h \<le> 800" by (simp add: field_simps)
  qed
  ultimately show ?thesis by (simp add: picture_size_def Let_def)
qed

section \<open>An account to try the properties on\<close>

definition demo_config :: WebConfig where
  "demo_config = \<lparr>cfg_code = ''demo'', cfg_indexer_endpoint = ''indexer''\<rparr>"

definition demo_user :: DUser where
  "demo_user = \<lparr>du_id = ''1'', du_address = ''0xab'', du_dao_code = Some ''demo'', du_power = None,
     du_name = Some ''alice'', du_email = None, du_twitter = None, du_github = Some ''al'', du_discord = None,
     du_telegram = None, du_medium = None, du_delegate_statement = Some ''hello'', du_additional = None,
     du_last_login_time = 0, du_ctime = 0, du_utime = None\<rparr>"

definition demo_account :: "(string \<rightharpoonup> nat) Server" where
  "demo_account = demo_ready \<lparr>d_users := [demo_user]\<rparr>"

definition demo_page :: EditPage where
  "demo_page = \<lparr>ep_cache = Some (resp_json (profile_data (\<lambda>_. ''now'') (\<lambda>_. JNull)) (Resp_ok (UserData (Some (demo_user, None))))),
     ep_tokens = setToken (Some ''2000.0xab'') (Some ''0xAB'') Map.empty, ep_toasts = []\<rparr>"

definition demo_form :: ProfileFormData where
  "demo_form = form_reset (row_json (\<lambda>_. ''now'') (demo_user, None))"

abbreviation demo_headers :: headers where
  "demo_headers \<equiv> [''host'' \<mapsto> ''demo'']"

lemma demo_forwards: "forwards_ok demo_env demo_headers address"
  by (simp add: forwards_ok_def demo_env_def Let_def)

lemma demo_facts:
  "plain_token ''2000.0xab''" "account_address ''0xAB''" "to_lower ''0xAB'' = ''0xab''"
  "getToken (Some ''0xAB'') (ep_tokens demo_page) = Some ''2000.0xab''"
  "setting (JWT_SECRET_KEY demo_env) = Some ''secret''"
proof -
  show l: "to_lower ''0xAB'' = ''0xab''" by code_simp
  show "plain_token ''2000.0xab''" by (simp add: plain_token_def)
  show "account_address ''0xAB''" by (simp add: account_address_def l starts_with_def)
  show "getToken (Some ''0xAB'') (ep_tokens demo_page) = Some ''2000.0xab''"
    by (simp add: demo_page_def getToken_def setToken_def setting_def)
  show "setting (JWT_SECRET_KEY demo_env) = Some ''secret''" by (simp add: demo_env_def setting_def)
qed

lemma demo_account_ready:
  assumes "now < 18002000"
  shows "account_ready demo_env (demo_world now) demo_headers demo_config ''0xAB'' ''2000.0xab'' demo_account demo_user"
proof -
  have sign: "jwt_sign demo_env ''secret'' ''0xab'' 2000 = ''2000.0xab''"
    unfolding demo_env_def Env.simps by code_simp
  have "\<exists>x y. jwt_verify demo_env ''secret'' (jwt_sign demo_env ''secret'' ''0xab'' 2000) now =
      Inr (JObject [(''address'', JString ''0xab''), (''iat'', x), (''exp'', y)])"
    using demo_token [unfolded token_ok_def, rule_format, where key = "''secret''" and address = "''0xab''"
        and iat = 2000 and now = now] assms by simp
  then obtain x y where v: "jwt_verify demo_env ''secret'' ''2000.0xab'' now =
      Inr (JObject [(''address'', JString ''0xab''), (''iat'', x), (''exp'', y)])"
    unfolding sign by blast
  have parts: "w_now (demo_world now) = now" "\<And>k. w_sql (demo_world now) k = None"
    "setting (DATABASE_URL demo_env) \<noteq> None"
    by (simp_all add: demo_world_def demo_env_def setting_def)
  have host: "setting (demo_headers ''host'') = Some ''demo''" by (simp add: setting_def)
  have "user_of ''0xab'' (cfg_code demo_config) (d_users demo_account) = Some demo_user"
    "cachedConfig demo_account ''demo'' = Some (Some demo_config)"
    by (simp_all add: user_of_def demo_config_def demo_account_def demo_user_def demo_ready_def)
  with v parts show ?thesis
    unfolding account_ready_def demo_facts(3) using host by (auto simp: demo_facts(5) del: exE)
qed

lemmas demo_times = demo_account_ready [where now = 3000, simplified] demo_account_ready [where now = 4000, simplified]

theorem picture_after_save_erases_witness:
  "\<exists>u2. user_of ''0xab'' ''demo'' (d_users (snd (handleAvatarChange demo_env (demo_world 4000) (demo_world 4001) (\<lambda>_. JNull)
      demo_headers id ''0xAB'' ''data:image''
      (handleSubmitForm demo_env (demo_world 3000) (demo_world 3001) (\<lambda>_. JNull) demo_headers id ''0xAB'' demo_form
        (demo_page, demo_account))))) = Some u2 \<and> profile_text u2 = replicate 9 (Some [])"
proof -
  let ?one = "handleSubmitForm demo_env (demo_world 3000) (demo_world 3001) (\<lambda>_. JNull) demo_headers id ''0xAB'' demo_form
        (demo_page, demo_account)"
  have blank: "sql_text demo_env (JString []) = []" and code: "cfg_code demo_config = ''demo''"
    by (simp_all add: demo_env_def demo_config_def)
  show ?thesis
    using picture_after_save_erases [OF demo_forwards demo_facts(1,2,4) demo_times(1,2)
        surjective_pairing surjective_pairing, where w1' = "demo_world 3001" and w2' = "demo_world 4001"
        and other = "\<lambda>_. JNull" and signing = id and form = demo_form and picture = "''data:image''"]
    by (simp add: blank code demo_facts(3))
qed

theorem fresh_picture_keeps_profile_witness:
  "\<exists>u1. user_of ''0xab'' ''demo'' (d_users (snd (handleAvatarChange demo_env (demo_world 4000) (demo_world 4001) (\<lambda>_. JNull)
      demo_headers id ''0xAB'' ''data:image'' (demo_page, demo_account)))) = Some u1 \<and>
    profile_text u1 = [Some ''alice'', Some [], Some [], Some ''al'', Some [], Some [], Some [], Some ''hello'', Some []]"
proof -
  have driver: "sql_text demo_env (JString x) = x" for x by (simp add: demo_env_def)
  have cache: "ep_cache demo_page =
      Some (resp_json (profile_data (\<lambda>_. ''now'') (\<lambda>_. JNull)) (Resp_ok (UserData (Some (demo_user, None)))))"
    by (simp add: demo_page_def)
  have code: "cfg_code demo_config = ''demo''" by (simp add: demo_config_def)
  have fields: "map (\<lambda>f. Some (case f of None \<Rightarrow> [] | Some x \<Rightarrow> x)) (profile_text demo_user) =
      [Some ''alice'', Some [], Some [], Some ''al'', Some [], Some [], Some [], Some ''hello'', Some []]"
    by (simp add: profile_text_def demo_user_def)
  show ?thesis
    using fresh_picture_keeps_profile [OF demo_forwards demo_facts(1,2,4) demo_times(2) driver cache
        surjective_pairing, where w' = "demo_world 4001" and other' = "\<lambda>_. JNull" and signing = id
        and picture = "''data:image''"]
    by (simp add: fields code demo_facts(3))
qed

theorem save_survives_expiry_witness:
  "ep_toasts (fst (handleSubmitForm demo_env (demo_world 3000) (demo_world 4000) (\<lambda>_. JNull) demo_headers
      (\<lambda>(st, s). (setToken (Some ''2000.0xab'') (Some ''0xAB'') st, s)) ''0xAB'' demo_form
      (demo_page \<lparr>ep_tokens := setToken (Some ''x'') (Some ''0xAB'') Map.empty\<rparr>, demo_account))) =
    [SuccessToast ''Profile updated successfully'']"
proof -
  let ?st = "setToken (Some ''2000.0xab'') (Some ''0xAB'')
      (clearToken (Some ''0xAB'') (setToken (Some ''x'') (Some ''0xAB'') Map.empty))"
  have token: "getToken (Some ''0xAB'') (ep_tokens (demo_page \<lparr>ep_tokens := setToken (Some ''x'') (Some ''0xAB'') Map.empty\<rparr>)) = Some ''x''"
    "getToken (Some ''0xAB'') ?st = Some ''2000.0xab''"
    by (simp_all add: getToken_def setToken_def setting_def)
  have x: "plain_token ''x''" by (simp add: plain_token_def)
  have "parseInt ''x'' = None" by code_simp
  then have invalid: "jwt_verify demo_env ''secret'' ''x'' (w_now (demo_world 3000)) = Inl (ThrownError ''invalid'')"
    by (simp add: demo_env_def)
  have toasts: "ep_toasts (demo_page \<lparr>ep_tokens := setToken (Some ''x'') (Some ''0xAB'') Map.empty\<rparr>) = []"
    by (simp add: demo_page_def)
  show ?thesis
    using conjunct2 [OF save_survives_expiry [OF demo_forwards demo_facts(2,5) token(1) x invalid _ token(2)
        demo_facts(1) demo_times(2) surjective_pairing, where s0 = demo_account and s = demo_account
        and signing = "\<lambda>(st, s). (setToken (Some ''2000.0xab'') (Some ''0xAB'') st, s)" and other = "\<lambda>_. JNull"
        and form = demo_form]]
    by (simp add: toasts)
qed

end
