(* ===== verification/KgiSprites.thy ===== *)
theory KgiSprites
  imports KgiTimeline
begin

text \<open>
  What the sprites of the DAG viewer draw (\<open>web/src/dag/BlockSprite.ts\<close>, \<open>EdgeSprite.ts\<close>,
  \<open>HeightSprite.ts\<close> with the values of \<open>Theme.ts\<close>): the lines and arrow heads of an edge in each
  of its looks, the end of a block's hash in lines, the frame around a block with the tweens that
  fade it, and which heights are written. The flags of the sprites are the timeline's theory. The
  drawing library is left with the commands it is given; drawing is exact arithmetic.
\<close>

section \<open>Edges\<close>

record EdgeLayout =
  layout_color :: int
  layout_lineWidth :: real
  layout_arrowRadius :: real

fun edge_layout :: "EdgeDefinition \<Rightarrow> EdgeLayout" where
  "edge_layout normal = \<lparr>layout_color = 0xaaaaaa, layout_lineWidth = 2, layout_arrowRadius = 5\<rparr>"
| "edge_layout inVirtualSelectedParentChain =
     \<lparr>layout_color = 0x85a2c1, layout_lineWidth = 5, layout_arrowRadius = 7\<rparr>"
| "edge_layout highlightedParent = \<lparr>layout_color = 0xaaaaaa, layout_lineWidth = 6, layout_arrowRadius = 8\<rparr>"
| "edge_layout highlightedChild = \<lparr>layout_color = 0xaaaaaa, layout_lineWidth = 6, layout_arrowRadius = 8\<rparr>"
| "edge_layout highlightedSelectedParent =
     \<lparr>layout_color = 0x898989, layout_lineWidth = 6, layout_arrowRadius = 8\<rparr>"
| "edge_layout highlightedParentInVirtualSelectedParentChain =
     \<lparr>layout_color = 0x85a2c1, layout_lineWidth = 8, layout_arrowRadius = 8\<rparr>"
| "edge_layout highlightedChildInVirtualSelectedParentChain =
     \<lparr>layout_color = 0x85a2c1, layout_lineWidth = 8, layout_arrowRadius = 8\<rparr>"

fun isChild :: "EdgeDefinition \<Rightarrow> bool" where
  "isChild highlightedChild = True"
| "isChild highlightedChildInVirtualSelectedParentChain = True"
| "isChild d = False"

definition edge_definitions :: "EdgeDefinition list" where
  "edge_definitions =
     [normal, inVirtualSelectedParentChain, highlightedParent, highlightedChild, highlightedSelectedParent,
      highlightedParentInVirtualSelectedParentChain, highlightedChildInVirtualSelectedParentChain]"

text \<open>The key of a look in the dictionary of its graphics: the texts of its five values.\<close>

definition bool_text :: "bool \<Rightarrow> string" where
  "bool_text b = (if b then ''true'' else ''false'')"

definition definition_key :: "EdgeDefinition \<Rightarrow> string" where
  "definition_key d =
     (let l = edge_layout d
      in decimal (layout_color l) @ ''-'' @ decimal \<lfloor>layout_lineWidth l\<rfloor> @ ''-'' @
         decimal \<lfloor>layout_arrowRadius l\<rfloor> @ ''-'' @ bool_text (isHighlight d) @ ''-'' @ bool_text (isChild d))"

definition minBorderIncrease :: real where "minBorderIncrease = 1"
definition markRadius :: real where "markRadius = 6"

definition scaled :: "real \<Rightarrow> real \<Rightarrow> real" where
  "scaled amount blockSize = amount * blockSize / referenceBlockSize"

text \<open>The width of the line and the radius of the arrow head, next to the look it is based on.\<close>

definition drawn_lineWidth :: "EdgeDefinition \<Rightarrow> EdgeDefinition \<Rightarrow> real \<Rightarrow> real" where
  "drawn_lineWidth base d blockSize =
     (let w = scaled (layout_lineWidth (edge_layout d)) blockSize
      in if isHighlight d
         then max w (scaled (layout_lineWidth (edge_layout base)) blockSize + minBorderIncrease) else w)"

definition drawn_arrowRadius :: "EdgeDefinition \<Rightarrow> EdgeDefinition \<Rightarrow> real \<Rightarrow> real" where
  "drawn_arrowRadius base d blockSize =
     (let r = scaled (layout_arrowRadius (edge_layout d)) blockSize
      in if isHighlight d
         then max r (scaled (layout_arrowRadius (edge_layout base)) blockSize + minBorderIncrease / 2) else r)"

datatype Draw =
    LineStyle real int
  | MoveTo real real
  | LineTo real real
  | Star real real nat real real
  | Circle real real real

record EdgeVector =
  vec_x :: real
  vec_y :: real
  vec_blockSize :: real
  vec_margin :: real
  vec_boundsX :: real
  vec_boundsY :: real

text \<open>Where the line ends, and the middle of the arrow head.\<close>

definition edge_end :: "EdgeVector \<Rightarrow> real \<times> real" where
  "edge_end v = (vec_x v - vec_boundsX v, vec_y v - vec_boundsY v)"

definition arrow_centre :: "real \<Rightarrow> EdgeVector \<Rightarrow> real \<times> real" where
  "arrow_centre totalRadius v =
     (case edge_end v of (toX, toY) \<Rightarrow>
        let magnitude = sqrt (toX ^ 2 + toY ^ 2)
        in (toX + - toX * totalRadius / magnitude, toY + - toY * totalRadius / magnitude))"

text \<open>\<open>Math.atan2\<close>; an infinite quotient of the mark's height does not arise for edges between columns.\<close>

definition math_atan2 :: "real \<Rightarrow> real \<Rightarrow> real" where
  "math_atan2 y x =
     (if x > 0 then arctan (y / x)
      else if x < 0 then (if y \<ge> 0 then arctan (y / x) + pi else arctan (y / x) - pi)
      else if y > 0 then pi / 2 else if y < 0 then - pi / 2 else 0)"

definition renderGraphics :: "EdgeDefinition \<Rightarrow> EdgeDefinition \<Rightarrow> EdgeVector \<Rightarrow> Draw list" where
  "renderGraphics base d v =
     (let lineWidth = drawn_lineWidth base d (vec_blockSize v);
          color = layout_color (edge_layout d);
          arrowRadius = drawn_arrowRadius base d (vec_blockSize v);
          angle = math_atan2 (vec_y v) (vec_x v) + pi / 2;
          (arrowX, arrowY) = arrow_centre (arrowRadius + lineWidth) v;
          line = [LineStyle lineWidth color, MoveTo 0 0, LineTo arrowX arrowY, Star arrowX arrowY 3 arrowRadius angle]
      in if isHighlight d then
           let markOffsetX = (vec_blockSize v + vec_margin v) / 2;
               markOffsetY = vec_y v / vec_x v * markOffsetX
           in line @ [Circle (if isChild d then vec_x v + markOffsetX else - markOffsetX)
                             (if isChild d then vec_y v + markOffsetY else - markOffsetY)
                             (scaled markRadius (vec_blockSize v))]
         else line)"

text \<open>
  An edge with its graphics: what was drawn for each look, and how visible each is once the tweens
  are done. A new vector draws all looks again, next to the look that is the base then.
\<close>

record DrawnEdge =
  de_sprite :: EdgeSprite
  de_vector :: "EdgeVector option"
  de_graphics :: "EdgeDefinition \<Rightarrow> Draw list"
  de_alpha :: "EdgeDefinition \<Rightarrow> real"

definition new_drawn_edge :: "int \<Rightarrow> int \<Rightarrow> DrawnEdge" where
  "new_drawn_edge f t =
     \<lparr>de_sprite = new_edge_sprite f t, de_vector = None, de_graphics = (\<lambda>_. []),
      de_alpha = (\<lambda>d. if d = normal then 1 else 0)\<rparr>"

definition no_vector :: EdgeVector where
  "no_vector = \<lparr>vec_x = 0, vec_y = 0, vec_blockSize = 0, vec_margin = 0, vec_boundsX = 0, vec_boundsY = 0\<rparr>"

definition setVector :: "EdgeVector \<Rightarrow> DrawnEdge \<Rightarrow> DrawnEdge" where
  "setVector v e =
     (let e1 = (if (case de_vector e of None \<Rightarrow> no_vector | Some u \<Rightarrow> u) \<noteq> v
                then e \<lparr>de_graphics := (\<lambda>d. renderGraphics (baseDefinition (de_sprite e)) d v)\<rparr> else e)
      in e1 \<lparr>de_vector := Some v\<rparr>)"

definition wasVectorSet :: "DrawnEdge \<Rightarrow> bool" where
  "wasVectorSet e = (de_vector e \<noteq> None)"

definition changeShownGraphics :: "EdgeDefinition \<Rightarrow> DrawnEdge \<Rightarrow> DrawnEdge" where
  "changeShownGraphics target e = e \<lparr>de_alpha := (\<lambda>d. if d = target then 1 else 0)\<rparr>"

definition drawn_setFullState :: "bool \<Rightarrow> bool \<Rightarrow> bool \<Rightarrow> bool \<Rightarrow> DrawnEdge \<Rightarrow> DrawnEdge" where
  "drawn_setFullState chain hp hc sp e =
     (let s = de_sprite e; s' = setFullState chain hp hc sp s
      in if e_inChain s \<noteq> chain \<or> e_highlightedParent s \<noteq> hp \<or> e_highlightedChild s \<noteq> hc \<or>
            e_selectedParent s \<noteq> sp
         then changeShownGraphics (shownDefinition s') (e \<lparr>de_sprite := s'\<rparr>) else e)"

section \<open>The hash of a block\<close>

definition chunkSubstr :: "string \<Rightarrow> nat \<Rightarrow> string list" where
  "chunkSubstr str n =
     map (\<lambda>i. take n (drop (i * n) str)) [0 ..< nat \<lceil>real (length str) / real n\<rceil>]"

definition minFontSize :: real where "minFontSize = 14"
definition maxFontSize :: real where "maxFontSize = 18"
definition maxTextLines :: int where "maxTextLines = 3"

definition nominalFontSize :: "(real \<Rightarrow> real) \<Rightarrow> real \<Rightarrow> real" where
  "nominalFontSize fl blockSize = fl (fl (blockSize * fl (26 / 100)) * 2)"

definition text_lines :: "(real \<Rightarrow> real) \<Rightarrow> real \<Rightarrow> int" where
  "text_lines fl nominal =
     (if nominal \<le> minFontSize - 2 then max 1 (min \<lfloor>fl (nominal / minFontSize)\<rfloor> maxTextLines)
      else max 1 (min \<lceil>fl (fl (nominal + 2) / maxFontSize)\<rceil> maxTextLines))"

definition font_size :: "(real \<Rightarrow> real) \<Rightarrow> real \<Rightarrow> real" where
  "font_size fl nominal =
     fl (of_int \<lfloor>fl (min (fl (nominal / of_int (text_lines fl nominal))) maxFontSize * 4)\<rfloor> / 4)"

definition hash_lines :: "nat \<Rightarrow> string \<Rightarrow> string list" where
  "hash_lines textLines hash =
     (let lineLength = textLines * 2; lastCharactersLength = lineLength * textLines
      in chunkSubstr (to_upper (drop (length hash - lastCharactersLength) hash)) lineLength)"

definition buildText :: "(real \<Rightarrow> real) \<Rightarrow> string \<Rightarrow> real \<Rightarrow> string list \<times> real" where
  "buildText fl hash blockSize =
     (let nominal = nominalFontSize fl blockSize
      in (hash_lines (nat (text_lines fl nominal)) hash, font_size fl nominal))"

section \<open>The frame of a block\<close>

record FrameLayout =
  frame_alpha :: real
  frame_lineWidth :: real
  frame_offset :: real

definition frame_layout :: "bool \<Rightarrow> FrameLayout" where
  "frame_layout focus =
     (if focus then \<lparr>frame_alpha = 0.6, frame_lineWidth = 10, frame_offset = 24\<rparr>
      else \<lparr>frame_alpha = 0.6, frame_lineWidth = 5, frame_offset = 13\<rparr>)"

record Frame =
  frame_size :: real
  frame_width :: real
  frame_color :: BlockColor

definition buildHighlight :: "real \<Rightarrow> BlockSprite \<Rightarrow> Frame" where
  "buildHighlight blockSize s =
     (let l = frame_layout (hasFocus s)
      in \<lparr>frame_size = blockSize + scaled (frame_offset l) blockSize,
          frame_width = scaled (frame_lineWidth l) blockSize, frame_color = highlightColor s\<rparr>)"

text \<open>
  The frames there are, by number, in the order of making; how visible each is; which are in the
  container, how visible the container is, and which one the sprite knows as its current one. A
  tween is a value that is reached later: a frame that becomes visible, one that fades and leaves
  the container, the container's own.
\<close>

datatype FrameTween = Appear nat | Vanish nat | Container real

record FramedBlock =
  fb_sprite :: BlockSprite
  fb_size :: real
  fb_frames :: "Frame list"
  fb_alpha :: "nat \<Rightarrow> real"
  fb_children :: "nat list"
  fb_container :: real
  fb_current :: nat
  fb_tweens :: "FrameTween list"

definition new_framed_block :: "Block \<Rightarrow> FramedBlock" where
  "new_framed_block b =
     \<lparr>fb_sprite = new_block_sprite b, fb_size = 0, fb_frames = [buildHighlight 0 (new_block_sprite b)],
      fb_alpha = (\<lambda>_. 1), fb_children = [0], fb_container = 0, fb_current = 0, fb_tweens = []\<rparr>"

definition block_setSize :: "real \<Rightarrow> FramedBlock \<Rightarrow> FramedBlock" where
  "block_setSize blockSize b =
     (if fb_size b \<noteq> blockSize then
        let n = length (fb_frames b)
        in b \<lparr>fb_size := blockSize, fb_frames := fb_frames b @ [buildHighlight blockSize (fb_sprite b)],
              fb_alpha := (fb_alpha b)(n := 1), fb_children := [n]\<rparr>
      else b)"

definition block_setHighlighted :: "bool \<Rightarrow> bool \<Rightarrow> BlockColor \<Rightarrow> FramedBlock \<Rightarrow> FramedBlock" where
  "block_setHighlighted h f c b =
     (let s = fb_sprite b; s' = setHighlighted h f c s
      in if isHighlighted s \<noteq> h \<or> hasFocus s \<noteq> f \<or> highlightColor s \<noteq> c then
           let old = fb_current b;
               fades = (fb_alpha b old > 0 \<and> fb_container b > 0);
               n = length (fb_frames b);
               toAlpha = (if h then frame_alpha (frame_layout f) else 0)
           in b \<lparr>fb_sprite := s', fb_frames := fb_frames b @ [buildHighlight (fb_size b) s'],
                 fb_alpha := (fb_alpha b)(n := 0),
                 fb_children := (if fades then fb_children b else []) @ [n], fb_current := n,
                 fb_tweens := fb_tweens b @ (if fades then [Vanish old] else []) @
                   (if h then [Appear n] else []) @ (if toAlpha \<noteq> fb_container b then [Container toAlpha] else [])\<rparr>
         else b)"

fun tween_done :: "FrameTween \<Rightarrow> FramedBlock \<Rightarrow> FramedBlock" where
  "tween_done (Appear n) b = b \<lparr>fb_alpha := (fb_alpha b)(n := 1)\<rparr>"
| "tween_done (Vanish n) b =
     b \<lparr>fb_alpha := (fb_alpha b)(n := 0), fb_children := filter (\<lambda>i. i \<noteq> n) (fb_children b)\<rparr>"
| "tween_done (Container a) b = b \<lparr>fb_container := a\<rparr>"

definition tweens_done :: "FramedBlock \<Rightarrow> FramedBlock" where
  "tweens_done b = fold tween_done (fb_tweens b) (b \<lparr>fb_tweens := []\<rparr>)"

text \<open>The frames one sees.\<close>

definition visible_frames :: "FramedBlock \<Rightarrow> Frame list" where
  "visible_frames b =
     (if fb_container b > 0 then map (\<lambda>i. fb_frames b ! i) (filter (\<lambda>i. fb_alpha b i > 0) (fb_children b)) else [])"

section \<open>The heights that are written\<close>

definition clamped :: "real \<Rightarrow> real \<Rightarrow> real \<Rightarrow> real" where
  "clamped lo hi x = max lo (min x hi)"

definition height_fontSize :: "(real \<Rightarrow> real) \<Rightarrow> real \<Rightarrow> int" where
  "height_fontSize fl blockSize = \<lfloor>clamped 12 15 (fl (blockSize * fl (1 / 4))) + 1 / 2\<rfloor>"

definition height_bottomMargin :: "(real \<Rightarrow> real) \<Rightarrow> real \<Rightarrow> int" where
  "height_bottomMargin fl blockSize = \<lfloor>clamped 10 40 (fl (blockSize * fl (1 / 2))) + 1 / 2\<rfloor>"

text \<open>
  The width of the text is the drawing library's; a text wider than its column is written on every
  so many heights only.
\<close>

definition textSpriteSpread :: "(real \<Rightarrow> real) \<Rightarrow> real \<Rightarrow> real \<Rightarrow> real \<Rightarrow> int" where
  "textSpriteSpread fl textWidth spriteWidth blockSize =
     \<lceil>fl (fl (textWidth / spriteWidth) + fl (fl (5 / 4 * blockSize) / spriteWidth))\<rceil>"

definition height_written :: "(real \<Rightarrow> real) \<Rightarrow> real \<Rightarrow> real \<Rightarrow> real \<Rightarrow> HeightSprite \<Rightarrow> bool" where
  "height_written fl textWidth spriteWidth blockSize s =
     (let spread = textSpriteSpread fl textWidth spriteWidth blockSize
      in \<not> (spread > 1 \<and> js_rem (blockHeight s) spread \<noteq> 0))"

definition setDAAScore :: "int \<Rightarrow> HeightSprite \<Rightarrow> HeightSprite" where
  "setDAAScore score s = s \<lparr>sprite_daaScore := score\<rparr>"

end
