(* ===== verification/KgiSpritesClaims.thy ===== *)
theory KgiSpritesClaims
  imports KgiSprites
begin

text \<open>
  What is drawn: an edge leaves and reaches blocks on their border, its arrow head ends there, one
  look of it is visible; the lines of a hash are its end; heights that are written do not overlap;
  and a frame that a change of size has drawn stays when the highlighting changes.
\<close>

section \<open>The border of a block\<close>

text \<open>The border of a square with half side \<open>h\<close> whose corners are arcs that begin at \<open>m\<close>.\<close>

definition on_border :: "real \<Rightarrow> real \<Rightarrow> real \<times> real \<Rightarrow> bool" where
  "on_border h m p \<longleftrightarrow>
     (let x = \<bar>fst p\<bar>; y = \<bar>snd p\<bar>
      in (x = h \<and> y \<le> m) \<or> (y = h \<and> x \<le> m) \<or> (x \<ge> m \<and> y \<ge> m \<and> (x - m) ^ 2 + (y - m) ^ 2 = (h - m) ^ 2))"

lemma corner_discriminant:
  fixes m r t :: real
  assumes "0 \<le> m" "0 \<le> t" "r * t \<ge> m * (1 - t)" "r \<ge> m * (t - 1)" "0 \<le> r"
  shows "m ^ 2 * (t - 1) ^ 2 \<le> r ^ 2 * (if t \<le> 1 then t ^ 2 else 1)"
proof (cases "t \<le> 1")
  case True
  then have "(m * (1 - t)) ^ 2 \<le> (r * t) ^ 2"
    using assms by (intro power_mono) auto
  with True show ?thesis by (simp add: power_mult_distrib power2_commute)
next
  case False
  then have "(m * (t - 1)) ^ 2 \<le> r ^ 2"
    using assms by (intro power_mono) auto
  with False show ?thesis by (simp add: power_mult_distrib)
qed

text \<open>The greater root of the corner's equation, with \<open>D\<close> a quarter of the discriminant.\<close>

lemma corner_root:
  fixes m r t :: real
  assumes "0 \<le> m" "0 < t" "r * t \<ge> m * (1 - t)" "r \<ge> m * (t - 1)" "0 \<le> r"
    and D: "D = r ^ 2 * (t ^ 2 + 1) - m ^ 2 * (t - 1) ^ 2"
    and x: "x = (m * (t + 1) + sqrt D) / (t ^ 2 + 1)"
  shows "(x - m) ^ 2 + (x * t - m) ^ 2 = r ^ 2 \<and> x \<ge> m \<and> x * t \<ge> m"
proof -
  have pos: "t ^ 2 + 1 > 0" by (simp add: add_nonneg_pos)
  have key: "m ^ 2 * (t - 1) ^ 2 \<le> r ^ 2 * (if t \<le> 1 then t ^ 2 else 1)"
    using assms by (intro corner_discriminant) auto
  have "r ^ 2 * (if t \<le> 1 then t ^ 2 else 1) \<le> r ^ 2 * (t ^ 2 + 1)"
    by (intro mult_left_mono) auto
  with key D have D0: "D \<ge> 0" by linarith
  have ax: "(t ^ 2 + 1) * x = m * (t + 1) + sqrt D" using x pos by simp
  have sq: "sqrt D ^ 2 = D" using D0 by simp
  have "(t ^ 2 + 1) * ((x - m) ^ 2 + (x * t - m) ^ 2 - r ^ 2) =
      ((t ^ 2 + 1) * x) ^ 2 - 2 * m * (t + 1) * ((t ^ 2 + 1) * x) + (t ^ 2 + 1) * (2 * m ^ 2 - r ^ 2)"
    by algebra
  also have "\<dots> = (sqrt D) ^ 2 - (m * (t + 1)) ^ 2 + (t ^ 2 + 1) * (2 * m ^ 2 - r ^ 2)"
    unfolding ax by algebra
  also have "\<dots> = 0" unfolding sq unfolding D by algebra
  finally have circle: "(x - m) ^ 2 + (x * t - m) ^ 2 = r ^ 2" using pos by simp
  have "sqrt D \<ge> m * t * (t - 1)"
  proof (cases "t \<le> 1")
    case True
    then have "m * t * (t - 1) \<le> 0" using assms by (intro mult_nonneg_nonpos) auto
    then show ?thesis using real_sqrt_ge_zero [OF D0] by linarith
  next
    case False
    then have "m ^ 2 * (t - 1) ^ 2 \<le> r ^ 2" using key by simp
    then have "m ^ 2 * (t - 1) ^ 2 * (t ^ 2 + 1) \<le> r ^ 2 * (t ^ 2 + 1)" by (intro mult_right_mono) auto
    moreover have "(m * t * (t - 1)) ^ 2 = m ^ 2 * (t - 1) ^ 2 * (t ^ 2 + 1) - m ^ 2 * (t - 1) ^ 2" by algebra
    ultimately have "(m * t * (t - 1)) ^ 2 \<le> D" unfolding D by linarith
    then show ?thesis by (rule real_le_rsqrt)
  qed
  then have "(t ^ 2 + 1) * m \<le> (t ^ 2 + 1) * x" unfolding ax by (simp add: algebra_simps power2_eq_square)
  then have xm: "x \<ge> m" using pos by simp
  have "t * sqrt D \<ge> m * (1 - t)"
  proof (cases "t \<le> 1")
    case False
    then have "m * (1 - t) \<le> 0" using assms by (intro mult_nonneg_nonpos) auto
    moreover have "t * sqrt D \<ge> 0" using assms(2) D0 by simp
    ultimately show ?thesis by linarith
  next
    case True
    then have "m ^ 2 * (t - 1) ^ 2 \<le> r ^ 2 * t ^ 2" using key by simp
    then have "m ^ 2 * (t - 1) ^ 2 * (t ^ 2 + 1) \<le> r ^ 2 * t ^ 2 * (t ^ 2 + 1)" by (intro mult_right_mono) auto
    moreover have "(m * (1 - t)) ^ 2 = m ^ 2 * (t - 1) ^ 2 * (t ^ 2 + 1) - t ^ 2 * (m ^ 2 * (t - 1) ^ 2)"
      "t ^ 2 * (r ^ 2 * (t ^ 2 + 1) - m ^ 2 * (t - 1) ^ 2) =
         r ^ 2 * t ^ 2 * (t ^ 2 + 1) - t ^ 2 * (m ^ 2 * (t - 1) ^ 2)" by algebra+
    ultimately have "(m * (1 - t)) ^ 2 \<le> t ^ 2 * D" unfolding D by linarith
    then have "m * (1 - t) \<le> sqrt (t ^ 2 * D)" by (rule real_le_rsqrt)
    with assms(2) show ?thesis by (simp add: real_sqrt_mult)
  qed
  moreover have "(t ^ 2 + 1) * (x * t) = t * ((t ^ 2 + 1) * x)" by algebra
  moreover have "t * ((t ^ 2 + 1) * x) = t * (m * (t + 1)) + t * sqrt D" unfolding ax by (rule distrib_left)
  moreover have "t * (m * (t + 1)) + m * (1 - t) = (t ^ 2 + 1) * m" by algebra
  ultimately have "(t ^ 2 + 1) * m \<le> (t ^ 2 + 1) * (x * t)" by linarith
  then have "x * t \<ge> m" using pos by simp
  with circle xm show ?thesis by simp
qed

definition same_direction :: "real \<times> real \<Rightarrow> real \<times> real \<Rightarrow> bool" where
  "same_direction p q \<longleftrightarrow> fst p * snd q = snd p * fst q \<and> fst p * fst q \<ge> 0 \<and> snd p * snd q \<ge> 0"

lemma on_border_signs: "on_border h m (if b then x else - x, if c then y else - y) = on_border h m (x, y)"
  by (simp add: on_border_def Let_def)

lemma on_border_corner:
  "0 \<le> m \<Longrightarrow> m \<le> x \<Longrightarrow> m \<le> y \<Longrightarrow> (x - m) ^ 2 + (y - m) ^ 2 = r ^ 2 \<Longrightarrow> r = h - m \<Longrightarrow> on_border h m (x, y)"
  by (simp add: on_border_def Let_def)

lemma direction_signs:
  fixes vx vy x y :: real
  assumes "x \<ge> 0" "y \<ge> 0" "x * \<bar>vy\<bar> = y * \<bar>vx\<bar>"
  shows "same_direction (if vx \<ge> 0 then x else - x, if vy \<ge> 0 then y else - y) (vx, vy)"
  using assms by (auto simp: same_direction_def abs_if mult_nonneg_nonpos mult_nonneg_nonneg split: if_splits)

lemma corner_quadratic:
  fixes m r t :: real
  shows "(2 * m * (t + 1)) ^ 2 - 4 * (t ^ 2 + 1) * (2 * m ^ 2 - r ^ 2) =
    4 * (r ^ 2 * (t ^ 2 + 1) - m ^ 2 * (t - 1) ^ 2)"
  by algebra

lemma corner_conditions:
  fixes h r t :: real
  assumes "t > 0" "h * t > h - r" "h / t > h - r"
  shows "r * t \<ge> (h - r) * (1 - t) \<and> r \<ge> (h - r) * (t - 1)"
proof -
  have "(h - r) * t < h" using assms(1,3) by (simp add: pos_less_divide_eq)
  with assms(2) show ?thesis by (simp add: algebra_simps)
qed

text \<open>The corner's point as the code computes it.\<close>

lemma corner_formula:
  fixes m r t :: real
  shows "(- (- (2 * m * (t + 1))) + sqrt ((- (2 * m * (t + 1))) ^ 2 - 4 * (t ^ 2 + 1) * (2 * m ^ 2 - r ^ 2))) / (2 * (t ^ 2 + 1)) =
    (m * (t + 1) + sqrt (r ^ 2 * (t ^ 2 + 1) - m ^ 2 * (t - 1) ^ 2)) / (t ^ 2 + 1)"
proof -
  let ?D = "r ^ 2 * (t ^ 2 + 1) - m ^ 2 * (t - 1) ^ 2"
  have root: "sqrt (4 * ?D) = 2 * sqrt ?D" unfolding real_sqrt_mult by simp
  have "- (- (2 * m * (t + 1))) + sqrt (4 * ?D) = 2 * (m * (t + 1) + sqrt ?D)" unfolding root by algebra
  then show ?thesis
    unfolding power2_minus corner_quadratic by (simp only: mult_divide_mult_cancel_left_if) simp
qed

text \<open>What the code computes in exact arithmetic, case by case.\<close>

lemma clamp_cases:
  fixes th blockSize vx vy
  defines "h \<equiv> getRealBlockSize (\<lambda>x. x) th blockSize / 2" and "r \<equiv> theme_scale (\<lambda>x. x) (roundingRadius th) blockSize"
    and "t \<equiv> \<bar>vy\<bar> / \<bar>vx\<bar>"
  defines "m \<equiv> h - r"
  defines "sign \<equiv> \<lambda>x y. (if vx \<ge> 0 then x else - x, if vy \<ge> 0 then y else - y)"
  shows "vy = 0 \<Longrightarrow> clampVectorToBounds (\<lambda>x. x) th blockSize vx vy = (if vx \<ge> 0 then h else - h, 0)"
    and "vy \<noteq> 0 \<Longrightarrow> vx = 0 \<Longrightarrow> 0 \<le> m \<Longrightarrow> clampVectorToBounds (\<lambda>x. x) th blockSize vx vy = sign 0 h"
    and "vy \<noteq> 0 \<Longrightarrow> vx \<noteq> 0 \<Longrightarrow> h * t \<le> m \<Longrightarrow> clampVectorToBounds (\<lambda>x. x) th blockSize vx vy = sign h (h * t)"
    and "vy \<noteq> 0 \<Longrightarrow> vx \<noteq> 0 \<Longrightarrow> h * t > m \<Longrightarrow> h / t \<le> m \<Longrightarrow>
      clampVectorToBounds (\<lambda>x. x) th blockSize vx vy = sign (h / t) h"
    and "vy \<noteq> 0 \<Longrightarrow> vx \<noteq> 0 \<Longrightarrow> h * t > m \<Longrightarrow> h / t > m \<Longrightarrow>
      clampVectorToBounds (\<lambda>x. x) th blockSize vx vy =
        sign ((m * (t + 1) + sqrt (r ^ 2 * (t ^ 2 + 1) - m ^ 2 * (t - 1) ^ 2)) / (t ^ 2 + 1))
          ((m * (t + 1) + sqrt (r ^ 2 * (t ^ 2 + 1) - m ^ 2 * (t - 1) ^ 2)) / (t ^ 2 + 1) * t)"
proof -
  note shape = clampVectorToBounds_def [of "\<lambda>x. x" th blockSize vx vy, unfolded Let_def, folded h_def r_def t_def,
      folded m_def]
  note corner = corner_formula [of m t r]
  show "vy = 0 \<Longrightarrow> clampVectorToBounds (\<lambda>x. x) th blockSize vx vy = (if vx \<ge> 0 then h else - h, 0)"
    unfolding shape by simp
  show "vy \<noteq> 0 \<Longrightarrow> vx = 0 \<Longrightarrow> 0 \<le> m \<Longrightarrow> clampVectorToBounds (\<lambda>x. x) th blockSize vx vy = sign 0 h"
    unfolding shape sign_def by simp
  show "vy \<noteq> 0 \<Longrightarrow> vx \<noteq> 0 \<Longrightarrow> h * t \<le> m \<Longrightarrow> clampVectorToBounds (\<lambda>x. x) th blockSize vx vy = sign h (h * t)"
    unfolding shape sign_def by simp
  show "vy \<noteq> 0 \<Longrightarrow> vx \<noteq> 0 \<Longrightarrow> h * t > m \<Longrightarrow> h / t \<le> m \<Longrightarrow>
      clampVectorToBounds (\<lambda>x. x) th blockSize vx vy = sign (h / t) h"
    unfolding shape sign_def by simp
  show "vy \<noteq> 0 \<Longrightarrow> vx \<noteq> 0 \<Longrightarrow> h * t > m \<Longrightarrow> h / t > m \<Longrightarrow>
      clampVectorToBounds (\<lambda>x. x) th blockSize vx vy =
        sign ((m * (t + 1) + sqrt (r ^ 2 * (t ^ 2 + 1) - m ^ 2 * (t - 1) ^ 2)) / (t ^ 2 + 1))
          ((m * (t + 1) + sqrt (r ^ 2 * (t ^ 2 + 1) - m ^ 2 * (t - 1) ^ 2)) / (t ^ 2 + 1) * t)"
    unfolding shape sign_def corner [symmetric] by simp
qed

text \<open>
  C40: the point where an edge leaves a block is on the border of the rounded square the block is
  drawn as, in the direction of the edge, in exact arithmetic.
\<close>

theorem edge_leaves_on_border:
  assumes "0 \<le> blockSize" "0 \<le> roundingRadius th" "0 \<le> blueBorderWidth th" "scaleDefault th = 1"
    and "roundingRadius th \<le> referenceBlockSize / 2" "vectorX \<noteq> 0 \<or> vectorY \<noteq> 0"
    and p: "p = clampVectorToBounds (\<lambda>x. x) th blockSize vectorX vectorY"
  shows "on_border (getRealBlockSize (\<lambda>x. x) th blockSize / 2)
      (getRealBlockSize (\<lambda>x. x) th blockSize / 2 - theme_scale (\<lambda>x. x) (roundingRadius th) blockSize) p \<and>
    same_direction p (vectorX, vectorY)"
proof -
  let ?h = "getRealBlockSize (\<lambda>x. x) th blockSize / 2"
  let ?r = "theme_scale (\<lambda>x. x) (roundingRadius th) blockSize"
  let ?m = "?h - ?r"
  have "blockSize * (roundingRadius th * 352) \<le> blockSize * (blueBorderWidth th * 88 + 15488)"
    using assms(1-5) by (intro mult_left_mono) (simp_all add: referenceBlockSize_def)
  then have r: "0 \<le> ?r" "0 \<le> ?m"
    using assms(1-5) by (simp_all add: theme_scale_def getRealBlockSize_def referenceBlockSize_def field_simps)
  show ?thesis
  proof (cases "vectorY = 0")
    case True
    then have "p = (if vectorX \<ge> 0 then ?h else - ?h, 0)" by (simp add: p clampVectorToBounds_def Let_def)
    with True r show ?thesis by (auto simp: on_border_def same_direction_def Let_def mult_nonneg_nonpos)
  next
    case vy: False
    let ?sign = "\<lambda>x y. (if vectorX \<ge> 0 then x else - x, if vectorY \<ge> 0 then y else - y)"
    let ?t = "\<bar>vectorY\<bar> / \<bar>vectorX\<bar>"
    have goal: ?thesis if "p = ?sign x y" "on_border ?h ?m (x, y)" "x \<ge> 0" "y \<ge> 0" "x * \<bar>vectorY\<bar> = y * \<bar>vectorX\<bar>" for x y
      using that direction_signs [of x y vectorY vectorX] by (simp add: on_border_signs)
    consider "vectorX = 0" | "vectorX \<noteq> 0" "?h * ?t \<le> ?m" | "vectorX \<noteq> 0" "?h * ?t > ?m" "?h / ?t \<le> ?m"
      | "vectorX \<noteq> 0" "?h * ?t > ?m" "?h / ?t > ?m" by linarith
    then show ?thesis
    proof cases
      case 1
      show ?thesis
        by (rule goal [OF clamp_cases(2) [OF vy 1 r(2), folded p]]) (use r 1 in \<open>simp_all add: on_border_def Let_def\<close>)
    next
      case 2
      show ?thesis
        by (rule goal [OF clamp_cases(3) [OF vy 2, folded p]]) (use r 2 in \<open>simp_all add: on_border_def Let_def\<close>)
    next
      case 3
      show ?thesis
        by (rule goal [OF clamp_cases(4) [OF vy 3, folded p]]) (use r 3 vy in \<open>simp_all add: on_border_def Let_def\<close>)
    next
      case 4
      let ?x = "(?m * (?t + 1) + sqrt (?r ^ 2 * (?t ^ 2 + 1) - ?m ^ 2 * (?t - 1) ^ 2)) / (?t ^ 2 + 1)"
      have t: "?t > 0" using 4(1) vy by simp
      have "(?x - ?m) ^ 2 + (?x * ?t - ?m) ^ 2 = ?r ^ 2 \<and> ?x \<ge> ?m \<and> ?x * ?t \<ge> ?m"
        using r t corner_conditions [OF t 4(2,3)] by (intro corner_root [OF _ _ _ _ _ refl refl]) simp_all
      note root = this
      have "on_border ?h ?m (?x, ?x * ?t)"
        by (rule on_border_corner [OF r(2) conjunct1 [OF conjunct2 [OF root]] conjunct2 [OF conjunct2 [OF root]]
              conjunct1 [OF root]]) simp
      moreover have "?x \<ge> 0" by (rule order_trans [OF r(2) conjunct1 [OF conjunct2 [OF root]]])
      moreover have "?x * ?t \<ge> 0" by (rule order_trans [OF r(2) conjunct2 [OF conjunct2 [OF root]]])
      moreover have "y * ?t * \<bar>vectorX\<bar> = y * \<bar>vectorY\<bar>" for y using 4(1) by simp
      ultimately show ?thesis by (intro goal [OF clamp_cases(5) [OF vy 4, folded p]]) (assumption | rule sym)+
    qed
  qed
qed

theorem edge_leaves_on_border_witness:
  "on_border (90 / 2) (90 / 2 - 10) (90 / 2, 90 / 2 * (3 / 4))"
proof -
  let ?th = "\<lparr>roundingRadius = 10, blueBorderWidth = 4, scaleDefault = 1\<rparr>"
  have size: "getRealBlockSize (\<lambda>x. x) ?th 88 = 90" "theme_scale (\<lambda>x. x) 10 88 = 10"
    by (simp_all add: getRealBlockSize_def theme_scale_def referenceBlockSize_def)
  have "clampVectorToBounds (\<lambda>x. x) ?th 88 200 150 = (90 / 2, 90 / 2 * (3 / 4))"
    by (simp add: clampVectorToBounds_def size Let_def)
  then show ?thesis
    using edge_leaves_on_border [where th = ?th and blockSize = 88 and vectorX = 200 and vectorY = 150, OF _ _ _ _ _ _ refl]
    by (simp add: size referenceBlockSize_def)
qed

section \<open>The looks of an edge\<close>

text \<open>Every look has graphics of its own.\<close>

lemma definition_keys_distinct: "distinct (map definition_key edge_definitions)"
proof -
  have digits: "digit_char 0 = CHR ''0''" "digit_char 1 = CHR ''1''" "digit_char 2 = CHR ''2''"
    "digit_char 3 = CHR ''3''" "digit_char 4 = CHR ''4''" "digit_char 5 = CHR ''5''" "digit_char 6 = CHR ''6''"
    "digit_char 7 = CHR ''7''" "digit_char 8 = CHR ''8''" "digit_char 9 = CHR ''9''" by code_simp+
  have "decimal 11184810 = ''11184810''" "decimal 8757953 = ''8757953''" "decimal 9013641 = ''9013641''"
    by (simp_all add: int_text_def nat_text.simps digits [simplified])
  moreover have "decimal 2 = ''2''" "decimal 5 = ''5''" "decimal 6 = ''6''" "decimal 7 = ''7''" "decimal 8 = ''8''"
    by (simp_all add: int_text_def nat_text.simps digits [simplified])
  ultimately show ?thesis by (simp add: edge_definitions_def definition_key_def bool_text_def Let_def)
qed

lemma every_look_listed: "d \<in> set edge_definitions"
  by (cases d) (simp_all add: edge_definitions_def)

text \<open>The tip of the arrow head, the radius and the line's width before its middle, is where the edge ends.\<close>

lemma arrow_reaches_end:
  assumes "edge_end v \<noteq> (0, 0)" "0 \<le> R" "edge_end v = (x, y)" "arrow_centre R v = (ax, ay)"
  shows "(x - ax) ^ 2 + (y - ay) ^ 2 = R ^ 2 \<and> ax * y = ay * x"
proof -
  let ?m = "sqrt (x ^ 2 + y ^ 2)"
  have pos: "x ^ 2 + y ^ 2 > 0" using assms(1,3) by (auto simp: sum_power2_gt_zero_iff)
  then have m: "?m ^ 2 = x ^ 2 + y ^ 2" by simp
  have a: "ax = x - x * R / ?m" "ay = y - y * R / ?m"
    using assms(3,4) by (simp_all add: arrow_centre_def Let_def)
  have "(x - ax) ^ 2 + (y - ay) ^ 2 = (x ^ 2 + y ^ 2) * R ^ 2 / ?m ^ 2"
    unfolding a by (simp only: power_divide power_mult_distrib diff_diff_eq2 diff_add_cancel add_diff_cancel_left')
      (simp add: power_divide power_mult_distrib add_divide_distrib distrib_right)
  also have "\<dots> = R ^ 2" unfolding m using pos by (intro nonzero_mult_div_cancel_left) linarith
  finally show ?thesis unfolding a by (simp add: algebra_simps)
qed

text \<open>A highlighted look is drawn wider than the look it is based on when it is drawn.\<close>

lemma highlight_wider:
  "isHighlight d \<Longrightarrow> \<not> isHighlight base \<Longrightarrow>
    drawn_lineWidth base base blockSize + 1 \<le> drawn_lineWidth base d blockSize"
  by (simp add: drawn_lineWidth_def minBorderIncrease_def Let_def)

text \<open>
  The looks are drawn when the vector is set, not when the base changes: an edge of small blocks
  that joins the chain afterwards is highlighted by less than that.
\<close>

lemma stale_highlight_width:
  "drawn_lineWidth normal highlightedParentInVirtualSelectedParentChain 22 <
    drawn_lineWidth inVirtualSelectedParentChain inVirtualSelectedParentChain 22 + 1"
  by (simp add: drawn_lineWidth_def scaled_def minBorderIncrease_def referenceBlockSize_def Let_def)

lemma redrawn_with_vector_only:
  "de_graphics (drawn_setFullState chain hp hc sp e) = de_graphics e"
  by (simp add: drawn_setFullState_def changeShownGraphics_def Let_def)

text \<open>One look of an edge is visible, the one its flags stand for.\<close>

definition one_look :: "DrawnEdge \<Rightarrow> bool" where
  "one_look e \<longleftrightarrow> shownDefinition (de_sprite e) = edge_definition (de_sprite e) \<and>
     de_alpha e = (\<lambda>d. if d = shownDefinition (de_sprite e) then 1 else 0)"

datatype EdgeEvent = State bool bool bool bool | Vector EdgeVector

fun edge_event :: "EdgeEvent \<Rightarrow> DrawnEdge \<Rightarrow> DrawnEdge" where
  "edge_event (State chain hp hc sp) e = drawn_setFullState chain hp hc sp e"
| "edge_event (Vector v) e = setVector v e"

lemma resolved_look: "shownDefinition (resolveShownGraphics s) = edge_definition (resolveShownGraphics s)"
  by (simp add: resolveShownGraphics_def edge_definition_def Let_def)

lemma edge_event_one_look: "one_look e \<Longrightarrow> one_look (edge_event ev e)"
  by (cases ev)
    (auto simp: one_look_def drawn_setFullState_def changeShownGraphics_def setFullState_def setVector_def
      resolved_look Let_def)

lemma edges_show_one_look: "one_look (fold edge_event evs (new_drawn_edge f t))"
proof -
  have "one_look (new_drawn_edge f t)"
    by (auto simp: one_look_def new_drawn_edge_def new_edge_sprite_def edge_definition_def)
  then show ?thesis
    by (induction evs arbitrary: f t rule: rev_induct) (simp_all add: edge_event_one_look)
qed

section \<open>The hash of a block\<close>

lemma concat_pieces: "concat (map (\<lambda>i. take n (drop (i * n) str)) [0 ..< k]) = take (k * n) str"
proof (induction k)
  case (Suc k)
  have "take (k * n + n) str = take (k * n) str @ take n (drop (k * n) str)" by (rule take_add)
  with Suc show ?case by (simp add: add.commute)
qed simp

lemma concat_chunkSubstr:
  assumes "n > 0"
  shows "concat (chunkSubstr str n) = str"
proof -
  have "real (length str) / real n \<le> real_of_int \<lceil>real (length str) / real n\<rceil>" by (rule le_of_int_ceiling)
  also have "\<dots> = real (nat \<lceil>real (length str) / real n\<rceil>)" using assms by simp
  finally have "real (length str) \<le> real (nat \<lceil>real (length str) / real n\<rceil>) * real n"
    using assms by (simp only: pos_divide_le_eq of_nat_0_less_iff)
  then have "real (length str) \<le> real (nat \<lceil>real (length str) / real n\<rceil> * n)" by (simp only: of_nat_mult)
  then have "length str \<le> nat \<lceil>real (length str) / real n\<rceil> * n" using of_nat_le_iff by blast
  then show ?thesis by (simp add: chunkSubstr_def concat_pieces)
qed

lemma text_lines_bounds: "1 \<le> text_lines fl nominal \<and> text_lines fl nominal \<le> 3"
  by (simp add: text_lines_def maxTextLines_def)

text \<open>The text of a block is the end of its hash, in as many lines as the size allows, all full.\<close>

lemma hash_lines_show_end:
  assumes "1 \<le> k" "2 * k * k \<le> length hash"
  shows "concat (hash_lines k hash) = to_upper (drop (length hash - 2 * k * k) hash)"
    and "length (hash_lines k hash) = k" and "line \<in> set (hash_lines k hash) \<Longrightarrow> length line = 2 * k"
proof -
  let ?t = "to_upper (drop (length hash - 2 * k * k) hash)"
  have lines: "hash_lines k hash = chunkSubstr ?t (k * 2)"
    by (simp add: hash_lines_def Let_def mult.commute mult.left_commute)
  have len: "length ?t = k * (k * 2)" using assms(2) by (simp add: to_upper_def)
  show "concat (hash_lines k hash) = ?t"
    using assms(1) by (simp only: lines) (rule concat_chunkSubstr, simp)
  have "real (k * (k * 2)) / real (k * 2) = real k" using assms(1) by simp
  then have n: "nat \<lceil>real (length ?t) / real (k * 2)\<rceil> = k" unfolding len by simp
  show "length (hash_lines k hash) = k" unfolding lines chunkSubstr_def by (simp only: n length_map length_upt)
  assume "line \<in> set (hash_lines k hash)"
  then obtain i where i: "i < k" "line = take (k * 2) (drop (i * (k * 2)) ?t)"
    unfolding lines chunkSubstr_def n by auto
  have "(i + 1) * (k * 2) \<le> k * (k * 2)" using i(1) by (intro mult_right_mono) auto
  with i(2) len show "length line = 2 * k" by simp
qed

section \<open>The frame of a block\<close>

text \<open>
  A block that is highlighted, drawn in a new size and then gets the focus shows two frames: the
  change of size draws a frame without taking it as the current one, so nothing fades it.
\<close>

definition refocused :: "Block \<Rightarrow> FramedBlock" where
  "refocused b =
     tweens_done (block_setHighlighted True True BLUE (tweens_done (block_setSize 80
       (tweens_done (block_setHighlighted True False BLUE (block_setSize 40 (new_framed_block b)))))))"

lemma two_frames_visible: "length (visible_frames (refocused b)) = 2"
  by (simp add: refocused_def tweens_done_def block_setHighlighted_def block_setSize_def new_framed_block_def
      new_block_sprite_def setHighlighted_def visible_frames_def frame_layout_def Let_def numeral_eq_Suc)

text \<open>Without a change of size between, the one frame that is seen is the current one.\<close>

lemma one_frame_visible:
  "visible_frames (tweens_done (block_setHighlighted True True BLUE
     (tweens_done (block_setHighlighted True False BLUE (block_setSize 40 (new_framed_block b)))))) =
   [\<lparr>frame_size = 40 + scaled 24 40, frame_width = scaled 10 40, frame_color = BLUE\<rparr>]"
  by (simp add: tweens_done_def block_setHighlighted_def block_setSize_def new_framed_block_def
      new_block_sprite_def setHighlighted_def visible_frames_def frame_layout_def buildHighlight_def Let_def)

section \<open>The heights that are written\<close>

text \<open>Two heights that are written with texts of one width are as far apart as their texts are wide.\<close>

lemma written_heights_apart:
  assumes "height_written (\<lambda>x. x) textWidth spriteWidth blockSize a" "height_written (\<lambda>x. x) textWidth spriteWidth blockSize b"
    and "blockHeight a < blockHeight b" "spriteWidth > 0" "blockHeight a \<ge> 0"
  shows "textWidth + 5 / 4 * blockSize \<le> of_int (blockHeight b - blockHeight a) * spriteWidth"
proof -
  let ?q = "textWidth / spriteWidth + 5 / 4 * blockSize / spriteWidth"
  let ?s = "textSpriteSpread (\<lambda>x. x) textWidth spriteWidth blockSize"
  have q: "?q \<le> of_int ?s" by (simp add: textSpriteSpread_def)
  have "?s \<le> blockHeight b - blockHeight a"
  proof (cases "?s > 1")
    case False
    with assms(3) show ?thesis by linarith
  next
    case True
    then have rem: "js_rem x ?s = x mod ?s" if "x \<ge> 0" for x
      using that by (cases "x = 0") (simp_all add: js_rem_def)
    have "js_rem (blockHeight a) ?s = 0" "js_rem (blockHeight b) ?s = 0"
      using assms(1,2) True by (simp_all add: height_written_def Let_def)
    then have "blockHeight a mod ?s = 0" "blockHeight b mod ?s = 0"
      using rem assms(3,5) by simp_all
    then have "?s dvd blockHeight b - blockHeight a" by (simp add: dvd_eq_mod_eq_0 [symmetric])
    with assms(3) show ?thesis by (intro zdvd_imp_le) simp_all
  qed
  with q have "?q \<le> of_int (blockHeight b - blockHeight a)" by linarith
  with assms(4) have "?q * spriteWidth \<le> of_int (blockHeight b - blockHeight a) * spriteWidth"
    by (intro mult_right_mono) simp_all
  moreover have "?q * spriteWidth = textWidth + 5 / 4 * blockSize"
    using assms(4) by (simp add: distrib_right)
  ultimately show ?thesis by simp
qed

lemma height_text_bounds:
  "12 \<le> height_fontSize fl blockSize \<and> height_fontSize fl blockSize \<le> 15 \<and>
   10 \<le> height_bottomMargin fl blockSize \<and> height_bottomMargin fl blockSize \<le> 40"
  by (auto simp: height_fontSize_def height_bottomMargin_def clamped_def le_floor_iff floor_le_iff)

end
