(* ===== verification/WebVoting.thy ===== *)
theory WebVoting
  imports WebProposalPage WebLists WebNotification
begin

text \<open>
  Voting and acting on a proposal's page (packages/web/src/app/proposal/[id]: page.tsx,
  action-group.tsx, voting.tsx, cancel-proposal.tsx, dropdown.tsx, proposal/comments.tsx;
  components/transaction-toast.tsx, components/ui/button.tsx): which rows the page reads and when, the
  buttons and dialogs that make the governor's calls, the toast that follows a transaction until its
  receipt, and the list of votes. The wallet, the chain's receipts and the library that shows toasts
  act by events of their own.
\<close>

section \<open>A button\<close>

text \<open>
  The properties given to a button are spread after its own \<open>disabled\<close>: one that is given
  replaces what the loading state asks for.
\<close>

definition button_enabled :: "bool \<Rightarrow> bool option \<Rightarrow> bool" where
  "button_enabled isLoading disabled \<longleftrightarrow> \<not> (case disabled of None \<Rightarrow> isLoading | Some d \<Rightarrow> d)"

section \<open>What the page reads\<close>

definition proposalDisplayId :: "string option \<Rightarrow> string" where
  "proposalDisplayId rawId =
     (case setting rawId of
        None \<Rightarrow> ''Proposal''
      | Some t \<Rightarrow> if length t \<le> 12 then t else take 6 t @ ''...'' @ drop (length t - 6) t)"

definition validId :: "string option \<Rightarrow> int option" where
  "validId rawId =
     (case setting rawId of
        None \<Rightarrow> None | Some t \<Rightarrow> (case BigInt_text t of Inr n \<Rightarrow> Some n | Inl _ \<Rightarrow> None))"

text \<open>An id of zero counts as none.\<close>

definition has_id :: "string option \<Rightarrow> bool" where
  "has_id rawId \<longleftrightarrow> validId rawId \<noteq> None \<and> validId rawId \<noteq> Some 0"

definition reads_state :: "string option \<Rightarrow> DaoContracts \<Rightarrow> bool" where
  "reads_state rawId dao \<longleftrightarrow>
     has_id rawId \<and> setting (dc_governor dao) \<noteq> None \<and> dc_chainId dao \<noteq> None \<and> dc_chainId dao \<noteq> Some 0"

definition reads_proposal :: "string option \<Rightarrow> string option \<Rightarrow> bool" where
  "reads_proposal rawId endpoint \<longleftrightarrow> has_id rawId \<and> setting endpoint \<noteq> None"

definition isActive :: "ProposalState option \<Rightarrow> bool" where
  "isActive status \<longleftrightarrow> (case status of None \<Rightarrow> False | Some s \<Rightarrow> List.member ACTIVE_STATES s)"

definition TEN_SECONDS :: nat where
  "TEN_SECONDS = 10000"

definition row_interval :: "ProposalState option \<Rightarrow> nat option" where
  "row_interval status = (if isActive status then Some TEN_SECONDS else None)"

text \<open>
  The rows are read once more when the state leaves the active ones: whether they are, and what the
  page remembers of its last rendering.
\<close>

definition left_active :: "ProposalState option \<Rightarrow> bool \<Rightarrow> bool \<times> bool" where
  "left_active status wasActive = (wasActive \<and> \<not> isActive status, isActive status)"

datatype PageView = NotFoundView | LoadingView | ProposalView

definition page_view :: "string option \<Rightarrow> bool \<Rightarrow> 'r list option \<Rightarrow> PageView" where
  "page_view rawId isPending allData =
     (if \<not> has_id rawId then NotFoundView
      else if isPending then LoadingView
      else case allData of None \<Rightarrow> NotFoundView | Some [] \<Rightarrow> NotFoundView | Some (r # rs) \<Rightarrow> ProposalView)"

section \<open>Transactions and their toasts\<close>

datatype TxKind = VoteTx | QueueTx | ExecuteTx | CancelTx

text \<open>A toast on the screen: its id, what it says, and what its closing calls.\<close>

record ShownToast =
  tk_id :: nat
  tk_status :: string
  tk_onClose :: "(TxKind \<times> bool) option"

datatype Receipt = AwaitedReceipt | ReceiptSuccess | ReceiptError

text \<open>
  The state of the buttons and dialogs: the requests the wallet has not answered, the hash of each
  kind, the toast its component knows (zero for none) and its receipt; the toasts on the screen, the
  messages of errors, the queries made invalid and how often the page's rows were read anew.
\<close>

record ActionGroup =
  ag_voting :: bool
  ag_support :: int
  ag_reason :: string
  ag_cancelOpen :: bool
  ag_requests :: "(TxKind \<times> ContractCall) list"
  ag_hash :: "TxKind \<Rightarrow> string option"
  ag_toastId :: "TxKind \<Rightarrow> nat"
  ag_receipt :: "TxKind \<Rightarrow> Receipt"
  ag_toasts :: "ShownToast list"
  ag_nextToast :: nat
  ag_messages :: "Toast list"
  ag_invalidated :: "string list list"
  ag_refetched :: nat

definition new_action_group :: ActionGroup where
  "new_action_group =
     \<lparr>ag_voting = False, ag_support = 1, ag_reason = [], ag_cancelOpen = False, ag_requests = [],
      ag_hash = (\<lambda>_. None), ag_toastId = (\<lambda>_. 0), ag_receipt = (\<lambda>_. AwaitedReceipt), ag_toasts = [],
      ag_nextToast = 1, ag_messages = [], ag_invalidated = [], ag_refetched = 0\<rparr>"

text \<open>A new toast, and the one the component knows when it is still on the screen.\<close>

definition add_toast :: "string \<Rightarrow> (TxKind \<times> bool) option \<Rightarrow> ActionGroup \<Rightarrow> ActionGroup" where
  "add_toast status onClose s =
     s \<lparr>ag_toasts := ag_toasts s @ [\<lparr>tk_id = ag_nextToast s, tk_status = status, tk_onClose = onClose\<rparr>],
       ag_nextToast := ag_nextToast s + 1\<rparr>"

definition toast_active :: "nat \<Rightarrow> ActionGroup \<Rightarrow> bool" where
  "toast_active i s \<longleftrightarrow> list_ex (\<lambda>t. tk_id t = i) (ag_toasts s)"

definition update_toast :: "nat \<Rightarrow> string \<Rightarrow> (TxKind \<times> bool) option \<Rightarrow> ActionGroup \<Rightarrow> ActionGroup" where
  "update_toast i status onClose s =
     s \<lparr>ag_toasts := map (\<lambda>t. if tk_id t = i then t \<lparr>tk_status := status, tk_onClose := onClose\<rparr> else t) (ag_toasts s)\<rparr>"

text \<open>The effect of \<open>TransactionToast\<close>, for what is known of the receipt.\<close>

definition finished_toast :: "TxKind \<Rightarrow> string \<Rightarrow> bool \<Rightarrow> ActionGroup \<Rightarrow> ActionGroup" where
  "finished_toast k status ok s =
     (let i = ag_toastId s k
      in if i = 0 then s
         else if toast_active i s then update_toast i status (Some (k, ok)) s
         else add_toast status (Some (k, ok)) s)"

definition transaction_toast :: "TxKind \<Rightarrow> ActionGroup \<Rightarrow> ActionGroup" where
  "transaction_toast k s =
     (case ag_receipt s k of
        AwaitedReceipt \<Rightarrow>
          if ag_toastId s k = 0
          then add_toast ''pending'' None (s \<lparr>ag_toastId := (ag_toastId s)(k := ag_nextToast s)\<rparr>) else s
      | ReceiptSuccess \<Rightarrow> finished_toast k ''success'' True s
      | ReceiptError \<Rightarrow> finished_toast k ''failed'' False s)"

text \<open>A hash that is set mounts the component, or gives it another hash; none unmounts it.\<close>

definition set_hash :: "TxKind \<Rightarrow> string \<Rightarrow> ActionGroup \<Rightarrow> ActionGroup" where
  "set_hash k h s =
     transaction_toast k (s \<lparr>ag_hash := (ag_hash s)(k := Some h), ag_receipt := (ag_receipt s)(k := AwaitedReceipt)\<rparr>)"

definition clear_hash :: "TxKind \<Rightarrow> ActionGroup \<Rightarrow> ActionGroup" where
  "clear_hash k s =
     s \<lparr>ag_hash := (ag_hash s)(k := None), ag_toastId := (ag_toastId s)(k := 0),
       ag_receipt := (ag_receipt s)(k := AwaitedReceipt),
       ag_toasts := filter (\<lambda>t. tk_id t \<noteq> ag_toastId s k) (ag_toasts s)\<rparr>"

section \<open>The calls\<close>

text \<open>What the group is given at a rendering, and what it read.\<close>

record GroupProps =
  gp_page :: PageData
  gp_isAllQueriesFetching :: bool
  gp_contracts :: DaoContracts
  gp_wallet :: Wallet
  gp_address :: "string option"
  gp_votedOnChain :: "bool option"
  gp_myVotes :: "int option"
  gp_currentTime :: int
  gp_endpoint :: "string option"
  gp_daoCode :: "string option"
  gp_descriptionHash :: "string \<Rightarrow> string"

definition invalidateAggregates :: "GroupProps \<Rightarrow> string list list" where
  "invalidateAggregates p =
     (case setting (gp_endpoint p) of
        None \<Rightarrow> [] | Some e \<Rightarrow> [[''dataMetrics'', e], [''proposals'', e]]) @
     (case setting (gp_daoCode p) of None \<Rightarrow> [] | Some c \<Rightarrow> [[''summaryProposalStates'', c]])"

definition vote_rate_key :: "GroupProps \<Rightarrow> string list list" where
  "vote_rate_key p =
     (case (setting (gp_endpoint p), setting (gp_address p)) of
        (Some e, Some a) \<Rightarrow> [[''proposalVoteRate'', a, e]] | _ \<Rightarrow> [])"

text \<open>A transaction that succeeded, once its toast is closed.\<close>

definition handle_success :: "GroupProps \<Rightarrow> TxKind \<Rightarrow> ActionGroup \<Rightarrow> ActionGroup" where
  "handle_success p k s =
     (let s1 = clear_hash k s
      in s1 \<lparr>ag_invalidated := ag_invalidated s1 @ invalidateAggregates p @
               (if k = VoteTx then vote_rate_key p else []),
            ag_refetched := ag_refetched s1 + 1\<rparr>)"

definition close_toast :: "GroupProps \<Rightarrow> nat \<Rightarrow> ActionGroup \<Rightarrow> ActionGroup" where
  "close_toast p i s =
     (case find (\<lambda>t. tk_id t = i) (ag_toasts s) of
        None \<Rightarrow> s
      | Some t \<Rightarrow>
          let s1 = s \<lparr>ag_toasts := filter (\<lambda>u. tk_id u \<noteq> i) (ag_toasts s)\<rparr>
          in (case tk_onClose t of
                None \<Rightarrow> s1
              | Some (k, True) \<Rightarrow> handle_success p k s1
              | Some (k, False) \<Rightarrow> clear_hash k s1))"

text \<open>The dialog of a vote is empty when it is closed.\<close>

definition setVoting :: "bool \<Rightarrow> ActionGroup \<Rightarrow> ActionGroup" where
  "setVoting open_it s =
     (if open_it then s \<lparr>ag_voting := True\<rparr> else s \<lparr>ag_voting := False, ag_support := 1, ag_reason := []\<rparr>)"

fun failure_text :: "TxKind \<Rightarrow> string" where
  "failure_text VoteTx = ''Failed to cast vote''"
| "failure_text QueueTx = ''Failed to queue proposal''"
| "failure_text ExecuteTx = ''Failed to execute proposal''"
| "failure_text CancelTx = ''Failed to cancel proposal''"

definition show_failure :: "TxKind \<Rightarrow> string option \<Rightarrow> ActionGroup \<Rightarrow> ActionGroup" where
  "show_failure k shortMessage s =
     s \<lparr>ag_messages := ag_messages s @ [ErrorToast (case shortMessage of None \<Rightarrow> failure_text k | Some m \<Rightarrow> m)]\<rparr>"

text \<open>What every handler does at its end.\<close>

fun settled :: "TxKind \<Rightarrow> ActionGroup \<Rightarrow> ActionGroup" where
  "settled VoteTx s = setVoting False s"
| "settled CancelTx s = s \<lparr>ag_cancelOpen := False\<rparr>"
| "settled QueueTx s = s"
| "settled ExecuteTx s = s"

definition make_request :: "TxKind \<Rightarrow> ContractCall option outcome \<Rightarrow> ActionGroup \<Rightarrow> ActionGroup" where
  "make_request k call s =
     (case call of
        Inl _ \<Rightarrow> settled k (show_failure k None s)
      | Inr None \<Rightarrow> settled k s
      | Inr (Some c) \<Rightarrow> s \<lparr>ag_requests := ag_requests s @ [(k, c)]\<rparr>)"

text \<open>The wallet's answer to the oldest request of a kind: a hash, or the short message of an error.\<close>

definition wallet_answer :: "TxKind \<Rightarrow> string option + string \<Rightarrow> ActionGroup \<Rightarrow> ActionGroup" where
  "wallet_answer k answer s =
     (case find (\<lambda>r. fst r = k) (ag_requests s) of
        None \<Rightarrow> s
      | Some r \<Rightarrow>
          let s1 = s \<lparr>ag_requests := remove1 r (ag_requests s)\<rparr>
          in settled k (case answer of
               Inl shortMessage \<Rightarrow> show_failure k shortMessage s1
             | Inr h \<Rightarrow> if h = [] then s1 else set_hash k h s1))"

definition isPending :: "TxKind \<Rightarrow> ActionGroup \<Rightarrow> bool" where
  "isPending k s \<longleftrightarrow> list_ex (\<lambda>r. fst r = k) (ag_requests s)"

definition under_way :: "TxKind \<Rightarrow> ActionGroup \<Rightarrow> bool" where
  "under_way k s \<longleftrightarrow> isPending k s \<or> setting (ag_hash s k) \<noteq> None"

definition group_loading :: "ActionGroup \<Rightarrow> bool" where
  "group_loading s \<longleftrightarrow> under_way VoteTx s \<or> under_way QueueTx s \<or> under_way ExecuteTx s"

text \<open>A call that names a proposal the page does not have fails when its description is hashed.\<close>

definition proposal_call ::
  "GroupProps \<Rightarrow> string \<Rightarrow> (ProposalItem \<Rightarrow> ContractCall option outcome) \<Rightarrow> ContractCall option outcome" where
  "proposal_call p function call =
     (case pg_item (gp_page p) of
        Some item \<Rightarrow> call item
      | None \<Rightarrow>
          and_then (governor_call (gp_contracts p) (gp_wallet p) function (ProposalArgs [] [] [] []))
            (\<lambda>c. case c of None \<Rightarrow> Inr None | Some _ \<Rightarrow> Inl (ThrownError ''TypeError'')))"

definition queue_call :: "GroupProps \<Rightarrow> ContractCall option outcome" where
  "queue_call p =
     proposal_call p ''queue'' (queueProposal (gp_descriptionHash p) (gp_contracts p) (gp_wallet p))"

definition execute_call :: "GroupProps \<Rightarrow> ContractCall option outcome" where
  "execute_call p =
     proposal_call p ''execute'' (executeProposal (gp_descriptionHash p) (gp_contracts p) (gp_wallet p))"

definition cancel_call :: "GroupProps \<Rightarrow> ContractCall option outcome" where
  "cancel_call p =
     proposal_call p ''cancel'' (cancelProposal (gp_descriptionHash p) (gp_contracts p) (gp_wallet p))"

datatype GroupAction = VoteAction | QueueAction | ExecuteAction

fun handleAction :: "GroupProps \<Rightarrow> GroupAction \<Rightarrow> ActionGroup \<Rightarrow> ActionGroup" where
  "handleAction p a s =
     (if fst (validateBeforeExecution (gp_contracts p) (gp_wallet p)) then
        (case a of
           VoteAction \<Rightarrow> setVoting True s
         | QueueAction \<Rightarrow> make_request QueueTx (queue_call p) s
         | ExecuteAction \<Rightarrow> make_request ExecuteTx (execute_call p) s)
      else s)"

text \<open>The button that is offered, and whether it can be pressed.\<close>

definition group_button :: "GroupProps \<Rightarrow> ActionGroup \<Rightarrow> (GroupAction \<times> bool) option" where
  "group_button p s =
     (let d = gp_page p
      in if gp_isAllQueriesFetching p then None
         else case canExecute (gp_currentTime p) d of
           Inl _ \<Rightarrow> None
         | Inr executable \<Rightarrow>
             (case offered (pg_status d) (hasTimelock d) executable (votedSupport (gp_votedOnChain p) (gp_address p) d) of
                VoteButton \<Rightarrow> Some (VoteAction, button_enabled (group_loading s) None)
              | QueueButton \<Rightarrow> Some (QueueAction, button_enabled (group_loading s) None)
              | ExecuteButton e \<Rightarrow> Some (ExecuteAction, button_enabled (group_loading s) (Some (\<not> e)))
              | _ \<Rightarrow> None))"

definition showCancel :: "GroupProps \<Rightarrow> bool" where
  "showCancel p \<longleftrightarrow> pg_status (gp_page p) = Some Pending \<and> wa_isConnected (gp_wallet p)"

text \<open>The button of the dialog of a vote: its voting power decides, not the request under way.\<close>

definition voted_id :: "GroupProps \<Rightarrow> string option" where
  "voted_id p = setting (map_option pi_proposalId (pg_item (gp_page p)))"

definition submit_enabled :: "GroupProps \<Rightarrow> ActionGroup \<Rightarrow> bool" where
  "submit_enabled p s =
     button_enabled (isPending VoteTx s)
       (Some (voted_id p = None \<or> gp_myVotes p = None \<or> gp_myVotes p = Some 0))"

definition handleCastVote :: "GroupProps \<Rightarrow> ActionGroup \<Rightarrow> ActionGroup" where
  "handleCastVote p s =
     (case voted_id p of
        None \<Rightarrow> s
      | Some pid \<Rightarrow>
          make_request VoteTx (castVote (gp_contracts p) (gp_wallet p) pid (ag_support s) (ag_reason s)) s)"

section \<open>The events of the page\<close>

text \<open>A dialog that is open covers the page.\<close>

datatype GroupEvent =
    PressButton
  | ChooseSupport int
  | TypeReason string
  | SubmitVote
  | CloseVoting
  | ShowCancel
  | ConfirmCancel
  | CloseCancel
  | WalletAnswers TxKind "string option + string"
  | ReceiptArrives TxKind bool
  | ToastCloses nat

fun group_step :: "GroupProps \<times> GroupEvent \<Rightarrow> ActionGroup \<Rightarrow> ActionGroup" where
  "group_step (p, PressButton) s =
     (if ag_voting s \<or> ag_cancelOpen s then s
      else case group_button p s of Some (a, True) \<Rightarrow> handleAction p a s | _ \<Rightarrow> s)"
| "group_step (p, ChooseSupport n) s = (if ag_voting s then s \<lparr>ag_support := n\<rparr> else s)"
| "group_step (p, TypeReason t) s = (if ag_voting s then s \<lparr>ag_reason := t\<rparr> else s)"
| "group_step (p, SubmitVote) s = (if ag_voting s \<and> submit_enabled p s then handleCastVote p s else s)"
| "group_step (p, CloseVoting) s = setVoting False s"
| "group_step (p, ShowCancel) s =
     (if showCancel p \<and> \<not> ag_voting s then s \<lparr>ag_cancelOpen := True\<rparr> else s)"
| "group_step (p, ConfirmCancel) s =
     (if ag_cancelOpen s \<and> button_enabled (isPending CancelTx s) None
      then make_request CancelTx (cancel_call p) s else s)"
| "group_step (p, CloseCancel) s = s \<lparr>ag_cancelOpen := False\<rparr>"
| "group_step (p, WalletAnswers k answer) s = wallet_answer k answer s"
| "group_step (p, ReceiptArrives k ok) s =
     (if setting (ag_hash s k) \<noteq> None \<and> ag_receipt s k = AwaitedReceipt
      then transaction_toast k (s \<lparr>ag_receipt := (ag_receipt s)(k := if ok then ReceiptSuccess else ReceiptError)\<rparr>)
      else s)"
| "group_step (p, ToastCloses i) s = close_toast p i s"

definition group_run :: "(GroupProps \<times> GroupEvent) list \<Rightarrow> ActionGroup \<Rightarrow> ActionGroup" where
  "group_run es s = fold group_step es s"

section \<open>The two groups of the page\<close>

text \<open>
  The page mounts its summary, and with it an action group, twice: one for wide windows and one for
  narrow ones, of which the window's width shows one; each has a state of its own. The buttons are
  pressed in the group that is shown, and a dialog of either group covers both; dialogs, answers,
  receipts and toasts reach the group they belong to, shown or not.
\<close>

datatype GroupSide = WideSide | NarrowSide

record PageGroups =
  gs_shown :: GroupSide
  gs_wide :: ActionGroup
  gs_narrow :: ActionGroup

definition new_page_groups :: "GroupSide \<Rightarrow> PageGroups" where
  "new_page_groups shown_side =
     \<lparr>gs_shown = shown_side, gs_wide = new_action_group, gs_narrow = new_action_group\<rparr>"

datatype GroupsEvent = Resized GroupSide | InGroup GroupSide GroupEvent

definition on_the_page :: "GroupEvent \<Rightarrow> bool" where
  "on_the_page e \<longleftrightarrow> e = PressButton \<or> e = ShowCancel"

definition dialog_open :: "PageGroups \<Rightarrow> bool" where
  "dialog_open s \<longleftrightarrow> ag_voting (gs_wide s) \<or> ag_cancelOpen (gs_wide s) \<or>
     ag_voting (gs_narrow s) \<or> ag_cancelOpen (gs_narrow s)"

fun page_groups_step :: "GroupProps \<times> GroupsEvent \<Rightarrow> PageGroups \<Rightarrow> PageGroups" where
  "page_groups_step (p, Resized g) s = s \<lparr>gs_shown := g\<rparr>"
| "page_groups_step (p, InGroup g e) s =
     (if on_the_page e \<and> (g \<noteq> gs_shown s \<or> dialog_open s) then s
      else case g of
        WideSide \<Rightarrow> s \<lparr>gs_wide := group_step (p, e) (gs_wide s)\<rparr>
      | NarrowSide \<Rightarrow> s \<lparr>gs_narrow := group_step (p, e) (gs_narrow s)\<rparr>)"

definition page_groups_run :: "(GroupProps \<times> GroupsEvent) list \<Rightarrow> PageGroups \<Rightarrow> PageGroups" where
  "page_groups_run es s = fold page_groups_step es s"

fun resizes :: "GroupProps \<times> GroupsEvent \<Rightarrow> bool" where
  "resizes (p, Resized g) = True"
| "resizes (p, InGroup g e) = False"

section \<open>The list of votes\<close>

definition PAGE_SIZE :: nat where
  "PAGE_SIZE = 20"

text \<open>The choices that are shown, the order, and how many rows.\<close>

record VoteList =
  vl_filters :: "int \<Rightarrow> bool"
  vl_order :: VoteSortState
  vl_visible :: nat

definition new_vote_list :: VoteList where
  "new_vote_list =
     \<lparr>vl_filters = (\<lambda>c. c \<in> {0, 1, 2}), vl_order = DEFAULT_SORT_STATE, vl_visible = PAGE_SIZE\<rparr>"

definition filteredComments :: "VoteList \<Rightarrow> ProposalVoterItem list \<Rightarrow> ProposalVoterItem list" where
  "filteredComments l comments = filter (\<lambda>c. vl_filters l (vi_support c)) comments"

definition listed_votes :: "(real \<Rightarrow> real) \<Rightarrow> VoteList \<Rightarrow> ProposalVoterItem list \<Rightarrow> ProposalVoterItem list" where
  "listed_votes fl l comments = sortedComments fl (vl_order l) (filteredComments l comments)"

definition visibleComments :: "(real \<Rightarrow> real) \<Rightarrow> VoteList \<Rightarrow> ProposalVoterItem list \<Rightarrow> ProposalVoterItem list" where
  "visibleComments fl l comments =
     (let listed = listed_votes fl l comments
      in if length listed \<le> PAGE_SIZE then listed else take (vl_visible l) listed)"

definition loadMoreComments :: "(real \<Rightarrow> real) \<Rightarrow> ProposalVoterItem list \<Rightarrow> VoteList \<Rightarrow> VoteList" where
  "loadMoreComments fl comments l =
     (let n = length (listed_votes fl l comments)
      in if vl_visible l < n then l \<lparr>vl_visible := min (vl_visible l + PAGE_SIZE) n\<rparr> else l)"

definition toggleVoteFilter :: "int \<Rightarrow> VoteList \<Rightarrow> VoteList" where
  "toggleVoteFilter c l =
     l \<lparr>vl_filters := (vl_filters l)(c := \<not> vl_filters l c), vl_visible := PAGE_SIZE\<rparr>"

definition reorder :: "VoteSortField \<Rightarrow> VoteSortDirection option \<Rightarrow> VoteList \<Rightarrow> VoteList" where
  "reorder field direction l = l \<lparr>vl_order := applySortState field direction\<rparr>"

text \<open>The click on the head of a column: the next direction, from the one it shows.\<close>

definition next_direction :: "VoteSortDirection option \<Rightarrow> VoteSortDirection option" where
  "next_direction sortState =
     (case sortState of None \<Rightarrow> Some Desc | Some Desc \<Rightarrow> Some Asc | Some Asc \<Rightarrow> None)"

definition shown_direction :: "VoteSortField \<Rightarrow> VoteList \<Rightarrow> VoteSortDirection option" where
  "shown_direction field l = (if so_field (vl_order l) = field then Some (so_direction (vl_order l)) else None)"

definition click_column :: "VoteSortField \<Rightarrow> VoteList \<Rightarrow> VoteList" where
  "click_column field l = reorder field (next_direction (shown_direction field l)) l"

datatype VoteCaption = LoadMore nat | ShowingAll nat | NoCaption

definition vote_caption :: "(real \<Rightarrow> real) \<Rightarrow> VoteList \<Rightarrow> ProposalVoterItem list \<Rightarrow> VoteCaption" where
  "vote_caption fl l comments =
     (let n = length (listed_votes fl l comments)
      in if vl_visible l < n then LoadMore (n - vl_visible l)
         else if PAGE_SIZE < n then ShowingAll n else NoCaption)"

text \<open>The weight of a vote, and its share of all votes in hundredths of a per cent.\<close>

definition vote_weight :: "ProposalVoterItem \<Rightarrow> int outcome" where
  "vote_weight v = (case setting (vi_weight v) of None \<Rightarrow> Inr 0 | Some t \<Rightarrow> BigInt_text t)"

definition totalVotingPower :: "ProposalVoterItem list \<Rightarrow> int outcome" where
  "totalVotingPower comments =
     fold_outcome (\<lambda>v sum. and_then (vote_weight v) (\<lambda>w. Inr (sum + w))) comments 0"

definition percentage_hundredths :: "int \<Rightarrow> int \<Rightarrow> int" where
  "percentage_hundredths all weight = (if all > 0 \<and> weight > 0 then weight * 10000 div all else 0)"

text \<open>The two decimals of the hundredths: what \<open>toFixed\<close> gives for the double next to them.\<close>

definition percentage_text :: "int \<Rightarrow> int \<Rightarrow> string" where
  "percentage_text all weight =
     (if all > 0 \<and> weight > 0 then
        (let n = percentage_hundredths all weight
         in decimal (n div 100) @ ''.'' @ decimal (n mod 100 div 10) @ decimal (n mod 10) @ ''%'')
      else ''0%'')"

end
