(* ===== verification/WebVotingClaims.thy ===== *)
theory WebVotingClaims
  imports WebVoting WebListsClaims
begin

text \<open>
  What the buttons and the list of a proposal's page promise: each of its two groups of buttons has
  one transaction at a time that queues the proposal, but a button with a condition of its own can be pressed again while its request is under way;
  every receipt reaches the page once its toast is closed; the list shows the votes in portions of
  twenty, and their shares add up to a hundred per cent but for what is cut off.
\<close>

section \<open>What the parts of a step change\<close>

lemma toast_frame [simp]:
  "ag_requests (transaction_toast k s) = ag_requests s" "ag_hash (transaction_toast k s) = ag_hash s"
  "ag_voting (transaction_toast k s) = ag_voting s" "ag_refetched (transaction_toast k s) = ag_refetched s"
  by (simp_all add: transaction_toast_def finished_toast_def add_toast_def update_toast_def Let_def
      split: Receipt.split)

lemma set_hash_frame [simp]:
  "ag_requests (set_hash k h s) = ag_requests s" "ag_hash (set_hash k h s) = (ag_hash s)(k := Some h)"
  by (simp_all add: set_hash_def)

lemma clear_hash_frame [simp]:
  "ag_requests (clear_hash k s) = ag_requests s" "ag_hash (clear_hash k s) = (ag_hash s)(k := None)"
  "ag_refetched (clear_hash k s) = ag_refetched s"
  by (simp_all add: clear_hash_def)

lemma settled_frame [simp]:
  "ag_requests (settled k s) = ag_requests s" "ag_hash (settled k s) = ag_hash s"
  "ag_toastId (settled k s) = ag_toastId s" "ag_toasts (settled k s) = ag_toasts s"
  "ag_nextToast (settled k s) = ag_nextToast s" "ag_receipt (settled k s) = ag_receipt s"
  by (cases k; simp add: setVoting_def)+

lemma failure_frame [simp]:
  "ag_requests (show_failure k m s) = ag_requests s" "ag_hash (show_failure k m s) = ag_hash s"
  "ag_toastId (show_failure k m s) = ag_toastId s" "ag_toasts (show_failure k m s) = ag_toasts s"
  "ag_nextToast (show_failure k m s) = ag_nextToast s"
  by (simp_all add: show_failure_def)

lemma setVoting_frame [simp]:
  "ag_requests (setVoting b s) = ag_requests s" "ag_hash (setVoting b s) = ag_hash s"
  "ag_toastId (setVoting b s) = ag_toastId s" "ag_toasts (setVoting b s) = ag_toasts s"
  "ag_nextToast (setVoting b s) = ag_nextToast s"
  by (simp_all add: setVoting_def)

lemma make_request_frame [simp]:
  "ag_hash (make_request k c s) = ag_hash s" "ag_toastId (make_request k c s) = ag_toastId s"
  "ag_toasts (make_request k c s) = ag_toasts s" "ag_nextToast (make_request k c s) = ag_nextToast s"
  by (simp_all add: make_request_def split: sum.split option.split)

lemma success_frame [simp]:
  "ag_requests (handle_success p k s) = ag_requests s" "ag_hash (handle_success p k s) = (ag_hash s)(k := None)"
  "ag_refetched (handle_success p k s) = ag_refetched s + 1"
  by (simp_all add: handle_success_def Let_def)

section \<open>Requests under way\<close>

definition requests_of :: "TxKind \<Rightarrow> ActionGroup \<Rightarrow> nat" where
  "requests_of k s = length (filter (\<lambda>r. fst r = k) (ag_requests s))"

definition transactions_of :: "TxKind \<Rightarrow> ActionGroup \<Rightarrow> nat" where
  "transactions_of k s = requests_of k s + (if setting (ag_hash s k) = None then 0 else 1)"

lemma not_under_way: "\<not> under_way k s \<Longrightarrow> transactions_of k s = 0"
  by (auto simp: under_way_def transactions_of_def requests_of_def isPending_def list_ex_iff filter_empty_conv)

lemma not_pending: "\<not> isPending k s \<Longrightarrow> requests_of k s = 0"
  by (auto simp: requests_of_def isPending_def list_ex_iff filter_empty_conv)

lemma request_counts:
  "requests_of k (make_request k' c s) \<le> requests_of k s + (if k = k' then 1 else 0)"
  by (auto simp: make_request_def requests_of_def split: sum.split option.split)

lemma length_filter_remove1:
  "x \<in> set xs \<Longrightarrow> length (filter P (remove1 x xs)) + (if P x then 1 else 0) = length (filter P xs)"
  by (induction xs) auto

lemma answer_counts:
  "requests_of k (wallet_answer k' a s) \<le> requests_of k s"
  "transactions_of k (wallet_answer k' a s) \<le> transactions_of k s"
proof -
  have "requests_of k (wallet_answer k' a s) \<le> requests_of k s \<and>
      transactions_of k (wallet_answer k' a s) \<le> transactions_of k s"
  proof (cases "find (\<lambda>r. fst r = k') (ag_requests s)")
    case None
    then show ?thesis by (simp add: wallet_answer_def)
  next
    case (Some r)
    then have r: "r \<in> set (ag_requests s)" "fst r = k'" by (auto simp: find_Some_iff)
    have count: "length (filter (\<lambda>x. fst x = k) (remove1 r (ag_requests s))) + (if k = k' then 1 else 0) =
        requests_of k s"
      using length_filter_remove1 [OF r(1), of "\<lambda>x. fst x = k"] r(2) by (auto simp: requests_of_def)
    then show ?thesis
      using Some by (auto simp: wallet_answer_def requests_of_def transactions_of_def Let_def setting_def
          split: sum.split)
  qed
  then show "requests_of k (wallet_answer k' a s) \<le> requests_of k s"
    "transactions_of k (wallet_answer k' a s) \<le> transactions_of k s" by simp_all
qed

text \<open>One transaction that queues, and one request that cancels.\<close>

definition one_at_a_time :: "ActionGroup \<Rightarrow> bool" where
  "one_at_a_time s \<longleftrightarrow> transactions_of QueueTx s \<le> 1 \<and> requests_of CancelTx s \<le> 1"

lemma one_at_a_time_cong:
  "ag_requests s' = ag_requests s \<Longrightarrow> (setting (ag_hash s' QueueTx) \<noteq> None \<Longrightarrow> setting (ag_hash s QueueTx) \<noteq> None)
    \<Longrightarrow> one_at_a_time s \<Longrightarrow> one_at_a_time s'"
  by (auto simp: one_at_a_time_def transactions_of_def requests_of_def)

lemma other_request:
  "k \<noteq> QueueTx \<Longrightarrow> k \<noteq> CancelTx \<Longrightarrow> one_at_a_time s \<Longrightarrow> one_at_a_time (make_request k c s)"
  using request_counts [of QueueTx k c s] request_counts [of CancelTx k c s]
  by (auto simp: one_at_a_time_def transactions_of_def)

lemma one_at_a_time_queue:
  "\<not> group_loading s \<Longrightarrow> one_at_a_time s \<Longrightarrow> one_at_a_time (make_request QueueTx c s)"
  using request_counts [of QueueTx QueueTx c s] request_counts [of CancelTx QueueTx c s] not_under_way [of QueueTx s]
  by (auto simp: one_at_a_time_def transactions_of_def group_loading_def split: if_splits)

lemma one_at_a_time_cancel:
  "\<not> isPending CancelTx s \<Longrightarrow> one_at_a_time s \<Longrightarrow> one_at_a_time (make_request CancelTx c s)"
  using request_counts [of QueueTx CancelTx c s] request_counts [of CancelTx CancelTx c s] not_pending [of CancelTx s]
  by (auto simp: one_at_a_time_def transactions_of_def)

lemma queue_button: "group_button p s = Some (QueueAction, True) \<Longrightarrow> \<not> group_loading s"
  by (auto simp: group_button_def button_enabled_def Let_def split: if_splits sum.splits Offered.splits)

lemma close_toast_frame:
  "ag_requests (close_toast p i s) = ag_requests s"
  "setting (ag_hash (close_toast p i s) k) \<noteq> None \<Longrightarrow> setting (ag_hash s k) \<noteq> None"
  by (auto simp: close_toast_def Let_def setting_def split: option.splits prod.splits bool.splits if_splits)

lemma one_at_a_time_step: "one_at_a_time s \<Longrightarrow> one_at_a_time (group_step (p, e) s)"
proof (cases e)
  case PressButton
  assume s: "one_at_a_time s"
  have "one_at_a_time (handleAction p a s)" if "group_button p s = Some (a, True)" for a
    using s that queue_button [of p s] one_at_a_time_queue [OF _ s] other_request [OF _ _ s]
      one_at_a_time_cong [OF setVoting_frame(1), of True s] by (cases a) auto
  with s PressButton show ?thesis by (auto split: option.split bool.split)
next
  case SubmitVote
  assume s: "one_at_a_time s"
  with SubmitVote show ?thesis using other_request [OF _ _ s] by (auto simp: handleCastVote_def split: option.split)
next
  case ConfirmCancel
  assume s: "one_at_a_time s"
  with ConfirmCancel show ?thesis using one_at_a_time_cancel [OF _ s] by (auto simp: button_enabled_def)
next
  case (WalletAnswers k a)
  assume "one_at_a_time s"
  with WalletAnswers show ?thesis
    using answer_counts(2) [of QueueTx k a s] answer_counts(1) [of CancelTx k a s] by (auto simp: one_at_a_time_def)
next
  case (ToastCloses i)
  assume "one_at_a_time s"
  with ToastCloses show ?thesis using one_at_a_time_cong [OF close_toast_frame(1) close_toast_frame(2)] by simp
qed (auto elim!: one_at_a_time_cong [rotated 2] split: if_splits)

lemma one_at_a_time_run: "one_at_a_time s \<Longrightarrow> one_at_a_time (group_run es s)"
  unfolding group_run_def by (induction es arbitrary: s) (auto simp: one_at_a_time_step)

text \<open>A group in which nothing was started stays that way until its button is pressed.\<close>

definition untouched_group :: "ActionGroup \<Rightarrow> bool" where
  "untouched_group s \<longleftrightarrow> ag_requests s = [] \<and> ag_hash s = (\<lambda>_. None) \<and> ag_toasts s = [] \<and>
     \<not> ag_voting s \<and> \<not> ag_cancelOpen s"

lemma untouched_new: "untouched_group new_action_group"
  by (simp add: untouched_group_def new_action_group_def)

lemma untouched_step:
  assumes "untouched_group s" and "\<not> on_the_page e"
  shows "untouched_group (group_step (p, e) s)"
  using assms
  by (cases e) (auto simp: untouched_group_def on_the_page_def setVoting_def wallet_answer_def close_toast_def setting_def)

lemma untouched_group_counts: "untouched_group s \<Longrightarrow> transactions_of QueueTx s = 0 \<and> requests_of CancelTx s = 0"
  by (simp add: untouched_group_def transactions_of_def requests_of_def setting_def)

fun group_at :: "GroupSide \<Rightarrow> PageGroups \<Rightarrow> ActionGroup" where
  "group_at WideSide s = gs_wide s"
| "group_at NarrowSide s = gs_narrow s"

fun other_side :: "GroupSide \<Rightarrow> GroupSide" where
  "other_side WideSide = NarrowSide"
| "other_side NarrowSide = WideSide"

lemma page_groups_step_groups:
  "group_at g (page_groups_step (p, Resized g') s) = group_at g s"
  "group_at g (page_groups_step (p, InGroup g' e) s) =
     (if g = g' \<and> \<not> (on_the_page e \<and> (g' \<noteq> gs_shown s \<or> dialog_open s))
      then group_step (p, e) (group_at g s) else group_at g s)"
proof -
  show "group_at g (page_groups_step (p, Resized g') s) = group_at g s"
    by (cases g) simp_all
  show "group_at g (page_groups_step (p, InGroup g' e) s) =
     (if g = g' \<and> \<not> (on_the_page e \<and> (g' \<noteq> gs_shown s \<or> dialog_open s))
      then group_step (p, e) (group_at g s) else group_at g s)"
  proof (cases "on_the_page e \<and> (g' \<noteq> gs_shown s \<or> dialog_open s)")
    case True
    then show ?thesis by (simp del: group_step.simps)
  next
    case False
    then show ?thesis by (cases g; cases g') (auto simp del: group_step.simps)
  qed
qed

lemma page_groups_run_ok:
  assumes "one_at_a_time (gs_wide s)" and "one_at_a_time (gs_narrow s)"
  shows "one_at_a_time (gs_wide (page_groups_run es s)) \<and> one_at_a_time (gs_narrow (page_groups_run es s))"
  using assms unfolding page_groups_run_def
proof (induction es arbitrary: s)
  case (Cons e es)
  obtain p x where e: "e = (p, x)" by (cases e)
  have each: "one_at_a_time (group_at g s)" for g using Cons.prems by (cases g) auto
  have "one_at_a_time (group_at g (page_groups_step e s))" for g
  proof (cases x)
    case (Resized g')
    then show ?thesis unfolding e Resized page_groups_step_groups using each by simp
  next
    case (InGroup g' y)
    then show ?thesis
      unfolding e InGroup page_groups_step_groups using each [of g] one_at_a_time_step [OF each [of g]] by (auto split: if_split)
  qed
  from this [of WideSide] this [of NarrowSide] Cons.IH [of "page_groups_step e s"] show ?case by simp
qed simp

lemma hidden_group_untouched:
  assumes "\<not> list_ex resizes es" and "untouched_group (group_at (other_side (gs_shown s)) s)"
  shows "untouched_group (group_at (other_side (gs_shown s)) (page_groups_run es s))"
  using assms unfolding page_groups_run_def
proof (induction es arbitrary: s)
  case (Cons e es)
  obtain p g x where e: "e = (p, InGroup g x)" using Cons.prems(1) by (cases e rule: resizes.cases) auto
  have shown_side: "gs_shown (page_groups_step e s) = gs_shown s" by (simp add: e split: GroupSide.split)
  have "other_side (gs_shown s) \<noteq> gs_shown s" by (cases "gs_shown s") auto
  then have "untouched_group (group_at (other_side (gs_shown s)) (page_groups_step e s))"
    using Cons.prems(2) untouched_step unfolding e page_groups_step_groups by auto
  with Cons.IH [of "page_groups_step e s"] Cons.prems(1) shown_side show ?case by simp
qed simp

text \<open>
  C23: The page of a proposal has two groups of buttons, for wide and for narrow windows. However the
  page is used, each of them has at most one transaction under way that queues the proposal, from the
  request to the closing of its toast, and asks the wallet at most once at a time to cancel it; as
  long as the window is not resized from one to the other that holds for the page as a whole, and
  otherwise at most two are under way, one of each group (lemma \<open>queued_twice_after_resize\<close>).
\<close>

theorem one_queue_transaction:
  "(let s = page_groups_run es (new_page_groups shown_side);
        allowed = (if list_ex resizes es then 2 else 1)
    in transactions_of QueueTx (gs_wide s) \<le> 1 \<and> requests_of CancelTx (gs_wide s) \<le> 1 \<and>
       transactions_of QueueTx (gs_narrow s) \<le> 1 \<and> requests_of CancelTx (gs_narrow s) \<le> 1 \<and>
       transactions_of QueueTx (gs_wide s) + transactions_of QueueTx (gs_narrow s) \<le> allowed \<and>
       requests_of CancelTx (gs_wide s) + requests_of CancelTx (gs_narrow s) \<le> allowed)"
proof -
  let ?n = "new_page_groups shown_side"
  have "one_at_a_time new_action_group"
    by (simp add: one_at_a_time_def transactions_of_def requests_of_def new_action_group_def setting_def)
  then have each: "one_at_a_time (gs_wide (page_groups_run es ?n))" "one_at_a_time (gs_narrow (page_groups_run es ?n))"
    using page_groups_run_ok [of ?n es] by (simp_all add: new_page_groups_def)
  have "untouched_group (group_at (other_side (gs_shown ?n)) (page_groups_run es ?n))" if "\<not> list_ex resizes es"
    by (rule hidden_group_untouched [OF that]) (cases shown_side; simp add: new_page_groups_def untouched_new)
  then have "transactions_of QueueTx (group_at (other_side (gs_shown ?n)) (page_groups_run es ?n)) = 0 \<and>
      requests_of CancelTx (group_at (other_side (gs_shown ?n)) (page_groups_run es ?n)) = 0" if "\<not> list_ex resizes es"
    using that untouched_group_counts by blast
  then show ?thesis
    using each by (cases shown_side) (auto simp: Let_def one_at_a_time_def new_page_groups_def)
qed

text \<open>
  The other group does not know of the transaction: after the window was resized the same proposal can
  be queued once more while the first transaction is under way.
\<close>

lemma queued_twice_after_resize:
  assumes "group_button p new_action_group = Some (QueueAction, True)" and "queue_call p = Inr (Some c)"
    and "fst (validateBeforeExecution (gp_contracts p) (gp_wallet p))"
  shows "(let s = page_groups_run [(p, InGroup WideSide PressButton), (p, Resized NarrowSide),
        (p, InGroup NarrowSide PressButton)] (new_page_groups WideSide)
    in ag_requests (gs_wide s) = [(QueueTx, c)] \<and> ag_requests (gs_narrow s) = [(QueueTx, c)])"
  using assms
  by (simp add: Let_def page_groups_run_def new_page_groups_def on_the_page_def dialog_open_def make_request_def)
    (simp add: new_action_group_def)

text \<open>
  the button that executes a proposal can be pressed again while the wallet is still asked: two
  presses ask for the same transaction twice.
\<close>

theorem execute_sent_twice:
  assumes "\<not> ag_voting s" "\<not> ag_cancelOpen s" "\<not> gp_isAllQueriesFetching p"
    and "pg_status (gp_page p) = Some Queued" "canExecute (gp_currentTime p) (gp_page p) = Inr True"
    and "fst (validateBeforeExecution (gp_contracts p) (gp_wallet p))" "execute_call p = Inr (Some c)"
  shows "ag_requests (group_run [(p, PressButton), (p, PressButton)] s) =
    ag_requests s @ [(ExecuteTx, c), (ExecuteTx, c)]"
  using assms by (simp add: group_run_def group_button_def offered_def button_enabled_def make_request_def)

lemma vote_sent_twice:
  assumes "ag_voting s" "voted_id p = Some pid" "gp_myVotes p = Some n" "n \<noteq> 0"
    and "castVote (gp_contracts p) (gp_wallet p) pid (ag_support s) (ag_reason s) = Inr (Some c)"
  shows "ag_requests (group_run [(p, SubmitVote), (p, SubmitVote)] s) = ag_requests s @ [(VoteTx, c), (VoteTx, c)]"
  using assms by (simp add: group_run_def submit_enabled_def button_enabled_def handleCastVote_def make_request_def)

section \<open>Receipts\<close>

text \<open>
  The ids of the toasts on the screen differ and were given out; a hash that is set has a toast.
\<close>

definition toasts_ok :: "ActionGroup \<Rightarrow> bool" where
  "toasts_ok s \<longleftrightarrow>
     distinct (map tk_id (ag_toasts s)) \<and> (\<forall>t \<in> set (ag_toasts s). tk_id t < ag_nextToast s) \<and> 0 < ag_nextToast s \<and>
     (\<forall>k. ag_toastId s k < ag_nextToast s) \<and> (\<forall>k. ag_hash s k \<noteq> None \<longrightarrow> ag_toastId s k \<noteq> 0)"

lemma toasts_ok_add:
  "toasts_ok s \<Longrightarrow> toasts_ok (add_toast t c s)"
  by (fastforce simp: toasts_ok_def add_toast_def less_Suc_eq)

lemma toasts_ok_update: "toasts_ok s \<Longrightarrow> toasts_ok (update_toast i t c s)"
proof -
  have eq: "tk_id (if tk_id x = i then x \<lparr>tk_status := t, tk_onClose := c\<rparr> else x) = tk_id x" for x by simp
  show "toasts_ok s \<Longrightarrow> toasts_ok (update_toast i t c s)"
    by (auto simp: toasts_ok_def update_toast_def eq comp_def)
qed

lemma toasts_ok_receipt:
  "toasts_ok s \<Longrightarrow> toasts_ok (s \<lparr>ag_receipt := r\<rparr>)"
  by (simp add: toasts_ok_def)

lemma toasts_ok_finished: "toasts_ok s \<Longrightarrow> toasts_ok (finished_toast k t ok s)"
  by (simp add: finished_toast_def toasts_ok_add toasts_ok_update Let_def)

lemma toasts_ok_toast: "toasts_ok s \<Longrightarrow> toasts_ok (transaction_toast k s)"
proof -
  assume s: "toasts_ok s"
  have "toasts_ok (add_toast ''pending'' None (s \<lparr>ag_toastId := (ag_toastId s)(k := ag_nextToast s)\<rparr>))"
    using s by (fastforce simp: toasts_ok_def add_toast_def less_Suc_eq)
  with s show ?thesis by (simp add: transaction_toast_def toasts_ok_finished split: Receipt.split)
qed

lemma toasts_ok_set_hash:
  assumes "toasts_ok s" shows "toasts_ok (set_hash k h s)"
proof (cases "ag_toastId s k = 0")
  case True
  then show ?thesis
    using assms by (fastforce simp: set_hash_def transaction_toast_def toasts_ok_def add_toast_def less_Suc_eq)
next
  case False
  then have "toasts_ok (s \<lparr>ag_hash := (ag_hash s)(k := Some h), ag_receipt := (ag_receipt s)(k := AwaitedReceipt)\<rparr>)"
    using assms by (auto simp: toasts_ok_def)
  then show ?thesis unfolding set_hash_def by (rule toasts_ok_toast)
qed

lemma distinct_map_filter_ids: "distinct (map f xs) \<Longrightarrow> distinct (map f (filter P xs))"
  by (induction xs) auto

lemma toasts_ok_clear: "toasts_ok s \<Longrightarrow> toasts_ok (clear_hash k s)"
  by (auto simp: toasts_ok_def clear_hash_def distinct_map_filter_ids)

lemma toasts_ok_cong:
  "ag_toasts s' = ag_toasts s \<Longrightarrow> ag_nextToast s' = ag_nextToast s \<Longrightarrow> ag_toastId s' = ag_toastId s \<Longrightarrow>
    ag_hash s' = ag_hash s \<Longrightarrow> toasts_ok s \<Longrightarrow> toasts_ok s'"
  by (simp add: toasts_ok_def)

lemma toasts_ok_success: "toasts_ok s \<Longrightarrow> toasts_ok (handle_success p k s)"
  by (rule toasts_ok_cong [OF _ _ _ _ toasts_ok_clear [of s k]]) (simp_all add: handle_success_def Let_def)

lemma toasts_ok_close: "toasts_ok s \<Longrightarrow> toasts_ok (close_toast p i s)"
proof -
  assume s: "toasts_ok s"
  have "toasts_ok (s \<lparr>ag_toasts := filter P (ag_toasts s)\<rparr>)" for P
    using s by (auto simp: toasts_ok_def distinct_map_filter_ids)
  with s show ?thesis
    by (auto simp: close_toast_def toasts_ok_clear toasts_ok_success Let_def split: option.split bool.split)
qed

lemma toasts_ok_request: "toasts_ok s \<Longrightarrow> toasts_ok (make_request k c s)"
  by (erule toasts_ok_cong [rotated 4]) simp_all

lemma toasts_ok_answer: "toasts_ok s \<Longrightarrow> toasts_ok (wallet_answer k a s)"
proof -
  assume s: "toasts_ok s"
  have r: "toasts_ok (s \<lparr>ag_requests := rs\<rparr>)" for rs using s by (simp add: toasts_ok_def)
  have settled: "toasts_ok s' \<Longrightarrow> toasts_ok (settled k s')" for s' by (erule toasts_ok_cong [rotated 4]) simp_all
  have failed: "toasts_ok s' \<Longrightarrow> toasts_ok (show_failure k m s')" for s' m by (erule toasts_ok_cong [rotated 4]) simp_all
  show ?thesis using s by (auto simp: wallet_answer_def r settled failed toasts_ok_set_hash Let_def split: option.split sum.split)
qed

lemma toasts_ok_step: "toasts_ok s \<Longrightarrow> toasts_ok (group_step (p, e) s)"
proof (cases e)
  case PressButton
  assume s: "toasts_ok s"
  have "toasts_ok (handleAction p a s)" for a
    using s toasts_ok_cong [of "setVoting True s" s] by (cases a) (auto simp: toasts_ok_request)
  with s PressButton show ?thesis by (auto split: option.split bool.split)
qed (auto simp: toasts_ok_close toasts_ok_answer toasts_ok_request toasts_ok_toast toasts_ok_receipt handleCastVote_def
    split: option.split elim!: toasts_ok_cong [rotated 4])

lemma toasts_ok_run: "toasts_ok s \<Longrightarrow> toasts_ok (group_run es s)"
  unfolding group_run_def by (induction es arbitrary: s) (auto simp: toasts_ok_step)

lemma toasts_ok_new: "toasts_ok new_action_group"
  by (simp add: toasts_ok_def new_action_group_def)

text \<open>The toast that a receipt leaves: the component's own, or another when that one was closed.\<close>

lemma finished_toast_shown:
  assumes "ag_toastId s k \<noteq> 0"
  shows "\<exists>t \<in> set (ag_toasts (finished_toast k status ok s)). tk_onClose t = Some (k, ok)"
proof (cases "toast_active (ag_toastId s k) s")
  case True
  then obtain t where t: "t \<in> set (ag_toasts s)" "tk_id t = ag_toastId s k" by (auto simp: toast_active_def list_ex_iff)
  let ?u = "t \<lparr>tk_status := status, tk_onClose := Some (k, ok)\<rparr>"
  have "?u \<in> set (ag_toasts (finished_toast k status ok s))"
    using assms True t by (auto simp: finished_toast_def update_toast_def Let_def)
  then show ?thesis by (rule bexI [rotated]) simp
next
  case False
  with assms show ?thesis by (simp add: finished_toast_def add_toast_def Let_def)
qed

lemma find_shown_toast:
  "distinct (map tk_id ts) \<Longrightarrow> t \<in> set ts \<Longrightarrow> find (\<lambda>u. tk_id u = tk_id t) ts = Some t"
  by (induction ts) (auto simp: image_iff)

lemma closing_calls:
  assumes "toasts_ok s" "t \<in> set (ag_toasts s)" "tk_onClose t = Some (k, ok)"
  shows "ag_hash (close_toast p (tk_id t) s) k = None"
    "ag_refetched (close_toast p (tk_id t) s) = ag_refetched s + (if ok then 1 else 0)"
  using find_shown_toast [of "ag_toasts s" t] assms by (cases ok; simp add: close_toast_def toasts_ok_def Let_def)+

text \<open>
  C24: after any use of an action group, the receipt of the transaction whose hash the group still
  holds, which is the last one of its kind unless the toast of an earlier one was closed meanwhile,
  reaches the page: it leaves a toast on the screen, also when the toast of the pending transaction
  was closed before, and its closing frees the button, after a success with the rows read anew.
\<close>

theorem receipt_reaches_page:
  assumes "s = group_run es new_action_group" "setting (ag_hash s k) \<noteq> None" "ag_receipt s k = AwaitedReceipt"
    and "s1 = group_step (p, ReceiptArrives k ok) s"
  shows "\<exists>t \<in> set (ag_toasts s1).
    ag_hash (group_step (q, ToastCloses (tk_id t)) s1) k = None \<and>
    ag_refetched (group_step (q, ToastCloses (tk_id t)) s1) = ag_refetched s + (if ok then 1 else 0)"
proof -
  let ?s = "s \<lparr>ag_receipt := (ag_receipt s)(k := if ok then ReceiptSuccess else ReceiptError)\<rparr>"
  have s1: "s1 = transaction_toast k ?s" using assms(2-4) by simp
  have "toasts_ok s" using toasts_ok_run [OF toasts_ok_new] assms(1) by simp
  then have ok: "toasts_ok s1" "ag_toastId ?s k \<noteq> 0"
    unfolding s1 using assms(2) by (auto intro: toasts_ok_toast toasts_ok_receipt) (auto simp: toasts_ok_def setting_def split: option.splits if_splits)
  then obtain t where t: "t \<in> set (ag_toasts s1)" "tk_onClose t = Some (k, ok)"
    unfolding s1 using finished_toast_shown [OF ok(2)] by (cases ok) (auto simp: transaction_toast_def)
  then show ?thesis using closing_calls [OF ok(1) t] s1 by (intro bexI [OF _ t(1)]) simp
qed

text \<open>The hash of a second cancellation is forgotten with the toast of the first.\<close>

lemma second_cancellation_forgotten:
  assumes "toasts_ok s" "t \<in> set (ag_toasts s)" "tk_onClose t = Some (CancelTx, True)"
    and "ag_toastId s CancelTx = tk_id t"
  shows "ag_hash (close_toast p (tk_id t) (set_hash CancelTx h s)) CancelTx = None"
proof -
  have same: "ag_toasts (set_hash CancelTx h s) = ag_toasts s" if "ag_toastId s CancelTx \<noteq> 0"
    using that by (simp add: set_hash_def transaction_toast_def)
  show ?thesis
  proof (cases "ag_toastId s CancelTx = 0")
    case False
    show ?thesis using closing_calls(1) [OF toasts_ok_set_hash [OF assms(1)]] assms(2,3) same [OF False] by simp
  next
    case True
    then have "t \<in> set (ag_toasts (set_hash CancelTx h s))"
      using assms(2) by (simp add: set_hash_def transaction_toast_def add_toast_def)
    then show ?thesis using closing_calls(1) [OF toasts_ok_set_hash [OF assms(1)]] assms(3) by simp
  qed
qed

section \<open>The list of votes\<close>

lemma load_more_keeps [simp]:
  "vl_filters (loadMoreComments fl comments l) = vl_filters l" "vl_order (loadMoreComments fl comments l) = vl_order l"
  by (simp_all add: loadMoreComments_def Let_def)

lemma listed_after_load: "listed_votes fl (loadMoreComments fl comments l) comments = listed_votes fl l comments"
  by (simp add: listed_votes_def filteredComments_def)

lemma listed_for_any_count [simp]: "listed_votes fl (l \<lparr>vl_visible := n\<rparr>) comments = listed_votes fl l comments"
  by (simp add: listed_votes_def filteredComments_def)

lemma loads_frame:
  assumes "vl_visible l = PAGE_SIZE"
  shows "listed_votes fl ((loadMoreComments fl comments ^^ k) l) comments = listed_votes fl l comments \<and>
    vl_visible ((loadMoreComments fl comments ^^ k) l) =
      (if length (listed_votes fl l comments) \<le> PAGE_SIZE then PAGE_SIZE
       else min (PAGE_SIZE * (k + 1)) (length (listed_votes fl l comments)))"
proof (induction k)
  case 0
  then show ?case using assms by simp
next
  case (Suc k)
  then show ?case
    by (auto simp: listed_after_load loadMoreComments_def [of fl comments "(_ ^^ k) l"] Let_def min_def PAGE_SIZE_def)
qed

text \<open>
  A list of votes that was opened or whose choices were changed shows its first twenty rows, and
  twenty more with each press, until all are shown and nothing is left to press.
\<close>

theorem votes_in_portions:
  assumes "vl_visible l = PAGE_SIZE" "l' = (loadMoreComments fl comments ^^ k) l" "listed = listed_votes fl l comments"
  shows "visibleComments fl l' comments = take (PAGE_SIZE * (k + 1)) listed \<and>
    vote_caption fl l' comments =
      (if PAGE_SIZE * (k + 1) < length listed then LoadMore (length listed - PAGE_SIZE * (k + 1))
       else if PAGE_SIZE < length listed then ShowingAll (length listed) else NoCaption)"
  using loads_frame [OF assms(1), where fl = fl and comments = comments and k = k] assms(2,3)
  by (auto simp: visibleComments_def vote_caption_def Let_def min_def PAGE_SIZE_def)

text \<open>The votes listed are those of the choices shown, none lost and none twice.\<close>

lemma listed_votes_are_chosen:
  "mset (listed_votes fl l comments) = filter_mset (\<lambda>c. vl_filters l (vi_support c)) (mset comments)"
  using votes_are_sorted by (simp add: listed_votes_def filteredComments_def)

text \<open>
  Pressing the head of a column comes back to the default order: three times for the powers, twice
  for the dates, which the default shows already.
\<close>

lemma order_comes_back:
  "so_field (vl_order l) = ByDate \<Longrightarrow>
    click_column ByPower (click_column ByPower (click_column ByPower l)) = l \<lparr>vl_order := DEFAULT_SORT_STATE\<rparr>"
  "vl_order l = DEFAULT_SORT_STATE \<Longrightarrow> click_column ByDate (click_column ByDate l) = l"
  by (simp_all add: click_column_def reorder_def applySortState_def next_direction_def shown_direction_def
      DEFAULT_SORT_STATE_def)

section \<open>Shares\<close>

lemma total_power:
  "fold_outcome (\<lambda>v sum. and_then (vote_weight v) (\<lambda>w. Inr (sum + w))) comments a = Inr t \<longleftrightarrow>
    (\<exists>ws. map vote_weight comments = map Inr ws \<and> t = a + sum_list ws)"
proof (induction comments arbitrary: a)
  case Nil
  then show ?case by auto
next
  case (Cons v vs)
  show ?case
  proof (cases "vote_weight v")
    case (Inl e)
    then show ?thesis by (auto simp: and_then_def Cons_eq_map_conv)
  next
    case (Inr w)
    then show ?thesis by (auto simp: Cons Cons_eq_map_conv add.assoc)
  qed
qed

lemma sum_div_bounds:
  assumes "0 < (t :: int)"
  shows "sum_list (map (\<lambda>w. w * c div t) ws) * t \<le> sum_list ws * c \<and>
    sum_list ws * c \<le> sum_list (map (\<lambda>w. w * c div t) ws) * t + int (length ws) * (t - 1)"
proof (induction ws)
  case (Cons w ws)
  define q where "q = w * c div t"
  define r where "r = w * c mod t"
  have "w * c = q * t + r" by (simp add: q_def r_def)
  moreover have "0 \<le> r" "r \<le> t - 1" using assms by (simp_all add: r_def zle_diff1_eq)
  ultimately show ?case using Cons by (simp add: distrib_right q_def [symmetric])
qed simp

text \<open>
  C38: the shares of the votes, in hundredths of a per cent, add up to a hundred per cent less one
  hundredth at most for every vote.
\<close>

theorem vote_shares_add_up:
  assumes "totalVotingPower comments = Inr all" "0 < all" "map vote_weight comments = map Inr ws"
    and "list_all (\<lambda>w. 0 \<le> w) ws"
  shows "sum_list (map (percentage_hundredths all) ws) \<le> 10000 \<and>
    10000 - int (length comments) < sum_list (map (percentage_hundredths all) ws)"
proof -
  have len: "length comments = length ws" using arg_cong [OF assms(3), of length] by simp
  obtain ws' where "map vote_weight comments = map Inr ws'" and all: "all = sum_list ws'"
    using assms(1) by (auto simp: totalVotingPower_def total_power)
  then have "map Inr ws = (map Inr ws' :: int outcome list)" using assms(3) by simp
  then have all: "all = sum_list ws" using all by (simp add: inj_map_eq_map inj_on_def)
  have "percentage_hundredths all w = w * 10000 div all" if "w \<in> set ws" for w
    using that assms(2,4) by (auto simp: percentage_hundredths_def list_all_iff dest: order_le_neq_trans)
  then have sum: "sum_list (map (percentage_hundredths all) ws) = sum_list (map (\<lambda>w. w * 10000 div all) ws)"
    by (intro arg_cong [of _ _ sum_list] map_cong) simp_all
  let ?S = "sum_list (map (\<lambda>w. w * 10000 div all) ws)"
  have b: "?S * all \<le> all * 10000" "all * 10000 \<le> ?S * all + int (length ws) * (all - 1)"
    using sum_div_bounds [OF assms(2), of 10000 ws] unfolding all [symmetric] by simp_all
  have "ws \<noteq> []" using all assms(2) by auto
  then have "0 < int (length ws)" by simp
  moreover have "(10000 - ?S - int (length ws)) * all = all * 10000 - ?S * all - int (length ws) * (all - 1) - int (length ws)"
    by (simp add: algebra_simps)
  ultimately have "(10000 - ?S - int (length ws)) * all < 0" using b(2) by linarith
  then have "10000 - ?S - int (length ws) < 0" using assms(2) by (simp add: mult_less_0_iff)
  moreover have "?S \<le> 10000" using b(1) assms(2) by (simp add: mult.commute)
  ultimately show ?thesis unfolding sum len by simp
qed

section \<open>Witnesses\<close>

definition demo_group_props :: GroupProps where
  "demo_group_props =
     \<lparr>gp_page = \<lparr>pg_explorer = None, pg_status = Some Queued,
        pg_item = Some \<lparr>pi_proposalId = ''7'', pi_proposer = ''0xaa'', pi_transactionHash = ''0x1'',
          pi_blockTimestamp = ''1000'', pi_voteStartTimestamp = None, pi_voteEndTimestamp = None, pi_targets = [''0xbb''],
          pi_values = [''5''], pi_calldatas = [''0x''], pi_originalDescription = ''d'', pi_voters = []\<rparr>,
        pg_timeLockDelay = None, pg_queued = Some \<lparr>sc_blockTimestamp = ''1000'', sc_transactionHash = ''0x2''\<rparr>,
        pg_executed = None, pg_canceled = None\<rparr>,
      gp_isAllQueriesFetching = False, gp_contracts = \<lparr>dc_governor = Some ''0xcc'', dc_token = None, dc_chainId = Some 1\<rparr>,
      gp_wallet = \<lparr>wa_isConnected = True, wa_chainId = Some 1, wa_canOpenModal = True\<rparr>, gp_address = Some ''0xaa'',
      gp_votedOnChain = None, gp_myVotes = Some 9, gp_currentTime = 5000, gp_endpoint = Some ''https://indexer'',
      gp_daoCode = Some ''demo'', gp_descriptionHash = (\<lambda>t. t)\<rparr>"

definition demo_execution :: ContractCall where
  "demo_execution = \<lparr>cc_address = Some ''0xcc'', cc_function = ''execute'', cc_args = ProposalArgs [''0xbb''] [5] [''0x''] ''d''\<rparr>"

lemma demo_group:
  "fst (validateBeforeExecution (gp_contracts demo_group_props) (gp_wallet demo_group_props))"
  "canExecute (gp_currentTime demo_group_props) (gp_page demo_group_props) = Inr True"
  "execute_call demo_group_props = Inr (Some demo_execution)"
  "pg_status (gp_page demo_group_props) = Some Queued" "\<not> gp_isAllQueriesFetching demo_group_props"
proof -
  have n: "BigInt_text ''1000'' = Inr 1000" "BigInt_text ''5'' = Inr 5" by code_simp+
  show "fst (validateBeforeExecution (gp_contracts demo_group_props) (gp_wallet demo_group_props))"
    by (simp add: demo_group_props_def validateBeforeExecution_def)
  show "canExecute (gp_currentTime demo_group_props) (gp_page demo_group_props) = Inr True"
    by (simp add: demo_group_props_def canExecute_def hasTimelock_def queued_at_def setting_def n)
  show "execute_call demo_group_props = Inr (Some demo_execution)"
    by (simp add: demo_group_props_def demo_execution_def execute_call_def proposal_call_def executeProposal_def
        proposal_args_def governor_call_def validateBeforeExecution_def setting_def n)
qed (simp_all add: demo_group_props_def)

theorem execute_sent_twice_witness:
  "ag_requests (group_run [(demo_group_props, PressButton), (demo_group_props, PressButton)] new_action_group) =
     [(ExecuteTx, demo_execution), (ExecuteTx, demo_execution)]"
  using execute_sent_twice [of new_action_group demo_group_props demo_execution] demo_group
  by (simp add: new_action_group_def)

definition demo_executing :: ActionGroup where
  "demo_executing =
     group_run [(demo_group_props, PressButton), (demo_group_props, WalletAnswers ExecuteTx (Inr ''0xh'')),
       (demo_group_props, ToastCloses 1)] new_action_group"

lemma demo_executing_state:
  "setting (ag_hash demo_executing ExecuteTx) = Some ''0xh''" "ag_receipt demo_executing ExecuteTx = AwaitedReceipt"
  "ag_refetched demo_executing = 0"
  using demo_group
  by (simp_all add: demo_executing_def group_run_def new_action_group_def group_button_def offered_def button_enabled_def
      make_request_def wallet_answer_def set_hash_def transaction_toast_def add_toast_def close_toast_def setting_def)

theorem receipt_reaches_page_witness:
  "\<exists>t \<in> set (ag_toasts (group_step (demo_group_props, ReceiptArrives ExecuteTx True) demo_executing)).
     ag_refetched (group_step (demo_group_props, ToastCloses (tk_id t))
       (group_step (demo_group_props, ReceiptArrives ExecuteTx True) demo_executing)) = 1"
  using receipt_reaches_page [OF demo_executing_def, of ExecuteTx _ demo_group_props True demo_group_props]
    demo_executing_state by auto

definition demo_vote_rows :: "ProposalVoterItem list" where
  "demo_vote_rows = map (\<lambda>n. \<lparr>vi_voter = ''0xaa'', vi_support = 1, vi_blockTimestamp = ''1'', vi_weight = Some ''1''\<rparr>) [0..<45]"

lemma demo_vote_rows_listed: "length (listed_votes (\<lambda>x. x) new_vote_list demo_vote_rows) = 45"
proof -
  have "mset (listed_votes (\<lambda>x. x) new_vote_list demo_vote_rows) = mset demo_vote_rows"
    unfolding listed_votes_are_chosen by (subst mset_filter [symmetric])
      (simp add: demo_vote_rows_def new_vote_list_def filter_True comp_def)
  from mset_eq_length [OF this] show ?thesis by (simp add: demo_vote_rows_def)
qed

theorem votes_in_portions_witness:
  "length (visibleComments (\<lambda>x. x) ((loadMoreComments (\<lambda>x. x) demo_vote_rows ^^ 1) new_vote_list) demo_vote_rows) = 40 \<and>
   vote_caption (\<lambda>x. x) ((loadMoreComments (\<lambda>x. x) demo_vote_rows ^^ 1) new_vote_list) demo_vote_rows = LoadMore 5"
  using votes_in_portions [where l = new_vote_list and fl = "\<lambda>x. x" and comments = demo_vote_rows and k = 1, OF _ refl refl]
    demo_vote_rows_listed by (simp add: new_vote_list_def PAGE_SIZE_def)

theorem vote_shares_add_up_witness:
  "9998 < sum_list (map (percentage_hundredths 3) [1, 2]) \<and> sum_list (map (percentage_hundredths 3) [1, 2]) = (9999 :: int)"
proof -
  let ?v = "\<lambda>w. \<lparr>vi_voter = ''0xaa'', vi_support = 1, vi_blockTimestamp = ''1'', vi_weight = Some w\<rparr>"
  have n: "BigInt_text ''1'' = Inr 1" "BigInt_text ''2'' = Inr 2" by code_simp+
  then have "totalVotingPower [?v ''1'', ?v ''2''] = Inr 3"
    by (simp add: totalVotingPower_def vote_weight_def setting_def)
  with n show ?thesis
    using vote_shares_add_up [of "[?v ''1'', ?v ''2'']" 3 "[1, 2]"]
    by (simp add: vote_weight_def setting_def percentage_hundredths_def)
qed

end
