(* ===== verification/WebQueries.thy ===== *)
theory WebQueries
  imports WebBase
begin

text \<open>
  The requests of the web client to the indexer and to the service of the platform
  (packages/web/src/services/graphql: client.ts and the services of index.ts that query), with what
  they make of an answer that is empty and of a request that fails. A document is named by the
  constant that holds its text; the library that sends it is a function of the endpoint, the document
  and its variables.
\<close>

type_synonym Net = "string \<Rightarrow> string \<Rightarrow> json option \<Rightarrow> json outcome"

definition createGraphQLClient :: "string \<Rightarrow> string outcome" where
  "createGraphQLClient endpoint =
     (if endpoint = [] then Inl (ThrownError ''Indexer endpoint is not configured'') else Inr endpoint)"

definition graphql_request :: "Net \<Rightarrow> string \<Rightarrow> string \<Rightarrow> json option \<Rightarrow> json outcome" where
  "graphql_request net endpoint document variables =
     and_then (createGraphQLClient endpoint) (\<lambda>client. net client document variables)"

text \<open>A field of an answer that may be missing, its rows, and the first of them.\<close>

definition answer_field :: "string \<Rightarrow> json \<Rightarrow> json option" where
  "answer_field k response = (case response of JObject fs \<Rightarrow> map_of fs k | _ \<Rightarrow> None)"

definition rows_or_empty :: "string \<Rightarrow> json \<Rightarrow> json" where
  "rows_or_empty k response = or_default (answer_field k response) (JArray [])"

definition first_row :: "string \<Rightarrow> json \<Rightarrow> json option" where
  "first_row k response = (case answer_field k response of Some (JArray (x # xs)) \<Rightarrow> Some x | _ \<Rightarrow> None)"

text \<open>A member of an object that is left out when it is \<open>undefined\<close>.\<close>

definition given :: "string \<Rightarrow> json option \<Rightarrow> (string \<times> json) list" where
  "given k v = (case v of None \<Rightarrow> [] | Some j \<Rightarrow> [(k, j)])"

section \<open>Proposals\<close>

definition emptyProposalMetrics :: json where
  "emptyProposalMetrics = JObject
     ((''memberCount'', JNumber 0) # map (\<lambda>k. (k, JString ''0''))
       [''powerSum'', ''proposalsCount'', ''votesCount'', ''votesWeightAbstainSum'', ''votesWeightAgainstSum'',
        ''votesWeightForSum'', ''votesWithParamsCount'', ''votesWithoutParamsCount''])"

definition getAllProposals :: "Net \<Rightarrow> string \<Rightarrow> json \<Rightarrow> json outcome" where
  "getAllProposals net endpoint options =
     and_then (graphql_request net endpoint ''GET_ALL_PROPOSALS'' (Some options))
       (\<lambda>response. Inr (rows_or_empty ''proposals'' response))"

definition getProposalsList :: "Net \<Rightarrow> string \<Rightarrow> json \<Rightarrow> json outcome" where
  "getProposalsList net endpoint options =
     and_then (graphql_request net endpoint ''GET_PROPOSALS_LIST'' (Some options))
       (\<lambda>response. Inr (rows_or_empty ''proposals'' response))"

definition getProposalsByDescription :: "Net \<Rightarrow> string \<Rightarrow> json \<Rightarrow> json outcome" where
  "getProposalsByDescription net endpoint options =
     and_then (graphql_request net endpoint ''GET_PROPOSALS_BY_DESCRIPTION'' (Some options))
       (\<lambda>response. Inr (rows_or_empty ''proposals'' response))"

definition getProposalMetrics :: "Net \<Rightarrow> string \<Rightarrow> json outcome" where
  "getProposalMetrics net endpoint =
     and_then (graphql_request net endpoint ''GET_PROPOSAL_METRICS'' None)
       (\<lambda>response. Inr (or_default (first_row ''dataMetrics'' response) emptyProposalMetrics))"

definition getProposalVoteRate :: "Net \<Rightarrow> string \<Rightarrow> string \<Rightarrow> real \<Rightarrow> json outcome" where
  "getProposalVoteRate net endpoint voter limit =
     (if voter = [] then Inr (JArray [])
      else and_then (graphql_request net endpoint ''GET_PROPOSAL_VOTE_RATE''
             (Some (JObject [(''limit'', JNumber limit), (''voter'', JString (to_lower voter))])))
           (\<lambda>response. Inr (rows_or_empty ''proposals'' response)))"

text \<open>The service of the platform: without an endpoint, and after an error, there is nothing.\<close>

definition getSummaryProposalStates :: "Net \<Rightarrow> string option \<Rightarrow> string \<Rightarrow> json" where
  "getSummaryProposalStates net api daoCode =
     (if daoCode = [] then JArray []
      else case setting api of
        None \<Rightarrow> JArray []
      | Some endpoint \<Rightarrow>
          (case graphql_request net endpoint ''GET_SUMMARY_PROPOSAL_STATES''
                  (Some (JObject [(''daoCode'', JString daoCode)])) of
             Inl _ \<Rightarrow> JArray []
           | Inr response \<Rightarrow> rows_or_empty ''summaryProposalStates'' response))"

definition getBotAddress :: "Net \<Rightarrow> string option \<Rightarrow> json option" where
  "getBotAddress net api =
     (case setting api of
        None \<Rightarrow> None
      | Some endpoint \<Rightarrow>
          (case graphql_request net endpoint ''GET_BOT_ADDRESS'' None of
             Inl _ \<Rightarrow> None | Inr response \<Rightarrow> answer_field ''botAddress'' response))"

definition getProposalSummary :: "Net \<Rightarrow> string option \<Rightarrow> json \<Rightarrow> json option" where
  "getProposalSummary net api options =
     (case setting api of
        None \<Rightarrow> None
      | Some endpoint \<Rightarrow>
          (case graphql_request net endpoint ''GET_PROPOSAL_SUMMARY'' (Some options) of
             Inl _ \<Rightarrow> None | Inr response \<Rightarrow> answer_field ''proposalSummary'' response))"

definition where_id :: "string \<Rightarrow> json" where
  "where_id i = JObject [(''where'', JObject [(''proposalId_eq'', JString i)])]"

definition getProposalCanceledById :: "Net \<Rightarrow> string \<Rightarrow> string \<Rightarrow> json option outcome" where
  "getProposalCanceledById net endpoint i =
     and_then (graphql_request net endpoint ''GET_PROPOSAL_CANCELED_BY_ID'' (Some (where_id i)))
       (\<lambda>response. Inr (first_row ''proposalCanceleds'' response))"

definition getProposalExecutedById :: "Net \<Rightarrow> string \<Rightarrow> string \<Rightarrow> json option outcome" where
  "getProposalExecutedById net endpoint i =
     and_then (graphql_request net endpoint ''GET_PROPOSAL_EXECUTED_BY_ID'' (Some (where_id i)))
       (\<lambda>response. Inr (first_row ''proposalExecuteds'' response))"

definition getProposalQueuedById :: "Net \<Rightarrow> string \<Rightarrow> string \<Rightarrow> json option outcome" where
  "getProposalQueuedById net endpoint i =
     and_then (graphql_request net endpoint ''GET_PROPOSAL_QUEUED_BY_ID'' (Some (where_id i)))
       (\<lambda>response. Inr (first_row ''proposalQueueds'' response))"

definition getEvmAbi :: "Net \<Rightarrow> string \<Rightarrow> json \<Rightarrow> json \<Rightarrow> json option outcome" where
  "getEvmAbi net endpoint chain contract =
     and_then (graphql_request net endpoint ''GET_EVM_ABI'' (Some (JObject [(''chain'', chain), (''contract'', contract)])))
       (\<lambda>response. Inr (answer_field ''evmAbi'' response))"

section \<open>Delegates, contributors, the rest\<close>

definition getAllDelegates :: "Net \<Rightarrow> string \<Rightarrow> json \<Rightarrow> json outcome" where
  "getAllDelegates net endpoint options =
     and_then (graphql_request net endpoint ''GET_DELEGATES'' (Some options))
       (\<lambda>response. Inr (rows_or_empty ''delegates'' response))"

definition from_where :: "string \<Rightarrow> json" where
  "from_where a = JObject [(''where'', JObject [(''from_eq'', JString a)])]"

definition getDelegateMappings :: "Net \<Rightarrow> string \<Rightarrow> json option \<Rightarrow> json outcome" where
  "getDelegateMappings net endpoint options =
     and_then (graphql_request net endpoint ''GET_DELEGATE_MAPPINGS''
         (Some (case options of None \<Rightarrow> from_where [] | Some opts \<Rightarrow> opts)))
       (\<lambda>response. Inr (rows_or_empty ''delegateMappings'' response))"

definition getDelegateMappingsConnection :: "Net \<Rightarrow> string \<Rightarrow> json \<Rightarrow> json option outcome" where
  "getDelegateMappingsConnection net endpoint options =
     and_then (graphql_request net endpoint ''GET_DELEGATE_MAPPINGS_CONNECTION'' (Some options))
       (\<lambda>response. Inr (answer_field ''delegatesConnection'' response))"

definition getSquidStatus :: "Net \<Rightarrow> string \<Rightarrow> json option outcome" where
  "getSquidStatus net endpoint =
     and_then (graphql_request net endpoint ''GET_SQUID_STATUS'' None)
       (\<lambda>response. Inr (answer_field ''squidStatus'' response))"

definition getTreasuryAssets :: "Net \<Rightarrow> string \<Rightarrow> json \<Rightarrow> json \<Rightarrow> json outcome" where
  "getTreasuryAssets net endpoint chain address =
     and_then (graphql_request net endpoint ''GET_TREASURY_ASSETS''
         (Some (JObject [(''chain'', chain), (''address'', address)])))
       (\<lambda>response. Inr (rows_or_empty ''treasuryAssets'' response))"

record ContributorOptions =
  co_limit :: nat
  co_offset :: nat
  co_orderBy :: "json option"
  co_where :: "json option"

definition default_options :: ContributorOptions where
  "default_options = \<lparr>co_limit = 10, co_offset = 0,
     co_orderBy = Some (JString ''lastVoteTimestamp_DESC_NULLS_LAST''),
     co_where = Some (JObject [(''id_in'', JArray [])])\<rparr>"

definition orderByInput :: "json option \<Rightarrow> json" where
  "orderByInput orderBy =
     (case orderBy of
        Some (JArray os) \<Rightarrow> JArray os
      | _ \<Rightarrow> if truthy orderBy then JArray [the orderBy]
             else JArray [JString ''lastVoteTimestamp_DESC_NULLS_LAST''])"

definition getAllContributors :: "Net \<Rightarrow> string \<Rightarrow> ContributorOptions option \<Rightarrow> json outcome" where
  "getAllContributors net endpoint options =
     (let opts = (case options of None \<Rightarrow> default_options | Some opts \<Rightarrow> opts)
      in and_then (graphql_request net endpoint ''GET_CONTRIBUTORS''
           (Some (JObject
             ([(''limit'', JNumber (real (co_limit opts))), (''offset'', JNumber (real (co_offset opts))),
               (''orderBy'', orderByInput (co_orderBy opts))] @ given ''where'' (co_where opts)))))
         (\<lambda>response. Inr (rows_or_empty ''contributors'' response)))"

end
