(* ===== verification/WebBrowse.thy ===== *)
theory WebBrowse
  imports WebQueries WebLists WebVoting TextPlus
begin

text \<open>
  Browsing the web client: the page of proposals and its filters (app/proposals/page.tsx,
  components/proposals-table), the page of delegates with its table, search and bot
  (app/delegates/page.tsx, components/members-table), the summary of states
  (app/_components/overview-proposals-summary.tsx), the delegation shown on a profile and the dialogs
  that change it (app/profile/_components, components/delegate-action.tsx, delegate-selector.tsx), the
  delegations received (components/delegation-table) and the search for a proposal
  (components/search-modal.tsx).
\<close>

section \<open>The page of proposals\<close>

text \<open>The parameters of the address: reading the first, writing, and deleting all of a name.\<close>

type_synonym UrlParams = "(string \<times> string) list"

fun param_set :: "string \<Rightarrow> string \<Rightarrow> UrlParams \<Rightarrow> UrlParams" where
  "param_set k v [] = [(k, v)]"
| "param_set k v ((k', v') # ps) =
     (if k' = k then (k, v) # filter (\<lambda>p. fst p \<noteq> k) ps else (k', v') # param_set k v ps)"

definition param_delete :: "string \<Rightarrow> UrlParams \<Rightarrow> UrlParams" where
  "param_delete k ps = filter (\<lambda>p. fst p \<noteq> k) ps"

datatype CheckedState = Checked | Unchecked | Indeterminate

definition normalizeSupportParam :: "string option \<Rightarrow> string" where
  "normalizeSupportParam v =
     (if v = Some ''0'' \<or> v = Some ''1'' \<or> v = Some ''2'' then the v else ''all'')"

record ProposalsPage =
  lp_support :: string
  lp_isMyProposals :: CheckedState
  lp_params :: UrlParams
  lp_warningOpen :: bool
  lp_pushed :: "string list"

definition open_proposals :: "UrlParams \<Rightarrow> ProposalsPage" where
  "open_proposals params =
     \<lparr>lp_support = normalizeSupportParam (map_of params ''support''),
      lp_isMyProposals = (if map_of params ''type'' = Some ''my'' then Checked else Unchecked),
      lp_params = params, lp_warningOpen = False, lp_pushed = []\<rparr>"

definition updateUrlParams :: "bool \<Rightarrow> string \<Rightarrow> ProposalsPage \<Rightarrow> ProposalsPage" where
  "updateUrlParams myProposals supportValue s =
     (let params = lp_params s;
          typed =
            (if myProposals then param_delete ''address'' (param_set ''type'' ''my'' params)
             else let ps = param_delete ''type'' params
                  in case setting (map_of params ''address'') of
                       None \<Rightarrow> ps | Some a \<Rightarrow> param_set ''address'' a ps)
      in s \<lparr>lp_params := (if supportValue \<noteq> ''all'' then param_set ''support'' supportValue typed
                          else param_delete ''support'' typed)\<rparr>)"

definition handleMyProposalsChange :: "CheckedState \<Rightarrow> ProposalsPage \<Rightarrow> ProposalsPage" where
  "handleMyProposalsChange checked s =
     updateUrlParams (checked \<noteq> Unchecked) (lp_support s) (s \<lparr>lp_isMyProposals := checked\<rparr>)"

definition handleSupportChange :: "string \<Rightarrow> ProposalsPage \<Rightarrow> ProposalsPage" where
  "handleSupportChange v s = updateUrlParams (lp_isMyProposals s \<noteq> Unchecked) v (s \<lparr>lp_support := v\<rparr>)"

definition handleNewProposalClick :: "bool \<Rightarrow> bool \<Rightarrow> ProposalsPage \<Rightarrow> ProposalsPage" where
  "handleNewProposalClick isConnected enoughVotes s =
     (if isConnected \<and> \<not> enoughVotes then s \<lparr>lp_warningOpen := True\<rparr>
      else s \<lparr>lp_pushed := lp_pushed s @ [''/proposals/new'']\<rparr>)"

definition proposals_title :: "string option \<Rightarrow> string" where
  "proposals_title proposalsCount =
     (case setting proposalsCount of
        None \<Rightarrow> ''All Proposals''
      | Some t \<Rightarrow>
          ''All Proposals ('' @ (case parseInt t of None \<Rightarrow> ''NaN'' | Some n \<Rightarrow> int_text 10 n) @ '')'')"

text \<open>Whose proposals the table lists, and with which vote.\<close>

definition listed_address :: "string option \<Rightarrow> ProposalsPage \<Rightarrow> string option" where
  "listed_address account s =
     (if lp_isMyProposals s \<noteq> Unchecked then account else map_of (lp_params s) ''address'')"

definition listed_support :: "ProposalsPage \<Rightarrow> string option" where
  "listed_support s = (if lp_support s = ''all'' then None else Some (lp_support s))"

text \<open>The box and the choice are there for a wallet that is connected, the choice with the box checked.\<close>

datatype ProposalsEvent = CheckMine bool CheckedState | ChooseVotes bool string | ClickNewProposal bool bool

fun proposals_step :: "ProposalsEvent \<Rightarrow> ProposalsPage \<Rightarrow> ProposalsPage" where
  "proposals_step (CheckMine isConnected c) s = (if isConnected then handleMyProposalsChange c s else s)"
| "proposals_step (ChooseVotes isConnected v) s =
     (if isConnected \<and> lp_isMyProposals s \<noteq> Unchecked \<and> List.member [''all'', ''1'', ''0'', ''2''] v
      then handleSupportChange v s else s)"
| "proposals_step (ClickNewProposal isConnected enoughVotes) s = handleNewProposalClick isConnected enoughVotes s"

section \<open>The table of proposals\<close>

definition proposals_where :: "string option \<Rightarrow> string option \<Rightarrow> json" where
  "proposals_where address support =
     (case (setting address, setting support) of
        (None, _) \<Rightarrow> JObject []
      | (Some a, None) \<Rightarrow>
          JObject [(''proposer_eq'', JString (to_lower a)),
            (''OR'', JObject [(''voters_some'', JObject [(''voter_eq'', JString (to_lower a))])])]
      | (Some a, Some v) \<Rightarrow>
          JObject [(''voters_some'', JObject ((''voter_eq'', JString (to_lower a)) #
            given ''support_eq'' (map_option (\<lambda>n. JNumber (of_int n)) (parseInt v))))])"

definition proposals_query ::
  "Net \<Rightarrow> string \<Rightarrow> string option \<Rightarrow> string option \<Rightarrow> string option \<Rightarrow> PageParam \<Rightarrow> json outcome" where
  "proposals_query net endpoint account address support page =
     getProposalsList net endpoint (JObject
       ([(''limit'', JNumber (real (pp_limit page))), (''offset'', JNumber (real (pp_offset page))),
         (''orderBy'', JString ''blockTimestamp_DESC_NULLS_LAST''), (''where'', proposals_where address support)] @
        given ''voter'' (map_option (\<lambda>a. JString (to_lower a)) account)))"

text \<open>The rows of an answer; the services answer with arrays.\<close>

definition array_rows :: "json \<Rightarrow> json list outcome" where
  "array_rows result = (case result of JArray rs \<Rightarrow> Inr rs | _ \<Rightarrow> Inl (ThrownError ''TypeError''))"

definition proposals_page ::
  "Net \<Rightarrow> string \<Rightarrow> string option \<Rightarrow> string option \<Rightarrow> string option \<Rightarrow> PageParam \<Rightarrow> json list outcome" where
  "proposals_page net endpoint account address support page =
     and_then (proposals_query net endpoint account address support page) array_rows"

definition proposer_addresses :: "(string list \<Rightarrow> string list) \<Rightarrow> string option list \<Rightarrow> string list" where
  "proposer_addresses locale_sort proposers =
     locale_sort (filter (\<lambda>a. a \<noteq> []) (first_by (\<lambda>a. a) [] (map to_lower (List.map_filter id proposers))))"

definition getUserVoteStatus :: "string option \<Rightarrow> (string \<times> int) list \<Rightarrow> string option" where
  "getUserVoteStatus account voters =
     (case setting account of
        None \<Rightarrow> None
      | Some a \<Rightarrow>
          (case find (\<lambda>v. to_lower (fst v) = to_lower a) voters of
             None \<Rightarrow> None
           | Some (v, support) \<Rightarrow>
               if support = 1 then Some ''For'' else if support = 0 then Some ''Against''
               else if support = 2 then Some ''Abstain'' else None))"

section \<open>The page of delegates\<close>

datatype MemberSortField = ByLastVoted | ByMemberPower | ByDelegators

record MemberSortState =
  ms_field :: MemberSortField
  ms_direction :: VoteSortDirection

definition default_member_sort :: MemberSortState where
  "default_member_sort = \<lparr>ms_field = ByLastVoted, ms_direction = Desc\<rparr>"

definition member_order :: "MemberSortState \<Rightarrow> string" where
  "member_order st =
     (case (ms_field st, ms_direction st) of
        (ByLastVoted, Asc) \<Rightarrow> ''lastVoteTimestamp_ASC_NULLS_LAST''
      | (ByLastVoted, Desc) \<Rightarrow> ''lastVoteTimestamp_DESC_NULLS_LAST''
      | (ByMemberPower, Asc) \<Rightarrow> ''power_ASC''
      | (ByMemberPower, Desc) \<Rightarrow> ''power_DESC''
      | (ByDelegators, Asc) \<Rightarrow> ''delegatesCountAll_ASC''
      | (ByDelegators, Desc) \<Rightarrow> ''delegatesCountAll_DESC'')"

record MembersPage =
  mb_address :: "string option"
  mb_open :: bool
  mb_loadAttempted :: bool
  mb_searchTerm :: string
  mb_debounced :: string
  mb_sort :: MemberSortState
  mb_hasUserSorted :: bool

definition new_members_page :: MembersPage where
  "new_members_page = \<lparr>mb_address = None, mb_open = False, mb_loadAttempted = False, mb_searchTerm = [],
     mb_debounced = [], mb_sort = default_member_sort, mb_hasUserSorted = False\<rparr>"

definition debounce_search :: "MembersPage \<Rightarrow> MembersPage" where
  "debounce_search s = s \<lparr>mb_debounced := trim (mb_searchTerm s)\<rparr>"

definition delegate_to_member :: "bool \<Rightarrow> string \<Rightarrow> MembersPage \<Rightarrow> MembersPage" where
  "delegate_to_member isConnected i s =
     (if \<not> isConnected then s \<lparr>mb_loadAttempted := True\<rparr> else s \<lparr>mb_address := Some i, mb_open := True\<rparr>)"

definition queryOrderBy :: "MembersPage \<Rightarrow> string option" where
  "queryOrderBy s =
     (if \<not> mb_hasUserSorted s \<and> mb_sort s = default_member_sort then None else Some (member_order (mb_sort s)))"

definition sort_members :: "MemberSortField \<Rightarrow> VoteSortDirection option \<Rightarrow> MembersPage \<Rightarrow> MembersPage" where
  "sort_members field direction s =
     (case direction of
        None \<Rightarrow> s \<lparr>mb_hasUserSorted := False, mb_sort := default_member_sort\<rparr>
      | Some d \<Rightarrow> s \<lparr>mb_hasUserSorted := True, mb_sort := \<lparr>ms_field = field, ms_direction = d\<rparr>\<rparr>)"

definition members_title :: "int option \<Rightarrow> string" where
  "members_title memberCount =
     (case memberCount of None \<Rightarrow> ''Delegates'' | Some n \<Rightarrow> ''Delegates ('' @ int_text 10 n @ '')'')"

definition showConnectPrompt :: "bool \<Rightarrow> MembersPage \<Rightarrow> bool" where
  "showConnectPrompt isConnected s \<longleftrightarrow> \<not> isConnected \<and> mb_loadAttempted s"

text \<open>The bot of the platform: its address, whether an address is its, and its row.\<close>

definition isAiBot :: "string option \<Rightarrow> string option \<Rightarrow> bool" where
  "isAiBot botAddress address \<longleftrightarrow> map_option to_lower botAddress = map_option to_lower address"

definition bot_contributor :: "Net \<Rightarrow> string \<Rightarrow> string option \<Rightarrow> json option outcome" where
  "bot_contributor net endpoint botAddress =
     (case setting (map_option to_lower botAddress) of
        None \<Rightarrow> Inr None
      | Some a \<Rightarrow>
          and_then (getAllContributors net endpoint (Some \<lparr>co_limit = 1, co_offset = 0, co_orderBy = None,
              co_where = Some (JObject [(''id_in'', JArray [JString a])])\<rparr>))
            (\<lambda>result. Inr (case result of JArray (r # rs) \<Rightarrow> Some r | _ \<Rightarrow> None)))"

definition members_query ::
  "Net \<Rightarrow> (string \<Rightarrow> bool) \<Rightarrow> (string \<Rightarrow> string option outcome) option \<Rightarrow> string \<Rightarrow> string option \<Rightarrow> string \<Rightarrow>
   string option \<Rightarrow> bool \<Rightarrow> PageParam \<Rightarrow> json outcome" where
  "members_query net isAddress ens endpoint botAddress searchTerm orderBy includeBot page =
     (if trim searchTerm \<noteq> [] then
        (case resolveSearchAddress isAddress ens searchTerm of
           None \<Rightarrow> Inr (JArray [])
         | Some a \<Rightarrow>
             getAllContributors net endpoint (Some \<lparr>co_limit = 1, co_offset = 0,
               co_orderBy = map_option JString orderBy, co_where = Some (JObject [(''id_eq'', JString a)])\<rparr>))
      else getAllContributors net endpoint (Some \<lparr>co_limit = pp_limit page, co_offset = pp_offset page,
             co_orderBy = Some (JString (case orderBy of None \<Rightarrow> ''lastVoteTimestamp_DESC_NULLS_LAST'' | Some ord \<Rightarrow> ord)),
             co_where = Some (JObject (if includeBot then []
               else given ''id_not_eq'' (map_option (\<lambda>a. JString (to_lower a)) botAddress)))\<rparr>))"

definition members_page ::
  "Net \<Rightarrow> (string \<Rightarrow> bool) \<Rightarrow> (string \<Rightarrow> string option outcome) option \<Rightarrow> string \<Rightarrow> string option \<Rightarrow> string \<Rightarrow>
   string option \<Rightarrow> bool \<Rightarrow> PageParam \<Rightarrow> json list outcome" where
  "members_page net isAddress ens endpoint botAddress searchTerm orderBy includeBot page =
     and_then (members_query net isAddress ens endpoint botAddress searchTerm orderBy includeBot page) array_rows"

definition members_rows :: "('r \<Rightarrow> string) \<Rightarrow> bool \<Rightarrow> string \<Rightarrow> 'r option \<Rightarrow> 'r list \<Rightarrow> 'r list" where
  "members_rows id_of hasUserSorted searchTerm botMember ms =
     (case botMember of
        Some b \<Rightarrow>
          if \<not> hasUserSorted \<and> searchTerm = [] then b # filter (\<lambda>m. id_of m \<noteq> id_of b) ms else ms
      | None \<Rightarrow> ms)"

definition DEFAULT_PAGE_SIZE :: nat where
  "DEFAULT_PAGE_SIZE = 10"

definition INITIAL_LIST_PAGE_SIZE :: nat where
  "INITIAL_LIST_PAGE_SIZE = DEFAULT_PAGE_SIZE * 3"

definition initial_members :: "nat \<Rightarrow> nat" where
  "initial_members pageSize = (if pageSize = DEFAULT_PAGE_SIZE then INITIAL_LIST_PAGE_SIZE else pageSize)"

text \<open>The division of big integers cuts off towards zero.\<close>

definition big_div :: "int \<Rightarrow> int \<Rightarrow> int" where
  "big_div a b = sgn a * sgn b * (\<bar>a\<bar> div \<bar>b\<bar>)"

definition power_share :: "int \<Rightarrow> int \<Rightarrow> int" where
  "power_share all userPower = (if 0 < all then big_div (userPower * 10000) all else 0)"

end
