(* ===== verification/WebDelegations.thy ===== *)
theory WebDelegations
  imports WebBrowse
begin

text \<open>
  The summary of the states of proposals (app/_components/overview-proposals-summary.tsx), the
  delegation a profile shows and the dialogs that change it (app/profile/_components,
  components/delegate-action.tsx, delegate-selector.tsx), the delegations received
  (received-delegations.tsx, components/delegation-table, delegation-list), and the search for a
  proposal (components/search-modal.tsx).
\<close>

section \<open>The summary of states\<close>

fun replace_text :: "string \<Rightarrow> string \<Rightarrow> string \<Rightarrow> string" where
  "replace_text old new [] = (if old = [] then new else [])"
| "replace_text old new (c # cs) =
     (if starts_with (c # cs) old then new @ drop (length old) (c # cs) else c # replace_text old new cs)"

definition normalizeStateKey :: "string option \<Rightarrow> string" where
  "normalizeStateKey state =
     replace_text ''CANCELLED'' ''CANCELED'' (to_upper (case state of None \<Rightarrow> [] | Some t \<Rightarrow> t))"

definition SUMMARY_STATE_ORDER :: "string list" where
  "SUMMARY_STATE_ORDER = [''PENDING'', ''ACTIVE'', ''SUCCEEDED'', ''EXECUTED'', ''DEFEATED'', ''CANCELED'']"

definition GRAPH_STATE_TO_PROPOSAL_STATE :: "(string \<times> ProposalState) list" where
  "GRAPH_STATE_TO_PROPOSAL_STATE =
     [(''PENDING'', Pending), (''ACTIVE'', Active), (''SUCCEEDED'', Succeeded), (''EXECUTED'', Executed),
      (''DEFEATED'', Defeated), (''CANCELED'', Canceled), (''CANCELLED'', Canceled), (''QUEUED'', Queued),
      (''EXPIRED'', Expired)]"

definition getStatusColor :: "ProposalState \<Rightarrow> string" where
  "getStatusColor status =
     (case status of
        Pending \<Rightarrow> ''text-pending''
      | Active \<Rightarrow> ''text-active''
      | Canceled \<Rightarrow> ''text-canceled''
      | Defeated \<Rightarrow> ''text-defeated''
      | Executed \<Rightarrow> ''text-executed''
      | _ \<Rightarrow> ''text-succeeded'')"

text \<open>The state \<open>Pending\<close> is the number 0, which counts as none.\<close>

definition known_state :: "string \<Rightarrow> ProposalState option" where
  "known_state stateKey =
     (case map_of GRAPH_STATE_TO_PROPOSAL_STATE stateKey of Some Pending \<Rightarrow> None | s \<Rightarrow> s)"

definition getColorVar :: "ProposalState option \<Rightarrow> string" where
  "getColorVar state =
     (case state of
        None \<Rightarrow> ''--muted-foreground''
      | Some s \<Rightarrow> if starts_with (getStatusColor s) ''text-'' then ''--'' @ replace_text ''text-'' [] (getStatusColor s)
          else ''--muted-foreground'')"

record SummaryListItem =
  si_key :: string
  si_label :: string
  si_count :: int
  si_colorVar :: string

definition summaryStateCounts :: "(string option \<times> int option) list \<Rightarrow> (string \<times> int) list" where
  "summaryStateCounts rawSummaryStates =
     foldl (\<lambda>acc (state, n).
         let key = normalizeStateKey state
         in if key = [] then acc else AList.update key (case n of None \<Rightarrow> 0 | Some k \<Rightarrow> k) acc)
       [] rawSummaryStates"

definition summary_item :: "(string \<times> int) list \<Rightarrow> string \<Rightarrow> SummaryListItem" where
  "summary_item counts stateKey =
     \<lparr>si_key = stateKey,
      si_label = (case known_state stateKey of
          None \<Rightarrow> take 1 stateKey @ to_lower (drop 1 stateKey) | Some s \<Rightarrow> getDisplayText (Some s)),
      si_count = (case map_of counts stateKey of None \<Rightarrow> 0 | Some n \<Rightarrow> n),
      si_colorVar = getColorVar (known_state stateKey)\<rparr>"

definition summaryItems :: "(string \<times> int) list \<Rightarrow> SummaryListItem list" where
  "summaryItems counts =
     map (summary_item counts)
       (SUMMARY_STATE_ORDER @ filter (\<lambda>k. \<not> List.member SUMMARY_STATE_ORDER k) (map fst counts))"

section \<open>The delegation of a profile\<close>

definition profile_mappings :: "Net \<Rightarrow> string \<Rightarrow> string \<Rightarrow> json outcome" where
  "profile_mappings net endpoint address = getDelegateMappings net endpoint (Some (from_where (to_lower address)))"

datatype DelegationStatus =
    NotDelegated
  | SelfDelegated string
  | DelegatedTo string string

text \<open>The field \<open>to\<close> of a row of the indexer, which is always a text.\<close>

definition mapping_to :: "json \<Rightarrow> string outcome" where
  "mapping_to row =
     and_then (property (Some row) ''to'')
       (\<lambda>v. case v of Some (JString t) \<Rightarrow> Inr t | _ \<Rightarrow> Inl (TypeError ''toLowerCase''))"

definition shown_balance :: "(int \<Rightarrow> string option) \<Rightarrow> int option \<Rightarrow> string" where
  "shown_balance formatTokenAmount tokenBalance =
     (case tokenBalance of
        None \<Rightarrow> ''0''
      | Some n \<Rightarrow> if n = 0 then ''0'' else (case formatTokenAmount n of None \<Rightarrow> ''0.00'' | Some t \<Rightarrow> t))"

definition delegationStatus :: "json option \<Rightarrow> string \<Rightarrow> string \<Rightarrow> string option \<Rightarrow> DelegationStatus outcome" where
  "delegationStatus delegateMappings address balance symbol =
     (case delegateMappings of
        Some (JArray (latestDelegation # older)) \<Rightarrow>
          and_then (mapping_to latestDelegation) (\<lambda>t.
            Inr (if to_lower t = to_lower address then SelfDelegated t
                 else DelegatedTo t (balance @ '' '' @ shown symbol @ '' to'')))
      | _ \<Rightarrow> Inr NotDelegated)"

fun buttonText :: "DelegationStatus \<Rightarrow> string" where
  "buttonText NotDelegated = ''Join as Delegate''"
| "buttonText (SelfDelegated t) = ''Change Delegate''"
| "buttonText (DelegatedTo t d) = ''Change Delegate''"

definition isOwnProfile :: "(string \<Rightarrow> bool) \<Rightarrow> string option \<Rightarrow> string \<Rightarrow> bool" where
  "isOwnProfile isAddress account address \<longleftrightarrow>
     (case setting account of None \<Rightarrow> False
      | Some a \<Rightarrow> address \<noteq> [] \<and> isAddress address \<and> to_lower a = to_lower address)"

text \<open>Which dialog is open, and where the page leads.\<close>

record ProfileDialogs =
  pd_selector :: bool
  pd_delegate :: bool
  pd_join :: bool
  pd_change :: bool
  pd_askConnect :: bool
  pd_pushed :: "string list"

definition no_dialogs :: ProfileDialogs where
  "no_dialogs = \<lparr>pd_selector = False, pd_delegate = False, pd_join = False, pd_change = False,
     pd_askConnect = False, pd_pushed = []\<rparr>"

definition press_delegate :: "bool \<Rightarrow> bool \<Rightarrow> bool \<Rightarrow> DelegationStatus \<Rightarrow> ProfileDialogs \<Rightarrow> ProfileDialogs" where
  "press_delegate isDelegate isConnected isOwn status s =
     (if isDelegate then
        (if \<not> isConnected then s \<lparr>pd_askConnect := True\<rparr>
         else if \<not> isOwn then s \<lparr>pd_delegate := True\<rparr> else s \<lparr>pd_selector := True\<rparr>)
      else (case status of
              NotDelegated \<Rightarrow> s \<lparr>pd_join := True\<rparr>
            | SelfDelegated t \<Rightarrow> s \<lparr>pd_change := True\<rparr>
            | DelegatedTo t d \<Rightarrow> s \<lparr>pd_change := True\<rparr>))"

definition handleSelect :: "bool \<Rightarrow> ProfileDialogs \<Rightarrow> ProfileDialogs" where
  "handleSelect myself s =
     (let s1 = s \<lparr>pd_selector := False\<rparr>
      in if myself then s1 \<lparr>pd_delegate := True\<rparr> else s1 \<lparr>pd_pushed := pd_pushed s @ [''/delegates'']\<rparr>)"

section \<open>The dialogs that delegate\<close>

text \<open>
  A dialog with the hash of its transaction. Delegating to an address shows the error of the wallet;
  the three dialogs that delegate to oneself leave it unhandled.
\<close>

record DelegateDialog =
  dd_open :: bool
  dd_hash :: "string option"
  dd_messages :: "Toast list"

definition delegated :: "string \<Rightarrow> DelegateDialog \<Rightarrow> DelegateDialog" where
  "delegated h s = (if h = [] then s else s \<lparr>dd_open := False, dd_hash := Some h\<rparr>)"

definition delegate_answered :: "string option + string \<Rightarrow> DelegateDialog \<Rightarrow> DelegateDialog" where
  "delegate_answered answer s =
     (case answer of
        Inr h \<Rightarrow> delegated h s
      | Inl shortMessage \<Rightarrow>
          s \<lparr>dd_messages := dd_messages s @
            [ErrorToast (case shortMessage of None \<Rightarrow> ''Failed to delegate votes'' | Some m \<Rightarrow> m)]\<rparr>)"

definition delegate_myself :: "DaoContracts \<Rightarrow> Wallet \<Rightarrow> string option \<Rightarrow> ContractCall option" where
  "delegate_myself dao w address = (case setting address of None \<Rightarrow> None | Some a \<Rightarrow> delegate_call dao w a)"

definition myself_answered :: "string option + string \<Rightarrow> DelegateDialog \<Rightarrow> DelegateDialog" where
  "myself_answered answer s = (case answer of Inr h \<Rightarrow> delegated h s | Inl shortMessage \<Rightarrow> s)"

definition delegation_keys :: "string option \<Rightarrow> string option \<Rightarrow> string option \<Rightarrow> string list list" where
  "delegation_keys endpoint daoCode account =
     (case setting endpoint of
        None \<Rightarrow> []
      | Some e \<Rightarrow> [''dataMetrics'', e] #
          (case setting account of None \<Rightarrow> [] | Some a \<Rightarrow> [[''delegateMappings'', a, e]])) @
     (case setting daoCode of None \<Rightarrow> [] | Some c \<Rightarrow> [[''summaryProposalStates'', c]])"

definition mappings_key :: "string \<Rightarrow> string \<Rightarrow> string list" where
  "mappings_key address endpoint = [''delegateMappings'', address, endpoint]"

section \<open>The delegations received\<close>

definition delegations_order :: "VoteSortState \<Rightarrow> string" where
  "delegations_order st =
     (case (so_field st, so_direction st) of
        (ByDate, Asc) \<Rightarrow> ''blockTimestamp_ASC_NULLS_LAST''
      | (ByDate, Desc) \<Rightarrow> ''blockTimestamp_DESC_NULLS_LAST''
      | (ByPower, Asc) \<Rightarrow> ''power_ASC''
      | (ByPower, Desc) \<Rightarrow> ''power_DESC'')"

definition default_received_sort :: VoteSortState where
  "default_received_sort = \<lparr>so_field = ByDate, so_direction = Desc\<rparr>"

definition sort_received :: "VoteSortField \<Rightarrow> VoteSortDirection option \<Rightarrow> VoteSortState" where
  "sort_received field direction =
     (case direction of None \<Rightarrow> default_received_sort | Some d \<Rightarrow> \<lparr>so_field = field, so_direction = d\<rparr>)"

definition received_title :: "int option \<Rightarrow> string" where
  "received_title totalCount =
     (case totalCount of None \<Rightarrow> ''Received Delegations''
      | Some n \<Rightarrow> ''Received Delegations ('' @ int_text 10 n @ '')'')"

definition received_connection :: "Net \<Rightarrow> string \<Rightarrow> string \<Rightarrow> json option outcome" where
  "received_connection net endpoint address =
     getDelegateMappingsConnection net endpoint (JObject
       [(''where'', JObject [(''toDelegate_eq'', JString (to_lower address))]),
        (''orderBy'', JArray [JString ''id_ASC''])])"

definition totalPageCount :: "nat \<Rightarrow> nat" where
  "totalPageCount totalCount = max 1 ((totalCount + (DEFAULT_PAGE_SIZE - 1)) div DEFAULT_PAGE_SIZE)"

definition delegations_param :: "nat \<Rightarrow> PageParam" where
  "delegations_param currentPage =
     \<lparr>pp_offset = (currentPage - 1) * DEFAULT_PAGE_SIZE, pp_limit = DEFAULT_PAGE_SIZE\<rparr>"

definition delegations_query :: "Net \<Rightarrow> string \<Rightarrow> string \<Rightarrow> string \<Rightarrow> nat \<Rightarrow> json outcome" where
  "delegations_query net endpoint address orderBy currentPage =
     getAllDelegates net endpoint (JObject
       [(''limit'', JNumber (real (pp_limit (delegations_param currentPage)))),
        (''offset'', JNumber (real (pp_offset (delegations_param currentPage)))),
        (''orderBy'', JString orderBy), (''where'', JObject [(''toDelegate_eq'', JString (to_lower address))])])"

text \<open>The page that is shown: another order or address starts again, another count keeps it in range.\<close>

datatype PagerEvent = PreviousPage | NextPage | GoToPage nat | OrderChanged | CountChanged

fun pager_step :: "nat \<times> PagerEvent \<Rightarrow> nat \<Rightarrow> nat" where
  "pager_step (n, PreviousPage) p = max 1 (p - 1)"
| "pager_step (n, NextPage) p = min (totalPageCount n) (p + 1)"
| "pager_step (n, GoToPage q) p =
     (if List.member (paginationRange (int p) (int (totalPageCount n)) 1) (PageNo (int q)) then q else p)"
| "pager_step (n, OrderChanged) p = 1"
| "pager_step (n, CountChanged) p = (if totalPageCount n < p then totalPageCount n else p)"

definition delegator_addresses :: "(string list \<Rightarrow> string list) \<Rightarrow> string option list \<Rightarrow> string list" where
  "delegator_addresses locale_sort froms =
     locale_sort (filter (\<lambda>a. a \<noteq> []) (first_by (\<lambda>a. a) [] (map to_lower (List.map_filter id froms))))"

section \<open>The search for a proposal\<close>

definition markup_regex :: regex where
  "markup_regex = seq [Lit (CHR ''<''), Star True (Class (NoneOf ''>'')), Lit (CHR ''>'')]"

definition literal :: "string \<Rightarrow> regex" where
  "literal t = seq (map Lit t)"

definition stripHtmlTags :: "string \<Rightarrow> string" where
  "stripHtmlTags html =
     (let s = replace_all html markup_regex (\<lambda>_. []);
          s = replace_all s (literal ''&nbsp;'') (\<lambda>_. '' '');
          s = replace_all s (literal ''&amp;'') (\<lambda>_. ''&'');
          s = replace_all s (literal ''&lt;'') (\<lambda>_. ''<'');
          s = replace_all s (literal ''&gt;'') (\<lambda>_. ''>'');
          s = replace_all s (literal ''&quot;'') (\<lambda>_. [CHR 0x22]);
          s = replace_all s (literal ''&#39;'') (\<lambda>_. [CHR 0x27]);
          s = replace_all s (Plus True (Class Space)) (\<lambda>_. '' '')
      in trim s)"

definition search_query :: "Net \<Rightarrow> string \<Rightarrow> string \<Rightarrow> nat \<Rightarrow> json outcome" where
  "search_query net endpoint debouncedSearch offset =
     getProposalsByDescription net endpoint (JObject
       [(''where'', JObject [(''description_containsInsensitive'', JString debouncedSearch)]),
        (''limit'', JNumber (real DEFAULT_PAGE_SIZE)), (''offset'', JNumber (real offset)),
        (''orderBy'', JString ''blockTimestamp_DESC_NULLS_LAST'')])"

definition search_next :: "'r list \<Rightarrow> nat \<Rightarrow> nat option" where
  "search_next lastPage lastParam =
     (if length lastPage < DEFAULT_PAGE_SIZE then None else Some (lastParam + DEFAULT_PAGE_SIZE))"

definition search_enabled :: "string \<Rightarrow> bool \<Rightarrow> string option \<Rightarrow> bool" where
  "search_enabled debouncedSearch dialogOpen endpoint \<longleftrightarrow>
     debouncedSearch \<noteq> [] \<and> dialogOpen \<and> setting endpoint \<noteq> None"

end
