(* ===== verification/TokenDelegates.thy ===== *)
theory TokenDelegates
  imports TokenClaims
begin

text \<open>
  Whom an account's delegation mapping names after any run of the token handler: the delegate of the
  last change of delegate by that account. Votes changes and transfers write the power of a mapping
  and leave its delegate.
\<close>

lemma put_mapping_power_names:
  "map_option map_to (map_of (put_mapping_power f n t) a) = map_option map_to (map_of t a)"
  by (auto simp: put_mapping_power_def AList.update_conv' split: option.split)

lemma after_delegate_names [simp]: "delegate_of (after_delegate env d w) = delegate_of w"
  by (simp add: fun_eq_iff delegate_of_def after_delegate_def put_mapping_power_names Let_def)

lemma after_mapped_names [simp]: "delegate_of (after_mapped env ent m n w) = delegate_of w"
  by (simp add: after_mapped_def split: option.split)

lemma delegate_of_other_tables [simp]:
  "delegate_of (w\<lparr>delegateChangeds := t1\<rparr>) = delegate_of w"
  "delegate_of (w\<lparr>delegateVotesChangeds := t2\<rparr>) = delegate_of w"
  "delegate_of (w\<lparr>tokenTransfers := t3\<rparr>) = delegate_of w"
  "delegate_of (w\<lparr>delegateRollings := t4\<rparr>) = delegate_of w"
  by (simp_all add: delegate_of_def fun_eq_iff)

lemma storeDelegate_names:
  assumes "store_ok (te_store env)" and "token_inv w" and "storeDelegate env d w = Inr w'"
  shows "delegate_of w' = delegate_of w"
  using assms(3) storeDelegate_eq [OF assms(1) token_invD(1,3) [OF assms(2)]] by (auto simp: and_then_eq_Inr)

lemma after_changed_event_names:
  "delegate_of (after_changed_event l e w) = (delegate_of w)(ev_delegator e \<mapsto> ev_toDelegate e)"
  by (auto simp: fun_eq_iff delegate_of_def after_changed_event_def after_change_def put_mapping_def
      AList.update_conv' AList.delete_conv' new_mapping_def)

lemma change_names:
  assumes "store_ok (te_store env)" and "codec_ok (te_codec env)" and "token_inv w"
    and "decode_DelegateChanged (te_codec env) (itokenAbi env) l = Inr e"
    and "storeDelegateChanged env l w = Inr w'"
  shows "delegate_of w' = (delegate_of w)(ev_delegator e \<mapsto> ev_toDelegate e)"
proof -
  have fresh: "map_of (delegateChangeds w) (log_id l) = None" "map_of (delegateRollings w) (log_id l) = None"
    using storeDelegateChanged_inv [OF assms(1,3,5)] by blast+
  note eq = storeDelegateChanged_eq [OF assms(1,3,4) fresh]
  have "plain_change e" using codec_ok_plain [OF assms(2)] assms(4) by (auto simp: codec_plain_def)
  then have i: "token_inv (after_changed_event l e w)" by (rule after_changed_event_inv [OF assms(3)])
  have "delegate_of w' = delegate_of (after_changed_event l e w)"
  proof (cases "ev_fromDelegate e = zeroAddress \<and> ev_delegator e = ev_toDelegate e")
    case True
    with eq assms(5) have "storeDelegate env (self_delegate (delegate_changed_entity l e)) (after_changed_event l e w) = Inr w'"
      by simp
    then show ?thesis by (rule storeDelegate_names [OF assms(1) i])
  next
    case False
    with eq assms(5) show ?thesis by simp
  qed
  then show ?thesis by (simp add: after_changed_event_names)
qed

lemma rolling_saved_names:
  assumes "store_ok (te_store env)" and "token_inv w"
    and "and_then (save_DelegateRolling (te_store env) r w) (storeDelegate env d) = Inr w'"
  shows "delegate_of w' = delegate_of w"
proof -
  from token_invD(1) [OF assms(2)] have k: "keyed dr_id (delegateRollings w)" by (simp add: keyed_world_def)
  let ?w1 = "w\<lparr>delegateRollings := AList.update (dr_id r) r (delegateRollings w)\<rparr>"
  have "save_DelegateRolling (te_store env) r w = Inr ?w1" using k assms(1) by (simp add: save_rules)
  with assms(3) have d: "storeDelegate env d ?w1 = Inr w'" by simp
  have "keyed_world ?w1" "keyed_mappings (delegateMappings ?w1)"
    using token_invD(1,3) [OF assms(2)] k by (simp_all add: keyed_world_def keyed_update)
  from storeDelegate_eq [OF assms(1) this, of d] d
  have "and_then (normalizeDelegate d) (\<lambda>d. Inr (after_delegate env d ?w1)) = Inr w'" by simp
  then obtain d' where "w' = after_delegate env d' ?w1" by (auto simp: and_then_eq_Inr)
  then show ?thesis by simp
qed

lemma rolling_names:
  assumes "store_ok (te_store env)" and "token_inv w" and "updateDelegateRolling env options w = Inr w'"
  shows "delegate_of w' = delegate_of w"
proof -
  from assms(3) obtain found where found: "findOne (delegateRollingRepo (te_store env))
      (\<lambda>r. transactionHash r = transactionHash options) (delegateRollings w) = Inr found"
    by (auto simp: updateDelegateRolling_def and_then_eq_Inr)
  show ?thesis
  proof (cases "\<exists>r. found = Some r \<and> (to_lower (dvc_delegate options) = dr_fromDelegate r \<or>
      to_lower (dvc_delegate options) = dr_toDelegate r)")
    case False
    with assms(3) found have "w' = w"
      by (auto simp: updateDelegateRolling_def Let_def split: option.splits)
    then show ?thesis by simp
  next
    case True
    then obtain r where r: "found = Some r"
      "\<not> (to_lower (dvc_delegate options) \<noteq> dr_fromDelegate r \<and> to_lower (dvc_delegate options) \<noteq> dr_toDelegate r)"
      by blast
    obtain r' a b where "resolveRolling options r = (r', a, b)" by (metis prod_cases3)
    with assms(3) found r have "and_then (save_DelegateRolling (te_store env) r' w)
        (storeDelegate env (rolling_delegate options r' a b)) = Inr w'"
      by (simp add: updateDelegateRolling_def Let_def)
    then show ?thesis by (rule rolling_saved_names [OF assms(1,2)])
  qed
qed

lemma votes_names:
  assumes "store_ok (te_store env)" and "token_inv w" and "storeDelegateVotesChanged env l w = Inr w'"
  shows "delegate_of w' = delegate_of w"
proof -
  from token_invD(1) [OF assms(2)] have k: "keyed dvc_id (delegateVotesChangeds w)"
    by (simp add: keyed_world_def)
  obtain e where e: "decode_DelegateVotesChanged (te_codec env) (itokenAbi env) l = Inr e"
    "map_of (delegateVotesChangeds w) (log_id l) = None"
    using votes_fresh [OF assms] .
  let ?w = "w\<lparr>delegateVotesChangeds :=
    AList.update (log_id l) (votes_changed_entity l e) (delegateVotesChangeds w)\<rparr>"
  have "updateDelegateRolling env (votes_changed_entity l e) ?w = Inr w'"
    using assms e k by (simp add: storeDelegateVotesChanged_def insert_rules Let_def)
  from rolling_names [OF assms(1) _ this] assms(2) k show ?thesis by (simp add: keyed_update)
qed

lemma transfer_names:
  assumes "store_ok (te_store env)" and "token_inv w" and "storeTokenTransfer env l w = Inr w'"
  shows "delegate_of w' = delegate_of w"
proof -
  from token_invD(1) [OF assms(2)] have k: "keyed tt_id (tokenTransfers w)" by (simp add: keyed_world_def)
  from assms(3) obtain e t where e: "decode_Transfer (te_codec env) (itokenAbi env) l = Inr e"
    and t: "insert_row (tokenTransferRepo (te_store env)) (transfer_entity env l e) (tokenTransfers w) = Inr t"
    by (auto simp: storeTokenTransfer_def Let_def and_then_eq_Inr)
  from repository.insert_inv [OF store_ok_repositories(3) [OF assms(1)] k t]
  have "map_of (tokenTransfers w) (log_id l) = None" by simp
  from storeTokenTransfer_eq(1) [OF assms(1,2) e this] assms(3) show ?thesis
    by (auto simp: after_transfer_def Let_def)
qed

text \<open>The delegates the logs name, the last change of an account counting.\<close>

definition named_by :: "token_env \<Rightarrow> EvmLog \<Rightarrow> (string \<rightharpoonup> string) \<Rightarrow> string \<rightharpoonup> string" where
  "named_by env l f =
     (if has_topic l topic_DelegateChanged then
        (case decode_DelegateChanged (te_codec env) (itokenAbi env) l of
           Inl _ \<Rightarrow> f | Inr e \<Rightarrow> f(ev_delegator e \<mapsto> ev_toDelegate e))
      else f)"

definition last_delegates :: "token_env \<Rightarrow> EvmLog list \<Rightarrow> string \<rightharpoonup> string" where
  "last_delegates env ls = fold (named_by env) ls Map.empty"

lemma handle_token_names:
  assumes "store_ok (te_store env)" and "codec_ok (te_codec env)" and "token_inv w"
    and "handle_token env l w = Inr w'"
  shows "delegate_of w' = named_by env l (delegate_of w)"
proof -
  from assms(4) obtain w1 w2 where
    1: "(if has_topic l topic_DelegateChanged then storeDelegateChanged env l w else Inr w) = Inr w1"
    and 2: "(if has_topic l topic_DelegateVotesChanged then storeDelegateVotesChanged env l w1
      else Inr w1) = Inr w2"
    and 3: "(if has_topic l topic_Transfer then storeTokenTransfer env l w2 else Inr w2) = Inr w'"
    by (auto simp: handle_token_def and_then_eq_Inr)
  have i1: "token_inv w1" using 1 changed_step [OF assms(1-3)] assms(3) by (auto split: if_splits)
  have i2: "token_inv w2"
  proof (cases "has_topic l topic_DelegateVotesChanged")
    case True
    with 2 have s: "storeDelegateVotesChanged env l w1 = Inr w2" by simp
    obtain e where "decode_DelegateVotesChanged (te_codec env) (itokenAbi env) l = Inr e"
      "map_of (delegateVotesChangeds w1) (log_id l) = None"
      using votes_fresh [OF assms(1) i1 s] .
    from votes_step [OF assms(1,2) i1 this] s show ?thesis by simp
  next
    case False
    with 2 i1 show ?thesis by simp
  qed
  have "delegate_of w1 = named_by env l (delegate_of w)"
  proof (cases "has_topic l topic_DelegateChanged")
    case True
    with 1 have s: "storeDelegateChanged env l w = Inr w1" by simp
    obtain e where e: "decode_DelegateChanged (te_codec env) (itokenAbi env) l = Inr e"
      using storeDelegateChanged_inv [OF assms(1,3) s] .
    from change_names [OF assms(1-3) e s] True e show ?thesis by (simp add: named_by_def)
  qed (use 1 in \<open>simp add: named_by_def\<close>)
  moreover have "delegate_of w2 = delegate_of w1"
    using 2 votes_names [OF assms(1) i1] by (auto split: if_splits)
  moreover have "delegate_of w' = delegate_of w2"
    using 3 transfer_names [OF assms(1) i2] by (auto split: if_splits)
  ultimately show ?thesis by simp
qed

lemma run_names:
  assumes "store_ok (te_store env)" and "codec_ok (te_codec env)" and "token_inv w"
    and "fold_outcome (handle_token env) ls w = Inr w'"
  shows "token_inv w' \<and> delegate_of w' = fold (named_by env) ls (delegate_of w)"
  using assms(3,4)
proof (induction ls arbitrary: w)
  case (Cons l ls)
  then obtain w1 where w1: "handle_token env l w = Inr w1" "fold_outcome (handle_token env) ls w1 = Inr w'"
    by (auto simp: and_then_eq_Inr)
  with handle_token_step [OF assms(1,2) Cons.prems(1)] handle_token_names [OF assms(1,2) Cons.prems(1)]
    Cons.IH [of w1] show ?case by simp
qed simp

lemma indexer_names_last_delegates:
  assumes "store_ok (te_store env)" and "codec_ok (te_codec env)"
    and "fold_outcome (handle_token env) ls empty_world = Inr w"
  shows "token_inv w" and "delegate_of w = last_delegates env ls"
proof -
  have "delegate_of empty_world = Map.empty" by (simp add: delegate_of_def fun_eq_iff)
  with run_names [OF assms(1,2) token_inv_empty assms(3)]
  show "token_inv w" "delegate_of w = last_delegates env ls" by (simp_all add: last_delegates_def)
qed

end
