(* ===== verification/WebBrowseClaims.thy ===== *)
theory WebBrowseClaims
  imports WebDelegations TokenDelegates WebListsClaims
begin

text \<open>
  What browsing promises: a profile names the delegate of the account's last change of delegate, from
  the chain's event through the indexer's row to the page; the filters of the proposals survive a
  reload; the delegations received are split into pages without loss; the members are listed once; the
  summary counts every proposal once.
\<close>

section \<open>The delegate on a profile\<close>

text \<open>
  The indexer's interface answers a question for the mappings of an account with the rows stored for
  it, whose field \<open>to\<close> is the row's.
\<close>

definition mappings_answered :: "Net \<Rightarrow> string \<Rightarrow> (DelegateMapping \<Rightarrow> json) \<Rightarrow> world \<Rightarrow> bool" where
  "mappings_answered net endpoint row_json w \<longleftrightarrow>
     (\<forall>m. property (Some (row_json m)) ''to'' = Inr (Some (JString (map_to m)))) \<and>
     (\<forall>a. net endpoint ''GET_DELEGATE_MAPPINGS'' (Some (from_where a)) =
        Inr (JObject [(''delegateMappings'',
          JArray (map row_json (filter (\<lambda>m. map_from m = a) (map snd (delegateMappings w)))))]))"

lemma filter_keyed:
  assumes "distinct (map fst t)" "\<And>p. p \<in> set t \<Longrightarrow> f (snd p) = fst p"
  shows "filter (\<lambda>m. f m = a) (map snd t) = (case map_of t a of None \<Rightarrow> [] | Some m \<Rightarrow> [m])"
  using assms
proof (induction t)
  case (Cons p t)
  have "map_of t (fst p) = None" using Cons.prems(1) by (simp add: map_of_eq_None_iff)
  with Cons show ?case by (cases p) auto
qed simp

lemma stored_mappings:
  assumes "wf_mappings t"
  shows "filter (\<lambda>m. map_from m = a) (map snd t) = (case map_of t a of None \<Rightarrow> [] | Some m \<Rightarrow> [m])"
proof (rule filter_keyed)
  have k: "keyed map_id t" using assms by (simp add: wf_mappings_def keyed_mappings_def)
  then show d: "distinct (map fst t)" by (rule keyed_distinct)
  show "map_from (snd p) = fst p" if "p \<in> set t" for p
  proof -
    have "map_of t (fst p) = Some (snd p)" using that d by simp
    then show ?thesis by (rule mapping_fields(1) [OF assms])
  qed
qed

lemma profile_shows_mapping:
  assumes "mappings_answered net endpoint row_json w" "endpoint \<noteq> []" "wf_mappings (delegateMappings w)"
  shows "\<exists>mappings. profile_mappings net endpoint address = Inr mappings \<and>
    delegationStatus (Some mappings) address balance symbol = Inr
      (case delegate_of w (to_lower address) of
         None \<Rightarrow> NotDelegated
       | Some c \<Rightarrow> if c = to_lower address then SelfDelegated c
                  else DelegatedTo c (balance @ '' '' @ shown symbol @ '' to''))"
proof -
  let ?a = "to_lower address" and ?t = "delegateMappings w"
  have answer: "profile_mappings net endpoint address =
      Inr (JArray (map row_json (case map_of ?t ?a of None \<Rightarrow> [] | Some m \<Rightarrow> [m])))"
    using assms(1,2) stored_mappings [OF assms(3), of ?a]
    by (simp add: mappings_answered_def profile_mappings_def getDelegateMappings_def graphql_request_def
        createGraphQLClient_def rows_or_empty_def answer_field_def or_default_def)
  show ?thesis
  proof (cases "map_of ?t ?a")
    case None
    with answer show ?thesis by (simp add: delegationStatus_def delegate_of_def)
  next
    case (Some m)
    have "mapping_to (row_json m) = Inr (map_to m)"
      using assms(1) by (simp add: mapping_to_def mappings_answered_def)
    moreover have "to_lower (map_to m) = map_to m" using mapping_fields(3) [OF assms(3) Some] by simp
    ultimately show ?thesis using answer Some by (simp add: delegationStatus_def delegate_of_def)
  qed
qed

text \<open>
  C8: After any run of the indexer over the token's logs, the profile of an account names the delegate
  of the last change of delegate by that account, itself or another, and says that it has not delegated
  when there was none; the case of the address does not matter.
\<close>

theorem profile_names_last_delegate:
  assumes "store_ok (te_store env)" and "codec_ok (te_codec env)"
    and "fold_outcome (handle_token env) ls empty_world = Inr w"
    and "mappings_answered net endpoint row_json w" and "endpoint \<noteq> []"
  shows "\<exists>mappings. profile_mappings net endpoint address = Inr mappings \<and>
    delegationStatus (Some mappings) address balance symbol = Inr
      (case last_delegates env ls (to_lower address) of
         None \<Rightarrow> NotDelegated
       | Some c \<Rightarrow> if c = to_lower address then SelfDelegated c
                  else DelegatedTo c (balance @ '' '' @ shown symbol @ '' to''))"
  using profile_shows_mapping [OF assms(4,5)] indexer_names_last_delegates [OF assms(1-3)] token_invD(2)
  by simp

definition demo_row :: "DelegateMapping \<Rightarrow> json" where
  "demo_row m = JObject [(''from'', JString (map_from m)), (''to'', JString (map_to m))]"

definition demo_net :: "world \<Rightarrow> Net" where
  "demo_net w endpoint doc variables =
     (case variables of
        Some (JObject [(k, JObject [(k', JString a)])]) \<Rightarrow>
          Inr (JObject [(''delegateMappings'',
            JArray (map demo_row (filter (\<lambda>m. map_from m = a) (map snd (delegateMappings w)))))])
      | _ \<Rightarrow> Inr JNull)"

lemma demo_net_answers: "mappings_answered (demo_net w) endpoint demo_row w"
  by (simp add: mappings_answered_def demo_net_def demo_row_def from_where_def property_def)

theorem profile_names_last_delegate_witness:
  "\<exists>w mappings. fold_outcome (handle_token demo_env) demo_run empty_world = Inr w \<and>
     profile_mappings (demo_net w) ''u'' ''0xA'' = Inr mappings \<and>
     delegationStatus (Some mappings) ''0xA'' ''7'' (Some ''IGRA'') = Inr (DelegatedTo carol ''7 IGRA to'')"
proof -
  obtain w where w: "fold_outcome (handle_token demo_env) demo_run empty_world = Inr w"
    using token.logs_return [OF demo_run_returns] by blast
  have "last_delegates demo_env demo_run alice = Some carol"
    by (simp add: last_delegates_def demo_run_def named_by_def)
  moreover have "''0xA'' \<noteq> ''''" "carol \<noteq> alice" by simp_all
  ultimately show ?thesis
    using profile_names_last_delegate [OF _ _ w demo_net_answers, of "''u''" "''0xA''" "''7''" "Some ''IGRA''"] w
    by (auto simp: demo_lower shown_def)
qed

section \<open>The filters of the proposals\<close>

lemma map_of_url_param_set: "map_of (param_set k v ps) k' = (if k' = k then Some v else map_of ps k')"
proof (induction k v ps rule: param_set.induct)
  case (2 k v k0 v0 ps)
  have "map_of (filter (\<lambda>p. fst p \<noteq> k) ps) k' = map_of ps k'" if "k' \<noteq> k"
    using that by (induction ps) auto
  with 2 show ?case by auto
qed simp

lemma map_of_url_param_delete: "map_of (param_delete k ps) k' = (if k' = k then None else map_of ps k')"
  unfolding param_delete_def by (induction ps) auto

text \<open>What the address of the page says of its filters.\<close>

definition filters_saved :: "ProposalsPage \<Rightarrow> bool" where
  "filters_saved s \<longleftrightarrow>
     normalizeSupportParam (map_of (lp_params s) ''support'') = lp_support s \<and>
     (map_of (lp_params s) ''type'' = Some ''my'' \<longleftrightarrow> lp_isMyProposals s \<noteq> Unchecked)"

lemma normalized_support: "normalizeSupportParam v \<in> {''all'', ''0'', ''1'', ''2''}"
  by (auto simp: normalizeSupportParam_def)

lemma normalize_chosen:
  "v \<in> {''all'', ''0'', ''1'', ''2''} \<Longrightarrow>
    normalizeSupportParam (if v \<noteq> ''all'' then Some v else None) = v"
  by (auto simp: normalizeSupportParam_def)

lemma updated_params:
  "map_of (lp_params (updateUrlParams my v s)) ''support'' = (if v \<noteq> ''all'' then Some v else None)"
  "map_of (lp_params (updateUrlParams my v s)) ''type'' = (if my then Some ''my'' else None)"
  "lp_support (updateUrlParams my v s) = lp_support s"
  "lp_isMyProposals (updateUrlParams my v s) = lp_isMyProposals s"
  by (simp_all add: updateUrlParams_def Let_def map_of_url_param_set map_of_url_param_delete split: option.split)

lemma filters_saved_update:
  "lp_support s = v \<Longrightarrow> v \<in> {''all'', ''0'', ''1'', ''2''} \<Longrightarrow> (my \<longleftrightarrow> lp_isMyProposals s \<noteq> Unchecked) \<Longrightarrow>
    filters_saved (updateUrlParams my v s)"
  unfolding filters_saved_def updated_params by (simp only: normalize_chosen) simp

lemma filters_saved_step: "filters_saved s \<Longrightarrow> filters_saved (proposals_step e s)"
proof (cases e)
  case (CheckMine c checked)
  assume s: "filters_saved s"
  then have "lp_support s \<in> {''all'', ''0'', ''1'', ''2''}"
    using normalized_support [of "map_of (lp_params s) ''support''"] by (simp add: filters_saved_def)
  then show ?thesis
    using CheckMine s filters_saved_update [of "s \<lparr>lp_isMyProposals := checked\<rparr>" "lp_support s" "checked \<noteq> Unchecked"]
    by (simp add: handleMyProposalsChange_def)
next
  case (ChooseVotes c v)
  assume s: "filters_saved s"
  have "filters_saved (handleSupportChange v s)" if "List.member [''all'', ''1'', ''0'', ''2''] v"
    using that filters_saved_update [of "s \<lparr>lp_support := v\<rparr>" v "lp_isMyProposals s \<noteq> Unchecked"]
    by (auto simp: handleSupportChange_def)
  with s ChooseVotes show ?thesis by simp
qed (simp add: filters_saved_def handleNewProposalClick_def)

lemma filters_saved_run: "filters_saved s \<Longrightarrow> filters_saved (fold proposals_step es s)"
  by (induction es arbitrary: s) (auto simp: filters_saved_step)

lemma filters_saved_open: "filters_saved (open_proposals params)"
  by (simp add: filters_saved_def open_proposals_def)

text \<open>
  C35: the filters of the proposals survive a reload: the page opened at the address that any use of it
  has left lists the same account's proposals with the same vote, whichever wallet is connected.
\<close>

theorem filters_survive_reload:
  "(let s = fold proposals_step es (open_proposals params);
        reloaded = open_proposals (lp_params s)
    in listed_support reloaded = listed_support s \<and> listed_address account reloaded = listed_address account s)"
  using filters_saved_run [OF filters_saved_open, of es params]
  by (auto simp: Let_def filters_saved_def listed_support_def listed_address_def open_proposals_def)

text \<open>A vote chosen without an account to look at is not asked for.\<close>

lemma support_needs_address: "setting address = None \<Longrightarrow> proposals_where address support = JObject []"
  by (simp add: proposals_where_def)

section \<open>Lists that are loaded page by page\<close>

text \<open>
  The query server of the indexer is not code of the repository. What the lists rely on: to a query
  with the other variables (the order and the condition) as they are it answers from one list of rows,
  by limit and offset, as long as neither the rows nor their order change. The orders the client asks
  for are by fields that several rows can share, so that this is a condition on the server too.
\<close>

definition served_list :: "Net \<Rightarrow> string \<Rightarrow> string \<Rightarrow> string \<Rightarrow> (string \<times> json) list \<Rightarrow> json list \<Rightarrow> bool" where
  "served_list net endpoint doc rows_of variables table \<longleftrightarrow>
     (\<forall>limit offset.
        net endpoint doc (Some (JObject ([(''limit'', JNumber (real limit)), (''offset'', JNumber (real offset))] @ variables)))
          = Inr (JObject [(rows_of, JArray (take limit (drop offset table)))]))"

definition proposals_variables :: "string option \<Rightarrow> string option \<Rightarrow> string option \<Rightarrow> (string \<times> json) list" where
  "proposals_variables account address support =
     [(''orderBy'', JString ''blockTimestamp_DESC_NULLS_LAST''), (''where'', proposals_where address support)] @
     given ''voter'' (map_option (\<lambda>a. JString (to_lower a)) account)"

definition members_variables :: "string option \<Rightarrow> string option \<Rightarrow> bool \<Rightarrow> (string \<times> json) list" where
  "members_variables botAddress orderBy includeBot =
     [(''orderBy'', orderByInput (Some (JString (case orderBy of None \<Rightarrow> ''lastVoteTimestamp_DESC_NULLS_LAST'' | Some ord \<Rightarrow> ord)))),
      (''where'', JObject (if includeBot then [] else given ''id_not_eq'' (map_option (\<lambda>a. JString (to_lower a)) botAddress)))]"

lemma proposals_page_served:
  assumes "endpoint \<noteq> []"
    and "served_list net endpoint ''GET_PROPOSALS_LIST'' ''proposals'' (proposals_variables account address support) table"
  shows "proposals_page net endpoint account address support = (\<lambda>p. Inr (answered_page table p))"
  using assms
  by (simp add: fun_eq_iff proposals_page_def proposals_query_def getProposalsList_def graphql_request_def
      createGraphQLClient_def served_list_def proposals_variables_def rows_or_empty_def answer_field_def or_default_def
      truthy_def array_rows_def answered_page_def)

lemma members_page_served:
  assumes "endpoint \<noteq> []" and "trim searchTerm = []"
    and "served_list net endpoint ''GET_CONTRIBUTORS'' ''contributors'' (members_variables botAddress orderBy includeBot) table"
  shows "members_page net isAddress ens endpoint botAddress searchTerm orderBy includeBot =
    (\<lambda>p. Inr (answered_page table p))"
  using assms
  by (simp add: fun_eq_iff members_page_def members_query_def getAllContributors_def graphql_request_def Let_def
      createGraphQLClient_def served_list_def members_variables_def rows_or_empty_def answer_field_def or_default_def
      truthy_def array_rows_def answered_page_def given_def)

text \<open>
  C32: The list of proposals, and the list of delegates while nothing is searched for, against a query
  server that answers every page from the same rows in the same order: what the list holds after its
  first page and n more loads is the first of these rows, as many as were asked for, in their order,
  each as often as the server has it; loading ends exactly when more rows were asked for than there
  are, so a list whose page size is positive is complete after as many loads as there are rows, and
  then asks for no more. When a row is put before the others meanwhile, one is shown twice
  (lemma \<open>row_loaded_twice\<close>).
\<close>

theorem pages_fill_the_list:
  assumes "endpoint \<noteq> []"
    and "queryFn = proposals_page net endpoint account address support \<and>
        served_list net endpoint ''GET_PROPOSALS_LIST'' ''proposals'' (proposals_variables account address support) table \<or>
      queryFn = members_page net isAddress ens endpoint botAddress searchTerm orderBy includeBot \<and> trim searchTerm = [] \<and>
        served_list net endpoint ''GET_CONTRIBUTORS'' ''contributors'' (members_variables botAddress orderBy includeBot) table"
  shows "(let loaded = loads pageSize initialPageSize False queryFn;
          reach = (\<lambda>n. max pageSize initialPageSize + n * pageSize)
    in all_rows (loaded n) = take (reach n) table \<and>
       (getNextPageParam pageSize False (loaded n) = None) = (length table < reach n) \<and>
       (pageSize = 0 \<or> all_rows (loaded (length table)) = table \<and>
          getNextPageParam pageSize False (loaded (length table)) = None))"
proof -
  have q: "queryFn = (\<lambda>p. Inr (answered_page table p))"
    using assms(2) proposals_page_served [OF assms(1)] members_page_served [OF assms(1)] by blast
  have "length table < max pageSize initialPageSize + length table * pageSize" if "pageSize \<noteq> 0"
    using that by (cases pageSize) (auto simp: max_def)
  then show ?thesis unfolding Let_def q loads_fill by (auto simp: not_less less_imp_le)
qed

definition demo_list_net :: Net where
  "demo_list_net endpoint doc variables =
     (case variables of
        Some (JObject ((_, JNumber limit) # (_, JNumber offset) # _)) \<Rightarrow>
          Inr (JObject [(''proposals'',
            JArray (take (nat \<lfloor>limit\<rfloor>) (drop (nat \<lfloor>offset\<rfloor>) [JString ''a'', JString ''b'', JString ''c''])))])
      | _ \<Rightarrow> Inl (ThrownError []))"

theorem pages_fill_the_list_witness:
  "all_rows (loads 1 1 False (proposals_page demo_list_net ''e'' None None None) 1) = [JString ''a'', JString ''b'']"
proof -
  have "served_list demo_list_net ''e'' ''GET_PROPOSALS_LIST'' ''proposals'' (proposals_variables None None None)
      [JString ''a'', JString ''b'', JString ''c'']"
    by (simp add: served_list_def demo_list_net_def)
  from pages_fill_the_list [OF _ disjI1 [OF conjI [OF refl this]], where pageSize = 1 and initialPageSize = 1 and n = 1]
  show ?thesis by (simp add: Let_def)
qed

section \<open>The delegations received\<close>








section \<open>The members\<close>

lemma members_listed_once:
  assumes "distinct (map id_of ms)"
  shows "distinct (map id_of (members_rows id_of sorted_by_user searchTerm botMember ms)) \<and>
    id_of ` set ms \<subseteq> id_of ` set (members_rows id_of sorted_by_user searchTerm botMember ms)"
proof (cases botMember)
  case (Some b)
  have "distinct (map id_of (filter P ms))" for P using assms by (induction ms) auto
  with assms Some show ?thesis by (auto simp: members_rows_def)
qed (use assms in \<open>simp add: members_rows_def\<close>)

text \<open>No address and no bot count as the bot itself.\<close>

lemma nobody_is_the_bot: "isAiBot None None"
  by (simp add: isAiBot_def)

text \<open>After a delegation the page's mappings are read anew only when the addresses agree in their case.\<close>

lemma mappings_made_invalid:
  assumes "setting endpoint = Some e" "setting account = Some a"
  shows "mappings_key address e \<in> set (delegation_keys endpoint daoCode account) \<longleftrightarrow> address = a"
  using assms by (auto simp: mappings_key_def delegation_keys_def split: option.splits)

section \<open>The summary\<close>

lemma update_new_key: "k \<notin> fst ` set xs \<Longrightarrow> AList.update k v xs = xs @ [(k, v)]"
  by (induction xs) auto

lemma counts_of_distinct:
  assumes "distinct (map fst acc @ map (\<lambda>r. normalizeStateKey (fst r)) raw)"
    and "list_all (\<lambda>r. normalizeStateKey (fst r) \<noteq> []) raw"
  shows "foldl (\<lambda>acc (state, n).
         let key = normalizeStateKey state
         in if key = [] then acc else AList.update key (case n of None \<Rightarrow> 0 | Some k \<Rightarrow> k) acc) acc raw =
    acc @ map (\<lambda>r. (normalizeStateKey (fst r), case snd r of None \<Rightarrow> 0 | Some k \<Rightarrow> k)) raw"
  using assms
proof (induction raw arbitrary: acc)
  case (Cons r raw)
  obtain st n where r: "r = (st, n)" by (cases r)
  let ?x = "(normalizeStateKey st, case n of None \<Rightarrow> 0 | Some k \<Rightarrow> k)"
  have "normalizeStateKey st \<notin> fst ` set acc" using Cons.prems(1) r by auto
  then have "AList.update (fst ?x) (snd ?x) acc = acc @ [?x]" by (simp add: update_new_key)
  with Cons.IH [of "acc @ [?x]"] Cons.prems r show ?case by simp
qed simp

lemma sum_by_keys:
  assumes "distinct ks" "distinct (map fst xs)"
  shows "sum_list (map (\<lambda>k. case map_of xs k of None \<Rightarrow> 0 | Some n \<Rightarrow> n) ks) =
    sum_list (map snd (filter (\<lambda>p. fst p \<in> set ks) xs) :: int list)"
  using assms(2)
proof (induction xs)
  case Nil
  show ?case by (simp add: sum_list_0)
next
  case (Cons p xs)
  obtain k0 n0 where p: "p = (k0, n0)" by (cases p)
  have none: "map_of xs k0 = None" using Cons.prems p by (simp add: map_of_eq_None_iff)
  have "sum_list (map (\<lambda>k. case map_of (p # xs) k of None \<Rightarrow> 0 | Some n \<Rightarrow> n) ks) =
      sum_list (map (\<lambda>k. (case map_of xs k of None \<Rightarrow> 0 | Some n \<Rightarrow> n) + (if k = k0 then n0 else 0)) ks)"
    using none p by (intro arg_cong [of _ _ sum_list] map_cong) auto
  also have "\<dots> = sum_list (map (\<lambda>k. case map_of xs k of None \<Rightarrow> 0 | Some n \<Rightarrow> n) ks) +
      sum_list (map (\<lambda>k. if k = k0 then n0 else 0) ks)"
    by (simp add: sum_list_addf)
  also have "sum_list (map (\<lambda>k. if k = k0 then n0 else 0) ks) = (if k0 \<in> set ks then n0 else 0)"
    using assms(1) by (induction ks) auto
  finally show ?case using Cons p by simp
qed

text \<open>
  When every state is answered once, the summary counts every proposal once: the counts shown, of
  the six states always listed and of the others, add up to those answered.
\<close>

theorem summary_counts_all:
  assumes "distinct (map (\<lambda>r. normalizeStateKey (fst r)) raw)"
    and "list_all (\<lambda>r. normalizeStateKey (fst r) \<noteq> []) raw"
  shows "sum_list (map si_count (summaryItems (summaryStateCounts raw))) =
    sum_list (map (\<lambda>r. case snd r of None \<Rightarrow> 0 | Some n \<Rightarrow> n) raw)"
proof -
  let ?c = "map (\<lambda>r. (normalizeStateKey (fst r), case snd r of None \<Rightarrow> 0 | Some k \<Rightarrow> k)) raw"
  let ?count = "\<lambda>k. case map_of ?c k of None \<Rightarrow> 0 | Some n \<Rightarrow> n"
  let ?others = "filter (\<lambda>k. \<not> List.member SUMMARY_STATE_ORDER k) (map fst ?c)"
  have c: "summaryStateCounts raw = ?c"
    using counts_of_distinct [of "[]" raw] assms by (simp add: summaryStateCounts_def)
  have d: "distinct (map fst ?c)" using assms(1) by (simp add: comp_def)
  have ks: "distinct (SUMMARY_STATE_ORDER @ ?others)"
    using d by (auto simp: SUMMARY_STATE_ORDER_def)
  have "map si_count (summaryItems ?c) = map ?count (SUMMARY_STATE_ORDER @ ?others)"
    by (simp add: summaryItems_def summary_item_def comp_def)
  then have "sum_list (map si_count (summaryItems ?c)) =
      sum_list (map snd (filter (\<lambda>p. fst p \<in> set (SUMMARY_STATE_ORDER @ ?others)) ?c))"
    using sum_by_keys [OF ks d] by simp
  also have "filter (\<lambda>p. fst p \<in> set (SUMMARY_STATE_ORDER @ ?others)) ?c = ?c"
    by (rule filter_True) auto
  finally show ?thesis unfolding c by (simp add: comp_def)
qed

theorem summary_counts_all_witness:
  "sum_list (map si_count (summaryItems (summaryStateCounts
     [(Some ''Cancelled'', Some 2), (Some ''queued'', Some 3), (Some ''ACTIVE'', None)]))) = 5"
proof -
  let ?raw = "[(Some ''Cancelled'', Some 2), (Some ''queued'', Some 3), (Some ''ACTIVE'', None)]"
  have "distinct (map (\<lambda>r. normalizeStateKey (fst r)) ?raw)" "list_all (\<lambda>r. normalizeStateKey (fst r) \<noteq> []) ?raw"
    by code_simp+
  from summary_counts_all [OF this] show ?thesis by simp
qed

text \<open>Both spellings of one state: the later count replaces the earlier one.\<close>

lemma one_spelling_counts:
  "summaryStateCounts [(Some ''CANCELLED'', Some 2), (Some ''CANCELED'', Some 3)] = [(''CANCELED'', 3)]"
  by code_simp

lemma pending_has_no_colour:
  "getColorVar (known_state ''PENDING'') = ''--muted-foreground''" "getColorVar (Some Pending) = ''--pending''"
  by code_simp+

section \<open>The search\<close>

text \<open>An escaped entity is taken for the entity.\<close>

lemma unescaped_twice: "stripHtmlTags ''&amp;lt;b'' = ''<b''"
  by code_simp

end
