(* ===== verification/WebFrame.thy ===== *)
theory WebFrame
  imports WebSignIn JsonValue
begin

text \<open>
  What stands around every page of the web client (packages/web/src): where the configuration comes
  from and how it is refreshed (hooks/useConfigSWR.ts, providers/config.provider.tsx, lib/config.ts,
  app/_server/config-remote.ts), the overlay while something loads (contexts/GlobalLoadingContext.tsx),
  the menu (app/nav.tsx), the links to other sites (utils/social.ts, hooks/useDeGovAppsNavigation.ts),
  the sign-in status (hooks/useAuthStatus.ts) and the question before leaving a page with unsaved
  changes (hooks/useUnsavedChangesAlert.ts). A configuration is the JSON value its file stands for;
  reading YAML is a parameter. Then what holds of it: which configuration is shown while requests come
  and go, what the overlay and the menu show, whose tokens are kept, when a page asks before it is left.
\<close>

section \<open>The configuration's own form\<close>

fun processStandardProperties :: "json \<Rightarrow> json" where
  "processStandardProperties (JArray js) = JArray (map processStandardProperties js)"
| "processStandardProperties (JObject fs) =
     JObject (map (\<lambda>(k, v). (k,
       if k = ''standard'' then (case v of JString t \<Rightarrow> JString (to_upper t) | _ \<Rightarrow> processStandardProperties v)
       else processStandardProperties v)) fs)"
| "processStandardProperties j = j"

definition configsAreEqual :: "(real \<Rightarrow> string) \<Rightarrow> json option \<Rightarrow> json option \<Rightarrow> bool" where
  "configsAreEqual nt a b \<longleftrightarrow>
     a = b \<or> (truthy a \<and> truthy b \<and> stringify nt (the a) = stringify nt (the b))"

text \<open>An empty file stands for no value at all.\<close>

definition json_value :: "json \<Rightarrow> json option" where
  "json_value j = (if j = JNull then None else Some j)"

definition fetchConfig :: "'c Env \<Rightarrow> (string \<Rightarrow> FetchReply outcome) \<Rightarrow> (string \<Rightarrow> json outcome) \<Rightarrow> json outcome" where
  "fetchConfig E fetch yaml =
     (let configSource = (case degovApiDaoConfig E of None \<Rightarrow> ''/degov.yml'' | Some u \<Rightarrow> u)
      in and_then (fetch configSource) (\<lambda>response.
           if \<not> reply_ok response
           then Inl (ThrownError (''HTTP error! Status: '' @ decimal (reply_status response)))
           else yaml (reply_text response)))"

section \<open>The configuration while the page is open\<close>

text \<open>
  The requests under way carry whether they are the first ones of a page without a configuration,
  and whether their answer is to be ignored; the timer stands for the refresh that is still to be
  sent.
\<close>

record Request =
  rq_number :: nat
  rq_initial :: bool
  rq_ignore :: bool

record ConfigState =
  config :: "json option"
  config_loading :: bool
  config_error :: "failure option"
  requests :: "Request list"
  sent :: nat
  refresh_timer :: bool

definition AbortError :: failure where
  "AbortError = ThrownError ''AbortError''"

definition processed :: "json option \<Rightarrow> json option" where
  "processed j = map_option processStandardProperties j"

definition set_config :: "(real \<Rightarrow> string) \<Rightarrow> json option \<Rightarrow> json option \<Rightarrow> json option" where
  "set_config nt current new = (if configsAreEqual nt current new then current else new)"

definition send_request :: "bool \<Rightarrow> ConfigState \<Rightarrow> ConfigState" where
  "send_request initial s =
     s\<lparr>requests := \<lparr>rq_number = sent s, rq_initial = initial, rq_ignore = False\<rparr> # requests s, sent := sent s + 1\<rparr>"

definition cleanup :: "ConfigState \<Rightarrow> ConfigState" where
  "cleanup s = s\<lparr>requests := map (\<lambda>r. r\<lparr>rq_ignore := True\<rparr>) (requests s), refresh_timer := False\<rparr>"

definition adopt_initial :: "(real \<Rightarrow> string) \<Rightarrow> json option \<Rightarrow> ConfigState \<Rightarrow> ConfigState" where
  "adopt_initial nt initial s =
     (if truthy initial
      then s\<lparr>config := set_config nt (config s) (processed initial), config_loading := False, config_error := None\<rparr>
      else s\<lparr>config := None, config_loading := True, config_error := None\<rparr>)"

text \<open>The effects of another initial configuration, in the order of the hook.\<close>

definition initial_changed :: "(real \<Rightarrow> string) \<Rightarrow> bool \<Rightarrow> json option \<Rightarrow> ConfigState \<Rightarrow> ConfigState" where
  "initial_changed nt revalidateOnMount initial s =
     (let s1 = adopt_initial nt initial (cleanup s)
      in if \<not> truthy initial then send_request True s1
         else if revalidateOnMount then s1\<lparr>refresh_timer := True\<rparr> else s1)"

definition mounted :: "(real \<Rightarrow> string) \<Rightarrow> bool \<Rightarrow> json option \<Rightarrow> ConfigState" where
  "mounted nt revalidateOnMount initial =
     initial_changed nt revalidateOnMount initial
       \<lparr>config = (if truthy initial then processed initial else None), config_loading = \<not> truthy initial,
        config_error = None, requests = [], sent = 0, refresh_timer = False\<rparr>"

definition timer_fires :: "ConfigState \<Rightarrow> ConfigState" where
  "timer_fires s = (if refresh_timer s then send_request False (s\<lparr>refresh_timer := False\<rparr>) else s)"

definition first_answer :: "json outcome \<Rightarrow> ConfigState \<Rightarrow> ConfigState" where
  "first_answer answer s =
     (case answer of
        Inr j \<Rightarrow> s\<lparr>config := processed (json_value j), config_loading := False\<rparr>
      | Inl e \<Rightarrow>
          (if e \<noteq> AbortError then s\<lparr>config_error := Some e, config_loading := False\<rparr>
           else s\<lparr>config_loading := False\<rparr>))"

definition refresh_answer :: "(real \<Rightarrow> string) \<Rightarrow> json outcome \<Rightarrow> ConfigState \<Rightarrow> ConfigState" where
  "refresh_answer nt answer s =
     (case answer of
        Inr j \<Rightarrow> s\<lparr>config := set_config nt (config s) (processed (json_value j))\<rparr>
      | Inl e \<Rightarrow> s)"

definition answer_arrives :: "(real \<Rightarrow> string) \<Rightarrow> nat \<Rightarrow> json outcome \<Rightarrow> ConfigState \<Rightarrow> ConfigState" where
  "answer_arrives nt n answer s =
     (case find (\<lambda>r. rq_number r = n) (requests s) of
        None \<Rightarrow> s
      | Some r \<Rightarrow>
          let s1 = s\<lparr>requests := filter (\<lambda>r. rq_number r \<noteq> n) (requests s)\<rparr>
          in if rq_ignore r then s1
             else if rq_initial r then first_answer answer s1
             else refresh_answer nt answer s1)"

datatype ConfigEvent =
    InitialChanged "json option"
  | TimerFires
  | AnswerArrives nat "json outcome"

fun config_step :: "(real \<Rightarrow> string) \<Rightarrow> bool \<Rightarrow> ConfigEvent \<Rightarrow> ConfigState \<Rightarrow> ConfigState" where
  "config_step nt rv (InitialChanged v) s = initial_changed nt rv v s"
| "config_step nt rv TimerFires s = timer_fires s"
| "config_step nt rv (AnswerArrives n a) s = answer_arrives nt n a s"

text \<open>What the page shows of it.\<close>

datatype Shown = ErrorPage | NothingShown | Application json

definition shown_page :: "ConfigState \<Rightarrow> Shown" where
  "shown_page s =
     (if config_error s \<noteq> None then ErrorPage
      else if config_loading s \<or> \<not> truthy (config s) then NothingShown
      else Application (the (config s)))"

section \<open>The configuration on the server\<close>

definition defaultConfig :: json where
  "defaultConfig = JObject [(''name'', JString ''DeGov'')]"

definition getDaoConfigServer :: "string outcome \<Rightarrow> (string \<Rightarrow> json outcome) \<Rightarrow> json" where
  "getDaoConfigServer file yaml =
     (case file of
        Inl _ \<Rightarrow> defaultConfig
      | Inr yamlText \<Rightarrow>
          if yamlText = [] then defaultConfig
          else case yaml yamlText of
            Inr (JObject fs) \<Rightarrow>
              (case map_of fs ''name'' of Some (JString _) \<Rightarrow> JObject fs | _ \<Rightarrow> defaultConfig)
          | _ \<Rightarrow> defaultConfig)"

definition remote_config ::
  "'c Env \<Rightarrow> (string \<Rightarrow> string option \<Rightarrow> FetchReply outcome) \<Rightarrow> (string \<Rightarrow> json outcome) \<Rightarrow> json \<Rightarrow> string option \<Rightarrow> json" where
  "remote_config E fetch yaml localConfig host =
     (case degovApiDaoConfig E of
        None \<Rightarrow> localConfig
      | Some apiUrl \<Rightarrow>
          (case and_then (fetch apiUrl (setting host)) (\<lambda>res.
             if \<not> reply_ok res then Inl (ThrownError (''API '' @ decimal (reply_status res)))
             else yaml (reply_text res))
           of Inr result \<Rightarrow> result | Inl _ \<Rightarrow> localConfig))"

definition hostKey :: "string option \<Rightarrow> string" where
  "hostKey host = to_lower (case host of None \<Rightarrow> ''default'' | Some h \<Rightarrow> h)"

text \<open>The cache of the framework: what it holds for a key, or what is computed and kept.\<close>

definition getConfigCachedByHost ::
  "'c Env \<Rightarrow> (string \<Rightarrow> string option \<Rightarrow> FetchReply outcome) \<Rightarrow> (string \<Rightarrow> json outcome) \<Rightarrow> json \<Rightarrow> string option \<Rightarrow>
   (string \<rightharpoonup> json) \<Rightarrow> json \<times> (string \<rightharpoonup> json)" where
  "getConfigCachedByHost E fetch yaml localConfig host cache =
     (case cache (hostKey host) of
        Some c \<Rightarrow> (c, cache)
      | None \<Rightarrow>
          let c = remote_config E fetch yaml localConfig host in (c, cache(hostKey host \<mapsto> c)))"

section \<open>The overlay\<close>

type_synonym LoadingMap = "string \<rightharpoonup> bool"

definition setLoading :: "string \<Rightarrow> bool \<Rightarrow> LoadingMap \<Rightarrow> LoadingMap" where
  "setLoading key value prev =
     (if prev key = Some value then prev
      else if \<not> value then (prev(key \<mapsto> value))(key := None)
      else prev(key \<mapsto> value))"

definition isLoading :: "LoadingMap \<Rightarrow> bool" where
  "isLoading m \<longleftrightarrow> True \<in> ran m"

text \<open>The effect of a part that reports its loading: the former report is withdrawn first.\<close>

definition report_loading :: "string \<Rightarrow> bool \<Rightarrow> LoadingMap \<Rightarrow> LoadingMap" where
  "report_loading key value m = setLoading key value (setLoading key False m)"

section \<open>The menu\<close>

definition routes :: "(string \<times> string) list" where
  "routes = [(''dashboard'', ''/''), (''proposals'', ''/proposals''), (''delegates'', ''/delegates''),
     (''profile'', ''/profile''), (''treasury'', ''/treasury''), (''apps'', ''/apps'')]"

definition visibleRoutes :: "json list option \<Rightarrow> (string \<times> string) list" where
  "visibleRoutes apps =
     filter (\<lambda>(key, _). if key = ''apps'' then (case apps of None \<Rightarrow> False | Some as \<Rightarrow> as \<noteq> []) else True) routes"

definition isActiveRoute :: "string \<Rightarrow> string \<Rightarrow> bool" where
  "isActiveRoute pathname path \<longleftrightarrow>
     pathname = path \<or> starts_with pathname (path @ ''/'') \<or>
     (starts_with pathname ''/proposal'' \<and> path = ''/proposals'') \<or>
     (starts_with pathname ''/delegate'' \<and> path = ''/delegates'') \<or>
     (starts_with pathname ''/apps'' \<and> path = ''/apps'')"

section \<open>Links to other sites\<close>

definition without_at :: "string \<Rightarrow> string" where
  "without_at username = (if starts_with username ''@'' then drop 1 username else username)"

definition getTwitterLink :: "string option \<Rightarrow> string option" where
  "getTwitterLink username = map_option (\<lambda>u. ''https://twitter.com/'' @ without_at u) (setting username)"

definition getGithubLink :: "string option \<Rightarrow> string option" where
  "getGithubLink username = map_option (\<lambda>u. ''https://github.com/'' @ u) (setting username)"

definition getTelegramLink :: "string option \<Rightarrow> string option" where
  "getTelegramLink username = map_option (\<lambda>u. ''https://t.me/'' @ without_at u) (setting username)"

text \<open>\<open>encodeURIComponent\<close>: what is not kept is written byte by byte, in UTF-8.\<close>

definition uri_kept :: "char \<Rightarrow> bool" where
  "uri_kept c \<longleftrightarrow>
     (let n = (of_char c :: nat)
      in (48 \<le> n \<and> n \<le> 57) \<or> (65 \<le> n \<and> n \<le> 90) \<or> (97 \<le> n \<and> n \<le> 122) \<or> c \<in> set ''-_.!~*()'' \<or> n = 39)"

definition utf8_bytes :: "char \<Rightarrow> nat list" where
  "utf8_bytes c = (let n = of_char c in if n < 128 then [n] else [192 + n div 64, 128 + n mod 64])"

definition percent_byte :: "nat \<Rightarrow> string" where
  "percent_byte b = CHR ''%'' # to_upper (pad_start 2 (CHR ''0'') (nat_text 16 b))"

definition encodeURIComponent :: "string \<Rightarrow> string" where
  "encodeURIComponent t = concat (map (\<lambda>c. if uri_kept c then [c] else concat (map percent_byte (utf8_bytes c))) t)"

definition getDiscordLink :: "string option \<Rightarrow> string option" where
  "getDiscordLink tag = map_option (\<lambda>t. ''https://discord.com/users/'' @ encodeURIComponent t) (setting tag)"

record SocialLink =
  link_name :: string
  link_value :: "string option"
  link_target :: "string option"

record SocialNames =
  sn_twitter :: "string option"
  sn_github :: "string option"
  sn_telegram :: "string option"
  sn_discord :: "string option"

definition bot_links :: "SocialLink list" where
  "bot_links = map (\<lambda>(n, u). \<lparr>link_name = n, link_value = Some u, link_target = Some u\<rparr>)
     [(''Twitter'', ''https://x.com/ai_degov''), (''GitHub'', ''https://github.com/ringecosystem/degov''),
      (''Telegram'', ''https://t.me/RingDAO_Hub'')]"

definition socialLinks :: "SocialNames \<Rightarrow> bool \<Rightarrow> SocialLink list" where
  "socialLinks profile aiBot =
     (if aiBot then bot_links
      else filter (\<lambda>l. setting (link_value l) \<noteq> None)
        [\<lparr>link_name = ''Twitter'', link_value = sn_twitter profile, link_target = getTwitterLink (sn_twitter profile)\<rparr>,
         \<lparr>link_name = ''GitHub'', link_value = sn_github profile, link_target = getGithubLink (sn_github profile)\<rparr>,
         \<lparr>link_name = ''Telegram'', link_value = sn_telegram profile, link_target = getTelegramLink (sn_telegram profile)\<rparr>,
         \<lparr>link_name = ''Discord'', link_value = sn_discord profile, link_target = getDiscordLink (sn_discord profile)\<rparr>])"

definition useDeGovAppsNavigation :: "string \<Rightarrow> string option \<Rightarrow> storage \<Rightarrow> string option" where
  "useDeGovAppsNavigation appsUrl address st =
     (case setting address of
        None \<Rightarrow> None
      | Some a \<Rightarrow>
          (case setting (getRemoteToken (Some a) st) of
             None \<Rightarrow> None
           | Some remoteToken \<Rightarrow>
               Some (appsUrl @ ''/notification/subscription?token='' @ encodeURIComponent remoteToken @
                 ''&address='' @ encodeURIComponent a)))"

section \<open>The sign-in status\<close>

datatype AuthStatus = LoadingStatus | Unauthenticated | Authenticated

definition auth_status :: "bool \<Rightarrow> string option \<Rightarrow> storage \<Rightarrow> AuthStatus" where
  "auth_status is_mounted address st =
     (if \<not> is_mounted then LoadingStatus
      else if setting (getToken address st) \<noteq> None then Authenticated
      else Unauthenticated)"

text \<open>The address of the wallet changes: the tokens of the former one are dropped.\<close>

definition address_changed :: "string option \<Rightarrow> string option \<times> storage \<Rightarrow> string option \<times> storage" where
  "address_changed address s =
     (let (prev, st) = s
      in (address, if setting prev \<noteq> None \<and> prev \<noteq> address then clearAllTokens prev st else st))"

section \<open>Leaving with unsaved changes\<close>

record PageElement =
  tagName :: string
  attr_href :: "string option"
  has_target :: bool

definition is_anchor :: "PageElement \<Rightarrow> bool" where
  "is_anchor e \<longleftrightarrow> tagName e = ''A'' \<and> setting (attr_href e) \<noteq> None"

definition skipped_link :: "string \<Rightarrow> bool \<Rightarrow> bool" where
  "skipped_link href target \<longleftrightarrow>
     href = [] \<or> starts_with href ''#'' \<or> starts_with href ''http'' \<or> starts_with href ''mailto:'' \<or>
     starts_with href ''tel:'' \<or> target"

datatype ClickEnd = FollowsLink string | LinkStopped | NotAskedFor

text \<open>
  A click on an element, given with its ancestors from the inside out; the user's answer to the
  question. A link that is skipped is followed unasked.
\<close>

definition asks_before :: "bool \<Rightarrow> bool \<Rightarrow> PageElement list \<Rightarrow> string option" where
  "asks_before enabled hasChanges path =
     (if \<not> enabled \<or> \<not> hasChanges then None
      else case find is_anchor path of
        None \<Rightarrow> None
      | Some anchor \<Rightarrow>
          if skipped_link (the (attr_href anchor)) (has_target anchor) then None else attr_href anchor)"

definition handleClick :: "bool \<Rightarrow> bool \<Rightarrow> PageElement list \<Rightarrow> bool \<Rightarrow> ClickEnd" where
  "handleClick enabled hasChanges path confirmed =
     (case asks_before enabled hasChanges path of
        Some href \<Rightarrow> if confirmed then FollowsLink href else LinkStopped
      | None \<Rightarrow> NotAskedFor)"

definition beforeunload :: "bool \<Rightarrow> bool \<Rightarrow> string \<Rightarrow> string option" where
  "beforeunload enabled hasChanges message = (if \<not> enabled \<or> \<not> hasChanges then None else Some message)"

section \<open>What holds of the frame\<close>

text \<open>
  What holds of the frame around the pages: which configuration is shown while requests come and
  go, what the overlay and the menu show, whose tokens are kept, and when a page asks before it is
  left.
\<close>

section \<open>The configuration while the page is open\<close>

abbreviation config_run :: "(real \<Rightarrow> string) \<Rightarrow> bool \<Rightarrow> ConfigEvent list \<Rightarrow> ConfigState \<Rightarrow> ConfigState" where
  "config_run nt rv evs s \<equiv> foldl (\<lambda>s e. config_step nt rv e s) s evs"

lemmas config_defs = initial_changed_def cleanup_def adopt_initial_def send_request_def timer_fires_def
  answer_arrives_def first_answer_def refresh_answer_def Let_def

text \<open>Requests are numbered in the order they are sent.\<close>

definition numbered :: "ConfigState \<Rightarrow> bool" where
  "numbered s \<longleftrightarrow> (\<forall>r \<in> set (requests s). rq_number r < sent s)"

lemma numbered_step: "numbered s \<Longrightarrow> numbered (config_step nt rv e s)"
  by (cases e) (auto simp: numbered_def config_defs split: option.split sum.split)

lemma numbered_run: "numbered s \<Longrightarrow> numbered (config_run nt rv evs s)"
  by (induction evs arbitrary: s) (auto intro: numbered_step)

lemma numbered_mounted: "numbered (mounted nt rv v)"
  by (simp add: mounted_def numbered_def config_defs)

text \<open>Two states that differ in ignored requests with numbers below \<open>n\<close> only.\<close>

definition same_beyond :: "nat \<Rightarrow> ConfigState \<Rightarrow> ConfigState \<Rightarrow> bool" where
  "same_beyond n s t \<longleftrightarrow>
     config s = config t \<and> config_loading s = config_loading t \<and> config_error s = config_error t \<and>
     sent s = sent t \<and> n \<le> sent s \<and> refresh_timer s = refresh_timer t \<and>
     filter (\<lambda>r. n \<le> rq_number r) (requests s) = filter (\<lambda>r. n \<le> rq_number r) (requests t) \<and>
     (\<forall>r \<in> set (requests s). rq_number r < n \<longrightarrow> rq_ignore r)"

definition fresh_event :: "nat \<Rightarrow> ConfigEvent \<Rightarrow> bool" where
  "fresh_event n e \<longleftrightarrow> (case e of AnswerArrives k _ \<Rightarrow> n \<le> k | _ \<Rightarrow> True)"

lemma find_filtered:
  assumes "\<And>x. P x \<Longrightarrow> Q x"
  shows "find P xs = find P (filter Q xs)"
  using assms by (induction xs) auto

lemma find_beyond:
  assumes "same_beyond n s t" "n \<le> k"
  shows "find (\<lambda>r. rq_number r = k) (requests s) = find (\<lambda>r. rq_number r = k) (requests t)"
  using assms find_filtered [of "\<lambda>r. rq_number r = k" "\<lambda>r. n \<le> rq_number r" "requests s"]
    find_filtered [of "\<lambda>r. rq_number r = k" "\<lambda>r. n \<le> rq_number r" "requests t"]
  by (simp add: same_beyond_def)

lemma filter_number_map:
  "filter (\<lambda>r. n \<le> rq_number r) (map (\<lambda>r. r\<lparr>rq_ignore := True\<rparr>) rs) =
     map (\<lambda>r. r\<lparr>rq_ignore := True\<rparr>) (filter (\<lambda>r. n \<le> rq_number r) rs)"
  by (induction rs) auto

lemma filter_swap: "filter P (filter Q xs) = filter Q (filter P xs)"
  by (induction xs) auto

lemma same_beyond_removed:
  assumes "same_beyond n s t"
  shows "same_beyond n (s\<lparr>requests := filter (\<lambda>r. rq_number r \<noteq> k) (requests s)\<rparr>)
           (t\<lparr>requests := filter (\<lambda>r. rq_number r \<noteq> k) (requests t)\<rparr>)"
  using assms filter_swap [of "\<lambda>r. n \<le> rq_number r" "\<lambda>r. rq_number r \<noteq> k" "requests s"]
    filter_swap [of "\<lambda>r. n \<le> rq_number r" "\<lambda>r. rq_number r \<noteq> k" "requests t"]
  by (simp add: same_beyond_def)

lemma same_beyond_answer:
  assumes "same_beyond n s t"
  shows "same_beyond n (first_answer a s) (first_answer a t)" "same_beyond n (refresh_answer nt a s) (refresh_answer nt a t)"
  using assms by (auto simp: same_beyond_def first_answer_def refresh_answer_def split: sum.split)

lemma same_beyond_step:
  assumes "same_beyond n s t" "fresh_event n e"
  shows "same_beyond n (config_step nt rv e s) (config_step nt rv e t)"
proof (cases e)
  case (InitialChanged v)
  with assms show ?thesis
    by (auto simp: same_beyond_def initial_changed_def cleanup_def adopt_initial_def send_request_def Let_def filter_number_map)
next
  case TimerFires
  with assms show ?thesis by (auto simp: same_beyond_def timer_fires_def send_request_def)
next
  case (AnswerArrives k a)
  with assms have "n \<le> k" by (simp add: fresh_event_def)
  from find_beyond [OF assms(1) this] same_beyond_removed [OF assms(1), of k] AnswerArrives assms(1) show ?thesis
    by (auto simp: answer_arrives_def Let_def same_beyond_answer split: option.split)
qed

lemma stale_answer:
  assumes "same_beyond n s t" "\<not> fresh_event n e"
  shows "same_beyond n (config_step nt rv e s) t"
proof -
  obtain k a where e: "e = AnswerArrives k a" and k: "k < n"
    using assms(2) by (cases e) (auto simp: fresh_event_def)
  have same: "filter (\<lambda>r. n \<le> rq_number r) (filter (\<lambda>r. rq_number r \<noteq> k) rs) = filter (\<lambda>r. n \<le> rq_number r) rs"
    for rs :: "Request list"
    using k by (induction rs) auto
  show ?thesis
  proof (cases "find (\<lambda>r. rq_number r = k) (requests s)")
    case None
    with e assms(1) show ?thesis by (simp add: answer_arrives_def)
  next
    case (Some r)
    then have "r \<in> set (requests s)" "rq_number r = k" by (auto simp: find_Some_iff)
    with assms(1) k have "rq_ignore r" by (auto simp: same_beyond_def)
    with Some e assms(1) same show ?thesis by (auto simp: answer_arrives_def Let_def same_beyond_def)
  qed
qed

lemma same_beyond_run:
  "same_beyond n s t \<Longrightarrow> same_beyond n (config_run nt rv evs s) (config_run nt rv (filter (fresh_event n) evs) t)"
proof (induction evs arbitrary: s t)
  case (Cons e evs)
  then show ?case
    using same_beyond_step [OF Cons.prems, of e nt rv] stale_answer [OF Cons.prems, of e nt rv] by auto
qed simp

lemma changed_ignores_all:
  assumes "numbered s"
  shows "same_beyond (sent s) (initial_changed nt rv v s) (initial_changed nt rv v s)"
  using assms by (auto simp: same_beyond_def numbered_def initial_changed_def cleanup_def adopt_initial_def send_request_def Let_def)

text \<open>
  C34: After the page is given another initial configuration, the answers to requests sent before
  make no difference to what it shows, whenever they arrive and whatever they are.
\<close>

theorem stale_answers_change_nothing:
  "let s = config_run nt rv before (mounted nt rv v0);
       t = config_step nt rv (InitialChanged v) s
   in shown_page (config_run nt rv later t) =
      shown_page (config_run nt rv (filter (fresh_event (sent s)) later) t)"
proof -
  let ?s = "config_run nt rv before (mounted nt rv v0)"
  have "numbered ?s" by (rule numbered_run [OF numbered_mounted])
  from same_beyond_run [OF changed_ignores_all [OF this, of nt rv v], of nt rv later] show ?thesis
    by (simp add: Let_def same_beyond_def shown_page_def)
qed

text \<open>A page that opened with a configuration keeps showing one.\<close>

definition sound_event :: "ConfigEvent \<Rightarrow> bool" where
  "sound_event e \<longleftrightarrow>
     (case e of
        InitialChanged v \<Rightarrow> truthy v
      | TimerFires \<Rightarrow> True
      | AnswerArrives n a \<Rightarrow> (case a of Inr j \<Rightarrow> truthy (Some j) | Inl _ \<Rightarrow> True))"

definition settled_config :: "ConfigState \<Rightarrow> bool" where
  "settled_config s \<longleftrightarrow>
     truthy (config s) \<and> \<not> config_loading s \<and> config_error s = None \<and>
     (\<forall>r \<in> set (requests s). rq_initial r \<longrightarrow> rq_ignore r)"

lemma truthy_processed: "truthy v \<Longrightarrow> truthy (processed v)"
  by (cases v; cases "the v") (auto simp: processed_def truthy_def)

lemma truthy_answer: "truthy (Some j) \<Longrightarrow> truthy (json_value j)"
  by (auto simp: json_value_def truthy_def)

lemma settled_step:
  assumes "settled_config s" "sound_event e"
  shows "settled_config (config_step nt rv e s)"
proof (cases e)
  case (InitialChanged v)
  with assms truthy_processed [of v] show ?thesis
    by (auto simp: settled_config_def sound_event_def initial_changed_def cleanup_def adopt_initial_def set_config_def Let_def)
next
  case TimerFires
  with assms show ?thesis by (auto simp: settled_config_def timer_fires_def send_request_def)
next
  case (AnswerArrives n a)
  show ?thesis
  proof (cases "find (\<lambda>r. rq_number r = n) (requests s)")
    case None
    with assms AnswerArrives show ?thesis by (simp add: answer_arrives_def)
  next
    case (Some r)
    then have "r \<in> set (requests s)" by (auto simp: find_Some_iff)
    with assms(1) have "rq_initial r \<longrightarrow> rq_ignore r" by (auto simp: settled_config_def)
    with Some assms AnswerArrives show ?thesis
      by (auto simp: answer_arrives_def settled_config_def refresh_answer_def set_config_def sound_event_def Let_def
          intro!: truthy_processed truthy_answer split: sum.splits)
  qed
qed

lemma settled_run: "settled_config s \<Longrightarrow> list_all sound_event evs \<Longrightarrow> settled_config (config_run nt rv evs s)"
  by (induction evs arbitrary: s) (auto intro: settled_step)

lemma settled_mounted: "truthy v \<Longrightarrow> settled_config (mounted nt rv v)"
  using truthy_processed [of v]
  by (auto simp: mounted_def settled_config_def initial_changed_def cleanup_def adopt_initial_def set_config_def Let_def)

lemma config_stays_shown:
  assumes "truthy v" "list_all sound_event evs"
  shows "\<exists>c. shown_page (config_run nt rv evs (mounted nt rv v)) = Application c"
  using settled_run [OF settled_mounted [OF assms(1), of nt rv] assms(2)] by (simp add: settled_config_def shown_page_def)

text \<open>An empty answer to the refresh takes the configuration, and with it the page, away.\<close>

lemma empty_refresh_blanks_page:
  assumes "truthy v"
  shows "shown_page (config_run nt True [TimerFires, AnswerArrives 0 (Inr JNull)] (mounted nt True v)) = NothingShown"
  using assms truthy_processed [OF assms]
  by (simp add: mounted_def config_defs set_config_def configsAreEqual_def json_value_def processed_def shown_page_def
      truthy_def [of None] del: not_None_eq)

text \<open>A first request that failed is not repeated: the error stays until the page gets another configuration.\<close>

lemma failed_first_request_stays:
  assumes "e \<noteq> AbortError" "\<not> truthy v" "\<forall>ev \<in> set evs. \<not> (\<exists>v. ev = InitialChanged v)"
  shows "shown_page (config_run nt rv (AnswerArrives 0 (Inl e) # evs) (mounted nt rv v)) = ErrorPage"
proof -
  define quiet where "quiet s \<longleftrightarrow> config_error s \<noteq> None \<and> requests s = [] \<and> \<not> refresh_timer s"
    for s :: ConfigState
  have "quiet (config_run nt rv evs s)" if "quiet s" for s
    using that assms(3)
  proof (induction evs arbitrary: s)
    case (Cons ev evs)
    then have "quiet (config_step nt rv ev s)" by (cases ev) (auto simp: quiet_def timer_fires_def answer_arrives_def)
    with Cons show ?case by simp
  qed simp
  moreover have "quiet (config_step nt rv (AnswerArrives 0 (Inl e)) (mounted nt rv v))"
    using assms(1,2) by (simp add: quiet_def mounted_def config_defs)
  ultimately show ?thesis by (simp add: quiet_def shown_page_def)
qed

section \<open>The configuration's form\<close>

lemma upper_char_idem: "upper_char (upper_char c) = upper_char c"
proof (cases "97 \<le> (of_char c :: nat) \<and> of_char c \<le> (122 :: nat)")
  case True
  then have "(of_char c - 32) mod 256 = (of_char c - 32 :: nat)" by (intro mod_less) linarith
  with True show ?thesis by (auto simp: upper_char_def Let_def)
next
  case False
  then have "upper_char c = c" by (auto simp: upper_char_def)
  then show ?thesis by simp
qed

lemma to_upper_idem: "to_upper (to_upper t) = to_upper t"
  by (simp add: to_upper_def upper_char_idem)

text \<open>Taking in a configuration that was taken in before changes nothing.\<close>

lemma processed_twice: "processStandardProperties (processStandardProperties j) = processStandardProperties j"
proof (induction j)
  case (JObject fs)
  have "(if k = ''standard''
      then (case w of JString t \<Rightarrow> JString (to_upper t) | _ \<Rightarrow> processStandardProperties w)
      else processStandardProperties w) = w"
    if kv: "(k, v) \<in> set fs" and w: "w = (if k = ''standard''
      then (case v of JString t \<Rightarrow> JString (to_upper t) | _ \<Rightarrow> processStandardProperties v)
      else processStandardProperties v)" for k v w
  proof -
    have IH: "processStandardProperties (processStandardProperties v) = processStandardProperties v"
      using JObject [OF kv] by simp
    show ?thesis
    proof (cases "k = ''standard''")
      case True
      with IH show ?thesis by (cases v) (simp_all add: w to_upper_idem)
    next
      case False
      with IH show ?thesis by (simp add: w)
    qed
  qed
  then show ?case by (auto simp: comp_def)
qed simp_all

text \<open>Configurations whose numbers can be written are told apart by their texts exactly.\<close>

lemma equal_configs:
  assumes "a \<noteq> None \<Longrightarrow> writable nt (the a)" "b \<noteq> None \<Longrightarrow> writable nt (the b)"
  shows "configsAreEqual nt a b \<longleftrightarrow> a = b"
proof -
  have "a = b" if "truthy a" "truthy b" and same: "stringify nt (the a) = stringify nt (the b)"
  proof -
    from that obtain x y where xy: "a = Some x" "b = Some y" by (auto simp: truthy_def split: option.splits)
    have px: "JSON_parse (stringify nt x) = Inr x" by (rule parse_stringify) (use assms(1) xy in simp)
    have py: "JSON_parse (stringify nt y) = Inr y" by (rule parse_stringify) (use assms(2) xy in simp)
    have "stringify nt x = stringify nt y" using same unfolding xy option.sel .
    from px [unfolded this] py have "Inr x = (Inr y :: json outcome)" by (rule trans [OF sym])
    then show ?thesis by (simp add: xy)
  qed
  then show ?thesis unfolding configsAreEqual_def by blast
qed

section \<open>The configuration on the server\<close>

lemma local_config_named: "\<exists>fs t. getDaoConfigServer file yaml = JObject fs \<and> map_of fs ''name'' = Some (JString t)"
  by (auto simp: getDaoConfigServer_def defaultConfig_def split: sum.split json.split option.split)

text \<open>What a host is answered does not depend on its spelling, once it is in the cache.\<close>

lemma host_spelling:
  assumes "getConfigCachedByHost E fetch yaml localConfig host cache = (c, cache')"
    and "to_lower host' = to_lower (the host)" "host \<noteq> None"
  shows "getConfigCachedByHost E fetch yaml localConfig (Some host') cache' = (c, cache')"
  using assms by (auto simp: getConfigCachedByHost_def hostKey_def Let_def split: option.splits)

text \<open>The remote configuration is not looked into: an empty answer is handed on, where the file's would not be.\<close>

lemma remote_config_unchecked:
  assumes "degovApiDaoConfig E = Some u" "yaml t = Inr JNull"
    and "fetch u (setting host) = Inr \<lparr>reply_ok = True, reply_status = 200, reply_text = t\<rparr>"
  shows "remote_config E fetch yaml localConfig host = JNull" "getDaoConfigServer (Inr t) yaml = defaultConfig"
  using assms by (simp_all add: remote_config_def getDaoConfigServer_def)

section \<open>The overlay and the menu\<close>

text \<open>The overlay is shown exactly while the last report of some part is that it loads.\<close>

definition last_report :: "(string \<times> bool) list \<Rightarrow> string \<Rightarrow> bool" where
  "last_report calls key \<longleftrightarrow> map_of (rev calls) key = Some True"

lemma setLoading_at: "(setLoading key value m k = Some True) \<longleftrightarrow> (if k = key then value else m k = Some True)"
  by (auto simp: setLoading_def)

lemma overlay_shows_last_reports:
  "isLoading (foldl (\<lambda>m (key, value). setLoading key value m) Map.empty calls) \<longleftrightarrow> (\<exists>key. last_report calls key)"
proof -
  have "(foldl (\<lambda>m (key, value). setLoading key value m) m calls key = Some True) \<longleftrightarrow>
      (case map_of (rev calls) key of None \<Rightarrow> m key = Some True | Some v \<Rightarrow> v)" for m key
  proof (induction calls arbitrary: m)
    case (Cons c calls)
    obtain k v where c: "c = (k, v)" by (cases c)
    show ?case
      using Cons.IH [of "setLoading k v m"]
      by (auto simp: c setLoading_at map_add_def split: option.splits)
  qed simp
  from this [of Map.empty] show ?thesis
    by (auto simp: isLoading_def last_report_def ran_def split: option.splits)
qed

text \<open>At most one entry of the menu is marked, whatever the page.\<close>

lemma active_route_start:
  assumes "isActiveRoute p r" and "r \<in> {''/proposals'', ''/delegates'', ''/profile'', ''/treasury'', ''/apps''}"
  shows "take 5 p = take 5 r"
proof -
  have "starts_with p t \<Longrightarrow> 5 \<le> length t \<Longrightarrow> take 5 p = take 5 t" for t
    unfolding starts_with_def by (metis min.absorb1 take_take)
  with assms show ?thesis by (fastforce simp: isActiveRoute_def)
qed

lemma active_dashboard: "isActiveRoute p ''/'' \<Longrightarrow> p = ''/'' \<or> take 2 p = ''//''"
  by (auto simp: isActiveRoute_def starts_with_def numeral_2_eq_2)

lemma one_route_active: "length (filter (\<lambda>(_, r). isActiveRoute pathname r) (visibleRoutes apps)) \<le> 1"
proof -
  have d: "take 5 pathname = ''/'' \<or> take (Suc (Suc 0)) (take 5 pathname) = ''//''" if "isActiveRoute pathname ''/''"
    using active_dashboard [OF that] by (auto simp: numeral_2_eq_2)
  note a = active_route_start [of pathname]
  have "length (filter (\<lambda>(_, r). isActiveRoute pathname r) routes) \<le> 1"
    using d a [of "''/proposals''"] a [of "''/delegates''"] a [of "''/profile''"] a [of "''/treasury''"] a [of "''/apps''"]
    by (simp add: routes_def del: take_take) (auto simp del: take_take)
  moreover have "length (filter P (filter Q xs)) \<le> length (filter P xs)" for P Q and xs :: "(string \<times> string) list"
    by (induction xs) auto
  ultimately show ?thesis unfolding visibleRoutes_def by (meson order_trans)
qed

section \<open>Links to other sites\<close>

text \<open>A person's links are to the four sites the names are on, however the names are spelt.\<close>

lemma links_lead_to_sites:
  "\<forall>l \<in> set (socialLinks profile False). \<exists>u. link_target l = Some u \<and>
     (\<exists>site \<in> {''https://twitter.com/'', ''https://github.com/'', ''https://t.me/'', ''https://discord.com/users/''}.
        starts_with u site)"
  by (auto simp: socialLinks_def getTwitterLink_def getGithubLink_def getTelegramLink_def getDiscordLink_def
      starts_with_append setting_def split: option.splits if_splits)

section \<open>The sign-in status\<close>

lemma token_keys_apart: "getTokenKey a \<noteq> getRemoteTokenKey b"
  by (auto simp: getTokenKey_def getRemoteTokenKey_def TOKEN_KEY_PREFIX_def REMOTE_TOKEN_KEY_PREFIX_def setting_def
      split: option.split)

lemma cleared_stays: "st k = None \<Longrightarrow> clearAllTokens a st k = None"
  by (simp add: clearAllTokens_def clearRemoteToken_def clearToken_def setToken_def setRemoteToken_def setting_def)

lemma cleared_tokens:
  "getToken a (clearAllTokens a st) = None" "getRemoteToken a (clearAllTokens a st) = None"
  by (simp_all add: clearAllTokens_def clearRemoteToken_def clearToken_def setToken_def setRemoteToken_def
      getToken_def getRemoteToken_def setting_def token_keys_apart)

text \<open>
  However the wallet's accounts change, an account that was left has no token in the browser, be it
  the local server's or the remote one's.
\<close>

definition signed_out :: "string \<Rightarrow> storage \<Rightarrow> bool" where
  "signed_out a st \<longleftrightarrow> getToken (Some a) st = None \<and> getRemoteToken (Some a) st = None"

lemma signed_out_stays: "signed_out a st \<Longrightarrow> signed_out a (snd (address_changed b (p, st)))"
  by (simp add: signed_out_def address_changed_def getToken_def getRemoteToken_def cleared_stays)

lemma left_account_signed_out:
  assumes "a \<noteq> []" "b \<noteq> Some a"
  shows "signed_out a (snd (foldl (\<lambda>s x. address_changed x s) (Some a, st) (b # later)))"
proof -
  have stays: "signed_out a (snd (foldl (\<lambda>s x. address_changed x s) s later))" if "signed_out a (snd s)" for s
    using that
  proof (induction later arbitrary: s)
    case (Cons x xs)
    then show ?case using signed_out_stays [of a "snd s" x "fst s"] by simp
  qed simp
  have "signed_out a (snd (address_changed b (Some a, st)))"
    using assms by (auto simp: address_changed_def signed_out_def setting_def cleared_tokens)
  from stays [OF this] show ?thesis by simp
qed

section \<open>Leaving with unsaved changes\<close>

text \<open>
  With unsaved changes, the nearest link around a click inside the site is followed only when the
  user says so; without changes nothing is asked.
\<close>

lemma changes_asked_for:
  assumes "find is_anchor path = Some anchor" "attr_href anchor = Some href" "\<not> skipped_link href (has_target anchor)"
  shows "handleClick True True path False = LinkStopped" "handleClick True True path True = FollowsLink href"
  using assms by (simp_all add: handleClick_def asks_before_def)

lemma nothing_asked: "handleClick enabled False path confirmed = NotAskedFor" "beforeunload enabled False m = None"
  by (simp_all add: handleClick_def asks_before_def beforeunload_def)

text \<open>A link of the site written in full counts as one to another site: nothing is asked.\<close>

lemma full_link_unasked:
  assumes "find is_anchor path = Some anchor" "attr_href anchor = Some (''https://'' @ site)"
  shows "handleClick True True path confirmed = NotAskedFor"
  using assms by (simp add: handleClick_def asks_before_def skipped_link_def starts_with_def)

end
