(* ===== verification/Spec2Isabelle.thy ===== *)
theory Spec2Isabelle
  imports TokenClaims AttestationClaims TextClaims ChainClaims GovernorClaims IndexerClaims
    KgiDagClaims KgiApi WebSecurity WebSignInClaims WebProposalClaims WebNewProposalClaims WebDecoderClaims
    WebTreasuryClaims WebPageClaims WebActionsClaims WebListsClaims
    WebNotificationClaims WebProfileClaims KgiSpritesClaims WebVotingClaims WebBrowseClaims
    WebFrame
begin

text \<open>
  A verification library for the TypeScript applications of this repository: the DAO platform DeGov
  (its indexer and its web application, src/degov/packages) and the web part of the Kaspa graph
  inspector (src/kaspa-graph-inspector/web).

  \<^bold>\<open>The parts and how they interact.\<close> The indexer reads the logs of a chain batch by batch
  (indexer/src/main.ts); three handlers turn the logs of the governor, of its token and of a staking
  contract into rows of a database, with the help of a tool that asks the chain for what logs do not
  hold, and of a reader of proposal titles. The server of the web application keeps users: it hands out
  nonces, checks signed messages, issues tokens, and its proxy lets requests to the protected routes
  pass with a token only. The browser's side signs in, shows proposals, votes, powers and the treasury
  from the indexer's rows and from contracts, makes the calls of the governor, and writes proposals
  whose text it later reads back. The graph inspector draws a DAG of blocks from a data source: a chain
  made up for a demonstration, a recording that is replayed, or an API server over a database.

  \<^bold>\<open>Common ground.\<close> \<open>Prelude\<close>: outcomes of fallible code, keyed tables and sums
  over them, addresses. \<open>JsText\<close>, \<open>JsRegex\<close>, \<open>JsParse\<close>, \<open>JsNumber\<close>,
  \<open>JsNumberText\<close>, \<open>JsonText\<close>, \<open>JsonValue\<close>: what the code uses of
  its language: texts, a backtracking matcher, numbers as reals with a rounding function, the reading of
  numbers, JSON written and read back, big integers. \<open>WebBase\<close>: JSON values, actions on a state
  that may throw.

  \<^bold>\<open>The indexer.\<close>
  \<^item> \<open>Schema\<close>: the entities of indexer/src/model as records, the tables as keyed lists, and the
    database client as a \<open>locale\<close> whose laws are those of a repository; \<open>Handlers\<close>: the contract a
    handler has with the loop, as a \<open>locale\<close>.
  \<^item> \<open>TokenHandler\<close>: handler/token.ts. \<open>TokenLedger\<close>, \<open>TokenInvariant\<close> and
    \<open>TokenEvents\<close> show that its rows are a ledger of delegations (who delegates how much to whom)
    and that every event acts on that ledger as the token's contract does; \<open>TokenDemo\<close> runs it,
    \<open>TokenClaims\<close> states the properties.
  \<^item> \<open>AttestationHandler\<close>, \<open>AttestationClaims\<close>: handler/attestation.ts, refining a machine of
    register, unregister, adjust and slash steps on stakes.
  \<^item> \<open>GovernorHandler\<close>, \<open>GovernorLedger\<close>, \<open>GovernorEvents\<close>, \<open>GovernorClaims\<close>:
    handler/governor.ts; the tallies of a proposal and of the whole are the sums over
    the votes stored, and those of a proposal the sums over the vote events of its number.
  \<^item> \<open>ChainTool\<close>, \<open>ChainClaims\<close>: internal/chaintool.ts with its caches and endpoints;
    \<open>TextPlus\<close>, \<open>TextClaims\<close>: internal/textplus.ts.
  \<^item> \<open>IndexerMain\<close>, \<open>IndexerClaims\<close>: main.ts and datasource.ts; a batch keeps accounts and
    tallies together.

  \<^bold>\<open>The graph inspector.\<close> \<open>KgiModel\<close> (model/*.ts), \<open>KgiSource\<close>, \<open>KgiReplay\<close>,
  \<open>KgiReplayFacts\<close>, \<open>KgiWindow\<close> (the data sources), \<open>KgiGeometry\<close>,
  \<open>KgiTimeline\<close>, \<open>KgiScene\<close> (dag/TimelineContainer.ts and its sprites as a scene),
  \<open>KgiDag\<close> (dag/Dag.ts, its asynchronous functions cut at their awaits), \<open>KgiApi\<close> (the server
  api/src and the client's source), with \<open>KgiClaims\<close>, \<open>KgiSceneClaims\<close>,
  \<open>KgiDagClaims\<close>: the scene is the bundle it was given, one tick loop runs, late answers are
  dropped, the window of a replay is exact. \<open>KgiSprites\<close>, \<open>KgiSpritesClaims\<close>: what is drawn of
  edges, hashes, frames and heights; an edge ends on the border of its block.

  \<^bold>\<open>The web application.\<close>
  \<^item> \<open>WebServer\<close>, \<open>WebRoutes\<close>, \<open>WebSession\<close>, \<open>WebClaims\<close>, \<open>WebSecurity\<close>:
    app/api and proxy.ts as a function from requests to answers on a state of tables, nonces and issued
    tokens; who may write a profile, what a nonce buys, what the table looks like.
  \<^item> \<open>WebSignIn\<close>, \<open>WebSignInClaims\<close>: lib/auth and the hooks around it, composed with the server.
  \<^item> \<open>WebProposal\<close>, \<open>WebProposalClaims\<close>: the form's schema, the text of a proposal and its
    call, and the reading of that text (utils/helpers.ts). \<open>WebNewProposal\<close>,
    \<open>WebNewProposalClaims\<close>: the page of a new proposal (app/proposals/new), its panels, preview and
    publishing.
  \<^item> \<open>WebDecoder\<close>, \<open>WebCallData\<close>, \<open>WebDecoderClaims\<close>: utils/decoder.ts,
    utils/cache-manager.ts, hooks/useDecodeCallData.ts.
  \<^item> \<open>WebFormat\<close>, \<open>WebGovernance\<close>, \<open>WebProposalPage\<close>,
    \<open>WebPageClaims\<close>, \<open>WebActionsClaims\<close>: numbers and times, the reads of the governor, a
    proposal's page, what it makes of the indexer's row, and its calls; the calls name the proposal of the
    chain's event and the tally counts the chain's vote events, through the indexer's rows.
  \<^item> \<open>WebTreasury\<close>, \<open>WebTreasuryClaims\<close>; \<open>WebLists\<close>, \<open>WebListsClaims\<close>: the
    treasury; the pager, the order of votes, pages loaded one after another, profiles in batches.
  \<^item> \<open>WebNotification\<close>, \<open>WebNotificationClaims\<close>: the notification service's client, the hooks that
    sign in and ask once more, the settings of a DAO, the form that binds an address and its countdown,
    a proposal's button. \<open>WebProfile\<close>, \<open>WebProfileClaims\<close>: the form and the page that edit a
    profile, composed with the server.
  \<^item> \<open>WebVoting\<close>, \<open>WebVotingClaims\<close>: the buttons and dialogs of a proposal's page, in the two
    groups it mounts for wide and for narrow windows, the toast that follows a transaction to its
    receipt, the list of votes.
  \<^item> \<open>WebQueries\<close>, \<open>WebBrowse\<close>, \<open>WebDelegations\<close>, \<open>WebBrowseClaims\<close>: the requests to the
    indexer (services/graphql), the pages of proposals and of delegates, the summary, profiles and their
    delegations, the search. \<open>TokenDelegates\<close> carries the indexer's side of the property that a
    profile names the account's last delegate.
  \<^item> \<open>WebFrame\<close>: what stands around every page: the configuration and its
    refresh (hooks/useConfigSWR.ts, lib/config.ts), the overlay, the menu, links, the sign-in status and
    the question before leaving.

  \<^bold>\<open>How the code is represented.\<close> Definitions carry the names of the code. A class or interface
  is a \<open>record\<close>, a union a \<open>datatype\<close>; \<open>null\<close> and \<open>undefined\<close> are \<open>None\<close>;
  an exception is the left side of \<open>outcome\<close>, or of an action on a state; a \<open>bigint\<close> is an
  \<open>int\<close>; a \<open>number\<close> is a real that every operation rounds by a function \<open>fl\<close> of which
  \<open>rounding\<close> states that it is monotone and exact on the integers a double holds. A map that is
  iterated is an association list in insertion order. Asynchronous code is one function per stretch
  between two awaits, and an \<open>inductive\<close> relation lets the stretches interleave. Hooks of the
  rendering library are the functions they compute, from what was read to what is shown; where effects
  write state (the page of a new proposal), they run in the order of the panels after the state change
  that triggers them.

  \<^bold>\<open>Parameters and their hypotheses.\<close> What is not in the repository is an argument: the database
  client (\<open>store_ok\<close>), the decoders of events (\<open>codec_ok\<close>), the answers of endpoints and of a
  language model, the indexer's query server (\<open>serves_rows\<close>, \<open>answers_number\<close>: stored rows as they
  are; \<open>served_list\<close>: pages of one list by limit and offset; \<open>mappings_answered\<close>), SQL
  (\<open>sql_ok\<close>), the cache of nonces (\<open>cache_ok\<close>), tokens and signed messages (\<open>token_ok\<close>,
  \<open>siwe_ok\<close>), the decimal library (\<open>numbers_ok\<close>), the browser's storage (\<open>storage_works\<close>),
  calendars (\<open>takes_times\<close>, \<open>calendar_ok\<close>), the numbers in a text. Which payload header the
  framework hands to a route is left open: it is an argument without a hypothesis where the right to
  write a profile is at stake, and a condition on the request where a save is to succeed
  (\<open>forwards_ok\<close>). Each hypothesis states documented behaviour, and each property that has one comes
  with a witness in which the parameters are concrete functions.

  \<^bold>\<open>Fuel and bounds.\<close> The matcher of regular expressions and the reader of JSON recurse with
  fuel; the fuel given is more than the length of the text, and for what the program writes itself the
  round trips (\<open>parse_stringify\<close>, \<open>proposal_text_roundtrip\<close>) show that it suffices. Everything
  else terminates by structure or by a measure. Characters are those of one byte.

  \<^bold>\<open>Not modelled.\<close> Rendering: the components that only turn the values above into elements, icons,
  styles, dialogs, the text editor. The texts of GraphQL queries, generated interfaces of contracts and
  other data. The drawing library's calls of the graph inspector. The analysis
  pages. The projects in other languages beside
  the two applications: the consensus node, circuits, contracts, services, deployment.
\<close>

end
